(* ===== verification/Prelude.thy ===== *)
theory Prelude
  imports Main "HOL-Library.AList" "HOL-Library.Char_ord" "HOL-Library.List_Lexorder"
    "HOL-Library.Product_Lexorder"
begin

section \<open>Prelude\<close>

text \<open>
  What the components share: results of code that may raise, the Python string tests the
  validators use, dictionaries that keep their insertion order, and the collections of
  rewrite rules.

  A call that may raise returns \<open>'e + 'a\<close>: \<open>Inl e\<close> is the exception, \<open>Inr a\<close> the
  value. \<open>rbind\<close> runs the continuation on a value and passes an exception on.
  A dictionary whose iteration order the code never observes is a map
  \<open>'k \<rightharpoonup> 'v\<close>; one whose order is observed is an association list with distinct keys,
  updated with \<open>AList.update\<close> (in place for a known key, at the end for a new one, as
  \<open>dict.__setitem__\<close> does).
  Strings are lists of characters; a character stands for one code point below 256.
\<close>

named_theorems result_simps \<open>rewrite rules for results of code that may raise\<close>
named_theorems post_intros \<open>one rule per construct, to take a result apart branch by branch\<close>
named_theorems error_simps \<open>unfolding of the error constructors\<close>

subsection \<open>Results\<close>

definition rbind :: "'e + 'a \<Rightarrow> ('a \<Rightarrow> 'e + 'b) \<Rightarrow> 'e + 'b" where
  "rbind m f = (case m of Inl e \<Rightarrow> Inl e | Inr x \<Rightarrow> f x)"

lemma rbind_simps [simp]: "rbind (Inl e) f = Inl e" "rbind (Inr x) f = f x"
  by (simp_all add: rbind_def)

lemma rbind_eq_Inr [result_simps]: "rbind m f = Inr y \<longleftrightarrow> (\<exists>x. m = Inr x \<and> f x = Inr y)"
  by (cases m) auto

lemma rbind_eq_Inl [result_simps]:
  "rbind m f = Inl e \<longleftrightarrow> m = Inl e \<or> (\<exists>x. m = Inr x \<and> f x = Inl e)"
  by (cases m) auto

lemma rbind_assoc: "rbind (rbind m f) g = rbind m (\<lambda>x. rbind (f x) g)"
  by (cases m) auto

lemma rbind_cong [fundef_cong]:
  "m = m' \<Longrightarrow> (\<And>x. m' = Inr x \<Longrightarrow> f x = f' x) \<Longrightarrow> rbind m f = rbind m' f'"
  by (cases m') auto

text \<open>A comprehension whose items may raise: items left to right, the first exception wins.\<close>

fun rmap :: "('a \<Rightarrow> 'e + 'b) \<Rightarrow> 'a list \<Rightarrow> 'e + 'b list" where
  "rmap f [] = Inr []"
| "rmap f (x # xs) = rbind (f x) (\<lambda>y. rbind (rmap f xs) (\<lambda>ys. Inr (y # ys)))"

lemma rmap_Inr: "(\<And>x. x \<in> set xs \<Longrightarrow> f x = Inr (g x)) \<Longrightarrow> rmap f xs = Inr (List.map g xs)"
  by (induction xs) auto

lemma rmap_cong [fundef_cong]:
  "xs = ys \<Longrightarrow> (\<And>x. x \<in> set ys \<Longrightarrow> f x = g x) \<Longrightarrow> rmap f xs = rmap g ys"
  by (induction ys arbitrary: xs) auto

lemma rmap_eq_Inr_iff: "rmap f xs = Inr ys \<longleftrightarrow> list_all2 (\<lambda>x y. f x = Inr y) xs ys"
proof (induction xs arbitrary: ys)
  case Nil
  then show ?case by auto
next
  case (Cons x xs)
  then show ?case by (cases ys) (auto simp: result_simps)
qed

lemma rmap_yields:
  "rmap f xs = Inr ys \<Longrightarrow> (\<And>x y. f x = Inr y \<Longrightarrow> ok y) \<Longrightarrow> list_all ok ys"
  by (induction xs arbitrary: ys) (auto simp: result_simps)

text \<open>A loop over a list that only checks: the first exception stops it.\<close>

fun rcheck :: "('a \<Rightarrow> 'e + unit) \<Rightarrow> 'a list \<Rightarrow> 'e + unit" where
  "rcheck f [] = Inr ()"
| "rcheck f (x # xs) = rbind (f x) (\<lambda>_. rcheck f xs)"

lemma rcheck_ok_iff: "rcheck f xs = Inr () \<longleftrightarrow> (\<forall>x \<in> set xs. f x = Inr ())"
  by (induction xs) (auto simp: result_simps)

lemma rcheck_ok_unit: "rcheck f xs = Inr u \<longleftrightarrow> (\<forall>x \<in> set xs. f x = Inr ())"
  using rcheck_ok_iff [of f xs] by (metis (full_types) old.unit.exhaust)

text \<open>A guard of the code: raise when the condition holds.\<close>

definition raise_when :: "bool \<Rightarrow> 'e \<Rightarrow> 'e + unit" where
  "raise_when c e = (if c then Inl e else Inr ())"

lemma raise_when_simps [simp]: "raise_when True e = Inl e" "raise_when False e = Inr ()"
  by (simp_all add: raise_when_def)

lemma raise_when_Inr [result_simps]: "raise_when c e = Inr u \<longleftrightarrow> \<not> c"
  by (simp add: raise_when_def)

lemma raise_when_Inl [result_simps]: "raise_when c e = Inl e' \<longleftrightarrow> c \<and> e' = e"
  by (auto simp: raise_when_def)

text \<open>
  \<open>yields P m\<close>: whatever \<open>m\<close> returns satisfies \<open>P\<close>. The rules of \<open>post_intros\<close> walk
  through the body of an operation, one per construct, and leave one goal per return with the
  conditions that lead to it.
\<close>

definition yields :: "('a \<Rightarrow> bool) \<Rightarrow> 'e + 'a \<Rightarrow> bool" where
  "yields P m \<longleftrightarrow> (case m of Inl _ \<Rightarrow> True | Inr x \<Rightarrow> P x)"

lemma yieldsD: "yields P m \<Longrightarrow> m = Inr x \<Longrightarrow> P x"
  by (simp add: yields_def)

lemma yields_Inl [post_intros]: "yields P (Inl e)"
  by (simp add: yields_def)

lemma yields_Inr [post_intros]: "P x \<Longrightarrow> yields P (Inr x)"
  by (simp add: yields_def)

lemma yields_rbind [post_intros]:
  "(\<And>x. m = Inr x \<Longrightarrow> yields P (f x)) \<Longrightarrow> yields P (rbind m f)"
  by (cases m) (simp_all add: yields_def)

lemma yields_if [post_intros]:
  "(c \<Longrightarrow> yields P a) \<Longrightarrow> (\<not> c \<Longrightarrow> yields P b) \<Longrightarrow> yields P (if c then a else b)"
  by simp

lemma yields_Let [post_intros]: "(\<And>y. y = x \<Longrightarrow> yields P (g y)) \<Longrightarrow> yields P (Let x g)"
  by simp

lemma yields_option [post_intros]:
  "(v = None \<Longrightarrow> yields P a) \<Longrightarrow> (\<And>x. v = Some x \<Longrightarrow> yields P (h x)) \<Longrightarrow>
    yields P (case v of None \<Rightarrow> a | Some x \<Rightarrow> h x)"
  by (cases v) simp_all

lemma yields_sum [post_intros]:
  "(\<And>e. v = Inl e \<Longrightarrow> yields P (g e)) \<Longrightarrow> (\<And>x. v = Inr x \<Longrightarrow> yields P (h x)) \<Longrightarrow>
    yields P (case v of Inl e \<Rightarrow> g e | Inr x \<Rightarrow> h x)"
  by (cases v) simp_all

lemma yieldsI: "(\<And>x. m = Inr x \<Longrightarrow> P x) \<Longrightarrow> yields P m"
  by (cases m) (simp_all add: yields_def)

lemma if_raise_Inr: "(if c then Inl e else m) = Inr u \<longleftrightarrow> \<not> c \<and> m = Inr u"
  by simp

subsection \<open>Actions\<close>

text \<open>
  Code that changes a state and may raise: the state reached is there on both outcomes, since
  an exception does not undo what was written before it.
\<close>

type_synonym ('s, 'e, 'a) action = "'s \<Rightarrow> ('e + 'a) \<times> 's"

definition areturn :: "'a \<Rightarrow> ('s, 'e, 'a) action" where
  "areturn x s = (Inr x, s)"

definition araise :: "'e \<Rightarrow> ('s, 'e, 'a) action" where
  "araise e s = (Inl e, s)"

definition aresult :: "'e + 'a \<Rightarrow> ('s, 'e, 'a) action" where
  "aresult r s = (r, s)"

definition abind :: "('s, 'e, 'a) action \<Rightarrow> ('a \<Rightarrow> ('s, 'e, 'b) action) \<Rightarrow> ('s, 'e, 'b) action" where
  "abind m f s = (case m s of (r, s') \<Rightarrow> (case r of Inl e \<Rightarrow> (Inl e, s') | Inr x \<Rightarrow> f x s'))"

text \<open>\<open>try: m except ...: h\<close>, the handler deciding which exceptions it takes.\<close>

definition atry :: "('s, 'e, 'a) action \<Rightarrow> ('e \<Rightarrow> ('s, 'e, 'a) action) \<Rightarrow> ('s, 'e, 'a) action" where
  "atry m h s = (case m s of (r, s') \<Rightarrow> (case r of Inl e \<Rightarrow> h e s' | Inr x \<Rightarrow> (Inr x, s')))"

text \<open>\<open>try: m finally: h\<close>: an exception of the clean-up replaces the outcome.\<close>

definition afinally :: "('s, 'e, 'a) action \<Rightarrow> ('s, 'e, unit) action \<Rightarrow> ('s, 'e, 'a) action" where
  "afinally m h s = (case m s of (r, s') \<Rightarrow>
     (case h s' of (c, s'') \<Rightarrow> (case c of Inl e \<Rightarrow> (Inl e, s'') | Inr _ \<Rightarrow> (r, s''))))"

lemmas action_simps = areturn_def araise_def aresult_def abind_def atry_def afinally_def

lemma abind_assoc: "abind (abind m f) g = abind m (\<lambda>x. abind (f x) g)"
  by (rule ext) (simp add: abind_def split: prod.splits sum.splits)

lemma abind_eq_Inr: "abind m f w = (Inr y, w') \<longleftrightarrow> (\<exists>x w1. m w = (Inr x, w1) \<and> f x w1 = (Inr y, w'))"
  by (auto simp: abind_def split: prod.splits sum.splits)

lemma abind_Inr: "m w = (Inr x, w1) \<Longrightarrow> abind m f w = f x w1"
  by (simp add: abind_def)

lemma abind_Inl: "m w = (Inl e, w1) \<Longrightarrow> abind m f w = (Inl e, w1)"
  by (simp add: abind_def)

subsection \<open>Python string tests\<close>

text \<open>\<open>str.isspace\<close> on the code points below 256.\<close>

definition is_space :: "char \<Rightarrow> bool" where
  "is_space c = (let n = of_char c :: nat in
     (9 \<le> n \<and> n \<le> 13) \<or> (28 \<le> n \<and> n \<le> 32) \<or> n = 133 \<or> n = 160)"

definition py_strip :: "string \<Rightarrow> string" where
  "py_strip s = rev (dropWhile is_space (rev (dropWhile is_space s)))"

definition trimmed :: "string \<Rightarrow> bool" where
  "trimmed s \<longleftrightarrow> s \<noteq> [] \<and> s = py_strip s"

lemma length_py_strip: "length (py_strip s) \<le> length s"
proof -
  have "length (dropWhile is_space (rev (dropWhile is_space s))) \<le> length (dropWhile is_space s)"
    by (metis length_dropWhile_le length_rev)
  then show ?thesis
    using length_dropWhile_le [of is_space s] by (simp add: py_strip_def)
qed

lemma dropWhile_id_iff: "dropWhile P xs = xs \<longleftrightarrow> xs = [] \<or> \<not> P (hd xs)"
proof (cases xs)
  case (Cons x xs')
  have "dropWhile P xs' \<noteq> x # xs'"
    by (metis impossible_Cons length_dropWhile_le)
  with Cons show ?thesis by auto
qed simp

lemma trimmed_iff: "trimmed s \<longleftrightarrow> s \<noteq> [] \<and> \<not> is_space (hd s) \<and> \<not> is_space (last s)"
proof (cases "s = []")
  case True
  then show ?thesis by (simp add: trimmed_def)
next
  case False
  show ?thesis
  proof
    assume "trimmed s"
    then have eq: "s = rev (dropWhile is_space (rev (dropWhile is_space s)))"
      by (simp add: trimmed_def py_strip_def)
    let ?d = "dropWhile is_space s"
    have "length s = length (dropWhile is_space (rev ?d))"
      using arg_cong [OF eq, of length] by simp
    also have "\<dots> \<le> length ?d"
      using length_dropWhile_le [of is_space "rev ?d"] by simp
    finally have len: "length s \<le> length ?d" .
    have "length (takeWhile is_space s) + length ?d = length s"
      by (metis length_append takeWhile_dropWhile_id)
    with len have "length (takeWhile is_space s) = 0" by linarith
    then have "takeWhile is_space s = []" by (simp only: length_0_conv)
    then have dw: "?d = s"
      using takeWhile_dropWhile_id [of is_space s] by simp
    with eq have "dropWhile is_space (rev s) = rev s"
      by (metis rev_rev_ident)
    with dw False show "s \<noteq> [] \<and> \<not> is_space (hd s) \<and> \<not> is_space (last s)"
      by (auto simp: dropWhile_id_iff hd_rev)
  next
    assume *: "s \<noteq> [] \<and> \<not> is_space (hd s) \<and> \<not> is_space (last s)"
    then have "dropWhile is_space s = s" "dropWhile is_space (rev s) = rev s"
      by (simp_all add: dropWhile_id_iff hd_rev)
    with * show "trimmed s" by (simp add: trimmed_def py_strip_def)
  qed
qed

definition is_lower :: "char \<Rightarrow> bool" where
  "is_lower c \<longleftrightarrow> CHR ''a'' \<le> c \<and> c \<le> CHR ''z''"

definition is_digit :: "char \<Rightarrow> bool" where
  "is_digit c \<longleftrightarrow> CHR ''0'' \<le> c \<and> c \<le> CHR ''9''"

text \<open>\<open>re.compile("^[a-z][a-z0-9_.-]{0,62}$").fullmatch\<close>.\<close>

definition name_pattern :: "string \<Rightarrow> bool" where
  "name_pattern s = (case s of [] \<Rightarrow> False
     | c # cs \<Rightarrow> is_lower c \<and> length cs \<le> 62 \<and>
         list_all (\<lambda>x. is_lower x \<or> is_digit x \<or> x = CHR ''_'' \<or> x = CHR ''.'' \<or> x = CHR ''-'') cs)"

lemma name_pattern_length: "name_pattern s \<Longrightarrow> 0 < length s \<and> length s \<le> 63"
  by (auto simp: name_pattern_def split: list.splits)

subsection \<open>Dictionaries that keep their order\<close>

lemma map_of_AList_update [simp]: "map_of (AList.update k v d) = (map_of d)(k \<mapsto> v)"
  by (rule ext) (simp add: update_conv)

lemma keys_AList_update: "fst ` set (AList.update k v d) = insert k (fst ` set d)"
  by (simp add: dom_update)

subsection \<open>Lists\<close>

lemma distinct_map_sort_key: "distinct (List.map f xs) \<Longrightarrow> distinct (List.map f (sort_key f xs))"
  by (metis distinct_map distinct_sort set_sort)

end
