(* ===== verification/Runtime_Errors.thy ===== *)
theory Runtime_Errors
  imports Prelude "HOL-Library.Word"
begin

section \<open>Structured errors and JSON values\<close>

text \<open>
  \<open>runtime/errors.py\<close> and \<open>runtime/json_types.py\<close>: the error detail every Core error
  carries, the exceptions the modelled code raises, and the JSON values with their
  narrowing helpers. An exception is a value of \<open>exn\<close>: \<open>CoreError\<close> with its detail, the
  \<open>ValueError\<close> of the dataclass validators, the \<open>AssertionError\<close> and the \<open>KeyError\<close> of
  code that states an internal fact, and \<open>ForeignError\<close> for whatever an injected
  implementation raises that is not a Core error. The last section is the locale of the registries
  that take each key once, which the theories of the registries interpret.
\<close>

subsection \<open>JSON\<close>

text \<open>
  A JSON value of \<open>json_types.py\<close>. A float is its IEEE bit pattern: the code only passes
  floats on. An object keeps its fields in order; Python dictionaries have distinct keys,
  and equality of the dictionaries the code compares does not depend on the order, which
  \<open>obj_of\<close> takes into account where it matters.
\<close>

datatype json = JNull | JBool bool | JInt int | JFloat "64 word" | JStr string
  | JList "json list" | JObj "(string \<times> json) list"

type_synonym json_object = "(string \<times> json) list"

subsection \<open>Error details\<close>

datatype error_category = INVALID_REQUEST | DENIED | UNAVAILABLE | TIMEOUT | CANCELLED_CALL
  | CONFLICT | VERSION_MISMATCH | PARTIAL_RESULT | UNSUPPORTED_CAPABILITY | PROTOCOL_FAILURE

fun category_value :: "error_category \<Rightarrow> string" where
  "category_value INVALID_REQUEST = ''invalid_request''"
| "category_value DENIED = ''denied''"
| "category_value UNAVAILABLE = ''unavailable''"
| "category_value TIMEOUT = ''timeout''"
| "category_value CANCELLED_CALL = ''cancelled''"
| "category_value CONFLICT = ''conflict''"
| "category_value VERSION_MISMATCH = ''version_mismatch''"
| "category_value PARTIAL_RESULT = ''partial_result''"
| "category_value UNSUPPORTED_CAPABILITY = ''unsupported_capability''"
| "category_value PROTOCOL_FAILURE = ''protocol_failure''"

record error_detail =
  ed_category :: error_category
  ed_code :: string
  ed_message :: string
  ed_retryable :: bool
  ed_cause_id :: "string option"
  ed_metadata :: json_object

datatype exn = CoreError error_detail | ValueError string | AssertionError string
  | KeyError string | ForeignError string

type_synonym 'a result = "exn + 'a"

text \<open>\<open>ErrorDetail.__post_init__\<close>: code and message are required.\<close>

definition error_detail_ok :: "error_detail \<Rightarrow> bool" where
  "error_detail_ok d \<longleftrightarrow> ed_code d \<noteq> [] \<and> ed_message d \<noteq> []"

definition mk_error_detail ::
  "error_category \<Rightarrow> string \<Rightarrow> string \<Rightarrow> bool \<Rightarrow> string option \<Rightarrow> json_object \<Rightarrow> error_detail result" where
  "mk_error_detail cat code msg retryable cause metadata =
     (let d = \<lparr>ed_category = cat, ed_code = code, ed_message = msg, ed_retryable = retryable,
               ed_cause_id = cause, ed_metadata = metadata\<rparr>
      in if \<not> error_detail_ok d then Inl (ValueError ''error code and message are required'')
         else Inr d)"

text \<open>
  \<open>core_error\<close>: the exception that \<open>raise core_error(...)\<close> raises, which is the
  constructor's \<open>ValueError\<close> when the detail itself is refused.
\<close>

definition core_error_of :: "error_detail result \<Rightarrow> exn" where
  "core_error_of r = (case r of Inl e \<Rightarrow> e | Inr d \<Rightarrow> CoreError d)"

definition core_error :: "error_category \<Rightarrow> string \<Rightarrow> string \<Rightarrow> bool \<Rightarrow> string option \<Rightarrow> exn" where
  "core_error cat code msg retryable cause =
     core_error_of (mk_error_detail cat code msg retryable cause [])"

text \<open>\<open>plugin_error\<close> of \<open>plugin/errors.py\<close> adds the Plugin and the capability as metadata.\<close>

definition plugin_error_from ::
  "error_category \<Rightarrow> string \<Rightarrow> string \<Rightarrow> bool \<Rightarrow> string option \<Rightarrow> string option \<Rightarrow> string option \<Rightarrow> exn" where
  "plugin_error_from cat code msg retryable cause plugin capability =
     core_error_of (mk_error_detail cat code msg retryable cause
       ((case plugin of None \<Rightarrow> [] | Some p \<Rightarrow> [(''plugin'', JStr p)]) @
        (case capability of None \<Rightarrow> [] | Some c \<Rightarrow> [(''capability'', JStr c)])))"

definition plugin_error :: "error_category \<Rightarrow> string \<Rightarrow> string \<Rightarrow> bool \<Rightarrow> string option \<Rightarrow> string option \<Rightarrow> exn" where
  "plugin_error cat code msg retryable plugin capability =
     plugin_error_from cat code msg retryable None plugin capability"

definition err_code :: "exn \<Rightarrow> string option" where
  "err_code e = (case e of CoreError d \<Rightarrow> Some (ed_code d) | _ \<Rightarrow> None)"

definition err_category :: "exn \<Rightarrow> error_category option" where
  "err_category e = (case e of CoreError d \<Rightarrow> Some (ed_category d) | _ \<Rightarrow> None)"

lemma core_error_code [error_simps]:
  "code \<noteq> [] \<Longrightarrow> msg \<noteq> [] \<Longrightarrow> err_code (core_error cat code msg retryable cause) = Some code"
  by (simp add: core_error_def core_error_of_def mk_error_detail_def error_detail_ok_def err_code_def)

lemma core_error_category [error_simps]:
  "code \<noteq> [] \<Longrightarrow> msg \<noteq> [] \<Longrightarrow> err_category (core_error cat code msg retryable cause) = Some cat"
  by (simp add: core_error_def core_error_of_def mk_error_detail_def error_detail_ok_def err_category_def)

lemma plugin_error_code [error_simps]:
  "code \<noteq> [] \<Longrightarrow> msg \<noteq> [] \<Longrightarrow> err_code (plugin_error cat code msg retryable p c) = Some code"
  by (simp add: plugin_error_def plugin_error_from_def core_error_of_def mk_error_detail_def error_detail_ok_def err_code_def Let_def)

lemma plugin_error_category [error_simps]:
  "code \<noteq> [] \<Longrightarrow> msg \<noteq> [] \<Longrightarrow> err_category (plugin_error cat code msg retryable p c) = Some cat"
  by (simp add: plugin_error_def plugin_error_from_def core_error_of_def mk_error_detail_def error_detail_ok_def err_category_def Let_def)

subsection \<open>JSON narrowing\<close>

definition as_object :: "json \<Rightarrow> string \<Rightarrow> json_object result" where
  "as_object v fname = (case v of JObj kvs \<Rightarrow> Inr kvs
     | _ \<Rightarrow> Inl (ValueError (fname @ '' must be an object'')))"

definition as_array :: "json \<Rightarrow> string \<Rightarrow> json list result" where
  "as_array v fname = (case v of JList xs \<Rightarrow> Inr xs
     | _ \<Rightarrow> Inl (ValueError (fname @ '' must be an array'')))"

definition as_int :: "json \<Rightarrow> string \<Rightarrow> int result" where
  "as_int v fname = (case v of JInt i \<Rightarrow> Inr i
     | _ \<Rightarrow> Inl (ValueError (fname @ '' must be an integer'')))"

text \<open>\<open>data[key]\<close> raises \<open>KeyError\<close> for a missing key; \<open>data.get(key)\<close> gives \<open>None\<close>.\<close>

definition obj_index :: "json_object \<Rightarrow> string \<Rightarrow> json result" where
  "obj_index d k = (case map_of d k of None \<Rightarrow> Inl (KeyError k) | Some v \<Rightarrow> Inr v)"

definition obj_get :: "json_object \<Rightarrow> string \<Rightarrow> json" where
  "obj_get d k = (case map_of d k of None \<Rightarrow> JNull | Some v \<Rightarrow> v)"

text \<open>Python truth of a JSON value; a float counts as false when it is a zero of either sign.\<close>

fun json_true :: "json \<Rightarrow> bool" where
  "json_true JNull = False"
| "json_true (JBool b) = b"
| "json_true (JInt i) = (i \<noteq> 0)"
| "json_true (JFloat w) = (w \<noteq> 0 \<and> w \<noteq> 9223372036854775808)"
| "json_true (JStr s) = (s \<noteq> [])"
| "json_true (JList xs) = (xs \<noteq> [])"
| "json_true (JObj kvs) = (kvs \<noteq> [])"

definition opt_str :: "string option \<Rightarrow> json" where
  "opt_str v = (case v of None \<Rightarrow> JNull | Some s \<Rightarrow> JStr s)"

text \<open>The field-name check shared by the strict decoders (\<open>set(data) == expected\<close>).\<close>

definition same_fields :: "json_object \<Rightarrow> string list \<Rightarrow> bool" where
  "same_fields d names \<longleftrightarrow> set (List.map fst d) = set names"

lemmas json_simps = as_object_def as_array_def as_int_def obj_index_def obj_get_def opt_str_def

section \<open>Registries that take each key once\<close>

text \<open>
  Several components keep a dictionary in which a key is registered once and never replaced:
  actions, value schemas, event schemas, Tools and Skills. The contract is stated here for any
  of them, and each component interprets it on its own registry.
\<close>

locale once_registry =
  fixes reg :: "'v \<Rightarrow> 'r \<Rightarrow> 'r result"
    and look :: "'r \<Rightarrow> 'k \<Rightarrow> 'w option"
    and key :: "'v \<Rightarrow> 'k"
    and entry :: "'v \<Rightarrow> 'w"
    and taken :: "'v \<Rightarrow> exn"
  assumes reg_fresh: "look r (key v) = None \<Longrightarrow> \<exists>r'. reg v r = Inr r' \<and> look r' = (look r)(key v \<mapsto> entry v)"
    and reg_taken: "look r (key v) = Some w \<Longrightarrow> reg v r = Inl (taken v)"
begin

text \<open>Registering a list, as the loops at start-up do.\<close>

fun reg_all :: "'v list \<Rightarrow> 'r \<Rightarrow> 'r result" where
  "reg_all [] r = Inr r"
| "reg_all (v # vs) r = rbind (reg v r) (reg_all vs)"

definition entries :: "'v list \<Rightarrow> ('k \<times> 'w) list" where
  "entries vs = List.map (\<lambda>v. (key v, entry v)) vs"

lemma reg_Inr_iff: "(\<exists>r'. reg v r = Inr r') \<longleftrightarrow> look r (key v) = None"
  using reg_fresh [of r v] reg_taken [of r v] by (cases "look r (key v)") auto

lemma reg_effect: "reg v r = Inr r' \<Longrightarrow> look r (key v) = None \<and> look r' = (look r)(key v \<mapsto> entry v)"
  using reg_fresh [of r v] reg_taken [of r v] by (cases "look r (key v)") auto

text \<open>Nothing that is registered is ever lost or replaced.\<close>

lemma reg_keeps: "reg v r = Inr r' \<Longrightarrow> look r k = Some w \<Longrightarrow> look r' k = Some w"
  using reg_effect [of v r r'] by auto

lemma reg_all_effect:
  "reg_all vs r = Inr r' \<Longrightarrow> distinct (List.map key vs)
     \<and> key ` set vs \<inter> dom (look r) = {} \<and> look r' = look r ++ map_of (entries vs)"
proof (induction vs r rule: reg_all.induct)
  case (2 v vs r)
  from 2(2) obtain r1 where r1: "reg v r = Inr r1" "reg_all vs r1 = Inr r'"
    by (auto simp: rbind_eq_Inr)
  note e = reg_effect [OF r1(1)]
  have d: "dom (look r1) = insert (key v) (dom (look r))" using e by auto
  note IH = 2(1) [OF r1(1,2)]
  have "dom (map_of (entries vs)) = key ` set vs" by (force simp: entries_def dom_map_of_conv_image_fst)
  with IH d have k: "key v \<notin> dom (map_of (entries vs))" by auto
  have "look r' = (look r)(key v \<mapsto> entry v) ++ map_of (entries vs)" using IH e by (simp only:)
  also have "\<dots> = look r ++ map_of (entries (v # vs))" using map_add_upd_left [OF k] by (simp add: entries_def)
  finally have "look r' = look r ++ map_of (entries (v # vs))" .
  with IH e d show ?case by (auto simp del: map_of.simps fun_upd_apply)
qed (simp add: entries_def)

lemma reg_all_possible:
  "distinct (List.map key vs) \<Longrightarrow> key ` set vs \<inter> dom (look r) = {} \<Longrightarrow> \<exists>r'. reg_all vs r = Inr r'"
proof (induction vs r rule: reg_all.induct)
  case (2 v vs r)
  then obtain r1 where r1: "reg v r = Inr r1" using reg_Inr_iff [of v r] by (auto simp: domIff)
  then have "dom (look r1) = insert (key v) (dom (look r))" using reg_effect by auto
  with 2 r1 show ?case by auto
qed simp

end

end
