(* ===== verification/Runtime_Scope.thy ===== *)
theory Runtime_Scope
  imports Runtime_Errors
begin

section \<open>Identifiers and scopes\<close>

text \<open>
  \<open>runtime/ids.py\<close> and \<open>runtime/scope.py\<close>. An identifier is its string; the
  validation of the constructor is \<open>mk_identifier\<close>. A scope is a node with an optional
  parent, so a value of \<open>scope_ref\<close> is the whole ancestry. The lemmas give the walk over
  the ancestry its closed form, show what narrowing keeps (the key of the parent scope is
  always somewhere in the ancestry of the child), where the relation is transitive, and
  where it is not.
\<close>

subsection \<open>Identifiers\<close>

text \<open>The identifier classes differ in their Python type only; each is a name for its value.\<close>

type_synonym run_id = string
type_synonym definition_id = string
type_synonym workspace_id = string
type_synonym session_id = string
type_synonym agent_id = string
type_synonym workflow_id = string
type_synonym node_id = string
type_synonym model_binding_ref = string
type_synonym provider_id = string
type_synonym checkpoint_id = string
type_synonym event_id = string
type_synonym idempotency_key = string
type_synonym principal_id = string
type_synonym resource_id = string

definition identifier_ok :: "string \<Rightarrow> bool" where
  "identifier_ok s \<longleftrightarrow> trimmed s \<and> length s \<le> 255 \<and> \<not> (\<exists>c \<in> set s. (of_char c :: nat) < 32)"

definition mk_identifier :: "string \<Rightarrow> string result" where
  "mk_identifier s =
     (if \<not> trimmed s then Inl (ValueError ''identifier must be non-empty and trimmed'')
      else if length s > 255 then Inl (ValueError ''identifier must not exceed 255 characters'')
      else if list_ex (\<lambda>c. (of_char c :: nat) < 32) s
        then Inl (ValueError ''identifier must not contain control characters'')
      else Inr s)"

lemma mk_identifier_Inr: "mk_identifier s = Inr t \<longleftrightarrow> t = s \<and> identifier_ok s"
  by (auto simp: mk_identifier_def identifier_ok_def list_ex_iff)

subsection \<open>Scopes\<close>

datatype core_scope_kind = ScopeRun | ScopeWorkspace | ScopeSession | ScopeAgent

fun scope_kind_value :: "core_scope_kind \<Rightarrow> string" where
  "scope_kind_value ScopeRun = ''run''"
| "scope_kind_value ScopeWorkspace = ''workspace''"
| "scope_kind_value ScopeSession = ''session''"
| "scope_kind_value ScopeAgent = ''agent''"

datatype scope_ref = ScopeRef (sc_namespace: string) (sc_kind: string) (sc_id: string)
  (sc_parent: "scope_ref option")

definition scope_key :: "scope_ref \<Rightarrow> string \<times> string \<times> string" where
  "scope_key s = (sc_namespace s, sc_kind s, sc_id s)"

text \<open>The scopes the loops visit: the scope itself, then its parents outwards.\<close>

primrec ancestry :: "scope_ref \<Rightarrow> scope_ref list"
  and ancestry_option :: "scope_ref option \<Rightarrow> scope_ref list" where
  "ancestry (ScopeRef n k i p) = ScopeRef n k i p # ancestry_option p"
| "ancestry_option None = []"
| "ancestry_option (Some s) = ancestry s"

text \<open>The \<open>depth\<close> property: one, and one more for each parent the loop passes.\<close>

primrec scope_depth :: "scope_ref \<Rightarrow> nat"
  and depth_option :: "scope_ref option \<Rightarrow> nat" where
  "scope_depth (ScopeRef n k i p) = 1 + depth_option p"
| "depth_option None = 0"
| "depth_option (Some s) = scope_depth s"

lemma scope_depth_ancestry: "scope_depth s = length (ancestry s)"
  and depth_option_ancestry: "depth_option p = length (ancestry_option p)"
  by (induction s and p rule: scope_depth.induct depth_option.induct) simp_all

definition mk_scope :: "string \<Rightarrow> string \<Rightarrow> string \<Rightarrow> scope_ref option \<Rightarrow> scope_ref result" where
  "mk_scope n k i p =
     (if \<not> name_pattern n then Inl (ValueError ''scope namespace is invalid'')
      else if \<not> name_pattern k then Inl (ValueError ''scope kind is invalid'')
      else if \<not> trimmed i then Inl (ValueError ''scope id must be non-empty and trimmed'')
      else if length i > 255 then Inl (ValueError ''scope id must not exceed 255 characters'')
      else if scope_depth (ScopeRef n k i p) > 64
        then Inl (ValueError ''scope ancestry exceeds 64 levels'')
      else Inr (ScopeRef n k i p))"

definition core_scope :: "core_scope_kind \<Rightarrow> string \<Rightarrow> scope_ref option \<Rightarrow> scope_ref result" where
  "core_scope kind i p = mk_scope ''core'' (scope_kind_value kind) i p"

text \<open>A scope whose whole ancestry went through the constructor.\<close>

definition scope_node_ok :: "scope_ref \<Rightarrow> bool" where
  "scope_node_ok s \<longleftrightarrow> name_pattern (sc_namespace s) \<and> name_pattern (sc_kind s)
     \<and> trimmed (sc_id s) \<and> length (sc_id s) \<le> 255 \<and> scope_depth s \<le> 64"

definition scope_ok :: "scope_ref \<Rightarrow> bool" where
  "scope_ok s \<longleftrightarrow> list_all scope_node_ok (ancestry s)"

lemma mk_scope_Inr:
  "mk_scope n k i p = Inr s \<longleftrightarrow> s = ScopeRef n k i p \<and> scope_node_ok s"
  by (auto simp: mk_scope_def scope_node_ok_def)

subsection \<open>Descent\<close>

primrec is_equal_or_descendant_of :: "scope_ref \<Rightarrow> scope_ref \<Rightarrow> bool"
  and descends_option :: "scope_ref option \<Rightarrow> scope_ref \<Rightarrow> bool" where
  "is_equal_or_descendant_of (ScopeRef n k i p) other =
     (if (n, k, i) = scope_key other then True else descends_option p other)"
| "descends_option None other = False"
| "descends_option (Some s) other = is_equal_or_descendant_of s other"

lemma descends_iff_ancestry:
  "is_equal_or_descendant_of s t \<longleftrightarrow> scope_key t \<in> scope_key ` set (ancestry s)"
  "descends_option p t \<longleftrightarrow> scope_key t \<in> scope_key ` set (ancestry_option p)"
  by (induction s and p rule: ancestry.induct ancestry_option.induct) (auto simp: scope_key_def)

definition require_narrower_than :: "scope_ref \<Rightarrow> scope_ref \<Rightarrow> unit result" where
  "require_narrower_than s other =
     (if \<not> is_equal_or_descendant_of s other
      then Inl (core_error DENIED ''scope_broadening_denied''
                  ''child calls may not broaden their effective scope'' False None)
      else Inr ())"

lemma require_narrower_Inr [result_simps]:
  "require_narrower_than s t = Inr u \<longleftrightarrow> is_equal_or_descendant_of s t"
  by (auto simp: require_narrower_than_def)

lemma self_in_ancestry [simp]: "s \<in> set (ancestry s)"
  by (cases s) simp

lemma descends_refl [simp]: "is_equal_or_descendant_of s s"
  by (simp add: descends_iff_ancestry)

lemma ancestry_closed: "t \<in> set (ancestry s) \<Longrightarrow> set (ancestry t) \<subseteq> set (ancestry s)"
  and "t \<in> set (ancestry_option p) \<Longrightarrow> set (ancestry t) \<subseteq> set (ancestry_option p)"
  by (induction s and p rule: ancestry.induct ancestry_option.induct) auto

lemma ancestor_descends: "t \<in> set (ancestry s) \<Longrightarrow> is_equal_or_descendant_of s t"
  by (auto simp: descends_iff_ancestry)

text \<open>
  Two scopes agree when a key stands for the same scope in both ancestries. Descent
  compares keys only, so it is transitive among agreeing scopes.
\<close>

definition scopes_agree :: "scope_ref \<Rightarrow> scope_ref \<Rightarrow> bool" where
  "scopes_agree s t \<longleftrightarrow>
     (\<forall>x \<in> set (ancestry s). \<forall>y \<in> set (ancestry t). scope_key x = scope_key y \<longrightarrow> x = y)"

lemma descends_trans:
  assumes "is_equal_or_descendant_of a b" "is_equal_or_descendant_of b c" "scopes_agree a b"
  shows "is_equal_or_descendant_of a c"
proof -
  obtain x where x: "x \<in> set (ancestry a)" "scope_key x = scope_key b"
    using assms(1) by (auto simp: descends_iff_ancestry)
  with assms(3) have "x = b" by (auto simp: scopes_agree_def)
  with x(1) have "set (ancestry b) \<subseteq> set (ancestry a)" by (auto dest: ancestry_closed)
  with assms(2) show ?thesis by (auto simp: descends_iff_ancestry)
qed

text \<open>Serialization: the parent is nested in the object of its child.\<close>

primrec scope_to_data :: "scope_ref \<Rightarrow> json"
  and scope_option_to_data :: "scope_ref option \<Rightarrow> json" where
  "scope_to_data (ScopeRef n k i p) = JObj [(''namespace'', JStr n), (''kind'', JStr k),
     (''id'', JStr i), (''parent'', scope_option_to_data p)]"
| "scope_option_to_data None = JNull"
| "scope_option_to_data (Some s) = scope_to_data s"

end
