(* ===== verification/Py_Strings.thy ===== *)
theory Py_Strings
  imports Prelude
begin

section \<open>Python strings and numerals\<close>

text \<open>
  \<open>str.split\<close>, \<open>str.join\<close>, \<open>str(int)\<close> and \<open>int(str)\<close>, which the parsers and printers of
  versions, ranges and patterns are made of, with the laws that make them inverse, and the ISO text of a
  UTC moment with its strict reader.
\<close>

subsection \<open>Splitting and joining\<close>

fun split_on :: "char \<Rightarrow> string \<Rightarrow> string list" where
  "split_on c [] = [[]]"
| "split_on c (x # xs) =
     (if x = c then [] # split_on c xs
      else (x # hd (split_on c xs)) # tl (split_on c xs))"

fun join_with :: "string \<Rightarrow> string list \<Rightarrow> string" where
  "join_with sep [] = []"
| "join_with sep [x] = x"
| "join_with sep (x # y # ys) = x @ sep @ join_with sep (y # ys)"

lemma split_on_nonempty [simp]: "split_on c s \<noteq> []"
  by (cases s) auto

lemma split_on_plain: "c \<notin> set s \<Longrightarrow> split_on c s = [s]"
  by (induction s) auto

lemma split_on_append: "c \<notin> set s \<Longrightarrow> split_on c (s @ c # t) = s # split_on c t"
  by (induction s) auto

lemma split_on_join:
  "xs \<noteq> [] \<Longrightarrow> (\<And>x. x \<in> set xs \<Longrightarrow> c \<notin> set x) \<Longrightarrow> split_on c (join_with [c] xs) = xs"
  by (induction "[c]" xs rule: join_with.induct) (auto simp: split_on_plain split_on_append)

lemma split_on_parts: "x \<in> set (split_on c s) \<Longrightarrow> c \<notin> set x"
proof (induction s arbitrary: x)
  case (Cons a s)
  have "hd (split_on c s) \<in> set (split_on c s)" by simp
  moreover have "y \<in> set (tl (split_on c s)) \<Longrightarrow> y \<in> set (split_on c s)" for y
    by (meson list.set_sel(2) split_on_nonempty)
  ultimately show ?case
    using Cons by (auto split: if_splits)
qed simp

lemma join_split_on: "join_with [c] (split_on c s) = s"
proof (induction s)
  case (Cons x s)
  obtain y ys where "split_on c s = y # ys" by (cases "split_on c s") auto
  with Cons show ?case by (cases ys) auto
qed simp

lemma split_on_eq_join: "split_on c s = xs \<Longrightarrow> s = join_with [c] xs"
  using join_split_on [of c s] by simp

lemma set_join_with: "set (join_with sep xs) \<subseteq> set sep \<union> (\<Union>x \<in> set xs. set x)"
  by (induction sep xs rule: join_with.induct) auto

lemma join_with_eq_Nil: "(\<And>x. x \<in> set xs \<Longrightarrow> x \<noteq> []) \<Longrightarrow> join_with sep xs = [] \<longleftrightarrow> xs = []"
  by (induction sep xs rule: join_with.induct) auto

text \<open>The first occurrence of a separator, as \<open>partition\<close> finds it.\<close>

definition split_first :: "char \<Rightarrow> string \<Rightarrow> string \<times> string option" where
  "split_first c s = (takeWhile (\<lambda>x. x \<noteq> c) s,
     case dropWhile (\<lambda>x. x \<noteq> c) s of [] \<Rightarrow> None | _ # t \<Rightarrow> Some t)"

lemma split_first_none: "c \<notin> set s \<Longrightarrow> split_first c s = (s, None)"
  by (induction s) (auto simp: split_first_def)

lemma split_first_some: "c \<notin> set s \<Longrightarrow> split_first c (s @ c # t) = (s, Some t)"
  by (induction s) (auto simp: split_first_def)

lemma split_first_eq:
  "split_first c s = (a, r) \<Longrightarrow> c \<notin> set a \<and> s = a @ (case r of None \<Rightarrow> [] | Some t \<Rightarrow> c # t)"
  by (induction s arbitrary: a) (auto simp: split_first_def split: list.splits if_splits option.splits)

text \<open>\<open>s.split(c, 2)\<close>: at most two splits.\<close>

definition split_twice :: "char \<Rightarrow> string \<Rightarrow> string list" where
  "split_twice c s = (case split_first c s of
       (a, None) \<Rightarrow> [a]
     | (a, Some t) \<Rightarrow> (case split_first c t of (b, None) \<Rightarrow> [a, b] | (b, Some u) \<Rightarrow> [a, b, u]))"

subsection \<open>Decimal numerals\<close>

definition digit_char :: "nat \<Rightarrow> char" where
  "digit_char d = char_of (48 + d)"

definition digit_value :: "char \<Rightarrow> nat" where
  "digit_value c = of_char c - 48"

lemma is_digit_of_char: "is_digit c \<longleftrightarrow> 48 \<le> (of_char c :: nat) \<and> (of_char c :: nat) \<le> 57"
  by (simp add: is_digit_def less_eq_char_def)

lemma digit_char_value [simp]: "d < 10 \<Longrightarrow> digit_value (digit_char d) = d"
  by (simp add: digit_value_def digit_char_def)

lemma digit_value_char [simp]: "is_digit c \<Longrightarrow> digit_char (digit_value c) = c"
  by (simp add: is_digit_of_char digit_value_def digit_char_def)

lemma digit_value_less [simp]: "is_digit c \<Longrightarrow> digit_value c < 10"
  unfolding is_digit_of_char digit_value_def by linarith

lemma is_digit_digit_char [simp]: "d < 10 \<Longrightarrow> is_digit (digit_char d)"
  by (simp add: is_digit_of_char digit_char_def)

lemma digit_char_0 [simp]: "digit_char 0 = CHR ''0''"
  by code_simp

lemma digit_char_zero: "d < 10 \<Longrightarrow> digit_char d = CHR ''0'' \<longleftrightarrow> d = 0"
proof
  assume "d < 10" "digit_char d = CHR ''0''"
  then have "digit_value (CHR ''0'') = d" using digit_char_value by metis
  then show "d = 0" by (simp add: digit_value_def)
qed simp

fun nat_str :: "nat \<Rightarrow> string" where
  "nat_str n = (if n < 10 then [digit_char n] else nat_str (n div 10) @ [digit_char (n mod 10)])"

declare nat_str.simps [simp del]

definition str_nat :: "string \<Rightarrow> nat" where
  "str_nat s = foldl (\<lambda>a c. 10 * a + digit_value c) 0 s"

text \<open>The regular expression \<open>0|[1-9]\d*\<close>.\<close>

definition canonical_number :: "string \<Rightarrow> bool" where
  "canonical_number s \<longleftrightarrow> s \<noteq> [] \<and> list_all is_digit s \<and> (hd s = CHR ''0'' \<longrightarrow> s = ''0'')"

lemma str_nat_snoc: "str_nat (s @ [c]) = 10 * str_nat s + digit_value c"
  by (simp add: str_nat_def)

lemma str_nat_nat_str [simp]: "str_nat (nat_str n) = n"
proof (induction n rule: nat_str.induct)
  case (1 n)
  show ?case
  proof (cases "n < 10")
    case True
    then show ?thesis by (subst nat_str.simps) (simp add: str_nat_def)
  next
    case False
    with 1 have "str_nat (nat_str (n div 10)) = n div 10" by simp
    with False show ?thesis by (subst nat_str.simps) (simp add: str_nat_snoc)
  qed
qed

lemma nat_str_digits: "nat_str n \<noteq> [] \<and> list_all is_digit (nat_str n)"
proof (induction n rule: nat_str.induct)
  case (1 n)
  show ?case
    by (subst nat_str.simps, subst (2) nat_str.simps) (use 1 in simp)
qed

lemma nat_str_head: "0 < n \<Longrightarrow> hd (nat_str n) \<noteq> CHR ''0''"
proof (induction n rule: nat_str.induct)
  case (1 n)
  show ?case
  proof (cases "n < 10")
    case True
    with 1 show ?thesis by (subst nat_str.simps) (simp add: digit_char_zero)
  next
    case False
    with 1 have "hd (nat_str (n div 10)) \<noteq> CHR ''0''" by simp
    with False nat_str_digits show ?thesis by (subst nat_str.simps) simp
  qed
qed

lemma nat_str_canonical: "canonical_number (nat_str n)"
proof (cases "n = 0")
  case True
  then show ?thesis by (simp add: canonical_number_def nat_str.simps [of 0] digit_char_def is_digit_of_char)
next
  case False
  then show ?thesis using nat_str_digits nat_str_head by (simp add: canonical_number_def)
qed

lemma str_nat_zero: "list_all is_digit s \<Longrightarrow> s \<noteq> [] \<Longrightarrow> hd s \<noteq> CHR ''0'' \<Longrightarrow> 0 < str_nat s"
proof (induction s rule: rev_induct)
  case (snoc c s)
  show ?case
  proof (cases "s = []")
    case True
    with snoc have d: "is_digit c" "c \<noteq> CHR ''0''" by simp_all
    then have "digit_value c \<noteq> 0" using digit_value_char [OF d(1)] by (metis digit_char_0)
    with True show ?thesis by (simp add: str_nat_def)
  next
    case False
    with snoc show ?thesis by (simp add: str_nat_snoc)
  qed
qed simp

lemma nat_str_str_nat: "canonical_number s \<Longrightarrow> nat_str (str_nat s) = s"
proof (induction s rule: rev_induct)
  case (snoc c s)
  have d: "is_digit c" using snoc.prems by (simp add: canonical_number_def)
  show ?case
  proof (cases "s = []")
    case True
    with d show ?thesis by (subst nat_str.simps) (simp add: str_nat_def)
  next
    case False
    with snoc.prems have nz: "hd s \<noteq> CHR ''0''" "list_all is_digit s"
      by (auto simp: canonical_number_def)
    with False have "canonical_number s" by (auto simp: canonical_number_def)
    with snoc.IH have ih: "nat_str (str_nat s) = s" .
    have "0 < str_nat s" using str_nat_zero nz False by simp
    then have "10 \<le> str_nat (s @ [c])" by (simp add: str_nat_snoc)
    with ih d show ?thesis by (subst nat_str.simps) (simp add: str_nat_snoc)
  qed
qed (simp add: canonical_number_def)

definition int_str :: "int \<Rightarrow> string" where
  "int_str i = (if i < 0 then CHR ''-'' # nat_str (nat (- i)) else nat_str (nat i))"

text \<open>\<open>str.isdigit\<close>: besides the digits, the superscripts two, three and one.\<close>

definition py_isdigit :: "string \<Rightarrow> bool" where
  "py_isdigit s \<longleftrightarrow> s \<noteq> [] \<and> list_all (\<lambda>c. is_digit c \<or> of_char c \<in> {178, 179, 185 :: nat}) s"

section \<open>Timestamps\<close>

text \<open>
  \<open>datetime\<close> as the code holds it after \<open>require_utc\<close>: the calendar fields of a
  moment in UTC. Python compares two such values field by field from the year down, which
  is the order instantiated here. The end of the theory prints such a value.
\<close>

datatype datetime = UTC (dt_year: nat) (dt_month: nat) (dt_day: nat)
  (dt_hour: nat) (dt_minute: nat) (dt_second: nat) (dt_micro: nat)

definition dt_key :: "datetime \<Rightarrow> nat \<times> nat \<times> nat \<times> nat \<times> nat \<times> nat \<times> nat" where
  "dt_key t = (dt_year t, dt_month t, dt_day t, dt_hour t, dt_minute t, dt_second t, dt_micro t)"

lemma dt_key_inject: "dt_key a = dt_key b \<longleftrightarrow> a = b"
  by (cases a; cases b) (simp add: dt_key_def)

instantiation datetime :: linorder
begin

definition less_eq_datetime :: "datetime \<Rightarrow> datetime \<Rightarrow> bool" where
  "less_eq_datetime a b \<longleftrightarrow> dt_key a \<le> dt_key b"

definition less_datetime :: "datetime \<Rightarrow> datetime \<Rightarrow> bool" where
  "less_datetime a b \<longleftrightarrow> dt_key a < dt_key b"

instance
  by standard (auto simp: less_eq_datetime_def less_datetime_def less_le_not_le
    simp flip: dt_key_inject)

end

lemmas datetime_order_simps = less_eq_datetime_def less_datetime_def dt_key_def
subsection \<open>Printing\<close>

text \<open>
  \<open>isoformat\<close> of a UTC moment: microseconds only when there are any, then the offset.
  \<open>strict_fromisoformat\<close> reads exactly that format back. The library's own \<open>fromisoformat\<close>
  accepts further formats; the decoders take it as an argument and rely on this law alone.
\<close>

definition leap_year :: "nat \<Rightarrow> bool" where
  "leap_year y \<longleftrightarrow> y mod 4 = 0 \<and> (y mod 100 \<noteq> 0 \<or> y mod 400 = 0)"

definition days_in_month :: "nat \<Rightarrow> nat \<Rightarrow> nat" where
  "days_in_month y m = (if m = 2 then (if leap_year y then 29 else 28) else if m \<in> {4, 6, 9, 11} then 30 else 31)"

definition datetime_ok :: "datetime \<Rightarrow> bool" where
  "datetime_ok d \<longleftrightarrow> 1 \<le> dt_year d \<and> dt_year d \<le> 9999 \<and> 1 \<le> dt_month d \<and> dt_month d \<le> 12
     \<and> 1 \<le> dt_day d \<and> dt_day d \<le> days_in_month (dt_year d) (dt_month d) \<and> dt_hour d < 24 \<and> dt_minute d < 60 \<and> dt_second d < 60
     \<and> dt_micro d < 1000000"

fun padded :: "nat \<Rightarrow> nat \<Rightarrow> string" where
  "padded 0 n = []"
| "padded (Suc w) n = padded w (n div 10) @ [digit_char (n mod 10)]"

lemma length_padded [simp]: "length (padded w n) = w"
  by (induction w arbitrary: n) auto

lemma str_nat_padded: "n < 10 ^ w \<Longrightarrow> str_nat (padded w n) = n"
  by (induction w arbitrary: n) (auto simp: str_nat_def)

definition isoformat :: "datetime \<Rightarrow> string" where
  "isoformat d = padded 4 (dt_year d) @ ''-'' @ padded 2 (dt_month d) @ ''-'' @ padded 2 (dt_day d) @ ''T''
     @ padded 2 (dt_hour d) @ '':'' @ padded 2 (dt_minute d) @ '':'' @ padded 2 (dt_second d)
     @ (if dt_micro d = 0 then [] else ''.'' @ padded 6 (dt_micro d)) @ ''+00:00''"

definition strict_fromisoformat :: "string \<Rightarrow> datetime option" where
  "strict_fromisoformat s =
     (let d = UTC (str_nat (take 4 s)) (str_nat (take 2 (drop 5 s))) (str_nat (take 2 (drop 8 s)))
        (str_nat (take 2 (drop 11 s))) (str_nat (take 2 (drop 14 s))) (str_nat (take 2 (drop 17 s)))
        (if length s = 25 then 0 else str_nat (take 6 (drop 20 s)))
      in if datetime_ok d \<and> isoformat d = s then Some d else None)"

lemma strict_fromisoformat_isoformat: "datetime_ok d \<Longrightarrow> strict_fromisoformat (isoformat d) = Some d"
proof (cases d)
  case (UTC y mo dy h mi s us)
  assume ok: "datetime_ok d"
  with UTC have b: "y < 10 ^ 4" "mo < 10 ^ 2" "dy < 10 ^ 2" "h < 10 ^ 2" "mi < 10 ^ 2" "s < 10 ^ 2" "us < 10 ^ 6"
    by (auto simp: datetime_ok_def days_in_month_def split: if_splits)
  note p = b [THEN str_nat_padded]
  have "UTC (str_nat (take 4 (isoformat d))) (str_nat (take 2 (drop 5 (isoformat d))))
      (str_nat (take 2 (drop 8 (isoformat d)))) (str_nat (take 2 (drop 11 (isoformat d))))
      (str_nat (take 2 (drop 14 (isoformat d)))) (str_nat (take 2 (drop 17 (isoformat d))))
      (if length (isoformat d) = 25 then 0 else str_nat (take 6 (drop 20 (isoformat d)))) = d"
    using UTC p by (simp add: isoformat_def)
  with ok show ?thesis by (simp add: strict_fromisoformat_def Let_def)
qed

lemma isoformat_nonempty [simp]: "isoformat d \<noteq> []"
  by (simp add: isoformat_def)

end
