(* ===== verification/Runtime_Context.thy ===== *)
theory Runtime_Context
  imports Runtime_Scope Py_Strings
begin

section \<open>Deadlines, cancellation and the call context\<close>

text \<open>
  \<open>runtime/control.py\<close> and \<open>runtime/context.py\<close>. The clock is read by the caller: every
  operation that asks the clock takes the moment it read as an argument. Identifiers that
  \<open>SpanId.new()\<close> draws are arguments as well. A token carries its flag; \<open>cancel\<close> returns
  the callbacks it hands to its caller to run. The last section is \<open>provider/_control.py\<close>.
\<close>

subsection \<open>Later moments\<close>

definition next_day :: "datetime \<Rightarrow> datetime option" where
  "next_day t =
     (if dt_day t < days_in_month (dt_year t) (dt_month t)
      then Some (UTC (dt_year t) (dt_month t) (dt_day t + 1) (dt_hour t) (dt_minute t) (dt_second t) (dt_micro t))
      else if dt_month t < 12
      then Some (UTC (dt_year t) (dt_month t + 1) 1 (dt_hour t) (dt_minute t) (dt_second t) (dt_micro t))
      else if dt_year t < 9999
      then Some (UTC (dt_year t + 1) 1 1 (dt_hour t) (dt_minute t) (dt_second t) (dt_micro t))
      else None)"

fun plus_days :: "nat \<Rightarrow> datetime \<Rightarrow> datetime option" where
  "plus_days 0 t = Some t"
| "plus_days (Suc k) t = Option.bind (next_day t) (plus_days k)"

text \<open>\<open>moment + timedelta(seconds=n)\<close>, which overflows after the year 9999\<close>

definition plus_seconds :: "datetime \<Rightarrow> nat \<Rightarrow> datetime result" where
  "plus_seconds t n =
     (let s = dt_hour t * 3600 + dt_minute t * 60 + dt_second t + n; r = s mod 86400 in
      case plus_days (s div 86400) (UTC (dt_year t) (dt_month t) (dt_day t) (r div 3600) (r mod 3600 div 60) (r mod 60) (dt_micro t)) of
        None \<Rightarrow> Inl (ForeignError ''OverflowError'')
      | Some u \<Rightarrow> Inr u)"

text \<open>\<open>moment + timedelta(milliseconds=n)\<close>\<close>

definition plus_millis :: "datetime \<Rightarrow> nat \<Rightarrow> datetime result" where
  "plus_millis t n =
     (let u = dt_micro t + n mod 1000 * 1000 in
      plus_seconds (UTC (dt_year t) (dt_month t) (dt_day t) (dt_hour t) (dt_minute t) (dt_second t) (u mod 1000000))
        (n div 1000 + u div 1000000))"

subsection \<open>Deadline\<close>

record deadline = dl_at :: datetime

definition deadline_expired :: "deadline \<Rightarrow> datetime \<Rightarrow> bool" where
  "deadline_expired d now \<longleftrightarrow> now \<ge> dl_at d"

definition raise_if_expired :: "deadline \<Rightarrow> datetime \<Rightarrow> unit result" where
  "raise_if_expired d now =
     (if deadline_expired d now
      then Inl (core_error TIMEOUT ''deadline_exceeded'' ''runtime call deadline has expired'' True None)
      else Inr ())"

subsection \<open>Cancellation\<close>

text \<open>\<open>'cb\<close> stands for the callback objects; the set of callbacks is the code's set.\<close>

record 'cb cancellation_token =
  ct_id :: string
  ct_cancelled :: bool
  ct_callbacks :: "'cb list"

definition new_token :: "string \<Rightarrow> bool \<Rightarrow> 'cb cancellation_token" where
  "new_token i c = \<lparr>ct_id = i, ct_cancelled = c, ct_callbacks = []\<rparr>"

text \<open>\<open>cancel\<close>: whether this call cancelled, the callbacks it must run, and the new token.\<close>

definition cancel_token :: "'cb cancellation_token \<Rightarrow> (bool \<times> 'cb list) \<times> 'cb cancellation_token" where
  "cancel_token t =
     (if ct_cancelled t then ((False, []), t)
      else ((True, ct_callbacks t), t\<lparr>ct_cancelled := True, ct_callbacks := []\<rparr>))"

definition raise_if_cancelled :: "'cb cancellation_token \<Rightarrow> unit result" where
  "raise_if_cancelled t =
     (if ct_cancelled t
      then Inl (core_error CANCELLED_CALL ''call_cancelled'' ''runtime call was cancelled'' False None)
      else Inr ())"

text \<open>
  The registration half of \<open>wait_cancelled\<close>: a waiter that finds the flag set returns at
  once (the second component), otherwise its callback joins the set; the \<open>finally\<close> clause
  discards it again.
\<close>

definition register_waiter :: "'cb \<Rightarrow> 'cb cancellation_token \<Rightarrow> bool \<times> 'cb cancellation_token" where
  "register_waiter cb t =
     (if ct_cancelled t then (True, t)
      else (False, t\<lparr>ct_callbacks := List.insert cb (ct_callbacks t)\<rparr>))"

definition discard_waiter :: "'cb \<Rightarrow> 'cb cancellation_token \<Rightarrow> 'cb cancellation_token" where
  "discard_waiter cb t = t\<lparr>ct_callbacks := removeAll cb (ct_callbacks t)\<rparr>"

subsection \<open>Trace\<close>

record trace_context =
  tr_trace_id :: string
  tr_span_id :: string
  tr_correlation_id :: string
  tr_causation_id :: "string option"

definition trace_child :: "string \<Rightarrow> string option \<Rightarrow> trace_context \<Rightarrow> trace_context" where
  "trace_child span causation t =
     \<lparr>tr_trace_id = tr_trace_id t, tr_span_id = span, tr_correlation_id = tr_correlation_id t,
      tr_causation_id = (case causation of None \<Rightarrow> tr_causation_id t | Some c \<Rightarrow> Some c)\<rparr>"

subsection \<open>The call context\<close>

record session_ref =
  se_namespace :: string
  se_id :: session_id

definition mk_session_ref :: "string \<Rightarrow> session_id \<Rightarrow> session_ref result" where
  "mk_session_ref n i =
     (if \<not> trimmed n then Inl (ValueError ''session namespace must be non-empty and trimmed'')
      else Inr \<lparr>se_namespace = n, se_id = i\<rparr>)"

record call_context =
  cx_run_id :: run_id
  cx_root_run_id :: run_id
  cx_parent_run_id :: "run_id option"
  cx_workspace_id :: workspace_id
  cx_session_ref :: "session_ref option"
  cx_scope :: scope_ref
  cx_deadline :: "deadline option"
  cx_cancellation :: "unit cancellation_token"
  cx_trace :: trace_context
  cx_idempotency_key :: "idempotency_key option"

definition check_active :: "call_context \<Rightarrow> datetime \<Rightarrow> unit result" where
  "check_active c now =
     rbind (raise_if_cancelled (cx_cancellation c))
       (\<lambda>_. case cx_deadline c of None \<Rightarrow> Inr () | Some d \<Rightarrow> raise_if_expired d now)"

definition or_else :: "'a option \<Rightarrow> 'a option \<Rightarrow> 'a option" where
  "or_else a b = (case a of None \<Rightarrow> b | Some _ \<Rightarrow> a)"

lemma or_else_simps [simp]: "or_else None b = b" "or_else (Some x) b = Some x"
  by (simp_all add: or_else_def)

definition deadline_broadened :: "deadline option \<Rightarrow> deadline option \<Rightarrow> bool" where
  "deadline_broadened own effective =
     (case (own, effective) of (Some d, Some e) \<Rightarrow> dl_at e > dl_at d | _ \<Rightarrow> False)"

definition narrow ::
  "call_context \<Rightarrow> scope_ref option \<Rightarrow> deadline option \<Rightarrow> idempotency_key option \<Rightarrow> string
    \<Rightarrow> call_context result" where
  "narrow c scope dl key span =
     (let eff_scope = (case scope of None \<Rightarrow> cx_scope c | Some s \<Rightarrow> s) in
      rbind (require_narrower_than eff_scope (cx_scope c)) (\<lambda>_.
      let eff_dl = or_else dl (cx_deadline c) in
      if deadline_broadened (cx_deadline c) eff_dl
      then Inl (core_error DENIED ''deadline_broadening_denied''
                  ''child calls may not extend their deadline'' False None)
      else Inr \<lparr>cx_run_id = cx_run_id c, cx_root_run_id = cx_root_run_id c,
        cx_parent_run_id = cx_parent_run_id c, cx_workspace_id = cx_workspace_id c,
        cx_session_ref = cx_session_ref c, cx_scope = eff_scope, cx_deadline = eff_dl,
        cx_cancellation = cx_cancellation c, cx_trace = trace_child span None (cx_trace c),
        cx_idempotency_key = or_else key (cx_idempotency_key c)\<rparr>))"

definition for_child_run ::
  "call_context \<Rightarrow> run_id \<Rightarrow> scope_ref option \<Rightarrow> deadline option \<Rightarrow> idempotency_key option \<Rightarrow> string
    \<Rightarrow> call_context result" where
  "for_child_run c child scope dl key span =
     rbind (narrow c scope dl key span) (\<lambda>n.
       Inr \<lparr>cx_run_id = child, cx_root_run_id = cx_root_run_id c,
        cx_parent_run_id = Some (cx_run_id c), cx_workspace_id = cx_workspace_id c,
        cx_session_ref = cx_session_ref c, cx_scope = cx_scope n, cx_deadline = cx_deadline n,
        cx_cancellation = cx_cancellation c, cx_trace = cx_trace n,
        cx_idempotency_key = cx_idempotency_key n\<rparr>)"

subsection \<open>What narrowing keeps\<close>

text \<open>
  The deadline of \<open>d\<close> is at most that of \<open>c\<close>: where \<open>c\<close> has one, so does \<open>d\<close>, and it is
  no later.
\<close>

definition deadline_within :: "call_context \<Rightarrow> call_context \<Rightarrow> bool" where
  "deadline_within d c \<longleftrightarrow>
     (case cx_deadline c of None \<Rightarrow> True
      | Some limit \<Rightarrow> (case cx_deadline d of None \<Rightarrow> False | Some dl \<Rightarrow> dl_at dl \<le> dl_at limit))"

lemma deadline_within_refl [simp]: "deadline_within c c"
  by (auto simp: deadline_within_def split: option.splits)

lemma deadline_within_trans:
  "deadline_within e d \<Longrightarrow> deadline_within d c \<Longrightarrow> deadline_within e c"
  by (auto simp: deadline_within_def split: option.splits)

lemma narrow_Inr:
  assumes "narrow c scope dl key span = Inr d"
  shows "is_equal_or_descendant_of (cx_scope d) (cx_scope c)" "deadline_within d c"
    "cx_run_id d = cx_run_id c" "cx_root_run_id d = cx_root_run_id c"
    "cx_parent_run_id d = cx_parent_run_id c" "cx_workspace_id d = cx_workspace_id c"
    "cx_cancellation d = cx_cancellation c"
    "tr_trace_id (cx_trace d) = tr_trace_id (cx_trace c)"
    "tr_correlation_id (cx_trace d) = tr_correlation_id (cx_trace c)"
  using assms
  by (auto simp: narrow_def Let_def result_simps deadline_broadened_def deadline_within_def
      or_else_def trace_child_def split: if_splits option.splits)

text \<open>A tree of calls: each is a narrowing of its caller or the start of a child Run.\<close>

inductive derived_call :: "call_context \<Rightarrow> call_context \<Rightarrow> bool" where
  same: "derived_call c c"
| narrowed: "derived_call c d \<Longrightarrow> narrow d scope dl key span = Inr e \<Longrightarrow> derived_call c e"
| child: "derived_call c d \<Longrightarrow> for_child_run d r scope dl key span = Inr e \<Longrightarrow> derived_call c e"

lemma for_child_run_Inr:
  assumes "for_child_run c child scope dl key span = Inr d"
  shows "is_equal_or_descendant_of (cx_scope d) (cx_scope c)" "deadline_within d c"
    "cx_run_id d = child" "cx_root_run_id d = cx_root_run_id c"
    "cx_parent_run_id d = Some (cx_run_id c)" "cx_workspace_id d = cx_workspace_id c"
    "cx_cancellation d = cx_cancellation c"
    "tr_correlation_id (cx_trace d) = tr_correlation_id (cx_trace c)"
proof -
  obtain n where n: "narrow c scope dl key span = Inr n"
    and d: "d = \<lparr>cx_run_id = child, cx_root_run_id = cx_root_run_id c,
        cx_parent_run_id = Some (cx_run_id c), cx_workspace_id = cx_workspace_id c,
        cx_session_ref = cx_session_ref c, cx_scope = cx_scope n, cx_deadline = cx_deadline n,
        cx_cancellation = cx_cancellation c, cx_trace = cx_trace n,
        cx_idempotency_key = cx_idempotency_key n\<rparr>"
    using assms by (auto simp: for_child_run_def result_simps)
  show "is_equal_or_descendant_of (cx_scope d) (cx_scope c)" "deadline_within d c"
    "cx_run_id d = child" "cx_root_run_id d = cx_root_run_id c"
    "cx_parent_run_id d = Some (cx_run_id c)" "cx_workspace_id d = cx_workspace_id c"
    "cx_cancellation d = cx_cancellation c"
    "tr_correlation_id (cx_trace d) = tr_correlation_id (cx_trace c)"
    using narrow_Inr [OF n] by (auto simp: d deadline_within_def split: option.splits)
qed

lemma derived_call_keeps:
  "derived_call c d \<Longrightarrow> deadline_within d c \<and> cx_root_run_id d = cx_root_run_id c
     \<and> cx_workspace_id d = cx_workspace_id c \<and> cx_cancellation d = cx_cancellation c
     \<and> tr_correlation_id (cx_trace d) = tr_correlation_id (cx_trace c)"
proof (induction rule: derived_call.induct)
  case (same c)
  then show ?case by simp
next
  case (narrowed c d scope dl key span e)
  then show ?case by (auto dest: narrow_Inr intro: deadline_within_trans)
next
  case (child c d r scope dl key span e)
  then show ?case by (auto dest: for_child_run_Inr intro: deadline_within_trans)
qed

lemma check_active_Inr:
  "check_active c now = Inr u \<longleftrightarrow> \<not> ct_cancelled (cx_cancellation c)
     \<and> (case cx_deadline c of None \<Rightarrow> True | Some d \<Rightarrow> now < dl_at d)"
  by (auto simp: check_active_def result_simps raise_if_cancelled_def raise_if_expired_def
      deadline_expired_def split: option.splits if_splits)

lemma check_active_derived:
  assumes "derived_call c d" "check_active d now = Inr u"
  shows "check_active c now = Inr ()"
  using derived_call_keeps [OF assms(1)] assms(2)
  by (auto simp: check_active_Inr deadline_within_def split: option.splits)

section \<open>Awaiting a provider under a deadline\<close>

text \<open>
  \<open>provider/_control.py\<close>. \<open>asyncio.wait\<close> races the operation against the cancellation of the
  call and the deadline; who wins is the scheduler's choice, which \<open>race\<close> supplies together with
  the state it leaves, the clean-up of a cancelled operation included. The token of the call is a
  shared object, so its state is read from the world at each check.
\<close>

datatype 'a awaited = Operation_Done "'a result" | Cancelled_First | Timed_Out

definition deadline_exceeded :: exn where
  "deadline_exceeded = core_error TIMEOUT ''deadline_exceeded'' ''runtime call deadline has expired'' True None"

definition active_now ::
  "call_context \<Rightarrow> ('w \<Rightarrow> unit cancellation_token) \<Rightarrow> ('w \<Rightarrow> datetime) \<Rightarrow> ('w, exn, unit) action" where
  "active_now ctx token clock w = (check_active (ctx\<lparr>cx_cancellation := token w\<rparr>) (clock w), w)"

definition await_provider ::
  "call_context \<Rightarrow> ('w \<Rightarrow> unit cancellation_token) \<Rightarrow> ('w \<Rightarrow> datetime) \<Rightarrow> ('w \<Rightarrow> 'a awaited \<times> 'w) \<Rightarrow> ('w, exn, 'a) action"
where
  "await_provider ctx token clock race =
     abind (active_now ctx token clock) (\<lambda>_ w. case race w of (outcome, w1) \<Rightarrow>
       (case outcome of
          Operation_Done r \<Rightarrow> abind (aresult r) (\<lambda>x. abind (active_now ctx token clock) (\<lambda>_. areturn x)) w1
        | Cancelled_First \<Rightarrow> abind (aresult (raise_if_cancelled (token w1))) (\<lambda>_. araise deadline_exceeded) w1
        | Timed_Out \<Rightarrow> (Inl deadline_exceeded, w1)))"

text \<open>A value comes back only from an operation that finished while the call was still active.\<close>

lemma await_provider_Inr:
  "await_provider ctx token clock race w = (Inr x, w') \<longleftrightarrow>
     check_active (ctx\<lparr>cx_cancellation := token w\<rparr>) (clock w) = Inr ()
     \<and> race w = (Operation_Done (Inr x), w') \<and> check_active (ctx\<lparr>cx_cancellation := token w'\<rparr>) (clock w') = Inr ()"
  by (auto simp: await_provider_def active_now_def action_simps split: sum.splits prod.splits awaited.splits)

lemma await_provider_inactive:
  "check_active (ctx\<lparr>cx_cancellation := token w\<rparr>) (clock w) = Inl e \<Longrightarrow> await_provider ctx token clock race w = (Inl e, w)"
  by (simp add: await_provider_def active_now_def action_simps)

text \<open>A call that is no longer active never yields a value, whatever the race decided.\<close>

lemma await_provider_expired:
  assumes "race w = (outcome, w1)" "check_active (ctx\<lparr>cx_cancellation := token w1\<rparr>) (clock w1) = Inl e"
  shows "\<exists>e' w'. await_provider ctx token clock race w = (Inl e', w')"
  using assms
  by (auto simp: await_provider_def active_now_def action_simps split: sum.splits awaited.splits)

text \<open>
  How an await can end before the operation does: by the cancellation (\<open>True\<close>) or the deadline, in
  the world that the interrupted operation leaves.
\<close>

type_synonym 's preemption = "'s \<Rightarrow> (bool \<times> 's) option"

definition raced_body :: "'s preemption \<Rightarrow> ('s, exn, 'a) action \<Rightarrow> 's \<Rightarrow> 'a awaited \<times> 's" where
  "raced_body preempt m w = (case preempt w of
       Some (cancelled, w1) \<Rightarrow> (if cancelled then Cancelled_First else Timed_Out, w1)
     | None \<Rightarrow> (case m w of (r, w1) \<Rightarrow> (Operation_Done r, w1)))"

lemma raced_body_done [simp]:
  "raced_body P m w = (Operation_Done r, w') \<longleftrightarrow> P w = None \<and> m w = (r, w')"
  by (auto simp: raced_body_def split: option.splits prod.splits)

end
