(* ===== verification/Run_Model.thy ===== *)
theory Run_Model
  imports Runtime_Context
begin

section \<open>The Run envelope\<close>

text \<open>
  The data of \<open>runtime/run.py\<close>: statuses, attempt records, the Run with its validator, and
  the three constructors of new Runs. The subclasses \<open>AgentRun\<close> and \<open>WorkflowRun\<close> are the
  variant field of the record. Attempts and versions are Python integers. \<open>mk_run\<close> is the
  dataclass constructor (and \<open>replace\<close>, which calls it again): it returns the Run or the
  \<open>ValueError\<close> of \<open>__post_init__\<close>.
\<close>

datatype run_kind = KIND_AGENT | KIND_WORKFLOW

datatype run_status = CREATED | STARTING | CONTEXT_LOADING | RUNNING | WAITING_APPROVAL
  | PAUSED | RETRYING | RECOVERING | SUCCEEDED | FAILED | CANCELLED

definition terminal :: "run_status \<Rightarrow> bool" where
  "terminal s \<longleftrightarrow> s \<in> {SUCCEEDED, FAILED, CANCELLED}"

lemma terminal_simps [simp]:
  "terminal SUCCEEDED" "terminal FAILED" "terminal CANCELLED" "\<not> terminal CREATED"
  "\<not> terminal STARTING" "\<not> terminal CONTEXT_LOADING" "\<not> terminal RUNNING"
  "\<not> terminal WAITING_APPROVAL" "\<not> terminal PAUSED" "\<not> terminal RETRYING" "\<not> terminal RECOVERING"
  by (simp_all add: terminal_def)

fun status_value :: "run_status \<Rightarrow> string" where
  "status_value CREATED = ''created''"
| "status_value STARTING = ''starting''"
| "status_value CONTEXT_LOADING = ''context_loading''"
| "status_value RUNNING = ''running''"
| "status_value WAITING_APPROVAL = ''waiting_approval''"
| "status_value PAUSED = ''paused''"
| "status_value RETRYING = ''retrying''"
| "status_value RECOVERING = ''recovering''"
| "status_value SUCCEEDED = ''succeeded''"
| "status_value FAILED = ''failed''"
| "status_value CANCELLED = ''cancelled''"

datatype attempt_outcome = AO_SUCCEEDED | AO_RETRYABLE_FAILURE | AO_FINAL_FAILURE
  | AO_CANCELLED | AO_INTERRUPTED

datatype audit_failure_mode = AUDIT_PAUSE | AUDIT_FAIL

record run_control_policy = rcp_audit_failure_mode :: audit_failure_mode

subsection \<open>Attempts\<close>

record error_summary =
  es_detail :: error_detail
  es_attempt :: int
  es_occurred_at :: datetime

definition mk_error_summary :: "error_detail \<Rightarrow> int \<Rightarrow> datetime \<Rightarrow> error_summary result" where
  "mk_error_summary d n t =
     (if n < 1 then Inl (ValueError ''error attempt must be positive'')
      else Inr \<lparr>es_detail = d, es_attempt = n, es_occurred_at = t\<rparr>)"

record attempt_record =
  at_no :: int
  at_started :: datetime
  at_ended :: "datetime option"
  at_outcome :: "attempt_outcome option"
  at_checkpoint :: "checkpoint_id option"
  at_error :: "error_summary option"

definition mk_attempt :: "attempt_record \<Rightarrow> attempt_record result" where
  "mk_attempt a =
     (if at_no a < 1 then Inl (ValueError ''attempt must be positive'')
      else if (at_ended a = None) \<noteq> (at_outcome a = None)
        then Inl (ValueError ''attempt end time and outcome must be set together'')
      else case at_ended a of
          Some e \<Rightarrow> if e < at_started a then Inl (ValueError ''attempt cannot end before it starts'')
                    else Inr a
        | None \<Rightarrow> Inr a)"

text \<open>\<open>AttemptRecord(attempt, started_at, checkpoint_ref=ref)\<close>\<close>

definition new_attempt :: "int \<Rightarrow> datetime \<Rightarrow> checkpoint_id option \<Rightarrow> attempt_record result" where
  "new_attempt n t ref = mk_attempt \<lparr>at_no = n, at_started = t, at_ended = None,
     at_outcome = None, at_checkpoint = ref, at_error = None\<rparr>"

definition attempt_open :: "attempt_record \<Rightarrow> bool" where
  "attempt_open a \<longleftrightarrow> at_ended a = None"

definition attempt_close ::
  "attempt_record \<Rightarrow> attempt_outcome \<Rightarrow> datetime \<Rightarrow> error_summary option \<Rightarrow> attempt_record result" where
  "attempt_close a outcome now err =
     (if \<not> attempt_open a then Inl (ValueError ''attempt is already closed'')
      else mk_attempt (a\<lparr>at_ended := Some now, at_outcome := Some outcome, at_error := err\<rparr>))"

lemma new_attempt_Inr:
  "new_attempt n t ref = Inr a \<longleftrightarrow> 1 \<le> n \<and> a = \<lparr>at_no = n, at_started = t, at_ended = None,
     at_outcome = None, at_checkpoint = ref, at_error = None\<rparr>"
  by (auto simp: new_attempt_def mk_attempt_def)

lemma attempt_close_Inr:
  "attempt_close a out now err = Inr b \<longleftrightarrow> attempt_open a \<and> 1 \<le> at_no a \<and> at_started a \<le> now
     \<and> b = a\<lparr>at_ended := Some now, at_outcome := Some out, at_error := err\<rparr>"
  by (auto simp: attempt_close_def mk_attempt_def attempt_open_def)

subsection \<open>Runs\<close>

datatype run_variant =
    AgentRun agent_id model_binding_ref
  | WorkflowRun workflow_id string "checkpoint_id option"

record run =
  r_id :: run_id
  r_kind :: run_kind
  r_definition_id :: definition_id
  r_root_id :: run_id
  r_parent_id :: "run_id option"
  r_workspace_id :: workspace_id
  r_session_ref :: "session_ref option"
  r_scope :: scope_ref
  r_status :: run_status
  r_attempt :: int
  r_version :: int
  r_created_at :: datetime
  r_started_at :: "datetime option"
  r_updated_at :: "datetime option"
  r_ended_at :: "datetime option"
  r_error :: "error_summary option"
  r_continuation :: "run_status option"
  r_history :: "attempt_record list"
  r_policy :: run_control_policy
  r_variant :: run_variant

definition open_indices :: "attempt_record list \<Rightarrow> nat list" where
  "open_indices hs = filter (\<lambda>i. attempt_open (hs ! i)) [0..<length hs]"

definition allowed_continuations :: "run_status \<Rightarrow> run_status set" where
  "allowed_continuations s = {STARTING, CONTEXT_LOADING, RUNNING}
     \<union> (if s = PAUSED then {WAITING_APPROVAL, RECOVERING} else {})"

text \<open>\<open>Run.__post_init__\<close>\<close>

definition run_post_init :: "run \<Rightarrow> unit result" where
  "run_post_init r =
     (if r_attempt r < 1 then Inl (ValueError ''run attempt must be positive'')
      else if r_version r < 0 then Inl (ValueError ''state version must not be negative'')
      else if r_parent_id r = None \<and> r_root_id r \<noteq> r_id r
        then Inl (ValueError ''root Run must reference itself as root_run_id'')
      else if r_parent_id r = Some (r_id r) then Inl (ValueError ''Run cannot be its own parent'')
      else if terminal (r_status r) \<and> r_ended_at r = None
        then Inl (ValueError ''terminal Run requires ended_at'')
      else if \<not> terminal (r_status r) \<and> r_ended_at r \<noteq> None
        then Inl (ValueError ''non-terminal Run cannot have ended_at'')
      else let hs = List.map at_no (r_history r) in
      if hs \<noteq> sort (remdups hs)
        then Inl (ValueError ''attempt history must increase without duplicates'')
      else if hs \<noteq> [] \<and> last hs > r_attempt r
        then Inl (ValueError ''attempt history cannot exceed the current attempt'')
      else let os = open_indices (r_history r) in
      if os \<noteq> [] \<and> (os \<noteq> [length (r_history r) - 1] \<or> at_no (last (r_history r)) \<noteq> r_attempt r)
        then Inl (ValueError ''only the current final attempt record may be open'')
      else if r_status r \<in> {PAUSED, RETRYING} then
        (case r_continuation r of
           None \<Rightarrow> Inl (ValueError ''paused or retrying Run requires continuation_status'')
         | Some k \<Rightarrow> if k \<notin> allowed_continuations (r_status r)
             then Inl (ValueError ''continuation_status is not a resumable phase'') else Inr ())
      else if r_continuation r \<noteq> None
        then Inl (ValueError ''continuation_status is valid only while paused or retrying'')
      else Inr ())"

text \<open>The validators of the subclasses run after the common one.\<close>

definition variant_post_init :: "run \<Rightarrow> unit result" where
  "variant_post_init r =
     (case r_variant r of
        AgentRun _ _ \<Rightarrow> if r_kind r \<noteq> KIND_AGENT
          then Inl (ValueError ''AgentRun kind must be agent'') else Inr ()
      | WorkflowRun _ graph _ \<Rightarrow>
          if r_kind r \<noteq> KIND_WORKFLOW then Inl (ValueError ''WorkflowRun kind must be workflow'')
          else if graph = [] then Inl (ValueError ''WorkflowRun graph_version is required'')
          else Inr ())"

definition mk_run :: "run \<Rightarrow> run result" where
  "mk_run r = rbind (run_post_init r) (\<lambda>_. rbind (variant_post_init r) (\<lambda>_. Inr r))"

definition is_workflow :: "run \<Rightarrow> bool" where
  "is_workflow r = (case r_variant r of WorkflowRun _ _ _ \<Rightarrow> True | _ \<Rightarrow> False)"

definition latest_checkpoint :: "run \<Rightarrow> checkpoint_id option" where
  "latest_checkpoint r = (case r_variant r of WorkflowRun _ _ c \<Rightarrow> c | _ \<Rightarrow> None)"

definition graph_version :: "run \<Rightarrow> string" where
  "graph_version r = (case r_variant r of WorkflowRun _ g _ \<Rightarrow> g | _ \<Rightarrow> [])"

lemma yields_variant [post_intros]:
  "(\<And>a b. v = AgentRun a b \<Longrightarrow> yields P (g a b)) \<Longrightarrow>
   (\<And>a b c. v = WorkflowRun a b c \<Longrightarrow> yields P (h a b c)) \<Longrightarrow>
    yields P (case v of AgentRun a b \<Rightarrow> g a b | WorkflowRun a b c \<Rightarrow> h a b c)"
  by (cases v) simp_all

subsection \<open>The validator in closed form\<close>

lemma sort_remdups_id_iff: "(hs :: int list) = sort (remdups hs) \<longleftrightarrow> sorted_wrt (<) hs"
proof
  assume "hs = sort (remdups hs)"
  then show "sorted_wrt (<) hs"
    by (metis distinct_remdups distinct_sort sorted_sort strict_sorted_iff)
next
  assume "sorted_wrt (<) hs"
  then have "sorted hs" "distinct hs" by (simp_all add: strict_sorted_iff)
  then show "hs = sort (remdups hs)"
    by (simp add: distinct_remdups_id sorted_sort_id)
qed

text \<open>The open records of a history: none, or the last one.\<close>

definition open_only_last :: "attempt_record list \<Rightarrow> bool" where
  "open_only_last hs \<longleftrightarrow> list_all (\<lambda>a. \<not> attempt_open a) (butlast hs)"

lemma open_indices_Nil: "open_indices hs = [] \<longleftrightarrow> list_all (\<lambda>a. \<not> attempt_open a) hs"
  by (auto simp: open_indices_def filter_empty_conv list_all_length)

lemma open_indices_snoc:
  "open_indices (hs @ [a]) = open_indices hs @ (if attempt_open a then [length hs] else [])"
proof -
  have "filter (\<lambda>i. attempt_open ((hs @ [a]) ! i)) [0..<length hs]
      = filter (\<lambda>i. attempt_open (hs ! i)) [0..<length hs]"
    by (rule filter_cong) (auto simp: nth_append)
  then show ?thesis by (simp add: open_indices_def nth_append)
qed

lemma open_indices_ok_iff:
  "\<not> (open_indices hs \<noteq> [] \<and> (open_indices hs \<noteq> [length hs - 1] \<or> at_no (last hs) \<noteq> n)) \<longleftrightarrow>
     open_only_last hs \<and> (hs \<noteq> [] \<longrightarrow> attempt_open (last hs) \<longrightarrow> at_no (last hs) = n)"
proof (cases hs rule: rev_cases)
  case Nil
  then show ?thesis by (simp add: open_indices_def open_only_last_def)
next
  case (snoc hs' a)
  have lt: "\<forall>i \<in> set (open_indices hs'). i < length hs'"
    by (simp add: open_indices_def)
  show ?thesis
  proof (cases "open_indices hs' = []")
    case True
    then show ?thesis
      using snoc by (auto simp: open_indices_snoc open_only_last_def open_indices_Nil)
  next
    case False
    then have "open_indices hs \<noteq> [length hs - 1]"
      using snoc lt by (cases "open_indices hs'") (auto simp: open_indices_snoc)
    moreover from False have "\<not> open_only_last hs"
      using snoc by (simp add: open_only_last_def open_indices_Nil)
    ultimately show ?thesis using False snoc by (simp add: open_indices_snoc)
  qed
qed

definition continuation_ok :: "run \<Rightarrow> bool" where
  "continuation_ok r \<longleftrightarrow>
     (if r_status r \<in> {PAUSED, RETRYING}
      then (\<exists>k \<in> allowed_continuations (r_status r). r_continuation r = Some k)
      else r_continuation r = None)"

definition run_ok :: "run \<Rightarrow> bool" where
  "run_ok r \<longleftrightarrow> 1 \<le> r_attempt r \<and> 0 \<le> r_version r
     \<and> (r_parent_id r = None \<longrightarrow> r_root_id r = r_id r) \<and> r_parent_id r \<noteq> Some (r_id r)
     \<and> (terminal (r_status r) \<longleftrightarrow> r_ended_at r \<noteq> None)
     \<and> sorted_wrt (<) (List.map at_no (r_history r))
     \<and> (r_history r \<noteq> [] \<longrightarrow> at_no (last (r_history r)) \<le> r_attempt r)
     \<and> open_only_last (r_history r)
     \<and> (r_history r \<noteq> [] \<longrightarrow> attempt_open (last (r_history r)) \<longrightarrow> at_no (last (r_history r)) = r_attempt r)
     \<and> continuation_ok r"

definition variant_ok :: "run \<Rightarrow> bool" where
  "variant_ok r \<longleftrightarrow> (case r_variant r of AgentRun _ _ \<Rightarrow> r_kind r = KIND_AGENT
     | WorkflowRun _ g _ \<Rightarrow> r_kind r = KIND_WORKFLOW \<and> g \<noteq> [])"

lemma run_post_init_iff: "run_post_init r = Inr u \<longleftrightarrow> run_ok r"
proof -
  let ?hs = "r_history r"
  have cont: "(if r_status r \<in> {PAUSED, RETRYING} then
        (case r_continuation r of
           None \<Rightarrow> Inl (ValueError ''paused or retrying Run requires continuation_status'')
         | Some k \<Rightarrow> if k \<notin> allowed_continuations (r_status r)
             then Inl (ValueError ''continuation_status is not a resumable phase'') else Inr ())
      else if r_continuation r \<noteq> None
        then Inl (ValueError ''continuation_status is valid only while paused or retrying'')
      else Inr ()) = Inr u \<longleftrightarrow> continuation_ok r"
    unfolding continuation_ok_def by (auto split: option.splits)
  have last: "\<not> (List.map at_no ?hs \<noteq> [] \<and> last (List.map at_no ?hs) > r_attempt r) \<longleftrightarrow>
      (?hs \<noteq> [] \<longrightarrow> at_no (last ?hs) \<le> r_attempt r)"
    by (auto simp: last_map)
  show ?thesis
    unfolding run_post_init_def Let_def if_raise_Inr cont last open_indices_ok_iff not_not
      sort_remdups_id_iff run_ok_def
    by (cases "terminal (r_status r)"; cases "r_parent_id r"; simp add: not_less conj_assoc)
qed

lemma variant_post_init_iff: "variant_post_init r = Inr u \<longleftrightarrow> variant_ok r"
  by (auto simp: variant_post_init_def variant_ok_def split: run_variant.splits)

lemma mk_run_Inr [result_simps]: "mk_run r = Inr r' \<longleftrightarrow> r' = r \<and> run_ok r \<and> variant_ok r"
  by (auto simp: mk_run_def result_simps run_post_init_iff variant_post_init_iff)

subsection \<open>New Runs\<close>

text \<open>The fresh identity of \<open>RunId.new()\<close> is the argument \<open>rid\<close>.\<close>

definition default_policy :: run_control_policy where
  "default_policy = \<lparr>rcp_audit_failure_mode = AUDIT_PAUSE\<rparr>"

definition create_root_agent_run ::
  "run_id \<Rightarrow> definition_id \<Rightarrow> agent_id \<Rightarrow> model_binding_ref \<Rightarrow> workspace_id \<Rightarrow> scope_ref \<Rightarrow> datetime
    \<Rightarrow> session_ref option \<Rightarrow> run_control_policy option \<Rightarrow> run result" where
  "create_root_agent_run rid def_id agent binding ws scope now session policy =
     mk_run \<lparr>r_id = rid, r_kind = KIND_AGENT, r_definition_id = def_id, r_root_id = rid,
       r_parent_id = None, r_workspace_id = ws, r_session_ref = session, r_scope = scope,
       r_status = CREATED, r_attempt = 1, r_version = 0, r_created_at = now, r_started_at = None,
       r_updated_at = Some now, r_ended_at = None, r_error = None, r_continuation = None,
       r_history = [], r_policy = (case policy of None \<Rightarrow> default_policy | Some p \<Rightarrow> p),
       r_variant = AgentRun agent binding\<rparr>"

definition create_root_workflow_run ::
  "run_id \<Rightarrow> definition_id \<Rightarrow> workflow_id \<Rightarrow> string \<Rightarrow> workspace_id \<Rightarrow> scope_ref \<Rightarrow> datetime
    \<Rightarrow> session_ref option \<Rightarrow> run_control_policy option \<Rightarrow> run result" where
  "create_root_workflow_run rid def_id workflow graph ws scope now session policy =
     mk_run \<lparr>r_id = rid, r_kind = KIND_WORKFLOW, r_definition_id = def_id, r_root_id = rid,
       r_parent_id = None, r_workspace_id = ws, r_session_ref = session, r_scope = scope,
       r_status = CREATED, r_attempt = 1, r_version = 0, r_created_at = now, r_started_at = None,
       r_updated_at = Some now, r_ended_at = None, r_error = None, r_continuation = None,
       r_history = [], r_policy = (case policy of None \<Rightarrow> default_policy | Some p \<Rightarrow> p),
       r_variant = WorkflowRun workflow graph None\<rparr>"

definition create_child_agent_run ::
  "run_id \<Rightarrow> run \<Rightarrow> definition_id \<Rightarrow> agent_id \<Rightarrow> model_binding_ref \<Rightarrow> scope_ref \<Rightarrow> datetime
    \<Rightarrow> run result" where
  "create_child_agent_run rid parent def_id agent binding scope now =
     (if terminal (r_status parent)
      then Inl (core_error CONFLICT ''terminal_parent''
                  ''a terminal WorkflowRun cannot create a child AgentRun'' False None)
      else rbind (require_narrower_than scope (r_scope parent)) (\<lambda>_.
        mk_run \<lparr>r_id = rid, r_kind = KIND_AGENT, r_definition_id = def_id,
          r_root_id = r_root_id parent, r_parent_id = Some (r_id parent),
          r_workspace_id = r_workspace_id parent, r_session_ref = r_session_ref parent,
          r_scope = scope, r_status = CREATED, r_attempt = 1, r_version = 0, r_created_at = now,
          r_started_at = None, r_updated_at = Some now, r_ended_at = None, r_error = None,
          r_continuation = None, r_history = [], r_policy = r_policy parent,
          r_variant = AgentRun agent binding\<rparr>))"

definition is_new_run :: "run \<Rightarrow> bool" where
  "is_new_run r \<longleftrightarrow> r_status r = CREATED \<and> r_attempt r = 1 \<and> r_version r = 0 \<and> r_history r = []
     \<and> r_started_at r = None \<and> r_ended_at r = None \<and> r_continuation r = None
     \<and> r_updated_at r = Some (r_created_at r) \<and> run_ok r \<and> variant_ok r"

lemma create_root_agent_run_new:
  "create_root_agent_run rid d a b ws sc now se po = Inr r \<Longrightarrow> is_new_run r"
  by (auto simp: create_root_agent_run_def result_simps is_new_run_def)

lemma create_root_workflow_run_new:
  "create_root_workflow_run rid d w g ws sc now se po = Inr r \<Longrightarrow> is_new_run r"
  by (auto simp: create_root_workflow_run_def result_simps is_new_run_def)

lemma create_child_agent_run_new:
  "create_child_agent_run rid p d a b sc now = Inr r \<Longrightarrow> is_new_run r"
  by (auto simp: create_child_agent_run_def result_simps is_new_run_def split: if_splits)

end
