(* ===== verification/Run_State_Machine.thy ===== *)
theory Run_State_Machine
  imports Run_Model
begin

section \<open>The Run lifecycle\<close>

text \<open>
  \<open>RunStateMachine\<close> of \<open>runtime/run.py\<close>, one definition per method. An operation takes the
  Run, the version its caller expects and the moment it runs at, and returns the
  transition or the exception it raises. \<open>run_step\<close> is one successful operation and
  \<open>reachable_run\<close> closes the three constructors under it.

  The invariant \<open>lifecycle_inv\<close> says, beyond the validator, how the attempt history and
  the status fit together: attempts are numbered from 1 without a gap, a Run in a working
  phase has its current attempt open, one that waits for a retry has not opened it yet, and
  a terminal one has closed them all.
\<close>

record run_transition =
  rt_previous :: run
  rt_current :: run
  rt_reason :: string

definition advance_targets :: "run_status \<Rightarrow> run_status set" where
  "advance_targets s = (case s of
     CREATED \<Rightarrow> {STARTING}
   | STARTING \<Rightarrow> {CONTEXT_LOADING}
   | CONTEXT_LOADING \<Rightarrow> {RUNNING}
   | RUNNING \<Rightarrow> {WAITING_APPROVAL, RECOVERING}
   | WAITING_APPROVAL \<Rightarrow> {RUNNING}
   | RECOVERING \<Rightarrow> {RUNNING}
   | _ \<Rightarrow> {})"

definition illegal :: "run \<Rightarrow> run_status \<Rightarrow> exn" where
  "illegal r target = core_error CONFLICT ''illegal_run_transition''
     (''cannot transition Run from '' @ status_value (r_status r) @ '' to '' @ status_value target)
     False None"

definition check_version :: "run \<Rightarrow> int \<Rightarrow> unit result" where
  "check_version r v =
     (if r_version r \<noteq> v
      then Inl (core_error CONFLICT ''stale_state_version''
                  ''Run state version does not match the expected version'' True None)
      else Inr ())"

text \<open>\<open>_replace\<close>: the changes, the next version, the time of the update, and the validator.\<close>

definition replace_run :: "run \<Rightarrow> datetime \<Rightarrow> (run \<Rightarrow> run) \<Rightarrow> run result" where
  "replace_run r now changes =
     mk_run ((changes r)\<lparr>r_version := r_version r + 1, r_updated_at := Some now\<rparr>)"

definition open_attempt :: "run \<Rightarrow> datetime \<Rightarrow> attempt_record list result" where
  "open_attempt r now =
     (if r_history r \<noteq> [] \<and> attempt_open (last (r_history r)) then Inr (r_history r)
      else rbind (new_attempt (r_attempt r) now None) (\<lambda>a. Inr (r_history r @ [a])))"

definition started_or :: "run \<Rightarrow> datetime \<Rightarrow> datetime" where
  "started_or r now = (case r_started_at r of None \<Rightarrow> now | Some t \<Rightarrow> t)"

definition close_attempt ::
  "run \<Rightarrow> datetime \<Rightarrow> attempt_outcome \<Rightarrow> error_summary option \<Rightarrow> attempt_record list result" where
  "close_attempt r now outcome err =
     rbind (if r_history r = [] \<or> \<not> attempt_open (last (r_history r))
            then rbind (new_attempt (r_attempt r) (started_or r now) None) (\<lambda>a. Inr (r_history r @ [a]))
            else Inr (r_history r)) (\<lambda>hs.
     rbind (attempt_close (last hs) outcome now err) (\<lambda>a. Inr (butlast hs @ [a])))"

definition transition :: "run \<Rightarrow> run \<Rightarrow> string \<Rightarrow> run_transition" where
  "transition p c why = \<lparr>rt_previous = p, rt_current = c, rt_reason = why\<rparr>"

lemma transition_sel [simp]:
  "rt_previous (transition p c w) = p" "rt_current (transition p c w) = c"
  "rt_reason (transition p c w) = w"
  by (simp_all add: transition_def)

subsection \<open>Operations\<close>

definition run_start :: "run \<Rightarrow> int \<Rightarrow> datetime \<Rightarrow> run_transition result" where
  "run_start r v now =
     rbind (check_version r v) (\<lambda>_.
     if r_status r = STARTING then Inr (transition r r ''start_idempotent'')
     else if r_status r \<noteq> CREATED then Inl (illegal r STARTING)
     else rbind (open_attempt r now) (\<lambda>hs.
     rbind (replace_run r now (\<lambda>r. r\<lparr>r_status := STARTING,
             r_started_at := Some (started_or r now), r_history := hs\<rparr>)) (\<lambda>c.
     Inr (transition r c ''start''))))"

definition run_advance :: "run \<Rightarrow> run_status \<Rightarrow> int \<Rightarrow> datetime \<Rightarrow> string \<Rightarrow> run_transition result" where
  "run_advance r target v now reason =
     rbind (check_version r v) (\<lambda>_.
     if r_status r = target then Inr (transition r r (reason @ ''_idempotent''))
     else if target \<notin> advance_targets (r_status r) then Inl (illegal r target)
     else rbind (if r_status r = RECOVERING \<and> target = RUNNING then open_attempt r now
                 else Inr (r_history r)) (\<lambda>hs.
     rbind (replace_run r now (\<lambda>r. r\<lparr>r_status := target, r_history := hs\<rparr>)) (\<lambda>c.
     Inr (transition r c reason))))"

definition run_pause :: "run \<Rightarrow> int \<Rightarrow> datetime \<Rightarrow> run_transition result" where
  "run_pause r v now =
     rbind (check_version r v) (\<lambda>_.
     if r_status r = PAUSED then Inr (transition r r ''pause_idempotent'')
     else if r_status r \<notin> {STARTING, CONTEXT_LOADING, RUNNING, WAITING_APPROVAL, RETRYING, RECOVERING}
       then Inl (illegal r PAUSED)
     else let continuation =
            (if r_status r = RECOVERING then Some RECOVERING
             else if r_status r \<noteq> RETRYING then Some (r_status r)
             else r_continuation r) in
     rbind (replace_run r now (\<lambda>r. r\<lparr>r_status := PAUSED, r_continuation := continuation\<rparr>)) (\<lambda>c.
     Inr (transition r c ''pause'')))"

definition run_resume :: "run \<Rightarrow> int \<Rightarrow> datetime \<Rightarrow> run_transition result" where
  "run_resume r v now =
     rbind (check_version r v) (\<lambda>_.
     case r_continuation r of
       None \<Rightarrow> Inl (illegal r RUNNING)
     | Some k \<Rightarrow>
       if r_status r \<noteq> PAUSED then Inl (illegal r RUNNING)
       else rbind (open_attempt r now) (\<lambda>hs.
         rbind (replace_run r now (\<lambda>r. r\<lparr>r_status := k, r_continuation := None, r_history := hs\<rparr>)) (\<lambda>c.
         Inr (transition r c ''resume''))))"

definition run_retry :: "run \<Rightarrow> int \<Rightarrow> datetime \<Rightarrow> error_detail \<Rightarrow> run_transition result" where
  "run_retry r v now err =
     rbind (check_version r v) (\<lambda>_.
     if \<not> ed_retryable err
       then Inl (core_error INVALID_REQUEST ''non_retryable_error''
                   ''retry requires a retryable error'' False None)
     else if r_status r \<notin> {STARTING, CONTEXT_LOADING, RUNNING} then Inl (illegal r RETRYING)
     else rbind (mk_error_summary err (r_attempt r) now) (\<lambda>summary.
     rbind (close_attempt r now AO_RETRYABLE_FAILURE (Some summary)) (\<lambda>hs.
     rbind (replace_run r now (\<lambda>r. r\<lparr>r_status := RETRYING, r_attempt := r_attempt r + 1,
             r_continuation := Some (r_status r), r_error := Some summary, r_history := hs\<rparr>)) (\<lambda>c.
     Inr (transition r c ''retry'')))))"

definition run_redispatch_retry :: "run \<Rightarrow> int \<Rightarrow> datetime \<Rightarrow> run_transition result" where
  "run_redispatch_retry r v now =
     rbind (check_version r v) (\<lambda>_.
     case r_continuation r of
       None \<Rightarrow> Inl (illegal r RUNNING)
     | Some k \<Rightarrow>
       if r_status r \<noteq> RETRYING then Inl (illegal r RUNNING)
       else rbind (open_attempt r now) (\<lambda>hs.
         rbind (replace_run r now (\<lambda>r. r\<lparr>r_status := k, r_continuation := None, r_history := hs\<rparr>)) (\<lambda>c.
         Inr (transition r c ''retry_redispatch''))))"

definition run_recover :: "run \<Rightarrow> int \<Rightarrow> datetime \<Rightarrow> checkpoint_id option \<Rightarrow> run_transition result" where
  "run_recover r v now ref =
     rbind (check_version r v) (\<lambda>_.
     let source = (if is_workflow r then or_else ref (latest_checkpoint r) else ref) in
     if is_workflow r \<and> source = None
       then Inl (core_error INVALID_REQUEST ''missing_recovery_checkpoint''
                   ''Workflow recovery requires a committed checkpoint marker'' False None)
     else if r_status r = RECOVERING then
       (let current = (if r_history r \<noteq> [] \<and> attempt_open (last (r_history r))
                       then at_checkpoint (last (r_history r)) else None) in
        if current = source then Inr (transition r r ''recover_idempotent'')
        else Inl (core_error CONFLICT ''recovery_source_conflict''
                    ''Run is already recovering from a different checkpoint'' False None))
     else if terminal (r_status r) \<or> r_status r = CREATED then Inl (illegal r RECOVERING)
     else rbind (close_attempt r now AO_INTERRUPTED None) (\<lambda>hs.
     rbind (new_attempt (r_attempt r + 1) now source) (\<lambda>a.
     rbind (replace_run r now (\<lambda>r. r\<lparr>r_status := RECOVERING, r_attempt := r_attempt r + 1,
             r_continuation := None, r_history := hs @ [a]\<rparr>)) (\<lambda>c.
     Inr (transition r c ''recover'')))))"

definition run_commit_checkpoint ::
  "run \<Rightarrow> int \<Rightarrow> datetime \<Rightarrow> checkpoint_id \<Rightarrow> checkpoint_id option \<Rightarrow> definition_id option
    \<Rightarrow> string option \<Rightarrow> run_transition result" where
  "run_commit_checkpoint r v now ref previous def_id graph =
     rbind (check_version r v) (\<lambda>_.
     case r_variant r of
       AgentRun _ _ \<Rightarrow> Inl (core_error INVALID_REQUEST ''checkpoint_requires_workflow_run''
                         ''only WorkflowRun may commit a checkpoint'' False None)
     | WorkflowRun w own_graph own_ref \<Rightarrow>
       if terminal (r_status r)
       then Inl (core_error CONFLICT ''terminal_checkpoint_commit''
                   ''terminal WorkflowRun cannot advance its checkpoint marker'' False None)
       else
         let target_def = (case def_id of None \<Rightarrow> r_definition_id r | Some d \<Rightarrow> d);
             target_graph = (case graph of None \<Rightarrow> own_graph | Some g \<Rightarrow> if g = [] then own_graph else g) in
         if own_ref = Some ref \<and> r_definition_id r = target_def \<and> own_graph = target_graph
         then Inr (transition r r ''checkpoint_commit_idempotent'')
         else if own_ref \<noteq> previous
         then Inl (core_error CONFLICT ''stale_checkpoint_marker''
                     ''WorkflowRun checkpoint marker does not match the expected reference'' True None)
         else rbind (replace_run r now (\<lambda>r. r\<lparr>r_definition_id := target_def,
                       r_variant := WorkflowRun w target_graph (Some ref)\<rparr>)) (\<lambda>c.
           Inr (transition r c (if target_def \<noteq> r_definition_id r \<or> target_graph \<noteq> own_graph
                                then ''checkpoint_migration_commit'' else ''checkpoint_commit''))))"

definition run_complete :: "run \<Rightarrow> int \<Rightarrow> datetime \<Rightarrow> run_transition result" where
  "run_complete r v now =
     rbind (check_version r v) (\<lambda>_.
     if r_status r = SUCCEEDED then Inr (transition r r ''complete_idempotent'')
     else if r_status r \<noteq> RUNNING then Inl (illegal r SUCCEEDED)
     else rbind (close_attempt r now AO_SUCCEEDED None) (\<lambda>hs.
     rbind (replace_run r now (\<lambda>r. r\<lparr>r_status := SUCCEEDED, r_ended_at := Some now,
             r_history := hs\<rparr>)) (\<lambda>c.
     Inr (transition r c ''complete''))))"

definition run_fail :: "run \<Rightarrow> int \<Rightarrow> datetime \<Rightarrow> error_detail \<Rightarrow> run_transition result" where
  "run_fail r v now err =
     rbind (check_version r v) (\<lambda>_.
     if r_status r = FAILED then Inr (transition r r ''fail_idempotent'')
     else if terminal (r_status r) then Inl (illegal r FAILED)
     else rbind (mk_error_summary err (r_attempt r) now) (\<lambda>summary.
     rbind (close_attempt r now AO_FINAL_FAILURE (Some summary)) (\<lambda>hs.
     rbind (replace_run r now (\<lambda>r. r\<lparr>r_status := FAILED, r_ended_at := Some now,
             r_continuation := None, r_error := Some summary, r_history := hs\<rparr>)) (\<lambda>c.
     Inr (transition r c ''fail'')))))"

definition run_cancel :: "run \<Rightarrow> int \<Rightarrow> datetime \<Rightarrow> run_transition result" where
  "run_cancel r v now =
     rbind (check_version r v) (\<lambda>_.
     if r_status r = CANCELLED then Inr (transition r r ''cancel_idempotent'')
     else if terminal (r_status r) then Inl (illegal r CANCELLED)
     else rbind (close_attempt r now AO_CANCELLED None) (\<lambda>hs.
     rbind (replace_run r now (\<lambda>r. r\<lparr>r_status := CANCELLED, r_ended_at := Some now,
             r_continuation := None, r_history := hs\<rparr>)) (\<lambda>c.
     Inr (transition r c ''cancel''))))"

subsection \<open>Steps\<close>

datatype run_op = OpStart | OpAdvance run_status string | OpPause | OpResume | OpRetry error_detail
  | OpRedispatch | OpRecover "checkpoint_id option"
  | OpCommit checkpoint_id "checkpoint_id option" "definition_id option" "string option"
  | OpComplete | OpFail error_detail | OpCancel

fun run_apply :: "run_op \<Rightarrow> run \<Rightarrow> int \<Rightarrow> datetime \<Rightarrow> run_transition result" where
  "run_apply OpStart r v now = run_start r v now"
| "run_apply (OpAdvance target why) r v now = run_advance r target v now why"
| "run_apply OpPause r v now = run_pause r v now"
| "run_apply OpResume r v now = run_resume r v now"
| "run_apply (OpRetry e) r v now = run_retry r v now e"
| "run_apply OpRedispatch r v now = run_redispatch_retry r v now"
| "run_apply (OpRecover ref) r v now = run_recover r v now ref"
| "run_apply (OpCommit ref prev d g) r v now = run_commit_checkpoint r v now ref prev d g"
| "run_apply OpComplete r v now = run_complete r v now"
| "run_apply (OpFail e) r v now = run_fail r v now e"
| "run_apply OpCancel r v now = run_cancel r v now"

lemmas run_op_defs = run_start_def run_advance_def run_pause_def run_resume_def run_retry_def
  run_redispatch_retry_def run_recover_def run_commit_checkpoint_def run_complete_def
  run_fail_def run_cancel_def

inductive run_step :: "run \<Rightarrow> run \<Rightarrow> bool" where
  "run_apply op r v now = Inr t \<Longrightarrow> run_step r (rt_current t)"

inductive_cases run_stepE: "run_step r r'"

inductive reachable_run :: "run \<Rightarrow> bool" where
  root_agent: "create_root_agent_run rid d a b ws sc now se po = Inr r \<Longrightarrow> reachable_run r"
| root_workflow: "create_root_workflow_run rid d w g ws sc now se po = Inr r \<Longrightarrow> reachable_run r"
| child_agent: "reachable_run p \<Longrightarrow> create_child_agent_run rid p d a b sc now = Inr r \<Longrightarrow> reachable_run r"
| step: "reachable_run r \<Longrightarrow> run_step r r' \<Longrightarrow> reachable_run r'"

lemma check_version_Inr [result_simps]: "check_version r v = Inr u \<longleftrightarrow> r_version r = v"
  by (auto simp: check_version_def)

lemma check_version_Inl [result_simps]:
  "check_version r v = Inl e \<longleftrightarrow> r_version r \<noteq> v \<and> e = core_error CONFLICT ''stale_state_version''
     ''Run state version does not match the expected version'' True None"
  by (auto simp: check_version_def)

lemma replace_run_Inr [result_simps]:
  "replace_run r now f = Inr r' \<longleftrightarrow>
     r' = (f r)\<lparr>r_version := r_version r + 1, r_updated_at := Some now\<rparr> \<and> run_ok r' \<and> variant_ok r'"
  by (auto simp: replace_run_def result_simps)

end
