(* ===== verification/Run_Invariant.thy ===== *)
theory Run_Invariant
  imports Run_State_Machine
begin

section \<open>The lifecycle invariant\<close>

text \<open>
  The invariant of \<open>RunStateMachine\<close>, its preservation by every operation, and what
  follows from it: terminal Runs are final, versions count the changes, failing and
  cancelling are always possible.
\<close>

definition attempt_numbers :: "run \<Rightarrow> int list" where
  "attempt_numbers r = List.map at_no (r_history r)"

definition attempts_pending :: "run \<Rightarrow> bool" where
  "attempts_pending r \<longleftrightarrow> attempt_numbers r = [1..r_attempt r - 1]"

definition attempts_open :: "run \<Rightarrow> bool" where
  "attempts_open r \<longleftrightarrow> attempt_numbers r = [1..r_attempt r] \<and> r_history r \<noteq> []
     \<and> attempt_open (last (r_history r))"

definition attempts_closed :: "run \<Rightarrow> bool" where
  "attempts_closed r \<longleftrightarrow> attempt_numbers r = [1..r_attempt r]
     \<and> list_all (\<lambda>a. \<not> attempt_open a) (r_history r)"

definition phase_inv :: "run \<Rightarrow> bool" where
  "phase_inv r \<longleftrightarrow> (case r_status r of
     CREATED \<Rightarrow> attempts_pending r
   | RETRYING \<Rightarrow> attempts_pending r
   | SUCCEEDED \<Rightarrow> attempts_closed r
   | FAILED \<Rightarrow> attempts_closed r
   | CANCELLED \<Rightarrow> attempts_closed r
   | _ \<Rightarrow> attempts_pending r \<or> attempts_open r)"

definition lifecycle_inv :: "run \<Rightarrow> bool" where
  "lifecycle_inv r \<longleftrightarrow> run_ok r \<and> variant_ok r \<and> phase_inv r"

lemmas attempts_defs = attempts_pending_def attempts_open_def attempts_closed_def attempt_numbers_def

lemma upto_snoc: "1 \<le> (n::int) \<Longrightarrow> [1..n] = [1..n - 1] @ [n]"
  by (rule upto_rec2)

lemma last_upto: "1 \<le> (n::int) \<Longrightarrow> last [1..n] = n"
  by (simp add: upto_snoc)

text \<open>Opening and closing the current attempt.\<close>

lemma open_attempt_numbers:
  assumes "open_attempt r now = Inr hs" "attempts_pending r \<or> attempts_open r" "run_ok r"
  shows "List.map at_no hs = [1..r_attempt r]" "hs \<noteq> []" "attempt_open (last hs)"
proof -
  have n: "1 \<le> r_attempt r" using assms(3) by (simp add: run_ok_def)
  have pend: "attempts_pending r"
    if "\<not> (r_history r \<noteq> [] \<and> attempt_open (last (r_history r)))"
    using assms(2) that by (auto simp: attempts_open_def)
  have op: "attempts_open r" if "r_history r \<noteq> [] \<and> attempt_open (last (r_history r))"
  proof -
    from that assms(3) have "at_no (last (r_history r)) = r_attempt r"
      by (simp add: run_ok_def)
    moreover have "at_no (last (r_history r)) = last (attempt_numbers r)"
      using that by (simp add: attempt_numbers_def last_map)
    moreover have "attempt_numbers r \<noteq> []"
      using that by (simp add: attempt_numbers_def)
    ultimately have "\<not> attempts_pending r"
      using last_upto [of "r_attempt r - 1"] by (auto simp: attempts_pending_def)
    with assms(2) show ?thesis by blast
  qed
  show "List.map at_no hs = [1..r_attempt r]" "hs \<noteq> []" "attempt_open (last hs)"
    using assms(1) pend op n upto_snoc [OF n]
    by (auto simp: open_attempt_def result_simps new_attempt_Inr attempts_defs attempt_open_def
        split: if_splits)
qed

lemma open_only_last_closed:
  "open_only_last hs \<Longrightarrow> \<not> attempt_open (last hs) \<Longrightarrow> list_all (\<lambda>a. \<not> attempt_open a) hs"
proof -
  assume *: "open_only_last hs" "\<not> attempt_open (last hs)"
  show ?thesis
  proof (cases hs rule: rev_cases)
    case Nil
    then show ?thesis by simp
  next
    case (snoc ys a)
    with * show ?thesis by (simp add: open_only_last_def)
  qed
qed

text \<open>
  The three situations of a history before it is closed: the current attempt is open, or it
  has not been opened yet.
\<close>

lemma close_attempt_numbers:
  assumes "close_attempt r now out err = Inr hs" "attempts_pending r \<or> attempts_open r" "run_ok r"
  shows "List.map at_no hs = [1..r_attempt r]" "list_all (\<lambda>a. \<not> attempt_open a) hs"
proof -
  have n: "1 \<le> r_attempt r" and ool: "open_only_last (r_history r)"
    using assms(3) by (simp_all add: run_ok_def)
  define ks where "ks = (if r_history r = [] \<or> \<not> attempt_open (last (r_history r))
    then r_history r @ [\<lparr>at_no = r_attempt r, at_started = started_or r now, at_ended = None,
      at_outcome = None, at_checkpoint = None, at_error = None\<rparr>] else r_history r)"
  obtain a where a: "attempt_close (last ks) out now err = Inr a" "hs = butlast ks @ [a]"
    using assms(1) by (auto simp: close_attempt_def result_simps new_attempt_Inr ks_def split: if_splits)
  have ks: "ks \<noteq> []" "list_all (\<lambda>a. \<not> attempt_open a) (butlast ks)"
    using ool open_only_last_closed [OF ool] by (auto simp: ks_def open_only_last_def)
  have num: "List.map at_no ks = [1..r_attempt r]"
  proof (cases "r_history r = [] \<or> \<not> attempt_open (last (r_history r))")
    case True
    with assms(2) have "attempts_pending r" by (auto simp: attempts_open_def)
    with True upto_snoc [OF n] show ?thesis by (simp add: ks_def attempts_defs)
  next
    case False
    then have "open_attempt r now = Inr (r_history r)" by (simp add: open_attempt_def)
    from open_attempt_numbers(1) [OF this assms(2,3)] False show ?thesis by (simp add: ks_def)
  qed
  have "at_no a = at_no (last ks)" "\<not> attempt_open a"
    using a(1) by (auto simp: attempt_close_Inr attempt_open_def)
  then have "List.map at_no hs = List.map at_no (butlast ks @ [last ks])"
    by (simp add: a(2))
  with ks num show "List.map at_no hs = [1..r_attempt r]" by simp
  show "list_all (\<lambda>a. \<not> attempt_open a) hs"
    using ks(2) \<open>\<not> attempt_open a\<close> by (simp add: a(2))
qed

lemma phase_started:
  "lifecycle_inv r \<Longrightarrow> \<not> terminal (r_status r) \<Longrightarrow> attempts_pending r \<or> attempts_open r"
  by (cases "r_status r") (auto simp: lifecycle_inv_def phase_inv_def)

lemma phase_inv_terminal: "terminal (r_status r) \<Longrightarrow> phase_inv r \<longleftrightarrow> attempts_closed r"
  by (auto simp: phase_inv_def terminal_def)

lemma phase_inv_waiting: "r_status r \<in> {CREATED, RETRYING} \<Longrightarrow> phase_inv r \<longleftrightarrow> attempts_pending r"
  by (auto simp: phase_inv_def)

lemma phase_inv_working:
  "\<not> terminal (r_status r) \<Longrightarrow> r_status r \<notin> {CREATED, RETRYING} \<Longrightarrow>
     phase_inv r \<longleftrightarrow> attempts_pending r \<or> attempts_open r"
  by (cases "r_status r") (auto simp: phase_inv_def)

lemmas phase_inv_simps = phase_inv_terminal phase_inv_waiting phase_inv_working

text \<open>The invariant looks at three fields only.\<close>

lemma phase_inv_cong:
  assumes "r_history r' = r_history r" "r_attempt r' = r_attempt r" "r_status r' = r_status r"
  shows "phase_inv r' \<longleftrightarrow> phase_inv r"
proof -
  from assms have "attempts_pending r' = attempts_pending r" "attempts_open r' = attempts_open r"
    "attempts_closed r' = attempts_closed r"
    by (simp_all add: attempts_defs)
  with assms(3) show ?thesis by (cases "r_status r") (simp_all add: phase_inv_def)
qed

text \<open>
  Every operation keeps the invariant. The argument is the same in each case: the Run that
  \<open>replace_run\<close> accepts passes the validator, and its history is the old one, or the old
  one with the current attempt opened, or with it closed.
\<close>

lemma inv_replaced:
  assumes "replace_run r now f = Inr c" "phase_inv (f r)"
  shows "lifecycle_inv c"
proof -
  from assms(1) have "c = (f r)\<lparr>r_version := r_version r + 1, r_updated_at := Some now\<rparr>
      \<and> run_ok c \<and> variant_ok c"
    by (rule replace_run_Inr [THEN iffD1])
  then have c: "c = (f r)\<lparr>r_version := r_version r + 1, r_updated_at := Some now\<rparr>"
    and ok: "run_ok c" "variant_ok c" by blast+
  have "phase_inv c \<longleftrightarrow> phase_inv (f r)"
    by (rule phase_inv_cong) (simp_all add: c)
  with assms(2) ok show ?thesis by (simp add: lifecycle_inv_def)
qed

lemma inv_opened:
  assumes "open_attempt r now = Inr hs" "lifecycle_inv r" "\<not> terminal (r_status r)"
    "r_history r' = hs" "r_attempt r' = r_attempt r" "\<not> terminal (r_status r')"
    "r_status r' \<notin> {CREATED, RETRYING}"
  shows "phase_inv r'"
proof -
  have "run_ok r" using assms(2) by (simp add: lifecycle_inv_def)
  from open_attempt_numbers [OF assms(1) phase_started [OF assms(2,3)] this] assms(4-)
  show ?thesis by (simp add: phase_inv_simps attempts_open_def attempt_numbers_def)
qed

lemma inv_closed:
  assumes "close_attempt r now out err = Inr hs" "lifecycle_inv r" "\<not> terminal (r_status r)"
  shows "List.map at_no hs = [1..r_attempt r]" "list_all (\<lambda>a. \<not> attempt_open a) hs"
  using close_attempt_numbers [OF assms(1) phase_started [OF assms(2,3)]] assms(2)
  by (simp_all add: lifecycle_inv_def)

lemma inv_ended:
  assumes "close_attempt r now out err = Inr hs" "lifecycle_inv r" "\<not> terminal (r_status r)"
    "r_history r' = hs" "r_attempt r' = r_attempt r" "terminal (r_status r')"
  shows "phase_inv r'"
  using inv_closed [OF assms(1-3)] assms(4-)
  by (simp add: phase_inv_simps attempts_closed_def attempt_numbers_def)

lemma start_inv:
  assumes "run_start r v now = Inr t" "lifecycle_inv r"
  shows "lifecycle_inv (rt_current t)"
proof (cases "r_status r = STARTING")
  case True
  with assms show ?thesis by (auto simp: run_start_def rbind_eq_Inr)
next
  case False
  with assms(1) obtain hs where st: "r_status r = CREATED" and hs: "open_attempt r now = Inr hs"
    and c: "replace_run r now (\<lambda>r. r\<lparr>r_status := STARTING, r_started_at := Some (started_or r now),
      r_history := hs\<rparr>) = Inr (rt_current t)"
    by (auto simp: run_start_def rbind_eq_Inr split: if_splits)
  from c show ?thesis
    by (rule inv_replaced) (use hs assms(2) st in \<open>auto intro: inv_opened [of r now]\<close>)
qed

lemma advance_inv:
  assumes "run_advance r target v now why = Inr t" "lifecycle_inv r"
  shows "lifecycle_inv (rt_current t)"
proof (cases "r_status r = target")
  case True
  with assms show ?thesis by (auto simp: run_advance_def result_simps)
next
  case False
  with assms(1) obtain hs where tgt: "target \<in> advance_targets (r_status r)"
    and hs: "(if r_status r = RECOVERING \<and> target = RUNNING then open_attempt r now
                 else Inr (r_history r)) = Inr hs"
    and c: "replace_run r now (\<lambda>r. r\<lparr>r_status := target, r_history := hs\<rparr>) = Inr (rt_current t)"
    by (auto simp: run_advance_def rbind_eq_Inr split: if_splits)
  have live: "\<not> terminal (r_status r)" "\<not> terminal target" "target \<notin> {CREATED, RETRYING}"
    using tgt by (auto simp: advance_targets_def split: run_status.splits)
  have "phase_inv (r\<lparr>r_status := target, r_history := hs\<rparr>)"
  proof (cases "r_status r = RECOVERING \<and> target = RUNNING")
    case True
    with hs assms(2) live show ?thesis by (auto intro: inv_opened [of r now])
  next
    case False
    with hs live phase_started [OF assms(2) live(1)] show ?thesis
      by (auto simp: phase_inv_simps attempts_defs)
  qed
  with c show ?thesis by (rule inv_replaced)
qed

lemma pause_inv:
  assumes "run_pause r v now = Inr t" "lifecycle_inv r"
  shows "lifecycle_inv (rt_current t)"
proof (cases "r_status r = PAUSED")
  case True
  with assms show ?thesis by (auto simp: run_pause_def rbind_eq_Inr)
next
  case False
  with assms(1) obtain k where c: "replace_run r now (\<lambda>r. r\<lparr>r_status := PAUSED, r_continuation := k\<rparr>)
      = Inr (rt_current t)" and live: "\<not> terminal (r_status r)"
    by (auto simp: run_pause_def rbind_eq_Inr Let_def split: if_splits)
  have "phase_inv (r\<lparr>r_status := PAUSED, r_continuation := k\<rparr>)"
    using phase_started [OF assms(2) live] by (auto simp: phase_inv_simps attempts_defs)
  with c show ?thesis by (rule inv_replaced)
qed

lemma resume_inv:
  assumes "run_resume r v now = Inr t" "lifecycle_inv r"
  shows "lifecycle_inv (rt_current t)"
proof -
  from assms(1) obtain k hs where k: "r_continuation r = Some k" "r_status r = PAUSED"
    and hs: "open_attempt r now = Inr hs"
    and c: "replace_run r now (\<lambda>r. r\<lparr>r_status := k, r_continuation := None, r_history := hs\<rparr>)
      = Inr (rt_current t)"
    by (auto simp: run_resume_def rbind_eq_Inr split: if_splits option.splits)
  have "\<not> terminal k" "k \<notin> {CREATED, RETRYING}"
    using assms(2) k by (auto simp: lifecycle_inv_def run_ok_def continuation_ok_def allowed_continuations_def)
  with c hs assms(2) k show ?thesis
    by (intro inv_replaced [OF c] inv_opened [OF hs]) auto
qed

lemma redispatch_inv:
  assumes "run_redispatch_retry r v now = Inr t" "lifecycle_inv r"
  shows "lifecycle_inv (rt_current t)"
proof -
  from assms(1) obtain k hs where k: "r_continuation r = Some k" "r_status r = RETRYING"
    and hs: "open_attempt r now = Inr hs"
    and c: "replace_run r now (\<lambda>r. r\<lparr>r_status := k, r_continuation := None, r_history := hs\<rparr>)
      = Inr (rt_current t)"
    by (auto simp: run_redispatch_retry_def rbind_eq_Inr split: if_splits option.splits)
  have "\<not> terminal k" "k \<notin> {CREATED, RETRYING}"
    using assms(2) k by (auto simp: lifecycle_inv_def run_ok_def continuation_ok_def allowed_continuations_def)
  with c hs assms(2) k show ?thesis
    by (intro inv_replaced [OF c] inv_opened [OF hs]) auto
qed

lemma retry_inv:
  assumes "run_retry r v now err = Inr t" "lifecycle_inv r"
  shows "lifecycle_inv (rt_current t)"
proof -
  from assms(1) obtain su hs where st: "r_status r \<in> {STARTING, CONTEXT_LOADING, RUNNING}"
    and hs: "close_attempt r now AO_RETRYABLE_FAILURE (Some su) = Inr hs"
    and c: "replace_run r now (\<lambda>r. r\<lparr>r_status := RETRYING, r_attempt := r_attempt r + 1,
        r_continuation := Some (r_status r), r_error := Some su, r_history := hs\<rparr>) = Inr (rt_current t)"
    by (auto simp: run_retry_def rbind_eq_Inr split: if_splits)
  from st have "\<not> terminal (r_status r)" by auto
  from inv_closed [OF hs assms(2) this] c show ?thesis
    by (intro inv_replaced [OF c]) (simp add: phase_inv_simps attempts_defs)
qed

lemma recover_inv:
  assumes "run_recover r v now ref = Inr t" "lifecycle_inv r"
  shows "lifecycle_inv (rt_current t)"
proof (cases "r_status r = RECOVERING")
  case True
  with assms show ?thesis by (auto simp: run_recover_def rbind_eq_Inr Let_def split: if_splits)
next
  case False
  with assms(1) obtain hs src a where live: "\<not> terminal (r_status r)"
    and hs: "close_attempt r now AO_INTERRUPTED None = Inr hs"
    and a: "new_attempt (r_attempt r + 1) now src = Inr a"
    and c: "replace_run r now (\<lambda>r. r\<lparr>r_status := RECOVERING, r_attempt := r_attempt r + 1,
        r_continuation := None, r_history := hs @ [a]\<rparr>) = Inr (rt_current t)"
    by (auto simp: run_recover_def rbind_eq_Inr Let_def split: if_splits)
  have "1 \<le> r_attempt r" using assms(2) by (simp add: lifecycle_inv_def run_ok_def)
  with inv_closed [OF hs assms(2) live] a c show ?thesis
    by (intro inv_replaced [OF c])
      (auto simp: phase_inv_simps attempts_defs new_attempt_Inr attempt_open_def
        upto_snoc [of "r_attempt r + 1"])
qed

lemma commit_inv:
  assumes "run_commit_checkpoint r v now ref prev d g = Inr t" "lifecycle_inv r"
  shows "lifecycle_inv (rt_current t)"
proof -
  from assms(1) consider "rt_current t = r"
    | w td tg where "replace_run r now (\<lambda>r. r\<lparr>r_definition_id := td,
        r_variant := WorkflowRun w tg (Some ref)\<rparr>) = Inr (rt_current t)"
    by (auto simp: run_commit_checkpoint_def rbind_eq_Inr Let_def split: if_splits run_variant.splits)
  then show ?thesis
  proof cases
    case 1
    with assms(2) show ?thesis by simp
  next
    case (2 w td tg)
    have pf: "phase_inv (r\<lparr>r_definition_id := td, r_variant := WorkflowRun w tg (Some ref)\<rparr>)
        \<longleftrightarrow> phase_inv r" by (rule phase_inv_cong) simp_all
    from 2 show ?thesis
      by (rule inv_replaced) (use pf assms(2) in \<open>simp add: lifecycle_inv_def\<close>)
  qed
qed

lemma complete_inv:
  assumes "run_complete r v now = Inr t" "lifecycle_inv r"
  shows "lifecycle_inv (rt_current t)"
proof (cases "r_status r = SUCCEEDED")
  case True
  with assms show ?thesis by (auto simp: run_complete_def rbind_eq_Inr)
next
  case False
  with assms(1) obtain hs where st: "r_status r = RUNNING"
    and hs: "close_attempt r now AO_SUCCEEDED None = Inr hs"
    and c: "replace_run r now (\<lambda>r. r\<lparr>r_status := SUCCEEDED, r_ended_at := Some now,
        r_history := hs\<rparr>) = Inr (rt_current t)"
    by (auto simp: run_complete_def rbind_eq_Inr split: if_splits)
  with c hs assms(2) show ?thesis
    by (intro inv_replaced [OF c] inv_ended [OF hs]) auto
qed

lemma fail_inv:
  assumes "run_fail r v now err = Inr t" "lifecycle_inv r"
  shows "lifecycle_inv (rt_current t)"
proof (cases "r_status r = FAILED")
  case True
  with assms show ?thesis by (auto simp: run_fail_def rbind_eq_Inr)
next
  case False
  with assms(1) obtain hs su where live: "\<not> terminal (r_status r)"
    and hs: "close_attempt r now AO_FINAL_FAILURE (Some su) = Inr hs"
    and c: "replace_run r now (\<lambda>r. r\<lparr>r_status := FAILED, r_ended_at := Some now,
        r_continuation := None, r_error := Some su, r_history := hs\<rparr>) = Inr (rt_current t)"
    by (auto simp: run_fail_def rbind_eq_Inr split: if_splits)
  with c hs assms(2) show ?thesis
    by (intro inv_replaced [OF c] inv_ended [OF hs]) auto
qed

lemma cancel_inv:
  assumes "run_cancel r v now = Inr t" "lifecycle_inv r"
  shows "lifecycle_inv (rt_current t)"
proof (cases "r_status r = CANCELLED")
  case True
  with assms show ?thesis by (auto simp: run_cancel_def rbind_eq_Inr)
next
  case False
  with assms(1) obtain hs where live: "\<not> terminal (r_status r)"
    and hs: "close_attempt r now AO_CANCELLED None = Inr hs"
    and c: "replace_run r now (\<lambda>r. r\<lparr>r_status := CANCELLED, r_ended_at := Some now,
        r_continuation := None, r_history := hs\<rparr>) = Inr (rt_current t)"
    by (auto simp: run_cancel_def rbind_eq_Inr split: if_splits)
  with c hs assms(2) show ?thesis
    by (intro inv_replaced [OF c] inv_ended [OF hs]) auto
qed

lemmas op_inv = start_inv advance_inv pause_inv resume_inv retry_inv redispatch_inv recover_inv
  commit_inv complete_inv fail_inv cancel_inv

lemma run_apply_inv: "run_apply op r v now = Inr t \<Longrightarrow> lifecycle_inv r \<Longrightarrow> lifecycle_inv (rt_current t)"
  by (cases op) (auto intro: op_inv)

lemma new_run_inv: "is_new_run r \<Longrightarrow> lifecycle_inv r"
  by (simp add: is_new_run_def lifecycle_inv_def phase_inv_def attempts_defs)

lemma reachable_lifecycle_inv: "reachable_run r \<Longrightarrow> lifecycle_inv r"
proof (induction rule: reachable_run.induct)
  case (step r r')
  then show ?case by (auto elim!: run_stepE intro: run_apply_inv)
qed (auto intro: new_run_inv create_root_agent_run_new create_root_workflow_run_new
      create_child_agent_run_new)

subsection \<open>Versions\<close>

text \<open>A successful operation saw the current version, and changes the Run at most once.\<close>

lemma run_apply_version_seen: "run_apply op r v now = Inr t \<Longrightarrow> r_version r = v"
  by (cases op) (auto simp: run_op_defs rbind_eq_Inr check_version_Inr)

lemma replace_run_version: "replace_run r now f = Inr c \<Longrightarrow> r_version c = r_version r + 1"
  by (auto simp: replace_run_def mk_run_def rbind_eq_Inr)

lemma run_apply_version_yields:
  "yields (\<lambda>t. rt_previous t = r \<and> (rt_current t = r \<or> r_version (rt_current t) = r_version r + 1))
     (run_apply op r v now)"
  by (cases op; hypsubst; unfold run_apply.simps run_op_defs; intro post_intros;
     simp (no_asm) only: transition_sel simp_thms; (drule replace_run_version, simp))

lemmas run_apply_version = yieldsD [OF run_apply_version_yields]

lemma run_apply_stale:
  assumes "r_version r \<noteq> v"
  shows "run_apply op r v now = Inl (core_error CONFLICT ''stale_state_version''
     ''Run state version does not match the expected version'' True None)"
proof -
  have "check_version r v = Inl (core_error CONFLICT ''stale_state_version''
     ''Run state version does not match the expected version'' True None)"
    using assms by (simp add: check_version_def)
  then show ?thesis by (cases op) (simp_all add: run_op_defs)
qed

subsection \<open>Terminal Runs\<close>

lemma terminal_not_continued: "run_ok r \<Longrightarrow> terminal (r_status r) \<Longrightarrow> r_continuation r = None"
  by (auto simp: run_ok_def continuation_ok_def terminal_def)

lemma terminal_cases:
  assumes "terminal s"
  obtains "s = SUCCEEDED" | "s = FAILED" | "s = CANCELLED"
  using assms by (auto simp: terminal_def)

text \<open>No operation changes a terminal Run: it is refused, or it is idempotent.\<close>

lemma run_apply_terminal:
  assumes "run_apply op r v now = Inr t" "terminal (r_status r)" "run_ok r"
  shows "rt_current t = r"
proof -
  have st: "r_status r \<notin> {CREATED, STARTING, CONTEXT_LOADING, RUNNING, WAITING_APPROVAL, PAUSED,
      RETRYING, RECOVERING}" "advance_targets (r_status r) = {}" "r_continuation r = None"
    using assms(2) terminal_not_continued [OF assms(3,2)]
    by (auto simp: advance_targets_def terminal_def)
  have "yields (\<lambda>t. rt_current t = r) (run_apply op r v now)"
    by (cases op; hypsubst; unfold run_apply.simps run_op_defs; intro post_intros;
        (simp (no_asm); fail)?; use assms(2) st in simp)
  then show ?thesis using assms(1) by (rule yieldsD)
qed

subsection \<open>Identity\<close>

definition same_identity :: "run \<Rightarrow> run \<Rightarrow> bool" where
  "same_identity r r' \<longleftrightarrow> r_id r' = r_id r \<and> r_kind r' = r_kind r \<and> r_root_id r' = r_root_id r
     \<and> r_parent_id r' = r_parent_id r \<and> r_workspace_id r' = r_workspace_id r
     \<and> r_session_ref r' = r_session_ref r \<and> r_scope r' = r_scope r
     \<and> r_created_at r' = r_created_at r \<and> r_policy r' = r_policy r"

lemma replace_run_eq:
  "replace_run r now f = Inr c \<Longrightarrow> c = (f r)\<lparr>r_version := r_version r + 1, r_updated_at := Some now\<rparr>"
  by (auto simp: replace_run_def mk_run_def rbind_eq_Inr)

lemma same_identity_refl: "same_identity r r"
  by (simp add: same_identity_def)

lemma replace_run_identity: "replace_run r now f = Inr c \<Longrightarrow> same_identity r (f r) \<Longrightarrow> same_identity r c"
  by (drule replace_run_eq) (simp add: same_identity_def)

lemma run_apply_identity_yields: "yields (\<lambda>t. same_identity r (rt_current t)) (run_apply op r v now)"
  by (cases op; hypsubst; unfold run_apply.simps run_op_defs; intro post_intros;
     simp (no_asm) only: transition_sel;
     (rule same_identity_refl | (erule replace_run_identity, simp (no_asm) add: same_identity_def)))

lemmas run_apply_identity = yieldsD [OF run_apply_identity_yields]

text \<open>The attempt history only grows: closed attempts are never rewritten.\<close>

definition closed_prefix :: "run \<Rightarrow> attempt_record list" where
  "closed_prefix r = filter (\<lambda>a. \<not> attempt_open a) (r_history r)"

definition history_grows :: "run \<Rightarrow> attempt_record list \<Rightarrow> bool" where
  "history_grows r hs \<longleftrightarrow> (\<exists>zs. filter (\<lambda>a. \<not> attempt_open a) hs = closed_prefix r @ zs)"

lemma closed_prefix_filter:
  "open_only_last hs \<Longrightarrow> filter (\<lambda>a. \<not> attempt_open a) hs
     = (if hs \<noteq> [] \<and> attempt_open (last hs) then butlast hs else hs)"
proof (cases hs rule: rev_cases)
  case (snoc ys a)
  assume "open_only_last hs"
  with snoc have "filter (\<lambda>a. \<not> attempt_open a) ys = ys"
    by (simp add: open_only_last_def filter_id_conv list_all_iff)
  with snoc show ?thesis by simp
qed simp

lemma history_grows_same: "history_grows r (r_history r)"
  by (simp add: history_grows_def closed_prefix_def)

lemma history_grows_append: "history_grows r hs \<Longrightarrow> history_grows r (hs @ [a])"
  unfolding history_grows_def by (metis append_assoc filter_append)

lemma history_grows_open: "open_attempt r now = Inr hs \<Longrightarrow> history_grows r hs"
proof -
  assume "open_attempt r now = Inr hs"
  then consider "hs = r_history r" | a where "hs = r_history r @ [a]"
    by (auto simp: open_attempt_def rbind_eq_Inr split: if_splits)
  then show ?thesis by cases (auto intro: history_grows_same history_grows_append)
qed

lemma history_grows_close:
  assumes "close_attempt r now out err = Inr hs" "run_ok r"
  shows "history_grows r hs"
proof -
  have ool: "open_only_last (r_history r)" using assms(2) by (simp add: run_ok_def)
  show ?thesis
  proof (cases "r_history r = [] \<or> \<not> attempt_open (last (r_history r))")
    case True
    with assms(1) obtain a where "hs = r_history r @ [a]"
      by (auto simp: close_attempt_def rbind_eq_Inr)
    then show ?thesis by (simp add: history_grows_same history_grows_append)
  next
    case False
    with assms(1) obtain a where "hs = butlast (r_history r) @ [a]"
      by (auto simp: close_attempt_def rbind_eq_Inr)
    moreover have "filter (\<lambda>a. \<not> attempt_open a) (butlast (r_history r)) = butlast (r_history r)"
      using ool by (simp add: open_only_last_def filter_id_conv list_all_iff)
    ultimately show ?thesis
      using False closed_prefix_filter [OF ool] by (simp add: closed_prefix_def history_grows_def)
  qed
qed

lemma history_grows_advance:
  "(if c then open_attempt r now else Inr (r_history r)) = Inr hs \<Longrightarrow> history_grows r hs"
  by (auto intro: history_grows_open history_grows_same split: if_splits)

lemma history_grows_replaced:
  "replace_run r now f = Inr c \<Longrightarrow> history_grows r (r_history (f r)) \<Longrightarrow> history_grows r (r_history c)"
  by (drule replace_run_eq) simp

lemma run_apply_grows_yields:
  assumes "run_ok r"
  shows "yields (\<lambda>t. history_grows r (r_history (rt_current t))) (run_apply op r v now)"
  by (cases op; hypsubst; unfold run_apply.simps run_op_defs; intro post_intros;
      simp (no_asm) only: transition_sel;
      (rule history_grows_same | (erule history_grows_replaced, simp (no_asm),
        (rule history_grows_same | erule history_grows_open | erule history_grows_advance
         | erule history_grows_close [OF _ assms]
         | (rule history_grows_append, erule history_grows_close [OF _ assms])))))

lemmas run_apply_grows = yieldsD [OF run_apply_grows_yields]

end
