(* ===== verification/Run_Progress.thy ===== *)
theory Run_Progress
  imports Run_Invariant
begin

section \<open>Progress of the lifecycle\<close>

text \<open>
  What the operations achieve: failing and cancelling are possible from every live phase, a
  pause is undone by a resume, a Run succeeds only from \<open>RUNNING\<close>, and the attempt counter
  moves only when an attempt ends. The last section records the one path into \<open>STARTING\<close>
  that skips what \<open>start\<close> does.
\<close>

subsection \<open>Ending a Run\<close>

text \<open>
  The clock has not run behind the open attempt, or behind the start of the Run when no
  attempt is open: the moment \<open>close\<close> compares against.
\<close>

definition clock_ok :: "run \<Rightarrow> datetime \<Rightarrow> bool" where
  "clock_ok r now \<longleftrightarrow>
     (if r_history r \<noteq> [] \<and> attempt_open (last (r_history r))
      then at_started (last (r_history r)) \<le> now else started_or r now \<le> now)"

lemma at_no_positive: "lifecycle_inv r \<Longrightarrow> a \<in> set (r_history r) \<Longrightarrow> 1 \<le> at_no a"
proof -
  assume *: "lifecycle_inv r" "a \<in> set (r_history r)"
  have "attempts_pending r \<or> attempts_open r \<or> attempts_closed r"
    using *(1) by (cases "r_status r") (auto simp: lifecycle_inv_def phase_inv_def)
  moreover have "at_no a \<in> set (attempt_numbers r)"
    using *(2) by (simp add: attempt_numbers_def)
  ultimately show "1 \<le> at_no a"
    by (auto simp: attempts_pending_def attempts_open_def attempts_closed_def)
qed

lemma close_attempt_possible:
  assumes "lifecycle_inv r" "\<not> terminal (r_status r)" "clock_ok r now"
  shows "\<exists>hs. close_attempt r now out err = Inr hs"
proof (cases "r_history r = [] \<or> \<not> attempt_open (last (r_history r))")
  case True
  have "1 \<le> r_attempt r" using assms(1) by (simp add: lifecycle_inv_def run_ok_def)
  then obtain a where a: "new_attempt (r_attempt r) (started_or r now) None = Inr a"
    by (auto simp: new_attempt_Inr)
  then have "attempt_open a" "1 \<le> at_no a" "at_started a \<le> now"
    using True assms(3) by (auto simp: new_attempt_Inr attempt_open_def clock_ok_def)
  then obtain b where "attempt_close a out now err = Inr b"
    by (auto simp: attempt_close_Inr)
  with True a show ?thesis by (simp add: close_attempt_def)
next
  case False
  then have "last (r_history r) \<in> set (r_history r)" by simp
  from at_no_positive [OF assms(1) this] False assms(3)
  obtain b where "attempt_close (last (r_history r)) out now err = Inr b"
    by (auto simp: attempt_close_Inr clock_ok_def)
  with False show ?thesis by (simp add: close_attempt_def)
qed

lemma sorted_upto_strict: "sorted_wrt (<) [i..j]"
  by (simp add: strict_sorted_iff)

lemma ended_run_ok:
  assumes "lifecycle_inv r" "\<not> terminal (r_status r)" "close_attempt r now out err = Inr hs"
    and "r_history c = hs" "r_attempt c = r_attempt r" "r_version c = r_version r + 1"
    and "r_id c = r_id r" "r_root_id c = r_root_id r" "r_parent_id c = r_parent_id r"
    and "terminal (r_status c)" "r_ended_at c \<noteq> None" "r_continuation c = None"
    and "r_kind c = r_kind r" "r_variant c = r_variant r"
  shows "run_ok c \<and> variant_ok c"
proof
  have nums: "List.map at_no hs = [1..r_attempt r]" "list_all (\<lambda>a. \<not> attempt_open a) hs"
    using inv_closed [OF assms(3,1,2)] by simp_all
  have r: "run_ok r" "variant_ok r" using assms(1) by (simp_all add: lifecycle_inv_def)
  have n: "1 \<le> r_attempt r" using r(1) by (simp add: run_ok_def)
  have "hs \<noteq> []" using nums(1) n by auto
  then have "at_no (last hs) = r_attempt r"
    using nums(1) last_upto [OF n] by (metis last_map)
  moreover have "open_only_last hs"
    using nums(2) by (auto simp: open_only_last_def list_all_iff dest: in_set_butlastD)
  moreover have "r_status c \<notin> {PAUSED, RETRYING}" using assms(10) by auto
  ultimately show "run_ok c"
    using r(1) assms(4-12) nums sorted_upto_strict [of 1 "r_attempt r"] n
    unfolding run_ok_def continuation_ok_def by simp
  show "variant_ok c"
    using r(2) assms(13,14) by (simp add: variant_ok_def split: run_variant.splits)
qed

lemma cancel_possible:
  assumes "lifecycle_inv r" "\<not> terminal (r_status r)" "clock_ok r now"
  shows "\<exists>c. run_cancel r (r_version r) now = Inr (transition r c ''cancel'') \<and> r_status c = CANCELLED"
proof -
  obtain hs where hs: "close_attempt r now AO_CANCELLED None = Inr hs"
    using close_attempt_possible [OF assms] by blast
  define c where "c = r\<lparr>r_status := CANCELLED, r_ended_at := Some now, r_continuation := None,
    r_history := hs, r_version := r_version r + 1, r_updated_at := Some now\<rparr>"
  have "run_ok c \<and> variant_ok c"
    by (rule ended_run_ok [OF assms(1,2) hs]) (simp_all add: c_def)
  then have "replace_run r now (\<lambda>r. r\<lparr>r_status := CANCELLED, r_ended_at := Some now,
      r_continuation := None, r_history := hs\<rparr>) = Inr c"
    by (simp add: replace_run_Inr c_def)
  then have "run_cancel r (r_version r) now = Inr (transition r c ''cancel'')"
    using assms(2) hs by (auto simp: run_cancel_def check_version_def)
  then show ?thesis by (auto simp: c_def)
qed

lemma fail_possible:
  assumes "lifecycle_inv r" "\<not> terminal (r_status r)" "clock_ok r now"
  shows "\<exists>c. run_fail r (r_version r) now err = Inr (transition r c ''fail'') \<and> r_status c = FAILED"
proof -
  have "1 \<le> r_attempt r" using assms(1) by (simp add: lifecycle_inv_def run_ok_def)
  then obtain su where su: "mk_error_summary err (r_attempt r) now = Inr su"
    by (simp add: mk_error_summary_def)
  obtain hs where hs: "close_attempt r now AO_FINAL_FAILURE (Some su) = Inr hs"
    using close_attempt_possible [OF assms] by blast
  define c where "c = r\<lparr>r_status := FAILED, r_ended_at := Some now, r_continuation := None,
    r_error := Some su, r_history := hs, r_version := r_version r + 1, r_updated_at := Some now\<rparr>"
  have "run_ok c \<and> variant_ok c"
    by (rule ended_run_ok [OF assms(1,2) hs]) (simp_all add: c_def)
  then have "replace_run r now (\<lambda>r. r\<lparr>r_status := FAILED, r_ended_at := Some now,
      r_continuation := None, r_error := Some su, r_history := hs\<rparr>) = Inr c"
    by (simp add: replace_run_Inr c_def)
  then have "run_fail r (r_version r) now err = Inr (transition r c ''fail'')"
    using assms(2) su hs by (auto simp: run_fail_def check_version_def)
  then show ?thesis by (auto simp: c_def)
qed

subsection \<open>Edges of the state diagram\<close>

text \<open>Every edge an operation can take, apart from staying where it is.\<close>

definition status_edge :: "run_status \<Rightarrow> run_status \<Rightarrow> bool" where
  "status_edge s s' \<longleftrightarrow> s' = s \<or> s' \<in> advance_targets s
     \<or> (s' = PAUSED \<and> s \<in> {STARTING, CONTEXT_LOADING, RUNNING, WAITING_APPROVAL, RETRYING, RECOVERING})
     \<or> (s = PAUSED \<and> s' \<in> {STARTING, CONTEXT_LOADING, RUNNING, WAITING_APPROVAL, RECOVERING})
     \<or> (s' = RETRYING \<and> s \<in> {STARTING, CONTEXT_LOADING, RUNNING})
     \<or> (s = RETRYING \<and> s' \<in> {STARTING, CONTEXT_LOADING, RUNNING})
     \<or> (s' = RECOVERING \<and> \<not> terminal s \<and> s \<noteq> CREATED)
     \<or> (s' = SUCCEEDED \<and> s = RUNNING)
     \<or> (s' \<in> {FAILED, CANCELLED} \<and> \<not> terminal s)"

lemma replace_run_status: "replace_run r now f = Inr c \<Longrightarrow> r_status c = r_status (f r)"
  by (drule replace_run_eq) simp

lemma continuation_statuses:
  "run_ok r \<Longrightarrow> r_continuation r = Some k \<Longrightarrow>
     (r_status r = PAUSED \<longrightarrow> k \<in> {STARTING, CONTEXT_LOADING, RUNNING, WAITING_APPROVAL, RECOVERING})
     \<and> (r_status r = RETRYING \<longrightarrow> k \<in> {STARTING, CONTEXT_LOADING, RUNNING})"
  by (auto simp: run_ok_def continuation_ok_def allowed_continuations_def)

lemma run_apply_edge_yields:
  assumes "run_ok r"
  shows "yields (\<lambda>t. status_edge (r_status r) (r_status (rt_current t))) (run_apply op r v now)"
  by (cases op; hypsubst; unfold run_apply.simps run_op_defs; intro post_intros;
      simp (no_asm) only: transition_sel;
      (simp (no_asm) add: status_edge_def; fail)?;
      (drule replace_run_status, use continuation_statuses [OF assms] in \<open>auto simp: status_edge_def advance_targets_def\<close>)?)

lemmas run_apply_edge = yieldsD [OF run_apply_edge_yields]

subsection \<open>Pausing and resuming\<close>

text \<open>The statuses a pause leaves and a resume returns to.\<close>

lemma pause_resume:
  assumes inv: "lifecycle_inv r"
    and st: "r_status r \<in> {STARTING, CONTEXT_LOADING, RUNNING, WAITING_APPROVAL, RECOVERING}"
    and p: "run_pause r v t1 = Inr tp"
  shows "\<exists>c. run_resume (rt_current tp) (v + 1) t2 = Inr (transition (rt_current tp) c ''resume'')
    \<and> r_status c = r_status r \<and> r_attempt c = r_attempt r \<and> r_continuation c = None \<and> attempts_open c"
proof -
  define q where "q = rt_current tp"
  have v: "r_version r = v" using p run_apply_version_seen [of OpPause r v t1 tp] by simp
  have rep: "replace_run r t1 (\<lambda>x. x\<lparr>r_status := PAUSED, r_continuation := Some (r_status r)\<rparr>) = Inr q"
    using p st by (auto simp: run_pause_def rbind_eq_Inr Let_def q_def)
  from replace_run_eq [OF rep] have q: "q = r\<lparr>r_status := PAUSED, r_continuation := Some (r_status r),
      r_version := v + 1, r_updated_at := Some t1\<rparr>" using v by simp
  have qinv: "lifecycle_inv q" using pause_inv [OF p inv] by (simp add: q_def)
  then have qok: "run_ok q" and live: "\<not> terminal (r_status q)"
    by (simp_all add: lifecycle_inv_def q)
  have n: "1 \<le> r_attempt q" using qok by (simp add: run_ok_def)
  then obtain hs where hs: "open_attempt q t2 = Inr hs"
    by (cases "r_history q \<noteq> [] \<and> attempt_open (last (r_history q))")
      (auto simp: open_attempt_def new_attempt_def mk_attempt_def)
  note nums = open_attempt_numbers [OF hs phase_started [OF qinv live] qok]
  define c where "c = q\<lparr>r_status := r_status r, r_continuation := None, r_history := hs,
    r_version := v + 2, r_updated_at := Some t2\<rparr>"
  have lasthd: "at_no (last hs) = r_attempt q"
    using nums(1,2) last_upto [OF n] by (metis last_map)
  have ool: "open_only_last hs"
  proof (cases "r_history q \<noteq> [] \<and> attempt_open (last (r_history q))")
    case True
    with hs qok show ?thesis by (simp add: open_attempt_def run_ok_def)
  next
    case False
    with hs obtain a where "hs = r_history q @ [a]"
      by (auto simp: open_attempt_def rbind_eq_Inr)
    moreover have "list_all (\<lambda>a. \<not> attempt_open a) (r_history q)"
      using False qok open_only_last_closed [of "r_history q"] by (cases "r_history q = []") (auto simp: run_ok_def)
    ultimately show ?thesis by (simp add: open_only_last_def)
  qed
  have "run_ok c"
    using qok st nums lasthd ool sorted_upto_strict [of 1 "r_attempt q"]
    unfolding run_ok_def continuation_ok_def by (auto simp: c_def q)
  moreover have "variant_ok c"
    using qinv by (simp add: lifecycle_inv_def variant_ok_def c_def split: run_variant.splits)
  ultimately have "replace_run q t2 (\<lambda>x. x\<lparr>r_status := r_status r, r_continuation := None,
      r_history := hs\<rparr>) = Inr c"
    by (simp add: replace_run_Inr c_def q)
  then have "run_resume q (v + 1) t2 = Inr (transition q c ''resume'')"
    using hs by (simp add: run_resume_def check_version_def q)
  moreover have "attempts_open c"
    using nums by (simp add: attempts_open_def attempt_numbers_def c_def)
  ultimately show ?thesis
    by (intro exI [of _ c]) (simp add: q_def [symmetric], simp add: c_def q)
qed

subsection \<open>Entering \<open>STARTING\<close>\<close>

text \<open>
  \<open>start\<close> records when the Run started and opens its first attempt. The table of \<open>advance\<close>
  allows \<open>CREATED \<rightarrow> STARTING\<close> as well, and that path does neither.
\<close>

definition started :: "run \<Rightarrow> bool" where
  "started r \<longleftrightarrow> r_started_at r \<noteq> None \<and> r_history r \<noteq> []"

lemma start_starts:
  "run_start r v now = Inr t \<Longrightarrow> r_status r = CREATED \<Longrightarrow> started (rt_current t)"
  by (auto simp: run_start_def rbind_eq_Inr started_def open_attempt_def dest!: replace_run_eq split: if_splits)

lemma advance_does_not_start:
  assumes "is_new_run r"
  shows "\<exists>c. run_advance r STARTING (r_version r) now why = Inr (transition r c why)
    \<and> r_status c = STARTING \<and> r_started_at c = None \<and> r_history c = []"
proof -
  define c where "c = r\<lparr>r_status := STARTING, r_version := r_version r + 1, r_updated_at := Some now\<rparr>"
  have "run_ok c" "variant_ok c"
    using assms by (auto simp: is_new_run_def run_ok_def continuation_ok_def variant_ok_def c_def
        split: run_variant.splits)
  then have "replace_run r now (\<lambda>x. x\<lparr>r_status := STARTING, r_history := r_history r\<rparr>) = Inr c"
    by (simp add: replace_run_Inr c_def)
  moreover have "r_status r = CREATED" using assms by (simp add: is_new_run_def)
  ultimately have "run_advance r STARTING (r_version r) now why = Inr (transition r c why)"
    by (simp add: run_advance_def check_version_def advance_targets_def)
  moreover have "r_started_at c = None" "r_history c = []" "r_status c = STARTING"
    using assms by (simp_all add: is_new_run_def c_def)
  ultimately show ?thesis by blast
qed

end
