(* ===== verification/Run_Service.thy ===== *)
theory Run_Service
  imports Run_Progress
begin

section \<open>Run repository and service\<close>

text \<open>
  \<open>state/repository.py\<close> and \<open>state/service.py\<close>. A repository is a record of its three
  operations over a state \<open>'s\<close>, as the protocol \<open>RunRepository\<close> is; the in-memory one keeps
  a dictionary. The service works on any repository, together with the publisher it is given:
  the publisher acts on its own world \<open>'w\<close> and may raise.

  The locale \<open>run_repository\<close> states what the service relies on. Inside it: a successful
  mutation is exactly one committed transition, what it commits is what the next reader gets,
  a version is consumed by the first writer that commits on it, a publisher that raises does not
  undo the commit, and however any number of calls interleave, the store is what its accepted
  commits give one after the other.
\<close>

subsection \<open>The protocol\<close>

record 's run_repo =
  repo_add :: "run \<Rightarrow> 's \<Rightarrow> exn + 's"
  repo_get :: "run_id \<Rightarrow> 's \<Rightarrow> run result"
  repo_compare_and_set :: "run \<Rightarrow> int \<Rightarrow> 's \<Rightarrow> (exn + run) \<times> 's"

type_synonym 'w run_publisher = "run_transition \<Rightarrow> ('w, exn, unit) action"

definition null_publisher :: "'w run_publisher" where
  "null_publisher t = areturn ()"

subsection \<open>The in-memory repository\<close>

type_synonym runs = "run_id \<rightharpoonup> run"

definition run_not_found :: exn where
  "run_not_found = core_error INVALID_REQUEST ''run_not_found'' ''Run does not exist'' False None"

definition memory_add :: "run \<Rightarrow> runs \<Rightarrow> exn + runs" where
  "memory_add r runs =
     (case runs (r_id r) of
        Some _ \<Rightarrow> Inl (core_error CONFLICT ''run_already_exists'' ''Run identity already exists'' False None)
      | None \<Rightarrow> Inr (runs(r_id r \<mapsto> r)))"

definition memory_get :: "run_id \<Rightarrow> runs \<Rightarrow> run result" where
  "memory_get i runs = (case runs i of None \<Rightarrow> Inl run_not_found | Some r \<Rightarrow> Inr r)"

definition memory_compare_and_set :: "run \<Rightarrow> int \<Rightarrow> runs \<Rightarrow> (exn + run) \<times> runs" where
  "memory_compare_and_set r v runs =
     (case runs (r_id r) of
        None \<Rightarrow> (Inl run_not_found, runs)
      | Some current \<Rightarrow>
        if r_version current \<noteq> v
        then (Inl (core_error CONFLICT ''stale_state_version''
                    ''Run state version does not match the expected version'' True None), runs)
        else if r_version r \<noteq> v + 1
        then (Inl (core_error CONFLICT ''invalid_next_state_version''
                    ''committed Run must increment state version exactly once'' False None), runs)
        else (Inr r, runs(r_id r \<mapsto> r)))"

definition memory_repo :: "runs run_repo" where
  "memory_repo = \<lparr>repo_add = memory_add, repo_get = memory_get,
     repo_compare_and_set = memory_compare_and_set\<rparr>"

subsection \<open>The service\<close>

type_synonym mutation = "run \<Rightarrow> int \<Rightarrow> datetime \<Rightarrow> run_transition result"

text \<open>
  \<open>RunService._apply\<close> in its three phases, with an await between each two: it reads the Run and
  computes the transition, commits it by compare-and-set, and publishes it. The test
  \<open>transition.current is transition.previous\<close> is equality here: a transition that is not the
  identity has another version (\<open>run_apply_version\<close>).
\<close>

definition service_read ::
  "'s run_repo \<Rightarrow> run_id \<Rightarrow> int \<Rightarrow> mutation \<Rightarrow> datetime \<Rightarrow> 's \<Rightarrow> run_transition result" where
  "service_read R i v m now s = rbind (repo_get R i s) (\<lambda>previous. m previous v now)"

definition service_commit :: "'s run_repo \<Rightarrow> run_transition \<Rightarrow> int \<Rightarrow> 's \<Rightarrow> (exn + run) \<times> 's" where
  "service_commit R t v s = repo_compare_and_set R (rt_current t) v s"

definition service_publish ::
  "'w run_publisher \<Rightarrow> run_transition \<Rightarrow> run \<Rightarrow> ('w, exn, run) action" where
  "service_publish pub t committed w =
     (case pub (transition (rt_previous t) committed (rt_reason t)) w of
        (Inl e, w') \<Rightarrow> (Inl e, w')
      | (Inr _, w') \<Rightarrow> (Inr committed, w'))"

text \<open>
  No lock is held across the phases, so other tasks may run at each await: \<open>env n\<close> is what they
  do to the store and the world at the \<open>n\<close>th one. \<open>undisturbed\<close> is a call that runs alone.
\<close>

type_synonym ('s, 'w) interference = "nat \<Rightarrow> 's \<times> 'w \<Rightarrow> 's \<times> 'w"

definition undisturbed :: "('s, 'w) interference" where
  "undisturbed n x = x"

definition service_apply ::
  "'s run_repo \<Rightarrow> 'w run_publisher \<Rightarrow> ('s, 'w) interference \<Rightarrow> run_id \<Rightarrow> int \<Rightarrow> mutation \<Rightarrow> datetime
    \<Rightarrow> ('s \<times> 'w, exn, run) action" where
  "service_apply R pub env i v m now = (\<lambda>(s, w).
     case service_read R i v m now s of
       Inl e \<Rightarrow> (Inl e, (s, w))
     | Inr t \<Rightarrow>
       if rt_current t = rt_previous t then (Inr (rt_current t), (s, w))
       else (case env 0 (s, w) of (s1, w1) \<Rightarrow>
         (case service_commit R t v s1 of
            (Inl e, s2) \<Rightarrow> (Inl e, (s2, w1))
          | (Inr committed, s2) \<Rightarrow>
            (case env 1 (s2, w1) of (s3, w2) \<Rightarrow>
              (case service_publish pub t committed w2 of (res, w3) \<Rightarrow> (res, (s3, w3)))))))"

definition service_create :: "'s run_repo \<Rightarrow> run \<Rightarrow> ('s \<times> 'w, exn, run) action" where
  "service_create R r = (\<lambda>(s, w). case repo_add R r s of Inl e \<Rightarrow> (Inl e, (s, w)) | Inr s' \<Rightarrow> (Inr r, (s', w)))"

definition service_get :: "'s run_repo \<Rightarrow> run_id \<Rightarrow> ('s \<times> 'w, exn, run) action" where
  "service_get R i = (\<lambda>(s, w). (repo_get R i s, (s, w)))"

definition service_start where
  "service_start R pub env i v now = service_apply R pub env i v run_start now"

definition service_advance where
  "service_advance R pub env i v target now =
     service_apply R pub env i v (\<lambda>r v now. run_advance r target v now ''advance'') now"

definition service_pause where
  "service_pause R pub env i v now = service_apply R pub env i v run_pause now"

definition service_resume where
  "service_resume R pub env i v now = service_apply R pub env i v run_resume now"

definition service_retry where
  "service_retry R pub env i v err now = service_apply R pub env i v (\<lambda>r v now. run_retry r v now err) now"

definition service_redispatch_retry where
  "service_redispatch_retry R pub env i v now = service_apply R pub env i v run_redispatch_retry now"

definition service_recover where
  "service_recover R pub env i v ref now =
     service_apply R pub env i v (\<lambda>r v now. run_recover r v now ref) now"

definition service_commit_checkpoint where
  "service_commit_checkpoint R pub env i v ref previous def_id graph now =
     service_apply R pub env i v (\<lambda>r v now. run_commit_checkpoint r v now ref previous def_id graph) now"

definition service_complete where
  "service_complete R pub env i v now = service_apply R pub env i v run_complete now"

definition service_fail where
  "service_fail R pub env i v err now = service_apply R pub env i v (\<lambda>r v now. run_fail r v now err) now"

definition service_cancel where
  "service_cancel R pub env i v now = service_apply R pub env i v run_cancel now"

text \<open>The failure handler reads the Run and then calls the service, with one more await before it.\<close>

definition handle_audit_failure ::
  "'s run_repo \<Rightarrow> 'w run_publisher \<Rightarrow> ('s, 'w) interference \<Rightarrow> run_id \<Rightarrow> error_detail \<Rightarrow> datetime
    \<Rightarrow> ('s \<times> 'w, exn, run) action" where
  "handle_audit_failure R pub env i err now = (\<lambda>(s, w).
     case repo_get R i s of
       Inl e \<Rightarrow> (Inl e, (s, w))
     | Inr r \<Rightarrow>
       if terminal (r_status r) then (Inr r, (s, w))
       else if rcp_audit_failure_mode (r_policy r) = AUDIT_FAIL
         then service_fail R pub (\<lambda>n. env (n + 1)) i (r_version r) err now (env 0 (s, w))
       else if r_status r = PAUSED then (Inr r, (s, w))
       else service_pause R pub (\<lambda>n. env (n + 1)) i (r_version r) now (env 0 (s, w)))"

text \<open>A call that runs alone.\<close>

lemma undisturbed_simps [simp]: "undisturbed n x = x" "(\<lambda>n. undisturbed (n + 1)) = undisturbed"
  "(\<lambda>n. undisturbed (Suc n)) = undisturbed"
  by (simp_all add: undisturbed_def fun_eq_iff)

lemma service_apply_alone:
  "service_apply R pub undisturbed i v m now = (\<lambda>(s, w).
     case repo_get R i s of
       Inl e \<Rightarrow> (Inl e, (s, w))
     | Inr previous \<Rightarrow>
       (case m previous v now of
          Inl e \<Rightarrow> (Inl e, (s, w))
        | Inr t \<Rightarrow>
          if rt_current t = rt_previous t then (Inr (rt_current t), (s, w))
          else (case repo_compare_and_set R (rt_current t) v s of
                  (Inl e, s') \<Rightarrow> (Inl e, (s', w))
                | (Inr committed, s') \<Rightarrow>
                  (case pub (transition (rt_previous t) committed (rt_reason t)) w of
                     (Inl e, w') \<Rightarrow> (Inl e, (s', w'))
                   | (Inr _, w') \<Rightarrow> (Inr committed, (s', w'))))))"
  by (auto simp: service_apply_def service_read_def service_commit_def service_publish_def fun_eq_iff
      split: sum.splits prod.splits)

text \<open>Each mutation the service passes is an operation of the lifecycle.\<close>

lemma run_apply_as_mutation:
  "run_start = run_apply OpStart"
  "(\<lambda>r v now. run_advance r target v now why) = run_apply (OpAdvance target why)"
  "run_pause = run_apply OpPause" "run_resume = run_apply OpResume"
  "(\<lambda>r v now. run_retry r v now err) = run_apply (OpRetry err)"
  "run_redispatch_retry = run_apply OpRedispatch"
  "(\<lambda>r v now. run_recover r v now ref) = run_apply (OpRecover ref)"
  "(\<lambda>r v now. run_commit_checkpoint r v now cref previous def_id graph)
     = run_apply (OpCommit cref previous def_id graph)"
  "run_complete = run_apply OpComplete"
  "(\<lambda>r v now. run_fail r v now err) = run_apply (OpFail err)"
  "run_cancel = run_apply OpCancel"
  by (intro ext, simp)+

subsection \<open>Many calls at once\<close>

text \<open>
  Any number of tasks call the service on one store. A call that has read the Run is pending,
  with the version it was given and the transition it computed, until its commit is accepted
  or refused, or its task is cancelled. The log is what the store accepted, in order. Reading
  failures, unchanged Runs and publications leave the store as it is and need no step.
\<close>

datatype store_event = Created run | Committed run_id int run_op datetime run_transition

record 's calls =
  ca_store :: "'s"
  ca_pending :: "nat \<rightharpoonup> run_id \<times> int \<times> run_op \<times> datetime \<times> run_transition"
  ca_log :: "store_event list"

inductive interleaved :: "'s run_repo \<Rightarrow> 's \<Rightarrow> 's calls \<Rightarrow> bool" for R s0 where
  no_call: "interleaved R s0 \<lparr>ca_store = s0, ca_pending = (\<lambda>_. None), ca_log = []\<rparr>"
| creates: "interleaved R s0 c \<Longrightarrow> repo_add R r (ca_store c) = Inr s' \<Longrightarrow>
    interleaved R s0 (c\<lparr>ca_store := s', ca_log := ca_log c @ [Created r]\<rparr>)"
| reads: "interleaved R s0 c \<Longrightarrow> ca_pending c k = None \<Longrightarrow>
    service_read R i v (run_apply op) now (ca_store c) = Inr t \<Longrightarrow> rt_current t \<noteq> rt_previous t \<Longrightarrow>
    interleaved R s0 (c\<lparr>ca_pending := (ca_pending c)(k \<mapsto> (i, v, op, now, t))\<rparr>)"
| commits: "interleaved R s0 c \<Longrightarrow> ca_pending c k = Some (i, v, op, now, t) \<Longrightarrow>
    service_commit R t v (ca_store c) = (Inr r, s') \<Longrightarrow>
    interleaved R s0 (c\<lparr>ca_store := s', ca_pending := (ca_pending c)(k := None),
      ca_log := ca_log c @ [Committed i v op now t]\<rparr>)"
| refused: "interleaved R s0 c \<Longrightarrow> ca_pending c k = Some (i, v, op, now, t) \<Longrightarrow>
    service_commit R t v (ca_store c) = (Inl e, s') \<Longrightarrow>
    interleaved R s0 (c\<lparr>ca_store := s', ca_pending := (ca_pending c)(k := None)\<rparr>)"
| abandoned: "interleaved R s0 c \<Longrightarrow>
    interleaved R s0 (c\<lparr>ca_pending := (ca_pending c)(k := None)\<rparr>)"

text \<open>
  The same events one after the other, on a plain map: a Run is created under a free identity,
  and a transition is taken on exactly the Run that is stored, at the version of the call.
\<close>

fun taken :: "store_event \<Rightarrow> runs \<Rightarrow> runs option" where
  "taken (Created r) s = (if s (r_id r) = None then Some (s(r_id r \<mapsto> r)) else None)"
| "taken (Committed i v op now t) s =
     (if s i = Some (rt_previous t) \<and> r_version (rt_previous t) = v
        \<and> run_apply op (rt_previous t) v now = Inr t \<and> r_version (rt_current t) = v + 1
      then Some (s(i \<mapsto> rt_current t)) else None)"

primrec serial :: "store_event list \<Rightarrow> runs \<Rightarrow> runs option" where
  "serial [] s = Some s"
| "serial (e # es) s = (case taken e s of None \<Rightarrow> None | Some s' \<Rightarrow> serial es s')"

fun consumed :: "store_event list \<Rightarrow> (run_id \<times> int) list" where
  "consumed [] = []"
| "consumed (Created r # es) = consumed es"
| "consumed (Committed i v op now t # es) = (i, v) # consumed es"

lemma consumed_append [simp]: "consumed (es @ fs) = consumed es @ consumed fs"
  by (induction es rule: consumed.induct) simp_all

lemma serial_append: "serial (es @ fs) s = (case serial es s of None \<Rightarrow> None | Some s' \<Rightarrow> serial fs s')"
  by (induction es arbitrary: s) (simp_all split: option.split)

subsection \<open>What the service relies on\<close>

locale run_repository =
  fixes R :: "'s run_repo"
    and invar :: "'s \<Rightarrow> bool"
  assumes get_id: "invar s \<Longrightarrow> repo_get R i s = Inr r \<Longrightarrow> r_id r = i"
    and add_get: "invar s \<Longrightarrow> repo_add R r s = Inr s' \<Longrightarrow>
      invar s' \<and> (\<exists>e. repo_get R (r_id r) s = Inl e)
      \<and> repo_get R i s' = (if i = r_id r then Inr r else repo_get R i s)"
    and cas_commit: "invar s \<Longrightarrow> repo_compare_and_set R r v s = (Inr c, s') \<Longrightarrow>
      invar s' \<and> c = r \<and> r_version r = v + 1
      \<and> (\<exists>p. repo_get R (r_id r) s = Inr p \<and> r_version p = v)
      \<and> repo_get R i s' = (if i = r_id r then Inr r else repo_get R i s)"
    and cas_refuse: "repo_compare_and_set R r v s = (Inl e, s') \<Longrightarrow> s' = s"
    and cas_possible: "invar s \<Longrightarrow> repo_get R (r_id r) s = Inr p \<Longrightarrow> r_version p = v \<Longrightarrow>
      r_version r = v + 1 \<Longrightarrow> \<exists>s'. repo_compare_and_set R r v s = (Inr r, s')"
begin

text \<open>The outcomes of a service call on a Run that exists.\<close>

lemma apply_outcome:
  assumes "invar s" "repo_get R i s = Inr p"
  shows "(case run_apply op p v now of
      Inl e \<Rightarrow> service_apply R pub undisturbed i v (run_apply op) now (s, w) = (Inl e, (s, w))
    | Inr t \<Rightarrow>
      if rt_current t = p then service_apply R pub undisturbed i v (run_apply op) now (s, w) = (Inr p, (s, w))
      else \<exists>s'. repo_compare_and_set R (rt_current t) v s = (Inr (rt_current t), s')
        \<and> service_apply R pub undisturbed i v (run_apply op) now (s, w) =
           (case pub t w of (Inl e, w') \<Rightarrow> (Inl e, (s', w')) | (Inr _, w') \<Rightarrow> (Inr (rt_current t), (s', w'))))"
proof (cases "run_apply op p v now")
  case (Inl e)
  then show ?thesis using assms(2) by (simp add: service_apply_alone)
next
  case (Inr t)
  have prev: "rt_previous t = p" and vers: "rt_current t = p \<or> r_version (rt_current t) = r_version p + 1"
    using run_apply_version [OF Inr] by auto
  have v: "r_version p = v" by (rule run_apply_version_seen [OF Inr])
  have id: "r_id (rt_current t) = i"
    using run_apply_identity [OF Inr] get_id [OF assms] by (simp add: same_identity_def)
  show ?thesis
  proof (cases "rt_current t = p")
    case True
    with Inr prev assms(2) show ?thesis by (simp add: service_apply_alone)
  next
    case False
    with vers v have "r_version (rt_current t) = v + 1" by simp
    with cas_possible [OF assms(1), of "rt_current t" p v] assms(2) v id
    obtain s' where cas: "repo_compare_and_set R (rt_current t) v s = (Inr (rt_current t), s')" by auto
    have same: "transition p (rt_current t) (rt_reason t) = t"
      using prev by (simp add: transition_def)
    from False Inr cas prev assms(2) show ?thesis
      by (simp add: service_apply_alone, subst same, simp)
  qed
qed

lemma apply_missing:
  "repo_get R i s = Inl e \<Longrightarrow> service_apply R pub undisturbed i v m now (s, w) = (Inl e, (s, w))"
  by (simp add: service_apply_alone)

text \<open>Every call keeps the repository's invariant and a property of all stored Runs.\<close>

definition stored :: "(run \<Rightarrow> bool) \<Rightarrow> 's \<Rightarrow> bool" where
  "stored P s \<longleftrightarrow> invar s \<and> (\<forall>i r. repo_get R i s = Inr r \<longrightarrow> P r)"

lemma apply_stored:
  assumes "stored lifecycle_inv s" "service_apply R pub undisturbed i v (run_apply op) now (s, w) = (res, (s', w'))"
  shows "stored lifecycle_inv s'"
proof (cases "repo_get R i s")
  case (Inl e)
  with assms show ?thesis by (simp add: apply_missing)
next
  case (Inr p)
  have inv: "invar s" "lifecycle_inv p" using assms(1) Inr by (auto simp: stored_def)
  note out = apply_outcome [OF inv(1) Inr, where op = op and v = v and now = now and pub = pub and w = w]
  show ?thesis
  proof (cases "run_apply op p v now")
    case (Inl e)
    with out assms show ?thesis by simp
  next
    case t: (Inr t)
    show ?thesis
    proof (cases "rt_current t = p")
      case True
      with t out assms show ?thesis by simp
    next
      case False
      with t out obtain s2 where cas: "repo_compare_and_set R (rt_current t) v s = (Inr (rt_current t), s2)"
        and "service_apply R pub undisturbed i v (run_apply op) now (s, w) =
           (case pub t w of (Inl e, w') \<Rightarrow> (Inl e, (s2, w')) | (Inr _, w') \<Rightarrow> (Inr (rt_current t), (s2, w')))"
        by auto
      with assms(2) have "s' = s2" by (auto split: prod.splits sum.splits)
      moreover have "lifecycle_inv (rt_current t)" by (rule run_apply_inv [OF t inv(2)])
      ultimately show ?thesis
        using assms(1) cas_commit [OF inv(1) cas] by (auto simp: stored_def split: if_splits)
    qed
  qed
qed

text \<open>
  A version is consumed once: after a call with version \<open>v\<close> has changed the Run, every later
  call with \<open>v\<close> is refused as stale and changes nothing.
\<close>

lemma version_consumed:
  assumes "invar s" "repo_get R i s = Inr p"
    and "service_apply R pub undisturbed i v (run_apply op) now (s, w) = (res, (s', w'))"
    and "repo_get R i s' \<noteq> repo_get R i s"
  shows "service_apply R pub' undisturbed i v (run_apply op') now' (s', x) =
    (Inl (core_error CONFLICT ''stale_state_version''
       ''Run state version does not match the expected version'' True None), (s', x))"
proof -
  note out = apply_outcome [OF assms(1,2), where op = op and v = v and now = now and pub = pub and w = w]
  have changed: "s' \<noteq> s" using assms(4) by auto
  obtain t where t: "run_apply op p v now = Inr t" "rt_current t \<noteq> p"
    using out assms(3) changed by (cases "run_apply op p v now") (auto split: if_splits)
  with out obtain s2 where cas: "repo_compare_and_set R (rt_current t) v s = (Inr (rt_current t), s2)"
    and eq: "service_apply R pub undisturbed i v (run_apply op) now (s, w) =
       (case pub t w of (Inl e, w') \<Rightarrow> (Inl e, (s2, w')) | (Inr _, w') \<Rightarrow> (Inr (rt_current t), (s2, w')))"
    by auto
  from eq assms(3) have "s' = s2" by (auto split: prod.splits sum.splits)
  have id: "r_id (rt_current t) = i"
    using run_apply_identity [OF t(1)] get_id [OF assms(1,2)] by (simp add: same_identity_def)
  have got: "repo_get R i s' = Inr (rt_current t)" and "r_version (rt_current t) = v + 1"
    using cas_commit [OF assms(1) cas, of i] id \<open>s' = s2\<close> by auto
  then have "r_version (rt_current t) \<noteq> v" by simp
  from run_apply_stale [OF this] got show ?thesis by (simp add: service_apply_alone)
qed

text \<open>
  The interleaving of any number of calls. What a pending call has read is at most as new as
  what is stored, and is what is stored when the versions agree; a consumed version is older
  than the stored one.
\<close>

definition view :: "'s \<Rightarrow> runs" where
  "view s i = (case repo_get R i s of Inl _ \<Rightarrow> None | Inr r \<Rightarrow> Some r)"

definition calls_inv :: "'s \<Rightarrow> 's calls \<Rightarrow> bool" where
  "calls_inv s0 c \<longleftrightarrow> invar (ca_store c) \<and> serial (ca_log c) (view s0) = Some (view (ca_store c))
     \<and> distinct (consumed (ca_log c))
     \<and> (\<forall>i v. (i, v) \<in> set (consumed (ca_log c)) \<longrightarrow> (\<exists>r. view (ca_store c) i = Some r \<and> v < r_version r))
     \<and> (\<forall>k i v op now t. ca_pending c k = Some (i, v, op, now, t) \<longrightarrow>
         run_apply op (rt_previous t) v now = Inr t \<and> rt_current t \<noteq> rt_previous t
         \<and> r_id (rt_previous t) = i
         \<and> (\<exists>r. view (ca_store c) i = Some r \<and> v \<le> r_version r \<and> (r_version r = v \<longrightarrow> r = rt_previous t)))"

lemma pending_facts:
  assumes "run_apply op p v now = Inr t" "rt_current t \<noteq> p"
  shows "r_version p = v" "r_version (rt_current t) = v + 1" "r_id (rt_current t) = r_id p"
  using run_apply_version [OF assms(1)] run_apply_version_seen [OF assms(1)] assms(2)
    run_apply_identity [OF assms(1)] by (auto simp: same_identity_def)

lemma calls_invD:
  assumes "calls_inv s0 c"
  shows "invar (ca_store c)" "serial (ca_log c) (view s0) = Some (view (ca_store c))"
    "distinct (consumed (ca_log c))"
    "(i, v) \<in> set (consumed (ca_log c)) \<Longrightarrow> \<exists>r. view (ca_store c) i = Some r \<and> v < r_version r"
    "ca_pending c k = Some (i, v, op, now, t) \<Longrightarrow>
       run_apply op (rt_previous t) v now = Inr t \<and> rt_current t \<noteq> rt_previous t \<and> r_id (rt_previous t) = i
       \<and> (\<exists>r. view (ca_store c) i = Some r \<and> v \<le> r_version r \<and> (r_version r = v \<longrightarrow> r = rt_previous t))"
  using assms by (auto simp: calls_inv_def)

lemma view_add:
  assumes "invar s" "repo_add R r s = Inr s'"
  shows "invar s'" "view s (r_id r) = None" "view s' = (view s)(r_id r \<mapsto> r)"
proof -
  note a = add_get [OF assms]
  obtain e where "repo_get R (r_id r) s = Inl e" using a [of "r_id r"] by blast
  then show "view s (r_id r) = None" by (simp add: view_def)
  show "invar s'" using a [of "r_id r"] by blast
  show "view s' = (view s)(r_id r \<mapsto> r)" using a by (auto simp: view_def fun_eq_iff)
qed

lemma view_commit:
  assumes "invar s" "service_commit R t v s = (Inr c, s')"
  shows "invar s'" "view s' = (view s)(r_id (rt_current t) \<mapsto> rt_current t)"
    "\<exists>p. view s (r_id (rt_current t)) = Some p \<and> r_version p = v"
proof -
  note c = cas_commit [OF assms(1) assms(2) [unfolded service_commit_def]]
  show "invar s'" using c [of "r_id (rt_current t)"] by blast
  show "view s' = (view s)(r_id (rt_current t) \<mapsto> rt_current t)"
    using c by (auto simp: view_def fun_eq_iff)
  obtain p where "repo_get R (r_id (rt_current t)) s = Inr p" "r_version p = v"
    using c [of "r_id (rt_current t)"] by blast
  then show "\<exists>p. view s (r_id (rt_current t)) = Some p \<and> r_version p = v"
    by (simp add: view_def)
qed

lemma calls_inv_abandon: "calls_inv s0 c \<Longrightarrow> calls_inv s0 (c\<lparr>ca_pending := (ca_pending c)(k := None)\<rparr>)"
  by (auto simp: calls_inv_def split: if_splits)

lemma calls_inv_create:
  assumes "calls_inv s0 c" "repo_add R r (ca_store c) = Inr s'"
  shows "calls_inv s0 (c\<lparr>ca_store := s', ca_log := ca_log c @ [Created r]\<rparr>)"
proof -
  note d = calls_invD [OF assms(1)]
  note v = view_add [OF d(1) assms(2)]
  have ser: "serial (ca_log c @ [Created r]) (view s0) = Some (view s')"
    using d(2) v by (simp add: serial_append)
  have used: "\<exists>p. view s' j = Some p \<and> u < r_version p" if "(j, u) \<in> set (consumed (ca_log c))" for j u
    using d(4) [OF that] v(2,3) by auto
  have pend: "run_apply op (rt_previous t) u now = Inr t \<and> rt_current t \<noteq> rt_previous t
      \<and> r_id (rt_previous t) = j
      \<and> (\<exists>p. view s' j = Some p \<and> u \<le> r_version p \<and> (r_version p = u \<longrightarrow> p = rt_previous t))"
    if "ca_pending c k = Some (j, u, op, now, t)" for k j u op now t
    using d(5) [OF that] v(2,3) by auto
  show ?thesis unfolding calls_inv_def using v(1) ser d(3) used pend by simp
qed

lemma calls_inv_read:
  assumes "calls_inv s0 c" "service_read R i v (run_apply op) now (ca_store c) = Inr t"
    "rt_current t \<noteq> rt_previous t"
  shows "calls_inv s0 (c\<lparr>ca_pending := (ca_pending c)(k \<mapsto> (i, v, op, now, t))\<rparr>)"
proof -
  note d = calls_invD [OF assms(1)]
  from assms(2) obtain p where p: "repo_get R i (ca_store c) = Inr p" "run_apply op p v now = Inr t"
    by (auto simp: service_read_def rbind_eq_Inr)
  have prev: "rt_previous t = p" using run_apply_version [OF p(2)] by simp
  have "r_id p = i" "view (ca_store c) i = Some p"
    using get_id [OF d(1) p(1)] p(1) by (simp_all add: view_def)
  moreover have "r_version p = v" using pending_facts(1) [OF p(2)] assms(3) prev by simp
  ultimately show ?thesis
    unfolding calls_inv_def using d(1-3) d(4) d(5) p(2) prev assms(3) by simp
qed

lemma calls_inv_commit:
  assumes "calls_inv s0 c" "ca_pending c k = Some (i, v, op, now, t)"
    "service_commit R t v (ca_store c) = (Inr r, s')"
  shows "calls_inv s0 (c\<lparr>ca_store := s', ca_pending := (ca_pending c)(k := None),
      ca_log := ca_log c @ [Committed i v op now t]\<rparr>)"
proof -
  note d = calls_invD [OF assms(1)]
  note w = view_commit [OF d(1) assms(3)]
  note q = d(5) [OF assms(2)]
  note f = pending_facts [OF q [THEN conjunct1] q [THEN conjunct2, THEN conjunct1]]
  have stored: "view (ca_store c) i = Some (rt_previous t)" using q f(3) w(3) by auto
  have view': "view s' = (view (ca_store c))(i \<mapsto> rt_current t)" using w(2) f(3) q by simp
  have fresh: "(i, v) \<notin> set (consumed (ca_log c))" using d(4) [of i v] stored f(1) by auto
  have ser: "serial (ca_log c @ [Committed i v op now t]) (view s0) = Some (view s')"
    using d(2) stored q f view' by (simp add: serial_append)
  have used: "\<exists>p. view s' j = Some p \<and> u < r_version p"
    if "(j, u) = (i, v) \<or> (j, u) \<in> set (consumed (ca_log c))" for j u
    using that d(4) [of j u] stored f(1,2) view' by (cases "j = i") auto
  have pend: "run_apply op' (rt_previous t') u now' = Inr t' \<and> rt_current t' \<noteq> rt_previous t'
      \<and> r_id (rt_previous t') = j
      \<and> (\<exists>p. view s' j = Some p \<and> u \<le> r_version p \<and> (r_version p = u \<longrightarrow> p = rt_previous t'))"
    if "ca_pending c k' = Some (j, u, op', now', t')" for k' j u op' now' t'
    using d(5) [OF that] stored f(1,2) view' by (cases "j = i") auto
  show ?thesis
    unfolding calls_inv_def using w(1) ser d(3) fresh used pend by (auto split: if_splits)
qed

lemma interleaved_inv: "interleaved R s0 c \<Longrightarrow> invar s0 \<Longrightarrow> calls_inv s0 c"
proof (induction rule: interleaved.induct)
  case no_call
  then show ?case by (simp add: calls_inv_def)
next
  case (refused c k i v op now t e s')
  have "s' = ca_store c" using cas_refuse refused.hyps(3) by (simp add: service_commit_def)
  with refused calls_inv_abandon [of s0 c k] show ?case by simp
qed (simp_all add: calls_inv_create calls_inv_read calls_inv_commit calls_inv_abandon)

text \<open>
  A handled audit failure stops the Run: it is terminal or paused afterwards, in the answer
  and in the repository.
\<close>

lemma apply_Inr_status:
  assumes "invar s" "repo_get R i s = Inr p"
    and "service_apply R pub undisturbed i v (run_apply op) now (s, w) = (Inr c, (s', w'))"
  shows "\<exists>t. run_apply op p v now = Inr t \<and> c = rt_current t \<and> repo_get R i s' = Inr c"
proof -
  note out = apply_outcome [OF assms(1,2), where op = op and v = v and now = now and pub = pub and w = w]
  obtain t where t: "run_apply op p v now = Inr t"
    using out assms(3) by (cases "run_apply op p v now") auto
  have id: "r_id (rt_current t) = i"
    using run_apply_identity [OF t] get_id [OF assms(1,2)] by (simp add: same_identity_def)
  show ?thesis
  proof (cases "rt_current t = p")
    case True
    with out t assms(2,3) show ?thesis by simp
  next
    case False
    with t out obtain s2 where cas: "repo_compare_and_set R (rt_current t) v s = (Inr (rt_current t), s2)"
      and "service_apply R pub undisturbed i v (run_apply op) now (s, w) =
         (case pub t w of (Inl e, w') \<Rightarrow> (Inl e, (s2, w')) | (Inr _, w') \<Rightarrow> (Inr (rt_current t), (s2, w')))"
      by auto
    with assms(3) have "s' = s2" "c = rt_current t" by (auto split: prod.splits sum.splits)
    with t id cas_commit [OF assms(1) cas, of i] show ?thesis by simp
  qed
qed

lemma audit_failure_stops:
  assumes "invar s" "repo_get R i s = Inr p"
    and "handle_audit_failure R pub undisturbed i err now (s, w) = (Inr c, (s', w'))"
  shows "(terminal (r_status c) \<or> r_status c = PAUSED) \<and> repo_get R i s' = Inr c"
proof -
  have pz: "service_apply R pub undisturbed i v run_pause now = service_apply R pub undisturbed i v (run_apply OpPause) now"
    and fl: "service_apply R pub undisturbed i v (\<lambda>r v now. run_fail r v now err) now
      = service_apply R pub undisturbed i v (run_apply (OpFail err)) now" for v
    by (simp_all only: run_apply_as_mutation)
  consider "c = p" "s' = s" "terminal (r_status p) \<or> r_status p = PAUSED"
    | "service_apply R pub undisturbed i (r_version p) (run_apply (OpFail err)) now (s, w) = (Inr c, (s', w'))"
    | "service_apply R pub undisturbed i (r_version p) (run_apply OpPause) now (s, w) = (Inr c, (s', w'))"
    using assms(2,3)
    by (auto simp: handle_audit_failure_def service_fail_def service_pause_def pz fl split: if_splits)
  then show ?thesis
  proof cases
    case 1
    with assms(2) show ?thesis by simp
  next
    case 2
    from apply_Inr_status [OF assms(1,2) this] show ?thesis
      by (auto simp: run_fail_def rbind_eq_Inr dest: replace_run_status split: if_splits)
  next
    case 3
    from apply_Inr_status [OF assms(1,2) this] show ?thesis
      by (auto simp: run_pause_def rbind_eq_Inr Let_def dest: replace_run_status split: if_splits)
  qed
qed

end

subsection \<open>The in-memory repository satisfies the contract\<close>

definition memory_invar :: "runs \<Rightarrow> bool" where
  "memory_invar runs \<longleftrightarrow> (\<forall>i r. runs i = Some r \<longrightarrow> r_id r = i)"

lemma memory_cas_Inr:
  "memory_compare_and_set r v runs = (Inr c, runs') \<longleftrightarrow>
     c = r \<and> runs' = runs(r_id r \<mapsto> r) \<and> r_version r = v + 1
     \<and> (\<exists>p. runs (r_id r) = Some p \<and> r_version p = v)"
  by (auto simp: memory_compare_and_set_def split: option.splits)

lemma memory_cas_Inl: "memory_compare_and_set r v runs = (Inl e, runs') \<Longrightarrow> runs' = runs"
  by (auto simp: memory_compare_and_set_def split: option.splits if_splits)

lemma memory_add_Inr: "memory_add r runs = Inr runs' \<longleftrightarrow> runs (r_id r) = None \<and> runs' = runs(r_id r \<mapsto> r)"
  by (auto simp: memory_add_def split: option.splits)

lemma memory_get_Inr: "memory_get i runs = Inr r \<longleftrightarrow> runs i = Some r"
  by (auto simp: memory_get_def split: option.splits)

lemma memory_repo_sel [simp]:
  "repo_add memory_repo = memory_add" "repo_get memory_repo = memory_get"
  "repo_compare_and_set memory_repo = memory_compare_and_set"
  by (simp_all add: memory_repo_def)

interpretation mem: run_repository memory_repo memory_invar
proof (unfold_locales, goal_cases)
  case (1 s i r)
  then show ?case by (simp add: memory_get_Inr memory_invar_def)
next
  case (2 s r s' i)
  then show ?case by (auto simp: memory_add_Inr memory_invar_def memory_get_def)
next
  case (3 s r v c s' i)
  then show ?case by (auto simp: memory_cas_Inr memory_invar_def memory_get_def)
next
  case (4 r v s e s')
  then show ?case by (simp add: memory_cas_Inl)
next
  case (5 s r p v)
  then show ?case by (auto simp: memory_cas_Inr memory_get_Inr)
qed

lemma memory_view [simp]: "mem.view s = s"
  by (rule ext) (simp add: mem.view_def memory_get_def split: option.split)

end
