(* ===== verification/Authorization.thy ===== *)
theory Authorization
  imports Run_Service Runtime_Errors
begin

section \<open>Scope authorization\<close>

text \<open>
  \<open>policy/authorization.py\<close>: principals, actions, resources, grants, decisions, the action
  registry and the dispatcher that guards every protected call. The policy, the audit
  publisher, the failure handler and the guarded operation are injected: they are arguments
  acting on a world \<open>'w\<close> that they may change and raise from. The clock is the argument
  \<open>clock\<close>, which maps a world to the moment it is read in.
\<close>

subsection \<open>References\<close>

datatype core_principal_kind = PRINCIPAL_RUN | PRINCIPAL_AGENT | PRINCIPAL_WORKFLOW_NODE
  | PRINCIPAL_PLUGIN | PRINCIPAL_CORE_SERVICE

fun principal_kind_value :: "core_principal_kind \<Rightarrow> string" where
  "principal_kind_value PRINCIPAL_RUN = ''run''"
| "principal_kind_value PRINCIPAL_AGENT = ''agent''"
| "principal_kind_value PRINCIPAL_WORKFLOW_NODE = ''workflow_node''"
| "principal_kind_value PRINCIPAL_PLUGIN = ''plugin''"
| "principal_kind_value PRINCIPAL_CORE_SERVICE = ''core_service''"

definition require_name :: "string \<Rightarrow> string \<Rightarrow> unit result" where
  "require_name v fname =
     (if \<not> name_pattern v then Inl (ValueError (fname @ '' is invalid'')) else Inr ())"

record principal =
  pr_namespace :: string
  pr_kind :: string
  pr_id :: principal_id

definition mk_principal :: "string \<Rightarrow> string \<Rightarrow> principal_id \<Rightarrow> principal result" where
  "mk_principal n k i =
     rbind (require_name n ''principal namespace'') (\<lambda>_.
     rbind (require_name k ''principal kind'') (\<lambda>_.
     Inr \<lparr>pr_namespace = n, pr_kind = k, pr_id = i\<rparr>))"

definition core_principal :: "core_principal_kind \<Rightarrow> principal_id \<Rightarrow> principal result" where
  "core_principal k i = mk_principal ''core'' (principal_kind_value k) i"

record action_ref =
  ac_namespace :: string
  ac_name :: string
  ac_version :: string

definition mk_action :: "string \<Rightarrow> string \<Rightarrow> string \<Rightarrow> action_ref result" where
  "mk_action n name v =
     rbind (require_name n ''action namespace'') (\<lambda>_.
     rbind (require_name name ''action name'') (\<lambda>_.
     if \<not> trimmed v then Inl (ValueError ''action version must be non-empty and trimmed'')
     else Inr \<lparr>ac_namespace = n, ac_name = name, ac_version = v\<rparr>))"

definition action_key :: "action_ref \<Rightarrow> string \<times> string \<times> string" where
  "action_key a = (ac_namespace a, ac_name a, ac_version a)"

lemma action_key_inject: "action_key a = action_key b \<longleftrightarrow> a = b"
  by (cases a; cases b) (simp add: action_key_def)

record resource_ref =
  rs_namespace :: string
  rs_kind :: string
  rs_id :: resource_id
  rs_owner :: "string option"

definition mk_resource :: "string \<Rightarrow> string \<Rightarrow> resource_id \<Rightarrow> string option \<Rightarrow> resource_ref result" where
  "mk_resource n k i owner =
     rbind (require_name n ''resource namespace'') (\<lambda>_.
     rbind (require_name k ''resource kind'') (\<lambda>_.
     rbind (case owner of None \<Rightarrow> Inr () | Some x \<Rightarrow> require_name x ''owning extension'') (\<lambda>_.
     Inr \<lparr>rs_namespace = n, rs_kind = k, rs_id = i, rs_owner = owner\<rparr>)))"

definition resource_key :: "resource_ref \<Rightarrow> string \<times> string \<times> string" where
  "resource_key r = (rs_namespace r, rs_kind r, rs_id r)"

record access_request =
  aq_principal :: principal
  aq_action :: action_ref
  aq_resource :: resource_ref
  aq_scope :: scope_ref
  aq_context :: call_context
  aq_constraints :: "string \<rightharpoonup> json"

subsection \<open>Grants and decisions\<close>

datatype policy_effect = ALLOW | DENY | INDETERMINATE

record grant =
  gr_principal :: principal
  gr_action :: action_ref
  gr_resource :: resource_ref
  gr_source_scope :: scope_ref
  gr_effective_scope :: scope_ref
  gr_constraints :: "string \<rightharpoonup> json"
  gr_issued_at :: datetime
  gr_expires_at :: "datetime option"
  gr_policy_version :: string
  gr_audit_correlation :: string

definition mk_grant :: "grant \<Rightarrow> grant result" where
  "mk_grant g =
     (if (case gr_expires_at g of None \<Rightarrow> False | Some e \<Rightarrow> e \<le> gr_issued_at g)
      then Inl (ValueError ''grant expiration must be after issue time'')
      else if gr_policy_version g = [] \<or> gr_audit_correlation g = []
      then Inl (ValueError ''grant policy version and audit correlation are required'')
      else Inr g)"

definition cross_scope :: "grant \<Rightarrow> bool" where
  "cross_scope g \<longleftrightarrow> scope_key (gr_source_scope g) \<noteq> scope_key (gr_effective_scope g)"

record decision =
  de_effect :: policy_effect
  de_grant :: "grant option"
  de_reason :: "string option"

definition no_reason :: "string option \<Rightarrow> bool" where
  "no_reason r \<longleftrightarrow> r = None \<or> r = Some []"

definition mk_decision :: "policy_effect \<Rightarrow> grant option \<Rightarrow> string option \<Rightarrow> decision result" where
  "mk_decision eff g r =
     (if eff = ALLOW \<and> g = None then Inl (ValueError ''ALLOW decision requires a grant'')
      else if eff \<noteq> ALLOW \<and> g \<noteq> None then Inl (ValueError ''only ALLOW decision may carry a grant'')
      else if eff \<noteq> ALLOW \<and> no_reason r
        then Inl (ValueError ''DENY or INDETERMINATE decision requires reason_code'')
      else Inr \<lparr>de_effect = eff, de_grant = g, de_reason = r\<rparr>)"

definition decision_ok :: "decision \<Rightarrow> bool" where
  "decision_ok d \<longleftrightarrow> (de_effect d = ALLOW \<longleftrightarrow> de_grant d \<noteq> None)
     \<and> (de_effect d \<noteq> ALLOW \<longrightarrow> \<not> no_reason (de_reason d))"

lemma mk_decision_Inr:
  "mk_decision eff g r = Inr d \<longleftrightarrow> d = \<lparr>de_effect = eff, de_grant = g, de_reason = r\<rparr> \<and> decision_ok d"
  by (auto simp: mk_decision_def decision_ok_def)

definition deny :: "string \<Rightarrow> decision" where
  "deny code = \<lparr>de_effect = DENY, de_grant = None, de_reason = Some code\<rparr>"

definition indeterminate :: "string \<Rightarrow> decision" where
  "indeterminate code = \<lparr>de_effect = INDETERMINATE, de_grant = None, de_reason = Some code\<rparr>"

definition allow :: "grant \<Rightarrow> decision" where
  "allow g = \<lparr>de_effect = ALLOW, de_grant = Some g, de_reason = None\<rparr>"

lemma decisions_ok: "code \<noteq> [] \<Longrightarrow> decision_ok (deny code)" "code \<noteq> [] \<Longrightarrow> decision_ok (indeterminate code)"
  "decision_ok (allow g)"
  by (simp_all add: decision_ok_def deny_def indeterminate_def allow_def no_reason_def)

text \<open>\<open>DenyAllPolicy\<close>\<close>

definition deny_all :: "access_request \<Rightarrow> ('w, exn, decision) action" where
  "deny_all q = areturn (deny ''default_deny'')"

subsection \<open>Action registry\<close>

type_synonym action_registry = "string \<times> string \<times> string \<rightharpoonup> action_ref"

definition action_registry_of :: "action_ref list \<Rightarrow> action_registry" where
  "action_registry_of as = map_of (rev (List.map (\<lambda>a. (action_key a, a)) as))"

definition action_register :: "action_ref \<Rightarrow> action_registry \<Rightarrow> exn + action_registry" where
  "action_register a m =
     (case m (action_key a) of
        Some _ \<Rightarrow> Inl (core_error CONFLICT ''action_already_registered'' ''action is already registered'' False None)
      | None \<Rightarrow> Inr (m(action_key a \<mapsto> a)))"

definition action_contains :: "action_registry \<Rightarrow> action_ref \<Rightarrow> bool" where
  "action_contains m a \<longleftrightarrow> action_key a \<in> dom m"

lemma action_contains_code [code]: "action_contains m a \<longleftrightarrow> m (action_key a) \<noteq> None"
  by (auto simp: action_contains_def)

interpretation known_actions: once_registry action_register "\<lambda>r k. r k" action_key "\<lambda>a. a"
    "\<lambda>_. core_error CONFLICT ''action_already_registered'' ''action is already registered'' False None"
  by unfold_locales (auto simp: action_register_def)

subsection \<open>The dispatcher\<close>

record authorized_call =
  au_request :: access_request
  au_grant :: grant
  au_context :: call_context

record 'w dispatcher =
  di_actions :: action_registry
  di_audit_denied :: "access_request \<Rightarrow> decision \<Rightarrow> ('w, exn, unit) action"
  di_audit_granted :: "access_request \<Rightarrow> grant \<Rightarrow> ('w, exn, unit) action"
  di_audit_failure :: "run_id \<Rightarrow> error_detail \<Rightarrow> ('w, exn, unit) action"
  di_clock :: "'w \<Rightarrow> datetime"
  di_policy :: "(access_request \<Rightarrow> ('w, exn, decision) action) option"

text \<open>
  An audit call guarded by \<open>except CoreError\<close>: the failure handler runs, then the error is
  raised again; what the handler itself raises replaces it. Other exceptions pass.
\<close>

definition audited :: "'w dispatcher \<Rightarrow> run_id \<Rightarrow> ('w, exn, unit) action \<Rightarrow> ('w, exn, unit) action" where
  "audited D rid m = atry m (\<lambda>e. case e of
       CoreError d \<Rightarrow> abind (di_audit_failure D rid d) (\<lambda>_. araise e)
     | _ \<Rightarrow> araise e)"

definition dispatch_deny :: "'w dispatcher \<Rightarrow> access_request \<Rightarrow> decision \<Rightarrow> ('w, exn, 'a) action" where
  "dispatch_deny D q d =
     abind (audited D (cx_run_id (aq_context q)) (di_audit_denied D q d)) (\<lambda>_.
       araise (core_error DENIED
         (if no_reason (de_reason d) then ''authorization_denied'' else the (de_reason d))
         ''authorization denied'' False None))"

definition invalid_grant :: "string \<Rightarrow> exn" where
  "invalid_grant msg = core_error DENIED ''invalid_grant'' msg False None"

definition validate_grant :: "access_request \<Rightarrow> grant \<Rightarrow> unit result" where
  "validate_grant q g =
     (if gr_principal g \<noteq> aq_principal q then Inl (invalid_grant ''grant principal does not match request'')
      else if gr_action g \<noteq> aq_action q then Inl (invalid_grant ''grant action does not match request'')
      else if gr_resource g \<noteq> aq_resource q then Inl (invalid_grant ''grant resource does not match request'')
      else if scope_key (gr_source_scope g) \<noteq> scope_key (cx_scope (aq_context q))
        then Inl (invalid_grant ''grant source Scope does not match call context'')
      else if scope_key (gr_effective_scope g) \<noteq> scope_key (aq_scope q)
        then Inl (invalid_grant ''grant effective Scope does not match request'')
      else if \<not> cross_scope g
        then require_narrower_than (gr_effective_scope g) (cx_scope (aq_context q))
      else Inr ())"

definition grant_expired :: "grant \<Rightarrow> datetime \<Rightarrow> bool" where
  "grant_expired g now \<longleftrightarrow> (case gr_expires_at g of None \<Rightarrow> False | Some e \<Rightarrow> now \<ge> e)"

definition decide_request :: "'w dispatcher \<Rightarrow> access_request \<Rightarrow> ('w, exn, decision) action" where
  "decide_request D q =
     (if \<not> action_contains (di_actions D) (aq_action q)
      then dispatch_deny D q (deny ''unknown_action'')
      else case di_policy D of
        None \<Rightarrow> dispatch_deny D q (indeterminate ''policy_missing'')
      | Some policy \<Rightarrow> abind (policy q) (\<lambda>d.
          if de_effect d \<noteq> ALLOW then dispatch_deny D q d else areturn d))"

definition dispatch ::
  "'w dispatcher \<Rightarrow> access_request \<Rightarrow> (authorized_call \<Rightarrow> ('w, exn, 'a) action) \<Rightarrow> ('w, exn, 'a) action" where
  "dispatch D q operation =
     abind (\<lambda>w. (check_active (aq_context q) (di_clock D w), w)) (\<lambda>_.
     abind (decide_request D q) (\<lambda>d.
     case de_grant d of
       None \<Rightarrow> araise (AssertionError ''ALLOW decision must have a grant'')
     | Some g \<Rightarrow>
       abind (aresult (validate_grant q g)) (\<lambda>_.
       abind (\<lambda>w. if grant_expired g (di_clock D w)
                  then dispatch_deny D q (deny ''grant_expired'') w else (Inr (), w)) (\<lambda>_.
       abind (if cross_scope g
              then audited D (cx_run_id (aq_context q)) (di_audit_granted D q g)
              else areturn ()) (\<lambda>_.
       operation \<lparr>au_request = q, au_grant = g,
         au_context = (aq_context q)\<lparr>cx_scope := gr_effective_scope g\<rparr>\<rparr>)))))"

subsection \<open>Complete mediation\<close>

text \<open>
  What must have happened before the guarded operation starts: the call is active, the
  action is registered, the policy allowed the request with this grant, the grant matches the
  request and has not expired, and a cross-scope grant has been audited.
\<close>

definition authorized :: "'w dispatcher \<Rightarrow> access_request \<Rightarrow> 'w \<Rightarrow> authorized_call \<Rightarrow> 'w \<Rightarrow> bool" where
  "authorized D q w c w1 \<longleftrightarrow>
     check_active (aq_context q) (di_clock D w) = Inr ()
     \<and> action_contains (di_actions D) (aq_action q)
     \<and> (\<exists>policy d wd. di_policy D = Some policy \<and> policy q w = (Inr d, wd)
         \<and> de_effect d = ALLOW \<and> de_grant d = Some (au_grant c)
         \<and> \<not> grant_expired (au_grant c) (di_clock D wd)
         \<and> (if cross_scope (au_grant c) then di_audit_granted D q (au_grant c) wd = (Inr (), w1) else w1 = wd))
     \<and> validate_grant q (au_grant c) = Inr ()
     \<and> au_request c = q
     \<and> au_context c = (aq_context q)\<lparr>cx_scope := gr_effective_scope (au_grant c)\<rparr>"

lemma audited_Inr: "audited D i m w = (Inr x, w') \<Longrightarrow> m w = (Inr x, w')"
  by (auto simp: audited_def action_simps split: prod.splits sum.splits exn.splits)

lemma dispatch_deny_raises: "\<exists>e w'. dispatch_deny D q d w = (Inl e, w') \<and> (\<forall>e' w''. dispatch_deny D q d w = (e', w'') \<longrightarrow> e' = Inl e \<and> w'' = w')"
  by (cases "audited D (cx_run_id (aq_context q)) (di_audit_denied D q d) w")
    (auto simp: dispatch_deny_def action_simps split: sum.splits)

lemma dispatch_deny_Inr [simp]: "dispatch_deny D q d w \<noteq> (Inr x, w')"
  using dispatch_deny_raises [of D q d w] by auto

lemma decide_request_Inr:
  assumes "decide_request D q w = (Inr d, wd)"
  shows "\<exists>policy. di_policy D = Some policy \<and> policy q w = (Inr d, wd) \<and> de_effect d = ALLOW
    \<and> action_contains (di_actions D) (aq_action q)"
  using assms
  by (auto simp: decide_request_def abind_def areturn_def split: if_splits option.splits prod.splits sum.splits)

definition grant_checks :: "'w dispatcher \<Rightarrow> access_request \<Rightarrow> grant \<Rightarrow> ('w, exn, unit) action" where
  "grant_checks D q g =
     abind (aresult (validate_grant q g)) (\<lambda>_.
     abind (\<lambda>w. if grant_expired g (di_clock D w)
                then dispatch_deny D q (deny ''grant_expired'') w else (Inr (), w)) (\<lambda>_.
     if cross_scope g then audited D (cx_run_id (aq_context q)) (di_audit_granted D q g) else areturn ()))"

lemma dispatch_alt:
  "dispatch D q operation =
     abind (\<lambda>w. (check_active (aq_context q) (di_clock D w), w)) (\<lambda>_.
     abind (decide_request D q) (\<lambda>d.
     case de_grant d of
       None \<Rightarrow> araise (AssertionError ''ALLOW decision must have a grant'')
     | Some g \<Rightarrow> abind (grant_checks D q g) (\<lambda>_.
       operation \<lparr>au_request = q, au_grant = g,
         au_context = (aq_context q)\<lparr>cx_scope := gr_effective_scope g\<rparr>\<rparr>)))"
  unfolding dispatch_def grant_checks_def abind_assoc
  by (rule refl)

lemma grant_checks_Inr:
  assumes "grant_checks D q g wd = (Inr u, w1)"
  shows "validate_grant q g = Inr () \<and> \<not> grant_expired g (di_clock D wd)
    \<and> (if cross_scope g then di_audit_granted D q g wd = (Inr (), w1) else w1 = wd)"
  using assms
  by (auto simp: grant_checks_def abind_eq_Inr aresult_def areturn_def dest: audited_Inr split: if_splits)

text \<open>
  A dispatch either runs the operation, once and as its last step, on an authorized call,
  or ends with an exception that does not depend on the operation at all.
\<close>

lemma dispatch_mediates:
  "(\<exists>c w1. (\<forall>operation. dispatch D q operation w = operation c w1) \<and> authorized D q w c w1)
   \<or> (\<exists>e w1. \<forall>operation. dispatch D q operation w = (Inl e, w1))"
proof (cases "check_active (aq_context q) (di_clock D w)")
  case (Inl e)
  then show ?thesis by (auto simp: dispatch_alt abind_def)
next
  case (Inr u)
  note active = Inr
  obtain r wd where dec: "decide_request D q w = (r, wd)" by (cases "decide_request D q w")
  show ?thesis
  proof (cases r)
    case (Inl e)
    with active dec show ?thesis by (auto simp: dispatch_alt abind_def)
  next
    case (Inr d)
    with dec have ok: "decide_request D q w = (Inr d, wd)" by simp
    show ?thesis
    proof (cases "de_grant d")
      case None
      with active ok show ?thesis by (auto simp: dispatch_alt abind_def araise_def)
    next
      case (Some g)
      obtain r2 w1 where gc: "grant_checks D q g wd = (r2, w1)" by (cases "grant_checks D q g wd")
      show ?thesis
      proof (cases r2)
        case (Inl e)
        with active ok Some gc show ?thesis by (auto simp: dispatch_alt abind_def)
      next
        case (Inr u2)
        define c where "c = \<lparr>au_request = q, au_grant = g,
          au_context = (aq_context q)\<lparr>cx_scope := gr_effective_scope g\<rparr>\<rparr>"
        have "\<forall>operation. dispatch D q operation w = operation c w1"
          using active ok Some gc Inr by (simp add: dispatch_alt abind_def c_def)
        moreover have "authorized D q w c w1"
          using decide_request_Inr [OF ok] grant_checks_Inr [of D q g wd u2 w1] gc Inr Some active
          by (cases "cross_scope g") (auto simp: authorized_def c_def intro!: exI [of _ d] exI [of _ wd])
        ultimately show ?thesis by blast
      qed
    qed
  qed
qed

text \<open>Without a policy, or for an action nobody registered, nothing runs.\<close>

lemma dispatch_closed_by_default:
  assumes "di_policy D = None \<or> \<not> action_contains (di_actions D) (aq_action q)"
  shows "\<exists>e w1. \<forall>operation. dispatch D q operation w = (Inl e, w1)"
  using dispatch_mediates [of D q w] assms by (auto simp: authorized_def)

text \<open>
  A grant that does not cross scopes has the context's own key, so the narrowing check that
  ends \<open>_validate_grant\<close> never fails: the five comparisons before it decide alone.
\<close>

definition grant_matches :: "access_request \<Rightarrow> grant \<Rightarrow> bool" where
  "grant_matches q g \<longleftrightarrow> gr_principal g = aq_principal q \<and> gr_action g = aq_action q
     \<and> gr_resource g = aq_resource q
     \<and> scope_key (gr_source_scope g) = scope_key (cx_scope (aq_context q))
     \<and> scope_key (gr_effective_scope g) = scope_key (aq_scope q)"

lemma descends_same_key: "scope_key s = scope_key t \<Longrightarrow> is_equal_or_descendant_of s t"
  by (cases s) (auto simp: scope_key_def)

lemma validate_grant_Inr: "validate_grant q g = Inr u \<longleftrightarrow> grant_matches q g"
  by (auto simp: validate_grant_def grant_matches_def cross_scope_def require_narrower_than_def
      intro: descends_same_key)

text \<open>A denial is audited before it is raised, under the decision's own reason.\<close>

lemma dispatch_denied:
  assumes "check_active (aq_context q) (di_clock D w) = Inr ()"
    and "action_contains (di_actions D) (aq_action q)"
    and "di_policy D = Some policy" "policy q w = (Inr d, w1)" "de_effect d \<noteq> ALLOW"
    and "decision_ok d" "di_audit_denied D q d w1 = (Inr (), w2)"
  shows "dispatch D q operation w =
    (Inl (core_error DENIED (the (de_reason d)) ''authorization denied'' False None), w2)"
proof -
  have "\<not> no_reason (de_reason d)" using assms(5,6) by (simp add: decision_ok_def)
  then show ?thesis
    using assms by (simp add: dispatch_alt abind_def decide_request_def dispatch_deny_def
        audited_def atry_def araise_def)
qed

text \<open>A dispatched call that returns ran its operation to that value.\<close>

lemma dispatch_Inr:
  fixes operation :: "authorized_call \<Rightarrow> ('w, exn, 'a) action"
  assumes "dispatch D q operation w = (Inr x, w')"
  shows "\<exists>call w1. authorized D q w call w1 \<and> operation call w1 = (Inr x, w')"
proof -
  have "(\<exists>c w1. (\<forall>operation :: authorized_call \<Rightarrow> ('w, exn, 'a) action. dispatch D q operation w = operation c w1) \<and> authorized D q w c w1)
      \<or> (\<exists>e w1. \<forall>operation :: authorized_call \<Rightarrow> ('w, exn, 'a) action. dispatch D q operation w = (Inl e, w1))"
    by (rule dispatch_mediates)
  then show ?thesis using assms by (metis Inl_Inr_False prod.inject)
qed

end
