(* ===== verification/State_Records.thy ===== *)
theory State_Records
  imports Runtime_Context
begin

section \<open>Sessions and workspaces\<close>

text \<open>
  \<open>state/session.py\<close> and \<open>state/workspace.py\<close>. A session is opened once and closed at most
  once; a workspace merges patches under an expected version. Both are optimistic: the
  version in the state is the one the caller must have seen.
\<close>

subsection \<open>Sessions\<close>

datatype session_status = SESSION_OPEN | SESSION_CLOSED

record session_state =
  ss_ref :: session_ref
  ss_status :: session_status
  ss_created_at :: datetime
  ss_version :: int
  ss_closed_at :: "datetime option"

definition mk_session :: "session_state \<Rightarrow> session_state result" where
  "mk_session s =
     (if ss_version s < 0 then Inl (ValueError ''session state version must not be negative'')
      else if (ss_status s = SESSION_CLOSED) \<noteq> (ss_closed_at s \<noteq> None)
        then Inl (ValueError ''closed Session requires closed_at'')
      else Inr s)"

definition session_ok :: "session_state \<Rightarrow> bool" where
  "session_ok s \<longleftrightarrow> 0 \<le> ss_version s \<and> (ss_status s = SESSION_CLOSED \<longleftrightarrow> ss_closed_at s \<noteq> None)"

lemma mk_session_Inr: "mk_session s = Inr s' \<longleftrightarrow> s' = s \<and> session_ok s"
  by (auto simp: mk_session_def session_ok_def)

type_synonym sessions = "session_ref \<rightharpoonup> session_state"

definition session_not_found :: exn where
  "session_not_found = core_error INVALID_REQUEST ''session_not_found'' ''Session does not exist'' False None"

definition session_add :: "session_state \<Rightarrow> sessions \<Rightarrow> exn + sessions" where
  "session_add s m =
     (case m (ss_ref s) of
        Some _ \<Rightarrow> Inl (core_error CONFLICT ''session_already_exists'' ''Session identity already exists'' False None)
      | None \<Rightarrow> Inr (m(ss_ref s \<mapsto> s)))"

definition session_get :: "session_ref \<Rightarrow> sessions \<Rightarrow> session_state result" where
  "session_get ref m = (case m ref of None \<Rightarrow> Inl session_not_found | Some s \<Rightarrow> Inr s)"

definition session_close :: "session_ref \<Rightarrow> int \<Rightarrow> datetime \<Rightarrow> sessions \<Rightarrow> (session_state result) \<times> sessions" where
  "session_close ref v now m =
     (case m ref of
        None \<Rightarrow> (Inl session_not_found, m)
      | Some s \<Rightarrow>
        if ss_status s = SESSION_CLOSED then (Inr s, m)
        else if ss_version s \<noteq> v
        then (Inl (core_error CONFLICT ''stale_state_version'' ''Session state version does not match'' True None), m)
        else (case mk_session (s\<lparr>ss_status := SESSION_CLOSED, ss_closed_at := Some now,
                 ss_version := ss_version s + 1\<rparr>) of
                Inl e \<Rightarrow> (Inl e, m)
              | Inr closed \<Rightarrow> (Inr closed, m(ref \<mapsto> closed))))"

definition session_require_open :: "session_ref \<Rightarrow> sessions \<Rightarrow> session_state result" where
  "session_require_open ref m =
     rbind (session_get ref m) (\<lambda>s.
       if ss_status s = SESSION_CLOSED
       then Inl (core_error CONFLICT ''session_closed''
                   ''closed Session cannot accept a new Run association'' False None)
       else Inr s)"

definition sessions_ok :: "sessions \<Rightarrow> bool" where
  "sessions_ok m \<longleftrightarrow> (\<forall>ref s. m ref = Some s \<longrightarrow> ss_ref s = ref \<and> session_ok s)"

lemma session_add_ok:
  "sessions_ok m \<Longrightarrow> session_ok s \<Longrightarrow> session_add s m = Inr m' \<Longrightarrow> sessions_ok m'"
  by (auto simp: session_add_def sessions_ok_def split: option.splits if_splits)

lemma session_close_Inr:
  assumes "session_close ref v now m = (Inr s, m')" "sessions_ok m"
  shows "ss_status s = SESSION_CLOSED \<and> m' ref = Some s \<and> (\<forall>k. k \<noteq> ref \<longrightarrow> m' k = m k) \<and> sessions_ok m'"
  using assms
  by (auto simp: session_close_def mk_session_Inr sessions_ok_def session_ok_def
      split: option.splits if_splits sum.splits)

text \<open>Closing is final and idempotent: a closed session answers every later close with itself.\<close>

lemma session_close_final:
  assumes "session_close ref v now m = (Inr s, m')" "sessions_ok m"
  shows "session_close ref v' now' m' = (Inr s, m')"
    and "\<exists>e. session_require_open ref m' = Inl e \<and> err_code e = Some ''session_closed''"
  using session_close_Inr [OF assms]
  by (auto simp: session_close_def session_require_open_def session_get_def error_simps)

subsection \<open>Workspaces\<close>

record workspace_state =
  ws_id :: workspace_id
  ws_scope :: scope_ref
  ws_version :: int
  ws_values :: "string \<rightharpoonup> json"
  ws_artifacts :: "string list"

definition mk_workspace :: "workspace_state \<Rightarrow> workspace_state result" where
  "mk_workspace w =
     (if ws_version w < 0 then Inl (ValueError ''workspace state version must not be negative'') else Inr w)"

definition workspace_update ::
  "workspace_state \<Rightarrow> int \<Rightarrow> (string \<rightharpoonup> json) \<Rightarrow> string list option \<Rightarrow> workspace_state result" where
  "workspace_update w v patch artifacts =
     (if ws_version w \<noteq> v
      then Inl (core_error CONFLICT ''stale_state_version'' ''Workspace state version does not match'' True None)
      else mk_workspace (w\<lparr>ws_version := ws_version w + 1, ws_values := ws_values w ++ patch,
             ws_artifacts := (case artifacts of None \<Rightarrow> ws_artifacts w | Some a \<Rightarrow> a)\<rparr>))"

text \<open>A chain of updates, each with the version the previous one left.\<close>

fun workspace_updates :: "workspace_state \<Rightarrow> (string \<rightharpoonup> json) list \<Rightarrow> workspace_state result" where
  "workspace_updates w [] = Inr w"
| "workspace_updates w (p # ps) =
     rbind (workspace_update w (ws_version w) p None) (\<lambda>w'. workspace_updates w' ps)"

lemma workspace_updates_spec:
  assumes "0 \<le> ws_version w"
  shows "workspace_updates w ps = Inr (w\<lparr>ws_version := ws_version w + int (length ps),
    ws_values := foldl (++) (ws_values w) ps\<rparr>)"
  using assms
proof (induction ps arbitrary: w)
  case Nil
  then show ?case by simp
next
  case (Cons p ps)
  then show ?case by (simp add: workspace_update_def mk_workspace_def algebra_simps)
qed

end
