(* ===== verification/Json_Codec.thy ===== *)
theory Json_Codec
  imports Authorization
begin

section \<open>Encoding and decoding references\<close>

text \<open>
  The \<open>to_data\<close> and \<open>from_data\<close> pairs of scopes, sessions, principals, actions, resources,
  capabilities, schemas and error details. A decoder raises what the first failing access
  raises, in the order the code evaluates its fields.

  Two library functions the decoders call are arguments, bundled in \<open>pylib\<close>: \<open>py_repr\<close> is
  the text Python gives a float, a list or an object under \<open>str\<close> and a string in an error
  message, \<open>py_fromiso\<close> is \<open>datetime.fromisoformat\<close> followed by the conversion to UTC.
\<close>

record pylib =
  py_repr :: "json \<Rightarrow> string"
  py_fromiso :: "string \<Rightarrow> datetime result"

text \<open>The documented behaviour the round trips rely on: \<open>fromisoformat\<close> inverts \<open>isoformat\<close>.\<close>

definition iso_inverse :: "pylib \<Rightarrow> bool" where
  "iso_inverse L \<longleftrightarrow> (\<forall>d. datetime_ok d \<longrightarrow> py_fromiso L (isoformat d) = Inr d)"

definition py_str :: "pylib \<Rightarrow> json \<Rightarrow> string" where
  "py_str L v = (case v of JStr s \<Rightarrow> s | JNull \<Rightarrow> ''None'' | JBool b \<Rightarrow> if b then ''True'' else ''False''
     | JInt i \<Rightarrow> int_str i | _ \<Rightarrow> py_repr L v)"

definition field_str :: "pylib \<Rightarrow> json_object \<Rightarrow> string \<Rightarrow> string result" where
  "field_str L d k = rbind (obj_index d k) (\<lambda>v. Inr (py_str L v))"

text \<open>\<open>f(str(data[k])) if data.get(k) else None\<close>\<close>

definition field_opt :: "pylib \<Rightarrow> json_object \<Rightarrow> string \<Rightarrow> (string \<Rightarrow> 'a result) \<Rightarrow> 'a option result" where
  "field_opt L d k f =
     (if json_true (obj_get d k)
      then rbind (field_str L d k) (\<lambda>s. rbind (f s) (\<lambda>x. Inr (Some x))) else Inr None)"

text \<open>\<open>g(as_object(raw, name)) if raw is not None else None\<close>, with the object taken first.\<close>

definition object_opt :: "json \<Rightarrow> string \<Rightarrow> json_object option result" where
  "object_opt v fname = (if v = JNull then Inr None else rbind (as_object v fname) (\<lambda>d. Inr (Some d)))"

definition decode_opt :: "('a \<Rightarrow> 'b result) \<Rightarrow> 'a option \<Rightarrow> 'b option result" where
  "decode_opt f v = (case v of None \<Rightarrow> Inr None | Some d \<Rightarrow> rbind (f d) (\<lambda>x. Inr (Some x)))"

text \<open>\<open>Enum(value)\<close>: the member with that value, or the \<open>ValueError\<close> of the enumeration.\<close>

definition enum_of :: "pylib \<Rightarrow> string \<Rightarrow> (string \<times> 'a) list \<Rightarrow> string \<Rightarrow> 'a result" where
  "enum_of L cls members s = (case map_of members s of
       Some x \<Rightarrow> Inr x
     | None \<Rightarrow> Inl (ValueError (py_repr L (JStr s) @ '' is not a valid '' @ cls)))"

lemma py_str_string [simp]: "py_str L (JStr s) = s"
  by (simp add: py_str_def)

lemma obj_index_simps [simp]:
  "obj_index ((k, v) # d) k' = (if k = k' then Inr v else obj_index d k')"
  by (simp add: obj_index_def)

lemma obj_get_simps [simp]: "obj_get ((k, v) # d) k' = (if k = k' then v else obj_get d k')" "obj_get [] k' = JNull"
  by (simp_all add: obj_get_def)

lemma field_str_simps [simp]:
  "field_str L ((k, v) # d) k' = (if k = k' then Inr (py_str L v) else field_str L d k')"
  by (simp add: field_str_def)

definition decode_value :: "pylib \<Rightarrow> (string \<Rightarrow> 'a result) \<Rightarrow> json \<Rightarrow> 'a option result" where
  "decode_value L f v = (if json_true v then rbind (f (py_str L v)) (\<lambda>x. Inr (Some x)) else Inr None)"

lemma field_opt_simps [simp]:
  "field_opt L ((k, v) # d) k' f = (if k = k' then decode_value L f v else field_opt L d k' f)"
  by (simp add: field_opt_def decode_value_def)

lemma field_opt_value: "field_opt L d k f = decode_value L f (obj_get d k)"
  by (cases "map_of d k") (simp_all add: field_opt_def decode_value_def obj_get_def field_str_def obj_index_def)

lemma object_opt_simps [simp]: "object_opt JNull n = Inr None" "object_opt (JObj d) n = Inr (Some d)"
  by (simp_all add: object_opt_def as_object_def)

lemma decode_opt_simps [simp]: "decode_opt f None = Inr None"
  "decode_opt f (Some d) = rbind (f d) (\<lambda>x. Inr (Some x))"
  by (simp_all add: decode_opt_def)

lemma as_simps [simp]: "as_object (JObj d) n = Inr d" "as_array (JList xs) n = Inr xs" "as_int (JInt i) n = Inr i"
  by (simp_all add: json_simps)

lemma opt_str_simps [simp]: "opt_str None = JNull" "opt_str (Some s) = JStr s"
  by (simp_all add: opt_str_def)

lemma mk_identifier_ok [simp]: "identifier_ok s \<Longrightarrow> mk_identifier s = Inr s"
  by (simp add: mk_identifier_Inr)

lemma decode_value_plain: "i \<noteq> Some [] \<Longrightarrow> decode_value L Inr (opt_str i) = Inr i"
  by (cases i) (auto simp: decode_value_def opt_str_def)

lemma identifier_nonempty: "identifier_ok s \<Longrightarrow> s \<noteq> []"
  by (auto simp: identifier_ok_def trimmed_def)

subsection \<open>Scopes\<close>

text \<open>
  The recursion follows the nesting of the objects, outermost first, so it needs no fuel: the
  parent object is a part of the value.
\<close>

function scope_from_data :: "pylib \<Rightarrow> json_object \<Rightarrow> scope_ref result" where
  "scope_from_data L d =
     rbind (case obj_get d ''parent'' of
         JNull \<Rightarrow> Inr None
       | JObj p \<Rightarrow> rbind (scope_from_data L p) (\<lambda>s. Inr (Some s))
       | _ \<Rightarrow> Inl (ValueError ''scope parent must be an object'')) (\<lambda>parent.
     rbind (field_str L d ''namespace'') (\<lambda>n.
     rbind (field_str L d ''kind'') (\<lambda>k.
     rbind (field_str L d ''id'') (\<lambda>i.
     mk_scope n k i parent))))"
  by auto
termination
proof (relation "measure (\<lambda>(L, d). size (JObj d))")
  fix L d p
  assume "obj_get d ''parent'' = JObj p"
  then have "map_of d ''parent'' = Some (JObj p)"
    by (auto simp: obj_get_def split: option.splits)
  then have "(''parent'', JObj p) \<in> set d" by (rule map_of_SomeD)
  then have "size_prod (\<lambda>_. 0) size (''parent'', JObj p) \<le> size_list (size_prod (\<lambda>_. 0) size) d"
    by (intro size_list_estimation') auto
  then show "((L, p), L, d) \<in> measure (\<lambda>(L, d). size (JObj d))" by simp
qed simp

declare scope_from_data.simps [simp del]

lemma scope_roundtrip: "scope_ok s \<Longrightarrow> rbind (as_object (scope_to_data s) name) (scope_from_data L) = Inr s"
proof (induction s rule: measure_induct_rule [of size])
  case (less s)
  obtain n k i p where s: "s = ScopeRef n k i p" by (cases s)
  with less.prems have "scope_node_ok (ScopeRef n k i p)" by (simp add: scope_ok_def)
  then have mk: "mk_scope n k i p = Inr (ScopeRef n k i p)" by (simp add: mk_scope_Inr)
  show ?case
  proof (cases p)
    case None
    with mk s show ?thesis by (simp add: scope_from_data.simps)
  next
    case (Some q)
    obtain d where d: "scope_to_data q = JObj d" by (cases q) simp
    have "scope_ok q" using less.prems s Some by (simp add: scope_ok_def)
    with less.IH [of q] s Some d have "scope_from_data L d = Inr q" by simp
    with mk s Some d show ?thesis by (simp add: scope_from_data.simps)
  qed
qed

lemma scope_to_data_object: "\<exists>d. scope_to_data s = JObj d"
  by (cases s) simp

text \<open>The form the decoders of enclosing records meet: an object taken first, decoded later.\<close>

lemma scope_roundtrip_object:
  "scope_ok s \<Longrightarrow> as_object (scope_to_data s) name = Inr d \<Longrightarrow> scope_from_data L d = Inr s"
  using scope_roundtrip [of s name L] by simp

subsection \<open>Sessions, principals, actions and resources\<close>

definition session_ref_to_data :: "session_ref \<Rightarrow> json_object" where
  "session_ref_to_data r = [(''namespace'', JStr (se_namespace r)), (''session_id'', JStr (se_id r))]"

definition session_ref_from_data :: "pylib \<Rightarrow> json_object \<Rightarrow> session_ref result" where
  "session_ref_from_data L d =
     rbind (field_str L d ''namespace'') (\<lambda>n.
     rbind (rbind (field_str L d ''session_id'') mk_identifier) (\<lambda>i.
     mk_session_ref n i))"

definition session_ref_ok :: "session_ref \<Rightarrow> bool" where
  "session_ref_ok r \<longleftrightarrow> trimmed (se_namespace r) \<and> identifier_ok (se_id r)"

lemma session_ref_roundtrip: "session_ref_ok r \<Longrightarrow> session_ref_from_data L (session_ref_to_data r) = Inr r"
  by (simp add: session_ref_from_data_def session_ref_to_data_def session_ref_ok_def mk_session_ref_def)

definition principal_to_data :: "principal \<Rightarrow> json_object" where
  "principal_to_data p = [(''namespace'', JStr (pr_namespace p)), (''kind'', JStr (pr_kind p)),
     (''id'', JStr (pr_id p))]"

definition principal_from_data :: "pylib \<Rightarrow> json_object \<Rightarrow> principal result" where
  "principal_from_data L d =
     rbind (field_str L d ''namespace'') (\<lambda>n.
     rbind (field_str L d ''kind'') (\<lambda>k.
     rbind (rbind (field_str L d ''id'') mk_identifier) (\<lambda>i.
     mk_principal n k i)))"

definition principal_ok :: "principal \<Rightarrow> bool" where
  "principal_ok p \<longleftrightarrow> name_pattern (pr_namespace p) \<and> name_pattern (pr_kind p) \<and> identifier_ok (pr_id p)"

lemma principal_roundtrip: "principal_ok p \<Longrightarrow> principal_from_data L (principal_to_data p) = Inr p"
  by (simp add: principal_from_data_def principal_to_data_def principal_ok_def mk_principal_def require_name_def)

definition action_to_data :: "action_ref \<Rightarrow> json_object" where
  "action_to_data a = [(''namespace'', JStr (ac_namespace a)), (''name'', JStr (ac_name a)),
     (''version'', JStr (ac_version a))]"

definition action_from_data :: "pylib \<Rightarrow> json_object \<Rightarrow> action_ref result" where
  "action_from_data L d =
     rbind (field_str L d ''namespace'') (\<lambda>n.
     rbind (field_str L d ''name'') (\<lambda>m.
     rbind (field_str L d ''version'') (\<lambda>v.
     mk_action n m v)))"

definition action_ok :: "action_ref \<Rightarrow> bool" where
  "action_ok a \<longleftrightarrow> name_pattern (ac_namespace a) \<and> name_pattern (ac_name a) \<and> trimmed (ac_version a)"

lemma mk_action_Inr: "mk_action n m v = Inr a \<longleftrightarrow> a = \<lparr>ac_namespace = n, ac_name = m, ac_version = v\<rparr> \<and> action_ok a"
  by (auto simp: mk_action_def require_name_def action_ok_def result_simps)

lemma action_roundtrip: "action_ok a \<Longrightarrow> action_from_data L (action_to_data a) = Inr a"
  by (simp add: action_from_data_def action_to_data_def mk_action_Inr)

definition resource_to_data :: "resource_ref \<Rightarrow> json_object" where
  "resource_to_data r = [(''namespace'', JStr (rs_namespace r)), (''kind'', JStr (rs_kind r)),
     (''id'', JStr (rs_id r)), (''owning_extension'', opt_str (rs_owner r))]"

definition resource_from_data :: "pylib \<Rightarrow> json_object \<Rightarrow> resource_ref result" where
  "resource_from_data L d =
     (let owner = obj_get d ''owning_extension'' in
      rbind (field_str L d ''namespace'') (\<lambda>n.
      rbind (field_str L d ''kind'') (\<lambda>k.
      rbind (rbind (field_str L d ''id'') mk_identifier) (\<lambda>i.
      mk_resource n k i (if owner = JNull then None else Some (py_str L owner))))))"

definition resource_ok :: "resource_ref \<Rightarrow> bool" where
  "resource_ok r \<longleftrightarrow> name_pattern (rs_namespace r) \<and> name_pattern (rs_kind r) \<and> identifier_ok (rs_id r)
     \<and> (case rs_owner r of None \<Rightarrow> True | Some x \<Rightarrow> name_pattern x)"

lemma resource_roundtrip: "resource_ok r \<Longrightarrow> resource_from_data L (resource_to_data r) = Inr r"
  by (cases r; cases "rs_owner r")
    (simp_all add: resource_from_data_def resource_to_data_def resource_ok_def mk_resource_def require_name_def)

subsection \<open>Error details\<close>

definition json_scalar :: "json \<Rightarrow> bool" where
  "json_scalar v \<longleftrightarrow> (case v of JList _ \<Rightarrow> False | JObj _ \<Rightarrow> False | _ \<Rightarrow> True)"

definition error_categories :: "(string \<times> error_category) list" where
  "error_categories = List.map (\<lambda>c. (category_value c, c)) [INVALID_REQUEST, DENIED, UNAVAILABLE,
     TIMEOUT, CANCELLED_CALL, CONFLICT, VERSION_MISMATCH, PARTIAL_RESULT, UNSUPPORTED_CAPABILITY,
     PROTOCOL_FAILURE]"

definition error_detail_to_data :: "error_detail \<Rightarrow> json_object" where
  "error_detail_to_data e = [(''category'', JStr (category_value (ed_category e))), (''code'', JStr (ed_code e)),
     (''message'', JStr (ed_message e)), (''retryable'', JBool (ed_retryable e)),
     (''cause_id'', opt_str (ed_cause_id e)), (''metadata'', JObj (ed_metadata e))]"

text \<open>\<open>data.get(key, default)\<close>\<close>

definition obj_get_or :: "json_object \<Rightarrow> string \<Rightarrow> json \<Rightarrow> json" where
  "obj_get_or d k v = (case map_of d k of None \<Rightarrow> v | Some x \<Rightarrow> x)"

lemma obj_get_or_simps [simp]: "obj_get_or ((k, v) # d) k' w = (if k = k' then v else obj_get_or d k' w)"
  by (simp add: obj_get_or_def)

definition error_detail_from_data :: "pylib \<Rightarrow> json_object \<Rightarrow> error_detail result" where
  "error_detail_from_data L d =
     rbind (as_object (obj_get_or d ''metadata'' (JObj [])) ''error metadata'') (\<lambda>metadata.
     if \<not> list_all (\<lambda>(k, v). json_scalar v) metadata
     then Inl (ValueError ''error metadata must contain JSON scalar values'')
     else
     rbind (rbind (field_str L d ''category'') (enum_of L ''ErrorCategory'' error_categories)) (\<lambda>cat.
     rbind (field_str L d ''code'') (\<lambda>code.
     rbind (field_str L d ''message'') (\<lambda>msg.
     rbind (field_opt L d ''cause_id'' Inr) (\<lambda>cause.
     mk_error_detail cat code msg (json_true (obj_get_or d ''retryable'' (JBool False))) cause metadata)))))"

text \<open>
  A detail that survives encoding: its metadata are scalars and its cause is not the empty
  string, which the decoder reads as absent.
\<close>

definition error_detail_codable :: "error_detail \<Rightarrow> bool" where
  "error_detail_codable e \<longleftrightarrow> error_detail_ok e \<and> list_all (\<lambda>(k, v). json_scalar v) (ed_metadata e)
     \<and> ed_cause_id e \<noteq> Some []"

lemma error_category_value [simp]: "enum_of L cls error_categories (category_value c) = Inr c"
  by (cases c) (simp_all add: enum_of_def error_categories_def)

lemma error_detail_roundtrip:
  "error_detail_codable e \<Longrightarrow> error_detail_from_data L (error_detail_to_data e) = Inr e"
  by (cases e) (simp add: decode_value_plain error_detail_from_data_def error_detail_to_data_def error_detail_codable_def
      mk_error_detail_def error_detail_ok_def)

section \<open>Python equality of JSON values\<close>

text \<open>
  \<open>==\<close> on JSON values: numbers are compared by value, so \<open>True == 1 == 1.0\<close>; dictionaries are
  compared as mappings. A finite double is an integer multiple of \<open>2^-1074\<close>, which makes the
  comparison with integers exact. A NaN is compared by its bits, which stands for the identity
  test that containers apply to their elements first.
\<close>

definition float_sign :: "64 word \<Rightarrow> int" where
  "float_sign w = (if 2 ^ 63 \<le> uint w then -1 else 1)"

definition float_exponent :: "64 word \<Rightarrow> nat" where
  "float_exponent w = nat (uint w div 2 ^ 52 mod 2048)"

definition float_fraction :: "64 word \<Rightarrow> int" where
  "float_fraction w = uint w mod 2 ^ 52"

text \<open>The value of a finite double, times \<open>2^1074\<close>.\<close>

definition float_scaled :: "64 word \<Rightarrow> int" where
  "float_scaled w = float_sign w * (if float_exponent w = 0 then float_fraction w
     else (2 ^ 52 + float_fraction w) * 2 ^ (float_exponent w - 1))"

definition float_finite :: "64 word \<Rightarrow> bool" where
  "float_finite w \<longleftrightarrow> float_exponent w < 2047"

datatype json_number = Scaled int | Special "64 word"

definition float_number :: "64 word \<Rightarrow> json_number" where
  "float_number w = (if float_finite w then Scaled (float_scaled w) else Special w)"

definition int_number :: "int \<Rightarrow> json_number" where
  "int_number i = Scaled (i * 2 ^ 1074)"

definition json_number_of :: "json \<Rightarrow> json_number option" where
  "json_number_of v = (case v of JBool b \<Rightarrow> Some (int_number (of_bool b)) | JInt i \<Rightarrow> Some (int_number i)
     | JFloat w \<Rightarrow> Some (float_number w) | _ \<Rightarrow> None)"

lemma size_member: "x \<in> set xs \<Longrightarrow> size x < Suc (size_list size xs)" for x :: json
  by (induction xs) auto

lemma size_pair_member: "(k, v) \<in> set d \<Longrightarrow> size v < Suc (size_list (size_prod (\<lambda>_. 0) size) d)" for v :: json
  by (induction d) auto

function json_eq :: "json \<Rightarrow> json \<Rightarrow> bool" where
  "json_eq a b =
     (case (a, b) of
        (JNull, JNull) \<Rightarrow> True
      | (JStr s, JStr t) \<Rightarrow> s = t
      | (JList xs, JList ys) \<Rightarrow> length xs = length ys \<and> (\<forall>(x, y) \<in> set (zip xs ys). json_eq x y)
      | (JObj d, JObj e) \<Rightarrow> length d = length e \<and>
          (\<forall>(k, v) \<in> set d. case map_of e k of None \<Rightarrow> False | Some v' \<Rightarrow> json_eq v v')
      | _ \<Rightarrow> (case (json_number_of a, json_number_of b) of (Some m, Some n) \<Rightarrow> m = n | _ \<Rightarrow> False))"
  by auto
termination
  apply (relation "measure (\<lambda>(a, b). size a)")
  apply simp
  apply clarsimp
  subgoal for xs ys x y using size_member [of x xs] by (auto dest: set_zip_leftD)
  apply (auto dest: size_pair_member)
  done

declare json_eq.simps [simp del]

text \<open>Every document equals itself, when its dictionaries have distinct keys.\<close>

fun keys_distinct :: "json \<Rightarrow> bool" where
  "keys_distinct (JList xs) = list_all keys_distinct xs"
| "keys_distinct (JObj d) = (distinct (List.map fst d) \<and> list_all (\<lambda>(k, v). keys_distinct v) d)"
| "keys_distinct _ = True"

lemma json_eq_refl: "keys_distinct v \<Longrightarrow> json_eq v v"
proof (induction v rule: measure_induct_rule [of size])
  case (less v)
  show ?case
  proof (cases v)
    case (JList xs)
    have "json_eq x x" if "x \<in> set xs" for x
      using less.prems JList that size_member [OF that] by (intro less.IH) (auto simp: list_all_iff)
    with JList show ?thesis by (auto simp: json_eq.simps [of "JList xs"] zip_same)
  next
    case (JObj d)
    have d: "distinct (List.map fst d)" using less.prems JObj by simp
    have "json_eq x x" if "(k, x) \<in> set d" for k x
    proof (rule less.IH)
      show "size x < size v" using size_pair_member [OF that] JObj by simp
      show "keys_distinct x" using less.prems JObj that by (auto simp: list_all_iff)
    qed
    with JObj map_of_is_SomeI [OF d] show ?thesis by (auto simp: json_eq.simps [of "JObj d"] split: option.splits)
  qed (simp_all add: json_eq.simps json_number_of_def)
qed

end
