(* ===== verification/Run_Codec.thy ===== *)
theory Run_Codec
  imports Json_Codec
begin

section \<open>Encoding and decoding Runs and call contexts\<close>

text \<open>
  The \<open>to_data\<close> and \<open>from_data\<close> pairs of \<open>runtime/run.py\<close> and \<open>runtime/context.py\<close>. The
  decoders end in the validating constructors, so what they return is well formed; the
  round trips show that every well-formed value is read back as it was written.
\<close>

subsection \<open>Enumerations\<close>

fun run_kind_value :: "run_kind \<Rightarrow> string" where
  "run_kind_value KIND_AGENT = ''agent''"
| "run_kind_value KIND_WORKFLOW = ''workflow''"

fun outcome_value :: "attempt_outcome \<Rightarrow> string" where
  "outcome_value AO_SUCCEEDED = ''succeeded''"
| "outcome_value AO_RETRYABLE_FAILURE = ''retryable_failure''"
| "outcome_value AO_FINAL_FAILURE = ''final_failure''"
| "outcome_value AO_CANCELLED = ''cancelled''"
| "outcome_value AO_INTERRUPTED = ''interrupted''"

fun audit_mode_value :: "audit_failure_mode \<Rightarrow> string" where
  "audit_mode_value AUDIT_PAUSE = ''pause''"
| "audit_mode_value AUDIT_FAIL = ''fail''"

definition run_kinds :: "(string \<times> run_kind) list" where
  "run_kinds = List.map (\<lambda>c. (run_kind_value c, c)) [KIND_AGENT, KIND_WORKFLOW]"

definition run_statuses :: "(string \<times> run_status) list" where
  "run_statuses = List.map (\<lambda>c. (status_value c, c)) [CREATED, STARTING, CONTEXT_LOADING, RUNNING,
     WAITING_APPROVAL, PAUSED, RETRYING, RECOVERING, SUCCEEDED, FAILED, CANCELLED]"

definition outcomes :: "(string \<times> attempt_outcome) list" where
  "outcomes = List.map (\<lambda>c. (outcome_value c, c)) [AO_SUCCEEDED, AO_RETRYABLE_FAILURE,
     AO_FINAL_FAILURE, AO_CANCELLED, AO_INTERRUPTED]"

definition audit_modes :: "(string \<times> audit_failure_mode) list" where
  "audit_modes = List.map (\<lambda>c. (audit_mode_value c, c)) [AUDIT_PAUSE, AUDIT_FAIL]"

lemma run_kind_decodes [simp]: "enum_of L cls run_kinds (run_kind_value k) = Inr k"
  by (cases k) (simp_all add: enum_of_def run_kinds_def)

lemma status_decodes [simp]: "enum_of L cls run_statuses (status_value s) = Inr s"
  by (cases s) (simp_all add: enum_of_def run_statuses_def)

lemma outcome_decodes [simp]: "enum_of L cls outcomes (outcome_value x) = Inr x"
  by (cases x) (simp_all add: enum_of_def outcomes_def)

lemma audit_mode_decodes [simp]: "enum_of L cls audit_modes (audit_mode_value m) = Inr m"
  by (cases m) (simp_all add: enum_of_def audit_modes_def)

lemma status_value_nonempty [simp]: "status_value s \<noteq> []"
  by (cases s) simp_all

lemma outcome_value_nonempty [simp]: "outcome_value x \<noteq> []"
  by (cases x) simp_all

subsection \<open>Policies, error summaries, attempts\<close>

definition policy_to_data :: "run_control_policy \<Rightarrow> json_object" where
  "policy_to_data p = [(''audit_failure_mode'', JStr (audit_mode_value (rcp_audit_failure_mode p)))]"

definition policy_from_data :: "pylib \<Rightarrow> json_object \<Rightarrow> run_control_policy result" where
  "policy_from_data L d =
     rbind (rbind (field_str L d ''audit_failure_mode'') (enum_of L ''AuditFailureMode'' audit_modes)) (\<lambda>m.
     Inr \<lparr>rcp_audit_failure_mode = m\<rparr>)"

lemma policy_roundtrip [simp]: "policy_from_data L (policy_to_data p) = Inr p"
  by (simp add: policy_from_data_def policy_to_data_def)

definition date_json :: "datetime option \<Rightarrow> json" where
  "date_json d = (case d of None \<Rightarrow> JNull | Some t \<Rightarrow> JStr (isoformat t))"

lemma date_json_simps [simp]: "date_json None = JNull" "date_json (Some t) = JStr (isoformat t)"
  by (simp_all add: date_json_def)

definition date_ok :: "datetime option \<Rightarrow> bool" where
  "date_ok d \<longleftrightarrow> (case d of None \<Rightarrow> True | Some t \<Rightarrow> datetime_ok t)"

lemma date_ok_simps [simp]: "date_ok None" "date_ok (Some t) = datetime_ok t"
  by (simp_all add: date_ok_def)

definition error_summary_to_data :: "error_summary \<Rightarrow> json_object" where
  "error_summary_to_data e = [(''detail'', JObj (error_detail_to_data (es_detail e))),
     (''attempt'', JInt (es_attempt e)), (''occurred_at'', JStr (isoformat (es_occurred_at e)))]"

definition error_summary_from_data :: "pylib \<Rightarrow> json_object \<Rightarrow> error_summary result" where
  "error_summary_from_data L d =
     rbind (rbind (obj_index d ''detail'') (\<lambda>v. as_object v ''error detail'')) (\<lambda>raw.
     rbind (error_detail_from_data L raw) (\<lambda>e.
     rbind (rbind (obj_index d ''attempt'') (\<lambda>v. as_int v ''error attempt'')) (\<lambda>n.
     rbind (rbind (field_str L d ''occurred_at'') (py_fromiso L)) (\<lambda>t.
     mk_error_summary e n t))))"

definition error_summary_codable :: "error_summary \<Rightarrow> bool" where
  "error_summary_codable e \<longleftrightarrow> error_detail_codable (es_detail e) \<and> 1 \<le> es_attempt e \<and> datetime_ok (es_occurred_at e)"

lemma error_summary_roundtrip:
  "iso_inverse L \<Longrightarrow> error_summary_codable e \<Longrightarrow> error_summary_from_data L (error_summary_to_data e) = Inr e"
  by (simp add: error_summary_from_data_def error_summary_to_data_def error_summary_codable_def
      error_detail_roundtrip mk_error_summary_def iso_inverse_def)

definition attempt_to_data :: "attempt_record \<Rightarrow> json_object" where
  "attempt_to_data a = [(''attempt'', JInt (at_no a)), (''started_at'', JStr (isoformat (at_started a))),
     (''ended_at'', date_json (at_ended a)),
     (''outcome'', case at_outcome a of None \<Rightarrow> JNull | Some x \<Rightarrow> JStr (outcome_value x)),
     (''checkpoint_ref'', opt_str (at_checkpoint a)),
     (''error'', case at_error a of None \<Rightarrow> JNull | Some e \<Rightarrow> JObj (error_summary_to_data e))]"

definition attempt_from_data :: "pylib \<Rightarrow> json_object \<Rightarrow> attempt_record result" where
  "attempt_from_data L d =
     rbind (object_opt (obj_get d ''error'') ''attempt error'') (\<lambda>error_data.
     rbind (rbind (obj_index d ''attempt'') (\<lambda>v. as_int v ''attempt'')) (\<lambda>n.
     rbind (rbind (field_str L d ''started_at'') (py_fromiso L)) (\<lambda>started.
     rbind (field_opt L d ''ended_at'' (py_fromiso L)) (\<lambda>ended.
     rbind (field_opt L d ''outcome'' (enum_of L ''AttemptOutcome'' outcomes)) (\<lambda>outcome.
     rbind (field_opt L d ''checkpoint_ref'' mk_identifier) (\<lambda>ref.
     rbind (decode_opt (error_summary_from_data L) error_data) (\<lambda>err.
     mk_attempt \<lparr>at_no = n, at_started = started, at_ended = ended, at_outcome = outcome,
       at_checkpoint = ref, at_error = err\<rparr>)))))))"

definition opt_id_ok :: "string option \<Rightarrow> bool" where
  "opt_id_ok i \<longleftrightarrow> (case i of None \<Rightarrow> True | Some s \<Rightarrow> identifier_ok s)"

lemma opt_id_ok_simps [simp]: "opt_id_ok None" "opt_id_ok (Some s) = identifier_ok s"
  by (simp_all add: opt_id_ok_def)

lemma decode_identifier [simp]: "opt_id_ok i \<Longrightarrow> decode_value L mk_identifier (opt_str i) = Inr i"
  by (cases i) (auto simp: decode_value_def identifier_nonempty)

lemma decode_date [simp]:
  "iso_inverse L \<Longrightarrow> date_ok t \<Longrightarrow> decode_value L (py_fromiso L) (date_json t) = Inr t"
  by (cases t) (simp_all add: iso_inverse_def decode_value_def)

lemma decode_outcome [simp]:
  "decode_value L (enum_of L c outcomes) (case v of None \<Rightarrow> JNull | Some x \<Rightarrow> JStr (outcome_value x)) = Inr v"
  by (cases v) (simp_all add: decode_value_def)

lemma decode_status [simp]:
  "decode_value L (enum_of L c run_statuses) (case v of None \<Rightarrow> JNull | Some s \<Rightarrow> JStr (status_value s)) = Inr v"
  by (cases v) (simp_all add: decode_value_def)

text \<open>The two halves of an optional part: the object taken first, decoded later.\<close>

lemma object_opt_case [simp]:
  "object_opt (case v of None \<Rightarrow> JNull | Some x \<Rightarrow> JObj (g x)) n = Inr (map_option g v)"
  by (cases v) simp_all

lemma decode_opt_map:
  "(case v of None \<Rightarrow> True | Some x \<Rightarrow> f (g x) = Inr x) \<Longrightarrow> decode_opt f (map_option g v) = Inr v"
  by (cases v) simp_all

lemma fromiso [simp]: "iso_inverse L \<Longrightarrow> datetime_ok t \<Longrightarrow> py_fromiso L (isoformat t) = Inr t"
  by (simp add: iso_inverse_def)

definition attempt_codable :: "attempt_record \<Rightarrow> bool" where
  "attempt_codable a \<longleftrightarrow> mk_attempt a = Inr a \<and> datetime_ok (at_started a) \<and> date_ok (at_ended a)
     \<and> opt_id_ok (at_checkpoint a)
     \<and> (case at_error a of None \<Rightarrow> True | Some e \<Rightarrow> error_summary_codable e)"

lemma attempt_roundtrip:
  assumes "iso_inverse L" "attempt_codable a"
  shows "attempt_from_data L (attempt_to_data a) = Inr a"
proof -
  have "decode_opt (error_summary_from_data L) (map_option error_summary_to_data (at_error a)) = Inr (at_error a)"
    using assms by (intro decode_opt_map) (auto simp: error_summary_roundtrip attempt_codable_def split: option.splits)
  with assms show ?thesis
    by (cases a) (simp add: attempt_from_data_def attempt_to_data_def attempt_codable_def)
qed

subsection \<open>Runs\<close>

definition variant_to_data :: "run_variant \<Rightarrow> json_object" where
  "variant_to_data v = (case v of
     AgentRun a b \<Rightarrow> [(''agent_id'', JStr a), (''model_binding_ref'', JStr b)]
   | WorkflowRun w g c \<Rightarrow> [(''workflow_id'', JStr w), (''graph_version'', JStr g),
       (''latest_checkpoint_ref'', opt_str c)])"

definition run_common_data :: "run \<Rightarrow> json_object" where
  "run_common_data r =
     [(''run_id'', JStr (r_id r)),
      (''kind'', JStr (run_kind_value (r_kind r))),
      (''definition_id'', JStr (r_definition_id r)),
      (''root_run_id'', JStr (r_root_id r)),
      (''parent_run_id'', opt_str (r_parent_id r)),
      (''workspace_id'', JStr (r_workspace_id r)),
      (''session_ref'', case r_session_ref r of None \<Rightarrow> JNull | Some x \<Rightarrow> JObj (session_ref_to_data x)),
      (''scope'', scope_to_data (r_scope r)),
      (''status'', JStr (status_value (r_status r))),
      (''attempt'', JInt (r_attempt r)),
      (''state_version'', JInt (r_version r)),
      (''created_at'', JStr (isoformat (r_created_at r))),
      (''started_at'', date_json (r_started_at r)),
      (''updated_at'', date_json (r_updated_at r)),
      (''ended_at'', date_json (r_ended_at r)),
      (''error_summary'', case r_error r of None \<Rightarrow> JNull | Some e \<Rightarrow> JObj (error_summary_to_data e)),
      (''continuation_status'', case r_continuation r of None \<Rightarrow> JNull | Some s \<Rightarrow> JStr (status_value s)),
      (''attempt_history'', JList (List.map (\<lambda>a. JObj (attempt_to_data a)) (r_history r))),
      (''control_policy'', JObj (policy_to_data (r_policy r)))]"

definition run_to_data :: "run \<Rightarrow> json_object" where
  "run_to_data r = run_common_data r @ variant_to_data (r_variant r)"

definition variant_from_data :: "pylib \<Rightarrow> json_object \<Rightarrow> run_kind \<Rightarrow> run_variant result" where
  "variant_from_data L d kind = (case kind of
     KIND_AGENT \<Rightarrow>
       rbind (rbind (field_str L d ''agent_id'') mk_identifier) (\<lambda>a.
       rbind (rbind (field_str L d ''model_binding_ref'') mk_identifier) (\<lambda>b.
       Inr (AgentRun a b)))
   | KIND_WORKFLOW \<Rightarrow>
       rbind (rbind (field_str L d ''workflow_id'') mk_identifier) (\<lambda>w.
       rbind (field_str L d ''graph_version'') (\<lambda>g.
       rbind (field_opt L d ''latest_checkpoint_ref'' mk_identifier) (\<lambda>c.
       Inr (WorkflowRun w g c)))))"

definition run_from_data :: "pylib \<Rightarrow> json_object \<Rightarrow> run result" where
  "run_from_data L d =
     rbind (rbind (obj_index d ''scope'') (\<lambda>v. as_object v ''run scope'')) (\<lambda>raw_scope.
     rbind (as_object (obj_get_or d ''control_policy'' (JObj [])) ''run control_policy'') (\<lambda>raw_policy.
     rbind (as_array (obj_get_or d ''attempt_history'' (JList [])) ''run attempt_history'') (\<lambda>raw_history.
     rbind (object_opt (obj_get d ''session_ref'') ''run session_ref'') (\<lambda>session_data.
     rbind (object_opt (obj_get d ''error_summary'') ''run error_summary'') (\<lambda>error_data.
     rbind (rmap (\<lambda>v. as_object v ''run attempt history item'') raw_history) (\<lambda>history_data.
     rbind (rbind (field_str L d ''run_id'') mk_identifier) (\<lambda>rid.
     rbind (rbind (field_str L d ''kind'') (enum_of L ''RunKind'' run_kinds)) (\<lambda>kind.
     rbind (rbind (field_str L d ''definition_id'') mk_identifier) (\<lambda>def_id.
     rbind (rbind (field_str L d ''root_run_id'') mk_identifier) (\<lambda>root.
     rbind (field_opt L d ''parent_run_id'' mk_identifier) (\<lambda>parent.
     rbind (rbind (field_str L d ''workspace_id'') mk_identifier) (\<lambda>ws.
     rbind (decode_opt (session_ref_from_data L) session_data) (\<lambda>session.
     rbind (scope_from_data L raw_scope) (\<lambda>scope.
     rbind (rbind (field_str L d ''status'') (enum_of L ''RunStatus'' run_statuses)) (\<lambda>status.
     rbind (rbind (obj_index d ''attempt'') (\<lambda>v. as_int v ''run attempt'')) (\<lambda>attempt.
     rbind (rbind (obj_index d ''state_version'') (\<lambda>v. as_int v ''run state version'')) (\<lambda>version.
     rbind (rbind (field_str L d ''created_at'') (py_fromiso L)) (\<lambda>created.
     rbind (field_opt L d ''started_at'' (py_fromiso L)) (\<lambda>started.
     rbind (field_opt L d ''updated_at'' (py_fromiso L)) (\<lambda>updated.
     rbind (field_opt L d ''ended_at'' (py_fromiso L)) (\<lambda>ended.
     rbind (decode_opt (error_summary_from_data L) error_data) (\<lambda>err.
     rbind (field_opt L d ''continuation_status'' (enum_of L ''RunStatus'' run_statuses)) (\<lambda>cont.
     rbind (rmap (attempt_from_data L) history_data) (\<lambda>history.
     rbind (if raw_policy \<noteq> [] then policy_from_data L raw_policy else Inr default_policy) (\<lambda>policy.
     rbind (variant_from_data L d kind) (\<lambda>variant.
     mk_run \<lparr>r_id = rid, r_kind = kind, r_definition_id = def_id, r_root_id = root,
       r_parent_id = parent, r_workspace_id = ws, r_session_ref = session, r_scope = scope,
       r_status = status, r_attempt = attempt, r_version = version, r_created_at = created,
       r_started_at = started, r_updated_at = updated, r_ended_at = ended, r_error = err,
       r_continuation = cont, r_history = history, r_policy = policy, r_variant = variant\<rparr>))))))))))))))))))))))))))"

text \<open>A Run the code can hold: its validators accept it, and so do those of its parts.\<close>

definition variant_codable :: "run_variant \<Rightarrow> bool" where
  "variant_codable v = (case v of AgentRun a b \<Rightarrow> identifier_ok a \<and> identifier_ok b
     | WorkflowRun w g c \<Rightarrow> identifier_ok w \<and> opt_id_ok c)"

definition run_codable :: "run \<Rightarrow> bool" where
  "run_codable r \<longleftrightarrow> run_ok r \<and> variant_ok r
     \<and> list_all identifier_ok [r_id r, r_definition_id r, r_root_id r, r_workspace_id r]
     \<and> opt_id_ok (r_parent_id r)
     \<and> (case r_session_ref r of None \<Rightarrow> True | Some x \<Rightarrow> session_ref_ok x) \<and> scope_ok (r_scope r)
     \<and> datetime_ok (r_created_at r) \<and> list_all date_ok [r_started_at r, r_updated_at r, r_ended_at r]
     \<and> (case r_error r of None \<Rightarrow> True | Some e \<Rightarrow> error_summary_codable e)
     \<and> list_all attempt_codable (r_history r) \<and> variant_codable (r_variant r)"

lemma rmap_map [simp]: "rmap f (List.map g xs) = rmap (\<lambda>x. f (g x)) xs"
  by (induction xs) simp_all

lemma rmap_inverse: "(\<And>x. x \<in> set xs \<Longrightarrow> f (g x) = Inr x) \<Longrightarrow> rmap (\<lambda>x. f (g x)) xs = Inr xs"
  by (induction xs) simp_all

lemma policy_to_data_nonempty [simp]: "policy_to_data p \<noteq> []"
  by (simp add: policy_to_data_def)

lemma rmap_pure: "rmap (\<lambda>x. Inr (g x)) xs = Inr (List.map g xs)"
  by (induction xs) simp_all

lemma variant_decodes:
  assumes "variant_codable v"
    and "\<And>k. k \<in> {''agent_id'', ''model_binding_ref'', ''workflow_id'', ''graph_version'', ''latest_checkpoint_ref''}
      \<Longrightarrow> map_of d k = map_of (variant_to_data v) k"
  shows "variant_from_data L d (case v of AgentRun _ _ \<Rightarrow> KIND_AGENT | WorkflowRun _ _ _ \<Rightarrow> KIND_WORKFLOW) = Inr v"
  using assms
  by (cases v) (simp_all add: variant_from_data_def variant_to_data_def variant_codable_def
      field_opt_value field_str_def obj_index_def obj_get_def)

lemma run_fields [simp]:
  "obj_index (run_to_data r) ''scope'' = Inr (scope_to_data (r_scope r))"
  "obj_get_or (run_to_data r) ''control_policy'' v = JObj (policy_to_data (r_policy r))"
  "obj_get_or (run_to_data r) ''attempt_history'' v = JList (List.map (\<lambda>a. JObj (attempt_to_data a)) (r_history r))"
  "obj_get (run_to_data r) ''session_ref'' = (case r_session_ref r of None \<Rightarrow> JNull | Some x \<Rightarrow> JObj (session_ref_to_data x))"
  "obj_get (run_to_data r) ''error_summary'' = (case r_error r of None \<Rightarrow> JNull | Some e \<Rightarrow> JObj (error_summary_to_data e))"
  "field_str L (run_to_data r) ''run_id'' = Inr (r_id r)"
  "field_str L (run_to_data r) ''kind'' = Inr (run_kind_value (r_kind r))"
  "field_str L (run_to_data r) ''definition_id'' = Inr (r_definition_id r)"
  "field_str L (run_to_data r) ''root_run_id'' = Inr (r_root_id r)"
  "field_opt L (run_to_data r) ''parent_run_id'' f = decode_value L f (opt_str (r_parent_id r))"
  "field_str L (run_to_data r) ''workspace_id'' = Inr (r_workspace_id r)"
  "field_str L (run_to_data r) ''status'' = Inr (status_value (r_status r))"
  "obj_index (run_to_data r) ''attempt'' = Inr (JInt (r_attempt r))"
  "obj_index (run_to_data r) ''state_version'' = Inr (JInt (r_version r))"
  "field_str L (run_to_data r) ''created_at'' = Inr (isoformat (r_created_at r))"
  "field_opt L (run_to_data r) ''started_at'' g = decode_value L g (date_json (r_started_at r))"
  "field_opt L (run_to_data r) ''updated_at'' g = decode_value L g (date_json (r_updated_at r))"
  "field_opt L (run_to_data r) ''ended_at'' g = decode_value L g (date_json (r_ended_at r))"
  "field_opt L (run_to_data r) ''continuation_status'' h = decode_value L h
     (case r_continuation r of None \<Rightarrow> JNull | Some s \<Rightarrow> JStr (status_value s))"
  by (simp_all add: run_to_data_def run_common_data_def)

lemma run_variant_fields:
  assumes "k \<in> {''agent_id'', ''model_binding_ref'', ''workflow_id'', ''graph_version'', ''latest_checkpoint_ref''}"
  shows "map_of (run_to_data r) k = map_of (variant_to_data (r_variant r)) k"
proof -
  have "List.map fst (run_common_data r) = [''run_id'', ''kind'', ''definition_id'', ''root_run_id'',
      ''parent_run_id'', ''workspace_id'', ''session_ref'', ''scope'', ''status'', ''attempt'',
      ''state_version'', ''created_at'', ''started_at'', ''updated_at'', ''ended_at'', ''error_summary'',
      ''continuation_status'', ''attempt_history'', ''control_policy'']"
    by (simp add: run_common_data_def)
  then have "k \<notin> set (List.map fst (run_common_data r))" using assms by auto
  then have "map_of (run_common_data r) k = None" by (simp add: map_of_eq_None_iff)
  then show ?thesis by (simp add: run_to_data_def map_add_def split: option.splits)
qed

lemma run_roundtrip:
  assumes L: "iso_inverse L" and ok: "run_codable r"
  shows "run_from_data L (run_to_data r) = Inr r"
proof -
  note parts = ok [unfolded run_codable_def]
  obtain sc where sc: "scope_to_data (r_scope r) = JObj sc" using scope_to_data_object by blast
  have scope: "scope_from_data L sc = Inr (r_scope r)"
    using scope_roundtrip_object [of "r_scope r" "''''" sc L] parts sc by simp
  have session: "decode_opt (session_ref_from_data L) (map_option session_ref_to_data (r_session_ref r)) = Inr (r_session_ref r)"
    using parts by (intro decode_opt_map) (auto simp: session_ref_roundtrip split: option.splits)
  have err: "decode_opt (error_summary_from_data L) (map_option error_summary_to_data (r_error r)) = Inr (r_error r)"
    using parts L by (intro decode_opt_map) (auto simp: error_summary_roundtrip split: option.splits)
  have history: "rmap (\<lambda>x. attempt_from_data L (attempt_to_data x)) (r_history r) = Inr (r_history r)"
    using parts L by (intro rmap_inverse) (auto simp: attempt_roundtrip list_all_iff)
  have kind: "r_kind r = (case r_variant r of AgentRun _ _ \<Rightarrow> KIND_AGENT | WorkflowRun _ _ _ \<Rightarrow> KIND_WORKFLOW)"
    using parts by (auto simp: variant_ok_def split: run_variant.splits)
  have variant: "variant_from_data L (run_to_data r) (r_kind r) = Inr (r_variant r)"
    unfolding kind using parts by (intro variant_decodes run_variant_fields) simp_all
  have created: "py_fromiso L (isoformat (r_created_at r)) = Inr (r_created_at r)"
    using parts L by (simp add: iso_inverse_def)
  have ids: "mk_identifier (r_id r) = Inr (r_id r)" "mk_identifier (r_definition_id r) = Inr (r_definition_id r)"
    "mk_identifier (r_root_id r) = Inr (r_root_id r)" "mk_identifier (r_workspace_id r) = Inr (r_workspace_id r)"
    "decode_value L mk_identifier (opt_str (r_parent_id r)) = Inr (r_parent_id r)"
    using parts by simp_all
  have dates: "decode_value L (py_fromiso L) (date_json (r_started_at r)) = Inr (r_started_at r)"
    "decode_value L (py_fromiso L) (date_json (r_updated_at r)) = Inr (r_updated_at r)"
    "decode_value L (py_fromiso L) (date_json (r_ended_at r)) = Inr (r_ended_at r)"
    using parts L by simp_all
  have made: "mk_run r = Inr r" using parts by (simp add: mk_run_Inr)
  have policy: "(if policy_to_data (r_policy r) \<noteq> [] then policy_from_data L (policy_to_data (r_policy r))
      else Inr default_policy) = Inr (r_policy r)" by simp
  show ?thesis
    unfolding run_from_data_def
    by (simp only: run_fields as_simps rbind_simps object_opt_case rmap_map rmap_pure history run_kind_decodes
        status_decodes decode_status sc scope session err created variant ids dates policy)
      (rule trans [OF arg_cong [where f = mk_run] made], cases r, simp)
qed

subsection \<open>Call contexts\<close>

definition context_to_data :: "call_context \<Rightarrow> json_object" where
  "context_to_data c =
     [(''run_id'', JStr (cx_run_id c)),
      (''root_run_id'', JStr (cx_root_run_id c)),
      (''parent_run_id'', opt_str (cx_parent_run_id c)),
      (''workspace_id'', JStr (cx_workspace_id c)),
      (''session_ref'', case cx_session_ref c of None \<Rightarrow> JNull | Some x \<Rightarrow> JObj (session_ref_to_data x)),
      (''scope'', scope_to_data (cx_scope c)),
      (''deadline'', date_json (map_option dl_at (cx_deadline c))),
      (''cancellation'', JObj [(''token_id'', JStr (ct_id (cx_cancellation c))),
         (''cancelled'', JBool (ct_cancelled (cx_cancellation c)))]),
      (''trace'', JObj [(''trace_id'', JStr (tr_trace_id (cx_trace c))),
         (''span_id'', JStr (tr_span_id (cx_trace c))),
         (''correlation_id'', JStr (tr_correlation_id (cx_trace c))),
         (''causation_id'', opt_str (tr_causation_id (cx_trace c)))]),
      (''idempotency_key'', opt_str (cx_idempotency_key c))]"

definition context_from_data :: "pylib \<Rightarrow> json_object \<Rightarrow> call_context result" where
  "context_from_data L d =
     rbind (rbind (obj_index d ''scope'') (\<lambda>v. as_object v ''scope'')) (\<lambda>raw_scope.
     rbind (rbind (obj_index d ''trace'') (\<lambda>v. as_object v ''trace'')) (\<lambda>raw_trace.
     rbind (rbind (obj_index d ''cancellation'') (\<lambda>v. as_object v ''cancellation'')) (\<lambda>raw_cancellation.
     rbind (object_opt (obj_get d ''session_ref'') ''session_ref'') (\<lambda>session_data.
     let raw_deadline = obj_get d ''deadline'' in
     rbind (rbind (field_str L d ''run_id'') mk_identifier) (\<lambda>rid.
     rbind (rbind (field_str L d ''root_run_id'') mk_identifier) (\<lambda>root.
     rbind (field_opt L d ''parent_run_id'' mk_identifier) (\<lambda>parent.
     rbind (rbind (field_str L d ''workspace_id'') mk_identifier) (\<lambda>ws.
     rbind (decode_opt (session_ref_from_data L) session_data) (\<lambda>session.
     rbind (scope_from_data L raw_scope) (\<lambda>scope.
     rbind (if json_true raw_deadline
            then rbind (py_fromiso L (py_str L raw_deadline)) (\<lambda>t. Inr (Some \<lparr>dl_at = t\<rparr>))
            else Inr None) (\<lambda>dl.
     rbind (rbind (field_str L raw_cancellation ''token_id'') mk_identifier) (\<lambda>token.
     rbind (rbind (field_str L raw_trace ''trace_id'') mk_identifier) (\<lambda>trace.
     rbind (rbind (field_str L raw_trace ''span_id'') mk_identifier) (\<lambda>span.
     rbind (rbind (field_str L raw_trace ''correlation_id'') mk_identifier) (\<lambda>corr.
     rbind (field_opt L raw_trace ''causation_id'' mk_identifier) (\<lambda>cause.
     rbind (field_opt L d ''idempotency_key'' mk_identifier) (\<lambda>key.
     Inr \<lparr>cx_run_id = rid, cx_root_run_id = root, cx_parent_run_id = parent, cx_workspace_id = ws,
       cx_session_ref = session, cx_scope = scope, cx_deadline = dl,
       cx_cancellation = new_token token (json_true (obj_get_or raw_cancellation ''cancelled'' (JBool False))),
       cx_trace = \<lparr>tr_trace_id = trace, tr_span_id = span, tr_correlation_id = corr,
         tr_causation_id = cause\<rparr>,
       cx_idempotency_key = key\<rparr>)))))))))))))))))"

definition context_codable :: "call_context \<Rightarrow> bool" where
  "context_codable c \<longleftrightarrow>
     list_all identifier_ok [cx_run_id c, cx_root_run_id c, cx_workspace_id c, ct_id (cx_cancellation c),
       tr_trace_id (cx_trace c), tr_span_id (cx_trace c), tr_correlation_id (cx_trace c)]
     \<and> list_all opt_id_ok [cx_parent_run_id c, tr_causation_id (cx_trace c), cx_idempotency_key c]
     \<and> (case cx_session_ref c of None \<Rightarrow> True | Some x \<Rightarrow> session_ref_ok x) \<and> scope_ok (cx_scope c)
     \<and> (case cx_deadline c of None \<Rightarrow> True | Some l \<Rightarrow> datetime_ok (dl_at l))"

text \<open>The waiters of the token do not travel: the copy has the identifier and the flag.\<close>

lemma context_roundtrip:
  assumes L: "iso_inverse L" and ok: "context_codable c"
  shows "context_from_data L (context_to_data c) =
    Inr (c\<lparr>cx_cancellation := new_token (ct_id (cx_cancellation c)) (ct_cancelled (cx_cancellation c))\<rparr>)"
proof -
  note parts = ok [unfolded context_codable_def]
  obtain sc where sc: "scope_to_data (cx_scope c) = JObj sc" using scope_to_data_object by blast
  have scope: "scope_from_data L sc = Inr (cx_scope c)"
    using scope_roundtrip_object [of "cx_scope c" "''''" sc L] parts sc by simp
  have session: "decode_opt (session_ref_from_data L) (map_option session_ref_to_data (cx_session_ref c)) = Inr (cx_session_ref c)"
    using parts by (intro decode_opt_map) (auto simp: session_ref_roundtrip split: option.splits)
  have dl: "(if json_true (date_json (map_option dl_at (cx_deadline c)))
     then rbind (py_fromiso L (py_str L (date_json (map_option dl_at (cx_deadline c))))) (\<lambda>t. Inr (Some \<lparr>dl_at = t\<rparr>))
     else Inr None) = Inr (cx_deadline c)"
    using parts L by (cases "cx_deadline c") simp_all
  have get: "obj_get (context_to_data c) ''deadline'' = date_json (map_option dl_at (cx_deadline c))"
    by (simp add: context_to_data_def)
  show ?thesis
    unfolding context_from_data_def get Let_def dl
    using parts sc scope session
    by (simp add: context_to_data_def)
qed

subsection \<open>Empty cause identifiers\<close>

text \<open>
  \<open>ErrorDetail\<close> accepts the empty string as \<open>cause_id\<close>, which its \<open>from_data\<close> reads as no cause;
  every other value of a Run is read back as it is.
\<close>

definition drop_empty_cause :: "error_summary \<Rightarrow> error_summary" where
  "drop_empty_cause e = (if ed_cause_id (es_detail e) = Some [] then e\<lparr>es_detail := (es_detail e)\<lparr>ed_cause_id := None\<rparr>\<rparr> else e)"

definition drop_empty_causes :: "run \<Rightarrow> run" where
  "drop_empty_causes r = r\<lparr>r_error := map_option drop_empty_cause (r_error r),
     r_history := List.map (\<lambda>a. a\<lparr>at_error := map_option drop_empty_cause (at_error a)\<rparr>) (r_history r)\<rparr>"

lemma error_summary_reads_dropped:
  "error_summary_from_data L (error_summary_to_data e) = error_summary_from_data L (error_summary_to_data (drop_empty_cause e))"
  by (simp add: error_summary_from_data_def error_summary_to_data_def drop_empty_cause_def error_detail_from_data_def
      error_detail_to_data_def decode_value_def)

lemma decode_opt_dropped:
  "(\<And>x. f (g x) = f (g (h x))) \<Longrightarrow> decode_opt f (map_option g v) = decode_opt f (map_option g (map_option h v))"
  by (cases v) (simp_all add: decode_opt_def)

lemma attempt_reads_dropped:
  "attempt_from_data L (attempt_to_data a)
     = attempt_from_data L (attempt_to_data (a\<lparr>at_error := map_option drop_empty_cause (at_error a)\<rparr>))"
  using error_summary_reads_dropped [of L]
  by (cases "at_error a") (simp_all add: attempt_from_data_def attempt_to_data_def decode_opt_def)

lemma run_readback:
  assumes L: "iso_inverse L" and ok: "run_codable (drop_empty_causes r)"
  shows "run_from_data L (run_to_data r) = Inr (drop_empty_causes r)"
proof -
  let ?r = "drop_empty_causes r"
  have same: "r_id ?r = r_id r" "r_kind ?r = r_kind r" "r_definition_id ?r = r_definition_id r" "r_root_id ?r = r_root_id r"
    "r_parent_id ?r = r_parent_id r" "r_workspace_id ?r = r_workspace_id r" "r_session_ref ?r = r_session_ref r"
    "r_scope ?r = r_scope r" "r_status ?r = r_status r" "r_attempt ?r = r_attempt r" "r_version ?r = r_version r"
    "r_created_at ?r = r_created_at r" "r_started_at ?r = r_started_at r" "r_updated_at ?r = r_updated_at r"
    "r_ended_at ?r = r_ended_at r" "r_continuation ?r = r_continuation r" "r_policy ?r = r_policy r" "r_variant ?r = r_variant r"
    by (simp_all add: drop_empty_causes_def)
  note parts = ok [unfolded run_codable_def]
  obtain sc where sc: "scope_to_data (r_scope r) = JObj sc" using scope_to_data_object by blast
  have scope: "scope_from_data L sc = Inr (r_scope r)"
    using scope_roundtrip_object [of "r_scope r" "''''" sc L] parts sc by (simp add: same)
  have session: "decode_opt (session_ref_from_data L) (map_option session_ref_to_data (r_session_ref r)) = Inr (r_session_ref r)"
    using parts by (intro decode_opt_map) (auto simp: session_ref_roundtrip same split: option.splits)
  have err: "decode_opt (error_summary_from_data L) (map_option error_summary_to_data (r_error r)) = Inr (r_error ?r)"
  proof -
    have "decode_opt (error_summary_from_data L) (map_option error_summary_to_data (r_error ?r)) = Inr (r_error ?r)"
      using parts L by (intro decode_opt_map) (auto simp: error_summary_roundtrip split: option.splits)
    moreover have "r_error ?r = map_option drop_empty_cause (r_error r)" by (simp add: drop_empty_causes_def)
    ultimately show ?thesis
      using decode_opt_dropped [of "error_summary_from_data L" error_summary_to_data drop_empty_cause "r_error r",
          OF error_summary_reads_dropped] by simp
  qed
  have history: "rmap (\<lambda>x. attempt_from_data L (attempt_to_data x)) (r_history r) = Inr (r_history ?r)"
  proof -
    have "rmap (\<lambda>x. attempt_from_data L (attempt_to_data x)) (r_history ?r) = Inr (r_history ?r)"
      using parts L by (intro rmap_inverse) (auto simp: attempt_roundtrip list_all_iff)
    moreover have "rmap (\<lambda>x. attempt_from_data L (attempt_to_data x)) (r_history ?r)
        = rmap (\<lambda>x. attempt_from_data L (attempt_to_data (x\<lparr>at_error := map_option drop_empty_cause (at_error x)\<rparr>))) (r_history r)"
      by (simp add: drop_empty_causes_def)
    ultimately show ?thesis unfolding attempt_reads_dropped [symmetric] by (rule trans [OF sym, rotated])
  qed
  have kind: "r_kind r = (case r_variant r of AgentRun _ _ \<Rightarrow> KIND_AGENT | WorkflowRun _ _ _ \<Rightarrow> KIND_WORKFLOW)"
    using parts by (auto simp: variant_ok_def same split: run_variant.splits)
  have variant: "variant_from_data L (run_to_data r) (r_kind r) = Inr (r_variant r)"
    unfolding kind using parts by (intro variant_decodes run_variant_fields) (simp_all add: same)
  have created: "py_fromiso L (isoformat (r_created_at r)) = Inr (r_created_at r)"
    using parts L by (simp add: iso_inverse_def same)
  have ids: "mk_identifier (r_id r) = Inr (r_id r)" "mk_identifier (r_definition_id r) = Inr (r_definition_id r)"
    "mk_identifier (r_root_id r) = Inr (r_root_id r)" "mk_identifier (r_workspace_id r) = Inr (r_workspace_id r)"
    "decode_value L mk_identifier (opt_str (r_parent_id r)) = Inr (r_parent_id r)"
    using parts by (simp_all add: same)
  have dates: "decode_value L (py_fromiso L) (date_json (r_started_at r)) = Inr (r_started_at r)"
    "decode_value L (py_fromiso L) (date_json (r_updated_at r)) = Inr (r_updated_at r)"
    "decode_value L (py_fromiso L) (date_json (r_ended_at r)) = Inr (r_ended_at r)"
    using parts L by (simp_all add: same)
  have made: "mk_run ?r = Inr ?r" using parts by (simp add: mk_run_Inr)
  have policy: "(if policy_to_data (r_policy r) \<noteq> [] then policy_from_data L (policy_to_data (r_policy r))
      else Inr default_policy) = Inr (r_policy r)" by simp
  show ?thesis
    unfolding run_from_data_def
    by (simp only: run_fields as_simps rbind_simps object_opt_case rmap_map rmap_pure history run_kind_decodes
        status_decodes decode_status sc scope session err created variant ids dates policy)
      (rule trans [OF arg_cong [where f = mk_run] made], cases r, simp add: drop_empty_causes_def)
qed

lemma drop_empty_causes_id:
  assumes "run_codable r"
  shows "drop_empty_causes r = r"
proof -
  have e: "drop_empty_cause x = x" if "error_summary_codable x" for x
    using that by (simp add: drop_empty_cause_def error_summary_codable_def error_detail_codable_def)
  have "map_option drop_empty_cause (r_error r) = r_error r"
    using assms e by (cases "r_error r") (simp_all add: run_codable_def)
  moreover have "List.map (\<lambda>a. a\<lparr>at_error := map_option drop_empty_cause (at_error a)\<rparr>) (r_history r) = r_history r"
  proof (rule map_idI)
    fix a assume "a \<in> set (r_history r)"
    then have "attempt_codable a" using assms by (simp add: run_codable_def list_all_iff)
    then have "map_option drop_empty_cause (at_error a) = at_error a"
      using e by (cases "at_error a") (simp_all add: attempt_codable_def)
    then show "a\<lparr>at_error := map_option drop_empty_cause (at_error a)\<rparr> = a" by simp
  qed
  ultimately show ?thesis by (simp add: drop_empty_causes_def)
qed

subsection \<open>What the decoder of Runs reads\<close>

lemma rbindE: "rbind m f = Inr y \<Longrightarrow> (\<And>x. m = Inr x \<Longrightarrow> f x = Inr y \<Longrightarrow> P) \<Longrightarrow> P"
  by (auto simp: rbind_eq_Inr)

lemma rbindI: "m = Inr x \<Longrightarrow> f x = Inr y \<Longrightarrow> rbind m f = Inr y"
  by simp

text \<open>The string under a key, the value of an optional key, and the object under one.\<close>

definition reads_str :: "pylib \<Rightarrow> json_object \<Rightarrow> string \<Rightarrow> string \<Rightarrow> bool" where
  "reads_str L d k s \<longleftrightarrow> (\<exists>v. map_of d k = Some v \<and> py_str L v = s)"

definition reads_opt :: "pylib \<Rightarrow> json_object \<Rightarrow> string \<Rightarrow> (string \<Rightarrow> 'a \<Rightarrow> bool) \<Rightarrow> 'a option \<Rightarrow> bool" where
  "reads_opt L d k P x \<longleftrightarrow> (case x of None \<Rightarrow> \<not> json_true (obj_get d k)
     | Some y \<Rightarrow> json_true (obj_get d k) \<and> (\<exists>s. reads_str L d k s \<and> P s y))"

definition reads_object :: "json_object \<Rightarrow> string \<Rightarrow> (json_object \<Rightarrow> 'a result) \<Rightarrow> 'a option \<Rightarrow> bool" where
  "reads_object d k f x \<longleftrightarrow> (case x of None \<Rightarrow> obj_get d k = JNull
     | Some y \<Rightarrow> \<exists>d'. obj_get d k = JObj d' \<and> f d' = Inr y)"

lemma field_str_Inr: "field_str L d k = Inr s \<longleftrightarrow> reads_str L d k s"
  by (auto simp: field_str_def reads_str_def obj_index_def rbind_eq_Inr split: option.splits)

lemma field_opt_Inr: "field_opt L d k f = Inr x \<Longrightarrow> reads_opt L d k (\<lambda>s y. f s = Inr y) x"
  by (auto simp: field_opt_def reads_opt_def rbind_eq_Inr field_str_Inr split: if_splits)

lemma object_field_Inr:
  "object_opt (obj_get d k) n = Inr o' \<Longrightarrow> decode_opt f o' = Inr x \<Longrightarrow> reads_object d k f x"
  by (auto simp: object_opt_def reads_object_def decode_opt_def rbind_eq_Inr as_object_def split: if_splits json.splits option.splits)

lemma int_field_Inr: "rbind (obj_index d k) (\<lambda>v. as_int v n) = Inr i \<Longrightarrow> map_of d k = Some (JInt i)"
  by (auto simp: rbind_eq_Inr obj_index_def as_int_def split: option.splits json.splits)

lemma kind_decoded: "enum_of L c run_kinds s = Inr k \<Longrightarrow> s = run_kind_value k"
  by (auto simp: enum_of_def run_kinds_def split: if_splits)

lemma status_decoded: "enum_of L c run_statuses s = Inr k \<Longrightarrow> s = status_value k"
  by (auto simp: enum_of_def run_statuses_def split: if_splits)

lemma rmap_objects:
  assumes "rmap (\<lambda>v. as_object v n) xs = Inr ds" "rmap f ds = Inr ys"
  shows "list_all2 (\<lambda>v y. \<exists>d. v = JObj d \<and> f d = Inr y) xs ys"
  using assms
proof (induction xs arbitrary: ds ys)
  case (Cons v xs)
  then obtain d ds' y ys' where "as_object v n = Inr d" "ds = d # ds'" "rmap (\<lambda>v. as_object v n) xs = Inr ds'" "f d = Inr y"
    "ys = y # ys'" "rmap f ds' = Inr ys'"
    by (auto simp: rbind_eq_Inr)
  with Cons.IH show ?case by (auto simp: as_object_def split: json.splits)
qed simp

lemma variant_decoded:
  "variant_from_data L d kind = Inr v \<Longrightarrow> (case v of
     AgentRun a m \<Rightarrow> kind = KIND_AGENT \<and> reads_str L d ''agent_id'' a \<and> reads_str L d ''model_binding_ref'' m
   | WorkflowRun i g c \<Rightarrow> kind = KIND_WORKFLOW \<and> reads_str L d ''workflow_id'' i \<and> reads_str L d ''graph_version'' g
       \<and> reads_opt L d ''latest_checkpoint_ref'' (\<lambda>s x. mk_identifier s = Inr x) c)"
  by (cases kind) (auto simp: variant_from_data_def rbind_eq_Inr field_str_Inr mk_identifier_Inr dest!: field_opt_Inr)

lemma run_from_data_Inr:
  assumes "run_from_data L d = Inr r"
  shows "run_post_init r = Inr () \<and> variant_post_init r = Inr ()
    \<and> reads_str L d ''run_id'' (r_id r) \<and> reads_str L d ''definition_id'' (r_definition_id r)
    \<and> reads_str L d ''root_run_id'' (r_root_id r) \<and> reads_str L d ''workspace_id'' (r_workspace_id r)
    \<and> list_all identifier_ok [r_id r, r_definition_id r, r_root_id r, r_workspace_id r]
    \<and> reads_opt L d ''parent_run_id'' (\<lambda>s i. mk_identifier s = Inr i) (r_parent_id r)
    \<and> reads_str L d ''kind'' (run_kind_value (r_kind r)) \<and> reads_str L d ''status'' (status_value (r_status r))
    \<and> reads_opt L d ''continuation_status'' (\<lambda>s x. s = status_value x) (r_continuation r)
    \<and> map_of d ''attempt'' = Some (JInt (r_attempt r)) \<and> map_of d ''state_version'' = Some (JInt (r_version r))
    \<and> (\<exists>s. reads_str L d ''created_at'' s \<and> py_fromiso L s = Inr (r_created_at r))
    \<and> reads_opt L d ''started_at'' (\<lambda>s t. py_fromiso L s = Inr t) (r_started_at r)
    \<and> reads_opt L d ''updated_at'' (\<lambda>s t. py_fromiso L s = Inr t) (r_updated_at r)
    \<and> reads_opt L d ''ended_at'' (\<lambda>s t. py_fromiso L s = Inr t) (r_ended_at r)
    \<and> reads_object d ''session_ref'' (session_ref_from_data L) (r_session_ref r)
    \<and> reads_object d ''scope'' (scope_from_data L) (Some (r_scope r))
    \<and> reads_object d ''error_summary'' (error_summary_from_data L) (r_error r)
    \<and> (\<exists>vs. obj_get_or d ''attempt_history'' (JList []) = JList vs
        \<and> list_all2 (\<lambda>v a. \<exists>d'. v = JObj d' \<and> attempt_from_data L d' = Inr a) vs (r_history r))
    \<and> (\<exists>p. obj_get_or d ''control_policy'' (JObj []) = JObj p
        \<and> (if p = [] then r_policy r = default_policy else policy_from_data L p = Inr (r_policy r)))
    \<and> (case r_variant r of
         AgentRun a m \<Rightarrow> r_kind r = KIND_AGENT \<and> reads_str L d ''agent_id'' a \<and> reads_str L d ''model_binding_ref'' m
       | WorkflowRun i g c \<Rightarrow> r_kind r = KIND_WORKFLOW \<and> reads_str L d ''workflow_id'' i \<and> reads_str L d ''graph_version'' g
           \<and> reads_opt L d ''latest_checkpoint_ref'' (\<lambda>s x. mk_identifier s = Inr x) c)"
proof -
  from assms obtain raw_scope raw_policy raw_history session_data error_data history_data rid kind def_id root parent ws
    session scope status attempt version created started updated ended err cont history policy variant where
    a: "rbind (obj_index d ''scope'') (\<lambda>v. as_object v ''run scope'') = Inr raw_scope"
    "as_object (obj_get_or d ''control_policy'' (JObj [])) ''run control_policy'' = Inr raw_policy"
    "as_array (obj_get_or d ''attempt_history'' (JList [])) ''run attempt_history'' = Inr raw_history"
    "object_opt (obj_get d ''session_ref'') ''run session_ref'' = Inr session_data"
    "object_opt (obj_get d ''error_summary'') ''run error_summary'' = Inr error_data"
    "rmap (\<lambda>v. as_object v ''run attempt history item'') raw_history = Inr history_data"
    and b: "rbind (field_str L d ''run_id'') mk_identifier = Inr rid"
    "rbind (field_str L d ''kind'') (enum_of L ''RunKind'' run_kinds) = Inr kind"
    "rbind (field_str L d ''definition_id'') mk_identifier = Inr def_id"
    "rbind (field_str L d ''root_run_id'') mk_identifier = Inr root"
    "field_opt L d ''parent_run_id'' mk_identifier = Inr parent"
    "rbind (field_str L d ''workspace_id'') mk_identifier = Inr ws"
    "decode_opt (session_ref_from_data L) session_data = Inr session"
    "scope_from_data L raw_scope = Inr scope"
    "rbind (field_str L d ''status'') (enum_of L ''RunStatus'' run_statuses) = Inr status"
    "rbind (obj_index d ''attempt'') (\<lambda>v. as_int v ''run attempt'') = Inr attempt"
    "rbind (obj_index d ''state_version'') (\<lambda>v. as_int v ''run state version'') = Inr version"
    and c: "rbind (field_str L d ''created_at'') (py_fromiso L) = Inr created"
    "field_opt L d ''started_at'' (py_fromiso L) = Inr started"
    "field_opt L d ''updated_at'' (py_fromiso L) = Inr updated"
    "field_opt L d ''ended_at'' (py_fromiso L) = Inr ended"
    "decode_opt (error_summary_from_data L) error_data = Inr err"
    "field_opt L d ''continuation_status'' (enum_of L ''RunStatus'' run_statuses) = Inr cont"
    "rmap (attempt_from_data L) history_data = Inr history"
    "(if raw_policy \<noteq> [] then policy_from_data L raw_policy else Inr default_policy) = Inr policy"
    "variant_from_data L d kind = Inr variant"
    and m: "mk_run \<lparr>r_id = rid, r_kind = kind, r_definition_id = def_id, r_root_id = root,
       r_parent_id = parent, r_workspace_id = ws, r_session_ref = session, r_scope = scope,
       r_status = status, r_attempt = attempt, r_version = version, r_created_at = created,
       r_started_at = started, r_updated_at = updated, r_ended_at = ended, r_error = err,
       r_continuation = cont, r_history = history, r_policy = policy, r_variant = variant\<rparr> = Inr r"
    unfolding run_from_data_def by (elim rbindE) (rule that; (assumption | (rule rbindI, assumption, assumption)))
  have r: "r = \<lparr>r_id = rid, r_kind = kind, r_definition_id = def_id, r_root_id = root,
       r_parent_id = parent, r_workspace_id = ws, r_session_ref = session, r_scope = scope,
       r_status = status, r_attempt = attempt, r_version = version, r_created_at = created,
       r_started_at = started, r_updated_at = updated, r_ended_at = ended, r_error = err,
       r_continuation = cont, r_history = history, r_policy = policy, r_variant = variant\<rparr>"
    "run_post_init r = Inr ()" "variant_post_init r = Inr ()"
    using m by (auto simp: mk_run_def rbind_eq_Inr)
  have ids: "reads_str L d ''run_id'' rid" "reads_str L d ''definition_id'' def_id" "reads_str L d ''root_run_id'' root"
    "reads_str L d ''workspace_id'' ws" "list_all identifier_ok [rid, def_id, root, ws]"
    using b(1,3,4,6) by (auto simp: rbind_eq_Inr field_str_Inr mk_identifier_Inr)
  have enums: "reads_str L d ''kind'' (run_kind_value kind)" "reads_str L d ''status'' (status_value status)"
    "reads_opt L d ''continuation_status'' (\<lambda>s x. s = status_value x) cont"
    using b(2,9) field_opt_Inr [OF c(6)]
    by (auto simp: rbind_eq_Inr field_str_Inr reads_opt_def dest!: kind_decoded status_decoded split: option.splits)
  have ints: "map_of d ''attempt'' = Some (JInt attempt)" "map_of d ''state_version'' = Some (JInt version)"
    using b(10,11) by (auto intro: int_field_Inr)
  have created: "\<exists>s. reads_str L d ''created_at'' s \<and> py_fromiso L s = Inr created"
    using c(1) by (auto simp: rbind_eq_Inr field_str_Inr)
  have scope: "reads_object d ''scope'' (scope_from_data L) (Some scope)"
    using a(1) b(8) by (auto simp: rbind_eq_Inr obj_index_def as_object_def reads_object_def obj_get_def split: option.splits json.splits)
  have history: "\<exists>vs. obj_get_or d ''attempt_history'' (JList []) = JList vs
      \<and> list_all2 (\<lambda>v a. \<exists>d'. v = JObj d' \<and> attempt_from_data L d' = Inr a) vs history"
    using a(3) rmap_objects [OF a(6) c(7)] by (auto simp: as_array_def split: json.splits)
  have policy: "\<exists>p. obj_get_or d ''control_policy'' (JObj []) = JObj p
      \<and> (if p = [] then policy = default_policy else policy_from_data L p = Inr policy)"
    using a(2) c(8) by (auto simp: as_object_def split: json.splits if_splits)
  show ?thesis
    using r(2,3) ids enums ints created scope history policy variant_decoded [OF c(9)] field_opt_Inr [OF b(5)]
      field_opt_Inr [OF c(2)] field_opt_Inr [OF c(3)] field_opt_Inr [OF c(4)] object_field_Inr [OF a(4) b(7)]
      object_field_Inr [OF a(5) c(5)]
    unfolding r(1) run.select_convs by (intro conjI)
qed

end
