(* ===== verification/Samples.thy ===== *)
theory Samples
  imports Authorization State_Records Run_Codec
begin

section \<open>Concrete inputs\<close>

text \<open>
  A Run, its states along one lifecycle, a call context and an access request, on which the
  properties are applied.
\<close>

definition sample_time :: "nat \<Rightarrow> datetime" where
  "sample_time s = UTC 2026 1 1 9 0 s 0"

definition sample_scope :: scope_ref where
  "sample_scope = ScopeRef ''core'' ''run'' ''r1'' None"

definition sample_created :: run where
  "sample_created = \<lparr>r_id = ''r1'', r_kind = KIND_AGENT, r_definition_id = ''d1'', r_root_id = ''r1'',
     r_parent_id = None, r_workspace_id = ''w1'', r_session_ref = None, r_scope = sample_scope,
     r_status = CREATED, r_attempt = 1, r_version = 0, r_created_at = sample_time 0,
     r_started_at = None, r_updated_at = Some (sample_time 0), r_ended_at = None, r_error = None,
     r_continuation = None, r_history = [], r_policy = default_policy,
     r_variant = AgentRun ''a1'' ''m1''\<rparr>"

definition sample_attempt :: attempt_record where
  "sample_attempt = \<lparr>at_no = 1, at_started = sample_time 1, at_ended = None, at_outcome = None,
     at_checkpoint = None, at_error = None\<rparr>"

definition sample_starting :: run where
  "sample_starting = sample_created\<lparr>r_status := STARTING, r_started_at := Some (sample_time 1),
     r_history := [sample_attempt], r_version := 1, r_updated_at := Some (sample_time 1)\<rparr>"

definition sample_cancelled :: run where
  "sample_cancelled = sample_starting\<lparr>r_status := CANCELLED, r_ended_at := Some (sample_time 2),
     r_history := [sample_attempt\<lparr>at_ended := Some (sample_time 2), at_outcome := Some AO_CANCELLED\<rparr>],
     r_version := 2, r_updated_at := Some (sample_time 2)\<rparr>"

lemmas sample_runs = sample_time_def sample_scope_def sample_created_def sample_attempt_def sample_starting_def
  sample_cancelled_def

lemma sample_created_made:
  "create_root_agent_run ''r1'' ''d1'' ''a1'' ''m1'' ''w1'' sample_scope (sample_time 0) None None
     = Inr sample_created"
  by code_simp

lemma sample_started: "run_start sample_created 0 (sample_time 1) = Inr (transition sample_created sample_starting ''start'')"
  by code_simp

lemma sample_cancel: "run_cancel sample_starting 1 (sample_time 2) = Inr (transition sample_starting sample_cancelled ''cancel'')"
  by code_simp

lemma sample_reachable: "reachable_run sample_created" "reachable_run sample_starting" "reachable_run sample_cancelled"
proof -
  show c: "reachable_run sample_created"
    by (rule reachable_run.root_agent [OF sample_created_made])
  have "run_step sample_created sample_starting"
    using run_step.intros [of OpStart sample_created 0 "sample_time 1"] sample_started by fastforce
  with c show s: "reachable_run sample_starting" by (rule reachable_run.step)
  have "run_step sample_starting sample_cancelled"
    using run_step.intros [of OpCancel sample_starting 1 "sample_time 2"] sample_cancel by fastforce
  with s show "reachable_run sample_cancelled" by (rule reachable_run.step)
qed

text \<open>A library whose \<open>fromisoformat\<close> reads exactly what \<open>isoformat\<close> prints.\<close>

definition sample_library :: pylib where
  "sample_library = \<lparr>py_repr = (\<lambda>_. ''?''), py_fromiso = (\<lambda>s. case strict_fromisoformat s of
     None \<Rightarrow> Inl (ValueError ''Invalid isoformat string'') | Some d \<Rightarrow> Inr d)\<rparr>"

lemma sample_library_inverse: "iso_inverse sample_library"
  by (simp add: iso_inverse_def sample_library_def strict_fromisoformat_isoformat)

lemma sample_memory:
  "memory_invar [''r1'' \<mapsto> sample_starting]" "memory_get ''r1'' [''r1'' \<mapsto> sample_starting] = Inr sample_starting"
  by (simp_all add: memory_invar_def memory_get_def sample_runs)

lemma sample_sel:
  "r_id sample_cancelled = ''r1''" "r_version sample_cancelled = 2" "r_status sample_cancelled = CANCELLED"
  "r_id sample_starting = ''r1''" "r_version sample_starting = 1" "r_status sample_starting = STARTING"
  "r_status sample_created = CREATED" "r_version sample_created = 0"
  by (simp_all add: sample_runs)

lemma sample_ne: "sample_cancelled \<noteq> sample_starting"
  using sample_sel(2,5) by auto

lemma sample_service_cancel:
  "service_apply memory_repo null_publisher undisturbed ''r1'' 1 (run_apply OpCancel) (sample_time 2)
     ([''r1'' \<mapsto> sample_starting], ()) = (Inr sample_cancelled, ([''r1'' \<mapsto> sample_cancelled], ()))"
  using sample_ne sample_sel sample_cancel
  by (simp add: service_apply_alone memory_get_def memory_compare_and_set_def null_publisher_def areturn_def)

definition sample_context :: call_context where
  "sample_context = \<lparr>cx_run_id = ''r1'', cx_root_run_id = ''r1'', cx_parent_run_id = None,
     cx_workspace_id = ''w1'', cx_session_ref = None, cx_scope = sample_scope,
     cx_deadline = Some \<lparr>dl_at = sample_time 20\<rparr>, cx_cancellation = new_token ''c1'' False,
     cx_trace = \<lparr>tr_trace_id = ''t1'', tr_span_id = ''s1'', tr_correlation_id = ''k1'', tr_causation_id = None\<rparr>,
     cx_idempotency_key = None\<rparr>"

end
