(* ===== verification/Run_Properties.thy ===== *)
theory Run_Properties
  imports Samples
begin

section \<open>Properties of Runs\<close>

text \<open>
  What \<open>runtime/run.py\<close>, \<open>state/service.py\<close>, \<open>runtime/context.py\<close> and
  \<open>policy/authorization.py\<close> promise, over their models, each with an instance on the
  concrete Runs of \<open>Samples\<close>.
\<close>

subsection \<open>The lifecycle\<close>

text \<open>
  C1. Every Run that the factories and the operations of \<open>RunStateMachine\<close> can produce passes
  its own validators again, its attempts are numbered 1, 2, ... without gaps up to the current
  attempt (or the one before it while none has begun), at most the last one is open, and once
  the Run is terminal every attempt is closed and it has an end time.
\<close>

theorem reachable_run_sound:
  assumes "reachable_run r"
  shows "run_post_init r = Inr () \<and> variant_post_init r = Inr ()
    \<and> List.map at_no (r_history r) \<in> {[1..r_attempt r - 1], [1..r_attempt r]}
    \<and> (\<forall>a \<in> set (butlast (r_history r)). \<not> attempt_open a)
    \<and> (terminal (r_status r) \<longrightarrow> r_ended_at r \<noteq> None \<and> List.map at_no (r_history r) = [1..r_attempt r]
         \<and> (\<forall>a \<in> set (r_history r). \<not> attempt_open a))"
proof -
  have inv: "run_ok r" "variant_ok r" "phase_inv r"
    using reachable_lifecycle_inv [OF assms] by (simp_all add: lifecycle_inv_def)
  have "attempts_pending r \<or> attempts_open r \<or> attempts_closed r"
    using inv(3) by (cases "r_status r") (auto simp: phase_inv_def)
  moreover have "terminal (r_status r) \<Longrightarrow> attempts_closed r"
    using inv(3) phase_inv_terminal by blast
  ultimately show ?thesis
    using inv by (auto simp: run_post_init_iff variant_post_init_iff attempts_defs run_ok_def
        open_only_last_def list_all_iff)
qed

theorem reachable_run_sound_witness:
  "run_post_init sample_cancelled = Inr () \<and> List.map at_no (r_history sample_cancelled) = [1]"
  using reachable_run_sound [OF sample_reachable(3)] by (simp add: sample_runs)

text \<open>
  C4. Terminal Runs are final: on a reachable Run that has succeeded, failed or been
  cancelled, every operation is refused or answers with the Run unchanged.
\<close>

theorem terminal_run_final:
  assumes "reachable_run r" "terminal (r_status r)" "run_apply op r v now = Inr t"
  shows "rt_current t = r"
  using run_apply_terminal [OF assms(3,2)] reachable_lifecycle_inv [OF assms(1)]
  by (simp add: lifecycle_inv_def)

theorem terminal_run_final_witness:
  "\<exists>t. run_apply OpCancel sample_cancelled 2 (sample_time 3) = Inr t \<and> rt_current t = sample_cancelled"
proof -
  have "\<exists>t. run_apply OpCancel sample_cancelled 2 (sample_time 3) = Inr t"
    by (simp add: run_cancel_def check_version_def sample_runs)
  then show ?thesis
    using terminal_run_final [OF sample_reachable(3), of OpCancel 2 "sample_time 3"]
    by (auto simp: sample_runs terminal_def)
qed

text \<open>
  Optimistic versions: an operation takes effect only when the caller names the current
  version, and then the Run is unchanged or has exactly the next version; with any other
  version it raises the retryable conflict \<open>stale_state_version\<close>, whatever the operation.
\<close>

theorem run_version_discipline:
  "case run_apply op r v now of
     Inr t \<Rightarrow> r_version r = v \<and> rt_previous t = r
       \<and> (rt_current t = r \<or> r_version (rt_current t) = v + 1)
   | Inl e \<Rightarrow> r_version r \<noteq> v \<longrightarrow> e = core_error CONFLICT ''stale_state_version''
       ''Run state version does not match the expected version'' True None"
proof (cases "run_apply op r v now")
  case (Inl e)
  then show ?thesis using run_apply_stale [of r v op now] by auto
next
  case (Inr t)
  then show ?thesis using run_apply_version [OF Inr] run_apply_version_seen [OF Inr] by auto
qed

theorem run_version_discipline_witness:
  "run_apply OpPause sample_starting 0 (sample_time 5) = Inl (core_error CONFLICT ''stale_state_version''
     ''Run state version does not match the expected version'' True None)"
  using run_version_discipline [of sample_starting 0 OpPause "sample_time 5"]
  by (cases "run_pause sample_starting 0 (sample_time 5)") (simp_all add: sample_sel)

text \<open>
  Nothing an operation does rewrites the past: the identity, scope, ownership and policy
  of the Run stay, and its closed attempts stay as the prefix of the closed attempts.
\<close>

theorem run_history_append_only:
  assumes "reachable_run r" "run_apply op r v now = Inr t"
  shows "same_identity r (rt_current t)
    \<and> (\<exists>zs. filter (\<lambda>a. \<not> attempt_open a) (r_history (rt_current t))
         = filter (\<lambda>a. \<not> attempt_open a) (r_history r) @ zs)"
  using run_apply_identity [OF assms(2)] run_apply_grows [OF _ assms(2)]
    reachable_lifecycle_inv [OF assms(1)]
  by (simp add: lifecycle_inv_def history_grows_def closed_prefix_def)

theorem run_history_append_only_witness: "same_identity sample_starting sample_cancelled"
  using run_history_append_only [OF sample_reachable(2), of OpCancel 1 "sample_time 2"]
  by (simp add: sample_cancel)

text \<open>
  A live Run can always be ended: whatever phase it is in, with its current version and a
  clock that has not run backwards, both \<open>cancel\<close> and \<open>fail\<close> succeed.
\<close>

theorem live_run_can_end:
  assumes "reachable_run r" "\<not> terminal (r_status r)" "clock_ok r now"
  shows "(\<exists>c. run_cancel r (r_version r) now = Inr (transition r c ''cancel'') \<and> r_status c = CANCELLED)
    \<and> (\<exists>c. run_fail r (r_version r) now err = Inr (transition r c ''fail'') \<and> r_status c = FAILED)"
  using cancel_possible [OF reachable_lifecycle_inv [OF assms(1)] assms(2,3)]
    fail_possible [OF reachable_lifecycle_inv [OF assms(1)] assms(2,3)] by blast

theorem live_run_can_end_witness:
  "\<exists>c. run_cancel sample_starting 1 (sample_time 2) = Inr (transition sample_starting c ''cancel'')
     \<and> r_status c = CANCELLED"
  using live_run_can_end [OF sample_reachable(2), of "sample_time 2"]
  by (simp add: sample_runs terminal_def clock_ok_def attempt_open_def datetime_order_simps)

text \<open>
  The status moves only along the edges of the state diagram: the table of \<open>advance\<close>,
  pausing and returning to the paused phase, retrying and returning, recovering from any live
  phase but \<open>CREATED\<close>, succeeding from \<open>RUNNING\<close> alone, failing and cancelling from any live phase.
\<close>

theorem run_status_edges:
  assumes "reachable_run r" "run_apply op r v now = Inr t"
  shows "status_edge (r_status r) (r_status (rt_current t))"
  using run_apply_edge [OF _ assms(2)] reachable_lifecycle_inv [OF assms(1)] by (simp add: lifecycle_inv_def)

theorem run_status_edges_witness: "status_edge STARTING CANCELLED"
  using run_status_edges [OF sample_reachable(2), of OpCancel 1 "sample_time 2"]
  by (simp add: sample_cancel) (simp add: sample_runs)

text \<open>
  A pause is undone by a resume: the phase, the attempt counter and an open attempt are
  there again, and the continuation is gone.
\<close>

theorem resume_undoes_pause:
  assumes "reachable_run r"
    and "r_status r \<in> {STARTING, CONTEXT_LOADING, RUNNING, WAITING_APPROVAL, RECOVERING}"
    and "run_pause r v t1 = Inr tp"
  shows "\<exists>c. run_resume (rt_current tp) (v + 1) t2 = Inr (transition (rt_current tp) c ''resume'')
    \<and> r_status c = r_status r \<and> r_attempt c = r_attempt r \<and> r_continuation c = None
    \<and> r_history c \<noteq> [] \<and> attempt_open (last (r_history c))"
  using pause_resume [OF reachable_lifecycle_inv [OF assms(1)] assms(2,3), of t2]
  by (auto simp: attempts_open_def)

theorem resume_undoes_pause_witness:
  "\<exists>tp c. run_pause sample_starting 1 (sample_time 2) = Inr tp
    \<and> run_resume (rt_current tp) 2 (sample_time 3) = Inr (transition (rt_current tp) c ''resume'')
    \<and> r_status c = STARTING"
proof -
  have "(case run_pause sample_starting 1 (sample_time 2) of Inl _ \<Rightarrow> False | Inr _ \<Rightarrow> True)" by code_simp
  then obtain tp where tp: "run_pause sample_starting 1 (sample_time 2) = Inr tp"
    by (auto split: sum.splits)
  from resume_undoes_pause [OF sample_reachable(2) _ tp, of "sample_time 3"] tp show ?thesis
    by (auto simp: sample_runs)
qed

text \<open>
  \<open>start\<close> is not the only way into \<open>STARTING\<close>: \<open>advance\<close> takes any new Run there too,
  and leaves it with no start time and no attempt record, both of which \<open>start\<close> sets.
\<close>

theorem advance_enters_starting_unstarted:
  assumes "is_new_run r"
  shows "(\<exists>c. run_advance r STARTING (r_version r) now why = Inr (transition r c why)
           \<and> r_status c = STARTING \<and> r_started_at c = None \<and> r_history c = [])
    \<and> (\<forall>t. run_start r (r_version r) now = Inr t \<longrightarrow>
           r_started_at (rt_current t) \<noteq> None \<and> r_history (rt_current t) \<noteq> [])"
  using advance_does_not_start [OF assms] start_starts [of r "r_version r" now] assms
  by (auto simp: started_def is_new_run_def)

theorem advance_enters_starting_unstarted_witness:
  "\<exists>c. run_advance sample_created STARTING 0 (sample_time 1) ''advance'' = Inr (transition sample_created c ''advance'')
     \<and> r_started_at c = None"
  using advance_enters_starting_unstarted [OF create_root_agent_run_new [OF sample_created_made],
      of "sample_time 1" "''advance''"]
  by (auto simp: sample_sel)

subsection \<open>The service\<close>

text \<open>
  C3. Of all callers that read the same version at most one commits, however the calls interleave.
  Let any number of tasks create Runs and call the operations of the service on one in-memory store,
  each call reading the Run and computing its transition in one step and committing it in another,
  with any steps of other tasks between them, and possibly never. Then the store is what the accepted
  commits give when they are taken one after the other: each transition was computed by its operation
  from exactly the Run that was stored when it was committed, and advanced the version it expected by
  one, so that no commit overwrites another; and no version of a Run was consumed by two commits.
\<close>

theorem run_version_committed_once:
  assumes "memory_invar s0" "interleaved memory_repo s0 c"
  shows "serial (ca_log c) s0 = Some (ca_store c) \<and> distinct (consumed (ca_log c))"
proof -
  have "mem.calls_inv s0 c" by (rule mem.interleaved_inv [OF assms(2,1)])
  then show ?thesis by (simp add: mem.calls_inv_def memory_view)
qed

text \<open>Two tasks read the same version of one Run; the one that commits second is refused.\<close>

definition sample_raced :: "runs calls" where
  "sample_raced = \<lparr>ca_store = [''r1'' \<mapsto> sample_cancelled], ca_pending = (\<lambda>_. None),
     ca_log = [Committed ''r1'' 1 OpCancel (sample_time 2) (transition sample_starting sample_cancelled ''cancel'')]\<rparr>"

lemma sample_race: "interleaved memory_repo [''r1'' \<mapsto> sample_starting] sample_raced"
proof -
  let ?t = "transition sample_starting sample_cancelled ''cancel''" and ?s0 = "[''r1'' \<mapsto> sample_starting]"
  let ?call = "(''r1'', 1, OpCancel, sample_time 2, ?t)"
  have r: "service_read memory_repo ''r1'' 1 (run_apply OpCancel) (sample_time 2) ?s0 = Inr ?t"
    "rt_current ?t \<noteq> rt_previous ?t" "rt_current ?t = sample_cancelled" "rt_previous ?t = sample_starting"
    using sample_cancel sample_ne by (simp_all add: service_read_def sample_memory(2) transition_def)
  have k: "service_commit memory_repo ?t 1 ?s0 = (Inr sample_cancelled, [''r1'' \<mapsto> sample_cancelled])"
    "\<exists>e. service_commit memory_repo ?t 1 [''r1'' \<mapsto> sample_cancelled] = (Inl e, [''r1'' \<mapsto> sample_cancelled])"
    using r(3) sample_sel by (simp_all add: service_commit_def memory_compare_and_set_def)
  obtain e where e: "service_commit memory_repo ?t 1 [''r1'' \<mapsto> sample_cancelled] = (Inl e, [''r1'' \<mapsto> sample_cancelled])"
    using k(2) by blast
  let ?c0 = "\<lparr>ca_store = ?s0, ca_pending = (\<lambda>_. None), ca_log = []\<rparr>"
  let ?c1 = "?c0\<lparr>ca_pending := [0 \<mapsto> ?call]\<rparr>"
  let ?c2 = "?c0\<lparr>ca_pending := [0 \<mapsto> ?call, 1 \<mapsto> ?call]\<rparr>"
  let ?c3 = "sample_raced\<lparr>ca_pending := [1 \<mapsto> ?call]\<rparr>"
  have "interleaved memory_repo ?s0 ?c0" by (rule interleaved.no_call)
  from interleaved.reads [OF this _ _ r(2), of 0 "''r1''" 1 OpCancel "sample_time 2"] r(1)
  have "interleaved memory_repo ?s0 ?c1" by simp
  from interleaved.reads [OF this _ _ r(2), of 1 "''r1''" 1 OpCancel "sample_time 2"] r(1)
  have "interleaved memory_repo ?s0 ?c2" by simp
  from interleaved.commits [OF this, of 0 "''r1''" 1 OpCancel "sample_time 2" ?t] k(1)
  have "interleaved memory_repo ?s0 ?c3" by (simp add: sample_raced_def fun_upd_twist)
  from interleaved.refused [OF this, of 1 "''r1''" 1 OpCancel "sample_time 2" ?t] e
  show ?thesis by (simp add: sample_raced_def)
qed

theorem run_version_committed_once_witness:
  "serial (ca_log sample_raced) [''r1'' \<mapsto> sample_starting] = Some (ca_store sample_raced) \<and> consumed (ca_log sample_raced) = [(''r1'', 1)]"
  using run_version_committed_once [OF sample_memory(1) sample_race] by (simp add: sample_raced_def)

text \<open>
  A version, once consumed, stays so: after a service call on version \<open>v\<close> has changed the stored Run,
  any later operation with \<open>v\<close>, by whatever caller and with whatever publisher, is refused as stale
  and changes nothing.
\<close>

lemma run_version_consumed:
  assumes "memory_invar s" "s i = Some p"
    and "service_apply memory_repo pub undisturbed i v (run_apply op) now (s, w) = (res, (s', w'))"
    and "s' i \<noteq> s i"
  shows "service_apply memory_repo pub' undisturbed i v (run_apply op') now' (s', x) =
    (Inl (core_error CONFLICT ''stale_state_version''
       ''Run state version does not match the expected version'' True None), (s', x))"
proof -
  have "memory_get i s' \<noteq> memory_get i s"
    using assms(2,4) by (auto simp: memory_get_def split: option.splits)
  then show ?thesis
    using mem.version_consumed [OF assms(1) _ assms(3), of p] assms(2) by (simp add: memory_get_Inr)
qed

text \<open>
  The service keeps the lifecycle invariant of everything it stores, on success, on every
  error and when the publisher raises after the commit.
\<close>

theorem service_keeps_stored_runs:
  assumes "memory_invar s" "\<forall>i r. s i = Some r \<longrightarrow> lifecycle_inv r"
    and "service_apply memory_repo pub undisturbed i v (run_apply op) now (s, w) = (res, (s', w'))"
  shows "memory_invar s' \<and> (\<forall>i r. s' i = Some r \<longrightarrow> lifecycle_inv r)"
  using mem.apply_stored [OF _ assms(3)] assms(1,2) by (simp add: mem.stored_def memory_get_Inr)

theorem service_keeps_stored_runs_witness:
  "lifecycle_inv sample_cancelled"
proof -
  have "\<forall>i r. [''r1'' \<mapsto> sample_starting] i = Some r \<longrightarrow> lifecycle_inv r"
    using reachable_lifecycle_inv [OF sample_reachable(2)] by (simp add: fun_upd_def)
  from service_keeps_stored_runs [OF sample_memory(1) this sample_service_cancel] show ?thesis by simp
qed

text \<open>
  A handled audit failure stops the Run: when the handler returns, the Run it returns is
  stored, and it is terminal or paused.
\<close>

theorem handled_audit_failure_stops:
  assumes "memory_invar s" "s i = Some p"
    and "handle_audit_failure memory_repo pub undisturbed i err now (s, w) = (Inr c, (s', w'))"
  shows "(terminal (r_status c) \<or> r_status c = PAUSED) \<and> s' i = Some c"
  using mem.audit_failure_stops [OF assms(1) _ assms(3), of p] assms(2) by (simp add: memory_get_Inr)

theorem handled_audit_failure_stops_witness:
  "terminal (r_status sample_cancelled) \<or> r_status sample_cancelled = PAUSED"
proof -
  have "handle_audit_failure memory_repo null_publisher undisturbed ''r1'' err (sample_time 4)
      ([''r1'' \<mapsto> sample_cancelled], ()) = (Inr sample_cancelled, ([''r1'' \<mapsto> sample_cancelled], ()))" for err
    by (simp add: handle_audit_failure_def memory_get_def sample_sel)
  from handled_audit_failure_stops [OF _ _ this, of sample_cancelled] show ?thesis
    by (simp add: memory_invar_def sample_sel)
qed

text \<open>
  The handler cannot stop every Run: one that is still \<open>CREATED\<close> and asks for a pause on
  an audit failure makes it raise \<open>illegal_run_transition\<close>, and the Run stays as it was.
\<close>

theorem audit_failure_on_created_raises:
  assumes "s i = Some p" "r_status p = CREATED" "rcp_audit_failure_mode (r_policy p) = AUDIT_PAUSE"
  shows "handle_audit_failure memory_repo pub undisturbed i err now (s, w) = (Inl (illegal p PAUSED), (s, w))"
  using assms
  by (simp add: handle_audit_failure_def memory_get_def service_pause_def service_apply_alone run_pause_def
      check_version_def)

theorem audit_failure_on_created_raises_witness:
  "\<forall>err. handle_audit_failure memory_repo null_publisher undisturbed ''r1'' err (sample_time 4)
     ([''r1'' \<mapsto> sample_created], ()) = (Inl (illegal sample_created PAUSED), ([''r1'' \<mapsto> sample_created], ()))"
  by (intro allI, rule audit_failure_on_created_raises) (simp_all add: sample_runs default_policy_def)

subsection \<open>Calls and scopes\<close>

text \<open>
  Whatever tree of narrowings and child Runs a call spawns, every call of it keeps the
  root Run, the workspace, the cancellation token and the correlation of the first, and its
  deadline is no later; so a call that is still active has an active ancestor.
\<close>

theorem derived_calls_contained:
  assumes "derived_call c d"
  shows "cx_root_run_id d = cx_root_run_id c \<and> cx_workspace_id d = cx_workspace_id c
    \<and> cx_cancellation d = cx_cancellation c
    \<and> tr_correlation_id (cx_trace d) = tr_correlation_id (cx_trace c)
    \<and> (\<forall>l. cx_deadline c = Some l \<longrightarrow> (\<exists>k. cx_deadline d = Some k \<and> dl_at k \<le> dl_at l))
    \<and> (\<forall>now. check_active d now = Inr () \<longrightarrow> check_active c now = Inr ())"
  using derived_call_keeps [OF assms] check_active_derived [OF assms]
  by (auto simp: deadline_within_def split: option.splits)

theorem derived_calls_contained_witness:
  "\<exists>d. narrow sample_context None None None ''span2'' = Inr d \<and> cx_root_run_id d = ''r1''
     \<and> check_active d (sample_time 30) \<noteq> Inr ()"
proof -
  have "(case narrow sample_context None None None ''span2'' of Inl _ \<Rightarrow> False | Inr _ \<Rightarrow> True)" by code_simp
  then obtain d where d: "narrow sample_context None None None ''span2'' = Inr d"
    by (auto split: sum.splits)
  from derived_calls_contained [OF derived_call.narrowed [OF derived_call.same d]] d show ?thesis
    by (auto simp: check_active_Inr sample_context_def sample_time_def datetime_order_simps split: option.splits)
qed

text \<open>
  Descent of scopes is what \<open>ancestry\<close> says: a scope descends from another when the other's
  key is the key of the scope or of one of its parents; among scopes that agree on the
  ancestry of equal keys it is transitive.
\<close>

theorem scope_descent:
  "(is_equal_or_descendant_of s t \<longleftrightarrow> scope_key t \<in> scope_key ` set (ancestry s))
   \<and> (scopes_agree s t \<longrightarrow> is_equal_or_descendant_of s t \<longrightarrow> is_equal_or_descendant_of t u
        \<longrightarrow> is_equal_or_descendant_of s u)"
  using descends_iff_ancestry(1) [of s t] descends_trans [of s t u] by blast

theorem scope_descent_witness:
  "is_equal_or_descendant_of (ScopeRef ''core'' ''session'' ''s1'' (Some sample_scope)) sample_scope"
  using scope_descent [of "ScopeRef ''core'' ''session'' ''s1'' (Some sample_scope)" sample_scope]
  by simp

text \<open>
  Narrowing compares keys only: a call may narrow its scope to one with the same key and
  a different ancestry, and then descends from scopes it did not descend from before.
\<close>

theorem narrowing_adopts_ancestors:
  assumes "scope_key s = scope_key (cx_scope c)" "\<not> is_equal_or_descendant_of (cx_scope c) t"
    and "is_equal_or_descendant_of s t"
  shows "\<exists>d. narrow c (Some s) None None span = Inr d \<and> is_equal_or_descendant_of (cx_scope d) t
    \<and> \<not> is_equal_or_descendant_of (cx_scope c) t"
  using assms descends_same_key [OF assms(1)]
  by (cases "cx_deadline c") (simp_all add: narrow_def require_narrower_than_def deadline_broadened_def Let_def)

theorem narrowing_adopts_ancestors_witness:
  "\<exists>d. narrow sample_context (Some (ScopeRef ''core'' ''run'' ''r1'' (Some (ScopeRef ''core'' ''workspace'' ''secret'' None))))
      None None ''span2'' = Inr d
    \<and> is_equal_or_descendant_of (cx_scope d) (ScopeRef ''core'' ''workspace'' ''secret'' None)"
  using narrowing_adopts_ancestors [of "ScopeRef ''core'' ''run'' ''r1'' (Some (ScopeRef ''core'' ''workspace'' ''secret'' None))"
      sample_context "ScopeRef ''core'' ''workspace'' ''secret'' None" "''span2''"]
  by (simp add: sample_context_def sample_scope_def scope_key_def)

section \<open>Properties of the authorization dispatcher\<close>

text \<open>
  What \<open>policy/authorization.py\<close> promises, for any policy, audit publisher, failure handler,
  clock and operation.
\<close>

definition sample_action :: action_ref where
  "sample_action = \<lparr>ac_namespace = ''core'', ac_name = ''run.start'', ac_version = ''1''\<rparr>"

definition sample_request :: access_request where
  "sample_request = \<lparr>aq_principal = \<lparr>pr_namespace = ''core'', pr_kind = ''run'', pr_id = ''r1''\<rparr>,
     aq_action = sample_action,
     aq_resource = \<lparr>rs_namespace = ''core'', rs_kind = ''run'', rs_id = ''r1'', rs_owner = None\<rparr>,
     aq_scope = sample_scope, aq_context = sample_context, aq_constraints = (\<lambda>_. None)\<rparr>"

definition sample_grant :: grant where
  "sample_grant = \<lparr>gr_principal = aq_principal sample_request, gr_action = sample_action,
     gr_resource = aq_resource sample_request, gr_source_scope = sample_scope,
     gr_effective_scope = sample_scope, gr_constraints = (\<lambda>_. None), gr_issued_at = sample_time 0,
     gr_expires_at = None, gr_policy_version = ''1'', gr_audit_correlation = ''k1''\<rparr>"

text \<open>A dispatcher over a counter of audited denials.\<close>

definition sample_dispatcher :: "(access_request \<Rightarrow> (nat, exn, decision) action) option \<Rightarrow> nat dispatcher" where
  "sample_dispatcher policy = \<lparr>di_actions = [action_key sample_action \<mapsto> sample_action],
     di_audit_denied = (\<lambda>q d n. (Inr (), n + 1)), di_audit_granted = (\<lambda>q g n. (Inr (), n)),
     di_audit_failure = (\<lambda>i e n. (Inr (), n)), di_clock = (\<lambda>n. sample_time 5), di_policy = policy\<rparr>"

text \<open>
  C2. Complete mediation: a dispatch either runs the protected operation, once and as its
  last step, after all of the checks of \<open>authorized\<close> (active call, registered action, a policy
  decision ALLOW whose unexpired grant matches the request, the audit of a cross-scope grant),
  on the context narrowed to the granted scope, or it ends with an exception before the
  operation is touched.
\<close>

theorem dispatch_mediates_every_operation:
  "(\<exists>c w1. (\<forall>operation. dispatch D q operation w = operation c w1) \<and> authorized D q w c w1)
   \<or> (\<exists>e w1. \<forall>operation. dispatch D q operation w = (Inl e, w1))"
  by (rule dispatch_mediates)

text \<open>
  Closed by default: without a policy, or for an action that is not registered, no
  operation runs, whatever else is configured.
\<close>

theorem dispatch_default_denies:
  assumes "di_policy D = None \<or> \<not> action_contains (di_actions D) (aq_action q)"
  shows "\<exists>e w1. \<forall>operation. dispatch D q operation w = (Inl e, w1)"
  using assms by (rule dispatch_closed_by_default)

theorem dispatch_default_denies_witness:
  "\<exists>e w1. \<forall>operation. dispatch (sample_dispatcher None) sample_request (operation :: _ \<Rightarrow> (nat, exn, unit) action) 0
     = (Inl e, w1)"
  by (rule dispatch_default_denies) (simp add: sample_dispatcher_def)

text \<open>
  A decision other than ALLOW is audited before it is raised: the denial reaches the
  audit publisher, and what the caller gets is the category DENIED with the decision's own
  reason code.
\<close>

theorem dispatch_denial_audited:
  assumes "check_active (aq_context q) (di_clock D w) = Inr ()"
    and "action_contains (di_actions D) (aq_action q)"
    and "di_policy D = Some policy" "policy q w = (Inr d, w1)" "de_effect d \<noteq> ALLOW"
    and "decision_ok d" "di_audit_denied D q d w1 = (Inr (), w2)"
  shows "dispatch D q operation w =
    (Inl (core_error DENIED (the (de_reason d)) ''authorization denied'' False None), w2)"
  using assms by (rule dispatch_denied)

theorem dispatch_denial_audited_witness:
  "\<forall>operation :: _ \<Rightarrow> (nat, exn, unit) action.
     dispatch (sample_dispatcher (Some deny_all)) sample_request operation 0 =
    (Inl (core_error DENIED ''default_deny'' ''authorization denied'' False None), 1)"
proof -
  have "check_active sample_context (sample_time 5) = Inr ()" by code_simp
  then show ?thesis
    using dispatch_denial_audited [where q = sample_request and D = "sample_dispatcher (Some deny_all)"
        and w = 0 and policy = deny_all and d = "deny ''default_deny''" and ?w1.0 = 0 and ?w2.0 = 1]
    by (intro allI) (simp add: sample_dispatcher_def sample_request_def action_contains_def decisions_ok deny_all_def
        deny_def areturn_def decision_ok_def no_reason_def)
qed

text \<open>
  The grant check accepts exactly the grants that name the request's principal, action
  and resource and whose source and effective scopes have the keys of the context's and the
  requested scope; the narrowing test that ends it decides nothing.
\<close>

theorem grant_check_exact:
  "validate_grant q g = Inr () \<longleftrightarrow>
     gr_principal g = aq_principal q \<and> gr_action g = aq_action q \<and> gr_resource g = aq_resource q
     \<and> scope_key (gr_source_scope g) = scope_key (cx_scope (aq_context q))
     \<and> scope_key (gr_effective_scope g) = scope_key (aq_scope q)"
  using validate_grant_Inr [of q g "()"] by (simp add: grant_matches_def)

section \<open>Properties of the encodings\<close>

text \<open>
  The round trips of the \<open>to_data\<close> and \<open>from_data\<close> pairs, and what the decoder of Runs
  accepts. Times go through \<open>datetime.fromisoformat\<close>, a parameter of the decoders; the
  hypothesis on it is the documented one, that it reads back what \<open>isoformat\<close> prints.
\<close>

definition sample_stored :: run where
  "sample_stored = sample_cancelled\<lparr>r_session_ref := Some \<lparr>se_namespace = ''core'', se_id = ''s1''\<rparr>\<rparr>"

lemma sample_time_ok [simp]: "s < 60 \<Longrightarrow> datetime_ok (sample_time s)"
  by (simp add: sample_time_def datetime_ok_def days_in_month_def)

lemma sample_parts:
  "scope_ok sample_scope" "run_ok sample_stored" "variant_ok sample_stored"
  "variant_codable (r_variant sample_stored)" "session_ref_ok \<lparr>se_namespace = ''core'', se_id = ''s1''\<rparr>"
  "list_all (\<lambda>a. mk_attempt a = Inr a) (r_history sample_stored)"
  "list_all identifier_ok [''r1'', ''d1'', ''w1'', ''a1'', ''m1'', ''t1'', ''s1'', ''k1'', ''c1'']"
  by code_simp+

lemma sample_codable: "run_codable sample_stored" "context_codable sample_context"
  using sample_parts
  by (simp_all add: run_codable_def context_codable_def attempt_codable_def opt_id_ok_def date_ok_def
      sample_stored_def sample_cancelled_def sample_starting_def sample_created_def sample_attempt_def
      sample_context_def new_token_def)

text \<open>
  C22. A Run that satisfies its validators, with trimmed identifiers and dates that Python can
  represent, is read back unchanged from its encoding, attempts, policy, error, scope and
  variant included, with one exception: the cause identifier of an error, which may be the empty
  string, is then read back as no cause. A Run with no empty cause comes back equal.
\<close>

theorem run_encoding_lossless:
  assumes "iso_inverse L" "run_codable (drop_empty_causes r)"
  shows "run_from_data L (run_to_data r) = Inr (drop_empty_causes r)"
  using run_readback [OF assms] .

theorem run_encoding_lossless_witness:
  "run_from_data sample_library (run_to_data sample_stored) = Inr sample_stored"
  using run_encoding_lossless [OF sample_library_inverse, of sample_stored] sample_codable(1)
  by (simp add: drop_empty_causes_id)

text \<open>
  A call context is read back with the same identities, scope, deadline and trace, and with
  a token of the same identifier and flag, on which nobody waits.
\<close>

theorem context_encoding_lossless:
  assumes "iso_inverse L" "context_codable c"
  shows "context_from_data L (context_to_data c) =
    Inr (c\<lparr>cx_cancellation := new_token (ct_id (cx_cancellation c)) (ct_cancelled (cx_cancellation c))\<rparr>)"
  using context_roundtrip [OF assms] .

theorem context_encoding_lossless_witness:
  "context_from_data sample_library (context_to_data sample_context) = Inr sample_context"
  using context_encoding_lossless [OF sample_library_inverse sample_codable(2)]
  by (simp add: sample_context_def new_token_def)

text \<open>
  C23. What the Run decoder returns is a valid Run that says what the document says, whatever the
  document and whatever the library does with dates: it satisfies the validators, so stored data
  cannot bring back a Run the lifecycle could not have validated, and each of its fields is read
  from the entry of its own name, the enumerations by their values, a missing optional entry as
  none, the attempts one by one and in order, and the fields of the variant by the kind.
\<close>

theorem decoded_run_valid:
  assumes "run_from_data L d = Inr r"
  shows "run_post_init r = Inr () \<and> variant_post_init r = Inr ()
    \<and> reads_str L d ''run_id'' (r_id r) \<and> reads_str L d ''definition_id'' (r_definition_id r)
    \<and> reads_str L d ''root_run_id'' (r_root_id r) \<and> reads_str L d ''workspace_id'' (r_workspace_id r)
    \<and> list_all identifier_ok [r_id r, r_definition_id r, r_root_id r, r_workspace_id r]
    \<and> reads_opt L d ''parent_run_id'' (\<lambda>s i. mk_identifier s = Inr i) (r_parent_id r)
    \<and> reads_str L d ''kind'' (run_kind_value (r_kind r)) \<and> reads_str L d ''status'' (status_value (r_status r))
    \<and> reads_opt L d ''continuation_status'' (\<lambda>s x. s = status_value x) (r_continuation r)
    \<and> map_of d ''attempt'' = Some (JInt (r_attempt r)) \<and> map_of d ''state_version'' = Some (JInt (r_version r))
    \<and> (\<exists>s. reads_str L d ''created_at'' s \<and> py_fromiso L s = Inr (r_created_at r))
    \<and> reads_opt L d ''started_at'' (\<lambda>s t. py_fromiso L s = Inr t) (r_started_at r)
    \<and> reads_opt L d ''updated_at'' (\<lambda>s t. py_fromiso L s = Inr t) (r_updated_at r)
    \<and> reads_opt L d ''ended_at'' (\<lambda>s t. py_fromiso L s = Inr t) (r_ended_at r)
    \<and> reads_object d ''session_ref'' (session_ref_from_data L) (r_session_ref r)
    \<and> reads_object d ''scope'' (scope_from_data L) (Some (r_scope r))
    \<and> reads_object d ''error_summary'' (error_summary_from_data L) (r_error r)
    \<and> (\<exists>vs. obj_get_or d ''attempt_history'' (JList []) = JList vs
        \<and> list_all2 (\<lambda>v a. \<exists>d'. v = JObj d' \<and> attempt_from_data L d' = Inr a) vs (r_history r))
    \<and> (\<exists>p. obj_get_or d ''control_policy'' (JObj []) = JObj p
        \<and> (if p = [] then r_policy r = default_policy else policy_from_data L p = Inr (r_policy r)))
    \<and> (case r_variant r of
         AgentRun a m \<Rightarrow> r_kind r = KIND_AGENT \<and> reads_str L d ''agent_id'' a \<and> reads_str L d ''model_binding_ref'' m
       | WorkflowRun i g c \<Rightarrow> r_kind r = KIND_WORKFLOW \<and> reads_str L d ''workflow_id'' i \<and> reads_str L d ''graph_version'' g
           \<and> reads_opt L d ''latest_checkpoint_ref'' (\<lambda>s x. mk_identifier s = Inr x) c)"
  by (rule run_from_data_Inr [OF assms])

theorem decoded_run_valid_witness: "run_post_init sample_stored = Inr () \<and> variant_post_init sample_stored = Inr ()"
  using decoded_run_valid [OF run_roundtrip [OF sample_library_inverse sample_codable(1)]] by blast

end
