(* ===== verification/Plugin_Version.thy ===== *)
theory Plugin_Version
  imports Runtime_Errors Py_Strings
begin

section \<open>Semantic versions and version ranges\<close>

text \<open>
  \<open>SemVer\<close>, \<open>VersionComparator\<close> and \<open>VersionRange\<close> of \<open>plugin/model.py\<close>: parsing, printing,
  the order that ignores build metadata, and matching. The regular expression of a version is
  read as the grammar it describes: the text up to the first \<open>+\<close>, in it the numbers up to the
  first \<open>-\<close>, and the dotted identifiers that follow each.
\<close>

subsection \<open>Versions\<close>

record semver =
  sv_major :: int
  sv_minor :: int
  sv_patch :: int
  sv_prerelease :: "string list"
  sv_build :: "string list"

definition mk_semver :: "semver \<Rightarrow> semver result" where
  "mk_semver v =
     (if min (min (sv_major v) (sv_minor v)) (sv_patch v) < 0
      then Inl (ValueError ''semantic version numbers must be non-negative'')
      else if \<not> list_all (\<lambda>i. i \<noteq> []) (sv_prerelease v @ sv_build v)
      then Inl (ValueError ''semantic version identifiers must be non-empty'')
      else Inr v)"

definition ident_char :: "char \<Rightarrow> bool" where
  "ident_char c \<longleftrightarrow> is_digit c \<or> is_lower c \<or> (CHR ''A'' \<le> c \<and> c \<le> CHR ''Z'') \<or> c = CHR ''-''"

definition build_ident :: "string \<Rightarrow> bool" where
  "build_ident s \<longleftrightarrow> s \<noteq> [] \<and> list_all ident_char s"

text \<open>\<open>0|[1-9]\d*|[0-9A-Za-z-]*[A-Za-z-][0-9A-Za-z-]*\<close>\<close>

definition prerelease_ident :: "string \<Rightarrow> bool" where
  "prerelease_ident s \<longleftrightarrow> canonical_number s \<or> (list_all ident_char s \<and> list_ex (\<lambda>c. \<not> is_digit c) s)"

definition optional_idents :: "(string \<Rightarrow> bool) \<Rightarrow> string option \<Rightarrow> string list option" where
  "optional_idents ok r = (case r of
       None \<Rightarrow> Some []
     | Some t \<Rightarrow> let ids = split_on (CHR ''.'') t in if list_all ok ids then Some ids else None)"

text \<open>\<open>SemVer.parse\<close>\<close>

definition semver_match :: "string \<Rightarrow> semver option" where
  "semver_match s =
     (let (front, build) = split_first (CHR ''+'') s;
          (core, pre) = split_first (CHR ''-'') front
      in case (split_on (CHR ''.'') core, optional_idents prerelease_ident pre, optional_idents build_ident build) of
           ([a, b, c], Some ps, Some bs) \<Rightarrow>
             if canonical_number a \<and> canonical_number b \<and> canonical_number c
             then Some \<lparr>sv_major = int (str_nat a), sv_minor = int (str_nat b), sv_patch = int (str_nat c),
                    sv_prerelease = ps, sv_build = bs\<rparr>
             else None
         | _ \<Rightarrow> None)"

definition semver_parse :: "string \<Rightarrow> semver result" where
  "semver_parse s = (case semver_match s of
       None \<Rightarrow> Inl (ValueError ''version must be canonical SemVer 2.0'')
     | Some v \<Rightarrow> mk_semver v)"

text \<open>\<open>SemVer.__str__\<close>\<close>

definition semver_str :: "semver \<Rightarrow> string" where
  "semver_str v =
     int_str (sv_major v) @ ''.'' @ int_str (sv_minor v) @ ''.'' @ int_str (sv_patch v)
     @ (if sv_prerelease v \<noteq> [] then ''-'' @ join_with ''.'' (sv_prerelease v) else [])
     @ (if sv_build v \<noteq> [] then ''+'' @ join_with ''.'' (sv_build v) else [])"

subsection \<open>Order\<close>

text \<open>
  \<open>_compare_prerelease\<close>: the loop over the zipped identifiers. \<open>int\<close> is applied to digit
  strings only.
\<close>

fun compare_identifiers :: "string list \<Rightarrow> string list \<Rightarrow> int" where
  "compare_identifiers [] [] = 0"
| "compare_identifiers [] (_ # _) = -1"
| "compare_identifiers (_ # _) [] = 1"
| "compare_identifiers (a # as) (b # bs) =
     (if a = b then compare_identifiers as bs
      else if py_isdigit a \<and> py_isdigit b then (if str_nat a < str_nat b then -1 else 1)
      else if py_isdigit a \<noteq> py_isdigit b then (if py_isdigit a then -1 else 1)
      else (if a < b then -1 else 1))"

definition compare_prerelease :: "string list \<Rightarrow> string list \<Rightarrow> int" where
  "compare_prerelease l r =
     (if l = [] \<and> r = [] then 0 else if l = [] then 1 else if r = [] then -1
      else compare_identifiers l r)"

definition semver_numbers :: "semver \<Rightarrow> int \<times> int \<times> int" where
  "semver_numbers v = (sv_major v, sv_minor v, sv_patch v)"

definition semver_lt :: "semver \<Rightarrow> semver \<Rightarrow> bool" where
  "semver_lt a b =
     (if semver_numbers a \<noteq> semver_numbers b then semver_numbers a < semver_numbers b
      else compare_prerelease (sv_prerelease a) (sv_prerelease b) < 0)"

definition semver_eq :: "semver \<Rightarrow> semver \<Rightarrow> bool" where
  "semver_eq a b \<longleftrightarrow> semver_numbers a = semver_numbers b \<and> sv_prerelease a = sv_prerelease b"

text \<open>The comparisons \<open>functools.total_ordering\<close> derives.\<close>

definition semver_le :: "semver \<Rightarrow> semver \<Rightarrow> bool" where
  "semver_le a b \<longleftrightarrow> semver_lt a b \<or> semver_eq a b"

definition semver_gt :: "semver \<Rightarrow> semver \<Rightarrow> bool" where
  "semver_gt a b \<longleftrightarrow> \<not> semver_lt a b \<and> \<not> semver_eq a b"

definition semver_ge :: "semver \<Rightarrow> semver \<Rightarrow> bool" where
  "semver_ge a b \<longleftrightarrow> \<not> semver_lt a b"

subsection \<open>Ranges\<close>

record version_comparator =
  vc_operator :: string
  vc_version :: semver

definition mk_comparator :: "string \<Rightarrow> semver \<Rightarrow> version_comparator result" where
  "mk_comparator op v =
     (if op \<notin> {''='', ''>'', ''>='', ''<'', ''<=''} then Inl (ValueError ''unsupported version comparator'')
      else Inr \<lparr>vc_operator = op, vc_version = v\<rparr>)"

definition comparator_matches :: "version_comparator \<Rightarrow> semver \<Rightarrow> bool" where
  "comparator_matches c v =
     (if vc_operator c = ''='' then semver_eq v (vc_version c)
      else if vc_operator c = ''>'' then semver_gt v (vc_version c)
      else if vc_operator c = ''>='' then semver_ge v (vc_version c)
      else if vc_operator c = ''<'' then semver_lt v (vc_version c)
      else semver_le v (vc_version c))"

definition comparator_str :: "version_comparator \<Rightarrow> string" where
  "comparator_str c = vc_operator c @ semver_str (vc_version c)"

record version_range = vr_comparators :: "version_comparator list"

definition mk_range :: "version_comparator list \<Rightarrow> version_range result" where
  "mk_range cs =
     (if cs = [] then Inl (ValueError ''version range requires at least one comparator'')
      else Inr \<lparr>vr_comparators = cs\<rparr>)"

text \<open>
  \<open>_COMPARATOR_PATTERN\<close>: an operator, the longest first and only with something after it,
  and the rest, which has no line break.
\<close>

definition comparator_split :: "string \<Rightarrow> (string \<times> string) option" where
  "comparator_split s =
     (let (op, rest) =
        (case s of
           c # d # t \<Rightarrow>
             if c \<in> {CHR ''>'', CHR ''<''} \<and> d = CHR ''='' \<and> t \<noteq> [] then ([c, d], t)
             else if c \<in> {CHR ''>'', CHR ''<'', CHR ''=''} then ([c], d # t)
             else ([], s)
         | _ \<Rightarrow> ([], s))
      in if rest = [] \<or> CHR 0x0A \<in> set rest then None else Some (op, rest))"

definition comparator_parse :: "string \<Rightarrow> version_comparator result" where
  "comparator_parse part =
     (if \<not> trimmed part then Inl (ValueError ''version comparators must not contain whitespace'')
      else case comparator_split part of
        None \<Rightarrow> Inl (ValueError ''invalid version comparator'')
      | Some (op, rest) \<Rightarrow>
          rbind (semver_parse rest) (\<lambda>v. mk_comparator (if op = [] then ''='' else op) v))"

definition range_parse :: "string \<Rightarrow> version_range result" where
  "range_parse s =
     (if \<not> trimmed s then Inl (ValueError ''version range must be non-empty and trimmed'')
      else rbind (rmap comparator_parse (split_on (CHR '','') s)) mk_range)"

definition range_matches :: "version_range \<Rightarrow> semver \<Rightarrow> bool" where
  "range_matches r v \<longleftrightarrow> list_all (\<lambda>c. comparator_matches c v) (vr_comparators r)"

definition range_str :: "version_range \<Rightarrow> string" where
  "range_str r = (case vr_comparators r of
       [c] \<Rightarrow> if vc_operator c = ''='' then semver_str (vc_version c) else comparator_str c
     | cs \<Rightarrow> join_with '','' (List.map comparator_str cs))"

subsection \<open>Parsing and printing are inverse\<close>

definition semver_canonical :: "semver \<Rightarrow> bool" where
  "semver_canonical v \<longleftrightarrow> 0 \<le> sv_major v \<and> 0 \<le> sv_minor v \<and> 0 \<le> sv_patch v
     \<and> list_all prerelease_ident (sv_prerelease v) \<and> list_all build_ident (sv_build v)"

lemma ident_char_plain: "ident_char c \<Longrightarrow> c \<noteq> CHR ''+'' \<and> c \<noteq> CHR ''.'' \<and> c \<noteq> CHR '','' \<and> \<not> is_space c"
  by (auto simp: ident_char_def is_digit_def is_lower_def is_space_def less_eq_char_def Let_def)

lemma digit_ident: "is_digit c \<Longrightarrow> ident_char c"
  by (simp add: ident_char_def)

lemma digit_plain: "is_digit c \<Longrightarrow> c \<noteq> CHR ''-''"
  by (auto simp: is_digit_def less_eq_char_def)

lemma prerelease_chars: "prerelease_ident s \<Longrightarrow> s \<noteq> [] \<and> list_all ident_char s"
  by (auto simp: prerelease_ident_def canonical_number_def digit_ident list_all_iff)

lemma build_chars: "build_ident s \<Longrightarrow> s \<noteq> [] \<and> list_all ident_char s"
  by (simp add: build_ident_def)

lemma join_ident_chars:
  "(\<And>x. x \<in> set xs \<Longrightarrow> list_all ident_char x) \<Longrightarrow> c \<in> set (join_with ''.'' xs) \<Longrightarrow> ident_char c \<or> c = CHR ''.''"
  using set_join_with [of "''.''" xs] by (auto simp: list_all_iff)

lemma split_dots:
  assumes "xs \<noteq> []" "\<And>x. x \<in> set xs \<Longrightarrow> list_all ident_char x"
  shows "split_on (CHR ''.'') (join_with ''.'' xs) = xs"
  using assms by (intro split_on_join) (auto simp: list_all_iff dest: ident_char_plain)

lemma int_str_nonneg: "0 \<le> i \<Longrightarrow> int_str i = nat_str (nat i)"
  by (simp add: int_str_def)

lemma nat_str_chars: "c \<in> set (nat_str n) \<Longrightarrow> is_digit c"
  using nat_str_digits [of n] by (simp add: list_all_iff)

definition core_str :: "semver \<Rightarrow> string" where
  "core_str v = join_with ''.'' [nat_str (nat (sv_major v)), nat_str (nat (sv_minor v)), nat_str (nat (sv_patch v))]"

definition opt_join :: "string list \<Rightarrow> string option" where
  "opt_join ids = (if ids = [] then None else Some (join_with ''.'' ids))"

definition with_suffix :: "char \<Rightarrow> string option \<Rightarrow> string" where
  "with_suffix c r = (case r of None \<Rightarrow> [] | Some t \<Rightarrow> c # t)"

lemma semver_str_parts:
  "0 \<le> sv_major v \<Longrightarrow> 0 \<le> sv_minor v \<Longrightarrow> 0 \<le> sv_patch v \<Longrightarrow>
     semver_str v = (core_str v @ with_suffix (CHR ''-'') (opt_join (sv_prerelease v)))
       @ with_suffix (CHR ''+'') (opt_join (sv_build v))"
  by (simp add: semver_str_def core_str_def int_str_nonneg opt_join_def with_suffix_def)

lemma split_first_suffix: "c \<notin> set s \<Longrightarrow> split_first c (s @ with_suffix c r) = (s, r)"
  by (cases r) (simp_all add: with_suffix_def split_first_none split_first_some)

lemma optional_idents_join:
  "(\<And>x. ok x \<Longrightarrow> x \<noteq> [] \<and> list_all ident_char x) \<Longrightarrow> list_all ok ids \<Longrightarrow> optional_idents ok (opt_join ids) = Some ids"
proof (cases "ids = []")
  case False
  assume "\<And>x. ok x \<Longrightarrow> x \<noteq> [] \<and> list_all ident_char x" and ids: "list_all ok ids"
  then have "split_on (CHR ''.'') (join_with ''.'' ids) = ids"
    using False by (intro split_dots) (auto simp: list_all_iff)
  with False ids show ?thesis by (simp add: optional_idents_def opt_join_def)
qed (simp add: optional_idents_def opt_join_def)

lemma core_chars: "c \<in> set (core_str v) \<Longrightarrow> is_digit c \<or> c = CHR ''.''"
  by (auto simp: core_str_def dest: nat_str_chars)

lemma semver_parse_str:
  assumes "semver_canonical v"
  shows "semver_parse (semver_str v) = Inr v"
proof -
  let ?pre = "opt_join (sv_prerelease v)" and ?build = "opt_join (sv_build v)"
  note can = assms [unfolded semver_canonical_def]
  have pre: "list_all ident_char x" if "x \<in> set (sv_prerelease v)" for x
    using can that by (auto simp: list_all_iff dest!: prerelease_chars)
  have "CHR ''+'' \<notin> set (core_str v @ with_suffix (CHR ''-'') ?pre)"
    using core_chars [of "CHR ''+''" v] join_ident_chars [where xs = "sv_prerelease v" and c = "CHR ''+''"] pre ident_char_plain [of "CHR ''+''"]
    by (auto simp: with_suffix_def opt_join_def digit_ident split: if_splits)
  then have plus: "split_first (CHR ''+'') (semver_str v) = (core_str v @ with_suffix (CHR ''-'') ?pre, ?build)"
    using can by (subst semver_str_parts) (simp_all add: split_first_suffix del: append_assoc)
  have "CHR ''-'' \<notin> set (core_str v)"
    using core_chars [of "CHR ''-''" v] digit_plain by auto
  then have minus: "split_first (CHR ''-'') (core_str v @ with_suffix (CHR ''-'') ?pre) = (core_str v, ?pre)"
    by (rule split_first_suffix)
  have core: "split_on (CHR ''.'') (core_str v)
      = [nat_str (nat (sv_major v)), nat_str (nat (sv_minor v)), nat_str (nat (sv_patch v))]"
    unfolding core_str_def
    by (rule split_dots) (auto simp: list_all_iff digit_ident dest: nat_str_chars)
  have "optional_idents prerelease_ident ?pre = Some (sv_prerelease v)"
    using can prerelease_chars by (intro optional_idents_join) auto
  moreover have "optional_idents build_ident ?build = Some (sv_build v)"
    using can build_chars by (intro optional_idents_join) auto
  ultimately have "semver_match (semver_str v) = Some v"
    using can by (simp add: semver_match_def plus minus core nat_str_canonical)
  moreover have "mk_semver v = Inr v"
    using can prerelease_chars build_chars by (auto simp: mk_semver_def list_all_iff)
  ultimately show ?thesis by (simp add: semver_parse_def)
qed

lemma optional_idents_Some:
  "optional_idents ok r = Some ids \<Longrightarrow> list_all ok ids \<and> opt_join ids = r"
  by (auto simp: optional_idents_def opt_join_def join_split_on Let_def split: option.splits if_splits)

lemma semver_str_parse:
  assumes "semver_parse s = Inr v"
  shows "semver_str v = s \<and> semver_canonical v"
proof -
  obtain front build where plus: "split_first (CHR ''+'') s = (front, build)" by fastforce
  obtain core pre where minus: "split_first (CHR ''-'') front = (core, pre)" by fastforce
  have "semver_match s = Some v"
    using assms by (auto simp: semver_parse_def mk_semver_def split: option.splits if_splits)
  then obtain a b c ps bs where core: "split_on (CHR ''.'') core = [a, b, c]"
    and ps: "optional_idents prerelease_ident pre = Some ps" and bs: "optional_idents build_ident build = Some bs"
    and num: "canonical_number a" "canonical_number b" "canonical_number c"
    and v: "v = \<lparr>sv_major = int (str_nat a), sv_minor = int (str_nat b), sv_patch = int (str_nat c),
        sv_prerelease = ps, sv_build = bs\<rparr>"
    by (auto simp: semver_match_def plus minus split: list.splits option.splits if_splits)
  have "core = join_with ''.'' [a, b, c]" using join_split_on [of "CHR ''.''" core] core by simp
  then have "core_str v = core" using num v by (simp add: core_str_def nat_str_str_nat)
  moreover have "s = (core @ with_suffix (CHR ''-'') pre) @ with_suffix (CHR ''+'') build"
    using split_first_eq [OF plus] split_first_eq [OF minus] by (simp add: with_suffix_def split: option.splits)
  ultimately have "semver_str v = s"
    using optional_idents_Some [OF ps] optional_idents_Some [OF bs] v by (subst semver_str_parts) simp_all
  moreover have "semver_canonical v"
    using optional_idents_Some [OF ps] optional_idents_Some [OF bs] v by (simp add: semver_canonical_def)
  ultimately show ?thesis by simp
qed

subsection \<open>The order\<close>

text \<open>The key a canonical identifier is ordered by: numbers first, by value, then the others.\<close>

definition ident_less :: "string \<Rightarrow> string \<Rightarrow> bool" where
  "ident_less a b \<longleftrightarrow>
     (if py_isdigit a \<and> py_isdigit b then str_nat a < str_nat b
      else if py_isdigit a \<noteq> py_isdigit b then py_isdigit a else a < b)"

lemma canonical_isdigit: "prerelease_ident s \<Longrightarrow> py_isdigit s \<longleftrightarrow> canonical_number s"
proof -
  assume s: "prerelease_ident s"
  have "is_digit c" if "ident_char c" "is_digit c \<or> of_char c \<in> {178, 179, 185 :: nat}" for c
    using that by (auto simp: ident_char_def is_digit_def is_lower_def less_eq_char_def)
  then show ?thesis
    using s prerelease_chars [OF s]
    by (auto simp: py_isdigit_def prerelease_ident_def canonical_number_def list_all_iff list_ex_iff)
qed

lemma ident_less_linear:
  assumes "prerelease_ident a" "prerelease_ident b"
  shows "a = b \<or> ident_less a b \<or> ident_less b a" "\<not> (ident_less a b \<and> ident_less b a)" "\<not> ident_less a a"
proof -
  have "str_nat a = str_nat b \<Longrightarrow> py_isdigit a \<Longrightarrow> py_isdigit b \<Longrightarrow> a = b"
    using assms by (metis canonical_isdigit nat_str_str_nat)
  then show "a = b \<or> ident_less a b \<or> ident_less b a"
    using less_linear [of "str_nat a" "str_nat b"] less_linear [of a b] by (auto simp: ident_less_def)
qed (auto simp: ident_less_def split: if_splits)

lemma ident_less_trans: "ident_less a b \<Longrightarrow> ident_less b c \<Longrightarrow> ident_less a c"
  by (auto simp: ident_less_def split: if_splits)

fun idents_less :: "string list \<Rightarrow> string list \<Rightarrow> bool" where
  "idents_less [] bs \<longleftrightarrow> bs \<noteq> []"
| "idents_less (a # as) [] \<longleftrightarrow> False"
| "idents_less (a # as) (b # bs) \<longleftrightarrow> (if a = b then idents_less as bs else ident_less a b)"

lemma compare_identifiers_less:
  "list_all prerelease_ident as \<Longrightarrow> list_all prerelease_ident bs \<Longrightarrow>
     (compare_identifiers as bs < 0 \<longleftrightarrow> idents_less as bs) \<and> (compare_identifiers as bs = 0 \<longleftrightarrow> as = bs)"
proof (induction as bs rule: compare_identifiers.induct)
  case (4 a as b bs)
  then show ?case
    using ident_less_linear [of a b] by (auto simp: ident_less_def)
qed auto

lemma idents_less_trans:
  "list_all prerelease_ident as \<Longrightarrow> list_all prerelease_ident bs \<Longrightarrow> list_all prerelease_ident cs \<Longrightarrow>
    idents_less as bs \<Longrightarrow> idents_less bs cs \<Longrightarrow> idents_less as cs"
proof (induction as cs arbitrary: bs rule: idents_less.induct)
  case (1 cs)
  then show ?case by (cases cs; cases bs) auto
next
  case (2 a as)
  then show ?case by (cases bs) auto
next
  case (3 a as c cs)
  then obtain b bs' where bs: "bs = b # bs'" by (cases bs) auto
  with 3 show ?case
    using ident_less_trans [of a b c] ident_less_linear(2) [of a b]
    by (auto split: if_splits)
qed

lemma idents_less_linear:
  "list_all prerelease_ident as \<Longrightarrow> list_all prerelease_ident bs \<Longrightarrow> as = bs \<or> idents_less as bs \<or> idents_less bs as"
proof (induction as bs rule: idents_less.induct)
  case (1 bs)
  then show ?case by (cases bs) auto
next
  case (3 a as b bs)
  then show ?case using ident_less_linear(1) [of a b] by auto
qed auto

lemma idents_less_irrefl: "\<not> idents_less as as"
  by (induction as) auto

definition pre_less :: "string list \<Rightarrow> string list \<Rightarrow> bool" where
  "pre_less l r \<longleftrightarrow> l \<noteq> [] \<and> (r = [] \<or> idents_less l r)"

lemma compare_prerelease_less:
  "list_all prerelease_ident l \<Longrightarrow> list_all prerelease_ident r \<Longrightarrow> compare_prerelease l r < 0 \<longleftrightarrow> pre_less l r"
  using compare_identifiers_less [of l r] by (auto simp: compare_prerelease_def pre_less_def)

lemma semver_lt_iff:
  "semver_canonical a \<Longrightarrow> semver_canonical b \<Longrightarrow>
     semver_lt a b \<longleftrightarrow> semver_numbers a < semver_numbers b
       \<or> (semver_numbers a = semver_numbers b \<and> pre_less (sv_prerelease a) (sv_prerelease b))"
  by (auto simp: semver_lt_def semver_canonical_def compare_prerelease_less)

lemma semver_lt_irrefl: "semver_canonical a \<Longrightarrow> semver_eq a b \<Longrightarrow> semver_canonical b \<Longrightarrow> \<not> semver_lt a b"
  by (auto simp: semver_lt_iff semver_eq_def pre_less_def idents_less_irrefl)

lemma semver_trichotomy:
  assumes "semver_canonical a" "semver_canonical b"
  shows "semver_lt a b \<or> semver_eq a b \<or> semver_lt b a"
  using assms idents_less_linear [of "sv_prerelease a" "sv_prerelease b"]
  by (auto simp: semver_lt_iff semver_eq_def pre_less_def semver_canonical_def)

lemma semver_lt_trans:
  assumes "semver_canonical a" "semver_canonical b" "semver_canonical c"
    and "semver_lt a b" "semver_lt b c"
  shows "semver_lt a c"
  using assms idents_less_trans [of "sv_prerelease a" "sv_prerelease b" "sv_prerelease c"]
  by (auto simp: semver_lt_iff pre_less_def semver_canonical_def)

subsection \<open>Ranges read back\<close>

definition range_canonical :: "version_range \<Rightarrow> bool" where
  "range_canonical r \<longleftrightarrow> vr_comparators r \<noteq> []
     \<and> list_all (\<lambda>c. vc_operator c \<in> {''='', ''>'', ''>='', ''<'', ''<=''} \<and> semver_canonical (vc_version c))
         (vr_comparators r)"

lemma semver_str_chars:
  assumes "semver_canonical v" "c \<in> set (semver_str v)"
  shows "ident_char c \<or> c = CHR ''.'' \<or> c = CHR ''+''"
proof -
  note can = assms(1) [unfolded semver_canonical_def]
  have "x \<in> set (sv_prerelease v) \<or> x \<in> set (sv_build v) \<Longrightarrow> list_all ident_char x" for x
    using can prerelease_chars build_chars by (auto simp: list_all_iff)
  then have "c \<in> set (with_suffix (CHR ''-'') (opt_join (sv_prerelease v))) \<Longrightarrow> ident_char c \<or> c = CHR ''.''"
    "c \<in> set (with_suffix (CHR ''+'') (opt_join (sv_build v))) \<Longrightarrow> ident_char c \<or> c = CHR ''.'' \<or> c = CHR ''+''"
    using join_ident_chars [where c = c and xs = "sv_prerelease v"]
      join_ident_chars [where c = c and xs = "sv_build v"]
    by (auto simp: with_suffix_def opt_join_def ident_char_def split: if_splits)
  then show ?thesis
    using assms(2) can core_chars [of c v] by (auto simp: semver_str_parts digit_ident)
qed

lemma semver_str_head:
  assumes "semver_canonical v"
  shows "semver_str v \<noteq> [] \<and> is_digit (hd (semver_str v))"
  using assms nat_str_digits [of "nat (sv_major v)"]
  by (auto simp: semver_canonical_def semver_str_def int_str_nonneg list_all_iff hd_append)

lemma version_char_plain:
  "ident_char c \<or> c = CHR ''.'' \<or> c = CHR ''+'' \<Longrightarrow> c \<noteq> CHR '','' \<and> \<not> is_space c \<and> c \<noteq> CHR 0x0A"
  by (auto dest: ident_char_plain simp: is_space_def)

definition comparator_text :: "version_comparator \<Rightarrow> string \<Rightarrow> bool" where
  "comparator_text c t \<longleftrightarrow> t = comparator_str c \<or> (vc_operator c = ''='' \<and> t = semver_str (vc_version c))"

lemma operators:
  assumes "op \<in> {''='', ''>'', ''>='', ''<'', ''<=''}" "s \<noteq> []" "is_digit (hd s)" "CHR 0x0A \<notin> set s"
  shows "comparator_split (op @ s) = Some (op, s)" "comparator_split s = Some ([], s)"
proof -
  obtain c t where s: "s = c # t" "is_digit c" using assms(2,3) by (cases s) auto
  then have c: "c \<notin> {CHR ''='', CHR ''<'', CHR ''>''}" by (auto simp: is_digit_def less_eq_char_def)
  show "comparator_split (op @ s) = Some (op, s)"
    using assms(1,4) s c by (auto simp: comparator_split_def)
  show "comparator_split s = Some ([], s)"
    using assms(4) s c by (auto simp: comparator_split_def split: list.splits)
qed

lemma comparator_parse_text:
  assumes "vc_operator c \<in> {''='', ''>'', ''>='', ''<'', ''<=''}" "semver_canonical (vc_version c)" "comparator_text c t"
  shows "comparator_parse t = Inr c" "t \<noteq> []" "CHR '','' \<notin> set t" "trimmed t"
proof -
  let ?s = "semver_str (vc_version c)"
  have s: "?s \<noteq> []" "is_digit (hd ?s)" "CHR 0x0A \<notin> set ?s" "CHR '','' \<notin> set ?s" "\<not> is_space (last ?s)" "\<not> is_space (hd ?s)"
  proof -
    have plain: "x \<noteq> CHR '','' \<and> \<not> is_space x \<and> x \<noteq> CHR 0x0A" if "x \<in> set ?s" for x
      using semver_str_chars [OF assms(2) that] by (rule version_char_plain)
    show "?s \<noteq> []" "is_digit (hd ?s)" using semver_str_head [OF assms(2)] by simp_all
    then show "CHR 0x0A \<notin> set ?s" "CHR '','' \<notin> set ?s" "\<not> is_space (last ?s)" "\<not> is_space (hd ?s)"
      using plain by auto
  qed
  have ends: "hd t \<in> set (vc_operator c) \<union> {hd ?s}" "last t = last ?s"
    using assms(1,3) s(1) by (auto simp: comparator_text_def comparator_str_def)
  show ne: "t \<noteq> []" and "CHR '','' \<notin> set t"
    using assms(1,3) s by (auto simp: comparator_text_def comparator_str_def)
  have "\<not> is_space (hd t)" using ends(1) assms(1) s by (auto simp: is_space_def)
  with ne ends(2) s show tr: "trimmed t" by (simp add: trimmed_iff)
  note sp = operators [OF assms(1) s(1,2,3)]
  show "comparator_parse t = Inr c"
  proof (cases "t = comparator_str c")
    case True
    with tr sp(1) assms show ?thesis
      by (auto simp: comparator_parse_def comparator_str_def semver_parse_str mk_comparator_def)
  next
    case False
    with assms have "t = ?s" "vc_operator c = ''=''" by (auto simp: comparator_text_def)
    with tr sp(2) assms(2) show ?thesis
      by (simp add: comparator_parse_def semver_parse_str mk_comparator_def)
  qed
qed

lemma last_join_with:
  "xs \<noteq> [] \<Longrightarrow> (\<And>x. x \<in> set xs \<Longrightarrow> x \<noteq> []) \<Longrightarrow> last (join_with sep xs) = last (last xs)"
proof (induction sep xs rule: join_with.induct)
  case (3 sep x y ys)
  then have "join_with sep (y # ys) \<noteq> []"
    by (subst join_with_eq_Nil) auto
  with 3 show ?case by simp
qed auto

lemma range_parse_str:
  assumes "range_canonical r"
  shows "range_parse (range_str r) = Inr r"
proof -
  let ?cs = "vr_comparators r"
  obtain ts where ts: "range_str r = join_with '','' ts" "list_all2 comparator_text ?cs ts" "ts \<noteq> []"
  proof (cases "\<exists>c. ?cs = [c] \<and> vc_operator c = ''=''")
    case True
    then obtain c where c: "?cs = [c]" "vc_operator c = ''=''" by blast
    show ?thesis by (rule that [of "[semver_str (vc_version c)]"]) (use c in \<open>auto simp: range_str_def comparator_text_def\<close>)
  next
    case False
    have "list_all2 comparator_text ?cs (List.map comparator_str ?cs)"
      by (simp add: list_all2_conv_all_nth comparator_text_def)
    moreover have "range_str r = join_with '','' (List.map comparator_str ?cs)"
      using False assms by (auto simp: range_str_def range_canonical_def split: list.splits)
    ultimately show ?thesis using assms by (intro that) (auto simp: range_canonical_def)
  qed
  have ok: "comparator_parse t = Inr c \<and> t \<noteq> [] \<and> CHR '','' \<notin> set t \<and> trimmed t" if "(c, t) \<in> set (zip ?cs ts)" for c t
  proof -
    have "c \<in> set ?cs" using that by (rule set_zip_leftD)
    moreover have "comparator_text c t" using ts(2) that by (auto simp: list_all2_iff)
    moreover have "vc_operator c \<in> {''='', ''>'', ''>='', ''<'', ''<=''}" "semver_canonical (vc_version c)"
      using assms calculation(1) unfolding range_canonical_def list_all_iff by blast+
    ultimately show ?thesis using comparator_parse_text [of c t] by blast
  qed
  have len: "length ?cs = length ts" using ts(2) by (rule list_all2_lengthD)
  have mem: "\<exists>c. (c, t) \<in> set (zip ?cs ts)" if "t \<in> set ts" for t
    using that len by (metis in_set_impl_in_set_zip2)
  have parts: "t \<noteq> [] \<and> CHR '','' \<notin> set t \<and> trimmed t" if "t \<in> set ts" for t
    using mem [OF that] ok by blast
  have split: "split_on (CHR '','') (range_str r) = ts"
    unfolding ts(1) using parts ts(3) by (intro split_on_join) auto
  have "list_all2 (\<lambda>t c. comparator_parse t = Inr c) ts ?cs"
    using ok len by (auto simp: list_all2_iff set_zip)
  then have rm: "rmap comparator_parse ts = Inr ?cs" by (simp add: rmap_eq_Inr_iff)
  have first: "join_with '','' ts \<noteq> [] \<and> hd (join_with '','' ts) = hd (hd ts)"
    using parts ts(3) by (cases ts rule: remdups_adj.cases) auto
  have last: "last (join_with '','' ts) = last (last ts)"
    using parts ts(3) by (intro last_join_with) auto
  have "trimmed (range_str r)"
    using first last parts ts(3) unfolding ts(1) trimmed_iff by (metis last_in_set list.set_sel(1))
  with split rm assms show ?thesis
    by (simp add: range_parse_def mk_range_def range_canonical_def)
qed

lemma range_parse_canonical:
  assumes "range_parse s = Inr r"
  shows "range_canonical r"
proof -
  have ok: "vc_operator c \<in> {''='', ''>'', ''>='', ''<'', ''<=''} \<and> semver_canonical (vc_version c)"
    if "comparator_parse t = Inr c" for t c
    using that semver_str_parse
    by (auto simp: comparator_parse_def mk_comparator_def result_simps split: if_splits option.splits)
  obtain cs where cs: "rmap comparator_parse (split_on (CHR '','') s) = Inr cs" "r = \<lparr>vr_comparators = cs\<rparr>" "cs \<noteq> []"
    using assms by (auto simp: range_parse_def mk_range_def result_simps split: if_splits)
  from cs(1) have "list_all (\<lambda>c. vc_operator c \<in> {''='', ''>'', ''>='', ''<'', ''<=''} \<and> semver_canonical (vc_version c)) cs"
    by (rule rmap_yields) (rule ok)
  with cs show ?thesis by (simp add: range_canonical_def)
qed

end
