(* ===== verification/Plugin_Model.thy ===== *)
theory Plugin_Model
  imports Json_Codec Plugin_Version
begin

section \<open>Plugin manifests\<close>

text \<open>
  \<open>plugin/model.py\<close> and \<open>plugin/manifest.py\<close>: capability types, references, permissions,
  capability declarations, dependencies and manifests, with their validators, their encoding
  and the strict decoders, and the preflight checks of a manifest.

  Python compares versions without their build metadata, and with them everything that holds
  a version. \<open>bare_version\<close> and its companions drop the metadata, so that Python's \<open>==\<close> is
  equality of the bare values.
\<close>

subsection \<open>Enumerations\<close>

datatype capability_type = CAP_WORKFLOW | CAP_SKILL | CAP_TOOL | CAP_CONTEXT_PROVIDER
  | CAP_MEMORY_PROVIDER | CAP_MODEL_PROVIDER | CAP_STORAGE_PROVIDER | CAP_MCP_ADAPTER

fun capability_type_value :: "capability_type \<Rightarrow> string" where
  "capability_type_value CAP_WORKFLOW = ''workflow''"
| "capability_type_value CAP_SKILL = ''skill''"
| "capability_type_value CAP_TOOL = ''tool''"
| "capability_type_value CAP_CONTEXT_PROVIDER = ''context_provider''"
| "capability_type_value CAP_MEMORY_PROVIDER = ''memory_provider''"
| "capability_type_value CAP_MODEL_PROVIDER = ''model_provider''"
| "capability_type_value CAP_STORAGE_PROVIDER = ''storage_provider''"
| "capability_type_value CAP_MCP_ADAPTER = ''mcp_adapter''"

datatype dependency_kind = DEP_PLUGIN | DEP_CAPABILITY

fun dependency_kind_value :: "dependency_kind \<Rightarrow> string" where
  "dependency_kind_value DEP_PLUGIN = ''plugin''"
| "dependency_kind_value DEP_CAPABILITY = ''capability''"

datatype plugin_hook = ON_LOAD | ON_ACTIVATE | ON_DRAIN | ON_UNLOAD

fun hook_value :: "plugin_hook \<Rightarrow> string" where
  "hook_value ON_LOAD = ''on_load''"
| "hook_value ON_ACTIVATE = ''on_activate''"
| "hook_value ON_DRAIN = ''on_drain''"
| "hook_value ON_UNLOAD = ''on_unload''"

definition capability_types :: "(string \<times> capability_type) list" where
  "capability_types = List.map (\<lambda>c. (capability_type_value c, c)) [CAP_WORKFLOW, CAP_SKILL, CAP_TOOL,
     CAP_CONTEXT_PROVIDER, CAP_MEMORY_PROVIDER, CAP_MODEL_PROVIDER, CAP_STORAGE_PROVIDER, CAP_MCP_ADAPTER]"

definition dependency_kinds :: "(string \<times> dependency_kind) list" where
  "dependency_kinds = List.map (\<lambda>c. (dependency_kind_value c, c)) [DEP_PLUGIN, DEP_CAPABILITY]"

text \<open>The hooks in the order of their names, which is the order \<open>to_data\<close> prints them in.\<close>

definition hooks_by_name :: "plugin_hook list" where
  "hooks_by_name = [ON_ACTIVATE, ON_DRAIN, ON_LOAD, ON_UNLOAD]"

definition plugin_hooks :: "(string \<times> plugin_hook) list" where
  "plugin_hooks = List.map (\<lambda>c. (hook_value c, c)) hooks_by_name"

lemma hooks_by_name_sorted: "sorted (List.map hook_value hooks_by_name)"
  by code_simp

lemma set_hooks_by_name [simp]: "set hooks_by_name = UNIV"
  by (auto simp: hooks_by_name_def) (metis plugin_hook.exhaust)

lemma capability_type_decodes [simp]: "enum_of L cls capability_types (capability_type_value c) = Inr c"
  by (cases c) (simp_all add: enum_of_def capability_types_def)

lemma dependency_kind_decodes [simp]: "enum_of L cls dependency_kinds (dependency_kind_value c) = Inr c"
  by (cases c) (simp_all add: enum_of_def dependency_kinds_def)

lemma hook_decodes [simp]: "enum_of L cls plugin_hooks (hook_value c) = Inr c"
  by (cases c) (simp_all add: enum_of_def plugin_hooks_def hooks_by_name_def)

lemma capability_type_value_inject: "capability_type_value a = capability_type_value b \<longleftrightarrow> a = b"
  by (cases a; cases b) simp_all

subsection \<open>Checks of single values\<close>

definition require_trimmed :: "string \<Rightarrow> string \<Rightarrow> unit result" where
  "require_trimmed v fname =
     (if \<not> trimmed v then Inl (ValueError (fname @ '' must be non-empty and trimmed'')) else Inr ())"

definition plugin_string :: "json \<Rightarrow> string \<Rightarrow> string result" where
  "plugin_string v fname = (case v of
       JStr s \<Rightarrow> rbind (require_trimmed s fname) (\<lambda>_. Inr s)
     | _ \<Rightarrow> Inl (ValueError (fname @ '' must be a string'')))"

text \<open>\<open>^[a-z][a-z0-9_-]*(?:\.[a-z][a-z0-9_-]*)+$\<close>, at most 127 characters.\<close>

definition namespaced_part :: "string \<Rightarrow> bool" where
  "namespaced_part s = (case s of [] \<Rightarrow> False
     | c # cs \<Rightarrow> is_lower c \<and> list_all (\<lambda>x. is_lower x \<or> is_digit x \<or> x = CHR ''_'' \<or> x = CHR ''-'') cs)"

definition namespaced_id :: "string \<Rightarrow> bool" where
  "namespaced_id s \<longleftrightarrow> length s \<le> 127 \<and> 2 \<le> length (split_on (CHR ''.'') s)
     \<and> list_all namespaced_part (split_on (CHR ''.'') s)"

definition require_namespaced_id :: "string \<Rightarrow> string \<Rightarrow> unit result" where
  "require_namespaced_id v fname =
     (if \<not> namespaced_id v then Inl (ValueError (fname @ '' must be a lowercase namespaced identifier''))
      else Inr ())"

definition require_fields :: "json_object \<Rightarrow> string list \<Rightarrow> string \<Rightarrow> unit result" where
  "require_fields d expected subject =
     (if same_fields d expected then Inr ()
      else let missing = sort (remdups (filter (\<lambda>k. k \<notin> fst ` set d) expected));
               unknown = sort (remdups (filter (\<lambda>k. k \<notin> set expected) (List.map fst d)));
               details = (if missing \<noteq> [] then [''missing '' @ join_with '', '' missing] else [])
                 @ (if unknown \<noteq> [] then [''unknown '' @ join_with '', '' unknown] else [])
           in Inl (ValueError (subject @ '' fields are invalid: '' @ join_with ''; '' details)))"

lemma plugin_string_JStr [simp]: "trimmed s \<Longrightarrow> plugin_string (JStr s) n = Inr s"
  by (simp add: plugin_string_def require_trimmed_def)

lemma plugin_string_Inr: "plugin_string v n = Inr s \<longleftrightarrow> v = JStr s \<and> trimmed s"
  by (auto simp: plugin_string_def require_trimmed_def split: json.splits)

lemma require_fields_Inr [result_simps]: "require_fields d expected subject = Inr u \<longleftrightarrow> same_fields d expected"
  by (simp add: require_fields_def Let_def)

subsection \<open>Plugin references\<close>

record plugin_ref =
  pl_name :: string
  pl_version :: semver

definition mk_plugin_ref :: "string \<Rightarrow> semver \<Rightarrow> plugin_ref result" where
  "mk_plugin_ref n v =
     rbind (require_namespaced_id n ''Plugin name'') (\<lambda>_. Inr \<lparr>pl_name = n, pl_version = v\<rparr>)"

definition bare_version :: "semver \<Rightarrow> semver" where
  "bare_version v = v\<lparr>sv_build := []\<rparr>"

lemma semver_eq_bare: "semver_eq a b \<longleftrightarrow> bare_version a = bare_version b"
  by (cases a; cases b) (auto simp: semver_eq_def semver_numbers_def bare_version_def)

definition ref_eq :: "plugin_ref \<Rightarrow> plugin_ref \<Rightarrow> bool" where
  "ref_eq a b \<longleftrightarrow> pl_name a = pl_name b \<and> semver_eq (pl_version a) (pl_version b)"

definition plugin_ref_to_data :: "plugin_ref \<Rightarrow> json_object" where
  "plugin_ref_to_data r = [(''name'', JStr (pl_name r)), (''version'', JStr (semver_str (pl_version r)))]"

definition plugin_ref_from_data :: "json_object \<Rightarrow> plugin_ref result" where
  "plugin_ref_from_data d =
     rbind (require_fields d [''name'', ''version''] ''Plugin reference'') (\<lambda>_.
     rbind (rbind (obj_index d ''name'') (\<lambda>v. plugin_string v ''Plugin name'')) (\<lambda>n.
     rbind (rbind (rbind (obj_index d ''version'') (\<lambda>v. plugin_string v ''Plugin version'')) semver_parse) (\<lambda>v.
     mk_plugin_ref n v)))"

subsection \<open>Permissions\<close>

definition scope_pattern_parts :: "string \<Rightarrow> (string \<times> string \<times> string) result" where
  "scope_pattern_parts v =
     rbind (require_trimmed v ''permission Scope pattern'') (\<lambda>_.
     case split_twice (CHR '':'') v of
       [n, k, i] \<Rightarrow> Inr (n, k, i)
     | _ \<Rightarrow> Inl (ValueError ''permission Scope pattern must be namespace:kind:id or namespace:kind:*''))"

record plugin_permission =
  pp_action :: action_ref
  pp_pattern :: string

definition mk_permission :: "action_ref \<Rightarrow> string \<Rightarrow> plugin_permission result" where
  "mk_permission a pattern =
     rbind (scope_pattern_parts pattern) (\<lambda>(n, k, i).
     if \<not> name_pattern n then Inl (ValueError ''permission Scope namespace is invalid'')
     else if \<not> name_pattern k then Inl (ValueError ''permission Scope kind is invalid'')
     else if \<not> trimmed i \<or> length i > 255 \<or> (CHR ''*'' \<in> set i \<and> i \<noteq> ''*'')
       then Inl (ValueError ''permission Scope identifier is invalid'')
     else Inr \<lparr>pp_action = a, pp_pattern = pattern\<rparr>)"

text \<open>The loop of \<open>permits\<close> walks from the scope to its parents.\<close>

definition permits :: "plugin_permission \<Rightarrow> scope_ref \<Rightarrow> bool result" where
  "permits p s =
     rbind (scope_pattern_parts (pp_pattern p)) (\<lambda>(n, k, i).
     Inr (list_ex (\<lambda>c. sc_namespace c = n \<and> sc_kind c = k \<and> (i = ''*'' \<or> sc_id c = i)) (ancestry s)))"

definition permission_to_data :: "plugin_permission \<Rightarrow> json_object" where
  "permission_to_data p = [(''action'', JObj (action_to_data (pp_action p))), (''scope_pattern'', JStr (pp_pattern p))]"

definition permission_from_data :: "pylib \<Rightarrow> json_object \<Rightarrow> plugin_permission result" where
  "permission_from_data L d =
     rbind (require_fields d [''action'', ''scope_pattern''] ''Plugin permission'') (\<lambda>_.
     rbind (rbind (rbind (obj_index d ''action'') (\<lambda>v. as_object v ''permission action'')) (action_from_data L)) (\<lambda>a.
     rbind (rbind (obj_index d ''scope_pattern'') (\<lambda>v. plugin_string v ''permission Scope pattern'')) (\<lambda>p.
     mk_permission a p)))"

definition permission_ok :: "plugin_permission \<Rightarrow> bool" where
  "permission_ok p \<longleftrightarrow> action_ok (pp_action p) \<and> mk_permission (pp_action p) (pp_pattern p) = Inr p"

lemma mk_permission_trimmed: "mk_permission a s = Inr p \<Longrightarrow> trimmed s"
  by (auto simp: mk_permission_def scope_pattern_parts_def require_trimmed_def result_simps split: if_splits)

lemma permission_roundtrip: "permission_ok p \<Longrightarrow> permission_from_data L (permission_to_data p) = Inr p"
  using mk_permission_trimmed [of "pp_action p" "pp_pattern p" p]
  by (simp add: permission_ok_def permission_from_data_def permission_to_data_def require_fields_def
      same_fields_def action_roundtrip)

lemma permits_total:
  assumes "mk_permission a s = Inr p"
  shows "\<exists>n k i. scope_pattern_parts (pp_pattern p) = Inr (n, k, i) \<and> permits p sc =
    Inr (\<exists>c \<in> set (ancestry sc). sc_namespace c = n \<and> sc_kind c = k \<and> (i = ''*'' \<or> sc_id c = i))"
  using assms by (auto simp: mk_permission_def permits_def result_simps list_ex_iff split: if_splits)

subsection \<open>Capability declarations\<close>

record capability_declaration =
  cd_type :: capability_type
  cd_id :: string
  cd_version :: semver
  cd_entry :: string
  cd_permissions :: "plugin_permission list"

definition mk_declaration :: "capability_declaration \<Rightarrow> capability_declaration result" where
  "mk_declaration c =
     rbind (require_namespaced_id (cd_id c) ''capability identifier'') (\<lambda>_.
     rbind (require_trimmed (cd_entry c) ''capability entry'') (\<lambda>_.
     if \<not> distinct (List.map (\<lambda>p. action_key (pp_action p)) (cd_permissions c))
     then Inl (ValueError ''capability permissions must not duplicate actions'')
     else Inr c))"

type_synonym capability_key = "string \<times> string \<times> string"

definition declaration_key :: "capability_declaration \<Rightarrow> capability_key" where
  "declaration_key c = (capability_type_value (cd_type c), cd_id c, semver_str (cd_version c))"

definition declaration_to_data :: "capability_declaration \<Rightarrow> json_object" where
  "declaration_to_data c = [(''type'', JStr (capability_type_value (cd_type c))), (''capability_id'', JStr (cd_id c)),
     (''contract_version'', JStr (semver_str (cd_version c))), (''entry'', JStr (cd_entry c)),
     (''permissions'', JList (List.map (\<lambda>p. JObj (permission_to_data p)) (cd_permissions c)))]"

definition declaration_from_data :: "pylib \<Rightarrow> json_object \<Rightarrow> capability_declaration result" where
  "declaration_from_data L d =
     rbind (require_fields d [''type'', ''capability_id'', ''contract_version'', ''entry'', ''permissions'']
       ''capability declaration'') (\<lambda>_.
     rbind (rbind (rbind (obj_index d ''type'') (\<lambda>v. plugin_string v ''capability type''))
       (enum_of L ''CapabilityType'' capability_types)) (\<lambda>t.
     rbind (rbind (obj_index d ''capability_id'') (\<lambda>v. plugin_string v ''capability identifier'')) (\<lambda>i.
     rbind (rbind (rbind (obj_index d ''contract_version'') (\<lambda>v. plugin_string v ''capability version'')) semver_parse) (\<lambda>ver.
     rbind (rbind (obj_index d ''entry'') (\<lambda>v. plugin_string v ''capability entry'')) (\<lambda>e.
     rbind (rbind (obj_index d ''permissions'') (\<lambda>v. as_array v ''capability permissions'')) (\<lambda>items.
     rbind (rmap (\<lambda>item. rbind (as_object item ''capability permission'') (permission_from_data L)) items) (\<lambda>ps.
     mk_declaration \<lparr>cd_type = t, cd_id = i, cd_version = ver, cd_entry = e, cd_permissions = ps\<rparr>)))))))"

definition declaration_ok :: "capability_declaration \<Rightarrow> bool" where
  "declaration_ok c \<longleftrightarrow> mk_declaration c = Inr c \<and> semver_canonical (cd_version c)
     \<and> list_all permission_ok (cd_permissions c)"

lemma part_trimmed: "namespaced_part s \<Longrightarrow> s \<noteq> [] \<and> (\<forall>c \<in> set s. \<not> is_space c)"
  by (auto simp: namespaced_part_def list_all_iff is_lower_def is_digit_def is_space_def less_eq_char_def
      Let_def split: list.splits)

lemma namespaced_trimmed: "namespaced_id s \<Longrightarrow> trimmed s"
proof -
  assume s: "namespaced_id s"
  then have ne: "s \<noteq> []" by (auto simp: namespaced_id_def namespaced_part_def)
  have "\<not> is_space c" if "c \<in> set s" for c
  proof (rule ccontr)
    assume "\<not> \<not> is_space c"
    moreover have "set s \<subseteq> {CHR ''.''} \<union> (\<Union>x \<in> set (split_on (CHR ''.'') s). set x)"
      using set_join_with [of "''.''" "split_on (CHR ''.'') s"] by (simp add: join_split_on)
    moreover have "\<not> is_space (CHR ''.'')" by (simp add: is_space_def)
    moreover have "\<not> is_space c" if "x \<in> set (split_on (CHR ''.'') s)" "c \<in> set x" for x
      using s that part_trimmed [of x] by (auto simp: namespaced_id_def list_all_iff)
    ultimately show False using that by auto
  qed
  with ne show ?thesis by (simp add: trimmed_iff)
qed

lemma version_trimmed: "semver_canonical v \<Longrightarrow> trimmed (semver_str v)"
  using semver_str_head [of v] semver_str_chars [of v] version_char_plain
  by (auto simp: trimmed_iff)

lemma type_value_trimmed [simp]: "trimmed (capability_type_value t)"
  by (cases t) (simp_all add: trimmed_iff is_space_def)

lemma mk_declaration_Inr: "mk_declaration c = Inr c' \<longleftrightarrow> c' = c \<and> namespaced_id (cd_id c) \<and> trimmed (cd_entry c)
    \<and> distinct (List.map (\<lambda>p. action_key (pp_action p)) (cd_permissions c))"
  by (auto simp: mk_declaration_def require_namespaced_id_def require_trimmed_def result_simps)

lemma rmap_objects_inverse:
  "list_all ok xs \<Longrightarrow> (\<And>x. ok x \<Longrightarrow> f (g x) = Inr x) \<Longrightarrow>
    rmap (\<lambda>item. rbind (as_object item n) f) (List.map (\<lambda>x. JObj (g x)) xs) = Inr xs"
  by (induction xs) simp_all

lemma permissions_roundtrip:
  "list_all permission_ok ps \<Longrightarrow>
    rmap (\<lambda>item. rbind (as_object item n) (permission_from_data L)) (List.map (\<lambda>p. JObj (permission_to_data p)) ps) = Inr ps"
  by (erule rmap_objects_inverse) (rule permission_roundtrip)

lemma declaration_roundtrip: "declaration_ok c \<Longrightarrow> declaration_from_data L (declaration_to_data c) = Inr c"
  by (cases c) (simp add: declaration_ok_def declaration_from_data_def declaration_to_data_def require_fields_def
      same_fields_def mk_declaration_Inr namespaced_trimmed version_trimmed semver_parse_str
      permissions_roundtrip)

subsection \<open>Dependencies\<close>

record plugin_dependency =
  dp_kind :: dependency_kind
  dp_range :: version_range
  dp_plugin :: "string option"
  dp_type :: "capability_type option"
  dp_capability :: "string option"

definition present :: "string option \<Rightarrow> bool" where
  "present v \<longleftrightarrow> v \<noteq> None \<and> v \<noteq> Some []"

definition mk_dependency :: "plugin_dependency \<Rightarrow> plugin_dependency result" where
  "mk_dependency d = (case dp_kind d of
       DEP_PLUGIN \<Rightarrow>
         (case dp_plugin d of
            None \<Rightarrow> Inl (ValueError ''Plugin dependency fields are invalid'')
          | Some p \<Rightarrow>
              if dp_type d \<noteq> None \<or> present (dp_capability d)
              then Inl (ValueError ''Plugin dependency fields are invalid'')
              else rbind (require_namespaced_id p ''dependency Plugin identifier'') (\<lambda>_. Inr d))
     | DEP_CAPABILITY \<Rightarrow>
         (case dp_capability d of
            None \<Rightarrow> Inl (ValueError ''capability dependency fields are invalid'')
          | Some c \<Rightarrow>
              if present (dp_plugin d) \<or> dp_type d = None
              then Inl (ValueError ''capability dependency fields are invalid'')
              else rbind (require_namespaced_id c ''dependency capability identifier'') (\<lambda>_. Inr d)))"

definition stable_key :: "plugin_dependency \<Rightarrow> string \<times> string \<times> string" where
  "stable_key d = (dependency_kind_value (dp_kind d),
     (case dp_type d of None \<Rightarrow> [] | Some t \<Rightarrow> capability_type_value t),
     (if present (dp_plugin d) then the (dp_plugin d) else the (dp_capability d)))"

definition dependency_to_data :: "plugin_dependency \<Rightarrow> json_object" where
  "dependency_to_data d = (case dp_kind d of
       DEP_PLUGIN \<Rightarrow> [(''kind'', JStr (dependency_kind_value DEP_PLUGIN)), (''plugin_id'', opt_str (dp_plugin d)),
         (''version_range'', JStr (range_str (dp_range d)))]
     | DEP_CAPABILITY \<Rightarrow> [(''kind'', JStr (dependency_kind_value DEP_CAPABILITY)),
         (''capability_type'', JStr (capability_type_value (the (dp_type d)))),
         (''capability_id'', opt_str (dp_capability d)), (''version_range'', JStr (range_str (dp_range d)))])"

definition plugin_dependency_from_data :: "json_object \<Rightarrow> plugin_dependency result" where
  "plugin_dependency_from_data d =
     rbind (require_fields d [''kind'', ''plugin_id'', ''version_range''] ''Plugin dependency'') (\<lambda>_.
     rbind (rbind (rbind (obj_index d ''version_range'') (\<lambda>v. plugin_string v ''dependency range'')) range_parse) (\<lambda>r.
     rbind (rbind (obj_index d ''plugin_id'') (\<lambda>v. plugin_string v ''dependency Plugin identifier'')) (\<lambda>p.
     mk_dependency \<lparr>dp_kind = DEP_PLUGIN, dp_range = r, dp_plugin = Some p, dp_type = None, dp_capability = None\<rparr>)))"

definition capability_dependency_from_data :: "pylib \<Rightarrow> json_object \<Rightarrow> plugin_dependency result" where
  "capability_dependency_from_data L d =
     rbind (require_fields d [''kind'', ''capability_type'', ''capability_id'', ''version_range'']
       ''capability dependency'') (\<lambda>_.
     rbind (rbind (rbind (obj_index d ''version_range'') (\<lambda>v. plugin_string v ''dependency range'')) range_parse) (\<lambda>r.
     rbind (rbind (rbind (obj_index d ''capability_type'') (\<lambda>v. plugin_string v ''capability type''))
       (enum_of L ''CapabilityType'' capability_types)) (\<lambda>t.
     rbind (rbind (obj_index d ''capability_id'') (\<lambda>v. plugin_string v ''capability identifier'')) (\<lambda>c.
     mk_dependency \<lparr>dp_kind = DEP_CAPABILITY, dp_range = r, dp_plugin = None, dp_type = Some t, dp_capability = Some c\<rparr>))))"

definition dependency_from_data :: "pylib \<Rightarrow> json_object \<Rightarrow> plugin_dependency result" where
  "dependency_from_data L d =
     rbind (rbind (plugin_string (obj_get d ''kind'') ''dependency kind'')
       (enum_of L ''DependencyKind'' dependency_kinds)) (\<lambda>kind.
     case kind of
       DEP_PLUGIN \<Rightarrow> plugin_dependency_from_data d
     | DEP_CAPABILITY \<Rightarrow> capability_dependency_from_data L d)"

lemmas dependency_from_data_defs = dependency_from_data_def plugin_dependency_from_data_def
  capability_dependency_from_data_def

text \<open>The unused identifier is absent, as \<open>from_data\<close> leaves it.\<close>

definition dependency_ok :: "plugin_dependency \<Rightarrow> bool" where
  "dependency_ok d \<longleftrightarrow> mk_dependency d = Inr d \<and> range_canonical (dp_range d)
     \<and> (dp_kind d = DEP_PLUGIN \<longrightarrow> dp_capability d = None) \<and> (dp_kind d = DEP_CAPABILITY \<longrightarrow> dp_plugin d = None)"

lemma mk_dependency_cases:
  assumes "mk_dependency d = Inr d'"
  obtains p where "dp_kind d = DEP_PLUGIN" "dp_plugin d = Some p" "namespaced_id p" "dp_type d = None"
      "\<not> present (dp_capability d)"
    | t c where "dp_kind d = DEP_CAPABILITY" "dp_type d = Some t" "dp_capability d = Some c" "namespaced_id c"
      "\<not> present (dp_plugin d)"
  using assms
  by (auto simp: mk_dependency_def require_namespaced_id_def result_simps
      split: dependency_kind.splits option.splits if_splits)

lemma kind_value_trimmed [simp]: "trimmed (dependency_kind_value k)"
  by (cases k) (simp_all add: trimmed_iff is_space_def)

lemma range_str_trimmed: "range_canonical r \<Longrightarrow> trimmed (range_str r)"
  using range_parse_str [of r] by (auto simp: range_parse_def split: if_splits)

lemma plugin_string_kind:
  "plugin_string (JStr ''plugin'') n = Inr ''plugin''" "plugin_string (JStr ''capability'') n = Inr ''capability''"
  using kind_value_trimmed [of DEP_PLUGIN] kind_value_trimmed [of DEP_CAPABILITY] by simp_all

lemma dependency_kind_decodes_text:
  "enum_of L cls dependency_kinds ''plugin'' = Inr DEP_PLUGIN"
  "enum_of L cls dependency_kinds ''capability'' = Inr DEP_CAPABILITY"
  using dependency_kind_decodes [of L cls DEP_PLUGIN] dependency_kind_decodes [of L cls DEP_CAPABILITY] by simp_all

lemma dependency_roundtrip:
  assumes "dependency_ok d"
  shows "dependency_from_data L (dependency_to_data d) = Inr d"
proof -
  have ok: "mk_dependency d = Inr d" "range_canonical (dp_range d)" "trimmed (range_str (dp_range d))"
    using assms range_str_trimmed by (simp_all add: dependency_ok_def)
  from ok(1) show ?thesis
  proof (cases rule: mk_dependency_cases)
    case (1 p)
    then have d: "d = \<lparr>dp_kind = DEP_PLUGIN, dp_range = dp_range d, dp_plugin = Some p, dp_type = None, dp_capability = None\<rparr>"
      using assms by (cases d) (simp add: dependency_ok_def)
    with ok 1 show ?thesis
      by (simp add: dependency_from_data_defs dependency_to_data_def require_fields_def same_fields_def
          range_parse_str namespaced_trimmed plugin_string_kind dependency_kind_decodes_text)
  next
    case (2 t c)
    then have d: "d = \<lparr>dp_kind = DEP_CAPABILITY, dp_range = dp_range d, dp_plugin = None, dp_type = Some t, dp_capability = Some c\<rparr>"
      using assms by (cases d) (simp add: dependency_ok_def)
    with ok 2 show ?thesis
      by (simp add: dependency_from_data_defs dependency_to_data_def require_fields_def same_fields_def
          range_parse_str namespaced_trimmed plugin_string_kind dependency_kind_decodes_text)
  qed
qed

subsection \<open>Manifests\<close>

record plugin_manifest =
  mf_contract :: string
  mf_name :: string
  mf_version :: semver
  mf_core_api :: version_range
  mf_entrypoint :: string
  mf_provides :: "capability_declaration list"
  mf_requires :: "plugin_dependency list"
  mf_permissions :: "plugin_permission list"
  mf_lifecycle :: "plugin_hook set"

definition mk_manifest :: "plugin_manifest \<Rightarrow> plugin_manifest result" where
  "mk_manifest m =
     (if mf_contract m \<noteq> ''1'' then Inl (ValueError ''unsupported Plugin manifest contract version'')
      else rbind (require_namespaced_id (mf_name m) ''Plugin name'') (\<lambda>_.
      rbind (require_trimmed (mf_entrypoint m) ''Plugin entrypoint'') (\<lambda>_.
      if \<not> distinct (List.map (\<lambda>c. (cd_type c, cd_id c)) (mf_provides m))
      then Inl (ValueError ''Plugin capability identifiers must be unique by type'')
      else if \<not> distinct (List.map stable_key (mf_requires m))
      then Inl (ValueError ''Plugin dependencies must not be duplicated'')
      else if \<not> distinct (List.map (\<lambda>p. action_key (pp_action p)) (mf_permissions m))
      then Inl (ValueError ''Plugin permissions must not duplicate actions'')
      else Inr m)))"

definition manifest_ref :: "plugin_manifest \<Rightarrow> plugin_ref" where
  "manifest_ref m = \<lparr>pl_name = mf_name m, pl_version = mf_version m\<rparr>"

text \<open>Python's equality of manifests: versions compare without build metadata.\<close>

definition bare_range :: "version_range \<Rightarrow> version_range" where
  "bare_range r = \<lparr>vr_comparators = List.map (\<lambda>c. c\<lparr>vc_version := bare_version (vc_version c)\<rparr>) (vr_comparators r)\<rparr>"

definition bare_declaration :: "capability_declaration \<Rightarrow> capability_declaration" where
  "bare_declaration c = c\<lparr>cd_version := bare_version (cd_version c)\<rparr>"

definition bare_manifest :: "plugin_manifest \<Rightarrow> plugin_manifest" where
  "bare_manifest m = m\<lparr>mf_version := bare_version (mf_version m), mf_core_api := bare_range (mf_core_api m),
     mf_provides := List.map bare_declaration (mf_provides m),
     mf_requires := List.map (\<lambda>d. d\<lparr>dp_range := bare_range (dp_range d)\<rparr>) (mf_requires m)\<rparr>"

definition manifest_eq :: "plugin_manifest \<Rightarrow> plugin_manifest \<Rightarrow> bool" where
  "manifest_eq a b \<longleftrightarrow> bare_manifest a = bare_manifest b"

definition manifest_to_data :: "plugin_manifest \<Rightarrow> json_object" where
  "manifest_to_data m =
     [(''contract_version'', JStr (mf_contract m)), (''name'', JStr (mf_name m)),
      (''version'', JStr (semver_str (mf_version m))), (''core_api'', JStr (range_str (mf_core_api m))),
      (''entrypoint'', JStr (mf_entrypoint m)),
      (''provides'', JList (List.map (\<lambda>c. JObj (declaration_to_data c)) (mf_provides m))),
      (''requires'', JList (List.map (\<lambda>d. JObj (dependency_to_data d)) (mf_requires m))),
      (''permissions'', JList (List.map (\<lambda>p. JObj (permission_to_data p)) (mf_permissions m))),
      (''lifecycle'', JList (List.map (\<lambda>h. JStr (hook_value h)) (filter (\<lambda>h. h \<in> mf_lifecycle m) hooks_by_name)))]"

definition manifest_fields :: "string list" where
  "manifest_fields = [''contract_version'', ''name'', ''version'', ''core_api'', ''entrypoint'', ''provides'',
     ''requires'', ''permissions'', ''lifecycle'']"

definition manifest_from_data :: "pylib \<Rightarrow> json_object \<Rightarrow> plugin_manifest result" where
  "manifest_from_data L d =
     rbind (require_fields d manifest_fields ''Plugin manifest'') (\<lambda>_.
     rbind (rbind (obj_index d ''contract_version'') (\<lambda>v. plugin_string v ''manifest contract version'')) (\<lambda>contract.
     rbind (rbind (obj_index d ''name'') (\<lambda>v. plugin_string v ''Plugin name'')) (\<lambda>name.
     rbind (rbind (rbind (obj_index d ''version'') (\<lambda>v. plugin_string v ''Plugin version'')) semver_parse) (\<lambda>ver.
     rbind (rbind (rbind (obj_index d ''core_api'') (\<lambda>v. plugin_string v ''Core API range'')) range_parse) (\<lambda>api.
     rbind (rbind (obj_index d ''entrypoint'') (\<lambda>v. plugin_string v ''Plugin entrypoint'')) (\<lambda>entry.
     rbind (rbind (rbind (obj_index d ''provides'') (\<lambda>v. as_array v ''provided capabilities''))
       (rmap (\<lambda>item. rbind (as_object item ''capability declaration'') (declaration_from_data L)))) (\<lambda>provides.
     rbind (rbind (rbind (obj_index d ''requires'') (\<lambda>v. as_array v ''Plugin dependencies''))
       (rmap (\<lambda>item. rbind (as_object item ''Plugin dependency'') (dependency_from_data L)))) (\<lambda>requires.
     rbind (rbind (rbind (obj_index d ''permissions'') (\<lambda>v. as_array v ''Plugin permissions''))
       (rmap (\<lambda>item. rbind (as_object item ''Plugin permission'') (permission_from_data L)))) (\<lambda>permissions.
     rbind (rbind (rbind (obj_index d ''lifecycle'') (\<lambda>v. as_array v ''lifecycle hooks''))
       (rmap (\<lambda>item. rbind (plugin_string item ''lifecycle hook'') (enum_of L ''PluginHookName'' plugin_hooks)))) (\<lambda>hooks.
     mk_manifest \<lparr>mf_contract = contract, mf_name = name, mf_version = ver, mf_core_api = api,
       mf_entrypoint = entry, mf_provides = provides, mf_requires = requires,
       mf_permissions = permissions, mf_lifecycle = set hooks\<rparr>))))))))))"

definition manifest_ok :: "plugin_manifest \<Rightarrow> bool" where
  "manifest_ok m \<longleftrightarrow> mk_manifest m = Inr m \<and> semver_canonical (mf_version m) \<and> range_canonical (mf_core_api m)
     \<and> list_all declaration_ok (mf_provides m) \<and> list_all dependency_ok (mf_requires m)
     \<and> list_all permission_ok (mf_permissions m)"

lemma mk_manifest_Inr: "mk_manifest m = Inr m' \<longleftrightarrow> m' = m \<and> mf_contract m = ''1'' \<and> namespaced_id (mf_name m)
    \<and> trimmed (mf_entrypoint m) \<and> distinct (List.map (\<lambda>c. (cd_type c, cd_id c)) (mf_provides m))
    \<and> distinct (List.map stable_key (mf_requires m))
    \<and> distinct (List.map (\<lambda>p. action_key (pp_action p)) (mf_permissions m))"
  by (auto simp: mk_manifest_def require_namespaced_id_def require_trimmed_def result_simps)

lemma hook_value_trimmed [simp]: "trimmed (hook_value h)"
  by (cases h) (simp_all add: trimmed_iff is_space_def)

lemma hooks_roundtrip:
  "rmap (\<lambda>item. rbind (plugin_string item n) (enum_of L c plugin_hooks)) (List.map (\<lambda>h. JStr (hook_value h)) hs) = Inr hs"
  by (induction hs) simp_all

lemma declarations_roundtrip:
  "list_all declaration_ok cs \<Longrightarrow>
    rmap (\<lambda>item. rbind (as_object item n) (declaration_from_data L)) (List.map (\<lambda>c. JObj (declaration_to_data c)) cs) = Inr cs"
  by (erule rmap_objects_inverse) (rule declaration_roundtrip)

lemma dependencies_roundtrip:
  "list_all dependency_ok ds \<Longrightarrow>
    rmap (\<lambda>item. rbind (as_object item n) (dependency_from_data L)) (List.map (\<lambda>d. JObj (dependency_to_data d)) ds) = Inr ds"
  by (erule rmap_objects_inverse) (rule dependency_roundtrip)

lemma one_trimmed [simp]: "trimmed ''1''"
  by (simp add: trimmed_iff is_space_def)

lemma manifest_roundtrip:
  assumes "manifest_ok m"
  shows "manifest_from_data L (manifest_to_data m) = Inr m"
proof -
  note ok = assms [unfolded manifest_ok_def mk_manifest_Inr]
  have "require_fields (manifest_to_data m) manifest_fields s = Inr ()" for s
    by (simp add: result_simps same_fields_def manifest_to_data_def manifest_fields_def)
  moreover have "set (filter (\<lambda>h. h \<in> mf_lifecycle m) hooks_by_name) = mf_lifecycle m" by auto
  ultimately show ?thesis
    using ok
    by (cases m) (simp add: manifest_from_data_def, simp add: manifest_to_data_def namespaced_trimmed version_trimmed
        semver_parse_str range_str_trimmed range_parse_str declarations_roundtrip dependencies_roundtrip
        permissions_roundtrip hooks_roundtrip mk_manifest_Inr)
qed

text \<open>What a decoded manifest satisfies: the validators of the manifest and of all its parts.\<close>

lemma permission_from_data_ok: "permission_from_data L d = Inr p \<Longrightarrow> permission_ok p"
proof -
  assume "permission_from_data L d = Inr p"
  then obtain o' a s where "action_from_data L o' = Inr a" "mk_permission a s = Inr p"
    unfolding permission_from_data_def rbind_eq_Inr by blast
  moreover from this have "pp_action p = a \<and> pp_pattern p = s"
    by (auto simp: mk_permission_def result_simps split: if_splits)
  ultimately show ?thesis
    by (auto simp: permission_ok_def action_from_data_def mk_action_Inr result_simps)
qed

lemma declaration_from_data_ok: "declaration_from_data L d = Inr c \<Longrightarrow> declaration_ok c"
  by (auto simp: declaration_from_data_def declaration_ok_def result_simps mk_declaration_Inr
      dest!: rmap_yields [where ok = permission_ok] semver_str_parse intro: permission_from_data_ok)

lemma dependency_from_data_ok:
  assumes "dependency_from_data L d = Inr x"
  shows "dependency_ok x"
proof -
  have same: "mk_dependency y = Inr x \<Longrightarrow> x = y" for y
    by (auto simp: mk_dependency_def result_simps split: dependency_kind.splits option.splits if_splits)
  obtain r y s where "mk_dependency y = Inr x" "range_parse s = Inr r" "dp_range y = r"
    and "dp_kind y = DEP_PLUGIN \<longrightarrow> dp_capability y = None" "dp_kind y = DEP_CAPABILITY \<longrightarrow> dp_plugin y = None"
  proof -
    obtain kind where "(case kind of DEP_PLUGIN \<Rightarrow> plugin_dependency_from_data d
       | DEP_CAPABILITY \<Rightarrow> capability_dependency_from_data L d) = Inr x"
      using assms unfolding dependency_from_data_def rbind_eq_Inr by blast
    then show ?thesis
      by (cases kind) (auto simp: dependency_from_data_defs result_simps intro!: that)
  qed
  with same [of y] show ?thesis by (auto simp: dependency_ok_def range_parse_canonical)
qed

lemma manifest_from_data_ok:
  assumes "manifest_from_data L d = Inr m"
  shows "manifest_ok m"
proof -
  have "list_all declaration_ok cs" if "rmap (\<lambda>item. rbind (as_object item n) (declaration_from_data L)) xs = Inr cs" for xs cs n
    using that by (rule rmap_yields) (auto simp: result_simps intro: declaration_from_data_ok)
  moreover have "list_all dependency_ok ds" if "rmap (\<lambda>item. rbind (as_object item n) (dependency_from_data L)) xs = Inr ds" for xs ds n
    using that by (rule rmap_yields) (auto simp: result_simps intro: dependency_from_data_ok)
  moreover have "list_all permission_ok ps" if "rmap (\<lambda>item. rbind (as_object item n) (permission_from_data L)) xs = Inr ps" for xs ps n
    using that by (rule rmap_yields) (auto simp: result_simps intro: permission_from_data_ok)
  ultimately show ?thesis
    using assms unfolding manifest_from_data_def rbind_eq_Inr mk_manifest_Inr
    by (auto simp: manifest_ok_def mk_manifest_Inr range_parse_canonical dest: semver_str_parse)
qed

subsection \<open>Validation and preflight\<close>

text \<open>\<open>ManifestValidator.validate\<close>: the decoder's own errors become one structured error.\<close>

definition exn_name :: "exn \<Rightarrow> string option" where
  "exn_name e = (case e of ValueError _ \<Rightarrow> Some ''ValueError'' | KeyError _ \<Rightarrow> Some ''KeyError'' | _ \<Rightarrow> None)"

definition manifest_validate :: "pylib \<Rightarrow> json_object \<Rightarrow> plugin_manifest result" where
  "manifest_validate L d = (case manifest_from_data L d of
       Inr m \<Rightarrow> Inr m
     | Inl e \<Rightarrow> (case exn_name e of
         None \<Rightarrow> Inl e
       | Some n \<Rightarrow> Inl (plugin_error_from INVALID_REQUEST ''invalid_manifest'' ''Plugin manifest is invalid''
           False (Some n) None None)))"

text \<open>\<open>PluginPreflight.check_local\<close>\<close>

definition check_local :: "semver \<Rightarrow> (plugin_permission \<Rightarrow> bool) \<Rightarrow> plugin_manifest \<Rightarrow> unit result" where
  "check_local core can_represent m =
     (if \<not> range_matches (mf_core_api m) core
      then Inl (plugin_error VERSION_MISMATCH ''incompatible_core_api''
                  ''Plugin is incompatible with the active Core API'' False (Some (mf_name m)) None)
      else if \<not> list_all can_represent (mf_permissions m @ concat (List.map cd_permissions (mf_provides m)))
      then Inl (plugin_error DENIED ''permission_denied''
                  ''Plugin permission cannot be represented by active policy'' False (Some (mf_name m)) None)
      else Inr ())"

end
