(* ===== verification/Topological_Order.thy ===== *)
theory Topological_Order
  imports Runtime_Errors
begin

section \<open>The deterministic topological order\<close>

text \<open>
  The loop shared by \<open>DependencyResolver.resolve\<close> and \<open>WorkflowValidator._topological_order\<close>:
  a sorted ready list, the smallest entry taken first, and a counter of open predecessors per
  node that releases the node when it reaches zero. \<open>incoming\<close> is a dictionary, so a
  successor that is not one of its keys raises \<open>KeyError\<close>.
\<close>

type_synonym counts = "(string \<times> int) list"

text \<open>\<open>for target in sorted(edges[current])\<close>\<close>

fun release :: "string list \<Rightarrow> string list \<Rightarrow> counts \<Rightarrow> (string list \<times> counts) result" where
  "release [] ready inc = Inr (ready, inc)"
| "release (t # ts) ready inc = (case map_of inc t of
       None \<Rightarrow> Inl (KeyError t)
     | Some c \<Rightarrow> release ts (if c - 1 = 0 then sort (ready @ [t]) else ready) (AList.update t (c - 1) inc))"

definition open_counts :: "counts \<Rightarrow> nat" where
  "open_counts inc = length (filter (\<lambda>(k, c). 0 < c) inc)"

lemma open_counts_update:
  "map_of inc t = Some c \<Longrightarrow> open_counts (AList.update t (c - 1) inc) + (if c = 1 then 1 else 0) = open_counts inc"
  by (induction inc) (auto simp: open_counts_def split: if_splits)

lemma release_measure:
  "release ts ready inc = Inr (ready', inc') \<Longrightarrow> length ready' + open_counts inc' = length ready + open_counts inc"
proof (induction ts arbitrary: ready inc)
  case (Cons t ts)
  then obtain c where c: "map_of inc t = Some c" by (auto split: option.splits)
  show ?case
    using Cons.IH [of "if c - 1 = 0 then sort (ready @ [t]) else ready" "AList.update t (c - 1) inc"]
      Cons.prems c open_counts_update [OF c]
    by (auto split: if_splits)
qed simp

text \<open>\<open>while ready\<close>: the order, and the counters that are left.\<close>

function kahn :: "(string \<Rightarrow> string list) \<Rightarrow> string list \<Rightarrow> counts \<Rightarrow> (string list \<times> counts) result" where
  "kahn out [] inc = Inr ([], inc)"
| "kahn out (x # ready) inc =
     rbind (release (out x) ready inc) (\<lambda>(ready', inc').
     rbind (kahn out ready' inc') (\<lambda>(order, inc'').
     Inr (x # order, inc'')))"
  by pat_completeness auto
termination
  by (relation "measure (\<lambda>(out, ready, inc). length ready + open_counts inc)")
    (auto dest: release_measure)

subsection \<open>What a release does\<close>

lemma release_spec:
  assumes "distinct ts" "set ts \<subseteq> dom (map_of inc)" "set ts \<inter> set ready = {}" "distinct ready" "sorted ready"
  shows "\<exists>ready' inc'. release ts ready inc = Inr (ready', inc') \<and> distinct ready' \<and> sorted ready'
    \<and> set ready' = set ready \<union> {t \<in> set ts. map_of inc t = Some 1}
    \<and> (\<forall>n. map_of inc' n = (if n \<in> set ts then map_option (\<lambda>c. c - 1) (map_of inc n) else map_of inc n))"
  using assms
proof (induction ts arbitrary: ready inc)
  case (Cons t ts)
  then obtain c where c: "map_of inc t = Some c" by auto
  let ?ready = "if c - 1 = 0 then sort (ready @ [t]) else ready" and ?inc = "AList.update t (c - 1) inc"
  have "\<exists>ready' inc'. release ts ?ready ?inc = Inr (ready', inc') \<and> distinct ready' \<and> sorted ready'
    \<and> set ready' = set ?ready \<union> {t \<in> set ts. map_of ?inc t = Some 1}
    \<and> (\<forall>n. map_of inc' n = (if n \<in> set ts then map_option (\<lambda>c. c - 1) (map_of ?inc n) else map_of ?inc n))"
    using Cons.prems by (intro Cons.IH) auto
  then obtain ready' inc' where r: "release ts ?ready ?inc = Inr (ready', inc')" "distinct ready'" "sorted ready'"
    "set ready' = set ?ready \<union> {t \<in> set ts. map_of ?inc t = Some 1}"
    "\<forall>n. map_of inc' n = (if n \<in> set ts then map_option (\<lambda>c. c - 1) (map_of ?inc n) else map_of ?inc n)"
    by blast
  have "t \<notin> set ts" using Cons.prems by simp
  then have "set ready' = set ready \<union> {u \<in> set (t # ts). map_of inc u = Some 1}"
    using r(4) c by auto
  moreover have "map_of inc' n = (if n \<in> set (t # ts) then map_option (\<lambda>c. c - 1) (map_of inc n) else map_of inc n)" for n
    using r(5) c \<open>t \<notin> set ts\<close> by auto
  moreover have "release (t # ts) ready inc = Inr (ready', inc')" using r(1) c by simp
  ultimately show ?case using r(2,3) by blast
qed simp

subsection \<open>Orders that respect a relation\<close>

text \<open>Each entry comes after all of its predecessors, where \<open>D\<close> is what came before the list.\<close>

fun ordered_after :: "(string \<times> string) set \<Rightarrow> string set \<Rightarrow> string list \<Rightarrow> bool" where
  "ordered_after E D [] \<longleftrightarrow> True"
| "ordered_after E D (x # xs) \<longleftrightarrow> x \<notin> D \<and> (\<forall>p. (p, x) \<in> E \<longrightarrow> p \<in> D) \<and> ordered_after E (insert x D) xs"

lemma ordered_after_distinct: "ordered_after E D xs \<Longrightarrow> distinct xs \<and> set xs \<inter> D = {}"
  by (induction xs arbitrary: D) auto

lemma ordered_after_edge:
  assumes "ordered_after E D (xs @ b # ys)" "(a, b) \<in> E"
  shows "a \<in> D \<or> a \<in> set xs"
  using assms by (induction xs arbitrary: D) auto

text \<open>A relation with such an order of its whole field has no cycle.\<close>

lemma ordered_after_acyclic:
  assumes "ordered_after E {} xs" "\<forall>(a, b) \<in> E. a \<in> set xs \<and> b \<in> set xs"
  shows "acyclic E"
proof -
  have dist: "distinct xs" using ordered_after_distinct [OF assms(1)] by simp
  define pos where "pos a = (THE i. i < length xs \<and> xs ! i = a)" for a
  have pos: "pos (xs ! i) = i" if "i < length xs" for i
    unfolding pos_def using that dist by (auto simp: nth_eq_iff_index_eq)
  have "pos a < pos b" if "(a, b) \<in> E" for a b
  proof -
    have "b \<in> set xs" using that assms(2) by auto
    then obtain j where j: "j < length xs" "xs ! j = b" by (auto simp: in_set_conv_nth)
    then have "xs = take j xs @ b # drop (Suc j) xs" by (metis id_take_nth_drop)
    with ordered_after_edge [of E "{}" "take j xs" b "drop (Suc j) xs" a] assms(1) that
    have "a \<in> set (take j xs)" by auto
    then obtain i where "i < j" "xs ! i = a" using j by (auto simp: in_set_conv_nth)
    with pos [of i] pos [OF j(1)] j show ?thesis by simp
  qed
  then have "E \<subseteq> measure pos" by auto
  then show ?thesis by (meson acyclic_subset wf_acyclic wf_measure)
qed

subsection \<open>The loop\<close>

definition open_preds :: "(string \<times> string) set \<Rightarrow> string set \<Rightarrow> string \<Rightarrow> string set" where
  "open_preds E D n = {p. (p, n) \<in> E \<and> p \<notin> D}"

definition kahn_inv :: "(string \<times> string) set \<Rightarrow> string set \<Rightarrow> string set \<Rightarrow> string list \<Rightarrow> counts \<Rightarrow> bool" where
  "kahn_inv E N D ready inc \<longleftrightarrow>
     finite E \<and> E \<subseteq> N \<times> N \<and> D \<subseteq> N \<and> distinct ready \<and> sorted ready \<and> set ready \<inter> D = {}
     \<and> (\<forall>n \<in> N. map_of inc n = Some (int (card (open_preds E D n))))
     \<and> (\<forall>n. n \<in> set ready \<union> D \<longleftrightarrow> n \<in> N \<and> open_preds E D n = {})"

lemma kahn_invD:
  assumes "kahn_inv E N D ready inc"
  shows "D \<subseteq> N" "n \<in> N \<Longrightarrow> map_of inc n = Some (int (card (open_preds E D n)))"
    "(n \<in> set ready \<union> D) = (n \<in> N \<and> open_preds E D n = {})"
proof -
  note i = assms [unfolded kahn_inv_def]
  show "D \<subseteq> N" using i by (elim conjE)
  from i show "n \<in> N \<Longrightarrow> map_of inc n = Some (int (card (open_preds E D n)))" by (elim conjE) (erule bspec)
  from i show "(n \<in> set ready \<union> D) = (n \<in> N \<and> open_preds E D n = {})" by (elim conjE) (erule spec)
qed

definition successors :: "(string \<times> string) set \<Rightarrow> (string \<Rightarrow> string list) \<Rightarrow> bool" where
  "successors E out \<longleftrightarrow> (\<forall>x. distinct (out x) \<and> set (out x) = {t. (x, t) \<in> E})"

lemma open_preds_finite: "finite E \<Longrightarrow> finite (open_preds E D n)"
  by (rule finite_subset [of _ "fst ` E"]) (force simp: open_preds_def)+

lemma open_preds_insert:
  "open_preds E (insert x D) n = open_preds E D n - {x}"
  by (auto simp: open_preds_def)

lemma singleton_card: "x \<in> A \<Longrightarrow> card A = 1 \<longleftrightarrow> A = {x}"
proof
  assume x: "x \<in> A" and "card A = 1"
  then obtain y where "A = {y}" by (meson card_1_singletonE)
  with x show "A = {x}" by simp
qed simp

lemma kahn_step:
  assumes inv: "kahn_inv E N D (x # ready) inc" and out: "successors E out"
  shows "\<exists>ready' inc'. release (out x) ready inc = Inr (ready', inc') \<and> kahn_inv E N (insert x D) ready' inc'"
proof -
  have E: "finite E" "E \<subseteq> N \<times> N" and D: "D \<subseteq> N" and x: "x \<in> N" "open_preds E D x = {}" "x \<notin> D" "x \<notin> set ready"
    and rd: "distinct ready" "sorted ready" "set ready \<inter> D = {}"
    and cnt: "\<And>n. n \<in> N \<Longrightarrow> map_of inc n = Some (int (card (open_preds E D n)))"
    and rdy: "\<And>n. n \<in> insert x (set ready) \<union> D \<longleftrightarrow> n \<in> N \<and> open_preds E D n = {}"
    using inv by (auto simp: kahn_inv_def)
  have succ: "distinct (out x)" "set (out x) = {t. (x, t) \<in> E}" using out by (simp_all add: successors_def)
  have xin: "x \<in> open_preds E D t" if "t \<in> set (out x)" for t
    using that succ x by (simp add: open_preds_def)
  have sub: "set (out x) \<subseteq> N" using succ E by auto
  have "set (out x) \<inter> set ready = {}" using xin rdy by blast
  moreover have "set (out x) \<subseteq> dom (map_of inc)" using sub cnt by blast
  ultimately obtain ready' inc' where r: "release (out x) ready inc = Inr (ready', inc')" "distinct ready'" "sorted ready'"
    "set ready' = set ready \<union> {t \<in> set (out x). map_of inc t = Some 1}"
    "\<And>n. map_of inc' n = (if n \<in> set (out x) then map_option (\<lambda>c. c - 1) (map_of inc n) else map_of inc n)"
    using release_spec [of "out x" inc ready] succ rd by blast
  have fin: "finite (open_preds E D n)" for n using open_preds_finite [OF E(1)] .
  have cnt': "map_of inc' n = Some (int (card (open_preds E (insert x D) n)))" if n: "n \<in> N" for n
  proof (cases "n \<in> set (out x)")
    case True
    with xin have "x \<in> open_preds E D n" by simp
    moreover from this have "0 < card (open_preds E D n)" using fin card_gt_0_iff by blast
    ultimately show ?thesis using True r(5) [of n] cnt [OF n] fin by (simp add: open_preds_insert)
  next
    case False
    then have "x \<notin> open_preds E D n" using succ by (simp add: open_preds_def)
    then show ?thesis using False r(5) [of n] cnt [OF n] by (simp add: open_preds_insert)
  qed
  have one: "map_of inc t = Some 1 \<longleftrightarrow> open_preds E D t = {x}" if "t \<in> set (out x)" for t
  proof -
    have "t \<in> N" using that sub by blast
    then have "map_of inc t = Some 1 \<longleftrightarrow> card (open_preds E D t) = 1" using cnt by simp
    moreover have "card (open_preds E D t) = 1 \<longleftrightarrow> open_preds E D t = {x}"
      using singleton_card [OF xin [OF that]] .
    ultimately show ?thesis by simp
  qed
  have rdy': "n \<in> set ready' \<union> insert x D \<longleftrightarrow> n \<in> N \<and> open_preds E (insert x D) n = {}" for n
  proof -
    have "open_preds E (insert x D) n = {} \<longleftrightarrow> open_preds E D n = {} \<or> open_preds E D n = {x}"
      by (auto simp: open_preds_insert)
    moreover have "open_preds E D n = {x} \<Longrightarrow> n \<in> set (out x)"
      using succ by (auto simp: open_preds_def)
    ultimately show ?thesis using r(4) one [of n] rdy [of n] sub by auto
  qed
  have "set ready' \<inter> insert x D = {}"
    using r(4) x(3,4) rd(3) rdy xin x(2) by blast
  then show ?thesis
    using r(1-3) E D x(1) cnt' rdy' by (auto simp: kahn_inv_def)
qed

lemma kahn_spec:
  assumes "successors E out"
  shows "kahn_inv E N D ready inc \<Longrightarrow> \<exists>order inc'. kahn out ready inc = Inr (order, inc')
    \<and> ordered_after E D order \<and> kahn_inv E N (D \<union> set order) [] inc'"
  using assms
proof (induction out ready inc arbitrary: D rule: kahn.induct)
  case (1 out inc)
  then show ?case by simp
next
  case (2 out x ready inc)
  from kahn_step [OF 2(2,3)] obtain ready' inc' where
    r: "release (out x) ready inc = Inr (ready', inc')" "kahn_inv E N (insert x D) ready' inc'" by blast
  from 2(1) [OF r(1) refl r(2) 2(3)] obtain order inc'' where
    k: "kahn out ready' inc' = Inr (order, inc'')" "ordered_after E (insert x D) order"
      "kahn_inv E N (insert x D \<union> set order) [] inc''" by blast
  have "x \<in> set (x # ready) \<union> D" by simp
  then have "open_preds E D x = {}" "x \<notin> D" using 2(2) by (auto simp: kahn_inv_def)
  then have "ordered_after E D (x # order)" using k(2) by (auto simp: open_preds_def)
  moreover have "D \<union> set (x # order) = insert x D \<union> set order" by auto
  ultimately show ?case using r(1) k(1,3) by auto
qed

text \<open>
  The result of the loop from the initial counters: an order that respects the edges, and
  either it lists every node, or the nodes it leaves out contain a cycle.
\<close>

definition initial_ready :: "counts \<Rightarrow> string list" where
  "initial_ready inc = sort (List.map fst (filter (\<lambda>(k, c). c = 0) inc))"

lemma kahn_inv_initial:
  assumes E: "finite E" "E \<subseteq> N \<times> N"
    and inc: "distinct (List.map fst inc)" "fst ` set inc = N"
      "\<forall>n \<in> N. map_of inc n = Some (int (card {p. (p, n) \<in> E}))"
  shows "kahn_inv E N {} (initial_ready inc) inc"
proof -
  have ready: "set (initial_ready inc) = {n \<in> N. map_of inc n = Some 0}"
  proof -
    have "n \<in> set (initial_ready inc) \<longleftrightarrow> (n, 0) \<in> set inc" for n
      by (auto simp: initial_ready_def image_iff)
    moreover have "(n, 0) \<in> set inc \<longleftrightarrow> map_of inc n = Some 0" for n
      using inc(1) by (rule map_of_eq_Some_iff [symmetric])
    moreover have "map_of inc n = Some 0 \<Longrightarrow> n \<in> N" for n
      using inc(2) by (metis map_of_SomeD fst_conv image_eqI)
    ultimately show ?thesis by blast
  qed
  have "distinct (initial_ready inc)"
    using inc(1) by (simp add: initial_ready_def distinct_map_filter)
  moreover have "finite (open_preds E {} n)" for n
    using E(1) by (rule open_preds_finite)
  then have "map_of inc n = Some 0 \<longleftrightarrow> open_preds E {} n = {}" if "n \<in> N" for n
    using inc(3) that by (simp add: open_preds_def)
  then have "n \<in> set (initial_ready inc) \<longleftrightarrow> n \<in> N \<and> open_preds E {} n = {}" for n
    unfolding ready by blast
  moreover have "sorted (initial_ready inc)" by (simp add: initial_ready_def)
  moreover have "map_of inc n = Some (int (card (open_preds E {} n)))" if "n \<in> N" for n
    using inc(3) that by (simp add: open_preds_def)
  ultimately show ?thesis
    using E unfolding kahn_inv_def by simp
qed

lemma kahn_correct:
  assumes E: "finite E" "E \<subseteq> N \<times> N" and out: "successors E out"
    and inc: "distinct (List.map fst inc)" "fst ` set inc = N"
      "\<forall>n \<in> N. map_of inc n = Some (int (card {p. (p, n) \<in> E}))"
  shows "\<exists>order inc'. kahn out (initial_ready inc) inc = Inr (order, inc') \<and> ordered_after E {} order
    \<and> set order \<subseteq> N \<and> (set order = N \<longleftrightarrow> acyclic E)
    \<and> (\<forall>n \<in> N. map_of inc' n = Some (int (card {p. (p, n) \<in> E \<and> p \<notin> set order})))
    \<and> (\<forall>n \<in> N - set order. \<exists>p \<in> N - set order. (p, n) \<in> E)"
proof -
  from kahn_spec [OF out kahn_inv_initial [OF E inc]] obtain order inc' where
    k: "kahn out (initial_ready inc) inc = Inr (order, inc')" "ordered_after E {} order"
      "kahn_inv E N (set order) [] inc'" by auto
  have left: "\<exists>p \<in> N - set order. (p, n) \<in> E" if "n \<in> N - set order" for n
  proof -
    have "open_preds E (set order) n \<noteq> {}" using kahn_invD(3) [OF k(3), of n] that by simp
    then show ?thesis using E(2) by (auto simp: open_preds_def)
  qed
  have sub: "set order \<subseteq> N" by (rule kahn_invD(1) [OF k(3)])
  have "set order = N \<longleftrightarrow> acyclic E"
  proof
    assume "set order = N"
    then show "acyclic E" using ordered_after_acyclic [OF k(2)] E(2) by blast
  next
    assume "acyclic E"
    then have wf: "wf E" using E(1) by (rule finite_acyclic_wf [rotated])
    show "set order = N"
    proof (rule ccontr)
      assume "set order \<noteq> N"
      then obtain n where "n \<in> N - set order" using sub by blast
      then have "\<exists>m \<in> N - set order. \<forall>p. (p, m) \<in> E \<longrightarrow> p \<notin> N - set order"
        using wfE_min [OF wf] by metis
      then show False using left by blast
    qed
  qed
  moreover have "\<forall>n \<in> N. map_of inc' n = Some (int (card {p. (p, n) \<in> E \<and> p \<notin> set order}))"
    using kahn_invD(2) [OF k(3)] by (simp add: open_preds_def)
  ultimately show ?thesis using k(1,2) sub left by blast
qed

subsection \<open>Edge lists\<close>

text \<open>The successors in order, and the counters, of a list of distinct edges.\<close>

definition sorted_targets :: "(string \<times> string) list \<Rightarrow> string \<Rightarrow> string list" where
  "sorted_targets edges x = sort (List.map snd (filter (\<lambda>e. fst e = x) edges))"

definition edge_counts :: "(string \<times> string) list \<Rightarrow> string list \<Rightarrow> counts" where
  "edge_counts edges names = List.map (\<lambda>n. (n, int (length (filter (\<lambda>e. snd e = n) edges)))) names"

lemma sorted_targets_successors: "distinct edges \<Longrightarrow> successors (set edges) (sorted_targets edges)"
  by (auto simp: successors_def sorted_targets_def distinct_map inj_on_def image_iff)

lemma map_of_edge_counts:
  "map_of (edge_counts edges names) n =
     (if n \<in> set names then Some (int (length (filter (\<lambda>e. snd e = n) edges))) else None)"
  by (induction names) (auto simp: edge_counts_def)

lemma incoming_card:
  "distinct edges \<Longrightarrow> length (filter (\<lambda>e. snd e = n) edges) = card {p. (p, n) \<in> set edges}"
proof -
  assume d: "distinct edges"
  have "{p. (p, n) \<in> set edges} = fst ` set (filter (\<lambda>e. snd e = n) edges)"
    by (auto simp: image_iff)
  moreover have "inj_on fst (set (filter (\<lambda>e. snd e = n) edges))" by (auto simp: inj_on_def)
  moreover have "card (set (filter (\<lambda>e. snd e = n) edges)) = length (filter (\<lambda>e. snd e = n) edges)"
    using d by (intro distinct_card) simp
  ultimately show ?thesis by (simp add: card_image)
qed

lemma release_cong:
  "map_of inc = map_of inc' \<Longrightarrow>
     (case (release ts ready inc, release ts ready inc') of
        (Inr (r, i), Inr (r', i')) \<Rightarrow> r = r' \<and> map_of i = map_of i'
      | (Inl e, Inl e') \<Rightarrow> e = e' | _ \<Rightarrow> False)"
proof (induction ts arbitrary: ready inc inc')
  case (Cons t ts)
  show ?case
  proof (cases "map_of inc' t")
    case None
    with Cons.prems show ?thesis by simp
  next
    case (Some c)
    have "map_of (AList.update t (c - 1) inc) = map_of (AList.update t (c - 1) inc')"
      using Cons.prems by simp
    from Cons.IH [OF this] show ?thesis using Some Cons.prems by simp
  qed
qed simp

text \<open>The order depends on the counters as a mapping, not on how the dictionary was built.\<close>

lemma kahn_cong:
  "map_of inc = map_of inc' \<Longrightarrow>
     (case (kahn out ready inc, kahn out ready inc') of
        (Inr (r, i), Inr (r', i')) \<Rightarrow> r = r' \<and> map_of i = map_of i'
      | (Inl e, Inl e') \<Rightarrow> e = e' | _ \<Rightarrow> False)"
proof (induction out ready inc arbitrary: inc' rule: kahn.induct)
  case (1 out inc)
  then show ?case by simp
next
  case (2 out x ready inc)
  note rc = release_cong [OF 2(2), of "out x" ready]
  show ?case
  proof (cases "release (out x) ready inc")
    case (Inl e)
    with rc show ?thesis by (cases "release (out x) ready inc'") auto
  next
    case (Inr p)
    obtain r i where p: "p = (r, i)" by fastforce
    with Inr rc obtain i' where r': "release (out x) ready inc' = Inr (r, i')" "map_of i = map_of i'"
      by (cases "release (out x) ready inc'") auto
    from 2(1) [OF Inr [unfolded p] refl r'(2)] show ?thesis
      using Inr p r' by (cases "kahn out r i"; cases "kahn out r i'") auto
  qed
qed

lemma initial_ready_cong:
  "distinct (List.map fst inc) \<Longrightarrow> distinct (List.map fst inc') \<Longrightarrow> map_of inc = map_of inc' \<Longrightarrow>
    initial_ready inc = initial_ready inc'"
proof -
  assume d: "distinct (List.map fst inc)" "distinct (List.map fst inc')" and eq: "map_of inc = map_of inc'"
  have mem: "n \<in> set (initial_ready i) \<longleftrightarrow> map_of i n = Some 0" if "distinct (List.map fst i)" for i n
  proof -
    have "n \<in> set (initial_ready i) \<longleftrightarrow> (n, 0) \<in> set i" by (auto simp: initial_ready_def image_iff)
    with map_of_eq_Some_iff [OF that] show ?thesis by simp
  qed
  have sd: "sorted (initial_ready i) \<and> distinct (initial_ready i)" if "distinct (List.map fst i)" for i
    using distinct_map_filter [OF that, of "\<lambda>(k, c). c = 0"] by (simp add: initial_ready_def)
  have "set (initial_ready inc) = set (initial_ready inc')"
    using mem [OF d(1)] mem [OF d(2)] eq by (intro set_eqI) simp
  with sd [OF d(1)] sd [OF d(2)] show ?thesis by (intro sorted_distinct_set_unique) simp_all
qed

subsection \<open>The smallest first\<close>

text \<open>
  Of the nodes whose predecessors have all come, the order takes the smallest identity next. With
  that, an order of all nodes is determined.
\<close>

fun least_first :: "(string \<times> string) set \<Rightarrow> string set \<Rightarrow> string set \<Rightarrow> string list \<Rightarrow> bool" where
  "least_first E N D [] \<longleftrightarrow> True"
| "least_first E N D (x # xs) \<longleftrightarrow> (\<forall>n \<in> N - D. (\<forall>p. (p, n) \<in> E \<longrightarrow> p \<in> D) \<longrightarrow> x \<le> n) \<and> least_first E N (insert x D) xs"

lemma kahn_least:
  assumes "successors E out"
  shows "kahn_inv E N D ready inc \<Longrightarrow> kahn out ready inc = Inr (order, inc') \<Longrightarrow> least_first E N D order"
  using assms
proof (induction out ready inc arbitrary: D order rule: kahn.induct)
  case (1 out inc)
  then show ?case by simp
next
  case (2 out x ready inc)
  from kahn_step [OF 2(2,4)] obtain ready' inc1 where
    r: "release (out x) ready inc = Inr (ready', inc1)" "kahn_inv E N (insert x D) ready' inc1" by blast
  from 2(3) r(1) obtain order' where k: "kahn out ready' inc1 = Inr (order', inc')" "order = x # order'"
    by (auto simp: rbind_eq_Inr)
  have least: "x \<le> n" if n: "n \<in> N - D" "\<forall>p. (p, n) \<in> E \<longrightarrow> p \<in> D" for n
  proof -
    have "open_preds E D n = {}" using n(2) by (auto simp: open_preds_def)
    then have "n \<in> set (x # ready)" using kahn_invD(3) [OF 2(2), of n] n(1) by blast
    moreover have "sorted (x # ready)" using 2(2) unfolding kahn_inv_def by (elim conjE)
    ultimately show ?thesis by auto
  qed
  from least 2(1) [OF r(1) refl r(2) k(1) 2(4)] k(2) show ?case by simp
qed

lemma least_first_unique:
  assumes "ordered_after E D xs" "least_first E N D xs" "D \<union> set xs = N"
    and "ordered_after E D ys" "least_first E N D ys" "D \<union> set ys = N"
  shows "xs = ys"
  using assms
proof (induction xs arbitrary: D ys)
  case Nil
  then show ?case using ordered_after_distinct [of E D ys] by (cases ys) auto
next
  case (Cons x xs)
  have x: "x \<in> N - D" "\<forall>p. (p, x) \<in> E \<longrightarrow> p \<in> D" using Cons.prems by auto
  then obtain y ys' where ys: "ys = y # ys'" using Cons.prems by (cases ys) auto
  have "y \<in> N - D" "\<forall>p. (p, y) \<in> E \<longrightarrow> p \<in> D" using Cons.prems ys by auto
  with x Cons.prems ys have "x = y" by (intro antisym) auto
  with Cons.prems ys Cons.IH [of "insert x D" ys'] show ?case by auto
qed

end
