(* ===== verification/Plugin_Dependency.thy ===== *)
theory Plugin_Dependency
  imports Plugin_Model Topological_Order "HOL-Library.Multiset"
begin

section \<open>Plugin dependency resolution\<close>

text \<open>
  \<open>plugin/dependency.py\<close>. The resolver binds every dependency of every candidate to one
  provider, among the candidates and the active catalog, collects the edges between
  candidates and orders the candidates by them.
\<close>

record catalog_capability =
  cc_owner :: plugin_ref
  cc_declaration :: capability_declaration

record catalog =
  ct_plugins :: "plugin_ref list"
  ct_capabilities :: "catalog_capability list"

definition mk_catalog :: "catalog \<Rightarrow> catalog result" where
  "mk_catalog c =
     (if \<not> distinct (List.map pl_name (ct_plugins c))
      then Inl (ValueError ''catalog contains multiple versions of one Plugin'')
      else if \<not> distinct (List.map (\<lambda>x. declaration_key (cc_declaration x)) (ct_capabilities c))
      then Inl (ValueError ''catalog contains duplicate capability identities'')
      else Inr c)"

record resolved_dependency =
  rd_consumer :: plugin_ref
  rd_dependency :: plugin_dependency
  rd_provider :: plugin_ref
  rd_capability :: "capability_declaration option"

record resolution_plan =
  rp_ordered :: "plugin_ref list"
  rp_bindings :: "resolved_dependency list"

text \<open>\<open>by_name\<close>: the candidates by name, in the order they are given.\<close>

type_synonym by_name = "(string \<times> plugin_manifest) list"

definition dependency_ambiguous :: "string \<Rightarrow> string \<Rightarrow> string option \<Rightarrow> exn" where
  "dependency_ambiguous msg plugin capability =
     plugin_error CONFLICT ''dependency_ambiguous'' msg False (Some plugin) capability"

fun index_candidates :: "plugin_manifest list \<Rightarrow> catalog \<Rightarrow> by_name \<Rightarrow> by_name result" where
  "index_candidates [] avail acc = Inr acc"
| "index_candidates (m # ms) avail acc =
     (if mf_name m \<in> fst ` set acc \<or> list_ex (\<lambda>p. pl_name p = mf_name m) (ct_plugins avail)
      then Inl (dependency_ambiguous ''Multiple candidate or active versions exist for one Plugin'' (mf_name m) None)
      else index_candidates ms avail (acc @ [(mf_name m, m)]))"

text \<open>\<open>_unavailable\<close>; the flag says that a provider exists, in an incompatible version.\<close>

definition unavailable :: "plugin_manifest \<Rightarrow> plugin_dependency \<Rightarrow> bool \<Rightarrow> exn" where
  "unavailable consumer d incompatible =
     plugin_error (if incompatible then VERSION_MISMATCH else UNAVAILABLE) ''dependency_unavailable''
       (if incompatible then ''Plugin dependency is incompatible'' else ''Plugin dependency is unavailable'')
       (\<not> incompatible) (Some (mf_name consumer))
       (if present (dp_capability d) then dp_capability d else dp_plugin d)"

definition select_provider ::
  "plugin_manifest \<Rightarrow> plugin_dependency \<Rightarrow> plugin_ref list \<Rightarrow> plugin_ref list \<Rightarrow> plugin_ref result" where
  "select_provider consumer d matches compatible = (case compatible of
       [] \<Rightarrow> Inl (unavailable consumer d (matches \<noteq> []))
     | [p] \<Rightarrow> Inr p
     | _ \<Rightarrow> Inl (dependency_ambiguous ''Plugin dependency has multiple compatible providers'' (mf_name consumer) (dp_plugin d)))"

definition plugin_matches :: "string \<Rightarrow> by_name \<Rightarrow> catalog \<Rightarrow> plugin_ref list" where
  "plugin_matches pid cands avail =
     (case map_of cands pid of None \<Rightarrow> [] | Some m \<Rightarrow> [manifest_ref m])
     @ filter (\<lambda>p. pl_name p = pid) (ct_plugins avail)"

definition resolve_plugin ::
  "plugin_dependency \<Rightarrow> plugin_manifest \<Rightarrow> by_name \<Rightarrow> catalog \<Rightarrow> resolved_dependency result" where
  "resolve_plugin d consumer cands avail = (case dp_plugin d of
       None \<Rightarrow> Inl (AssertionError ''validated Plugin dependency requires plugin_id'')
     | Some pid \<Rightarrow>
         (let matches = plugin_matches pid cands avail;
              compatible = filter (\<lambda>p. range_matches (dp_range d) (pl_version p)) matches
          in rbind (select_provider consumer d matches compatible) (\<lambda>p.
             Inr \<lparr>rd_consumer = manifest_ref consumer, rd_dependency = d, rd_provider = p, rd_capability = None\<rparr>)))"

definition all_providers :: "by_name \<Rightarrow> catalog \<Rightarrow> catalog_capability list" where
  "all_providers cands avail = ct_capabilities avail @
     concat (List.map (\<lambda>(n, m). List.map (\<lambda>c. \<lparr>cc_owner = manifest_ref m, cc_declaration = c\<rparr>) (mf_provides m)) cands)"

definition resolve_capability ::
  "plugin_dependency \<Rightarrow> plugin_manifest \<Rightarrow> by_name \<Rightarrow> catalog \<Rightarrow> resolved_dependency result" where
  "resolve_capability d consumer cands avail = (case (dp_type d, dp_capability d) of
       (Some t, Some cid) \<Rightarrow>
         (let matches = filter (\<lambda>x. cd_type (cc_declaration x) = t \<and> cd_id (cc_declaration x) = cid)
                (all_providers cands avail);
              compatible = filter (\<lambda>x. range_matches (dp_range d) (cd_version (cc_declaration x))) matches
          in case compatible of
               [] \<Rightarrow> Inl (unavailable consumer d (matches \<noteq> []))
             | [x] \<Rightarrow> Inr \<lparr>rd_consumer = manifest_ref consumer, rd_dependency = d, rd_provider = cc_owner x,
                         rd_capability = Some (cc_declaration x)\<rparr>
             | _ \<Rightarrow> Inl (dependency_ambiguous ''Capability dependency has multiple compatible providers''
                         (mf_name consumer) (Some cid)))
     | _ \<Rightarrow> Inl (AssertionError ''validated capability dependency requires identity''))"

definition resolve_one ::
  "plugin_dependency \<Rightarrow> plugin_manifest \<Rightarrow> by_name \<Rightarrow> catalog \<Rightarrow> resolved_dependency result" where
  "resolve_one d consumer cands avail = (case dp_kind d of
       DEP_PLUGIN \<Rightarrow> resolve_plugin d consumer cands avail
     | DEP_CAPABILITY \<Rightarrow> resolve_capability d consumer cands avail)"

text \<open>
  The state of the binding loop: the edges from provider to consumer, the counters, and the
  bindings. An edge joins the state at most once.
\<close>

record resolve_state =
  rs_edges :: "(string \<times> string) list"
  rs_incoming :: counts
  rs_bindings :: "resolved_dependency list"

definition self_dependency :: "plugin_manifest \<Rightarrow> exn" where
  "self_dependency m = plugin_error CONFLICT ''dependency_cycle'' ''Plugin depends on itself'' False (Some (mf_name m)) None"

definition count_up :: "string \<Rightarrow> counts \<Rightarrow> counts result" where
  "count_up k inc = (case map_of inc k of None \<Rightarrow> Inl (KeyError k) | Some c \<Rightarrow> Inr (AList.update k (c + 1) inc))"

definition bind_step ::
  "by_name \<Rightarrow> catalog \<Rightarrow> plugin_manifest \<times> plugin_dependency \<Rightarrow> resolve_state \<Rightarrow> resolve_state result" where
  "bind_step cands avail = (\<lambda>(m, d) st.
     rbind (resolve_one d m cands avail) (\<lambda>b.
     let p = pl_name (rd_provider b);
         st' = st\<lparr>rs_bindings := rs_bindings st @ [b]\<rparr>
     in if p \<in> fst ` set cands \<and> p \<noteq> mf_name m
        then (if (p, mf_name m) \<in> set (rs_edges st') then Inr st'
              else rbind (count_up (mf_name m) (rs_incoming st')) (\<lambda>inc.
                Inr (st'\<lparr>rs_edges := rs_edges st' @ [(p, mf_name m)], rs_incoming := inc\<rparr>)))
        else if p = mf_name m \<and> dp_kind d = DEP_PLUGIN then Inl (self_dependency m)
        else Inr st'))"

fun bind_all ::
  "by_name \<Rightarrow> catalog \<Rightarrow> (plugin_manifest \<times> plugin_dependency) list \<Rightarrow> resolve_state \<Rightarrow> resolve_state result" where
  "bind_all cands avail [] st = Inr st"
| "bind_all cands avail (x # xs) st = rbind (bind_step cands avail x st) (bind_all cands avail xs)"

text \<open>
  The pairs in the order of the two nested loops. The candidates are sorted by name; the
  version, which Python's key adds, decides nothing between distinct names.
\<close>

definition dependency_pairs :: "plugin_manifest list \<Rightarrow> (plugin_manifest \<times> plugin_dependency) list" where
  "dependency_pairs ms = concat (List.map (\<lambda>m. List.map (\<lambda>d. (m, d)) (sort_key stable_key (mf_requires m)))
     (sort_key mf_name ms))"

definition binding_key ::
  "resolved_dependency \<Rightarrow> string \<times> (string \<times> string \<times> string) \<times> string \<times> capability_key" where
  "binding_key b = (pl_name (rd_consumer b), stable_key (rd_dependency b), pl_name (rd_provider b),
     (case rd_capability b of None \<Rightarrow> ([], [], []) | Some c \<Rightarrow> declaration_key c))"

definition cycle_error :: "counts \<Rightarrow> exn" where
  "cycle_error inc = plugin_error CONFLICT ''dependency_cycle''
     (''Plugin dependency graph contains a cycle: '' @
       join_with '', '' (sort (List.map fst (filter (\<lambda>(k, c). c \<noteq> 0) inc)))) False None None"

definition initial_state :: "by_name \<Rightarrow> resolve_state" where
  "initial_state cands = \<lparr>rs_edges = [], rs_incoming = List.map (\<lambda>(n, m). (n, 0)) cands, rs_bindings = []\<rparr>"

definition resolve :: "plugin_manifest list \<Rightarrow> catalog \<Rightarrow> resolution_plan result" where
  "resolve candidates avail =
     rbind (index_candidates candidates avail []) (\<lambda>cands.
     rbind (bind_all cands avail (dependency_pairs candidates) (initial_state cands)) (\<lambda>st.
     rbind (kahn (sorted_targets (rs_edges st)) (initial_ready (rs_incoming st)) (rs_incoming st)) (\<lambda>(order, inc).
     rbind (rmap (\<lambda>n. case map_of cands n of None \<Rightarrow> Inl (KeyError n) | Some m \<Rightarrow> Inr (manifest_ref m)) order) (\<lambda>ordered.
     if length ordered \<noteq> length candidates then Inl (cycle_error inc)
     else Inr \<lparr>rp_ordered = ordered, rp_bindings = sort_key binding_key (rs_bindings st)\<rparr>))))"

subsection \<open>Binding\<close>

lemma index_candidates_Inr:
  "index_candidates ms avail acc = Inr cands \<longleftrightarrow>
     cands = acc @ List.map (\<lambda>m. (mf_name m, m)) ms
     \<and> distinct (List.map mf_name ms) \<and> mf_name ` set ms \<inter> fst ` set acc = {}
     \<and> (\<forall>m \<in> set ms. \<forall>p \<in> set (ct_plugins avail). pl_name p \<noteq> mf_name m)"
proof (induction ms arbitrary: acc)
  case (Cons m ms)
  show ?case
    by (auto simp: Cons.IH list_ex_iff)
qed auto

definition indexed :: "plugin_manifest list \<Rightarrow> by_name" where
  "indexed ms = List.map (\<lambda>m. (mf_name m, m)) ms"

text \<open>The candidates can be told apart, among themselves and from the active Plugins.\<close>

definition unambiguous :: "plugin_manifest list \<Rightarrow> catalog \<Rightarrow> bool" where
  "unambiguous ms avail \<longleftrightarrow> distinct (List.map mf_name ms)
     \<and> (\<forall>m \<in> set ms. \<forall>p \<in> set (ct_plugins avail). pl_name p \<noteq> mf_name m)"

lemma index_candidates_indexed:
  "index_candidates ms avail [] = Inr cands \<longleftrightarrow> cands = indexed ms \<and> unambiguous ms avail"
  by (auto simp: index_candidates_Inr indexed_def unambiguous_def)

definition bound_edge :: "by_name \<Rightarrow> plugin_manifest \<Rightarrow> resolved_dependency \<Rightarrow> (string \<times> string) set" where
  "bound_edge cands m b =
     (if pl_name (rd_provider b) \<in> fst ` set cands \<and> pl_name (rd_provider b) \<noteq> mf_name m
      then {(pl_name (rd_provider b), mf_name m)} else {})"

definition bindable :: "by_name \<Rightarrow> catalog \<Rightarrow> plugin_manifest \<times> plugin_dependency \<Rightarrow> resolved_dependency \<Rightarrow> bool" where
  "bindable cands avail = (\<lambda>(m, d) b. resolve_one d m cands avail = Inr b
     \<and> \<not> (pl_name (rd_provider b) = mf_name m \<and> dp_kind d = DEP_PLUGIN))"

definition edges_of :: "by_name \<Rightarrow> (plugin_manifest \<times> plugin_dependency) list \<Rightarrow> resolved_dependency list \<Rightarrow> (string \<times> string) set" where
  "edges_of cands xs bs = (\<Union>((m, d), b) \<in> set (zip xs bs). bound_edge cands m b)"

definition bind_inv ::
  "by_name \<Rightarrow> catalog \<Rightarrow> (plugin_manifest \<times> plugin_dependency) list \<Rightarrow> resolve_state \<Rightarrow> bool" where
  "bind_inv cands avail prev st \<longleftrightarrow>
     distinct (rs_edges st) \<and> set (rs_edges st) = edges_of cands prev (rs_bindings st)
     \<and> List.map fst (rs_incoming st) = List.map fst cands
     \<and> (\<forall>n \<in> fst ` set cands. map_of (rs_incoming st) n
          = Some (int (length (filter (\<lambda>e. snd e = n) (rs_edges st)))))
     \<and> list_all2 (bindable cands avail) prev (rs_bindings st)"

lemma map_fst_update: "map_of al k = Some c \<Longrightarrow> List.map fst (AList.update k v al) = List.map fst al"
  by (induction al) (auto split: if_splits)

lemma edges_of_snoc:
  "length xs = length bs \<Longrightarrow> edges_of cands (xs @ [(m, d)]) (bs @ [b]) = edges_of cands xs bs \<union> bound_edge cands m b"
  by (auto simp: edges_of_def)

lemma bind_step_inv:
  assumes inv: "bind_inv cands avail prev st" and m: "mf_name m \<in> fst ` set cands"
  shows "case bind_step cands avail (m, d) st of
      Inr st' \<Rightarrow> bind_inv cands avail (prev @ [(m, d)]) st'
    | Inl e \<Rightarrow> \<not> (\<exists>b. bindable cands avail (m, d) b)"
proof (cases "resolve_one d m cands avail")
  case (Inl e)
  then show ?thesis by (simp add: bind_step_def bindable_def)
next
  case (Inr b)
  have len: "length prev = length (rs_bindings st)" using inv by (auto simp: bind_inv_def dest: list_all2_lengthD)
  obtain c where c: "map_of (rs_incoming st) (mf_name m) = Some c"
    "c = int (length (filter (\<lambda>e. snd e = mf_name m) (rs_edges st)))"
    using inv m by (auto simp: bind_inv_def)
  let ?p = "pl_name (rd_provider b)"
  show ?thesis
  proof (cases "bindable cands avail (m, d) b")
    case True
    note l2 = list_all2_appendI [of "bindable cands avail" prev "rs_bindings st" "[(m, d)]" "[b]"]
    consider (none) "bound_edge cands m b = {}" "\<not> (?p \<in> fst ` set cands \<and> ?p \<noteq> mf_name m)"
      | (old) "bound_edge cands m b = {(?p, mf_name m)}" "?p \<in> fst ` set cands \<and> ?p \<noteq> mf_name m"
          "(?p, mf_name m) \<in> set (rs_edges st)"
      | (new) "bound_edge cands m b = {(?p, mf_name m)}" "?p \<in> fst ` set cands \<and> ?p \<noteq> mf_name m"
          "(?p, mf_name m) \<notin> set (rs_edges st)"
      by (auto simp: bound_edge_def)
    then show ?thesis
    proof cases
      case none
      then have "bind_step cands avail (m, d) st = Inr (st\<lparr>rs_bindings := rs_bindings st @ [b]\<rparr>)"
        using Inr True by (cases "?p = mf_name m") (simp_all add: bind_step_def bindable_def Let_def)
      then show ?thesis
        using inv True l2 none(1) len by (simp add: bind_inv_def edges_of_snoc)
    next
      case old
      then have "bind_step cands avail (m, d) st = Inr (st\<lparr>rs_bindings := rs_bindings st @ [b]\<rparr>)"
        using Inr True by (simp add: bind_step_def Let_def)
      then show ?thesis
        using inv True l2 old(1,3) len by (simp add: bind_inv_def edges_of_snoc insert_absorb)
    next
      case new
      then have "bind_step cands avail (m, d) st = Inr (st\<lparr>rs_bindings := rs_bindings st @ [b],
          rs_edges := rs_edges st @ [(?p, mf_name m)], rs_incoming := AList.update (mf_name m) (c + 1) (rs_incoming st)\<rparr>)"
        using Inr True c(1) by (simp add: bind_step_def count_up_def Let_def)
      then show ?thesis
        using inv True l2 new(1,3) len c by (simp add: bind_inv_def edges_of_snoc map_fst_update)
    qed
  next
    case False
    then show ?thesis using inv Inr by (auto simp: bind_step_def bindable_def Let_def)
  qed
qed

lemma bind_all_inv:
  assumes "bind_inv cands avail prev st" "\<forall>(m, d) \<in> set xs. mf_name m \<in> fst ` set cands"
  shows "case bind_all cands avail xs st of
      Inr st' \<Rightarrow> bind_inv cands avail (prev @ xs) st'
    | Inl e \<Rightarrow> \<exists>x \<in> set xs. \<not> (\<exists>b. bindable cands avail x b)"
  using assms
proof (induction xs arbitrary: prev st)
  case (Cons x xs)
  obtain m d where x: "x = (m, d)" by fastforce
  note step = bind_step_inv [OF Cons.prems(1), of m d]
  show ?case
  proof (cases "bind_step cands avail x st")
    case (Inl e)
    with step Cons.prems x show ?thesis by auto
  next
    case (Inr st')
    with step Cons.prems x have "bind_inv cands avail (prev @ [x]) st'" by auto
    from Cons.IH [OF this] Cons.prems Inr show ?thesis by (auto split: sum.splits)
  qed
qed simp

subsection \<open>The plan\<close>

text \<open>Every dependency of every candidate has a provider, and none is the Plugin itself.\<close>

definition all_bindable :: "plugin_manifest list \<Rightarrow> catalog \<Rightarrow> bool" where
  "all_bindable ms avail \<longleftrightarrow>
     (\<forall>m \<in> set ms. \<forall>d \<in> set (mf_requires m). \<exists>b. bindable (indexed ms) avail (m, d) b)"

definition dependency_edges :: "plugin_manifest list \<Rightarrow> catalog \<Rightarrow> (string \<times> string) set" where
  "dependency_edges ms avail =
     {(p, mf_name m) | p m. m \<in> set ms \<and> (\<exists>d \<in> set (mf_requires m). \<exists>b.
        resolve_one d m (indexed ms) avail = Inr b \<and> p = pl_name (rd_provider b)
        \<and> p \<in> mf_name ` set ms \<and> p \<noteq> mf_name m)}"

lemma set_dependency_pairs: "(m, d) \<in> set (dependency_pairs ms) \<longleftrightarrow> m \<in> set ms \<and> d \<in> set (mf_requires m)"
  by (auto simp: dependency_pairs_def)

lemma fst_indexed [simp]: "fst ` set (indexed ms) = mf_name ` set ms" "List.map fst (indexed ms) = List.map mf_name ms"
  by (force simp: indexed_def, simp add: indexed_def)

lemma manifest_ref_sel [simp]: "pl_name (manifest_ref m) = mf_name m"
  by (simp add: manifest_ref_def)

lemma map_of_indexed:
  "distinct (List.map mf_name ms) \<Longrightarrow> m \<in> set ms \<Longrightarrow> map_of (indexed ms) (mf_name m) = Some m"
  by (rule map_of_is_SomeI) (auto simp: indexed_def comp_def)

lemma edges_of_dependency:
  assumes "list_all2 (bindable (indexed ms) avail) (dependency_pairs ms) bs"
  shows "edges_of (indexed ms) (dependency_pairs ms) bs = dependency_edges ms avail"
proof (intro set_eqI iffI)
  fix e assume "e \<in> edges_of (indexed ms) (dependency_pairs ms) bs"
  then obtain m d b where mem: "((m, d), b) \<in> set (zip (dependency_pairs ms) bs)" and e: "e \<in> bound_edge (indexed ms) m b"
    by (auto simp: edges_of_def)
  have "bindable (indexed ms) avail (m, d) b" using assms mem by (auto simp: list_all2_iff)
  moreover have "(m, d) \<in> set (dependency_pairs ms)" using mem by (rule set_zip_leftD)
  ultimately show "e \<in> dependency_edges ms avail"
    using e by (auto simp: bound_edge_def dependency_edges_def bindable_def set_dependency_pairs split: if_splits)
next
  fix e assume "e \<in> dependency_edges ms avail"
  then obtain m d b where md: "m \<in> set ms" "d \<in> set (mf_requires m)" and r: "resolve_one d m (indexed ms) avail = Inr b"
    and e: "e = (pl_name (rd_provider b), mf_name m)" "pl_name (rd_provider b) \<in> mf_name ` set ms" "pl_name (rd_provider b) \<noteq> mf_name m"
    by (auto simp: dependency_edges_def)
  have "(m, d) \<in> set (dependency_pairs ms)" using md by (simp add: set_dependency_pairs)
  then obtain i where i: "i < length (dependency_pairs ms)" "dependency_pairs ms ! i = (m, d)"
    by (auto simp: in_set_conv_nth)
  have "bindable (indexed ms) avail (m, d) (bs ! i)" using assms i by (auto simp: list_all2_conv_all_nth)
  then have "bs ! i = b" using r by (simp add: bindable_def)
  moreover have "((m, d), bs ! i) \<in> set (zip (dependency_pairs ms) bs)"
    using i list_all2_lengthD [OF assms] by (auto simp: set_zip intro!: exI [of _ i])
  moreover have "e \<in> bound_edge (indexed ms) m b" using e by (simp add: bound_edge_def)
  ultimately show "e \<in> edges_of (indexed ms) (dependency_pairs ms) bs"
    unfolding edges_of_def by fastforce
qed

lemma bind_all_pairs:
  assumes "distinct (List.map mf_name ms)"
  shows "case bind_all (indexed ms) avail (dependency_pairs ms) (initial_state (indexed ms)) of
      Inr st \<Rightarrow> bind_inv (indexed ms) avail (dependency_pairs ms) st
    | Inl e \<Rightarrow> \<not> all_bindable ms avail"
proof -
  have "map_of (List.map (\<lambda>(n, m). (n, 0)) (indexed ms)) n = Some (0 :: int)" if "n \<in> mf_name ` set ms" for n
    using that assms by (intro map_of_is_SomeI) (auto simp: indexed_def comp_def)
  then have "bind_inv (indexed ms) avail [] (initial_state (indexed ms))"
    by (auto simp: bind_inv_def edges_of_def indexed_def comp_def initial_state_def)
  moreover have "\<forall>(m, d) \<in> set (dependency_pairs ms). mf_name m \<in> fst ` set (indexed ms)"
    by (auto simp: set_dependency_pairs)
  ultimately have out: "case bind_all (indexed ms) avail (dependency_pairs ms) (initial_state (indexed ms)) of
      Inr st \<Rightarrow> bind_inv (indexed ms) avail ([] @ dependency_pairs ms) st
    | Inl e \<Rightarrow> \<exists>x \<in> set (dependency_pairs ms). \<not> (\<exists>b. bindable (indexed ms) avail x b)"
    by (rule bind_all_inv)
  show ?thesis
  proof (cases "bind_all (indexed ms) avail (dependency_pairs ms) (initial_state (indexed ms))")
    case (Inl e)
    with out obtain m d where "(m, d) \<in> set (dependency_pairs ms)" "\<not> (\<exists>b. bindable (indexed ms) avail (m, d) b)"
      by auto
    then have "\<not> all_bindable ms avail" unfolding all_bindable_def set_dependency_pairs by blast
    with Inl show ?thesis by simp
  next
    case (Inr st)
    with out show ?thesis by simp
  qed
qed

lemma refs_of_order:
  assumes "distinct (List.map mf_name ms)" "set order \<subseteq> mf_name ` set ms"
  shows "\<exists>ordered. rmap (\<lambda>n. case map_of (indexed ms) n of None \<Rightarrow> Inl (KeyError n) | Some m \<Rightarrow> Inr (manifest_ref m)) order = Inr ordered
    \<and> List.map pl_name ordered = order \<and> set ordered \<subseteq> manifest_ref ` set ms"
  using assms(2)
proof (induction order)
  case (Cons n order)
  then obtain m where "m \<in> set ms" "mf_name m = n" by auto
  with Cons map_of_indexed [OF assms(1), of m] show ?case by auto
qed simp

lemma refs_all:
  assumes dist: "distinct (List.map mf_name ms)" and sub: "set ordered \<subseteq> manifest_ref ` set ms"
    and all: "set (List.map pl_name ordered) = mf_name ` set ms"
  shows "set ordered = manifest_ref ` set ms"
proof (intro equalityI sub image_subsetI)
  fix m assume m: "m \<in> set ms"
  then have "mf_name m \<in> pl_name ` set ordered" using all by simp
  then obtain r where r: "r \<in> set ordered" "pl_name r = mf_name m" by auto
  with sub obtain m' where m': "m' \<in> set ms" "r = manifest_ref m'" by auto
  with r(2) have "mf_name m' = mf_name m" by (simp add: manifest_ref_def)
  then have "m' = m" using dist m m'(1) by (auto simp: distinct_map dest: inj_onD)
  with r m' show "manifest_ref m \<in> set ordered" by simp
qed

lemma card_eq_of_subset:
  "finite B \<Longrightarrow> A \<subseteq> B \<Longrightarrow> card A = card B \<longleftrightarrow> A = B"
  using card_subset_eq by blast

text \<open>The plan that a resolution without exception builds, and when there is one.\<close>

lemma resolve_cases:
  assumes un: "unambiguous ms avail" and bd: "all_bindable ms avail"
  obtains (acyclic) order ordered bs where "acyclic (dependency_edges ms avail)"
      "resolve ms avail = Inr \<lparr>rp_ordered = ordered, rp_bindings = sort_key binding_key bs\<rparr>"
      "list_all2 (bindable (indexed ms) avail) (dependency_pairs ms) bs"
      "List.map pl_name ordered = order" "set ordered = manifest_ref ` set ms"
      "ordered_after (dependency_edges ms avail) {} order" "set order = mf_name ` set ms"
    | (cyclic) e where "\<not> acyclic (dependency_edges ms avail)" "resolve ms avail = Inl e"
        "err_code e = Some ''dependency_cycle''"
proof -
  let ?cands = "indexed ms" and ?E = "dependency_edges ms avail" and ?N = "mf_name ` set ms"
  have dist: "distinct (List.map mf_name ms)" using un by (simp add: unambiguous_def)
  obtain st where st: "bind_all ?cands avail (dependency_pairs ms) (initial_state ?cands) = Inr st"
    "bind_inv ?cands avail (dependency_pairs ms) st"
    using bind_all_pairs [OF dist, of avail] bd by (auto split: sum.splits)
  have bs: "list_all2 (bindable ?cands avail) (dependency_pairs ms) (rs_bindings st)"
    and edges: "set (rs_edges st) = ?E" "distinct (rs_edges st)"
    using st(2) edges_of_dependency by (auto simp: bind_inv_def)
  have E: "finite ?E" "?E \<subseteq> ?N \<times> ?N"
    using edges(1) by (metis finite_set) (auto simp: dependency_edges_def)
  have fsts: "List.map fst (rs_incoming st) = List.map mf_name ms"
    using st(2) by (simp add: bind_inv_def)
  have inc1: "distinct (List.map fst (rs_incoming st))" and inc2: "fst ` set (rs_incoming st) = ?N"
    using fsts dist by (simp, metis list.set_map)
  have inc3: "\<forall>n \<in> ?N. map_of (rs_incoming st) n = Some (int (card {p. (p, n) \<in> ?E}))"
  proof
    fix n assume "n \<in> ?N"
    then have "n \<in> fst ` set ?cands" by simp
    then show "map_of (rs_incoming st) n = Some (int (card {p. (p, n) \<in> ?E}))"
      using st(2) incoming_card [OF edges(2), of n] edges(1) by (simp only: bind_inv_def simp_thms)
  qed
  have "successors ?E (sorted_targets (rs_edges st))"
    using sorted_targets_successors [OF edges(2)] edges(1) by simp
  from kahn_correct [OF E this inc1 inc2 inc3] obtain order inc' where
    k: "kahn (sorted_targets (rs_edges st)) (initial_ready (rs_incoming st)) (rs_incoming st) = Inr (order, inc')"
      "ordered_after ?E {} order" "set order \<subseteq> ?N" "set order = ?N \<longleftrightarrow> acyclic ?E" by (elim exE conjE) (rule that; assumption)
  from refs_of_order [OF dist k(3)] obtain ordered where
    o: "rmap (\<lambda>n. case map_of ?cands n of None \<Rightarrow> Inl (KeyError n) | Some m \<Rightarrow> Inr (manifest_ref m)) order = Inr ordered"
      "List.map pl_name ordered = order" "set ordered \<subseteq> manifest_ref ` set ms" by (elim exE conjE) (rule that; assumption)
  have idx: "index_candidates ms avail [] = Inr ?cands" using un by (simp add: index_candidates_indexed)
  have res: "resolve ms avail = (if length ordered \<noteq> length ms then Inl (cycle_error inc')
      else Inr \<lparr>rp_ordered = ordered, rp_bindings = sort_key binding_key (rs_bindings st)\<rparr>)"
    unfolding resolve_def by (simp only: idx st(1) k(1) o(1) rbind_simps prod.case)
  have dord: "distinct order" using ordered_after_distinct [OF k(2)] by simp
  have "length ordered = length order" using o(2) by (simp only: length_map flip: o(2))
  also have "\<dots> = card (set order)" by (rule distinct_card [OF dord, symmetric])
  finally have l1: "length ordered = card (set order)" .
  have l2: "length ms = card ?N" using distinct_card [OF dist] by (simp only: length_map list.set_map)
  have len: "length ordered = length ms \<longleftrightarrow> set order = ?N"
    unfolding l1 l2 by (rule card_eq_of_subset [OF _ k(3)]) (rule finite_imageI [OF finite_set])
  show thesis
  proof (cases "set order = ?N")
    case True
    have "set ordered = manifest_ref ` set ms"
      by (rule refs_all [OF dist o(3)]) (simp only: o(2) True)
    then show thesis
      using True k(2,4) res len o(2) bs by (intro acyclic) (simp_all only: simp_thms if_False if_True)
  next
    case False
    then have "resolve ms avail = Inl (cycle_error inc')" "\<not> acyclic ?E"
      using res len k(4) by simp_all
    then show thesis by (intro cyclic) (auto simp: cycle_error_def error_simps)
  qed
qed

text \<open>A resolution that returns had distinct candidates and a provider for every dependency.\<close>

lemma resolve_Inr_conditions:
  assumes "resolve ms avail = Inr plan"
  shows "unambiguous ms avail \<and> all_bindable ms avail"
proof -
  obtain st where un: "unambiguous ms avail"
    and st: "bind_all (indexed ms) avail (dependency_pairs ms) (initial_state (indexed ms)) = Inr st"
    using assms unfolding resolve_def rbind_eq_Inr index_candidates_indexed by blast
  have dist: "distinct (List.map mf_name ms)" using un by (simp add: unambiguous_def)
  have l2: "list_all2 (bindable (indexed ms) avail) (dependency_pairs ms) (rs_bindings st)"
    using bind_all_pairs [OF dist, of avail] st by (simp add: bind_inv_def)
  have "\<exists>b. bindable (indexed ms) avail (m, d) b" if "m \<in> set ms" "d \<in> set (mf_requires m)" for m d
  proof -
    have "(m, d) \<in> set (dependency_pairs ms)" using that by (simp add: set_dependency_pairs)
    with l2 show ?thesis by (metis in_set_conv_nth list_all2_conv_all_nth)
  qed
  with un show ?thesis by (auto simp: all_bindable_def)
qed

section \<open>Dependency resolution does not depend on the order of the candidates\<close>

text \<open>
  Python states this as a contract in \<open>DependencyResolver.resolve\<close>: a permutation of the
  input changes neither the plan nor the report. The candidates reach the plan through the
  sorted loops, through dictionary lookups and through lists of providers of which only a
  singleton is used; none of the three sees the order.
\<close>

lemma singleton_case_perm:
  assumes "mset xs = mset ys"
  shows "(case filter P xs of [] \<Rightarrow> a | [x] \<Rightarrow> f x | _ \<Rightarrow> c) = (case filter P ys of [] \<Rightarrow> a | [x] \<Rightarrow> f x | _ \<Rightarrow> c)"
proof -
  have m: "mset (filter P xs) = mset (filter P ys)" using assms by (simp add: mset_filter)
  then have l: "length (filter P xs) = length (filter P ys)" by (rule mset_eq_length)
  show ?thesis
  proof (cases "length (filter P xs) = 1")
    case True
    with l obtain x y where "filter P xs = [x]" "filter P ys = [y]" by (metis One_nat_def length_0_conv length_Suc_conv)
    with m show ?thesis by simp
  next
    case False
    with l show ?thesis by (auto split: list.splits)
  qed
qed

lemma filter_nonempty_perm: "mset xs = mset ys \<Longrightarrow> filter P xs \<noteq> [] \<longleftrightarrow> filter P ys \<noteq> []"
  by (metis mset_filter mset_zero_iff)

lemma distinct_map_perm: "mset xs = mset ys \<Longrightarrow> distinct (List.map f xs) \<longleftrightarrow> distinct (List.map f ys)"
  by (rule mset_eq_imp_distinct_iff) simp

lemma map_of_indexed_perm:
  assumes "distinct (List.map mf_name ms)" "mset ms = mset ms'"
  shows "map_of (indexed ms) = map_of (indexed ms')"
proof (rule map_of_eqI)
  have "distinct (List.map mf_name ms')" using assms(1) by (simp only: distinct_map_perm [OF assms(2)])
  moreover have "set ms = set ms'" using assms(2) by (rule mset_eq_setD)
  ultimately show "set (List.map fst (indexed ms)) = set (List.map fst (indexed ms'))"
    "\<forall>k \<in> set (List.map fst (indexed ms)). map_of (indexed ms) k = map_of (indexed ms') k"
    using assms(1) map_of_indexed by (auto simp: map_of_indexed)
qed

lemma mset_all_providers:
  "mset ms = mset ms' \<Longrightarrow> mset (all_providers (indexed ms) avail) = mset (all_providers (indexed ms') avail)"
proof -
  assume p: "mset ms = mset ms'"
  have "mset (concat (List.map f ms)) = mset (concat (List.map f ms'))" for f :: "plugin_manifest \<Rightarrow> catalog_capability list"
  proof -
    have "(\<Sum>x\<leftarrow>ms. mset (f x)) = sum_mset (image_mset (\<lambda>x. mset (f x)) (mset ms))"
      by (simp only: sum_mset_sum_list flip: mset_map)
    also have "\<dots> = (\<Sum>x\<leftarrow>ms'. mset (f x))" unfolding p by (simp only: sum_mset_sum_list flip: mset_map)
    finally show ?thesis by (simp add: mset_concat comp_def)
  qed
  then show ?thesis by (simp add: all_providers_def indexed_def comp_def)
qed

lemma resolve_one_perm:
  assumes "distinct (List.map mf_name ms)" "mset ms = mset ms'"
  shows "resolve_one d m (indexed ms) avail = resolve_one d m (indexed ms') avail"
proof -
  note P = mset_all_providers [OF assms(2), of avail]
  let ?p = "all_providers (indexed ms) avail" and ?p' = "all_providers (indexed ms') avail"
  have "resolve_capability d m (indexed ms) avail = resolve_capability d m (indexed ms') avail"
    unfolding resolve_capability_def Let_def filter_filter
      singleton_case_perm [OF P] filter_nonempty_perm [OF P] ..
  moreover have "resolve_plugin d m (indexed ms) avail = resolve_plugin d m (indexed ms') avail"
    unfolding resolve_plugin_def plugin_matches_def map_of_indexed_perm [OF assms] ..
  ultimately show ?thesis by (simp add: resolve_one_def split: dependency_kind.split)
qed

lemma dependency_pairs_perm:
  assumes "distinct (List.map mf_name ms)" "mset ms = mset ms'"
  shows "dependency_pairs ms = dependency_pairs ms'"
proof -
  have "sort_key mf_name ms = sort_key mf_name ms'"
    using assms by (intro sort_key_inj_key_eq) (auto simp: distinct_map)
  then show ?thesis by (simp add: dependency_pairs_def)
qed

text \<open>States that differ in the order of the counters only.\<close>

definition same_state :: "resolve_state \<Rightarrow> resolve_state \<Rightarrow> bool" where
  "same_state st st' \<longleftrightarrow> rs_edges st = rs_edges st' \<and> rs_bindings st = rs_bindings st'
     \<and> map_of (rs_incoming st) = map_of (rs_incoming st')
     \<and> distinct (List.map fst (rs_incoming st)) \<and> distinct (List.map fst (rs_incoming st'))"

definition same_result :: "('a \<Rightarrow> 'a \<Rightarrow> bool) \<Rightarrow> 'a result \<Rightarrow> 'a result \<Rightarrow> bool" where
  "same_result R r r' = (case (r, r') of (Inl e, Inl e') \<Rightarrow> e = e' | (Inr x, Inr x') \<Rightarrow> R x x' | _ \<Rightarrow> False)"

lemma same_result_simps [simp]:
  "same_result R (Inl e) r' \<longleftrightarrow> r' = Inl e" "same_result R r (Inl e) \<longleftrightarrow> r = Inl e"
  "same_result R (Inr x) (Inr x') \<longleftrightarrow> R x x'"
  by (auto simp: same_result_def split: sum.splits)

lemma same_result_rbind:
  assumes "same_result R r r'" "\<And>x x'. R x x' \<Longrightarrow> same_result S (f x) (f' x')"
  shows "same_result S (rbind r f) (rbind r' f')"
  using assms by (cases r; cases r') auto

lemma count_up_same:
  assumes "map_of i = map_of i'" "distinct (List.map fst i)" "distinct (List.map fst i')"
  shows "same_result (\<lambda>j j'. map_of j = map_of j' \<and> distinct (List.map fst j) \<and> distinct (List.map fst j'))
    (count_up k i) (count_up k i')"
  using assms by (auto simp: count_up_def distinct_update update_conv split: option.splits)

lemma bind_step_same:
  assumes d: "distinct (List.map mf_name ms)" and p: "mset ms = mset ms'" and st: "same_state st st'"
  shows "same_result same_state (bind_step (indexed ms) avail x st) (bind_step (indexed ms') avail x st')"
proof -
  obtain m dep where x: "x = (m, dep)" by force
  have f: "mf_name ` set ms = mf_name ` set ms'" using p by (metis set_mset_mset)
  show ?thesis
  proof (cases "resolve_one dep m (indexed ms') avail")
    case (Inl e)
    then show ?thesis unfolding x bind_step_def prod.case resolve_one_perm [OF d p] by simp
  next
    case (Inr b)
    obtain es0 bs0 i where st1: "st = \<lparr>rs_edges = es0, rs_incoming = i, rs_bindings = bs0\<rparr>" by (cases st)
    with st obtain i' where st2: "st' = \<lparr>rs_edges = es0, rs_incoming = i', rs_bindings = bs0\<rparr>"
      by (cases st') (simp add: same_state_def)
    have s: "map_of i = map_of i'" "distinct (List.map fst i)" "distinct (List.map fst i')"
      using st by (simp_all add: same_state_def st1 st2)
    have c: "same_result same_state
        (rbind (count_up (mf_name m) i) (\<lambda>inc. Inr \<lparr>rs_edges = es, rs_incoming = inc, rs_bindings = bs\<rparr>))
        (rbind (count_up (mf_name m) i') (\<lambda>inc. Inr \<lparr>rs_edges = es, rs_incoming = inc, rs_bindings = bs\<rparr>))" for bs es
      by (rule same_result_rbind [OF count_up_same [OF s]]) (simp add: same_state_def)
    have same: "same_state \<lparr>rs_edges = es, rs_incoming = i, rs_bindings = bs\<rparr> \<lparr>rs_edges = es, rs_incoming = i', rs_bindings = bs\<rparr>" for es bs
      using s by (simp add: same_state_def)
    show ?thesis
      unfolding x bind_step_def prod.case resolve_one_perm [OF d p] fst_indexed f Inr rbind_simps Let_def st1 st2
        resolve_state.simps
      by (cases "pl_name (rd_provider b) \<in> mf_name ` set ms' \<and> pl_name (rd_provider b) \<noteq> mf_name m";
          cases "(pl_name (rd_provider b), mf_name m) \<in> set es0";
          cases "pl_name (rd_provider b) = mf_name m \<and> dp_kind dep = DEP_PLUGIN")
        (simp_all only: c same if_True if_False simp_thms same_result_simps)
  qed
qed

lemma bind_all_same:
  assumes d: "distinct (List.map mf_name ms)" and p: "mset ms = mset ms'" and st: "same_state st st'"
  shows "same_result same_state (bind_all (indexed ms) avail xs st) (bind_all (indexed ms') avail xs st')"
  using st
proof (induction xs arbitrary: st st')
  case (Cons x xs)
  show ?case
    unfolding bind_all.simps
    by (rule same_result_rbind [OF bind_step_same [OF d p Cons.prems]]) (rule Cons.IH)
qed simp

text \<open>The loop keeps the keys of the counters apart.\<close>

lemma release_distinct:
  "release ts ready inc = Inr (ready', inc') \<Longrightarrow> distinct (List.map fst inc) \<Longrightarrow> distinct (List.map fst inc')"
  by (induction ts arbitrary: ready inc) (auto split: option.splits if_splits simp: distinct_update)

lemma kahn_distinct:
  "kahn out ready inc = Inr (order, inc') \<Longrightarrow> distinct (List.map fst inc) \<Longrightarrow> distinct (List.map fst inc')"
  by (induction out ready inc arbitrary: order inc' rule: kahn.induct)
    (fastforce simp: rbind_eq_Inr dest: release_distinct)+

lemma cycle_error_same:
  assumes "map_of i = map_of i'" "distinct (List.map fst i)" "distinct (List.map fst i')"
  shows "cycle_error i = cycle_error i'"
proof -
  have "set i = set i'" using assms by (metis map_of_inject_set)
  then have "set (List.map fst (filter (\<lambda>(k, c). c \<noteq> 0) i)) = set (List.map fst (filter (\<lambda>(k, c). c \<noteq> 0) i'))"
    by auto
  moreover have "distinct (List.map fst (filter (\<lambda>(k, c). c \<noteq> 0) j))" if "distinct (List.map fst j)" for j :: counts
    using distinct_map_filter [OF that] .
  ultimately have "sort (List.map fst (filter (\<lambda>(k, c). c \<noteq> 0) i)) = sort (List.map fst (filter (\<lambda>(k, c). c \<noteq> 0) i'))"
    using assms(2,3) by (intro sorted_distinct_set_unique) auto
  then show ?thesis by (simp add: cycle_error_def)
qed

lemma initial_state_same:
  assumes "distinct (List.map mf_name ms)" "mset ms = mset ms'"
  shows "same_state (initial_state (indexed ms)) (initial_state (indexed ms'))"
proof -
  have d: "distinct (List.map mf_name ms')" using assms(1) by (simp only: distinct_map_perm [OF assms(2)])
  have m: "map_of (List.map (\<lambda>(n, m). (n, 0::int)) (indexed xs)) = map_option (\<lambda>_. 0) \<circ> map_of (indexed xs)" for xs
    by (rule ext) (simp add: map_of_map [of "\<lambda>_. 0::int"])
  have f: "List.map fst (List.map (\<lambda>(n, m). (n, 0::int)) (indexed xs)) = List.map mf_name xs" for xs
    by (simp add: indexed_def)
  show ?thesis
    unfolding same_state_def initial_state_def resolve_state.simps m f map_of_indexed_perm [OF assms]
    using assms(1) d by simp
qed

lemma resolve_permutation:
  assumes un: "unambiguous ms avail" and p: "mset ms = mset ms'"
  shows "resolve ms avail = resolve ms' avail"
proof -
  have d: "distinct (List.map mf_name ms)" using un by (simp add: unambiguous_def)
  have d': "distinct (List.map mf_name ms')" using d by (simp only: distinct_map_perm [OF p])
  have un': "unambiguous ms' avail" using un d' p by (auto simp: unambiguous_def dest: mset_eq_setD)
  have idx: "index_candidates ms avail [] = Inr (indexed ms)" "index_candidates ms' avail [] = Inr (indexed ms')"
    using un un' by (simp_all add: index_candidates_indexed)
  have len: "length ms = length ms'" using p by (rule mset_eq_length)
  note B = bind_all_same [OF d p initial_state_same [OF d p], of avail "dependency_pairs ms'"]
  show ?thesis
  proof (cases "bind_all (indexed ms) avail (dependency_pairs ms') (initial_state (indexed ms))")
    case (Inl e)
    with B show ?thesis unfolding resolve_def idx dependency_pairs_perm [OF d p] by simp
  next
    case (Inr st)
    with B obtain st' where st': "bind_all (indexed ms') avail (dependency_pairs ms') (initial_state (indexed ms')) = Inr st'"
      and s: "same_state st st'" by (cases "bind_all (indexed ms') avail (dependency_pairs ms') (initial_state (indexed ms'))") auto
    note sD = s [unfolded same_state_def]
    have r: "initial_ready (rs_incoming st) = initial_ready (rs_incoming st')"
      using initial_ready_cong sD by blast
    note K = kahn_cong [of "rs_incoming st" "rs_incoming st'" "sorted_targets (rs_edges st')" "initial_ready (rs_incoming st')"]
    show ?thesis
    proof (cases "kahn (sorted_targets (rs_edges st')) (initial_ready (rs_incoming st')) (rs_incoming st)")
      case (Inl e)
      with K sD obtain "kahn (sorted_targets (rs_edges st')) (initial_ready (rs_incoming st')) (rs_incoming st') = Inl e"
        by (auto split: sum.splits)
      with Inl Inr st' r sD show ?thesis unfolding resolve_def idx dependency_pairs_perm [OF d p] by simp
    next
      case (Inr res)
      obtain order i where res: "res = (order, i)" by force
      with K sD Inr obtain i' where k': "kahn (sorted_targets (rs_edges st')) (initial_ready (rs_incoming st')) (rs_incoming st') = Inr (order, i')"
        and i': "map_of i = map_of i'" by (auto split: sum.splits)
      have "cycle_error i = cycle_error i'"
        using i' kahn_distinct [OF Inr [unfolded res]] kahn_distinct [OF k'] sD by (intro cycle_error_same) auto
      with Inr res k' \<open>bind_all (indexed ms) _ _ _ = Inr st\<close> st' r sD len show ?thesis
        unfolding resolve_def idx dependency_pairs_perm [OF d p]
        by (simp add: map_of_indexed_perm [OF d p] cong: if_cong)
    qed
  qed
qed

end
