(* ===== verification/Plugin_Properties.thy ===== *)
theory Plugin_Properties
  imports Plugin_Dependency Samples
begin

section \<open>Properties of Plugin versions, manifests and dependency resolution\<close>

text \<open>
  The properties of \<open>plugin/model.py\<close> and \<open>plugin/dependency.py\<close>, with instances on three
  small manifests.
\<close>

subsection \<open>Concrete manifests\<close>

definition version_of :: "int \<Rightarrow> int \<Rightarrow> int \<Rightarrow> semver" where
  "version_of a b c = \<lparr>sv_major = a, sv_minor = b, sv_patch = c, sv_prerelease = [], sv_build = []\<rparr>"

definition range_from :: "semver \<Rightarrow> version_range" where
  "range_from v = \<lparr>vr_comparators = [\<lparr>vc_operator = ''>='', vc_version = v\<rparr>]\<rparr>"

definition needs_plugin :: "string \<Rightarrow> plugin_dependency" where
  "needs_plugin n = \<lparr>dp_kind = DEP_PLUGIN, dp_range = range_from (version_of 1 0 0), dp_plugin = Some n,
     dp_type = None, dp_capability = None\<rparr>"

definition sample_manifest :: "string \<Rightarrow> plugin_dependency list \<Rightarrow> plugin_manifest" where
  "sample_manifest n ds = \<lparr>mf_contract = ''1'', mf_name = n, mf_version = version_of 1 2 0,
     mf_core_api = range_from (version_of 1 0 0), mf_entrypoint = ''demo'', mf_provides = [], mf_requires = ds,
     mf_permissions = [], mf_lifecycle = {ON_LOAD}\<rparr>"

definition sample_plugins :: "plugin_manifest list" where
  "sample_plugins = [sample_manifest ''demo.app'' [needs_plugin ''demo.base''], sample_manifest ''demo.base'' []]"

definition no_catalog :: catalog where
  "no_catalog = \<lparr>ct_plugins = [], ct_capabilities = []\<rparr>"

definition sample_plan :: resolution_plan where
  "sample_plan = \<lparr>rp_ordered = List.map manifest_ref [sample_manifest ''demo.base'' [], sample_manifest ''demo.app'' [needs_plugin ''demo.base'']],
     rp_bindings = [\<lparr>rd_consumer = manifest_ref (sample_manifest ''demo.app'' [needs_plugin ''demo.base'']),
       rd_dependency = needs_plugin ''demo.base'', rd_provider = manifest_ref (sample_manifest ''demo.base'' []), rd_capability = None\<rparr>]\<rparr>"

definition sample_cycle :: "plugin_manifest list" where
  "sample_cycle = [sample_manifest ''demo.app'' [needs_plugin ''demo.base''],
     sample_manifest ''demo.base'' [needs_plugin ''demo.app'']]"

definition sample_permission :: plugin_permission where
  "sample_permission = \<lparr>pp_action = \<lparr>ac_namespace = ''core'', ac_name = ''read'', ac_version = ''1''\<rparr>,
     pp_pattern = ''core:run:*''\<rparr>"

lemma sample_decodes:
  "manifest_from_data sample_library (manifest_to_data (sample_manifest ''demo.app'' [needs_plugin ''demo.base'']))
     = Inr (sample_manifest ''demo.app'' [needs_plugin ''demo.base''])"
  by code_simp

lemma sample_permission_made: "mk_permission (pp_action sample_permission) ''core:run:*'' = Inr sample_permission"
  by code_simp

lemma sample_resolve: "resolve sample_plugins no_catalog = Inr sample_plan"
  by code_simp

subsection \<open>Versions\<close>

text \<open>
  Parsing and printing versions are inverse: a version that \<open>SemVer.parse\<close> accepts prints
  as the string it was parsed from, so a string has at most one reading and the accepted
  strings are exactly the printed forms of the canonical versions.
\<close>

theorem semver_text_bijection:
  "(semver_parse s = Inr v) = (semver_canonical v \<and> semver_str v = s)"
  using semver_parse_str semver_str_parse by blast

text \<open>
  On the versions that parsing produces, the comparison of \<open>SemVer\<close> is a strict total
  order: irreflexive, transitive, and of two versions exactly one of less, equal and greater
  holds, where equality ignores the build metadata.
\<close>

theorem semver_order_total:
  assumes "semver_parse s = Inr a" "semver_parse t = Inr b" "semver_parse u = Inr c"
  shows "\<not> semver_lt a a \<and> (semver_lt a b \<and> semver_lt b c \<longrightarrow> semver_lt a c)
    \<and> (semver_lt a b \<or> semver_eq a b \<or> semver_lt b a) \<and> \<not> (semver_lt a b \<and> semver_lt b a)
    \<and> (semver_eq a b \<longrightarrow> \<not> semver_lt a b)"
proof -
  have can: "semver_canonical a" "semver_canonical b" "semver_canonical c"
    using assms semver_str_parse by blast+
  have irr: "\<not> semver_lt v v" if "semver_canonical v" for v
    using semver_lt_irrefl [OF that _ that] by (simp add: semver_eq_def)
  show ?thesis
    using can irr semver_trichotomy semver_lt_trans semver_lt_irrefl by blast
qed

theorem semver_order_total_witness:
  "semver_lt (version_of 1 2 0) (version_of 1 10 0) \<and> \<not> semver_lt (version_of 1 10 0) (version_of 1 2 0)"
proof -
  have "semver_parse ''1.2.0'' = Inr (version_of 1 2 0)" "semver_parse ''1.10.0'' = Inr (version_of 1 10 0)"
    "semver_lt (version_of 1 2 0) (version_of 1 10 0)" by code_simp+
  with semver_order_total [of "''1.2.0''" _ "''1.10.0''" _ "''1.2.0''"] show ?thesis by blast
qed

text \<open>
  Versions built by the constructor alone are not ordered: it accepts numeric identifiers
  with leading zeros, which parsing refuses, and of two such versions each can be greater than
  the other.
\<close>

theorem constructed_versions_not_ordered:
  "\<exists>a b. mk_semver a = Inr a \<and> mk_semver b = Inr b \<and> semver_gt a b \<and> semver_gt b a"
proof (intro exI conjI)
  let ?a = "(version_of 1 0 0)\<lparr>sv_prerelease := [''1'']\<rparr>" and ?b = "(version_of 1 0 0)\<lparr>sv_prerelease := [''01'']\<rparr>"
  show "mk_semver ?a = Inr ?a" "mk_semver ?b = Inr ?b" "semver_gt ?a ?b" "semver_gt ?b ?a"
    by code_simp+
qed

text \<open>
  A range that was parsed prints as a range that parses to itself, so a manifest that is
  stored and read again constrains the same versions.
\<close>

theorem range_reparses:
  assumes "range_parse s = Inr r"
  shows "range_parse (range_str r) = Inr r"
  using range_parse_str range_parse_canonical [OF assms] .

theorem range_reparses_witness:
  "\<exists>r. range_parse ''>=1.0.0,<2.0.0'' = Inr r \<and> range_parse (range_str r) = Inr r"
proof -
  have "\<not> isl (range_parse ''>=1.0.0,<2.0.0'')" by code_simp
  then have "\<exists>r. range_parse ''>=1.0.0,<2.0.0'' = Inr r" by (cases "range_parse ''>=1.0.0,<2.0.0''") auto
  then show ?thesis using range_reparses [of "''>=1.0.0,<2.0.0''"] by blast
qed

subsection \<open>Manifests\<close>

text \<open>
  Whatever document the manifest decoder accepts, the manifest satisfies every validator
  of its parts and survives encoding and decoding unchanged.
\<close>

theorem decoded_manifest_sound:
  assumes "manifest_from_data L d = Inr m"
  shows "mk_manifest m = Inr m \<and> manifest_from_data L (manifest_to_data m) = Inr m"
  using manifest_from_data_ok [OF assms] manifest_roundtrip
  by (auto simp: manifest_ok_def)

theorem decoded_manifest_sound_witness:
  "mk_manifest (sample_manifest ''demo.app'' [needs_plugin ''demo.base'']) = Inr (sample_manifest ''demo.app'' [needs_plugin ''demo.base''])"
  using decoded_manifest_sound [OF sample_decodes] by simp

text \<open>
  A permission covers exactly the scopes at or below a scope its pattern names: the kind
  and namespace of the pattern, and its identifier or any if that is a star.
\<close>

theorem permission_covers_descendants:
  assumes "mk_permission a s = Inr p"
  shows "\<exists>n k i. scope_pattern_parts s = Inr (n, k, i) \<and> permits p sc =
    Inr (\<exists>c \<in> set (ancestry sc). sc_namespace c = n \<and> sc_kind c = k \<and> (i = ''*'' \<or> sc_id c = i))"
  using permits_total [OF assms, of sc] assms by (auto simp: mk_permission_def result_simps split: if_splits)

theorem permission_covers_descendants_witness:
  "permits sample_permission (ScopeRef ''core'' ''agent'' ''a1'' (Some (ScopeRef ''core'' ''run'' ''r1'' None))) = Inr True"
proof -
  have "scope_pattern_parts ''core:run:*'' = Inr (''core'', ''run'', ''*'')" by code_simp
  then show ?thesis
    using permission_covers_descendants [OF sample_permission_made,
      of "ScopeRef ''core'' ''agent'' ''a1'' (Some (ScopeRef ''core'' ''run'' ''r1'' None))"] by simp
qed

subsection \<open>Resolution\<close>

text \<open>What a binding has to satisfy for the dependency it answers.\<close>

definition serves :: "plugin_manifest list \<Rightarrow> catalog \<Rightarrow> resolved_dependency \<Rightarrow> bool" where
  "serves ms avail b \<longleftrightarrow> (case rd_capability b of
       None \<Rightarrow> dp_kind (rd_dependency b) = DEP_PLUGIN \<and> dp_plugin (rd_dependency b) = Some (pl_name (rd_provider b))
         \<and> range_matches (dp_range (rd_dependency b)) (pl_version (rd_provider b))
         \<and> rd_provider b \<in> manifest_ref ` set ms \<union> set (ct_plugins avail)
     | Some c \<Rightarrow> dp_kind (rd_dependency b) = DEP_CAPABILITY \<and> dp_type (rd_dependency b) = Some (cd_type c)
         \<and> dp_capability (rd_dependency b) = Some (cd_id c) \<and> range_matches (dp_range (rd_dependency b)) (cd_version c)
         \<and> \<lparr>cc_owner = rd_provider b, cc_declaration = c\<rparr> \<in> set (all_providers (indexed ms) avail))"

lemma select_provider_Inr: "select_provider m d ms cs = Inr p \<longleftrightarrow> cs = [p]"
  by (auto simp: select_provider_def split: list.splits)

lemma filter_single: "filter P xs = [x] \<Longrightarrow> P x \<and> x \<in> set xs"
  using mem_Collect_eq set_filter [of P xs] by (metis (no_types, lifting) list.set_intros(1))

lemma resolve_one_serves:
  assumes "resolve_one d m (indexed ms) avail = Inr b"
  shows "rd_consumer b = manifest_ref m \<and> rd_dependency b = d \<and> serves ms avail b"
proof (cases "dp_kind d")
  case DEP_PLUGIN
  with assms obtain pid p where p: "dp_plugin d = Some pid"
    "filter (\<lambda>p. range_matches (dp_range d) (pl_version p)) (plugin_matches pid (indexed ms) avail) = [p]"
    "b = \<lparr>rd_consumer = manifest_ref m, rd_dependency = d, rd_provider = p, rd_capability = None\<rparr>"
    by (auto simp: resolve_one_def resolve_plugin_def Let_def rbind_eq_Inr select_provider_Inr split: option.splits)
  have "range_matches (dp_range d) (pl_version p)" and "p \<in> set (plugin_matches pid (indexed ms) avail)"
    using filter_single [OF p(2)] by auto
  moreover from this(2) have "pl_name p = pid \<and> p \<in> manifest_ref ` set ms \<union> set (ct_plugins avail)"
    by (cases "map_of (indexed ms) pid")
      (auto simp: plugin_matches_def dest!: map_of_SomeD, auto simp: indexed_def)
  ultimately show ?thesis using p DEP_PLUGIN by (simp add: serves_def)
next
  case DEP_CAPABILITY
  with assms obtain t cid x where x: "dp_type d = Some t" "dp_capability d = Some cid"
    "filter (\<lambda>x. range_matches (dp_range d) (cd_version (cc_declaration x)))
       (filter (\<lambda>x. cd_type (cc_declaration x) = t \<and> cd_id (cc_declaration x) = cid) (all_providers (indexed ms) avail)) = [x]"
    "b = \<lparr>rd_consumer = manifest_ref m, rd_dependency = d, rd_provider = cc_owner x, rd_capability = Some (cc_declaration x)\<rparr>"
    by (auto simp: resolve_one_def resolve_capability_def Let_def split: option.splits list.splits)
  show ?thesis using filter_single [OF x(3)] x(1,2,4) DEP_CAPABILITY by (cases x) (auto simp: serves_def)
qed

lemma ordered_after_before:
  assumes "ordered_after E {} xs" "(a, b) \<in> E" "b \<in> set xs"
  shows "\<exists>us vs ws. xs = us @ a # vs @ b # ws"
proof -
  obtain ys ws where xs: "xs = ys @ b # ws" using assms(3) by (auto dest: split_list)
  with ordered_after_edge [of E "{}" ys b ws a] assms(1,2) obtain us vs where "ys = us @ a # vs"
    by (auto dest: split_list)
  with xs show ?thesis by auto
qed

text \<open>
  C25. A resolution plan activates every candidate once, each after the candidates that provide
  its dependencies, and binds each dependency of each candidate to a provider that exists and
  whose version its range admits.
\<close>

theorem resolution_plan_sound:
  assumes "resolve ms avail = Inr plan"
  shows "set (rp_ordered plan) = manifest_ref ` set ms \<and> distinct (List.map pl_name (rp_ordered plan))
    \<and> (\<forall>p c. (p, c) \<in> dependency_edges ms avail \<longrightarrow>
         (\<exists>us vs ws. List.map pl_name (rp_ordered plan) = us @ p # vs @ c # ws))
    \<and> (\<forall>m \<in> set ms. \<forall>d \<in> set (mf_requires m). \<exists>b \<in> set (rp_bindings plan).
         rd_consumer b = manifest_ref m \<and> rd_dependency b = d \<and> serves ms avail b)"
proof -
  have c: "unambiguous ms avail" "all_bindable ms avail" using resolve_Inr_conditions [OF assms] by auto
  show ?thesis
  proof (rule resolve_cases [OF c])
    fix order ordered bs
    assume r: "resolve ms avail = Inr \<lparr>rp_ordered = ordered, rp_bindings = sort_key binding_key bs\<rparr>"
      and b: "list_all2 (bindable (indexed ms) avail) (dependency_pairs ms) bs"
      and o: "List.map pl_name ordered = order" "set ordered = manifest_ref ` set ms"
        "ordered_after (dependency_edges ms avail) {} order" "set order = mf_name ` set ms"
    have plan: "plan = \<lparr>rp_ordered = ordered, rp_bindings = sort_key binding_key bs\<rparr>" using r assms by simp
    have "\<exists>us vs ws. order = us @ p # vs @ n # ws" if "(p, n) \<in> dependency_edges ms avail" for p n
      using ordered_after_before [OF o(3) that] that o(4) by (auto simp: dependency_edges_def)
    moreover have "\<exists>b \<in> set bs. rd_consumer b = manifest_ref m \<and> rd_dependency b = d \<and> serves ms avail b"
      if "m \<in> set ms" "d \<in> set (mf_requires m)" for m d
    proof -
      have "(m, d) \<in> set (dependency_pairs ms)" using that by (simp add: set_dependency_pairs)
      then obtain b' where "b' \<in> set bs" "bindable (indexed ms) avail (m, d) b'"
        using b by (metis in_set_conv_nth list_all2_conv_all_nth)
      then have "b' \<in> set bs" "resolve_one d m (indexed ms) avail = Inr b'" by (simp_all add: bindable_def)
      then show ?thesis by (intro bexI [of _ b'] resolve_one_serves)
    qed
    moreover have "distinct order" using ordered_after_distinct [OF o(3)] by simp
    ultimately show ?thesis using o plan by simp
  next
    fix e assume "resolve ms avail = Inl e"
    with assms show ?thesis by simp
  qed
qed

theorem resolution_plan_sound_witness:
  "distinct (List.map pl_name (rp_ordered sample_plan))
   \<and> (\<exists>b \<in> set (rp_bindings sample_plan). rd_dependency b = needs_plugin ''demo.base'' \<and> serves sample_plugins no_catalog b)"
proof -
  have "sample_manifest ''demo.app'' [needs_plugin ''demo.base''] \<in> set sample_plugins"
    "needs_plugin ''demo.base'' \<in> set (mf_requires (sample_manifest ''demo.app'' [needs_plugin ''demo.base'']))"
    by (simp_all add: sample_plugins_def sample_manifest_def)
  with resolution_plan_sound [OF sample_resolve] show ?thesis by blast
qed

subsection \<open>Resolution in declarative terms\<close>

text \<open>
  What is on offer, from the candidates and the active catalog: every Plugin as itself, every
  capability with its owner. A dependency is met by the offers of its kind and identity whose
  version is in its range, and resolved when there is exactly one.
\<close>

type_synonym offer = "plugin_ref \<times> capability_declaration option"

definition offers :: "plugin_manifest list \<Rightarrow> catalog \<Rightarrow> offer list" where
  "offers ms avail =
     List.map (\<lambda>m. (manifest_ref m, None)) ms @ List.map (\<lambda>p. (p, None)) (ct_plugins avail)
     @ List.map (\<lambda>x. (cc_owner x, Some (cc_declaration x))) (ct_capabilities avail)
     @ concat (List.map (\<lambda>m. List.map (\<lambda>c. (manifest_ref m, Some c)) (mf_provides m)) ms)"

definition meets :: "plugin_dependency \<Rightarrow> offer \<Rightarrow> bool" where
  "meets d = (\<lambda>(p, c). case (dp_kind d, c) of
       (DEP_PLUGIN, None) \<Rightarrow> dp_plugin d = Some (pl_name p) \<and> range_matches (dp_range d) (pl_version p)
     | (DEP_CAPABILITY, Some c) \<Rightarrow> dp_type d = Some (cd_type c) \<and> dp_capability d = Some (cd_id c)
         \<and> range_matches (dp_range d) (cd_version c)
     | _ \<Rightarrow> False)"

definition sole_offer :: "plugin_manifest list \<Rightarrow> catalog \<Rightarrow> plugin_dependency \<Rightarrow> offer \<Rightarrow> bool" where
  "sole_offer ms avail d x \<longleftrightarrow> filter (meets d) (offers ms avail) = [x]"

text \<open>A dependency on a Plugin is not met by the Plugin that has it; one on a capability may be.\<close>

definition resolvable :: "plugin_manifest list \<Rightarrow> catalog \<Rightarrow> bool" where
  "resolvable ms avail \<longleftrightarrow> (\<forall>m \<in> set ms. \<forall>d \<in> set (mf_requires m). \<exists>x. sole_offer ms avail d x
     \<and> (dp_kind d = DEP_PLUGIN \<longrightarrow> pl_name (fst x) \<noteq> mf_name m))"

definition needs :: "plugin_manifest list \<Rightarrow> catalog \<Rightarrow> (string \<times> string) set" where
  "needs ms avail = {(mf_name p, mf_name m) | p m. p \<in> set ms \<and> m \<in> set ms \<and> p \<noteq> m
     \<and> (\<exists>d \<in> set (mf_requires m). \<exists>x. sole_offer ms avail d x \<and> pl_name (fst x) = mf_name p)}"

lemma filter_concat_map: "filter P (concat (List.map f xs)) = concat (List.map (\<lambda>x. filter P (f x)) xs)"
  by (induction xs) simp_all

lemma plugin_matches_named:
  assumes "distinct (List.map mf_name ms)"
  shows "plugin_matches pid (indexed ms) avail
    = filter (\<lambda>p. pl_name p = pid) (List.map manifest_ref ms) @ filter (\<lambda>p. pl_name p = pid) (ct_plugins avail)"
proof -
  have "(case map_of (indexed ms) pid of None \<Rightarrow> [] | Some m \<Rightarrow> [manifest_ref m])
      = filter (\<lambda>p. pl_name p = pid) (List.map manifest_ref ms)"
    using assms
  proof (induction ms)
    case (Cons m ms)
    have "filter (\<lambda>p. pl_name p = mf_name m) (List.map manifest_ref ms) = []"
      using Cons.prems by (force simp: filter_empty_conv image_iff)
    with Cons show ?case by (auto simp: indexed_def)
  qed (simp add: indexed_def)
  then show ?thesis by (simp add: plugin_matches_def)
qed

lemma all_providers_indexed:
  "all_providers (indexed ms) avail = ct_capabilities avail
     @ concat (List.map (\<lambda>m. List.map (\<lambda>c. \<lparr>cc_owner = manifest_ref m, cc_declaration = c\<rparr>) (mf_provides m)) ms)"
  by (simp add: all_providers_def indexed_def comp_def)

lemma meeting_plugins:
  assumes "dp_kind d = DEP_PLUGIN" "dp_plugin d = Some pid" "distinct (List.map mf_name ms)"
  shows "filter (meets d) (offers ms avail)
    = List.map (\<lambda>p. (p, None)) (filter (\<lambda>p. range_matches (dp_range d) (pl_version p)) (plugin_matches pid (indexed ms) avail))"
proof -
  have m: "meets d (p, None) \<longleftrightarrow> pl_name p = pid \<and> range_matches (dp_range d) (pl_version p)" "\<not> meets d (p, Some c)" for p c
    using assms(1,2) by (auto simp: meets_def)
  show ?thesis
    unfolding plugin_matches_named [OF assms(3)] offers_def
    by (simp add: filter_map comp_def m filter_concat_map conj_commute)
qed

lemma meeting_capabilities:
  assumes "dp_kind d = DEP_CAPABILITY" "dp_type d = Some t" "dp_capability d = Some cid"
  shows "filter (meets d) (offers ms avail)
    = List.map (\<lambda>x. (cc_owner x, Some (cc_declaration x)))
        (filter (\<lambda>x. range_matches (dp_range d) (cd_version (cc_declaration x)))
          (filter (\<lambda>x. cd_type (cc_declaration x) = t \<and> cd_id (cc_declaration x) = cid) (all_providers (indexed ms) avail)))"
proof -
  have m: "meets d (p, Some c) \<longleftrightarrow> (cd_type c = t \<and> cd_id c = cid) \<and> range_matches (dp_range d) (cd_version c)" "\<not> meets d (p, None)" for p c
    using assms by (auto simp: meets_def)
  show ?thesis
    unfolding all_providers_indexed offers_def
    by (simp add: filter_map comp_def m filter_concat_map map_concat conj_commute conj_left_commute)
qed

text \<open>The code binds a dependency exactly to its sole offer.\<close>

lemma resolve_one_sole:
  assumes "distinct (List.map mf_name ms)"
  shows "resolve_one d m (indexed ms) avail = Inr b \<longleftrightarrow>
    sole_offer ms avail d (rd_provider b, rd_capability b) \<and> rd_consumer b = manifest_ref m \<and> rd_dependency b = d"
proof (cases "dp_kind d")
  case DEP_PLUGIN
  show ?thesis
  proof (cases "dp_plugin d")
    case None
    then have "\<not> meets d x" for x using DEP_PLUGIN by (auto simp: meets_def split: prod.splits option.splits)
    then show ?thesis using DEP_PLUGIN None by (simp add: resolve_one_def resolve_plugin_def sole_offer_def)
  next
    case (Some pid)
    show ?thesis
      unfolding sole_offer_def meeting_plugins [OF DEP_PLUGIN Some assms]
      by (cases b) (auto simp: resolve_one_def DEP_PLUGIN Some resolve_plugin_def Let_def rbind_eq_Inr select_provider_Inr map_eq_Cons_conv)
  qed
next
  case DEP_CAPABILITY
  show ?thesis
  proof (cases "\<exists>t cid. dp_type d = Some t \<and> dp_capability d = Some cid")
    case False
    then have "\<not> meets d x" for x using DEP_CAPABILITY by (auto simp: meets_def split: prod.splits option.splits)
    moreover have "resolve_one d m (indexed ms) avail \<noteq> Inr b"
      using False DEP_CAPABILITY by (auto simp: resolve_one_def resolve_capability_def split: option.splits)
    ultimately show ?thesis by (simp add: sole_offer_def)
  next
    case True
    then obtain t cid where c: "dp_type d = Some t" "dp_capability d = Some cid" by blast
    show ?thesis
      unfolding sole_offer_def meeting_capabilities [OF DEP_CAPABILITY c]
      by (cases b) (auto simp: resolve_one_def DEP_CAPABILITY c resolve_capability_def Let_def map_eq_Cons_conv split: list.splits)
  qed
qed

lemma all_bindable_resolvable:
  assumes "distinct (List.map mf_name ms)"
  shows "all_bindable ms avail \<longleftrightarrow> resolvable ms avail"
proof -
  have "(\<exists>b. bindable (indexed ms) avail (m, d) b) \<longleftrightarrow>
      (\<exists>x. sole_offer ms avail d x \<and> (dp_kind d = DEP_PLUGIN \<longrightarrow> pl_name (fst x) \<noteq> mf_name m))" for m d
  proof
    assume "\<exists>b. bindable (indexed ms) avail (m, d) b"
    then show "\<exists>x. sole_offer ms avail d x \<and> (dp_kind d = DEP_PLUGIN \<longrightarrow> pl_name (fst x) \<noteq> mf_name m)"
      by (fastforce simp: bindable_def resolve_one_sole [OF assms])
  next
    assume "\<exists>x. sole_offer ms avail d x \<and> (dp_kind d = DEP_PLUGIN \<longrightarrow> pl_name (fst x) \<noteq> mf_name m)"
    then obtain p c where "sole_offer ms avail d (p, c)" "dp_kind d = DEP_PLUGIN \<longrightarrow> pl_name p \<noteq> mf_name m" by auto
    then have "bindable (indexed ms) avail (m, d)
        \<lparr>rd_consumer = manifest_ref m, rd_dependency = d, rd_provider = p, rd_capability = c\<rparr>"
      by (auto simp: bindable_def resolve_one_sole [OF assms])
    then show "\<exists>b. bindable (indexed ms) avail (m, d) b" by blast
  qed
  then show ?thesis by (simp add: all_bindable_def resolvable_def)
qed

lemma dependency_edges_needs:
  assumes "distinct (List.map mf_name ms)"
  shows "dependency_edges ms avail = needs ms avail"
proof (intro set_eqI iffI)
  fix e assume "e \<in> dependency_edges ms avail"
  then obtain m d b p where m: "m \<in> set ms" "d \<in> set (mf_requires m)" "p \<in> set ms" "pl_name (rd_provider b) = mf_name p"
    "e = (mf_name p, mf_name m)" "mf_name p \<noteq> mf_name m" and r: "resolve_one d m (indexed ms) avail = Inr b"
    unfolding dependency_edges_def by auto
  from r have "sole_offer ms avail d (rd_provider b, rd_capability b)" by (simp add: resolve_one_sole [OF assms])
  with m show "e \<in> needs ms avail" unfolding needs_def by fastforce
next
  fix e assume "e \<in> needs ms avail"
  then obtain m d x p where m: "m \<in> set ms" "d \<in> set (mf_requires m)" "p \<in> set ms" "pl_name (fst x) = mf_name p"
    "e = (mf_name p, mf_name m)" "p \<noteq> m" and s: "sole_offer ms avail d x"
    unfolding needs_def by blast
  have ne: "mf_name p \<noteq> mf_name m" using assms m(1,3,6) by (auto simp: distinct_map dest: inj_onD)
  have "resolve_one d m (indexed ms) avail
      = Inr \<lparr>rd_consumer = manifest_ref m, rd_dependency = d, rd_provider = fst x, rd_capability = snd x\<rparr>"
    using s by (simp add: resolve_one_sole [OF assms])
  with m ne show "e \<in> dependency_edges ms avail" unfolding dependency_edges_def by fastforce
qed

text \<open>Candidates that cannot be told apart are reported as such, whatever their order.\<close>

definition ambiguous_error :: "plugin_manifest list \<Rightarrow> exn \<Rightarrow> bool" where
  "ambiguous_error ms e \<longleftrightarrow> (\<exists>m \<in> set ms.
     e = dependency_ambiguous ''Multiple candidate or active versions exist for one Plugin'' (mf_name m) None)"

lemma index_candidates_error: "index_candidates ms avail acc = Inl e \<Longrightarrow> ambiguous_error ms e"
  by (induction ms arbitrary: acc) (auto simp: ambiguous_error_def split: if_splits)

lemma resolve_ambiguous:
  assumes "\<not> unambiguous ms avail"
  shows "\<exists>e. resolve ms avail = Inl e \<and> ambiguous_error ms e"
proof (cases "index_candidates ms avail []")
  case (Inl e)
  with index_candidates_error [OF Inl] show ?thesis by (simp add: resolve_def)
next
  case (Inr cands)
  with assms show ?thesis by (simp add: index_candidates_indexed)
qed

lemma unambiguous_perm:
  assumes "mset ms = mset ms'"
  shows "unambiguous ms avail \<longleftrightarrow> unambiguous ms' avail"
  using distinct_map_perm [OF assms, of mf_name] mset_eq_setD [OF assms] by (simp add: unambiguous_def)

text \<open>
  C24. The resolver returns a plan exactly when it can: the candidates are distinct from each other
  and from the active Plugins; every dependency of every candidate is met by exactly one of the
  offers of the candidates and the active catalog, that is by one Plugin of its name, or one
  capability of its type and identity, whose version is in its range; no dependency on a Plugin is
  met by the Plugin that has it (one on a capability may be); and what the candidates need of each
  other has no cycle.
\<close>

theorem resolution_complete:
  "(\<exists>plan. resolve ms avail = Inr plan)
     = (unambiguous ms avail \<and> resolvable ms avail \<and> acyclic (needs ms avail))"
proof (cases "unambiguous ms avail")
  case False
  with resolve_ambiguous [of ms avail] show ?thesis by auto
next
  case True
  then have d: "distinct (List.map mf_name ms)" by (simp add: unambiguous_def)
  show ?thesis
    unfolding all_bindable_resolvable [OF d, symmetric] dependency_edges_needs [OF d, symmetric]
  proof
    assume "\<exists>plan. resolve ms avail = Inr plan"
    then obtain plan where r: "resolve ms avail = Inr plan" ..
    then have c: "unambiguous ms avail" "all_bindable ms avail" using resolve_Inr_conditions by blast+
    have "acyclic (dependency_edges ms avail)" by (rule resolve_cases [OF c]) (use r in auto)
    with c show "unambiguous ms avail \<and> all_bindable ms avail \<and> acyclic (dependency_edges ms avail)" by simp
  next
    assume a: "unambiguous ms avail \<and> all_bindable ms avail \<and> acyclic (dependency_edges ms avail)"
    then have c: "unambiguous ms avail" "all_bindable ms avail" by simp_all
    show "\<exists>plan. resolve ms avail = Inr plan" by (rule resolve_cases [OF c]) (use a in auto)
  qed
qed

text \<open>
  A cycle among candidates that could all be bound is reported as the structured conflict
  \<open>dependency_cycle\<close>, whatever the rest of the graph.
\<close>

theorem resolution_reports_cycle:
  assumes "unambiguous ms avail" "all_bindable ms avail" "\<not> acyclic (dependency_edges ms avail)"
  shows "\<exists>e. resolve ms avail = Inl e \<and> err_code e = Some ''dependency_cycle''"
  by (rule resolve_cases [OF assms(1,2)]) (use assms(3) in auto)

lemma bindable_iff:
  "(\<exists>b. bindable cands avail (m, d) b) \<longleftrightarrow> (case resolve_one d m cands avail of
       Inl e \<Rightarrow> False | Inr b \<Rightarrow> \<not> (pl_name (rd_provider b) = mf_name m \<and> dp_kind d = DEP_PLUGIN))"
  by (auto simp: bindable_def split: sum.splits)

lemma sample_cycle_facts:
  "unambiguous sample_cycle no_catalog" "all_bindable sample_cycle no_catalog"
  "\<not> acyclic (dependency_edges sample_cycle no_catalog)"
proof -
  show u: "unambiguous sample_cycle no_catalog" by code_simp
  show b: "all_bindable sample_cycle no_catalog" unfolding all_bindable_def bindable_iff by code_simp
  have l: "isl (resolve sample_cycle no_catalog)" by code_simp
  show "\<not> acyclic (dependency_edges sample_cycle no_catalog)"
    by (rule resolve_cases [OF u b]) (use l in auto)
qed

theorem resolution_reports_cycle_witness:
  "\<exists>e. resolve sample_cycle no_catalog = Inl e \<and> err_code e = Some ''dependency_cycle''"
  using resolution_reports_cycle [OF sample_cycle_facts] .

text \<open>
  C26. The order of the candidates does not matter: permuting them changes neither the plan nor the
  error, down to the names in the cycle report, when they can be told apart; when two candidates, or
  a candidate and an active Plugin, have the same name, every order is refused with the same code,
  \<open>dependency_ambiguous\<close>, and names one of the candidates.
\<close>

theorem resolution_order_independent:
  assumes "mset ms = mset ms'"
  shows "if unambiguous ms avail then resolve ms avail = resolve ms' avail
    else \<exists>e e'. resolve ms avail = Inl e \<and> resolve ms' avail = Inl e' \<and> ambiguous_error ms e \<and> ambiguous_error ms e'"
proof (cases "unambiguous ms avail")
  case True
  with resolve_permutation [OF True assms] show ?thesis by simp
next
  case False
  then have "\<not> unambiguous ms' avail" by (simp add: unambiguous_perm [OF assms])
  moreover have "ambiguous_error ms' e \<Longrightarrow> ambiguous_error ms e" for e
    by (simp add: ambiguous_error_def mset_eq_setD [OF assms])
  ultimately show ?thesis using False resolve_ambiguous [of ms avail] resolve_ambiguous [of ms' avail] by auto
qed

theorem resolution_order_independent_witness:
  "resolve (rev sample_plugins) no_catalog = Inr sample_plan"
proof -
  have "unambiguous sample_plugins no_catalog" using resolve_Inr_conditions [OF sample_resolve] by simp
  with resolution_order_independent [of sample_plugins "rev sample_plugins" no_catalog] sample_resolve show ?thesis by simp
qed

end
