(* ===== verification/Event_Model.thy ===== *)
theory Event_Model
  imports Run_Codec Runtime_Errors
begin

section \<open>Runtime Events\<close>

text \<open>
  \<open>event/model.py\<close>, \<open>event/redaction.py\<close> and \<open>event/schema.py\<close>: the event envelope, its classified
  payload, its encoding, the capabilities of a sink, the redaction policy, the schemas of events and
  what Core requires of its own. The digest is SHA-256 of a
  JSON text, both from the standard library: it is the argument \<open>H\<close>, a function of the
  document that is hashed.
\<close>

subsection \<open>Classification\<close>

datatype delivery_class = OBSERVABILITY | AUDIT

fun delivery_class_value :: "delivery_class \<Rightarrow> string" where
  "delivery_class_value OBSERVABILITY = ''observability''"
| "delivery_class_value AUDIT = ''audit''"

definition delivery_classes :: "(string \<times> delivery_class) list" where
  "delivery_classes = List.map (\<lambda>c. (delivery_class_value c, c)) [OBSERVABILITY, AUDIT]"

lemma delivery_class_decodes [simp]: "enum_of L cls delivery_classes (delivery_class_value c) = Inr c"
  by (cases c) (simp_all add: enum_of_def delivery_classes_def)

datatype sensitivity = PUBLIC | INTERNAL | SENSITIVE | RESTRICTED

fun sensitivity_level :: "sensitivity \<Rightarrow> nat" where
  "sensitivity_level PUBLIC = 0"
| "sensitivity_level INTERNAL = 1"
| "sensitivity_level SENSITIVE = 2"
| "sensitivity_level RESTRICTED = 3"

lemma sensitivity_level_inject: "sensitivity_level a = sensitivity_level b \<Longrightarrow> a = b"
  by (cases a; cases b) simp_all

text \<open>\<open>Sensitivity\<close> is an \<open>IntEnum\<close>: it is ordered by its number.\<close>

instantiation sensitivity :: linorder
begin

definition less_eq_sensitivity :: "sensitivity \<Rightarrow> sensitivity \<Rightarrow> bool" where
  "less_eq_sensitivity a b \<longleftrightarrow> sensitivity_level a \<le> sensitivity_level b"

definition less_sensitivity :: "sensitivity \<Rightarrow> sensitivity \<Rightarrow> bool" where
  "less_sensitivity a b \<longleftrightarrow> sensitivity_level a < sensitivity_level b"

instance
  by standard (auto simp: less_eq_sensitivity_def less_sensitivity_def sensitivity_level_inject)

end

lemma PUBLIC_least [simp]: "PUBLIC \<le> s"
  by (simp add: less_eq_sensitivity_def)

lemma RESTRICTED_greatest [simp]: "s \<le> RESTRICTED"
  by (cases s) (simp_all add: less_eq_sensitivity_def)

fun wire_name :: "sensitivity \<Rightarrow> string" where
  "wire_name PUBLIC = ''public''"
| "wire_name INTERNAL = ''internal''"
| "wire_name SENSITIVE = ''sensitive''"
| "wire_name RESTRICTED = ''restricted''"

text \<open>
  \<open>str.upper\<close> on the letters below 256; \<open>cls[name]\<close> raises \<open>KeyError\<close> for a name that is not
  a member.
\<close>

definition upper_char :: "char \<Rightarrow> string" where
  "upper_char c = (let n = of_char c :: nat in
     if is_lower c \<or> (224 \<le> n \<and> n \<le> 254 \<and> n \<noteq> 247) then [char_of (n - 32)]
     else if n = 223 then ''SS'' else [c])"

definition py_upper :: "string \<Rightarrow> string" where
  "py_upper s = concat (List.map upper_char s)"

definition sensitivity_names :: "(string \<times> sensitivity) list" where
  "sensitivity_names = [(''PUBLIC'', PUBLIC), (''INTERNAL'', INTERNAL), (''SENSITIVE'', SENSITIVE),
     (''RESTRICTED'', RESTRICTED)]"

definition from_wire :: "string \<Rightarrow> sensitivity result" where
  "from_wire v = (case map_of sensitivity_names (py_upper v) of
       None \<Rightarrow> Inl (KeyError (py_upper v)) | Some s \<Rightarrow> Inr s)"

lemma from_wire_wire_name [simp]: "from_wire (wire_name s) = Inr s"
  by (cases s; simp only:; code_simp)

subsection \<open>Payloads\<close>

record payload_field =
  pf_value :: json
  pf_sensitivity :: sensitivity

definition field_to_data :: "payload_field \<Rightarrow> json_object" where
  "field_to_data f = [(''value'', pf_value f), (''sensitivity'', JStr (wire_name (pf_sensitivity f)))]"

definition field_from_data :: "pylib \<Rightarrow> json_object \<Rightarrow> payload_field result" where
  "field_from_data L d =
     rbind (rbind (field_str L d ''sensitivity'') from_wire) (\<lambda>s.
     Inr \<lparr>pf_value = obj_get d ''value'', pf_sensitivity = s\<rparr>)"

lemma field_roundtrip [simp]: "field_from_data L (field_to_data f) = Inr f"
  by (cases f) (simp add: field_from_data_def field_to_data_def)

type_synonym payload = "(string \<times> payload_field) list"

definition mk_payload :: "payload \<Rightarrow> payload result" where
  "mk_payload p = (if list_ex (\<lambda>(k, f). \<not> trimmed k) p
     then Inl (ValueError ''payload field names must be non-empty and trimmed'') else Inr p)"

definition visible_data :: "payload \<Rightarrow> json_object" where
  "visible_data p = List.map (\<lambda>(k, f). (k, pf_value f)) p"

definition payload_to_data :: "payload \<Rightarrow> json_object" where
  "payload_to_data p = List.map (\<lambda>(k, f). (k, JObj (field_to_data f))) p"

definition payload_from_data :: "pylib \<Rightarrow> json_object \<Rightarrow> payload result" where
  "payload_from_data L d =
     rbind (rmap (\<lambda>(k, v). rbind (rbind (as_object v ''classified payload field'') (field_from_data L))
        (\<lambda>f. Inr (k, f))) d) mk_payload"

definition payload_ok :: "payload \<Rightarrow> bool" where
  "payload_ok p \<longleftrightarrow> list_all (\<lambda>(k, f). trimmed k) p"

lemma mk_payload_Inr: "mk_payload p = Inr q \<longleftrightarrow> q = p \<and> payload_ok p"
  by (auto simp: mk_payload_def payload_ok_def list_ex_iff list_all_iff)

lemma payload_roundtrip: "payload_ok p \<Longrightarrow> payload_from_data L (payload_to_data p) = Inr p"
proof -
  assume ok: "payload_ok p"
  have "rmap (\<lambda>(k, v). rbind (rbind (as_object v n) (field_from_data L)) (\<lambda>f. Inr (k, f))) (payload_to_data p) = Inr p" for n
    by (induction p) (auto simp: payload_to_data_def)
  with ok show ?thesis by (simp add: payload_from_data_def mk_payload_Inr)
qed

subsection \<open>The envelope\<close>

record runtime_event =
  ev_id :: event_id
  ev_type :: string
  ev_schema :: string
  ev_occurred_at :: datetime
  ev_run_id :: run_id
  ev_root_run_id :: run_id
  ev_parent_run_id :: "run_id option"
  ev_sequence :: int
  ev_scope :: scope_ref
  ev_correlation_id :: string
  ev_causation_id :: "string option"
  ev_sensitivity :: sensitivity
  ev_delivery :: delivery_class
  ev_payload :: payload

text \<open>\<open>RuntimeEvent.__post_init__\<close>; the times of the model are in UTC.\<close>

definition mk_event :: "runtime_event \<Rightarrow> runtime_event result" where
  "mk_event e =
     (if ev_type e = [] \<or> CHR ''.'' \<notin> set (ev_type e) then Inl (ValueError ''event_type must be namespaced'')
      else if ev_schema e = [] then Inl (ValueError ''schema_version is required'')
      else if ev_sequence e < 1 then Inl (ValueError ''event sequence must be positive'')
      else Inr e)"

definition event_ok :: "runtime_event \<Rightarrow> bool" where
  "event_ok e \<longleftrightarrow> CHR ''.'' \<in> set (ev_type e) \<and> ev_schema e \<noteq> [] \<and> 1 \<le> ev_sequence e"

lemma mk_event_Inr: "mk_event e = Inr e' \<longleftrightarrow> e' = e \<and> event_ok e"
  by (auto simp: mk_event_def event_ok_def)

text \<open>The document that is hashed: the logical event, without identifier, time and sequence.\<close>

definition digest_data :: "runtime_event \<Rightarrow> json_object" where
  "digest_data e =
     [(''event_type'', JStr (ev_type e)),
      (''schema_version'', JStr (ev_schema e)),
      (''run_id'', JStr (ev_run_id e)),
      (''root_run_id'', JStr (ev_root_run_id e)),
      (''parent_run_id'', opt_str (ev_parent_run_id e)),
      (''scope'', scope_to_data (ev_scope e)),
      (''correlation_id'', JStr (ev_correlation_id e)),
      (''causation_id'', opt_str (ev_causation_id e)),
      (''sensitivity'', JStr (wire_name (ev_sensitivity e))),
      (''delivery_class'', JStr (delivery_class_value (ev_delivery e))),
      (''payload'', JObj (payload_to_data (ev_payload e)))]"

definition payload_digest :: "(json_object \<Rightarrow> string) \<Rightarrow> runtime_event \<Rightarrow> string" where
  "payload_digest H e = H (digest_data e)"

definition event_to_data :: "runtime_event \<Rightarrow> json_object" where
  "event_to_data e =
     [(''event_id'', JStr (ev_id e)),
      (''event_type'', JStr (ev_type e)),
      (''schema_version'', JStr (ev_schema e)),
      (''occurred_at'', JStr (isoformat (ev_occurred_at e))),
      (''run_id'', JStr (ev_run_id e)),
      (''root_run_id'', JStr (ev_root_run_id e)),
      (''parent_run_id'', opt_str (ev_parent_run_id e)),
      (''sequence'', JInt (ev_sequence e)),
      (''scope'', scope_to_data (ev_scope e)),
      (''correlation_id'', JStr (ev_correlation_id e)),
      (''causation_id'', opt_str (ev_causation_id e)),
      (''sensitivity'', JStr (wire_name (ev_sensitivity e))),
      (''delivery_class'', JStr (delivery_class_value (ev_delivery e))),
      (''payload'', JObj (payload_to_data (ev_payload e)))]"

definition event_from_data :: "pylib \<Rightarrow> json_object \<Rightarrow> runtime_event result" where
  "event_from_data L d =
     rbind (rbind (obj_index d ''scope'') (\<lambda>v. as_object v ''event Scope'')) (\<lambda>raw_scope.
     rbind (rbind (obj_index d ''payload'') (\<lambda>v. as_object v ''event payload'')) (\<lambda>raw_payload.
     rbind (rbind (field_str L d ''event_id'') mk_identifier) (\<lambda>i.
     rbind (field_str L d ''event_type'') (\<lambda>t.
     rbind (field_str L d ''schema_version'') (\<lambda>sv.
     rbind (rbind (field_str L d ''occurred_at'') (py_fromiso L)) (\<lambda>at.
     rbind (rbind (field_str L d ''run_id'') mk_identifier) (\<lambda>r.
     rbind (rbind (field_str L d ''root_run_id'') mk_identifier) (\<lambda>root.
     rbind (field_opt L d ''parent_run_id'' mk_identifier) (\<lambda>parent.
     rbind (rbind (obj_index d ''sequence'') (\<lambda>v. as_int v ''event sequence'')) (\<lambda>n.
     rbind (scope_from_data L raw_scope) (\<lambda>scope.
     rbind (rbind (field_str L d ''correlation_id'') mk_identifier) (\<lambda>corr.
     rbind (field_opt L d ''causation_id'' mk_identifier) (\<lambda>cause.
     rbind (rbind (field_str L d ''sensitivity'') from_wire) (\<lambda>sens.
     rbind (rbind (field_str L d ''delivery_class'') (enum_of L ''DeliveryClass'' delivery_classes)) (\<lambda>dc.
     rbind (payload_from_data L raw_payload) (\<lambda>p.
     mk_event \<lparr>ev_id = i, ev_type = t, ev_schema = sv, ev_occurred_at = at, ev_run_id = r,
       ev_root_run_id = root, ev_parent_run_id = parent, ev_sequence = n, ev_scope = scope,
       ev_correlation_id = corr, ev_causation_id = cause, ev_sensitivity = sens, ev_delivery = dc,
       ev_payload = p\<rparr>))))))))))))))))"

definition event_codable :: "runtime_event \<Rightarrow> bool" where
  "event_codable e \<longleftrightarrow> event_ok e \<and> payload_ok (ev_payload e) \<and> scope_ok (ev_scope e)
     \<and> list_all identifier_ok [ev_id e, ev_run_id e, ev_root_run_id e, ev_correlation_id e]
     \<and> list_all opt_id_ok [ev_parent_run_id e, ev_causation_id e] \<and> datetime_ok (ev_occurred_at e)"

lemma event_roundtrip:
  assumes L: "iso_inverse L" and ok: "event_codable e"
  shows "event_from_data L (event_to_data e) = Inr e"
proof -
  note parts = ok [unfolded event_codable_def]
  obtain sc where sc: "scope_to_data (ev_scope e) = JObj sc" using scope_to_data_object by blast
  have scope: "scope_from_data L sc = Inr (ev_scope e)"
    using scope_roundtrip_object [of "ev_scope e" "''''" sc L] parts sc by simp
  show ?thesis
    unfolding event_from_data_def
    using parts sc scope L
    by (cases e) (simp add: event_to_data_def payload_roundtrip mk_event_Inr iso_inverse_def)
qed

subsection \<open>Acknowledgements and sinks\<close>

record event_ack =
  ack_id :: string
  ack_event :: event_id
  ack_sink :: string
  ack_digest :: string
  ack_at :: datetime

definition mk_ack :: "event_ack \<Rightarrow> event_ack result" where
  "mk_ack a = (if ack_sink a = [] \<or> ack_digest a = []
     then Inl (ValueError ''sink identity and payload digest are required'') else Inr a)"

record sink_capabilities =
  sc_classes :: "delivery_class set"
  sc_schemas :: "(string \<times> string) set"
  sc_maximum :: sensitivity
  sc_ack :: bool
  sc_batch :: bool
  sc_retry_safe :: bool

definition schema_supported :: "sink_capabilities \<Rightarrow> runtime_event \<Rightarrow> bool" where
  "schema_supported c e \<longleftrightarrow> (ev_type e, ev_schema e) \<in> sc_schemas c \<or> (''*'', ''*'') \<in> sc_schemas c"

definition supports :: "sink_capabilities \<Rightarrow> runtime_event \<Rightarrow> bool" where
  "supports c e \<longleftrightarrow> ev_delivery e \<in> sc_classes c \<and> schema_supported c e \<and> ev_sensitivity e \<le> sc_maximum c
     \<and> (ev_delivery e \<noteq> AUDIT \<or> sc_ack c)"

subsection \<open>Redaction\<close>

text \<open>\<open>ExplicitSensitivityRedactionPolicy.redact\<close>; \<open>replace\<close> runs the validators again.\<close>

definition max_sensitivity :: "sensitivity list \<Rightarrow> sensitivity" where
  "max_sensitivity xs = (case xs of [] \<Rightarrow> PUBLIC | x # ys \<Rightarrow> fold max ys x)"

definition visible_fields :: "sensitivity \<Rightarrow> payload \<Rightarrow> payload" where
  "visible_fields m p = filter (\<lambda>(k, f). pf_sensitivity f \<le> m) p"

definition redact :: "runtime_event \<Rightarrow> sensitivity \<Rightarrow> runtime_event result" where
  "redact e m =
     (let visible = visible_fields m (ev_payload e);
          s = max_sensitivity (List.map (\<lambda>(k, f). pf_sensitivity f) visible)
      in rbind (mk_payload visible) (\<lambda>p.
         mk_event (e\<lparr>ev_sensitivity := min (ev_sensitivity e) s, ev_payload := p\<rparr>)))"

definition payload_sensitivity :: "payload \<Rightarrow> sensitivity" where
  "payload_sensitivity p = max_sensitivity (List.map (\<lambda>(k, f). pf_sensitivity f) p)"

lemma max_sensitivity_iff: "max_sensitivity xs \<le> m \<longleftrightarrow> (\<forall>x \<in> set xs. x \<le> m)"
proof -
  have "fold max ys x \<le> m \<longleftrightarrow> x \<le> m \<and> (\<forall>y \<in> set ys. y \<le> m)" for ys and x :: sensitivity
    by (induction ys arbitrary: x) auto
  then show ?thesis by (cases xs) (auto simp: max_sensitivity_def)
qed

lemma redact_Inr:
  "redact e m = Inr e' \<longleftrightarrow> event_ok e \<and> payload_ok (visible_fields m (ev_payload e))
     \<and> e' = e\<lparr>ev_sensitivity := min (ev_sensitivity e) (payload_sensitivity (visible_fields m (ev_payload e))),
          ev_payload := visible_fields m (ev_payload e)\<rparr>"
  by (auto simp: redact_def Let_def rbind_eq_Inr mk_payload_Inr mk_event_Inr event_ok_def payload_sensitivity_def)

lemma payload_sensitivity_visible: "payload_sensitivity (visible_fields m p) \<le> m"
  by (auto simp: payload_sensitivity_def max_sensitivity_iff visible_fields_def)

lemma visible_fields_idem [simp]: "visible_fields m (visible_fields m p) = visible_fields m p"
  by (simp add: visible_fields_def)

lemma redact_idem: "redact e m = Inr e' \<Longrightarrow> redact e' m = Inr e'"
  by (auto simp: redact_Inr event_ok_def)

lemma redact_possible: "event_ok e \<Longrightarrow> payload_ok (ev_payload e) \<Longrightarrow> \<exists>e'. redact e m = Inr e'"
  by (auto simp: redact_Inr payload_ok_def visible_fields_def list_all_iff)

section \<open>Event schemas\<close>

text \<open>
  \<open>event/schema.py\<close> and \<open>CoreEventType\<close> of \<open>event/model.py\<close>: validators registered per event
  type and version, and the registry of the Core events with the fields each requires.
\<close>

datatype core_event_type =
    EV_RUN_STATE_CHANGED | EV_CONTEXT_RESOLUTION_STARTED | EV_CONTEXT_PROVIDER_SELECTED
  | EV_CONTEXT_RESOLUTION_COMPLETED | EV_CONTEXT_RESOLUTION_FAILED | EV_MODEL_INVOCATION_STARTED
  | EV_MODEL_INVOCATION_COMPLETED | EV_MODEL_INVOCATION_FAILED | EV_MEMORY_OPERATION_STARTED
  | EV_MEMORY_OPERATION_COMPLETED | EV_MEMORY_OPERATION_FAILED | EV_SKILL_RESOURCE_LOAD_STARTED
  | EV_SKILL_RESOURCE_LOAD_COMPLETED | EV_SKILL_RESOURCE_LOAD_FAILED | EV_TOOL_INVOCATION_STARTED
  | EV_TOOL_INVOCATION_COMPLETED | EV_TOOL_INVOCATION_FAILED | EV_APPROVAL_REQUESTED
  | EV_APPROVAL_DECIDED | EV_AUTHORIZATION_DENIED | EV_AUTHORIZATION_CROSS_SCOPE_GRANTED
  | EV_CHECKPOINT_SAVED | EV_CHECKPOINT_FAILED | EV_CHECKPOINT_MIGRATION_AUTHORIZED
  | EV_CHECKPOINT_FALLBACK_AUTHORIZED | EV_EVALUATION_STARTED | EV_EVALUATION_VERDICT_RECORDED
  | EV_ARTIFACT_CREATED | EV_PLUGIN_LIFECYCLE_TRANSITION_REQUESTED | EV_PLUGIN_LIFECYCLE_CHANGED
  | EV_PLUGIN_LIFECYCLE_FAILED

fun core_event_value :: "core_event_type \<Rightarrow> string" where
  "core_event_value EV_RUN_STATE_CHANGED = ''core.run.state_changed''"
| "core_event_value EV_CONTEXT_RESOLUTION_STARTED = ''core.context.resolution_started''"
| "core_event_value EV_CONTEXT_PROVIDER_SELECTED = ''core.context.provider_selected''"
| "core_event_value EV_CONTEXT_RESOLUTION_COMPLETED = ''core.context.resolution_completed''"
| "core_event_value EV_CONTEXT_RESOLUTION_FAILED = ''core.context.resolution_failed''"
| "core_event_value EV_MODEL_INVOCATION_STARTED = ''core.model.invocation_started''"
| "core_event_value EV_MODEL_INVOCATION_COMPLETED = ''core.model.invocation_completed''"
| "core_event_value EV_MODEL_INVOCATION_FAILED = ''core.model.invocation_failed''"
| "core_event_value EV_MEMORY_OPERATION_STARTED = ''core.memory.operation_started''"
| "core_event_value EV_MEMORY_OPERATION_COMPLETED = ''core.memory.operation_completed''"
| "core_event_value EV_MEMORY_OPERATION_FAILED = ''core.memory.operation_failed''"
| "core_event_value EV_SKILL_RESOURCE_LOAD_STARTED = ''core.skill.resource_load_started''"
| "core_event_value EV_SKILL_RESOURCE_LOAD_COMPLETED = ''core.skill.resource_load_completed''"
| "core_event_value EV_SKILL_RESOURCE_LOAD_FAILED = ''core.skill.resource_load_failed''"
| "core_event_value EV_TOOL_INVOCATION_STARTED = ''core.tool.invocation_started''"
| "core_event_value EV_TOOL_INVOCATION_COMPLETED = ''core.tool.invocation_completed''"
| "core_event_value EV_TOOL_INVOCATION_FAILED = ''core.tool.invocation_failed''"
| "core_event_value EV_APPROVAL_REQUESTED = ''core.approval.requested''"
| "core_event_value EV_APPROVAL_DECIDED = ''core.approval.decided''"
| "core_event_value EV_AUTHORIZATION_DENIED = ''core.authorization.denied''"
| "core_event_value EV_AUTHORIZATION_CROSS_SCOPE_GRANTED = ''core.authorization.cross_scope_granted''"
| "core_event_value EV_CHECKPOINT_SAVED = ''core.checkpoint.saved''"
| "core_event_value EV_CHECKPOINT_FAILED = ''core.checkpoint.failed''"
| "core_event_value EV_CHECKPOINT_MIGRATION_AUTHORIZED = ''core.checkpoint.migration_authorized''"
| "core_event_value EV_CHECKPOINT_FALLBACK_AUTHORIZED = ''core.checkpoint.fallback_authorized''"
| "core_event_value EV_EVALUATION_STARTED = ''core.evaluation.started''"
| "core_event_value EV_EVALUATION_VERDICT_RECORDED = ''core.evaluation.verdict_recorded''"
| "core_event_value EV_ARTIFACT_CREATED = ''core.artifact.created''"
| "core_event_value EV_PLUGIN_LIFECYCLE_TRANSITION_REQUESTED = ''core.plugin.lifecycle_transition_requested''"
| "core_event_value EV_PLUGIN_LIFECYCLE_CHANGED = ''core.plugin.lifecycle_changed''"
| "core_event_value EV_PLUGIN_LIFECYCLE_FAILED = ''core.plugin.lifecycle_failed''"

definition core_event_types :: "core_event_type list" where
  "core_event_types = [
    EV_RUN_STATE_CHANGED, EV_CONTEXT_RESOLUTION_STARTED, EV_CONTEXT_PROVIDER_SELECTED,
    EV_CONTEXT_RESOLUTION_COMPLETED, EV_CONTEXT_RESOLUTION_FAILED, EV_MODEL_INVOCATION_STARTED,
    EV_MODEL_INVOCATION_COMPLETED, EV_MODEL_INVOCATION_FAILED, EV_MEMORY_OPERATION_STARTED,
    EV_MEMORY_OPERATION_COMPLETED, EV_MEMORY_OPERATION_FAILED, EV_SKILL_RESOURCE_LOAD_STARTED,
    EV_SKILL_RESOURCE_LOAD_COMPLETED, EV_SKILL_RESOURCE_LOAD_FAILED, EV_TOOL_INVOCATION_STARTED,
    EV_TOOL_INVOCATION_COMPLETED, EV_TOOL_INVOCATION_FAILED, EV_APPROVAL_REQUESTED,
    EV_APPROVAL_DECIDED, EV_AUTHORIZATION_DENIED, EV_AUTHORIZATION_CROSS_SCOPE_GRANTED,
    EV_CHECKPOINT_SAVED, EV_CHECKPOINT_FAILED, EV_CHECKPOINT_MIGRATION_AUTHORIZED,
    EV_CHECKPOINT_FALLBACK_AUTHORIZED, EV_EVALUATION_STARTED, EV_EVALUATION_VERDICT_RECORDED,
    EV_ARTIFACT_CREATED, EV_PLUGIN_LIFECYCLE_TRANSITION_REQUESTED, EV_PLUGIN_LIFECYCLE_CHANGED,
    EV_PLUGIN_LIFECYCLE_FAILED]"

text \<open>The table \<open>requirements\<close>; \<open>requirements.get(event_type, ())\<close> for the others.\<close>

fun required_fields :: "core_event_type \<Rightarrow> string list" where
  "required_fields EV_RUN_STATE_CHANGED = [''previous_status'', ''new_status'', ''attempt'', ''reason'', ''state_version'']"
| "required_fields EV_CONTEXT_RESOLUTION_STARTED = [''key_count'', ''strategy'']"
| "required_fields EV_CONTEXT_PROVIDER_SELECTED = [''provider_id'', ''key_count'']"
| "required_fields EV_CONTEXT_RESOLUTION_COMPLETED = [''provider_count'', ''entry_count'', ''completeness'',
     ''byte_count'', ''latency_ms'', ''outcome'']"
| "required_fields EV_CONTEXT_RESOLUTION_FAILED = [''error_code'', ''category'', ''latency_ms'', ''outcome'']"
| "required_fields EV_MODEL_INVOCATION_STARTED = [''operation'', ''provider_id'', ''model_id'']"
| "required_fields EV_MODEL_INVOCATION_COMPLETED = [''operation'', ''provider_id'', ''model_id'', ''finish_reason'',
     ''input_units'', ''output_units'', ''latency_ms'', ''outcome'']"
| "required_fields EV_MODEL_INVOCATION_FAILED = [''operation'', ''category'', ''error_code'', ''latency_ms'', ''outcome'']"
| "required_fields EV_MEMORY_OPERATION_STARTED = [''operation'', ''provider_id'']"
| "required_fields EV_MEMORY_OPERATION_COMPLETED = [''operation'', ''provider_id'', ''record_count'',
     ''affected_count'', ''outcome'', ''latency_ms'']"
| "required_fields EV_MEMORY_OPERATION_FAILED = [''operation'', ''provider_id'', ''error_code'',
     ''category'', ''outcome'', ''latency_ms'']"
| "required_fields EV_APPROVAL_REQUESTED = [''approval_id'', ''node_id'', ''correlation_id'', ''outcome'']"
| "required_fields EV_APPROVAL_DECIDED = [''approval_id'', ''node_id'', ''correlation_id'', ''actor'', ''outcome'']"
| "required_fields EV_AUTHORIZATION_DENIED = [''principal'', ''action'', ''resource'', ''reason_code'', ''policy_effect'']"
| "required_fields EV_AUTHORIZATION_CROSS_SCOPE_GRANTED = [''principal'', ''action'', ''resource'',
     ''source_scope'', ''destination_scope'', ''policy_version'']"
| "required_fields EV_CHECKPOINT_SAVED = [''checkpoint_ref'', ''sequence'', ''graph_version'', ''outcome'']"
| "required_fields EV_CHECKPOINT_FAILED = [''checkpoint_ref'', ''sequence'', ''error_code'', ''category'', ''outcome'']"
| "required_fields EV_CHECKPOINT_MIGRATION_AUTHORIZED = [''source_checkpoint_ref'', ''migrated_checkpoint_ref'',
     ''source_graph_version'', ''target_graph_version'']"
| "required_fields EV_CHECKPOINT_FALLBACK_AUTHORIZED = [''source_checkpoint_ref'', ''fallback_checkpoint_ref'', ''fallback_sequence'']"
| "required_fields EV_EVALUATION_STARTED = [''evaluation_id'', ''schema_ref'', ''policy_ref'', ''evaluator_id'', ''profile_ref'']"
| "required_fields EV_EVALUATION_VERDICT_RECORDED = [''evaluation_id'', ''schema_ref'', ''evaluator_id'', ''profile_ref'', ''verdict'',
     ''terminal_stage'', ''reason_code'', ''error_code'', ''evidence_refs'', ''result_digest'']"
| "required_fields EV_PLUGIN_LIFECYCLE_TRANSITION_REQUESTED = [''plugin_id'', ''plugin_version'', ''from_state'',
     ''to_state'', ''operation_id'', ''active_lease_count'', ''outcome'']"
| "required_fields EV_PLUGIN_LIFECYCLE_CHANGED = [''plugin_id'', ''plugin_version'', ''from_state'',
     ''to_state'', ''operation_id'', ''active_lease_count'', ''outcome'']"
| "required_fields EV_PLUGIN_LIFECYCLE_FAILED = [''plugin_id'', ''plugin_version'', ''from_state'', ''to_state'',
     ''operation_id'', ''active_lease_count'', ''outcome'', ''error_code'']"
| "required_fields _ = []"

subsection \<open>The registry\<close>

type_synonym payload_validator = "runtime_event \<Rightarrow> unit result"

type_synonym event_schemas = "string \<times> string \<rightharpoonup> payload_validator"

definition event_schema_taken :: "string \<times> string \<Rightarrow> exn" where
  "event_schema_taken k = core_error CONFLICT ''event_schema_already_registered''
     ''event schema is already registered'' False None"

definition register_event_schema :: "string \<times> string \<Rightarrow> payload_validator \<Rightarrow> event_schemas \<Rightarrow> event_schemas result" where
  "register_event_schema k v r = (case r k of
       Some _ \<Rightarrow> Inl (event_schema_taken k) | None \<Rightarrow> Inr (r(k \<mapsto> v)))"

interpretation event_registry: once_registry "\<lambda>(k, v). register_event_schema k v" "\<lambda>r k. r k" fst snd
    "\<lambda>(k, v). event_schema_taken k"
  by unfold_locales (auto simp: register_event_schema_def)

definition unsupported_schema :: "string \<Rightarrow> exn" where
  "unsupported_schema msg = core_error VERSION_MISMATCH ''unsupported_event_schema'' msg False None"

definition validate_event :: "event_schemas \<Rightarrow> runtime_event \<Rightarrow> unit result" where
  "validate_event r e = (case r (ev_type e, ev_schema e) of
       None \<Rightarrow> Inl (unsupported_schema ''event type or schema version is not registered'')
     | Some v \<Rightarrow> v e)"

text \<open>\<open>require_payload_fields\<close>: \<open>required\<close> as a set, its missing members sorted.\<close>

definition missing_fields :: "string list \<Rightarrow> runtime_event \<Rightarrow> string list" where
  "missing_fields required e = filter (\<lambda>n. n \<notin> fst ` set (ev_payload e)) (sort (remdups required))"

definition require_payload_fields :: "string list \<Rightarrow> payload_validator" where
  "require_payload_fields required e =
     (let missing = missing_fields required e
      in if missing \<noteq> []
         then Inl (core_error INVALID_REQUEST ''invalid_event_payload''
                (''event payload is missing required fields: '' @ join_with '', '' missing) False None)
         else Inr ())"

definition core_schema_registry :: "event_schemas result" where
  "core_schema_registry = event_registry.reg_all
     (List.map (\<lambda>t. ((core_event_value t, ''1''), require_payload_fields (required_fields t))) core_event_types) Map.empty"

lemma set_core_event_types [simp]: "set core_event_types = UNIV"
proof (intro equalityI subsetI)
  fix t :: core_event_type
  show "t \<in> set core_event_types" by (cases t) (simp_all only: core_event_types_def list.set insert_iff simp_thms)
qed simp

lemma core_event_values_distinct: "distinct (List.map core_event_value core_event_types)"
  by code_simp

lemma core_event_value_inject [simp]: "core_event_value a = core_event_value b \<longleftrightarrow> a = b"
proof -
  have "inj core_event_value" using core_event_values_distinct by (simp add: distinct_map)
  then show ?thesis by (rule inj_eq)
qed

text \<open>The start-up loop never meets a duplicate, and every Core event type has its validator.\<close>

lemma core_schema_registry_total:
  "\<exists>r. core_schema_registry = Inr r
     \<and> (\<forall>t. r (core_event_value t, ''1'') = Some (require_payload_fields (required_fields t)))
     \<and> (\<forall>k. r k \<noteq> None \<longrightarrow> (\<exists>t. k = (core_event_value t, ''1'')))"
proof -
  let ?kvs = "List.map (\<lambda>t. ((core_event_value t, ''1''), require_payload_fields (required_fields t))) core_event_types"
  have "distinct (List.map core_event_value core_event_types)" by (rule core_event_values_distinct)
  then have d: "distinct (List.map fst ?kvs)" by (simp add: distinct_map comp_def inj_on_def)
  obtain r where r: "core_schema_registry = Inr r"
    using event_registry.reg_all_possible [OF d, of Map.empty] by (auto simp: core_schema_registry_def)
  then have eq: "r = map_of ?kvs"
    using event_registry.reg_all_effect [of ?kvs Map.empty r]
    by (simp add: core_schema_registry_def event_registry.entries_def comp_def)
  have "r (core_event_value t, ''1'') = Some (require_payload_fields (required_fields t))" for t
    unfolding eq by (rule map_of_is_SomeI [OF d]) simp
  moreover have "\<exists>t. k = (core_event_value t, ''1'')" if "r k \<noteq> None" for k
    using that unfolding eq by (auto dest!: map_of_SomeD)
  ultimately show ?thesis using r by blast
qed

lemma require_payload_fields_iff:
  "require_payload_fields req e = Inr u \<longleftrightarrow> set req \<subseteq> fst ` set (ev_payload e)"
  by (auto simp: require_payload_fields_def missing_fields_def Let_def filter_empty_conv)

end
