(* ===== verification/Event_Ledger.thy ===== *)
theory Event_Ledger
  imports Event_Model Authorization
begin

section \<open>The audit outbox and the event sequences\<close>

text \<open>
  \<open>event/ports.py\<close> and \<open>InMemoryEventLedger\<close> of \<open>event/memory.py\<close>. The ledger hands out the
  numbers of a Run's events and keeps every audit event until the sink it was meant for has
  acknowledged it. Each operation holds the ledger's lock, so it is one step.
\<close>

record pending_delivery =
  pd_event :: runtime_event
  pd_sink :: string
  pd_context :: call_context
  pd_principal :: principal
  pd_digest :: string
  pd_attempts :: int
  pd_last_error :: "string option"

type_synonym event_key = "event_id \<times> string"

record event_ledger =
  el_sequences :: "run_id \<rightharpoonup> int"
  el_pending :: "(event_key \<times> pending_delivery) list"
  el_acknowledged :: "event_key \<rightharpoonup> event_ack"

definition empty_ledger :: event_ledger where
  "empty_ledger = \<lparr>el_sequences = Map.empty, el_pending = [], el_acknowledged = Map.empty\<rparr>"

definition next_sequence :: "run_id \<Rightarrow> (event_ledger, exn, int) action" where
  "next_sequence r l =
     (let n = (case el_sequences l r of None \<Rightarrow> 0 | Some k \<Rightarrow> k) + 1
      in (Inr n, l\<lparr>el_sequences := (el_sequences l)(r \<mapsto> n)\<rparr>))"

definition identity_conflict :: exn where
  "identity_conflict = core_error CONFLICT ''event_identity_conflict''
     ''event identity was reused with a different payload'' False None"

definition enqueue ::
  "(json_object \<Rightarrow> string) \<Rightarrow> runtime_event \<Rightarrow> string \<Rightarrow> call_context \<Rightarrow> principal \<Rightarrow> (event_ledger, exn, unit) action" where
  "enqueue H e sink c p l =
     (let key = (ev_id e, sink);
          digest = payload_digest H e;
          existing = map_of (el_pending l) key;
          ack = el_acknowledged l key;
          existing_digest = (case existing of Some x \<Rightarrow> Some (pd_digest x) | None \<Rightarrow> map_option ack_digest ack)
      in if existing_digest \<noteq> None \<and> existing_digest \<noteq> Some digest then (Inl identity_conflict, l)
         else if existing = None \<and> ack = None
         then (Inr (), l\<lparr>el_pending := AList.update key \<lparr>pd_event = e, pd_sink = sink, pd_context = c,
                 pd_principal = p, pd_digest = digest, pd_attempts = 0, pd_last_error = None\<rparr> (el_pending l)\<rparr>)
         else (Inr (), l))"

definition entry_not_found :: exn where
  "entry_not_found = core_error INVALID_REQUEST ''outbox_entry_not_found''
     ''pending audit delivery does not exist'' False None"

definition mark_attempt :: "event_id \<Rightarrow> string \<Rightarrow> string option \<Rightarrow> (event_ledger, exn, unit) action" where
  "mark_attempt i sink err l =
     (case map_of (el_pending l) (i, sink) of
        None \<Rightarrow> if el_acknowledged l (i, sink) \<noteq> None then (Inr (), l) else (Inl entry_not_found, l)
      | Some p \<Rightarrow> (Inr (), l\<lparr>el_pending := AList.update (i, sink)
          (p\<lparr>pd_attempts := pd_attempts p + 1, pd_last_error := err\<rparr>) (el_pending l)\<rparr>))"

definition ack_conflict :: "string \<Rightarrow> exn" where
  "ack_conflict msg = core_error CONFLICT ''acknowledgement_conflict'' msg False None"

definition acknowledge :: "event_ack \<Rightarrow> (event_ledger, exn, unit) action" where
  "acknowledge a l =
     (let key = (ack_event a, ack_sink a)
      in case el_acknowledged l key of
           Some x \<Rightarrow> if ack_digest x \<noteq> ack_digest a
             then (Inl (ack_conflict ''acknowledgement payload digest conflicts with existing value''), l)
             else (Inr (), l)
         | None \<Rightarrow> (case map_of (el_pending l) key of
             None \<Rightarrow> (Inl (ack_conflict ''acknowledgement does not match pending Event payload''), l)
           | Some p \<Rightarrow> if pd_digest p \<noteq> ack_digest a
               then (Inl (ack_conflict ''acknowledgement does not match pending Event payload''), l)
               else (Inr (), l\<lparr>el_acknowledged := (el_acknowledged l)(key \<mapsto> a),
                       el_pending := AList.delete key (el_pending l)\<rparr>)))"

text \<open>\<open>values[:limit]\<close>: a negative limit counts from the end.\<close>

definition py_prefix :: "int \<Rightarrow> 'a list \<Rightarrow> 'a list" where
  "py_prefix n xs = (if 0 \<le> n then take (nat n) xs else take (length xs - nat (- n)) xs)"

definition pending :: "int \<Rightarrow> (event_ledger, exn, pending_delivery list) action" where
  "pending limit l = (Inr (py_prefix limit (List.map snd (el_pending l))), l)"

subsection \<open>The promise of an outbox\<close>

text \<open>
  What the rest of the system relies on, for one event and one sink: nothing has been stored,
  the event with this digest is waiting, or it has been acknowledged.
\<close>

datatype delivery_status = Unsent | Waiting string | Delivered string

definition spec_enqueue :: "event_key \<Rightarrow> string \<Rightarrow> (event_key \<Rightarrow> delivery_status) \<Rightarrow> (event_key \<Rightarrow> delivery_status) option" where
  "spec_enqueue k d s = (case s k of
       Unsent \<Rightarrow> Some (s(k := Waiting d))
     | Waiting d' \<Rightarrow> if d' = d then Some s else None
     | Delivered d' \<Rightarrow> if d' = d then Some s else None)"

definition spec_mark :: "event_key \<Rightarrow> (event_key \<Rightarrow> delivery_status) \<Rightarrow> (event_key \<Rightarrow> delivery_status) option" where
  "spec_mark k s = (if s k = Unsent then None else Some s)"

definition spec_acknowledge :: "event_key \<Rightarrow> string \<Rightarrow> (event_key \<Rightarrow> delivery_status) \<Rightarrow> (event_key \<Rightarrow> delivery_status) option" where
  "spec_acknowledge k d s = (case s k of
       Unsent \<Rightarrow> None
     | Waiting d' \<Rightarrow> if d' = d then Some (s(k := Delivered d)) else None
     | Delivered d' \<Rightarrow> if d' = d then Some s else None)"

text \<open>The abstraction of a ledger, and its invariant.\<close>

fun status_of :: "event_ack option \<Rightarrow> pending_delivery option \<Rightarrow> delivery_status" where
  "status_of (Some a) _ = Delivered (ack_digest a)"
| "status_of None (Some p) = Waiting (pd_digest p)"
| "status_of None None = Unsent"

definition ledger_status :: "event_ledger \<Rightarrow> event_key \<Rightarrow> delivery_status" where
  "ledger_status l k = status_of (el_acknowledged l k) (map_of (el_pending l) k)"

definition ledger_invar :: "event_ledger \<Rightarrow> bool" where
  "ledger_invar l \<longleftrightarrow> distinct (List.map fst (el_pending l))
     \<and> fst ` set (el_pending l) \<inter> dom (el_acknowledged l) = {}
     \<and> (\<forall>(k, p) \<in> set (el_pending l). k = (ev_id (pd_event p), pd_sink p) \<and> 0 \<le> pd_attempts p)
     \<and> (\<forall>k a. el_acknowledged l k = Some a \<longrightarrow> k = (ack_event a, ack_sink a))"

text \<open>An outcome refines a specification: it returns exactly when the specification allows it.\<close>

definition refines_spec :: "(exn + unit) \<times> event_ledger \<Rightarrow> event_ledger \<Rightarrow> (event_key \<Rightarrow> delivery_status) option \<Rightarrow> bool" where
  "refines_spec out l spec = (case out of
       (Inr _, l') \<Rightarrow> spec = Some (ledger_status l')
     | (Inl _, l') \<Rightarrow> l' = l \<and> spec = None)"

lemma pending_not_acknowledged:
  assumes "ledger_invar l" "map_of (el_pending l) k = Some p"
  shows "el_acknowledged l k = None"
proof -
  have "k \<in> fst ` set (el_pending l)" using map_of_SomeD [OF assms(2)] by force
  then show ?thesis using assms(1) unfolding ledger_invar_def by (elim conjE) blast
qed

lemma enqueue_refines:
  assumes "ledger_invar l"
  shows "refines_spec (enqueue H e s c p l) l (spec_enqueue (ev_id e, s) (payload_digest H e) (ledger_status l))"
  using pending_not_acknowledged [OF assms, of "(ev_id e, s)"]
  by (cases "map_of (el_pending l) (ev_id e, s)"; cases "el_acknowledged l (ev_id e, s)")
    (auto simp: refines_spec_def enqueue_def spec_enqueue_def ledger_status_def Let_def fun_eq_iff)

lemma mark_attempt_refines:
  assumes "ledger_invar l"
  shows "refines_spec (mark_attempt i s err l) l (spec_mark (i, s) (ledger_status l))"
  using pending_not_acknowledged [OF assms, of "(i, s)"]
  by (cases "map_of (el_pending l) (i, s)"; cases "el_acknowledged l (i, s)")
    (auto simp: refines_spec_def mark_attempt_def spec_mark_def ledger_status_def fun_eq_iff)

lemma acknowledge_refines:
  assumes "ledger_invar l"
  shows "refines_spec (acknowledge a l) l (spec_acknowledge (ack_event a, ack_sink a) (ack_digest a) (ledger_status l))"
proof -
  let ?k = "(ack_event a, ack_sink a)"
  have d: "distinct (List.map fst (el_pending l))" using assms by (simp add: ledger_invar_def)
  show ?thesis
    using pending_not_acknowledged [OF assms, of ?k]
    by (cases "map_of (el_pending l) ?k"; cases "el_acknowledged l ?k")
      (auto simp: refines_spec_def acknowledge_def spec_acknowledge_def ledger_status_def Let_def fun_eq_iff
        delete_conv)
qed

subsection \<open>Invariant\<close>

lemma ledger_invar_empty: "ledger_invar empty_ledger"
  by (simp add: ledger_invar_def empty_ledger_def)

lemma set_AList_update: "distinct (List.map fst al) \<Longrightarrow> set (AList.update k v al) = insert (k, v) {x \<in> set al. fst x \<noteq> k}"
  by (induction al) (auto simp: image_iff)

lemma enqueue_invar: "ledger_invar l \<Longrightarrow> ledger_invar (snd (enqueue H e s c p l))"
  by (auto simp: ledger_invar_def enqueue_def Let_def distinct_update set_AList_update dom_update)

lemma mark_attempt_invar: "ledger_invar l \<Longrightarrow> ledger_invar (snd (mark_attempt i s err l))"
proof (cases "map_of (el_pending l) (i, s)")
  case (Some p)
  assume inv: "ledger_invar l"
  have "((i, s), p) \<in> set (el_pending l)" using Some by (rule map_of_SomeD)
  then have "(i, s) = (ev_id (pd_event p), pd_sink p) \<and> 0 \<le> pd_attempts p"
    using inv unfolding ledger_invar_def by (elim conjE) (drule bspec, assumption, simp)
  then show ?thesis
    using inv pending_not_acknowledged [OF inv Some]
    unfolding mark_attempt_def Some by (auto simp: ledger_invar_def distinct_update set_AList_update dom_update)
qed (simp add: mark_attempt_def)

lemma acknowledge_invar: "ledger_invar l \<Longrightarrow> ledger_invar (snd (acknowledge a l))"
  by (cases "map_of (el_pending l) (ack_event a, ack_sink a)"; cases "el_acknowledged l (ack_event a, ack_sink a)")
    (auto simp: ledger_invar_def acknowledge_def Let_def AList.delete_eq distinct_map_filter)

lemma next_sequence_invar: "ledger_invar l \<Longrightarrow> ledger_invar (snd (next_sequence r l))"
  by (simp add: ledger_invar_def next_sequence_def Let_def)

end
