(* ===== verification/Event_Dispatcher.thy ===== *)
theory Event_Dispatcher
  imports Event_Model Event_Ledger Json_Codec
begin

section \<open>The event dispatcher\<close>

text \<open>
  \<open>EventDispatcher\<close> of \<open>event/dispatcher.py\<close>: creation of events with their sequence numbers,
  preparation of an event for one sink, reliable delivery of audit events through the outbox,
  the queue of observations and recovery. The sequence store, the outbox, the sinks, the
  policy, the clock and the sleeper are injected: they are actions on a world \<open>'w\<close>. The
  dispatcher's own state is the first component of the state, the world the second.
\<close>

subsection \<open>Ports\<close>

record 'w event_sink =
  sk_id :: string
  sk_capabilities :: sink_capabilities
  sk_deliver :: "runtime_event \<Rightarrow> call_context \<Rightarrow> ('w, exn, event_ack option) action"

record 'w sink_registration =
  sr_sink :: "'w event_sink"
  sr_required :: bool

text \<open>\<open>EventDeliveryPolicy\<close>; the delays are doubles, by their bits.\<close>

record delivery_policy =
  dp_audit_attempts :: int
  dp_observability_attempts :: int
  dp_base_delay :: "64 word"
  dp_maximum_delay :: "64 word"
  dp_queue_capacity :: int

definition float_negative :: "64 word \<Rightarrow> bool" where
  "float_negative w \<longleftrightarrow> float_sign w = -1 \<and> (if float_finite w then float_scaled w \<noteq> 0 else float_fraction w = 0)"

definition mk_delivery_policy :: "delivery_policy \<Rightarrow> delivery_policy result" where
  "mk_delivery_policy p =
     (if dp_audit_attempts p < 1 \<or> dp_observability_attempts p < 1
      then Inl (ValueError ''delivery attempts must be positive'')
      else if float_negative (dp_base_delay p) \<or> float_negative (dp_maximum_delay p)
      then Inl (ValueError ''retry delays must not be negative'')
      else if dp_queue_capacity p < 1
      then Inl (ValueError ''observability queue capacity must be positive'')
      else Inr p)"

record 'w event_ports =
  ep_next_sequence :: "run_id \<Rightarrow> ('w, exn, int) action"
  ep_enqueue :: "runtime_event \<Rightarrow> string \<Rightarrow> call_context \<Rightarrow> principal \<Rightarrow> ('w, exn, unit) action"
  ep_mark :: "event_id \<Rightarrow> string \<Rightarrow> string option \<Rightarrow> ('w, exn, unit) action"
  ep_acknowledge :: "event_ack \<Rightarrow> ('w, exn, unit) action"
  ep_pending :: "int \<Rightarrow> ('w, exn, pending_delivery list) action"
  ep_schemas :: event_schemas
  ep_sinks :: "'w sink_registration list"
  ep_clock :: "'w \<Rightarrow> datetime"
  ep_authorize :: "(access_request \<Rightarrow> ('w, exn, decision) action) option"
  ep_redact :: "runtime_event \<Rightarrow> sensitivity \<Rightarrow> runtime_event result"
  ep_policy :: delivery_policy
  ep_backoff :: "int \<Rightarrow> ('w, exn, unit) action"
  ep_new_id :: "('w, exn, string) action"

record diagnostic =
  dg_event :: event_id
  dg_sink :: "string option"
  dg_code :: string
  dg_message :: string

record queued_observation =
  qo_event :: runtime_event
  qo_context :: call_context
  qo_principal :: principal

record dispatcher_state =
  ds_created :: "event_id \<rightharpoonup> runtime_event"
  ds_queue :: "queued_observation list"
  ds_diagnostics :: "diagnostic list"

definition diagnose :: "diagnostic \<Rightarrow> dispatcher_state \<Rightarrow> dispatcher_state" where
  "diagnose d s = s\<lparr>ds_diagnostics := ds_diagnostics s @ [d]\<rparr>"

text \<open>An action of the world, run in the dispatcher.\<close>

definition lift_world :: "('w, exn, 'a) action \<Rightarrow> (dispatcher_state \<times> 'w, exn, 'a) action" where
  "lift_world m = (\<lambda>(s, w). case m w of (r, w') \<Rightarrow> (r, (s, w')))"

subsection \<open>Creation\<close>

record event_request =
  er_type :: string
  er_schema :: string
  er_run_id :: run_id
  er_root_run_id :: run_id
  er_parent_run_id :: "run_id option"
  er_scope :: scope_ref
  er_sensitivity :: sensitivity
  er_delivery :: delivery_class
  er_payload :: payload

text \<open>\<open>existing.payload != ClassifiedPayload(payload)\<close>: mappings of classified values.\<close>

definition payload_eq :: "payload \<Rightarrow> payload \<Rightarrow> bool" where
  "payload_eq p q \<longleftrightarrow> length p = length q \<and> list_all (\<lambda>(k, f). case map_of q k of None \<Rightarrow> False
     | Some g \<Rightarrow> json_eq (pf_value f) (pf_value g) \<and> pf_sensitivity f = pf_sensitivity g) p"

definition same_logical_event :: "runtime_event \<Rightarrow> event_request \<Rightarrow> call_context \<Rightarrow> bool" where
  "same_logical_event e q c \<longleftrightarrow>
     ev_type e = er_type q \<and> ev_schema e = er_schema q \<and> ev_run_id e = er_run_id q
     \<and> ev_root_run_id e = er_root_run_id q \<and> ev_parent_run_id e = er_parent_run_id q
     \<and> ev_scope e = er_scope q \<and> ev_correlation_id e = tr_correlation_id (cx_trace c)
     \<and> ev_causation_id e = tr_causation_id (cx_trace c) \<and> ev_sensitivity e = er_sensitivity q
     \<and> ev_delivery e = er_delivery q"

definition event_reused :: exn where
  "event_reused = core_error CONFLICT ''event_identity_conflict''
     ''event identity was reused with different Event data'' False None"

definition new_event :: "event_id \<Rightarrow> event_request \<Rightarrow> call_context \<Rightarrow> datetime \<Rightarrow> int \<Rightarrow> payload \<Rightarrow> runtime_event" where
  "new_event i q c at n p = \<lparr>ev_id = i, ev_type = er_type q, ev_schema = er_schema q, ev_occurred_at = at,
     ev_run_id = er_run_id q, ev_root_run_id = er_root_run_id q, ev_parent_run_id = er_parent_run_id q,
     ev_sequence = n, ev_scope = er_scope q, ev_correlation_id = tr_correlation_id (cx_trace c),
     ev_causation_id = tr_causation_id (cx_trace c), ev_sensitivity = er_sensitivity q,
     ev_delivery = er_delivery q, ev_payload = p\<rparr>"

text \<open>The arguments of the constructor are evaluated in order: time, then sequence, then payload.\<close>

definition make_event ::
  "'w event_ports \<Rightarrow> event_request \<Rightarrow> call_context \<Rightarrow> event_id option \<Rightarrow> ('w, exn, runtime_event) action" where
  "make_event P q c i =
     abind (case i of Some x \<Rightarrow> areturn x | None \<Rightarrow> ep_new_id P) (\<lambda>eid.
     abind (\<lambda>w. (Inr (ep_clock P w), w)) (\<lambda>at.
     abind (ep_next_sequence P (er_run_id q)) (\<lambda>n.
     abind (aresult (mk_payload (er_payload q))) (\<lambda>p.
     abind (aresult (mk_event (new_event eid q c at n p))) (\<lambda>e.
     abind (aresult (validate_event (ep_schemas P) e)) (\<lambda>_. areturn e))))))"

definition create_event ::
  "'w event_ports \<Rightarrow> event_request \<Rightarrow> call_context \<Rightarrow> event_id option \<Rightarrow> (dispatcher_state \<times> 'w, exn, runtime_event) action" where
  "create_event P q c i = (\<lambda>(s, w).
     case (case i of Some x \<Rightarrow> ds_created s x | None \<Rightarrow> None) of
       Some e \<Rightarrow>
         if \<not> same_logical_event e q c then (Inl event_reused, (s, w))
         else (case mk_payload (er_payload q) of
             Inl x \<Rightarrow> (Inl x, (s, w))
           | Inr p \<Rightarrow> if \<not> payload_eq (ev_payload e) p then (Inl event_reused, (s, w)) else (Inr e, (s, w)))
     | None \<Rightarrow> (case make_event P q c i w of
           (Inl x, w') \<Rightarrow> (Inl x, (s, w'))
         | (Inr e, w') \<Rightarrow> (Inr e, (if i = None then s else s\<lparr>ds_created := (ds_created s)(ev_id e \<mapsto> e)\<rparr>, w'))))"

subsection \<open>One sink\<close>

definition publish_action :: action_ref where
  "publish_action = \<lparr>ac_namespace = ''core'', ac_name = ''event.publish'', ac_version = ''1''\<rparr>"

definition sink_request :: "'w event_sink \<Rightarrow> runtime_event \<Rightarrow> call_context \<Rightarrow> principal \<Rightarrow> access_request result" where
  "sink_request k e c p =
     rbind (mk_identifier (sk_id k)) (\<lambda>i.
     rbind (mk_resource ''core'' ''event_sink'' i None) (\<lambda>r.
     Inr \<lparr>aq_principal = p, aq_action = publish_action, aq_resource = r, aq_scope = ev_scope e, aq_context = c,
       aq_constraints = [''event_type'' \<mapsto> JStr (ev_type e),
         ''delivery_class'' \<mapsto> JStr (delivery_class_value (ev_delivery e))]\<rparr>))"

definition denied :: "string \<Rightarrow> string \<Rightarrow> exn" where
  "denied code msg = core_error DENIED code msg False None"

definition grant_fits :: "access_request \<Rightarrow> runtime_event \<Rightarrow> grant \<Rightarrow> bool" where
  "grant_fits q e g \<longleftrightarrow> gr_principal g = aq_principal q \<and> gr_action g = aq_action q \<and> gr_resource g = aq_resource q
     \<and> scope_key (gr_source_scope g) = scope_key (cx_scope (aq_context q))
     \<and> scope_key (gr_effective_scope g) = scope_key (ev_scope e)"

definition authorize_sink ::
  "'w event_ports \<Rightarrow> 'w event_sink \<Rightarrow> runtime_event \<Rightarrow> call_context \<Rightarrow> principal \<Rightarrow> ('w, exn, unit) action" where
  "authorize_sink P k e c p =
     abind (\<lambda>w. (check_active c (ep_clock P w), w)) (\<lambda>_.
     case ep_authorize P of
       None \<Rightarrow> araise (denied ''event_sink_policy_missing'' ''EventSink dispatch is denied without an authorization policy'')
     | Some authorize \<Rightarrow>
       abind (aresult (sink_request k e c p)) (\<lambda>q.
       abind (authorize q) (\<lambda>d. case (de_effect d, de_grant d) of
           (ALLOW, Some g) \<Rightarrow> (\<lambda>w.
             if grant_expired g (ep_clock P w)
             then (Inl (denied ''event_sink_grant_expired'' ''EventSink grant has expired''), w)
             else if \<not> grant_fits q e g
             then (Inl (denied ''invalid_event_sink_grant'' ''EventSink grant does not match the dispatch request''), w)
             else (Inr (), w))
         | _ \<Rightarrow> araise (denied (if no_reason (de_reason d) then ''event_sink_denied'' else the (de_reason d))
                   ''EventSink dispatch was denied''))))"

definition unsupported_capability :: "string \<Rightarrow> string \<Rightarrow> exn" where
  "unsupported_capability code msg = core_error UNSUPPORTED_CAPABILITY code msg False None"

definition redact_for ::
  "'w event_ports \<Rightarrow> 'w event_sink \<Rightarrow> runtime_event \<Rightarrow> runtime_event result" where
  "redact_for P k e =
     rbind (ep_redact P e (sc_maximum (sk_capabilities k))) (\<lambda>e'.
     case validate_event (ep_schemas P) e' of
       Inr _ \<Rightarrow> Inr e'
     | Inl (CoreError _) \<Rightarrow> Inl (denied ''event_redaction_failed'' ''redaction removed data required by the Event schema'')
     | Inl x \<Rightarrow> Inl x)"

definition prepare_for_sink ::
  "'w event_ports \<Rightarrow> runtime_event \<Rightarrow> call_context \<Rightarrow> principal \<Rightarrow> 'w event_sink \<Rightarrow> ('w, exn, runtime_event) action" where
  "prepare_for_sink P e c p k =
     (let caps = sk_capabilities k
      in if ev_delivery e \<notin> sc_classes caps
         then araise (unsupported_capability ''unsupported_delivery_class''
                ''EventSink does not support the required delivery class'')
         else if \<not> schema_supported caps e
         then araise (unsupported_schema ''EventSink does not support the event schema'')
         else if ev_delivery e = AUDIT \<and> \<not> sc_ack caps
         then araise (unsupported_capability ''audit_acknowledgement_unsupported''
                ''Audit EventSink must provide acknowledgements'')
         else abind (authorize_sink P k e c p) (\<lambda>_. aresult (redact_for P k e)))"

subsection \<open>Audit delivery\<close>

definition ack_missing :: exn where
  "ack_missing = core_error PROTOCOL_FAILURE ''audit_acknowledgement_missing''
     ''Audit EventSink returned no acknowledgement'' False None"

definition delivery_failed :: "error_detail option \<Rightarrow> exn" where
  "delivery_failed err = core_error UNAVAILABLE ''audit_delivery_failed''
     ''required Audit EventSink did not acknowledge the Event'' True (map_option ed_code err)"

text \<open>The body of the \<open>try\<close> of one attempt.\<close>

definition audit_attempt ::
  "'w event_ports \<Rightarrow> runtime_event \<Rightarrow> call_context \<Rightarrow> 'w event_sink \<Rightarrow> ('w, exn, unit) action" where
  "audit_attempt P e c k =
     abind (sk_deliver k e c) (\<lambda>a. case a of
       None \<Rightarrow> araise ack_missing
     | Some x \<Rightarrow> abind (ep_mark P (ev_id e) (sk_id k) None) (\<lambda>_. ep_acknowledge P x))"

fun audit_loop ::
  "'w event_ports \<Rightarrow> runtime_event \<Rightarrow> call_context \<Rightarrow> 'w event_sink \<Rightarrow> int list \<Rightarrow> error_detail option \<Rightarrow> ('w, exn, unit) action" where
  "audit_loop P e c k [] err w = (Inl (delivery_failed err), w)"
| "audit_loop P e c k (n # ns) err w =
     (case audit_attempt P e c k w of
        (Inr _, w1) \<Rightarrow> (Inr (), w1)
      | (Inl (CoreError d), w1) \<Rightarrow>
          (case ep_mark P (ev_id e) (sk_id k) (Some (ed_code d)) w1 of
             (Inl x, w2) \<Rightarrow> (Inl x, w2)
           | (Inr _, w2) \<Rightarrow>
               if \<not> ed_retryable d then (Inl (delivery_failed (Some d)), w2)
               else (case ep_backoff P n w2 of
                   (Inl x, w3) \<Rightarrow> (Inl x, w3)
                 | (Inr _, w3) \<Rightarrow> audit_loop P e c k ns (Some d) w3))
      | (Inl x, w1) \<Rightarrow> (Inl x, w1))"

definition deliver_audit ::
  "'w event_ports \<Rightarrow> runtime_event \<Rightarrow> call_context \<Rightarrow> 'w event_sink \<Rightarrow> int \<Rightarrow> ('w, exn, unit) action" where
  "deliver_audit P e c k start = audit_loop P e c k [start..dp_audit_attempts (ep_policy P) - 1] None"

definition audit_sink ::
  "'w event_ports \<Rightarrow> runtime_event \<Rightarrow> call_context \<Rightarrow> principal \<Rightarrow> 'w event_sink \<Rightarrow> ('w, exn, unit) action" where
  "audit_sink P e c p k =
     abind (prepare_for_sink P e c p k) (\<lambda>e'.
     abind (ep_enqueue P e' (sk_id k) c p) (\<lambda>_.
     deliver_audit P e' c k 0))"

fun required_sinks ::
  "'w event_ports \<Rightarrow> runtime_event \<Rightarrow> call_context \<Rightarrow> principal \<Rightarrow> 'w sink_registration list \<Rightarrow> ('w, exn, unit) action" where
  "required_sinks P e c p [] = areturn ()"
| "required_sinks P e c p (r # rs) = abind (audit_sink P e c p (sr_sink r)) (\<lambda>_. required_sinks P e c p rs)"

definition failure_diagnostic :: "event_id \<Rightarrow> string \<Rightarrow> error_detail \<Rightarrow> diagnostic" where
  "failure_diagnostic i k d = \<lparr>dg_event = i, dg_sink = Some k, dg_code = ed_code d, dg_message = ed_message d\<rparr>"

text \<open>The optional sinks: a Core error is kept as a diagnostic, any other ends the loop.\<close>

definition diagnosing ::
  "event_id \<Rightarrow> string \<Rightarrow> ('w, exn, unit) action \<Rightarrow> (dispatcher_state \<times> 'w, exn, unit) action" where
  "diagnosing i k m = (\<lambda>(s, w). case m w of
       (Inl (CoreError d), w') \<Rightarrow> (Inr (), (diagnose (failure_diagnostic i k d) s, w'))
     | (r, w') \<Rightarrow> (r, (s, w')))"

fun optional_sinks ::
  "'w event_ports \<Rightarrow> runtime_event \<Rightarrow> call_context \<Rightarrow> principal \<Rightarrow> 'w sink_registration list
    \<Rightarrow> (dispatcher_state \<times> 'w, exn, unit) action" where
  "optional_sinks P e c p [] = areturn ()"
| "optional_sinks P e c p (r # rs) =
     (if sr_required r \<or> AUDIT \<notin> sc_classes (sk_capabilities (sr_sink r)) then optional_sinks P e c p rs
      else abind (diagnosing (ev_id e) (sk_id (sr_sink r)) (audit_sink P e c p (sr_sink r)))
             (\<lambda>_. optional_sinks P e c p rs))"

definition sink_missing :: exn where
  "sink_missing = core_error UNAVAILABLE ''required_audit_sink_missing''
     ''no required Audit EventSink is configured'' True None"

definition publish_audit ::
  "'w event_ports \<Rightarrow> runtime_event \<Rightarrow> call_context \<Rightarrow> principal \<Rightarrow> (dispatcher_state \<times> 'w, exn, unit) action" where
  "publish_audit P e c p =
     (let required = filter sr_required (ep_sinks P)
      in if required = [] then araise sink_missing
         else abind (lift_world (required_sinks P e c p required)) (\<lambda>_. optional_sinks P e c p (ep_sinks P)))"

definition queue_full :: "event_id \<Rightarrow> diagnostic" where
  "queue_full i = \<lparr>dg_event = i, dg_sink = None, dg_code = ''observability_queue_full'',
     dg_message = ''observability event was dropped after the queue reached capacity''\<rparr>"

definition publish ::
  "'w event_ports \<Rightarrow> runtime_event \<Rightarrow> call_context \<Rightarrow> principal \<Rightarrow> (dispatcher_state \<times> 'w, exn, unit) action" where
  "publish P e c p =
     abind (aresult (validate_event (ep_schemas P) e)) (\<lambda>_.
     if ev_delivery e = AUDIT then publish_audit P e c p
     else (\<lambda>(s, w).
       if int (length (ds_queue s)) < dp_queue_capacity (ep_policy P)
       then (Inr (), (s\<lparr>ds_queue := ds_queue s @ [\<lparr>qo_event = e, qo_context = c, qo_principal = p\<rparr>]\<rparr>, w))
       else (Inr (), (diagnose (queue_full (ev_id e)) s, w))))"

subsection \<open>Observations\<close>

fun observation_loop ::
  "'w event_ports \<Rightarrow> runtime_event \<Rightarrow> call_context \<Rightarrow> 'w event_sink \<Rightarrow> int list \<Rightarrow> error_detail option \<Rightarrow> ('w, exn, unit) action" where
  "observation_loop P e c k [] err w = (case err of None \<Rightarrow> (Inr (), w) | Some d \<Rightarrow> (Inl (CoreError d), w))"
| "observation_loop P e c k (n # ns) err w =
     (case sk_deliver k e c w of
        (Inr _, w1) \<Rightarrow> (Inr (), w1)
      | (Inl (CoreError d), w1) \<Rightarrow>
          if \<not> ed_retryable d then (Inl (CoreError d), w1)
          else (case ep_backoff P n w1 of
              (Inl x, w2) \<Rightarrow> (Inl x, w2)
            | (Inr _, w2) \<Rightarrow> observation_loop P e c k ns (Some d) w2)
      | (Inl x, w1) \<Rightarrow> (Inl x, w1))"

definition deliver_observation ::
  "'w event_ports \<Rightarrow> runtime_event \<Rightarrow> call_context \<Rightarrow> 'w event_sink \<Rightarrow> ('w, exn, unit) action" where
  "deliver_observation P e c k = observation_loop P e c k [0..dp_observability_attempts (ep_policy P) - 1] None"

fun observe_sinks ::
  "'w event_ports \<Rightarrow> queued_observation \<Rightarrow> 'w sink_registration list \<Rightarrow> (dispatcher_state \<times> 'w, exn, unit) action" where
  "observe_sinks P ob [] = areturn ()"
| "observe_sinks P ob (r # rs) =
     (if OBSERVABILITY \<notin> sc_classes (sk_capabilities (sr_sink r)) then observe_sinks P ob rs
      else abind (diagnosing (ev_id (qo_event ob)) (sk_id (sr_sink r))
             (abind (prepare_for_sink P (qo_event ob) (qo_context ob) (qo_principal ob) (sr_sink r))
               (\<lambda>e. deliver_observation P e (qo_context ob) (sr_sink r))))
           (\<lambda>_. observe_sinks P ob rs))"

text \<open>One round of \<open>_observation_worker\<close>: whether there was something to take.\<close>

definition worker_step :: "'w event_ports \<Rightarrow> (dispatcher_state \<times> 'w, exn, bool) action" where
  "worker_step P = (\<lambda>(s, w). case ds_queue s of
       [] \<Rightarrow> (Inr False, (s, w))
     | ob # obs \<Rightarrow> abind (observe_sinks P ob (ep_sinks P)) (\<lambda>_. areturn True) (s\<lparr>ds_queue := obs\<rparr>, w))"

subsection \<open>Recovery\<close>

definition pending_diagnostic :: "pending_delivery \<Rightarrow> string \<Rightarrow> diagnostic" where
  "pending_diagnostic p code = \<lparr>dg_event = ev_id (pd_event p), dg_sink = Some (pd_sink p), dg_code = code,
     dg_message = ''pending Audit Event cannot be delivered''\<rparr>"

text \<open>The registrations by sink: of two with one name, the later counts.\<close>

definition registration_of :: "'w event_ports \<Rightarrow> string \<Rightarrow> 'w sink_registration option" where
  "registration_of P i = map_of (rev (List.map (\<lambda>r. (sk_id (sr_sink r), r)) (ep_sinks P))) i"

definition recover_one :: "'w event_ports \<Rightarrow> pending_delivery \<Rightarrow> 'w event_sink \<Rightarrow> string \<Rightarrow> ('w, exn, unit) action" where
  "recover_one P p k token =
     (let c = (pd_context p)\<lparr>cx_deadline := None, cx_cancellation := new_token token False\<rparr>
      in abind (authorize_sink P k (pd_event p) c (pd_principal p)) (\<lambda>_.
         deliver_audit P (pd_event p) c k (pd_attempts p)))"

fun recover_all :: "'w event_ports \<Rightarrow> pending_delivery list \<Rightarrow> int \<Rightarrow> (dispatcher_state \<times> 'w, exn, int) action" where
  "recover_all P [] n = areturn n"
| "recover_all P (p # ps) n = (\<lambda>(s, w). case registration_of P (pd_sink p) of
       None \<Rightarrow> recover_all P ps n (diagnose (pending_diagnostic p ''sink_not_registered'') s, w)
     | Some r \<Rightarrow> (case ep_new_id P w of
         (Inl x, w1) \<Rightarrow> (Inl x, (s, w1))
       | (Inr token, w1) \<Rightarrow> (case recover_one P p (sr_sink r) token w1 of
           (Inr _, w2) \<Rightarrow> recover_all P ps (n + 1) (s, w2)
         | (Inl (CoreError d), w2) \<Rightarrow>
             recover_all P ps n (diagnose (failure_diagnostic (ev_id (pd_event p)) (pd_sink p) d) s, w2)
         | (Inl x, w2) \<Rightarrow> (Inl x, (s, w2)))))"

definition recover_pending :: "'w event_ports \<Rightarrow> int \<Rightarrow> (dispatcher_state \<times> 'w, exn, int) action" where
  "recover_pending P limit = abind (lift_world (ep_pending P limit)) (\<lambda>ps. recover_all P ps 0)"

end
