(* ===== verification/Event_Delivery.thy ===== *)
theory Event_Delivery
  imports Event_Dispatcher
begin

section \<open>Reliable delivery of audit events\<close>

text \<open>
  The contract between the dispatcher and its outbox as a locale, what the dispatcher
  guarantees on any outbox that keeps it, and the interpretation on the in-memory ledger of
  \<open>event/memory.py\<close>. A world is quiet under an action that leaves the outbox alone.
\<close>

fun status_grows :: "delivery_status \<Rightarrow> delivery_status \<Rightarrow> bool" where
  "status_grows Unsent _ \<longleftrightarrow> True"
| "status_grows (Waiting d) t \<longleftrightarrow> t = Waiting d \<or> t = Delivered d"
| "status_grows (Delivered d) t \<longleftrightarrow> t = Delivered d"

lemma status_grows_refl [simp]: "status_grows s s"
  by (cases s) simp_all

lemma status_grows_trans: "status_grows s t \<Longrightarrow> status_grows t u \<Longrightarrow> status_grows s u"
  by (cases s; cases t) auto

definition all_grow :: "(event_key \<Rightarrow> delivery_status) \<Rightarrow> (event_key \<Rightarrow> delivery_status) \<Rightarrow> bool" where
  "all_grow s t \<longleftrightarrow> (\<forall>k. status_grows (s k) (t k))"

lemma all_grow_refl [simp]: "all_grow s s"
  by (simp add: all_grow_def)

lemma all_grow_trans: "all_grow s t \<Longrightarrow> all_grow t u \<Longrightarrow> all_grow s u"
  unfolding all_grow_def using status_grows_trans by metis

lemma all_growD: "all_grow s t \<Longrightarrow> s k = Delivered d \<Longrightarrow> t k = Delivered d"
  by (metis all_grow_def status_grows.simps(3))

lemma spec_enqueue_grows: "spec_enqueue k d s = Some t \<Longrightarrow> all_grow s t \<and> (t k = Waiting d \<or> t k = Delivered d)"
  by (auto simp: spec_enqueue_def all_grow_def split: delivery_status.splits if_splits)

lemma spec_acknowledge_grows: "spec_acknowledge k d s = Some t \<Longrightarrow> all_grow s t \<and> t k = Delivered d \<and> s k \<noteq> Unsent"
  by (auto simp: spec_acknowledge_def all_grow_def split: delivery_status.splits if_splits)

text \<open>A sink is honest when an acknowledgement names the event and the sink it was asked about.\<close>

definition honest :: "'w event_sink \<Rightarrow> bool" where
  "honest k \<longleftrightarrow> (\<forall>e c w a w'. sk_deliver k e c w = (Inr (Some a), w') \<longrightarrow> ack_event a = ev_id e \<and> ack_sink a = sk_id k)"

locale audit_outbox =
  fixes P :: "'w event_ports"
    and H :: "json_object \<Rightarrow> string"
    and winvar :: "'w \<Rightarrow> bool"
    and status :: "'w \<Rightarrow> event_key \<Rightarrow> delivery_status"
  assumes enqueue_law: "winvar w \<Longrightarrow> ep_enqueue P e i c p w = (r, w') \<Longrightarrow> winvar w' \<and>
      (case r of Inr _ \<Rightarrow> spec_enqueue (ev_id e, i) (payload_digest H e) (status w) = Some (status w') | Inl _ \<Rightarrow> status w' = status w)"
    and mark_law: "winvar w \<Longrightarrow> ep_mark P j i err w = (r, w') \<Longrightarrow> winvar w' \<and> status w' = status w"
    and acknowledge_law: "winvar w \<Longrightarrow> ep_acknowledge P a w = (ra, w') \<Longrightarrow> winvar w' \<and>
      (case ra of Inr _ \<Rightarrow> spec_acknowledge (ack_event a, ack_sink a) (ack_digest a) (status w) = Some (status w') | Inl _ \<Rightarrow> status w' = status w)"
    and deliver_quiet: "winvar w \<Longrightarrow> reg \<in> set (ep_sinks P) \<Longrightarrow> sk_deliver (sr_sink reg) e c w = (rd, w') \<Longrightarrow> winvar w' \<and> status w' = status w"
    and authorize_quiet: "winvar w \<Longrightarrow> ep_authorize P = Some f \<Longrightarrow> f q w = (rf, w') \<Longrightarrow> winvar w' \<and> status w' = status w"
    and backoff_quiet: "winvar w \<Longrightarrow> ep_backoff P n w = (rb, w') \<Longrightarrow> winvar w' \<and> status w' = status w"
begin

text \<open>Authorization and preparation do not touch the outbox.\<close>

lemma authorize_sink_quiet:
  assumes "winvar w" "authorize_sink P k e c p w = (r, w')"
  shows "winvar w' \<and> status w' = status w"
proof (cases "ep_authorize P")
  case None
  with assms show ?thesis
    by (auto simp: authorize_sink_def abind_def araise_def split: sum.splits)
next
  case (Some f)
  show ?thesis
  proof (cases "check_active c (ep_clock P w)")
    case (Inl x)
    with assms Some show ?thesis by (auto simp: authorize_sink_def abind_def)
  next
    case (Inr u)
    note active = Inr
    show ?thesis
    proof (cases "sink_request k e c p")
      case (Inl x)
      with assms Some active show ?thesis by (auto simp: authorize_sink_def abind_def aresult_def)
    next
      case (Inr q)
      obtain d w1 where f: "f q w = (d, w1)" by force
      note quiet = authorize_quiet [OF assms(1) Some f]
      have "w' = w1"
        using assms(2) Some active Inr f
        by (auto simp: authorize_sink_def abind_def aresult_def araise_def split: sum.splits policy_effect.splits option.splits if_splits)
      with quiet show ?thesis by simp
    qed
  qed
qed

lemma prepare_for_sink_quiet:
  assumes "winvar w" "prepare_for_sink P e c p k w = (r, w')"
  shows "winvar w' \<and> status w' = status w \<and> (\<forall>e'. r = Inr e' \<longrightarrow> redact_for P k e = Inr e')"
proof (cases "prepare_for_sink P e c p k w = abind (authorize_sink P k e c p) (\<lambda>_. aresult (redact_for P k e)) w")
  case True
  obtain ra w1 where a: "authorize_sink P k e c p w = (ra, w1)" by force
  with True assms(2) have "w' = w1 \<and> (\<forall>e'. r = Inr e' \<longrightarrow> redact_for P k e = Inr e')"
    by (cases ra) (auto simp: abind_def aresult_def)
  with authorize_sink_quiet [OF assms(1) a] show ?thesis by simp
next
  case False
  then have "w' = w \<and> isl r"
    using assms(2) by (auto simp: prepare_for_sink_def Let_def araise_def split: if_splits)
  with assms(1) show ?thesis by auto
qed

text \<open>One attempt: whatever happens, what the outbox holds only grows.\<close>

lemma audit_attempt_grows:
  assumes "winvar w" "reg \<in> set (ep_sinks P)" "audit_attempt P e c (sr_sink reg) w = (r, w')"
  shows "winvar w' \<and> all_grow (status w) (status w')
    \<and> (\<forall>u. r = Inr u \<longrightarrow> honest (sr_sink reg) \<longrightarrow>
        (\<exists>d. status w' (ev_id e, sk_id (sr_sink reg)) = Delivered d) \<and> status w (ev_id e, sk_id (sr_sink reg)) \<noteq> Unsent)"
proof -
  obtain rd w1 where d: "sk_deliver (sr_sink reg) e c w = (rd, w1)" by force
  note q1 = deliver_quiet [OF assms(1,2) d]
  show ?thesis
  proof (cases "\<exists>a. rd = Inr (Some a)")
    case False
    with d assms(3) have "w' = w1 \<and> isl r"
      by (cases rd) (auto simp: audit_attempt_def abind_def araise_def split: option.splits)
    with q1 show ?thesis by auto
  next
    case True
    then obtain a where a: "rd = Inr (Some a)" by blast
    obtain rm w2 where m: "ep_mark P (ev_id e) (sk_id (sr_sink reg)) None w1 = (rm, w2)" by force
    note q2 = mark_law [OF conjunct1 [OF q1] m]
    show ?thesis
    proof (cases rm)
      case (Inl x)
      with d a m assms(3) have "w' = w2 \<and> isl r" by (auto simp: audit_attempt_def abind_def)
      with q1 q2 show ?thesis by auto
    next
      case (Inr u)
      with d a m assms(3) have ack: "ep_acknowledge P a w2 = (r, w')" by (auto simp: audit_attempt_def abind_def)
      note q3 = acknowledge_law [OF conjunct1 [OF q2] ack]
      have st: "status w2 = status w" using q1 q2 by simp
      show ?thesis
      proof (cases r)
        case (Inl x)
        with q3 st show ?thesis by auto
      next
        case (Inr u)
        with q3 have "spec_acknowledge (ack_event a, ack_sink a) (ack_digest a) (status w2) = Some (status w')" by simp
        note g = spec_acknowledge_grows [OF this]
        have "honest (sr_sink reg) \<Longrightarrow> (ack_event a, ack_sink a) = (ev_id e, sk_id (sr_sink reg))"
          using d a unfolding honest_def by (metis (no_types))
        with g st q3 show ?thesis by auto
      qed
    qed
  qed
qed

lemma audit_loop_grows:
  assumes "winvar w" "reg \<in> set (ep_sinks P)" "audit_loop P e c (sr_sink reg) ns err w = (r, w')"
  shows "winvar w' \<and> all_grow (status w) (status w')
    \<and> (\<forall>u. r = Inr u \<longrightarrow> honest (sr_sink reg) \<longrightarrow> (\<exists>d. status w' (ev_id e, sk_id (sr_sink reg)) = Delivered d))"
  using assms(1,3)
proof (induction ns arbitrary: err w)
  case (Cons n ns)
  obtain r1 w1 where a: "audit_attempt P e c (sr_sink reg) w = (r1, w1)" by force
  note g1 = audit_attempt_grows [OF Cons.prems(1) assms(2) a]
  show ?case
  proof (cases "\<exists>d. r1 = Inl (CoreError d)")
    case False
    with a Cons.prems(2) have "r = r1 \<and> w' = w1" by (auto split: sum.splits exn.splits)
    with g1 show ?thesis by blast
  next
    case True
    then obtain d where d: "r1 = Inl (CoreError d)" by blast
    obtain r2 w2 where m: "ep_mark P (ev_id e) (sk_id (sr_sink reg)) (Some (ed_code d)) w1 = (r2, w2)" by force
    note q2 = mark_law [OF conjunct1 [OF g1] m]
    show ?thesis
    proof (cases "isl r2 \<or> \<not> ed_retryable d")
      case True
      with a d m Cons.prems(2) have "w' = w2 \<and> isl r" by (auto split: sum.splits)
      with g1 q2 show ?thesis by auto
    next
      case False
      obtain r3 w3 where b: "ep_backoff P n w2 = (r3, w3)" by force
      note q3 = backoff_quiet [OF conjunct1 [OF q2] b]
      show ?thesis
      proof (cases r3)
        case (Inl x)
        with False a d m b Cons.prems(2) have "w' = w3 \<and> isl r" by (auto split: sum.splits)
        with g1 q2 q3 show ?thesis by auto
      next
        case (Inr u)
        with False a d m b Cons.prems(2) have "audit_loop P e c (sr_sink reg) ns (Some d) w3 = (r, w')"
          by (auto split: sum.splits)
        note IH = Cons.IH [OF conjunct1 [OF q3] this]
        have "all_grow (status w) (status w3)" using g1 q2 q3 by simp
        with IH all_grow_trans show ?thesis by blast
      qed
    qed
  qed
qed auto

lemma audit_sink_grows:
  assumes "winvar w" "reg \<in> set (ep_sinks P)" "audit_sink P e c p (sr_sink reg) w = (r, w')"
  shows "winvar w' \<and> all_grow (status w) (status w')
    \<and> (\<forall>u. r = Inr u \<longrightarrow> honest (sr_sink reg) \<longrightarrow> (\<exists>e'. redact_for P (sr_sink reg) e = Inr e'
        \<and> status w' (ev_id e', sk_id (sr_sink reg)) = Delivered (payload_digest H e')))"
proof -
  obtain r1 w1 where a: "prepare_for_sink P e c p (sr_sink reg) w = (r1, w1)" by force
  note q1 = prepare_for_sink_quiet [OF assms(1) a]
  show ?thesis
  proof (cases r1)
    case (Inl x)
    with a assms(3) have "w' = w1 \<and> isl r" by (auto simp: audit_sink_def abind_def)
    with q1 show ?thesis by auto
  next
    case (Inr e')
    obtain r2 w2 where b: "ep_enqueue P e' (sk_id (sr_sink reg)) c p w1 = (r2, w2)" by force
    note q2 = enqueue_law [OF conjunct1 [OF q1] b]
    show ?thesis
    proof (cases r2)
      case (Inl x)
      with a b Inr assms(3) have "w' = w2 \<and> isl r" by (auto simp: audit_sink_def abind_def)
      with q1 q2 Inl show ?thesis by auto
    next
      case r2: (Inr u)
      let ?k = "(ev_id e', sk_id (sr_sink reg))"
      have "spec_enqueue ?k (payload_digest H e') (status w1) = Some (status w2)" using q2 r2 by simp
      note g2 = spec_enqueue_grows [OF this]
      have loop: "audit_loop P e' c (sr_sink reg) [0..dp_audit_attempts (ep_policy P) - 1] None w2 = (r, w')"
        using a b Inr r2 assms(3) by (simp add: audit_sink_def abind_def deliver_audit_def)
      note g3 = audit_loop_grows [OF conjunct1 [OF q2] assms(2) loop]
      have grow: "status_grows (status w2 ?k) (status w' ?k)" using g3 by (simp add: all_grow_def)
      have "status w' ?k = Delivered (payload_digest H e')" if "r = Inr v" "honest (sr_sink reg)" for v
        using g3 that g2 grow by (cases "status w2 ?k") auto
      moreover have "all_grow (status w) (status w')" using q1 g2 g3 all_grow_trans by metis
      ultimately show ?thesis using g3 q1 Inr by blast
    qed
  qed
qed

definition delivered_to :: "'w \<Rightarrow> runtime_event \<Rightarrow> 'w sink_registration \<Rightarrow> bool" where
  "delivered_to w e reg \<longleftrightarrow> (\<exists>e'. redact_for P (sr_sink reg) e = Inr e'
     \<and> status w (ev_id e', sk_id (sr_sink reg)) = Delivered (payload_digest H e'))"

lemma delivered_to_grows: "delivered_to w e reg \<Longrightarrow> all_grow (status w) (status w') \<Longrightarrow> delivered_to w' e reg"
  unfolding delivered_to_def using all_growD by blast

lemma required_sinks_delivered:
  assumes "winvar w" "set rs \<subseteq> set (ep_sinks P)" "required_sinks P e c p rs w = (r, w')"
  shows "winvar w' \<and> all_grow (status w) (status w')
    \<and> (\<forall>u. r = Inr u \<longrightarrow> (\<forall>reg \<in> set rs. honest (sr_sink reg) \<longrightarrow> delivered_to w' e reg))"
  using assms
proof (induction rs arbitrary: w)
  case (Cons reg rs)
  obtain r1 w1 where a: "audit_sink P e c p (sr_sink reg) w = (r1, w1)" by force
  have "reg \<in> set (ep_sinks P)" using Cons.prems(2) by simp
  note g1 = audit_sink_grows [OF Cons.prems(1) this a]
  show ?case
  proof (cases r1)
    case (Inl x)
    with a Cons.prems(3) have "w' = w1 \<and> isl r" by (auto simp: abind_def)
    with g1 show ?thesis by auto
  next
    case (Inr u)
    with a Cons.prems(3) have "required_sinks P e c p rs w1 = (r, w')" by (simp add: abind_def)
    with Cons.IH [OF conjunct1 [OF g1] _ this] Cons.prems(2)
    have IH: "winvar w' \<and> all_grow (status w1) (status w')
        \<and> (\<forall>u. r = Inr u \<longrightarrow> (\<forall>reg \<in> set rs. honest (sr_sink reg) \<longrightarrow> delivered_to w' e reg))" by simp
    have "honest (sr_sink reg) \<Longrightarrow> delivered_to w1 e reg" using g1 Inr by (auto simp: delivered_to_def)
    with IH have "honest (sr_sink reg) \<Longrightarrow> delivered_to w' e reg" using delivered_to_grows by blast
    with IH g1 all_grow_trans show ?thesis by auto
  qed
qed (auto simp: areturn_def)

lemma optional_sinks_grow:
  assumes "winvar w" "set rs \<subseteq> set (ep_sinks P)" "optional_sinks P e c p rs (s, w) = (r, (s', w'))"
  shows "winvar w' \<and> all_grow (status w) (status w')"
  using assms
proof (induction rs arbitrary: s w)
  case (Cons reg rs)
  show ?case
  proof (cases "sr_required reg \<or> AUDIT \<notin> sc_classes (sk_capabilities (sr_sink reg))")
    case True
    with Cons show ?thesis by simp
  next
    case False
    obtain r1 w1 where a: "audit_sink P e c p (sr_sink reg) w = (r1, w1)" by force
    have "reg \<in> set (ep_sinks P)" using Cons.prems(2) by simp
    note g1 = audit_sink_grows [OF Cons.prems(1) this a]
    have "w' = w1 \<or> (\<exists>s1. optional_sinks P e c p rs (s1, w1) = (r, (s', w')))"
      using Cons.prems(3) False a
      by (cases r1) (auto simp: abind_def diagnosing_def split: exn.splits)
    then show ?thesis
    proof
      assume "\<exists>s1. optional_sinks P e c p rs (s1, w1) = (r, (s', w'))"
      then obtain s1 where "optional_sinks P e c p rs (s1, w1) = (r, (s', w'))" ..
      from Cons.IH [OF conjunct1 [OF g1] _ this] Cons.prems(2) g1 all_grow_trans show ?thesis by auto
    qed (use g1 in auto)
  qed
qed (auto simp: areturn_def)

text \<open>
  A publication of an audit event: the outbox only grows, and when it returns, every required
  sink that is honest has acknowledged its version of the event.
\<close>

lemma publish_audit_delivered:
  assumes "winvar w" "ev_delivery e = AUDIT" "publish P e c p (s, w) = (r, (s', w'))"
  shows "winvar w' \<and> all_grow (status w) (status w')
    \<and> (\<forall>u. r = Inr u \<longrightarrow> (\<exists>reg \<in> set (ep_sinks P). sr_required reg)
        \<and> (\<forall>reg \<in> set (ep_sinks P). sr_required reg \<longrightarrow> honest (sr_sink reg) \<longrightarrow> delivered_to w' e reg))"
proof (cases "isl (validate_event (ep_schemas P) e) \<or> filter sr_required (ep_sinks P) = []")
  case True
  with assms(2,3) have "w' = w \<and> isl r"
    by (cases "validate_event (ep_schemas P) e")
      (auto simp: publish_def publish_audit_def abind_def aresult_def araise_def Let_def split: if_splits dest: sym)
  with assms(1) show ?thesis by auto
next
  case False
  let ?rs = "filter sr_required (ep_sinks P)"
  obtain r1 w1 where a: "required_sinks P e c p ?rs w = (r1, w1)" by force
  note g1 = required_sinks_delivered [OF assms(1) filter_is_subset a]
  show ?thesis
  proof (cases r1)
    case (Inl x)
    with False a assms(2,3) have "w' = w1 \<and> isl r"
      by (cases "validate_event (ep_schemas P) e")
        (auto simp: publish_def publish_audit_def abind_def aresult_def Let_def lift_world_def)
    with g1 show ?thesis by auto
  next
    case (Inr u)
    with False a assms(2,3) have opt: "optional_sinks P e c p (ep_sinks P) (s, w1) = (r, (s', w'))"
      by (cases "validate_event (ep_schemas P) e")
        (auto simp: publish_def publish_audit_def abind_def aresult_def Let_def lift_world_def)
    note g2 = optional_sinks_grow [OF conjunct1 [OF g1] subset_refl opt]
    have "\<exists>reg \<in> set (ep_sinks P). sr_required reg" using False by (simp add: filter_empty_conv)
    moreover have "delivered_to w' e reg" if "reg \<in> set (ep_sinks P)" "sr_required reg" "honest (sr_sink reg)" for reg
      using g1 g2 Inr that delivered_to_grows by auto
    ultimately show ?thesis using g1 g2 all_grow_trans by blast
  qed
qed

end

subsection \<open>The in-memory ledger as the outbox\<close>

text \<open>
  The dispatcher wired to the in-memory ledger: the world is the ledger and an environment
  \<open>'x\<close> in which the sinks, the policy, the clock and the sleeper live.
\<close>

record 'x environment =
  en_schemas :: event_schemas
  en_sinks :: "'x sink_registration list"
  en_clock :: "'x \<Rightarrow> datetime"
  en_authorize :: "(access_request \<Rightarrow> ('x, exn, decision) action) option"
  en_redact :: "runtime_event \<Rightarrow> sensitivity \<Rightarrow> runtime_event result"
  en_policy :: delivery_policy
  en_backoff :: "int \<Rightarrow> ('x, exn, unit) action"
  en_new_id :: "('x, exn, string) action"

definition on_ledger :: "(event_ledger, exn, 'a) action \<Rightarrow> (event_ledger \<times> 'x, exn, 'a) action" where
  "on_ledger m = (\<lambda>(l, x). case m l of (r, l') \<Rightarrow> (r, (l', x)))"

definition on_rest :: "('x, exn, 'a) action \<Rightarrow> (event_ledger \<times> 'x, exn, 'a) action" where
  "on_rest m = (\<lambda>(l, x). case m x of (r, x') \<Rightarrow> (r, (l, x')))"

definition rest_registration :: "'x sink_registration \<Rightarrow> (event_ledger \<times> 'x) sink_registration" where
  "rest_registration reg = \<lparr>sr_sink = \<lparr>sk_id = sk_id (sr_sink reg), sk_capabilities = sk_capabilities (sr_sink reg),
     sk_deliver = (\<lambda>e c. on_rest (sk_deliver (sr_sink reg) e c))\<rparr>, sr_required = sr_required reg\<rparr>"

definition ledger_ports :: "(json_object \<Rightarrow> string) \<Rightarrow> 'x environment \<Rightarrow> (event_ledger \<times> 'x) event_ports" where
  "ledger_ports H E = \<lparr>ep_next_sequence = (\<lambda>i. on_ledger (next_sequence i)),
     ep_enqueue = (\<lambda>e i c p. on_ledger (enqueue H e i c p)),
     ep_mark = (\<lambda>j i err. on_ledger (mark_attempt j i err)),
     ep_acknowledge = (\<lambda>a. on_ledger (acknowledge a)),
     ep_pending = (\<lambda>n. on_ledger (pending n)),
     ep_schemas = en_schemas E, ep_sinks = List.map rest_registration (en_sinks E),
     ep_clock = (\<lambda>(l, x). en_clock E x),
     ep_authorize = (case en_authorize E of None \<Rightarrow> None | Some f \<Rightarrow> Some (\<lambda>q. on_rest (f q))),
     ep_redact = en_redact E, ep_policy = en_policy E, ep_backoff = (\<lambda>n. on_rest (en_backoff E n)),
     ep_new_id = on_rest (en_new_id E)\<rparr>"

definition world_status :: "event_ledger \<times> 'x \<Rightarrow> event_key \<Rightarrow> delivery_status" where
  "world_status w = ledger_status (fst w)"

lemma on_rest_fst: "on_rest m w = (r, w') \<Longrightarrow> fst w' = fst w"
  by (auto simp: on_rest_def split: prod.splits)

lemma on_ledger_fst: "on_ledger m w = (r, w') \<Longrightarrow> m (fst w) = (r, fst w')"
  by (auto simp: on_ledger_def split: prod.splits)

interpretation memory_outbox: audit_outbox "ledger_ports H E" H "\<lambda>w. ledger_invar (fst w)" world_status for H E
proof
  fix w w' :: "event_ledger \<times> 'a" and e i c p r
  assume inv: "ledger_invar (fst w)" and "ep_enqueue (ledger_ports H E) e i c p w = (r, w')"
  then have m: "enqueue H e i c p (fst w) = (r, fst w')" by (simp add: ledger_ports_def on_ledger_fst)
  show "ledger_invar (fst w') \<and> (case r of
      Inr _ \<Rightarrow> spec_enqueue (ev_id e, i) (payload_digest H e) (world_status w) = Some (world_status w')
    | Inl _ \<Rightarrow> world_status w' = world_status w)"
    using enqueue_refines [OF inv, of H e i c p] enqueue_invar [OF inv, of H e i c p] m
    by (auto simp: refines_spec_def world_status_def split: sum.splits)
next
  fix w w' :: "event_ledger \<times> 'a" and j i err r
  assume inv: "ledger_invar (fst w)" and "ep_mark (ledger_ports H E) j i err w = (r, w')"
  then have m: "mark_attempt j i err (fst w) = (r, fst w')" by (simp add: ledger_ports_def on_ledger_fst)
  show "ledger_invar (fst w') \<and> world_status w' = world_status w"
    using mark_attempt_refines [OF inv, of j i err] mark_attempt_invar [OF inv, of j i err] m
    by (cases r) (auto simp: refines_spec_def world_status_def spec_mark_def split: if_splits)
next
  fix w w' :: "event_ledger \<times> 'a" and a r
  assume inv: "ledger_invar (fst w)" and "ep_acknowledge (ledger_ports H E) a w = (r, w')"
  then have m: "acknowledge a (fst w) = (r, fst w')" by (simp add: ledger_ports_def on_ledger_fst)
  show "ledger_invar (fst w') \<and> (case r of
      Inr _ \<Rightarrow> spec_acknowledge (ack_event a, ack_sink a) (ack_digest a) (world_status w) = Some (world_status w')
    | Inl _ \<Rightarrow> world_status w' = world_status w)"
    using acknowledge_refines [OF inv, of a] acknowledge_invar [OF inv, of a] m
    by (auto simp: refines_spec_def world_status_def split: sum.splits)
next
  fix w w' :: "event_ledger \<times> 'a" and reg e c r
  assume "ledger_invar (fst w)" "reg \<in> set (ep_sinks (ledger_ports H E))" "sk_deliver (sr_sink reg) e c w = (r, w')"
  then show "ledger_invar (fst w') \<and> world_status w' = world_status w"
    by (auto simp: ledger_ports_def rest_registration_def world_status_def dest!: on_rest_fst)
next
  fix w w' :: "event_ledger \<times> 'a" and f q r
  assume "ledger_invar (fst w)" "ep_authorize (ledger_ports H E) = Some f" "f q w = (r, w')"
  then show "ledger_invar (fst w') \<and> world_status w' = world_status w"
    by (auto simp: ledger_ports_def world_status_def split: option.splits dest: on_rest_fst)
next
  fix w w' :: "event_ledger \<times> 'a" and n r
  assume "ledger_invar (fst w)" "ep_backoff (ledger_ports H E) n w = (r, w')"
  then show "ledger_invar (fst w') \<and> world_status w' = world_status w"
    by (auto simp: ledger_ports_def world_status_def dest: on_rest_fst)
qed

subsection \<open>The in-memory sink\<close>

text \<open>
  \<open>InMemoryEventSink\<close>: a sink with a number of failures to play first. What \<open>AcknowledgementId.new()\<close>
  and the system clock return is the argument \<open>fresh\<close>.
\<close>

record sink_state =
  ss_failures :: int
  ss_acks :: "event_id \<rightharpoonup> event_ack"
  ss_events :: "runtime_event list"

definition sink_unavailable :: exn where
  "sink_unavailable = core_error UNAVAILABLE ''sink_unavailable'' ''EventSink is temporarily unavailable'' True None"

definition memory_deliver ::
  "(json_object \<Rightarrow> string) \<Rightarrow> string \<Rightarrow> sink_capabilities \<Rightarrow> (sink_state \<Rightarrow> string \<times> datetime)
    \<Rightarrow> runtime_event \<Rightarrow> call_context \<Rightarrow> (sink_state, exn, event_ack option) action" where
  "memory_deliver H i caps fresh e c s =
     (if 0 < ss_failures s then (Inl sink_unavailable, s\<lparr>ss_failures := ss_failures s - 1\<rparr>)
      else case ss_acks s (ev_id e) of
        Some a \<Rightarrow> if ack_digest a \<noteq> payload_digest H e
          then (Inl (core_error CONFLICT ''event_identity_conflict''
                 ''Event identity was reused with a different payload'' False None), s)
          else (Inr (Some a), s)
      | None \<Rightarrow>
          (let s1 = s\<lparr>ss_events := ss_events s @ [e]\<rparr>
           in if \<not> sc_ack caps then (Inr None, s1)
              else case mk_ack \<lparr>ack_id = fst (fresh s), ack_event = ev_id e, ack_sink = i,
                     ack_digest = payload_digest H e, ack_at = snd (fresh s)\<rparr> of
                  Inl x \<Rightarrow> (Inl x, s1)
                | Inr a \<Rightarrow> (Inr (Some a), s1\<lparr>ss_acks := (ss_acks s1)(ev_id e \<mapsto> a)\<rparr>)))"

definition sink_invar :: "string \<Rightarrow> sink_state \<Rightarrow> bool" where
  "sink_invar i s \<longleftrightarrow> (\<forall>j a. ss_acks s j = Some a \<longrightarrow> ack_event a = j \<and> ack_sink a = i)"

text \<open>
  The sink acknowledges the event it was given, as itself, with that event's digest, and a
  repeated delivery is answered from the record: the event list does not grow.
\<close>

lemma memory_deliver_honest:
  assumes "sink_invar i s" "memory_deliver H i caps fresh e c s = (Inr (Some a), s')"
  shows "ack_event a = ev_id e \<and> ack_sink a = i \<and> ack_digest a = payload_digest H e \<and> sink_invar i s'"
  using assms
  by (auto simp: memory_deliver_def sink_invar_def Let_def mk_ack_def split: if_splits option.splits sum.splits)

lemma memory_deliver_once:
  assumes "memory_deliver H i caps fresh e c s = (Inr (Some a), s')"
  shows "memory_deliver H i caps fresh e c s' = (Inr (Some a), s')"
  using assms
  by (auto simp: memory_deliver_def Let_def mk_ack_def split: if_splits option.splits sum.splits)

end
