(* ===== verification/Event_Properties.thy ===== *)
theory Event_Properties
  imports Event_Delivery Samples
begin

section \<open>Properties of the event subsystem\<close>

text \<open>
  What \<open>event/memory.py\<close>, \<open>event/redaction.py\<close> and \<open>event/dispatcher.py\<close> promise, with
  instances on one event, one sink and the in-memory ledger.
\<close>

subsection \<open>Concrete events and environments\<close>

definition sample_digest :: "json_object \<Rightarrow> string" where
  "sample_digest d = (case obj_get d ''correlation_id'' of JStr s \<Rightarrow> s | _ \<Rightarrow> ''none'')"

definition sample_event :: "string \<Rightarrow> runtime_event" where
  "sample_event i = \<lparr>ev_id = i, ev_type = ''demo.done'', ev_schema = ''1'', ev_occurred_at = sample_time 1,
     ev_run_id = ''r1'', ev_root_run_id = ''r1'', ev_parent_run_id = None, ev_sequence = 1, ev_scope = sample_scope,
     ev_correlation_id = ''k1'', ev_causation_id = None, ev_sensitivity = SENSITIVE, ev_delivery = AUDIT,
     ev_payload = [(''status'', \<lparr>pf_value = JStr ''ok'', pf_sensitivity = PUBLIC\<rparr>),
       (''secret'', \<lparr>pf_value = JInt 7, pf_sensitivity = SENSITIVE\<rparr>)]\<rparr>"

definition sample_capabilities :: sink_capabilities where
  "sample_capabilities = \<lparr>sc_classes = {AUDIT}, sc_schemas = {(''*'', ''*'')}, sc_maximum = INTERNAL, sc_ack = True,
     sc_batch = False, sc_retry_safe = True\<rparr>"

definition sample_principal :: principal where
  "sample_principal = \<lparr>pr_namespace = ''core'', pr_kind = ''run'', pr_id = ''r1''\<rparr>"

definition permissive :: "access_request \<Rightarrow> ('x, exn, decision) action" where
  "permissive q = areturn (allow \<lparr>gr_principal = aq_principal q, gr_action = aq_action q,
     gr_resource = aq_resource q, gr_source_scope = cx_scope (aq_context q), gr_effective_scope = aq_scope q,
     gr_constraints = aq_constraints q, gr_issued_at = sample_time 0, gr_expires_at = None,
     gr_policy_version = ''1'', gr_audit_correlation = ''k1''\<rparr>)"

definition sample_environment :: "(runtime_event \<Rightarrow> call_context \<Rightarrow> ('x, exn, event_ack option) action) \<Rightarrow> 'x environment" where
  "sample_environment deliver = \<lparr>en_schemas = [(''demo.done'', ''1'') \<mapsto> require_payload_fields [''status'']],
     en_sinks = [\<lparr>sr_sink = \<lparr>sk_id = ''audit'', sk_capabilities = sample_capabilities, sk_deliver = deliver\<rparr>,
       sr_required = True\<rparr>],
     en_clock = (\<lambda>_. sample_time 5), en_authorize = Some permissive, en_redact = redact,
     en_policy = \<lparr>dp_audit_attempts = 3, dp_observability_attempts = 1, dp_base_delay = 0, dp_maximum_delay = 0,
       dp_queue_capacity = 1024\<rparr>,
     en_backoff = (\<lambda>n. areturn ()), en_new_id = areturn ''n1''\<rparr>"

definition sample_ack :: "string \<Rightarrow> string \<Rightarrow> event_ack" where
  "sample_ack i d = \<lparr>ack_id = ''a1'', ack_event = i, ack_sink = ''audit'', ack_digest = d, ack_at = sample_time 6\<rparr>"

text \<open>A sink that answers at once, and one that always answers for the event \<open>e0\<close>.\<close>

definition echo :: "runtime_event \<Rightarrow> call_context \<Rightarrow> (unit, exn, event_ack option) action" where
  "echo e c = areturn (Some (sample_ack (ev_id e) (payload_digest sample_digest e)))"

definition misdirected :: "runtime_event \<Rightarrow> call_context \<Rightarrow> (unit, exn, event_ack option) action" where
  "misdirected e c = areturn (Some (sample_ack ''e0'' ''k1''))"

definition fresh_dispatcher :: dispatcher_state where
  "fresh_dispatcher = \<lparr>ds_created = Map.empty, ds_queue = [], ds_diagnostics = []\<rparr>"

subsection \<open>The outbox\<close>

datatype ledger_op =
    LEnqueue runtime_event string call_context principal
  | LMark event_id string "string option"
  | LAcknowledge event_ack

fun ledger_apply :: "(json_object \<Rightarrow> string) \<Rightarrow> ledger_op \<Rightarrow> (event_ledger, exn, unit) action" where
  "ledger_apply H (LEnqueue e s c p) = enqueue H e s c p"
| "ledger_apply H (LMark i s err) = mark_attempt i s err"
| "ledger_apply H (LAcknowledge a) = acknowledge a"

fun spec_apply :: "(json_object \<Rightarrow> string) \<Rightarrow> ledger_op \<Rightarrow> (event_key \<Rightarrow> delivery_status) \<Rightarrow> (event_key \<Rightarrow> delivery_status) option" where
  "spec_apply H (LEnqueue e s c p) = spec_enqueue (ev_id e, s) (payload_digest H e)"
| "spec_apply H (LMark i s err) = spec_mark (i, s)"
| "spec_apply H (LAcknowledge a) = spec_acknowledge (ack_event a, ack_sink a) (ack_digest a)"

text \<open>The ledgers that sequences of operations reach, whatever their order and outcome.\<close>

inductive ledger_steps :: "(json_object \<Rightarrow> string) \<Rightarrow> event_ledger \<Rightarrow> event_ledger \<Rightarrow> bool" for H where
  none: "ledger_steps H l l"
| store: "ledger_steps H l l' \<Longrightarrow> ledger_steps H l (snd (ledger_apply H op l'))"
| number: "ledger_steps H l l' \<Longrightarrow> ledger_steps H l (snd (next_sequence i l'))"

lemma ledger_apply_refines:
  "ledger_invar l \<Longrightarrow> refines_spec (ledger_apply H op l) l (spec_apply H op (ledger_status l))"
  by (cases op) (simp_all add: enqueue_refines mark_attempt_refines acknowledge_refines)

lemma ledger_apply_invar: "ledger_invar l \<Longrightarrow> ledger_invar (snd (ledger_apply H op l))"
  by (cases op) (simp_all add: enqueue_invar mark_attempt_invar acknowledge_invar)

lemma ledger_steps_invar: "ledger_steps H l l' \<Longrightarrow> ledger_invar l \<Longrightarrow> ledger_invar l'"
  by (induction rule: ledger_steps.induct) (auto intro: ledger_apply_invar next_sequence_invar)

lemma spec_apply_grows: "spec_apply H op s = Some t \<Longrightarrow> all_grow s t"
  by (cases op) (auto dest: spec_enqueue_grows spec_acknowledge_grows simp: spec_mark_def split: if_splits)

lemma ledger_apply_grows:
  assumes "ledger_invar l"
  shows "all_grow (ledger_status l) (ledger_status (snd (ledger_apply H op l)))"
  using ledger_apply_refines [OF assms, of H op] spec_apply_grows [of H op "ledger_status l"]
  by (cases "ledger_apply H op l"; cases "fst (ledger_apply H op l)") (auto simp: refines_spec_def)

text \<open>
  C27. The in-memory ledger refines the outbox contract: on any ledger that operations can
  reach, enqueue, mark and acknowledge return exactly when the contract allows the step, and
  then the status of every event and sink is what the contract says; a refused operation
  changes nothing.
\<close>

theorem ledger_refines_outbox:
  assumes "ledger_steps H empty_ledger l"
  shows "refines_spec (ledger_apply H op l) l (spec_apply H op (ledger_status l))"
  by (rule ledger_apply_refines) (rule ledger_steps_invar [OF assms ledger_invar_empty])

definition sample_ledger :: event_ledger where
  "sample_ledger = snd (ledger_apply sample_digest (LEnqueue (sample_event ''e0'') ''audit'' sample_context sample_principal) empty_ledger)"

lemma sample_ledger_reached: "ledger_steps sample_digest empty_ledger sample_ledger"
  unfolding sample_ledger_def by (rule ledger_steps.store) (rule ledger_steps.none)

theorem ledger_refines_outbox_witness:
  "refines_spec (ledger_apply sample_digest (LAcknowledge (sample_ack ''e0'' ''other'')) sample_ledger) sample_ledger
     (spec_apply sample_digest (LAcknowledge (sample_ack ''e0'' ''other'')) (ledger_status sample_ledger))"
  using ledger_refines_outbox [OF sample_ledger_reached] .

text \<open>
  No audit event is ever lost or changed: once stored for a sink it stays, with its
  digest, until that sink's acknowledgement, and stays acknowledged from then on, whatever
  operations follow.
\<close>

theorem ledger_never_forgets:
  assumes "ledger_steps H empty_ledger l" "ledger_steps H l l'"
  shows "status_grows (ledger_status l k) (ledger_status l' k)"
proof -
  have inv: "ledger_invar l" using ledger_steps_invar [OF assms(1) ledger_invar_empty] .
  from assms(2) inv have "all_grow (ledger_status l) (ledger_status l')"
  proof (induction rule: ledger_steps.induct)
    case (store l l' op)
    then have "ledger_invar l'" using ledger_steps_invar by blast
    with store ledger_apply_grows all_grow_trans show ?case by blast
  next
    case (number l l' i)
    then show ?case by (simp add: next_sequence_def Let_def ledger_status_def [abs_def])
  qed simp
  then show ?thesis unfolding all_grow_def by (rule spec)
qed

theorem ledger_never_forgets_witness:
  "status_grows (Waiting ''k1'')
     (ledger_status (snd (ledger_apply sample_digest (LAcknowledge (sample_ack ''e0'' ''k1'')) sample_ledger)) (''e0'', ''audit''))"
proof -
  have "ledger_status sample_ledger (''e0'', ''audit'') = Waiting ''k1''" by code_simp
  then show ?thesis
    using ledger_never_forgets [OF sample_ledger_reached ledger_steps.store [OF ledger_steps.none], of "(''e0'', ''audit'')"]
    by metis
qed

subsection \<open>Sequence numbers\<close>

text \<open>The events a dispatcher returns for a list of requests with fresh identities.\<close>

fun create_all ::
  "'w event_ports \<Rightarrow> (event_request \<times> call_context) list \<Rightarrow> dispatcher_state \<times> 'w \<Rightarrow> runtime_event list" where
  "create_all P [] st = []"
| "create_all P ((q, c) # qs) st = (case create_event P q c None st of
       (Inr e, st') \<Rightarrow> e # create_all P qs st'
     | (Inl x, st') \<Rightarrow> create_all P qs st')"

definition last_sequence :: "event_ledger \<Rightarrow> run_id \<Rightarrow> int" where
  "last_sequence l i = (case el_sequences l i of None \<Rightarrow> 0 | Some n \<Rightarrow> n)"

lemma next_sequence_last:
  "next_sequence i l = (r, l') \<Longrightarrow> r = Inr (last_sequence l i + 1) \<and> last_sequence l' j = last_sequence l j + (if j = i then 1 else 0)"
  by (auto simp: next_sequence_def Let_def last_sequence_def)

lemma make_event_sequence:
  assumes "make_event (ledger_ports H E) q c None (l, x) = (r, (l', x'))"
  shows "(\<forall>j. last_sequence l j \<le> last_sequence l' j)
    \<and> (\<forall>e. r = Inr e \<longrightarrow> last_sequence l (ev_run_id e) < ev_sequence e \<and> ev_sequence e \<le> last_sequence l' (ev_run_id e))"
proof -
  obtain ri x1 where i: "en_new_id E x = (ri, x1)" by force
  show ?thesis
  proof (cases ri)
    case (Inl y)
    with i assms show ?thesis by (auto simp: make_event_def abind_def ledger_ports_def on_rest_def)
  next
    case (Inr eid)
    obtain rn l1 where n: "next_sequence (er_run_id q) l = (rn, l1)" by force
    note s = next_sequence_last [OF n]
    have r: "rn = Inr (last_sequence l (er_run_id q) + 1)" using s by blast
    have "l' = l1 \<and> (\<forall>e. r = Inr e \<longrightarrow> ev_run_id e = er_run_id q \<and> ev_sequence e = last_sequence l (er_run_id q) + 1)"
      using assms i Inr n r
      by (auto simp: make_event_def abind_def ledger_ports_def on_rest_def on_ledger_def aresult_def areturn_def
          new_event_def mk_event_Inr split: sum.splits)
    with s show ?thesis by auto
  qed
qed

lemma create_event_sequence:
  assumes "create_event (ledger_ports H E) q c None (s, (l, x)) = (r, (s', (l', x')))"
  shows "(\<forall>j. last_sequence l j \<le> last_sequence l' j)
    \<and> (\<forall>e. r = Inr e \<longrightarrow> last_sequence l (ev_run_id e) < ev_sequence e \<and> ev_sequence e \<le> last_sequence l' (ev_run_id e))"
proof -
  obtain rm l1 x1 where m: "make_event (ledger_ports H E) q c None (l, x) = (rm, (l1, x1))" by (metis surj_pair)
  with assms have "r = rm \<and> l' = l1" by (auto simp: create_event_def split: sum.splits)
  with make_event_sequence [OF m] show ?thesis by simp
qed

lemma create_all_bounds:
  "e \<in> set (create_all (ledger_ports H E) qs (s, (l, x))) \<Longrightarrow> last_sequence l (ev_run_id e) < ev_sequence e"
proof (induction qs arbitrary: s l x)
  case (Cons qc qs)
  obtain q c where qc: "qc = (q, c)" by force
  obtain r s' l' x' where r: "create_event (ledger_ports H E) q c None (s, (l, x)) = (r, (s', (l', x')))" by (metis surj_pair)
  note b = create_event_sequence [OF r]
  have "e \<in> set (create_all (ledger_ports H E) qs (s', (l', x'))) \<or> r = Inr e"
    using Cons.prems qc r by (cases r) auto
  then show ?case
  proof
    assume "e \<in> set (create_all (ledger_ports H E) qs (s', (l', x')))"
    from Cons.IH [OF this] b show ?thesis by (meson order_le_less_trans)
  qed (use b in blast)
qed simp

text \<open>
  The events of a Run are numbered in the order they were created: of two events that a
  dispatcher on the in-memory ledger returns for the same Run, the later one has the larger
  sequence number, also when creations in between fail.
\<close>

theorem event_sequences_increase:
  "sorted_wrt (\<lambda>e f. ev_run_id e = ev_run_id f \<longrightarrow> ev_sequence e < ev_sequence f)
     (create_all (ledger_ports H E) qs (s, w))"
proof (induction qs arbitrary: s w)
  case (Cons qc qs)
  obtain q c where qc: "qc = (q, c)" by force
  obtain l x where w: "w = (l, x)" by force
  obtain r s' l' x' where r: "create_event (ledger_ports H E) q c None (s, (l, x)) = (r, (s', (l', x')))" by (metis surj_pair)
  show ?case
  proof (cases r)
    case (Inl y)
    with Cons.IH [of s' "(l', x')"] qc w r show ?thesis by simp
  next
    case (Inr e)
    have "ev_sequence e < ev_sequence f"
      if "f \<in> set (create_all (ledger_ports H E) qs (s', (l', x')))" "ev_run_id e = ev_run_id f" for f
      using create_all_bounds [OF that(1)] create_event_sequence [OF r] Inr that(2) by fastforce
    with Cons.IH [of s' "(l', x')"] qc w r Inr show ?thesis by auto
  qed
qed simp

definition sample_event_request :: event_request where
  "sample_event_request = \<lparr>er_type = ''demo.done'', er_schema = ''1'', er_run_id = ''r1'', er_root_run_id = ''r1'',
     er_parent_run_id = None, er_scope = sample_scope, er_sensitivity = INTERNAL, er_delivery = AUDIT,
     er_payload = [(''status'', \<lparr>pf_value = JStr ''ok'', pf_sensitivity = PUBLIC\<rparr>)]\<rparr>"

theorem event_sequences_increase_witness:
  "List.map ev_sequence (create_all (ledger_ports sample_digest (sample_environment echo))
     [(sample_event_request, sample_context), (sample_event_request, sample_context)] (fresh_dispatcher, (empty_ledger, ()))) = [1, 2]
   \<and> sorted_wrt (\<lambda>e f. ev_run_id e = ev_run_id f \<longrightarrow> ev_sequence e < ev_sequence f)
     (create_all (ledger_ports sample_digest (sample_environment echo))
       [(sample_event_request, sample_context)] (fresh_dispatcher, (empty_ledger, ())))"
proof -
  have "List.map ev_sequence (create_all (ledger_ports sample_digest (sample_environment echo))
     [(sample_event_request, sample_context), (sample_event_request, sample_context)] (fresh_dispatcher, (empty_ledger, ()))) = [1, 2]"
    by code_simp
  then show ?thesis using event_sequences_increase by blast
qed

subsection \<open>What a sink receives\<close>

lemma redact_for_Inr:
  "redact_for P k e = Inr e' \<longleftrightarrow> ep_redact P e (sc_maximum (sk_capabilities k)) = Inr e'
     \<and> validate_event (ep_schemas P) e' = Inr ()"
proof (cases "ep_redact P e (sc_maximum (sk_capabilities k))")
  case (Inr e1)
  show ?thesis
  proof (cases "validate_event (ep_schemas P) e1")
    case (Inl x)
    with Inr show ?thesis by (cases x) (auto simp: redact_for_def)
  next
    case (Inr u)
    with \<open>ep_redact P e _ = Inr e1\<close> show ?thesis by (auto simp: redact_for_def)
  qed
qed (simp add: redact_for_def)

text \<open>
  C28. An event prepared for a sink under the default redaction is one the sink supports: the
  class and the schema are among its capabilities, no field and no declared sensitivity is
  above its maximum, the schema still accepts it, and identity, Run, sequence and scope are
  those of the event published.
\<close>

theorem prepared_event_admissible:
  assumes "ep_redact P = redact" "prepare_for_sink P e c p k w = (Inr e', w')"
  shows "supports (sk_capabilities k) e'
    \<and> ev_payload e' = filter (\<lambda>(n, f). pf_sensitivity f \<le> sc_maximum (sk_capabilities k)) (ev_payload e)
    \<and> validate_event (ep_schemas P) e' = Inr ()
    \<and> ev_id e' = ev_id e \<and> ev_run_id e' = ev_run_id e \<and> ev_sequence e' = ev_sequence e \<and> ev_scope e' = ev_scope e"
proof -
  let ?m = "sc_maximum (sk_capabilities k)"
  have caps: "ev_delivery e \<in> sc_classes (sk_capabilities k)" "schema_supported (sk_capabilities k) e"
    "ev_delivery e \<noteq> AUDIT \<or> sc_ack (sk_capabilities k)" and r: "redact_for P k e = Inr e'"
    using assms(2) by (auto simp: prepare_for_sink_def Let_def araise_def abind_eq_Inr aresult_def split: if_splits)
  from r assms(1) have e': "redact e ?m = Inr e'" and v: "validate_event (ep_schemas P) e' = Inr ()"
    by (simp_all add: redact_for_Inr)
  have "ev_sensitivity e' \<le> ?m" using e' payload_sensitivity_visible [of ?m "ev_payload e"]
    by (auto simp: redact_Inr min_le_iff_disj)
  with caps e' v show ?thesis by (auto simp: redact_Inr supports_def schema_supported_def visible_fields_def)
qed

lemma sample_prepared:
  "\<exists>e' w'. prepare_for_sink (ledger_ports sample_digest (sample_environment echo)) (sample_event ''e1'') sample_context sample_principal
     (sr_sink (hd (ep_sinks (ledger_ports sample_digest (sample_environment echo))))) (empty_ledger, ()) = (Inr e', w')"
proof -
  have "\<not> isl (fst (prepare_for_sink (ledger_ports sample_digest (sample_environment echo)) (sample_event ''e1'') sample_context sample_principal
     (sr_sink (hd (ep_sinks (ledger_ports sample_digest (sample_environment echo))))) (empty_ledger, ())))"
    by code_simp
  then show ?thesis by (metis isl_def prod.collapse sum.collapse(2))
qed

theorem prepared_event_admissible_witness:
  "\<exists>e'. ev_payload e' = [(''status'', \<lparr>pf_value = JStr ''ok'', pf_sensitivity = PUBLIC\<rparr>)] \<and> supports sample_capabilities e'"
proof -
  obtain e' w' where p: "prepare_for_sink (ledger_ports sample_digest (sample_environment echo)) (sample_event ''e1'') sample_context sample_principal
     (sr_sink (hd (ep_sinks (ledger_ports sample_digest (sample_environment echo))))) (empty_ledger, ()) = (Inr e', w')"
    using sample_prepared by blast
  have "ep_redact (ledger_ports sample_digest (sample_environment echo)) = redact"
    and k: "sk_capabilities (sr_sink (hd (ep_sinks (ledger_ports sample_digest (sample_environment echo))))) = sample_capabilities"
    by (simp_all add: ledger_ports_def sample_environment_def rest_registration_def)
  from prepared_event_admissible [OF this(1) p] k
  show ?thesis by (intro exI [of _ e']) (simp add: sample_event_def sample_capabilities_def less_eq_sensitivity_def)
qed

subsection \<open>Audit delivery\<close>

text \<open>
  C29. An audit publication is reliable: it returns only when at least one sink is required and
  every required sink whose acknowledgements name the event they were given has acknowledged
  its redacted version, with its digest, in the outbox; and whether or not it returns, nothing
  the outbox held is lost.
\<close>

theorem audit_publication_acknowledged:
  assumes "ledger_invar l" "ev_delivery e = AUDIT"
    and "publish (ledger_ports H E) e c p (s, (l, x)) = (r, (s', (l', x')))"
  shows "(\<forall>k. status_grows (ledger_status l k) (ledger_status l' k))
    \<and> (r = Inr () \<longrightarrow> (\<exists>reg \<in> set (en_sinks E). sr_required reg)
        \<and> (\<forall>reg \<in> set (en_sinks E). sr_required reg \<and> honest (sr_sink reg) \<longrightarrow>
             (\<exists>e'. redact_for (ledger_ports H E) (sr_sink (rest_registration reg)) e = Inr e'
               \<and> ledger_status l' (ev_id e', sk_id (sr_sink reg)) = Delivered (payload_digest H e'))))"
proof -
  have sinks: "ep_sinks (ledger_ports H E) = List.map rest_registration (en_sinks E)"
    by (simp add: ledger_ports_def)
  have hon: "honest (sr_sink (rest_registration reg))" if "honest (sr_sink reg)" for reg :: "'a sink_registration"
    using that by (fastforce simp: honest_def rest_registration_def on_rest_def split: prod.splits)
  from memory_outbox.publish_audit_delivered [of "(l, x)" e H E c p s r s' "(l', x')"] assms
  have d: "all_grow (ledger_status l) (ledger_status l')"
    "r = Inr () \<Longrightarrow> \<exists>reg \<in> set (ep_sinks (ledger_ports H E)). sr_required reg"
    "\<And>reg. r = Inr () \<Longrightarrow> reg \<in> set (ep_sinks (ledger_ports H E)) \<Longrightarrow> sr_required reg \<Longrightarrow> honest (sr_sink reg) \<Longrightarrow>
       memory_outbox.delivered_to H E (l', x') e reg"
    by (auto simp: world_status_def)
  have "\<exists>e'. redact_for (ledger_ports H E) (sr_sink (rest_registration reg)) e = Inr e'
      \<and> ledger_status l' (ev_id e', sk_id (sr_sink reg)) = Delivered (payload_digest H e')"
    if "r = Inr ()" "reg \<in> set (en_sinks E)" "sr_required reg" "honest (sr_sink reg)" for reg
  proof -
    have "memory_outbox.delivered_to H E (l', x') e (rest_registration reg)"
      using that by (intro d(3) hon) (auto simp: sinks rest_registration_def)
    then show ?thesis by (auto simp: memory_outbox.delivered_to_def world_status_def rest_registration_def)
  qed
  moreover have "r = Inr () \<Longrightarrow> \<exists>reg \<in> set (en_sinks E). sr_required reg"
    using d(2) by (auto simp: sinks rest_registration_def)
  ultimately show ?thesis using d(1) by (simp add: all_grow_def)
qed

theorem audit_publication_acknowledged_witness:
  "\<exists>s' l' e'. publish (ledger_ports sample_digest (sample_environment echo)) (sample_event ''e1'') sample_context sample_principal
       (fresh_dispatcher, (empty_ledger, ())) = (Inr (), (s', (l', ())))
     \<and> ledger_status l' (ev_id e', ''audit'') = Delivered (payload_digest sample_digest e')"
proof -
  let ?P = "ledger_ports sample_digest (sample_environment echo)"
  obtain r s' l' where p: "publish ?P (sample_event ''e1'') sample_context sample_principal
    (fresh_dispatcher, (empty_ledger, ())) = (r, (s', (l', ())))" by (metis (full_types) old.unit.exhaust surj_pair)
  have "\<not> isl (fst (publish ?P (sample_event ''e1'') sample_context sample_principal (fresh_dispatcher, (empty_ledger, ()))))"
    by code_simp
  with p have r: "r = Inr ()" by (cases r) auto
  have "honest (sr_sink (hd (en_sinks (sample_environment echo))))"
    by (simp add: honest_def sample_environment_def echo_def areturn_def sample_ack_def)
  with audit_publication_acknowledged [OF ledger_invar_empty _ p] r
  show ?thesis using p by (auto simp: sample_environment_def sample_event_def)
qed

text \<open>
  A publication can also return without its event having been acknowledged: \<open>_deliver_audit\<close>
  stores whatever acknowledgement the sink returns and does not compare it with the event, so
  a sink that answers for an earlier event of the outbox settles that one, and the event that
  was published stays pending.
\<close>

lemma misdirected_acknowledgement_accepted:
  "let out = publish (ledger_ports sample_digest (sample_environment misdirected)) (sample_event ''e1'') sample_context
       sample_principal (fresh_dispatcher, (sample_ledger, ()))
   in fst out = Inr () \<and> ledger_status (fst (snd (snd out))) (''e1'', ''audit'') = Waiting ''k1''
      \<and> ledger_status sample_ledger (''e0'', ''audit'') = Waiting ''k1''
      \<and> ledger_status (fst (snd (snd out))) (''e0'', ''audit'') = Delivered ''k1''"
  by code_simp

text \<open>
  Recovery does not reach an event whose attempts are used up: \<open>recover_pending\<close> continues
  the count where publication stopped, so when it has reached \<open>audit_max_attempts\<close> the sink is
  not asked at all and the delivery fails again, on every recovery.
\<close>

lemma exhausted_delivery_not_retried:
  assumes "dp_audit_attempts (ep_policy P) \<le> pd_attempts p"
    and "authorize_sink P k (pd_event p) ((pd_context p)\<lparr>cx_deadline := None, cx_cancellation := new_token token False\<rparr>)
      (pd_principal p) w = (Inr (), w1)"
  shows "recover_one P p k token w = (Inl (delivery_failed None), w1)"
proof -
  have "[pd_attempts p..dp_audit_attempts (ep_policy P) - 1] = []" using assms(1) by simp
  then show ?thesis using assms(2) by (simp add: recover_one_def Let_def abind_def deliver_audit_def)
qed

text \<open>
  The same on a whole run: a sink that is down for three attempts and up again afterwards has
  exhausted the default policy, and the recovery that follows delivers nothing.
\<close>

definition flaky :: "runtime_event \<Rightarrow> call_context \<Rightarrow> (sink_state, exn, event_ack option) action" where
  "flaky = memory_deliver sample_digest ''audit'' sample_capabilities (\<lambda>s. (''a1'', sample_time 6))"

definition flaky_state :: "dispatcher_state \<times> event_ledger \<times> sink_state" where
  "flaky_state = snd (publish (ledger_ports sample_digest (sample_environment flaky)) (sample_event ''e1'') sample_context
     sample_principal (fresh_dispatcher, (empty_ledger, \<lparr>ss_failures = 3, ss_acks = Map.empty, ss_events = []\<rparr>)))"

lemma flaky_exhausted:
  "ss_failures (snd (snd flaky_state)) = 0
   \<and> ledger_status (fst (snd flaky_state)) (''e1'', ''audit'') = Waiting ''k1''"
  by code_simp

lemma flaky_attempts: "List.map pd_attempts (List.map snd (el_pending (fst (snd flaky_state)))) = [3]"
  by code_simp

lemma flaky_not_recovered: "fst (recover_pending (ledger_ports sample_digest (sample_environment flaky)) 100 flaky_state) = Inr 0"
  by code_simp

end
