(* ===== verification/Value_Schema.thy ===== *)
theory Value_Schema
  imports Json_Codec Runtime_Errors Authorization Py_Strings
begin

section \<open>Schemas of values\<close>

text \<open>
  \<open>runtime/schema.py\<close>: references to schemas and the registry of validators, and, in the last section,
  the versioned references of \<open>runtime/capability.py\<close>. A validator is
  injected; of the exceptions the registry turns into a protocol failure, \<open>TypeError\<close> is the
  foreign error of that name.
\<close>

record schema_ref =
  sm_namespace :: string
  sm_name :: string
  sm_version :: string

definition mk_schema_ref :: "string \<Rightarrow> string \<Rightarrow> string \<Rightarrow> schema_ref result" where
  "mk_schema_ref n m v =
     (if \<not> name_pattern n then Inl (ValueError ''schema namespace is invalid'')
      else if \<not> name_pattern m then Inl (ValueError ''schema name is invalid'')
      else if \<not> trimmed v then Inl (ValueError ''schema version must be non-empty and trimmed'')
      else Inr \<lparr>sm_namespace = n, sm_name = m, sm_version = v\<rparr>)"

definition schema_key :: "schema_ref \<Rightarrow> string \<times> string \<times> string" where
  "schema_key s = (sm_namespace s, sm_name s, sm_version s)"

definition schema_to_data :: "schema_ref \<Rightarrow> json_object" where
  "schema_to_data s = [(''namespace'', JStr (sm_namespace s)), (''name'', JStr (sm_name s)), (''version'', JStr (sm_version s))]"

definition schema_from_data :: "pylib \<Rightarrow> json_object \<Rightarrow> schema_ref result" where
  "schema_from_data L d =
     rbind (field_str L d ''namespace'') (\<lambda>n.
     rbind (field_str L d ''name'') (\<lambda>m.
     rbind (field_str L d ''version'') (\<lambda>v. mk_schema_ref n m v)))"

definition schema_ok :: "schema_ref \<Rightarrow> bool" where
  "schema_ok s \<longleftrightarrow> mk_schema_ref (sm_namespace s) (sm_name s) (sm_version s) = Inr s"

lemma schema_roundtrip: "schema_ok s \<Longrightarrow> schema_from_data L (schema_to_data s) = Inr s"
  by (simp add: schema_from_data_def schema_to_data_def schema_ok_def)

lemma schema_from_data_ok: "schema_from_data L d = Inr s \<Longrightarrow> schema_ok s"
  by (auto simp: schema_from_data_def rbind_eq_Inr mk_schema_ref_def schema_ok_def split: if_splits)

lemma schema_key_inject: "schema_key a = schema_key b \<longleftrightarrow> a = b"
  by (cases a; cases b) (simp add: schema_key_def)

subsection \<open>The registry\<close>

type_synonym value_validator = "json \<Rightarrow> unit result"

type_synonym schema_registry = "string \<times> string \<times> string \<rightharpoonup> value_validator"

definition schema_taken :: exn where
  "schema_taken = core_error CONFLICT ''schema_already_registered'' ''schema is already registered'' False None"

definition register_schema :: "schema_ref \<Rightarrow> value_validator \<Rightarrow> schema_registry \<Rightarrow> schema_registry result" where
  "register_schema s v r = (if schema_key s \<in> dom r then Inl schema_taken else Inr (r(schema_key s \<mapsto> v)))"

definition contains_schema :: "schema_registry \<Rightarrow> schema_ref \<Rightarrow> bool" where
  "contains_schema r s \<longleftrightarrow> schema_key s \<in> dom r"

definition validation_cause :: "exn \<Rightarrow> string option" where
  "validation_cause e = (case e of ValueError _ \<Rightarrow> Some ''ValueError''
     | ForeignError n \<Rightarrow> if n = ''TypeError'' then Some n else None | _ \<Rightarrow> None)"

definition validate_value :: "schema_registry \<Rightarrow> schema_ref \<Rightarrow> json \<Rightarrow> unit result" where
  "validate_value r s v = (case r (schema_key s) of
       None \<Rightarrow> Inl (core_error VERSION_MISMATCH ''schema_not_registered'' ''schema is not registered'' False None)
     | Some f \<Rightarrow> (case f v of
         Inr _ \<Rightarrow> Inr ()
       | Inl e \<Rightarrow> (case validation_cause e of
           None \<Rightarrow> Inl e
         | Some n \<Rightarrow> Inl (core_error PROTOCOL_FAILURE ''schema_validation_failed''
             ''value does not conform to its declared schema'' False (Some n)))))"

interpretation value_registry: once_registry "\<lambda>(s, v). register_schema s v" "\<lambda>r k. r k" "\<lambda>(s, v). schema_key s" snd
    "\<lambda>_. schema_taken"
  by unfold_locales (auto simp: register_schema_def)

text \<open>A value passes exactly when its schema is registered and its validator returns.\<close>

lemma validate_value_Inr:
  "validate_value r s v = Inr u \<longleftrightarrow> (\<exists>f. r (schema_key s) = Some f \<and> f v = Inr ())"
  by (auto simp: validate_value_def split: option.splits sum.splits)

section \<open>Versioned capability references\<close>

text \<open>
  \<open>runtime/capability.py\<close>: the reference by which Workflows and Skills name a capability of a
  Plugin, its resource, its key in the capability registry and its encoding.
\<close>

record capability_ref =
  cp_namespace :: string
  cp_kind :: string
  cp_id :: resource_id
  cp_owner :: string
  cp_version :: string

definition capability_resource :: "capability_ref \<Rightarrow> resource_ref result" where
  "capability_resource c = mk_resource (cp_namespace c) (cp_kind c) (cp_id c) (Some (cp_owner c))"

definition mk_capability :: "capability_ref \<Rightarrow> capability_ref result" where
  "mk_capability c =
     rbind (capability_resource c) (\<lambda>_.
     if \<not> trimmed (cp_version c)
     then Inl (ValueError ''capability contract version must be non-empty and trimmed'') else Inr c)"

definition capability_key_of :: "capability_ref \<Rightarrow> string \<times> string \<times> string" where
  "capability_key_of c = (cp_kind c, cp_id c, cp_version c)"

definition registration_key :: "capability_ref \<Rightarrow> string \<times> string \<times> string" where
  "registration_key c = (cp_kind c, cp_id c, if py_isdigit (cp_version c) then cp_version c @ ''.0.0'' else cp_version c)"

definition capability_to_data :: "capability_ref \<Rightarrow> json_object" where
  "capability_to_data c = [(''namespace'', JStr (cp_namespace c)), (''kind'', JStr (cp_kind c)), (''id'', JStr (cp_id c)),
     (''owning_extension'', JStr (cp_owner c)), (''contract_version'', JStr (cp_version c))]"

definition capability_string :: "json_object \<Rightarrow> string \<Rightarrow> string result" where
  "capability_string d k = rbind (obj_index d k) (\<lambda>v. case v of JStr s \<Rightarrow> Inr s
     | _ \<Rightarrow> Inl (ValueError (''capability reference '' @ k @ '' must be a string'')))"

definition capability_from_data :: "json_object \<Rightarrow> capability_ref result" where
  "capability_from_data d =
     (if \<not> same_fields d [''namespace'', ''kind'', ''id'', ''owning_extension'', ''contract_version'']
      then Inl (ValueError ''capability reference fields are invalid'')
      else rbind (capability_string d ''namespace'') (\<lambda>n. rbind (capability_string d ''kind'') (\<lambda>k.
      rbind (rbind (capability_string d ''id'') mk_identifier) (\<lambda>i.
      rbind (capability_string d ''owning_extension'') (\<lambda>w. rbind (capability_string d ''contract_version'') (\<lambda>v.
      mk_capability \<lparr>cp_namespace = n, cp_kind = k, cp_id = i, cp_owner = w, cp_version = v\<rparr>))))))"

definition capability_from_resource :: "resource_ref \<Rightarrow> string \<Rightarrow> capability_ref result" where
  "capability_from_resource r v = (case rs_owner r of
       None \<Rightarrow> Inl (ValueError ''versioned capability reference requires an owning extension'')
     | Some w \<Rightarrow> mk_capability \<lparr>cp_namespace = rs_namespace r, cp_kind = rs_kind r, cp_id = rs_id r, cp_owner = w,
         cp_version = v\<rparr>)"

definition capability_ok :: "capability_ref \<Rightarrow> bool" where
  "capability_ok c \<longleftrightarrow> mk_capability c = Inr c \<and> identifier_ok (cp_id c)"

lemma mk_capability_self: "mk_capability c = Inr c' \<Longrightarrow> c' = c"
  by (auto simp: mk_capability_def rbind_eq_Inr split: if_splits)

lemma capability_string_simps [simp]:
  "capability_string ((k, v) # d) k' = (if k = k' then (case v of JStr s \<Rightarrow> Inr s
     | _ \<Rightarrow> Inl (ValueError (''capability reference '' @ k' @ '' must be a string''))) else capability_string d k')"
  by (simp add: capability_string_def obj_index_def)

lemma capability_roundtrip:
  assumes "capability_ok c" shows "capability_from_data (capability_to_data c) = Inr c"
  using assms by (cases c) (simp add: capability_from_data_def capability_to_data_def capability_ok_def same_fields_def)

lemma capability_from_data_ok: "capability_from_data d = Inr c \<Longrightarrow> capability_ok c"
  by (auto simp: capability_from_data_def capability_ok_def mk_capability_def rbind_eq_Inr mk_identifier_Inr
      dest: mk_capability_self split: if_splits)

end
