(* ===== verification/Plugin_Registry.thy ===== *)
theory Plugin_Registry
  imports Plugin_Model
begin

section \<open>The capability registry\<close>

text \<open>
  \<open>plugin/registry.py\<close>: capabilities are committed as one plan against one version of the
  registry and removed by the receipt of that commit. The implementation objects are the type
  \<open>'i\<close>. The lock makes each operation one step. The registration identity is a prefix and the
  SHA-256 of a JSON text, which is the argument \<open>H\<close> applied to the document.
\<close>

record 'i loaded_capability =
  lo_declaration :: capability_declaration
  lo_implementation :: 'i

record 'i registration =
  rg_id :: string
  rg_owner :: plugin_ref
  rg_declaration :: capability_declaration
  rg_implementation :: 'i

record 'i snapshot =
  sn_version :: int
  sn_registrations :: "capability_key \<rightharpoonup> 'i registration"

definition mk_snapshot :: "'i snapshot \<Rightarrow> 'i snapshot result" where
  "mk_snapshot s = (if sn_version s < 0 then Inl (ValueError ''registry version must be non-negative'') else Inr s)"

record 'i registration_plan =
  pn_owner :: plugin_ref
  pn_capabilities :: "'i loaded_capability list"

definition loaded_key :: "'i loaded_capability \<Rightarrow> capability_key" where
  "loaded_key c = declaration_key (lo_declaration c)"

definition mk_plan :: "'i registration_plan \<Rightarrow> 'i registration_plan result" where
  "mk_plan p = (if \<not> distinct (List.map loaded_key (pn_capabilities p))
     then Inl (ValueError ''registration plan contains duplicate capabilities'') else Inr p)"

record receipt =
  rc_id :: string
  rc_owner :: plugin_ref
  rc_version :: int
  rc_keys :: "capability_key list"

definition mk_receipt :: "receipt \<Rightarrow> receipt result" where
  "mk_receipt r =
     (if rc_id r = [] \<or> rc_version r < 1
      then Inl (ValueError ''registration identity and committed version are required'')
      else if sort (rc_keys r) \<noteq> rc_keys r
      then Inl (ValueError ''receipt capability keys must use stable order'')
      else Inr r)"

definition key_to_data :: "capability_key \<Rightarrow> json" where
  "key_to_data k = (case k of (a, b, c) \<Rightarrow> JList [JStr a, JStr b, JStr c])"

definition receipt_to_data :: "receipt \<Rightarrow> json_object" where
  "receipt_to_data r = [(''registration_id'', JStr (rc_id r)), (''owner'', JObj (plugin_ref_to_data (rc_owner r))),
     (''registry_version'', JInt (rc_version r)), (''capability_keys'', JList (List.map key_to_data (rc_keys r)))]"

definition key_from_data :: "json \<Rightarrow> capability_key result" where
  "key_from_data v =
     rbind (as_array v ''receipt capability key'') (\<lambda>values. case values of
         [JStr a, JStr b, JStr c] \<Rightarrow> Inr (a, b, c)
       | _ \<Rightarrow> Inl (ValueError ''receipt capability key must contain three strings''))"

definition receipt_from_data :: "pylib \<Rightarrow> json_object \<Rightarrow> receipt result" where
  "receipt_from_data L d =
     (if \<not> same_fields d [''registration_id'', ''owner'', ''registry_version'', ''capability_keys'']
      then Inl (ValueError ''registration receipt fields are invalid'')
      else rbind (rbind (obj_index d ''capability_keys'') (\<lambda>v. as_array v ''receipt capability keys'')) (\<lambda>items.
      rbind (rmap key_from_data items) (\<lambda>keys.
      rbind (field_str L d ''registration_id'') (\<lambda>i.
      rbind (rbind (rbind (obj_index d ''owner'') (\<lambda>v. as_object v ''receipt owner'')) plugin_ref_from_data) (\<lambda>owner.
      rbind (rbind (obj_index d ''registry_version'') (\<lambda>v. as_int v ''registry version'')) (\<lambda>n.
      mk_receipt \<lparr>rc_id = i, rc_owner = owner, rc_version = n, rc_keys = keys\<rparr>))))))"

subsection \<open>Operations\<close>

record 'i capability_registry =
  cr_snapshot :: "'i snapshot"
  cr_retired :: "string set"

definition empty_registry :: "'i capability_registry" where
  "empty_registry = \<lparr>cr_snapshot = \<lparr>sn_version = 0, sn_registrations = Map.empty\<rparr>, cr_retired = {}\<rparr>"

definition registration_id :: "(json_object \<Rightarrow> string) \<Rightarrow> plugin_ref \<Rightarrow> capability_key list \<Rightarrow> int \<Rightarrow> string" where
  "registration_id H owner keys version = ''plugin-registration:'' @
     H [(''owner'', JObj (plugin_ref_to_data owner)), (''capabilities'', JList (List.map key_to_data keys)),
        (''registry_version'', JInt version)]"

definition registration_conflict :: "string \<Rightarrow> plugin_ref \<Rightarrow> string option \<Rightarrow> exn" where
  "registration_conflict msg owner capability =
     plugin_error CONFLICT ''registration_conflict'' msg False (Some (pl_name owner)) capability"

text \<open>The check of the whole plan, then the new entries, then one assignment of the snapshot.\<close>

definition taken_capability :: "'i snapshot \<Rightarrow> 'i loaded_capability list \<Rightarrow> 'i loaded_capability option" where
  "taken_capability s cs = find (\<lambda>c. loaded_key c \<in> dom (sn_registrations s)) cs"

definition new_registrations ::
  "string \<Rightarrow> plugin_ref \<Rightarrow> 'i loaded_capability list \<Rightarrow> (capability_key \<times> 'i registration) list" where
  "new_registrations i owner cs = List.map (\<lambda>c. (loaded_key c, \<lparr>rg_id = i, rg_owner = owner,
     rg_declaration = lo_declaration c, rg_implementation = lo_implementation c\<rparr>)) cs"

definition commit ::
  "(json_object \<Rightarrow> string) \<Rightarrow> 'i registration_plan \<Rightarrow> int \<Rightarrow> ('i capability_registry, exn, receipt) action" where
  "commit H p expected g =
     (let current = cr_snapshot g; ordered = sort_key loaded_key (pn_capabilities p)
      in if sn_version current \<noteq> expected
         then (Inl (registration_conflict ''Capability registry version is stale'' (pn_owner p) None), g)
         else case taken_capability current ordered of
           Some c \<Rightarrow> (Inl (registration_conflict ''Capability is already registered'' (pn_owner p)
                       (Some (cd_id (lo_declaration c)))), g)
         | None \<Rightarrow>
             (let version = sn_version current + 1;
                  keys = List.map loaded_key ordered;
                  i = registration_id H (pn_owner p) keys version;
                  regs = sn_registrations current ++ map_of (rev (new_registrations i (pn_owner p) ordered))
              in case mk_receipt \<lparr>rc_id = i, rc_owner = pn_owner p, rc_version = version, rc_keys = keys\<rparr> of
                   Inl e \<Rightarrow> (Inl e, g)
                 | Inr r \<Rightarrow> (case mk_snapshot \<lparr>sn_version = version, sn_registrations = regs\<rparr> of
                     Inl e \<Rightarrow> (Inl e, g)
                   | Inr s \<Rightarrow> (Inr r, g\<lparr>cr_snapshot := s\<rparr>))))"

definition owns :: "'i snapshot \<Rightarrow> receipt \<Rightarrow> capability_key \<Rightarrow> bool" where
  "owns s r k = (case sn_registrations s k of
       None \<Rightarrow> False
     | Some x \<Rightarrow> ref_eq (rg_owner x) (rc_owner r) \<and> rg_id x = rc_id r)"

text \<open>\<open>del registrations[key]\<close> raises for a key that is no longer there.\<close>

fun delete_keys :: "capability_key list \<Rightarrow> (capability_key \<rightharpoonup> 'a) \<Rightarrow> (capability_key \<rightharpoonup> 'a) result" where
  "delete_keys [] m = Inr m"
| "delete_keys (k # ks) m = (case m k of
       None \<Rightarrow> Inl (KeyError (fst (snd k))) | Some _ \<Rightarrow> delete_keys ks (m(k := None)))"

definition not_owned :: "receipt \<Rightarrow> capability_key \<Rightarrow> exn" where
  "not_owned r k = plugin_error CONFLICT ''registration_identity_conflict''
     ''Registration receipt does not own the committed capability'' False (Some (pl_name (rc_owner r))) (Some (fst (snd k)))"

definition unregister :: "receipt \<Rightarrow> ('i capability_registry, exn, 'i snapshot) action" where
  "unregister r g =
     (if rc_id r \<in> cr_retired g then (Inr (cr_snapshot g), g)
      else case find (\<lambda>k. \<not> owns (cr_snapshot g) r k) (rc_keys r) of
        Some k \<Rightarrow> (Inl (not_owned r k), g)
      | None \<Rightarrow> (case delete_keys (rc_keys r) (sn_registrations (cr_snapshot g)) of
          Inl e \<Rightarrow> (Inl e, g)
        | Inr m \<Rightarrow>
            (let g1 = g\<lparr>cr_retired := insert (rc_id r) (cr_retired g)\<rparr>
             in case mk_snapshot \<lparr>sn_version = sn_version (cr_snapshot g) + 1, sn_registrations = m\<rparr> of
                  Inl e \<Rightarrow> (Inl e, g1)
                | Inr s \<Rightarrow> (Inr s, g1\<lparr>cr_snapshot := s\<rparr>))))"

definition rollback :: "receipt \<Rightarrow> ('i capability_registry, exn, 'i snapshot) action" where
  "rollback r = unregister r"

definition get_capability :: "capability_key \<Rightarrow> 'i capability_registry \<Rightarrow> 'i registration result" where
  "get_capability k g = (case sn_registrations (cr_snapshot g) k of
       None \<Rightarrow> Inl (plugin_error UNAVAILABLE ''capability_not_registered'' ''Capability is not registered'' True
                 None (Some (fst (snd k))))
     | Some x \<Rightarrow> Inr x)"

declare split_paired_All [simp del] split_paired_Ex [simp del]

subsection \<open>Commit\<close>

definition without :: "('k \<rightharpoonup> 'a) \<Rightarrow> 'k set \<Rightarrow> ('k \<rightharpoonup> 'a)" where
  "without m ks = (\<lambda>k. if k \<in> ks then None else m k)"

lemma delete_keys_Inr:
  "delete_keys ks m = Inr m' \<longleftrightarrow> distinct ks \<and> (\<forall>k \<in> set ks. m k \<noteq> None) \<and> m' = without m (set ks)"
proof (induction ks arbitrary: m)
  case (Cons k ks)
  show ?case
  proof (cases "m k")
    case (Some x)
    have w: "k \<notin> set ks \<Longrightarrow> without (m(k := None)) (set ks) = without m (set (k # ks))"
      by (rule ext) (simp add: without_def)
    have d: "(\<forall>j \<in> set ks. (m(k := None)) j \<noteq> None) \<longleftrightarrow> k \<notin> set ks \<and> (\<forall>j \<in> set ks. m j \<noteq> None)"
      by auto
    have "delete_keys (k # ks) m = Inr m' \<longleftrightarrow> delete_keys ks (m(k := None)) = Inr m'" using Some by simp
    also have "\<dots> \<longleftrightarrow> distinct (k # ks) \<and> (\<forall>j \<in> set (k # ks). m j \<noteq> None) \<and> m' = without m (set (k # ks))"
      unfolding Cons.IH d using Some w by auto
    finally show ?thesis .
  qed auto
qed (auto simp: without_def)

text \<open>What a successful unregistration leaves: the receipt retired and, the first time, none of its capabilities.\<close>

lemma unregister_removes:
  assumes "unregister r g = (Inr s, g')"
  shows "rc_id r \<in> cr_retired g' \<and> (if rc_id r \<in> cr_retired g then g' = g
    else (\<forall>k \<in> set (rc_keys r). owns (cr_snapshot g) r k)
      \<and> sn_registrations (cr_snapshot g') = without (sn_registrations (cr_snapshot g)) (set (rc_keys r)))"
  using assms
  by (auto simp: unregister_def find_None_iff delete_keys_Inr Let_def mk_snapshot_def split: if_splits option.splits sum.splits)

lemma taken_capability_None:
  "taken_capability s cs = None \<longleftrightarrow> (\<forall>c \<in> set cs. loaded_key c \<notin> dom (sn_registrations s))"
  by (auto simp: taken_capability_def find_None_iff)

lemma map_of_rev_new:
  assumes "distinct (List.map loaded_key cs)"
  shows "map_of (rev (new_registrations i owner cs)) = map_of (new_registrations i owner cs)"
proof (rule map_of_inject_set [THEN iffD2])
  have "List.map fst (new_registrations i owner cs) = List.map loaded_key cs" by (simp add: new_registrations_def comp_def)
  with assms show "distinct (List.map fst (new_registrations i owner cs))"
    "distinct (List.map fst (rev (new_registrations i owner cs)))" by (simp_all only: distinct_rev flip: rev_map)
qed simp

text \<open>A commit publishes the whole plan or nothing.\<close>

lemma commit_Inr:
  assumes "commit H p n g = (Inr r, g')"
  shows "n = sn_version (cr_snapshot g) \<and> (\<forall>c \<in> set (pn_capabilities p). loaded_key c \<notin> dom (sn_registrations (cr_snapshot g)))
    \<and> rc_keys r = List.map loaded_key (sort_key loaded_key (pn_capabilities p)) \<and> rc_owner r = pn_owner p
    \<and> rc_version r = n + 1 \<and> rc_id r = registration_id H (pn_owner p) (rc_keys r) (n + 1)
    \<and> g' = g\<lparr>cr_snapshot := \<lparr>sn_version = n + 1, sn_registrations = sn_registrations (cr_snapshot g)
        ++ map_of (rev (new_registrations (rc_id r) (pn_owner p) (sort_key loaded_key (pn_capabilities p))))\<rparr>\<rparr>"
  using assms
  by (auto simp: commit_def Let_def mk_receipt_def mk_snapshot_def taken_capability_None split: if_splits option.splits)

lemma commit_Inl: "commit H p n g = (Inl e, g') \<Longrightarrow> g' = g"
  by (auto simp: commit_def Let_def split: if_splits option.splits sum.splits)

lemma sorted_map_sort_key: "sort (List.map f (sort_key f xs)) = List.map f (sort_key f xs)"
  by (simp add: sorted_sort_id)

lemma commit_possible:
  assumes "0 \<le> sn_version (cr_snapshot g)" "\<forall>c \<in> set (pn_capabilities p). loaded_key c \<notin> dom (sn_registrations (cr_snapshot g))"
  shows "\<exists>r g'. commit H p (sn_version (cr_snapshot g)) g = (Inr r, g')"
proof -
  have "taken_capability (cr_snapshot g) (sort_key loaded_key (pn_capabilities p)) = None"
    using assms(2) by (simp add: taken_capability_None)
  then show ?thesis
    using assms(1) by (simp add: commit_def Let_def mk_receipt_def mk_snapshot_def sorted_map_sort_key registration_id_def)
qed

subsection \<open>Reachable registries\<close>

inductive registry_reachable :: "(json_object \<Rightarrow> string) \<Rightarrow> 'i capability_registry \<Rightarrow> bool" for H where
  start: "registry_reachable H empty_registry"
| commit: "registry_reachable H g \<Longrightarrow> mk_plan p = Inr p \<Longrightarrow> registry_reachable H (snd (commit H p n g))"
| unregister: "registry_reachable H g \<Longrightarrow> registry_reachable H (snd (unregister r g))"

definition registry_invar :: "'i capability_registry \<Rightarrow> bool" where
  "registry_invar g \<longleftrightarrow> 0 \<le> sn_version (cr_snapshot g)
     \<and> (\<forall>k x. sn_registrations (cr_snapshot g) k = Some x \<longrightarrow> declaration_key (rg_declaration x) = k)"

lemma registry_invar_commit:
  assumes inv: "registry_invar g"
  shows "registry_invar (snd (commit H p n g))"
proof (cases "commit H p n g")
  case (Pair res g')
  show ?thesis
  proof (cases res)
    case (Inl e)
    with Pair inv show ?thesis by (auto dest: commit_Inl)
  next
    case (Inr r)
    note c = commit_Inr [OF Pair [unfolded Inr]]
    have new: "declaration_key (rg_declaration x) = k"
      if "map_of (rev (new_registrations i owner cs)) k = Some x" for i owner k x and cs :: "'a loaded_capability list"
      using that by (auto simp: new_registrations_def loaded_key_def dest!: map_of_SomeD)
    have "0 \<le> n" using c inv by (simp add: registry_invar_def)
    then show ?thesis
      using inv c unfolding Pair registry_invar_def by (auto simp: map_add_Some_iff dest: new)
  qed
qed

lemma mk_snapshot_Inr: "0 \<le> sn_version s \<Longrightarrow> mk_snapshot s = Inr s"
  by (simp add: mk_snapshot_def)

lemma unregister_Inr:
  assumes "0 \<le> sn_version (cr_snapshot g)" "rc_id r \<notin> cr_retired g" "distinct (rc_keys r)"
    "\<forall>k \<in> set (rc_keys r). owns (cr_snapshot g) r k"
    "s = \<lparr>sn_version = sn_version (cr_snapshot g) + 1, sn_registrations = without (sn_registrations (cr_snapshot g)) (set (rc_keys r))\<rparr>"
  shows "unregister r g = (Inr s, \<lparr>cr_snapshot = s, cr_retired = insert (rc_id r) (cr_retired g)\<rparr>)"
proof -
  have "sn_registrations (cr_snapshot g) k \<noteq> None" if "k \<in> set (rc_keys r)" for k
    using bspec [OF assms(4) that] by (auto simp: owns_def split: option.splits)
  then have "delete_keys (rc_keys r) (sn_registrations (cr_snapshot g)) = Inr (sn_registrations s)"
    using assms(3,5) by (auto simp: delete_keys_Inr)
  moreover have "find (\<lambda>k. \<not> owns (cr_snapshot g) r k) (rc_keys r) = None" using assms(4) by (auto simp: find_None_iff)
  ultimately show ?thesis
    using assms(1,2,5) by (cases g) (simp add: unregister_def Let_def mk_snapshot_Inr)
qed

lemma unregister_keeps:
  assumes "registry_invar g"
  shows "registry_invar (snd (unregister r g))"
proof (cases "rc_id r \<in> cr_retired g \<or> find (\<lambda>k. \<not> owns (cr_snapshot g) r k) (rc_keys r) \<noteq> None")
  case True
  with assms show ?thesis by (auto simp: unregister_def)
next
  case False
  then have own: "\<forall>k \<in> set (rc_keys r). owns (cr_snapshot g) r k" by (auto simp: find_None_iff)
  show ?thesis
  proof (cases "distinct (rc_keys r)")
    case True
    show ?thesis
      using False assms
      by (subst unregister_Inr [OF _ _ True own refl]) (auto simp: registry_invar_def without_def split: if_splits)
  next
    case dup: False
    then obtain e where "delete_keys (rc_keys r) (sn_registrations (cr_snapshot g)) = Inl e"
      by (cases "delete_keys (rc_keys r) (sn_registrations (cr_snapshot g))") (auto simp: delete_keys_Inr)
    with False assms show ?thesis by (simp add: unregister_def)
  qed
qed

lemma registry_reachable_invar: "registry_reachable H g \<Longrightarrow> registry_invar g"
proof (induction rule: registry_reachable.induct)
  case start
  show ?case by (simp add: registry_invar_def empty_registry_def)
qed (simp_all add: registry_invar_commit unregister_keeps)

subsection \<open>Commit, then unregister\<close>

lemma ref_eq_refl [simp]: "ref_eq a a"
  by (simp add: ref_eq_def semver_eq_def)

lemma commit_then_unregister:
  assumes inv: "registry_invar g" and p: "mk_plan p = Inr p"
    and c: "commit H p n g = (Inr r, g1)" and fresh: "rc_id r \<notin> cr_retired g"
  shows "\<exists>s. unregister r g1 = (Inr s, \<lparr>cr_snapshot = s, cr_retired = insert (rc_id r) (cr_retired g)\<rparr>)
    \<and> sn_registrations s = sn_registrations (cr_snapshot g) \<and> sn_version s = n + 2"
proof -
  note e = commit_Inr [OF c]
  let ?cs = "sort_key loaded_key (pn_capabilities p)" and ?m = "sn_registrations (cr_snapshot g)"
  let ?new = "new_registrations (rc_id r) (pn_owner p) ?cs"
  have dist: "distinct (List.map loaded_key ?cs)" using p by (simp add: mk_plan_def distinct_map_sort_key split: if_splits)
  have keys: "rc_keys r = List.map loaded_key ?cs" using e by simp
  have fst_new: "List.map fst ?new = rc_keys r" by (simp add: new_registrations_def keys comp_def)
  have g1: "sn_registrations (cr_snapshot g1) = ?m ++ map_of ?new" "sn_version (cr_snapshot g1) = n + 1"
    "cr_retired g1 = cr_retired g"
    using e map_of_rev_new [OF dist] by simp_all
  have dom: "dom (map_of ?new) = set (rc_keys r)" using fst_new by (metis dom_map_of_conv_image_fst list.set_map)
  have disj: "set (rc_keys r) \<inter> dom ?m = {}" using e keys by auto
  have own: "owns (cr_snapshot g1) r k" if k: "k \<in> set (rc_keys r)" for k
  proof -
    obtain x where x: "map_of ?new k = Some x" using k dom by auto
    then have "rg_owner x = rc_owner r \<and> rg_id x = rc_id r"
      using e by (auto simp: new_registrations_def dest!: map_of_SomeD)
    with x show ?thesis by (simp add: owns_def g1 map_add_Some_iff)
  qed
  have dk: "distinct (rc_keys r)" using dist keys by simp
  have "without (?m ++ map_of ?new) (set (rc_keys r)) = ?m"
  proof
    fix k
    show "without (?m ++ map_of ?new) (set (rc_keys r)) k = ?m k"
    proof (cases "k \<in> set (rc_keys r)")
      case True
      then have "?m k = None" using disj by (auto simp: domIff)
      with True show ?thesis by (simp add: without_def)
    next
      case False
      then have "map_of ?new k = None" using dom by (metis domIff)
      with False show ?thesis by (simp add: without_def map_add_def)
    qed
  qed
  moreover have "0 \<le> sn_version (cr_snapshot g1)" using inv e g1 by (simp add: registry_invar_def)
  ultimately show ?thesis
    using unregister_Inr [of g1 r, OF _ _ dk _ refl] fresh own by (simp add: g1)
qed

end
