(* ===== verification/Plugin_Lifecycle.thy ===== *)
theory Plugin_Lifecycle
  imports Plugin_Registry "HOL-Library.AList"
begin

section \<open>Plugin lifecycle and execution leases\<close>

text \<open>
  \<open>plugin/lifecycle.py\<close>: the state record of each Plugin, the transition table, and the leases
  under which its capabilities run. The condition of a Plugin makes each operation one step; the
  insertion order of the lease dictionary is kept, and the SHA-256 of the lease text is the
  argument \<open>H\<close>.
\<close>

datatype lifecycle_state = DISCOVERED | VALIDATED | LOADED | REGISTERED | ACTIVE | DRAINING | UNREGISTERED | UNLOADED

fun lifecycle_state_value :: "lifecycle_state \<Rightarrow> string" where
  "lifecycle_state_value DISCOVERED = ''discovered''"
| "lifecycle_state_value VALIDATED = ''validated''"
| "lifecycle_state_value LOADED = ''loaded''"
| "lifecycle_state_value REGISTERED = ''registered''"
| "lifecycle_state_value ACTIVE = ''active''"
| "lifecycle_state_value DRAINING = ''draining''"
| "lifecycle_state_value UNREGISTERED = ''unregistered''"
| "lifecycle_state_value UNLOADED = ''unloaded''"

record plugin_record =
  ps_manifest :: plugin_manifest
  ps_state :: lifecycle_state
  ps_version :: int
  ps_receipt :: "receipt option"
  ps_epoch :: int
  ps_hooks :: "plugin_hook set"

definition mk_plugin_record :: "plugin_record \<Rightarrow> plugin_record result" where
  "mk_plugin_record r =
     (if ps_version r < 0 \<or> ps_epoch r < 0
      then Inl (ValueError ''Plugin state versions must be non-negative'') else Inr r)"

definition record_ref :: "plugin_record \<Rightarrow> plugin_ref" where
  "record_ref r = manifest_ref (ps_manifest r)"

record lease =
  ls_id :: string
  ls_plugin :: plugin_ref
  ls_epoch :: int
  ls_key :: capability_key
  ls_run :: run_id
  ls_invocation :: string
  ls_acquired :: datetime

text \<open>Equality of the dataclass: the Plugin references compare without build metadata.\<close>

definition lease_eq :: "lease \<Rightarrow> lease \<Rightarrow> bool" where
  "lease_eq a b \<longleftrightarrow> ls_id a = ls_id b \<and> ref_eq (ls_plugin a) (ls_plugin b) \<and> ls_epoch a = ls_epoch b
     \<and> ls_key a = ls_key b \<and> ls_run a = ls_run b \<and> ls_invocation a = ls_invocation b \<and> ls_acquired a = ls_acquired b"

fun allowed_transitions :: "lifecycle_state \<Rightarrow> lifecycle_state list" where
  "allowed_transitions DISCOVERED = [VALIDATED]"
| "allowed_transitions VALIDATED = [LOADED]"
| "allowed_transitions LOADED = [REGISTERED]"
| "allowed_transitions REGISTERED = [ACTIVE, UNREGISTERED]"
| "allowed_transitions ACTIVE = [DRAINING]"
| "allowed_transitions DRAINING = [ACTIVE, UNREGISTERED]"
| "allowed_transitions UNREGISTERED = [UNLOADED]"
| "allowed_transitions UNLOADED = []"

record lifecycle =
  lc_conditions :: "string set"
  lc_records :: "(string \<times> plugin_record) list"
  lc_leases :: "string \<rightharpoonup> (string \<times> lease) list"
  lc_released :: "string \<rightharpoonup> string set"

definition new_lifecycle :: lifecycle where
  "new_lifecycle = \<lparr>lc_conditions = {}, lc_records = [], lc_leases = Map.empty, lc_released = Map.empty\<rparr>"

subsection \<open>Operations\<close>

definition plugin_not_loaded :: "string \<Rightarrow> exn" where
  "plugin_not_loaded p = plugin_error UNAVAILABLE ''plugin_not_loaded''
     ''Plugin is not known to the lifecycle controller'' True (Some p) None"

definition plugin_record_of :: "string \<Rightarrow> (lifecycle, exn, plugin_record) action" where
  "plugin_record_of p g = (case map_of (lc_records g) p of
       None \<Rightarrow> (Inl (plugin_not_loaded p), g) | Some r \<Rightarrow> (Inr r, g))"

definition condition_of :: "string \<Rightarrow> (lifecycle, exn, unit) action" where
  "condition_of p g =
     (if p \<in> lc_conditions g then (Inr (), g)
      else abind (plugin_record_of p) (\<lambda>_. araise (AssertionError ''known Plugin must have a lifecycle condition'')) g)"

definition lease_conflict :: "string \<Rightarrow> string \<Rightarrow> exn" where
  "lease_conflict p capability = plugin_error CONFLICT ''lease_identity_conflict''
     ''Execution lease identity conflicts with existing state'' False (Some p) (Some capability)"

definition put_record :: "string \<Rightarrow> plugin_record \<Rightarrow> lifecycle \<Rightarrow> lifecycle" where
  "put_record p r g = g\<lparr>lc_records := AList.update p r (lc_records g)\<rparr>"

definition discover :: "plugin_manifest \<Rightarrow> (lifecycle, exn, plugin_record) action" where
  "discover m g0 =
     (let p = mf_name m; g = g0\<lparr>lc_conditions := insert p (lc_conditions g0)\<rparr>
      in case map_of (lc_records g) p of
        Some existing \<Rightarrow>
          if manifest_eq (ps_manifest existing) m then (Inr existing, g)
          else (Inl (plugin_error CONFLICT ''registration_identity_conflict''
                  ''Plugin identity is already associated with another manifest'' False (Some p) None), g)
      | None \<Rightarrow>
          (let r = \<lparr>ps_manifest = m, ps_state = DISCOVERED, ps_version = 0, ps_receipt = None, ps_epoch = 0, ps_hooks = {}\<rparr>
           in (Inr r, (put_record p r g)\<lparr>lc_leases := (lc_leases g)(p \<mapsto> []), lc_released := (lc_released g)(p \<mapsto> {})\<rparr>)))"

definition get_record :: "string \<Rightarrow> (lifecycle, exn, plugin_record) action" where
  "get_record p = abind (condition_of p) (\<lambda>_. plugin_record_of p)"

definition lifecycle_conflict :: "string \<Rightarrow> string \<Rightarrow> string \<Rightarrow> exn" where
  "lifecycle_conflict code msg p = plugin_error CONFLICT code msg False (Some p) None"

definition plugin_transition ::
  "string \<Rightarrow> lifecycle_state \<Rightarrow> int option \<Rightarrow> receipt option \<Rightarrow> bool \<Rightarrow> (lifecycle, exn, plugin_record) action" where
  "plugin_transition p target expected receipt clear =
     abind (condition_of p) (\<lambda>_. abind (plugin_record_of p) (\<lambda>current.
     if expected \<noteq> None \<and> Some (ps_version current) \<noteq> expected
     then araise (lifecycle_conflict ''lifecycle_state_conflict'' ''Plugin lifecycle state version is stale'' p)
     else if ps_state current = target then areturn current
     else if target \<notin> set (allowed_transitions (ps_state current))
     then araise (lifecycle_conflict ''invalid_lifecycle_transition''
            (''Cannot transition Plugin from '' @ lifecycle_state_value (ps_state current) @ '' to ''
              @ lifecycle_state_value target) p)
     else
       (let next_receipt = (if clear then None else if receipt \<noteq> None then receipt else ps_receipt current);
            epoch = (if target = ACTIVE then ps_epoch current + 1 else ps_epoch current)
        in abind (aresult (mk_plugin_record (current\<lparr>ps_state := target, ps_version := ps_version current + 1,
                     ps_receipt := next_receipt, ps_epoch := epoch\<rparr>)))
             (\<lambda>updated g. (Inr updated, put_record p updated g)))))"

definition mark_hook :: "string \<Rightarrow> plugin_hook \<Rightarrow> (lifecycle, exn, plugin_record) action" where
  "mark_hook p hook =
     abind (condition_of p) (\<lambda>_. abind (plugin_record_of p) (\<lambda>current.
     if hook \<in> ps_hooks current then areturn current
     else abind (aresult (mk_plugin_record (current\<lparr>ps_version := ps_version current + 1,
                   ps_hooks := insert hook (ps_hooks current)\<rparr>)))
            (\<lambda>updated g. (Inr updated, put_record p updated g))))"

definition lease_table :: "string \<Rightarrow> (lifecycle, exn, (string \<times> lease) list) action" where
  "lease_table p g = (case lc_leases g p of None \<Rightarrow> (Inl (KeyError p), g) | Some t \<Rightarrow> (Inr t, g))"

definition released_ids :: "string \<Rightarrow> (lifecycle, exn, string set) action" where
  "released_ids p g = (case lc_released g p of None \<Rightarrow> (Inl (KeyError p), g) | Some s \<Rightarrow> (Inr s, g))"

definition lease_parts :: "plugin_ref \<Rightarrow> int \<Rightarrow> capability_key \<Rightarrow> run_id \<Rightarrow> string \<Rightarrow> string list" where
  "lease_parts ref epoch k run invocation = (case k of (a, b, c) \<Rightarrow>
     [pl_name ref, semver_str (pl_version ref), int_str epoch, a, b, c, run, invocation])"

definition separator :: char where
  "separator = CHR 0x1F"

definition lease_text :: "plugin_ref \<Rightarrow> int \<Rightarrow> capability_key \<Rightarrow> run_id \<Rightarrow> string \<Rightarrow> string" where
  "lease_text ref epoch k run invocation = join_with [separator] (lease_parts ref epoch k run invocation)"

definition lease_identity :: "(string \<Rightarrow> string) \<Rightarrow> plugin_ref \<Rightarrow> int \<Rightarrow> capability_key \<Rightarrow> run_id \<Rightarrow> string \<Rightarrow> string" where
  "lease_identity H ref epoch k run invocation = ''plugin-lease:'' @ H (lease_text ref epoch k run invocation)"

definition acquire ::
  "(string \<Rightarrow> string) \<Rightarrow> string \<Rightarrow> capability_key \<Rightarrow> call_context \<Rightarrow> datetime \<Rightarrow> (lifecycle, exn, lease) action" where
  "acquire H p k ctx now =
     (case cx_idempotency_key ctx of
        None \<Rightarrow> araise (plugin_error INVALID_REQUEST ''missing_invocation_identity''
                  ''Plugin capability invocation requires an idempotency key'' False (Some p) (Some (fst (snd k))))
      | Some invocation \<Rightarrow>
          abind (condition_of p) (\<lambda>_. abind (plugin_record_of p) (\<lambda>current. abind (lease_table p) (\<lambda>table.
          case map_of table invocation of
            Some active \<Rightarrow> if ls_key active = k \<and> ls_run active = cx_run_id ctx then areturn active
                           else araise (lease_conflict p (fst (snd k)))
          | None \<Rightarrow>
              if ps_state current = DRAINING
              then araise (plugin_error UNAVAILABLE ''plugin_draining''
                     ''Plugin is draining and rejects new execution leases'' True (Some p) (Some (fst (snd k))))
              else if ps_state current \<noteq> ACTIVE
              then araise (plugin_error CONFLICT ''invalid_lifecycle_transition''
                     ''Execution leases are available only while Plugin is ACTIVE'' False (Some p) (Some (fst (snd k))))
              else
                (let i = lease_identity H (record_ref current) (ps_epoch current) k (cx_run_id ctx) invocation
                 in abind (released_ids p) (\<lambda>gone.
                    if i \<in> gone then araise (lease_conflict p (fst (snd k)))
                    else (let l = \<lparr>ls_id = i, ls_plugin = record_ref current, ls_epoch = ps_epoch current, ls_key = k,
                                 ls_run = cx_run_id ctx, ls_invocation = invocation, ls_acquired = now\<rparr>
                          in (\<lambda>g. (Inr l, g\<lparr>lc_leases := (lc_leases g)(p \<mapsto> AList.update invocation l table)\<rparr>)))))))))"

definition release :: "lease \<Rightarrow> (lifecycle, exn, unit) action" where
  "release l =
     (let p = pl_name (ls_plugin l)
      in abind (condition_of p) (\<lambda>_. abind (released_ids p) (\<lambda>gone.
         if ls_id l \<in> gone then areturn ()
         else abind (lease_table p) (\<lambda>table.
           case map_of table (ls_invocation l) of
             None \<Rightarrow> araise (lease_conflict p (fst (snd (ls_key l))))
           | Some existing \<Rightarrow>
               if \<not> lease_eq existing l then araise (lease_conflict p (fst (snd (ls_key l))))
               else (\<lambda>g. (Inr (), g\<lparr>lc_leases := (lc_leases g)(p \<mapsto> AList.delete (ls_invocation l) table),
                       lc_released := (lc_released g)(p \<mapsto> insert (ls_id l) gone)\<rparr>))))))"

definition begin_draining :: "string \<Rightarrow> int option \<Rightarrow> (lifecycle, exn, plugin_record) action" where
  "begin_draining p expected = plugin_transition p DRAINING expected None False"

text \<open>
  The wait of \<open>unload\<close>: each element of the list is what one await of the condition gives and the
  state on wake-up; None stands for a wait that goes on.
\<close>

fun wait_for_zero :: "string \<Rightarrow> (unit result \<times> lifecycle) list \<Rightarrow> lifecycle \<Rightarrow> unit result option" where
  "wait_for_zero p wakes g =
     (case condition_of p g of
        (Inl e, _) \<Rightarrow> Some (Inl e)
      | (Inr _, _) \<Rightarrow> (case lc_leases g p of
          None \<Rightarrow> Some (Inl (KeyError p))
        | Some [] \<Rightarrow> Some (Inr ())
        | Some (_ # _) \<Rightarrow> (case wakes of
            [] \<Rightarrow> None
          | (Inl e, _) # _ \<Rightarrow> Some (Inl e)
          | (Inr _, g') # later \<Rightarrow> wait_for_zero p later g')))"

declare wait_for_zero.simps [simp del]

definition active_lease_count :: "string \<Rightarrow> (lifecycle, exn, nat) action" where
  "active_lease_count p =
     abind (condition_of p) (\<lambda>_. abind (lease_table p) (\<lambda>table. areturn (List.length table)))"

definition active_plugin_refs :: "(lifecycle, exn, plugin_ref list) action" where
  "active_plugin_refs g =
     (case rmap (\<lambda>p. fst (get_record p g)) (sort (List.map fst (lc_records g))) of
        Inl e \<Rightarrow> (Inl e, g)
      | Inr rs \<Rightarrow> (Inr (List.map record_ref (filter (\<lambda>r. ps_state r \<in> {REGISTERED, ACTIVE, DRAINING}) rs)), g))"

end
