(* ===== verification/Lifecycle_Invariant.thy ===== *)
theory Lifecycle_Invariant
  imports Plugin_Lifecycle
begin

section \<open>The lifecycle controller: effects and invariant\<close>

text \<open>
  What each operation can change, as one lemma per operation, then the trace semantics of the
  controller and its invariant.
\<close>

declare split_paired_All [simp del] split_paired_Ex [simp del]

subsection \<open>Effects\<close>

lemma bind_condition [simp]: "abind (condition_of p) f g =
    (if p \<in> lc_conditions g then f () g
     else (Inl (case map_of (lc_records g) p of None \<Rightarrow> plugin_not_loaded p
                | Some _ \<Rightarrow> AssertionError ''known Plugin must have a lifecycle condition''), g))"
  by (simp add: condition_of_def plugin_record_of_def abind_def araise_def split: option.split)

lemma bind_record [simp]: "abind (plugin_record_of p) f g =
    (case map_of (lc_records g) p of None \<Rightarrow> (Inl (plugin_not_loaded p), g) | Some r \<Rightarrow> f r g)"
  by (simp add: plugin_record_of_def abind_def split: option.split)

lemma bind_leases [simp]: "abind (lease_table p) f g =
    (case lc_leases g p of None \<Rightarrow> (Inl (KeyError p), g) | Some t \<Rightarrow> f t g)"
  by (simp add: lease_table_def abind_def split: option.split)

lemma bind_released [simp]: "abind (released_ids p) f g =
    (case lc_released g p of None \<Rightarrow> (Inl (KeyError p), g) | Some s \<Rightarrow> f s g)"
  by (simp add: released_ids_def abind_def split: option.split)

lemma bind_record_check [simp]: "abind (aresult (mk_plugin_record r)) f g =
    (if ps_version r < 0 \<or> ps_epoch r < 0
     then (Inl (ValueError ''Plugin state versions must be non-negative''), g) else f r g)"
  by (simp add: mk_plugin_record_def abind_def aresult_def)

lemma araise_apply [simp]: "araise e g = (Inl e, g)" by (simp add: araise_def)

lemma areturn_apply [simp]: "areturn x g = (Inr x, g)" by (simp add: areturn_def)

lemma plugin_transition_effect:
  obtains (unchanged) "snd (plugin_transition p target expected receipt clear g) = g"
  | (moved) r r' where "map_of (lc_records g) p = Some r" "target \<in> set (allowed_transitions (ps_state r))"
      "plugin_transition p target expected receipt clear g = (Inr r', put_record p r' g)"
      "r' = r\<lparr>ps_state := target, ps_version := ps_version r + 1,
         ps_receipt := if clear then None else if receipt \<noteq> None then receipt else ps_receipt r,
         ps_epoch := ps_epoch r + (if target = ACTIVE then 1 else 0)\<rparr>" "0 \<le> ps_epoch r'" "0 \<le> ps_version r'"
proof (cases "map_of (lc_records g) p")
  case None
  then have "snd (plugin_transition p target expected receipt clear g) = g" by (simp add: plugin_transition_def)
  then show ?thesis by (rule unchanged)
next
  case (Some r)
  let ?r = "r\<lparr>ps_state := target, ps_version := ps_version r + 1,
         ps_receipt := if clear then None else if receipt \<noteq> None then receipt else ps_receipt r,
         ps_epoch := ps_epoch r + (if target = ACTIVE then 1 else 0)\<rparr>"
  have "snd (plugin_transition p target expected receipt clear g) = g
      \<or> target \<in> set (allowed_transitions (ps_state r)) \<and> 0 \<le> ps_epoch ?r \<and> 0 \<le> ps_version ?r
        \<and> plugin_transition p target expected receipt clear g = (Inr ?r, put_record p ?r g)"
    using Some by (simp add: plugin_transition_def Let_def)
  then show ?thesis using unchanged moved [OF Some] by blast
qed

lemma mark_hook_effect:
  obtains (unchanged) "snd (mark_hook p hook g) = g"
  | (marked) r where "map_of (lc_records g) p = Some r" "hook \<notin> ps_hooks r"
      "snd (mark_hook p hook g) = put_record p (r\<lparr>ps_version := ps_version r + 1, ps_hooks := insert hook (ps_hooks r)\<rparr>) g"
proof (cases "map_of (lc_records g) p")
  case None
  then have "snd (mark_hook p hook g) = g" by (simp add: mark_hook_def)
  then show ?thesis by (rule unchanged)
next
  case (Some r)
  have "snd (mark_hook p hook g) = g \<or> hook \<notin> ps_hooks r \<and> snd (mark_hook p hook g) =
      put_record p (r\<lparr>ps_version := ps_version r + 1, ps_hooks := insert hook (ps_hooks r)\<rparr>) g"
    using Some by (simp add: mark_hook_def)
  then show ?thesis using unchanged marked [OF Some] by blast
qed

lemma discover_effect:
  obtains (known) "map_of (lc_records g) (mf_name m) \<noteq> None"
      "snd (discover m g) = g\<lparr>lc_conditions := insert (mf_name m) (lc_conditions g)\<rparr>"
  | (new) r where "map_of (lc_records g) (mf_name m) = None"
      "r = \<lparr>ps_manifest = m, ps_state = DISCOVERED, ps_version = 0, ps_receipt = None, ps_epoch = 0, ps_hooks = {}\<rparr>"
      "snd (discover m g) = \<lparr>lc_conditions = insert (mf_name m) (lc_conditions g),
         lc_records = AList.update (mf_name m) r (lc_records g),
         lc_leases = (lc_leases g)(mf_name m \<mapsto> []), lc_released = (lc_released g)(mf_name m \<mapsto> {})\<rparr>"
  by (cases "map_of (lc_records g) (mf_name m)") (auto simp: discover_def Let_def put_record_def)

text \<open>An acquisition that changes anything adds one lease, made by an ACTIVE Plugin.\<close>

definition new_lease :: "(string \<Rightarrow> string) \<Rightarrow> plugin_record \<Rightarrow> capability_key \<Rightarrow> run_id \<Rightarrow> string \<Rightarrow> datetime \<Rightarrow> lease" where
  "new_lease H r k run invocation now =
     \<lparr>ls_id = lease_identity H (record_ref r) (ps_epoch r) k run invocation, ls_plugin = record_ref r,
      ls_epoch = ps_epoch r, ls_key = k, ls_run = run, ls_invocation = invocation, ls_acquired = now\<rparr>"

lemma acquire_effect:
  obtains (unchanged) "snd (acquire H p k ctx now g) = g"
  | (issued) r i table gone l where "map_of (lc_records g) p = Some r" "ps_state r = ACTIVE"
      "cx_idempotency_key ctx = Some i" "lc_leases g p = Some table" "map_of table i = None"
      "lc_released g p = Some gone" "ls_id l \<notin> gone" "l = new_lease H r k (cx_run_id ctx) i now"
      "acquire H p k ctx now g = (Inr l, g\<lparr>lc_leases := (lc_leases g)(p \<mapsto> AList.update i l table)\<rparr>)"
  by (cases "snd (acquire H p k ctx now g) = g")
    (auto simp: acquire_def Let_def new_lease_def split: if_splits option.splits)

lemma release_effect:
  obtains (unchanged) "snd (release l g) = g"
  | (freed) p table gone l' where "p = pl_name (ls_plugin l)" "lc_leases g p = Some table" "lc_released g p = Some gone"
      "ls_id l \<notin> gone" "map_of table (ls_invocation l) = Some l'" "lease_eq l' l"
      "release l g = (Inr (), g\<lparr>lc_leases := (lc_leases g)(p \<mapsto> AList.delete (ls_invocation l) table),
         lc_released := (lc_released g)(p \<mapsto> insert (ls_id l) gone)\<rparr>)"
  by (cases "snd (release l g) = g")
    (auto simp: release_def Let_def split: if_splits option.splits)

subsection \<open>Sequences of operations\<close>

text \<open>
  The operations that change the controller; the others only read it. Each is one step under the
  condition of its Plugin, so an execution is a list of them.
\<close>

datatype lifecycle_op = Discover plugin_manifest
  | Transition string lifecycle_state "int option" "receipt option" bool
  | MarkHook string plugin_hook
  | Acquire string capability_key call_context datetime
  | Release lease

fun lifecycle_step :: "(string \<Rightarrow> string) \<Rightarrow> lifecycle_op \<Rightarrow> lifecycle \<Rightarrow> lifecycle" where
  "lifecycle_step H (Discover m) g = snd (discover m g)"
| "lifecycle_step H (Transition p t n r c) g = snd (plugin_transition p t n r c g)"
| "lifecycle_step H (MarkHook p h) g = snd (mark_hook p h g)"
| "lifecycle_step H (Acquire p k ctx now) g = snd (acquire H p k ctx now g)"
| "lifecycle_step H (Release l) g = snd (release l g)"

fun lifecycle_run :: "(string \<Rightarrow> string) \<Rightarrow> lifecycle_op list \<Rightarrow> lifecycle \<Rightarrow> lifecycle" where
  "lifecycle_run H [] g = g"
| "lifecycle_run H (x # xs) g = lifecycle_run H xs (lifecycle_step H x g)"

lemma lifecycle_run_append: "lifecycle_run H (xs @ ys) g = lifecycle_run H ys (lifecycle_run H xs g)"
  by (induction xs arbitrary: g) simp_all

text \<open>The lease table and the released identities as total functions.\<close>

definition held :: "lifecycle \<Rightarrow> string \<Rightarrow> lease set" where
  "held g p = (case lc_leases g p of None \<Rightarrow> {} | Some t \<Rightarrow> snd ` set t)"

definition gone :: "lifecycle \<Rightarrow> string \<Rightarrow> string set" where
  "gone g p = (case lc_released g p of None \<Rightarrow> {} | Some s \<Rightarrow> s)"

definition state_of :: "lifecycle \<Rightarrow> string \<Rightarrow> lifecycle_state option" where
  "state_of g p = map_option ps_state (map_of (lc_records g) p)"

subsection \<open>The domain of the tables\<close>

definition tables_invar :: "lifecycle \<Rightarrow> bool" where
  "tables_invar g \<longleftrightarrow> lc_conditions g = fst ` set (lc_records g) \<and> dom (lc_leases g) = lc_conditions g
     \<and> dom (lc_released g) = lc_conditions g \<and> distinct (List.map fst (lc_records g))
     \<and> (\<forall>p t. lc_leases g p = Some t \<longrightarrow> distinct (List.map fst t))
     \<and> (\<forall>p r. map_of (lc_records g) p = Some r \<longrightarrow> mf_name (ps_manifest r) = p \<and> 0 \<le> ps_epoch r \<and> 0 \<le> ps_version r)"

lemma tables_invar_start: "tables_invar new_lifecycle"
  by (simp add: tables_invar_def new_lifecycle_def)

lemma fst_image_update [simp]: "fst ` set (AList.update k v al) = insert k (fst ` set al)"
  by (simp add: dom_map_of_conv_image_fst [symmetric] update_conv)

lemma map_of_update [simp]: "map_of (AList.update k v al) = (map_of al)(k \<mapsto> v)"
  by (rule ext) (simp add: update_conv)

lemma tables_invar_put:
  assumes "tables_invar g" "map_of (lc_records g) p = Some r" "mf_name (ps_manifest r') = mf_name (ps_manifest r)"
    "0 \<le> ps_epoch r'" "0 \<le> ps_version r'"
  shows "tables_invar (put_record p r' g)"
proof -
  have "p \<in> fst ` set (lc_records g)" using assms(2) by (metis domI dom_map_of_conv_image_fst)
  then show ?thesis
    using assms by (auto simp: tables_invar_def put_record_def distinct_update)
qed

lemma tables_invar_step:
  assumes "tables_invar g"
  shows "tables_invar (lifecycle_step H x g)"
proof (cases x)
  case (Discover m)
  have "mf_name m \<in> lc_conditions g" if "map_of (lc_records g) (mf_name m) \<noteq> None"
    using that assms by (metis dom_map_of_conv_image_fst domIff tables_invar_def)
  then show ?thesis
    unfolding Discover lifecycle_step.simps
    by (cases rule: discover_effect [of g m])
      (use assms in \<open>auto simp: tables_invar_def insert_absorb distinct_update\<close>)
next
  case (Transition p t n r c)
  show ?thesis
    unfolding Transition lifecycle_step.simps
    by (cases rule: plugin_transition_effect [of p t n r c g]) (use assms in \<open>auto intro: tables_invar_put\<close>)
next
  case (MarkHook p h)
  have "0 \<le> ps_epoch r \<and> 0 \<le> ps_version r" if "map_of (lc_records g) p = Some r" for r
    using that assms by (simp add: tables_invar_def)
  then show ?thesis
    unfolding MarkHook lifecycle_step.simps
    by (cases rule: mark_hook_effect [of p h g]) (use assms in \<open>fastforce intro: tables_invar_put\<close>)+
next
  case (Acquire p k ctx now)
  show ?thesis
    unfolding Acquire lifecycle_step.simps
    by (cases rule: acquire_effect [of H p k ctx now g])
      (use assms in \<open>auto simp: tables_invar_def insert_absorb distinct_update domI\<close>)
next
  case (Release l)
  show ?thesis
    unfolding Release lifecycle_step.simps
    by (cases rule: release_effect [of l g])
      (use assms in \<open>auto simp: tables_invar_def insert_absorb distinct_delete domI\<close>)
qed

lemma tables_invar_run: "tables_invar g \<Longrightarrow> tables_invar (lifecycle_run H xs g)"
  by (induction xs arbitrary: g) (simp_all add: tables_invar_step)

lemma held_found:
  assumes "tables_invar g" "lc_leases g p = Some t"
  shows "l \<in> held g p \<longleftrightarrow> (\<exists>i. map_of t i = Some l)"
proof -
  have "distinct (List.map fst t)" using assms by (simp add: tables_invar_def)
  then have "map_of t i = Some l \<longleftrightarrow> (i, l) \<in> set t" for i by (simp add: map_of_eq_Some_iff)
  then show ?thesis using assms(2) by (force simp: held_def)
qed

subsection \<open>Leases over an execution\<close>

text \<open>A lease that a step adds comes from an ACTIVE Plugin, in its epoch, with an identity never released.\<close>

definition issued_in :: "lifecycle \<Rightarrow> string \<Rightarrow> lease \<Rightarrow> bool" where
  "issued_in g p l \<longleftrightarrow> (\<exists>r. map_of (lc_records g) p = Some r \<and> ps_state r = ACTIVE \<and> ls_plugin l = record_ref r
     \<and> ls_epoch l = ps_epoch r \<and> ls_id l \<notin> gone g p)"

lemma set_update_subset: "set (AList.update k v al) \<subseteq> insert (k, v) (set al)"
  by (induction al) auto

lemma set_delete_subset: "set (AList.delete k al) \<subseteq> set al"
  by (auto simp: AList.delete_eq)

lemma held_update: "lc_leases g q = Some t \<Longrightarrow>
    held (g\<lparr>lc_leases := (lc_leases g)(q \<mapsto> AList.update i l t)\<rparr>) p \<subseteq> held g p \<union> (if p = q then {l} else {})"
  using set_update_subset [of i l t] by (auto simp: held_def)

lemma held_delete: "lc_leases g q = Some t \<Longrightarrow>
    held (g\<lparr>lc_leases := (lc_leases g)(q \<mapsto> AList.delete i t), lc_released := m\<rparr>) p \<subseteq> held g p"
  using set_delete_subset [of i t] by (auto simp: held_def)

lemma held_put [simp]: "held (put_record p r g) q = held g q" "gone (put_record p r g) q = gone g q"
  by (simp_all add: held_def gone_def put_record_def)

lemma step_held:
  assumes "l \<in> held (lifecycle_step H x g) p"
  shows "l \<in> held g p \<or> issued_in g p l"
proof (cases x)
  case (Discover m)
  with assms show ?thesis
    by (cases rule: discover_effect [of g m]) (auto simp: held_def split: if_splits)
next
  case (Transition q t n r c)
  with assms show ?thesis by (cases rule: plugin_transition_effect [of q t n r c g]) auto
next
  case (MarkHook q h)
  with assms show ?thesis by (cases rule: mark_hook_effect [of q h g]) auto
next
  case (Acquire q k ctx now)
  show ?thesis
  proof (cases rule: acquire_effect [of H q k ctx now g])
    case unchanged
    with assms Acquire show ?thesis by simp
  next
    case (issued r i table released l')
    then have "l \<in> held g p \<or> p = q \<and> l = l'"
      using assms held_update [of g q table i l' p] by (auto simp: Acquire split: if_splits)
    with issued show ?thesis by (auto simp: issued_in_def gone_def new_lease_def)
  qed
next
  case (Release l')
  show ?thesis
  proof (cases rule: release_effect [of l' g])
    case unchanged
    with assms Release show ?thesis by simp
  next
    case (freed q table released l2)
    then show ?thesis using assms held_delete [of g q table] by (auto simp: Release)
  qed
qed

lemma step_gone:
  assumes "tables_invar g"
  shows "gone g p \<subseteq> gone (lifecycle_step H x g) p"
proof (cases x)
  case (Discover m)
  have "lc_released g (mf_name m) = None" if "map_of (lc_records g) (mf_name m) = None"
    using that assms by (metis dom_map_of_conv_image_fst domIff tables_invar_def)
  then show ?thesis
    unfolding Discover lifecycle_step.simps by (cases rule: discover_effect [of g m]) (auto simp: gone_def)
next
  case (Transition q t n r c)
  then show ?thesis by (cases rule: plugin_transition_effect [of q t n r c g]) auto
next
  case (MarkHook q h)
  then show ?thesis by (cases rule: mark_hook_effect [of q h g]) auto
next
  case (Acquire q k ctx now)
  then show ?thesis by (cases rule: acquire_effect [of H q k ctx now g]) (auto simp: gone_def)
next
  case (Release l)
  then show ?thesis by (cases rule: release_effect [of l g]) (auto simp: gone_def)
qed

lemma run_gone: "tables_invar g \<Longrightarrow> gone g p \<subseteq> gone (lifecycle_run H xs g) p"
proof (induction xs arbitrary: g)
  case (Cons x xs)
  then show ?case using step_gone [of g p H x] tables_invar_step [of g H x] by fastforce
qed simp

lemma released_not_reissued:
  "tables_invar g \<Longrightarrow> ls_id l \<in> gone g p \<Longrightarrow> l \<in> held (lifecycle_run H xs g) p \<Longrightarrow> l \<in> held g p"
proof (induction xs arbitrary: g)
  case (Cons x xs)
  have "ls_id l \<in> gone (lifecycle_step H x g) p" using step_gone [OF Cons.prems(1)] Cons.prems(2) by (rule subsetD)
  then have "l \<in> held (lifecycle_step H x g) p"
    using Cons.IH [OF tables_invar_step [OF Cons.prems(1)]] Cons.prems(3) by simp
  then show ?case using step_held [of l H x g p] Cons.prems(2) by (metis issued_in_def)
qed simp

subsection \<open>Records over an execution\<close>

text \<open>
  One step leaves a record alone, marks a hook, or takes one edge of the transition table; each
  change is one new version, and entering ACTIVE is one new epoch.
\<close>

definition record_step :: "plugin_record \<Rightarrow> plugin_record \<Rightarrow> bool" where
  "record_step r r' \<longleftrightarrow> ps_manifest r' = ps_manifest r \<and> ps_version r' = ps_version r + 1
     \<and> (ps_state r' = ps_state r \<and> ps_epoch r' = ps_epoch r \<and> ps_hooks r \<subset> ps_hooks r' \<and> ps_receipt r' = ps_receipt r
        \<or> ps_state r' \<in> set (allowed_transitions (ps_state r)) \<and> ps_hooks r' = ps_hooks r
          \<and> ps_epoch r' = ps_epoch r + (if ps_state r' = ACTIVE then 1 else 0))"

lemma put_record_lookup: "map_of (lc_records (put_record q r g)) p = (if p = q then Some r else map_of (lc_records g) p)"
  by (simp add: put_record_def)

lemma step_record:
  assumes r: "map_of (lc_records g) p = Some r"
  shows "\<exists>r'. map_of (lc_records (lifecycle_step H x g)) p = Some r' \<and> (r' = r \<or> record_step r r')"
proof (cases x)
  case (Discover m)
  show ?thesis
    unfolding Discover lifecycle_step.simps by (cases rule: discover_effect [of g m]) (simp_all add: r, use r in force)
next
  case (Transition q t n rc c)
  show ?thesis
  proof (cases rule: plugin_transition_effect [of q t n rc c g])
    case unchanged
    with r Transition show ?thesis by simp
  next
    case (moved r0 r')
    have "record_step r0 r'" unfolding record_step_def moved(4) using moved(2) by simp
    then show ?thesis using r moved(1) by (auto simp: Transition moved(3) put_record_lookup)
  qed
next
  case (MarkHook q h)
  show ?thesis
  proof (cases rule: mark_hook_effect [of q h g])
    case unchanged
    with r MarkHook show ?thesis by simp
  next
    case (marked r0)
    have "record_step r0 (r0\<lparr>ps_version := ps_version r0 + 1, ps_hooks := insert h (ps_hooks r0)\<rparr>)"
      unfolding record_step_def using marked(2) by auto
    then show ?thesis using r marked(1) by (auto simp: MarkHook marked(3) put_record_lookup)
  qed
next
  case (Acquire q k ctx now)
  show ?thesis
    unfolding Acquire lifecycle_step.simps by (cases rule: acquire_effect [of H q k ctx now g]) (simp_all add: r)
next
  case (Release l)
  show ?thesis
    unfolding Release lifecycle_step.simps by (cases rule: release_effect [of l g]) (simp_all add: r)
qed

lemma run_record:
  "map_of (lc_records g) p = Some r \<Longrightarrow>
     \<exists>r'. map_of (lc_records (lifecycle_run H xs g)) p = Some r' \<and> record_step\<^sup>*\<^sup>* r r'"
proof (induction xs arbitrary: g r)
  case (Cons x xs)
  obtain r1 where r1: "map_of (lc_records (lifecycle_step H x g)) p = Some r1" "r1 = r \<or> record_step r r1"
    using step_record [OF Cons.prems] by blast
  obtain r' where "map_of (lc_records (lifecycle_run H (x # xs) g)) p = Some r'" "record_step\<^sup>*\<^sup>* r1 r'"
    using Cons.IH [OF r1(1)] by auto
  with r1(2) show ?case by (metis converse_rtranclp_into_rtranclp)
qed auto

subsection \<open>Lease identities\<close>

text \<open>
  The parts of a lease text are joined by a control character. Identifiers hold none, so the text
  determines its parts; for strings that do, \<open>lease_text\<close> is ambiguous.
\<close>

definition plain :: "string \<Rightarrow> bool" where
  "plain s \<longleftrightarrow> separator \<notin> set s"

lemma plain_int_str: "plain (int_str i)"
proof -
  have "\<not> is_digit separator" by (simp add: is_digit_def separator_def)
  then have "plain (nat_str n)" for n using nat_str_digits [of n] by (auto simp: plain_def list_all_iff)
  then show ?thesis by (auto simp: int_str_def plain_def separator_def)
qed

lemma lease_text_inj:
  assumes "lease_text r1 e1 k1 u1 i1 = lease_text r2 e2 k2 u2 i2"
    "list_all plain (lease_parts r1 e1 k1 u1 i1)" "list_all plain (lease_parts r2 e2 k2 u2 i2)"
  shows "k1 = k2 \<and> u1 = u2 \<and> i1 = i2"
proof -
  have split: "split_on separator (lease_text r e k u i) = lease_parts r e k u i"
    if "list_all plain (lease_parts r e k u i)" for r e k u i
    using that unfolding lease_text_def
    by (intro split_on_join) (auto simp: plain_def list_all_iff lease_parts_def split: prod.splits)
  have "lease_parts r1 e1 k1 u1 i1 = lease_parts r2 e2 k2 u2 i2"
    using assms split by metis
  then show ?thesis by (auto simp: lease_parts_def split: prod.splits)
qed

definition lease_wf :: "(string \<Rightarrow> string) \<Rightarrow> lease \<Rightarrow> bool" where
  "lease_wf H l \<longleftrightarrow> ls_id l = lease_identity H (ls_plugin l) (ls_epoch l) (ls_key l) (ls_run l) (ls_invocation l)
     \<and> list_all plain (lease_parts (ls_plugin l) (ls_epoch l) (ls_key l) (ls_run l) (ls_invocation l))"

lemma lease_wf_same_id:
  "inj H \<Longrightarrow> lease_wf H a \<Longrightarrow> lease_wf H b \<Longrightarrow> ls_id a = ls_id b \<Longrightarrow> ls_invocation a = ls_invocation b"
  unfolding lease_wf_def by (metis append_same_eq inj_eq lease_identity_def lease_text_inj same_append_eq)

definition leases_invar :: "(string \<Rightarrow> string) \<Rightarrow> lifecycle \<Rightarrow> bool" where
  "leases_invar H g \<longleftrightarrow> (\<forall>p t i l. lc_leases g p = Some t \<longrightarrow> map_of t i = Some l \<longrightarrow>
     ls_invocation l = i \<and> pl_name (ls_plugin l) = p \<and> ls_id l \<notin> gone g p \<and> lease_wf H l)
   \<and> (\<forall>p r. map_of (lc_records g) p = Some r \<longrightarrow> plain p \<and> plain (semver_str (mf_version (ps_manifest r))))"

text \<open>Operations whose identifiers hold no control character, as \<open>Identifier\<close> checks.\<close>

fun op_plain :: "lifecycle_op \<Rightarrow> bool" where
  "op_plain (Discover m) = (plain (mf_name m) \<and> plain (semver_str (mf_version m)))"
| "op_plain (Acquire p k ctx now) = (plain (fst k) \<and> plain (fst (snd k)) \<and> plain (snd (snd k))
     \<and> plain (cx_run_id ctx) \<and> (case cx_idempotency_key ctx of None \<Rightarrow> True | Some i \<Rightarrow> plain i))"
| "op_plain _ = True"

lemma leases_invar_start: "leases_invar H new_lifecycle"
  by (simp add: leases_invar_def new_lifecycle_def)

lemma leases_invarD:
  "leases_invar H g \<Longrightarrow> lc_leases g p = Some t \<Longrightarrow> map_of t i = Some l \<Longrightarrow>
     ls_invocation l = i \<and> pl_name (ls_plugin l) = p \<and> ls_id l \<notin> gone g p \<and> lease_wf H l"
  unfolding leases_invar_def by blast

lemma leases_invar_put:
  assumes "leases_invar H g" "map_of (lc_records g) p = Some r" "ps_manifest r' = ps_manifest r"
  shows "leases_invar H (put_record p r' g)"
  using assms unfolding leases_invar_def held_put by (auto simp: put_record_def)

lemma leases_invar_step:
  assumes t: "tables_invar g" and inv: "leases_invar H g" and H: "inj H" and clean: "op_plain x"
  shows "leases_invar H (lifecycle_step H x g)"
proof (cases x)
  case (Discover m)
  have "lc_leases g (mf_name m) = None" if "map_of (lc_records g) (mf_name m) = None"
    using that t by (metis dom_map_of_conv_image_fst domIff tables_invar_def)
  then show ?thesis
    unfolding Discover lifecycle_step.simps
    by (cases rule: discover_effect [of g m])
      (use inv clean Discover in \<open>auto simp: leases_invar_def gone_def\<close>)
next
  case (Transition p st n r c)
  show ?thesis
    unfolding Transition lifecycle_step.simps
    by (cases rule: plugin_transition_effect [of p st n r c g]) (use inv in \<open>auto intro: leases_invar_put\<close>)
next
  case (MarkHook p h)
  show ?thesis
    unfolding MarkHook lifecycle_step.simps
    by (cases rule: mark_hook_effect [of p h g]) (use inv in \<open>auto intro: leases_invar_put\<close>)
next
  case (Acquire p k ctx now)
  show ?thesis
  proof (cases rule: acquire_effect [of H p k ctx now g])
    case unchanged
    with inv Acquire show ?thesis by simp
  next
    case (issued r i table released l)
    have "pl_name (ls_plugin l) = p" using issued t by (simp add: new_lease_def record_ref_def manifest_ref_def tables_invar_def)
    moreover have "lease_wf H l"
      using issued inv clean Acquire t plain_int_str
      by (auto simp: lease_wf_def new_lease_def lease_parts_def record_ref_def manifest_ref_def leases_invar_def tables_invar_def
          split: prod.splits)
    moreover have "ls_invocation l = i" "ls_id l \<notin> gone g p" using issued by (simp_all add: new_lease_def gone_def)
    moreover have "ls_id l2 \<notin> released" if "map_of table j = Some l2" for j l2
      using leases_invarD [OF inv issued(4) that] issued(6) by (simp add: gone_def)
    ultimately show ?thesis
      using inv issued unfolding Acquire lifecycle_step.simps leases_invar_def gone_def by (auto split: if_splits)
  qed
next
  case (Release l)
  show ?thesis
  proof (cases rule: release_effect [of l g])
    case unchanged
    with inv Release show ?thesis by simp
  next
    case (freed p table released l')
    have l': "lease_wf H l'" "ls_id l' = ls_id l" "ls_invocation l' = ls_invocation l"
      using freed inv by (auto simp: leases_invar_def lease_eq_def)
    have "ls_id l2 \<noteq> ls_id l" if l2: "map_of table i = Some l2" "i \<noteq> ls_invocation l" for i l2
    proof
      assume "ls_id l2 = ls_id l"
      moreover have "lease_wf H l2" "ls_invocation l2 = i" using l2 inv freed by (auto simp: leases_invar_def)
      ultimately show False using lease_wf_same_id [OF H, of l2 l'] l' l2 by simp
    qed
    moreover have "ls_id l2 \<notin> released" if "map_of table i = Some l2" for i l2
      using leases_invarD [OF inv freed(2) that] freed(3) by (simp add: gone_def)
    ultimately show ?thesis
      using inv freed unfolding Release lifecycle_step.simps leases_invar_def gone_def
      by (auto simp: delete_conv' split: if_splits)
  qed
qed

lemma leases_invar_run:
  "tables_invar g \<Longrightarrow> leases_invar H g \<Longrightarrow> inj H \<Longrightarrow> list_all op_plain xs \<Longrightarrow> leases_invar H (lifecycle_run H xs g)"
  by (induction xs arbitrary: g) (simp_all add: tables_invar_step leases_invar_step)

subsection \<open>Draining\<close>

lemma release_held:
  assumes t: "tables_invar g" and inv: "leases_invar H g" and l: "l \<in> held g p"
  shows "fst (release l g) = Inr () \<and> held (snd (release l g)) p = held g p - {l}"
proof -
  obtain table where table: "lc_leases g p = Some table" using l by (cases "lc_leases g p") (auto simp: held_def)
  then obtain i where i: "map_of table i = Some l" using l held_found [OF t] by blast
  have f: "ls_invocation l = i" "pl_name (ls_plugin l) = p" "ls_id l \<notin> gone g p"
    using inv table i by (auto simp: leases_invar_def)
  have dom: "p \<in> lc_conditions g" "p \<in> dom (lc_released g)" using t table by (auto simp: tables_invar_def)
  then obtain s where s: "lc_released g p = Some s" by auto
  have rel: "release l g = (Inr (), g\<lparr>lc_leases := (lc_leases g)(p \<mapsto> AList.delete i table),
      lc_released := (lc_released g)(p \<mapsto> insert (ls_id l) s)\<rparr>)"
    using f dom s table i by (simp add: release_def Let_def lease_eq_def gone_def)
  have d: "distinct (List.map fst table)" using t table by (simp add: tables_invar_def)
  have "snd ` set (AList.delete i table) = snd ` set table - {l}"
  proof -
    have "l2 \<noteq> l" if "(j, l2) \<in> set table" "j \<noteq> i" for j l2
    proof -
      have "map_of table j = Some l2" using that d by simp
      then have "ls_invocation l2 = j" using inv table by (auto simp: leases_invar_def)
      with f that show ?thesis by auto
    qed
    moreover have "l2 = l" if "(i, l2) \<in> set table" for l2 using that d i by (simp add: map_of_eq_Some_iff)
    ultimately show ?thesis by (force simp: AList.delete_eq)
  qed
  then show ?thesis using table by (simp add: rel held_def)
qed

lemma release_all_held:
  "tables_invar g \<Longrightarrow> leases_invar H g \<Longrightarrow> inj H \<Longrightarrow> held g p \<subseteq> set ls \<Longrightarrow>
     held (lifecycle_run H (List.map Release ls) g) p = {}"
proof (induction ls arbitrary: g)
  case (Cons l ls)
  have "held (snd (release l g)) p \<subseteq> held g p"
    by (cases rule: release_effect [of l g]) (use held_delete in fastforce)+
  then have "held (snd (release l g)) p \<subseteq> set ls"
    using Cons.prems release_held [of g H l p] by (cases "l \<in> held g p") auto
  then show ?case
    using Cons.IH [of "snd (release l g)"] Cons.prems tables_invar_step [of g H "Release l"] leases_invar_step [of g H "Release l"]
    by simp
qed simp

end
