(* ===== verification/Plugin_Invocation.thy ===== *)
theory Plugin_Invocation
  imports Lifecycle_Invariant Runtime_Context Authorization
begin

section \<open>Authorized capability invocation\<close>

text \<open>
  \<open>plugin/invocation.py\<close>: the one function that hands a Plugin's implementation object to a
  caller. The world holds the capability registry, the lifecycle controller and whatever else the
  dispatcher, the policy and the operations use.
\<close>

record ('i, 'w) plugin_world =
  pw_registry :: "'i capability_registry"
  pw_lifecycle :: lifecycle
  pw_rest :: 'w

text \<open>What an invoker is built from; the digest is that of the lease identity.\<close>

record ('i, 'w) invoker =
  iv_dispatcher :: "('i, 'w) plugin_world dispatcher"
  iv_clock :: "('i, 'w) plugin_world \<Rightarrow> datetime"
  iv_token :: "('i, 'w) plugin_world \<Rightarrow> unit cancellation_token"
  iv_digest :: "string \<Rightarrow> string"

record 'i invocation =
  in_plugin :: string
  in_key :: capability_key
  in_action :: action_ref
  in_resource :: resource_ref
  in_context :: call_context
  in_principal :: principal
  in_constraints :: "string \<rightharpoonup> json"
  in_validator :: "('i registration \<Rightarrow> resource_ref \<Rightarrow> bool) option"

text \<open>An operation is raced against cancellation and the deadline of its call.\<close>

type_synonym ('i, 'w, 'a) capability_operation =
  "'i registration \<Rightarrow> authorized_call \<Rightarrow> ('i, 'w) plugin_world \<Rightarrow> 'a awaited \<times> ('i, 'w) plugin_world"

definition on_lifecycle :: "(lifecycle, exn, 'a) action \<Rightarrow> (('i, 'w) plugin_world, exn, 'a) action" where
  "on_lifecycle m w = (case m (pw_lifecycle w) of (r, g) \<Rightarrow> (r, w\<lparr>pw_lifecycle := g\<rparr>))"

definition resource_matches :: "'i invocation \<Rightarrow> 'i registration \<Rightarrow> bool" where
  "resource_matches v reg = (case in_validator v of
       None \<Rightarrow> rs_namespace (in_resource v) = ''core''
         \<and> rs_kind (in_resource v) = capability_type_value (cd_type (rg_declaration reg))
         \<and> rs_id (in_resource v) = cd_id (rg_declaration reg)
     | Some f \<Rightarrow> f reg (in_resource v))"

definition invocation_error :: "error_category \<Rightarrow> string \<Rightarrow> string \<Rightarrow> 'i invocation \<Rightarrow> exn" where
  "invocation_error cat code msg v = plugin_error cat code msg False (Some (in_plugin v)) (Some (fst (snd (in_key v))))"

definition declared_permission :: "'i invocation \<Rightarrow> 'i registration \<Rightarrow> plugin_permission option" where
  "declared_permission v reg =
     find (\<lambda>p. action_key (pp_action p) = action_key (in_action v)) (cd_permissions (rg_declaration reg))"

definition leased ::
  "('i, 'w) invoker \<Rightarrow> 'i invocation \<Rightarrow> 'i registration \<Rightarrow> plugin_permission \<Rightarrow> ('i, 'w, 'a) capability_operation
    \<Rightarrow> authorized_call \<Rightarrow> (('i, 'w) plugin_world, exn, 'a) action"
where
  "leased I v reg perm operation call =
     abind (aresult (permits perm (cx_scope (au_context call)))) (\<lambda>permitted.
     if \<not> permitted
     then araise (invocation_error DENIED ''permission_denied'' ''Capability invocation Scope is outside its declaration'' v)
     else abind (\<lambda>w. on_lifecycle (acquire (iv_digest I) (in_plugin v) (in_key v) (au_context call) (iv_clock I w)) w) (\<lambda>l.
       afinally (await_provider (au_context call) (iv_token I) (iv_clock I) (operation reg call)) (on_lifecycle (release l))))"

definition invocation_request :: "'i invocation \<Rightarrow> access_request" where
  "invocation_request v = \<lparr>aq_principal = in_principal v, aq_action = in_action v, aq_resource = in_resource v,
     aq_scope = cx_scope (in_context v), aq_context = in_context v, aq_constraints = in_constraints v\<rparr>"

definition invoke ::
  "('i, 'w) invoker \<Rightarrow> 'i invocation \<Rightarrow> ('i, 'w, 'a) capability_operation \<Rightarrow> (('i, 'w) plugin_world, exn, 'a) action"
where
  "invoke I v operation w =
     (case get_capability (in_key v) (pw_registry w) of
        Inl e \<Rightarrow> (Inl e, w)
      | Inr reg \<Rightarrow>
          if pl_name (rg_owner reg) \<noteq> in_plugin v
          then (Inl (invocation_error CONFLICT ''registration_identity_conflict''
                  ''Capability is owned by another Plugin'' v), w)
          else if rs_owner (in_resource v) \<noteq> Some (in_plugin v)
          then (Inl (invocation_error CONFLICT ''registration_identity_conflict''
                  ''Invocation resource does not identify the owning Plugin'' v), w)
          else if \<not> resource_matches v reg
          then (Inl (invocation_error CONFLICT ''invocation_resource_mismatch''
                  ''Invocation resource does not match the registered capability'' v), w)
          else case declared_permission v reg of
            None \<Rightarrow> (Inl (invocation_error DENIED ''permission_denied''
                  ''Capability invocation action is not declared'' v), w)
          | Some perm \<Rightarrow> dispatch (iv_dispatcher I) (invocation_request v) (leased I v reg perm operation) w)"

subsection \<open>Complete mediation\<close>

text \<open>
  All that holds when an operation starts: the registered capability of the named Plugin, bound to
  the resource; a declared permission for the action that covers the granted scope; the
  authorization of the dispatcher; and a lease acquired in the state in which it starts.
\<close>

definition mediated ::
  "('i, 'w) invoker \<Rightarrow> 'i invocation \<Rightarrow> ('i, 'w) plugin_world \<Rightarrow> 'i registration \<Rightarrow> authorized_call \<Rightarrow> lease
    \<Rightarrow> ('i, 'w) plugin_world \<Rightarrow> bool"
where
  "mediated I v w reg call l w2 \<longleftrightarrow>
     get_capability (in_key v) (pw_registry w) = Inr reg \<and> pl_name (rg_owner reg) = in_plugin v
     \<and> rs_owner (in_resource v) = Some (in_plugin v) \<and> resource_matches v reg
     \<and> (\<exists>perm. declared_permission v reg = Some perm \<and> permits perm (cx_scope (au_context call)) = Inr True)
     \<and> (\<exists>w1. authorized (iv_dispatcher I) (invocation_request v) w call w1
          \<and> acquire (iv_digest I) (in_plugin v) (in_key v) (au_context call) (iv_clock I w1) (pw_lifecycle w1)
              = (Inr l, pw_lifecycle w2)
          \<and> w2 = w1\<lparr>pw_lifecycle := pw_lifecycle w2\<rparr>)"

definition run_leased ::
  "('i, 'w) invoker \<Rightarrow> 'i registration \<Rightarrow> authorized_call \<Rightarrow> lease \<Rightarrow> ('i, 'w, 'a) capability_operation
    \<Rightarrow> (('i, 'w) plugin_world, exn, 'a) action"
where
  "run_leased I reg call l operation =
     afinally (await_provider (au_context call) (iv_token I) (iv_clock I) (operation reg call)) (on_lifecycle (release l))"

lemma leased_cases:
  "(\<exists>l w2. permits perm (cx_scope (au_context call)) = Inr True
      \<and> acquire (iv_digest I) (in_plugin v) (in_key v) (au_context call) (iv_clock I w) (pw_lifecycle w) = (Inr l, pw_lifecycle w2)
      \<and> w2 = w\<lparr>pw_lifecycle := pw_lifecycle w2\<rparr> \<and> (\<forall>operation. leased I v reg perm operation call w = run_leased I reg call l operation w2))
   \<or> (\<exists>e w2. \<forall>operation. leased I v reg perm operation call w = (Inl e, w2))"
proof (cases "permits perm (cx_scope (au_context call))")
  case (Inl e)
  then show ?thesis by (simp add: leased_def abind_def aresult_def)
next
  case (Inr b)
  obtain r g where a: "acquire (iv_digest I) (in_plugin v) (in_key v) (au_context call) (iv_clock I w) (pw_lifecycle w) = (r, g)"
    by (cases "acquire (iv_digest I) (in_plugin v) (in_key v) (au_context call) (iv_clock I w) (pw_lifecycle w)")
  show ?thesis
  proof (cases b)
    case False
    with Inr show ?thesis by (simp add: leased_def abind_def aresult_def)
  next
    case True
    show ?thesis
    proof (cases r)
      case (Inl e)
      with Inr True a show ?thesis by (simp add: leased_def abind_def aresult_def on_lifecycle_def)
    next
      case (Inr l)
      have "permits perm (cx_scope (au_context call)) = Inr True" using \<open>permits perm _ = Inr b\<close> True by simp
      with a Inr show ?thesis
        by (intro disjI1 exI [of _ l] exI [of _ "w\<lparr>pw_lifecycle := g\<rparr>"])
          (simp add: leased_def run_leased_def abind_def aresult_def on_lifecycle_def)
    qed
  qed
qed

lemma invoke_mediates:
  "(\<exists>reg call l w2. mediated I v w reg call l w2 \<and> (\<forall>operation :: ('i, 'w, 'a) capability_operation. invoke I v operation w = run_leased I reg call l operation w2))
   \<or> (\<exists>e w1. \<forall>operation :: ('i, 'w, 'a) capability_operation. invoke I v operation w = (Inl e, w1))"
proof (cases "get_capability (in_key v) (pw_registry w)")
  case (Inl e)
  then show ?thesis by (simp add: invoke_def)
next
  case (Inr reg)
  show ?thesis
  proof (cases "pl_name (rg_owner reg) = in_plugin v \<and> rs_owner (in_resource v) = Some (in_plugin v) \<and> resource_matches v reg")
    case False
    then consider "pl_name (rg_owner reg) \<noteq> in_plugin v"
      | "pl_name (rg_owner reg) = in_plugin v" "rs_owner (in_resource v) \<noteq> Some (in_plugin v)"
      | "pl_name (rg_owner reg) = in_plugin v" "rs_owner (in_resource v) = Some (in_plugin v)" "\<not> resource_matches v reg"
      by blast
    then show ?thesis by cases (simp_all add: invoke_def Inr)
  next
    case ok: True
    show ?thesis
    proof (cases "declared_permission v reg")
      case None
      with Inr ok show ?thesis by (auto simp: invoke_def)
    next
      case (Some perm)
      have inv: "invoke I v operation w = dispatch (iv_dispatcher I) (invocation_request v) (leased I v reg perm operation) w"
        for operation :: "('i, 'w, 'a) capability_operation"
        using Inr ok Some by (simp add: invoke_def)
      let ?D = "iv_dispatcher I" and ?q = "invocation_request v"
      have "(\<exists>c w1. (\<forall>operation :: authorized_call \<Rightarrow> (('i, 'w) plugin_world, exn, 'a) action.
            dispatch ?D ?q operation w = operation c w1) \<and> authorized ?D ?q w c w1)
          \<or> (\<exists>e w1. \<forall>operation :: authorized_call \<Rightarrow> (('i, 'w) plugin_world, exn, 'a) action.
            dispatch ?D ?q operation w = (Inl e, w1))"
        by (rule dispatch_mediates)
      then show ?thesis
      proof (elim disjE exE conjE)
        fix c w1
        assume d: "\<forall>operation :: authorized_call \<Rightarrow> (('i, 'w) plugin_world, exn, 'a) action. dispatch (iv_dispatcher I) (invocation_request v) operation w = operation c w1"
          and a: "authorized (iv_dispatcher I) (invocation_request v) w c w1"
        let ?g = "\<lambda>operation :: ('i, 'w, 'a) capability_operation. leased I v reg perm operation c w1"
        have "(\<exists>l w2. permits perm (cx_scope (au_context c)) = Inr True
            \<and> acquire (iv_digest I) (in_plugin v) (in_key v) (au_context c) (iv_clock I w1) (pw_lifecycle w1) = (Inr l, pw_lifecycle w2)
            \<and> w2 = w1\<lparr>pw_lifecycle := pw_lifecycle w2\<rparr> \<and> (\<forall>operation. ?g operation = run_leased I reg c l operation w2))
          \<or> (\<exists>e w2. \<forall>operation. ?g operation = (Inl e, w2))"
          by (rule leased_cases)
        then show ?thesis
        proof (elim disjE exE conjE)
          fix l w2
          assume "permits perm (cx_scope (au_context c)) = Inr True"
            "acquire (iv_digest I) (in_plugin v) (in_key v) (au_context c) (iv_clock I w1) (pw_lifecycle w1) = (Inr l, pw_lifecycle w2)"
            "w2 = w1\<lparr>pw_lifecycle := pw_lifecycle w2\<rparr>"
            "\<forall>operation :: ('i, 'w, 'a) capability_operation. leased I v reg perm operation c w1 = run_leased I reg c l operation w2"
          then have "mediated I v w reg c l w2 \<and> (\<forall>operation :: ('i, 'w, 'a) capability_operation.
              invoke I v operation w = run_leased I reg c l operation w2)"
            using Inr ok Some a d inv unfolding mediated_def by auto
          then show ?thesis by blast
        qed (use d inv in auto)
      qed (use inv in auto)
    qed
  qed
qed

subsection \<open>The lease of an invocation\<close>

lemma acquire_Inr:
  assumes "acquire H p k ctx now g = (Inr l, g')"
  shows "ls_key l = k \<and> ls_run l = cx_run_id ctx \<and> (\<exists>i table. cx_idempotency_key ctx = Some i \<and> lc_leases g p = Some table
     \<and> (map_of table i = Some l \<and> g' = g
        \<or> map_of table i = None \<and> g' = g\<lparr>lc_leases := (lc_leases g)(p \<mapsto> AList.update i l table)\<rparr>))"
  using assms by (auto simp: acquire_def Let_def split: if_splits option.splits)

lemma acquire_held:
  assumes t: "tables_invar g" and a: "acquire H p k ctx now g = (Inr l, g')"
  shows "l \<in> held g' p"
proof -
  obtain i table where g: "lc_leases g p = Some table" "map_of table i = Some l \<and> g' = g
      \<or> map_of table i = None \<and> g' = g\<lparr>lc_leases := (lc_leases g)(p \<mapsto> AList.update i l table)\<rparr>"
    using acquire_Inr [OF a] by blast
  have "(i, l) \<in> set (AList.update i l table)" by (rule map_of_SomeD) simp
  with g show ?thesis using held_found [OF t g(1)] by (force simp: held_def)
qed

text \<open>
  A call that repeats the identity of a lease in flight is given that lease again, and there is
  no count of its holders: the first release frees it for both.
\<close>

lemma acquire_again:
  assumes "acquire H p k ctx now g = (Inr l, g')" "p \<in> lc_conditions g" "map_of (lc_records g) p = Some r"
  shows "acquire H p k ctx now' g' = (Inr l, g')"
  using acquire_Inr [OF assms(1)] assms(2,3) by (auto simp: acquire_def)

lemma release_gone: "release l g = (Inr u, g') \<Longrightarrow> ls_id l \<in> gone g' (pl_name (ls_plugin l))"
  by (auto simp: release_def gone_def Let_def split: if_splits option.splits)

lemma run_leased_Inr:
  assumes "run_leased I reg call l operation w2 = (Inr x, w')"
  shows "ls_id l \<in> gone (pw_lifecycle w') (pl_name (ls_plugin l))
     \<and> (\<exists>w3. operation reg call w2 = (Operation_Done (Inr x), w3))"
  using assms
  by (auto simp: run_leased_def afinally_def on_lifecycle_def await_provider_Inr split: prod.splits sum.splits dest: release_gone)

text \<open>
  A value of an invocation is the value its operation finished with while the call was still
  active, and by then the lease under which it ran has been released.
\<close>

lemma invocation_value_after_release:
  assumes "invoke I v operation w = (Inr x, w')"
  shows "\<exists>reg call l w2 w3. mediated I v w reg call l w2 \<and> operation reg call w2 = (Operation_Done (Inr x), w3)
    \<and> ls_id l \<in> gone (pw_lifecycle w') (pl_name (ls_plugin l))"
proof -
  from invoke_mediates [of I v w, where ?'a = 'a] obtain reg call l w2 where
    "mediated I v w reg call l w2" "invoke I v operation w = run_leased I reg call l operation w2"
    using assms by fastforce
  with assms run_leased_Inr [of I reg call l operation w2 x w'] show ?thesis by metis
qed

end
