(* ===== verification/Lifecycle_Properties.thy ===== *)
theory Lifecycle_Properties
  imports Plugin_Properties Plugin_Invocation
begin

section \<open>Properties of Plugin registration, lifecycle and invocation\<close>

text \<open>
  Registration is atomic and undone by its receipt, records follow the transition table, leases
  come from ACTIVE Plugins only and are never issued twice, draining finishes, and no Plugin code
  runs outside an authorized and leased invocation.
\<close>

subsection \<open>Samples\<close>

definition sample_declaration :: capability_declaration where
  "sample_declaration = \<lparr>cd_type = CAP_TOOL, cd_id = ''demo.echo'', cd_version = version_of 1 0 0, cd_entry = ''demo:echo'',
     cd_permissions = [sample_permission]\<rparr>"

definition sample_key :: capability_key where
  "sample_key = declaration_key sample_declaration"

definition sample_registration_plan :: "unit registration_plan" where
  "sample_registration_plan = \<lparr>pn_owner = manifest_ref (sample_manifest ''demo.app'' []),
     pn_capabilities = [\<lparr>lo_declaration = sample_declaration, lo_implementation = ()\<rparr>]\<rparr>"

definition sample_registration_digest :: "json_object \<Rightarrow> string" where
  "sample_registration_digest d = ''digest''"

definition sample_registered :: "unit capability_registry" where
  "sample_registered = snd (commit sample_registration_digest sample_registration_plan 0 empty_registry)"

definition sample_receipt :: receipt where
  "sample_receipt = \<lparr>rc_id = ''plugin-registration:digest'', rc_owner = manifest_ref (sample_manifest ''demo.app'' []),
     rc_version = 1, rc_keys = [sample_key]\<rparr>"

lemma sample_commit: "commit sample_registration_digest sample_registration_plan 0 empty_registry = (Inr sample_receipt, sample_registered)"
proof -
  have "fst (commit sample_registration_digest sample_registration_plan 0 empty_registry) = Inr sample_receipt" by code_simp
  then show ?thesis by (simp add: sample_registered_def prod_eq_iff)
qed

definition sample_call :: "string \<Rightarrow> call_context" where
  "sample_call i = sample_context\<lparr>cx_idempotency_key := Some i\<rparr>"

text \<open>A Plugin is brought to ACTIVE and one invocation takes its lease.\<close>

definition sample_activation :: "lifecycle_op list" where
  "sample_activation = Discover (sample_manifest ''demo.app'' [])
     # List.map (\<lambda>s. Transition ''demo.app'' s None None False) [VALIDATED, LOADED, REGISTERED, ACTIVE]"

definition sample_acquire :: lifecycle_op where
  "sample_acquire = Acquire ''demo.app'' sample_key (sample_call ''i1'') (sample_time 5)"

definition sample_active :: lifecycle where
  "sample_active = lifecycle_run id sample_activation new_lifecycle"

definition sample_busy :: lifecycle where
  "sample_busy = lifecycle_step id sample_acquire sample_active"

definition sample_plugin_record :: plugin_record where
  "sample_plugin_record = \<lparr>ps_manifest = sample_manifest ''demo.app'' [], ps_state = ACTIVE, ps_version = 4,
     ps_receipt = None, ps_epoch = 1, ps_hooks = {}\<rparr>"

definition sample_lease :: lease where
  "sample_lease = new_lease id sample_plugin_record sample_key ''r1'' ''i1'' (sample_time 5)"

lemma sample_lease_held: "lc_leases sample_busy ''demo.app'' = Some [(''i1'', sample_lease)]"
  by code_simp

lemma sample_plain: "list_all op_plain (sample_activation @ [sample_acquire])"
proof -
  have "op_plain (Discover (sample_manifest ''demo.app'' []))" "op_plain sample_acquire" by code_simp+
  then show ?thesis by (simp add: sample_activation_def)
qed

lemma sample_busy_run: "sample_busy = lifecycle_run id (sample_activation @ [sample_acquire]) new_lifecycle"
  by (simp add: sample_busy_def sample_active_def lifecycle_run_append)

subsection \<open>Registration\<close>

text \<open>
  C30. A commit is all or nothing: it raises and leaves the registry as it was, or, at the version
  the caller expected, it adds exactly the capabilities of the plan, none of which was there, and
  every other entry and the retired receipts stay.
\<close>

theorem commit_all_or_nothing:
  "(\<exists>e. commit H p n g = (Inl e, g)) \<or>
   (\<exists>r g'. commit H p n g = (Inr r, g') \<and> n = sn_version (cr_snapshot g) \<and> sn_version (cr_snapshot g') = n + 1
      \<and> cr_retired g' = cr_retired g \<and> set (rc_keys r) = loaded_key ` set (pn_capabilities p)
      \<and> set (rc_keys r) \<inter> dom (sn_registrations (cr_snapshot g)) = {}
      \<and> sn_registrations (cr_snapshot g') |` (- set (rc_keys r)) = sn_registrations (cr_snapshot g)
      \<and> dom (sn_registrations (cr_snapshot g')) = dom (sn_registrations (cr_snapshot g)) \<union> set (rc_keys r))"
proof (cases "commit H p n g")
  case (Pair res g')
  show ?thesis
  proof (cases res)
    case (Inl e)
    with Pair show ?thesis by (auto dest: commit_Inl)
  next
    case (Inr r)
    note c = commit_Inr [OF Pair [unfolded Inr]]
    let ?m = "sn_registrations (cr_snapshot g)"
      and ?new = "rev (new_registrations (rc_id r) (pn_owner p) (sort_key loaded_key (pn_capabilities p)))"
    have keys: "set (rc_keys r) = loaded_key ` set (pn_capabilities p)" using c by simp
    have dom: "dom (map_of ?new) = set (rc_keys r)"
      by (simp add: dom_map_of_conv_image_fst new_registrations_def keys image_image)
    have disj: "set (rc_keys r) \<inter> dom ?m = {}" using c keys by auto
    have "((?m ++ map_of ?new) |` (- set (rc_keys r))) k = ?m k" for k
    proof (cases "k \<in> set (rc_keys r)")
      case True
      then have "k \<notin> dom ?m" using disj by blast
      then show ?thesis using True by (simp add: domIff)
    next
      case False
      then have "k \<notin> dom (map_of ?new)" using dom by simp
      then show ?thesis using False by (simp add: map_add_dom_app_simps)
    qed
    then have restr: "(?m ++ map_of ?new) |` (- set (rc_keys r)) = ?m" ..
    have g': "sn_version (cr_snapshot g') = n + 1" "cr_retired g' = cr_retired g"
      "sn_registrations (cr_snapshot g') = ?m ++ map_of ?new" using c by simp_all
    have "n = sn_version (cr_snapshot g)" using c by simp
    moreover have "dom (?m ++ map_of ?new) = dom ?m \<union> set (rc_keys r)" using dom by auto
    moreover have "commit H p n g = (Inr r, g')" using Pair Inr by simp
    ultimately show ?thesis
      using keys disj restr g' by (intro disjI2 exI [of _ r] exI [of _ g'] conjI) (simp_all only: g')
  qed
qed

text \<open>
  A receipt undoes its commit: in every registry that commits and removals lead to,
  unregistering the receipt of a commit puts the entries back as they were before it, and retires
  the receipt.
\<close>

theorem commit_then_unregister_restores:
  assumes "registry_reachable H g" "mk_plan p = Inr p" "commit H p n g = (Inr r, g1)" "rc_id r \<notin> cr_retired g"
  shows "\<exists>s. unregister r g1 = (Inr s, \<lparr>cr_snapshot = s, cr_retired = insert (rc_id r) (cr_retired g)\<rparr>)
    \<and> sn_registrations s = sn_registrations (cr_snapshot g)"
  using commit_then_unregister [OF registry_reachable_invar [OF assms(1)] assms(2-4)] by blast

theorem commit_then_unregister_restores_witness:
  "\<exists>s. unregister sample_receipt sample_registered = (Inr s, \<lparr>cr_snapshot = s, cr_retired = {''plugin-registration:digest''}\<rparr>)
    \<and> sn_registrations s = Map.empty"
proof -
  have "mk_plan sample_registration_plan = Inr sample_registration_plan"
    by (simp add: mk_plan_def sample_registration_plan_def)
  moreover have "rc_id sample_receipt \<notin> cr_retired (empty_registry :: unit capability_registry)" by (simp add: empty_registry_def)
  ultimately show ?thesis
    using commit_then_unregister_restores [OF registry_reachable.start _ sample_commit]
    by (simp add: empty_registry_def sample_receipt_def)
qed

subsection \<open>Lifecycle\<close>

text \<open>
  Whatever the operations, the record of a Plugin moves only along the transition table: it is
  reached by steps that mark a hook or take one edge, each with one new version, and it enters
  ACTIVE with one new epoch each time.
\<close>

theorem record_follows_transition_table:
  assumes "map_of (lc_records g) p = Some r"
  shows "\<exists>r'. map_of (lc_records (lifecycle_run H xs g)) p = Some r' \<and> record_step\<^sup>*\<^sup>* r r'"
  using assms by (rule run_record)

theorem record_follows_transition_table_witness:
  "\<exists>r'. map_of (lc_records (lifecycle_run id [Transition ''demo.app'' DRAINING None None False] sample_active)) ''demo.app''
     = Some r' \<and> record_step\<^sup>*\<^sup>* sample_plugin_record r'"
  by (rule record_follows_transition_table) code_simp

text \<open>
  A lease that an operation adds belongs to a Plugin that is ACTIVE at that moment, carries its
  current epoch, and has an identity that was never released.
\<close>

theorem lease_issued_while_active:
  assumes "l \<in> held (lifecycle_step H x g) p" "l \<notin> held g p"
  shows "issued_in g p l"
  using step_held [OF assms(1)] assms(2) by blast

theorem lease_issued_while_active_witness: "issued_in sample_active ''demo.app'' sample_lease"
proof (rule lease_issued_while_active)
  show "sample_lease \<in> held (lifecycle_step id sample_acquire sample_active) ''demo.app''"
    using sample_lease_held by (simp add: held_def sample_busy_def)
  have "lc_leases sample_active ''demo.app'' = Some []" by code_simp
  then show "sample_lease \<notin> held sample_active ''demo.app''" by (simp add: held_def)
qed

text \<open>
  Released identities are never issued again: however an execution goes on, a lease with an
  identity that had been released is held only where it was held already.
\<close>

theorem released_lease_not_reissued:
  assumes "ls_id l \<in> gone (lifecycle_run H xs new_lifecycle) p" "l \<in> held (lifecycle_run H (xs @ ys) new_lifecycle) p"
  shows "l \<in> held (lifecycle_run H xs new_lifecycle) p"
  using released_not_reissued [OF tables_invar_run [OF tables_invar_start] assms(1)] assms(2)
  by (simp add: lifecycle_run_append)

theorem released_lease_not_reissued_witness:
  "sample_lease \<notin> held (lifecycle_run id ((sample_activation @ [sample_acquire, Release sample_lease]) @ [sample_acquire]) new_lifecycle) ''demo.app''"
proof
  let ?xs = "sample_activation @ [sample_acquire, Release sample_lease]"
  assume a: "sample_lease \<in> held (lifecycle_run id (?xs @ [sample_acquire]) new_lifecycle) ''demo.app''"
  have "ls_id sample_lease \<in> gone (lifecycle_run id ?xs new_lifecycle) ''demo.app''" by code_simp
  from released_lease_not_reissued [OF this a]
  have "sample_lease \<in> held (lifecycle_run id ?xs new_lifecycle) ''demo.app''" .
  moreover have "lc_leases (lifecycle_run id ?xs new_lifecycle) ''demo.app'' = Some []" by code_simp
  ultimately show False by (simp add: held_def)
qed

text \<open>
  C31. Draining finishes: with identifiers as the constructors check them and a digest without
  collisions, once every held lease has been released, in any order and with repetitions, the wait
  of the unload returns.
\<close>

theorem draining_finishes:
  assumes "inj H" "list_all op_plain xs" "map_of (lc_records (lifecycle_run H xs new_lifecycle)) p = Some r"
    and "held (lifecycle_run H xs new_lifecycle) p \<subseteq> set ls"
  shows "wait_for_zero p [] (lifecycle_run H (xs @ List.map Release ls) new_lifecycle) = Some (Inr ())"
proof -
  let ?g = "lifecycle_run H (xs @ List.map Release ls) new_lifecycle"
  have h: "held ?g p = {}"
    unfolding lifecycle_run_append
    by (intro release_all_held tables_invar_run leases_invar_run tables_invar_start leases_invar_start assms)
  have t: "tables_invar ?g" by (intro tables_invar_run tables_invar_start)
  obtain r' where "map_of (lc_records ?g) p = Some r'"
    using run_record [OF assms(3), of H "List.map Release ls"] by (auto simp: lifecycle_run_append)
  then have "p \<in> fst ` set (lc_records ?g)" by (metis domI dom_map_of_conv_image_fst)
  then have c: "p \<in> lc_conditions ?g" "p \<in> dom (lc_leases ?g)" using t by (auto simp: tables_invar_def)
  then have "lc_leases ?g p = Some []" using h by (auto simp: held_def)
  with c show ?thesis by (simp add: wait_for_zero.simps condition_of_def)
qed

theorem draining_finishes_witness:
  "wait_for_zero ''demo.app'' [] (lifecycle_run id ((sample_activation @ [sample_acquire]) @ List.map Release [sample_lease]) new_lifecycle)
     = Some (Inr ())"
proof (rule draining_finishes [OF inj_on_id sample_plain])
  show "map_of (lc_records (lifecycle_run id (sample_activation @ [sample_acquire]) new_lifecycle)) ''demo.app'' = Some sample_plugin_record"
    by code_simp
  show "held (lifecycle_run id (sample_activation @ [sample_acquire]) new_lifecycle) ''demo.app'' \<subseteq> set [sample_lease]"
    using sample_lease_held by (simp add: held_def flip: sample_busy_run)
qed

text \<open>
  A retry of an invocation in flight is given the lease of the first, and the release of the retry
  frees it: the drain ends although the first invocation still runs.
\<close>

lemma retry_frees_the_first_lease:
  "fst (acquire id ''demo.app'' sample_key (sample_call ''i1'') (sample_time 6) sample_busy) = Inr sample_lease"
  "wait_for_zero ''demo.app'' [] (lifecycle_run id [sample_acquire, Release sample_lease] sample_busy) = Some (Inr ())"
  by code_simp+

subsection \<open>Invocation\<close>

text \<open>
  C32. No Plugin code runs unguarded: an invocation raises without touching the operation, or the
  operation runs once, with the registered capability of the named Plugin bound to the resource, a
  declared permission covering the granted scope, the dispatcher's authorization and a lease
  acquired in the state in which it starts, and the lease is released after it.
\<close>

theorem capability_runs_mediated:
  "(\<exists>reg call l w2. mediated I v w reg call l w2
      \<and> (\<forall>operation :: ('i, 'w, 'a) capability_operation. invoke I v operation w = run_leased I reg call l operation w2))
   \<or> (\<exists>e w1. \<forall>operation :: ('i, 'w, 'a) capability_operation. invoke I v operation w = (Inl e, w1))"
  by (rule invoke_mediates)

end
