(* ===== verification/Checkpoint_Model.thy ===== *)
theory Checkpoint_Model
  imports Run_Codec
begin

section \<open>Checkpoints\<close>

text \<open>
  \<open>checkpoint/model.py\<close>: typed references, approvals, node states, side effects and the checkpoint
  itself, with the checks of their constructors and their encodings. The SHA-256 of the canonical
  JSON text is the argument \<open>H\<close>, applied to the document.
\<close>

subsection \<open>Outcomes\<close>

datatype node_outcome = NODE_SUCCEEDED | NODE_FAILED | NODE_DENIED | NODE_TIMED_OUT | NODE_CANCELLED
  | NODE_WAITING_APPROVAL | NODE_RETRY_SCHEDULED

fun node_outcome_value :: "node_outcome \<Rightarrow> string" where
  "node_outcome_value NODE_SUCCEEDED = ''succeeded''"
| "node_outcome_value NODE_FAILED = ''failed''"
| "node_outcome_value NODE_DENIED = ''denied''"
| "node_outcome_value NODE_TIMED_OUT = ''timed_out''"
| "node_outcome_value NODE_CANCELLED = ''cancelled''"
| "node_outcome_value NODE_WAITING_APPROVAL = ''waiting_approval''"
| "node_outcome_value NODE_RETRY_SCHEDULED = ''retry_scheduled''"

datatype effect_outcome = EFFECT_SUCCEEDED | EFFECT_FAILED

fun effect_outcome_value :: "effect_outcome \<Rightarrow> string" where
  "effect_outcome_value EFFECT_SUCCEEDED = ''succeeded''"
| "effect_outcome_value EFFECT_FAILED = ''failed''"

datatype approval_outcome = APPROVED | REJECTED | APPROVAL_CANCELLED

fun approval_outcome_value :: "approval_outcome \<Rightarrow> string" where
  "approval_outcome_value APPROVED = ''approved''"
| "approval_outcome_value REJECTED = ''rejected''"
| "approval_outcome_value APPROVAL_CANCELLED = ''cancelled''"

definition node_outcomes :: "(string \<times> node_outcome) list" where
  "node_outcomes = List.map (\<lambda>x. (node_outcome_value x, x)) [NODE_SUCCEEDED, NODE_FAILED, NODE_DENIED, NODE_TIMED_OUT,
     NODE_CANCELLED, NODE_WAITING_APPROVAL, NODE_RETRY_SCHEDULED]"

definition effect_outcomes :: "(string \<times> effect_outcome) list" where
  "effect_outcomes = List.map (\<lambda>x. (effect_outcome_value x, x)) [EFFECT_SUCCEEDED, EFFECT_FAILED]"

definition approval_outcomes :: "(string \<times> approval_outcome) list" where
  "approval_outcomes = List.map (\<lambda>x. (approval_outcome_value x, x)) [APPROVED, REJECTED, APPROVAL_CANCELLED]"

lemma node_outcome_decodes [simp]: "enum_of L cls node_outcomes (node_outcome_value x) = Inr x"
  by (cases x) (simp_all add: enum_of_def node_outcomes_def)

lemma effect_outcome_decodes [simp]: "enum_of L cls effect_outcomes (effect_outcome_value x) = Inr x"
  by (cases x) (simp_all add: enum_of_def effect_outcomes_def)

lemma approval_outcome_decodes [simp]: "enum_of L cls approval_outcomes (approval_outcome_value x) = Inr x"
  by (cases x) (simp_all add: enum_of_def approval_outcomes_def)

subsection \<open>Access to the fields of a document\<close>

definition require_keys :: "json_object \<Rightarrow> string list \<Rightarrow> string \<Rightarrow> unit result" where
  "require_keys d names subject =
     (if same_fields d names then Inr () else Inl (ValueError (subject @ '' contains unknown or missing fields'')))"

definition object_at :: "json_object \<Rightarrow> string \<Rightarrow> string \<Rightarrow> json_object result" where
  "object_at d k fname = rbind (obj_index d k) (\<lambda>v. as_object v fname)"

definition array_at :: "json_object \<Rightarrow> string \<Rightarrow> string \<Rightarrow> json list result" where
  "array_at d k fname = rbind (obj_index d k) (\<lambda>v. as_array v fname)"

definition int_at :: "json_object \<Rightarrow> string \<Rightarrow> string \<Rightarrow> int result" where
  "int_at d k fname = rbind (obj_index d k) (\<lambda>v. as_int v fname)"

definition ident_at :: "pylib \<Rightarrow> json_object \<Rightarrow> string \<Rightarrow> string result" where
  "ident_at L d k = rbind (field_str L d k) mk_identifier"

text \<open>\<open>[f(as_object(item, name)) for item in items]\<close>\<close>

definition objects :: "string \<Rightarrow> (json_object \<Rightarrow> 'a result) \<Rightarrow> json list \<Rightarrow> 'a list result" where
  "objects fname f items = rmap (\<lambda>v. rbind (as_object v fname) f) items"

text \<open>\<open>f(as_object(value, name)) if value is not None else None\<close>\<close>

definition object_or_none :: "string \<Rightarrow> (json_object \<Rightarrow> 'a result) \<Rightarrow> json \<Rightarrow> 'a option result" where
  "object_or_none fname f v = (if v = JNull then Inr None else rbind (as_object v fname) (\<lambda>d. rbind (f d) (\<lambda>x. Inr (Some x))))"

lemma at_simps [simp]:
  "object_at ((k, v) # d) k' n = (if k = k' then as_object v n else object_at d k' n)"
  "array_at ((k, v) # d) k' n = (if k = k' then as_array v n else array_at d k' n)"
  "int_at ((k, v) # d) k' n = (if k = k' then as_int v n else int_at d k' n)"
  "ident_at L ((k, v) # d) k' = (if k = k' then mk_identifier (py_str L v) else ident_at L d k')"
  by (simp_all add: object_at_def array_at_def int_at_def ident_at_def)

lemma objects_inverse:
  "(\<And>x. x \<in> set xs \<Longrightarrow> f (g x) = Inr x) \<Longrightarrow> objects n f (List.map (\<lambda>x. JObj (g x)) xs) = Inr xs"
  by (simp add: objects_def rmap_map rmap_inverse)

lemma object_or_none_simps [simp]:
  "object_or_none n f JNull = Inr None"
  "object_or_none n f (JObj d) = rbind (f d) (\<lambda>x. Inr (Some x))"
  by (simp_all add: object_or_none_def)

subsection \<open>References\<close>

record checkpoint_reference =
  kr_type :: string
  kr_resource :: resource_ref
  kr_scope :: scope_ref
  kr_version :: "string option"

definition mk_reference :: "checkpoint_reference \<Rightarrow> checkpoint_reference result" where
  "mk_reference r =
     (if \<not> trimmed (kr_type r) then Inl (ValueError ''checkpoint reference type must be non-empty and trimmed'')
      else if (case kr_version r of None \<Rightarrow> False | Some v \<Rightarrow> \<not> trimmed v)
      then Inl (ValueError ''checkpoint reference version must be non-empty and trimmed'')
      else Inr r)"

definition reference_to_data :: "checkpoint_reference \<Rightarrow> json_object" where
  "reference_to_data r = [(''resource_type'', JStr (kr_type r)), (''resource'', JObj (resource_to_data (kr_resource r))),
     (''scope'', scope_to_data (kr_scope r)), (''version'', opt_str (kr_version r))]"

definition reference_from_data :: "pylib \<Rightarrow> json_object \<Rightarrow> checkpoint_reference result" where
  "reference_from_data L d =
     rbind (require_keys d [''resource_type'', ''resource'', ''scope'', ''version''] ''checkpoint reference'') (\<lambda>_.
     rbind (field_str L d ''resource_type'') (\<lambda>t.
     rbind (rbind (object_at d ''resource'' ''resource'') (resource_from_data L)) (\<lambda>r.
     rbind (rbind (object_at d ''scope'' ''reference scope'') (scope_from_data L)) (\<lambda>s.
     mk_reference \<lparr>kr_type = t, kr_resource = r, kr_scope = s,
       kr_version = (if obj_get d ''version'' = JNull then None else Some (py_str L (obj_get d ''version'')))\<rparr>))))"

definition reference_ok :: "checkpoint_reference \<Rightarrow> bool" where
  "reference_ok r \<longleftrightarrow> trimmed (kr_type r) \<and> resource_ok (kr_resource r) \<and> scope_ok (kr_scope r)
     \<and> (case kr_version r of None \<Rightarrow> True | Some v \<Rightarrow> trimmed v)"

lemma scope_decodes: "scope_ok s \<Longrightarrow> rbind (as_object (scope_to_data s) n) (scope_from_data L) = Inr s"
  by (rule scope_roundtrip)

lemma reference_roundtrip: "reference_ok r \<Longrightarrow> reference_from_data L (reference_to_data r) = Inr r"
  by (cases r; cases "kr_version r")
    (simp_all add: reference_from_data_def reference_to_data_def reference_ok_def require_keys_def same_fields_def
      resource_roundtrip scope_decodes mk_reference_def)

definition optional_reference :: "pylib \<Rightarrow> json \<Rightarrow> string \<Rightarrow> checkpoint_reference option result" where
  "optional_reference L v fname = object_or_none fname (reference_from_data L) v"

definition opt_reference_to_data :: "checkpoint_reference option \<Rightarrow> json" where
  "opt_reference_to_data r = (case r of None \<Rightarrow> JNull | Some x \<Rightarrow> JObj (reference_to_data x))"

lemma optional_reference_roundtrip:
  "pred_option reference_ok r \<Longrightarrow> optional_reference L (opt_reference_to_data r) n = Inr r"
  by (cases r) (simp_all add: optional_reference_def opt_reference_to_data_def reference_roundtrip)

subsection \<open>Approvals\<close>

record approval_request =
  ar_approval_id :: string
  ar_run_id :: run_id
  ar_node_id :: node_id
  ar_correlation_id :: string
  ar_scope :: scope_ref
  ar_allowed :: "approval_outcome list"
  ar_expires_at :: "datetime option"
  ar_prompt_ref :: checkpoint_reference

definition mk_approval_request :: "approval_request \<Rightarrow> approval_request result" where
  "mk_approval_request a =
     (if ar_allowed a = [] then Inl (ValueError ''approval requires at least one allowed outcome'')
      else if \<not> distinct (ar_allowed a) then Inl (ValueError ''approval outcomes must be unique'')
      else rbind (require_narrower_than (kr_scope (ar_prompt_ref a)) (ar_scope a)) (\<lambda>_. Inr a))"

definition approval_request_to_data :: "approval_request \<Rightarrow> json_object" where
  "approval_request_to_data a = [(''approval_id'', JStr (ar_approval_id a)), (''run_id'', JStr (ar_run_id a)),
     (''node_id'', JStr (ar_node_id a)), (''correlation_id'', JStr (ar_correlation_id a)), (''scope'', scope_to_data (ar_scope a)),
     (''allowed_outcomes'', JList (List.map (\<lambda>x. JStr (approval_outcome_value x)) (ar_allowed a))),
     (''expires_at'', date_json (ar_expires_at a)), (''prompt_ref'', JObj (reference_to_data (ar_prompt_ref a)))]"

definition approval_request_from_data :: "pylib \<Rightarrow> json_object \<Rightarrow> approval_request result" where
  "approval_request_from_data L d =
     rbind (array_at d ''allowed_outcomes'' ''approval outcomes'') (\<lambda>outcomes.
     rbind (ident_at L d ''approval_id'') (\<lambda>i.
     rbind (ident_at L d ''run_id'') (\<lambda>r.
     rbind (ident_at L d ''node_id'') (\<lambda>n.
     rbind (ident_at L d ''correlation_id'') (\<lambda>c.
     rbind (rbind (object_at d ''scope'' ''approval scope'') (scope_from_data L)) (\<lambda>s.
     rbind (rmap (\<lambda>v. enum_of L ''ApprovalOutcome'' approval_outcomes (py_str L v)) outcomes) (\<lambda>allowed.
     rbind (field_opt L d ''expires_at'' (py_fromiso L)) (\<lambda>e.
     rbind (rbind (object_at d ''prompt_ref'' ''approval prompt reference'') (reference_from_data L)) (\<lambda>p.
     mk_approval_request \<lparr>ar_approval_id = i, ar_run_id = r, ar_node_id = n, ar_correlation_id = c, ar_scope = s,
       ar_allowed = allowed, ar_expires_at = e, ar_prompt_ref = p\<rparr>)))))))))"

definition approval_request_ok :: "approval_request \<Rightarrow> bool" where
  "approval_request_ok a \<longleftrightarrow> mk_approval_request a = Inr a \<and> list_all identifier_ok [ar_approval_id a, ar_run_id a,
     ar_node_id a, ar_correlation_id a] \<and> scope_ok (ar_scope a) \<and> date_ok (ar_expires_at a) \<and> reference_ok (ar_prompt_ref a)"

lemma rmap_Inr_id [simp]: "rmap Inr xs = Inr xs"
  by (induction xs) simp_all

lemma approval_request_roundtrip:
  "iso_inverse L \<Longrightarrow> approval_request_ok a \<Longrightarrow> approval_request_from_data L (approval_request_to_data a) = Inr a"
  by (cases a) (simp add: approval_request_from_data_def approval_request_to_data_def approval_request_ok_def
      scope_decodes reference_roundtrip rmap_map)

record approval_decision =
  ad_approval_id :: string
  ad_run_id :: run_id
  ad_node_id :: node_id
  ad_correlation_id :: string
  ad_scope :: scope_ref
  ad_actor :: principal
  ad_outcome :: approval_outcome
  ad_decided_at :: datetime

definition decision_identity :: "approval_decision \<Rightarrow> string \<times> string \<times> string \<times> string" where
  "decision_identity a = (ad_approval_id a, ad_run_id a, ad_node_id a, ad_correlation_id a)"

definition decision_to_data :: "approval_decision \<Rightarrow> json_object" where
  "decision_to_data a = [(''approval_id'', JStr (ad_approval_id a)), (''run_id'', JStr (ad_run_id a)),
     (''node_id'', JStr (ad_node_id a)), (''correlation_id'', JStr (ad_correlation_id a)), (''scope'', scope_to_data (ad_scope a)),
     (''actor'', JObj (principal_to_data (ad_actor a))), (''outcome'', JStr (approval_outcome_value (ad_outcome a))),
     (''decided_at'', JStr (isoformat (ad_decided_at a)))]"

definition decision_from_data :: "pylib \<Rightarrow> json_object \<Rightarrow> approval_decision result" where
  "decision_from_data L d =
     rbind (ident_at L d ''approval_id'') (\<lambda>i.
     rbind (ident_at L d ''run_id'') (\<lambda>r.
     rbind (ident_at L d ''node_id'') (\<lambda>n.
     rbind (ident_at L d ''correlation_id'') (\<lambda>c.
     rbind (rbind (object_at d ''scope'' ''decision scope'') (scope_from_data L)) (\<lambda>s.
     rbind (rbind (object_at d ''actor'' ''decision actor'') (principal_from_data L)) (\<lambda>actor.
     rbind (rbind (field_str L d ''outcome'') (enum_of L ''ApprovalOutcome'' approval_outcomes)) (\<lambda>x.
     rbind (rbind (field_str L d ''decided_at'') (py_fromiso L)) (\<lambda>t.
     Inr \<lparr>ad_approval_id = i, ad_run_id = r, ad_node_id = n, ad_correlation_id = c, ad_scope = s, ad_actor = actor,
       ad_outcome = x, ad_decided_at = t\<rparr>))))))))"

definition approval_decision_ok :: "approval_decision \<Rightarrow> bool" where
  "approval_decision_ok a \<longleftrightarrow> list_all identifier_ok [ad_approval_id a, ad_run_id a, ad_node_id a, ad_correlation_id a]
     \<and> scope_ok (ad_scope a) \<and> principal_ok (ad_actor a) \<and> datetime_ok (ad_decided_at a)"

lemma decision_roundtrip:
  "iso_inverse L \<Longrightarrow> approval_decision_ok a \<Longrightarrow> decision_from_data L (decision_to_data a) = Inr a"
  by (cases a) (simp add: decision_from_data_def decision_to_data_def approval_decision_ok_def scope_decodes principal_roundtrip)

record approval_state =
  at_request :: approval_request
  at_decision :: "approval_decision option"

definition request_identity :: "approval_request \<Rightarrow> string \<times> string \<times> string \<times> string" where
  "request_identity a = (ar_approval_id a, ar_run_id a, ar_node_id a, ar_correlation_id a)"

definition mk_approval_state :: "approval_state \<Rightarrow> approval_state result" where
  "mk_approval_state a = (case at_decision a of
       None \<Rightarrow> Inr a
     | Some x \<Rightarrow>
         if decision_identity x \<noteq> request_identity (at_request a)
         then Inl (ValueError ''approval decision identity does not match request'')
         else if scope_key (ad_scope x) \<noteq> scope_key (ar_scope (at_request a))
         then Inl (ValueError ''approval decision Scope does not match request'')
         else if ad_outcome x \<notin> set (ar_allowed (at_request a))
         then Inl (ValueError ''approval decision outcome is not allowed'') else Inr a)"

definition approval_state_to_data :: "approval_state \<Rightarrow> json_object" where
  "approval_state_to_data a = [(''request'', JObj (approval_request_to_data (at_request a))),
     (''decision'', case at_decision a of None \<Rightarrow> JNull | Some x \<Rightarrow> JObj (decision_to_data x))]"

definition approval_state_from_data :: "pylib \<Rightarrow> json_object \<Rightarrow> approval_state result" where
  "approval_state_from_data L d =
     rbind (rbind (object_at d ''request'' ''approval request'') (approval_request_from_data L)) (\<lambda>r.
     rbind (object_or_none ''approval decision'' (decision_from_data L) (obj_get d ''decision'')) (\<lambda>x.
     mk_approval_state \<lparr>at_request = r, at_decision = x\<rparr>))"

definition approval_state_ok :: "approval_state \<Rightarrow> bool" where
  "approval_state_ok a \<longleftrightarrow> mk_approval_state a = Inr a \<and> approval_request_ok (at_request a)
     \<and> (case at_decision a of None \<Rightarrow> True | Some x \<Rightarrow> approval_decision_ok x)"

lemma approval_state_roundtrip:
  "iso_inverse L \<Longrightarrow> approval_state_ok a \<Longrightarrow> approval_state_from_data L (approval_state_to_data a) = Inr a"
  by (cases a; cases "at_decision a")
    (simp_all add: approval_state_from_data_def approval_state_to_data_def approval_state_ok_def approval_request_roundtrip decision_roundtrip)

subsection \<open>Node states and side effects\<close>

record node_state =
  ns_node_id :: node_id
  ns_outcome :: node_outcome
  ns_output_ref :: "checkpoint_reference option"
  ns_error_ref :: "checkpoint_reference option"
  ns_approval :: "approval_state option"

definition mk_node_state :: "node_state \<Rightarrow> node_state result" where
  "mk_node_state s =
     (if ns_output_ref s \<noteq> None \<and> ns_error_ref s \<noteq> None
      then Inl (ValueError ''node state cannot have both output and error references'')
      else if ns_outcome s = NODE_WAITING_APPROVAL \<and> ns_approval s = None
      then Inl (ValueError ''waiting approval node requires approval state'') else Inr s)"

definition node_state_to_data :: "node_state \<Rightarrow> json_object" where
  "node_state_to_data s = [(''node_id'', JStr (ns_node_id s)), (''outcome'', JStr (node_outcome_value (ns_outcome s))),
     (''output_ref'', opt_reference_to_data (ns_output_ref s)), (''error_ref'', opt_reference_to_data (ns_error_ref s)),
     (''approval_state'', case ns_approval s of None \<Rightarrow> JNull | Some a \<Rightarrow> JObj (approval_state_to_data a))]"

definition node_state_from_data :: "pylib \<Rightarrow> json_object \<Rightarrow> node_state result" where
  "node_state_from_data L d =
     rbind (ident_at L d ''node_id'') (\<lambda>i.
     rbind (rbind (field_str L d ''outcome'') (enum_of L ''NodeOutcome'' node_outcomes)) (\<lambda>x.
     rbind (optional_reference L (obj_get d ''output_ref'') ''node output'') (\<lambda>out.
     rbind (optional_reference L (obj_get d ''error_ref'') ''node error'') (\<lambda>err.
     rbind (object_or_none ''node approval state'' (approval_state_from_data L) (obj_get d ''approval_state'')) (\<lambda>a.
     mk_node_state \<lparr>ns_node_id = i, ns_outcome = x, ns_output_ref = out, ns_error_ref = err, ns_approval = a\<rparr>)))))"

definition node_state_ok :: "node_state \<Rightarrow> bool" where
  "node_state_ok s \<longleftrightarrow> mk_node_state s = Inr s \<and> identifier_ok (ns_node_id s) \<and> pred_option reference_ok (ns_output_ref s)
     \<and> pred_option reference_ok (ns_error_ref s) \<and> (case ns_approval s of None \<Rightarrow> True | Some a \<Rightarrow> approval_state_ok a)"

lemma node_state_roundtrip:
  "iso_inverse L \<Longrightarrow> node_state_ok s \<Longrightarrow> node_state_from_data L (node_state_to_data s) = Inr s"
  by (cases s; cases "ns_approval s")
    (simp_all add: node_state_from_data_def node_state_to_data_def node_state_ok_def optional_reference_roundtrip
      approval_state_roundtrip)

text \<open>\<open>^[0-9a-f]{64}$\<close>\<close>

definition sha256_hex :: "string \<Rightarrow> bool" where
  "sha256_hex s \<longleftrightarrow> List.length s = 64 \<and> list_all (\<lambda>c. is_digit c \<or> CHR ''a'' \<le> c \<and> c \<le> CHR ''f'') s"

record side_effect =
  sf_operation :: resource_ref
  sf_key :: idempotency_key
  sf_fingerprint :: string
  sf_result :: "checkpoint_reference option"
  sf_outcome :: effect_outcome

definition mk_side_effect :: "side_effect \<Rightarrow> side_effect result" where
  "mk_side_effect s =
     (if \<not> sha256_hex (sf_fingerprint s) then Inl (ValueError ''side-effect request fingerprint must be lowercase SHA-256'')
      else if sf_outcome s = EFFECT_SUCCEEDED \<and> sf_result s = None
      then Inl (ValueError ''successful side effect requires a durable result reference'') else Inr s)"

definition side_effect_to_data :: "side_effect \<Rightarrow> json_object" where
  "side_effect_to_data s = [(''operation_ref'', JObj (resource_to_data (sf_operation s))), (''idempotency_key'', JStr (sf_key s)),
     (''request_fingerprint'', JStr (sf_fingerprint s)), (''result_ref'', opt_reference_to_data (sf_result s)),
     (''outcome'', JStr (effect_outcome_value (sf_outcome s)))]"

definition side_effect_from_data :: "pylib \<Rightarrow> json_object \<Rightarrow> side_effect result" where
  "side_effect_from_data L d =
     rbind (rbind (object_at d ''operation_ref'' ''side-effect operation'') (resource_from_data L)) (\<lambda>p.
     rbind (ident_at L d ''idempotency_key'') (\<lambda>k.
     rbind (field_str L d ''request_fingerprint'') (\<lambda>f.
     rbind (optional_reference L (obj_get d ''result_ref'') ''side-effect result'') (\<lambda>r.
     rbind (rbind (field_str L d ''outcome'') (enum_of L ''SideEffectOutcome'' effect_outcomes)) (\<lambda>x.
     mk_side_effect \<lparr>sf_operation = p, sf_key = k, sf_fingerprint = f, sf_result = r, sf_outcome = x\<rparr>)))))"

definition side_effect_ok :: "side_effect \<Rightarrow> bool" where
  "side_effect_ok s \<longleftrightarrow> mk_side_effect s = Inr s \<and> resource_ok (sf_operation s) \<and> identifier_ok (sf_key s)
     \<and> pred_option reference_ok (sf_result s)"

lemma side_effect_roundtrip: "side_effect_ok s \<Longrightarrow> side_effect_from_data L (side_effect_to_data s) = Inr s"
  by (cases s) (simp add: side_effect_from_data_def side_effect_to_data_def side_effect_ok_def optional_reference_roundtrip
      resource_roundtrip)

end
