(* ===== verification/Checkpoint_Record.thy ===== *)
theory Checkpoint_Record
  imports Checkpoint_Model
begin

section \<open>The checkpoint record and its integrity\<close>

text \<open>
  \<open>checkpoint/model.py\<close>, class \<open>Checkpoint\<close>: the checks of its constructor in their order, the
  digest over everything but the digest itself, and the decoder, which verifies it.
\<close>

record checkpoint_integrity =
  ci_algorithm :: string
  ci_digest :: string

definition mk_integrity :: "checkpoint_integrity \<Rightarrow> checkpoint_integrity result" where
  "mk_integrity i =
     (if ci_algorithm i \<noteq> ''sha256'' then Inl (ValueError ''checkpoint integrity algorithm must be sha256'')
      else if \<not> sha256_hex (ci_digest i) then Inl (ValueError ''checkpoint digest must be lowercase SHA-256'') else Inr i)"

definition integrity_to_data :: "checkpoint_integrity \<Rightarrow> json_object" where
  "integrity_to_data i = [(''algorithm'', JStr (ci_algorithm i)), (''digest'', JStr (ci_digest i))]"

definition integrity_from_data :: "pylib \<Rightarrow> json_object \<Rightarrow> checkpoint_integrity result" where
  "integrity_from_data L d =
     rbind (field_str L d ''algorithm'') (\<lambda>a. rbind (field_str L d ''digest'') (\<lambda>g.
     mk_integrity \<lparr>ci_algorithm = a, ci_digest = g\<rparr>))"

lemma integrity_roundtrip: "mk_integrity i = Inr i \<Longrightarrow> integrity_from_data L (integrity_to_data i) = Inr i"
  by (cases i) (simp add: integrity_from_data_def integrity_to_data_def)

record checkpoint =
  ck_contract :: string
  ck_id :: checkpoint_id
  ck_run_id :: run_id
  ck_workflow_id :: workflow_id
  ck_definition_id :: definition_id
  ck_graph_version :: string
  ck_scope :: scope_ref
  ck_sequence :: int
  ck_attempt :: int
  ck_previous :: "checkpoint_id option"
  ck_nodes :: "node_state list"
  ck_pending :: "node_id list"
  ck_external :: "checkpoint_reference list"
  ck_effects :: "side_effect list"
  ck_approvals :: "approval_state list"
  ck_created_at :: datetime
  ck_integrity :: checkpoint_integrity

subsection \<open>The constructor\<close>

definition require_unique :: "string \<Rightarrow> 'a list \<Rightarrow> unit result" where
  "require_unique subject xs =
     raise_when (\<not> distinct xs) (ValueError (subject @ '' identities must be unique''))"

definition reference_identity :: "checkpoint_reference \<Rightarrow> string \<times> (string \<times> string \<times> string) \<times> (string \<times> string \<times> string) \<times> string option"
where
  "reference_identity r = (kr_type r, resource_key (kr_resource r), scope_key (kr_scope r), kr_version r)"

definition approval_id_of :: "approval_state \<Rightarrow> string" where
  "approval_id_of a = ar_approval_id (at_request a)"

text \<open>\<open>approvals.get(approval_id) != state.approval_state\<close>; the identities are unique by then.\<close>

definition approval_matches :: "approval_state list \<Rightarrow> node_state \<Rightarrow> bool" where
  "approval_matches approvals s = (case ns_approval s of
       None \<Rightarrow> True
     | Some a \<Rightarrow> map_of (rev (List.map (\<lambda>x. (approval_id_of x, x)) approvals)) (approval_id_of a) = Some a)"

definition checkpoint_head_check :: "checkpoint \<Rightarrow> unit result" where
  "checkpoint_head_check c =
     (if ck_contract c \<noteq> ''1'' then Inl (ValueError ''unsupported checkpoint contract version'')
      else if \<not> trimmed (ck_graph_version c) then Inl (ValueError ''checkpoint graph version is required'')
      else if ck_sequence c < 1 \<or> ck_attempt c < 1
      then Inl (ValueError ''checkpoint sequence and attempt must be positive'')
      else if (ck_sequence c = 1) \<noteq> (ck_previous c = None)
      then Inl (ValueError ''only the first checkpoint may omit its predecessor'') else Inr ())"

definition checkpoint_identity_check :: "checkpoint \<Rightarrow> unit result" where
  "checkpoint_identity_check c =
     rbind (require_unique ''node state'' (List.map ns_node_id (ck_nodes c))) (\<lambda>_.
     rbind (require_unique ''pending node'' (ck_pending c)) (\<lambda>_.
     rbind (raise_when (ns_node_id ` set (ck_nodes c) \<inter> set (ck_pending c) \<noteq> {})
       (ValueError ''stable and pending node identities must be disjoint'')) (\<lambda>_.
     rbind (require_unique ''external reference'' (List.map reference_identity (ck_external c))) (\<lambda>_.
     rbind (require_unique ''side-effect operation'' (List.map (\<lambda>s. resource_key (sf_operation s)) (ck_effects c))) (\<lambda>_.
     rbind (require_unique ''side-effect idempotency key'' (List.map sf_key (ck_effects c))) (\<lambda>_.
     require_unique ''approval'' (List.map approval_id_of (ck_approvals c))))))))"

definition checkpoint_content_check :: "checkpoint \<Rightarrow> unit result" where
  "checkpoint_content_check c =
     rbind (rcheck (\<lambda>s. raise_when (\<not> approval_matches (ck_approvals c) s)
       (ValueError ''node approval state must match approvals collection'')) (ck_nodes c)) (\<lambda>_.
     rbind (rcheck (\<lambda>r. require_narrower_than (kr_scope r) (ck_scope c)) (ck_external c)) (\<lambda>_.
     rcheck (\<lambda>a. rbind (raise_when (ar_run_id (at_request a) \<noteq> ck_run_id c)
         (ValueError ''approval Run must match checkpoint Run'')) (\<lambda>_.
       require_narrower_than (ar_scope (at_request a)) (ck_scope c))) (ck_approvals c)))"

definition mk_checkpoint :: "checkpoint \<Rightarrow> checkpoint result" where
  "mk_checkpoint c =
     rbind (checkpoint_head_check c) (\<lambda>_. rbind (checkpoint_identity_check c) (\<lambda>_.
     rbind (checkpoint_content_check c) (\<lambda>_. Inr c)))"

lemma mk_checkpoint_Inr:
  "mk_checkpoint c = Inr c' \<longleftrightarrow> c' = c \<and> checkpoint_head_check c = Inr () \<and> checkpoint_identity_check c = Inr ()
     \<and> checkpoint_content_check c = Inr ()"
  by (auto simp: mk_checkpoint_def rbind_eq_Inr)

subsection \<open>Encoding and digest\<close>

definition body_to_data :: "checkpoint \<Rightarrow> json_object" where
  "body_to_data c =
     [(''contract_version'', JStr (ck_contract c)), (''checkpoint_id'', JStr (ck_id c)), (''run_id'', JStr (ck_run_id c)),
      (''workflow_id'', JStr (ck_workflow_id c)), (''definition_id'', JStr (ck_definition_id c)),
      (''graph_version'', JStr (ck_graph_version c)), (''scope'', scope_to_data (ck_scope c)),
      (''sequence'', JInt (ck_sequence c)), (''attempt'', JInt (ck_attempt c)),
      (''previous_checkpoint_ref'', opt_str (ck_previous c)),
      (''node_states'', JList (List.map (\<lambda>x. JObj (node_state_to_data x)) (ck_nodes c))),
      (''pending_nodes'', JList (List.map JStr (ck_pending c))),
      (''external_refs'', JList (List.map (\<lambda>x. JObj (reference_to_data x)) (ck_external c))),
      (''side_effects'', JList (List.map (\<lambda>x. JObj (side_effect_to_data x)) (ck_effects c))),
      (''approvals'', JList (List.map (\<lambda>x. JObj (approval_state_to_data x)) (ck_approvals c))),
      (''created_at'', JStr (isoformat (ck_created_at c)))]"

definition checkpoint_to_data :: "checkpoint \<Rightarrow> json_object" where
  "checkpoint_to_data c = body_to_data c @ [(''integrity'', JObj (integrity_to_data (ck_integrity c)))]"

definition integrity_data :: "checkpoint \<Rightarrow> json_object" where
  "integrity_data c = body_to_data c @ [(''integrity'', JObj [(''algorithm'', JStr (ci_algorithm (ck_integrity c)))])]"

definition canonical_digest :: "(json_object \<Rightarrow> string) \<Rightarrow> checkpoint \<Rightarrow> string" where
  "canonical_digest H c = H (integrity_data c)"

definition integrity_failure :: exn where
  "integrity_failure = core_error PROTOCOL_FAILURE ''checkpoint_integrity_failure''
     ''checkpoint integrity verification failed'' False None"

definition verify_integrity :: "(json_object \<Rightarrow> string) \<Rightarrow> checkpoint \<Rightarrow> unit result" where
  "verify_integrity H c = (if canonical_digest H c \<noteq> ci_digest (ck_integrity c) then Inl integrity_failure else Inr ())"

text \<open>\<open>Checkpoint.create\<close>: the argument's own integrity is not used; \<open>replace\<close> runs the constructor again.\<close>

definition create_checkpoint :: "(json_object \<Rightarrow> string) \<Rightarrow> checkpoint \<Rightarrow> checkpoint result" where
  "create_checkpoint H c0 =
     rbind (mk_integrity \<lparr>ci_algorithm = ''sha256'', ci_digest = replicate 64 (CHR ''0'')\<rparr>) (\<lambda>zero.
     rbind (mk_checkpoint (c0\<lparr>ck_integrity := zero\<rparr>)) (\<lambda>c.
     rbind (mk_integrity \<lparr>ci_algorithm = ''sha256'', ci_digest = canonical_digest H c\<rparr>) (\<lambda>i.
     mk_checkpoint (c\<lparr>ck_integrity := i\<rparr>))))"

definition checkpoint_fields :: "string list" where
  "checkpoint_fields = [''contract_version'', ''checkpoint_id'', ''run_id'', ''workflow_id'', ''definition_id'',
     ''graph_version'', ''scope'', ''sequence'', ''attempt'', ''previous_checkpoint_ref'', ''node_states'', ''pending_nodes'',
     ''external_refs'', ''side_effects'', ''approvals'', ''created_at'', ''integrity'']"

definition checkpoint_from_data :: "pylib \<Rightarrow> (json_object \<Rightarrow> string) \<Rightarrow> json_object \<Rightarrow> checkpoint result" where
  "checkpoint_from_data L H d =
     rbind (require_keys d checkpoint_fields ''checkpoint'') (\<lambda>_.
     rbind (field_str L d ''contract_version'') (\<lambda>contract.
     rbind (ident_at L d ''checkpoint_id'') (\<lambda>i.
     rbind (ident_at L d ''run_id'') (\<lambda>r.
     rbind (ident_at L d ''workflow_id'') (\<lambda>w.
     rbind (ident_at L d ''definition_id'') (\<lambda>def.
     rbind (field_str L d ''graph_version'') (\<lambda>graph.
     rbind (rbind (object_at d ''scope'' ''checkpoint scope'') (scope_from_data L)) (\<lambda>scope.
     rbind (int_at d ''sequence'' ''checkpoint sequence'') (\<lambda>sequence.
     rbind (int_at d ''attempt'' ''checkpoint attempt'') (\<lambda>attempt.
     rbind (field_opt L d ''previous_checkpoint_ref'' mk_identifier) (\<lambda>previous.
     rbind (rbind (array_at d ''node_states'' ''node states'') (objects ''node state'' (node_state_from_data L))) (\<lambda>nodes.
     rbind (rbind (array_at d ''pending_nodes'' ''pending nodes'') (rmap (\<lambda>v. mk_identifier (py_str L v)))) (\<lambda>pending.
     rbind (rbind (array_at d ''external_refs'' ''external references'') (objects ''external reference'' (reference_from_data L))) (\<lambda>ext.
     rbind (rbind (array_at d ''side_effects'' ''side effects'') (objects ''side effect'' (side_effect_from_data L))) (\<lambda>effects.
     rbind (rbind (array_at d ''approvals'' ''approvals'') (objects ''approval state'' (approval_state_from_data L))) (\<lambda>approvals.
     rbind (rbind (field_str L d ''created_at'') (py_fromiso L)) (\<lambda>t.
     rbind (rbind (object_at d ''integrity'' ''checkpoint integrity'') (integrity_from_data L)) (\<lambda>integrity.
     rbind (mk_checkpoint \<lparr>ck_contract = contract, ck_id = i, ck_run_id = r, ck_workflow_id = w, ck_definition_id = def,
         ck_graph_version = graph, ck_scope = scope, ck_sequence = sequence, ck_attempt = attempt, ck_previous = previous,
         ck_nodes = nodes, ck_pending = pending, ck_external = ext, ck_effects = effects, ck_approvals = approvals,
         ck_created_at = t, ck_integrity = integrity\<rparr>) (\<lambda>c.
     rbind (verify_integrity H c) (\<lambda>_. Inr c))))))))))))))))))))"

subsection \<open>Round trip\<close>

definition checkpoint_codable :: "checkpoint \<Rightarrow> bool" where
  "checkpoint_codable c \<longleftrightarrow> mk_checkpoint c = Inr c \<and> mk_integrity (ck_integrity c) = Inr (ck_integrity c)
     \<and> list_all identifier_ok [ck_id c, ck_run_id c, ck_workflow_id c, ck_definition_id c] \<and> opt_id_ok (ck_previous c)
     \<and> scope_ok (ck_scope c) \<and> list_all node_state_ok (ck_nodes c) \<and> list_all identifier_ok (ck_pending c)
     \<and> list_all reference_ok (ck_external c) \<and> list_all side_effect_ok (ck_effects c)
     \<and> list_all approval_state_ok (ck_approvals c) \<and> datetime_ok (ck_created_at c)"

lemma body_fields:
  "field_str L (body_to_data c @ t) ''contract_version'' = Inr (ck_contract c)"
  "ident_at L (body_to_data c @ t) ''checkpoint_id'' = mk_identifier (ck_id c)"
  "ident_at L (body_to_data c @ t) ''run_id'' = mk_identifier (ck_run_id c)"
  "ident_at L (body_to_data c @ t) ''workflow_id'' = mk_identifier (ck_workflow_id c)"
  "ident_at L (body_to_data c @ t) ''definition_id'' = mk_identifier (ck_definition_id c)"
  "field_str L (body_to_data c @ t) ''graph_version'' = Inr (ck_graph_version c)"
  "object_at (body_to_data c @ t) ''scope'' n = as_object (scope_to_data (ck_scope c)) n"
  "int_at (body_to_data c @ t) ''sequence'' n = Inr (ck_sequence c)"
  "int_at (body_to_data c @ t) ''attempt'' n = Inr (ck_attempt c)"
  "field_opt L (body_to_data c @ t) ''previous_checkpoint_ref'' f = decode_value L f (opt_str (ck_previous c))"
  "array_at (body_to_data c @ t) ''node_states'' n = Inr (List.map (\<lambda>x. JObj (node_state_to_data x)) (ck_nodes c))"
  "array_at (body_to_data c @ t) ''pending_nodes'' n = Inr (List.map JStr (ck_pending c))"
  "array_at (body_to_data c @ t) ''external_refs'' n = Inr (List.map (\<lambda>x. JObj (reference_to_data x)) (ck_external c))"
  "array_at (body_to_data c @ t) ''side_effects'' n = Inr (List.map (\<lambda>x. JObj (side_effect_to_data x)) (ck_effects c))"
  "array_at (body_to_data c @ t) ''approvals'' n = Inr (List.map (\<lambda>x. JObj (approval_state_to_data x)) (ck_approvals c))"
  "field_str L (body_to_data c @ t) ''created_at'' = Inr (isoformat (ck_created_at c))"
  "object_at (body_to_data c @ t) ''integrity'' n = object_at t ''integrity'' n"
  by (simp_all add: body_to_data_def)

lemma checkpoint_roundtrip:
  assumes L: "iso_inverse L" and ok: "checkpoint_codable c" and v: "verify_integrity H c = Inr ()"
  shows "checkpoint_from_data L H (checkpoint_to_data c) = Inr c"
proof -
  note parts = ok [unfolded checkpoint_codable_def]
  have keys: "require_keys (checkpoint_to_data c) checkpoint_fields ''checkpoint'' = Inr ()"
    by (simp add: require_keys_def same_fields_def checkpoint_to_data_def body_to_data_def checkpoint_fields_def)
  have ids: "mk_identifier (ck_id c) = Inr (ck_id c)" "mk_identifier (ck_run_id c) = Inr (ck_run_id c)"
    "mk_identifier (ck_workflow_id c) = Inr (ck_workflow_id c)" "mk_identifier (ck_definition_id c) = Inr (ck_definition_id c)"
    "decode_value L mk_identifier (opt_str (ck_previous c)) = Inr (ck_previous c)"
    using parts by simp_all
  have scope: "rbind (as_object (scope_to_data (ck_scope c)) n) (scope_from_data L) = Inr (ck_scope c)" for n
    using parts by (simp add: scope_decodes)
  have lists: "objects n1 (node_state_from_data L) (List.map (\<lambda>x. JObj (node_state_to_data x)) (ck_nodes c)) = Inr (ck_nodes c)"
    "objects n2 (reference_from_data L) (List.map (\<lambda>x. JObj (reference_to_data x)) (ck_external c)) = Inr (ck_external c)"
    "objects n3 (side_effect_from_data L) (List.map (\<lambda>x. JObj (side_effect_to_data x)) (ck_effects c)) = Inr (ck_effects c)"
    "objects n4 (approval_state_from_data L) (List.map (\<lambda>x. JObj (approval_state_to_data x)) (ck_approvals c)) = Inr (ck_approvals c)"
    for n1 n2 n3 n4
    using parts L by (auto intro!: objects_inverse simp: list_all_iff node_state_roundtrip reference_roundtrip
        side_effect_roundtrip approval_state_roundtrip)
  have pending: "rmap (\<lambda>v. mk_identifier (py_str L v)) (List.map JStr (ck_pending c)) = Inr (ck_pending c)"
    using parts unfolding rmap_map by (intro rmap_inverse) (simp add: list_all_iff)
  have created: "py_fromiso L (isoformat (ck_created_at c)) = Inr (ck_created_at c)" using parts L by simp
  have integrity: "object_at [(''integrity'', JObj (integrity_to_data (ck_integrity c)))] ''integrity'' n
      = Inr (integrity_to_data (ck_integrity c))"
    "integrity_from_data L (integrity_to_data (ck_integrity c)) = Inr (ck_integrity c)" for n
    using integrity_roundtrip [of "ck_integrity c" L] parts by simp_all
  have made: "mk_checkpoint c = Inr c" using parts by simp
  show ?thesis
    unfolding checkpoint_from_data_def keys rbind_simps
    by (simp only: checkpoint_to_data_def body_fields rbind_simps ids scope lists pending created integrity)
      (rule trans [OF arg_cong [where f = "\<lambda>r. rbind r _"]], rule trans [OF arg_cong [where f = mk_checkpoint] made],
        cases c, simp, simp add: v)
qed

text \<open>What the decoder returns is well formed and has its digest verified.\<close>

lemma checkpoint_from_data_verified:
  "checkpoint_from_data L H d = Inr c \<Longrightarrow> mk_checkpoint c = Inr c \<and> verify_integrity H c = Inr ()"
  unfolding checkpoint_from_data_def by (auto simp: rbind_eq_Inr mk_checkpoint_Inr)

text \<open>
  Tampering shows: with a digest without collisions, checkpoints that carry the same verified
  digest have the same content.
\<close>

lemma integrity_data_inject:
  "integrity_data a = integrity_data b \<longleftrightarrow> body_to_data a = body_to_data b \<and> ci_algorithm (ck_integrity a) = ci_algorithm (ck_integrity b)"
  by (auto simp: integrity_data_def)

lemma verified_digest_binds:
  assumes L: "iso_inverse L" and H: "inj_on H {integrity_data a, integrity_data b}"
    and a: "checkpoint_codable a" "verify_integrity H a = Inr ()"
    and b: "checkpoint_codable b" "verify_integrity H b = Inr ()" and same: "ci_digest (ck_integrity a) = ci_digest (ck_integrity b)"
  shows "a = b"
proof -
  have "H (integrity_data a) = H (integrity_data b)"
    using a(2) b(2) same by (simp add: verify_integrity_def canonical_digest_def split: if_splits)
  then have "integrity_data a = integrity_data b" by (rule inj_onD [OF H]) simp_all
  then have "body_to_data a = body_to_data b" "ck_integrity a = ck_integrity b"
    using same by (simp_all add: integrity_data_inject)
  then have d: "checkpoint_to_data a = checkpoint_to_data b" unfolding checkpoint_to_data_def by (rule arg_cong2)
  have "(Inr a :: checkpoint result) = Inr b"
    using checkpoint_roundtrip [OF L a, unfolded d] checkpoint_roundtrip [OF L b] by (rule trans [OF sym])
  then show ?thesis by (rule sum.inject [THEN iffD1])
qed

end
