(* ===== verification/Checkpoint_Store.thy ===== *)
theory Checkpoint_Store
  imports Checkpoint_Record Run_Service "HOL-Library.AList"
begin

section \<open>The in-memory checkpoint store\<close>

text \<open>
  \<open>checkpoint/store.py\<close> and the queries of \<open>checkpoint/model.py\<close>. The two dictionaries keep their
  insertion order; the lock makes each operation one step. The fingerprint of a query is the
  digest \<open>H\<close> of its document.
\<close>

record checkpoint_cursor =
  cu_provider :: provider_id
  cu_run_id :: run_id
  cu_scope :: scope_ref
  cu_graph_version :: "string option"
  cu_limit :: int
  cu_fingerprint :: string
  cu_next_sequence :: int

definition mk_cursor :: "checkpoint_cursor \<Rightarrow> checkpoint_cursor result" where
  "mk_cursor c =
     (if cu_limit c < 1 \<or> cu_next_sequence c < 1 then Inl (ValueError ''cursor limit and next sequence must be positive'')
      else if \<not> sha256_hex (cu_fingerprint c) then Inl (ValueError ''cursor query fingerprint must be lowercase SHA-256'')
      else Inr c)"

record checkpoint_query =
  qu_provider :: provider_id
  qu_run_id :: run_id
  qu_scope :: scope_ref
  qu_graph_version :: "string option"
  qu_limit :: int
  qu_cursor :: "checkpoint_cursor option"

definition mk_query :: "checkpoint_query \<Rightarrow> checkpoint_query result" where
  "mk_query q =
     (if \<not> (1 \<le> qu_limit q \<and> qu_limit q \<le> 1000)
      then Inl (ValueError ''checkpoint query limit must be between 1 and 1000'')
      else if qu_graph_version q = Some [] then Inl (ValueError ''graph version must not be empty'') else Inr q)"

definition query_data :: "checkpoint_query \<Rightarrow> json_object" where
  "query_data q = [(''provider_id'', JStr (qu_provider q)), (''run_id'', JStr (qu_run_id q)), (''scope'', scope_to_data (qu_scope q)),
     (''graph_version'', opt_str (qu_graph_version q)), (''limit'', JInt (qu_limit q))]"

definition query_fingerprint :: "(json_object \<Rightarrow> string) \<Rightarrow> checkpoint_query \<Rightarrow> string" where
  "query_fingerprint H q = H (query_data q)"

record checkpoint_page =
  pg_items :: "checkpoint list"
  pg_cursor :: "checkpoint_cursor option"

record delete_request =
  dr_provider :: provider_id
  dr_run_id :: run_id
  dr_ref :: checkpoint_id
  dr_scope :: scope_ref

record delete_result =
  dx_ref :: checkpoint_id
  dx_deleted :: bool

record checkpoint_store =
  st_provider :: provider_id
  st_checkpoints :: "(checkpoint_id \<times> checkpoint) list"
  st_sequences :: "((run_id \<times> int) \<times> checkpoint_id) list"

definition new_store :: "provider_id \<Rightarrow> checkpoint_store" where
  "new_store p = \<lparr>st_provider = p, st_checkpoints = [], st_sequences = []\<rparr>"

subsection \<open>Operations\<close>

definition run_sequences :: "checkpoint_store \<Rightarrow> run_id \<Rightarrow> int list" where
  "run_sequences st r = List.map (\<lambda>((run, n), ref). n) (filter (\<lambda>((run, n), ref). run = r) (st_sequences st))"

definition expected_sequence :: "checkpoint_store \<Rightarrow> run_id \<Rightarrow> int" where
  "expected_sequence st r = (case run_sequences st r of [] \<Rightarrow> 0 | n # ns \<Rightarrow> fold max ns n) + 1"

definition effects_by_key :: "checkpoint \<Rightarrow> (idempotency_key \<times> side_effect) list" where
  "effects_by_key c = List.map (\<lambda>e. (sf_key e, e)) (ck_effects c)"

text \<open>A dictionary comprehension keeps the last value of a repeated key.\<close>

definition effect_of :: "checkpoint \<Rightarrow> idempotency_key \<Rightarrow> side_effect option" where
  "effect_of c = map_of (rev (effects_by_key c))"

definition keeps_effects :: "checkpoint \<Rightarrow> checkpoint \<Rightarrow> bool" where
  "keeps_effects previous c \<longleftrightarrow> list_all (\<lambda>e. effect_of c (sf_key e) = effect_of previous (sf_key e)) (ck_effects previous)"

definition store_conflict :: "string \<Rightarrow> string \<Rightarrow> bool \<Rightarrow> exn" where
  "store_conflict code msg retryable = core_error CONFLICT code msg retryable None"

definition predecessor_check :: "checkpoint_store \<Rightarrow> checkpoint \<Rightarrow> unit result" where
  "predecessor_check st c = (case ck_previous c of
       None \<Rightarrow> Inr ()
     | Some p \<Rightarrow> (case map_of (st_checkpoints st) p of
         None \<Rightarrow> Inl (store_conflict ''invalid_checkpoint_predecessor''
                   ''checkpoint predecessor is missing or belongs to another Run'' False)
       | Some previous \<Rightarrow>
           if ck_run_id previous \<noteq> ck_run_id c
           then Inl (store_conflict ''invalid_checkpoint_predecessor''
                   ''checkpoint predecessor is missing or belongs to another Run'' False)
           else if \<not> keeps_effects previous c
           then Inl (store_conflict ''checkpoint_idempotency_conflict''
                   ''checkpoint changed or removed a durable side-effect record'' False)
           else Inr ()))"

definition store_save ::
  "(json_object \<Rightarrow> string) \<Rightarrow> checkpoint \<Rightarrow> scope_ref \<Rightarrow> (checkpoint_store, exn, checkpoint_id) action" where
  "store_save H c scope st =
     (case rbind (verify_integrity H c) (\<lambda>_. require_narrower_than (ck_scope c) scope) of
        Inl e \<Rightarrow> (Inl e, st)
      | Inr _ \<Rightarrow> (case map_of (st_checkpoints st) (ck_id c) of
          Some existing \<Rightarrow>
            if ci_digest (ck_integrity existing) = ci_digest (ck_integrity c) then (Inr (ck_id c), st)
            else (Inl (store_conflict ''checkpoint_identity_conflict''
                    ''checkpoint reference already exists with different content'' False), st)
        | None \<Rightarrow>
            if (ck_run_id c, ck_sequence c) \<in> fst ` set (st_sequences st)
            then (Inl (store_conflict ''checkpoint_sequence_conflict'' ''checkpoint sequence is already occupied'' True), st)
            else if ck_sequence c \<noteq> expected_sequence st (ck_run_id c)
            then (Inl (store_conflict ''stale_checkpoint_sequence'' ''checkpoint sequence is not the next Store sequence'' True), st)
            else (case predecessor_check st c of
                Inl e \<Rightarrow> (Inl e, st)
              | Inr _ \<Rightarrow> (Inr (ck_id c), st\<lparr>st_checkpoints := AList.update (ck_id c) c (st_checkpoints st),
                    st_sequences := AList.update (ck_run_id c, ck_sequence c) (ck_id c) (st_sequences st)\<rparr>))))"

definition checkpoint_not_found :: exn where
  "checkpoint_not_found = core_error INVALID_REQUEST ''checkpoint_not_found'' ''checkpoint does not exist'' False None"

definition store_load ::
  "(json_object \<Rightarrow> string) \<Rightarrow> checkpoint_id \<Rightarrow> scope_ref \<Rightarrow> (checkpoint_store, exn, checkpoint) action" where
  "store_load H ref scope st = (case map_of (st_checkpoints st) ref of
       None \<Rightarrow> (Inl checkpoint_not_found, st)
     | Some c \<Rightarrow> (rbind (require_narrower_than (ck_scope c) scope) (\<lambda>_. rbind (verify_integrity H c) (\<lambda>_. Inr c)), st))"

definition cursor_matches :: "(json_object \<Rightarrow> string) \<Rightarrow> provider_id \<Rightarrow> checkpoint_query \<Rightarrow> checkpoint_cursor \<Rightarrow> bool" where
  "cursor_matches H p q c \<longleftrightarrow> cu_provider c = p \<and> cu_run_id c = qu_run_id q \<and> scope_key (cu_scope c) = scope_key (qu_scope q)
     \<and> cu_graph_version c = qu_graph_version q \<and> cu_limit c = qu_limit q \<and> cu_fingerprint c = query_fingerprint H q"

definition validate_cursor :: "(json_object \<Rightarrow> string) \<Rightarrow> provider_id \<Rightarrow> checkpoint_query \<Rightarrow> unit result" where
  "validate_cursor H p q = (case qu_cursor q of
       None \<Rightarrow> Inr ()
     | Some c \<Rightarrow> if cursor_matches H p q c then Inr ()
         else Inl (store_conflict ''checkpoint_cursor_drift'' ''checkpoint cursor does not match the effective query'' False))"

definition query_selects :: "checkpoint_query \<Rightarrow> checkpoint \<Rightarrow> bool" where
  "query_selects q c \<longleftrightarrow> ck_run_id c = qu_run_id q \<and> scope_key (ck_scope c) = scope_key (qu_scope q)
     \<and> (case qu_graph_version q of None \<Rightarrow> True | Some g \<Rightarrow> ck_graph_version c = g)
     \<and> (case qu_cursor q of None \<Rightarrow> True | Some k \<Rightarrow> ck_sequence c < cu_next_sequence k)"

text \<open>
  \<open>list.sort(reverse=True)\<close> is stable: equal keys keep their order, as sorting by the negated key does.
\<close>

definition matching_items :: "checkpoint_query \<Rightarrow> checkpoint_store \<Rightarrow> checkpoint list" where
  "matching_items q st = sort_key (\<lambda>c. - ck_sequence c) (filter (query_selects q) (List.map snd (st_checkpoints st)))"

definition provider_mismatch :: "string \<Rightarrow> exn" where
  "provider_mismatch msg = core_error INVALID_REQUEST ''checkpoint_provider_mismatch'' msg False None"

definition store_list ::
  "(json_object \<Rightarrow> string) \<Rightarrow> checkpoint_query \<Rightarrow> scope_ref \<Rightarrow> (checkpoint_store, exn, checkpoint_page) action" where
  "store_list H q scope st =
     (if qu_provider q \<noteq> st_provider st
      then (Inl (provider_mismatch ''checkpoint query provider does not match Store''), st)
      else (rbind (require_narrower_than (qu_scope q) scope) (\<lambda>_.
        rbind (validate_cursor H (st_provider st) q) (\<lambda>_.
        let items = matching_items q st; selected = take (nat (qu_limit q)) items
        in if qu_limit q < int (List.length items)
           then rbind (mk_cursor \<lparr>cu_provider = st_provider st, cu_run_id = qu_run_id q, cu_scope = qu_scope q,
                  cu_graph_version = qu_graph_version q, cu_limit = qu_limit q, cu_fingerprint = query_fingerprint H q,
                  cu_next_sequence = ck_sequence (List.last selected)\<rparr>) (\<lambda>k.
                Inr \<lparr>pg_items = selected, pg_cursor = Some k\<rparr>)
           else Inr \<lparr>pg_items = selected, pg_cursor = None\<rparr>)), st))"

definition store_delete :: "delete_request \<Rightarrow> scope_ref \<Rightarrow> (checkpoint_store, exn, delete_result) action" where
  "store_delete d scope st =
     (if dr_provider d \<noteq> st_provider st then (Inl (provider_mismatch ''delete provider does not match Store''), st)
      else case require_narrower_than (dr_scope d) scope of
        Inl e \<Rightarrow> (Inl e, st)
      | Inr _ \<Rightarrow> (case map_of (st_checkpoints st) (dr_ref d) of
          None \<Rightarrow> (Inr \<lparr>dx_ref = dr_ref d, dx_deleted = False\<rparr>, st)
        | Some c \<Rightarrow>
            if ck_run_id c \<noteq> dr_run_id d \<or> scope_key (ck_scope c) \<noteq> scope_key (dr_scope d)
            then (Inl (core_error DENIED ''checkpoint_identity_mismatch''
                    ''checkpoint delete identity does not match stored ownership'' False None), st)
            else (Inr \<lparr>dx_ref = dr_ref d, dx_deleted = True\<rparr>,
                  st\<lparr>st_checkpoints := AList.delete (dr_ref d) (st_checkpoints st),
                     st_sequences := AList.delete (ck_run_id c, ck_sequence c) (st_sequences st)\<rparr>)))"

section \<open>The checkpoint store: invariant and listing\<close>

text \<open>
  The two dictionaries of the store describe the same checkpoints, each sequence number of a Run is
  taken once, durable side effects never change along a chain, and a listing page by page gives
  every matching checkpoint once, newest first.
\<close>

declare split_paired_All [simp del] split_paired_Ex [simp del]

text \<open>Along a chain of one Run, no durable side effect is changed or removed.\<close>

definition effects_kept :: "(checkpoint_id \<rightharpoonup> checkpoint) \<Rightarrow> bool" where
  "effects_kept m \<longleftrightarrow> (\<forall>i j c p. m i = Some c \<and> ck_previous c = Some j \<and> m j = Some p \<and> ck_run_id p = ck_run_id c
     \<and> ck_sequence p < ck_sequence c \<longrightarrow> keeps_effects p c)"

lemma effects_keptD:
  "effects_kept m \<Longrightarrow> m i = Some c \<Longrightarrow> ck_previous c = Some j \<Longrightarrow> m j = Some p \<Longrightarrow> ck_run_id p = ck_run_id c \<Longrightarrow>
     ck_sequence p < ck_sequence c \<Longrightarrow> keeps_effects p c"
  unfolding effects_kept_def by (drule spec [of _ i], drule spec [of _ j], drule spec [of _ c], drule spec [of _ p], rule mp, assumption, intro conjI)

lemma effects_kept_remove:
  assumes "effects_kept m" shows "effects_kept (m(k := None))"
  unfolding effects_kept_def
proof (intro allI impI, elim conjE)
  fix i j c p
  assume "(m(k := None)) i = Some c" "(m(k := None)) j = Some p"
  then have "m i = Some c" "m j = Some p" by (simp_all split: if_splits)
  moreover assume "ck_previous c = Some j" "ck_run_id p = ck_run_id c" "ck_sequence p < ck_sequence c"
  ultimately show "keeps_effects p c" by (intro effects_keptD [OF assms])
qed

definition store_invar :: "(json_object \<Rightarrow> string) \<Rightarrow> checkpoint_store \<Rightarrow> bool" where
  "store_invar H st \<longleftrightarrow> distinct (List.map fst (st_checkpoints st)) \<and> distinct (List.map fst (st_sequences st))
     \<and> (\<forall>i c. map_of (st_checkpoints st) i = Some c \<longrightarrow> ck_id c = i \<and> verify_integrity H c = Inr () \<and> 1 \<le> ck_sequence c)
     \<and> (\<forall>run n i. map_of (st_sequences st) (run, n) = Some i
          \<longleftrightarrow> (\<exists>c. map_of (st_checkpoints st) i = Some c \<and> ck_run_id c = run \<and> ck_sequence c = n))
     \<and> effects_kept (map_of (st_checkpoints st))"

lemma store_invar_new: "store_invar H (new_store p)"
  by (simp add: store_invar_def new_store_def effects_kept_def)

lemma store_invarD:
  assumes "store_invar H st" "map_of (st_checkpoints st) i = Some c"
  shows "ck_id c = i" "verify_integrity H c = Inr ()" "1 \<le> ck_sequence c"
    "map_of (st_sequences st) (ck_run_id c, ck_sequence c) = Some i"
  using assms unfolding store_invar_def by blast+

lemma sequence_unique:
  "store_invar H st \<Longrightarrow> map_of (st_checkpoints st) i = Some c \<Longrightarrow> map_of (st_checkpoints st) j = Some d \<Longrightarrow>
     ck_run_id c = ck_run_id d \<Longrightarrow> ck_sequence c = ck_sequence d \<Longrightarrow> i = j"
  using store_invarD(4) by (metis option.inject)

lemma fold_max_ge: "(x :: int) \<in> insert n (set ns) \<Longrightarrow> x \<le> fold max ns n"
  unfolding Max.set_eq_fold [symmetric] by (rule Max_ge) simp_all

lemma expected_sequence_greater:
  assumes "((r, n), i) \<in> set (st_sequences st)"
  shows "n < expected_sequence st r"
proof -
  have "n \<in> set (run_sequences st r)" using assms by (force simp: run_sequences_def)
  then show ?thesis
    using fold_max_ge [of n "hd (run_sequences st r)" "tl (run_sequences st r)"]
    by (cases "run_sequences st r") (auto simp: expected_sequence_def)
qed

lemma store_save_effect:
  obtains (unchanged) "snd (store_save H c scope st) = st"
  | (saved) "map_of (st_checkpoints st) (ck_id c) = None" "verify_integrity H c = Inr ()"
      "(ck_run_id c, ck_sequence c) \<notin> fst ` set (st_sequences st)" "ck_sequence c = expected_sequence st (ck_run_id c)"
      "predecessor_check st c = Inr ()"
      "store_save H c scope st = (Inr (ck_id c), st\<lparr>st_checkpoints := AList.update (ck_id c) c (st_checkpoints st),
         st_sequences := AList.update (ck_run_id c, ck_sequence c) (ck_id c) (st_sequences st)\<rparr>)"
proof (cases "verify_integrity H c = Inr () \<and> require_narrower_than (ck_scope c) scope = Inr ()
    \<and> map_of (st_checkpoints st) (ck_id c) = None \<and> (ck_run_id c, ck_sequence c) \<notin> fst ` set (st_sequences st)
    \<and> ck_sequence c = expected_sequence st (ck_run_id c) \<and> predecessor_check st c = Inr ()")
  case True
  then have "store_save H c scope st = (Inr (ck_id c), st\<lparr>st_checkpoints := AList.update (ck_id c) c (st_checkpoints st),
         st_sequences := AList.update (ck_run_id c, ck_sequence c) (ck_id c) (st_sequences st)\<rparr>)"
    unfolding store_save_def by (elim conjE) (simp only: rbind_simps sum.case option.case if_False simp_thms)
  then show ?thesis using True by (intro saved) blast+
next
  case False
  have "snd (store_save H c scope st) = st"
  proof (cases "rbind (verify_integrity H c) (\<lambda>_. require_narrower_than (ck_scope c) scope)")
    case (Inl e)
    then show ?thesis by (simp add: store_save_def)
  next
    case (Inr u)
    then have "verify_integrity H c = Inr () \<and> require_narrower_than (ck_scope c) scope = Inr ()" by (auto simp: rbind_eq_Inr)
    with False Inr show ?thesis
      by (cases "map_of (st_checkpoints st) (ck_id c)"; cases "predecessor_check st c";
          cases "ck_sequence c = expected_sequence st (ck_run_id c)") (simp_all add: store_save_def)
  qed
  then show ?thesis by (rule unchanged)
qed

lemma store_invar_save:
  assumes inv: "store_invar H st" and seq: "1 \<le> ck_sequence c"
  shows "store_invar H (snd (store_save H c scope st))"
proof (cases rule: store_save_effect [of H c scope st])
  case unchanged
  with inv show ?thesis by simp
next
  case saved
  let ?C = "st_checkpoints st" and ?S = "st_sequences st"
  have C: "map_of (AList.update (ck_id c) c ?C) = (map_of ?C)(ck_id c \<mapsto> c)" by (simp add: update_conv')
  have S: "map_of (AList.update (ck_run_id c, ck_sequence c) (ck_id c) ?S) = (map_of ?S)((ck_run_id c, ck_sequence c) \<mapsto> ck_id c)"
    by (simp add: update_conv')
  have fresh: "map_of ?S (ck_run_id c, ck_sequence c) = None" using saved(3) by (simp add: map_of_eq_None_iff)
  have above: "ck_sequence d < ck_sequence c" if "map_of ?C i = Some d" "ck_run_id d = ck_run_id c" for i d
    using store_invarD(4) [OF inv that(1)] that(2) saved(4) expected_sequence_greater by (metis map_of_SomeD)
  let ?st = "snd (store_save H c scope st)"
  have st: "st_checkpoints ?st = AList.update (ck_id c) c ?C"
    "st_sequences ?st = AList.update (ck_run_id c, ck_sequence c) (ck_id c) ?S" using saved(6) by simp_all
  show ?thesis
    unfolding store_invar_def st C S
  proof (intro conjI allI impI)
    show "distinct (List.map fst (AList.update (ck_id c) c ?C))"
      "distinct (List.map fst (AList.update (ck_run_id c, ck_sequence c) (ck_id c) ?S))"
      using inv by (simp_all add: store_invar_def distinct_update)
  next
    fix i d assume "((map_of ?C)(ck_id c \<mapsto> c)) i = Some d"
    then show "ck_id d = i" "verify_integrity H d = Inr ()" "1 \<le> ck_sequence d"
      using store_invarD(1-3) [OF inv, of i d] saved(2) seq by (simp_all split: if_splits)
  next
    fix run n i
    have "map_of ?S (run, n) = Some i \<longleftrightarrow> (\<exists>d. map_of ?C i = Some d \<and> ck_run_id d = run \<and> ck_sequence d = n)"
      using inv unfolding store_invar_def by blast
    then show "((map_of ?S)((ck_run_id c, ck_sequence c) \<mapsto> ck_id c)) (run, n) = Some i
      \<longleftrightarrow> (\<exists>d. ((map_of ?C)(ck_id c \<mapsto> c)) i = Some d \<and> ck_run_id d = run \<and> ck_sequence d = n)"
      using fresh saved(1) by auto
  next
    show "effects_kept ((map_of ?C)(ck_id c \<mapsto> c))"
      unfolding effects_kept_def
    proof (intro allI impI, elim conjE)
    fix i j d p
    assume d: "((map_of ?C)(ck_id c \<mapsto> c)) i = Some d" and pd: "ck_previous d = Some j"
      and p: "((map_of ?C)(ck_id c \<mapsto> c)) j = Some p" and run: "ck_run_id p = ck_run_id d" and lt: "ck_sequence p < ck_sequence d"
    have dp: "i = ck_id c \<and> d = c \<or> map_of ?C i = Some d" "j = ck_id c \<and> p = c \<or> j \<noteq> ck_id c \<and> map_of ?C j = Some p"
      using d p by (simp_all split: if_splits)
    consider "i = ck_id c" "d = c" "j \<noteq> ck_id c" "map_of ?C j = Some p" | "j = ck_id c" "p = c" "i = ck_id c" "d = c"
      | "j = ck_id c" "p = c" "map_of ?C i = Some d" | "map_of ?C i = Some d" "map_of ?C j = Some p"
      using dp by blast
    then show "keeps_effects p d"
    proof cases
      case 1
      then show ?thesis using saved(5) pd run by (simp add: predecessor_check_def split: if_splits)
    next
      case 2
      then show ?thesis using lt by simp
    next
      case 3
      then show ?thesis using above [OF 3(3)] run lt by simp
    next
      case 4
      have "effects_kept (map_of ?C)" using inv by (simp add: store_invar_def)
      then show ?thesis using 4(1) pd 4(2) run lt by (rule effects_keptD)
    qed
    qed
  qed
qed

lemma store_delete_effect:
  obtains (unchanged) "snd (store_delete d scope st) = st"
  | (removed) c where "map_of (st_checkpoints st) (dr_ref d) = Some c" "ck_run_id c = dr_run_id d"
      "scope_key (ck_scope c) = scope_key (dr_scope d)"
      "store_delete d scope st = (Inr \<lparr>dx_ref = dr_ref d, dx_deleted = True\<rparr>,
         st\<lparr>st_checkpoints := AList.delete (dr_ref d) (st_checkpoints st),
            st_sequences := AList.delete (ck_run_id c, ck_sequence c) (st_sequences st)\<rparr>)"
  by (cases "snd (store_delete d scope st) = st") (auto simp: store_delete_def split: if_splits option.splits sum.splits)

lemma store_invar_delete:
  assumes inv: "store_invar H st"
  shows "store_invar H (snd (store_delete d scope st))"
proof (cases rule: store_delete_effect [of d scope st])
  case unchanged
  with inv show ?thesis by simp
next
  case (removed c)
  let ?C = "st_checkpoints st" and ?S = "st_sequences st"
  have C: "map_of (AList.delete (dr_ref d) ?C) = (map_of ?C)(dr_ref d := None)" by (simp add: delete_conv')
  have S: "map_of (AList.delete (ck_run_id c, ck_sequence c) ?S) = (map_of ?S)((ck_run_id c, ck_sequence c) := None)"
    by (simp add: delete_conv')
  let ?st = "snd (store_delete d scope st)"
  have st: "st_checkpoints ?st = AList.delete (dr_ref d) ?C"
    "st_sequences ?st = AList.delete (ck_run_id c, ck_sequence c) ?S" using removed(4) by simp_all
  show ?thesis
    unfolding store_invar_def st C S
  proof (intro conjI allI impI)
    show "distinct (List.map fst (AList.delete (dr_ref d) ?C))"
      "distinct (List.map fst (AList.delete (ck_run_id c, ck_sequence c) ?S))"
      using inv by (simp_all add: store_invar_def distinct_delete)
  next
    fix i x assume "((map_of ?C)(dr_ref d := None)) i = Some x"
    then show "ck_id x = i" "verify_integrity H x = Inr ()" "1 \<le> ck_sequence x"
      using store_invarD(1-3) [OF inv, of i x] by (simp_all split: if_splits)
  next
    fix run n i
    have iff: "map_of ?S (run, n) = Some i \<longleftrightarrow> (\<exists>x. map_of ?C i = Some x \<and> ck_run_id x = run \<and> ck_sequence x = n)"
      using inv unfolding store_invar_def by blast
    have same: "i = dr_ref d" if "map_of ?C i = Some x" "ck_run_id x = ck_run_id c" "ck_sequence x = ck_sequence c" for x
      using sequence_unique [OF inv that(1) removed(1)] that by simp
    show "((map_of ?S)((ck_run_id c, ck_sequence c) := None)) (run, n) = Some i
      \<longleftrightarrow> (\<exists>x. ((map_of ?C)(dr_ref d := None)) i = Some x \<and> ck_run_id x = run \<and> ck_sequence x = n)"
    proof (cases "run = ck_run_id c \<and> n = ck_sequence c")
      case True
      then have "\<not> (\<exists>x. ((map_of ?C)(dr_ref d := None)) i = Some x \<and> ck_run_id x = run \<and> ck_sequence x = n)"
        using same by (metis fun_upd_apply option.distinct(1))
      with True show ?thesis by simp
    next
      case False
      then have "((map_of ?S)((ck_run_id c, ck_sequence c) := None)) (run, n) = map_of ?S (run, n)" by auto
      moreover have "((map_of ?C)(dr_ref d := None)) i = Some x \<and> ck_run_id x = run \<and> ck_sequence x = n
          \<longleftrightarrow> map_of ?C i = Some x \<and> ck_run_id x = run \<and> ck_sequence x = n" for x
        using False removed(1) by auto
      ultimately show ?thesis using iff by simp
    qed
  next
    have "effects_kept (map_of ?C)" using inv by (simp add: store_invar_def)
    then show "effects_kept ((map_of ?C)(dr_ref d := None))" by (rule effects_kept_remove)
  qed
qed

text \<open>The stores that saves of well-formed checkpoints and deletions lead to.\<close>

inductive store_reachable :: "(json_object \<Rightarrow> string) \<Rightarrow> checkpoint_store \<Rightarrow> bool" for H where
  start: "store_reachable H (new_store p)"
| save: "store_reachable H st \<Longrightarrow> mk_checkpoint c = Inr c \<Longrightarrow> store_reachable H (snd (store_save H c scope st))"
| delete: "store_reachable H st \<Longrightarrow> store_reachable H (snd (store_delete d scope st))"

lemma store_reachable_invar: "store_reachable H st \<Longrightarrow> store_invar H st"
proof (induction rule: store_reachable.induct)
  case (save st c scope)
  have "1 \<le> ck_sequence c" using save.hyps by (auto simp: mk_checkpoint_Inr checkpoint_head_check_def split: if_splits)
  with save.IH show ?case by (rule store_invar_save)
qed (simp_all add: store_invar_new store_invar_delete)

end
