(* ===== verification/Checkpoint_Listing.thy ===== *)
theory Checkpoint_Listing
  imports Checkpoint_Store
begin

section \<open>Listing a store page by page\<close>

text \<open>
  The loop of \<open>checkpoint/coordinator.py\<close> that follows the cursors of a listing, and what it
  collects from the in-memory store: every matching checkpoint, newest first, in as many pages as
  the limit asks for.
\<close>

definition add_items :: "checkpoint list \<Rightarrow> (checkpoint_id \<times> checkpoint) list \<Rightarrow> (checkpoint_id \<times> checkpoint) list" where
  "add_items items acc = fold (\<lambda>c. AList.update (ck_id c) c) items acc"

lemma add_items_append: "add_items (xs @ ys) acc = add_items ys (add_items xs acc)"
  by (simp add: add_items_def)

text \<open>\<open>while True\<close>: the fuel bounds the number of pages; None is a loop that has not ended yet.\<close>

fun collect_pages ::
  "nat \<Rightarrow> (checkpoint_query \<Rightarrow> ('w, exn, checkpoint_page) action) \<Rightarrow> checkpoint_query \<Rightarrow> (checkpoint_id \<times> checkpoint) list
    \<Rightarrow> 'w \<Rightarrow> ((exn + (checkpoint_id \<times> checkpoint) list) \<times> 'w) option"
where
  "collect_pages 0 lister q acc w = None"
| "collect_pages (Suc n) lister q acc w = (case lister q w of (r, w') \<Rightarrow> (case r of
       Inl e \<Rightarrow> Some (Inl e, w')
     | Inr page \<Rightarrow> (case pg_cursor page of
         None \<Rightarrow> Some (Inr (add_items (pg_items page) acc), w')
       | Some k \<Rightarrow> collect_pages n lister (q\<lparr>qu_cursor := Some k\<rparr>) (add_items (pg_items page) acc) w')))"

subsection \<open>Descending lists\<close>

definition descending :: "checkpoint list \<Rightarrow> bool" where
  "descending cs \<longleftrightarrow> sorted_wrt (\<lambda>a b. ck_sequence b < ck_sequence a) cs"

lemma descending_split:
  assumes "descending cs" "0 < n" "n < List.length cs"
  shows "filter (\<lambda>c. ck_sequence c < ck_sequence (List.last (take n cs))) cs = drop n cs"
proof -
  have d: "sorted_wrt (\<lambda>a b. ck_sequence b < ck_sequence a) (take n cs @ drop n cs)" using assms(1) by (simp add: descending_def)
  note d' = d [unfolded sorted_wrt_append]
  let ?l = "List.last (take n cs)"
  have l: "?l \<in> set (take n cs)" using assms(2,3) by (intro last_in_set) auto
  have "ck_sequence b < ck_sequence ?l" if "b \<in> set (drop n cs)" for b
    using d' l that by blast
  moreover have "\<not> ck_sequence a < ck_sequence ?l" if "a \<in> set (take n cs)" for a
  proof -
    have "take n cs = butlast (take n cs) @ [?l]" using l by (metis append_butlast_last_id empty_iff list.set(1))
    then have "sorted_wrt (\<lambda>a b. ck_sequence b < ck_sequence a) (butlast (take n cs) @ [?l])"
      using d' by presburger
    moreover have "a \<in> set (butlast (take n cs) @ [?l])" using that \<open>take n cs = _\<close> by simp
    ultimately show ?thesis by (auto simp: sorted_wrt_append)
  qed
  ultimately have "filter (\<lambda>c. ck_sequence c < ck_sequence ?l) (take n cs @ drop n cs) = drop n cs"
    unfolding filter_append by (simp add: filter_empty_conv)
  then show ?thesis by simp
qed

lemma sort_descending:
  assumes "distinct (List.map ck_sequence cs)"
  shows "descending (sort_key (\<lambda>c. - ck_sequence c) cs)"
proof -
  let ?s = "sort_key (\<lambda>c. - ck_sequence c) cs"
  have "sorted (List.map (\<lambda>c. - ck_sequence c) ?s)" by simp
  moreover have "distinct (List.map (\<lambda>c. - ck_sequence c) ?s)"
    using assms by (simp add: distinct_map inj_on_def)
  ultimately have "sorted_wrt (<) (List.map (\<lambda>c. - ck_sequence c) ?s)" by (simp add: strict_sorted_iff)
  then show ?thesis by (simp add: descending_def sorted_wrt_map)
qed

subsection \<open>The pages of a query\<close>

lemma matching_items_cursor:
  "matching_items (q\<lparr>qu_cursor := Some k\<rparr>) st
     = filter (\<lambda>c. ck_sequence c < cu_next_sequence k) (matching_items (q\<lparr>qu_cursor := None\<rparr>) st)"
proof -
  have "query_selects (q\<lparr>qu_cursor := Some k\<rparr>)
      = (\<lambda>c. query_selects (q\<lparr>qu_cursor := None\<rparr>) c \<and> ck_sequence c < cu_next_sequence k)"
    by (rule ext) (auto simp: query_selects_def)
  then have "filter (query_selects (q\<lparr>qu_cursor := Some k\<rparr>)) xs
      = filter (\<lambda>c. ck_sequence c < cu_next_sequence k) (filter (query_selects (q\<lparr>qu_cursor := None\<rparr>)) xs)" for xs
    by (simp add: filter_filter)
  then show ?thesis unfolding matching_items_def by (simp only: filter_sort)
qed

lemma matching_items_facts:
  assumes inv: "store_invar H st"
  shows "descending (matching_items q st)" "c \<in> set (matching_items q st) \<Longrightarrow> 1 \<le> ck_sequence c"
    "c \<in> set (matching_items q st) \<longleftrightarrow> query_selects q c \<and> map_of (st_checkpoints st) (ck_id c) = Some c"
proof -
  have d: "distinct (List.map fst (st_checkpoints st))" using inv by (simp add: store_invar_def)
  have entry: "map_of (st_checkpoints st) i = Some x \<longleftrightarrow> (i, x) \<in> set (st_checkpoints st)" for i x
    using d by (simp add: map_of_eq_Some_iff)
  have stored: "x \<in> set (List.map snd (st_checkpoints st)) \<longleftrightarrow> map_of (st_checkpoints st) (ck_id x) = Some x" for x
    using store_invarD(1) [OF inv] entry by force
  then show mem: "c \<in> set (matching_items q st) \<longleftrightarrow> query_selects q c \<and> map_of (st_checkpoints st) (ck_id c) = Some c" for c
    by (auto simp: matching_items_def)
  show "c \<in> set (matching_items q st) \<Longrightarrow> 1 \<le> ck_sequence c" using mem store_invarD(3) [OF inv] by blast
  have "distinct (List.map snd (st_checkpoints st))"
  proof -
    have "inj_on snd (set (st_checkpoints st))"
    proof (rule inj_onI)
      fix a b assume "a \<in> set (st_checkpoints st)" "b \<in> set (st_checkpoints st)" "snd a = snd b"
      moreover have "ck_id (snd x) = fst x" if "x \<in> set (st_checkpoints st)" for x
        using store_invarD(1) [OF inv, of "fst x" "snd x"] that by (simp add: entry)
      ultimately have "fst a = fst b" "snd a = snd b" by metis+
      then show "a = b" by (simp add: prod_eq_iff)
    qed
    then show ?thesis using d by (simp add: distinct_map)
  qed
  then have "distinct (filter (query_selects q) (List.map snd (st_checkpoints st)))" by simp
  moreover have "inj_on ck_sequence (set (filter (query_selects q) (List.map snd (st_checkpoints st))))"
  proof (rule inj_onI)
    fix a b
    assume "a \<in> set (filter (query_selects q) (List.map snd (st_checkpoints st)))"
      "b \<in> set (filter (query_selects q) (List.map snd (st_checkpoints st)))" and s: "ck_sequence a = ck_sequence b"
    then have a: "map_of (st_checkpoints st) (ck_id a) = Some a" "ck_run_id a = qu_run_id q"
      and b: "map_of (st_checkpoints st) (ck_id b) = Some b" "ck_run_id b = qu_run_id q"
      using stored by (simp_all add: query_selects_def)
    have "ck_id a = ck_id b" by (rule sequence_unique [OF inv a(1) b(1)]) (simp_all only: a(2) b(2) s)
    then show "a = b" using a(1) b(1) by (metis option.inject)
  qed
  ultimately show "descending (matching_items q st)"
    unfolding matching_items_def by (intro sort_descending) (simp only: distinct_map simp_thms)
qed

lemma store_list_page:
  assumes inv: "store_invar H st" and p: "qu_provider q = st_provider st" and lim: "1 \<le> qu_limit q"
    and sc: "require_narrower_than (qu_scope q) scope = Inr ()" and cur: "validate_cursor H (st_provider st) q = Inr ()"
    and hex: "sha256_hex (query_fingerprint H q)" and items: "items = matching_items q st"
  shows "store_list H q scope st =
    (Inr (if qu_limit q < int (List.length items)
       then \<lparr>pg_items = take (nat (qu_limit q)) items,
             pg_cursor = Some \<lparr>cu_provider = st_provider st, cu_run_id = qu_run_id q, cu_scope = qu_scope q,
               cu_graph_version = qu_graph_version q, cu_limit = qu_limit q, cu_fingerprint = query_fingerprint H q,
               cu_next_sequence = ck_sequence (List.last (take (nat (qu_limit q)) items))\<rparr>\<rparr>
       else \<lparr>pg_items = items, pg_cursor = None\<rparr>), st)"
proof (cases "qu_limit q < int (List.length items)")
  case True
  then have "take (nat (qu_limit q)) items \<noteq> []" using lim by (cases items) auto
  then have "List.last (take (nat (qu_limit q)) items) \<in> set items" by (metis in_set_takeD last_in_set)
  then have "1 \<le> ck_sequence (List.last (take (nat (qu_limit q)) items))"
    using matching_items_facts(2) [OF inv] items by simp
  then show ?thesis using True p lim sc cur hex items by (simp add: store_list_def mk_cursor_def Let_def)
next
  case False
  then have "take (nat (qu_limit q)) items = items" by simp
  then show ?thesis using False p sc cur items by (simp add: store_list_def Let_def)
qed

lemma collect_pages_store:
  assumes inv: "store_invar H st" and p: "qu_provider q = st_provider st" and lim: "1 \<le> qu_limit q"
    and sc: "require_narrower_than (qu_scope q) scope = Inr ()" and hex: "sha256_hex (query_fingerprint H q)"
    and cur: "validate_cursor H (st_provider st) q = Inr ()" and fuel: "List.length (matching_items q st) < n"
  shows "collect_pages n (\<lambda>q. store_list H q scope) q acc st = Some (Inr (add_items (matching_items q st) acc), st)"
  using assms
proof (induction n arbitrary: q acc)
  case (Suc n)
  let ?items = "matching_items q st" and ?n = "nat (qu_limit q)"
  note page = store_list_page [OF Suc.prems(1-4,6,5) refl]
  show ?case
  proof (cases "qu_limit q < int (List.length ?items)")
    case False
    then show ?thesis by (simp add: page)
  next
    case True
    define k where "k = \<lparr>cu_provider = st_provider st, cu_run_id = qu_run_id q, cu_scope = qu_scope q,
               cu_graph_version = qu_graph_version q, cu_limit = qu_limit q, cu_fingerprint = query_fingerprint H q,
               cu_next_sequence = ck_sequence (List.last (take ?n ?items))\<rparr>"
    let ?q = "q\<lparr>qu_cursor := Some k\<rparr>"
    have n: "0 < ?n" "?n < List.length ?items" using Suc.prems(3) True by linarith+
    have fp: "query_fingerprint H ?q = query_fingerprint H q" by (simp add: query_fingerprint_def query_data_def)
    have rest: "matching_items ?q st = drop ?n ?items"
    proof -
      have d: "filter (\<lambda>c. ck_sequence c < cu_next_sequence k) ?items = drop ?n ?items"
        using descending_split [OF matching_items_facts(1) [OF Suc.prems(1)] n] by (simp add: k_def)
      show ?thesis
      proof (cases "qu_cursor q")
        case None
        then have "q\<lparr>qu_cursor := None\<rparr> = q" by simp
        then show ?thesis using d matching_items_cursor [of k q st] by simp
      next
        case (Some k0)
        then have q: "q\<lparr>qu_cursor := Some k0\<rparr> = q" by simp
        let ?all = "matching_items (q\<lparr>qu_cursor := None\<rparr>) st"
        have items: "?items = filter (\<lambda>c. ck_sequence c < cu_next_sequence k0) ?all"
          using matching_items_cursor [of k0 q st] unfolding q .
        have "List.last (take ?n ?items) \<in> set ?items" using n by (metis in_set_takeD last_in_set list.size(3) not_less_zero take_eq_Nil2)
        then have "cu_next_sequence k < cu_next_sequence k0" unfolding items by (simp add: k_def items)
        then have "filter (\<lambda>c. ck_sequence c < cu_next_sequence k) ?all = filter (\<lambda>c. ck_sequence c < cu_next_sequence k) ?items"
          unfolding items filter_filter by (intro filter_cong) auto
        with d show ?thesis by (simp only: matching_items_cursor)
      qed
    qed
    have "collect_pages n (\<lambda>q. store_list H q scope) ?q (add_items (take ?n ?items) acc) st
        = Some (Inr (add_items (matching_items ?q st) (add_items (take ?n ?items) acc)), st)"
    proof (rule Suc.IH)
      show "validate_cursor H (st_provider st) ?q = Inr ()"
        by (simp add: validate_cursor_def cursor_matches_def fp) (simp add: k_def)
      show "List.length (matching_items ?q st) < n" using n Suc.prems(7) by (simp add: rest)
    qed (use Suc.prems fp in simp_all)
    moreover have "add_items (matching_items ?q st) (add_items (take ?n ?items) acc) = add_items ?items acc"
      using add_items_append [of "take ?n ?items" "drop ?n ?items" acc] by (simp add: rest)
    ultimately show ?thesis using True by (simp add: page flip: k_def)
  qed
qed simp

lemma map_of_add_items:
  "map_of (add_items cs acc) = map_of acc ++ map_of (rev (List.map (\<lambda>c. (ck_id c, c)) cs))"
  by (induction cs arbitrary: acc) (simp_all add: add_items_def update_conv' map_add_assoc [symmetric] map_add_upd_left)

end
