(* ===== verification/Checkpoint_Gateway.thy ===== *)
theory Checkpoint_Gateway
  imports Checkpoint_Listing Runtime_Context Json_Codec
begin

section \<open>The authorized gateway to checkpoint stores\<close>

text \<open>
  \<open>checkpoint/gateway.py\<close>: every access to a store is a dispatched call under an exact or narrowed
  grant, and what the store answers is checked before it is passed on. A store is a record of its
  operations, each raced against the cancellation and the deadline of its call.
\<close>

record 'w checkpoint_port =
  po_save :: "checkpoint \<Rightarrow> call_context \<Rightarrow> 'w \<Rightarrow> checkpoint_id awaited \<times> 'w"
  po_load :: "checkpoint_id \<Rightarrow> call_context \<Rightarrow> 'w \<Rightarrow> checkpoint awaited \<times> 'w"
  po_list :: "checkpoint_query \<Rightarrow> call_context \<Rightarrow> 'w \<Rightarrow> checkpoint_page awaited \<times> 'w"
  po_delete :: "delete_request \<Rightarrow> call_context \<Rightarrow> 'w \<Rightarrow> delete_result awaited \<times> 'w"

type_synonym 'w store_registry = "provider_id \<rightharpoonup> 'w checkpoint_port"

definition register_store :: "provider_id \<times> 'w checkpoint_port \<Rightarrow> 'w store_registry \<Rightarrow> 'w store_registry result" where
  "register_store e r =
     (if fst e \<in> dom r
      then Inl (core_error CONFLICT ''checkpoint_store_already_registered''
             ''CheckpointStore provider is already registered'' False None)
      else Inr (r(fst e \<mapsto> snd e)))"

definition get_store :: "'w store_registry \<Rightarrow> provider_id \<Rightarrow> 'w checkpoint_port result" where
  "get_store r p = (case r p of
       None \<Rightarrow> Inl (core_error UNAVAILABLE ''checkpoint_store_unavailable''
                 ''CheckpointStore provider is not registered'' True None)
     | Some x \<Rightarrow> Inr x)"

interpretation stores: once_registry register_store "\<lambda>r k. r k" fst snd
    "\<lambda>_. core_error CONFLICT ''checkpoint_store_already_registered''
       ''CheckpointStore provider is already registered'' False None"
  by unfold_locales (auto simp: register_store_def)

record 'w gateway_env =
  ge_dispatcher :: "'w dispatcher"
  ge_stores :: "'w store_registry"
  ge_clock :: "'w \<Rightarrow> datetime"
  ge_token :: "'w \<Rightarrow> unit cancellation_token"
  ge_digest :: "json_object \<Rightarrow> string"

definition store_failure :: exn where
  "store_failure = core_error UNAVAILABLE ''checkpoint_store_failure'' ''CheckpointStore operation failed'' True None"

definition gateway_invoke :: "'w gateway_env \<Rightarrow> call_context \<Rightarrow> ('w \<Rightarrow> 'a awaited \<times> 'w) \<Rightarrow> ('w, exn, 'a) action" where
  "gateway_invoke E ctx race = atry (await_provider ctx (ge_token E) (ge_clock E) race)
     (\<lambda>e. case e of CoreError _ \<Rightarrow> araise e | _ \<Rightarrow> araise store_failure)"

definition checkpoint_action :: "string \<Rightarrow> action_ref" where
  "checkpoint_action n = \<lparr>ac_namespace = ''core'', ac_name = n, ac_version = ''1''\<rparr>"

definition checkpoint_actions :: "action_ref list" where
  "checkpoint_actions = List.map checkpoint_action
     [''checkpoint.save'', ''checkpoint.load'', ''checkpoint.list'', ''checkpoint.delete'', ''approval.decide'']"

definition gateway_request ::
  "provider_id \<Rightarrow> action_ref \<Rightarrow> scope_ref \<Rightarrow> call_context \<Rightarrow> json_object \<Rightarrow> access_request result" where
  "gateway_request p act scope ctx constraints =
     rbind (rbind (mk_identifier (cx_run_id ctx)) (core_principal PRINCIPAL_RUN)) (\<lambda>principal.
     rbind (rbind (mk_identifier p) (\<lambda>i. mk_resource ''core'' ''checkpoint_store'' i None)) (\<lambda>resource.
     Inr \<lparr>aq_principal = principal, aq_action = act, aq_resource = resource, aq_scope = scope, aq_context = ctx,
       aq_constraints = map_of constraints\<rparr>))"

definition constraints_eq :: "(string \<rightharpoonup> json) \<Rightarrow> json_object \<Rightarrow> bool" where
  "constraints_eq granted requested \<longleftrightarrow> dom granted = set (List.map fst requested)
     \<and> list_all (\<lambda>(k, v). case granted k of None \<Rightarrow> False | Some g \<Rightarrow> json_eq g v) requested"

definition require_exact_constraints :: "(string \<rightharpoonup> json) \<Rightarrow> json_object \<Rightarrow> unit result" where
  "require_exact_constraints granted requested =
     (if constraints_eq granted requested then Inr ()
      else Inl (invalid_grant ''checkpoint grant changed immutable constraints''))"

definition protocol_failure :: "string \<Rightarrow> string \<Rightarrow> exn" where
  "protocol_failure code msg = core_error PROTOCOL_FAILURE code msg False None"

text \<open>One guarded operation: the constraints of the grant, the store, the call, the check of its answer.\<close>

definition guarded_call ::
  "'w gateway_env \<Rightarrow> provider_id \<Rightarrow> json_object \<Rightarrow> ('w checkpoint_port \<Rightarrow> call_context \<Rightarrow> 'w \<Rightarrow> 'a awaited \<times> 'w)
    \<Rightarrow> (call_context \<Rightarrow> 'a \<Rightarrow> unit result) \<Rightarrow> authorized_call \<Rightarrow> ('w, exn, 'a) action" where
  "guarded_call E p constraints op check call =
     abind (aresult (require_exact_constraints (gr_constraints (au_grant call)) constraints)) (\<lambda>_.
     abind (aresult (get_store (ge_stores E) p)) (\<lambda>store.
     abind (gateway_invoke E (au_context call) (op store (au_context call))) (\<lambda>r.
     abind (aresult (check (au_context call) r)) (\<lambda>_. areturn r))))"

definition gateway_save :: "'w gateway_env \<Rightarrow> provider_id \<Rightarrow> checkpoint \<Rightarrow> call_context \<Rightarrow> ('w, exn, checkpoint_id) action" where
  "gateway_save E p c ctx =
     (let constraints = [(''run_id'', JStr (ck_run_id c)), (''workflow_id'', JStr (ck_workflow_id c)),
            (''definition_id'', JStr (ck_definition_id c)), (''graph_version'', JStr (ck_graph_version c)),
            (''sequence'', JInt (ck_sequence c)), (''previous_checkpoint_ref'', opt_str (ck_previous c))]
      in abind (aresult (require_narrower_than (ck_scope c) (cx_scope ctx))) (\<lambda>_.
         abind (aresult (verify_integrity (ge_digest E) c)) (\<lambda>_.
         abind (aresult (gateway_request p (checkpoint_action ''checkpoint.save'') (ck_scope c) ctx constraints)) (\<lambda>q.
         dispatch (ge_dispatcher E) q (guarded_call E p constraints (\<lambda>store. po_save store c)
           (\<lambda>_ r. raise_when (r \<noteq> ck_id c) (protocol_failure ''invalid_checkpoint_save_result''
              ''CheckpointStore returned an unexpected reference'')))))))"

definition load_check :: "'w gateway_env \<Rightarrow> checkpoint_id \<Rightarrow> run_id \<Rightarrow> call_context \<Rightarrow> checkpoint \<Rightarrow> unit result" where
  "load_check E ref run call c =
     rbind (raise_when (ck_id c \<noteq> ref \<or> ck_run_id c \<noteq> run \<or> scope_key (ck_scope c) \<noteq> scope_key (cx_scope call))
       (protocol_failure ''checkpoint_identity_mismatch'' ''loaded checkpoint identity does not match the authorized request''))
       (\<lambda>_. verify_integrity (ge_digest E) c)"

definition gateway_load ::
  "'w gateway_env \<Rightarrow> provider_id \<Rightarrow> checkpoint_id \<Rightarrow> run_id \<Rightarrow> scope_ref \<Rightarrow> call_context \<Rightarrow> ('w, exn, checkpoint) action" where
  "gateway_load E p ref run scope ctx =
     (let constraints = [(''checkpoint_ref'', JStr ref), (''run_id'', JStr run)]
      in abind (aresult (require_narrower_than scope (cx_scope ctx))) (\<lambda>_.
         abind (aresult (gateway_request p (checkpoint_action ''checkpoint.load'') scope ctx constraints)) (\<lambda>q.
         dispatch (ge_dispatcher E) q (guarded_call E p constraints (\<lambda>store. po_load store ref)
           (load_check E ref run)))))"

definition gateway_delete ::
  "'w gateway_env \<Rightarrow> delete_request \<Rightarrow> call_context \<Rightarrow> ('w, exn, delete_result) action" where
  "gateway_delete E d ctx =
     (let constraints = [(''checkpoint_ref'', JStr (dr_ref d)), (''run_id'', JStr (dr_run_id d))]
      in abind (aresult (require_narrower_than (dr_scope d) (cx_scope ctx))) (\<lambda>_.
         abind (aresult (gateway_request (dr_provider d) (checkpoint_action ''checkpoint.delete'') (dr_scope d) ctx constraints)) (\<lambda>q.
         dispatch (ge_dispatcher E) q (guarded_call E (dr_provider d) constraints (\<lambda>store. po_delete store d)
           (\<lambda>_ r. raise_when (dx_ref r \<noteq> dr_ref d) (protocol_failure ''invalid_checkpoint_delete_result''
              ''CheckpointStore returned an invalid delete result''))))))"

subsection \<open>Listing\<close>

definition granted_value :: "(string \<rightharpoonup> json) \<Rightarrow> string \<Rightarrow> json" where
  "granted_value granted k = (case granted k of None \<Rightarrow> JNull | Some v \<Rightarrow> v)"

definition constrain_list :: "checkpoint_query \<Rightarrow> (string \<rightharpoonup> json) \<Rightarrow> checkpoint_query result" where
  "constrain_list q granted =
     (if dom granted \<noteq> {''run_id'', ''graph_version'', ''limit''}
      then Inl (invalid_grant ''checkpoint list grant has unknown or missing constraints'')
      else if \<not> json_eq (granted_value granted ''run_id'') (JStr (qu_run_id q))
      then Inl (invalid_grant ''checkpoint list grant changed Run identity'')
      else if \<not> json_eq (granted_value granted ''graph_version'') (opt_str (qu_graph_version q))
      then Inl (invalid_grant ''checkpoint list grant changed graph version'')
      else case granted_value granted ''limit'' of
        JInt limit \<Rightarrow>
          if limit < 1 \<or> limit > qu_limit q then Inl (invalid_grant ''checkpoint list grant expanded limit'')
          else if qu_cursor q \<noteq> None \<and> limit \<noteq> qu_limit q
          then Inl (invalid_grant ''checkpoint list cursor forbids limit drift'')
          else mk_query (q\<lparr>qu_limit := limit\<rparr>)
      | _ \<Rightarrow> Inl (invalid_grant ''checkpoint list grant limit is malformed''))"

fun check_page_items :: "checkpoint_query \<Rightarrow> int option \<Rightarrow> checkpoint list \<Rightarrow> unit result" where
  "check_page_items q previous [] = Inr ()"
| "check_page_items q previous (c # cs) =
     (if ck_run_id c \<noteq> qu_run_id q \<or> scope_key (ck_scope c) \<noteq> scope_key (qu_scope q)
         \<or> (qu_graph_version q \<noteq> None \<and> Some (ck_graph_version c) \<noteq> qu_graph_version q)
      then Inl (protocol_failure ''checkpoint_page_identity_mismatch'' ''CheckpointStore page escaped the authorized query'')
      else if (case previous of None \<Rightarrow> False | Some n \<Rightarrow> n \<le> ck_sequence c)
      then Inl (protocol_failure ''checkpoint_page_order_invalid'' ''CheckpointStore page is not in descending sequence order'')
      else check_page_items q (Some (ck_sequence c)) cs)"

definition validate_page :: "(json_object \<Rightarrow> string) \<Rightarrow> checkpoint_page \<Rightarrow> checkpoint_query \<Rightarrow> unit result" where
  "validate_page H page q =
     (if qu_limit q < int (List.length (pg_items page))
      then Inl (protocol_failure ''checkpoint_page_limit_exceeded'' ''CheckpointStore returned more items than requested'')
      else rbind (check_page_items q None (pg_items page)) (\<lambda>_.
        case pg_cursor page of
          None \<Rightarrow> Inr ()
        | Some k \<Rightarrow> raise_when (\<not> cursor_matches H (qu_provider q) q k)
            (protocol_failure ''checkpoint_cursor_identity_mismatch'' ''CheckpointStore returned a cursor for a different query'')))"

definition gateway_list :: "'w gateway_env \<Rightarrow> checkpoint_query \<Rightarrow> call_context \<Rightarrow> ('w, exn, checkpoint_page) action" where
  "gateway_list E q0 ctx =
     (let constraints = [(''run_id'', JStr (qu_run_id q0)), (''graph_version'', opt_str (qu_graph_version q0)),
            (''limit'', JInt (qu_limit q0))]
      in abind (aresult (require_narrower_than (qu_scope q0) (cx_scope ctx))) (\<lambda>_.
         abind (aresult (gateway_request (qu_provider q0) (checkpoint_action ''checkpoint.list'') (qu_scope q0) ctx constraints)) (\<lambda>q.
         dispatch (ge_dispatcher E) q (\<lambda>call.
           abind (aresult (constrain_list q0 (gr_constraints (au_grant call)))) (\<lambda>effective.
           abind (aresult (get_store (ge_stores E) (qu_provider q0))) (\<lambda>store.
           abind (gateway_invoke E (au_context call) (po_list store effective (au_context call))) (\<lambda>page.
           abind (aresult (validate_page (ge_digest E) page effective)) (\<lambda>_. areturn page))))))))"

subsection \<open>What passes the gateway\<close>

lemma aresult_Inr [simp]: "aresult r w = (Inr x, w') \<longleftrightarrow> r = Inr x \<and> w' = w"
  by (auto simp: aresult_def)

lemma areturn_Inr [simp]: "areturn y w = (Inr x, w') \<longleftrightarrow> x = y \<and> w' = w"
  by (auto simp: areturn_def)

declare raise_when_Inr [simp]

lemma gateway_invoke_Inr: "gateway_invoke E ctx race w = (Inr x, w') \<Longrightarrow> race w = (Operation_Done (Inr x), w')"
proof (cases "await_provider ctx (ge_token E) (ge_clock E) race w")
  case (Pair r w1)
  assume a: "gateway_invoke E ctx race w = (Inr x, w')"
  then have "r = Inr x \<and> w1 = w'"
    using Pair by (cases r) (auto simp: gateway_invoke_def atry_def araise_def split: exn.splits)
  with Pair show ?thesis by (simp add: await_provider_Inr)
qed

lemma get_store_Inr [simp]: "get_store r p = Inr x \<longleftrightarrow> r p = Some x"
  by (auto simp: get_store_def split: option.splits)

lemma guarded_call_Inr:
  assumes "guarded_call E p constraints op check call w = (Inr x, w')"
  shows "constraints_eq (gr_constraints (au_grant call)) constraints \<and> check (au_context call) x = Inr ()
    \<and> (\<exists>store w1. ge_stores E p = Some store \<and> op store (au_context call) w = (Operation_Done (Inr x), w1))"
  using assms gateway_invoke_Inr
  by (fastforce simp: guarded_call_def abind_eq_Inr require_exact_constraints_def split: if_splits)

lemma authorized_scope: "authorized D q w call w1 \<Longrightarrow> scope_key (cx_scope (au_context call)) = scope_key (aq_scope q)"
  by (auto simp: authorized_def validate_grant_def split: if_splits)

lemma gateway_load_Inr:
  assumes "gateway_load E p ref run scope ctx w = (Inr c, w')"
  shows "ck_id c = ref \<and> ck_run_id c = run \<and> scope_key (ck_scope c) = scope_key scope \<and> verify_integrity (ge_digest E) c = Inr ()"
proof -
  let ?cs = "[(''checkpoint_ref'', JStr ref), (''run_id'', JStr run)]"
  let ?op = "guarded_call E p ?cs (\<lambda>store. po_load store ref) (load_check E ref run)"
  obtain q where q: "gateway_request p (checkpoint_action ''checkpoint.load'') scope ctx ?cs = Inr q"
      and d: "dispatch (ge_dispatcher E) q ?op w = (Inr c, w')"
    using assms unfolding gateway_load_def Let_def abind_eq_Inr aresult_Inr by blast
  from dispatch_Inr [OF d] obtain call w1 where a: "authorized (ge_dispatcher E) q w call w1" and g: "?op call w1 = (Inr c, w')"
    by blast
  have "aq_scope q = scope" using q by (auto simp: gateway_request_def rbind_eq_Inr)
  moreover have "load_check E ref run (au_context call) c = Inr ()" using guarded_call_Inr [OF g] by blast
  ultimately show ?thesis
    using authorized_scope [OF a] by (auto simp: load_check_def rbind_eq_Inr)
qed

lemma check_page_items_Inr:
  "check_page_items q previous cs = Inr () \<Longrightarrow>
     descending cs \<and> (\<forall>c \<in> set cs. ck_run_id c = qu_run_id q \<and> scope_key (ck_scope c) = scope_key (qu_scope q)
       \<and> (case previous of None \<Rightarrow> True | Some n \<Rightarrow> ck_sequence c < n))"
proof (induction q previous cs rule: check_page_items.induct)
  case (2 q previous c cs)
  have here: "ck_run_id c = qu_run_id q" "scope_key (ck_scope c) = scope_key (qu_scope q)"
    "case previous of None \<Rightarrow> True | Some n \<Rightarrow> ck_sequence c < n"
    and rest: "check_page_items q (Some (ck_sequence c)) cs = Inr ()"
    using 2(2) by (auto split: if_splits option.splits)
  have "\<not> (ck_run_id c \<noteq> qu_run_id q \<or> scope_key (ck_scope c) \<noteq> scope_key (qu_scope q)
         \<or> (qu_graph_version q \<noteq> None \<and> Some (ck_graph_version c) \<noteq> qu_graph_version q))"
    "\<not> (case previous of None \<Rightarrow> False | Some n \<Rightarrow> n \<le> ck_sequence c)"
    using 2(2) by (auto split: if_splits)
  note IH = 2(1) [OF this rest]
  show ?case
  proof (intro conjI ballI)
    show "descending (c # cs)" using IH by (simp add: descending_def)
  next
    fix x assume x: "x \<in> set (c # cs)"
    show "ck_run_id x = qu_run_id q" "scope_key (ck_scope x) = scope_key (qu_scope q)" using x here IH by auto
    show "case previous of None \<Rightarrow> True | Some n \<Rightarrow> ck_sequence x < n"
      using x here(3) IH by (auto split: option.splits)
  qed
qed (simp add: descending_def)

lemma mk_query_Inr: "mk_query q = Inr q' \<Longrightarrow> q' = q"
  by (simp add: mk_query_def split: if_splits)

lemma constrain_list_Inr:
  assumes "constrain_list q granted = Inr q'"
  shows "\<exists>limit. q' = q\<lparr>qu_limit := limit\<rparr> \<and> 1 \<le> limit \<and> limit \<le> qu_limit q"
proof (cases "granted_value granted ''limit''")
  case (JInt limit)
  with assms have "mk_query (q\<lparr>qu_limit := limit\<rparr>) = Inr q' \<and> 1 \<le> limit \<and> limit \<le> qu_limit q"
    by (simp add: constrain_list_def split: if_splits)
  then show ?thesis using mk_query_Inr by blast
qed (use assms in \<open>simp_all add: constrain_list_def split: if_splits\<close>)

lemma gateway_list_Inr:
  assumes "gateway_list E q ctx w = (Inr page, w')"
  shows "descending (pg_items page) \<and> int (List.length (pg_items page)) \<le> qu_limit q
    \<and> (\<forall>c \<in> set (pg_items page). ck_run_id c = qu_run_id q \<and> scope_key (ck_scope c) = scope_key (qu_scope q))"
proof -
  obtain granted effective where e: "constrain_list q granted = Inr effective"
    and v: "validate_page (ge_digest E) page effective = Inr ()"
    using assms unfolding gateway_list_def Let_def abind_eq_Inr aresult_Inr
    by (elim exE conjE) (drule dispatch_Inr, auto simp: abind_eq_Inr)
  have "qu_run_id effective = qu_run_id q \<and> qu_scope effective = qu_scope q \<and> qu_limit effective \<le> qu_limit q"
    using constrain_list_Inr [OF e] by auto
  with v check_page_items_Inr [of effective None "pg_items page"] show ?thesis
    by (auto simp: validate_page_def rbind_eq_Inr split: if_splits)
qed

end
