(* ===== verification/Checkpoint_Coordinator.thy ===== *)
theory Checkpoint_Coordinator
  imports Checkpoint_Gateway
begin

section \<open>Committing checkpoints and recovering from them\<close>

text \<open>
  \<open>checkpoint/coordinator.py\<close>: a checkpoint is saved in the store before the marker of its Run moves
  to it, and recovery starts from the marker or, when policy allows it, from the nearest earlier
  checkpoint of its chain that still verifies. The gateway, the Run service, the event publisher,
  the migrators and the restorer are records of the operations the coordinators call.
\<close>

record 'w gateway =
  gw_save :: "provider_id \<Rightarrow> checkpoint \<Rightarrow> call_context \<Rightarrow> ('w, exn, checkpoint_id) action"
  gw_load :: "provider_id \<Rightarrow> checkpoint_id \<Rightarrow> run_id \<Rightarrow> scope_ref \<Rightarrow> call_context \<Rightarrow> ('w, exn, checkpoint) action"
  gw_list :: "checkpoint_query \<Rightarrow> call_context \<Rightarrow> ('w, exn, checkpoint_page) action"
  gw_delete :: "delete_request \<Rightarrow> call_context \<Rightarrow> ('w, exn, delete_result) action"

definition gateway_of :: "'w gateway_env \<Rightarrow> 'w gateway" where
  "gateway_of E = \<lparr>gw_save = gateway_save E, gw_load = gateway_load E, gw_list = gateway_list E, gw_delete = gateway_delete E\<rparr>"

record 'w run_ports =
  rp_get :: "run_id \<Rightarrow> ('w, exn, run) action"
  rp_commit :: "run_id \<Rightarrow> int \<Rightarrow> checkpoint_id \<Rightarrow> checkpoint_id option \<Rightarrow> definition_id option \<Rightarrow> string option \<Rightarrow> ('w, exn, run) action"
  rp_recover :: "run_id \<Rightarrow> int \<Rightarrow> checkpoint_id \<Rightarrow> ('w, exn, run) action"
  rp_fail :: "run_id \<Rightarrow> int \<Rightarrow> error_detail \<Rightarrow> ('w, exn, run) action"
  rp_advance :: "run_id \<Rightarrow> int \<Rightarrow> run_status \<Rightarrow> ('w, exn, run) action"

record 'w checkpoint_events =
  ce_saved :: "checkpoint \<Rightarrow> run \<Rightarrow> call_context \<Rightarrow> ('w, exn, unit) action"
  ce_failed :: "checkpoint \<Rightarrow> error_detail \<Rightarrow> call_context \<Rightarrow> ('w, exn, unit) action"
  ce_migrated :: "checkpoint \<Rightarrow> checkpoint \<Rightarrow> call_context \<Rightarrow> ('w, exn, unit) action"
  ce_fallback :: "checkpoint_id \<Rightarrow> checkpoint \<Rightarrow> call_context \<Rightarrow> ('w, exn, unit) action"

record 'w coordinator =
  co_gateway :: "'w gateway"
  co_runs :: "'w run_ports"
  co_events :: "'w checkpoint_events"
  co_digest :: "json_object \<Rightarrow> string"

subsection \<open>Committing\<close>

text \<open>\<open>with suppress(Exception)\<close>: the effect stays, the exception does not.\<close>

definition suppressed :: "('w, exn, unit) action \<Rightarrow> ('w, exn, unit) action" where
  "suppressed m w = (Inr (), snd (m w))"

definition require_workflow :: "exn \<Rightarrow> run \<Rightarrow> ('w, exn, run) action" where
  "require_workflow e r = (if is_workflow r then areturn r else araise e)"

definition not_a_workflow :: exn where
  "not_a_workflow = core_error INVALID_REQUEST ''checkpoint_requires_workflow_run''
     ''checkpoint coordination requires a WorkflowRun'' False None"

definition workflow_run :: "'w coordinator \<Rightarrow> run_id \<Rightarrow> ('w, exn, run) action" where
  "workflow_run K i = abind (rp_get (co_runs K) i) (require_workflow not_a_workflow)"

definition run_workflow_id :: "run \<Rightarrow> workflow_id option" where
  "run_workflow_id r = (case r_variant r of WorkflowRun w _ _ \<Rightarrow> Some w | _ \<Rightarrow> None)"

definition run_graph_version :: "run \<Rightarrow> string option" where
  "run_graph_version r = (case r_variant r of WorkflowRun _ g _ \<Rightarrow> Some g | _ \<Rightarrow> None)"

definition validate_for_run :: "(json_object \<Rightarrow> string) \<Rightarrow> checkpoint \<Rightarrow> run \<Rightarrow> call_context \<Rightarrow> unit result" where
  "validate_for_run H c r ctx =
     rbind (verify_integrity H c) (\<lambda>_.
     if cx_run_id ctx \<noteq> r_id r
     then Inl (core_error INVALID_REQUEST ''checkpoint_context_run_mismatch''
            ''RuntimeCallContext does not own the WorkflowRun'' False None)
     else if ck_run_id c \<noteq> r_id r \<or> Some (ck_workflow_id c) \<noteq> run_workflow_id r \<or> ck_definition_id c \<noteq> r_definition_id r
         \<or> Some (ck_graph_version c) \<noteq> run_graph_version r \<or> scope_key (ck_scope c) \<noteq> scope_key (r_scope r)
         \<or> ck_attempt c \<noteq> r_attempt r
     then Inl (core_error INVALID_REQUEST ''checkpoint_run_identity_mismatch''
            ''checkpoint identity does not match WorkflowRun'' False None)
     else if terminal (r_status r)
     then Inl (store_conflict ''terminal_checkpoint_commit'' ''terminal WorkflowRun cannot commit a checkpoint'' False)
     else Inr ())"

definition stale_run_version :: exn where
  "stale_run_version = store_conflict ''stale_state_version'' ''Run state version does not match the expected version'' True"

definition marker_sequence :: "'w coordinator \<Rightarrow> provider_id \<Rightarrow> run \<Rightarrow> call_context \<Rightarrow> ('w, exn, int) action" where
  "marker_sequence K p r ctx = (case latest_checkpoint r of
       None \<Rightarrow> areturn 1
     | Some ref \<Rightarrow> abind (gw_load (co_gateway K) p ref (r_id r) (r_scope r) ctx) (\<lambda>previous. areturn (ck_sequence previous + 1)))"

definition save_and_mark ::
  "'w coordinator \<Rightarrow> provider_id \<Rightarrow> checkpoint \<Rightarrow> run \<Rightarrow> int \<Rightarrow> call_context \<Rightarrow> ('w, exn, run) action" where
  "save_and_mark K p c r v ctx =
     atry (abind (gw_save (co_gateway K) p c ctx) (\<lambda>_.
       rp_commit (co_runs K) (r_id r) v (ck_id c) (latest_checkpoint r) None None))
       (\<lambda>e. case e of
          CoreError d \<Rightarrow> abind (suppressed (ce_failed (co_events K) c d ctx)) (\<lambda>_. araise e)
        | _ \<Rightarrow> araise e)"

definition coordinator_save ::
  "'w coordinator \<Rightarrow> provider_id \<Rightarrow> checkpoint \<Rightarrow> int \<Rightarrow> call_context \<Rightarrow> ('w, exn, run) action" where
  "coordinator_save K p c v ctx =
     abind (workflow_run K (ck_run_id c)) (\<lambda>r.
     abind (aresult (validate_for_run (co_digest K) c r ctx)) (\<lambda>_.
     if latest_checkpoint r = Some (ck_id c)
     then abind (gw_load (co_gateway K) p (ck_id c) (r_id r) (r_scope r) ctx) (\<lambda>existing.
       if ci_digest (ck_integrity existing) \<noteq> ci_digest (ck_integrity c)
       then araise (store_conflict ''checkpoint_identity_conflict''
              ''committed checkpoint reference has different content'' False)
       else areturn r)
     else if r_version r \<noteq> v then araise stale_run_version
     else abind (marker_sequence K p r ctx) (\<lambda>expected.
       if ck_previous c \<noteq> latest_checkpoint r \<or> ck_sequence c \<noteq> expected
       then araise (store_conflict ''stale_checkpoint_marker''
              ''checkpoint sequence or predecessor does not match the Run marker'' True)
       else abind (save_and_mark K p c r v ctx) (\<lambda>committed.
         if \<not> is_workflow committed then araise (AssertionError ''checkpoint commit did not return WorkflowRun'')
         else abind (suppressed (ce_saved (co_events K) c committed ctx)) (\<lambda>_. areturn committed)))))"

subsection \<open>Deleting orphans\<close>

definition chain_cycle :: "string \<Rightarrow> exn" where
  "chain_cycle msg = protocol_failure ''checkpoint_chain_cycle'' msg"

text \<open>
  The walk along the committed chain; the fuel bounds its length, and None is a walk that has not
  ended yet.
\<close>

fun chain_refs ::
  "nat \<Rightarrow> (checkpoint_id \<Rightarrow> ('w, exn, checkpoint) action) \<Rightarrow> checkpoint_id option \<Rightarrow> checkpoint_id set \<Rightarrow> 'w
    \<Rightarrow> ((exn + checkpoint_id set) \<times> 'w) option"
where
  "chain_refs n load None seen w = Some (Inr seen, w)"
| "chain_refs 0 load (Some r) seen w = None"
| "chain_refs (Suc n) load (Some r) seen w =
     (if r \<in> seen then Some (Inl (chain_cycle ''committed checkpoint chain contains a cycle''), w)
      else case load r w of (res, w') \<Rightarrow> (case res of
          Inl e \<Rightarrow> Some (Inl e, w')
        | Inr c \<Rightarrow> chain_refs n load (ck_previous c) (insert r seen) w'))"

definition delete_orphan ::
  "'w coordinator \<Rightarrow> nat \<Rightarrow> delete_request \<Rightarrow> call_context \<Rightarrow> 'w \<Rightarrow> ((exn + delete_result) \<times> 'w) option" where
  "delete_orphan K fuel d ctx w =
     (case workflow_run K (dr_run_id d) w of
        (Inl e, w1) \<Rightarrow> Some (Inl e, w1)
      | (Inr r, w1) \<Rightarrow>
          if scope_key (r_scope r) \<noteq> scope_key (dr_scope d)
          then Some (Inl (core_error DENIED ''checkpoint_scope_mismatch'' ''delete Scope does not match WorkflowRun'' False None), w1)
          else case chain_refs fuel (\<lambda>ref. gw_load (co_gateway K) (dr_provider d) ref (r_id r) (r_scope r) ctx)
                      (latest_checkpoint r) {} w1 of
              None \<Rightarrow> None
            | Some (Inl e, w2) \<Rightarrow> Some (Inl e, w2)
            | Some (Inr reachable, w2) \<Rightarrow>
                if dr_ref d \<in> reachable
                then Some (Inl (store_conflict ''checkpoint_not_orphan'' ''committed checkpoint chain cannot be deleted'' False), w2)
                else Some (gw_delete (co_gateway K) d ctx w2))"

subsection \<open>Falling back along the chain\<close>

function chain_search ::
  "(json_object \<Rightarrow> string) \<Rightarrow> (checkpoint_id \<times> checkpoint) list \<Rightarrow> checkpoint_id option \<Rightarrow> checkpoint_id set \<Rightarrow> checkpoint option result"
where
  "chain_search H by_ref None seen = Inr None"
| "chain_search H by_ref (Some r) seen =
     (if r \<in> seen then Inl (chain_cycle ''checkpoint fallback chain contains a cycle'')
      else case map_of by_ref r of
        None \<Rightarrow> Inr None
      | Some item \<Rightarrow> (case verify_integrity H item of
          Inr _ \<Rightarrow> Inr (Some item)
        | Inl _ \<Rightarrow> chain_search H by_ref (ck_previous item) (insert r seen)))"
  by pat_completeness auto
termination
proof (relation "measure (\<lambda>(H, by_ref, r, seen). card (fst ` set by_ref - seen))")
  fix H :: "json_object \<Rightarrow> string" and by_ref :: "(checkpoint_id \<times> checkpoint) list" and r seen item e
  assume "r \<notin> seen" "map_of by_ref r = Some item"
  then have "r \<in> fst ` set by_ref - seen" by (force dest: map_of_SomeD)
  then have "card (fst ` set by_ref - insert r seen) < card (fst ` set by_ref - seen)"
    by (intro psubset_card_mono) auto
  then show "((H, by_ref, ck_previous item, insert r seen), H, by_ref, Some r, seen)
      \<in> measure (\<lambda>(H, by_ref, r, seen). card (fst ` set by_ref - seen))" by simp
qed simp

text \<open>The specification: the first checkpoint of the chain that verifies, past those that do not.\<close>

inductive nearest_valid :: "(json_object \<Rightarrow> string) \<Rightarrow> (checkpoint_id \<rightharpoonup> checkpoint) \<Rightarrow> nat \<Rightarrow> checkpoint_id option \<Rightarrow> checkpoint \<Rightarrow> bool"
  for H m where
  here: "m r = Some c \<Longrightarrow> verify_integrity H c = Inr () \<Longrightarrow> nearest_valid H m 0 (Some r) c"
| there: "m r = Some x \<Longrightarrow> verify_integrity H x = Inl e \<Longrightarrow> nearest_valid H m n (ck_previous x) c
    \<Longrightarrow> nearest_valid H m (Suc n) (Some r) c"

inductive_cases nearest_validE: "nearest_valid H m n ref c"

lemma nearest_valid_verified: "nearest_valid H m n ref c \<Longrightarrow> verify_integrity H c = Inr () \<and> c \<in> ran m"
  by (induction rule: nearest_valid.induct) (auto simp: ran_def)

lemma nearest_valid_SomeD:
  "nearest_valid H m n (Some r) c \<Longrightarrow> \<exists>x. m r = Some x \<and>
     (verify_integrity H x = Inr () \<and> n = 0 \<and> c = x
      \<or> (\<exists>e k. verify_integrity H x = Inl e \<and> n = Suc k \<and> nearest_valid H m k (ck_previous x) c))"
  by (erule nearest_validE) auto

lemma nearest_valid_unique: "nearest_valid H m n ref c \<Longrightarrow> nearest_valid H m k ref d \<Longrightarrow> k = n \<and> d = c"
proof (induction arbitrary: k d rule: nearest_valid.induct)
  case (here r c)
  from nearest_valid_SomeD [OF here(3)] here(1,2) show ?case by auto
next
  case (there r x e n c)
  from nearest_valid_SomeD [OF there(5)] there(1,2) obtain k' where "k = Suc k'" "nearest_valid H m k' (ck_previous x) d"
    by auto
  with there(4) show ?case by blast
qed

lemma chain_search_finds:
  "nearest_valid H (map_of by_ref) n ref c \<Longrightarrow> \<forall>r \<in> seen. \<forall>k d. nearest_valid H (map_of by_ref) k (Some r) d \<longrightarrow> n < k
    \<Longrightarrow> chain_search H by_ref ref seen = Inr (Some c)"
proof (induction arbitrary: seen rule: nearest_valid.induct)
  case (here r c)
  have "nearest_valid H (map_of by_ref) 0 (Some r) c" using here(1,2) by (rule nearest_valid.here)
  then have "r \<notin> seen" using here(3) by auto
  with here show ?case by simp
next
  case (there r x e n c)
  have nv: "nearest_valid H (map_of by_ref) (Suc n) (Some r) c" using there(1-3) by (rule nearest_valid.there)
  then have r: "r \<notin> seen" using there(5) by auto
  have "\<forall>s \<in> insert r seen. \<forall>k d. nearest_valid H (map_of by_ref) k (Some s) d \<longrightarrow> n < k"
    using there(5) nearest_valid_unique [OF nv] by (auto dest: Suc_lessD)
  then have "chain_search H by_ref (ck_previous x) (insert r seen) = Inr (Some c)" by (rule there(4))
  with r there(1,2) show ?case by simp
qed

lemma chain_search_sound:
  "chain_search H by_ref ref seen = Inr (Some c) \<Longrightarrow> \<exists>n. nearest_valid H (map_of by_ref) n ref c"
proof (induction H by_ref ref seen rule: chain_search.induct)
  case (2 H by_ref r seen)
  then obtain item where r: "r \<notin> seen" "map_of by_ref r = Some item"
    by (auto split: if_splits option.splits)
  show ?case
  proof (cases "verify_integrity H item")
    case (Inr u)
    with 2(2) r show ?thesis using nearest_valid.here [of "map_of by_ref" r item H] by auto
  next
    case (Inl e)
    with 2(2) r have "chain_search H by_ref (ck_previous item) (insert r seen) = Inr (Some c)" by simp
    from 2(1) [OF r Inl this] obtain n where "nearest_valid H (map_of by_ref) n (ck_previous item) c" by blast
    with r(2) Inl have "nearest_valid H (map_of by_ref) (Suc n) (Some r) c" by (rule nearest_valid.there)
    then show ?thesis by blast
  qed
qed simp

text \<open>
  From a corrupt marker: the search answers with the nearest valid checkpoint exactly when there is
  one.
\<close>

lemma chain_search_iff:
  assumes "map_of by_ref marker = Some x" "verify_integrity H x = Inl e"
  shows "chain_search H by_ref (ck_previous x) {marker} = Inr (Some c) \<longleftrightarrow> (\<exists>n. nearest_valid H (map_of by_ref) n (ck_previous x) c)"
proof
  assume "\<exists>n. nearest_valid H (map_of by_ref) n (ck_previous x) c"
  then obtain n where n: "nearest_valid H (map_of by_ref) n (ck_previous x) c" by blast
  have "nearest_valid H (map_of by_ref) (Suc n) (Some marker) c" using assms n by (rule nearest_valid.there)
  then have "\<forall>r \<in> {marker}. \<forall>k d. nearest_valid H (map_of by_ref) k (Some r) d \<longrightarrow> n < k"
    by (auto dest: nearest_valid_unique)
  with n show "chain_search H by_ref (ck_previous x) {marker} = Inr (Some c)" by (rule chain_search_finds)
qed (rule chain_search_sound)

end
