(* ===== verification/Checkpoint_Recovery.thy ===== *)
theory Checkpoint_Recovery
  imports Checkpoint_Coordinator
begin

section \<open>Recovery\<close>

text \<open>
  \<open>checkpoint/coordinator.py\<close>, class \<open>RecoveryCoordinator\<close>, and the migrator registry. The loop over
  the pages of the listing takes fuel, so the outcome of a recovery is an option: None is a listing
  that has not ended.
\<close>

record migration_request =
  mg_workflow :: workflow_id
  mg_source_definition :: definition_id
  mg_source_graph :: string
  mg_target_definition :: definition_id
  mg_target_graph :: string

definition mk_migration :: "migration_request \<Rightarrow> migration_request result" where
  "mk_migration m =
     (if mg_source_graph m = [] \<or> mg_target_graph m = [] then Inl (ValueError ''migration graph versions are required'') else Inr m)"

type_synonym 'w migrator = "checkpoint \<Rightarrow> migration_request \<Rightarrow> call_context \<Rightarrow> ('w, exn, checkpoint) action"

type_synonym migration_pair = "string \<times> string \<times> string \<times> string \<times> string"

definition migration_key :: "migration_request \<Rightarrow> migration_pair" where
  "migration_key m = (mg_workflow m, mg_source_definition m, mg_source_graph m, mg_target_definition m, mg_target_graph m)"

definition migrator_taken :: exn where
  "migrator_taken = core_error CONFLICT ''checkpoint_migrator_already_registered''
     ''CheckpointMigrator version pair is already registered'' False None"

definition register_migrator ::
  "migration_request \<times> 'w migrator \<Rightarrow> (migration_pair \<rightharpoonup> 'w migrator) \<Rightarrow> (migration_pair \<rightharpoonup> 'w migrator) result" where
  "register_migrator e r =
     (if migration_key (fst e) \<in> dom r then Inl migrator_taken else Inr (r(migration_key (fst e) \<mapsto> snd e)))"

definition get_migrator :: "(migration_pair \<rightharpoonup> 'w migrator) \<Rightarrow> migration_request \<Rightarrow> 'w migrator result" where
  "get_migrator r m = (case r (migration_key m) of
       None \<Rightarrow> Inl (core_error VERSION_MISMATCH ''checkpoint_migrator_missing''
                 ''no CheckpointMigrator supports the requested version pair'' False None)
     | Some f \<Rightarrow> Inr f)"

interpretation migrators: once_registry register_migrator "\<lambda>r k. r k" "\<lambda>e. migration_key (fst e)" snd "\<lambda>_. migrator_taken"
  by unfold_locales (auto simp: register_migrator_def)

record recovery_request =
  rq_run_id :: run_id
  rq_version :: int
  rq_provider :: provider_id
  rq_definition :: definition_id
  rq_graph :: string
  rq_allow_fallback :: bool
  rq_fail_on_restore :: bool

record recovery_result =
  rr_run :: run
  rr_checkpoint :: checkpoint
  rr_migrated :: bool
  rr_fell_back :: bool

record 'w recovery =
  rv_coordinator :: "'w coordinator"
  rv_migrators :: "migration_pair \<rightharpoonup> 'w migrator"
  rv_restore :: "checkpoint \<Rightarrow> call_context \<Rightarrow> ('w, exn, unit) action"
  rv_audit_failure :: "run_id \<Rightarrow> error_detail \<Rightarrow> ('w, exn, unit) action"

abbreviation rv_gateway :: "'w recovery \<Rightarrow> 'w gateway" where "rv_gateway V \<equiv> co_gateway (rv_coordinator V)"

abbreviation rv_runs :: "'w recovery \<Rightarrow> 'w run_ports" where "rv_runs V \<equiv> co_runs (rv_coordinator V)"

abbreviation rv_digest :: "'w recovery \<Rightarrow> json_object \<Rightarrow> string" where "rv_digest V \<equiv> co_digest (rv_coordinator V)"

definition audited_step :: "'w recovery \<Rightarrow> run_id \<Rightarrow> ('w, exn, unit) action \<Rightarrow> ('w, exn, unit) action" where
  "audited_step V i m = atry m (\<lambda>e. case e of
       CoreError d \<Rightarrow> abind (rv_audit_failure V i d) (\<lambda>_. araise e)
     | _ \<Rightarrow> araise e)"

definition require_workflow_result :: "string \<Rightarrow> run \<Rightarrow> ('w, exn, run) action" where
  "require_workflow_result msg r = (if is_workflow r then areturn r else araise (AssertionError msg))"

subsection \<open>Loading the recovery source\<close>

definition fallback_query :: "provider_id \<Rightarrow> run \<Rightarrow> checkpoint_query" where
  "fallback_query p r = \<lparr>qu_provider = p, qu_run_id = r_id r, qu_scope = r_scope r, qu_graph_version = None,
     qu_limit = 1000, qu_cursor = None\<rparr>"

definition fallback_candidate ::
  "(json_object \<Rightarrow> string) \<Rightarrow> (checkpoint_id \<times> checkpoint) list \<Rightarrow> checkpoint_id \<Rightarrow> checkpoint result" where
  "fallback_candidate H by_ref marker = (case map_of by_ref marker of
       None \<Rightarrow> Inl (protocol_failure ''checkpoint_fallback_source_missing'' ''corrupt marker is absent from checkpoint listing'')
     | Some corrupt \<Rightarrow> rbind (chain_search H by_ref (ck_previous corrupt) {marker}) (\<lambda>found. case found of
         None \<Rightarrow> Inl (protocol_failure ''checkpoint_fallback_unavailable'' ''no earlier valid committed checkpoint is available'')
       | Some c \<Rightarrow> Inr c))"

definition commit_fallback :: "'w recovery \<Rightarrow> run \<Rightarrow> checkpoint_id \<Rightarrow> checkpoint \<Rightarrow> call_context \<Rightarrow> ('w, exn, run) action" where
  "commit_fallback V r marker c ctx =
     abind (audited_step V (r_id r) (ce_fallback (co_events (rv_coordinator V)) marker c ctx)) (\<lambda>_.
     abind (rp_commit (rv_runs V) (r_id r) (r_version r) (ck_id c) (Some marker) None None)
       (require_workflow_result ''fallback marker commit did not return WorkflowRun''))"

definition may_fall_back :: "recovery_request \<Rightarrow> exn \<Rightarrow> bool" where
  "may_fall_back q e \<longleftrightarrow> (case e of CoreError d \<Rightarrow> ed_code d = ''checkpoint_integrity_failure'' \<and> rq_allow_fallback q | _ \<Rightarrow> False)"

definition load_with_fallback ::
  "'w recovery \<Rightarrow> nat \<Rightarrow> recovery_request \<Rightarrow> run \<Rightarrow> call_context \<Rightarrow> 'w \<Rightarrow> ((exn + checkpoint \<times> bool \<times> run) \<times> 'w) option" where
  "load_with_fallback V fuel q r ctx w = (case latest_checkpoint r of
       None \<Rightarrow> Some (Inl (AssertionError ''recovery marker was validated''), w)
     | Some marker \<Rightarrow> (case gw_load (rv_gateway V) (rq_provider q) marker (r_id r) (r_scope r) ctx w of
         (Inr c, w1) \<Rightarrow> Some (Inr (c, False, r), w1)
       | (Inl e, w1) \<Rightarrow>
           if \<not> may_fall_back q e then Some (Inl e, w1)
           else case collect_pages fuel (\<lambda>query. gw_list (rv_gateway V) query ctx) (fallback_query (rq_provider q) r) [] w1 of
               None \<Rightarrow> None
             | Some (Inl e', w2) \<Rightarrow> Some (Inl e', w2)
             | Some (Inr by_ref, w2) \<Rightarrow> (case fallback_candidate (rv_digest V) by_ref marker of
                 Inl e' \<Rightarrow> Some (Inl e', w2)
               | Inr c \<Rightarrow> (case commit_fallback V r marker c ctx w2 of
                   (Inl e', w3) \<Rightarrow> Some (Inl e', w3)
                 | (Inr r', w3) \<Rightarrow> Some (Inr (c, True, r'), w3)))))"

definition validate_loaded :: "(json_object \<Rightarrow> string) \<Rightarrow> checkpoint \<Rightarrow> run \<Rightarrow> unit result" where
  "validate_loaded H c r =
     rbind (verify_integrity H c) (\<lambda>_.
     raise_when (Some (ck_id c) \<noteq> latest_checkpoint r \<or> ck_run_id c \<noteq> r_id r \<or> Some (ck_workflow_id c) \<noteq> run_workflow_id r
       \<or> scope_key (ck_scope c) \<noteq> scope_key (r_scope r))
       (protocol_failure ''checkpoint_run_identity_mismatch'' ''committed checkpoint does not match WorkflowRun identity''))"

subsection \<open>Migration\<close>

definition migration_changes :: "recovery_request \<Rightarrow> checkpoint \<Rightarrow> checkpoint \<Rightarrow> bool" where
  "migration_changes q source migrated \<longleftrightarrow>
     ck_id migrated = ck_id source \<or> ck_run_id migrated \<noteq> ck_run_id source \<or> ck_workflow_id migrated \<noteq> ck_workflow_id source
     \<or> scope_key (ck_scope migrated) \<noteq> scope_key (ck_scope source) \<or> ck_sequence migrated \<noteq> ck_sequence source + 1
     \<or> ck_previous migrated \<noteq> Some (ck_id source) \<or> ck_definition_id migrated \<noteq> rq_definition q
     \<or> ck_graph_version migrated \<noteq> rq_graph q \<or> ck_external migrated \<noteq> ck_external source
     \<or> ck_effects migrated \<noteq> ck_effects source"

definition migrate ::
  "'w recovery \<Rightarrow> recovery_request \<Rightarrow> run \<Rightarrow> checkpoint \<Rightarrow> call_context \<Rightarrow> ('w, exn, checkpoint \<times> run) action" where
  "migrate V q r source ctx =
     abind (aresult (case run_workflow_id r of
         None \<Rightarrow> Inl (AssertionError ''WorkflowRun expected'')
       | Some w \<Rightarrow> mk_migration \<lparr>mg_workflow = w, mg_source_definition = ck_definition_id source,
           mg_source_graph = ck_graph_version source, mg_target_definition = rq_definition q, mg_target_graph = rq_graph q\<rparr>)) (\<lambda>m.
     abind (aresult (get_migrator (rv_migrators V) m)) (\<lambda>migrator.
     abind (migrator source m ctx) (\<lambda>migrated.
     abind (aresult (verify_integrity (rv_digest V) migrated)) (\<lambda>_.
     abind (aresult (raise_when (migration_changes q source migrated)
       (protocol_failure ''invalid_checkpoint_migration'' ''CheckpointMigrator changed protected identity or references''))) (\<lambda>_.
     abind (gw_save (rv_gateway V) (rq_provider q) migrated ctx) (\<lambda>_.
     abind (audited_step V (r_id r) (ce_migrated (co_events (rv_coordinator V)) source migrated ctx)) (\<lambda>_.
     abind (abind (rp_commit (rv_runs V) (r_id r) (r_version r) (ck_id migrated) (Some (ck_id source)) (Some (rq_definition q))
         (Some (rq_graph q))) (require_workflow_result ''migration marker commit did not return WorkflowRun'')) (\<lambda>committed.
     abind (suppressed (ce_saved (co_events (rv_coordinator V)) migrated committed ctx)) (\<lambda>_.
     areturn (migrated, committed))))))))))"

subsection \<open>The whole recovery\<close>

definition recovery_check :: "recovery_request \<Rightarrow> run \<Rightarrow> call_context \<Rightarrow> unit result" where
  "recovery_check q r ctx =
     (if \<not> is_workflow r
      then Inl (core_error INVALID_REQUEST ''recovery_requires_workflow_run'' ''checkpoint recovery requires a WorkflowRun'' False None)
      else if cx_run_id ctx \<noteq> r_id r \<or> scope_key (cx_scope ctx) \<noteq> scope_key (r_scope r)
      then Inl (core_error DENIED ''recovery_context_mismatch'' ''recovery context does not match WorkflowRun ownership'' False None)
      else if terminal (r_status r) \<or> r_status r = CREATED
      then Inl (store_conflict ''illegal_recovery_state'' ''WorkflowRun state cannot be recovered'' False)
      else if latest_checkpoint r = None
      then Inl (core_error INVALID_REQUEST ''missing_recovery_checkpoint'' ''WorkflowRun has no committed checkpoint marker'' False None)
      else if r_version r \<noteq> rq_version q then Inl stale_run_version else Inr ())"

definition restore_detail :: "exn \<Rightarrow> error_detail" where
  "restore_detail e = (case e of CoreError d \<Rightarrow> d
     | _ \<Rightarrow> \<lparr>ed_category = PROTOCOL_FAILURE, ed_code = ''checkpoint_restore_failed'', ed_message = ''checkpoint restoration failed'',
         ed_retryable = False, ed_cause_id = None, ed_metadata = []\<rparr>)"

definition restore_guarded ::
  "'w recovery \<Rightarrow> recovery_request \<Rightarrow> run \<Rightarrow> checkpoint \<Rightarrow> call_context \<Rightarrow> ('w, exn, unit) action" where
  "restore_guarded V q recovering c ctx =
     atry (rv_restore V c ctx) (\<lambda>e.
       if rq_fail_on_restore q
       then abind (rp_fail (rv_runs V) (r_id recovering) (r_version recovering) (restore_detail e)) (\<lambda>_. araise e)
       else araise e)"

definition restore_run ::
  "'w recovery \<Rightarrow> recovery_request \<Rightarrow> run \<Rightarrow> checkpoint \<Rightarrow> call_context \<Rightarrow> ('w, exn, run) action" where
  "restore_run V q r c ctx =
     abind (abind (rp_recover (rv_runs V) (r_id r) (r_version r) (ck_id c))
       (require_workflow_result ''recovery transition did not return WorkflowRun'')) (\<lambda>recovering.
     abind (restore_guarded V q recovering c ctx) (\<lambda>_.
     abind (rp_advance (rv_runs V) (r_id recovering) (r_version recovering) RUNNING)
       (require_workflow_result ''restored Run is not WorkflowRun'')))"

definition target_step ::
  "'w recovery \<Rightarrow> recovery_request \<Rightarrow> run \<Rightarrow> checkpoint \<Rightarrow> call_context \<Rightarrow> ('w, exn, checkpoint \<times> run \<times> bool) action" where
  "target_step V q r c ctx =
     (if ck_definition_id c \<noteq> rq_definition q \<or> ck_graph_version c \<noteq> rq_graph q
      then abind (migrate V q r c ctx) (\<lambda>(c', r'). areturn (c', r', True))
      else areturn (c, r, False))"

definition recover ::
  "'w recovery \<Rightarrow> nat \<Rightarrow> recovery_request \<Rightarrow> call_context \<Rightarrow> 'w \<Rightarrow> ((exn + recovery_result) \<times> 'w) option" where
  "recover V fuel q ctx w =
     (case abind (rp_get (rv_runs V) (rq_run_id q)) (\<lambda>r. abind (aresult (recovery_check q r ctx)) (\<lambda>_. areturn r)) w of
        (Inl e, w1) \<Rightarrow> Some (Inl e, w1)
      | (Inr r, w1) \<Rightarrow> (case load_with_fallback V fuel q r ctx w1 of
          None \<Rightarrow> None
        | Some (Inl e, w2) \<Rightarrow> Some (Inl e, w2)
        | Some (Inr (c, fell_back, r1), w2) \<Rightarrow>
            Some (abind (aresult (validate_loaded (rv_digest V) c r1)) (\<lambda>_.
              abind (target_step V q r1 c ctx) (\<lambda>(c', r2, migrated).
              abind (restore_run V q r2 c' ctx) (\<lambda>running.
              areturn \<lparr>rr_run = running, rr_checkpoint = c', rr_migrated = migrated, rr_fell_back = fell_back\<rparr>))) w2)))"

subsection \<open>What a recovery that returns has done\<close>

lemma migrate_Inr:
  "migrate V q r source ctx w = (Inr (c, r'), w') \<Longrightarrow> verify_integrity (rv_digest V) c = Inr () \<and> \<not> migration_changes q source c"
  by (auto simp: migrate_def abind_eq_Inr)

lemma target_step_Inr:
  assumes "target_step V q r c ctx w = (Inr (c', r', m), w')" "verify_integrity (rv_digest V) c = Inr ()"
  shows "verify_integrity (rv_digest V) c' = Inr () \<and> ck_definition_id c' = rq_definition q \<and> ck_graph_version c' = rq_graph q
    \<and> ck_effects c' = ck_effects c"
  using assms by (auto simp: target_step_def abind_eq_Inr migration_changes_def dest!: migrate_Inr split: if_splits)

text \<open>Where the source of a recovery comes from: the marker, or the nearest valid checkpoint before a corrupt one.\<close>

definition recovery_source ::
  "'w recovery \<Rightarrow> nat \<Rightarrow> recovery_request \<Rightarrow> run \<Rightarrow> call_context \<Rightarrow> 'w \<Rightarrow> checkpoint \<Rightarrow> bool \<Rightarrow> run \<Rightarrow> 'w \<Rightarrow> bool" where
  "recovery_source V fuel q r ctx w c fell_back r' w' \<longleftrightarrow> (\<exists>marker. latest_checkpoint r = Some marker \<and>
     (if \<not> fell_back then gw_load (rv_gateway V) (rq_provider q) marker (r_id r) (r_scope r) ctx w = (Inr c, w') \<and> r' = r
      else rq_allow_fallback q \<and> (\<exists>d w1 by_ref w2 corrupt n.
        gw_load (rv_gateway V) (rq_provider q) marker (r_id r) (r_scope r) ctx w = (Inl (CoreError d), w1)
        \<and> ed_code d = ''checkpoint_integrity_failure''
        \<and> collect_pages fuel (\<lambda>query. gw_list (rv_gateway V) query ctx) (fallback_query (rq_provider q) r) [] w1 = Some (Inr by_ref, w2)
        \<and> map_of by_ref marker = Some corrupt \<and> nearest_valid (rv_digest V) (map_of by_ref) n (ck_previous corrupt) c
        \<and> commit_fallback V r marker c ctx w2 = (Inr r', w'))))"

lemma load_with_fallback_source:
  assumes "load_with_fallback V fuel q r ctx w = Some (Inr (c, fb, r'), w')"
  shows "recovery_source V fuel q r ctx w c fb r' w'"
proof -
  from assms obtain marker where m: "latest_checkpoint r = Some marker"
    by (auto simp: load_with_fallback_def split: option.splits)
  obtain res w1 where l: "gw_load (rv_gateway V) (rq_provider q) marker (r_id r) (r_scope r) ctx w = (res, w1)" by fastforce
  show ?thesis
  proof (cases res)
    case (Inr k)
    with assms m l show ?thesis by (auto simp: load_with_fallback_def recovery_source_def)
  next
    case (Inl e)
    with assms m l have may: "may_fall_back q e" by (auto simp: load_with_fallback_def split: if_splits)
    then obtain d where d: "e = CoreError d" "ed_code d = ''checkpoint_integrity_failure''" "rq_allow_fallback q"
      by (auto simp: may_fall_back_def split: exn.splits)
    from assms m l Inl may obtain by_ref w2 where p:
      "collect_pages fuel (\<lambda>query. gw_list (rv_gateway V) query ctx) (fallback_query (rq_provider q) r) [] w1 = Some (Inr by_ref, w2)"
      "fallback_candidate (rv_digest V) by_ref marker = Inr c" "commit_fallback V r marker c ctx w2 = (Inr r', w')" "fb"
      by (auto simp: load_with_fallback_def split: option.splits prod.splits sum.splits)
    from p(2) obtain corrupt n where "map_of by_ref marker = Some corrupt"
      "nearest_valid (rv_digest V) (map_of by_ref) n (ck_previous corrupt) c"
      by (fastforce simp: fallback_candidate_def rbind_eq_Inr split: option.splits dest: chain_search_sound)
    with m l Inl d p show ?thesis unfolding recovery_source_def by auto
  qed
qed

lemma restore_run_steps:
  assumes "restore_run V q r c ctx w = (Inr running, w')"
  shows "\<exists>recovering w1 w2. rp_recover (rv_runs V) (r_id r) (r_version r) (ck_id c) w = (Inr recovering, w1)
    \<and> rv_restore V c ctx w1 = (Inr (), w2)
    \<and> rp_advance (rv_runs V) (r_id recovering) (r_version recovering) RUNNING w2 = (Inr running, w')"
proof -
  obtain recovering w1 w2 where a: "rp_recover (rv_runs V) (r_id r) (r_version r) (ck_id c) w = (Inr recovering, w1)"
    and b: "restore_guarded V q recovering c ctx w1 = (Inr (), w2)"
    and d: "rp_advance (rv_runs V) (r_id recovering) (r_version recovering) RUNNING w2 = (Inr running, w')"
    using assms unfolding restore_run_def by (auto simp: abind_eq_Inr require_workflow_result_def araise_def split: if_splits)
  have "rv_restore V c ctx w1 = (Inr (), w2)"
    using b by (auto simp: restore_guarded_def atry_def araise_def abind_def split: prod.splits sum.splits if_splits)
  with a d show ?thesis by blast
qed

lemma recover_steps:
  assumes "recover V fuel q ctx w = Some (Inr res, w')"
  shows "\<exists>r w1 c r1 w2 r2 w3 recovering w4 w5. rp_get (rv_runs V) (rq_run_id q) w = (Inr r, w1) \<and> recovery_check q r ctx = Inr ()
    \<and> recovery_source V fuel q r ctx w1 c (rr_fell_back res) r1 w2 \<and> validate_loaded (rv_digest V) c r1 = Inr ()
    \<and> target_step V q r1 c ctx w2 = (Inr (rr_checkpoint res, r2, rr_migrated res), w3)
    \<and> rp_recover (rv_runs V) (r_id r2) (r_version r2) (ck_id (rr_checkpoint res)) w3 = (Inr recovering, w4)
    \<and> rv_restore V (rr_checkpoint res) ctx w4 = (Inr (), w5)
    \<and> rp_advance (rv_runs V) (r_id recovering) (r_version recovering) RUNNING w5 = (Inr (rr_run res), w')"
proof -
  obtain r w1 c fb r1 w2 where g: "rp_get (rv_runs V) (rq_run_id q) w = (Inr r, w1)" and ok: "recovery_check q r ctx = Inr ()"
    and l: "load_with_fallback V fuel q r ctx w1 = Some (Inr (c, fb, r1), w2)"
    and k: "abind (aresult (validate_loaded (rv_digest V) c r1)) (\<lambda>_.
              abind (target_step V q r1 c ctx) (\<lambda>(c', r2, migrated).
              abind (restore_run V q r2 c' ctx) (\<lambda>running.
              areturn \<lparr>rr_run = running, rr_checkpoint = c', rr_migrated = migrated, rr_fell_back = fb\<rparr>))) w2 = (Inr res, w')"
    using assms unfolding recover_def by (auto simp: abind_eq_Inr split: prod.splits sum.splits option.splits)
  then obtain c' r2 m running w3 where v: "validate_loaded (rv_digest V) c r1 = Inr ()"
    and t: "target_step V q r1 c ctx w2 = (Inr (c', r2, m), w3)" and s: "restore_run V q r2 c' ctx w3 = (Inr running, w')"
    and res: "res = \<lparr>rr_run = running, rr_checkpoint = c', rr_migrated = m, rr_fell_back = fb\<rparr>"
    by (auto simp: abind_eq_Inr)
  note rs = restore_run_steps [OF s]
  have res': "rr_run res = running" "rr_checkpoint res = c'" "rr_migrated res = m" "rr_fell_back res = fb" by (simp_all add: res)
  show ?thesis
    unfolding res' using g ok load_with_fallback_source [OF l] v t rs by blast
qed

end
