(* ===== verification/Checkpoint_Approval.thy ===== *)
theory Checkpoint_Approval
  imports Checkpoint_Recovery
begin

section \<open>Approvals around checkpoints\<close>

text \<open>
  \<open>checkpoint/approval.py\<close>, class \<open>ApprovalCoordinator\<close>: a Run waits only after the checkpoint with
  the pending request is committed, and leaves the wait only after the checkpoint with the decision
  is. The coordinator, the gateway, the Run service and the publisher are records of their
  operations.
\<close>

record 'w approvals =
  ap_checkpoints :: "'w coordinator"
  ap_gateway :: "'w gateway"
  ap_runs :: "'w run_ports"
  ap_cancel :: "run_id \<Rightarrow> int \<Rightarrow> ('w, exn, run) action"
  ap_dispatcher :: "'w dispatcher"
  ap_audit_failure :: "run_id \<Rightarrow> error_detail \<Rightarrow> ('w, exn, unit) action"
  ap_clock :: "'w \<Rightarrow> datetime"
  ap_requested :: "approval_request \<Rightarrow> call_context \<Rightarrow> ('w, exn, unit) action"
  ap_decided :: "approval_decision \<Rightarrow> call_context \<Rightarrow> ('w, exn, unit) action"

definition invalid_request :: "string \<Rightarrow> string \<Rightarrow> exn" where
  "invalid_request code msg = core_error INVALID_REQUEST code msg False None"

definition not_permitted :: "string \<Rightarrow> string \<Rightarrow> exn" where
  "not_permitted code msg = core_error DENIED code msg False None"

definition approval_workflow :: "'w approvals \<Rightarrow> run_id \<Rightarrow> ('w, exn, run) action" where
  "approval_workflow A i = abind (rp_get (ap_runs A) i)
     (require_workflow (invalid_request ''approval_requires_workflow_run'' ''approval coordination requires a WorkflowRun''))"

definition find_approval :: "checkpoint \<Rightarrow> string \<Rightarrow> approval_state result" where
  "find_approval c i = (case filter (\<lambda>x. ar_approval_id (at_request x) = i) (ck_approvals c) of
       [x] \<Rightarrow> Inr x
     | _ \<Rightarrow> Inl (invalid_request ''approval_not_found'' ''checkpoint does not contain the approval identity''))"

text \<open>An event that must reach the audit: the failure handler runs, then the error is raised again.\<close>

definition announced :: "'w approvals \<Rightarrow> run_id \<Rightarrow> ('w, exn, unit) action \<Rightarrow> ('w, exn, unit) action" where
  "announced A i m = atry m (\<lambda>e. case e of
       CoreError d \<Rightarrow> abind (ap_audit_failure A i d) (\<lambda>_. araise e)
     | _ \<Rightarrow> araise e)"

subsection \<open>Requesting\<close>

definition validate_request :: "datetime \<Rightarrow> approval_request \<Rightarrow> checkpoint \<Rightarrow> run \<Rightarrow> call_context \<Rightarrow> unit result" where
  "validate_request now a c r ctx =
     (if ar_run_id a \<noteq> r_id r \<or> scope_key (ar_scope a) \<noteq> scope_key (r_scope r) \<or> cx_run_id ctx \<noteq> r_id r
        \<or> scope_key (cx_scope ctx) \<noteq> scope_key (r_scope r)
      then Inl (invalid_request ''approval_request_identity_mismatch'' ''approval request does not match WorkflowRun ownership'')
      else if (case ar_expires_at a of None \<Rightarrow> False | Some e \<Rightarrow> e \<le> now)
      then Inl (not_permitted ''approval_request_expired'' ''approval request has expired'')
      else rbind (find_approval c (ar_approval_id a)) (\<lambda>state.
        raise_when (at_request state \<noteq> a \<or> at_decision state \<noteq> None)
          (invalid_request ''approval_checkpoint_invalid'' ''pre-approval checkpoint does not contain the pending request'')))"

definition request_approval ::
  "'w approvals \<Rightarrow> provider_id \<Rightarrow> approval_request \<Rightarrow> checkpoint \<Rightarrow> int \<Rightarrow> call_context \<Rightarrow> ('w, exn, run) action" where
  "request_approval A p a c v ctx =
     abind (approval_workflow A (ar_run_id a)) (\<lambda>r.
     abind (aresult (raise_when (r_status r \<noteq> RUNNING) (store_conflict ''approval_request_state_invalid''
       ''approval may be requested only while WorkflowRun is RUNNING'' False))) (\<lambda>_.
     abind (\<lambda>w. (validate_request (ap_clock A w) a c r ctx, w)) (\<lambda>_.
     abind (coordinator_save (ap_checkpoints A) p c v ctx) (\<lambda>committed.
     abind (announced A (r_id r) (ap_requested A a ctx)) (\<lambda>_.
     abind (rp_advance (ap_runs A) (r_id r) (r_version committed) WAITING_APPROVAL)
       (require_workflow_result ''approval wait transition did not return WorkflowRun''))))))"

subsection \<open>Deciding\<close>

definition validate_decision ::
  "approval_decision \<Rightarrow> approval_request \<Rightarrow> checkpoint \<Rightarrow> run \<Rightarrow> call_context \<Rightarrow> unit result" where
  "validate_decision x a c r ctx =
     (if request_identity a \<noteq> decision_identity x
      then Inl (not_permitted ''approval_identity_mismatch'' ''approval decision identity or correlation is invalid'')
      else if scope_key (ad_scope x) \<noteq> scope_key (ar_scope a) \<or> scope_key (r_scope r) \<noteq> scope_key (ar_scope a)
        \<or> cx_run_id ctx \<noteq> r_id r
      then Inl (not_permitted ''approval_scope_mismatch'' ''approval decision Scope does not match request'')
      else if ad_outcome x \<notin> set (ar_allowed a)
      then Inl (not_permitted ''approval_outcome_not_allowed'' ''approval outcome is not allowed by the request'')
      else if (case ar_expires_at a of None \<Rightarrow> False | Some e \<Rightarrow> e \<le> ad_decided_at x)
      then Inl (not_permitted ''approval_decision_expired'' ''approval decision was made after expiration'')
      else rbind (find_approval c (ad_approval_id x)) (\<lambda>state.
        raise_when (at_request state \<noteq> a \<or> at_decision state \<noteq> Some x)
          (invalid_request ''approval_checkpoint_invalid'' ''post-approval checkpoint does not contain the decision'')))"

definition decision_constraints :: "approval_decision \<Rightarrow> json_object" where
  "decision_constraints x = [(''approval_id'', JStr (ad_approval_id x)), (''run_id'', JStr (ad_run_id x)),
     (''node_id'', JStr (ad_node_id x)), (''correlation_id'', JStr (ad_correlation_id x)),
     (''outcome'', JStr (approval_outcome_value (ad_outcome x)))]"

definition decision_access :: "approval_decision \<Rightarrow> call_context \<Rightarrow> access_request result" where
  "decision_access x ctx =
     rbind (rbind (mk_identifier (ad_approval_id x)) (\<lambda>i. mk_resource ''core'' ''approval'' i None)) (\<lambda>resource.
     Inr \<lparr>aq_principal = ad_actor x, aq_action = checkpoint_action ''approval.decide'', aq_resource = resource,
       aq_scope = ad_scope x, aq_context = ctx, aq_constraints = map_of (decision_constraints x)\<rparr>)"

definition rejection :: error_detail where
  "rejection = \<lparr>ed_category = DENIED, ed_code = ''approval_rejected'', ed_message = ''approval decision rejected execution'',
     ed_retryable = False, ed_cause_id = None, ed_metadata = []\<rparr>"

definition apply_outcome :: "'w approvals \<Rightarrow> approval_outcome \<Rightarrow> run_id \<Rightarrow> int \<Rightarrow> ('w, exn, run) action" where
  "apply_outcome A x i v = (case x of
       APPROVED \<Rightarrow> rp_advance (ap_runs A) i v RUNNING
     | REJECTED \<Rightarrow> rp_fail (ap_runs A) i v rejection
     | APPROVAL_CANCELLED \<Rightarrow> ap_cancel A i v)"

definition decide_operation ::
  "'w approvals \<Rightarrow> provider_id \<Rightarrow> approval_decision \<Rightarrow> checkpoint \<Rightarrow> int \<Rightarrow> run \<Rightarrow> authorized_call \<Rightarrow> ('w, exn, run) action" where
  "decide_operation A p x c v r call =
     abind (aresult (raise_when (\<not> constraints_eq (gr_constraints (au_grant call)) (decision_constraints x))
       (invalid_grant ''approval grant changed decision identity''))) (\<lambda>_.
     abind (coordinator_save (ap_checkpoints A) p c v (au_context call)) (\<lambda>committed.
     abind (announced A (r_id r) (ap_decided A x (au_context call))) (\<lambda>_.
     abind (apply_outcome A (ad_outcome x) (r_id r) (r_version committed))
       (require_workflow_result ''approval decision did not return WorkflowRun''))))"

text \<open>With the durable state of the approval at hand: it is decided already, or it is pending.\<close>

definition decide_state ::
  "'w approvals \<Rightarrow> provider_id \<Rightarrow> approval_decision \<Rightarrow> checkpoint \<Rightarrow> int \<Rightarrow> call_context \<Rightarrow> run \<Rightarrow> approval_state \<Rightarrow> ('w, exn, run) action"
where
  "decide_state A p x c v ctx r state = (case at_decision state of
       Some y \<Rightarrow> if y = x then areturn r
         else araise (store_conflict ''approval_decision_conflict'' ''approval already has a different durable decision'' False)
     | None \<Rightarrow>
         if r_status r \<noteq> WAITING_APPROVAL
         then araise (store_conflict ''approval_decision_state_invalid'' ''WorkflowRun is not waiting for approval'' False)
         else if r_version r \<noteq> v then araise stale_run_version
         else abind (aresult (validate_decision x (at_request state) c r ctx)) (\<lambda>_.
           abind (aresult (decision_access x ctx)) (\<lambda>q.
           abind (dispatch (ap_dispatcher A) q (decide_operation A p x c v r))
             (require_workflow_result ''approval dispatcher result is invalid''))))"

definition decide ::
  "'w approvals \<Rightarrow> provider_id \<Rightarrow> approval_decision \<Rightarrow> checkpoint \<Rightarrow> int \<Rightarrow> call_context \<Rightarrow> ('w, exn, run) action" where
  "decide A p x c v ctx =
     abind (approval_workflow A (ad_run_id x)) (\<lambda>r.
     case latest_checkpoint r of
       None \<Rightarrow> araise (invalid_request ''approval_checkpoint_missing'' ''WorkflowRun has no approval checkpoint'')
     | Some marker \<Rightarrow>
         abind (gw_load (ap_gateway A) p marker (r_id r) (r_scope r) ctx) (\<lambda>current.
         abind (aresult (find_approval current (ad_approval_id x))) (\<lambda>state. decide_state A p x c v ctx r state)))"

subsection \<open>What the coordinator guarantees\<close>

lemma find_approval_Inr: "find_approval c i = Inr s \<Longrightarrow> s \<in> set (ck_approvals c) \<and> ar_approval_id (at_request s) = i"
proof -
  assume a: "find_approval c i = Inr s"
  then have "filter (\<lambda>x. ar_approval_id (at_request x) = i) (ck_approvals c) = [s]"
    by (auto simp: find_approval_def split: list.splits)
  then have "s \<in> set (filter (\<lambda>x. ar_approval_id (at_request x) = i) (ck_approvals c))" by simp
  then show ?thesis by simp
qed

lemma validate_decision_Inr:
  "validate_decision x a c r ctx = Inr () \<Longrightarrow>
     request_identity a = decision_identity x \<and> ad_outcome x \<in> set (ar_allowed a)
     \<and> (\<exists>s \<in> set (ck_approvals c). at_request s = a \<and> at_decision s = Some x)"
  by (auto simp: validate_decision_def rbind_eq_Inr dest: find_approval_Inr split: if_splits)

lemma require_workflow_result_Inr [simp]:
  "require_workflow_result msg r w = (Inr x, w') \<longleftrightarrow> is_workflow r \<and> x = r \<and> w' = w"
  by (auto simp: require_workflow_result_def araise_def)

lemma request_approval_Inr:
  assumes "request_approval A p a c v ctx w = (Inr r', w')"
  shows "\<exists>committed w1 w2 w3. coordinator_save (ap_checkpoints A) p c v ctx w1 = (Inr committed, w2)
    \<and> (\<exists>s \<in> set (ck_approvals c). at_request s = a \<and> at_decision s = None)
    \<and> rp_advance (ap_runs A) (ar_run_id a) (r_version committed) WAITING_APPROVAL w3 = (Inr r', w')"
proof -
  obtain r w0 w1 committed w2 w3 where v: "validate_request (ap_clock A w0) a c r ctx = Inr ()"
    and s: "coordinator_save (ap_checkpoints A) p c v ctx w1 = (Inr committed, w2)"
    and n: "rp_advance (ap_runs A) (r_id r) (r_version committed) WAITING_APPROVAL w3 = (Inr r', w')"
    using assms unfolding request_approval_def by (auto simp: abind_eq_Inr)
  have "r_id r = ar_run_id a" and "\<exists>s \<in> set (ck_approvals c). at_request s = a \<and> at_decision s = None"
    using v by (auto simp: validate_request_def rbind_eq_Inr dest: find_approval_Inr split: if_splits)
  with s n show ?thesis by auto
qed

lemma dispatch_decided:
  assumes "decide_operation A p x c v r call w = (Inr r', w')"
  shows "\<exists>committed w1 w2. coordinator_save (ap_checkpoints A) p c v (au_context call) w = (Inr committed, w1)
    \<and> announced A (r_id r) (ap_decided A x (au_context call)) w1 = (Inr (), w2)
    \<and> apply_outcome A (ad_outcome x) (r_id r) (r_version committed) w2 = (Inr r', w')"
  using assms by (auto simp: decide_operation_def abind_eq_Inr)

lemma decide_state_steps:
  assumes "decide_state A p x c v ctx r s w = (Inr r', w')"
  shows "at_decision s = Some x \<and> r' = r \<and> w' = w
    \<or> at_decision s = None \<and> r_status r = WAITING_APPROVAL \<and> r_version r = v
      \<and> validate_decision x (at_request s) c r ctx = Inr ()
      \<and> (\<exists>q call committed w1 w2 w3. decision_access x ctx = Inr q \<and> authorized (ap_dispatcher A) q w call w1
          \<and> coordinator_save (ap_checkpoints A) p c v (au_context call) w1 = (Inr committed, w2)
          \<and> announced A (r_id r) (ap_decided A x (au_context call)) w2 = (Inr (), w3)
          \<and> apply_outcome A (ad_outcome x) (r_id r) (r_version committed) w3 = (Inr r', w'))"
proof (cases "at_decision s")
  case (Some y)
  with assms show ?thesis by (auto simp: decide_state_def araise_def split: if_splits)
next
  case None
  with assms obtain q where s: "r_status r = WAITING_APPROVAL" "r_version r = v" "validate_decision x (at_request s) c r ctx = Inr ()"
    and q: "decision_access x ctx = Inr q" and d: "dispatch (ap_dispatcher A) q (decide_operation A p x c v r) w = (Inr r', w')"
    by (auto simp: decide_state_def abind_eq_Inr araise_def split: if_splits)
  obtain call w1 where c: "authorized (ap_dispatcher A) q w call w1" "decide_operation A p x c v r call w1 = (Inr r', w')"
    using dispatch_Inr [OF d] by blast
  from None s q c(1) dispatch_decided [OF c(2)] show ?thesis by blast
qed

lemma find_approval_sole:
  "find_approval c i = Inr s \<longleftrightarrow> filter (\<lambda>y. ar_approval_id (at_request y) = i) (ck_approvals c) = [s]"
  by (auto simp: find_approval_def split: list.splits)

lemma decide_steps:
  assumes "decide A p x c v ctx w = (Inr r', w')"
  shows "\<exists>r marker current s w0 w1. rp_get (ap_runs A) (ad_run_id x) w = (Inr r, w0) \<and> latest_checkpoint r = Some marker
    \<and> gw_load (ap_gateway A) p marker (r_id r) (r_scope r) ctx w0 = (Inr current, w1)
    \<and> find_approval current (ad_approval_id x) = Inr s \<and> decide_state A p x c v ctx r s w1 = (Inr r', w')"
proof -
  obtain r w0 where r: "rp_get (ap_runs A) (ad_run_id x) w = (Inr r, w0)" and "(case latest_checkpoint r of
       None \<Rightarrow> araise (invalid_request ''approval_checkpoint_missing'' ''WorkflowRun has no approval checkpoint'')
     | Some marker \<Rightarrow>
         abind (gw_load (ap_gateway A) p marker (r_id r) (r_scope r) ctx) (\<lambda>current.
         abind (aresult (find_approval current (ad_approval_id x))) (\<lambda>state. decide_state A p x c v ctx r state))) w0 = (Inr r', w')"
    using assms by (auto simp: decide_def abind_eq_Inr approval_workflow_def require_workflow_def araise_def split: if_splits)
  then show ?thesis by (cases "latest_checkpoint r") (auto simp: abind_eq_Inr araise_def)
qed

end
