(* ===== verification/Checkpoint_Properties.thy ===== *)
theory Checkpoint_Properties
  imports Checkpoint_Recovery Samples Checkpoint_Approval
begin

section \<open>Properties of checkpoints, their stores and recovery\<close>

text \<open>
  What \<open>checkpoint/\<close> promises: a checkpoint survives its encoding and betrays tampering, the store
  keeps one sequence per Run and never loses a durable side effect, the gateway returns only what
  was authorized, a fallback is the nearest valid ancestor, and a recovered Run runs from a verified
  checkpoint of the requested definition. The last section is about approvals: a decision is durable
  before the Run goes on.
\<close>

subsection \<open>Concrete inputs\<close>

text \<open>A digest that tells the first checkpoint of a Run, any attempt of it but the first, and the rest apart.\<close>

definition sample_checkpoint_digest :: "json_object \<Rightarrow> string" where
  "sample_checkpoint_digest d = (if obj_get d ''attempt'' \<noteq> JInt 1 then replicate 64 (CHR ''f'')
     else if obj_get d ''sequence'' = JInt 1 then replicate 64 (CHR ''1'') else replicate 64 (CHR ''2''))"

definition sample_effect :: side_effect where
  "sample_effect = \<lparr>sf_operation = \<lparr>rs_namespace = ''core'', rs_kind = ''tool'', rs_id = ''t1'', rs_owner = None\<rparr>,
     sf_key = ''k1'', sf_fingerprint = replicate 64 (CHR ''a''), sf_result = None, sf_outcome = EFFECT_FAILED\<rparr>"

definition sample_checkpoint :: checkpoint where
  "sample_checkpoint = \<lparr>ck_contract = ''1'', ck_id = ''c1'', ck_run_id = ''r1'', ck_workflow_id = ''f1'', ck_definition_id = ''d1'',
     ck_graph_version = ''g1'', ck_scope = sample_scope, ck_sequence = 1, ck_attempt = 1, ck_previous = None,
     ck_nodes = [\<lparr>ns_node_id = ''n1'', ns_outcome = NODE_SUCCEEDED, ns_output_ref = None, ns_error_ref = None, ns_approval = None\<rparr>],
     ck_pending = [''n2''], ck_external = [], ck_effects = [sample_effect], ck_approvals = [], ck_created_at = sample_time 3,
     ck_integrity = \<lparr>ci_algorithm = ''sha256'', ci_digest = replicate 64 (CHR ''1'')\<rparr>\<rparr>"

definition sample_successor :: checkpoint where
  "sample_successor = sample_checkpoint\<lparr>ck_id := ''c2'', ck_sequence := 2, ck_previous := Some ''c1'', ck_pending := [],
     ck_integrity := \<lparr>ci_algorithm = ''sha256'', ci_digest = replicate 64 (CHR ''2'')\<rparr>\<rparr>"

text \<open>The first checkpoint with another attempt written into it.\<close>

definition sample_tampered :: checkpoint where
  "sample_tampered = sample_checkpoint\<lparr>ck_attempt := 2\<rparr>"

definition sample_store :: checkpoint_store where
  "sample_store = snd (store_save sample_checkpoint_digest sample_successor sample_scope
     (snd (store_save sample_checkpoint_digest sample_checkpoint sample_scope (new_store ''p1''))))"

definition sample_query :: checkpoint_query where
  "sample_query = \<lparr>qu_provider = ''p1'', qu_run_id = ''r1'', qu_scope = sample_scope, qu_graph_version = None, qu_limit = 1, qu_cursor = None\<rparr>"

lemmas sample_checkpoints = sample_checkpoint_def sample_successor_def sample_tampered_def sample_scope_def sample_effect_def

lemma sample_checkpoint_sel [simp]:
  "ck_id sample_checkpoint = ''c1''" "ck_id sample_successor = ''c2''" "ck_sequence sample_checkpoint = 1"
  "ck_sequence sample_successor = 2" "ck_run_id sample_checkpoint = ''r1''" "ck_run_id sample_successor = ''r1''"
  "ck_scope sample_checkpoint = sample_scope" "ck_scope sample_successor = sample_scope"
  "ck_attempt sample_tampered = 2" "ck_attempt sample_checkpoint = 1" "ck_attempt sample_successor = 1"
  "ck_previous sample_checkpoint = None" "ck_previous sample_successor = Some ''c1''"
  "ck_effects sample_checkpoint = [sample_effect]" "ck_effects sample_successor = [sample_effect]"
  "ci_digest (ck_integrity sample_checkpoint) = replicate 64 (CHR ''1'')"
  "ci_digest (ck_integrity sample_successor) = replicate 64 (CHR ''2'')"
  by (simp_all add: sample_checkpoint_def sample_successor_def sample_tampered_def)

lemma sample_canonical_digest:
  "canonical_digest sample_checkpoint_digest c = (if ck_attempt c \<noteq> 1 then replicate 64 (CHR ''f'')
     else if ck_sequence c = 1 then replicate 64 (CHR ''1'') else replicate 64 (CHR ''2''))"
  by (simp add: canonical_digest_def sample_checkpoint_digest_def obj_get_def integrity_data_def body_to_data_def)

lemma sample_verified:
  "verify_integrity sample_checkpoint_digest sample_checkpoint = Inr ()" "verify_integrity sample_checkpoint_digest sample_successor = Inr ()"
  by (simp_all add: verify_integrity_def sample_canonical_digest)

lemma sample_checkpoint_made:
  "mk_checkpoint sample_checkpoint = Inr sample_checkpoint" "mk_checkpoint sample_successor = Inr sample_successor"
  "mk_checkpoint sample_tampered = Inr sample_tampered"
  unfolding mk_checkpoint_Inr by (intro conjI refl, code_simp+)+

lemma sha256_hex_replicate: "sha256_hex (replicate 64 c) \<longleftrightarrow> is_digit c \<or> CHR ''a'' \<le> c \<and> c \<le> CHR ''f''"
  by (simp add: sha256_hex_def list_all_iff)

lemma sample_hex: "sha256_hex (replicate 64 (CHR ''1''))" "sha256_hex (replicate 64 (CHR ''a''))" "sha256_hex (replicate 64 (CHR ''2''))"
  unfolding sha256_hex_replicate by code_simp+

lemma sample_ids:
  "identifier_ok ''c1''" "identifier_ok ''r1''" "identifier_ok ''f1''" "identifier_ok ''d1''" "identifier_ok ''n1''"
  "identifier_ok ''n2''" "identifier_ok ''k1''"
  by code_simp+

lemma sample_scope_ok: "scope_ok sample_scope"
  by code_simp

lemma sample_instant_ok: "datetime_ok (sample_time 3)"
  by (simp add: sample_time_def datetime_ok_def days_in_month_def)

lemma sample_resource_ok: "resource_ok \<lparr>rs_namespace = ''core'', rs_kind = ''tool'', rs_id = ''t1'', rs_owner = None\<rparr>"
  by code_simp+

lemma sample_checkpoint_codable: "checkpoint_codable sample_checkpoint" "checkpoint_codable sample_tampered"
  unfolding checkpoint_codable_def sample_checkpoint_made
  by (simp_all add: sample_tampered_def sample_checkpoint_def sample_effect_def node_state_ok_def mk_node_state_def
      side_effect_ok_def mk_side_effect_def mk_integrity_def sample_hex sample_ids sample_scope_ok sample_instant_ok sample_resource_ok)

lemma sample_narrow: "require_narrower_than sample_scope sample_scope = Inr ()"
  by code_simp

lemma sample_store_contents:
  "sample_store = \<lparr>st_provider = ''p1'', st_checkpoints = [(''c1'', sample_checkpoint), (''c2'', sample_successor)],
     st_sequences = [((''r1'', 1), ''c1''), ((''r1'', 2), ''c2'')]\<rparr>"
  by (simp add: sample_store_def store_save_def new_store_def sample_verified sample_narrow expected_sequence_def run_sequences_def
      predecessor_check_def keeps_effects_def effect_of_def effects_by_key_def)

lemma sample_store_reachable: "store_reachable sample_checkpoint_digest sample_store"
  unfolding sample_store_def by (intro store_reachable.intros sample_checkpoint_made)

subsection \<open>Encoding and integrity\<close>

text \<open>
  C33. A checkpoint that the constructors accept and whose digest verifies is what its decoder reads
  back from its document.
\<close>

theorem checkpoint_survives_encoding:
  assumes "iso_inverse L" "checkpoint_codable c" "verify_integrity H c = Inr ()"
  shows "checkpoint_from_data L H (checkpoint_to_data c) = Inr c"
  using assms by (rule checkpoint_roundtrip)

theorem checkpoint_survives_encoding_witness:
  "checkpoint_from_data sample_library sample_checkpoint_digest (checkpoint_to_data sample_checkpoint) = Inr sample_checkpoint"
  by (intro checkpoint_survives_encoding sample_library_inverse sample_checkpoint_codable sample_verified)

text \<open>
  Tampering shows: a checkpoint that differs anywhere from one that verifies, but carries its
  digest, is refused, when the digest does not collide on the two documents.
\<close>

theorem tampering_is_detected:
  assumes "iso_inverse L" "inj_on H {integrity_data a, integrity_data b}" "checkpoint_codable a" "checkpoint_codable b"
    and "verify_integrity H a = Inr ()" "ck_integrity b = ck_integrity a" "b \<noteq> a"
  shows "verify_integrity H b = Inl integrity_failure"
proof (rule ccontr)
  assume "verify_integrity H b \<noteq> Inl integrity_failure"
  then have "verify_integrity H b = Inr ()" by (simp add: verify_integrity_def split: if_splits)
  with verified_digest_binds [OF assms(1,2,3,5,4)] assms(6,7) show False by simp
qed

theorem tampering_is_detected_witness: "verify_integrity sample_checkpoint_digest sample_tampered = Inl integrity_failure"
proof (rule tampering_is_detected [where a = sample_checkpoint])
  have "sample_checkpoint_digest (integrity_data sample_checkpoint) \<noteq> sample_checkpoint_digest (integrity_data sample_tampered)" by code_simp
  then show "inj_on sample_checkpoint_digest {integrity_data sample_checkpoint, integrity_data sample_tampered}" by auto
  have "ck_attempt sample_tampered \<noteq> ck_attempt sample_checkpoint" by simp
  then show "sample_tampered \<noteq> sample_checkpoint" by metis
  show "ck_integrity sample_tampered = ck_integrity sample_checkpoint" by code_simp
qed (rule sample_library_inverse sample_checkpoint_codable sample_verified)+

subsection \<open>The store\<close>

text \<open>
  C34. In every store that saves and deletions lead to, the two dictionaries describe the same
  checkpoints: each is stored under its own identity with a verified digest, each sequence number of
  a Run belongs to one checkpoint, and a checkpoint has every durable side effect of its predecessor,
  unchanged, whenever a checkpoint of the same Run with a smaller sequence number is stored under the
  identity it names as its predecessor. (A deletion frees an identity: one of a later sequence number that
  is then saved under it is not what the child was checked against, and nothing is said of the two.)
\<close>

theorem store_keeps_its_invariant:
  assumes "store_reachable H st"
  shows "store_invar H st"
  using assms by (rule store_reachable_invar)

theorem store_keeps_its_invariant_witness: "store_invar sample_checkpoint_digest sample_store"
  using sample_store_reachable by (rule store_keeps_its_invariant)

text \<open>
  C35. Listing ends and is complete: following the cursors from the first page, as many turns as
  there are matching checkpoints plus one collect each of them, newest first, whatever the limit of
  a page.
\<close>

theorem listing_collects_every_match:
  assumes "store_reachable H st" "qu_provider q = st_provider st" "1 \<le> qu_limit q"
    and "require_narrower_than (qu_scope q) scope = Inr ()" "sha256_hex (query_fingerprint H q)"
    and "qu_cursor q = None" "List.length (matching_items q st) < n"
  shows "collect_pages n (\<lambda>q. store_list H q scope) q [] st = Some (Inr (add_items (matching_items q st) []), st)"
  using collect_pages_store [OF store_reachable_invar [OF assms(1)] assms(2-5) _ assms(7)] assms(6)
  by (simp add: validate_cursor_def)

theorem listing_collects_every_match_witness:
  "collect_pages 3 (\<lambda>q. store_list sample_checkpoint_digest q sample_scope) sample_query [] sample_store
     = Some (Inr [(''c2'', sample_successor), (''c1'', sample_checkpoint)], sample_store)"
proof -
  have items: "matching_items sample_query sample_store = [sample_successor, sample_checkpoint]" by code_simp
  have "require_narrower_than (qu_scope sample_query) sample_scope = Inr ()" "sha256_hex (query_fingerprint sample_checkpoint_digest sample_query)"
    by code_simp+
  moreover have "qu_provider sample_query = st_provider sample_store" "1 \<le> qu_limit sample_query" "qu_cursor sample_query = None"
    by (simp_all add: sample_query_def sample_store_contents)
  ultimately have "collect_pages 3 (\<lambda>q. store_list sample_checkpoint_digest q sample_scope) sample_query [] sample_store
     = Some (Inr (add_items [sample_successor, sample_checkpoint] []), sample_store)"
    using listing_collects_every_match [OF sample_store_reachable, of sample_query sample_scope 3] items by simp
  moreover have "add_items [sample_successor, sample_checkpoint] [] = [(''c2'', sample_successor), (''c1'', sample_checkpoint)]"
    by code_simp
  ultimately show ?thesis by simp
qed

subsection \<open>The gateway\<close>

text \<open>
  A load through the gateway never leaks: what it returns is the checkpoint that was asked for,
  of the Run and the scope that were authorized, with its digest verified, whatever the store
  answers.
\<close>

theorem load_returns_the_authorized_checkpoint:
  assumes "gateway_load E p ref run scope ctx w = (Inr c, w')"
  shows "ck_id c = ref \<and> ck_run_id c = run \<and> scope_key (ck_scope c) = scope_key scope \<and> verify_integrity (ge_digest E) c = Inr ()"
  using assms by (rule gateway_load_Inr)

text \<open>A policy that allows what is asked, for the same scope and with the same constraints.\<close>

definition grant_as_asked :: "access_request \<Rightarrow> grant" where
  "grant_as_asked q = \<lparr>gr_principal = aq_principal q,
     gr_action = aq_action q, gr_resource = aq_resource q, gr_source_scope = cx_scope (aq_context q), gr_effective_scope = aq_scope q,
     gr_constraints = aq_constraints q, gr_issued_at = sample_time 0, gr_expires_at = None, gr_policy_version = ''1'',
     gr_audit_correlation = ''k1''\<rparr>"

definition sample_port :: "unit checkpoint_port" where
  "sample_port = \<lparr>po_save = (\<lambda>c ctx w. (Operation_Done (Inr (ck_id c)), w)),
     po_load = (\<lambda>ref ctx w. (Operation_Done (fst (store_load sample_checkpoint_digest ref (cx_scope ctx) sample_store)), w)),
     po_list = (\<lambda>q ctx w. (Operation_Done (fst (store_list sample_checkpoint_digest q (cx_scope ctx) sample_store)), w)),
     po_delete = (\<lambda>d ctx w. (Timed_Out, w))\<rparr>"

definition sample_gateway :: "unit gateway_env" where
  "sample_gateway = \<lparr>ge_dispatcher = \<lparr>di_actions = map_of (List.map (\<lambda>a. (action_key a, a)) checkpoint_actions),
       di_audit_denied = (\<lambda>q d. areturn ()), di_audit_granted = (\<lambda>q g. areturn ()), di_audit_failure = (\<lambda>i e. areturn ()),
       di_clock = (\<lambda>_. sample_time 5), di_policy = Some (\<lambda>q. areturn (allow (grant_as_asked q)))\<rparr>,
     ge_stores = [''p1'' \<mapsto> sample_port], ge_clock = (\<lambda>_. sample_time 5), ge_token = (\<lambda>_. new_token ''c1'' False),
     ge_digest = sample_checkpoint_digest\<rparr>"

lemma sample_call_active:
  "check_active sample_context (sample_time 5) = Inr ()"
  "check_active (sample_context\<lparr>cx_cancellation := new_token ''c1'' False\<rparr>) (sample_time 5) = Inr ()"
  by code_simp+

lemma sample_gateway_sel [simp]:
  "ge_stores sample_gateway = [''p1'' \<mapsto> sample_port]" "ge_digest sample_gateway = sample_checkpoint_digest"
  "cx_scope sample_context = sample_scope" "sample_context\<lparr>cx_scope := sample_scope\<rparr> = sample_context"
  "cx_run_id sample_context = ''r1''"
  by (simp_all add: sample_gateway_def sample_context_def)

lemma sample_dispatch:
  assumes "aq_context q = sample_context" "aq_scope q = sample_scope" "aq_action q \<in> set checkpoint_actions"
  shows "dispatch (ge_dispatcher sample_gateway) q operation ()
    = operation \<lparr>au_request = q, au_grant = grant_as_asked q, au_context = sample_context\<rparr> ()"
  using assms sample_call_active sample_narrow
  by (simp add: dispatch_def sample_gateway_def decide_request_def action_contains_def allow_def grant_as_asked_def validate_grant_def
      cross_scope_def grant_expired_def action_simps dom_map_of_conv_image_fst image_image)

lemma sample_gateway_request:
  "gateway_request ''p1'' act sample_scope sample_context cs
    = Inr \<lparr>aq_principal = \<lparr>pr_namespace = ''core'', pr_kind = ''run'', pr_id = ''r1''\<rparr>, aq_action = act,
        aq_resource = \<lparr>rs_namespace = ''core'', rs_kind = ''checkpoint_store'', rs_id = ''p1'', rs_owner = None\<rparr>,
        aq_scope = sample_scope, aq_context = sample_context, aq_constraints = map_of cs\<rparr>"
proof -
  have "mk_identifier ''r1'' = Inr ''r1''" "mk_identifier ''p1'' = Inr ''p1''" by code_simp+
  moreover have "core_principal PRINCIPAL_RUN ''r1'' = Inr \<lparr>pr_namespace = ''core'', pr_kind = ''run'', pr_id = ''r1''\<rparr>"
    "mk_resource ''core'' ''checkpoint_store'' ''p1'' None
       = Inr \<lparr>rs_namespace = ''core'', rs_kind = ''checkpoint_store'', rs_id = ''p1'', rs_owner = None\<rparr>"
    by code_simp+
  ultimately show ?thesis by (simp add: gateway_request_def)
qed

lemma sample_invoke:
  "race () = (Operation_Done (Inr x), ()) \<Longrightarrow> gateway_invoke sample_gateway sample_context race () = (Inr x, ())"
  using await_provider_Inr [of sample_context "\<lambda>_. new_token ''c1'' False" "\<lambda>_. sample_time 5" race "()" x "()"] sample_call_active
  by (simp add: gateway_invoke_def atry_def sample_gateway_def)

lemma sample_load: "gateway_load sample_gateway ''p1'' ''c1'' ''r1'' sample_scope sample_context () = (Inr sample_checkpoint, ())"
  by (simp add: gateway_load_def Let_def sample_narrow sample_gateway_request sample_dispatch checkpoint_actions_def guarded_call_def
      grant_as_asked_def require_exact_constraints_def constraints_eq_def get_store_def sample_invoke sample_port_def store_load_def
      sample_store_contents sample_verified load_check_def action_simps json_eq_refl raise_when_def)

theorem load_returns_the_authorized_checkpoint_witness:
  "ck_id sample_checkpoint = ''c1'' \<and> ck_run_id sample_checkpoint = ''r1''
     \<and> scope_key (ck_scope sample_checkpoint) = scope_key sample_scope \<and> verify_integrity (ge_digest sample_gateway) sample_checkpoint = Inr ()"
  using sample_load by (rule load_returns_the_authorized_checkpoint)

lemma sample_listing:
  "matching_items (sample_query\<lparr>qu_limit := 2\<rparr>) sample_store = [sample_successor, sample_checkpoint]"
  by (simp add: matching_items_def query_selects_def sample_query_def sample_store_contents)

lemma sample_list:
  "gateway_list sample_gateway (sample_query\<lparr>qu_limit := 2\<rparr>) sample_context ()
     = (Inr \<lparr>pg_items = [sample_successor, sample_checkpoint], pg_cursor = None\<rparr>, ())"
proof -
  have "fst (store_list sample_checkpoint_digest (sample_query\<lparr>qu_limit := 2\<rparr>) sample_scope sample_store)
      = Inr \<lparr>pg_items = [sample_successor, sample_checkpoint], pg_cursor = None\<rparr>"
    by (simp add: store_list_def sample_listing) (simp add: sample_query_def sample_store_contents sample_narrow validate_cursor_def)
  then have l: "po_list sample_port (sample_query\<lparr>qu_limit := 2\<rparr>) sample_context ()
      = (Operation_Done (Inr \<lparr>pg_items = [sample_successor, sample_checkpoint], pg_cursor = None\<rparr>), ())"
    by (simp add: sample_port_def)
  have q: "qu_provider sample_query = ''p1''" "qu_scope sample_query = sample_scope" "qu_run_id sample_query = ''r1''"
    "qu_graph_version sample_query = None" "qu_cursor sample_query = None"
    by (simp_all add: sample_query_def)
  show ?thesis
    by (simp add: gateway_list_def Let_def q sample_narrow sample_gateway_request sample_dispatch checkpoint_actions_def
      grant_as_asked_def constrain_list_def granted_value_def mk_query_def get_store_def sample_invoke l validate_page_def action_simps
      insert_commute json_eq_refl)
qed

text \<open>
  What a listing through the gateway returns is bounded and ordered: at most as many checkpoints
  as the caller's limit, however the grant narrowed it, in strictly descending sequence order, all
  of the Run and the scope of the query.
\<close>

theorem listing_stays_in_bounds:
  assumes "gateway_list E q ctx w = (Inr page, w')"
  shows "descending (pg_items page) \<and> int (List.length (pg_items page)) \<le> qu_limit q
    \<and> list_all (\<lambda>c. ck_run_id c = qu_run_id q \<and> scope_key (ck_scope c) = scope_key (qu_scope q)) (pg_items page)"
  using gateway_list_Inr [OF assms] by (simp add: list_all_iff)

theorem listing_stays_in_bounds_witness:
  "descending [sample_successor, sample_checkpoint]"
  using listing_stays_in_bounds [OF sample_list] by simp

text \<open>
  A grant narrower than the query refuses the page after the first: the loop of the fallback keeps
  its own limit when it follows a cursor, which the gateway takes for a drift of the limit.
\<close>

lemma narrowed_listing_stops:
  assumes "qu_cursor q \<noteq> None" "granted ''limit'' = Some (JInt limit)" "limit \<noteq> qu_limit q"
  shows "\<exists>e. constrain_list q granted = Inl e"
  using assms by (auto simp: constrain_list_def granted_value_def)

subsection \<open>Committing\<close>

lemma save_and_mark_Inr:
  assumes "save_and_mark K p c r v ctx w = (Inr r', w')"
  shows "\<exists>ref w1. gw_save (co_gateway K) p c ctx w = (Inr ref, w1)
    \<and> rp_commit (co_runs K) (r_id r) v (ck_id c) (latest_checkpoint r) None None w1 = (Inr r', w')"
proof -
  let ?m = "abind (gw_save (co_gateway K) p c ctx) (\<lambda>_. rp_commit (co_runs K) (r_id r) v (ck_id c) (latest_checkpoint r) None None)"
  have "?m w = (Inr r', w')"
    using assms by (cases "?m w" rule: prod.exhaust)
      (auto simp: save_and_mark_def atry_def abind_def araise_def suppressed_def split: sum.splits exn.splits prod.splits)
  then show ?thesis by (auto simp: abind_eq_Inr)
qed

text \<open>
  C36. The marker of a Run never runs ahead of the store: a commit that returns either found the very
  checkpoint, with the same digest, already marked and left the Run as it was, or it saved the
  checkpoint first and moved the marker of that version of the Run from the predecessor of the
  checkpoint to it.
\<close>

theorem marker_moves_after_the_save:
  assumes "coordinator_save K p c v ctx w = (Inr r', w')"
  shows "\<exists>r w0. rp_get (co_runs K) (ck_run_id c) w = (Inr r, w0) \<and> validate_for_run (co_digest K) c r ctx = Inr ()
    \<and> (latest_checkpoint r = Some (ck_id c) \<and> r' = r
         \<and> (\<exists>existing. gw_load (co_gateway K) p (ck_id c) (r_id r) (r_scope r) ctx w0 = (Inr existing, w')
               \<and> ci_digest (ck_integrity existing) = ci_digest (ck_integrity c))
       \<or> r_version r = v \<and> ck_previous c = latest_checkpoint r
         \<and> (\<exists>ref w1 w2 w3. gw_save (co_gateway K) p c ctx w1 = (Inr ref, w2)
               \<and> rp_commit (co_runs K) (r_id r) v (ck_id c) (latest_checkpoint r) None None w2 = (Inr r', w3)))"
proof -
  obtain r w0 where r: "rp_get (co_runs K) (ck_run_id c) w = (Inr r, w0)" "validate_for_run (co_digest K) c r ctx = Inr ()"
    and rest: "(if latest_checkpoint r = Some (ck_id c)
     then abind (gw_load (co_gateway K) p (ck_id c) (r_id r) (r_scope r) ctx) (\<lambda>existing.
       if ci_digest (ck_integrity existing) \<noteq> ci_digest (ck_integrity c)
       then araise (store_conflict ''checkpoint_identity_conflict''
              ''committed checkpoint reference has different content'' False)
       else areturn r)
     else if r_version r \<noteq> v then araise stale_run_version
     else abind (marker_sequence K p r ctx) (\<lambda>expected.
       if ck_previous c \<noteq> latest_checkpoint r \<or> ck_sequence c \<noteq> expected
       then araise (store_conflict ''stale_checkpoint_marker''
              ''checkpoint sequence or predecessor does not match the Run marker'' True)
       else abind (save_and_mark K p c r v ctx) (\<lambda>committed.
         if \<not> is_workflow committed then araise (AssertionError ''checkpoint commit did not return WorkflowRun'')
         else abind (suppressed (ce_saved (co_events K) c committed ctx)) (\<lambda>_. areturn committed)))) w0 = (Inr r', w')"
    using assms by (auto simp: coordinator_save_def abind_eq_Inr workflow_run_def require_workflow_def araise_def split: if_splits)
  show ?thesis
  proof (cases "latest_checkpoint r = Some (ck_id c)")
    case True
    with rest have "r' = r \<and> (\<exists>existing. gw_load (co_gateway K) p (ck_id c) (r_id r) (r_scope r) ctx w0 = (Inr existing, w')
               \<and> ci_digest (ck_integrity existing) = ci_digest (ck_integrity c))"
      by (auto simp: abind_eq_Inr araise_def split: if_splits)
    with r True show ?thesis by blast
  next
    case False
    with rest obtain committed w1 w2 where "r_version r = v" "ck_previous c = latest_checkpoint r"
      "save_and_mark K p c r v ctx w1 = (Inr committed, w2)" "r' = committed"
      by (auto simp: abind_eq_Inr araise_def suppressed_def split: if_splits)
    with r save_and_mark_Inr [of K p c r v ctx w1] show ?thesis by blast
  qed
qed

text \<open>
  A Run at the first checkpoint, its ports, and a store in which the second checkpoint of the chain
  is corrupt.
\<close>

definition sample_workflow_run :: "checkpoint_id option \<Rightarrow> run" where
  "sample_workflow_run marker = sample_starting\<lparr>r_kind := KIND_WORKFLOW, r_status := RUNNING,
     r_variant := WorkflowRun ''f1'' ''g1'' marker\<rparr>"

definition sample_corrupt :: checkpoint where
  "sample_corrupt = sample_successor\<lparr>ck_attempt := 2\<rparr>"

definition sample_run_ports :: "checkpoint_id option \<Rightarrow> unit run_ports" where
  "sample_run_ports marker = \<lparr>rp_get = (\<lambda>i. areturn (sample_workflow_run marker)),
     rp_commit = (\<lambda>i v ref expected definition graph. areturn (sample_workflow_run (Some ref))),
     rp_recover = (\<lambda>i v ref. areturn ((sample_workflow_run (Some ref))\<lparr>r_status := RECOVERING\<rparr>)),
     rp_fail = (\<lambda>i v e. araise (AssertionError [])),
     rp_advance = (\<lambda>i v s. areturn ((sample_workflow_run (Some ''c1''))\<lparr>r_status := s\<rparr>))\<rparr>"

definition sample_coordinator :: "checkpoint_id option \<Rightarrow> unit coordinator" where
  "sample_coordinator marker = \<lparr>co_gateway = \<lparr>gw_save = (\<lambda>p c ctx. areturn (ck_id c)),
       gw_load = (\<lambda>p ref run scope ctx. if ref = ''c1'' then areturn sample_checkpoint else araise integrity_failure),
       gw_list = (\<lambda>q ctx. areturn \<lparr>pg_items = [sample_corrupt, sample_checkpoint], pg_cursor = None\<rparr>),
       gw_delete = (\<lambda>d ctx. areturn \<lparr>dx_ref = dr_ref d, dx_deleted = True\<rparr>)\<rparr>,
     co_runs = sample_run_ports marker,
     co_events = \<lparr>ce_saved = (\<lambda>c r ctx. areturn ()), ce_failed = (\<lambda>c e ctx. areturn ()),
       ce_migrated = (\<lambda>a b ctx. areturn ()), ce_fallback = (\<lambda>i c ctx. areturn ())\<rparr>,
     co_digest = sample_checkpoint_digest\<rparr>"

lemma sample_workflow_sel [simp]:
  "r_id (sample_workflow_run m) = ''r1''" "r_version (sample_workflow_run m) = 1" "r_scope (sample_workflow_run m) = sample_scope"
  "r_status (sample_workflow_run m) = RUNNING" "r_attempt (sample_workflow_run m) = 1" "r_definition_id (sample_workflow_run m) = ''d1''"
  "r_variant (sample_workflow_run m) = WorkflowRun ''f1'' ''g1'' m" "is_workflow (sample_workflow_run m)"
  "latest_checkpoint (sample_workflow_run m) = m"
  by (simp_all add: sample_workflow_run_def sample_starting_def sample_created_def is_workflow_def latest_checkpoint_def)

lemma sample_successor_sel [simp]:
  "ck_workflow_id sample_successor = ''f1''" "ck_definition_id sample_successor = ''d1''" "ck_graph_version sample_successor = ''g1''"
  "ck_workflow_id sample_checkpoint = ''f1''" "ck_definition_id sample_checkpoint = ''d1''" "ck_graph_version sample_checkpoint = ''g1''"
  "ck_id sample_corrupt = ''c2''" "ck_previous sample_corrupt = Some ''c1''"
  by (simp_all add: sample_successor_def sample_checkpoint_def sample_corrupt_def)

lemma sample_corrupt_refused: "verify_integrity sample_checkpoint_digest sample_corrupt = Inl integrity_failure"
proof -
  have "ck_attempt sample_corrupt = 2" "ci_digest (ck_integrity sample_corrupt) = replicate 64 (CHR ''2'')"
    by (simp_all add: sample_corrupt_def)
  then show ?thesis by (simp add: verify_integrity_def sample_canonical_digest)
qed

lemma sample_marker_commit:
  "coordinator_save (sample_coordinator (Some ''c1'')) ''p1'' sample_successor 1 sample_context ()
     = (Inr (sample_workflow_run (Some ''c2'')), ())"
  by (simp add: coordinator_save_def workflow_run_def require_workflow_def sample_coordinator_def sample_run_ports_def action_simps
      validate_for_run_def sample_verified run_workflow_id_def run_graph_version_def marker_sequence_def save_and_mark_def atry_def
      suppressed_def terminal_def)

theorem marker_moves_after_the_save_witness:
  "validate_for_run sample_checkpoint_digest sample_successor (sample_workflow_run (Some ''c1'')) sample_context = Inr ()"
  using marker_moves_after_the_save [OF sample_marker_commit]
  by (simp add: sample_coordinator_def sample_run_ports_def action_simps)

subsection \<open>Orphans\<close>

lemma chain_refs_seen: "chain_refs n load ref seen w = Some (Inr refs, w') \<Longrightarrow> seen \<subseteq> refs \<and> set_option ref \<subseteq> refs"
proof (induction n load ref seen w rule: chain_refs.induct)
  case (3 n load r seen w)
  obtain res w1 where l: "load r w = (res, w1)" by fastforce
  with 3(2) obtain c where r: "r \<notin> seen" "res = Inr c" "chain_refs n load (ck_previous c) (insert r seen) w1 = Some (Inr refs, w')"
    by (auto split: if_splits sum.splits)
  have "insert r seen \<subseteq> refs \<and> set_option (ck_previous c) \<subseteq> refs" by (rule 3(1) [OF r(1) l [symmetric] r(2,3)])
  then show ?case by simp
qed simp_all

text \<open>
  A checkpoint of the committed chain is never deleted: the deletion of an orphan reaches the
  store only for a reference that the walk from the marker did not meet, so not for the marker.
\<close>

theorem committed_chain_is_kept:
  assumes "delete_orphan K fuel d ctx w = Some (Inr x, w')"
  shows "\<exists>r w1 refs w2. rp_get (co_runs K) (dr_run_id d) w = (Inr r, w1)
    \<and> chain_refs fuel (\<lambda>ref. gw_load (co_gateway K) (dr_provider d) ref (r_id r) (r_scope r) ctx) (latest_checkpoint r) {} w1
        = Some (Inr refs, w2)
    \<and> dr_ref d \<notin> refs \<and> latest_checkpoint r \<noteq> Some (dr_ref d) \<and> gw_delete (co_gateway K) d ctx w2 = (Inr x, w')"
proof -
  obtain r w1 where r: "workflow_run K (dr_run_id d) w = (Inr r, w1)"
    using assms by (auto simp: delete_orphan_def split: prod.splits sum.splits)
  then obtain refs w2 where c: "chain_refs fuel (\<lambda>ref. gw_load (co_gateway K) (dr_provider d) ref (r_id r) (r_scope r) ctx)
      (latest_checkpoint r) {} w1 = Some (Inr refs, w2)" "dr_ref d \<notin> refs" "gw_delete (co_gateway K) d ctx w2 = (Inr x, w')"
    using assms by (auto simp: delete_orphan_def split: if_splits option.splits prod.splits sum.splits)
  moreover have "rp_get (co_runs K) (dr_run_id d) w = (Inr r, w1)"
    using r by (auto simp: workflow_run_def abind_eq_Inr require_workflow_def araise_def split: if_splits)
  moreover have "latest_checkpoint r \<noteq> Some (dr_ref d)" using chain_refs_seen [OF c(1)] c(2) by auto
  ultimately show ?thesis by blast
qed

definition sample_delete :: delete_request where
  "sample_delete = \<lparr>dr_provider = ''p1'', dr_run_id = ''r1'', dr_ref = ''c2'', dr_scope = sample_scope\<rparr>"

theorem committed_chain_is_kept_witness:
  "\<exists>refs. chain_refs 1 (\<lambda>ref. gw_load (co_gateway (sample_coordinator (Some ''c1''))) ''p1'' ref ''r1'' sample_scope sample_context)
      (Some ''c1'') {} () = Some (Inr refs, ()) \<and> ''c2'' \<notin> refs"
proof -
  have "chain_refs (Suc 0) (\<lambda>ref. gw_load (co_gateway (sample_coordinator (Some ''c1''))) ''p1'' ref ''r1'' sample_scope sample_context)
      (Some ''c1'') {} () = Some (Inr {''c1''}, ())"
    by (simp add: sample_coordinator_def action_simps)
  then have "delete_orphan (sample_coordinator (Some ''c1'')) 1 sample_delete sample_context ()
      = Some (Inr \<lparr>dx_ref = ''c2'', dx_deleted = True\<rparr>, ())"
    by (simp add: delete_orphan_def workflow_run_def require_workflow_def sample_coordinator_def sample_run_ports_def action_simps
        sample_delete_def)
  from committed_chain_is_kept [OF this] show ?thesis
    by (simp add: sample_coordinator_def sample_run_ports_def action_simps sample_delete_def)
qed

subsection \<open>Recovery\<close>

text \<open>
  C37. The fallback is the nearest one: from a corrupt marker the search along the chain answers with
  a checkpoint exactly when it is the first ancestor whose digest verifies.
\<close>

theorem fallback_is_the_nearest_valid:
  assumes "map_of by_ref marker = Some x" "verify_integrity H x = Inl e"
  shows "fallback_candidate H by_ref marker = Inr c \<longleftrightarrow> (\<exists>n. nearest_valid H (map_of by_ref) n (ck_previous x) c)"
proof -
  have "fallback_candidate H by_ref marker = Inr c \<longleftrightarrow> chain_search H by_ref (ck_previous x) {marker} = Inr (Some c)"
    using assms(1) by (auto simp: fallback_candidate_def rbind_eq_Inr split: option.splits)
  then show ?thesis using chain_search_iff [OF assms] by simp
qed

definition sample_listed :: "(checkpoint_id \<times> checkpoint) list" where
  "sample_listed = [(''c2'', sample_corrupt), (''c1'', sample_checkpoint)]"

theorem fallback_is_the_nearest_valid_witness: "fallback_candidate sample_checkpoint_digest sample_listed ''c2'' = Inr sample_checkpoint"
proof -
  have l: "map_of sample_listed ''c2'' = Some sample_corrupt" "map_of sample_listed ''c1'' = Some sample_checkpoint"
    by (simp_all add: sample_listed_def)
  have "nearest_valid sample_checkpoint_digest (map_of sample_listed) 0 (ck_previous sample_corrupt) sample_checkpoint"
    unfolding sample_successor_sel using l(2) sample_verified(1) by (rule nearest_valid.here)
  then show ?thesis using fallback_is_the_nearest_valid [OF l(1) sample_corrupt_refused] by blast
qed

definition sample_recovery :: "unit recovery" where
  "sample_recovery = \<lparr>rv_coordinator = sample_coordinator (Some ''c2''), rv_migrators = Map.empty,
     rv_restore = (\<lambda>c ctx. areturn ()), rv_audit_failure = (\<lambda>i e. areturn ())\<rparr>"

definition sample_recovery_request :: recovery_request where
  "sample_recovery_request = \<lparr>rq_run_id = ''r1'', rq_version = 1, rq_provider = ''p1'', rq_definition = ''d1'', rq_graph = ''g1'',
     rq_allow_fallback = True, rq_fail_on_restore = True\<rparr>"

definition sample_recovered :: recovery_result where
  "sample_recovered = \<lparr>rr_run = (sample_workflow_run (Some ''c1''))\<lparr>r_status := RUNNING\<rparr>, rr_checkpoint = sample_checkpoint,
     rr_migrated = False, rr_fell_back = True\<rparr>"

lemma sample_recovery_sel [simp]:
  "rv_coordinator sample_recovery = sample_coordinator (Some ''c2'')" "rv_restore sample_recovery = (\<lambda>c ctx. areturn ())"
  "rv_audit_failure sample_recovery = (\<lambda>i e. areturn ())" "co_runs (sample_coordinator m) = sample_run_ports m"
  "co_digest (sample_coordinator m) = sample_checkpoint_digest"
  "gw_load (co_gateway (sample_coordinator m)) =
     (\<lambda>p ref run scope ctx. if ref = ''c1'' then areturn sample_checkpoint else araise integrity_failure)"
  "gw_list (co_gateway (sample_coordinator m)) = (\<lambda>q ctx. areturn \<lparr>pg_items = [sample_corrupt, sample_checkpoint], pg_cursor = None\<rparr>)"
  "ce_fallback (co_events (sample_coordinator m)) = (\<lambda>i c ctx. areturn ())"
  by (simp_all add: sample_recovery_def sample_coordinator_def)

lemma sample_request_sel [simp]:
  "rq_run_id sample_recovery_request = ''r1''" "rq_version sample_recovery_request = 1" "rq_provider sample_recovery_request = ''p1''"
  "rq_definition sample_recovery_request = ''d1''" "rq_graph sample_recovery_request = ''g1''"
  "rq_allow_fallback sample_recovery_request" "rq_fail_on_restore sample_recovery_request"
  by (simp_all add: sample_recovery_request_def)

lemma sample_may_fall_back: "may_fall_back sample_recovery_request integrity_failure"
proof -
  have "integrity_failure = CoreError \<lparr>ed_category = PROTOCOL_FAILURE, ed_code = ''checkpoint_integrity_failure'',
     ed_message = ''checkpoint integrity verification failed'', ed_retryable = False, ed_cause_id = None, ed_metadata = []\<rparr>"
    by code_simp
  note e = this
  show ?thesis unfolding may_fall_back_def e by simp
qed

lemma sample_loaded:
  "load_with_fallback sample_recovery (Suc 0) sample_recovery_request (sample_workflow_run (Some ''c2'')) sample_context ()
     = Some (Inr (sample_checkpoint, True, sample_workflow_run (Some ''c1'')), ())"
proof -
  have c: "fallback_candidate sample_checkpoint_digest (add_items [sample_corrupt, sample_checkpoint] []) ''c2'' = Inr sample_checkpoint"
    by (simp add: add_items_def fallback_candidate_def sample_verified)
  show ?thesis
    by (simp add: load_with_fallback_def sample_may_fall_back c commit_fallback_def audited_step_def atry_def sample_run_ports_def
        require_workflow_result_def action_simps)
qed

lemma is_workflow_status [simp]: "is_workflow (r\<lparr>r_status := s\<rparr>) = is_workflow r"
  by (simp add: is_workflow_def)

lemma sample_recovers:
  "recover sample_recovery (Suc 0) sample_recovery_request sample_context () = Some (Inr sample_recovered, ())"
  by (simp add: recover_def sample_loaded recovery_check_def validate_loaded_def target_step_def restore_run_def restore_guarded_def
      atry_def require_workflow_result_def action_simps sample_verified sample_recovered_def sample_run_ports_def terminal_def
      run_workflow_id_def raise_when_def)

text \<open>
  C38. A recovery that returns has done, each step in the world the one before it left: it fetched the
  Run of the request, whose state allows a recovery at the expected version; it loaded the checkpoint
  of the Run's marker, or, if that failed its integrity check and the request allows a fallback, the
  nearest valid checkpoint before it in the collected listing, and moved the marker to it; what it
  loaded verifies and is the Run's; it migrated it, unless it has the definition and graph version of
  the request, and what it restores verifies, has them, and has the same durable side effects; then it
  moved the Run to RECOVERING at that checkpoint, ran the restorer on it, and last advanced the
  recovering Run to RUNNING.
\<close>

theorem recovered_run_was_restored:
  assumes "recover V fuel q ctx w = Some (Inr res, w')"
  shows "\<exists>r w1 c r1 w2 r2 w3 recovering w4 w5. rp_get (rv_runs V) (rq_run_id q) w = (Inr r, w1) \<and> recovery_check q r ctx = Inr ()
    \<and> \<not> terminal (r_status r) \<and> r_status r \<noteq> CREATED \<and> r_version r = rq_version q
    \<and> recovery_source V fuel q r ctx w1 c (rr_fell_back res) r1 w2 \<and> (rr_fell_back res \<longrightarrow> rq_allow_fallback q)
    \<and> verify_integrity (rv_digest V) c = Inr () \<and> latest_checkpoint r1 = Some (ck_id c) \<and> ck_run_id c = r_id r1
    \<and> target_step V q r1 c ctx w2 = (Inr (rr_checkpoint res, r2, rr_migrated res), w3)
    \<and> verify_integrity (rv_digest V) (rr_checkpoint res) = Inr () \<and> ck_effects (rr_checkpoint res) = ck_effects c
    \<and> ck_definition_id (rr_checkpoint res) = rq_definition q \<and> ck_graph_version (rr_checkpoint res) = rq_graph q
    \<and> rp_recover (rv_runs V) (r_id r2) (r_version r2) (ck_id (rr_checkpoint res)) w3 = (Inr recovering, w4)
    \<and> rv_restore V (rr_checkpoint res) ctx w4 = (Inr (), w5)
    \<and> rp_advance (rv_runs V) (r_id recovering) (r_version recovering) RUNNING w5 = (Inr (rr_run res), w')"
proof -
  from recover_steps [OF assms] obtain r w1 c r1 w2 r2 w3 recovering w4 w5 where
    s: "rp_get (rv_runs V) (rq_run_id q) w = (Inr r, w1)" "recovery_check q r ctx = Inr ()"
    "recovery_source V fuel q r ctx w1 c (rr_fell_back res) r1 w2" "validate_loaded (rv_digest V) c r1 = Inr ()"
    "target_step V q r1 c ctx w2 = (Inr (rr_checkpoint res, r2, rr_migrated res), w3)"
    "rp_recover (rv_runs V) (r_id r2) (r_version r2) (ck_id (rr_checkpoint res)) w3 = (Inr recovering, w4)"
    "rv_restore V (rr_checkpoint res) ctx w4 = (Inr (), w5)"
    "rp_advance (rv_runs V) (r_id recovering) (r_version recovering) RUNNING w5 = (Inr (rr_run res), w')" by blast
  have ok: "\<not> terminal (r_status r)" "r_status r \<noteq> CREATED" "r_version r = rq_version q"
    using s(2) by (auto simp: recovery_check_def split: if_splits)
  have fb: "rr_fell_back res \<longrightarrow> rq_allow_fallback q" using s(3) by (auto simp: recovery_source_def)
  have c: "verify_integrity (rv_digest V) c = Inr ()" "latest_checkpoint r1 = Some (ck_id c)" "ck_run_id c = r_id r1"
    using s(4) by (auto simp: validate_loaded_def rbind_eq_Inr raise_when_def split: if_splits)
  from s(1-3,5-8) ok fb c target_step_Inr [OF s(5) c(1)] show ?thesis by (intro exI conjI) (assumption | simp)+
qed

theorem recovered_run_was_restored_witness:
  "verify_integrity sample_checkpoint_digest sample_checkpoint = Inr () \<and> ck_definition_id sample_checkpoint = ''d1''
   \<and> rq_allow_fallback sample_recovery_request"
proof -
  have f: "rr_fell_back sample_recovered" "rr_checkpoint sample_recovered = sample_checkpoint" by (simp_all add: sample_recovered_def)
  from recovered_run_was_restored [OF sample_recovers] f show ?thesis by auto
qed

section \<open>Properties of approvals\<close>

text \<open>
  A decision is durable before the Run moves, it is taken by its own actor under a grant, and it is
  applied as it was decided.
\<close>

subsection \<open>Concrete inputs\<close>

definition sample_prompt :: checkpoint_reference where
  "sample_prompt = \<lparr>kr_type = ''prompt'', kr_resource = \<lparr>rs_namespace = ''core'', rs_kind = ''prompt'', rs_id = ''q1'', rs_owner = None\<rparr>,
     kr_scope = sample_scope, kr_version = None\<rparr>"

definition sample_approval :: approval_request where
  "sample_approval = \<lparr>ar_approval_id = ''a1'', ar_run_id = ''r1'', ar_node_id = ''n2'', ar_correlation_id = ''k1'',
     ar_scope = sample_scope, ar_allowed = [APPROVED, REJECTED], ar_expires_at = Some (sample_time 9), ar_prompt_ref = sample_prompt\<rparr>"

definition sample_decision :: approval_decision where
  "sample_decision = \<lparr>ad_approval_id = ''a1'', ad_run_id = ''r1'', ad_node_id = ''n2'', ad_correlation_id = ''k1'',
     ad_scope = sample_scope, ad_actor = \<lparr>pr_namespace = ''core'', pr_kind = ''user'', pr_id = ''u1''\<rparr>, ad_outcome = APPROVED,
     ad_decided_at = sample_time 4\<rparr>"

definition sample_pending :: checkpoint where
  "sample_pending = sample_checkpoint\<lparr>ck_approvals := [\<lparr>at_request = sample_approval, at_decision = None\<rparr>]\<rparr>"

definition sample_decided :: checkpoint where
  "sample_decided = sample_successor\<lparr>ck_approvals := [\<lparr>at_request = sample_approval, at_decision = Some sample_decision\<rparr>]\<rparr>"

definition sample_waiting :: run where
  "sample_waiting = (sample_workflow_run (Some ''c1''))\<lparr>r_status := WAITING_APPROVAL\<rparr>"

definition sample_approvals :: "unit approvals" where
  "sample_approvals = \<lparr>ap_checkpoints = sample_coordinator (Some ''c1''),
     ap_gateway = (co_gateway (sample_coordinator (Some ''c1'')))\<lparr>gw_load := \<lambda>p ref run scope ctx. areturn sample_pending\<rparr>,
     ap_runs = (sample_run_ports (Some ''c1''))\<lparr>rp_get := \<lambda>i. areturn sample_waiting\<rparr>,
     ap_cancel = (\<lambda>i v. areturn sample_waiting), ap_dispatcher = ge_dispatcher sample_gateway,
     ap_audit_failure = (\<lambda>i e. areturn ()), ap_clock = (\<lambda>_. sample_time 5), ap_requested = (\<lambda>a ctx. areturn ()),
     ap_decided = (\<lambda>x ctx. areturn ())\<rparr>"

lemma sample_waiting_sel [simp]:
  "r_id sample_waiting = ''r1''" "r_version sample_waiting = 1" "r_scope sample_waiting = sample_scope"
  "r_status sample_waiting = WAITING_APPROVAL" "latest_checkpoint sample_waiting = Some ''c1''" "is_workflow sample_waiting"
  using sample_workflow_sel [of "Some ''c1''"] by (simp_all add: sample_waiting_def latest_checkpoint_def)

lemma sample_decided_saved:
  "coordinator_save (sample_coordinator (Some ''c1'')) ''p1'' sample_decided 1 sample_context () = (Inr (sample_workflow_run (Some ''c2'')), ())"
proof -
  have v: "verify_integrity sample_checkpoint_digest sample_decided = Inr ()"
    by (simp add: verify_integrity_def sample_canonical_digest sample_decided_def)
  have "validate_for_run sample_checkpoint_digest sample_decided (sample_workflow_run (Some ''c1'')) sample_context = Inr ()"
    by (simp add: validate_for_run_def v run_workflow_id_def run_graph_version_def terminal_def) (simp add: sample_decided_def)
  moreover have "ck_id sample_decided = ''c2''" "ck_run_id sample_decided = ''r1''" "ck_previous sample_decided = Some ''c1''"
    "ck_sequence sample_decided = 2" by (simp_all add: sample_decided_def)
  ultimately show ?thesis
    by (simp add: coordinator_save_def workflow_run_def require_workflow_def action_simps marker_sequence_def save_and_mark_def
      atry_def suppressed_def sample_coordinator_def sample_run_ports_def)
qed

lemma sample_decides:
  "decide sample_approvals ''p1'' sample_decision sample_decided 1 sample_context () = (Inr (sample_workflow_run (Some ''c1'')), ())"
proof -
  have f: "find_approval sample_pending ''a1'' = Inr \<lparr>at_request = sample_approval, at_decision = None\<rparr>"
    "find_approval sample_decided ''a1'' = Inr \<lparr>at_request = sample_approval, at_decision = Some sample_decision\<rparr>"
    by (simp_all add: find_approval_def sample_pending_def sample_decided_def sample_approval_def)
  have v: "validate_decision sample_decision sample_approval sample_decided sample_waiting sample_context = Inr ()"
    by (simp add: validate_decision_def f) code_simp
  define q where "q = \<lparr>aq_principal = ad_actor sample_decision, aq_action = checkpoint_action ''approval.decide'',
     aq_resource = \<lparr>rs_namespace = ''core'', rs_kind = ''approval'', rs_id = ''a1'', rs_owner = None\<rparr>, aq_scope = sample_scope,
     aq_context = sample_context, aq_constraints = map_of (decision_constraints sample_decision)\<rparr>"
  have "mk_identifier ''a1'' = Inr ''a1''" "mk_resource ''core'' ''approval'' ''a1'' None
      = Inr \<lparr>rs_namespace = ''core'', rs_kind = ''approval'', rs_id = ''a1'', rs_owner = None\<rparr>" by code_simp+
  then have a: "decision_access sample_decision sample_context = Inr q"
    by (simp add: decision_access_def q_def) (simp add: sample_decision_def)
  have q: "aq_context q = sample_context" "aq_scope q = sample_scope" "aq_action q = checkpoint_action ''approval.decide''"
    "aq_constraints q = map_of (decision_constraints sample_decision)"
    by (simp_all add: q_def)
  have "constraints_eq (map_of (decision_constraints sample_decision)) (decision_constraints sample_decision)"
    by (simp add: constraints_eq_def decision_constraints_def json_eq_refl insert_commute)
  with q have d: "dispatch (ap_dispatcher sample_approvals) q (decide_operation sample_approvals ''p1'' sample_decision sample_decided 1 sample_waiting) ()
      = (Inr (sample_workflow_run (Some ''c1'')), ())"
    by (simp add: sample_approvals_def sample_dispatch checkpoint_actions_def decide_operation_def grant_as_asked_def raise_when_def
      action_simps sample_decided_saved announced_def atry_def)
      (simp add: sample_decision_def apply_outcome_def sample_run_ports_def action_simps require_workflow_result_def)
  have r: "rp_get (ap_runs sample_approvals) i = areturn sample_waiting"
    "gw_load (ap_gateway sample_approvals) p i j k ctx = areturn sample_pending" for i p j k ctx
    by (simp_all add: sample_approvals_def)
  have "ad_run_id sample_decision = ''r1''" "ad_approval_id sample_decision = ''a1''" by (simp_all add: sample_decision_def)
  then show ?thesis
    by (simp add: decide_def approval_workflow_def require_workflow_def decide_state_def action_simps r f v a d require_workflow_result_def)
qed

subsection \<open>Durable first\<close>

text \<open>
  C39. A decision takes effect once, and only after it is durable. A call of \<open>decide\<close> that returns
  fetched the Run the decision names, loaded the checkpoint of the Run's marker and found in it the
  one approval of that identity. Either the approval already holds this very decision, and the call
  answered the Run as it was and did nothing else; or the approval was undecided, the Run was waiting
  at the expected version, the decision is an allowed answer to the stored request, and then, each
  step in the world the one before it left: the actor was authorized, the checkpoint that holds the
  decision was committed, the decision was announced, and the Run was moved as the outcome says.
\<close>

theorem decision_is_durable_first:
  assumes "decide A p x c v ctx w = (Inr r', w')"
  shows "\<exists>r w0 marker current w1 s. rp_get (ap_runs A) (ad_run_id x) w = (Inr r, w0) \<and> latest_checkpoint r = Some marker
    \<and> gw_load (ap_gateway A) p marker (r_id r) (r_scope r) ctx w0 = (Inr current, w1)
    \<and> filter (\<lambda>y. ar_approval_id (at_request y) = ad_approval_id x) (ck_approvals current) = [s]
    \<and> (at_decision s = Some x \<and> r' = r \<and> w' = w1
     \<or> at_decision s = None \<and> r_status r = WAITING_APPROVAL \<and> r_version r = v
       \<and> ad_outcome x \<in> set (ar_allowed (at_request s)) \<and> decision_identity x = request_identity (at_request s)
       \<and> (\<exists>t \<in> set (ck_approvals c). at_request t = at_request s \<and> at_decision t = Some x)
       \<and> (\<exists>q call w2 committed w3 w4. decision_access x ctx = Inr q \<and> aq_principal q = ad_actor x
           \<and> authorized (ap_dispatcher A) q w1 call w2
           \<and> coordinator_save (ap_checkpoints A) p c v (au_context call) w2 = (Inr committed, w3)
           \<and> announced A (r_id r) (ap_decided A x (au_context call)) w3 = (Inr (), w4)
           \<and> apply_outcome A (ad_outcome x) (r_id r) (r_version committed) w4 = (Inr r', w')))"
proof -
  from decide_steps [OF assms] obtain r marker current s w0 w1 where
    g: "rp_get (ap_runs A) (ad_run_id x) w = (Inr r, w0)" "latest_checkpoint r = Some marker"
      "gw_load (ap_gateway A) p marker (r_id r) (r_scope r) ctx w0 = (Inr current, w1)"
      "filter (\<lambda>y. ar_approval_id (at_request y) = ad_approval_id x) (ck_approvals current) = [s]"
    and d: "decide_state A p x c v ctx r s w1 = (Inr r', w')"
    unfolding find_approval_sole by blast
  have "aq_principal q = ad_actor x" if "decision_access x ctx = Inr q" for q
    using that by (auto simp: decision_access_def rbind_eq_Inr)
  then have D: "at_decision s = Some x \<and> r' = r \<and> w' = w1
     \<or> at_decision s = None \<and> r_status r = WAITING_APPROVAL \<and> r_version r = v
       \<and> ad_outcome x \<in> set (ar_allowed (at_request s)) \<and> decision_identity x = request_identity (at_request s)
       \<and> (\<exists>t \<in> set (ck_approvals c). at_request t = at_request s \<and> at_decision t = Some x)
       \<and> (\<exists>q call w2 committed w3 w4. decision_access x ctx = Inr q \<and> aq_principal q = ad_actor x
           \<and> authorized (ap_dispatcher A) q w1 call w2
           \<and> coordinator_save (ap_checkpoints A) p c v (au_context call) w2 = (Inr committed, w3)
           \<and> announced A (r_id r) (ap_decided A x (au_context call)) w3 = (Inr (), w4)
           \<and> apply_outcome A (ad_outcome x) (r_id r) (r_version committed) w4 = (Inr r', w'))"
    using decide_state_steps [OF d] validate_decision_Inr [of x "at_request s" c r ctx] by metis
  show ?thesis by (intro exI conjI) (rule g D)+
qed

theorem decision_is_durable_first_witness:
  "\<exists>q call committed. aq_principal q = ad_actor sample_decision \<and> authorized (ap_dispatcher sample_approvals) q () call ()
     \<and> coordinator_save (ap_checkpoints sample_approvals) ''p1'' sample_decided 1 (au_context call) () = (Inr committed, ())
     \<and> apply_outcome sample_approvals APPROVED ''r1'' (r_version committed) () = (Inr (sample_workflow_run (Some ''c1'')), ())"
proof -
  have g: "rp_get (ap_runs sample_approvals) i = areturn sample_waiting"
    "gw_load (ap_gateway sample_approvals) p i j k ctx = areturn sample_pending" for i p j k ctx
    by (simp_all add: sample_approvals_def)
  have f: "filter (\<lambda>y. ar_approval_id (at_request y) = ad_approval_id sample_decision) (ck_approvals sample_pending)
      = [\<lparr>at_request = sample_approval, at_decision = None\<rparr>]" "ad_outcome sample_decision = APPROVED"
    by (simp_all add: sample_pending_def sample_decision_def sample_approval_def)
  show ?thesis
    using decision_is_durable_first [OF sample_decides] by (auto simp: g f areturn_def)
qed

end
