(* ===== verification/Workflow_Model.thy ===== *)
theory Workflow_Model
  imports Checkpoint_Model Value_Schema
begin

section \<open>Workflow definitions\<close>

text \<open>
  The definition half of \<open>workflow/model.py\<close>: permissions, bindings, dependencies, the execution
  policy, the node configurations, nodes and definitions, each with the checks of its constructor
  and its encoding. Every decoder first compares the field names, then evaluates the fields in the
  order the constructor call lists them. \<open>as_json_value\<close> copies a value, so it is the identity on
  the values of \<open>json\<close>; \<open>py_fromiso\<close> includes the conversion of \<open>require_utc\<close>.
\<close>

subsection \<open>Narrowing\<close>

definition as_string :: "json \<Rightarrow> string \<Rightarrow> string result" where
  "as_string v fname = (case v of JStr s \<Rightarrow> Inr s | _ \<Rightarrow> Inl (ValueError (fname @ '' must be a string'')))"

definition as_bool :: "json \<Rightarrow> string \<Rightarrow> bool result" where
  "as_bool v fname = (case v of JBool b \<Rightarrow> Inr b | _ \<Rightarrow> Inl (ValueError (fname @ '' must be a boolean'')))"

definition text_at :: "json_object \<Rightarrow> string \<Rightarrow> string \<Rightarrow> string result" where
  "text_at d k fname = rbind (obj_index d k) (\<lambda>v. as_string v fname)"

definition flag_at :: "json_object \<Rightarrow> string \<Rightarrow> string \<Rightarrow> bool result" where
  "flag_at d k fname = rbind (obj_index d k) (\<lambda>v. as_bool v fname)"

text \<open>\<open>NodeId(_as_string(data[k], name))\<close>, for any identifier class\<close>

definition name_at :: "json_object \<Rightarrow> string \<Rightarrow> string \<Rightarrow> string result" where
  "name_at d k fname = rbind (text_at d k fname) mk_identifier"

text \<open>\<open>f(value) if value is not None else None\<close>\<close>

definition value_or_none :: "(json \<Rightarrow> 'a result) \<Rightarrow> json \<Rightarrow> 'a option result" where
  "value_or_none f v = (if v = JNull then Inr None else rbind (f v) (\<lambda>x. Inr (Some x)))"

lemma as_text_simps [simp]: "as_string (JStr s) n = Inr s" "as_bool (JBool b) n = Inr b"
  by (simp_all add: as_string_def as_bool_def)

lemma text_at_simps [simp]:
  "text_at ((k, v) # d) k' n = (if k = k' then as_string v n else text_at d k' n)"
  "flag_at ((k, v) # d) k' n = (if k = k' then as_bool v n else flag_at d k' n)"
  "name_at ((k, v) # d) k' n = (if k = k' then rbind (as_string v n) mk_identifier else name_at d k' n)"
  by (simp_all add: text_at_def flag_at_def name_at_def)

lemma value_or_none_simps [simp]:
  "value_or_none f JNull = Inr None"
  "value_or_none f (JStr s) = rbind (f (JStr s)) (\<lambda>x. Inr (Some x))"
  "value_or_none f (JInt i) = rbind (f (JInt i)) (\<lambda>x. Inr (Some x))"
  by (simp_all add: value_or_none_def)

subsection \<open>Enumerations\<close>

datatype workflow_node_type = NODE_AGENT | NODE_SKILL | NODE_TOOL | NODE_CONTEXT | NODE_APPROVAL | NODE_EVALUATION

fun node_type_value :: "workflow_node_type \<Rightarrow> string" where
  "node_type_value NODE_AGENT = ''agent''"
| "node_type_value NODE_SKILL = ''skill''"
| "node_type_value NODE_TOOL = ''tool''"
| "node_type_value NODE_CONTEXT = ''context''"
| "node_type_value NODE_APPROVAL = ''approval''"
| "node_type_value NODE_EVALUATION = ''evaluation''"

datatype workflow_input_source = FROM_WORKFLOW_INPUT | FROM_NODE_OUTPUT

fun input_source_value :: "workflow_input_source \<Rightarrow> string" where
  "input_source_value FROM_WORKFLOW_INPUT = ''workflow_input''"
| "input_source_value FROM_NODE_OUTPUT = ''node_output''"

datatype workflow_failure_mode = FAIL_FAST

fun failure_mode_value :: "workflow_failure_mode \<Rightarrow> string" where
  "failure_mode_value FAIL_FAST = ''fail_fast''"

definition input_sources :: "(string \<times> workflow_input_source) list" where
  "input_sources = List.map (\<lambda>x. (input_source_value x, x)) [FROM_WORKFLOW_INPUT, FROM_NODE_OUTPUT]"

definition failure_modes :: "(string \<times> workflow_failure_mode) list" where
  "failure_modes = List.map (\<lambda>x. (failure_mode_value x, x)) [FAIL_FAST]"

lemma input_source_decodes [simp]: "enum_of L cls input_sources (input_source_value x) = Inr x"
  by (cases x) (simp_all add: enum_of_def input_sources_def)

lemma failure_mode_decodes [simp]: "enum_of L cls failure_modes (failure_mode_value x) = Inr x"
  by (cases x) (simp_all add: enum_of_def failure_modes_def)

subsection \<open>Permissions, bindings and dependencies\<close>

record workflow_permission =
  pm_action :: action_ref
  pm_resource :: resource_ref

definition workflow_permission_to_data :: "workflow_permission \<Rightarrow> json_object" where
  "workflow_permission_to_data p = [(''action'', JObj (action_to_data (pm_action p))), (''resource'', JObj (resource_to_data (pm_resource p)))]"

definition workflow_permission_from_data :: "pylib \<Rightarrow> json_object \<Rightarrow> workflow_permission result" where
  "workflow_permission_from_data L d =
     rbind (require_keys d [''action'', ''resource''] ''Workflow permission'') (\<lambda>_.
     rbind (rbind (object_at d ''action'' ''permission action'') (action_from_data L)) (\<lambda>a.
     rbind (rbind (object_at d ''resource'' ''permission resource'') (resource_from_data L)) (\<lambda>r.
     Inr \<lparr>pm_action = a, pm_resource = r\<rparr>)))"

definition workflow_permission_ok :: "workflow_permission \<Rightarrow> bool" where
  "workflow_permission_ok p \<longleftrightarrow> action_ok (pm_action p) \<and> resource_ok (pm_resource p)"

lemma workflow_permission_roundtrip: "workflow_permission_ok p \<Longrightarrow> workflow_permission_from_data L (workflow_permission_to_data p) = Inr p"
  by (cases p) (simp add: workflow_permission_from_data_def workflow_permission_to_data_def workflow_permission_ok_def require_keys_def same_fields_def
      action_roundtrip resource_roundtrip)

record workflow_input_binding =
  ib_source :: workflow_input_source
  ib_node :: "node_id option"

definition mk_input_binding :: "workflow_input_source \<Rightarrow> node_id option \<Rightarrow> workflow_input_binding result" where
  "mk_input_binding s n =
     (if (s = FROM_NODE_OUTPUT) \<noteq> (n \<noteq> None)
      then Inl (ValueError ''node output binding requires exactly one source node'')
      else Inr \<lparr>ib_source = s, ib_node = n\<rparr>)"

definition input_binding_to_data :: "workflow_input_binding \<Rightarrow> json_object" where
  "input_binding_to_data b = [(''source'', JStr (input_source_value (ib_source b))), (''source_node_id'', opt_str (ib_node b))]"

definition input_binding_from_data :: "pylib \<Rightarrow> json_object \<Rightarrow> workflow_input_binding result" where
  "input_binding_from_data L d =
     rbind (require_keys d [''source'', ''source_node_id''] ''Workflow input binding'') (\<lambda>_.
     rbind (obj_index d ''source_node_id'') (\<lambda>raw_source_node.
     rbind (rbind (text_at d ''source'' ''binding source'') (enum_of L ''WorkflowInputSource'' input_sources)) (\<lambda>s.
     rbind (value_or_none (\<lambda>v. rbind (as_string v ''binding source node'') mk_identifier) raw_source_node) (\<lambda>n.
     mk_input_binding s n))))"

definition input_binding_ok :: "workflow_input_binding \<Rightarrow> bool" where
  "input_binding_ok b \<longleftrightarrow> (ib_source b = FROM_NODE_OUTPUT \<longleftrightarrow> ib_node b \<noteq> None) \<and> opt_id_ok (ib_node b)"

lemma input_binding_roundtrip:
  "input_binding_ok b \<Longrightarrow> input_binding_from_data L (input_binding_to_data b) = Inr b"
  by (cases b; cases "ib_node b")
    (simp_all add: input_binding_from_data_def input_binding_to_data_def input_binding_ok_def require_keys_def same_fields_def
      mk_input_binding_def del: input_source_value.simps)

record workflow_dependency =
  de_source :: node_id
  de_target :: node_id
  de_carries_output :: bool

definition mk_workflow_dependency :: "node_id \<Rightarrow> node_id \<Rightarrow> bool \<Rightarrow> workflow_dependency result" where
  "mk_workflow_dependency s t c =
     (if s = t then Inl (ValueError ''Workflow dependency cannot be a self edge'')
      else Inr \<lparr>de_source = s, de_target = t, de_carries_output = c\<rparr>)"

definition workflow_dependency_to_data :: "workflow_dependency \<Rightarrow> json_object" where
  "workflow_dependency_to_data d = [(''source_node_id'', JStr (de_source d)), (''target_node_id'', JStr (de_target d)),
     (''carries_output'', JBool (de_carries_output d))]"

definition workflow_dependency_from_data :: "json_object \<Rightarrow> workflow_dependency result" where
  "workflow_dependency_from_data d =
     rbind (require_keys d [''source_node_id'', ''target_node_id'', ''carries_output''] ''Workflow dependency'') (\<lambda>_.
     rbind (name_at d ''source_node_id'' ''dependency source node'') (\<lambda>s.
     rbind (name_at d ''target_node_id'' ''dependency target node'') (\<lambda>t.
     rbind (flag_at d ''carries_output'' ''dependency carries_output'') (\<lambda>c.
     mk_workflow_dependency s t c))))"

definition workflow_dependency_ok :: "workflow_dependency \<Rightarrow> bool" where
  "workflow_dependency_ok d \<longleftrightarrow> de_source d \<noteq> de_target d \<and> identifier_ok (de_source d) \<and> identifier_ok (de_target d)"

lemma workflow_dependency_roundtrip: "workflow_dependency_ok d \<Longrightarrow> workflow_dependency_from_data (workflow_dependency_to_data d) = Inr d"
  by (cases d) (simp add: workflow_dependency_from_data_def workflow_dependency_to_data_def workflow_dependency_ok_def require_keys_def same_fields_def
      mk_workflow_dependency_def)

record workflow_output_binding =
  ob_node :: node_id
  ob_required :: bool

definition output_binding_to_data :: "workflow_output_binding \<Rightarrow> json_object" where
  "output_binding_to_data b = [(''source_node_id'', JStr (ob_node b)), (''required'', JBool (ob_required b))]"

definition output_binding_from_data :: "json_object \<Rightarrow> workflow_output_binding result" where
  "output_binding_from_data d =
     rbind (require_keys d [''source_node_id'', ''required''] ''Workflow output binding'') (\<lambda>_.
     rbind (name_at d ''source_node_id'' ''output source node'') (\<lambda>n.
     rbind (flag_at d ''required'' ''output required'') (\<lambda>r.
     Inr \<lparr>ob_node = n, ob_required = r\<rparr>)))"

lemma output_binding_roundtrip:
  "identifier_ok (ob_node b) \<Longrightarrow> output_binding_from_data (output_binding_to_data b) = Inr b"
  by (cases b) (simp add: output_binding_from_data_def output_binding_to_data_def require_keys_def same_fields_def)

record execution_policy =
  xp_max_concurrency :: int
  xp_failure_mode :: workflow_failure_mode
  xp_compensation :: bool
  xp_max_attempts :: int

definition default_execution_policy :: execution_policy where
  "default_execution_policy = \<lparr>xp_max_concurrency = 1, xp_failure_mode = FAIL_FAST, xp_compensation = False, xp_max_attempts = 1\<rparr>"

definition mk_execution_policy :: "execution_policy \<Rightarrow> execution_policy result" where
  "mk_execution_policy p =
     (if xp_max_concurrency p < 1 \<or> xp_max_attempts p < 1
      then Inl (ValueError ''Workflow policy limits must be positive'') else Inr p)"

definition execution_policy_to_data :: "execution_policy \<Rightarrow> json_object" where
  "execution_policy_to_data p = [(''max_concurrency'', JInt (xp_max_concurrency p)),
     (''failure_mode'', JStr (failure_mode_value (xp_failure_mode p))),
     (''compensation_enabled'', JBool (xp_compensation p)), (''max_attempts'', JInt (xp_max_attempts p))]"

definition execution_policy_from_data :: "pylib \<Rightarrow> json_object \<Rightarrow> execution_policy result" where
  "execution_policy_from_data L d =
     rbind (require_keys d [''max_concurrency'', ''failure_mode'', ''compensation_enabled'', ''max_attempts'']
       ''Execution policy'') (\<lambda>_.
     rbind (int_at d ''max_concurrency'' ''max concurrency'') (\<lambda>c.
     rbind (rbind (text_at d ''failure_mode'' ''failure mode'') (enum_of L ''WorkflowFailureMode'' failure_modes)) (\<lambda>m.
     rbind (flag_at d ''compensation_enabled'' ''compensation enabled'') (\<lambda>b.
     rbind (int_at d ''max_attempts'' ''max attempts'') (\<lambda>a.
     mk_execution_policy \<lparr>xp_max_concurrency = c, xp_failure_mode = m, xp_compensation = b, xp_max_attempts = a\<rparr>)))))"

lemma execution_policy_roundtrip:
  "mk_execution_policy p = Inr p \<Longrightarrow> execution_policy_from_data L (execution_policy_to_data p) = Inr p"
  by (cases p) (simp add: execution_policy_from_data_def execution_policy_to_data_def require_keys_def same_fields_def)

subsection \<open>Node configurations\<close>

record agent_node_config =
  an_agent_id :: agent_id
  an_definition_id :: definition_id
  an_model_binding :: model_binding_ref

definition agent_config_to_data :: "agent_node_config \<Rightarrow> json_object" where
  "agent_config_to_data c = [(''agent_id'', JStr (an_agent_id c)), (''definition_id'', JStr (an_definition_id c)),
     (''model_binding_ref'', JStr (an_model_binding c))]"

definition agent_config_from_data :: "json_object \<Rightarrow> agent_node_config result" where
  "agent_config_from_data d =
     rbind (require_keys d [''agent_id'', ''definition_id'', ''model_binding_ref''] ''AgentNode config'') (\<lambda>_.
     rbind (name_at d ''agent_id'' ''Agent id'') (\<lambda>a.
     rbind (name_at d ''definition_id'' ''Agent definition id'') (\<lambda>i.
     rbind (name_at d ''model_binding_ref'' ''model binding ref'') (\<lambda>m.
     Inr \<lparr>an_agent_id = a, an_definition_id = i, an_model_binding = m\<rparr>))))"

definition agent_config_ok :: "agent_node_config \<Rightarrow> bool" where
  "agent_config_ok c \<longleftrightarrow> list_all identifier_ok [an_agent_id c, an_definition_id c, an_model_binding c]"

lemma agent_config_roundtrip: "agent_config_ok c \<Longrightarrow> agent_config_from_data (agent_config_to_data c) = Inr c"
  by (cases c) (simp add: agent_config_from_data_def agent_config_to_data_def agent_config_ok_def require_keys_def same_fields_def)

record approval_node_config =
  vn_prompt_ref :: checkpoint_reference
  vn_allowed :: "approval_outcome list"
  vn_expires_at :: "datetime option"

definition mk_approval_config :: "approval_node_config \<Rightarrow> approval_node_config result" where
  "mk_approval_config c =
     (if vn_allowed c = [] then Inl (ValueError ''ApprovalNode requires at least one allowed outcome'')
      else if \<not> distinct (vn_allowed c) then Inl (ValueError ''ApprovalNode outcomes must be unique'') else Inr c)"

definition approval_config_to_data :: "approval_node_config \<Rightarrow> json_object" where
  "approval_config_to_data c = [(''prompt_ref'', JObj (reference_to_data (vn_prompt_ref c))),
     (''allowed_outcomes'', JList (List.map (\<lambda>x. JStr (approval_outcome_value x)) (vn_allowed c))),
     (''expires_at'', date_json (vn_expires_at c))]"

definition approval_config_from_data :: "pylib \<Rightarrow> json_object \<Rightarrow> approval_node_config result" where
  "approval_config_from_data L d =
     rbind (require_keys d [''prompt_ref'', ''allowed_outcomes'', ''expires_at''] ''ApprovalNode config'') (\<lambda>_.
     rbind (obj_index d ''expires_at'') (\<lambda>raw_expiry.
     rbind (rbind (object_at d ''prompt_ref'' ''approval prompt reference'') (reference_from_data L)) (\<lambda>p.
     rbind (rbind (array_at d ''allowed_outcomes'' ''approval outcomes'') (rmap (\<lambda>v.
       rbind (as_string v ''approval outcome'') (enum_of L ''ApprovalOutcome'' approval_outcomes)))) (\<lambda>allowed.
     rbind (value_or_none (\<lambda>v. rbind (as_string v ''approval expires_at'') (py_fromiso L)) raw_expiry) (\<lambda>e.
     mk_approval_config \<lparr>vn_prompt_ref = p, vn_allowed = allowed, vn_expires_at = e\<rparr>)))))"

definition approval_config_ok :: "approval_node_config \<Rightarrow> bool" where
  "approval_config_ok c \<longleftrightarrow> mk_approval_config c = Inr c \<and> reference_ok (vn_prompt_ref c) \<and> date_ok (vn_expires_at c)"

lemma approval_config_roundtrip:
  "iso_inverse L \<Longrightarrow> approval_config_ok c \<Longrightarrow> approval_config_from_data L (approval_config_to_data c) = Inr c"
  by (cases c; cases "vn_expires_at c")
    (simp_all add: approval_config_from_data_def approval_config_to_data_def approval_config_ok_def require_keys_def
      same_fields_def reference_roundtrip rmap_map)

record evaluation_node_config =
  en_policy_ref :: string
  en_evaluator_id :: provider_id
  en_profile_ref :: string

definition mk_evaluation_config :: "evaluation_node_config \<Rightarrow> evaluation_node_config result" where
  "mk_evaluation_config c =
     (if \<not> trimmed (en_policy_ref c) then Inl (ValueError ''policy_ref must be non-empty and trimmed'')
      else if \<not> trimmed (en_profile_ref c) then Inl (ValueError ''quality_profile_ref must be non-empty and trimmed'')
      else Inr c)"

definition evaluation_config_to_data :: "evaluation_node_config \<Rightarrow> json_object" where
  "evaluation_config_to_data c = [(''policy_ref'', JStr (en_policy_ref c)), (''quality_evaluator_id'', JStr (en_evaluator_id c)),
     (''quality_profile_ref'', JStr (en_profile_ref c))]"

definition evaluation_config_from_data :: "json_object \<Rightarrow> evaluation_node_config result" where
  "evaluation_config_from_data d =
     rbind (require_keys d [''policy_ref'', ''quality_evaluator_id'', ''quality_profile_ref''] ''EvaluationNode config'') (\<lambda>_.
     rbind (text_at d ''policy_ref'' ''Evaluation policy ref'') (\<lambda>p.
     rbind (name_at d ''quality_evaluator_id'' ''quality evaluator id'') (\<lambda>e.
     rbind (text_at d ''quality_profile_ref'' ''quality profile ref'') (\<lambda>q.
     mk_evaluation_config \<lparr>en_policy_ref = p, en_evaluator_id = e, en_profile_ref = q\<rparr>))))"

definition evaluation_config_ok :: "evaluation_node_config \<Rightarrow> bool" where
  "evaluation_config_ok c \<longleftrightarrow> mk_evaluation_config c = Inr c \<and> identifier_ok (en_evaluator_id c)"

lemma evaluation_config_roundtrip:
  "evaluation_config_ok c \<Longrightarrow> evaluation_config_from_data (evaluation_config_to_data c) = Inr c"
  by (cases c) (simp add: evaluation_config_from_data_def evaluation_config_to_data_def evaluation_config_ok_def
      require_keys_def same_fields_def)

datatype node_config = AgentConfig agent_node_config | ApprovalConfig approval_node_config
  | EvaluationConfig evaluation_node_config | UnsupportedConfig json_object

fun config_to_data :: "node_config \<Rightarrow> json_object" where
  "config_to_data (AgentConfig c) = agent_config_to_data c"
| "config_to_data (ApprovalConfig c) = approval_config_to_data c"
| "config_to_data (EvaluationConfig c) = evaluation_config_to_data c"
| "config_to_data (UnsupportedConfig d) = d"

definition config_from_data :: "pylib \<Rightarrow> string \<Rightarrow> json_object \<Rightarrow> node_config result" where
  "config_from_data L node_type raw =
     (if node_type = node_type_value NODE_AGENT then rbind (agent_config_from_data raw) (\<lambda>c. Inr (AgentConfig c))
      else if node_type = node_type_value NODE_APPROVAL
      then rbind (approval_config_from_data L raw) (\<lambda>c. Inr (ApprovalConfig c))
      else if node_type = node_type_value NODE_EVALUATION
      then rbind (evaluation_config_from_data raw) (\<lambda>c. Inr (EvaluationConfig c))
      else Inr (UnsupportedConfig raw))"

text \<open>A node may be constructed with a configuration of another kind; only the kind its type names is read back.\<close>

definition config_ok :: "string \<Rightarrow> node_config \<Rightarrow> bool" where
  "config_ok t c = (case c of
       AgentConfig a \<Rightarrow> t = ''agent'' \<and> agent_config_ok a
     | ApprovalConfig a \<Rightarrow> t = ''approval'' \<and> approval_config_ok a
     | EvaluationConfig e \<Rightarrow> t = ''evaluation'' \<and> evaluation_config_ok e
     | UnsupportedConfig d \<Rightarrow> t \<notin> {''agent'', ''approval'', ''evaluation''})"

lemma config_roundtrip: "iso_inverse L \<Longrightarrow> config_ok t c \<Longrightarrow> config_from_data L t (config_to_data c) = Inr c"
  by (cases c) (simp_all add: config_from_data_def config_ok_def agent_config_roundtrip approval_config_roundtrip
      evaluation_config_roundtrip)

subsection \<open>Nodes\<close>

record workflow_node =
  wn_id :: node_id
  wn_type :: string
  wn_contract :: string
  wn_input_schema :: "schema_ref option"
  wn_bindings :: "workflow_input_binding list"
  wn_output_schema :: "schema_ref option"
  wn_scope :: scope_ref
  wn_permissions :: "workflow_permission list"
  wn_timeout :: "int option"
  wn_retry_limit :: int
  wn_side_effecting :: bool
  wn_idempotency :: bool
  wn_checkpoint :: bool
  wn_config :: node_config

definition mk_node :: "workflow_node \<Rightarrow> workflow_node result" where
  "mk_node n =
     (if \<not> trimmed (wn_type n) then Inl (ValueError ''Workflow node type must be non-empty and trimmed'')
      else if \<not> trimmed (wn_contract n)
      then Inl (ValueError ''Workflow node contract version must be non-empty and trimmed'')
      else if (case wn_timeout n of None \<Rightarrow> False | Some t \<Rightarrow> t < 1) then Inl (ValueError ''node timeout must be positive'')
      else if wn_retry_limit n < 0 then Inl (ValueError ''node retry limit must not be negative'')
      else Inr n)"

definition opt_schema_to_data :: "schema_ref option \<Rightarrow> json" where
  "opt_schema_to_data s = (case s of None \<Rightarrow> JNull | Some x \<Rightarrow> JObj (schema_to_data x))"

definition node_to_data :: "workflow_node \<Rightarrow> json_object" where
  "node_to_data n = [(''node_id'', JStr (wn_id n)), (''node_type'', JStr (wn_type n)), (''contract_version'', JStr (wn_contract n)),
     (''input_schema'', opt_schema_to_data (wn_input_schema n)),
     (''input_bindings'', JList (List.map (\<lambda>b. JObj (input_binding_to_data b)) (wn_bindings n))),
     (''output_schema'', opt_schema_to_data (wn_output_schema n)), (''scope'', scope_to_data (wn_scope n)),
     (''permissions'', JList (List.map (\<lambda>p. JObj (workflow_permission_to_data p)) (wn_permissions n))),
     (''timeout_seconds'', case wn_timeout n of None \<Rightarrow> JNull | Some t \<Rightarrow> JInt t), (''retry_limit'', JInt (wn_retry_limit n)),
     (''side_effecting'', JBool (wn_side_effecting n)), (''idempotency_required'', JBool (wn_idempotency n)),
     (''checkpoint'', JBool (wn_checkpoint n)), (''config'', JObj (config_to_data (wn_config n)))]"

definition node_fields :: "string list" where
  "node_fields = [''node_id'', ''node_type'', ''contract_version'', ''input_schema'', ''input_bindings'', ''output_schema'',
     ''scope'', ''permissions'', ''timeout_seconds'', ''retry_limit'', ''side_effecting'', ''idempotency_required'',
     ''checkpoint'', ''config'']"

definition node_from_data :: "pylib \<Rightarrow> json_object \<Rightarrow> workflow_node result" where
  "node_from_data L d =
     rbind (require_keys d node_fields ''Workflow node'') (\<lambda>_.
     rbind (text_at d ''node_type'' ''node type'') (\<lambda>t.
     rbind (object_at d ''config'' ''node config'') (\<lambda>raw_config.
     rbind (config_from_data L t raw_config) (\<lambda>config.
     rbind (obj_index d ''input_schema'') (\<lambda>raw_input_schema.
     rbind (obj_index d ''output_schema'') (\<lambda>raw_output_schema.
     rbind (obj_index d ''timeout_seconds'') (\<lambda>raw_timeout.
     rbind (name_at d ''node_id'' ''node id'') (\<lambda>i.
     rbind (text_at d ''contract_version'' ''node contract version'') (\<lambda>v.
     rbind (object_or_none ''node input schema'' (schema_from_data L) raw_input_schema) (\<lambda>si.
     rbind (rbind (array_at d ''input_bindings'' ''node input bindings'')
       (objects ''node input binding'' (input_binding_from_data L))) (\<lambda>bs.
     rbind (object_or_none ''node output schema'' (schema_from_data L) raw_output_schema) (\<lambda>so.
     rbind (rbind (object_at d ''scope'' ''node scope'') (scope_from_data L)) (\<lambda>sc.
     rbind (rbind (array_at d ''permissions'' ''node permissions'')
       (objects ''node permission'' (workflow_permission_from_data L))) (\<lambda>ps.
     rbind (value_or_none (\<lambda>v. as_int v ''node timeout'') raw_timeout) (\<lambda>timeout.
     rbind (int_at d ''retry_limit'' ''node retry limit'') (\<lambda>retry.
     rbind (flag_at d ''side_effecting'' ''node side_effecting'') (\<lambda>effecting.
     rbind (flag_at d ''idempotency_required'' ''node idempotency_required'') (\<lambda>idem.
     rbind (flag_at d ''checkpoint'' ''node checkpoint'') (\<lambda>ckpt.
     mk_node \<lparr>wn_id = i, wn_type = t, wn_contract = v, wn_input_schema = si, wn_bindings = bs, wn_output_schema = so,
       wn_scope = sc, wn_permissions = ps, wn_timeout = timeout, wn_retry_limit = retry, wn_side_effecting = effecting,
       wn_idempotency = idem, wn_checkpoint = ckpt, wn_config = config\<rparr>)))))))))))))))))))"

definition node_ok :: "workflow_node \<Rightarrow> bool" where
  "node_ok n \<longleftrightarrow> mk_node n = Inr n \<and> identifier_ok (wn_id n) \<and> pred_option schema_ok (wn_input_schema n)
     \<and> pred_option schema_ok (wn_output_schema n) \<and> list_all input_binding_ok (wn_bindings n) \<and> scope_ok (wn_scope n)
     \<and> list_all workflow_permission_ok (wn_permissions n) \<and> config_ok (wn_type n) (wn_config n)"

lemma opt_schema_decodes:
  "pred_option schema_ok s \<Longrightarrow> object_or_none n (schema_from_data L) (opt_schema_to_data s) = Inr s"
  by (cases s) (simp_all add: opt_schema_to_data_def schema_roundtrip)

lemma opt_int_decodes [simp]:
  "value_or_none (\<lambda>v. as_int v n) (case x of None \<Rightarrow> JNull | Some t \<Rightarrow> JInt t) = Inr x"
  by (cases x) simp_all

lemma bindings_decode: "list_all input_binding_ok bs \<Longrightarrow>
    objects n (input_binding_from_data L) (List.map (\<lambda>b. JObj (input_binding_to_data b)) bs) = Inr bs"
  by (rule objects_inverse) (simp add: input_binding_roundtrip list_all_iff)

lemma permissions_decode: "list_all workflow_permission_ok ps \<Longrightarrow>
    objects n (workflow_permission_from_data L) (List.map (\<lambda>b. JObj (workflow_permission_to_data b)) ps) = Inr ps"
  by (rule objects_inverse) (simp add: workflow_permission_roundtrip list_all_iff)

lemma node_roundtrip: "iso_inverse L \<Longrightarrow> node_ok n \<Longrightarrow> node_from_data L (node_to_data n) = Inr n"
  by (cases n) (simp add: node_from_data_def node_to_data_def node_ok_def require_keys_def same_fields_def node_fields_def
      config_roundtrip opt_schema_decodes bindings_decode permissions_decode scope_decodes)

subsection \<open>Definitions\<close>

record workflow_definition =
  wf_id :: workflow_id
  wf_definition_id :: definition_id
  wf_version :: string
  wf_input_schema :: schema_ref
  wf_nodes :: "workflow_node list"
  wf_dependencies :: "workflow_dependency list"
  wf_output_schema :: schema_ref
  wf_output :: workflow_output_binding
  wf_policy :: execution_policy
  wf_contract :: string

definition mk_definition :: "workflow_definition \<Rightarrow> workflow_definition result" where
  "mk_definition w =
     (if wf_contract w \<noteq> ''1'' then Inl (ValueError ''unsupported Workflow contract version'')
      else if \<not> trimmed (wf_version w) then Inl (ValueError ''Workflow version must be non-empty and trimmed'')
      else if wf_nodes w = [] then Inl (ValueError ''Workflow requires at least one node'') else Inr w)"

definition definition_to_data :: "workflow_definition \<Rightarrow> json_object" where
  "definition_to_data w = [(''contract_version'', JStr (wf_contract w)), (''workflow_id'', JStr (wf_id w)),
     (''definition_id'', JStr (wf_definition_id w)), (''version'', JStr (wf_version w)),
     (''input_schema'', JObj (schema_to_data (wf_input_schema w))),
     (''nodes'', JList (List.map (\<lambda>n. JObj (node_to_data n)) (wf_nodes w))),
     (''dependencies'', JList (List.map (\<lambda>e. JObj (workflow_dependency_to_data e)) (wf_dependencies w))),
     (''output_schema'', JObj (schema_to_data (wf_output_schema w))),
     (''output_binding'', JObj (output_binding_to_data (wf_output w))),
     (''execution_policy'', JObj (execution_policy_to_data (wf_policy w)))]"

definition definition_fields :: "string list" where
  "definition_fields = [''contract_version'', ''workflow_id'', ''definition_id'', ''version'', ''input_schema'', ''nodes'',
     ''dependencies'', ''output_schema'', ''output_binding'', ''execution_policy'']"

definition definition_from_data :: "pylib \<Rightarrow> json_object \<Rightarrow> workflow_definition result" where
  "definition_from_data L d =
     rbind (require_keys d definition_fields ''Workflow definition'') (\<lambda>_.
     rbind (text_at d ''contract_version'' ''Workflow contract version'') (\<lambda>c.
     rbind (name_at d ''workflow_id'' ''Workflow id'') (\<lambda>i.
     rbind (name_at d ''definition_id'' ''Workflow definition id'') (\<lambda>di.
     rbind (text_at d ''version'' ''Workflow version'') (\<lambda>v.
     rbind (rbind (object_at d ''input_schema'' ''Workflow input schema'') (schema_from_data L)) (\<lambda>si.
     rbind (rbind (array_at d ''nodes'' ''Workflow nodes'') (objects ''Workflow node'' (node_from_data L))) (\<lambda>ns.
     rbind (rbind (array_at d ''dependencies'' ''Workflow dependencies'')
       (objects ''Workflow dependency'' workflow_dependency_from_data)) (\<lambda>es.
     rbind (rbind (object_at d ''output_schema'' ''Workflow output schema'') (schema_from_data L)) (\<lambda>so.
     rbind (rbind (object_at d ''output_binding'' ''Workflow output binding'') output_binding_from_data) (\<lambda>b.
     rbind (rbind (object_at d ''execution_policy'' ''Workflow execution policy'') (execution_policy_from_data L)) (\<lambda>p.
     mk_definition \<lparr>wf_id = i, wf_definition_id = di, wf_version = v, wf_input_schema = si, wf_nodes = ns,
       wf_dependencies = es, wf_output_schema = so, wf_output = b, wf_policy = p, wf_contract = c\<rparr>)))))))))))"

definition definition_ok :: "workflow_definition \<Rightarrow> bool" where
  "definition_ok w \<longleftrightarrow> mk_definition w = Inr w \<and> identifier_ok (wf_id w) \<and> identifier_ok (wf_definition_id w)
     \<and> schema_ok (wf_input_schema w) \<and> list_all node_ok (wf_nodes w) \<and> list_all workflow_dependency_ok (wf_dependencies w)
     \<and> schema_ok (wf_output_schema w) \<and> identifier_ok (ob_node (wf_output w)) \<and> mk_execution_policy (wf_policy w) = Inr (wf_policy w)"

lemma nodes_decode: "iso_inverse L \<Longrightarrow> list_all node_ok ns \<Longrightarrow>
    objects m (node_from_data L) (List.map (\<lambda>n. JObj (node_to_data n)) ns) = Inr ns"
  by (rule objects_inverse) (simp add: node_roundtrip list_all_iff)

lemma dependencies_decode: "list_all workflow_dependency_ok es \<Longrightarrow>
    objects m workflow_dependency_from_data (List.map (\<lambda>e. JObj (workflow_dependency_to_data e)) es) = Inr es"
  by (rule objects_inverse) (simp add: workflow_dependency_roundtrip list_all_iff)

text \<open>A definition the constructors accept is read back from its encoding.\<close>

lemma definition_roundtrip:
  "iso_inverse L \<Longrightarrow> definition_ok w \<Longrightarrow> definition_from_data L (definition_to_data w) = Inr w"
  by (cases w) (simp add: definition_from_data_def definition_to_data_def definition_ok_def require_keys_def same_fields_def
      definition_fields_def schema_roundtrip nodes_decode dependencies_decode output_binding_roundtrip
      execution_policy_roundtrip)

end
