(* ===== verification/Workflow_Outcome.thy ===== *)
theory Workflow_Outcome
  imports Workflow_Model Checkpoint_Record Json_Codec
begin

section \<open>Workflow contexts, results and outcomes\<close>

text \<open>
  The execution half of \<open>workflow/model.py\<close>: references to node outputs, the context of an
  execution, the terminal result, the suspension at an approval, and the outcome that is exactly
  one of the two.
\<close>

definition workflow_run_at :: "pylib \<Rightarrow> json_object \<Rightarrow> string \<Rightarrow> string \<Rightarrow> run result" where
  "workflow_run_at L d fname refusal =
     rbind (rbind (object_at d ''run'' fname) (run_from_data L)) (\<lambda>r.
     rbind (raise_when (\<not> is_workflow r) (ValueError refusal)) (\<lambda>_. Inr r))"

lemma workflow_run_at_roundtrip:
  "iso_inverse L \<Longrightarrow> run_codable r \<Longrightarrow> is_workflow r \<Longrightarrow> obj_index d ''run'' = Inr (JObj (run_to_data r)) \<Longrightarrow>
    workflow_run_at L d n m = Inr r"
  by (simp add: workflow_run_at_def object_at_def run_roundtrip)

subsection \<open>References to node outputs\<close>

record node_output_ref =
  nr_node :: node_id
  nr_schema :: schema_ref
  nr_reference :: checkpoint_reference

definition output_ref_to_data :: "node_output_ref \<Rightarrow> json_object" where
  "output_ref_to_data r = [(''node_id'', JStr (nr_node r)), (''schema'', JObj (schema_to_data (nr_schema r))),
     (''reference'', JObj (reference_to_data (nr_reference r)))]"

definition output_ref_from_data :: "pylib \<Rightarrow> json_object \<Rightarrow> node_output_ref result" where
  "output_ref_from_data L d =
     rbind (require_keys d [''node_id'', ''schema'', ''reference''] ''node output ref'') (\<lambda>_.
     rbind (name_at d ''node_id'' ''output node id'') (\<lambda>n.
     rbind (rbind (object_at d ''schema'' ''output schema'') (schema_from_data L)) (\<lambda>s.
     rbind (rbind (object_at d ''reference'' ''output reference'') (reference_from_data L)) (\<lambda>r.
     Inr \<lparr>nr_node = n, nr_schema = s, nr_reference = r\<rparr>))))"

definition output_ref_ok :: "node_output_ref \<Rightarrow> bool" where
  "output_ref_ok r \<longleftrightarrow> identifier_ok (nr_node r) \<and> schema_ok (nr_schema r) \<and> reference_ok (nr_reference r)"

lemma output_ref_roundtrip: "output_ref_ok r \<Longrightarrow> output_ref_from_data L (output_ref_to_data r) = Inr r"
  by (cases r) (simp add: output_ref_from_data_def output_ref_to_data_def output_ref_ok_def require_keys_def same_fields_def
      schema_roundtrip reference_roundtrip)

definition output_refs_to_data :: "node_output_ref list \<Rightarrow> json" where
  "output_refs_to_data rs = JList (List.map (\<lambda>r. JObj (output_ref_to_data r)) rs)"

definition output_refs_from_data :: "pylib \<Rightarrow> json_object \<Rightarrow> node_output_ref list result" where
  "output_refs_from_data L d =
     rbind (array_at d ''output_refs'' ''node output refs'') (objects ''node output ref'' (output_ref_from_data L))"

lemma output_refs_decode:
  "list_all output_ref_ok rs \<Longrightarrow> obj_index d ''output_refs'' = Inr (output_refs_to_data rs) \<Longrightarrow>
    output_refs_from_data L d = Inr rs"
  by (simp add: output_refs_from_data_def output_refs_to_data_def array_at_def, rule objects_inverse)
    (simp add: output_ref_roundtrip list_all_iff)

subsection \<open>The context\<close>

record workflow_context =
  wc_run_id :: run_id
  wc_input :: json
  wc_runtime :: call_context
  wc_output_refs :: "node_output_ref list"

definition mk_workflow_context :: "workflow_context \<Rightarrow> workflow_context result" where
  "mk_workflow_context c =
     (if cx_run_id (wc_runtime c) \<noteq> wc_run_id c
      then Inl (ValueError ''Workflow context Run does not match RuntimeCallContext'')
      else if \<not> distinct (List.map nr_node (wc_output_refs c))
      then Inl (ValueError ''Workflow output references must have unique nodes'') else Inr c)"

definition workflow_context_to_data :: "workflow_context \<Rightarrow> json_object" where
  "workflow_context_to_data c = [(''run_id'', JStr (wc_run_id c)), (''input'', wc_input c),
     (''runtime'', JObj (context_to_data (wc_runtime c))), (''output_refs'', output_refs_to_data (wc_output_refs c))]"

text \<open>\<open>__eq__\<close>: contexts are compared by their encodings.\<close>

definition same_workflow_context :: "workflow_context \<Rightarrow> workflow_context \<Rightarrow> bool" where
  "same_workflow_context a b \<longleftrightarrow> json_eq (JObj (workflow_context_to_data a)) (JObj (workflow_context_to_data b))"

lemma same_encoding_same_context:
  "workflow_context_to_data a = workflow_context_to_data b \<Longrightarrow> keys_distinct (JObj (workflow_context_to_data b)) \<Longrightarrow>
    same_workflow_context a b"
  unfolding same_workflow_context_def using json_eq_refl [of "JObj (workflow_context_to_data b)"] by simp

definition workflow_context_from_data :: "pylib \<Rightarrow> json_object \<Rightarrow> workflow_context result" where
  "workflow_context_from_data L d =
     rbind (require_keys d [''run_id'', ''input'', ''runtime'', ''output_refs''] ''Workflow context'') (\<lambda>_.
     rbind (name_at d ''run_id'' ''Workflow context run id'') (\<lambda>r.
     rbind (obj_index d ''input'') (\<lambda>v.
     rbind (rbind (object_at d ''runtime'' ''Workflow runtime context'') (context_from_data L)) (\<lambda>c.
     rbind (output_refs_from_data L d) (\<lambda>refs.
     mk_workflow_context \<lparr>wc_run_id = r, wc_input = v, wc_runtime = c, wc_output_refs = refs\<rparr>)))))"

definition workflow_context_ok :: "workflow_context \<Rightarrow> bool" where
  "workflow_context_ok c \<longleftrightarrow> mk_workflow_context c = Inr c \<and> identifier_ok (wc_run_id c) \<and> context_codable (wc_runtime c)
     \<and> list_all output_ref_ok (wc_output_refs c)"

text \<open>What is read back has the same encoding, so it is equal in the sense of \<open>__eq__\<close>: only the waiters of
  the token are new.\<close>

lemma workflow_context_roundtrip:
  assumes L: "iso_inverse L" and ok: "workflow_context_ok c"
  shows "\<exists>c'. workflow_context_from_data L (workflow_context_to_data c) = Inr c' \<and> workflow_context_to_data c' = workflow_context_to_data c"
proof -
  let ?x = "wc_runtime c"
  let ?y = "?x\<lparr>cx_cancellation := new_token (ct_id (cx_cancellation ?x)) (ct_cancelled (cx_cancellation ?x))\<rparr>"
  have ctx: "context_from_data L (context_to_data ?x) = Inr ?y"
    using context_roundtrip [OF L] ok by (simp add: workflow_context_ok_def)
  have refs: "output_refs_from_data L (workflow_context_to_data c) = Inr (wc_output_refs c)"
    using ok by (intro output_refs_decode) (simp_all add: workflow_context_ok_def workflow_context_to_data_def)
  have "workflow_context_from_data L (workflow_context_to_data c) = mk_workflow_context (c\<lparr>wc_runtime := ?y\<rparr>)"
    using ctx refs ok unfolding workflow_context_from_data_def workflow_context_ok_def
    by (cases c) (simp add: workflow_context_to_data_def require_keys_def same_fields_def)
  moreover have "mk_workflow_context (c\<lparr>wc_runtime := ?y\<rparr>) = Inr (c\<lparr>wc_runtime := ?y\<rparr>)"
    using ok by (auto simp: workflow_context_ok_def mk_workflow_context_def split: if_splits)
  moreover have "workflow_context_to_data (c\<lparr>wc_runtime := ?y\<rparr>) = workflow_context_to_data c"
    by (simp add: workflow_context_to_data_def context_to_data_def new_token_def)
  ultimately show ?thesis by auto
qed

subsection \<open>Terminal results\<close>

record workflow_result =
  wr_run :: run
  wr_output :: json
  wr_error :: "error_detail option"
  wr_output_refs :: "node_output_ref list"
  wr_checkpoint :: "checkpoint_id option"

definition mk_workflow_result :: "workflow_result \<Rightarrow> workflow_result result" where
  "mk_workflow_result x =
     (if \<not> terminal (r_status (wr_run x)) then Inl (ValueError ''WorkflowResult requires a terminal WorkflowRun'')
      else if r_status (wr_run x) = SUCCEEDED
      then if wr_error x \<noteq> None then Inl (ValueError ''successful WorkflowResult cannot contain an error'') else Inr x
      else if wr_error x = None then Inl (ValueError ''unsuccessful WorkflowResult requires an error'') else Inr x)"

definition workflow_result_to_data :: "workflow_result \<Rightarrow> json_object" where
  "workflow_result_to_data x = [(''run'', JObj (run_to_data (wr_run x))), (''output'', wr_output x),
     (''error'', case wr_error x of None \<Rightarrow> JNull | Some e \<Rightarrow> JObj (error_detail_to_data e)),
     (''output_refs'', output_refs_to_data (wr_output_refs x)), (''final_checkpoint_ref'', opt_str (wr_checkpoint x)),
     (''attempt'', JInt (r_attempt (wr_run x))), (''started_at'', date_json (r_started_at (wr_run x))),
     (''ended_at'', date_json (r_ended_at (wr_run x)))]"

definition workflow_result_fields :: "string list" where
  "workflow_result_fields = [''run'', ''output'', ''error'', ''output_refs'', ''final_checkpoint_ref'', ''attempt'',
     ''started_at'', ''ended_at'']"

text \<open>The copies of the attempt and of the times have to agree with the Run.\<close>

definition check_result_copies :: "json_object \<Rightarrow> run \<Rightarrow> unit result" where
  "check_result_copies d r =
     rbind (int_at d ''attempt'' ''Workflow result attempt'') (\<lambda>n.
     rbind (raise_when (n \<noteq> r_attempt r) (ValueError ''Workflow result attempt does not match Run'')) (\<lambda>_.
     rbind (obj_index d ''started_at'') (\<lambda>started.
     rbind (obj_index d ''ended_at'') (\<lambda>ended.
     raise_when (started \<noteq> date_json (r_started_at r) \<or> ended \<noteq> date_json (r_ended_at r))
       (ValueError ''Workflow result timing does not match Run'')))))"

definition workflow_result_from_data :: "pylib \<Rightarrow> json_object \<Rightarrow> workflow_result result" where
  "workflow_result_from_data L d =
     rbind (require_keys d workflow_result_fields ''Workflow result'') (\<lambda>_.
     rbind (workflow_run_at L d ''Workflow result run'' ''WorkflowResult requires a WorkflowRun'') (\<lambda>r.
     rbind (check_result_copies d r) (\<lambda>_.
     rbind (obj_index d ''error'') (\<lambda>raw_error.
     rbind (obj_index d ''final_checkpoint_ref'') (\<lambda>raw_checkpoint.
     rbind (obj_index d ''output'') (\<lambda>out.
     rbind (object_or_none ''Workflow result error'' (error_detail_from_data L) raw_error) (\<lambda>err.
     rbind (output_refs_from_data L d) (\<lambda>refs.
     rbind (value_or_none (\<lambda>v. rbind (as_string v ''final checkpoint ref'') mk_identifier) raw_checkpoint) (\<lambda>c.
     mk_workflow_result \<lparr>wr_run = r, wr_output = out, wr_error = err, wr_output_refs = refs, wr_checkpoint = c\<rparr>)))))))))"

definition workflow_result_ok :: "workflow_result \<Rightarrow> bool" where
  "workflow_result_ok x \<longleftrightarrow> mk_workflow_result x = Inr x \<and> run_codable (wr_run x) \<and> is_workflow (wr_run x)
     \<and> pred_option error_detail_codable (wr_error x) \<and> list_all output_ref_ok (wr_output_refs x) \<and> opt_id_ok (wr_checkpoint x)"

lemma opt_identifier_decodes:
  "opt_id_ok i \<Longrightarrow> value_or_none (\<lambda>v. rbind (as_string v n) mk_identifier) (opt_str i) = Inr i"
  by (cases i) simp_all

lemma opt_error_decodes:
  "pred_option error_detail_codable e \<Longrightarrow>
    object_or_none n (error_detail_from_data L) (case e of None \<Rightarrow> JNull | Some e \<Rightarrow> JObj (error_detail_to_data e)) = Inr e"
  by (cases e) (simp_all add: error_detail_roundtrip)

lemma workflow_result_roundtrip:
  assumes L: "iso_inverse L" and ok: "workflow_result_ok x"
  shows "workflow_result_from_data L (workflow_result_to_data x) = Inr x"
proof -
  let ?d = "workflow_result_to_data x"
  note parts = ok [unfolded workflow_result_ok_def]
  have keys: "require_keys ?d workflow_result_fields ''Workflow result'' = Inr ()"
    by (simp add: require_keys_def same_fields_def workflow_result_fields_def workflow_result_to_data_def)
  have r: "workflow_run_at L ?d ''Workflow result run'' ''WorkflowResult requires a WorkflowRun'' = Inr (wr_run x)"
    using L parts by (intro workflow_run_at_roundtrip) (simp_all add: workflow_result_to_data_def)
  have copies: "check_result_copies ?d (wr_run x) = Inr ()"
    by (simp add: check_result_copies_def workflow_result_to_data_def)
  have refs: "output_refs_from_data L ?d = Inr (wr_output_refs x)"
    using parts by (intro output_refs_decode) (simp_all add: workflow_result_to_data_def)
  have "obj_index ?d ''output'' = Inr (wr_output x)"
    "obj_index ?d ''error'' = Inr (case wr_error x of None \<Rightarrow> JNull | Some e \<Rightarrow> JObj (error_detail_to_data e))"
    "obj_index ?d ''final_checkpoint_ref'' = Inr (opt_str (wr_checkpoint x))"
    by (simp_all add: workflow_result_to_data_def)
  with keys r copies refs parts show ?thesis
    by (cases x) (simp add: workflow_result_from_data_def opt_identifier_decodes opt_error_decodes)
qed

subsection \<open>Suspensions\<close>

record workflow_suspension =
  su_run :: run
  su_checkpoint :: checkpoint_id
  su_approval :: approval_request

definition mk_suspension :: "workflow_suspension \<Rightarrow> workflow_suspension result" where
  "mk_suspension x =
     (if r_status (su_run x) \<noteq> WAITING_APPROVAL then Inl (ValueError ''Workflow suspension requires WAITING_APPROVAL'')
      else if r_id (su_run x) \<noteq> ar_run_id (su_approval x)
      then Inl (ValueError ''Workflow suspension approval Run mismatch'') else Inr x)"

definition suspension_to_data :: "workflow_suspension \<Rightarrow> json_object" where
  "suspension_to_data x = [(''run'', JObj (run_to_data (su_run x))), (''checkpoint_ref'', JStr (su_checkpoint x)),
     (''approval'', JObj (approval_request_to_data (su_approval x)))]"

definition suspension_from_data :: "pylib \<Rightarrow> json_object \<Rightarrow> workflow_suspension result" where
  "suspension_from_data L d =
     rbind (require_keys d [''run'', ''checkpoint_ref'', ''approval''] ''Workflow suspension'') (\<lambda>_.
     rbind (workflow_run_at L d ''suspension run'' ''Workflow suspension requires a WorkflowRun'') (\<lambda>r.
     rbind (name_at d ''checkpoint_ref'' ''suspension checkpoint ref'') (\<lambda>c.
     rbind (rbind (object_at d ''approval'' ''suspension approval'') (approval_request_from_data L)) (\<lambda>a.
     mk_suspension \<lparr>su_run = r, su_checkpoint = c, su_approval = a\<rparr>))))"

definition suspension_ok :: "workflow_suspension \<Rightarrow> bool" where
  "suspension_ok x \<longleftrightarrow> mk_suspension x = Inr x \<and> run_codable (su_run x) \<and> is_workflow (su_run x)
     \<and> identifier_ok (su_checkpoint x) \<and> approval_request_ok (su_approval x)"

lemma suspension_roundtrip:
  assumes "iso_inverse L" "suspension_ok x"
  shows "suspension_from_data L (suspension_to_data x) = Inr x"
proof -
  have "workflow_run_at L (suspension_to_data x) ''suspension run'' ''Workflow suspension requires a WorkflowRun'' = Inr (su_run x)"
    using assms by (intro workflow_run_at_roundtrip) (simp_all add: suspension_to_data_def suspension_ok_def)
  with assms show ?thesis
    unfolding suspension_from_data_def suspension_ok_def
    by (cases x) (simp add: suspension_to_data_def require_keys_def same_fields_def approval_request_roundtrip)
qed

subsection \<open>Outcomes\<close>

record workflow_outcome =
  oc_result :: "workflow_result option"
  oc_suspension :: "workflow_suspension option"

definition mk_workflow_outcome :: "workflow_outcome \<Rightarrow> workflow_outcome result" where
  "mk_workflow_outcome x =
     (if (oc_result x = None) = (oc_suspension x = None)
      then Inl (ValueError ''Workflow outcome requires exactly one payload'') else Inr x)"

definition terminal_outcome :: "workflow_result \<Rightarrow> workflow_outcome result" where
  "terminal_outcome x = mk_workflow_outcome \<lparr>oc_result = Some x, oc_suspension = None\<rparr>"

definition suspended_outcome :: "workflow_suspension \<Rightarrow> workflow_outcome result" where
  "suspended_outcome x = mk_workflow_outcome \<lparr>oc_result = None, oc_suspension = Some x\<rparr>"

definition workflow_outcome_to_data :: "workflow_outcome \<Rightarrow> json_object" where
  "workflow_outcome_to_data x = [(''kind'', JStr (if oc_result x \<noteq> None then ''terminal'' else ''suspended'')),
     (''result'', case oc_result x of None \<Rightarrow> JNull | Some r \<Rightarrow> JObj (workflow_result_to_data r)),
     (''suspension'', case oc_suspension x of None \<Rightarrow> JNull | Some s \<Rightarrow> JObj (suspension_to_data s))]"

definition workflow_outcome_from_data :: "pylib \<Rightarrow> json_object \<Rightarrow> workflow_outcome result" where
  "workflow_outcome_from_data L d =
     rbind (require_keys d [''kind'', ''result'', ''suspension''] ''Workflow outcome'') (\<lambda>_.
     rbind (text_at d ''kind'' ''Workflow outcome kind'') (\<lambda>kind.
     rbind (obj_index d ''result'') (\<lambda>raw_result.
     rbind (obj_index d ''suspension'') (\<lambda>raw_suspension.
     if kind = ''terminal'' \<and> raw_result \<noteq> JNull \<and> raw_suspension = JNull
     then rbind (rbind (as_object raw_result ''Workflow outcome result'') (workflow_result_from_data L)) terminal_outcome
     else if kind = ''suspended'' \<and> raw_result = JNull \<and> raw_suspension \<noteq> JNull
     then rbind (rbind (as_object raw_suspension ''Workflow outcome suspension'') (suspension_from_data L)) suspended_outcome
     else Inl (ValueError ''Workflow outcome discriminator does not match its payload'')))))"

definition workflow_outcome_ok :: "workflow_outcome \<Rightarrow> bool" where
  "workflow_outcome_ok x \<longleftrightarrow> mk_workflow_outcome x = Inr x \<and> pred_option workflow_result_ok (oc_result x)
     \<and> pred_option suspension_ok (oc_suspension x)"

lemma workflow_outcome_cases:
  assumes "mk_workflow_outcome x = Inr x"
  obtains (terminal) r where "x = \<lparr>oc_result = Some r, oc_suspension = None\<rparr>"
    | (suspended) s where "x = \<lparr>oc_result = None, oc_suspension = Some s\<rparr>"
  using assms by (cases x; cases "oc_result x"; cases "oc_suspension x") (auto simp: mk_workflow_outcome_def)

lemma workflow_outcome_roundtrip:
  assumes "iso_inverse L" "workflow_outcome_ok x"
  shows "workflow_outcome_from_data L (workflow_outcome_to_data x) = Inr x"
proof -
  have "mk_workflow_outcome x = Inr x" using assms(2) by (simp add: workflow_outcome_ok_def)
  then show ?thesis
    by (cases rule: workflow_outcome_cases)
      (use assms in \<open>simp_all add: workflow_outcome_from_data_def workflow_outcome_to_data_def workflow_outcome_ok_def
        require_keys_def same_fields_def workflow_result_roundtrip suspension_roundtrip terminal_outcome_def
        suspended_outcome_def mk_workflow_outcome_def\<close>)
qed

end
