(* ===== verification/Evaluation_Model.thy ===== *)
theory Evaluation_Model
  imports Checkpoint_Model Value_Schema Json_Codec
begin

section \<open>Evaluation requests and results\<close>

text \<open>
  \<open>evaluation/model.py\<close>: the request, the result of one stage, the terminal result with the checks
  that make an illegal history unrepresentable, and what a quality evaluator declares. The SHA-256
  of canonical JSON is the argument \<open>H\<close>. \<open>_json_copy\<close> refuses the floats JSON cannot write.
\<close>

subsection \<open>Helpers\<close>

fun finite_json :: "json \<Rightarrow> bool" where
  "finite_json (JFloat w) = float_finite w"
| "finite_json (JList xs) = list_all finite_json xs"
| "finite_json (JObj d) = list_all (\<lambda>(k, v). finite_json v) d"
| "finite_json _ = True"

definition json_copy :: "json \<Rightarrow> json result" where
  "json_copy v = (if finite_json v then Inr v else Inl (ValueError ''value must be valid JSON''))"

definition scalar_copy :: "json \<Rightarrow> json result" where
  "scalar_copy v = (if json_scalar v then Inr v else Inl (ValueError ''measurements must contain JSON scalar values''))"

definition require_text :: "string \<Rightarrow> string \<Rightarrow> unit result" where
  "require_text v name = (if trimmed v then Inr () else Inl (ValueError (name @ '' must be non-empty and trimmed'')))"

definition require_contract_keys :: "json_object \<Rightarrow> string list \<Rightarrow> string \<Rightarrow> unit result" where
  "require_contract_keys d names subject =
     (if same_fields d names then Inr () else Inl (ValueError (subject @ '' fields do not match the versioned contract'')))"

text \<open>\<open>{key: f(value) for key, value in data.items()}\<close>\<close>

definition values_copy :: "(json \<Rightarrow> json result) \<Rightarrow> json_object \<Rightarrow> json_object result" where
  "values_copy f d = rmap (\<lambda>(k, v). rbind (f v) (\<lambda>x. Inr (k, x))) d"

text \<open>\<open>tuple(dict.fromkeys(xs))\<close>: the first occurrences, in order\<close>

fun first_occurrences :: "'a list \<Rightarrow> 'a list" where
  "first_occurrences [] = []"
| "first_occurrences (x # xs) = x # first_occurrences (filter (\<lambda>y. y \<noteq> x) xs)"

lemma first_occurrences_set [simp]: "set (first_occurrences xs) = set xs"
  by (induction xs rule: length_induct) (case_tac xs, auto simp: less_Suc_eq_le)

lemma first_occurrences_distinct [simp]: "distinct (first_occurrences xs)"
  by (induction xs rule: first_occurrences.induct) simp_all

lemma first_occurrences_id: "distinct xs \<Longrightarrow> first_occurrences xs = xs"
proof (induction xs)
  case (Cons x xs)
  then have "filter (\<lambda>y. y \<noteq> x) xs = xs" by (auto simp: filter_id_conv)
  with Cons show ?case by simp
qed simp

lemma values_copy_id: "(\<And>k v. (k, v) \<in> set d \<Longrightarrow> f v = Inr v) \<Longrightarrow> values_copy f d = Inr d"
  unfolding values_copy_def by (rule trans [OF rmap_Inr [of d _ "\<lambda>x. x"]]) auto

lemma json_copy_simps [simp]: "finite_json v \<Longrightarrow> json_copy v = Inr v"
  by (simp add: json_copy_def)

lemma require_text_Inr [simp]: "require_text v n = Inr u \<longleftrightarrow> trimmed v"
  by (simp add: require_text_def)

definition EVALUATION_CONTRACT_VERSION :: string where
  "EVALUATION_CONTRACT_VERSION = ''1''"

definition EVALUATION_RESULT_SCHEMA :: schema_ref where
  "EVALUATION_RESULT_SCHEMA = \<lparr>sm_namespace = ''core'', sm_name = ''evaluation_result'', sm_version = ''1''\<rparr>"

subsection \<open>Stages and verdicts\<close>

datatype evaluation_stage = STAGE_SCHEMA | STAGE_POLICY | STAGE_QUALITY

fun stage_value :: "evaluation_stage \<Rightarrow> string" where
  "stage_value STAGE_SCHEMA = ''schema''"
| "stage_value STAGE_POLICY = ''policy''"
| "stage_value STAGE_QUALITY = ''quality''"

datatype evaluation_verdict = PASSED | SCHEMA_FAILED | POLICY_DENIED | POLICY_INDETERMINATE | QUALITY_FAILED
  | VERDICT_ERROR | VERDICT_TIMED_OUT | VERDICT_CANCELLED

fun verdict_value :: "evaluation_verdict \<Rightarrow> string" where
  "verdict_value PASSED = ''passed''"
| "verdict_value SCHEMA_FAILED = ''schema_failed''"
| "verdict_value POLICY_DENIED = ''policy_denied''"
| "verdict_value POLICY_INDETERMINATE = ''policy_indeterminate''"
| "verdict_value QUALITY_FAILED = ''quality_failed''"
| "verdict_value VERDICT_ERROR = ''error''"
| "verdict_value VERDICT_TIMED_OUT = ''timed_out''"
| "verdict_value VERDICT_CANCELLED = ''cancelled''"

definition evaluation_stages :: "(string \<times> evaluation_stage) list" where
  "evaluation_stages = List.map (\<lambda>x. (stage_value x, x)) [STAGE_SCHEMA, STAGE_POLICY, STAGE_QUALITY]"

definition evaluation_verdicts :: "(string \<times> evaluation_verdict) list" where
  "evaluation_verdicts = List.map (\<lambda>x. (verdict_value x, x)) [PASSED, SCHEMA_FAILED, POLICY_DENIED,
     POLICY_INDETERMINATE, QUALITY_FAILED, VERDICT_ERROR, VERDICT_TIMED_OUT, VERDICT_CANCELLED]"

lemma evaluation_stage_decodes [simp]: "enum_of L cls evaluation_stages (stage_value x) = Inr x"
  by (cases x) (simp_all add: enum_of_def evaluation_stages_def)

lemma evaluation_verdict_decodes [simp]: "enum_of L cls evaluation_verdicts (verdict_value x) = Inr x"
  by (cases x) (simp_all add: enum_of_def evaluation_verdicts_def)

definition error_verdicts :: "evaluation_verdict list" where
  "error_verdicts = [VERDICT_ERROR, VERDICT_TIMED_OUT, VERDICT_CANCELLED]"

fun allowed_verdicts :: "evaluation_stage \<Rightarrow> evaluation_verdict list" where
  "allowed_verdicts STAGE_SCHEMA = [PASSED, SCHEMA_FAILED] @ error_verdicts"
| "allowed_verdicts STAGE_POLICY = [PASSED, POLICY_DENIED, POLICY_INDETERMINATE] @ error_verdicts"
| "allowed_verdicts STAGE_QUALITY = [PASSED, QUALITY_FAILED] @ error_verdicts"

subsection \<open>Requests\<close>

record evaluation_request =
  er_contract :: string
  er_id :: string
  er_value :: json
  er_input_schema :: schema_ref
  er_policy_ref :: string
  er_evaluator :: provider_id
  er_profile_ref :: string
  er_scope :: scope_ref
  er_constraints :: json_object

definition mk_evaluation_request :: "evaluation_request \<Rightarrow> evaluation_request result" where
  "mk_evaluation_request q =
     rbind (raise_when (er_contract q \<noteq> EVALUATION_CONTRACT_VERSION)
       (ValueError ''unsupported Evaluation request contract version'')) (\<lambda>_.
     rbind (require_text (er_policy_ref q) ''policy_ref'') (\<lambda>_.
     rbind (require_text (er_profile_ref q) ''quality_profile_ref'') (\<lambda>_.
     rbind (json_copy (er_value q)) (\<lambda>v.
     rbind (rcheck (\<lambda>(k, _). require_text k ''constraint key'') (er_constraints q)) (\<lambda>_.
     rbind (values_copy json_copy (er_constraints q)) (\<lambda>cs.
     Inr (q\<lparr>er_value := v, er_constraints := cs\<rparr>)))))))"

definition evaluation_request_to_data :: "evaluation_request \<Rightarrow> json_object" where
  "evaluation_request_to_data q = [(''contract_version'', JStr (er_contract q)), (''evaluation_id'', JStr (er_id q)),
     (''value'', er_value q), (''input_schema'', JObj (schema_to_data (er_input_schema q))),
     (''policy_ref'', JStr (er_policy_ref q)), (''quality_evaluator_id'', JStr (er_evaluator q)),
     (''quality_profile_ref'', JStr (er_profile_ref q)), (''scope'', scope_to_data (er_scope q)),
     (''constraints'', JObj (er_constraints q))]"

definition evaluation_request_fields :: "string list" where
  "evaluation_request_fields = [''contract_version'', ''evaluation_id'', ''value'', ''input_schema'', ''policy_ref'',
     ''quality_evaluator_id'', ''quality_profile_ref'', ''scope'', ''constraints'']"

definition evaluation_request_from_data :: "pylib \<Rightarrow> json_object \<Rightarrow> evaluation_request result" where
  "evaluation_request_from_data L d =
     rbind (require_contract_keys d evaluation_request_fields ''Evaluation request'') (\<lambda>_.
     rbind (field_str L d ''contract_version'') (\<lambda>c.
     rbind (ident_at L d ''evaluation_id'') (\<lambda>i.
     rbind (rbind (obj_index d ''value'') json_copy) (\<lambda>v.
     rbind (rbind (object_at d ''input_schema'' ''Evaluation input schema'') (schema_from_data L)) (\<lambda>s.
     rbind (field_str L d ''policy_ref'') (\<lambda>p.
     rbind (ident_at L d ''quality_evaluator_id'') (\<lambda>e.
     rbind (field_str L d ''quality_profile_ref'') (\<lambda>q.
     rbind (rbind (object_at d ''scope'' ''Evaluation scope'') (scope_from_data L)) (\<lambda>sc.
     rbind (rbind (object_at d ''constraints'' ''Evaluation constraints'') (values_copy json_copy)) (\<lambda>cs.
     mk_evaluation_request \<lparr>er_contract = c, er_id = i, er_value = v, er_input_schema = s, er_policy_ref = p,
       er_evaluator = e, er_profile_ref = q, er_scope = sc, er_constraints = cs\<rparr>))))))))))"

definition request_fingerprint :: "(json_object \<Rightarrow> string) \<Rightarrow> evaluation_request \<Rightarrow> string" where
  "request_fingerprint H q = H (evaluation_request_to_data q)"

definition evaluation_request_ok :: "evaluation_request \<Rightarrow> bool" where
  "evaluation_request_ok q \<longleftrightarrow> er_contract q = EVALUATION_CONTRACT_VERSION \<and> identifier_ok (er_id q)
     \<and> finite_json (er_value q) \<and> schema_ok (er_input_schema q) \<and> trimmed (er_policy_ref q) \<and> identifier_ok (er_evaluator q)
     \<and> trimmed (er_profile_ref q) \<and> scope_ok (er_scope q)
     \<and> list_all (\<lambda>(k, v). trimmed k \<and> finite_json v) (er_constraints q)"

lemma constraints_copy: "list_all (\<lambda>(k, v). trimmed k \<and> finite_json v) cs \<Longrightarrow>
    values_copy json_copy cs = Inr cs \<and> rcheck (\<lambda>(k, _). require_text k n) cs = Inr ()"
  by (auto simp: list_all_iff rcheck_ok_iff intro!: values_copy_id)

lemma mk_evaluation_request_ok: "evaluation_request_ok q \<Longrightarrow> mk_evaluation_request q = Inr q"
  using constraints_copy [of "er_constraints q"]
  by (auto simp: mk_evaluation_request_def evaluation_request_ok_def require_text_def)

lemma evaluation_request_roundtrip:
  assumes ok: "evaluation_request_ok q"
  shows "evaluation_request_from_data L (evaluation_request_to_data q) = Inr q"
proof -
  note parts = ok [unfolded evaluation_request_ok_def]
  have "values_copy json_copy (er_constraints q) = Inr (er_constraints q)" using constraints_copy parts by blast
  with parts mk_evaluation_request_ok [OF ok] show ?thesis
    by (cases q) (simp add: evaluation_request_from_data_def evaluation_request_to_data_def require_contract_keys_def
        same_fields_def evaluation_request_fields_def schema_roundtrip scope_decodes)
qed

subsection \<open>Stage results\<close>

record stage_result =
  st_stage :: evaluation_stage
  st_verdict :: evaluation_verdict
  st_reason :: string
  st_measurements :: json_object
  st_evidence :: "checkpoint_reference list"

definition mk_stage_result :: "stage_result \<Rightarrow> stage_result result" where
  "mk_stage_result r =
     rbind (raise_when (st_verdict r \<notin> set (allowed_verdicts (st_stage r)))
       (ValueError ''verdict is not valid for Evaluation stage'')) (\<lambda>_.
     rbind (require_text (st_reason r) ''reason_code'') (\<lambda>_.
     rbind (rmap (\<lambda>(k, v). rbind (require_text k ''measurement key'') (\<lambda>_. rbind (scalar_copy v) (\<lambda>x. Inr (k, x))))
       (st_measurements r)) (\<lambda>checked.
     rbind (raise_when (\<not> distinct (st_evidence r)) (ValueError ''evidence references must be unique'')) (\<lambda>_.
     Inr (r\<lparr>st_measurements := checked\<rparr>)))))"

text \<open>\<open>EvaluationStageResult(stage, verdict, reason_code)\<close>\<close>

definition plain_stage_result :: "evaluation_stage \<Rightarrow> evaluation_verdict \<Rightarrow> string \<Rightarrow> stage_result result" where
  "plain_stage_result s v reason = mk_stage_result \<lparr>st_stage = s, st_verdict = v, st_reason = reason, st_measurements = [],
     st_evidence = []\<rparr>"

definition references_to_data :: "checkpoint_reference list \<Rightarrow> json" where
  "references_to_data rs = JList (List.map (\<lambda>r. JObj (reference_to_data r)) rs)"

definition stage_result_to_data :: "stage_result \<Rightarrow> json_object" where
  "stage_result_to_data r = [(''stage'', JStr (stage_value (st_stage r))), (''verdict'', JStr (verdict_value (st_verdict r))),
     (''reason_code'', JStr (st_reason r)), (''measurements'', JObj (st_measurements r)),
     (''evidence_refs'', references_to_data (st_evidence r))]"

definition stage_result_from_data :: "pylib \<Rightarrow> json_object \<Rightarrow> stage_result result" where
  "stage_result_from_data L d =
     rbind (require_contract_keys d [''stage'', ''verdict'', ''reason_code'', ''measurements'', ''evidence_refs'']
       ''Evaluation stage result'') (\<lambda>_.
     rbind (object_at d ''measurements'' ''measurements'') (\<lambda>raw_measurements.
     rbind (rbind (field_str L d ''stage'') (enum_of L ''EvaluationStage'' evaluation_stages)) (\<lambda>s.
     rbind (rbind (field_str L d ''verdict'') (enum_of L ''EvaluationVerdict'' evaluation_verdicts)) (\<lambda>v.
     rbind (field_str L d ''reason_code'') (\<lambda>reason.
     rbind (values_copy scalar_copy raw_measurements) (\<lambda>ms.
     rbind (rbind (array_at d ''evidence_refs'' ''evidence references'')
       (objects ''evidence reference'' (reference_from_data L))) (\<lambda>refs.
     mk_stage_result \<lparr>st_stage = s, st_verdict = v, st_reason = reason, st_measurements = ms, st_evidence = refs\<rparr>)))))))"

definition stage_result_ok :: "stage_result \<Rightarrow> bool" where
  "stage_result_ok r \<longleftrightarrow> st_verdict r \<in> set (allowed_verdicts (st_stage r)) \<and> trimmed (st_reason r)
     \<and> list_all (\<lambda>(k, v). trimmed k \<and> json_scalar v) (st_measurements r) \<and> distinct (st_evidence r)"

lemma scalar_copy_Inr: "scalar_copy v = Inr x \<longleftrightarrow> json_scalar v \<and> x = v"
  by (auto simp: scalar_copy_def)

lemma measurements_copy:
  "rmap (\<lambda>(k, v). rbind (require_text k n) (\<lambda>_. rbind (scalar_copy v) (\<lambda>x. Inr (k, x)))) ms = Inr cs \<longleftrightarrow>
    list_all (\<lambda>(k, v). trimmed k \<and> json_scalar v) ms \<and> cs = ms"
proof (induction ms arbitrary: cs)
  case (Cons m ms)
  obtain k v where "m = (k, v)" by fastforce
  then show ?case by (auto simp: rbind_eq_Inr Cons.IH scalar_copy_Inr)
qed auto

lemma mk_stage_result_Inr: "mk_stage_result r = Inr s \<longleftrightarrow> stage_result_ok r \<and> s = r"
  unfolding mk_stage_result_def stage_result_ok_def rbind_eq_Inr measurements_copy raise_when_Inr
  by (cases r) auto

lemma references_decode: "list_all reference_ok rs \<Longrightarrow>
    objects n (reference_from_data L) (List.map (\<lambda>r. JObj (reference_to_data r)) rs) = Inr rs"
  by (rule objects_inverse) (simp add: reference_roundtrip list_all_iff)

definition stage_result_codable :: "stage_result \<Rightarrow> bool" where
  "stage_result_codable r \<longleftrightarrow> stage_result_ok r \<and> list_all reference_ok (st_evidence r)"

lemma stage_result_roundtrip:
  assumes ok: "stage_result_codable r"
  shows "stage_result_from_data L (stage_result_to_data r) = Inr r"
proof -
  have ms: "values_copy scalar_copy (st_measurements r) = Inr (st_measurements r)"
    using ok by (intro values_copy_id) (auto simp: stage_result_codable_def stage_result_ok_def list_all_iff scalar_copy_def)
  have refs: "objects n (reference_from_data L) (List.map (\<lambda>r. JObj (reference_to_data r)) (st_evidence r)) = Inr (st_evidence r)" for n
    using ok by (intro references_decode) (simp add: stage_result_codable_def)
  have mk: "mk_stage_result r = Inr r" using ok mk_stage_result_Inr [of r r] by (simp add: stage_result_codable_def)
  show ?thesis
    using ms refs mk
    by (cases r) (simp add: stage_result_from_data_def stage_result_to_data_def references_to_data_def
        require_contract_keys_def same_fields_def)
qed

subsection \<open>Results\<close>

record evaluation_result =
  ex_contract :: string
  ex_id :: string
  ex_verdict :: evaluation_verdict
  ex_stages :: "stage_result list"
  ex_terminal :: evaluation_stage
  ex_evidence :: "checkpoint_reference list"
  ex_error :: "error_detail option"

definition evidence_union :: "stage_result list \<Rightarrow> checkpoint_reference list" where
  "evidence_union rs = first_occurrences (concat (List.map st_evidence rs))"

definition check_history :: "evaluation_result \<Rightarrow> unit result" where
  "check_history x =
     rbind (raise_when (ex_stages x = []) (ValueError ''Evaluation result requires at least one stage result'')) (\<lambda>_.
     let stages = List.map st_stage (ex_stages x) in
     rbind (raise_when (stages \<noteq> take (List.length stages) [STAGE_SCHEMA, STAGE_POLICY, STAGE_QUALITY]
         \<or> ex_terminal x \<noteq> last stages)
       (ValueError ''Evaluation stages must be an ordered terminal prefix'')) (\<lambda>_.
     rbind (raise_when (\<exists>r \<in> set (butlast (ex_stages x)). st_verdict r \<noteq> PASSED)
       (ValueError ''only the terminal Evaluation stage may be non-successful'')) (\<lambda>_.
     rbind (raise_when (st_verdict (last (ex_stages x)) \<noteq> ex_verdict x)
       (ValueError ''final verdict must match the terminal stage verdict'')) (\<lambda>_.
     raise_when (ex_verdict x = PASSED \<and> List.length stages \<noteq> 3)
       (ValueError ''passed Evaluation requires all three stages'')))))"

definition check_error :: "evaluation_result \<Rightarrow> unit result" where
  "check_error x =
     rbind (raise_when (ex_verdict x \<in> set error_verdicts \<and> ex_error x = None)
       (ValueError ''error, timeout, and cancellation require ErrorDetail'')) (\<lambda>_.
     rbind (raise_when (ex_verdict x \<notin> set error_verdicts \<and> ex_error x \<noteq> None)
       (ValueError ''expected Evaluation verdicts must not carry ErrorDetail'')) (\<lambda>_.
     rbind (raise_when (ex_verdict x = VERDICT_TIMED_OUT \<and> map_option ed_category (ex_error x) \<notin> {None, Some TIMEOUT})
       (ValueError ''timed_out verdict requires a timeout error category'')) (\<lambda>_.
     raise_when (ex_verdict x = VERDICT_CANCELLED \<and> map_option ed_category (ex_error x) \<notin> {None, Some CANCELLED_CALL})
       (ValueError ''cancelled verdict requires a cancelled error category''))))"

definition mk_evaluation_result :: "evaluation_result \<Rightarrow> evaluation_result result" where
  "mk_evaluation_result x =
     rbind (raise_when (ex_contract x \<noteq> EVALUATION_CONTRACT_VERSION)
       (ValueError ''unsupported Evaluation result contract version'')) (\<lambda>_.
     rbind (check_history x) (\<lambda>_.
     rbind (check_error x) (\<lambda>_.
     rbind (raise_when (ex_evidence x \<noteq> evidence_union (ex_stages x))
       (ValueError ''result evidence must be the ordered stage evidence union'')) (\<lambda>_.
     Inr x))))"

definition evaluation_result_to_data :: "evaluation_result \<Rightarrow> json_object" where
  "evaluation_result_to_data x = [(''contract_version'', JStr (ex_contract x)), (''evaluation_id'', JStr (ex_id x)),
     (''verdict'', JStr (verdict_value (ex_verdict x))),
     (''stage_results'', JList (List.map (\<lambda>r. JObj (stage_result_to_data r)) (ex_stages x))),
     (''terminal_stage'', JStr (stage_value (ex_terminal x))), (''evidence_refs'', references_to_data (ex_evidence x)),
     (''error'', case ex_error x of None \<Rightarrow> JNull | Some e \<Rightarrow> JObj (error_detail_to_data e))]"

definition evaluation_result_fields :: "string list" where
  "evaluation_result_fields = [''contract_version'', ''evaluation_id'', ''verdict'', ''stage_results'', ''terminal_stage'',
     ''evidence_refs'', ''error'']"

definition evaluation_result_from_data :: "pylib \<Rightarrow> json_object \<Rightarrow> evaluation_result result" where
  "evaluation_result_from_data L d =
     rbind (require_contract_keys d evaluation_result_fields ''Evaluation result'') (\<lambda>_.
     rbind (obj_index d ''error'') (\<lambda>raw_error.
     rbind (field_str L d ''contract_version'') (\<lambda>c.
     rbind (ident_at L d ''evaluation_id'') (\<lambda>i.
     rbind (rbind (field_str L d ''verdict'') (enum_of L ''EvaluationVerdict'' evaluation_verdicts)) (\<lambda>v.
     rbind (rbind (array_at d ''stage_results'' ''stage results'') (objects ''stage result'' (stage_result_from_data L))) (\<lambda>rs.
     rbind (rbind (field_str L d ''terminal_stage'') (enum_of L ''EvaluationStage'' evaluation_stages)) (\<lambda>t.
     rbind (rbind (array_at d ''evidence_refs'' ''evidence references'')
       (objects ''evidence reference'' (reference_from_data L))) (\<lambda>refs.
     rbind (object_or_none ''Evaluation error'' (error_detail_from_data L) raw_error) (\<lambda>e.
     mk_evaluation_result \<lparr>ex_contract = c, ex_id = i, ex_verdict = v, ex_stages = rs, ex_terminal = t,
       ex_evidence = refs, ex_error = e\<rparr>)))))))))"

definition result_digest :: "(json_object \<Rightarrow> string) \<Rightarrow> evaluation_result \<Rightarrow> string" where
  "result_digest H x = H (evaluation_result_to_data x)"

definition evaluation_result_codable :: "evaluation_result \<Rightarrow> bool" where
  "evaluation_result_codable x \<longleftrightarrow> mk_evaluation_result x = Inr x \<and> identifier_ok (ex_id x)
     \<and> list_all stage_result_codable (ex_stages x) \<and> pred_option error_detail_codable (ex_error x)"

lemma mk_evaluation_result_Inr:
  "mk_evaluation_result x = Inr y \<longleftrightarrow> y = x \<and> ex_contract x = EVALUATION_CONTRACT_VERSION
     \<and> check_history x = Inr () \<and> check_error x = Inr () \<and> ex_evidence x = evidence_union (ex_stages x)"
  by (auto simp: mk_evaluation_result_def result_simps)

lemma codable_evidence: "evaluation_result_codable x \<Longrightarrow> list_all reference_ok (ex_evidence x)"
  by (auto simp: evaluation_result_codable_def mk_evaluation_result_Inr evidence_union_def list_all_iff stage_result_codable_def)

lemma evaluation_result_roundtrip:
  assumes ok: "evaluation_result_codable x"
  shows "evaluation_result_from_data L (evaluation_result_to_data x) = Inr x"
proof -
  have stages: "objects n (stage_result_from_data L) (List.map (\<lambda>r. JObj (stage_result_to_data r)) (ex_stages x)) = Inr (ex_stages x)" for n
    using ok by (intro objects_inverse) (auto simp: evaluation_result_codable_def list_all_iff stage_result_roundtrip)
  have err: "object_or_none n (error_detail_from_data L) (case ex_error x of None \<Rightarrow> JNull | Some e \<Rightarrow> JObj (error_detail_to_data e))
      = Inr (ex_error x)" for n
    using ok by (cases "ex_error x") (simp_all add: evaluation_result_codable_def error_detail_roundtrip)
  from ok have "mk_evaluation_result x = Inr x" "identifier_ok (ex_id x)" by (simp_all add: evaluation_result_codable_def)
  with stages err references_decode [OF codable_evidence [OF ok]] show ?thesis
    by (cases x) (simp add: evaluation_result_from_data_def evaluation_result_to_data_def require_contract_keys_def
        same_fields_def evaluation_result_fields_def references_to_data_def)
qed

text \<open>\<open>stages[-1]\<close> raises \<open>IndexError\<close> on the empty tuple.\<close>

definition result_from_stages :: "string \<Rightarrow> stage_result list \<Rightarrow> error_detail option \<Rightarrow> evaluation_result result" where
  "result_from_stages i rs err =
     (if rs = [] then Inl (ForeignError ''IndexError'')
      else mk_evaluation_result \<lparr>ex_contract = EVALUATION_CONTRACT_VERSION, ex_id = i, ex_verdict = st_verdict (last rs),
        ex_stages = rs, ex_terminal = st_stage (last rs), ex_evidence = evidence_union rs, ex_error = err\<rparr>)"

text \<open>The validator registered for the schema of results.\<close>

definition result_schema_validator :: "pylib \<Rightarrow> value_validator" where
  "result_schema_validator L v =
     rbind (rbind (as_object v ''Evaluation result'') (evaluation_result_from_data L)) (\<lambda>_. Inr ())"

subsection \<open>Capabilities of a quality evaluator\<close>

record evaluator_capabilities =
  qc_evaluator :: provider_id
  qc_contract :: string
  qc_requests :: "string list"
  qc_results :: "string list"
  qc_schemas :: "schema_ref list"
  qc_profiles :: "string list"
  qc_evidence :: "string list"

definition check_names :: "string list \<Rightarrow> string \<Rightarrow> unit result" where
  "check_names values name =
     rbind (raise_when (values = [] \<or> \<not> distinct values) (ValueError (name @ '' must be non-empty and unique''))) (\<lambda>_.
     rcheck (\<lambda>v. require_text v name) values)"

definition mk_capabilities :: "evaluator_capabilities \<Rightarrow> evaluator_capabilities result" where
  "mk_capabilities c =
     rbind (raise_when (qc_contract c \<noteq> EVALUATION_CONTRACT_VERSION)
       (ValueError ''unsupported capabilities contract version'')) (\<lambda>_.
     rbind (rcheck (\<lambda>(vs, n). check_names vs n) [(qc_requests c, ''request_versions''), (qc_results c, ''result_versions''),
       (qc_profiles c, ''profile_kinds''), (qc_evidence c, ''evidence_kinds'')]) (\<lambda>_.
     rbind (raise_when (qc_schemas c = [] \<or> \<not> distinct (qc_schemas c))
       (ValueError ''input_schemas must be non-empty and unique'')) (\<lambda>_.
     Inr c)))"

definition strings_to_data :: "string list \<Rightarrow> json" where
  "strings_to_data xs = JList (List.map JStr xs)"

definition strings_at :: "pylib \<Rightarrow> json_object \<Rightarrow> string \<Rightarrow> string \<Rightarrow> string list result" where
  "strings_at L d k fname = rbind (array_at d k fname) (\<lambda>xs. Inr (List.map (py_str L) xs))"

lemma strings_at_simps [simp]:
  "strings_at L ((k, v) # d) k' n = (if k = k' then rbind (as_array v n) (\<lambda>xs. Inr (List.map (py_str L) xs)) else strings_at L d k' n)"
  by (simp add: strings_at_def)

lemma strings_decode [simp]: "rbind (as_array (strings_to_data xs) n) (\<lambda>xs. Inr (List.map (py_str L) xs)) = Inr xs"
  by (simp add: strings_to_data_def comp_def)

definition capabilities_to_data :: "evaluator_capabilities \<Rightarrow> json_object" where
  "capabilities_to_data c = [(''evaluator_id'', JStr (qc_evaluator c)), (''contract_version'', JStr (qc_contract c)),
     (''request_versions'', strings_to_data (qc_requests c)), (''result_versions'', strings_to_data (qc_results c)),
     (''input_schemas'', JList (List.map (\<lambda>s. JObj (schema_to_data s)) (qc_schemas c))),
     (''profile_kinds'', strings_to_data (qc_profiles c)), (''evidence_kinds'', strings_to_data (qc_evidence c))]"

definition capabilities_fields :: "string list" where
  "capabilities_fields = [''evaluator_id'', ''contract_version'', ''request_versions'', ''result_versions'', ''input_schemas'',
     ''profile_kinds'', ''evidence_kinds'']"

definition capabilities_from_data :: "pylib \<Rightarrow> json_object \<Rightarrow> evaluator_capabilities result" where
  "capabilities_from_data L d =
     rbind (require_contract_keys d capabilities_fields ''quality evaluator capabilities'') (\<lambda>_.
     rbind (ident_at L d ''evaluator_id'') (\<lambda>e.
     rbind (field_str L d ''contract_version'') (\<lambda>c.
     rbind (strings_at L d ''request_versions'' ''request versions'') (\<lambda>qs.
     rbind (strings_at L d ''result_versions'' ''result versions'') (\<lambda>rs.
     rbind (rbind (array_at d ''input_schemas'' ''input schemas'') (objects ''input schema'' (schema_from_data L))) (\<lambda>ss.
     rbind (strings_at L d ''profile_kinds'' ''profile kinds'') (\<lambda>ps.
     rbind (strings_at L d ''evidence_kinds'' ''evidence kinds'') (\<lambda>es.
     mk_capabilities \<lparr>qc_evaluator = e, qc_contract = c, qc_requests = qs, qc_results = rs, qc_schemas = ss,
       qc_profiles = ps, qc_evidence = es\<rparr>))))))))"

definition capabilities_ok :: "evaluator_capabilities \<Rightarrow> bool" where
  "capabilities_ok c \<longleftrightarrow> mk_capabilities c = Inr c \<and> identifier_ok (qc_evaluator c) \<and> list_all schema_ok (qc_schemas c)"

lemma capabilities_roundtrip:
  assumes ok: "capabilities_ok c"
  shows "capabilities_from_data L (capabilities_to_data c) = Inr c"
proof -
  have schemas: "objects n (schema_from_data L) (List.map (\<lambda>s. JObj (schema_to_data s)) (qc_schemas c)) = Inr (qc_schemas c)" for n
    using ok by (intro objects_inverse) (simp add: capabilities_ok_def list_all_iff schema_roundtrip)
  with ok show ?thesis
    by (cases c) (simp add: capabilities_from_data_def capabilities_to_data_def capabilities_ok_def require_contract_keys_def
        same_fields_def capabilities_fields_def)
qed

end
