(* ===== verification/Evaluation_Gateway.thy ===== *)
theory Evaluation_Gateway
  imports Evaluation_Model Checkpoint_Gateway
begin

section \<open>The gateways to evaluation policies and quality evaluators\<close>

text \<open>
  \<open>evaluation/gateway.py\<close>: every call of an injected policy or evaluator is a dispatched call, its
  grant may drop constraints of the request but not add or change one, and its answer is checked
  before it is passed on. An answer that is not an \<open>EvaluationStageResult\<close> is \<open>None\<close>.
\<close>

definition EVALUATION_POLICY_EVALUATE_ACTION :: action_ref where
  "EVALUATION_POLICY_EVALUATE_ACTION = \<lparr>ac_namespace = ''core'', ac_name = ''evaluation.policy.evaluate'', ac_version = ''1''\<rparr>"

definition QUALITY_CAPABILITIES_ACTION :: action_ref where
  "QUALITY_CAPABILITIES_ACTION = \<lparr>ac_namespace = ''core'', ac_name = ''evaluation.quality.capabilities'', ac_version = ''1''\<rparr>"

definition QUALITY_EVALUATE_ACTION :: action_ref where
  "QUALITY_EVALUATE_ACTION = \<lparr>ac_namespace = ''core'', ac_name = ''evaluation.quality.evaluate'', ac_version = ''1''\<rparr>"

definition evaluation_actions :: "action_ref list" where
  "evaluation_actions = [EVALUATION_POLICY_EVALUATE_ACTION, QUALITY_CAPABILITIES_ACTION, QUALITY_EVALUATE_ACTION]"

subsection \<open>Registries\<close>

type_synonym 'w evaluation_policy = "evaluation_request \<Rightarrow> call_context \<Rightarrow> 'w \<Rightarrow> stage_result option awaited \<times> 'w"

record 'w quality_evaluator =
  qe_capabilities :: "call_context \<Rightarrow> 'w \<Rightarrow> evaluator_capabilities awaited \<times> 'w"
  qe_evaluate :: "evaluation_request \<Rightarrow> call_context \<Rightarrow> 'w \<Rightarrow> stage_result option awaited \<times> 'w"

type_synonym 'w policy_registry = "string \<rightharpoonup> 'w evaluation_policy"
type_synonym 'w evaluator_registry = "provider_id \<rightharpoonup> 'w quality_evaluator"

definition policy_taken :: exn where
  "policy_taken = core_error CONFLICT ''evaluation_policy_already_registered'' ''Evaluation policy is already registered'' False None"

definition register_policy :: "string \<times> 'w evaluation_policy \<Rightarrow> 'w policy_registry \<Rightarrow> 'w policy_registry result" where
  "register_policy e r = (if fst e \<in> dom r then Inl policy_taken else Inr (r(fst e \<mapsto> snd e)))"

definition get_policy :: "'w policy_registry \<Rightarrow> string \<Rightarrow> 'w evaluation_policy result" where
  "get_policy r ref = (case r ref of
       None \<Rightarrow> Inl (core_error UNAVAILABLE ''evaluation_policy_not_registered'' ''Evaluation policy is not registered'' False None)
     | Some p \<Rightarrow> Inr p)"

definition evaluator_taken :: exn where
  "evaluator_taken = core_error CONFLICT ''quality_evaluator_already_registered'' ''quality evaluator is already registered'' False None"

definition register_evaluator :: "provider_id \<times> 'w quality_evaluator \<Rightarrow> 'w evaluator_registry \<Rightarrow> 'w evaluator_registry result" where
  "register_evaluator e r = (if fst e \<in> dom r then Inl evaluator_taken else Inr (r(fst e \<mapsto> snd e)))"

definition get_evaluator :: "'w evaluator_registry \<Rightarrow> provider_id \<Rightarrow> 'w quality_evaluator result" where
  "get_evaluator r i = (case r i of
       None \<Rightarrow> Inl (core_error UNAVAILABLE ''quality_evaluator_not_registered'' ''quality evaluator is not registered'' False None)
     | Some e \<Rightarrow> Inr e)"

interpretation evaluation_policies: once_registry register_policy "\<lambda>r k. r k" fst snd "\<lambda>_. policy_taken"
  by unfold_locales (auto simp: register_policy_def)

interpretation quality_evaluators: once_registry register_evaluator "\<lambda>r k. r k" fst snd "\<lambda>_. evaluator_taken"
  by unfold_locales (auto simp: register_evaluator_def)

subsection \<open>Checks\<close>

definition evaluation_protocol_failure :: "string \<Rightarrow> exn" where
  "evaluation_protocol_failure code =
     core_error PROTOCOL_FAILURE code ''Evaluation provider returned an invalid contract'' False None"

definition request_constraints :: "(json_object \<Rightarrow> string) \<Rightarrow> evaluation_request \<Rightarrow> json_object" where
  "request_constraints H q = [(''evaluation_id'', JStr (er_id q)), (''request_version'', JStr (er_contract q)),
     (''schema'', JStr (sm_namespace (er_input_schema q) @ ''/'' @ sm_name (er_input_schema q) @ ''/'' @ sm_version (er_input_schema q))),
     (''request_fingerprint'', JStr (request_fingerprint H q))]"

definition evaluation_access ::
  "(json_object \<Rightarrow> string) \<Rightarrow> evaluation_request \<Rightarrow> call_context \<Rightarrow> action_ref \<Rightarrow> string \<Rightarrow> string \<Rightarrow> access_request result" where
  "evaluation_access H q ctx act kind i =
     rbind (rbind (mk_identifier (cx_run_id ctx)) (core_principal PRINCIPAL_RUN)) (\<lambda>principal.
     rbind (rbind (mk_identifier i) (\<lambda>i. mk_resource ''core'' kind i None)) (\<lambda>resource.
     Inr \<lparr>aq_principal = principal, aq_action = act, aq_resource = resource, aq_scope = er_scope q, aq_context = ctx,
       aq_constraints = map_of (request_constraints H q)\<rparr>))"

definition validate_stage_answer ::
  "stage_result option \<Rightarrow> evaluation_stage \<Rightarrow> evaluation_verdict list \<Rightarrow> stage_result result" where
  "validate_stage_answer a stage verdicts = (case a of
       None \<Rightarrow> Inl (evaluation_protocol_failure ''malformed_evaluation_stage_result'')
     | Some r \<Rightarrow> if st_stage r \<noteq> stage \<or> st_verdict r \<notin> set verdicts
         then Inl (evaluation_protocol_failure ''invalid_evaluation_stage_result'') else Inr r)"

definition validate_evidence :: "stage_result \<Rightarrow> evaluation_request \<Rightarrow> string list \<Rightarrow> unit result" where
  "validate_evidence r q kinds = rcheck (\<lambda>ref.
     rbind (raise_when (\<not> is_equal_or_descendant_of (kr_scope ref) (er_scope q))
       (evaluation_protocol_failure ''evaluation_evidence_scope_mismatch'')) (\<lambda>_.
     raise_when (kinds \<noteq> [] \<and> kr_type ref \<notin> set kinds)
       (evaluation_protocol_failure ''evaluation_evidence_kind_unsupported''))) (st_evidence r)"

text \<open>The loop raises the same error for every offending key, so its order is not observable.\<close>

definition grant_narrows_constraints :: "(string \<rightharpoonup> json) \<Rightarrow> json_object \<Rightarrow> bool" where
  "grant_narrows_constraints granted requested \<longleftrightarrow> dom granted \<subseteq> set (List.map fst requested)
     \<and> list_all (\<lambda>(k, v). case granted k of None \<Rightarrow> True | Some g \<Rightarrow> json_eq v g) requested"

definition validate_grant_constraints :: "json_object \<Rightarrow> authorized_call \<Rightarrow> unit result" where
  "validate_grant_constraints requested call =
     raise_when (\<not> grant_narrows_constraints (gr_constraints (au_grant call)) requested)
       (invalid_grant ''Evaluation grant constraints do not match the request'')"

definition validate_capabilities :: "evaluator_capabilities \<Rightarrow> evaluation_request \<Rightarrow> unit result" where
  "validate_capabilities c q =
     rbind (raise_when (qc_evaluator c \<noteq> er_evaluator q) (evaluation_protocol_failure ''quality_evaluator_identity_mismatch'')) (\<lambda>_.
     rbind (raise_when (EVALUATION_CONTRACT_VERSION \<notin> set (qc_requests c))
       (evaluation_protocol_failure ''evaluation_request_version_unsupported'')) (\<lambda>_.
     rbind (raise_when (EVALUATION_CONTRACT_VERSION \<notin> set (qc_results c))
       (evaluation_protocol_failure ''evaluation_result_version_unsupported'')) (\<lambda>_.
     rbind (raise_when (er_input_schema q \<notin> set (qc_schemas c))
       (core_error UNSUPPORTED_CAPABILITY ''evaluation_input_schema_unsupported''
          ''quality evaluator does not support the Evaluation input schema'' False None)) (\<lambda>_.
     raise_when (CHR '':'' \<notin> set (er_profile_ref q)
         \<or> takeWhile (\<lambda>c. c \<noteq> CHR '':'') (er_profile_ref q) \<notin> set (qc_profiles c))
       (core_error UNSUPPORTED_CAPABILITY ''evaluation_quality_profile_unsupported''
          ''quality evaluator does not support the external profile kind'' False None)))))"

subsection \<open>The guarded calls\<close>

record 'w evaluation_env =
  ee_policies :: "'w policy_registry"
  ee_evaluators :: "'w evaluator_registry"
  ee_policy_dispatcher :: "'w dispatcher"
  ee_capabilities_dispatcher :: "'w dispatcher"
  ee_evaluate_dispatcher :: "'w dispatcher"
  ee_clock :: "'w \<Rightarrow> datetime"
  ee_token :: "'w \<Rightarrow> unit cancellation_token"
  ee_digest :: "json_object \<Rightarrow> string"

definition policy_operation ::
  "'w evaluation_env \<Rightarrow> 'w evaluation_policy \<Rightarrow> evaluation_request \<Rightarrow> authorized_call \<Rightarrow> ('w, exn, stage_result) action" where
  "policy_operation E policy q call =
     abind (aresult (validate_grant_constraints (request_constraints (ee_digest E) q) call)) (\<lambda>_.
     abind (await_provider (au_context call) (ee_token E) (ee_clock E) (policy q (au_context call))) (\<lambda>a.
     abind (aresult (validate_stage_answer a STAGE_POLICY [PASSED, POLICY_DENIED, POLICY_INDETERMINATE])) (\<lambda>r.
     abind (aresult (validate_evidence r q [])) (\<lambda>_. areturn r))))"

definition policy_evaluate :: "'w evaluation_env \<Rightarrow> evaluation_request \<Rightarrow> call_context \<Rightarrow> ('w, exn, stage_result) action" where
  "policy_evaluate E q ctx =
     abind (aresult (get_policy (ee_policies E) (er_policy_ref q))) (\<lambda>policy.
     abind (aresult (evaluation_access (ee_digest E) q ctx EVALUATION_POLICY_EVALUATE_ACTION ''evaluation_policy'' (er_policy_ref q))) (\<lambda>access.
     dispatch (ee_policy_dispatcher E) access (policy_operation E policy q)))"

definition capabilities_operation ::
  "'w evaluation_env \<Rightarrow> 'w quality_evaluator \<Rightarrow> evaluation_request \<Rightarrow> authorized_call \<Rightarrow> ('w, exn, evaluator_capabilities) action" where
  "capabilities_operation E evaluator q call =
     abind (aresult (validate_grant_constraints (request_constraints (ee_digest E) q) call)) (\<lambda>_.
     abind (await_provider (au_context call) (ee_token E) (ee_clock E) (qe_capabilities evaluator (au_context call))) (\<lambda>c.
     abind (aresult (validate_capabilities c q)) (\<lambda>_. areturn c)))"

definition quality_capabilities ::
  "'w evaluation_env \<Rightarrow> evaluation_request \<Rightarrow> call_context \<Rightarrow> ('w, exn, evaluator_capabilities) action" where
  "quality_capabilities E q ctx =
     abind (aresult (get_evaluator (ee_evaluators E) (er_evaluator q))) (\<lambda>evaluator.
     abind (aresult (evaluation_access (ee_digest E) q ctx QUALITY_CAPABILITIES_ACTION ''quality_evaluator'' (er_evaluator q))) (\<lambda>access.
     dispatch (ee_capabilities_dispatcher E) access (capabilities_operation E evaluator q)))"

definition quality_operation ::
  "'w evaluation_env \<Rightarrow> 'w quality_evaluator \<Rightarrow> evaluator_capabilities \<Rightarrow> evaluation_request \<Rightarrow> authorized_call
    \<Rightarrow> ('w, exn, stage_result) action" where
  "quality_operation E evaluator c q call =
     abind (aresult (validate_grant_constraints (request_constraints (ee_digest E) q) call)) (\<lambda>_.
     abind (await_provider (au_context call) (ee_token E) (ee_clock E) (qe_evaluate evaluator q (au_context call))) (\<lambda>a.
     abind (aresult (validate_stage_answer a STAGE_QUALITY [PASSED, QUALITY_FAILED])) (\<lambda>r.
     abind (aresult (validate_evidence r q (qc_evidence c))) (\<lambda>_. areturn r))))"

definition quality_evaluate :: "'w evaluation_env \<Rightarrow> evaluation_request \<Rightarrow> call_context \<Rightarrow> ('w, exn, stage_result) action" where
  "quality_evaluate E q ctx =
     abind (aresult (get_evaluator (ee_evaluators E) (er_evaluator q))) (\<lambda>evaluator.
     abind (quality_capabilities E q ctx) (\<lambda>c.
     abind (aresult (evaluation_access (ee_digest E) q ctx QUALITY_EVALUATE_ACTION ''quality_evaluator'' (er_evaluator q))) (\<lambda>access.
     dispatch (ee_evaluate_dispatcher E) access (quality_operation E evaluator c q))))"

subsection \<open>What the gateways let through\<close>

text \<open>
  The access a gateway asks for: the action on the provider of that kind and identity, by the Run
  of the call, in the scope of the request and with its constraints.
\<close>

definition asks_for ::
  "(json_object \<Rightarrow> string) \<Rightarrow> evaluation_request \<Rightarrow> call_context \<Rightarrow> action_ref \<Rightarrow> string \<Rightarrow> string \<Rightarrow> access_request \<Rightarrow> bool" where
  "asks_for H q ctx act kind i a \<longleftrightarrow>
     aq_principal a = \<lparr>pr_namespace = ''core'', pr_kind = ''run'', pr_id = cx_run_id ctx\<rparr> \<and> aq_action a = act
     \<and> aq_resource a = \<lparr>rs_namespace = ''core'', rs_kind = kind, rs_id = i, rs_owner = None\<rparr>
     \<and> aq_scope a = er_scope q \<and> aq_context a = ctx \<and> aq_constraints a = map_of (request_constraints H q)"

lemma evaluation_access_asks: "evaluation_access H q ctx act kind i = Inr a \<Longrightarrow> asks_for H q ctx act kind i a"
  by (auto simp: evaluation_access_def asks_for_def rbind_eq_Inr core_principal_def mk_principal_def mk_resource_def mk_identifier_def
      split: if_splits)

lemma validate_stage_answer_Inr:
  "validate_stage_answer a s vs = Inr r \<longleftrightarrow> a = Some r \<and> st_stage r = s \<and> st_verdict r \<in> set vs"
  by (auto simp: validate_stage_answer_def split: option.splits if_splits)

text \<open>A verdict of the policy comes from an authorized, active call of the registered policy.\<close>

lemma policy_evaluate_Inr:
  assumes "policy_evaluate E q ctx w = (Inr r, w')"
  obtains policy access call w1 where "ee_policies E (er_policy_ref q) = Some policy"
    "asks_for (ee_digest E) q ctx EVALUATION_POLICY_EVALUATE_ACTION ''evaluation_policy'' (er_policy_ref q) access"
    "authorized (ee_policy_dispatcher E) access w call w1"
    "policy q (au_context call) w1 = (Operation_Done (Inr (Some r)), w')" "st_stage r = STAGE_POLICY"
proof -
  from assms obtain policy access where p: "ee_policies E (er_policy_ref q) = Some policy"
    "evaluation_access (ee_digest E) q ctx EVALUATION_POLICY_EVALUATE_ACTION ''evaluation_policy'' (er_policy_ref q) = Inr access"
    "dispatch (ee_policy_dispatcher E) access (policy_operation E policy q) w = (Inr r, w')"
    by (auto simp: policy_evaluate_def abind_eq_Inr aresult_def get_policy_def split: option.splits)
  from dispatch_Inr [OF p(3)] obtain call w1 where
    c: "authorized (ee_policy_dispatcher E) access w call w1" "policy_operation E policy q call w1 = (Inr r, w')" by blast
  from c(2) have "policy q (au_context call) w1 = (Operation_Done (Inr (Some r)), w')" "st_stage r = STAGE_POLICY"
    by (auto simp: policy_operation_def abind_eq_Inr aresult_def areturn_def await_provider_Inr validate_stage_answer_Inr)
  with p(1) evaluation_access_asks [OF p(2)] c(1) that show ?thesis by blast
qed

text \<open>The capabilities come from the registered evaluator, in an authorized call, and fit the request.\<close>

lemma quality_capabilities_Inr:
  assumes "quality_capabilities E q ctx w = (Inr c, w')"
  obtains evaluator access call w1 where "ee_evaluators E (er_evaluator q) = Some evaluator"
    "asks_for (ee_digest E) q ctx QUALITY_CAPABILITIES_ACTION ''quality_evaluator'' (er_evaluator q) access"
    "authorized (ee_capabilities_dispatcher E) access w call w1"
    "qe_capabilities evaluator (au_context call) w1 = (Operation_Done (Inr c), w')" "validate_capabilities c q = Inr ()"
proof -
  from assms obtain evaluator access where p: "ee_evaluators E (er_evaluator q) = Some evaluator"
    "evaluation_access (ee_digest E) q ctx QUALITY_CAPABILITIES_ACTION ''quality_evaluator'' (er_evaluator q) = Inr access"
    "dispatch (ee_capabilities_dispatcher E) access (capabilities_operation E evaluator q) w = (Inr c, w')"
    by (auto simp: quality_capabilities_def abind_eq_Inr aresult_def get_evaluator_def split: option.splits)
  from dispatch_Inr [OF p(3)] obtain call w1 where
    d: "authorized (ee_capabilities_dispatcher E) access w call w1" "capabilities_operation E evaluator q call w1 = (Inr c, w')" by blast
  from d(2) have "qe_capabilities evaluator (au_context call) w1 = (Operation_Done (Inr c), w')" "validate_capabilities c q = Inr ()"
    by (auto simp: capabilities_operation_def abind_eq_Inr aresult_def areturn_def await_provider_Inr)
  with p(1) evaluation_access_asks [OF p(2)] d(1) that show ?thesis by blast
qed

text \<open>
  A verdict of the quality evaluator comes from an authorized call made after an authorized look at
  capabilities that fit the request.
\<close>

lemma quality_evaluate_Inr:
  assumes "quality_evaluate E q ctx w = (Inr r, w')"
  obtains evaluator c w1 access call w2 where "ee_evaluators E (er_evaluator q) = Some evaluator"
    "quality_capabilities E q ctx w = (Inr c, w1)"
    "asks_for (ee_digest E) q ctx QUALITY_EVALUATE_ACTION ''quality_evaluator'' (er_evaluator q) access"
    "authorized (ee_evaluate_dispatcher E) access w1 call w2"
    "qe_evaluate evaluator q (au_context call) w2 = (Operation_Done (Inr (Some r)), w')" "st_stage r = STAGE_QUALITY"
proof -
  from assms obtain evaluator c w1 access where p: "ee_evaluators E (er_evaluator q) = Some evaluator"
    "quality_capabilities E q ctx w = (Inr c, w1)"
    "evaluation_access (ee_digest E) q ctx QUALITY_EVALUATE_ACTION ''quality_evaluator'' (er_evaluator q) = Inr access"
    "dispatch (ee_evaluate_dispatcher E) access (quality_operation E evaluator c q) w1 = (Inr r, w')"
    by (auto simp: quality_evaluate_def abind_eq_Inr aresult_def get_evaluator_def split: option.splits)
  from dispatch_Inr [OF p(4)] obtain call w2 where
    d: "authorized (ee_evaluate_dispatcher E) access w1 call w2" "quality_operation E evaluator c q call w2 = (Inr r, w')" by blast
  from d(2) have "qe_evaluate evaluator q (au_context call) w2 = (Operation_Done (Inr (Some r)), w')" "st_stage r = STAGE_QUALITY"
    by (auto simp: quality_operation_def abind_eq_Inr aresult_def areturn_def await_provider_Inr validate_stage_answer_Inr)
  with p(1,2) evaluation_access_asks [OF p(3)] d(1) that show ?thesis by blast
qed

end
