(* ===== verification/Workflow_Graph.thy ===== *)
theory Workflow_Graph
  imports Workflow_Validation
begin

section \<open>What the validator accepts\<close>

text \<open>
  The loops of the validator against what they compute: the node dictionary, the counters and the
  successor lists, the topological order, and the set of nodes reachable from the workflow input.
  \<open>workflow_valid\<close> states the acceptance conditions on the graph itself.
\<close>

subsection \<open>The node dictionary\<close>

lemma AList_update_new: "k \<notin> fst ` set d \<Longrightarrow> AList.update k v d = d @ [(k, v)]"
  by (induction d) auto

lemma fold_update_new:
  "distinct (List.map f xs) \<Longrightarrow> fst ` set d \<inter> f ` set xs = {} \<Longrightarrow>
    fold (\<lambda>x. AList.update (f x) x) xs d = d @ List.map (\<lambda>x. (f x, x)) xs"
  by (induction xs arbitrary: d) (auto simp: AList_update_new)

lemma node_dict_distinct:
  "distinct (List.map wn_id ns) \<Longrightarrow> node_dict ns = List.map (\<lambda>n. (wn_id n, n)) ns"
  unfolding node_dict_def by (subst fold_update_new) simp_all

lemma node_dict_keys [simp]: "distinct (List.map wn_id ns) \<Longrightarrow> fst ` set (node_dict ns) = wn_id ` set ns"
  by (force simp: node_dict_distinct)

lemma node_dict_lookup:
  assumes "distinct (List.map wn_id ns)"
  shows "map_of (node_dict ns) i = Some n \<longleftrightarrow> n \<in> set ns \<and> wn_id n = i"
proof -
  have "map_of (node_dict ns) i = Some n \<longleftrightarrow> (i, n) \<in> set (node_dict ns)"
    using assms by (intro map_of_eq_Some_iff) (simp add: node_dict_distinct comp_def)
  then show ?thesis using assms by (auto simp: node_dict_distinct)
qed

subsection \<open>The topological order\<close>

lemma add_edges_spec:
  assumes "\<forall>(s, t) \<in> set es. s \<in> dom out \<and> t \<in> dom (map_of inc)"
  shows "\<exists>inc' out'. add_edges es inc out = Inr (inc', out')
    \<and> List.map fst inc' = List.map fst inc
    \<and> (\<forall>n. map_of inc' n = map_option (\<lambda>c. c + int (List.length (filter (\<lambda>e. snd e = n) es))) (map_of inc n))
    \<and> (\<forall>n. out' n = map_option (\<lambda>ts. ts @ List.map snd (filter (\<lambda>e. fst e = n) es)) (out n))"
  using assms
proof (induction es inc out rule: add_edges.induct)
  case (1 inc out)
  have "map_option (\<lambda>c. c) x = x" for x :: "int option" by (cases x) simp_all
  moreover have "map_option (\<lambda>c. c) x = x" for x :: "string list option" by (cases x) simp_all
  ultimately show ?case by simp
next
  case (2 s t es inc out)
  from 2(2) obtain c ts where ct: "map_of inc t = Some c" "out s = Some ts" by auto
  let ?inc = "AList.update t (c + 1) inc" and ?out = "out(s \<mapsto> ts @ [t])"
  have "\<forall>(s, t) \<in> set es. s \<in> dom ?out \<and> t \<in> dom (map_of ?inc)" using 2(2) by auto
  from 2(1) [OF ct this] obtain inc' out' where r: "add_edges es ?inc ?out = Inr (inc', out')"
    "List.map fst inc' = List.map fst ?inc"
    "\<And>n. map_of inc' n = map_option (\<lambda>c. c + int (List.length (filter (\<lambda>e. snd e = n) es))) (map_of ?inc n)"
    "\<And>n. out' n = map_option (\<lambda>ts. ts @ List.map snd (filter (\<lambda>e. fst e = n) es)) (?out n)" by blast
  have "List.map fst ?inc = List.map fst inc"
    using ct(1) by (induction inc) (auto split: if_splits)
  moreover have "add_edges ((s, t) # es) inc out = Inr (inc', out')" using ct r(1) by simp
  moreover have "map_of inc' n = map_option (\<lambda>c. c + int (List.length (filter (\<lambda>e. snd e = n) ((s, t) # es)))) (map_of inc n)" for n
    using ct(1) r(3) [of n] by auto
  moreover have "out' n = map_option (\<lambda>ts. ts @ List.map snd (filter (\<lambda>e. fst e = n) ((s, t) # es))) (out n)" for n
    using ct(2) r(4) [of n] by auto
  ultimately show ?case using r(2) by metis
qed

definition graph_ok :: "workflow_definition \<Rightarrow> bool" where
  "graph_ok w \<longleftrightarrow> distinct (List.map wn_id (wf_nodes w)) \<and> distinct (workflow_edges w)
     \<and> (\<forall>e \<in> set (wf_dependencies w). de_source e \<in> wn_id ` set (wf_nodes w) \<and> de_target e \<in> wn_id ` set (wf_nodes w))"

lemma graph_edges:
  "graph_ok w \<Longrightarrow> (s, t) \<in> set (workflow_edges w) \<Longrightarrow> s \<in> wn_id ` set (wf_nodes w) \<and> t \<in> wn_id ` set (wf_nodes w)"
  by (auto simp: graph_ok_def workflow_edges_def)

text \<open>The counters and the successor lists the loop starts from.\<close>

definition initial_counts :: "workflow_definition \<Rightarrow> (counts \<times> outgoing) result" where
  "initial_counts w = (let nodes = node_dict (wf_nodes w) in
     add_edges (workflow_edges w) (List.map (\<lambda>(i, n). (i, 0)) nodes) (map_of (List.map (\<lambda>(i, n). (i, [])) nodes)))"

lemma initial_counts_spec:
  assumes ok: "graph_ok w"
  obtains inc out where "initial_counts w = Inr (inc, out)"
    "successors (set (workflow_edges w)) (sorted_outgoing out)"
    "distinct (List.map fst inc)" "fst ` set inc = wn_id ` set (wf_nodes w)"
    "\<forall>n \<in> wn_id ` set (wf_nodes w). map_of inc n = Some (int (card {p. (p, n) \<in> set (workflow_edges w)}))"
proof -
  let ?ns = "wf_nodes w" and ?E = "workflow_edges w" and ?N = "wn_id ` set (wf_nodes w)"
  let ?inc0 = "List.map (\<lambda>(i, n). (i, 0)) (node_dict ?ns) :: counts"
  let ?out0 = "map_of (List.map (\<lambda>(i, n). (i, [])) (node_dict ?ns)) :: outgoing"
  have d: "distinct (List.map wn_id ?ns)" "distinct ?E" using ok by (simp_all add: graph_ok_def)
  have zero: "map_of (List.map (\<lambda>n. (wn_id n, v)) ns) i = (if i \<in> wn_id ` set ns then Some v else None)"
    for v :: 'v and ns i by (induction ns) auto
  have inc0: "?inc0 = List.map (\<lambda>n. (wn_id n, 0)) ?ns" and out0: "?out0 = map_of (List.map (\<lambda>n. (wn_id n, [])) ?ns)"
    using d(1) by (simp_all add: node_dict_distinct comp_def)
  have "\<forall>(s, t) \<in> set ?E. s \<in> dom ?out0 \<and> t \<in> dom (map_of ?inc0)"
    unfolding inc0 out0 using graph_edges [OF ok] by (auto simp: zero dom_def)
  from add_edges_spec [OF this] obtain inc out where a: "add_edges ?E ?inc0 ?out0 = Inr (inc, out)"
    "List.map fst inc = List.map fst ?inc0"
    "\<And>n. map_of inc n = map_option (\<lambda>c. c + int (List.length (filter (\<lambda>e. snd e = n) ?E))) (map_of ?inc0 n)"
    "\<And>n. out n = map_option (\<lambda>ts. ts @ List.map snd (filter (\<lambda>e. fst e = n) ?E)) (?out0 n)" by blast
  have keys: "List.map fst inc = List.map wn_id ?ns" unfolding a(2) inc0 by (simp add: comp_def)
  have "sorted_outgoing out n = sorted_targets ?E n" for n
  proof (cases "n \<in> ?N")
    case True
    then show ?thesis unfolding sorted_outgoing_def sorted_targets_def a(4) out0 by (simp add: zero)
  next
    case False
    then have "filter (\<lambda>e. fst e = n) ?E = []" using graph_edges [OF ok] by (fastforce simp: filter_empty_conv)
    with False show ?thesis unfolding sorted_outgoing_def sorted_targets_def a(4) out0 by (simp add: zero)
  qed
  then have succ: "successors (set ?E) (sorted_outgoing out)"
    using sorted_targets_successors [OF d(2)] by (simp add: successors_def)
  have cnt: "\<forall>n \<in> ?N. map_of inc n = Some (int (card {p. (p, n) \<in> set ?E}))"
    unfolding a(3) inc0 by (simp add: zero incoming_card [OF d(2)])
  have dist: "distinct (List.map fst inc)" "fst ` set inc = ?N"
    using keys d(1) by (simp_all only: set_map [symmetric])
  from a(1) have "initial_counts w = Inr (inc, out)" by (simp add: initial_counts_def Let_def)
  from that [OF this succ dist cnt] show ?thesis .
qed

lemma topological_order_counts:
  "topological_order w (node_dict (wf_nodes w)) =
     rbind (initial_counts w) (\<lambda>(inc, out).
     rbind (kahn (sorted_outgoing out) (initial_ready inc) inc) (\<lambda>(order, _).
     rbind (raise_when (List.length order \<noteq> List.length (node_dict (wf_nodes w)))
       (invalid_workflow ''workflow_cycle'' ''Workflow dependencies contain a cycle'')) (\<lambda>_.
     Inr order)))"
  by (simp add: topological_order_def initial_counts_def Let_def)

text \<open>The loop runs to its end, and lists every node exactly when the dependencies have no cycle.\<close>

lemma topological_order_spec:
  assumes ok: "graph_ok w"
  shows "\<exists>order. ordered_after (set (workflow_edges w)) {} order \<and> set order \<subseteq> wn_id ` set (wf_nodes w)
    \<and> (set order = wn_id ` set (wf_nodes w) \<longleftrightarrow> acyclic (set (workflow_edges w)))
    \<and> topological_order w (node_dict (wf_nodes w)) =
        (if acyclic (set (workflow_edges w)) then Inr order
         else Inl (invalid_workflow ''workflow_cycle'' ''Workflow dependencies contain a cycle''))"
proof -
  let ?ns = "wf_nodes w" and ?E = "workflow_edges w" and ?N = "wn_id ` set (wf_nodes w)"
  have d: "distinct (List.map wn_id ?ns)" using ok by (simp add: graph_ok_def)
  from ok obtain inc out where c: "initial_counts w = Inr (inc, out)" "successors (set ?E) (sorted_outgoing out)"
    "distinct (List.map fst inc)" "fst ` set inc = ?N"
    "\<forall>n \<in> ?N. map_of inc n = Some (int (card {p. (p, n) \<in> set ?E}))" by (rule initial_counts_spec)
  have sub: "set ?E \<subseteq> ?N \<times> ?N" using graph_edges [OF ok] by auto
  from kahn_correct [OF _ sub c(2-5)] obtain order inc' where
    k: "kahn (sorted_outgoing out) (initial_ready inc) inc = Inr (order, inc')" "ordered_after (set ?E) {} order"
      "set order \<subseteq> ?N" "set order = ?N \<longleftrightarrow> acyclic (set ?E)" by auto
  have "distinct order" using ordered_after_distinct [OF k(2)] by simp
  then have "List.length order = card (set order)" "List.length ?ns = card ?N"
    using d by (simp_all add: distinct_card card_image distinct_map)
  moreover have "finite ?N" by simp
  ultimately have len: "List.length order = List.length ?ns \<longleftrightarrow> set order = ?N"
    using k(3) card_subset_eq by metis
  have "topological_order w (node_dict ?ns) =
      (if acyclic (set ?E) then Inr order else Inl (invalid_workflow ''workflow_cycle'' ''Workflow dependencies contain a cycle''))"
    unfolding topological_order_counts using c(1) k(1,4) len d by (simp add: node_dict_distinct)
  then show ?thesis using k by blast
qed

text \<open>What the topological order of the validator is, said without its loop.\<close>

definition least_order :: "workflow_definition \<Rightarrow> node_id list \<Rightarrow> bool" where
  "least_order w xs \<longleftrightarrow> set xs = wn_id ` set (wf_nodes w) \<and> ordered_after (set (workflow_edges w)) {} xs
     \<and> least_first (set (workflow_edges w)) (wn_id ` set (wf_nodes w)) {} xs"

lemma least_order_unique: "least_order w xs \<Longrightarrow> least_order w ys \<Longrightarrow> xs = ys"
  unfolding least_order_def
  by (rule least_first_unique [of "set (workflow_edges w)" "{}" xs "wn_id ` set (wf_nodes w)" ys]) simp_all

lemma topological_order_least:
  assumes ok: "graph_ok w"
  shows "topological_order w (node_dict (wf_nodes w)) = Inr xs \<longleftrightarrow> acyclic (set (workflow_edges w)) \<and> least_order w xs"
proof -
  let ?E = "set (workflow_edges w)" and ?N = "wn_id ` set (wf_nodes w)"
  have made: "least_order w ys" if t: "topological_order w (node_dict (wf_nodes w)) = Inr ys" for ys
  proof -
    from ok obtain inc out where c: "initial_counts w = Inr (inc, out)" "successors ?E (sorted_outgoing out)"
      "distinct (List.map fst inc)" "fst ` set inc = ?N"
      "\<forall>n \<in> ?N. map_of inc n = Some (int (card {p. (p, n) \<in> ?E}))" by (rule initial_counts_spec)
    have sub: "?E \<subseteq> ?N \<times> ?N" using graph_edges [OF ok] by auto
    have inv: "kahn_inv ?E ?N {} (initial_ready inc) inc" by (rule kahn_inv_initial [OF _ sub c(3-5)]) simp
    from t c(1) obtain inc' where k: "kahn (sorted_outgoing out) (initial_ready inc) inc = Inr (ys, inc')"
      by (auto simp: topological_order_counts rbind_eq_Inr split: if_splits)
    from topological_order_spec [OF ok] t have "ordered_after ?E {} ys" "set ys = ?N" by (auto split: if_splits)
    with kahn_least [OF c(2) inv k] show ?thesis by (simp add: least_order_def)
  qed
  from topological_order_spec [OF ok] obtain ys where "topological_order w (node_dict (wf_nodes w)) =
      (if acyclic ?E then Inr ys else Inl (invalid_workflow ''workflow_cycle'' ''Workflow dependencies contain a cycle''))" by blast
  with made least_order_unique show ?thesis by (auto split: if_splits)
qed

subsection \<open>Reachability\<close>

lemma rtrancl_Image_idem: "r\<^sup>* `` (r\<^sup>* `` R) = r\<^sup>* `` R"
  by (simp add: relcomp_Image [symmetric])

definition edge_set :: "workflow_dependency list \<Rightarrow> (node_id \<times> node_id) set" where
  "edge_set es = (\<lambda>e. (de_source e, de_target e)) ` set es"

lemma edge_set_simps [simp]: "edge_set [] = {}" "edge_set (e # es) = insert (de_source e, de_target e) (edge_set es)"
  by (auto simp: edge_set_def)

lemma edge_set_edges: "edge_set (wf_dependencies w) = set (workflow_edges w)"
  by (auto simp: edge_set_def workflow_edges_def)

lemma reach_pass_sound: "fst (reach_pass es R c) \<subseteq> (edge_set es)\<^sup>* `` R"
proof (induction es R c rule: reach_pass.induct)
  case (2 e es R c)
  have mono: "(edge_set es)\<^sup>* `` S \<subseteq> (edge_set (e # es))\<^sup>* `` S" for S
    by (intro Image_mono rtrancl_mono) auto
  show ?case
  proof (cases "de_source e \<in> R \<and> de_target e \<notin> R")
    case True
    have "(de_source e, de_target e) \<in> (edge_set (e # es))\<^sup>*" by auto
    with True have "insert (de_target e) R \<subseteq> (edge_set (e # es))\<^sup>* `` R" by blast
    then have "(edge_set (e # es))\<^sup>* `` insert (de_target e) R \<subseteq> (edge_set (e # es))\<^sup>* `` ((edge_set (e # es))\<^sup>* `` R)"
      by (rule Image_mono [OF subset_refl])
    then have "(edge_set (e # es))\<^sup>* `` insert (de_target e) R \<subseteq> (edge_set (e # es))\<^sup>* `` R"
      unfolding rtrancl_Image_idem .
    moreover have "fst (reach_pass es (insert (de_target e) R) True) \<subseteq> (edge_set (e # es))\<^sup>* `` insert (de_target e) R"
      using 2(1) [OF True] mono by (rule order_trans)
    moreover have "reach_pass (e # es) R c = reach_pass es (insert (de_target e) R) True" using True by simp
    ultimately show ?thesis by (simp only:)
  next
    case False
    then have "reach_pass (e # es) R c = reach_pass es R c" by auto
    moreover have "fst (reach_pass es R c) \<subseteq> (edge_set (e # es))\<^sup>* `` R"
      using 2(2) [OF False] mono by (rule order_trans)
    ultimately show ?thesis by (simp only:)
  qed
qed auto

lemma reach_pass_fixed: "reach_pass es R c = (R', False) \<Longrightarrow> R' = R \<and> (\<forall>e \<in> set es. de_source e \<in> R \<longrightarrow> de_target e \<in> R)"
proof (induction es R c rule: reach_pass.induct)
  case (2 e es R c)
  have "snd (reach_pass es S True)" for es S by (induction es arbitrary: S) auto
  then have "\<not> (de_source e \<in> R \<and> de_target e \<notin> R)"
    using 2(3) by (metis reach_pass.simps(2) snd_conv)
  with 2 show ?case by auto
qed simp

text \<open>The loop computes the nodes reachable along the dependencies.\<close>

lemma reach_loop_closure: "reach_loop es R = (edge_set es)\<^sup>* `` R"
proof (induction es R rule: reach_loop.induct)
  case (1 es R)
  obtain R' c where p: "reach_pass es R False = (R', c)" by fastforce
  show ?case
  proof (cases c)
    case True
    have "R' \<subseteq> (edge_set es)\<^sup>* `` R" using reach_pass_sound [of es R False] p by simp
    then have "(edge_set es)\<^sup>* `` R' \<subseteq> (edge_set es)\<^sup>* `` ((edge_set es)\<^sup>* `` R)"
      by (rule Image_mono [OF subset_refl])
    moreover have "(edge_set es)\<^sup>* `` R \<subseteq> (edge_set es)\<^sup>* `` R'"
      using reach_pass_grows [of R es False] p by (intro Image_mono) auto
    ultimately have "(edge_set es)\<^sup>* `` R' = (edge_set es)\<^sup>* `` R"
      unfolding rtrancl_Image_idem by (rule equalityI)
    with 1 [OF p [symmetric] True] p True show ?thesis by (simp add: reach_loop.simps [of es R])
  next
    case False
    then have "R' = R \<and> (\<forall>e \<in> set es. de_source e \<in> R \<longrightarrow> de_target e \<in> R)"
      using p by (intro reach_pass_fixed [of es R False]) simp
    moreover from this have "(edge_set es)\<^sup>* `` R = R"
      by (intro Image_closed_trancl) (auto simp: edge_set_def)
    ultimately show ?thesis using p False by (simp add: reach_loop.simps [of es R])
  qed
qed

subsection \<open>The acceptance conditions\<close>

definition node_valid :: "workflow_validator \<Rightarrow> workflow_node \<Rightarrow> bool" where
  "node_valid V n \<longleftrightarrow>
     (wn_type n, wn_contract n) \<in> set (wv_supported V) \<and> wn_retry_limit n = 0
     \<and> (wn_side_effecting n \<longrightarrow> wn_idempotency n) \<and> wn_checkpoint n
     \<and> (\<exists>p \<in> set (wn_permissions n). pm_action p = WORKFLOW_NODE_EXECUTE_ACTION)
     \<and> (\<forall>p \<in> set (wn_permissions n). action_contains (wv_actions V) (pm_action p))
     \<and> pred_option (contains_schema (wv_schemas V)) (wn_input_schema n)
     \<and> pred_option (contains_schema (wv_schemas V)) (wn_output_schema n)
     \<and> (wn_type n = ''agent'' \<longrightarrow> (\<exists>c. wn_config n = AgentConfig c) \<and> wn_input_schema n \<noteq> None
          \<and> wn_output_schema n \<noteq> None \<and> List.length (wn_bindings n) = 1)
     \<and> (wn_type n = ''approval'' \<longrightarrow> (\<exists>c. wn_config n = ApprovalConfig c
          \<and> require_narrower_than (kr_scope (vn_prompt_ref c)) (wn_scope n) = Inr ())
          \<and> wn_bindings n = [] \<and> wn_input_schema n = None \<and> wn_output_schema n = None)
     \<and> (wn_type n = ''evaluation'' \<longrightarrow> wn_input_schema n \<noteq> None \<and> wn_output_schema n = Some EVALUATION_RESULT_SCHEMA
          \<and> List.length (wn_bindings n) = 1 \<and> wn_idempotency n
          \<and> (\<exists>c. wn_config n = EvaluationConfig c
            \<and> (\<forall>a \<in> set evaluation_actions. validate_evaluation_binding n c a = Inr ())))"

lemma evaluation_binding_declared:
  "validate_evaluation_binding n c a = Inr () \<Longrightarrow> a \<in> pm_action ` set (wn_permissions n)"
  by (auto simp: validate_evaluation_binding_def result_simps)

lemma validate_node_Inr: "validate_node V n = Inr () \<longleftrightarrow> node_valid V n"
proof -
  have "validate_node_contract V n = Inr () \<longleftrightarrow> (wn_type n, wn_contract n) \<in> set (wv_supported V) \<and> wn_retry_limit n = 0
     \<and> (wn_side_effecting n \<longrightarrow> wn_idempotency n) \<and> wn_checkpoint n"
    by (auto simp: validate_node_contract_def result_simps)
  moreover have "validate_node_permissions V n = Inr () \<longleftrightarrow> (\<exists>p \<in> set (wn_permissions n). pm_action p = WORKFLOW_NODE_EXECUTE_ACTION)
     \<and> (\<forall>p \<in> set (wn_permissions n). action_contains (wv_actions V) (pm_action p))"
    by (auto simp: validate_node_permissions_def result_simps rcheck_ok_iff)
  moreover have "validate_node_schemas V n = Inr () \<longleftrightarrow> pred_option (contains_schema (wv_schemas V)) (wn_input_schema n)
     \<and> pred_option (contains_schema (wv_schemas V)) (wn_output_schema n)"
    by (auto simp: validate_node_schemas_def require_schema_def result_simps split: option.splits)
  moreover have "validate_agent_node n = Inr () \<longleftrightarrow> (\<exists>c. wn_config n = AgentConfig c) \<and> wn_input_schema n \<noteq> None
          \<and> wn_output_schema n \<noteq> None \<and> List.length (wn_bindings n) = 1"
    by (auto simp: validate_agent_node_def result_simps split: node_config.splits)
  moreover have "validate_approval_node n = Inr () \<longleftrightarrow> (\<exists>c. wn_config n = ApprovalConfig c
          \<and> require_narrower_than (kr_scope (vn_prompt_ref c)) (wn_scope n) = Inr ())
          \<and> wn_bindings n = [] \<and> wn_input_schema n = None \<and> wn_output_schema n = None"
    by (auto simp: validate_approval_node_def result_simps split: node_config.splits)
  moreover have "validate_evaluation_node n = Inr () \<longleftrightarrow> wn_input_schema n \<noteq> None
          \<and> wn_output_schema n = Some EVALUATION_RESULT_SCHEMA \<and> List.length (wn_bindings n) = 1 \<and> wn_idempotency n
          \<and> (\<exists>c. wn_config n = EvaluationConfig c
            \<and> (\<forall>a \<in> set evaluation_actions. validate_evaluation_binding n c a = Inr ()))"
    by (auto simp: validate_evaluation_node_def result_simps rcheck_ok_iff dest: evaluation_binding_declared
        split: node_config.splits)
  ultimately show ?thesis
    by (auto simp: validate_node_def node_valid_def result_simps)
qed

definition binding_valid :: "workflow_definition \<Rightarrow> workflow_node \<Rightarrow> workflow_input_binding \<Rightarrow> bool" where
  "binding_valid w n b \<longleftrightarrow> (case ib_source b of
       FROM_WORKFLOW_INPUT \<Rightarrow> wn_input_schema n = Some (wf_input_schema w)
     | FROM_NODE_OUTPUT \<Rightarrow> \<exists>i. ib_node b = Some i
         \<and> (\<exists>m \<in> set (wf_nodes w). wn_id m = i \<and> wn_output_schema m = wn_input_schema n)
         \<and> (\<exists>e \<in> set (wf_dependencies w). de_source e = i \<and> de_target e = wn_id n \<and> de_carries_output e))"

definition carried_valid :: "workflow_definition \<Rightarrow> workflow_dependency \<Rightarrow> bool" where
  "carried_valid w e \<longleftrightarrow> (de_carries_output e \<longrightarrow>
     (\<exists>n \<in> set (wf_nodes w). wn_id n = de_target e \<and> (\<exists>b \<in> set (wn_bindings n). ib_node b = Some (de_source e))))"

definition output_valid :: "workflow_definition \<Rightarrow> bool" where
  "output_valid w \<longleftrightarrow> ob_required (wf_output w)
     \<and> (\<exists>m \<in> set (wf_nodes w). wn_id m = ob_node (wf_output w) \<and> wn_output_schema m = Some (wf_output_schema w))
     \<and> (\<exists>i \<in> input_nodes w. (i, ob_node (wf_output w)) \<in> (set (workflow_edges w))\<^sup>*)"

definition workflow_valid :: "workflow_validator \<Rightarrow> workflow_definition \<Rightarrow> bool" where
  "workflow_valid V w \<longleftrightarrow>
     xp_max_concurrency (wf_policy w) = 1 \<and> \<not> xp_compensation (wf_policy w) \<and> xp_max_attempts (wf_policy w) = 1
     \<and> contains_schema (wv_schemas V) (wf_input_schema w) \<and> contains_schema (wv_schemas V) (wf_output_schema w)
     \<and> list_all (node_valid V) (wf_nodes w) \<and> graph_ok w \<and> acyclic (set (workflow_edges w))
     \<and> (\<forall>n \<in> set (wf_nodes w). list_all (binding_valid w n) (wn_bindings n))
     \<and> list_all (carried_valid w) (wf_dependencies w) \<and> output_valid w"

lemma node_dict_bex:
  assumes d: "distinct (List.map wn_id ns)"
  shows "(\<exists>n \<in> set ns. wn_id n = i \<and> P n) \<longleftrightarrow> (case map_of (node_dict ns) i of None \<Rightarrow> False | Some m \<Rightarrow> P m)"
proof (cases "map_of (node_dict ns) i")
  case None
  then have "\<not> (n \<in> set ns \<and> wn_id n = i)" for n using node_dict_lookup [OF d, of i n] by simp
  with None show ?thesis by auto
next
  case (Some m)
  then have "n = m" if "n \<in> set ns" "wn_id n = i" for n using that node_dict_lookup [OF d, of i n] by simp
  moreover have "m \<in> set ns" "wn_id m = i" using Some node_dict_lookup [OF d, of i m] by simp_all
  ultimately have "(\<exists>n \<in> set ns. wn_id n = i \<and> P n) \<longleftrightarrow> P m" by blast
  with Some show ?thesis by simp
qed

lemma dependency_of_bex:
  assumes ok: "graph_ok w"
  shows "(\<exists>e \<in> set (wf_dependencies w). de_source e = s \<and> de_target e = t \<and> P e) \<longleftrightarrow>
    (case dependency_of w (s, t) of None \<Rightarrow> False | Some e \<Rightarrow> P e)"
proof -
  let ?d = "rev (List.map (\<lambda>e. ((de_source e, de_target e), e)) (wf_dependencies w))"
  have "distinct (List.map fst ?d)"
    using ok by (simp add: graph_ok_def workflow_edges_def rev_map [symmetric] comp_def)
  from map_of_eq_Some_iff [OF this, of "(s, t)"]
  have look: "dependency_of w (s, t) = Some e \<longleftrightarrow> e \<in> set (wf_dependencies w) \<and> de_source e = s \<and> de_target e = t" for e
    by (auto simp: dependency_of_def)
  show ?thesis
  proof (cases "dependency_of w (s, t)")
    case None
    then have "\<not> (e \<in> set (wf_dependencies w) \<and> de_source e = s \<and> de_target e = t)" for e using look [of e] by simp
    with None show ?thesis by auto
  next
    case (Some e)
    then have "e' = e" if "e' \<in> set (wf_dependencies w)" "de_source e' = s" "de_target e' = t" for e'
      using that look [of e'] by simp
    moreover have "e \<in> set (wf_dependencies w)" "de_source e = s" "de_target e = t" using Some look [of e] by simp_all
    ultimately have "(\<exists>e \<in> set (wf_dependencies w). de_source e = s \<and> de_target e = t \<and> P e) \<longleftrightarrow> P e" by blast
    with Some show ?thesis by simp
  qed
qed

lemma validate_binding_Inr:
  assumes ok: "graph_ok w"
  shows "validate_binding w (node_dict (wf_nodes w)) n b = Inr () \<longleftrightarrow> binding_valid w n b"
proof -
  have d: "distinct (List.map wn_id (wf_nodes w))" using ok by (simp add: graph_ok_def)
  show ?thesis
  proof (cases "ib_source b"; cases "ib_node b")
    fix i assume "ib_source b = FROM_NODE_OUTPUT" "ib_node b = Some i"
    then show ?thesis
      unfolding validate_binding_def binding_valid_def validate_node_output_binding_def
      by (cases "map_of (node_dict (wf_nodes w)) i"; cases "dependency_of w (i, wn_id n)")
        (auto simp: node_dict_bex [OF d] dependency_of_bex [OF ok] result_simps)
  qed (simp_all add: validate_binding_def binding_valid_def validate_node_output_binding_def result_simps)
qed

lemma validate_carried_Inr:
  assumes ok: "graph_ok w" and e: "e \<in> set (wf_dependencies w)"
  shows "validate_carried_output (node_dict (wf_nodes w)) e = Inr () \<longleftrightarrow> carried_valid w e"
proof -
  have d: "distinct (List.map wn_id (wf_nodes w))" using ok by (simp add: graph_ok_def)
  from ok e have "\<exists>n \<in> set (wf_nodes w). wn_id n = de_target e \<and> True" by (force simp: graph_ok_def)
  then obtain n where "map_of (node_dict (wf_nodes w)) (de_target e) = Some n"
    unfolding node_dict_bex [OF d] by (auto split: option.splits)
  then show ?thesis
    unfolding validate_carried_output_def carried_valid_def node_dict_bex [OF d] by (simp add: result_simps)
qed

lemma validate_required_output_Inr:
  assumes ok: "graph_ok w"
  shows "validate_required_output w (node_dict (wf_nodes w)) = Inr () \<longleftrightarrow> output_valid w"
proof -
  have d: "distinct (List.map wn_id (wf_nodes w))" using ok by (simp add: graph_ok_def)
  have reach: "ob_node (wf_output w) \<in> reach_loop (wf_dependencies w) (input_nodes w) \<longleftrightarrow>
      (\<exists>i \<in> input_nodes w. (i, ob_node (wf_output w)) \<in> (set (workflow_edges w))\<^sup>*)"
    by (auto simp: reach_loop_closure edge_set_edges)
  show ?thesis
    unfolding validate_required_output_def output_valid_def node_dict_bex [OF d] Let_def reach
    by (cases "map_of (node_dict (wf_nodes w)) (ob_node (wf_output w))") (simp_all add: result_simps conj_commute)
qed

text \<open>The validator accepts exactly the valid definitions, and hands out their order.\<close>

lemma validate_workflow_Inr:
  "validate_workflow V w = Inr x \<longleftrightarrow>
     workflow_valid V w \<and> va_definition x = w \<and> topological_order w (node_dict (wf_nodes w)) = Inr (va_order x)"
proof (cases "graph_ok w")
  case False
  then show ?thesis
    by (auto simp: validate_workflow_def workflow_valid_def result_simps Let_def graph_ok_def rcheck_ok_unit
        validate_dependency_def)
next
  case True
  then have d: "distinct (List.map wn_id (wf_nodes w))" "distinct (workflow_edges w)" by (simp_all add: graph_ok_def)
  have deps: "rcheck (validate_dependency (node_dict (wf_nodes w))) (wf_dependencies w) = Inr ()"
    using True by (auto simp: rcheck_ok_iff validate_dependency_def result_simps graph_ok_def)
  have nodes: "rcheck (validate_node V) (wf_nodes w) = Inr () \<longleftrightarrow> list_all (node_valid V) (wf_nodes w)"
    by (simp add: rcheck_ok_iff validate_node_Inr list_all_iff)
  have bindings: "validate_bindings w (node_dict (wf_nodes w)) = Inr () \<longleftrightarrow>
      (\<forall>n \<in> set (wf_nodes w). list_all (binding_valid w n) (wn_bindings n)) \<and> list_all (carried_valid w) (wf_dependencies w)"
    using validate_binding_Inr [OF True] validate_carried_Inr [OF True]
    by (simp add: validate_bindings_def result_simps rcheck_ok_iff list_all_iff)
  have acyclic: "(\<exists>order. topological_order w (node_dict (wf_nodes w)) = Inr order) \<longleftrightarrow> acyclic (set (workflow_edges w))"
    using topological_order_spec [OF True] by auto
  show ?thesis
    using d deps nodes bindings acyclic validate_required_output_Inr [OF True] True
    by (cases x) (auto simp: validate_workflow_def workflow_valid_def result_simps Let_def validate_policy_def require_schema_def)
qed

end
