(* ===== verification/Workflow_Scheduler.thy ===== *)
theory Workflow_Scheduler
  imports Workflow_Graph
begin

section \<open>The deterministic scheduler\<close>

text \<open>
  \<open>workflow/scheduler.py\<close>: the nodes whose dependencies are completed, in the order of their
  identifiers, and the completion of a node. \<open>dispatch_order\<close> is the loop a runtime makes of
  \<open>next\<close> and \<open>mark_completed\<close>, run until the scheduler hands out nothing; the lemmas show that on a
  validated workflow it never stalls and goes through the validator's topological order, from the
  start as well as after a recovery.
\<close>

record scheduler =
  sd_definition :: workflow_definition
  sd_nodes :: "(node_id \<times> workflow_node) list"
  sd_completed :: "node_id set"
  sd_dependencies :: "node_id \<Rightarrow> node_id set"

definition new_scheduler :: "validated_workflow \<Rightarrow> node_id list \<Rightarrow> scheduler result" where
  "new_scheduler x completed =
     (let w = va_definition x; nodes = node_dict (wf_nodes w) in
      rbind (raise_when (\<not> set completed \<subseteq> set (List.map fst nodes))
        (ValueError ''scheduler completed set contains an unknown node'')) (\<lambda>_.
      Inr \<lparr>sd_definition = w, sd_nodes = nodes, sd_completed = set completed,
        sd_dependencies = (\<lambda>i. set (List.map de_source (filter (\<lambda>e. de_target e = i) (wf_dependencies w))))\<rparr>))"

definition ready_ids :: "scheduler \<Rightarrow> node_id list" where
  "ready_ids s = filter (\<lambda>i. i \<notin> sd_completed s \<and> sd_dependencies s i \<subseteq> sd_completed s) (sort (List.map fst (sd_nodes s)))"

definition scheduler_ready :: "scheduler \<Rightarrow> workflow_node list" where
  "scheduler_ready s = List.map (\<lambda>i. the (map_of (sd_nodes s) i)) (ready_ids s)"

definition scheduler_next :: "scheduler \<Rightarrow> workflow_node option" where
  "scheduler_next s = (case scheduler_ready s of [] \<Rightarrow> None | n # _ \<Rightarrow> Some n)"

definition mark_completed :: "node_id \<Rightarrow> scheduler \<Rightarrow> scheduler result" where
  "mark_completed i s =
     (if i \<in> sd_completed s then Inr s
      else if i \<notin> wn_id ` set (scheduler_ready s)
      then Inl (core_error CONFLICT ''workflow_node_not_ready'' ''Workflow node dependencies are not stably completed'' False None)
      else Inr (s\<lparr>sd_completed := insert i (sd_completed s)\<rparr>))"

definition pending_nodes :: "scheduler \<Rightarrow> node_id list" where
  "pending_nodes s = filter (\<lambda>i. i \<notin> sd_completed s) (sort (List.map fst (sd_nodes s)))"

definition scheduler_done :: "scheduler \<Rightarrow> bool" where
  "scheduler_done s \<longleftrightarrow> card (sd_completed s) = List.length (sd_nodes s)"

fun dispatch_order :: "nat \<Rightarrow> scheduler \<Rightarrow> node_id list result" where
  "dispatch_order 0 s = Inr []"
| "dispatch_order (Suc k) s = (case scheduler_next s of
       None \<Rightarrow> Inr []
     | Some n \<Rightarrow> rbind (mark_completed (wn_id n) s) (\<lambda>s'. rbind (dispatch_order k s') (\<lambda>order. Inr (wn_id n # order))))"

subsection \<open>What the scheduler hands out\<close>

definition scheduler_ok :: "scheduler \<Rightarrow> bool" where
  "scheduler_ok s \<longleftrightarrow> graph_ok (sd_definition s) \<and> sd_nodes s = node_dict (wf_nodes (sd_definition s))
     \<and> sd_completed s \<subseteq> wn_id ` set (wf_nodes (sd_definition s))
     \<and> (\<forall>i. sd_dependencies s i = {p. (p, i) \<in> set (workflow_edges (sd_definition s))})"

lemma new_scheduler_ok:
  "graph_ok (va_definition x) \<Longrightarrow> set completed \<subseteq> wn_id ` set (wf_nodes (va_definition x)) \<Longrightarrow>
    \<exists>s. new_scheduler x completed = Inr s \<and> scheduler_ok s \<and> sd_definition s = va_definition x \<and> sd_completed s = set completed"
  by (auto simp: new_scheduler_def Let_def scheduler_ok_def graph_ok_def workflow_edges_def image_iff)

lemma ready_ids_mem:
  "scheduler_ok s \<Longrightarrow> i \<in> set (ready_ids s) \<longleftrightarrow> i \<in> wn_id ` set (wf_nodes (sd_definition s)) \<and> i \<notin> sd_completed s
     \<and> open_preds (set (workflow_edges (sd_definition s))) (sd_completed s) i = {}"
  by (auto simp: ready_ids_def scheduler_ok_def graph_ok_def open_preds_def)

lemma ready_ids_sorted: "scheduler_ok s \<Longrightarrow> sorted (ready_ids s) \<and> distinct (ready_ids s)"
  by (simp add: ready_ids_def scheduler_ok_def graph_ok_def node_dict_distinct comp_def
      sorted_filter [where f = "\<lambda>x. x", simplified])

lemma ready_node:
  assumes ok: "scheduler_ok s" and i: "i \<in> set (ready_ids s)"
  shows "wn_id (the (map_of (sd_nodes s) i)) = i" "the (map_of (sd_nodes s) i) \<in> set (wf_nodes (sd_definition s))"
proof -
  have d: "distinct (List.map wn_id (wf_nodes (sd_definition s)))" using ok by (simp add: scheduler_ok_def graph_ok_def)
  from i ok obtain n where "n \<in> set (wf_nodes (sd_definition s))" "wn_id n = i" by (auto simp: ready_ids_mem)
  then have "map_of (sd_nodes s) i = Some n" using node_dict_lookup [OF d] ok by (simp add: scheduler_ok_def)
  with \<open>n \<in> _\<close> \<open>wn_id n = i\<close> show "wn_id (the (map_of (sd_nodes s) i)) = i"
    "the (map_of (sd_nodes s) i) \<in> set (wf_nodes (sd_definition s))" by simp_all
qed

lemma ready_wn_ids: "scheduler_ok s \<Longrightarrow> List.map wn_id (scheduler_ready s) = ready_ids s"
  unfolding scheduler_ready_def by (simp add: comp_def, rule map_idI) (rule ready_node)

lemma scheduler_next_cases:
  assumes "scheduler_ok s"
  shows "scheduler_next s = None \<longleftrightarrow> ready_ids s = []"
    "scheduler_next s = Some n \<Longrightarrow> \<exists>rest. ready_ids s = wn_id n # rest \<and> n \<in> set (wf_nodes (sd_definition s))"
proof -
  show "scheduler_next s = None \<longleftrightarrow> ready_ids s = []"
    by (cases "ready_ids s") (simp_all add: scheduler_next_def scheduler_ready_def)
  show "\<exists>rest. ready_ids s = wn_id n # rest \<and> n \<in> set (wf_nodes (sd_definition s))" if "scheduler_next s = Some n"
  proof (cases "ready_ids s")
    case Nil
    with that show ?thesis by (simp add: scheduler_next_def scheduler_ready_def)
  next
    case (Cons i rest)
    with that have "n = the (map_of (sd_nodes s) i)" by (simp add: scheduler_next_def scheduler_ready_def)
    with ready_node [OF assms, of i] Cons show ?thesis by simp
  qed
qed

lemma mark_ready:
  "scheduler_ok s \<Longrightarrow> i \<in> set (ready_ids s) \<Longrightarrow> mark_completed i s = Inr (s\<lparr>sd_completed := insert i (sd_completed s)\<rparr>)"
  using ready_wn_ids [of s] by (auto simp: mark_completed_def ready_ids_mem simp flip: set_map)

lemma mark_completed_ok:
  assumes "scheduler_ok s" "mark_completed i s = Inr s'"
  shows "scheduler_ok s' \<and> sd_completed s' = insert i (sd_completed s) \<and> sd_definition s' = sd_definition s"
proof (cases "i \<in> sd_completed s")
  case True
  with assms show ?thesis by (auto simp: mark_completed_def)
next
  case False
  with assms have "i \<in> set (ready_ids s)" "s' = s\<lparr>sd_completed := insert i (sd_completed s)\<rparr>"
    using ready_wn_ids [OF assms(1)] by (auto simp: mark_completed_def simp flip: set_map split: if_splits)
  with assms(1) show ?thesis by (auto simp: scheduler_ok_def ready_ids_mem)
qed

text \<open>While nodes are left, one of them is ready: the dependencies have no cycle.\<close>

lemma scheduler_progress:
  assumes ok: "scheduler_ok s" and acyclic: "acyclic (set (workflow_edges (sd_definition s)))"
    and left: "\<not> scheduler_done s"
  shows "\<exists>n. scheduler_next s = Some n"
proof (rule ccontr)
  let ?E = "set (workflow_edges (sd_definition s))" and ?N = "wn_id ` set (wf_nodes (sd_definition s))"
  assume "\<nexists>n. scheduler_next s = Some n"
  then have "ready_ids s = []" using scheduler_next_cases(1) [OF ok] by auto
  then have stuck: "open_preds ?E (sd_completed s) n \<noteq> {}" if "n \<in> ?N - sd_completed s" for n
    using that ready_ids_mem [OF ok, of n] by auto
  have d: "distinct (List.map wn_id (wf_nodes (sd_definition s)))" using ok by (simp add: scheduler_ok_def graph_ok_def)
  have "List.length (sd_nodes s) = card ?N"
    using ok d by (simp add: scheduler_ok_def node_dict_distinct card_image distinct_map distinct_card)
  then have "sd_completed s \<noteq> ?N" using left by (auto simp: scheduler_done_def)
  then obtain n where "n \<in> ?N - sd_completed s" using ok by (auto simp: scheduler_ok_def)
  moreover have "wf ?E" using acyclic by (rule finite_acyclic_wf [rotated]) simp
  ultimately obtain m where m: "m \<in> ?N - sd_completed s" "\<And>p. (p, m) \<in> ?E \<Longrightarrow> p \<notin> ?N - sd_completed s"
    using wfE_min by metis
  have "p \<in> ?N" if "(p, m) \<in> ?E" for p
    using graph_edges [of "sd_definition s" p m] ok that by (simp add: scheduler_ok_def)
  with m stuck [OF m(1)] show False by (auto simp: open_preds_def)
qed

text \<open>Handing out the smallest ready node is what the loop of the validator does.\<close>

lemma dispatch_kahn:
  assumes succ: "successors (set (workflow_edges (sd_definition s))) out" and ok: "scheduler_ok s"
    and inv: "kahn_inv (set (workflow_edges (sd_definition s))) (wn_id ` set (wf_nodes (sd_definition s))) (sd_completed s) ready inc"
    and run: "kahn out ready inc = Inr (order, inc')" and fuel: "List.length order \<le> k"
  shows "dispatch_order k s = Inr order"
  using assms
proof (induction out ready inc arbitrary: s order inc' k rule: kahn.induct)
  case (1 out inc)
  have "i \<notin> set (ready_ids s)" for i using ready_ids_mem [OF 1(2), of i] kahn_invD(3) [OF 1(3), of i] by auto
  then have "ready_ids s = []" by (cases "ready_ids s") auto
  then have "scheduler_next s = None" using scheduler_next_cases(1) [OF 1(2)] by simp
  moreover have "order = []" using 1(4) by simp
  ultimately show ?case by (cases k) simp_all
next
  case (2 out x ready inc)
  let ?E = "set (workflow_edges (sd_definition s))" and ?N = "wn_id ` set (wf_nodes (sd_definition s))"
  let ?s = "s\<lparr>sd_completed := insert x (sd_completed s)\<rparr>"
  have rd: "sorted (x # ready)" "distinct (x # ready)" "set (x # ready) \<inter> sd_completed s = {}"
    using 2(4) by (simp_all only: kahn_inv_def)
  have "set (ready_ids s) = set (x # ready)"
    using ready_ids_mem [OF 2(3)] kahn_invD(3) [OF 2(4)] rd(3) by blast
  then have ids: "ready_ids s = x # ready"
    using ready_ids_sorted [OF 2(3)] rd by (intro sorted_distinct_set_unique) simp_all
  then obtain n where n: "scheduler_next s = Some n" "wn_id n = x"
    using scheduler_next_cases [OF 2(3)] by (metis list.discI list.inject option.exhaust)
  have mark: "mark_completed x s = Inr ?s" using mark_ready [OF 2(3), of x] ids by simp
  have ok': "scheduler_ok ?s" using mark_completed_ok [OF 2(3) mark] by simp
  from kahn_step [OF 2(4,2)] obtain ready' inc1 where
    r: "release (out x) ready inc = Inr (ready', inc1)" "kahn_inv ?E ?N (insert x (sd_completed s)) ready' inc1" by blast
  with 2(5) obtain order' where o: "kahn out ready' inc1 = Inr (order', inc')" "order = x # order'"
    by (auto simp: rbind_eq_Inr)
  from o(2) 2(6) obtain k' where k: "k = Suc k'" "List.length order' \<le> k'" by (cases k) auto
  have "dispatch_order k' ?s = Inr order'"
    using 2(1) [OF r(1) refl, of ?s order' inc' k'] 2(2) ok' r(2) o(1) k(2) by simp
  with n mark o(2) k(1) show ?case by simp
qed

lemma dispatch_from_start:
  assumes ok: "scheduler_ok s" "sd_completed s = {}" and fuel: "List.length order \<le> k"
    and t: "topological_order (sd_definition s) (node_dict (wf_nodes (sd_definition s))) = Inr order"
  shows "dispatch_order k s = Inr order"
proof -
  let ?w = "sd_definition s"
  have g: "graph_ok ?w" using ok(1) by (simp add: scheduler_ok_def)
  from g obtain inc out where c: "initial_counts ?w = Inr (inc, out)"
    "successors (set (workflow_edges ?w)) (sorted_outgoing out)"
    "distinct (List.map fst inc)" "fst ` set inc = wn_id ` set (wf_nodes ?w)"
    "\<forall>n \<in> wn_id ` set (wf_nodes ?w). map_of inc n = Some (int (card {p. (p, n) \<in> set (workflow_edges ?w)}))"
    by (rule initial_counts_spec)
  have sub: "set (workflow_edges ?w) \<subseteq> wn_id ` set (wf_nodes ?w) \<times> wn_id ` set (wf_nodes ?w)"
    using graph_edges [OF g] by auto
  have inv: "kahn_inv (set (workflow_edges ?w)) (wn_id ` set (wf_nodes ?w)) (sd_completed s) (initial_ready inc) inc"
    unfolding ok(2) by (rule kahn_inv_initial [OF _ sub c(3-5)]) simp
  from t c(1) obtain inc' where "kahn (sorted_outgoing out) (initial_ready inc) inc = Inr (order, inc')"
    by (auto simp: topological_order_counts result_simps)
  from dispatch_kahn [OF c(2) ok(1) inv this fuel] show ?thesis .
qed

text \<open>The state after the first \<open>k\<close> nodes hands out the rest.\<close>

lemma dispatch_resume:
  "scheduler_ok s \<Longrightarrow> dispatch_order f s = Inr order \<Longrightarrow> k \<le> List.length order \<Longrightarrow>
    dispatch_order (f - k) (s\<lparr>sd_completed := sd_completed s \<union> set (take k order)\<rparr>) = Inr (drop k order)"
proof (induction f s arbitrary: order k rule: dispatch_order.induct)
  case (2 f s)
  show ?case
  proof (cases k)
    case (Suc k')
    with 2(4) 2(3) obtain n s' order' where n: "scheduler_next s = Some n" "mark_completed (wn_id n) s = Inr s'"
      "dispatch_order f s' = Inr order'" "order = wn_id n # order'"
      by (auto simp: result_simps split: option.splits)
    have s': "scheduler_ok s'" using mark_completed_ok [OF 2(2) n(2)] by simp
    have "wn_id n \<in> set (ready_ids s)" using scheduler_next_cases(2) [OF 2(2) n(1)] by auto
    from mark_ready [OF 2(2) this] n(2) have eq: "s' = s\<lparr>sd_completed := insert (wn_id n) (sd_completed s)\<rparr>" by simp
    have "k' \<le> List.length order'" using 2(4) Suc n(4) by simp
    from 2(1) [OF n(1,2) s' n(3) this] show ?thesis using Suc n(4) by (simp add: eq)
  qed (use 2 in simp)
qed simp

end
