(* ===== verification/Workflow_Persistence.thy ===== *)
theory Workflow_Persistence
  imports Workflow_Scheduler Checkpoint_Gateway
begin

section \<open>Persisting and loading node outputs\<close>

text \<open>
  \<open>workflow/persistence.py\<close>: the authorized boundary in front of the injected store of node
  outputs. The store is an interface of two operations; \<open>None\<close> is an answer that is not of the
  promised type (another class than \<open>CheckpointReference\<close>, or no JSON data).
\<close>

definition WORKFLOW_OUTPUT_PERSIST_ACTION :: action_ref where
  "WORKFLOW_OUTPUT_PERSIST_ACTION = \<lparr>ac_namespace = ''core'', ac_name = ''workflow.output.persist'', ac_version = ''1''\<rparr>"

definition WORKFLOW_OUTPUT_LOAD_ACTION :: action_ref where
  "WORKFLOW_OUTPUT_LOAD_ACTION = \<lparr>ac_namespace = ''core'', ac_name = ''workflow.output.load'', ac_version = ''1''\<rparr>"

definition WORKFLOW_OUTPUT_RESOURCE_TYPE :: string where
  "WORKFLOW_OUTPUT_RESOURCE_TYPE = ''workflow_node_output''"

definition workflow_actions :: "action_ref list" where
  "workflow_actions = [WORKFLOW_NODE_EXECUTE_ACTION, WORKFLOW_OUTPUT_PERSIST_ACTION, WORKFLOW_OUTPUT_LOAD_ACTION]"

text \<open>\<open>as_json_value\<close> copies the value of a request, so building one never fails.\<close>

record persist_request =
  pq_run_id :: run_id
  pq_node :: node_id
  pq_schema :: schema_ref
  pq_value :: json
  pq_scope :: scope_ref
  pq_key :: idempotency_key

record load_request =
  lq_run_id :: run_id
  lq_node :: node_id
  lq_schema :: schema_ref
  lq_reference :: checkpoint_reference
  lq_scope :: scope_ref

definition mk_load_request :: "load_request \<Rightarrow> load_request result" where
  "mk_load_request q = rbind (require_narrower_than (kr_scope (lq_reference q)) (lq_scope q)) (\<lambda>_. Inr q)"

text \<open>\<open>NodeOutputStore\<close> and \<open>NodeOutputPersistence\<close>\<close>

record 'w output_store =
  os_persist :: "persist_request \<Rightarrow> call_context \<Rightarrow> ('w, exn, checkpoint_reference option) action"
  os_load :: "load_request \<Rightarrow> call_context \<Rightarrow> ('w, exn, json option) action"

record 'w node_outputs =
  no_persist :: "persist_request \<Rightarrow> call_context \<Rightarrow> ('w, exn, checkpoint_reference) action"
  no_load :: "load_request \<Rightarrow> call_context \<Rightarrow> ('w, exn, json) action"

definition output_access :: "run_id \<Rightarrow> node_id \<Rightarrow> scope_ref \<Rightarrow> call_context \<Rightarrow> action_ref \<Rightarrow> access_request result" where
  "output_access r n scope ctx act =
     rbind (raise_when (cx_run_id ctx \<noteq> r)
       (core_error INVALID_REQUEST ''workflow_output_context_mismatch''
          ''node output call context does not match WorkflowRun'' False None)) (\<lambda>_.
     rbind (rbind (mk_identifier n) (core_principal PRINCIPAL_WORKFLOW_NODE)) (\<lambda>principal.
     rbind (rbind (mk_identifier (r @ '':'' @ n)) (\<lambda>i. mk_resource ''core'' ''workflow_node_output'' i None)) (\<lambda>resource.
     Inr \<lparr>aq_principal = principal, aq_action = act, aq_resource = resource, aq_scope = scope, aq_context = ctx,
       aq_constraints = Map.empty\<rparr>)))"

definition validate_output_reference :: "checkpoint_reference \<Rightarrow> scope_ref \<Rightarrow> schema_ref \<Rightarrow> unit result" where
  "validate_output_reference ref scope schema =
     rbind (raise_when (kr_type ref \<noteq> WORKFLOW_OUTPUT_RESOURCE_TYPE)
       (protocol_failure ''workflow_output_reference_type_invalid'' ''node output reference has the wrong resource type'')) (\<lambda>_.
     rbind (require_narrower_than (kr_scope ref) scope) (\<lambda>_.
     raise_when (kr_version ref \<noteq> Some (sm_version schema))
       (core_error VERSION_MISMATCH ''workflow_output_schema_version_mismatch''
          ''node output reference version does not match its schema'' False None)))"

text \<open>\<open>AuthorizedNodeOutputPersistence\<close>\<close>

definition outputs_persist ::
  "'w output_store \<Rightarrow> 'w dispatcher \<Rightarrow> persist_request \<Rightarrow> call_context \<Rightarrow> ('w, exn, checkpoint_reference) action" where
  "outputs_persist S D q ctx =
     abind (aresult (output_access (pq_run_id q) (pq_node q) (pq_scope q) ctx WORKFLOW_OUTPUT_PERSIST_ACTION)) (\<lambda>access.
     abind (dispatch D access (\<lambda>call. os_persist S q (au_context call))) (\<lambda>raw. case raw of
         None \<Rightarrow> araise (protocol_failure ''workflow_output_reference_invalid'' ''node output persistence returned an invalid reference'')
       | Some ref \<Rightarrow> abind (aresult (validate_output_reference ref (pq_scope q) (pq_schema q))) (\<lambda>_. areturn ref)))"

definition outputs_load ::
  "'w output_store \<Rightarrow> 'w dispatcher \<Rightarrow> load_request \<Rightarrow> call_context \<Rightarrow> ('w, exn, json) action" where
  "outputs_load S D q ctx =
     abind (aresult (validate_output_reference (lq_reference q) (lq_scope q) (lq_schema q))) (\<lambda>_.
     abind (aresult (output_access (lq_run_id q) (lq_node q) (lq_scope q) ctx WORKFLOW_OUTPUT_LOAD_ACTION)) (\<lambda>access.
     abind (dispatch D access (\<lambda>call. os_load S q (au_context call))) (\<lambda>raw. case raw of
         None \<Rightarrow> araise (ValueError ''loaded node output must be valid JSON data'')
       | Some v \<Rightarrow> areturn v)))"

definition authorized_outputs :: "'w output_store \<Rightarrow> 'w dispatcher \<Rightarrow> 'w node_outputs" where
  "authorized_outputs S D = \<lparr>no_persist = outputs_persist S D, no_load = outputs_load S D\<rparr>"

subsection \<open>What the boundary guarantees\<close>

lemma validate_output_reference_Inr [simp]:
  "validate_output_reference ref scope schema = Inr u \<longleftrightarrow> kr_type ref = WORKFLOW_OUTPUT_RESOURCE_TYPE
     \<and> require_narrower_than (kr_scope ref) scope = Inr () \<and> kr_version ref = Some (sm_version schema)"
  by (auto simp: validate_output_reference_def rbind_eq_Inr)

lemma output_access_Inr:
  "output_access r n scope ctx act = Inr q \<Longrightarrow> cx_run_id ctx = r \<and> aq_action q = act \<and> aq_scope q = scope \<and> aq_context q = ctx
     \<and> pr_id (aq_principal q) = n \<and> rs_id (aq_resource q) = r @ '':'' @ n"
  by (auto simp: output_access_def rbind_eq_Inr core_principal_def mk_principal_def mk_resource_def mk_identifier_def
      split: if_splits)

lemma outputs_persist_Inr:
  assumes "outputs_persist S D q ctx w = (Inr ref, w')"
  shows "\<exists>access call w1. output_access (pq_run_id q) (pq_node q) (pq_scope q) ctx WORKFLOW_OUTPUT_PERSIST_ACTION = Inr access
    \<and> authorized D access w call w1 \<and> os_persist S q (au_context call) w1 = (Inr (Some ref), w')
    \<and> validate_output_reference ref (pq_scope q) (pq_schema q) = Inr ()"
proof -
  from assms obtain access raw w2 where a: "output_access (pq_run_id q) (pq_node q) (pq_scope q) ctx WORKFLOW_OUTPUT_PERSIST_ACTION = Inr access"
    and d: "dispatch D access (\<lambda>call. os_persist S q (au_context call)) w = (Inr raw, w2)"
    and r: "raw = Some ref" "validate_output_reference ref (pq_scope q) (pq_schema q) = Inr ()" "w2 = w'"
    unfolding outputs_persist_def by (auto simp: abind_eq_Inr araise_def split: option.splits)
  with dispatch_Inr [OF d] show ?thesis by blast
qed

lemma outputs_load_Inr:
  assumes "outputs_load S D q ctx w = (Inr v, w')"
  shows "\<exists>access call w1. output_access (lq_run_id q) (lq_node q) (lq_scope q) ctx WORKFLOW_OUTPUT_LOAD_ACTION = Inr access
    \<and> authorized D access w call w1 \<and> os_load S q (au_context call) w1 = (Inr (Some v), w')
    \<and> validate_output_reference (lq_reference q) (lq_scope q) (lq_schema q) = Inr ()"
proof -
  from assms obtain access raw where a: "output_access (lq_run_id q) (lq_node q) (lq_scope q) ctx WORKFLOW_OUTPUT_LOAD_ACTION = Inr access"
    and d: "dispatch D access (\<lambda>call. os_load S q (au_context call)) w = (Inr raw, w')"
    and r: "raw = Some v" "validate_output_reference (lq_reference q) (lq_scope q) (lq_schema q) = Inr ()"
    unfolding outputs_load_def by (auto simp: abind_eq_Inr araise_def split: option.splits)
  with dispatch_Inr [OF d] show ?thesis by blast
qed

end
