(* ===== verification/Evaluation_Harness.thy ===== *)
theory Evaluation_Harness
  imports Evaluation_Gateway
begin

section \<open>The evaluation harness\<close>

text \<open>
  \<open>evaluation/harness.py\<close>: the schema gate, then the policy, then the quality evaluator, each only
  after the one before it passed, and the verdict published before it is returned. The publisher,
  the handler of a failed publication, the digest of a text and the source of span identifiers are
  fields of the environment.
\<close>

record 'w harness =
  ha_gateways :: "'w evaluation_env"
  ha_schemas :: schema_registry
  ha_started :: "evaluation_request \<Rightarrow> call_context \<Rightarrow> ('w, exn, unit) action"
  ha_recorded :: "evaluation_request \<Rightarrow> evaluation_result \<Rightarrow> call_context \<Rightarrow> ('w, exn, unit) action"
  ha_audit_failure :: "run_id \<Rightarrow> error_detail \<Rightarrow> ('w, exn, unit) action"
  ha_text_digest :: "string \<Rightarrow> string"
  ha_span :: "'w \<Rightarrow> string \<times> 'w"

text \<open>\<open>SchemaEvaluator.evaluate\<close>\<close>

definition schema_evaluate :: "schema_registry \<Rightarrow> evaluation_request \<Rightarrow> stage_result result" where
  "schema_evaluate schemas q =
     (if \<not> contains_schema schemas (er_input_schema q)
      then Inl (core_error VERSION_MISMATCH ''schema_not_registered'' ''Evaluation input schema is not registered'' False None)
      else case validate_value schemas (er_input_schema q) (er_value q) of
        Inl e \<Rightarrow> (case e of
            CoreError d \<Rightarrow> if ed_code d \<noteq> ''schema_validation_failed'' then Inl e
              else plain_stage_result STAGE_SCHEMA SCHEMA_FAILED ''schema_validation_failed''
          | _ \<Rightarrow> Inl e)
      | Inr _ \<Rightarrow> plain_stage_result STAGE_SCHEMA PASSED ''schema_valid'')"

definition stage_key_material :: "(json_object \<Rightarrow> string) \<Rightarrow> evaluation_request \<Rightarrow> idempotency_key \<Rightarrow> evaluation_stage \<Rightarrow> string" where
  "stage_key_material H q key stage =
     key @ '':'' @ er_id q @ '':'' @ EVALUATION_CONTRACT_VERSION @ '':'' @ request_fingerprint H q @ '':'' @ stage_value stage"

definition stage_context :: "'w harness \<Rightarrow> evaluation_request \<Rightarrow> call_context \<Rightarrow> evaluation_stage \<Rightarrow> ('w, exn, call_context) action" where
  "stage_context E q ctx stage w = (case cx_idempotency_key ctx of
       None \<Rightarrow> (Inl (AssertionError ''Evaluation parent idempotency was validated''), w)
     | Some key \<Rightarrow> (case ha_span E w of (span, w1) \<Rightarrow>
         (rbind (mk_identifier (ha_text_digest E (stage_key_material (ee_digest (ha_gateways E)) q key stage))) (\<lambda>k.
          narrow ctx (Some (er_scope q)) None (Some k) span), w1)))"

definition policy_stage :: "'w harness \<Rightarrow> evaluation_request \<Rightarrow> call_context \<Rightarrow> ('w, exn, stage_result) action" where
  "policy_stage E q ctx =
     (let G = ha_gateways E in
      abind (stage_context E q ctx STAGE_POLICY) (\<lambda>c.
      abind (policy_evaluate G q c) (\<lambda>r.
      abind (active_now c (ee_token G) (ee_clock G)) (\<lambda>_. areturn r))))"

definition quality_stage :: "'w harness \<Rightarrow> evaluation_request \<Rightarrow> call_context \<Rightarrow> ('w, exn, stage_result) action" where
  "quality_stage E q ctx =
     (let G = ha_gateways E in
      abind (stage_context E q ctx STAGE_QUALITY) (\<lambda>c.
      abind (quality_evaluate G q c) (\<lambda>r.
      abind (active_now c (ee_token G) (ee_clock G)) (\<lambda>_. areturn r))))"

text \<open>
  The body of the \<open>try\<close>: the stages appended so far, and the exception that ended it, if any.
\<close>

definition after_stage ::
  "stage_result list \<Rightarrow> exn + stage_result \<Rightarrow> (stage_result list \<Rightarrow> 'w \<Rightarrow> (stage_result list \<times> exn option) \<times> 'w)
    \<Rightarrow> 'w \<Rightarrow> (stage_result list \<times> exn option) \<times> 'w" where
  "after_stage stages r continue w = (case r of
       Inl e \<Rightarrow> ((stages, Some e), w)
     | Inr x \<Rightarrow> if st_verdict x = PASSED then continue (stages @ [x]) w else ((stages @ [x], None), w))"

definition run_stages :: "'w harness \<Rightarrow> evaluation_request \<Rightarrow> call_context \<Rightarrow> 'w \<Rightarrow> (stage_result list \<times> exn option) \<times> 'w" where
  "run_stages E q ctx = after_stage [] (schema_evaluate (ha_schemas E) q) (\<lambda>ss w.
     case policy_stage E q ctx w of (p, w1) \<Rightarrow> after_stage ss p (\<lambda>ss' w2.
     case quality_stage E q ctx w2 of (r, w3) \<Rightarrow> after_stage ss' r (\<lambda>ss'' w4. ((ss'', None), w4)) w3) w1)"

definition failed_stage :: "stage_result list \<Rightarrow> evaluation_stage" where
  "failed_stage stages = (if stages = [] then STAGE_SCHEMA else if List.length stages = 1 then STAGE_POLICY else STAGE_QUALITY)"

definition safe_error :: "error_detail \<Rightarrow> error_detail result" where
  "safe_error d = mk_error_detail (ed_category d) (ed_code d) ''Evaluation stage did not complete successfully''
     (ed_retryable d) None []"

definition error_verdict :: "error_detail \<Rightarrow> evaluation_verdict" where
  "error_verdict d = (case ed_category d of TIMEOUT \<Rightarrow> VERDICT_TIMED_OUT | CANCELLED_CALL \<Rightarrow> VERDICT_CANCELLED | _ \<Rightarrow> VERDICT_ERROR)"

text \<open>\<open>except CoreError\<close>: the failed stage is appended with the normalized error.\<close>

definition close_stages :: "stage_result list \<Rightarrow> exn option \<Rightarrow> (stage_result list \<times> error_detail option) result" where
  "close_stages stages failure = (case failure of
       None \<Rightarrow> Inr (stages, None)
     | Some (CoreError d) \<Rightarrow>
         rbind (safe_error d) (\<lambda>e.
         rbind (plain_stage_result (failed_stage stages) (error_verdict e) (ed_code e)) (\<lambda>r.
         Inr (stages @ [r], Some e)))
     | Some e \<Rightarrow> Inl e)"

definition finish_evaluation ::
  "'w harness \<Rightarrow> evaluation_request \<Rightarrow> stage_result list \<Rightarrow> call_context \<Rightarrow> error_detail option \<Rightarrow> ('w, exn, evaluation_result) action" where
  "finish_evaluation E q stages ctx err =
     abind (aresult (result_from_stages (er_id q) stages err)) (\<lambda>x.
     abind (atry (ha_recorded E q x ctx) (\<lambda>e. case e of
         CoreError d \<Rightarrow> abind (ha_audit_failure E (cx_run_id ctx) d) (\<lambda>_. araise e)
       | _ \<Rightarrow> araise e)) (\<lambda>_.
     areturn x))"

definition harness_evaluate :: "'w harness \<Rightarrow> evaluation_request \<Rightarrow> call_context \<Rightarrow> ('w, exn, evaluation_result) action" where
  "harness_evaluate E q ctx =
     (let G = ha_gateways E in
      abind (aresult (raise_when (cx_idempotency_key ctx = None)
        (core_error INVALID_REQUEST ''evaluation_idempotency_required'' ''Evaluation requires a parent idempotency key'' False None))) (\<lambda>_.
      abind (aresult (require_narrower_than (er_scope q) (cx_scope ctx))) (\<lambda>_.
      abind (active_now ctx (ee_token G) (ee_clock G)) (\<lambda>_ w.
      let w1 = snd (ha_started E q ctx w) in
      case run_stages E q ctx w1 of ((stages, failure), w2) \<Rightarrow>
        abind (aresult (close_stages stages failure)) (\<lambda>(stages', err). finish_evaluation E q stages' ctx err) w2))))"

subsection \<open>What a returned evaluation shows\<close>

lemma finish_evaluation_Inr:
  assumes "finish_evaluation E q stages ctx err w = (Inr x, w')"
  shows "result_from_stages (er_id q) stages err = Inr x \<and> ha_recorded E q x ctx w = (Inr (), w')"
  using assms
  by (auto simp: finish_evaluation_def abind_eq_Inr atry_def araise_def abind_def split: prod.splits sum.splits exn.splits)

lemma harness_evaluate_Inr:
  assumes "harness_evaluate E q ctx w = (Inr x, w')"
  obtains stages failure w2 stages' err where
    "run_stages E q ctx (snd (ha_started E q ctx w)) = ((stages, failure), w2)"
    "close_stages stages failure = Inr (stages', err)" "result_from_stages (er_id q) stages' err = Inr x"
    "ha_recorded E q x ctx w2 = (Inr (), w')"
proof -
  let ?w = "snd (ha_started E q ctx w)"
  obtain stages failure w2 where rs: "run_stages E q ctx ?w = ((stages, failure), w2)" by (metis surj_pair)
  have "abind (aresult (close_stages stages failure)) (\<lambda>(stages', err). finish_evaluation E q stages' ctx err) w2 = (Inr x, w')"
    using assms by (auto simp: harness_evaluate_def Let_def abind_eq_Inr active_now_def rs)
  then obtain stages' err where c: "close_stages stages failure = Inr (stages', err)"
    "finish_evaluation E q stages' ctx err w2 = (Inr x, w')" by (auto simp: abind_eq_Inr)
  with finish_evaluation_Inr [OF c(2)] rs that show ?thesis by blast
qed

lemma result_from_stages_Inr:
  assumes "result_from_stages i rs err = Inr x"
  shows "ex_stages x = rs" "ex_verdict x = st_verdict (last rs)" "ex_id x = i" "ex_error x = err" "mk_evaluation_result x = Inr x"
    "rs \<noteq> []"
  using assms by (auto simp: result_from_stages_def mk_evaluation_result_Inr split: if_splits)

lemma plain_stage_result_Inr:
  "plain_stage_result s v reason = Inr r \<longleftrightarrow> r = \<lparr>st_stage = s, st_verdict = v, st_reason = reason, st_measurements = [],
     st_evidence = []\<rparr> \<and> v \<in> set (allowed_verdicts s) \<and> trimmed reason"
  by (auto simp: plain_stage_result_def mk_stage_result_Inr stage_result_ok_def)

lemma error_verdict_not_passed: "error_verdict d \<noteq> PASSED"
  by (cases "ed_category d") (simp_all add: error_verdict_def)

lemma close_stages_last:
  assumes "close_stages stages failure = Inr (stages', err)" "st_verdict (last stages') = PASSED"
  shows "failure = None \<and> stages' = stages \<and> err = None"
proof (cases failure)
  case None
  with assms show ?thesis by (simp add: close_stages_def)
next
  case (Some e)
  with assms(1) obtain d where d: "e = CoreError d" by (cases e) (simp_all add: close_stages_def)
  with assms(1) Some obtain e' r where "plain_stage_result (failed_stage stages) (error_verdict e') (ed_code e') = Inr r"
    "stages' = stages @ [r]" by (auto simp: close_stages_def rbind_eq_Inr)
  with assms(2) error_verdict_not_passed [of e'] show ?thesis by (simp add: plain_stage_result_Inr)
qed

text \<open>The stages that ran, by what the earlier ones said.\<close>

lemma run_stages_cases:
  assumes "run_stages E q ctx w = ((stages, failure), w')"
  obtains (schema_raised) e where "schema_evaluate (ha_schemas E) q = Inl e" "stages = []" "failure = Some e" "w' = w"
  | (schema_failed) r where "schema_evaluate (ha_schemas E) q = Inr r" "st_verdict r \<noteq> PASSED" "stages = [r]" "failure = None" "w' = w"
  | (policy_raised) r e where "schema_evaluate (ha_schemas E) q = Inr r" "st_verdict r = PASSED"
      "policy_stage E q ctx w = (Inl e, w')" "stages = [r]" "failure = Some e"
  | (policy_failed) r p where "schema_evaluate (ha_schemas E) q = Inr r" "st_verdict r = PASSED"
      "policy_stage E q ctx w = (Inr p, w')" "st_verdict p \<noteq> PASSED" "stages = [r, p]" "failure = None"
  | (quality_raised) r p w1 e where "schema_evaluate (ha_schemas E) q = Inr r" "st_verdict r = PASSED"
      "policy_stage E q ctx w = (Inr p, w1)" "st_verdict p = PASSED" "quality_stage E q ctx w1 = (Inl e, w')"
      "stages = [r, p]" "failure = Some e"
  | (quality_ran) r p w1 x where "schema_evaluate (ha_schemas E) q = Inr r" "st_verdict r = PASSED"
      "policy_stage E q ctx w = (Inr p, w1)" "st_verdict p = PASSED" "quality_stage E q ctx w1 = (Inr x, w')"
      "stages = [r, p, x]" "failure = None"
proof (cases "schema_evaluate (ha_schemas E) q")
  case (Inl e)
  with assms show ?thesis by (intro schema_raised) (auto simp: run_stages_def after_stage_def)
next
  case (Inr r)
  show ?thesis
  proof (cases "st_verdict r = PASSED")
    case False
    with assms Inr show ?thesis by (intro schema_failed) (auto simp: run_stages_def after_stage_def)
  next
    case True
    obtain p w1 where p: "policy_stage E q ctx w = (p, w1)" by fastforce
    show ?thesis
    proof (cases p)
      case (Inl e)
      with assms Inr True p show ?thesis by (intro policy_raised) (auto simp: run_stages_def after_stage_def)
    next
      case (Inr y)
      note y = Inr
      show ?thesis
      proof (cases "st_verdict y = PASSED")
        case False
        with assms \<open>schema_evaluate (ha_schemas E) q = Inr r\<close> True p y show ?thesis
          by (intro policy_failed) (auto simp: run_stages_def after_stage_def)
      next
        case y2: True
        obtain z w3 where z: "quality_stage E q ctx w1 = (z, w3)" by fastforce
        show ?thesis
        proof (cases z)
          case (Inl e)
          show ?thesis
            using quality_raised [OF \<open>schema_evaluate (ha_schemas E) q = Inr r\<close> True, of y w1 e] assms
              \<open>schema_evaluate (ha_schemas E) q = Inr r\<close> True p y y2 z Inl
            by (simp add: run_stages_def after_stage_def)
        next
          case (Inr x)
          show ?thesis
            using quality_ran [OF \<open>schema_evaluate (ha_schemas E) q = Inr r\<close> True, of y w1 x] assms
              \<open>schema_evaluate (ha_schemas E) q = Inr r\<close> True p y y2 z Inr
            by (auto simp: run_stages_def after_stage_def split: if_splits)
        qed
      qed
    qed
  qed
qed

text \<open>A stage derives its own context first and leaves the world as its gateway left it.\<close>

lemma policy_stage_Inr:
  "policy_stage E q ctx w = (Inr r, w') \<Longrightarrow>
    \<exists>c w1. stage_context E q ctx STAGE_POLICY w = (Inr c, w1) \<and> policy_evaluate (ha_gateways E) q c w1 = (Inr r, w')"
  by (auto simp: policy_stage_def Let_def abind_eq_Inr active_now_def aresult_def areturn_def)

lemma quality_stage_Inr:
  "quality_stage E q ctx w = (Inr r, w') \<Longrightarrow>
    \<exists>c w1. stage_context E q ctx STAGE_QUALITY w = (Inr c, w1) \<and> quality_evaluate (ha_gateways E) q c w1 = (Inr r, w')"
  by (auto simp: quality_stage_def Let_def abind_eq_Inr active_now_def aresult_def areturn_def)

lemma schema_evaluate_passed:
  assumes "schema_evaluate schemas q = Inr r" "st_verdict r = PASSED"
  shows "validate_value schemas (er_input_schema q) (er_value q) = Inr ()" "st_stage r = STAGE_SCHEMA"
  using assms by (auto simp: schema_evaluate_def plain_stage_result_Inr split: if_splits sum.splits exn.splits)

end
