(* ===== verification/Model_Contract.thy ===== *)
theory Model_Contract
  imports Checkpoint_Model Value_Schema
begin

section \<open>Content blocks and the contracts of model providers\<close>

text \<open>
  \<open>runtime/content.py\<close> and the data of \<open>provider/model.py\<close>: content blocks, budgets, usage,
  requirements, bindings, proposed tool calls, responses, stream events and capabilities. A set of
  enumeration members is written as its sorted values.
\<close>

subsection \<open>Content blocks\<close>

datatype content_kind = CONTENT_TEXT | CONTENT_JSON | CONTENT_REFERENCE

fun content_kind_value :: "content_kind \<Rightarrow> string" where
  "content_kind_value CONTENT_TEXT = ''text''"
| "content_kind_value CONTENT_JSON = ''json''"
| "content_kind_value CONTENT_REFERENCE = ''reference''"

definition content_kinds :: "(string \<times> content_kind) list" where
  "content_kinds = List.map (\<lambda>x. (content_kind_value x, x)) [CONTENT_TEXT, CONTENT_JSON, CONTENT_REFERENCE]"

lemma content_kind_decodes [simp]: "enum_of L cls content_kinds (content_kind_value x) = Inr x"
  by (cases x) (simp_all add: enum_of_def content_kinds_def)

record content_block =
  cb_kind :: content_kind
  cb_value :: json
  cb_name :: "string option"
  cb_media :: "string option"

definition is_text :: "json \<Rightarrow> bool" where
  "is_text v \<longleftrightarrow> (case v of JStr _ \<Rightarrow> True | _ \<Rightarrow> False)"

definition absent_or_trimmed :: "string option \<Rightarrow> bool" where
  "absent_or_trimmed v \<longleftrightarrow> (case v of None \<Rightarrow> True | Some s \<Rightarrow> trimmed s)"

definition mk_content :: "content_block \<Rightarrow> content_block result" where
  "mk_content b =
     (if cb_kind b \<in> {CONTENT_TEXT, CONTENT_REFERENCE} \<and> \<not> is_text (cb_value b)
      then Inl (ValueError (content_kind_value (cb_kind b) @ '' content requires a string value''))
      else if \<not> absent_or_trimmed (cb_name b) then Inl (ValueError ''content name must be non-empty and trimmed'')
      else if \<not> absent_or_trimmed (cb_media b) then Inl (ValueError ''content media_type must be non-empty and trimmed'')
      else Inr b)"

definition text_block :: "string \<Rightarrow> string option \<Rightarrow> content_block result" where
  "text_block v name = mk_content \<lparr>cb_kind = CONTENT_TEXT, cb_value = JStr v, cb_name = name, cb_media = Some ''text/plain''\<rparr>"

definition json_block :: "json \<Rightarrow> string option \<Rightarrow> content_block result" where
  "json_block v name = mk_content \<lparr>cb_kind = CONTENT_JSON, cb_value = v, cb_name = name, cb_media = Some ''application/json''\<rparr>"

definition reference_block :: "string \<Rightarrow> string option \<Rightarrow> string option \<Rightarrow> content_block result" where
  "reference_block v name media = mk_content \<lparr>cb_kind = CONTENT_REFERENCE, cb_value = JStr v, cb_name = name, cb_media = media\<rparr>"

definition content_to_data :: "content_block \<Rightarrow> json_object" where
  "content_to_data b = [(''kind'', JStr (content_kind_value (cb_kind b))), (''value'', cb_value b), (''name'', opt_str (cb_name b)),
     (''media_type'', opt_str (cb_media b))]"

text \<open>\<open>str(data[k]) if data.get(k) is not None else None\<close>\<close>

definition text_or_none :: "pylib \<Rightarrow> json_object \<Rightarrow> string \<Rightarrow> string option" where
  "text_or_none L d k = (if obj_get d k = JNull then None else Some (py_str L (obj_get d k)))"

lemma text_or_none_simps [simp]:
  "text_or_none L ((k, v) # d) k' = (if k = k' then (if v = JNull then None else Some (py_str L v)) else text_or_none L d k')"
  by (simp add: text_or_none_def)

lemma opt_text_decodes [simp]: "(if opt_str x = JNull then None else Some (py_str L (opt_str x))) = x"
  by (cases x) simp_all

definition content_from_data :: "pylib \<Rightarrow> json_object \<Rightarrow> content_block result" where
  "content_from_data L d =
     rbind (rbind (field_str L d ''kind'') (enum_of L ''ContentKind'' content_kinds)) (\<lambda>k.
     mk_content \<lparr>cb_kind = k, cb_value = obj_get d ''value'', cb_name = text_or_none L d ''name'',
       cb_media = text_or_none L d ''media_type''\<rparr>)"

lemma content_roundtrip: "mk_content b = Inr b \<Longrightarrow> content_from_data L (content_to_data b) = Inr b"
  by (cases b) (simp add: content_from_data_def content_to_data_def del: content_kind_value.simps)

lemma json_block_ok: "\<exists>b. json_block v None = Inr b \<and> cb_value b = v"
proof -
  have "trimmed ''application/json''" by code_simp
  then show ?thesis by (auto simp: json_block_def mk_content_def absent_or_trimmed_def)
qed

definition blocks_to_data :: "content_block list \<Rightarrow> json" where
  "blocks_to_data bs = JList (List.map (\<lambda>b. JObj (content_to_data b)) bs)"

lemma blocks_decode: "\<forall>b \<in> set bs. mk_content b = Inr b \<Longrightarrow>
    objects n (content_from_data L) (List.map (\<lambda>b. JObj (content_to_data b)) bs) = Inr bs"
  by (rule objects_inverse) (simp add: content_roundtrip)

subsection \<open>Selectors, budgets and usage\<close>

record model_selector =
  ms_provider :: provider_id
  ms_model :: string

definition selector_to_data :: "model_selector \<Rightarrow> json_object" where
  "selector_to_data s = [(''provider_id'', JStr (ms_provider s)), (''model_id'', JStr (ms_model s))]"

definition selector_from_data :: "pylib \<Rightarrow> json_object \<Rightarrow> model_selector result" where
  "selector_from_data L d =
     rbind (ident_at L d ''provider_id'') (\<lambda>p. rbind (ident_at L d ''model_id'') (\<lambda>m. Inr \<lparr>ms_provider = p, ms_model = m\<rparr>))"

definition selector_ok :: "model_selector \<Rightarrow> bool" where
  "selector_ok s \<longleftrightarrow> identifier_ok (ms_provider s) \<and> identifier_ok (ms_model s)"

lemma selector_roundtrip: "selector_ok s \<Longrightarrow> selector_from_data L (selector_to_data s) = Inr s"
  by (cases s) (simp add: selector_from_data_def selector_to_data_def selector_ok_def)

datatype model_operation = OP_GENERATE | OP_STREAM

fun model_operation_value :: "model_operation \<Rightarrow> string" where
  "model_operation_value OP_GENERATE = ''generate''"
| "model_operation_value OP_STREAM = ''stream''"

definition model_operations :: "(string \<times> model_operation) list" where
  "model_operations = List.map (\<lambda>x. (model_operation_value x, x)) [OP_GENERATE, OP_STREAM]"

lemma model_operation_decodes [simp]: "enum_of L cls model_operations (model_operation_value x) = Inr x"
  by (cases x) (simp_all add: enum_of_def model_operations_def)

record model_budget =
  mb_input :: "int option"
  mb_output :: "int option"

definition limit_ok :: "int option \<Rightarrow> bool" where
  "limit_ok v \<longleftrightarrow> (case v of None \<Rightarrow> True | Some i \<Rightarrow> 1 \<le> i)"

definition mk_budget :: "int option \<Rightarrow> int option \<Rightarrow> model_budget result" where
  "mk_budget i out =
     (if \<not> limit_ok i then Inl (ValueError ''model max_input_units must be positive'')
      else if \<not> limit_ok out then Inl (ValueError ''model max_output_units must be positive'')
      else Inr \<lparr>mb_input = i, mb_output = out\<rparr>)"

definition opt_int :: "int option \<Rightarrow> json" where
  "opt_int v = (case v of None \<Rightarrow> JNull | Some i \<Rightarrow> JInt i)"

definition int_or_none :: "json \<Rightarrow> string \<Rightarrow> int option result" where
  "int_or_none v fname = (if v = JNull then Inr None else rbind (as_int v fname) (\<lambda>i. Inr (Some i)))"

lemma int_or_none_decodes [simp]: "int_or_none (opt_int v) n = Inr v"
  by (cases v) (simp_all add: int_or_none_def opt_int_def)

definition budget_to_data :: "model_budget \<Rightarrow> json_object" where
  "budget_to_data b = [(''max_input_units'', opt_int (mb_input b)), (''max_output_units'', opt_int (mb_output b))]"

definition budget_from_data :: "json_object \<Rightarrow> model_budget result" where
  "budget_from_data d =
     rbind (int_or_none (obj_get d ''max_input_units'') ''max_input_units'') (\<lambda>i.
     rbind (int_or_none (obj_get d ''max_output_units'') ''max_output_units'') (\<lambda>out. mk_budget i out))"

definition budget_ok :: "model_budget \<Rightarrow> bool" where
  "budget_ok b \<longleftrightarrow> limit_ok (mb_input b) \<and> limit_ok (mb_output b)"

lemma budget_roundtrip: "budget_ok b \<Longrightarrow> budget_from_data (budget_to_data b) = Inr b"
  by (cases b) (simp add: budget_from_data_def budget_to_data_def budget_ok_def mk_budget_def)

record model_usage =
  mu_input :: int
  mu_output :: int
  mu_unit :: string

definition mk_usage :: "int \<Rightarrow> int \<Rightarrow> string \<Rightarrow> model_usage result" where
  "mk_usage i out u =
     (if i < 0 \<or> out < 0 then Inl (ValueError ''model usage cannot be negative'')
      else if \<not> trimmed u then Inl (ValueError ''model usage unit must be non-empty and trimmed'')
      else Inr \<lparr>mu_input = i, mu_output = out, mu_unit = u\<rparr>)"

definition total_units :: "model_usage \<Rightarrow> int" where
  "total_units u = mu_input u + mu_output u"

definition usage_to_data :: "model_usage \<Rightarrow> json_object" where
  "usage_to_data u = [(''input_units'', JInt (mu_input u)), (''output_units'', JInt (mu_output u)),
     (''total_units'', JInt (total_units u)), (''unit'', JStr (mu_unit u))]"

definition usage_from_data :: "pylib \<Rightarrow> json_object \<Rightarrow> model_usage result" where
  "usage_from_data L d =
     rbind (int_at d ''input_units'' ''input_units'') (\<lambda>i.
     rbind (int_at d ''output_units'' ''output_units'') (\<lambda>out.
     rbind (field_str L d ''unit'') (\<lambda>u. mk_usage i out u)))"

definition usage_ok :: "model_usage \<Rightarrow> bool" where
  "usage_ok u \<longleftrightarrow> 0 \<le> mu_input u \<and> 0 \<le> mu_output u \<and> trimmed (mu_unit u)"

lemma usage_roundtrip: "usage_ok u \<Longrightarrow> usage_from_data L (usage_to_data u) = Inr u"
  by (cases u) (simp add: usage_from_data_def usage_to_data_def usage_ok_def mk_usage_def)

subsection \<open>Policies, requirements and bindings\<close>

record model_request_policy =
  mp_allow_partial :: bool
  mp_allow_tools :: bool

definition request_policy_to_data :: "model_request_policy \<Rightarrow> json_object" where
  "request_policy_to_data p = [(''allow_partial'', JBool (mp_allow_partial p)), (''allow_tool_requests'', JBool (mp_allow_tools p))]"

definition truth_at :: "json_object \<Rightarrow> string \<Rightarrow> bool result" where
  "truth_at d k = rbind (obj_index d k) (\<lambda>v. Inr (json_true v))"

lemma truth_at_simps [simp]: "truth_at ((k, v) # d) k' = (if k = k' then Inr (json_true v) else truth_at d k')"
  by (simp add: truth_at_def)

definition request_policy_from_data :: "json_object \<Rightarrow> model_request_policy result" where
  "request_policy_from_data d =
     rbind (truth_at d ''allow_partial'') (\<lambda>p. rbind (truth_at d ''allow_tool_requests'') (\<lambda>t.
     Inr \<lparr>mp_allow_partial = p, mp_allow_tools = t\<rparr>))"

lemma request_policy_roundtrip [simp]: "request_policy_from_data (request_policy_to_data p) = Inr p"
  by (cases p) (simp add: request_policy_from_data_def request_policy_to_data_def)

record model_requirements =
  rq_streaming :: bool
  rq_structured :: bool
  rq_tool_calls :: bool
  rq_inputs :: "content_kind set"
  rq_outputs :: "content_kind set"

definition kinds_to_data :: "content_kind set \<Rightarrow> json" where
  "kinds_to_data K = JList (List.map JStr (sort (List.map content_kind_value
     (filter (\<lambda>k. k \<in> K) [CONTENT_TEXT, CONTENT_JSON, CONTENT_REFERENCE]))))"

definition kinds_at :: "pylib \<Rightarrow> json_object \<Rightarrow> string \<Rightarrow> string \<Rightarrow> content_kind set result" where
  "kinds_at L d k fname = rbind (array_at d k fname) (\<lambda>xs.
     rbind (rmap (\<lambda>v. enum_of L ''ContentKind'' content_kinds (py_str L v)) xs) (\<lambda>ks. Inr (set ks)))"

lemma enum_image:
  assumes "\<And>x. x \<in> set xs \<Longrightarrow> \<exists>k. x = content_kind_value k"
  shows "\<exists>ks. rmap (enum_of L c content_kinds) xs = Inr ks \<and> content_kind_value ` set ks = set xs"
  using assms
proof (induction xs)
  case (Cons x xs)
  then obtain ks where ks: "rmap (enum_of L c content_kinds) xs = Inr ks" "content_kind_value ` set ks = set xs" by auto
  from Cons.prems obtain k where "x = content_kind_value k" by auto
  with ks have "rmap (enum_of L c content_kinds) (x # xs) = Inr (k # ks)" "content_kind_value ` set (k # ks) = set (x # xs)"
    by (simp_all del: content_kind_value.simps)
  then show ?case by blast
qed simp

lemma content_kind_value_inj: "content_kind_value a = content_kind_value b \<longleftrightarrow> a = b"
  by (cases a; cases b) simp_all

lemma kinds_decode:
  assumes "obj_index d k = Inr (kinds_to_data K)"
  shows "kinds_at L d k n = Inr K"
proof -
  define all where "all = [CONTENT_TEXT, CONTENT_JSON, CONTENT_REFERENCE]"
  define vs where "vs = sort (List.map content_kind_value (filter (\<lambda>k. k \<in> K) all))"
  have "k \<in> set all" for k by (cases k) (simp_all add: all_def)
  then have vs: "set vs = content_kind_value ` K" by (auto simp: vs_def)
  have "\<exists>ks. rmap (enum_of L ''ContentKind'' content_kinds) vs = Inr ks \<and> content_kind_value ` set ks = set vs"
    by (rule enum_image) (auto simp: vs)
  then obtain ks where ks: "rmap (enum_of L ''ContentKind'' content_kinds) vs = Inr ks"
    "content_kind_value ` set ks = content_kind_value ` K" by (auto simp: vs)
  have "set ks = K" using ks(2) by (simp add: inj_image_eq_iff inj_def content_kind_value_inj)
  moreover have "kinds_to_data K = JList (List.map JStr vs)" by (simp only: kinds_to_data_def vs_def all_def)
  ultimately show ?thesis using assms ks(1) by (simp add: kinds_at_def array_at_def)
qed

definition requirements_to_data :: "model_requirements \<Rightarrow> json_object" where
  "requirements_to_data r = [(''streaming'', JBool (rq_streaming r)), (''structured_output'', JBool (rq_structured r)),
     (''tool_calls'', JBool (rq_tool_calls r)), (''input_kinds'', kinds_to_data (rq_inputs r)),
     (''output_kinds'', kinds_to_data (rq_outputs r))]"

definition requirements_from_data :: "pylib \<Rightarrow> json_object \<Rightarrow> model_requirements result" where
  "requirements_from_data L d =
     rbind (truth_at d ''streaming'') (\<lambda>s.
     rbind (truth_at d ''structured_output'') (\<lambda>o'.
     rbind (truth_at d ''tool_calls'') (\<lambda>t.
     rbind (kinds_at L d ''input_kinds'' ''model input kinds'') (\<lambda>ki.
     rbind (kinds_at L d ''output_kinds'' ''model output kinds'') (\<lambda>ko.
     Inr \<lparr>rq_streaming = s, rq_structured = o', rq_tool_calls = t, rq_inputs = ki, rq_outputs = ko\<rparr>)))))"

lemma requirements_roundtrip: "requirements_from_data L (requirements_to_data r) = Inr r"
proof -
  have "kinds_at L (requirements_to_data r) ''input_kinds'' n = Inr (rq_inputs r)"
    "kinds_at L (requirements_to_data r) ''output_kinds'' n = Inr (rq_outputs r)" for n
    by (simp_all add: kinds_decode requirements_to_data_def)
  then show ?thesis unfolding requirements_from_data_def by (cases r) (simp add: requirements_to_data_def)
qed

record model_binding =
  mi_ref :: model_binding_ref
  mi_selector :: model_selector
  mi_required :: model_requirements
  mi_policy :: model_request_policy
  mi_budget :: model_budget
  mi_fallbacks :: "model_selector list"

definition binding_selectors :: "model_binding \<Rightarrow> model_selector list" where
  "binding_selectors b = mi_selector b # mi_fallbacks b"

definition mk_binding :: "model_binding \<Rightarrow> model_binding result" where
  "mk_binding b =
     (if \<not> distinct (binding_selectors b) then Inl (ValueError ''model binding selectors must be unique'') else Inr b)"

definition binding_to_data :: "model_binding \<Rightarrow> json_object" where
  "binding_to_data b = [(''ref'', JStr (mi_ref b)), (''selector'', JObj (selector_to_data (mi_selector b))),
     (''required'', JObj (requirements_to_data (mi_required b))),
     (''default_policy'', JObj (request_policy_to_data (mi_policy b))),
     (''default_budget'', JObj (budget_to_data (mi_budget b))),
     (''fallbacks'', JList (List.map (\<lambda>s. JObj (selector_to_data s)) (mi_fallbacks b)))]"

definition binding_from_data :: "pylib \<Rightarrow> json_object \<Rightarrow> model_binding result" where
  "binding_from_data L d =
     rbind (ident_at L d ''ref'') (\<lambda>r.
     rbind (rbind (object_at d ''selector'' ''model selector'') (selector_from_data L)) (\<lambda>s.
     rbind (rbind (object_at d ''required'' ''model requirements'') (requirements_from_data L)) (\<lambda>q.
     rbind (rbind (object_at d ''default_policy'' ''model policy'') request_policy_from_data) (\<lambda>p.
     rbind (rbind (object_at d ''default_budget'' ''model budget'') budget_from_data) (\<lambda>b.
     rbind (rbind (array_at d ''fallbacks'' ''fallback model selectors'')
       (objects ''fallback model selector'' (selector_from_data L))) (\<lambda>fs.
     mk_binding \<lparr>mi_ref = r, mi_selector = s, mi_required = q, mi_policy = p, mi_budget = b, mi_fallbacks = fs\<rparr>))))))"

definition binding_ok :: "model_binding \<Rightarrow> bool" where
  "binding_ok b \<longleftrightarrow> identifier_ok (mi_ref b) \<and> selector_ok (mi_selector b) \<and> budget_ok (mi_budget b)
     \<and> list_all selector_ok (mi_fallbacks b) \<and> distinct (binding_selectors b)"

lemma selectors_decode: "list_all selector_ok ss \<Longrightarrow>
    objects n (selector_from_data L) (List.map (\<lambda>s. JObj (selector_to_data s)) ss) = Inr ss"
  by (rule objects_inverse) (simp add: selector_roundtrip list_all_iff)

lemma binding_roundtrip: "binding_ok b \<Longrightarrow> binding_from_data L (binding_to_data b) = Inr b"
  by (cases b) (simp add: binding_from_data_def binding_to_data_def binding_ok_def selector_roundtrip requirements_roundtrip
      budget_roundtrip selectors_decode mk_binding_def binding_selectors_def)

subsection \<open>Tool proposals, requests and responses\<close>

record tool_proposal =
  tp_call_id :: string
  tp_tool :: resource_ref
  tp_arguments :: json

definition mk_proposal :: "tool_proposal \<Rightarrow> tool_proposal result" where
  "mk_proposal p = (if \<not> trimmed (tp_call_id p) then Inl (ValueError ''tool call id must be non-empty and trimmed'') else Inr p)"

definition proposal_to_data :: "tool_proposal \<Rightarrow> json_object" where
  "proposal_to_data p = [(''call_id'', JStr (tp_call_id p)), (''tool'', JObj (resource_to_data (tp_tool p))),
     (''arguments'', tp_arguments p)]"

definition proposal_from_data :: "pylib \<Rightarrow> json_object \<Rightarrow> tool_proposal result" where
  "proposal_from_data L d =
     rbind (field_str L d ''call_id'') (\<lambda>i.
     rbind (rbind (object_at d ''tool'' ''tool reference'') (resource_from_data L)) (\<lambda>r.
     mk_proposal \<lparr>tp_call_id = i, tp_tool = r, tp_arguments = obj_get d ''arguments''\<rparr>))"

definition proposal_ok :: "tool_proposal \<Rightarrow> bool" where
  "proposal_ok p \<longleftrightarrow> trimmed (tp_call_id p) \<and> resource_ok (tp_tool p)"

lemma proposal_roundtrip: "proposal_ok p \<Longrightarrow> proposal_from_data L (proposal_to_data p) = Inr p"
  by (cases p) (simp add: proposal_from_data_def proposal_to_data_def proposal_ok_def resource_roundtrip mk_proposal_def)

datatype finish_reason = FINISH_STOP | FINISH_LENGTH | FINISH_TOOL_REQUEST | FINISH_FILTERED | FINISH_PARTIAL

fun finish_reason_value :: "finish_reason \<Rightarrow> string" where
  "finish_reason_value FINISH_STOP = ''stop''"
| "finish_reason_value FINISH_LENGTH = ''length''"
| "finish_reason_value FINISH_TOOL_REQUEST = ''tool_request''"
| "finish_reason_value FINISH_FILTERED = ''filtered''"
| "finish_reason_value FINISH_PARTIAL = ''partial''"

definition finish_reasons :: "(string \<times> finish_reason) list" where
  "finish_reasons = List.map (\<lambda>x. (finish_reason_value x, x)) [FINISH_STOP, FINISH_LENGTH, FINISH_TOOL_REQUEST,
     FINISH_FILTERED, FINISH_PARTIAL]"

lemma finish_reason_decodes [simp]: "enum_of L cls finish_reasons (finish_reason_value x) = Inr x"
  by (cases x) (simp_all add: enum_of_def finish_reasons_def)

record model_response =
  mr_output :: "content_block list"
  mr_finish :: finish_reason
  mr_usage :: model_usage
  mr_provider :: provider_id
  mr_model :: string
  mr_structured :: json
  mr_tools :: "tool_proposal list"
  mr_warnings :: "string list"
  mr_provenance :: "string list"

text \<open>An absent structured output is \<open>JNull\<close>: \<open>None\<close> and JSON null are the same Python value.\<close>

definition mk_response :: "model_response \<Rightarrow> model_response result" where
  "mk_response r =
     (if mr_output r = [] \<and> mr_structured r = JNull \<and> mr_tools r = []
      then Inl (ValueError ''model response must contain output or a tool request'')
      else if \<not> list_all trimmed (mr_warnings r)
      then Inl (ValueError ''model response warnings must be non-empty and trimmed'')
      else if \<not> list_all trimmed (mr_provenance r)
      then Inl (ValueError ''model response provenance must be non-empty and trimmed'') else Inr r)"

definition response_to_data :: "model_response \<Rightarrow> json_object" where
  "response_to_data r = [(''output'', blocks_to_data (mr_output r)), (''structured_output'', mr_structured r),
     (''tool_requests'', JList (List.map (\<lambda>p. JObj (proposal_to_data p)) (mr_tools r))),
     (''finish_reason'', JStr (finish_reason_value (mr_finish r))), (''usage'', JObj (usage_to_data (mr_usage r))),
     (''provider_id'', JStr (mr_provider r)), (''model_id'', JStr (mr_model r)),
     (''warnings'', JList (List.map JStr (mr_warnings r))), (''provenance'', JList (List.map JStr (mr_provenance r)))]"

definition texts_at :: "pylib \<Rightarrow> json_object \<Rightarrow> string \<Rightarrow> string \<Rightarrow> string list result" where
  "texts_at L d k fname = rbind (array_at d k fname) (\<lambda>xs. Inr (List.map (py_str L) xs))"

lemma texts_at_simps [simp]:
  "texts_at L ((k, v) # d) k' n = (if k = k' then rbind (as_array v n) (\<lambda>xs. Inr (List.map (py_str L) xs)) else texts_at L d k' n)"
  by (simp add: texts_at_def)

definition response_from_data :: "pylib \<Rightarrow> json_object \<Rightarrow> model_response result" where
  "response_from_data L d =
     rbind (rbind (array_at d ''output'' ''model output'') (objects ''model output block'' (content_from_data L))) (\<lambda>out.
     rbind (rbind (array_at d ''tool_requests'' ''tool requests'') (objects ''tool request'' (proposal_from_data L))) (\<lambda>ts.
     rbind (rbind (field_str L d ''finish_reason'') (enum_of L ''ModelFinishReason'' finish_reasons)) (\<lambda>f.
     rbind (rbind (object_at d ''usage'' ''model usage'') (usage_from_data L)) (\<lambda>u.
     rbind (ident_at L d ''provider_id'') (\<lambda>p.
     rbind (ident_at L d ''model_id'') (\<lambda>m.
     rbind (texts_at L d ''warnings'' ''model warnings'') (\<lambda>ws.
     rbind (texts_at L d ''provenance'' ''model provenance'') (\<lambda>vs.
     mk_response \<lparr>mr_output = out, mr_finish = f, mr_usage = u, mr_provider = p, mr_model = m,
       mr_structured = obj_get d ''structured_output'', mr_tools = ts, mr_warnings = ws, mr_provenance = vs\<rparr>))))))))"

definition response_ok :: "model_response \<Rightarrow> bool" where
  "response_ok r \<longleftrightarrow> mk_response r = Inr r \<and> (\<forall>b \<in> set (mr_output r). mk_content b = Inr b)
     \<and> list_all proposal_ok (mr_tools r) \<and> usage_ok (mr_usage r) \<and> identifier_ok (mr_provider r) \<and> identifier_ok (mr_model r)"

lemma proposals_decode: "list_all proposal_ok ps \<Longrightarrow>
    objects n (proposal_from_data L) (List.map (\<lambda>p. JObj (proposal_to_data p)) ps) = Inr ps"
  by (rule objects_inverse) (simp add: proposal_roundtrip list_all_iff)

lemma response_roundtrip:
  assumes ok: "response_ok r"
  shows "response_from_data L (response_to_data r) = Inr r"
proof -
  have "objects n (content_from_data L) (List.map (\<lambda>b. JObj (content_to_data b)) (mr_output r)) = Inr (mr_output r)"
    "objects n (proposal_from_data L) (List.map (\<lambda>p. JObj (proposal_to_data p)) (mr_tools r)) = Inr (mr_tools r)"
    "usage_from_data L (usage_to_data (mr_usage r)) = Inr (mr_usage r)" for n
    using ok by (simp_all add: response_ok_def blocks_decode proposals_decode usage_roundtrip)
  moreover from ok have "mk_response r = Inr r" "identifier_ok (mr_provider r)" "identifier_ok (mr_model r)"
    by (simp_all add: response_ok_def)
  ultimately show ?thesis
    by (cases r) (simp add: response_from_data_def response_to_data_def blocks_to_data_def comp_def)
qed

subsection \<open>Stream events\<close>

datatype model_event_type = MODEL_START | CONTENT_DELTA | STRUCTURED_DELTA | TOOL_REQUEST | USAGE_UPDATE | COMPLETION | FAILURE

fun model_event_type_value :: "model_event_type \<Rightarrow> string" where
  "model_event_type_value MODEL_START = ''start''"
| "model_event_type_value CONTENT_DELTA = ''content_delta''"
| "model_event_type_value STRUCTURED_DELTA = ''structured_delta''"
| "model_event_type_value TOOL_REQUEST = ''tool_request''"
| "model_event_type_value USAGE_UPDATE = ''usage_update''"
| "model_event_type_value COMPLETION = ''completion''"
| "model_event_type_value FAILURE = ''failure''"

definition model_event_types :: "(string \<times> model_event_type) list" where
  "model_event_types = List.map (\<lambda>x. (model_event_type_value x, x)) [MODEL_START, CONTENT_DELTA, STRUCTURED_DELTA,
     TOOL_REQUEST, USAGE_UPDATE, COMPLETION, FAILURE]"

lemma model_event_type_decodes [simp]: "enum_of L cls model_event_types (model_event_type_value x) = Inr x"
  by (cases x) (simp_all add: enum_of_def model_event_types_def)

definition terminal_event :: "model_event_type \<Rightarrow> bool" where
  "terminal_event t \<longleftrightarrow> t \<in> {COMPLETION, FAILURE}"

record model_event =
  me_type :: model_event_type
  me_content :: "content_block option"
  me_structured :: json
  me_tool :: "tool_proposal option"
  me_usage :: "model_usage option"
  me_response :: "model_response option"
  me_error :: "error_detail option"

text \<open>The names of the payload fields that are set, and the one the type requires.\<close>

definition event_payload :: "model_event \<Rightarrow> string list" where
  "event_payload e =
     (if me_content e \<noteq> None then [''content''] else []) @ (if me_structured e \<noteq> JNull then [''structured_delta''] else []) @
     (if me_tool e \<noteq> None then [''tool_request''] else []) @ (if me_usage e \<noteq> None then [''usage''] else []) @
     (if me_response e \<noteq> None then [''response''] else []) @ (if me_error e \<noteq> None then [''error''] else [])"

fun expected_payload :: "model_event_type \<Rightarrow> string list" where
  "expected_payload MODEL_START = []"
| "expected_payload CONTENT_DELTA = [''content'']"
| "expected_payload STRUCTURED_DELTA = [''structured_delta'']"
| "expected_payload TOOL_REQUEST = [''tool_request'']"
| "expected_payload USAGE_UPDATE = [''usage'']"
| "expected_payload COMPLETION = [''response'']"
| "expected_payload FAILURE = [''error'']"

definition mk_model_event :: "model_event \<Rightarrow> model_event result" where
  "mk_model_event e =
     (if \<not> set (expected_payload (me_type e)) \<subseteq> set (event_payload e)
      then Inl (ValueError (model_event_type_value (me_type e) @ '' model event is missing its payload''))
      else if \<not> set (event_payload e) \<subseteq> set (expected_payload (me_type e))
      then Inl (ValueError (model_event_type_value (me_type e) @ '' model event has an unexpected payload'')) else Inr e)"

definition model_event_to_data :: "model_event \<Rightarrow> json_object" where
  "model_event_to_data e = [(''type'', JStr (model_event_type_value (me_type e))),
     (''content'', case me_content e of None \<Rightarrow> JNull | Some b \<Rightarrow> JObj (content_to_data b)),
     (''structured_delta'', me_structured e),
     (''tool_request'', case me_tool e of None \<Rightarrow> JNull | Some p \<Rightarrow> JObj (proposal_to_data p)),
     (''usage'', case me_usage e of None \<Rightarrow> JNull | Some u \<Rightarrow> JObj (usage_to_data u)),
     (''response'', case me_response e of None \<Rightarrow> JNull | Some r \<Rightarrow> JObj (response_to_data r)),
     (''error'', case me_error e of None \<Rightarrow> JNull | Some d \<Rightarrow> JObj (error_detail_to_data d))]"

definition model_event_from_data :: "pylib \<Rightarrow> json_object \<Rightarrow> model_event result" where
  "model_event_from_data L d =
     rbind (rbind (field_str L d ''type'') (enum_of L ''ModelEventType'' model_event_types)) (\<lambda>t.
     rbind (object_or_none ''model event content'' (content_from_data L) (obj_get d ''content'')) (\<lambda>b.
     rbind (object_or_none ''model event tool request'' (proposal_from_data L) (obj_get d ''tool_request'')) (\<lambda>p.
     rbind (object_or_none ''model event usage'' (usage_from_data L) (obj_get d ''usage'')) (\<lambda>u.
     rbind (object_or_none ''model event response'' (response_from_data L) (obj_get d ''response'')) (\<lambda>r.
     rbind (object_or_none ''model event error'' (error_detail_from_data L) (obj_get d ''error'')) (\<lambda>e.
     mk_model_event \<lparr>me_type = t, me_content = b, me_structured = obj_get d ''structured_delta'', me_tool = p, me_usage = u,
       me_response = r, me_error = e\<rparr>))))))"

definition model_event_ok :: "model_event \<Rightarrow> bool" where
  "model_event_ok e \<longleftrightarrow> mk_model_event e = Inr e \<and> pred_option (\<lambda>b. mk_content b = Inr b) (me_content e)
     \<and> pred_option proposal_ok (me_tool e) \<and> pred_option usage_ok (me_usage e) \<and> pred_option response_ok (me_response e)
     \<and> pred_option error_detail_codable (me_error e)"

lemma opt_object_decodes:
  "(\<And>x. v = Some x \<Longrightarrow> f (g x) = Inr x) \<Longrightarrow> object_or_none n f (case v of None \<Rightarrow> JNull | Some x \<Rightarrow> JObj (g x)) = Inr v"
  by (cases v) simp_all

lemma model_event_roundtrip:
  assumes ok: "model_event_ok e"
  shows "model_event_from_data L (model_event_to_data e) = Inr e"
proof -
  note parts = ok [unfolded model_event_ok_def]
  have "object_or_none n (content_from_data L) (case me_content e of None \<Rightarrow> JNull | Some b \<Rightarrow> JObj (content_to_data b)) = Inr (me_content e)"
    "object_or_none n (proposal_from_data L) (case me_tool e of None \<Rightarrow> JNull | Some p \<Rightarrow> JObj (proposal_to_data p)) = Inr (me_tool e)"
    "object_or_none n (usage_from_data L) (case me_usage e of None \<Rightarrow> JNull | Some u \<Rightarrow> JObj (usage_to_data u)) = Inr (me_usage e)"
    "object_or_none n (response_from_data L) (case me_response e of None \<Rightarrow> JNull | Some r \<Rightarrow> JObj (response_to_data r)) = Inr (me_response e)"
    "object_or_none n (error_detail_from_data L) (case me_error e of None \<Rightarrow> JNull | Some d \<Rightarrow> JObj (error_detail_to_data d)) = Inr (me_error e)" for n
    using parts by (intro opt_object_decodes; simp add: content_roundtrip proposal_roundtrip usage_roundtrip response_roundtrip error_detail_roundtrip)+
  with parts show ?thesis
    by (cases e) (simp add: model_event_from_data_def model_event_to_data_def del: model_event_type_value.simps)
qed

subsection \<open>Capabilities of a model\<close>

record model_capabilities =
  mc_selector :: model_selector
  mc_operations :: "model_operation set"
  mc_structured :: bool
  mc_tool_calls :: bool
  mc_inputs :: "content_kind set"
  mc_outputs :: "content_kind set"
  mc_maximum :: model_budget
  mc_usage_reporting :: bool
  mc_contract :: string

definition mk_model_capabilities :: "model_capabilities \<Rightarrow> model_capabilities result" where
  "mk_model_capabilities c =
     (if mc_contract c = [] then Inl (ValueError ''model provider contract version is required'') else Inr c)"

definition satisfies :: "model_capabilities \<Rightarrow> model_requirements \<Rightarrow> bool" where
  "satisfies c r \<longleftrightarrow> OP_GENERATE \<in> mc_operations c \<and> (\<not> rq_streaming r \<or> OP_STREAM \<in> mc_operations c)
     \<and> (\<not> rq_structured r \<or> mc_structured c) \<and> (\<not> rq_tool_calls r \<or> mc_tool_calls c)
     \<and> rq_inputs r \<subseteq> mc_inputs c \<and> rq_outputs r \<subseteq> mc_outputs c"

definition operations_to_data :: "model_operation set \<Rightarrow> json" where
  "operations_to_data K = JList (List.map JStr (sort (List.map model_operation_value (filter (\<lambda>k. k \<in> K) [OP_GENERATE, OP_STREAM]))))"

definition operations_at :: "pylib \<Rightarrow> json_object \<Rightarrow> string \<Rightarrow> string \<Rightarrow> model_operation set result" where
  "operations_at L d k fname = rbind (array_at d k fname) (\<lambda>xs.
     rbind (rmap (\<lambda>v. enum_of L ''ModelOperation'' model_operations (py_str L v)) xs) (\<lambda>ks. Inr (set ks)))"

definition model_capabilities_to_data :: "model_capabilities \<Rightarrow> json_object" where
  "model_capabilities_to_data c = [(''selector'', JObj (selector_to_data (mc_selector c))),
     (''operations'', operations_to_data (mc_operations c)), (''structured_output'', JBool (mc_structured c)),
     (''tool_calls'', JBool (mc_tool_calls c)), (''input_kinds'', kinds_to_data (mc_inputs c)),
     (''output_kinds'', kinds_to_data (mc_outputs c)), (''maximum_budget'', JObj (budget_to_data (mc_maximum c))),
     (''usage_reporting'', JBool (mc_usage_reporting c)), (''contract_version'', JStr (mc_contract c))]"

definition model_capabilities_from_data :: "pylib \<Rightarrow> json_object \<Rightarrow> model_capabilities result" where
  "model_capabilities_from_data L d =
     rbind (rbind (object_at d ''selector'' ''model selector'') (selector_from_data L)) (\<lambda>s.
     rbind (operations_at L d ''operations'' ''model operations'') (\<lambda>ops.
     rbind (truth_at d ''structured_output'') (\<lambda>st.
     rbind (truth_at d ''tool_calls'') (\<lambda>t.
     rbind (kinds_at L d ''input_kinds'' ''model input kinds'') (\<lambda>ki.
     rbind (kinds_at L d ''output_kinds'' ''model output kinds'') (\<lambda>ko.
     rbind (rbind (object_at d ''maximum_budget'' ''maximum model budget'') budget_from_data) (\<lambda>b.
     rbind (truth_at d ''usage_reporting'') (\<lambda>u.
     rbind (field_str L d ''contract_version'') (\<lambda>v.
     mk_model_capabilities \<lparr>mc_selector = s, mc_operations = ops, mc_structured = st, mc_tool_calls = t, mc_inputs = ki,
       mc_outputs = ko, mc_maximum = b, mc_usage_reporting = u, mc_contract = v\<rparr>)))))))))"

lemma operations_decode: "obj_index d k = Inr (operations_to_data K) \<Longrightarrow> operations_at L d k n = Inr K"
proof -
  assume d: "obj_index d k = Inr (operations_to_data K)"
  have two: "K = {x. x = OP_GENERATE \<and> OP_GENERATE \<in> K \<or> x = OP_STREAM \<and> OP_STREAM \<in> K}"
    by (rule set_eqI) (case_tac x; simp)
  have gs: "''generate'' \<le> ''stream''" "\<not> ''stream'' \<le> ''generate''" by code_simp+
  have "enum_of L c model_operations ''generate'' = Inr OP_GENERATE" "enum_of L c model_operations ''stream'' = Inr OP_STREAM" for c
    by (simp_all add: enum_of_def model_operations_def)
  then show ?thesis
    using d two gs by (cases "OP_GENERATE \<in> K"; cases "OP_STREAM \<in> K")
      (auto simp: operations_at_def array_at_def operations_to_data_def)
qed

definition model_capabilities_ok :: "model_capabilities \<Rightarrow> bool" where
  "model_capabilities_ok c \<longleftrightarrow> selector_ok (mc_selector c) \<and> budget_ok (mc_maximum c) \<and> mc_contract c \<noteq> []"

lemma model_capabilities_roundtrip:
  assumes ok: "model_capabilities_ok c"
  shows "model_capabilities_from_data L (model_capabilities_to_data c) = Inr c"
proof -
  let ?d = "model_capabilities_to_data c"
  have "kinds_at L ?d ''input_kinds'' n = Inr (mc_inputs c)" "kinds_at L ?d ''output_kinds'' n = Inr (mc_outputs c)"
    "operations_at L ?d ''operations'' n = Inr (mc_operations c)" for n
    by (simp_all add: kinds_decode operations_decode model_capabilities_to_data_def)
  with ok show ?thesis unfolding model_capabilities_from_data_def
    by (cases c) (simp add: model_capabilities_to_data_def model_capabilities_ok_def selector_roundtrip budget_roundtrip
        mk_model_capabilities_def)
qed

end
