(* ===== verification/Context_Model.thy ===== *)
theory Context_Model
  imports Model_Contract Value_Schema Runtime_Context
begin

section \<open>The contracts of context providers\<close>

text \<open>
  The records of \<open>provider/context.py\<close>: keys, budgets, requirements, the entries a provider
  returns, its result, the resolved context, the capabilities of a provider and the binding by which
  an Agent names its providers, with their constructor checks and encodings.
\<close>

record context_key =
  ky_namespace :: string
  ky_name :: string

definition mk_context_key :: "string \<Rightarrow> string \<Rightarrow> context_key result" where
  "mk_context_key n m =
     (if \<not> name_pattern n then Inl (ValueError ''context key namespace is invalid'')
      else if \<not> name_pattern m then Inl (ValueError ''context key name is invalid'')
      else Inr \<lparr>ky_namespace = n, ky_name = m\<rparr>)"

definition context_wire_name :: "context_key \<Rightarrow> string" where
  "context_wire_name k = ky_namespace k @ '':'' @ ky_name k"

definition context_key_to_data :: "context_key \<Rightarrow> json_object" where
  "context_key_to_data k = [(''namespace'', JStr (ky_namespace k)), (''name'', JStr (ky_name k))]"

definition context_key_from_data :: "pylib \<Rightarrow> json_object \<Rightarrow> context_key result" where
  "context_key_from_data L d =
     rbind (field_str L d ''namespace'') (\<lambda>n. rbind (field_str L d ''name'') (\<lambda>m. mk_context_key n m))"

definition context_key_ok :: "context_key \<Rightarrow> bool" where
  "context_key_ok k \<longleftrightarrow> name_pattern (ky_namespace k) \<and> name_pattern (ky_name k)"

lemma context_key_roundtrip: "context_key_ok k \<Longrightarrow> context_key_from_data L (context_key_to_data k) = Inr k"
  by (simp add: context_key_from_data_def context_key_to_data_def context_key_ok_def mk_context_key_def)

lemma context_keys_decode: "list_all context_key_ok ks \<Longrightarrow>
    objects n (context_key_from_data L) (List.map (\<lambda>k. JObj (context_key_to_data k)) ks) = Inr ks"
  by (rule objects_inverse) (simp add: context_key_roundtrip list_all_iff)

text \<open>The namespace has no colon, so keys are told apart by their wire names.\<close>

lemma context_wire_name_inject:
  assumes "context_key_ok a" "context_key_ok b"
  shows "context_wire_name a = context_wire_name b \<longleftrightarrow> a = b"
proof
  assume eq: "context_wire_name a = context_wire_name b"
  have plain: "CHR '':'' \<notin> set (ky_namespace k)" if "context_key_ok k" for k
    using that by (auto simp: context_key_ok_def name_pattern_def list_all_iff is_lower_def is_digit_def less_eq_char_def split: list.splits)
  have "takeWhile (\<lambda>c. c \<noteq> CHR '':'') (context_wire_name k) = ky_namespace k" if "context_key_ok k" for k
    using plain [OF that] unfolding context_wire_name_def by (subst takeWhile_append2) auto
  with assms eq have "ky_namespace a = ky_namespace b" by metis
  with eq show "a = b" by (cases a; cases b) (simp add: context_wire_name_def)
qed simp

subsection \<open>Enumerations\<close>

datatype completeness = COMPLETE | PARTIAL

fun completeness_value :: "completeness \<Rightarrow> string" where
  "completeness_value COMPLETE = ''complete''"
| "completeness_value PARTIAL = ''partial''"

definition completenesses :: "(string \<times> completeness) list" where
  "completenesses = List.map (\<lambda>x. (completeness_value x, x)) [COMPLETE, PARTIAL]"

datatype completeness_policy = REQUIRE_COMPLETE | ALLOW_PARTIAL

fun completeness_policy_value :: "completeness_policy \<Rightarrow> string" where
  "completeness_policy_value REQUIRE_COMPLETE = ''require_complete''"
| "completeness_policy_value ALLOW_PARTIAL = ''allow_partial''"

definition completeness_policies :: "(string \<times> completeness_policy) list" where
  "completeness_policies = List.map (\<lambda>x. (completeness_policy_value x, x)) [REQUIRE_COMPLETE, ALLOW_PARTIAL]"

datatype merge_strategy = SINGLE_PROVIDER | FIRST_SUCCESS | MERGE_VALUES | ALL_VALUES

fun merge_strategy_value :: "merge_strategy \<Rightarrow> string" where
  "merge_strategy_value SINGLE_PROVIDER = ''single''"
| "merge_strategy_value FIRST_SUCCESS = ''first_success''"
| "merge_strategy_value MERGE_VALUES = ''merge''"
| "merge_strategy_value ALL_VALUES = ''all''"

definition merge_strategies :: "(string \<times> merge_strategy) list" where
  "merge_strategies = List.map (\<lambda>x. (merge_strategy_value x, x)) [SINGLE_PROVIDER, FIRST_SUCCESS, MERGE_VALUES, ALL_VALUES]"

lemma completeness_decodes [simp]: "enum_of L cls completenesses (completeness_value x) = Inr x"
  by (cases x) (simp_all add: enum_of_def completenesses_def)

lemma completeness_policy_decodes [simp]: "enum_of L cls completeness_policies (completeness_policy_value x) = Inr x"
  by (cases x) (simp_all add: enum_of_def completeness_policies_def)

lemma merge_strategy_decodes [simp]: "enum_of L cls merge_strategies (merge_strategy_value x) = Inr x"
  by (cases x) (simp_all add: enum_of_def merge_strategies_def)

subsection \<open>Budgets and usage\<close>

record context_budget =
  cl_bytes :: "int option"
  cl_tokens :: "int option"

definition mk_context_budget :: "int option \<Rightarrow> int option \<Rightarrow> context_budget result" where
  "mk_context_budget b t =
     (if \<not> limit_ok b then Inl (ValueError ''context max_bytes must be positive'')
      else if \<not> limit_ok t then Inl (ValueError ''context max_tokens must be positive'')
      else Inr \<lparr>cl_bytes = b, cl_tokens = t\<rparr>)"

definition context_budget_to_data :: "context_budget \<Rightarrow> json_object" where
  "context_budget_to_data b = [(''max_bytes'', opt_int (cl_bytes b)), (''max_tokens'', opt_int (cl_tokens b))]"

definition context_budget_from_data :: "json_object \<Rightarrow> context_budget result" where
  "context_budget_from_data d =
     rbind (int_or_none (obj_get d ''max_bytes'') ''max_bytes'') (\<lambda>b.
     rbind (int_or_none (obj_get d ''max_tokens'') ''max_tokens'') (\<lambda>t. mk_context_budget b t))"

definition context_budget_ok :: "context_budget \<Rightarrow> bool" where
  "context_budget_ok b \<longleftrightarrow> limit_ok (cl_bytes b) \<and> limit_ok (cl_tokens b)"

lemma context_budget_roundtrip: "context_budget_ok b \<Longrightarrow> context_budget_from_data (context_budget_to_data b) = Inr b"
  by (cases b) (simp add: context_budget_from_data_def context_budget_to_data_def context_budget_ok_def mk_context_budget_def)

record context_usage =
  cg_bytes :: int
  cg_tokens :: "int option"

definition mk_context_usage :: "int \<Rightarrow> int option \<Rightarrow> context_usage result" where
  "mk_context_usage b t =
     (if b < 0 \<or> (case t of None \<Rightarrow> False | Some n \<Rightarrow> n < 0) then Inl (ValueError ''context usage cannot be negative'')
      else Inr \<lparr>cg_bytes = b, cg_tokens = t\<rparr>)"

definition context_usage_to_data :: "context_usage \<Rightarrow> json_object" where
  "context_usage_to_data u = [(''byte_count'', JInt (cg_bytes u)), (''token_count'', opt_int (cg_tokens u))]"

definition context_usage_from_data :: "json_object \<Rightarrow> context_usage result" where
  "context_usage_from_data d =
     rbind (int_at d ''byte_count'' ''byte_count'') (\<lambda>b.
     rbind (int_or_none (obj_get d ''token_count'') ''token_count'') (\<lambda>t. mk_context_usage b t))"

definition context_usage_ok :: "context_usage \<Rightarrow> bool" where
  "context_usage_ok u \<longleftrightarrow> mk_context_usage (cg_bytes u) (cg_tokens u) = Inr u"

lemma context_usage_roundtrip: "context_usage_ok u \<Longrightarrow> context_usage_from_data (context_usage_to_data u) = Inr u"
  by (cases u) (simp add: context_usage_from_data_def context_usage_to_data_def context_usage_ok_def)

subsection \<open>Requirements, entries and warnings\<close>

record context_requirement =
  cq_key :: context_key
  cq_schema :: schema_ref

definition requirement_to_data :: "context_requirement \<Rightarrow> json_object" where
  "requirement_to_data r = [(''key'', JObj (context_key_to_data (cq_key r))), (''schema'', JObj (schema_to_data (cq_schema r)))]"

definition requirement_from_data :: "pylib \<Rightarrow> json_object \<Rightarrow> context_requirement result" where
  "requirement_from_data L d =
     rbind (rbind (object_at d ''key'' ''context key'') (context_key_from_data L)) (\<lambda>k.
     rbind (rbind (object_at d ''schema'' ''context schema'') (schema_from_data L)) (\<lambda>s.
     Inr \<lparr>cq_key = k, cq_schema = s\<rparr>))"

definition requirement_ok :: "context_requirement \<Rightarrow> bool" where
  "requirement_ok r \<longleftrightarrow> context_key_ok (cq_key r) \<and> schema_ok (cq_schema r)"

lemma requirement_roundtrip: "requirement_ok r \<Longrightarrow> requirement_from_data L (requirement_to_data r) = Inr r"
  by (cases r) (simp add: requirement_from_data_def requirement_to_data_def requirement_ok_def context_key_roundtrip schema_roundtrip)

lemma requirements_decode: "list_all requirement_ok rs \<Longrightarrow>
    objects n (requirement_from_data L) (List.map (\<lambda>r. JObj (requirement_to_data r)) rs) = Inr rs"
  by (rule objects_inverse) (simp add: requirement_roundtrip list_all_iff)

record context_entry =
  en_key :: context_key
  en_schema :: schema_ref
  en_value :: json
  en_provenance :: "string list"
  en_fresh_at :: "datetime option"
  en_expires_at :: "datetime option"

definition mk_entry :: "context_entry \<Rightarrow> context_entry result" where
  "mk_entry e =
     (if en_provenance e = [] \<or> \<not> list_all trimmed (en_provenance e)
      then Inl (ValueError ''context entry requires trimmed provenance references'')
      else if (case (en_fresh_at e, en_expires_at e) of (Some f, Some x) \<Rightarrow> x \<le> f | _ \<Rightarrow> False)
      then Inl (ValueError ''context expiration must be after freshness time'') else Inr e)"

definition entry_to_data :: "context_entry \<Rightarrow> json_object" where
  "entry_to_data e = [(''key'', JObj (context_key_to_data (en_key e))), (''schema'', JObj (schema_to_data (en_schema e))),
     (''value'', en_value e), (''provenance'', JList (List.map JStr (en_provenance e))),
     (''fresh_at'', date_json (en_fresh_at e)), (''expires_at'', date_json (en_expires_at e))]"

definition entry_from_data :: "pylib \<Rightarrow> json_object \<Rightarrow> context_entry result" where
  "entry_from_data L d =
     rbind (rbind (object_at d ''key'' ''context key'') (context_key_from_data L)) (\<lambda>k.
     rbind (rbind (object_at d ''schema'' ''context schema'') (schema_from_data L)) (\<lambda>s.
     rbind (texts_at L d ''provenance'' ''context provenance'') (\<lambda>ps.
     rbind (field_opt L d ''fresh_at'' (py_fromiso L)) (\<lambda>f.
     rbind (field_opt L d ''expires_at'' (py_fromiso L)) (\<lambda>x.
     mk_entry \<lparr>en_key = k, en_schema = s, en_value = obj_get d ''value'', en_provenance = ps, en_fresh_at = f,
       en_expires_at = x\<rparr>)))))"

definition entry_ok :: "context_entry \<Rightarrow> bool" where
  "entry_ok e \<longleftrightarrow> mk_entry e = Inr e \<and> context_key_ok (en_key e) \<and> schema_ok (en_schema e)
     \<and> date_ok (en_fresh_at e) \<and> date_ok (en_expires_at e)"

lemma entry_roundtrip:
  assumes L: "iso_inverse L" and ok: "entry_ok e"
  shows "entry_from_data L (entry_to_data e) = Inr e"
proof -
  have "decode_value L (py_fromiso L) (date_json (en_fresh_at e)) = Inr (en_fresh_at e)"
    "decode_value L (py_fromiso L) (date_json (en_expires_at e)) = Inr (en_expires_at e)"
    using L ok by (auto simp: entry_ok_def intro: decode_date)
  with ok show ?thesis
    by (cases e) (simp add: entry_from_data_def entry_to_data_def entry_ok_def context_key_roundtrip schema_roundtrip comp_def)
qed

lemma entries_decode: "iso_inverse L \<Longrightarrow> list_all entry_ok es \<Longrightarrow>
    objects n (entry_from_data L) (List.map (\<lambda>e. JObj (entry_to_data e)) es) = Inr es"
  by (rule objects_inverse) (simp add: entry_roundtrip list_all_iff)

record context_warning =
  cw_code :: string
  cw_message :: string
  cw_key :: "context_key option"

definition mk_warning :: "context_warning \<Rightarrow> context_warning result" where
  "mk_warning w = (if cw_code w = [] \<or> cw_message w = []
     then Inl (ValueError ''context warning code and message are required'') else Inr w)"

definition warning_to_data :: "context_warning \<Rightarrow> json_object" where
  "warning_to_data w = [(''code'', JStr (cw_code w)), (''message'', JStr (cw_message w)),
     (''key'', case cw_key w of None \<Rightarrow> JNull | Some k \<Rightarrow> JObj (context_key_to_data k))]"

definition warning_from_data :: "pylib \<Rightarrow> json_object \<Rightarrow> context_warning result" where
  "warning_from_data L d =
     rbind (field_str L d ''code'') (\<lambda>c. rbind (field_str L d ''message'') (\<lambda>m.
     rbind (object_or_none ''context warning key'' (context_key_from_data L) (obj_get d ''key'')) (\<lambda>k.
     mk_warning \<lparr>cw_code = c, cw_message = m, cw_key = k\<rparr>)))"

definition warning_ok :: "context_warning \<Rightarrow> bool" where
  "warning_ok w \<longleftrightarrow> mk_warning w = Inr w \<and> pred_option context_key_ok (cw_key w)"

lemma warning_roundtrip:
  assumes ok: "warning_ok w"
  shows "warning_from_data L (warning_to_data w) = Inr w"
proof -
  have "object_or_none n (context_key_from_data L) (case cw_key w of None \<Rightarrow> JNull | Some k \<Rightarrow> JObj (context_key_to_data k))
      = Inr (cw_key w)" for n
    using ok by (intro opt_object_decodes) (simp add: warning_ok_def context_key_roundtrip)
  with ok show ?thesis by (cases w) (simp add: warning_from_data_def warning_to_data_def warning_ok_def)
qed

lemma warnings_decode: "list_all warning_ok ws \<Longrightarrow>
    objects n (warning_from_data L) (List.map (\<lambda>w. JObj (warning_to_data w)) ws) = Inr ws"
  by (rule objects_inverse) (simp add: warning_roundtrip list_all_iff)

subsection \<open>Requests and results\<close>

record context_request =
  xq_definition_id :: definition_id
  xq_context :: call_context
  xq_requirements :: "context_requirement list"
  xq_policy :: completeness_policy
  xq_budget :: context_budget

definition keys_of :: "context_requirement list \<Rightarrow> context_key list" where
  "keys_of rs = List.map cq_key rs"

definition mk_context_request :: "context_request \<Rightarrow> context_request result" where
  "mk_context_request q =
     (if xq_requirements q = [] \<or> \<not> distinct (keys_of (xq_requirements q))
      then Inl (ValueError ''context requirements must be non-empty and unique'') else Inr q)"

record context_result =
  xr_provider :: provider_id
  xr_contract :: string
  xr_entries :: "context_entry list"
  xr_completeness :: completeness
  xr_missing :: "context_key list"
  xr_warnings :: "context_warning list"
  xr_usage :: context_usage

definition mk_context_result :: "context_result \<Rightarrow> context_result result" where
  "mk_context_result r =
     (if xr_contract r = [] then Inl (ValueError ''context provider contract version is required'')
      else if xr_completeness r = COMPLETE \<and> xr_missing r \<noteq> []
      then Inl (ValueError ''complete context cannot report missing keys'')
      else if xr_completeness r = PARTIAL \<and> xr_missing r = []
      then Inl (ValueError ''partial context must report missing keys'') else Inr r)"

definition context_result_to_data :: "context_result \<Rightarrow> json_object" where
  "context_result_to_data r = [(''provider_id'', JStr (xr_provider r)), (''contract_version'', JStr (xr_contract r)),
     (''entries'', JList (List.map (\<lambda>e. JObj (entry_to_data e)) (xr_entries r))),
     (''completeness'', JStr (completeness_value (xr_completeness r))),
     (''missing_keys'', JList (List.map (\<lambda>k. JObj (context_key_to_data k)) (xr_missing r))),
     (''warnings'', JList (List.map (\<lambda>w. JObj (warning_to_data w)) (xr_warnings r))),
     (''usage'', JObj (context_usage_to_data (xr_usage r)))]"

definition context_result_from_data :: "pylib \<Rightarrow> json_object \<Rightarrow> context_result result" where
  "context_result_from_data L d =
     rbind (ident_at L d ''provider_id'') (\<lambda>p.
     rbind (field_str L d ''contract_version'') (\<lambda>v.
     rbind (rbind (array_at d ''entries'' ''context entries'') (objects ''context entry'' (entry_from_data L))) (\<lambda>es.
     rbind (rbind (field_str L d ''completeness'') (enum_of L ''ContextCompleteness'' completenesses)) (\<lambda>c.
     rbind (rbind (array_at d ''missing_keys'' ''context missing keys'') (objects ''context missing key'' (context_key_from_data L))) (\<lambda>ms.
     rbind (rbind (array_at d ''warnings'' ''context warnings'') (objects ''context warning'' (warning_from_data L))) (\<lambda>ws.
     rbind (rbind (object_at d ''usage'' ''context usage'') context_usage_from_data) (\<lambda>u.
     mk_context_result \<lparr>xr_provider = p, xr_contract = v, xr_entries = es, xr_completeness = c, xr_missing = ms,
       xr_warnings = ws, xr_usage = u\<rparr>)))))))"

definition context_result_ok :: "context_result \<Rightarrow> bool" where
  "context_result_ok r \<longleftrightarrow> mk_context_result r = Inr r \<and> identifier_ok (xr_provider r) \<and> list_all entry_ok (xr_entries r)
     \<and> list_all context_key_ok (xr_missing r) \<and> list_all warning_ok (xr_warnings r) \<and> context_usage_ok (xr_usage r)"

lemma context_result_roundtrip:
  "iso_inverse L \<Longrightarrow> context_result_ok r \<Longrightarrow> context_result_from_data L (context_result_to_data r) = Inr r"
  by (cases r) (simp add: context_result_from_data_def context_result_to_data_def context_result_ok_def entries_decode
      context_keys_decode warnings_decode context_usage_roundtrip del: completeness_value.simps)

record resolved_context =
  rx_entries :: "context_entry list"
  rx_completeness :: completeness
  rx_missing :: "context_key list"
  rx_warnings :: "context_warning list"
  rx_providers :: "provider_id list"
  rx_usage :: context_usage

definition mk_resolved :: "resolved_context \<Rightarrow> resolved_context result" where
  "mk_resolved r =
     (if rx_providers r = [] then Inl (ValueError ''resolved context requires at least one provider'')
      else if rx_completeness r = COMPLETE \<and> rx_missing r \<noteq> []
      then Inl (ValueError ''complete resolved context cannot report missing keys'')
      else if rx_completeness r = PARTIAL \<and> rx_missing r = []
      then Inl (ValueError ''partial resolved context must report missing keys'') else Inr r)"

subsection \<open>Capabilities\<close>

record scope_pattern =
  sp_namespace :: string
  sp_kind :: string

definition pattern_matches :: "scope_pattern \<Rightarrow> call_context \<Rightarrow> bool" where
  "pattern_matches p ctx \<longleftrightarrow> sc_namespace (cx_scope ctx) = sp_namespace p \<and> sc_kind (cx_scope ctx) = sp_kind p"

record context_capabilities =
  xc_provider :: provider_id
  xc_contract :: string
  xc_supported :: "context_requirement list"
  xc_partial :: bool
  xc_maximum :: context_budget
  xc_patterns :: "scope_pattern list"

definition limit_exceeds :: "int option \<Rightarrow> int option \<Rightarrow> bool" where
  "limit_exceeds asked limit \<longleftrightarrow> (case (asked, limit) of (Some a, Some m) \<Rightarrow> m < a | _ \<Rightarrow> False)"

definition context_supports :: "context_capabilities \<Rightarrow> context_requirement \<Rightarrow> context_request \<Rightarrow> bool" where
  "context_supports c r q \<longleftrightarrow> r \<in> set (xc_supported c)
     \<and> (xc_patterns c = [] \<or> list_ex (\<lambda>p. pattern_matches p (xq_context q)) (xc_patterns c))
     \<and> \<not> limit_exceeds (cl_bytes (xq_budget q)) (cl_bytes (xc_maximum c))
     \<and> \<not> limit_exceeds (cl_tokens (xq_budget q)) (cl_tokens (xc_maximum c))"

definition pattern_to_data :: "scope_pattern \<Rightarrow> json_object" where
  "pattern_to_data p = [(''namespace'', JStr (sp_namespace p)), (''kind'', JStr (sp_kind p))]"

definition pattern_from_data :: "pylib \<Rightarrow> json_object \<Rightarrow> scope_pattern result" where
  "pattern_from_data L d = rbind (field_str L d ''namespace'') (\<lambda>n. rbind (field_str L d ''kind'') (\<lambda>k.
     Inr \<lparr>sp_namespace = n, sp_kind = k\<rparr>))"

definition context_capabilities_to_data :: "context_capabilities \<Rightarrow> json_object" where
  "context_capabilities_to_data c = [(''provider_id'', JStr (xc_provider c)), (''contract_version'', JStr (xc_contract c)),
     (''supported'', JList (List.map (\<lambda>r. JObj (requirement_to_data r)) (xc_supported c))),
     (''supports_partial'', JBool (xc_partial c)), (''maximum_budget'', JObj (context_budget_to_data (xc_maximum c))),
     (''scope_patterns'', JList (List.map (\<lambda>p. JObj (pattern_to_data p)) (xc_patterns c)))]"

definition context_capabilities_from_data :: "pylib \<Rightarrow> json_object \<Rightarrow> context_capabilities result" where
  "context_capabilities_from_data L d =
     rbind (ident_at L d ''provider_id'') (\<lambda>p.
     rbind (field_str L d ''contract_version'') (\<lambda>v.
     rbind (rbind (array_at d ''supported'' ''supported context'') (objects ''context requirement'' (requirement_from_data L))) (\<lambda>rs.
     rbind (truth_at d ''supports_partial'') (\<lambda>t.
     rbind (rbind (object_at d ''maximum_budget'' ''maximum context budget'') context_budget_from_data) (\<lambda>b.
     rbind (rbind (array_at d ''scope_patterns'' ''context scope patterns'')
       (objects ''context scope pattern'' (pattern_from_data L))) (\<lambda>ps.
     Inr \<lparr>xc_provider = p, xc_contract = v, xc_supported = rs, xc_partial = t, xc_maximum = b, xc_patterns = ps\<rparr>))))))"

definition context_capabilities_ok :: "context_capabilities \<Rightarrow> bool" where
  "context_capabilities_ok c \<longleftrightarrow> identifier_ok (xc_provider c) \<and> list_all requirement_ok (xc_supported c)
     \<and> context_budget_ok (xc_maximum c)"

lemma patterns_decode:
  "objects n (pattern_from_data L) (List.map (\<lambda>p. JObj (pattern_to_data p)) ps) = Inr ps"
  by (rule objects_inverse) (simp add: pattern_from_data_def pattern_to_data_def)

lemma context_capabilities_roundtrip:
  "context_capabilities_ok c \<Longrightarrow> context_capabilities_from_data L (context_capabilities_to_data c) = Inr c"
  by (cases c) (simp add: context_capabilities_from_data_def context_capabilities_to_data_def context_capabilities_ok_def
      requirements_decode context_budget_roundtrip patterns_decode)

subsection \<open>Bindings\<close>

record context_binding =
  xb_providers :: "provider_id list"
  xb_requirements :: "context_requirement list"
  xb_strategy :: merge_strategy
  xb_policy :: completeness_policy
  xb_budget :: context_budget

definition mk_context_binding :: "context_binding \<Rightarrow> context_binding result" where
  "mk_context_binding b =
     (if xb_providers b = [] \<or> \<not> distinct (xb_providers b)
      then Inl (ValueError ''context provider references must be non-empty and unique'')
      else if xb_requirements b = [] \<or> \<not> distinct (keys_of (xb_requirements b))
      then Inl (ValueError ''context binding requirements must be non-empty and unique'') else Inr b)"

definition binding_request :: "context_binding \<Rightarrow> definition_id \<Rightarrow> call_context \<Rightarrow> context_request result" where
  "binding_request b i ctx = mk_context_request \<lparr>xq_definition_id = i, xq_context = ctx,
     xq_requirements = xb_requirements b, xq_policy = xb_policy b, xq_budget = xb_budget b\<rparr>"

definition context_binding_to_data :: "context_binding \<Rightarrow> json_object" where
  "context_binding_to_data b = [(''provider_ids'', JList (List.map JStr (xb_providers b))),
     (''requirements'', JList (List.map (\<lambda>r. JObj (requirement_to_data r)) (xb_requirements b))),
     (''merge_strategy'', JStr (merge_strategy_value (xb_strategy b))),
     (''completeness_policy'', JStr (completeness_policy_value (xb_policy b))),
     (''budget'', JObj (context_budget_to_data (xb_budget b)))]"

definition context_binding_from_data :: "pylib \<Rightarrow> json_object \<Rightarrow> context_binding result" where
  "context_binding_from_data L d =
     rbind (rbind (array_at d ''provider_ids'' ''context provider ids'') (rmap (\<lambda>v. mk_identifier (py_str L v)))) (\<lambda>ps.
     rbind (rbind (array_at d ''requirements'' ''context requirements'') (objects ''context requirement'' (requirement_from_data L))) (\<lambda>rs.
     rbind (rbind (field_str L d ''merge_strategy'') (enum_of L ''ContextMergeStrategy'' merge_strategies)) (\<lambda>m.
     rbind (rbind (field_str L d ''completeness_policy'') (enum_of L ''ContextCompletenessPolicy'' completeness_policies)) (\<lambda>c.
     rbind (rbind (object_at d ''budget'' ''context budget'') context_budget_from_data) (\<lambda>g.
     mk_context_binding \<lparr>xb_providers = ps, xb_requirements = rs, xb_strategy = m, xb_policy = c, xb_budget = g\<rparr>)))))"

definition context_binding_ok :: "context_binding \<Rightarrow> bool" where
  "context_binding_ok b \<longleftrightarrow> mk_context_binding b = Inr b \<and> list_all identifier_ok (xb_providers b)
     \<and> list_all requirement_ok (xb_requirements b) \<and> context_budget_ok (xb_budget b)"

lemma context_binding_roundtrip:
  assumes ok: "context_binding_ok b"
  shows "context_binding_from_data L (context_binding_to_data b) = Inr b"
proof -
  have "rmap (\<lambda>v. mk_identifier (py_str L v)) (List.map JStr (xb_providers b)) = Inr (xb_providers b)"
    unfolding rmap_map using ok by (intro rmap_inverse) (simp add: context_binding_ok_def list_all_iff)
  with ok show ?thesis
    by (cases b) (simp add: context_binding_from_data_def context_binding_to_data_def context_binding_ok_def
        requirements_decode context_budget_roundtrip del: merge_strategy_value.simps completeness_policy_value.simps)
qed

lemma binding_request_Inr:
  "binding_request b i ctx = Inr q \<Longrightarrow> xq_requirements q = xb_requirements b \<and> xq_context q = ctx \<and> xq_budget q = xb_budget b
    \<and> xq_policy q = xb_policy b"
  by (auto simp: binding_request_def mk_context_request_def split: if_splits)

end
