(* ===== verification/Agent_Spec.thy ===== *)
theory Agent_Spec
  imports Model_Contract Checkpoint_Record Context_Model Value_Schema Runtime_Errors
begin

section \<open>Results of Agent executions\<close>

text \<open>
  The data of \<open>harness/agent.py\<close>: results of executions, and below the specifications of Agents with
  their checks, their encoding and their registry.
  \<open>AgentExecutionResult\<close> of \<open>harness/agent.py\<close>: the final or paused AgentRun with a response or an
  error, never both.
\<close>

record agent_result =
  ag_run :: run
  ag_response :: "model_response option"
  ag_error :: "error_detail option"

definition mk_agent_result :: "agent_result \<Rightarrow> agent_result result" where
  "mk_agent_result x =
     (if r_status (ag_run x) = SUCCEEDED
      then if ag_response x = None \<or> ag_error x \<noteq> None
        then Inl (ValueError ''successful Agent execution requires only a response'') else Inr x
      else if r_status (ag_run x) \<in> {FAILED, CANCELLED, PAUSED}
      then if ag_response x \<noteq> None \<or> ag_error x = None
        then Inl (ValueError ''unsuccessful Agent execution requires only an error'') else Inr x
      else Inl (ValueError ''Agent execution result requires a final or paused Run''))"

definition agent_result_to_data :: "agent_result \<Rightarrow> json_object" where
  "agent_result_to_data x = [(''run'', JObj (run_to_data (ag_run x))),
     (''response'', case ag_response x of None \<Rightarrow> JNull | Some r \<Rightarrow> JObj (response_to_data r)),
     (''error'', case ag_error x of None \<Rightarrow> JNull | Some e \<Rightarrow> JObj (error_detail_to_data e))]"

definition agent_result_from_data :: "pylib \<Rightarrow> json_object \<Rightarrow> agent_result result" where
  "agent_result_from_data L d =
     rbind (rbind (object_at d ''run'' ''Agent Run'') (run_from_data L)) (\<lambda>r.
     rbind (raise_when (is_workflow r) (ValueError ''Agent execution result requires an AgentRun'')) (\<lambda>_.
     rbind (object_or_none ''Model response'' (response_from_data L) (obj_get d ''response'')) (\<lambda>resp.
     rbind (object_or_none ''Agent error'' (error_detail_from_data L) (obj_get d ''error'')) (\<lambda>e.
     mk_agent_result \<lparr>ag_run = r, ag_response = resp, ag_error = e\<rparr>))))"

definition agent_result_ok :: "agent_result \<Rightarrow> bool" where
  "agent_result_ok x \<longleftrightarrow> mk_agent_result x = Inr x \<and> run_codable (ag_run x) \<and> \<not> is_workflow (ag_run x)
     \<and> pred_option response_ok (ag_response x) \<and> pred_option error_detail_codable (ag_error x)"

lemma agent_result_roundtrip:
  assumes L: "iso_inverse L" and ok: "agent_result_ok x"
  shows "agent_result_from_data L (agent_result_to_data x) = Inr x"
proof -
  note parts = ok [unfolded agent_result_ok_def]
  have "object_or_none n (response_from_data L) (case ag_response x of None \<Rightarrow> JNull | Some r \<Rightarrow> JObj (response_to_data r)) = Inr (ag_response x)"
    "object_or_none n (error_detail_from_data L) (case ag_error x of None \<Rightarrow> JNull | Some d \<Rightarrow> JObj (error_detail_to_data d)) = Inr (ag_error x)" for n
    using parts by (intro opt_object_decodes; simp add: response_roundtrip error_detail_roundtrip)+
  with parts run_roundtrip [OF L, of "ag_run x"] show ?thesis
    by (cases x) (simp add: agent_result_from_data_def agent_result_to_data_def)
qed

section \<open>Agent specifications\<close>

text \<open>
  \<open>AgentSpec\<close> and \<open>AgentRegistry\<close> of \<open>harness/agent.py\<close>. A reference to a Skill or a Tool is
  versioned, or a plain resource in the first version of the contract.
\<close>

datatype spec_ref = Versioned capability_ref | Plain resource_ref

fun spec_ref_key :: "spec_ref \<Rightarrow> string \<times> string \<times> string" where
  "spec_ref_key (Versioned c) = capability_key_of c"
| "spec_ref_key (Plain r) = resource_key r"

fun spec_ref_kind :: "spec_ref \<Rightarrow> string" where
  "spec_ref_kind (Versioned c) = cp_kind c"
| "spec_ref_kind (Plain r) = rs_kind r"

fun is_versioned :: "spec_ref \<Rightarrow> bool" where
  "is_versioned (Versioned c) = True"
| "is_versioned (Plain r) = False"

record agent_spec =
  ax_agent_id :: agent_id
  ax_definition_id :: definition_id
  ax_instructions :: "content_block list"
  ax_context :: context_binding
  ax_model :: model_binding
  ax_skills :: "spec_ref list"
  ax_tools :: "spec_ref list"
  ax_policy :: "resource_ref option"
  ax_contract :: string

definition mk_agent_spec :: "agent_spec \<Rightarrow> agent_spec result" where
  "mk_agent_spec a =
     (if ax_contract a \<notin> {''1'', ''2''} then Inl (ValueError ''AgentSpec contract version is unsupported'')
      else if ax_instructions a = [] then Inl (ValueError ''AgentSpec instructions must not be empty'')
      else if \<not> distinct (List.map spec_ref_key (ax_skills a)) then Inl (ValueError ''AgentSpec skill references must be unique'')
      else if \<not> distinct (List.map spec_ref_key (ax_tools a)) then Inl (ValueError ''AgentSpec tool references must be unique'')
      else if list_ex (\<lambda>r. spec_ref_kind r \<noteq> ''skill'') (ax_skills a)
      then Inl (ValueError ''AgentSpec skill reference kind must be skill'')
      else if list_ex (\<lambda>r. spec_ref_kind r \<noteq> ''tool'') (ax_tools a)
      then Inl (ValueError ''AgentSpec tool reference kind must be tool'')
      else if ax_contract a = ''2'' \<and> \<not> list_all is_versioned (ax_skills a @ ax_tools a)
      then Inl (ValueError ''AgentSpec v2 requires versioned capability references'') else Inr a)"

definition spec_ref_data :: "string \<Rightarrow> spec_ref \<Rightarrow> json_object result" where
  "spec_ref_data version ref = (case ref of
       Versioned c \<Rightarrow> if version = ''1'' then rbind (capability_resource c) (\<lambda>r. Inr (resource_to_data r))
         else Inr (capability_to_data c)
     | Plain r \<Rightarrow> if version = ''1'' then Inr (resource_to_data r)
         else Inl (AssertionError ''AgentSpec v2 contains an unversioned reference''))"

definition spec_refs_data :: "string \<Rightarrow> spec_ref list \<Rightarrow> json result" where
  "spec_refs_data version refs =
     rbind (rmap (spec_ref_data version) refs) (\<lambda>ds. Inr (JList (List.map JObj ds)))"

definition agent_spec_to_data :: "agent_spec \<Rightarrow> json_object result" where
  "agent_spec_to_data a =
     rbind (spec_refs_data (ax_contract a) (ax_skills a)) (\<lambda>skills.
     rbind (spec_refs_data (ax_contract a) (ax_tools a)) (\<lambda>tools.
     let d = [(''agent_id'', JStr (ax_agent_id a)), (''definition_id'', JStr (ax_definition_id a)),
       (''instructions'', blocks_to_data (ax_instructions a)), (''skill_refs'', skills), (''tool_refs'', tools),
       (''context_binding'', JObj (context_binding_to_data (ax_context a))),
       (''policy_ref'', case ax_policy a of None \<Rightarrow> JNull | Some r \<Rightarrow> JObj (resource_to_data r)),
       (''model_binding'', JObj (binding_to_data (ax_model a)))]
     in Inr (if ax_contract a = ''2'' then (''contract_version'', JStr ''2'') # d else d)))"

definition spec_ref_from_data :: "pylib \<Rightarrow> string \<Rightarrow> json_object \<Rightarrow> spec_ref result" where
  "spec_ref_from_data L version d =
     (if version = ''2'' then rbind (capability_from_data d) (\<lambda>c. Inr (Versioned c))
      else rbind (resource_from_data L d) (\<lambda>r. Inr (Plain r)))"

definition agent_spec_fields :: "string list" where
  "agent_spec_fields = [''agent_id'', ''definition_id'', ''instructions'', ''skill_refs'', ''tool_refs'', ''context_binding'',
     ''policy_ref'', ''model_binding'']"

definition agent_spec_from_data :: "pylib \<Rightarrow> json_object \<Rightarrow> agent_spec result" where
  "agent_spec_from_data L d =
     (let version = py_str L (obj_get_or d ''contract_version'' (JStr ''1'')) in
      if \<not> same_fields d (agent_spec_fields @ (if version = ''2'' then [''contract_version''] else []))
      then Inl (ValueError ''AgentSpec fields are invalid'')
      else rbind (ident_at L d ''agent_id'') (\<lambda>i.
      rbind (ident_at L d ''definition_id'') (\<lambda>def.
      rbind (rbind (array_at d ''instructions'' ''Agent instructions'') (objects ''Agent instruction'' (content_from_data L))) (\<lambda>bs.
      rbind (rbind (array_at d ''skill_refs'' ''Skill references'') (objects ''Skill reference'' (spec_ref_from_data L version))) (\<lambda>ss.
      rbind (rbind (array_at d ''tool_refs'' ''Tool references'') (objects ''Tool reference'' (spec_ref_from_data L version))) (\<lambda>ts.
      rbind (rbind (object_at d ''context_binding'' ''Context binding'') (context_binding_from_data L)) (\<lambda>c.
      rbind (object_or_none ''Policy reference'' (resource_from_data L) (obj_get d ''policy_ref'')) (\<lambda>p.
      rbind (rbind (object_at d ''model_binding'' ''Model binding'') (binding_from_data L)) (\<lambda>m.
      mk_agent_spec \<lparr>ax_agent_id = i, ax_definition_id = def, ax_instructions = bs, ax_context = c, ax_model = m, ax_skills = ss,
        ax_tools = ts, ax_policy = p, ax_contract = version\<rparr>)))))))))"

definition versioned_spec_ref :: "spec_ref \<Rightarrow> capability_ref result" where
  "versioned_spec_ref ref = (case ref of Versioned c \<Rightarrow> Inr c | Plain r \<Rightarrow> capability_from_resource r ''1'')"

definition upgrade_v2 :: "agent_spec \<Rightarrow> agent_spec result" where
  "upgrade_v2 a =
     rbind (rmap versioned_spec_ref (ax_skills a)) (\<lambda>ss.
     rbind (rmap versioned_spec_ref (ax_tools a)) (\<lambda>ts.
     mk_agent_spec (a\<lparr>ax_skills := List.map Versioned ss, ax_tools := List.map Versioned ts, ax_contract := ''2''\<rparr>)))"

subsection \<open>The encoding is lossless\<close>

text \<open>
  A specification that survives encoding: its references have the form its version writes, so a
  versioned reference in the first version, which is written as a plain one, is left out.
\<close>

definition spec_ref_codable :: "string \<Rightarrow> spec_ref \<Rightarrow> bool" where
  "spec_ref_codable version ref = (case ref of Versioned c \<Rightarrow> version = ''2'' \<and> capability_ok c
     | Plain r \<Rightarrow> version = ''1'' \<and> resource_ok r)"

definition agent_spec_codable :: "agent_spec \<Rightarrow> bool" where
  "agent_spec_codable a \<longleftrightarrow> mk_agent_spec a = Inr a \<and> identifier_ok (ax_agent_id a) \<and> identifier_ok (ax_definition_id a)
     \<and> (\<forall>b \<in> set (ax_instructions a). mk_content b = Inr b) \<and> context_binding_ok (ax_context a) \<and> binding_ok (ax_model a)
     \<and> list_all (spec_ref_codable (ax_contract a)) (ax_skills a @ ax_tools a) \<and> pred_option resource_ok (ax_policy a)"

lemma spec_ref_encodes:
  assumes "spec_ref_codable v ref"
  shows "\<exists>d. spec_ref_data v ref = Inr d \<and> spec_ref_from_data L v d = Inr ref"
  using assms
  by (auto simp: spec_ref_codable_def spec_ref_data_def spec_ref_from_data_def capability_roundtrip resource_roundtrip
      split: spec_ref.splits)

lemma spec_refs_encode:
  assumes "list_all (spec_ref_codable v) refs"
  shows "\<exists>ds. spec_refs_data v refs = Inr (JList (List.map JObj ds)) \<and> objects n (spec_ref_from_data L v) (List.map JObj ds) = Inr refs"
proof -
  have "\<exists>ds. rmap (spec_ref_data v) refs = Inr ds \<and> rmap (spec_ref_from_data L v) ds = Inr refs"
    using assms
  proof (induction refs)
    case (Cons ref refs)
    with spec_ref_encodes [of v ref L] show ?case by fastforce
  qed simp
  then show ?thesis by (auto simp: spec_refs_data_def objects_def rmap_map)
qed

lemma agent_spec_version: "mk_agent_spec a = Inr a' \<Longrightarrow> ax_contract a = ''1'' \<or> ax_contract a = ''2''"
  by (auto simp: mk_agent_spec_def split: if_splits)

lemma agent_spec_roundtrip:
  assumes ok: "agent_spec_codable a" and d: "agent_spec_to_data a = Inr d"
  shows "agent_spec_from_data L d = Inr a"
proof -
  note parts = ok [unfolded agent_spec_codable_def]
  from parts obtain ss ts where
    ss: "spec_refs_data (ax_contract a) (ax_skills a) = Inr (JList (List.map JObj ss))"
      "objects ''Skill reference'' (spec_ref_from_data L (ax_contract a)) (List.map JObj ss) = Inr (ax_skills a)"
    and ts: "spec_refs_data (ax_contract a) (ax_tools a) = Inr (JList (List.map JObj ts))"
      "objects ''Tool reference'' (spec_ref_from_data L (ax_contract a)) (List.map JObj ts) = Inr (ax_tools a)"
    using spec_refs_encode [of "ax_contract a" "ax_skills a"] spec_refs_encode [of "ax_contract a" "ax_tools a"] by fastforce
  have p: "object_or_none n (resource_from_data L) (case ax_policy a of None \<Rightarrow> JNull | Some r \<Rightarrow> JObj (resource_to_data r))
      = Inr (ax_policy a)" for n
    using parts by (intro opt_object_decodes) (simp add: resource_roundtrip)
  note facts = ss ts p blocks_decode context_binding_roundtrip binding_roundtrip
  from agent_spec_version parts have "ax_contract a = ''1'' \<or> ax_contract a = ''2''" by blast
  then show ?thesis
  proof
    assume v: "ax_contract a = ''1''"
    with d facts parts show ?thesis
      by (cases a) (auto simp: agent_spec_to_data_def agent_spec_from_data_def Let_def same_fields_def agent_spec_fields_def
          obj_get_or_def blocks_to_data_def)
  next
    assume v: "ax_contract a = ''2''"
    with d facts parts show ?thesis
      by (cases a) (auto simp: agent_spec_to_data_def agent_spec_from_data_def Let_def same_fields_def agent_spec_fields_def
          obj_get_or_def blocks_to_data_def)
  qed
qed

subsection \<open>The registry\<close>

type_synonym agent_registry = "agent_id \<times> definition_id \<rightharpoonup> agent_spec"

definition agent_spec_key :: "agent_spec \<Rightarrow> agent_id \<times> definition_id" where
  "agent_spec_key a = (ax_agent_id a, ax_definition_id a)"

definition agent_spec_taken :: exn where
  "agent_spec_taken = core_error CONFLICT ''agent_spec_already_registered'' ''AgentSpec is already registered'' False None"

definition register_agent :: "agent_spec \<Rightarrow> agent_registry \<Rightarrow> agent_registry result" where
  "register_agent a r = (if agent_spec_key a \<in> dom r then Inl agent_spec_taken else Inr (r(agent_spec_key a \<mapsto> a)))"

definition get_agent :: "agent_registry \<Rightarrow> agent_id \<Rightarrow> definition_id \<Rightarrow> agent_spec result" where
  "get_agent r i d = (case r (i, d) of
       None \<Rightarrow> Inl (core_error UNAVAILABLE ''agent_spec_not_registered'' ''AgentSpec is not registered'' False None)
     | Some a \<Rightarrow> Inr a)"

interpretation agent_specs: once_registry register_agent "\<lambda>r k. r k" agent_spec_key "\<lambda>a. a" "\<lambda>_. agent_spec_taken"
  by unfold_locales (auto simp: register_agent_def)

end
