(* ===== verification/Workflow_Steps.thy ===== *)
theory Workflow_Steps
  imports Workflow_Persistence Workflow_Outcome Evaluation_Harness Agent_Spec Checkpoint_Approval
    Checkpoint_Recovery
begin

section \<open>The parts of the Workflow runtime\<close>

text \<open>
  The helpers of \<open>workflow/runtime.py\<close>: what a runtime is made of, the identifiers it derives, the
  checkpoints it writes, the input of a node, the ways an execution ends. \<open>states\<close> and
  \<open>output_refs\<close> are the dictionaries of the code, in insertion order. Fresh identifiers (UUIDs) and
  the clock read the world; the SHA-256 of a text, of a value and of a checkpoint are fields.
\<close>

subsection \<open>Collaborators\<close>

record 'w workflow_runs =
  sv_get :: "run_id \<Rightarrow> ('w, exn, run) action"
  sv_create :: "run \<Rightarrow> ('w, exn, run) action"
  sv_start :: "run_id \<Rightarrow> int \<Rightarrow> ('w, exn, run) action"
  sv_advance :: "run_id \<Rightarrow> int \<Rightarrow> run_status \<Rightarrow> ('w, exn, run) action"
  sv_complete :: "run_id \<Rightarrow> int \<Rightarrow> ('w, exn, run) action"
  sv_fail :: "run_id \<Rightarrow> int \<Rightarrow> error_detail \<Rightarrow> ('w, exn, run) action"
  sv_cancel :: "run_id \<Rightarrow> int \<Rightarrow> ('w, exn, run) action"

record 'w workflow_runtime =
  wk_validator :: workflow_validator
  wk_runs :: "'w workflow_runs"
  wk_agents :: "run_id \<Rightarrow> content_block list \<Rightarrow> call_context \<Rightarrow> ('w, exn, agent_result) action"
  wk_dispatcher :: "'w dispatcher"
  wk_outputs :: "'w node_outputs"
  wk_schemas :: schema_registry
  wk_checkpoints :: "'w coordinator"
  wk_gateway :: "'w gateway"
  wk_provider :: provider_id
  wk_recovery :: "'w recovery"
  wk_approvals :: "'w approvals"
  wk_evaluations :: "'w harness option"
  wk_clock :: "'w \<Rightarrow> datetime"
  wk_fresh :: "'w \<Rightarrow> string \<times> 'w"
  wk_digest :: "json_object \<Rightarrow> string"
  wk_text_digest :: "string \<Rightarrow> string"
  wk_value_digest :: "json \<Rightarrow> string"
  wk_pylib :: pylib

type_synonym node_states = "(node_id \<times> node_state) list"

type_synonym output_refs = "(node_id \<times> checkpoint_reference) list"

definition invalid_execution :: "string \<Rightarrow> string \<Rightarrow> exn" where
  "invalid_execution code msg = core_error INVALID_REQUEST code msg False None"

definition runtime_workflow_run :: "'w workflow_runtime \<Rightarrow> run_id \<Rightarrow> ('w, exn, run) action" where
  "runtime_workflow_run E i = abind (sv_get (wk_runs E) i)
     (require_workflow (invalid_execution ''workflow_run_required'' ''WorkflowRuntime requires a WorkflowRun''))"

definition validate_identity :: "workflow_definition \<Rightarrow> run \<Rightarrow> call_context \<Rightarrow> unit result" where
  "validate_identity d r c =
     rbind (raise_when (run_workflow_id r \<noteq> Some (wf_id d) \<or> r_definition_id r \<noteq> wf_definition_id d
         \<or> run_graph_version r \<noteq> Some (wf_version d) \<or> cx_run_id c \<noteq> r_id r \<or> cx_root_run_id c \<noteq> r_root_id r
         \<or> cx_parent_run_id c \<noteq> r_parent_id r \<or> cx_workspace_id c \<noteq> r_workspace_id r
         \<or> cx_session_ref c \<noteq> r_session_ref r \<or> cx_scope c \<noteq> r_scope r)
       (invalid_execution ''workflow_execution_identity_mismatch''
          ''Workflow definition, Run, and RuntimeCallContext do not match'')) (\<lambda>_.
     rcheck (\<lambda>n. require_narrower_than (wn_scope n) (r_scope r)) (wf_nodes d))"

subsection \<open>Node states and references\<close>

text \<open>\<open>{item.node_id: item for item in node_states}\<close>\<close>

definition states_of :: "node_state list \<Rightarrow> node_states" where
  "states_of ns = fold (\<lambda>n. AList.update (ns_node_id n) n) ns []"

definition succeeded_nodes :: "node_state list \<Rightarrow> node_id list" where
  "succeeded_nodes ns = List.map ns_node_id (filter (\<lambda>n. ns_outcome n = NODE_SUCCEEDED) ns)"

definition sorted_node_ids :: "workflow_definition \<Rightarrow> node_id list" where
  "sorted_node_ids d = sort (List.map wn_id (wf_nodes d))"

definition output_refs_of :: "workflow_definition \<Rightarrow> node_states \<Rightarrow> output_refs" where
  "output_refs_of d states = List.map_filter (\<lambda>(i, s).
     if i \<in> wn_id ` set (wf_nodes d) then map_option (\<lambda>r. (i, r)) (ns_output_ref s) else None) states"

definition checkpoint_references :: "node_state list \<Rightarrow> output_refs \<Rightarrow> checkpoint_reference list" where
  "checkpoint_references ns refs =
     first_occurrences (List.map (\<lambda>i. the (map_of refs i)) (sort (List.map fst refs))
       @ List.map_filter ns_error_ref (sort_key ns_node_id ns))"

definition public_output_refs :: "workflow_definition \<Rightarrow> node_states \<Rightarrow> node_output_ref list" where
  "public_output_refs d states =
     sort_key nr_node (List.map_filter (\<lambda>(i, r). case map_of (node_dict (wf_nodes d)) i of
         None \<Rightarrow> None
       | Some n \<Rightarrow> map_option (\<lambda>s. \<lparr>nr_node = i, nr_schema = s, nr_reference = r\<rparr>) (wn_output_schema n))
       (output_refs_of d states))"

definition pending_approval :: "checkpoint \<Rightarrow> approval_state option result" where
  "pending_approval c = (case filter (\<lambda>a. at_decision a = None) (ck_approvals c) of
       [] \<Rightarrow> Inr None
     | [a] \<Rightarrow> Inr (Some a)
     | _ \<Rightarrow> Inl (protocol_failure ''workflow_multiple_pending_approvals''
         ''the single-node runtime cannot restore multiple pending approvals''))"

definition approval_state_of :: "checkpoint \<Rightarrow> string \<Rightarrow> approval_state result" where
  "approval_state_of c i = (case filter (\<lambda>a. ar_approval_id (at_request a) = i) (ck_approvals c) of
       [a] \<Rightarrow> Inr a
     | _ \<Rightarrow> Inl (invalid_execution ''workflow_approval_not_found''
         ''Workflow checkpoint does not contain the approval identity''))"

text \<open>\<open>next(item for item in definition.nodes if item.node_id == i)\<close> in a coroutine\<close>

definition first_node :: "workflow_definition \<Rightarrow> node_id \<Rightarrow> workflow_node result" where
  "first_node d i = (case find (\<lambda>n. wn_id n = i) (wf_nodes d) of
       None \<Rightarrow> Inl (ForeignError ''RuntimeError'') | Some n \<Rightarrow> Inr n)"

subsection \<open>Checkpoints\<close>

text \<open>\<open>_checkpoint\<close>; an AgentRun has no Workflow fields.\<close>

definition checkpoint_record ::
  "run \<Rightarrow> checkpoint option \<Rightarrow> node_state list \<Rightarrow> node_id list \<Rightarrow> output_refs \<Rightarrow> side_effect list \<Rightarrow> approval_state list
    \<Rightarrow> checkpoint_id \<Rightarrow> datetime \<Rightarrow> checkpoint result" where
  "checkpoint_record r previous ns pending refs effects approvals i now = (case r_variant r of
       WorkflowRun wid graph _ \<Rightarrow> Inr \<lparr>ck_contract = ''1'', ck_id = i, ck_run_id = r_id r, ck_workflow_id = wid,
         ck_definition_id = r_definition_id r, ck_graph_version = graph, ck_scope = r_scope r,
         ck_sequence = (case previous of None \<Rightarrow> 1 | Some p \<Rightarrow> ck_sequence p + 1), ck_attempt = r_attempt r,
         ck_previous = map_option ck_id previous, ck_nodes = sort_key ns_node_id ns, ck_pending = sort pending,
         ck_external = checkpoint_references ns refs, ck_effects = effects, ck_approvals = approvals,
         ck_created_at = now, ck_integrity = \<lparr>ci_algorithm = [], ci_digest = []\<rparr>\<rparr>
     | AgentRun _ _ \<Rightarrow> Inl (ForeignError ''AttributeError''))"

definition make_checkpoint ::
  "'w workflow_runtime \<Rightarrow> run \<Rightarrow> checkpoint option \<Rightarrow> node_state list \<Rightarrow> node_id list \<Rightarrow> output_refs \<Rightarrow> side_effect list
    \<Rightarrow> approval_state list \<Rightarrow> ('w, exn, checkpoint) action" where
  "make_checkpoint E r previous ns pending refs effects approvals w = (case wk_fresh E w of (i, w1) \<Rightarrow>
     (rbind (checkpoint_record r previous ns pending refs effects approvals i (wk_clock E w1)) (create_checkpoint (wk_digest E)), w1))"

definition load_checkpoint :: "'w workflow_runtime \<Rightarrow> run \<Rightarrow> call_context \<Rightarrow> ('w, exn, checkpoint) action" where
  "load_checkpoint E r ctx = (case latest_checkpoint r of
       None \<Rightarrow> araise (invalid_execution ''workflow_checkpoint_missing'' ''WorkflowRun has no committed checkpoint'')
     | Some marker \<Rightarrow> gw_load (wk_gateway E) (wk_provider E) marker (r_id r) (r_scope r) ctx)"

subsection \<open>Deadlines, keys and identifiers\<close>

definition node_deadline :: "'w workflow_runtime \<Rightarrow> call_context \<Rightarrow> workflow_node \<Rightarrow> ('w, exn, deadline option) action" where
  "node_deadline E ctx n w = ((case wn_timeout n of
       None \<Rightarrow> Inr (cx_deadline ctx)
     | Some s \<Rightarrow> rbind (plus_seconds (wk_clock E w) (nat s)) (\<lambda>t. case cx_deadline ctx of
           None \<Rightarrow> Inr (Some \<lparr>dl_at = t\<rparr>)
         | Some d \<Rightarrow> Inr (Some (if dl_at d \<le> t then d else \<lparr>dl_at = t\<rparr>)))), w)"

definition node_idempotency_key ::
  "'w workflow_runtime \<Rightarrow> run_id \<Rightarrow> node_id \<Rightarrow> string \<Rightarrow> workflow_context \<Rightarrow> idempotency_key result" where
  "node_idempotency_key E r n kind c =
     mk_identifier (''workflow-node-'' @ wk_text_digest E
       ((case cx_idempotency_key (wc_runtime c) of None \<Rightarrow> [] | Some k \<Rightarrow> k) @ ''|'' @ r @ ''|'' @ n @ ''|'' @ kind))"

definition node_approval_id :: "'w workflow_runtime \<Rightarrow> run_id \<Rightarrow> node_id \<Rightarrow> string result" where
  "node_approval_id E r n = mk_identifier (''workflow-approval-'' @ wk_text_digest E (r @ ''|'' @ n @ ''|approval''))"

definition node_evaluation_id :: "'w workflow_runtime \<Rightarrow> run_id \<Rightarrow> node_id \<Rightarrow> string result" where
  "node_evaluation_id E r n = mk_identifier (''workflow-evaluation-'' @ wk_text_digest E (r @ ''|'' @ n @ ''|evaluation|1''))"

text \<open>\<open>_fingerprint\<close>: \<open>allow_nan=False\<close> refuses infinities and NaN.\<close>

definition value_fingerprint :: "'w workflow_runtime \<Rightarrow> json \<Rightarrow> string result" where
  "value_fingerprint E v =
     (if finite_json v then Inr (wk_value_digest E v)
      else Inl (ValueError ''Out of range float values are not JSON compliant''))"

definition narrowed ::
  "'w workflow_runtime \<Rightarrow> call_context \<Rightarrow> scope_ref \<Rightarrow> deadline option \<Rightarrow> idempotency_key \<Rightarrow> ('w, exn, call_context) action" where
  "narrowed E ctx scope dl key w = (case wk_fresh E w of (span, w1) \<Rightarrow> (narrow ctx (Some scope) dl (Some key) span, w1))"

subsection \<open>Access and input of a node\<close>

definition node_access :: "workflow_node \<Rightarrow> call_context \<Rightarrow> access_request result" where
  "node_access n ctx = (case find (\<lambda>p. pm_action p = WORKFLOW_NODE_EXECUTE_ACTION) (wn_permissions n) of
       None \<Rightarrow> Inl (ForeignError ''RuntimeError'')
     | Some p \<Rightarrow> rbind (rbind (mk_identifier (wn_id n)) (core_principal PRINCIPAL_WORKFLOW_NODE)) (\<lambda>principal.
         Inr \<lparr>aq_principal = principal, aq_action = WORKFLOW_NODE_EXECUTE_ACTION, aq_resource = pm_resource p,
           aq_scope = wn_scope n, aq_context = ctx, aq_constraints = Map.empty\<rparr>))"

definition load_output ::
  "'w workflow_runtime \<Rightarrow> run_id \<Rightarrow> node_id \<Rightarrow> schema_ref \<Rightarrow> checkpoint_reference \<Rightarrow> scope_ref \<Rightarrow> call_context \<Rightarrow> ('w, exn, json) action" where
  "load_output E r n schema ref scope ctx =
     abind (aresult (mk_load_request \<lparr>lq_run_id = r, lq_node = n, lq_schema = schema, lq_reference = ref, lq_scope = scope\<rparr>)) (\<lambda>q.
     no_load (wk_outputs E) q ctx)"

definition node_input ::
  "'w workflow_runtime \<Rightarrow> workflow_definition \<Rightarrow> run \<Rightarrow> workflow_context \<Rightarrow> output_refs \<Rightarrow> workflow_node \<Rightarrow> call_context
    \<Rightarrow> ('w, exn, json) action" where
  "node_input E d r c refs n ctx = (case wn_bindings n of
       [] \<Rightarrow> araise (ForeignError ''IndexError'')
     | b # _ \<Rightarrow>
       if ib_source b = FROM_WORKFLOW_INPUT then areturn (wc_input c)
       else case ib_node b of
         None \<Rightarrow> araise (AssertionError ''validated node output binding lost its source'')
       | Some i \<Rightarrow> abind (aresult (first_node d i)) (\<lambda>source.
           case (map_of refs i, wn_output_schema source) of
             (Some ref, Some schema) \<Rightarrow> load_output E (r_id r) i schema ref (wn_scope source) ctx
           | _ \<Rightarrow> araise (protocol_failure ''workflow_bound_output_missing''
               ''upstream Workflow output is not durably available'')))"

text \<open>\<open>except (KeyError, TypeError, ValueError)\<close>\<close>

definition decode_failure :: "exn \<Rightarrow> bool" where
  "decode_failure e = (case e of KeyError _ \<Rightarrow> True | ValueError _ \<Rightarrow> True | ForeignError n \<Rightarrow> n = ''TypeError'' | _ \<Rightarrow> False)"

definition content_input :: "pylib \<Rightarrow> json \<Rightarrow> content_block list result" where
  "content_input L v = (case v of
       JList items \<Rightarrow> (case objects ''AgentNode input block'' (content_from_data L) items of
           Inl e \<Rightarrow> if decode_failure e then rbind (json_block v None) (\<lambda>b. Inr [b]) else Inl e
         | Inr [] \<Rightarrow> rbind (json_block v None) (\<lambda>b. Inr [b])
         | Inr blocks \<Rightarrow> Inr blocks)
     | _ \<Rightarrow> rbind (json_block v None) (\<lambda>b. Inr [b]))"

subsection \<open>How an execution ends\<close>

definition terminal_failure ::
  "'w workflow_runtime \<Rightarrow> run \<Rightarrow> error_detail \<Rightarrow> workflow_definition \<Rightarrow> node_states \<Rightarrow> ('w, exn, workflow_outcome) action" where
  "terminal_failure E r detail d states =
     abind (runtime_workflow_run E (r_id r)) (\<lambda>current.
     abind (if terminal (r_status current) then areturn current
       else abind (if ed_category detail = CANCELLED_CALL
           then sv_cancel (wk_runs E) (r_id current) (r_version current)
           else sv_fail (wk_runs E) (r_id current) (r_version current) detail)
         (require_workflow_result ''WorkflowRun changed kind while terminating'')) (\<lambda>latest.
     aresult (rbind (mk_workflow_result \<lparr>wr_run = latest, wr_output = JNull,
         wr_error = Some (case r_error latest of Some s \<Rightarrow> es_detail s | None \<Rightarrow> detail),
         wr_output_refs = public_output_refs d states, wr_checkpoint = latest_checkpoint latest\<rparr>) terminal_outcome)))"

definition validation_failure :: "'w workflow_runtime \<Rightarrow> run_id \<Rightarrow> error_detail \<Rightarrow> ('w, exn, workflow_outcome) action" where
  "validation_failure E i detail =
     abind (runtime_workflow_run E i) (\<lambda>r.
     abind (if terminal (r_status r) then areturn r
       else abind (sv_fail (wk_runs E) (r_id r) (r_version r) detail)
         (require_workflow_result ''WorkflowRun changed kind after validation failure'')) (\<lambda>latest.
     aresult (rbind (mk_workflow_result \<lparr>wr_run = latest, wr_output = JNull, wr_error = Some detail,
         wr_output_refs = [], wr_checkpoint = None\<rparr>) terminal_outcome)))"

definition terminal_success ::
  "'w workflow_runtime \<Rightarrow> workflow_definition \<Rightarrow> run \<Rightarrow> call_context \<Rightarrow> checkpoint \<Rightarrow> node_states \<Rightarrow> output_refs
    \<Rightarrow> ('w, exn, workflow_outcome) action" where
  "terminal_success E d r ctx c states refs =
     (let i = ob_node (wf_output d) in
      abind (aresult (first_node d i)) (\<lambda>source.
      case (map_of refs i, wn_output_schema source) of
        (Some ref, Some schema) \<Rightarrow>
          abind (load_output E (r_id r) i schema ref (wn_scope source) ctx) (\<lambda>v.
          abind (aresult (validate_value (wk_schemas E) (wf_output_schema d) v)) (\<lambda>_.
          abind (abind (sv_complete (wk_runs E) (r_id r) (r_version r))
            (require_workflow_result ''WorkflowRun changed kind while completing'')) (\<lambda>completed.
          aresult (rbind (mk_workflow_result \<lparr>wr_run = completed, wr_output = v, wr_error = None,
            wr_output_refs = public_output_refs d states, wr_checkpoint = Some (ck_id c)\<rparr>) terminal_outcome))))
      | _ \<Rightarrow> araise (protocol_failure ''workflow_final_output_reference_missing''
          ''final Workflow output is not durably referenced'')))"

definition suspension_at :: "run \<Rightarrow> checkpoint \<Rightarrow> approval_request \<Rightarrow> workflow_outcome result" where
  "suspension_at r c a = rbind (mk_suspension \<lparr>su_run = r, su_checkpoint = ck_id c, su_approval = a\<rparr>) suspended_outcome"

definition stored_suspension :: "run \<Rightarrow> checkpoint \<Rightarrow> workflow_outcome result" where
  "stored_suspension r c = rbind (pending_approval c) (\<lambda>p. case p of
       None \<Rightarrow> Inl (protocol_failure ''workflow_approval_state_missing''
         ''WAITING_APPROVAL Run has no pending approval in its checkpoint'')
     | Some a \<Rightarrow> suspension_at r c (at_request a))"

end
