(* ===== verification/Workflow_Runtime.thy ===== *)
theory Workflow_Runtime
  imports Workflow_Steps
begin

section \<open>The Workflow runtime\<close>

text \<open>
  \<open>workflow/runtime.py\<close>: the three kinds of node, the loop that drives a validated workflow from a
  committed checkpoint, and the entry points \<open>execute\<close>, \<open>recover\<close> and \<open>decide_approval\<close>. One pass
  of the loop is \<open>drive_step\<close>; an Evaluation that passed re-enters \<open>_drive\<close>, which is the same loop
  from the checkpoint it committed. The loop runs on fuel and \<open>None\<close> is fuel spent; the number of
  nodes is enough.
\<close>

datatype 's progress = Finished workflow_outcome | Continue 's

record agent_dispatch =
  dp_result :: agent_result
  dp_value :: json
  dp_input :: json
  dp_context :: call_context
  dp_key :: idempotency_key

record evaluation_dispatch =
  ep_result :: evaluation_result
  ep_input :: json
  ep_context :: call_context
  ep_key :: idempotency_key

record drive_state =
  dv_run :: run
  dv_checkpoint :: checkpoint
  dv_states :: node_states
  dv_outputs :: output_refs
  dv_scheduler :: scheduler

subsection \<open>Agent nodes\<close>

definition agent_child_run ::
  "'w workflow_runtime \<Rightarrow> run \<Rightarrow> agent_node_config \<Rightarrow> scope_ref \<Rightarrow> ('w, exn, run) action" where
  "agent_child_run E r c scope w = (case wk_fresh E w of (i, w1) \<Rightarrow>
     abind (aresult (create_child_agent_run i r (an_definition_id c) (an_agent_id c) (an_model_binding c) scope (wk_clock E w1))) (\<lambda>child.
     abind (sv_create (wk_runs E) child) (\<lambda>created.
     if is_workflow created then araise (AssertionError ''child AgentRun changed kind during creation'') else areturn child)) w1)"

definition child_call_context ::
  "'w workflow_runtime \<Rightarrow> call_context \<Rightarrow> run_id \<Rightarrow> idempotency_key \<Rightarrow> ('w, exn, call_context) action" where
  "child_call_context E ctx child key w = (case wk_fresh E w of (span, w1) \<Rightarrow>
     (for_child_run ctx child (Some (cx_scope ctx)) (cx_deadline ctx) (Some key) span, w1))"

definition agent_value :: "'w workflow_runtime \<Rightarrow> workflow_node \<Rightarrow> agent_result \<Rightarrow> json result" where
  "agent_value E n x = (case ag_response x of
       None \<Rightarrow> Inr JNull
     | Some resp \<Rightarrow>
         (let v = (if mr_structured resp \<noteq> JNull then mr_structured resp
                   else JList (List.map (\<lambda>b. JObj (content_to_data b)) (mr_output resp))) in
          case wn_output_schema n of
            None \<Rightarrow> Inl (AssertionError ''validated AgentNode lost output schema'')
          | Some s \<Rightarrow> rbind (validate_value (wk_schemas E) s v) (\<lambda>_. Inr v)))"

definition agent_operation ::
  "'w workflow_runtime \<Rightarrow> workflow_definition \<Rightarrow> run \<Rightarrow> workflow_context \<Rightarrow> output_refs \<Rightarrow> workflow_node \<Rightarrow> authorized_call
    \<Rightarrow> ('w, exn, agent_dispatch) action" where
  "agent_operation E d r c refs n call = (case wn_config n of
       AgentConfig config \<Rightarrow>
         abind (aresult (require_narrower_than (wn_scope n) (r_scope r))) (\<lambda>_.
         abind (aresult (node_idempotency_key E (r_id r) (wn_id n) (wn_type n) c)) (\<lambda>key.
         abind (node_deadline E (au_context call) n) (\<lambda>dl.
         abind (narrowed E (au_context call) (wn_scope n) dl key) (\<lambda>ctx.
         abind (agent_child_run E r config (cx_scope ctx)) (\<lambda>child.
         abind (child_call_context E ctx (r_id child) key) (\<lambda>child_ctx.
         abind (node_input E d r c refs n ctx) (\<lambda>v.
         abind (aresult (content_input (wk_pylib E) v)) (\<lambda>blocks.
         abind (wk_agents E (r_id child) blocks child_ctx) (\<lambda>x.
         abind (aresult (agent_value E n x)) (\<lambda>out.
         areturn \<lparr>dp_result = x, dp_value = out, dp_input = v, dp_context = ctx, dp_key = key\<rparr>))))))))))
     | _ \<Rightarrow> araise (AssertionError ''validated AgentNode config changed type''))"

definition dispatch_agent ::
  "'w workflow_runtime \<Rightarrow> workflow_definition \<Rightarrow> run \<Rightarrow> workflow_context \<Rightarrow> output_refs \<Rightarrow> workflow_node
    \<Rightarrow> ('w, exn, agent_dispatch) action" where
  "dispatch_agent E d r c refs n =
     abind (aresult (node_access n (wc_runtime c))) (\<lambda>access.
     dispatch (wk_dispatcher E) access (agent_operation E d r c refs n))"

text \<open>The side effects of the checkpoint after a node\<close>

definition recorded_effects ::
  "'w workflow_runtime \<Rightarrow> workflow_node \<Rightarrow> agent_dispatch \<Rightarrow> checkpoint_reference \<Rightarrow> side_effect list \<Rightarrow> side_effect list result" where
  "recorded_effects E n x ref effects =
     (if \<not> wn_side_effecting n then Inr effects
      else rbind (rbind (mk_identifier (wn_id n)) (\<lambda>i. mk_resource ''core'' ''workflow_node'' i None)) (\<lambda>resource.
        rbind (value_fingerprint E (dp_input x)) (\<lambda>f.
        rbind (mk_side_effect \<lparr>sf_operation = resource, sf_key = dp_key x, sf_fingerprint = f, sf_result = Some ref,
          sf_outcome = EFFECT_SUCCEEDED\<rparr>) (\<lambda>e. Inr (effects @ [e])))))"

definition open_nodes :: "workflow_definition \<Rightarrow> node_id set \<Rightarrow> node_id list" where
  "open_nodes d closed = filter (\<lambda>i. i \<notin> closed) (sorted_node_ids d)"

definition persist_output ::
  "'w workflow_runtime \<Rightarrow> run \<Rightarrow> workflow_node \<Rightarrow> schema_ref \<Rightarrow> json \<Rightarrow> idempotency_key \<Rightarrow> call_context
    \<Rightarrow> ('w, exn, checkpoint_reference) action" where
  "persist_output E r n schema v key ctx =
     no_persist (wk_outputs E) \<lparr>pq_run_id = r_id r, pq_node = wn_id n, pq_schema = schema, pq_value = v,
       pq_scope = wn_scope n, pq_key = key\<rparr> ctx"

definition save_checkpoint :: "'w workflow_runtime \<Rightarrow> checkpoint \<Rightarrow> run \<Rightarrow> workflow_context \<Rightarrow> ('w, exn, run) action" where
  "save_checkpoint E c r x = coordinator_save (wk_checkpoints E) (wk_provider E) c (r_version r) (wc_runtime x)"

text \<open>A successful Agent node: its output persisted, then the checkpoint committed, then the node completed.\<close>

definition commit_agent ::
  "'w workflow_runtime \<Rightarrow> workflow_definition \<Rightarrow> workflow_context \<Rightarrow> drive_state \<Rightarrow> workflow_node \<Rightarrow> agent_dispatch
    \<Rightarrow> ('w, exn, drive_state progress) action" where
  "commit_agent E d c s n x =
     (let r = dv_run s; k = dv_checkpoint s in
      case wn_output_schema n of
        None \<Rightarrow> araise (AssertionError ''successful AgentNode requires a typed output'')
      | Some schema \<Rightarrow>
        if dp_value x = JNull then araise (AssertionError ''successful AgentNode requires a typed output'')
        else abind (persist_output E r n schema (dp_value x) (dp_key x) (dp_context x)) (\<lambda>ref.
          abind (aresult (mk_node_state \<lparr>ns_node_id = wn_id n, ns_outcome = NODE_SUCCEEDED, ns_output_ref = Some ref,
            ns_error_ref = None, ns_approval = None\<rparr>)) (\<lambda>state.
          let states = AList.update (wn_id n) state (dv_states s); refs = AList.update (wn_id n) ref (dv_outputs s) in
          abind (aresult (recorded_effects E n x ref (ck_effects k))) (\<lambda>effects.
          abind (make_checkpoint E r (Some k) (List.map snd states)
            (open_nodes d (insert (wn_id n) (sd_completed (dv_scheduler s)))) refs effects (ck_approvals k)) (\<lambda>stable.
          abind (save_checkpoint E stable r c) (\<lambda>committed.
          abind (aresult (mark_completed (wn_id n) (dv_scheduler s))) (\<lambda>sched.
          areturn (Continue \<lparr>dv_run = committed, dv_checkpoint = stable, dv_states = states, dv_outputs = refs,
            dv_scheduler = sched\<rparr>))))))))"

definition agent_step ::
  "'w workflow_runtime \<Rightarrow> workflow_definition \<Rightarrow> workflow_context \<Rightarrow> drive_state \<Rightarrow> workflow_node
    \<Rightarrow> ('w, exn, drive_state progress) action" where
  "agent_step E d c s n w = (case dispatch_agent E d (dv_run s) c (dv_outputs s) n w of
       (Inl e, w1) \<Rightarrow> (case e of
           CoreError detail \<Rightarrow> abind (terminal_failure E (dv_run s) detail d (dv_states s)) (\<lambda>out. areturn (Finished out)) w1
         | _ \<Rightarrow> (Inl e, w1))
     | (Inr x, w1) \<Rightarrow> (case ag_error (dp_result x) of
           Some detail \<Rightarrow> abind (terminal_failure E (dv_run s) detail d (dv_states s)) (\<lambda>out. areturn (Finished out)) w1
         | None \<Rightarrow> commit_agent E d c s n x w1))"

subsection \<open>Approval nodes\<close>

definition approval_operation ::
  "'w workflow_runtime \<Rightarrow> workflow_context \<Rightarrow> drive_state \<Rightarrow> workflow_node \<Rightarrow> authorized_call
    \<Rightarrow> ('w, exn, workflow_suspension) action" where
  "approval_operation E c s n call = (case wn_config n of
       ApprovalConfig config \<Rightarrow>
         (let r = dv_run s; k = dv_checkpoint s in
          abind (aresult (rbind (node_approval_id E (r_id r) (wn_id n)) (\<lambda>i.
            rbind (mk_identifier (tr_correlation_id (cx_trace (au_context call)))) (\<lambda>corr.
            mk_approval_request \<lparr>ar_approval_id = i, ar_run_id = r_id r, ar_node_id = wn_id n, ar_correlation_id = corr,
              ar_scope = r_scope r, ar_allowed = vn_allowed config, ar_expires_at = vn_expires_at config,
              ar_prompt_ref = vn_prompt_ref config\<rparr>)))) (\<lambda>a.
          abind (aresult (mk_approval_state \<lparr>at_request = a, at_decision = None\<rparr>)) (\<lambda>waiting.
          abind (aresult (mk_node_state \<lparr>ns_node_id = wn_id n, ns_outcome = NODE_WAITING_APPROVAL, ns_output_ref = None,
            ns_error_ref = None, ns_approval = Some waiting\<rparr>)) (\<lambda>state.
          abind (make_checkpoint E r (Some k) (List.map snd (AList.update (wn_id n) state (dv_states s)))
            (filter (\<lambda>i. i \<noteq> wn_id n) (pending_nodes (dv_scheduler s))) (dv_outputs s) (ck_effects k)
            (ck_approvals k @ [waiting])) (\<lambda>suspended.
          abind (request_approval (wk_approvals E) (wk_provider E) a suspended (r_version r) (wc_runtime c)) (\<lambda>r'.
          aresult (mk_suspension \<lparr>su_run = r', su_checkpoint = ck_id suspended, su_approval = a\<rparr>)))))))
     | _ \<Rightarrow> araise (AssertionError ''validated ApprovalNode config changed type''))"

definition approval_step ::
  "'w workflow_runtime \<Rightarrow> workflow_context \<Rightarrow> drive_state \<Rightarrow> workflow_node \<Rightarrow> ('w, exn, drive_state progress) action" where
  "approval_step E c s n =
     abind (aresult (node_access n (wc_runtime c))) (\<lambda>access.
     abind (dispatch (wk_dispatcher E) access (approval_operation E c s n)) (\<lambda>x.
     aresult (rbind (suspended_outcome x) (\<lambda>out. Inr (Finished out)))))"

subsection \<open>Evaluation nodes\<close>

definition evaluation_outcome :: "evaluation_verdict \<Rightarrow> node_outcome" where
  "evaluation_outcome v =
     (if v = PASSED then NODE_SUCCEEDED
      else if v \<in> {POLICY_DENIED, POLICY_INDETERMINATE} then NODE_DENIED
      else if v = VERDICT_TIMED_OUT then NODE_TIMED_OUT
      else if v = VERDICT_CANCELLED then NODE_CANCELLED else NODE_FAILED)"

definition evaluation_error :: "evaluation_result \<Rightarrow> error_detail result" where
  "evaluation_error x = (case ex_error x of
       Some d \<Rightarrow> Inr d
     | None \<Rightarrow> mk_error_detail
         (if ex_verdict x \<in> {POLICY_DENIED, POLICY_INDETERMINATE} then DENIED
          else if ex_verdict x = QUALITY_FAILED then PARTIAL_RESULT else INVALID_REQUEST)
         (verdict_value (ex_verdict x)) ''Evaluation did not pass'' False None
         [(''evaluation_id'', JStr (ex_id x)), (''terminal_stage'', JStr (stage_value (ex_terminal x)))])"

text \<open>The first committed Evaluation, in the order of the node ids, that did not succeed\<close>

definition failed_evaluation :: "workflow_definition \<Rightarrow> node_states \<Rightarrow> (workflow_node \<times> node_state) option" where
  "failed_evaluation d states = (case List.map_filter (\<lambda>(i, s). case map_of (node_dict (wf_nodes d)) i of
         None \<Rightarrow> None
       | Some n \<Rightarrow> if wn_type n \<noteq> node_type_value NODE_EVALUATION \<or> ns_outcome s = NODE_SUCCEEDED then None else Some (n, s))
       (sort_key fst states) of [] \<Rightarrow> None | x # _ \<Rightarrow> Some x)"

definition stable_evaluation_failure ::
  "'w workflow_runtime \<Rightarrow> workflow_definition \<Rightarrow> run \<Rightarrow> call_context \<Rightarrow> node_states \<Rightarrow> ('w, exn, error_detail option) action" where
  "stable_evaluation_failure E d r ctx states = (case failed_evaluation d states of
       None \<Rightarrow> areturn None
     | Some (n, s) \<Rightarrow> (case ns_error_ref s of
         None \<Rightarrow> araise (protocol_failure ''workflow_evaluation_error_reference_missing''
           ''stable non-successful EvaluationNode has no result reference'')
       | Some ref \<Rightarrow>
         abind (load_output E (r_id r) (wn_id n) EVALUATION_RESULT_SCHEMA ref (wn_scope n) ctx) (\<lambda>v.
         abind (aresult (rbind (as_object v ''stable Evaluation result'') (evaluation_result_from_data (wk_pylib E)))) (\<lambda>x.
         if evaluation_outcome (ex_verdict x) \<noteq> ns_outcome s
         then araise (protocol_failure ''workflow_evaluation_outcome_mismatch''
           ''stable Evaluation result and node outcome do not match'')
         else abind (aresult (evaluation_error x)) (\<lambda>e. areturn (Some e))))))"

definition evaluation_operation ::
  "'w workflow_runtime \<Rightarrow> 'w harness \<Rightarrow> workflow_definition \<Rightarrow> run \<Rightarrow> workflow_context \<Rightarrow> output_refs \<Rightarrow> workflow_node
    \<Rightarrow> authorized_call \<Rightarrow> ('w, exn, evaluation_dispatch) action" where
  "evaluation_operation E H d r c refs n call = (case wn_config n of
       EvaluationConfig config \<Rightarrow> (case wn_input_schema n of
         None \<Rightarrow> araise (AssertionError ''validated EvaluationNode lost input schema'')
       | Some schema \<Rightarrow>
         abind (aresult (node_idempotency_key E (r_id r) (wn_id n) (wn_type n) c)) (\<lambda>key.
         abind (node_deadline E (au_context call) n) (\<lambda>dl.
         abind (narrowed E (au_context call) (wn_scope n) dl key) (\<lambda>ctx.
         abind (node_input E d r c refs n ctx) (\<lambda>v.
         abind (aresult (rbind (node_evaluation_id E (r_id r) (wn_id n)) (\<lambda>i.
           mk_evaluation_request \<lparr>er_contract = EVALUATION_CONTRACT_VERSION, er_id = i, er_value = v, er_input_schema = schema,
             er_policy_ref = en_policy_ref config, er_evaluator = en_evaluator_id config, er_profile_ref = en_profile_ref config,
             er_scope = wn_scope n, er_constraints = []\<rparr>))) (\<lambda>q.
         abind (harness_evaluate H q ctx) (\<lambda>x.
         if ex_id x \<noteq> er_id q
         then araise (protocol_failure ''workflow_evaluation_identity_mismatch''
           ''Evaluation result identity does not match its request'')
         else abind (aresult (validate_value (wk_schemas E) EVALUATION_RESULT_SCHEMA (JObj (evaluation_result_to_data x)))) (\<lambda>_.
           areturn \<lparr>ep_result = x, ep_input = v, ep_context = ctx, ep_key = key\<rparr>))))))))
     | _ \<Rightarrow> araise (AssertionError ''validated EvaluationNode config changed type''))"

end
