(* ===== verification/Workflow_Drive.thy ===== *)
theory Workflow_Drive
  imports Workflow_Runtime
begin

section \<open>Driving a workflow\<close>

text \<open>
  The loop of \<open>WorkflowRuntime._drive\<close> and the entry points. An Evaluation that passed calls
  \<open>_drive\<close> in tail position, so one pass of the loop may start it over from the checkpoint just
  committed.
\<close>

subsection \<open>Entering the loop\<close>

definition finished :: "('w, exn, workflow_outcome) action \<Rightarrow> ('w, exn, 's progress) action" where
  "finished m = abind m (\<lambda>out. areturn (Finished out))"

definition drive_waiting :: "'w workflow_runtime \<Rightarrow> run \<Rightarrow> checkpoint \<Rightarrow> approval_state \<Rightarrow> ('w, exn, workflow_outcome) action" where
  "drive_waiting E r k a =
     abind (if r_status r = RUNNING
       then abind (sv_advance (wk_runs E) (r_id r) (r_version r) WAITING_APPROVAL)
         (require_workflow_result ''WorkflowRun changed kind while restoring approval'')
       else areturn r) (\<lambda>r'.
     aresult (suspension_at r' k (at_request a)))"

definition drive_enter ::
  "'w workflow_runtime \<Rightarrow> validated_workflow \<Rightarrow> workflow_context \<Rightarrow> run \<Rightarrow> checkpoint \<Rightarrow> ('w, exn, drive_state progress) action" where
  "drive_enter E x c r k =
     (let d = va_definition x; states = states_of (ck_nodes k) in
      abind (aresult (pending_approval k)) (\<lambda>waiting. case waiting of
        Some a \<Rightarrow> finished (drive_waiting E r k a)
      | None \<Rightarrow>
          abind (stable_evaluation_failure E d r (wc_runtime c) states) (\<lambda>failure. case failure of
            Some detail \<Rightarrow> finished (terminal_failure E r detail d states)
          | None \<Rightarrow> abind (aresult (new_scheduler x (succeeded_nodes (ck_nodes k)))) (\<lambda>sched.
              areturn (Continue \<lparr>dv_run = r, dv_checkpoint = k, dv_states = states, dv_outputs = output_refs_of d states,
                dv_scheduler = sched\<rparr>)))))"

subsection \<open>One pass\<close>

definition commit_evaluation ::
  "'w workflow_runtime \<Rightarrow> validated_workflow \<Rightarrow> workflow_context \<Rightarrow> drive_state \<Rightarrow> workflow_node \<Rightarrow> evaluation_dispatch
    \<Rightarrow> checkpoint_reference \<Rightarrow> ('w, exn, drive_state progress) action" where
  "commit_evaluation E x c s n y ref =
     (let r = dv_run s; k = dv_checkpoint s; d = va_definition x; passed = (ex_verdict (ep_result y) = PASSED) in
      abind (aresult (mk_node_state \<lparr>ns_node_id = wn_id n, ns_outcome = evaluation_outcome (ex_verdict (ep_result y)),
        ns_output_ref = (if passed then Some ref else None), ns_error_ref = (if passed then None else Some ref),
        ns_approval = None\<rparr>)) (\<lambda>state.
      let states = AList.update (wn_id n) state (dv_states s);
        refs = (if passed then AList.update (wn_id n) ref (dv_outputs s) else dv_outputs s) in
      abind (make_checkpoint E r (Some k) (List.map snd states)
        (open_nodes d (insert (wn_id n) (sd_completed (dv_scheduler s)))) refs (ck_effects k) (ck_approvals k)) (\<lambda>stable.
      abind (save_checkpoint E stable r c) (\<lambda>committed.
      if passed
      then abind (aresult (mark_completed (wn_id n) (dv_scheduler s))) (\<lambda>_. drive_enter E x c committed stable)
      else abind (aresult (evaluation_error (ep_result y))) (\<lambda>detail.
        finished (terminal_failure E committed detail d states))))))"

definition evaluation_step ::
  "'w workflow_runtime \<Rightarrow> validated_workflow \<Rightarrow> workflow_context \<Rightarrow> drive_state \<Rightarrow> workflow_node
    \<Rightarrow> ('w, exn, drive_state progress) action" where
  "evaluation_step E x c s n = (case wk_evaluations E of
       None \<Rightarrow> araise (core_error UNAVAILABLE ''evaluation_harness_unavailable'' ''WorkflowRuntime has no Evaluation harness'' False None)
     | Some H \<Rightarrow>
         abind (aresult (node_access n (wc_runtime c))) (\<lambda>access.
         abind (dispatch (wk_dispatcher E) access
           (evaluation_operation E H (va_definition x) (dv_run s) c (dv_outputs s) n)) (\<lambda>y.
         abind (persist_output E (dv_run s) n EVALUATION_RESULT_SCHEMA (JObj (evaluation_result_to_data (ep_result y)))
           (ep_key y) (ep_context y)) (\<lambda>ref.
         commit_evaluation E x c s n y ref))))"

definition scheduler_stalled :: "error_detail result" where
  "scheduler_stalled = mk_error_detail PROTOCOL_FAILURE ''workflow_scheduler_stalled''
     ''Workflow scheduler has pending work but no ready node'' False None []"

definition drive_step ::
  "'w workflow_runtime \<Rightarrow> validated_workflow \<Rightarrow> workflow_context \<Rightarrow> drive_state \<Rightarrow> ('w, exn, drive_state progress) action" where
  "drive_step E x c s =
     (let d = va_definition x in
      if scheduler_done (dv_scheduler s)
      then finished (terminal_success E d (dv_run s) (wc_runtime c) (dv_checkpoint s) (dv_states s) (dv_outputs s))
      else case scheduler_next (dv_scheduler s) of
        None \<Rightarrow> abind (aresult scheduler_stalled) (\<lambda>detail. finished (terminal_failure E (dv_run s) detail d (dv_states s)))
      | Some n \<Rightarrow>
          if wn_type n = node_type_value NODE_APPROVAL then approval_step E c s n
          else if wn_type n = node_type_value NODE_EVALUATION then evaluation_step E x c s n
          else if wn_type n \<noteq> node_type_value NODE_AGENT then araise (AssertionError ''validator admitted an unsupported node'')
          else agent_step E d c s n)"

subsection \<open>The loop\<close>

type_synonym 'w execution = "'w \<Rightarrow> ((exn + workflow_outcome) \<times> 'w) option"

definition after_progress :: "('w, exn, 's progress) action \<Rightarrow> ('s \<Rightarrow> 'w execution) \<Rightarrow> 'w execution" where
  "after_progress m go w = (case m w of
       (Inl e, w1) \<Rightarrow> Some (Inl e, w1)
     | (Inr (Finished out), w1) \<Rightarrow> Some (Inr out, w1)
     | (Inr (Continue s), w1) \<Rightarrow> go s w1)"

fun drive_loop :: "'w workflow_runtime \<Rightarrow> validated_workflow \<Rightarrow> workflow_context \<Rightarrow> nat \<Rightarrow> drive_state \<Rightarrow> 'w execution" where
  "drive_loop E x c 0 s w = None"
| "drive_loop E x c (Suc fuel) s w = after_progress (drive_step E x c s) (drive_loop E x c fuel) w"

definition drive :: "'w workflow_runtime \<Rightarrow> validated_workflow \<Rightarrow> workflow_context \<Rightarrow> nat \<Rightarrow> run \<Rightarrow> checkpoint \<Rightarrow> 'w execution" where
  "drive E x c fuel r k = after_progress (drive_enter E x c r k) (drive_loop E x c fuel)"

subsection \<open>Executing\<close>

definition start_run :: "'w workflow_runtime \<Rightarrow> run \<Rightarrow> ('w, exn, run) action" where
  "start_run E r =
     abind (sv_start (wk_runs E) (r_id r) (r_version r)) (\<lambda>r1.
     abind (sv_advance (wk_runs E) (r_id r) (r_version r1) CONTEXT_LOADING) (\<lambda>r2.
     abind (sv_advance (wk_runs E) (r_id r) (r_version r2) RUNNING)
       (require_workflow_result ''WorkflowRun changed kind while starting'')))"

definition first_checkpoint :: "'w workflow_runtime \<Rightarrow> workflow_definition \<Rightarrow> run \<Rightarrow> workflow_context \<Rightarrow> ('w, exn, run \<times> checkpoint) action" where
  "first_checkpoint E d r c =
     abind (start_run E r) (\<lambda>started.
     abind (make_checkpoint E started None [] (sorted_node_ids d) [] [] []) (\<lambda>k.
     abind (save_checkpoint E k started c) (\<lambda>committed. areturn (committed, k))))"

definition execute_prepare ::
  "'w workflow_runtime \<Rightarrow> workflow_definition \<Rightarrow> workflow_context \<Rightarrow> ('w, exn, (run \<times> checkpoint) progress) action" where
  "execute_prepare E d c =
     abind (runtime_workflow_run E (wc_run_id c)) (\<lambda>r.
     abind (aresult (validate_identity d r (wc_runtime c))) (\<lambda>_.
     if r_status r = CREATED then abind (first_checkpoint E d r c) (\<lambda>p. areturn (Continue p))
     else if latest_checkpoint r = None
     then araise (invalid_execution ''workflow_checkpoint_missing'' ''started WorkflowRun has no committed checkpoint'')
     else abind (load_checkpoint E r (wc_runtime c)) (\<lambda>k.
       if r_status r = WAITING_APPROVAL then finished (aresult (stored_suspension r k))
       else if r_status r \<noteq> RUNNING
       then araise (core_error CONFLICT ''workflow_execution_state_invalid''
         ''WorkflowRun cannot be executed from its current state'' False None)
       else areturn (Continue (r, k)))))"

definition validated_input :: "'w workflow_runtime \<Rightarrow> workflow_definition \<Rightarrow> workflow_context \<Rightarrow> validated_workflow result" where
  "validated_input E d c =
     rbind (validate_workflow (wk_validator E) d) (\<lambda>x.
     rbind (validate_value (wk_schemas E) (wf_input_schema d) (wc_input c)) (\<lambda>_. Inr x))"

definition workflow_execute :: "'w workflow_runtime \<Rightarrow> nat \<Rightarrow> workflow_definition \<Rightarrow> workflow_context \<Rightarrow> 'w execution" where
  "workflow_execute E fuel d c w = (case validated_input E d c of
       Inl e \<Rightarrow> Some (case e of CoreError detail \<Rightarrow> validation_failure E (wc_run_id c) detail w | _ \<Rightarrow> (Inl e, w))
     | Inr x \<Rightarrow> after_progress (execute_prepare E d c) (\<lambda>(r, k). drive E x c fuel r k) w)"

subsection \<open>Recovering\<close>

definition workflow_recover ::
  "'w workflow_runtime \<Rightarrow> nat \<Rightarrow> workflow_definition \<Rightarrow> workflow_context \<Rightarrow> recovery_request \<Rightarrow> 'w execution" where
  "workflow_recover E fuel d c q w = (case validated_input E d c of
       Inl e \<Rightarrow> Some (Inl e, w)
     | Inr x \<Rightarrow>
         if rq_run_id q \<noteq> wc_run_id c
         then Some (Inl (invalid_execution ''workflow_recovery_run_mismatch'' ''recovery request does not match Workflow context''), w)
         else case recover (wk_recovery E) fuel q (wc_runtime c) w of
           None \<Rightarrow> None
         | Some (Inl e, w1) \<Rightarrow> Some (Inl e, w1)
         | Some (Inr y, w1) \<Rightarrow> (case validate_identity d (rr_run y) (wc_runtime c) of
               Inl e \<Rightarrow> Some (Inl e, w1)
             | Inr _ \<Rightarrow> drive E x c fuel (rr_run y) (rr_checkpoint y) w1))"

subsection \<open>Deciding an approval\<close>

fun decided_outcome :: "approval_outcome \<Rightarrow> node_outcome" where
  "decided_outcome APPROVED = NODE_SUCCEEDED"
| "decided_outcome REJECTED = NODE_DENIED"
| "decided_outcome APPROVAL_CANCELLED = NODE_CANCELLED"

definition decided_states :: "checkpoint \<Rightarrow> approval_decision \<Rightarrow> approval_state \<Rightarrow> node_states result" where
  "decided_states k x state =
     rbind (mk_node_state \<lparr>ns_node_id = ad_node_id x, ns_outcome = decided_outcome (ad_outcome x), ns_output_ref = None,
       ns_error_ref = None, ns_approval = Some state\<rparr>) (\<lambda>n.
     Inr (AList.update (ad_node_id x) n (states_of (filter (\<lambda>s. ns_node_id s \<noteq> ad_node_id x) (ck_nodes k)))))"

definition decision_checkpoint ::
  "'w workflow_runtime \<Rightarrow> workflow_definition \<Rightarrow> run \<Rightarrow> checkpoint \<Rightarrow> approval_decision \<Rightarrow> approval_state \<Rightarrow> node_states
    \<Rightarrow> ('w, exn, checkpoint) action" where
  "decision_checkpoint E d r k x state states =
     make_checkpoint E r (Some k) (List.map snd states)
       (open_nodes d (insert (ad_node_id x) (set (succeeded_nodes (List.map snd states))))) (output_refs_of d states)
       (ck_effects k)
       (List.map (\<lambda>a. if ar_approval_id (at_request a) = ad_approval_id x then state else a) (ck_approvals k))"

definition decision_error :: "approval_outcome \<Rightarrow> error_detail result" where
  "decision_error out =
     (if out = APPROVAL_CANCELLED
      then mk_error_detail CANCELLED_CALL ''approval_cancelled'' ''approval decision cancelled Workflow execution'' False None []
      else mk_error_detail DENIED ''approval_rejected'' ''approval decision rejected Workflow execution'' False None [])"

definition refused_outcome ::
  "workflow_definition \<Rightarrow> run \<Rightarrow> checkpoint \<Rightarrow> node_states \<Rightarrow> approval_outcome \<Rightarrow> workflow_outcome result" where
  "refused_outcome d r k states out =
     rbind (decision_error out) (\<lambda>detail.
     rbind (mk_workflow_result \<lparr>wr_run = r, wr_output = JNull, wr_error = Some detail,
       wr_output_refs = public_output_refs d states, wr_checkpoint = Some (ck_id k)\<rparr>) terminal_outcome)"

definition apply_decision ::
  "'w workflow_runtime \<Rightarrow> workflow_definition \<Rightarrow> workflow_context \<Rightarrow> approval_decision
    \<Rightarrow> ('w, exn, (run \<times> checkpoint) progress) action" where
  "apply_decision E d c x =
     abind (runtime_workflow_run E (wc_run_id c)) (\<lambda>r.
     abind (aresult (validate_identity d r (wc_runtime c))) (\<lambda>_.
     abind (aresult (raise_when (r_status r \<noteq> WAITING_APPROVAL)
       (core_error CONFLICT ''workflow_not_waiting_approval'' ''WorkflowRun is not waiting for an approval decision'' False None))) (\<lambda>_.
     abind (load_checkpoint E r (wc_runtime c)) (\<lambda>k.
     abind (aresult (approval_state_of k (ad_approval_id x))) (\<lambda>a.
     abind (aresult (mk_approval_state \<lparr>at_request = at_request a, at_decision = Some x\<rparr>)) (\<lambda>state.
     abind (aresult (decided_states k x state)) (\<lambda>states.
     abind (decision_checkpoint E d r k x state states) (\<lambda>post.
     abind (decide (wk_approvals E) (wk_provider E) x post (r_version r) (wc_runtime c)) (\<lambda>decided.
     if ad_outcome x = APPROVED then areturn (Continue (decided, post))
     else finished (aresult (refused_outcome d decided post states (ad_outcome x))))))))))))"

definition workflow_decide ::
  "'w workflow_runtime \<Rightarrow> nat \<Rightarrow> workflow_definition \<Rightarrow> workflow_context \<Rightarrow> approval_decision \<Rightarrow> 'w execution" where
  "workflow_decide E fuel d c x w = (case validate_workflow (wk_validator E) d of
       Inl e \<Rightarrow> Some (Inl e, w)
     | Inr y \<Rightarrow> after_progress (apply_decision E d c x) (\<lambda>(r, k). drive E y c fuel r k) w)"

section \<open>Executions\<close>

text \<open>
  Invariants of the loop of \<open>Workflow_Drive\<close>: the scheduler counts as completed exactly the nodes the
  last committed checkpoint records as succeeded, every pass that goes on has committed a checkpoint
  and completed the node the scheduler handed out, and so the loop ends.
\<close>

subsection \<open>Node states\<close>

lemma states_of_distinct:
  assumes "distinct (List.map ns_node_id ns)"
  shows "states_of ns = List.map (\<lambda>n. (ns_node_id n, n)) ns"
proof -
  have "fold (\<lambda>n. AList.update (ns_node_id n) n) ns d = d @ List.map (\<lambda>n. (ns_node_id n, n)) ns"
    if "ns_node_id ` set ns \<inter> fst ` set d = {}" for d
    using assms that
  proof (induction ns arbitrary: d)
    case (Cons n ns)
    then have "AList.update (ns_node_id n) n d = d @ [(ns_node_id n, n)]" by (intro AList_update_new) auto
    with Cons show ?case by auto
  qed simp
  then show ?thesis by (simp add: states_of_def)
qed

definition keyed :: "node_states \<Rightarrow> bool" where
  "keyed states \<longleftrightarrow> distinct (List.map fst states) \<and> (\<forall>(i, n) \<in> set states. ns_node_id n = i)"

lemma keyed_states_of: "distinct (List.map ns_node_id ns) \<Longrightarrow> keyed (states_of ns) \<and> snd ` set (states_of ns) = set ns"
  by (auto simp: states_of_distinct keyed_def comp_def image_image)

lemma update_entries: "distinct (List.map fst d) \<Longrightarrow> set (AList.update k v d) = insert (k, v) {p \<in> set d. fst p \<noteq> k}"
  by (induction d) (auto, force+)

lemma in_update [simp]: "(k, v) \<in> set (AList.update k v d)"
  by (induction d) auto

lemma value_in_update [simp]: "v \<in> snd ` set (AList.update k v d)"
  by (metis in_update image_eqI snd_conv)

lemma keyed_update: "keyed states \<Longrightarrow> ns_node_id n = i \<Longrightarrow> keyed (AList.update i n states)"
  by (auto simp: keyed_def update_entries distinct_update)

lemma keyed_distinct: "keyed states \<Longrightarrow> distinct (List.map ns_node_id (List.map snd states))"
proof -
  assume k: "keyed states"
  then have eq: "List.map (ns_node_id \<circ> snd) states = List.map fst states" by (auto simp: keyed_def)
  have "distinct (List.map (ns_node_id \<circ> snd) states)" unfolding eq using k by (simp add: keyed_def)
  then show ?thesis by simp
qed

lemma distinct_iff_card: "distinct xs \<longleftrightarrow> card (set xs) = List.length xs"
  using card_distinct distinct_card by blast

lemma distinct_sort_ids: "distinct (List.map ns_node_id (sort_key ns_node_id ns)) \<longleftrightarrow> distinct (List.map ns_node_id ns)"
  by (simp add: distinct_iff_card)

lemma succeeded_nodes_set: "set (succeeded_nodes ns) = {ns_node_id n | n. n \<in> set ns \<and> ns_outcome n = NODE_SUCCEEDED}"
  by (auto simp: succeeded_nodes_def)

lemma succeeded_update:
  assumes "keyed states" "ns_node_id n = i" "i \<notin> set (succeeded_nodes (List.map snd states))"
  shows "set (succeeded_nodes (List.map snd (AList.update i n states)))
    = (if ns_outcome n = NODE_SUCCEEDED then {i} else {}) \<union> set (succeeded_nodes (List.map snd states))"
proof -
  have eq: "set (AList.update i n states) = insert (i, n) {p \<in> set states. fst p \<noteq> i}"
    using assms(1) by (simp add: keyed_def update_entries)
  then have "snd ` set (AList.update i n states) = insert n (snd ` {p \<in> set states. fst p \<noteq> i})" by simp
  moreover have "m \<in> snd ` {p \<in> set states. fst p \<noteq> i}" if "m \<in> snd ` set states" "ns_outcome m = NODE_SUCCEEDED" for m
  proof -
    from that obtain j where j: "(j, m) \<in> set states" by auto
    with assms(1) have "ns_node_id m = j" by (auto simp: keyed_def)
    moreover have "ns_node_id m \<noteq> i" using assms(3) that by (auto simp: succeeded_nodes_set)
    ultimately show ?thesis using j by (force simp: image_iff)
  qed
  ultimately have "m \<in> snd ` set (AList.update i n states) \<and> ns_outcome m = NODE_SUCCEEDED \<longleftrightarrow>
      (m = n \<or> m \<in> snd ` set states) \<and> ns_outcome m = NODE_SUCCEEDED" for m
    by blast
  then show ?thesis using assms(2) by (simp add: succeeded_nodes_set) blast
qed

subsection \<open>Checkpoints\<close>

lemma create_checkpoint_Inr:
  "create_checkpoint H c0 = Inr c \<Longrightarrow> mk_checkpoint c = Inr c \<and> c = c0\<lparr>ck_integrity := ck_integrity c\<rparr>"
  by (auto simp: create_checkpoint_def rbind_eq_Inr mk_checkpoint_Inr)

lemma make_checkpoint_Inr:
  assumes "make_checkpoint E r previous ns pending refs effects approvals w = (Inr c, w')"
  shows "ck_nodes c = sort_key ns_node_id ns" "ck_pending c = sort pending" "ck_effects c = effects" "ck_approvals c = approvals"
    "ck_previous c = map_option ck_id previous" "ck_run_id c = r_id r" "mk_checkpoint c = Inr c"
    "ck_external c = checkpoint_references ns refs" "ck_sequence c = (case previous of None \<Rightarrow> 1 | Some p \<Rightarrow> ck_sequence p + 1)"
proof -
  from assms obtain i now c0 where c0: "checkpoint_record r previous ns pending refs effects approvals i now = Inr c0"
    "create_checkpoint (wk_digest E) c0 = Inr c"
    by (auto simp: make_checkpoint_def rbind_eq_Inr split: prod.splits)
  from create_checkpoint_Inr [OF c0(2)] have c: "mk_checkpoint c = Inr c" "c = c0\<lparr>ck_integrity := ck_integrity c\<rparr>" by auto
  from c0(1) obtain wid graph where "c0 = \<lparr>ck_contract = ''1'', ck_id = i, ck_run_id = r_id r, ck_workflow_id = wid,
         ck_definition_id = r_definition_id r, ck_graph_version = graph, ck_scope = r_scope r,
         ck_sequence = (case previous of None \<Rightarrow> 1 | Some p \<Rightarrow> ck_sequence p + 1), ck_attempt = r_attempt r,
         ck_previous = map_option ck_id previous, ck_nodes = sort_key ns_node_id ns, ck_pending = sort pending,
         ck_external = checkpoint_references ns refs, ck_effects = effects, ck_approvals = approvals,
         ck_created_at = now, ck_integrity = \<lparr>ci_algorithm = [], ci_digest = []\<rparr>\<rparr>"
    by (auto simp: checkpoint_record_def split: run_variant.splits)
  with c(2) have c2: "c = \<lparr>ck_contract = ''1'', ck_id = i, ck_run_id = r_id r, ck_workflow_id = wid,
         ck_definition_id = r_definition_id r, ck_graph_version = graph, ck_scope = r_scope r,
         ck_sequence = (case previous of None \<Rightarrow> 1 | Some p \<Rightarrow> ck_sequence p + 1), ck_attempt = r_attempt r,
         ck_previous = map_option ck_id previous, ck_nodes = sort_key ns_node_id ns, ck_pending = sort pending,
         ck_external = checkpoint_references ns refs, ck_effects = effects, ck_approvals = approvals,
         ck_created_at = now, ck_integrity = ck_integrity c\<rparr>" by simp
  show "ck_nodes c = sort_key ns_node_id ns" "ck_pending c = sort pending" "ck_effects c = effects"
    "ck_approvals c = approvals" "ck_previous c = map_option ck_id previous" "ck_run_id c = r_id r"
    "ck_external c = checkpoint_references ns refs" "ck_sequence c = (case previous of None \<Rightarrow> 1 | Some p \<Rightarrow> ck_sequence p + 1)"
    by (subst c2, simp)+
  show "mk_checkpoint c = Inr c" by (rule c(1))
qed

subsection \<open>The invariant\<close>

definition drive_ok :: "validated_workflow \<Rightarrow> drive_state \<Rightarrow> bool" where
  "drive_ok x s \<longleftrightarrow> scheduler_ok (dv_scheduler s) \<and> sd_definition (dv_scheduler s) = va_definition x \<and> keyed (dv_states s)
     \<and> set (ck_nodes (dv_checkpoint s)) = snd ` set (dv_states s)
     \<and> sd_completed (dv_scheduler s) = set (succeeded_nodes (ck_nodes (dv_checkpoint s)))"

lemma finished_Inr [simp]: "finished m w = (Inr p, w') \<longleftrightarrow> (\<exists>out. p = Finished out \<and> m w = (Inr out, w'))"
  by (auto simp: finished_def abind_eq_Inr)

lemma succeeded_cong: "set ns = set ms \<Longrightarrow> set (succeeded_nodes ns) = set (succeeded_nodes ms)"
  by (simp add: succeeded_nodes_set)

lemma new_scheduler_Inr:
  assumes "new_scheduler x completed = Inr s" "graph_ok (va_definition x)"
  shows "scheduler_ok s \<and> sd_definition s = va_definition x \<and> sd_completed s = set completed"
proof -
  have "set completed \<subseteq> wn_id ` set (wf_nodes (va_definition x))"
    using assms by (auto simp: new_scheduler_def Let_def result_simps graph_ok_def)
  with new_scheduler_ok [OF assms(2)] assms(1) show ?thesis by fastforce
qed

lemma drive_enter_Continue:
  assumes "drive_enter E x c r k w = (Inr (Continue s), w')" "graph_ok (va_definition x)" "distinct (List.map ns_node_id (ck_nodes k))"
  shows "drive_ok x s \<and> dv_run s = r \<and> dv_checkpoint s = k \<and> dv_states s = states_of (ck_nodes k) \<and> pending_approval k = Inr None"
proof -
  from assms(1) obtain sched where "pending_approval k = Inr None"
    "new_scheduler x (succeeded_nodes (ck_nodes k)) = Inr sched"
    "s = \<lparr>dv_run = r, dv_checkpoint = k, dv_states = states_of (ck_nodes k),
      dv_outputs = output_refs_of (va_definition x) (states_of (ck_nodes k)), dv_scheduler = sched\<rparr>"
    by (auto simp: drive_enter_def Let_def abind_eq_Inr split: option.splits)
  with new_scheduler_Inr [OF _ assms(2)] keyed_states_of [OF assms(3)] show ?thesis by (auto simp: drive_ok_def)
qed

text \<open>The state after a node succeeded and its checkpoint was committed\<close>

lemma drive_ok_step:
  assumes ok: "drive_ok x s" and n: "scheduler_next (dv_scheduler s) = Some n"
    and state: "ns_node_id m = wn_id n" "ns_outcome m = NODE_SUCCEEDED"
    and k: "ck_nodes k = sort_key ns_node_id (List.map snd (AList.update (wn_id n) m (dv_states s)))"
  shows "keyed (AList.update (wn_id n) m (dv_states s))" "distinct (List.map ns_node_id (ck_nodes k))"
    "set (ck_nodes k) = snd ` set (AList.update (wn_id n) m (dv_states s))"
    "set (succeeded_nodes (ck_nodes k)) = insert (wn_id n) (sd_completed (dv_scheduler s))"
    "wn_id n \<notin> sd_completed (dv_scheduler s)"
proof -
  let ?states = "AList.update (wn_id n) m (dv_states s)"
  note d = ok [unfolded drive_ok_def]
  show keyed: "keyed ?states" using d state by (intro keyed_update) auto
  show "set (ck_nodes k) = snd ` set ?states" by (simp add: k)
  then have eq: "set (ck_nodes k) = set (List.map snd ?states)" by simp
  show "distinct (List.map ns_node_id (ck_nodes k))"
    using keyed_distinct [OF keyed] distinct_sort_ids unfolding k by blast
  obtain rest where "ready_ids (dv_scheduler s) = wn_id n # rest" using scheduler_next_cases(2) [OF _ n] d by blast
  then show new: "wn_id n \<notin> sd_completed (dv_scheduler s)" using ready_ids_mem [of "dv_scheduler s" "wn_id n"] d by auto
  have comp: "sd_completed (dv_scheduler s) = set (succeeded_nodes (List.map snd (dv_states s)))"
    using d succeeded_cong [of "ck_nodes (dv_checkpoint s)" "List.map snd (dv_states s)"] by simp
  show "set (succeeded_nodes (ck_nodes k)) = insert (wn_id n) (sd_completed (dv_scheduler s))"
    using succeeded_update [of "dv_states s" m "wn_id n"] d state new comp succeeded_cong [OF eq] by simp
qed

end
