(* ===== verification/Workflow_Loop.thy ===== *)
theory Workflow_Loop
  imports Workflow_Drive
begin

section \<open>Passes of the loop\<close>

text \<open>
  What one pass that goes on has done, the passes in sequence, and the end of the loop.
\<close>

lemma mk_node_state_Inr: "mk_node_state s = Inr s' \<Longrightarrow> s' = s"
  by (auto simp: mk_node_state_def split: if_splits)

text \<open>The commit of a node: its result persisted, then a successor checkpoint that records it saved for the Run.\<close>

definition committed_node ::
  "'w workflow_runtime \<Rightarrow> workflow_context \<Rightarrow> drive_state \<Rightarrow> workflow_node \<Rightarrow> run \<Rightarrow> checkpoint \<Rightarrow> 'w \<Rightarrow> bool" where
  "committed_node E c s n r k w' \<longleftrightarrow>
     (\<exists>q ctx ref w1 w2 w3. no_persist (wk_outputs E) q ctx w1 = (Inr ref, w2) \<and> pq_node q = wn_id n \<and> pq_run_id q = r_id (dv_run s)
       \<and> save_checkpoint E k (dv_run s) c w3 = (Inr r, w') \<and> ck_previous k = Some (ck_id (dv_checkpoint s))
       \<and> (\<exists>m \<in> set (ck_nodes k). ns_node_id m = wn_id n \<and> ns_outcome m = NODE_SUCCEEDED \<and> ns_output_ref m = Some ref))"

lemma committed_nodeI:
  assumes "no_persist (wk_outputs E) q ctx w1 = (Inr ref, w2)" "pq_node q = wn_id n" "pq_run_id q = r_id (dv_run s)"
    "save_checkpoint E k (dv_run s) c w3 = (Inr r, w')" "ck_previous k = Some (ck_id (dv_checkpoint s))"
    "ck_nodes k = sort_key ns_node_id (List.map snd (AList.update (wn_id n) \<lparr>ns_node_id = wn_id n, ns_outcome = NODE_SUCCEEDED,
       ns_output_ref = Some ref, ns_error_ref = None, ns_approval = None\<rparr> (dv_states s)))"
  shows "committed_node E c s n r k w'"
proof -
  let ?m = "\<lparr>ns_node_id = wn_id n, ns_outcome = NODE_SUCCEEDED, ns_output_ref = Some ref, ns_error_ref = None, ns_approval = None\<rparr>"
  have "?m \<in> set (ck_nodes k)" by (simp add: assms(6))
  then have "\<exists>m \<in> set (ck_nodes k). ns_node_id m = wn_id n \<and> ns_outcome m = NODE_SUCCEEDED \<and> ns_output_ref m = Some ref"
    by (rule bexI [rotated]) simp
  with assms(1-5) show ?thesis unfolding committed_node_def by blast
qed

lemma commit_agent_Inr:
  assumes "commit_agent E d c s n x w = (Inr p, w')"
  obtains s' ref where "p = Continue s'"
    "dv_states s' = AList.update (wn_id n) \<lparr>ns_node_id = wn_id n, ns_outcome = NODE_SUCCEEDED, ns_output_ref = Some ref,
       ns_error_ref = None, ns_approval = None\<rparr> (dv_states s)"
    "ck_nodes (dv_checkpoint s') = sort_key ns_node_id (List.map snd (dv_states s'))"
    "mark_completed (wn_id n) (dv_scheduler s) = Inr (dv_scheduler s')"
    "committed_node E c s n (dv_run s') (dv_checkpoint s') w'"
proof -
  let ?m = "\<lambda>ref. \<lparr>ns_node_id = wn_id n, ns_outcome = NODE_SUCCEEDED, ns_output_ref = Some ref,
       ns_error_ref = None, ns_approval = None\<rparr>"
  from assms obtain schema ref w1 m effects stable w2 w3 committed sched where
    p: "persist_output E (dv_run s) n schema (dp_value x) (dp_key x) (dp_context x) w = (Inr ref, w1)"
    and m: "mk_node_state (?m ref) = Inr m"
    and k: "make_checkpoint E (dv_run s) (Some (dv_checkpoint s)) (List.map snd (AList.update (wn_id n) m (dv_states s)))
        (open_nodes d (insert (wn_id n) (sd_completed (dv_scheduler s)))) (AList.update (wn_id n) ref (dv_outputs s)) effects
        (ck_approvals (dv_checkpoint s)) w2 = (Inr stable, w3)"
    and sv: "save_checkpoint E stable (dv_run s) c w3 = (Inr committed, w')"
    and sc: "mark_completed (wn_id n) (dv_scheduler s) = Inr sched"
    and ps: "p = Continue \<lparr>dv_run = committed, dv_checkpoint = stable, dv_states = AList.update (wn_id n) m (dv_states s),
      dv_outputs = AList.update (wn_id n) ref (dv_outputs s), dv_scheduler = sched\<rparr>"
    by (auto simp: commit_agent_def Let_def abind_eq_Inr araise_def split: option.splits if_splits)
  have m': "m = ?m ref" using mk_node_state_Inr [OF m] .
  note kc = make_checkpoint_Inr [OF k]
  have "committed_node E c s n committed stable w'"
    by (rule committed_nodeI [OF p [unfolded persist_output_def] _ _ sv]) (simp_all add: kc m')
  with that [OF ps, of ref] kc sc m' show ?thesis by simp
qed

lemma commit_evaluation_Continue:
  assumes "commit_evaluation E x c s n y ref w = (Inr (Continue s'), w')"
    and p: "no_persist (wk_outputs E) q ctx w0 = (Inr ref, w)" "pq_node q = wn_id n" "pq_run_id q = r_id (dv_run s)"
  obtains r k w1 where "ck_nodes k = sort_key ns_node_id (List.map snd (AList.update (wn_id n) \<lparr>ns_node_id = wn_id n, ns_outcome = NODE_SUCCEEDED,
       ns_output_ref = Some ref, ns_error_ref = None, ns_approval = None\<rparr> (dv_states s)))"
    "committed_node E c s n r k w1" "drive_enter E x c r k w1 = (Inr (Continue s'), w')"
proof -
  let ?v = "ex_verdict (ep_result y)"
  let ?m = "\<lparr>ns_node_id = wn_id n, ns_outcome = evaluation_outcome ?v, ns_output_ref = (if ?v = PASSED then Some ref else None),
    ns_error_ref = (if ?v = PASSED then None else Some ref), ns_approval = None\<rparr>"
  let ?refs = "if ?v = PASSED then AList.update (wn_id n) ref (dv_outputs s) else dv_outputs s"
  from assms(1) obtain m stable w2 committed w1 where m: "mk_node_state ?m = Inr m"
    and k: "make_checkpoint E (dv_run s) (Some (dv_checkpoint s)) (List.map snd (AList.update (wn_id n) m (dv_states s)))
        (open_nodes (va_definition x) (insert (wn_id n) (sd_completed (dv_scheduler s)))) ?refs (ck_effects (dv_checkpoint s))
        (ck_approvals (dv_checkpoint s)) w = (Inr stable, w2)"
    and sv: "save_checkpoint E stable (dv_run s) c w2 = (Inr committed, w1)"
    and passed: "?v = PASSED" "drive_enter E x c committed stable w1 = (Inr (Continue s'), w')"
    unfolding commit_evaluation_def Let_def by (fastforce simp: abind_eq_Inr split: if_splits)
  have m': "m = ?m" using mk_node_state_Inr [OF m] .
  note kc = make_checkpoint_Inr [OF k]
  have "committed_node E c s n committed stable w1"
    by (rule committed_nodeI [OF p sv]) (simp_all add: kc m' passed(1) evaluation_outcome_def)
  with that [OF _ _ passed(2)] kc m' passed(1) show ?thesis by (simp add: evaluation_outcome_def)
qed

text \<open>A pass that goes on has completed the node the scheduler handed out, after the commit of its checkpoint.\<close>

definition advanced :: "'w workflow_runtime \<Rightarrow> validated_workflow \<Rightarrow> workflow_context \<Rightarrow> drive_state \<Rightarrow> workflow_node \<Rightarrow> drive_state \<Rightarrow> bool" where
  "advanced E x c s n s' \<longleftrightarrow> \<not> scheduler_done (dv_scheduler s) \<and> scheduler_next (dv_scheduler s) = Some n \<and> drive_ok x s'
     \<and> sd_completed (dv_scheduler s') = insert (wn_id n) (sd_completed (dv_scheduler s))
     \<and> (\<exists>w. committed_node E c s n (dv_run s') (dv_checkpoint s') w)"

lemma advancedD:
  assumes "advanced E x c s n s'"
  shows "\<not> scheduler_done (dv_scheduler s)" "scheduler_next (dv_scheduler s) = Some n" "drive_ok x s'"
    "sd_completed (dv_scheduler s') = insert (wn_id n) (sd_completed (dv_scheduler s))"
    "\<exists>w. committed_node E c s n (dv_run s') (dv_checkpoint s') w"
  using assms unfolding advanced_def by auto

lemma drive_okD:
  assumes "drive_ok x s"
  shows "scheduler_ok (dv_scheduler s)" "sd_definition (dv_scheduler s) = va_definition x"
    "sd_completed (dv_scheduler s) = set (succeeded_nodes (ck_nodes (dv_checkpoint s)))"
    "sd_completed (dv_scheduler s) \<subseteq> wn_id ` set (wf_nodes (va_definition x))"
  using assms unfolding drive_ok_def scheduler_ok_def by auto

lemma agent_step_Continue:
  assumes step: "agent_step E d c s n w = (Inr (Continue s'), w')" and ok: "drive_ok x s"
    and n: "scheduler_next (dv_scheduler s) = Some n" "\<not> scheduler_done (dv_scheduler s)"
  shows "advanced E x c s n s'"
proof -
  from step obtain y w1 where "commit_agent E d c s n y w1 = (Inr (Continue s'), w')"
    by (auto simp: agent_step_def abind_eq_Inr split: prod.splits sum.splits exn.splits option.splits)
  from commit_agent_Inr [OF this] obtain ref where
    st: "dv_states s' = AList.update (wn_id n) \<lparr>ns_node_id = wn_id n, ns_outcome = NODE_SUCCEEDED, ns_output_ref = Some ref,
       ns_error_ref = None, ns_approval = None\<rparr> (dv_states s)"
    and k: "ck_nodes (dv_checkpoint s') = sort_key ns_node_id (List.map snd (dv_states s'))"
    and sc: "mark_completed (wn_id n) (dv_scheduler s) = Inr (dv_scheduler s')"
    and cm: "committed_node E c s n (dv_run s') (dv_checkpoint s') w'" by auto
  note next_ok = drive_ok_step [OF ok n(1) _ _ k [unfolded st], simplified]
  have "scheduler_ok (dv_scheduler s)" using ok by (simp add: drive_ok_def)
  from mark_completed_ok [OF this sc] next_ok ok st have "drive_ok x s'" by (simp add: drive_ok_def)
  with cm n mark_completed_ok [OF \<open>scheduler_ok (dv_scheduler s)\<close> sc] show ?thesis by (auto simp: advanced_def)
qed

lemma evaluation_step_Continue:
  assumes step: "evaluation_step E x c s n w = (Inr (Continue s'), w')" and ok: "drive_ok x s" and g: "graph_ok (va_definition x)"
    and n: "scheduler_next (dv_scheduler s) = Some n" "\<not> scheduler_done (dv_scheduler s)"
  shows "advanced E x c s n s'"
proof -
  from step obtain y ref w1 w2 where
    p: "persist_output E (dv_run s) n EVALUATION_RESULT_SCHEMA (JObj (evaluation_result_to_data (ep_result y))) (ep_key y) (ep_context y) w1 = (Inr ref, w2)"
    and cm: "commit_evaluation E x c s n y ref w2 = (Inr (Continue s'), w')"
    by (auto simp: evaluation_step_def abind_eq_Inr araise_def split: option.splits)
  obtain r k w3 where
    k: "ck_nodes k = sort_key ns_node_id (List.map snd (AList.update (wn_id n) \<lparr>ns_node_id = wn_id n, ns_outcome = NODE_SUCCEEDED,
       ns_output_ref = Some ref, ns_error_ref = None, ns_approval = None\<rparr> (dv_states s)))"
    and c: "committed_node E c s n r k w3" and en: "drive_enter E x c r k w3 = (Inr (Continue s'), w')"
    by (rule commit_evaluation_Continue [OF cm p [unfolded persist_output_def]]) simp_all
  note next_ok = drive_ok_step [OF ok n(1) _ _ k, simplified]
  from drive_enter_Continue [OF en g next_ok(2)] have s': "drive_ok x s'" "dv_run s' = r" "dv_checkpoint s' = k" by auto
  then have "sd_completed (dv_scheduler s') = insert (wn_id n) (sd_completed (dv_scheduler s))"
    using next_ok(4) by (simp add: drive_ok_def)
  with s' c n show ?thesis by (auto simp: advanced_def)
qed

lemma drive_step_Continue:
  assumes step: "drive_step E x c s w = (Inr (Continue s'), w')" and ok: "drive_ok x s" and g: "graph_ok (va_definition x)"
  obtains n where "advanced E x c s n s'"
proof (cases "scheduler_done (dv_scheduler s)")
  case True
  with step show ?thesis by (simp add: drive_step_def Let_def)
next
  case False
  show ?thesis
  proof (cases "scheduler_next (dv_scheduler s)")
    case None
    with step False show ?thesis by (auto simp: drive_step_def Let_def abind_eq_Inr)
  next
    case (Some n)
    note that = that [of n]
    from Some step False consider "approval_step E c s n w = (Inr (Continue s'), w')"
      | "evaluation_step E x c s n w = (Inr (Continue s'), w')" | "agent_step E (va_definition x) c s n w = (Inr (Continue s'), w')"
      by (auto simp: drive_step_def Let_def araise_def split: if_splits)
    then show ?thesis
    proof cases
      case 1
      then show ?thesis by (auto simp: approval_step_def abind_eq_Inr rbind_eq_Inr)
    next
      case 2
      then show ?thesis by (intro that evaluation_step_Continue [OF _ ok g Some False])
    next
      case 3
      then show ?thesis by (intro that agent_step_Continue [OF _ ok Some False])
    qed
  qed
qed

subsection \<open>Passes in sequence\<close>

inductive drive_path ::
  "'w workflow_runtime \<Rightarrow> validated_workflow \<Rightarrow> workflow_context \<Rightarrow> drive_state \<Rightarrow> 'w \<Rightarrow> node_id list \<Rightarrow> drive_state \<Rightarrow> 'w \<Rightarrow> bool"
  for E x c where
  path_stop: "drive_path E x c s w [] s w"
| path_step: "drive_step E x c s w = (Inr (Continue s1), w1) \<Longrightarrow> scheduler_next (dv_scheduler s) = Some n \<Longrightarrow>
    drive_path E x c s1 w1 ns s' w' \<Longrightarrow> drive_path E x c s w (wn_id n # ns) s' w'"

inductive_cases drive_path_emptyE: "drive_path E x c s w [] s' w'"

lemma drive_path_snoc:
  assumes "drive_path E x c s w ns s1 w1" "drive_step E x c s1 w1 = (Inr (Continue s2), w2)" "scheduler_next (dv_scheduler s1) = Some n"
  shows "drive_path E x c s w (ns @ [wn_id n]) s2 w2"
  using assms by (induction rule: drive_path.induct) (auto intro: drive_path.intros)

text \<open>The checkpoint of a state on the way is the first one or has been saved.\<close>

definition saved_checkpoint :: "'w workflow_runtime \<Rightarrow> workflow_context \<Rightarrow> run \<Rightarrow> checkpoint \<Rightarrow> bool" where
  "saved_checkpoint E c r k \<longleftrightarrow> (\<exists>r0 w w'. save_checkpoint E k r0 c w = (Inr r, w'))"

lemma committed_node_saved: "committed_node E c s n r k w \<Longrightarrow> saved_checkpoint E c r k"
  unfolding committed_node_def saved_checkpoint_def by blast

lemma drive_path_ok:
  assumes "drive_path E x c s w ns s' w'" "drive_ok x s" "graph_ok (va_definition x)"
  shows "drive_ok x s'" "ns = [] \<longrightarrow> s' = s" "ns \<noteq> [] \<longrightarrow> saved_checkpoint E c (dv_run s') (dv_checkpoint s')"
    "sd_completed (dv_scheduler s') = sd_completed (dv_scheduler s) \<union> set ns"
proof -
  have "drive_ok x s' \<and> (ns = [] \<longrightarrow> s' = s) \<and> (ns \<noteq> [] \<longrightarrow> saved_checkpoint E c (dv_run s') (dv_checkpoint s'))
     \<and> sd_completed (dv_scheduler s') = sd_completed (dv_scheduler s) \<union> set ns"
    using assms
  proof (induction rule: drive_path.induct)
    case (path_step s w s1 w1 n ns s' w')
    obtain m where "advanced E x c s m s1" by (rule drive_step_Continue [OF path_step(1,5,6)])
    with path_step(2) have a: "advanced E x c s n s1" by (simp add: advanced_def)
    obtain w2 where "committed_node E c s n (dv_run s1) (dv_checkpoint s1) w2" using advancedD(5) [OF a] by auto
    then have saved: "saved_checkpoint E c (dv_run s1) (dv_checkpoint s1)" by (rule committed_node_saved)
    have ih: "drive_ok x s'" "ns = [] \<longrightarrow> s' = s1" "ns \<noteq> [] \<longrightarrow> saved_checkpoint E c (dv_run s') (dv_checkpoint s')"
      "sd_completed (dv_scheduler s') = sd_completed (dv_scheduler s1) \<union> set ns"
      using path_step(4) [OF advancedD(3) [OF a] path_step(6)] by simp_all
    have "saved_checkpoint E c (dv_run s') (dv_checkpoint s')" using ih(2,3) saved by (cases "ns = []") simp_all
    with ih(1,4) advancedD(4) [OF a] show ?case by simp
  qed simp
  then show "drive_ok x s'" "ns = [] \<longrightarrow> s' = s" "ns \<noteq> [] \<longrightarrow> saved_checkpoint E c (dv_run s') (dv_checkpoint s')"
    "sd_completed (dv_scheduler s') = sd_completed (dv_scheduler s) \<union> set ns" by simp_all
qed

subsection \<open>The order of the nodes\<close>

lemma scheduler_unique:
  assumes "scheduler_ok s" "scheduler_ok s'" "sd_definition s = sd_definition s'" "sd_completed s = sd_completed s'"
  shows "s = (s' :: scheduler)"
proof -
  have "sd_dependencies s = sd_dependencies s'" using assms by (auto simp: scheduler_ok_def)
  moreover have "sd_nodes s = sd_nodes s'" using assms by (simp add: scheduler_ok_def)
  ultimately show ?thesis using assms by simp
qed

lemma drive_path_order:
  assumes "drive_path E x c s w ns s' w'" "drive_ok x s" "graph_ok (va_definition x)"
    "dispatch_order k (dv_scheduler s) = Inr order"
  shows "List.length ns \<le> k \<Longrightarrow> ns = take (List.length ns) order"
  using assms
proof (induction arbitrary: k order rule: drive_path.induct)
  case (path_step s w s1 w1 n ns s' w')
  let ?s = "dv_scheduler s"
  obtain m where "advanced E x c s m s1" by (rule drive_step_Continue [OF path_step(1,6,7)])
  with path_step(2) have a: "advanced E x c s n s1" by (simp add: advanced_def)
  have ok: "scheduler_ok ?s" using path_step(6) by (simp add: drive_ok_def)
  obtain k' where k: "k = Suc k'" using path_step(5) by (cases k) auto
  with path_step(8,2) obtain t order' where t: "mark_completed (wn_id n) ?s = Inr t" "dispatch_order k' t = Inr order'"
    "order = wn_id n # order'" by (auto simp: result_simps)
  note t' = mark_completed_ok [OF ok t(1)] and a' = drive_okD [OF advancedD(3) [OF a]] and s' = drive_okD [OF path_step(6)]
  have "t = dv_scheduler s1"
    by (rule scheduler_unique) (use t' a'(1,2) s'(2) advancedD(4) [OF a] in auto)
  with t path_step(4) [of k' order', OF _ advancedD(3) [OF a] path_step(7)] path_step(5) k show ?case by simp
qed simp

subsection \<open>The end of the loop\<close>

lemma drive_ok_node:
  assumes "drive_ok x s" "graph_ok (va_definition x)"
  shows "sd_completed (dv_scheduler s) \<subseteq> wn_id ` set (wf_nodes (va_definition x))"
    "card (sd_completed (dv_scheduler s)) \<le> List.length (wf_nodes (va_definition x))"
    "scheduler_done (dv_scheduler s) \<longleftrightarrow> sd_completed (dv_scheduler s) = wn_id ` set (wf_nodes (va_definition x))"
proof -
  let ?N = "wn_id ` set (wf_nodes (va_definition x))" and ?s = "dv_scheduler s"
  show sub: "sd_completed ?s \<subseteq> ?N" by (rule drive_okD(4) [OF assms(1)])
  have d: "distinct (List.map wn_id (wf_nodes (va_definition x)))" using assms(2) by (simp add: graph_ok_def)
  then have len: "card ?N = List.length (wf_nodes (va_definition x))" using distinct_card [OF d] by simp
  show "card (sd_completed ?s) \<le> List.length (wf_nodes (va_definition x))" using card_mono [OF _ sub] len by simp
  have "List.length (sd_nodes ?s) = card ?N"
    using drive_okD(1,2) [OF assms(1)] d len by (simp add: scheduler_ok_def node_dict_distinct)
  then show "scheduler_done ?s \<longleftrightarrow> sd_completed ?s = ?N"
    using card_subset_eq [OF _ sub] by (auto simp: scheduler_done_def)
qed

lemma drive_loop_terminates:
  assumes "drive_ok x s" "graph_ok (va_definition x)"
    "List.length (wf_nodes (va_definition x)) < fuel + card (sd_completed (dv_scheduler s))"
  shows "drive_loop E x c fuel s w \<noteq> None"
  using assms
proof (induction fuel arbitrary: s w)
  case 0
  then show ?case using drive_ok_node(2) [OF 0(1,2)] by simp
next
  case (Suc fuel)
  show ?case
  proof (cases "\<exists>s' w'. drive_step E x c s w = (Inr (Continue s'), w')")
    case True
    then obtain s' w' where step: "drive_step E x c s w = (Inr (Continue s'), w')" by blast
    obtain n where a: "advanced E x c s n s'" by (rule drive_step_Continue [OF step Suc(2,3)])
    note ok = drive_okD(1) [OF Suc(2)]
    from scheduler_next_cases(2) [OF ok advancedD(2) [OF a]] ready_ids_mem [OF ok, of "wn_id n"]
    have "wn_id n \<notin> sd_completed (dv_scheduler s)" by auto
    moreover have "finite (sd_completed (dv_scheduler s))"
      using drive_ok_node(1) [OF Suc(2,3)] finite_subset by blast
    ultimately have "card (sd_completed (dv_scheduler s')) = Suc (card (sd_completed (dv_scheduler s)))"
      by (simp add: advancedD(4) [OF a])
    with Suc(4) have "List.length (wf_nodes (va_definition x)) < fuel + card (sd_completed (dv_scheduler s'))" by simp
    with Suc(1) [OF advancedD(3) [OF a] Suc(3)] step show ?thesis by (simp add: after_progress_def)
  next
    case False
    then show ?thesis by (auto simp: after_progress_def split: prod.splits sum.splits progress.splits)
  qed
qed

lemma drive_loop_Inr:
  assumes "drive_loop E x c fuel s w = Some (Inr out, w')" "drive_ok x s" "graph_ok (va_definition x)"
  shows "\<exists>ns s1 w1. drive_path E x c s w ns s1 w1 \<and> drive_step E x c s1 w1 = (Inr (Finished out), w')"
  using assms
proof (induction fuel arbitrary: s w)
  case (Suc fuel)
  from Suc(2) consider "drive_step E x c s w = (Inr (Finished out), w')"
    | s' w1 where "drive_step E x c s w = (Inr (Continue s'), w1)" "drive_loop E x c fuel s' w1 = Some (Inr out, w')"
    by (auto simp: after_progress_def split: prod.splits sum.splits progress.splits)
  then show ?case
  proof cases
    case 1
    then show ?thesis by (intro exI conjI) (rule path_stop)
  next
    case 2
    obtain n where a: "advanced E x c s n s'" by (rule drive_step_Continue [OF 2(1) Suc(3,4)])
    from Suc(1) [OF 2(2) advancedD(3) [OF a] Suc(4)] obtain ns s1 w2 where
      p: "drive_path E x c s' w1 ns s1 w2" "drive_step E x c s1 w2 = (Inr (Finished out), w')" by auto
    show ?thesis by (intro exI conjI) (rule path_step [OF 2(1) advancedD(2) [OF a] p(1)], rule p(2))
  qed
qed simp

subsection \<open>Recorded outputs\<close>

text \<open>The reference the loop holds for a node is the one the node's state in the checkpoint names.\<close>

definition recorded_output :: "checkpoint \<Rightarrow> node_id \<Rightarrow> checkpoint_reference \<Rightarrow> bool" where
  "recorded_output k i ref \<longleftrightarrow> (\<exists>m \<in> set (ck_nodes k). ns_node_id m = i \<and> ns_output_ref m = Some ref)"

definition outputs_recorded :: "drive_state \<Rightarrow> bool" where
  "outputs_recorded s \<longleftrightarrow> (\<forall>i ref. map_of (dv_outputs s) i = Some ref \<longrightarrow> recorded_output (dv_checkpoint s) i ref)"

lemma output_refs_recorded:
  assumes "distinct (List.map ns_node_id (ck_nodes k))" "map_of (output_refs_of d (states_of (ck_nodes k))) i = Some ref"
  shows "recorded_output k i ref"
  using map_of_SomeD [OF assms(2)]
  by (auto simp: output_refs_of_def List.map_filter_def states_of_distinct [OF assms(1)] recorded_output_def split: if_splits)

lemma drive_enter_outputs:
  assumes "drive_enter E x c r k w = (Inr (Continue s), w')" "distinct (List.map ns_node_id (ck_nodes k))"
  shows "outputs_recorded s"
proof -
  from assms(1) have "dv_outputs s = output_refs_of (va_definition x) (states_of (ck_nodes k))" "dv_checkpoint s = k"
    by (auto simp: drive_enter_def Let_def abind_eq_Inr split: option.splits)
  with output_refs_recorded [OF assms(2)] show ?thesis by (simp add: outputs_recorded_def)
qed

lemma commit_agent_outputs:
  assumes "commit_agent E d c s n x w = (Inr (Continue s'), w')" "drive_ok y s" "outputs_recorded s"
  shows "outputs_recorded s'"
proof -
  from assms(1) obtain ref where o: "dv_outputs s' = AList.update (wn_id n) ref (dv_outputs s)"
    and st: "dv_states s' = AList.update (wn_id n) \<lparr>ns_node_id = wn_id n, ns_outcome = NODE_SUCCEEDED, ns_output_ref = Some ref,
       ns_error_ref = None, ns_approval = None\<rparr> (dv_states s)"
    by (auto simp: commit_agent_def Let_def abind_eq_Inr araise_def dest!: mk_node_state_Inr split: option.splits if_splits)
  from commit_agent_Inr [OF assms(1)] have k: "ck_nodes (dv_checkpoint s') = sort_key ns_node_id (List.map snd (dv_states s'))"
    by blast
  have keyed: "keyed (dv_states s)" and nodes: "set (ck_nodes (dv_checkpoint s)) = snd ` set (dv_states s)"
    using assms(2) by (auto simp: drive_ok_def)
  have upd: "set (dv_states s') = insert (wn_id n, \<lparr>ns_node_id = wn_id n, ns_outcome = NODE_SUCCEEDED, ns_output_ref = Some ref,
       ns_error_ref = None, ns_approval = None\<rparr>) {p \<in> set (dv_states s). fst p \<noteq> wn_id n}"
    unfolding st using keyed by (simp add: keyed_def update_entries)
  show ?thesis
    unfolding outputs_recorded_def
  proof (intro allI impI)
    fix i g assume g: "map_of (dv_outputs s') i = Some g"
    show "recorded_output (dv_checkpoint s') i g"
    proof (cases "i = wn_id n")
      case True
      with g o show ?thesis by (simp add: recorded_output_def k upd)
    next
      case False
      with g o assms(3) have "recorded_output (dv_checkpoint s) i g" by (simp add: outputs_recorded_def)
      then obtain j m where m: "(j, m) \<in> set (dv_states s)" "ns_node_id m = i" "ns_output_ref m = Some g"
        by (auto simp: recorded_output_def nodes)
      moreover from this keyed have "j = i" by (auto simp: keyed_def)
      ultimately have "(i, m) \<in> set (dv_states s')" using False by (simp add: upd)
      with m show ?thesis unfolding recorded_output_def k by force
    qed
  qed
qed

lemma drive_step_outputs:
  assumes step: "drive_step E x c s w = (Inr (Continue s'), w')" and ok: "drive_ok x s" and g: "graph_ok (va_definition x)"
    and rec: "outputs_recorded s"
  shows "outputs_recorded s'"
proof -
  from step obtain n where notdone: "\<not> scheduler_done (dv_scheduler s)" and n: "scheduler_next (dv_scheduler s) = Some n"
    and cases: "approval_step E c s n w = (Inr (Continue s'), w') \<or> evaluation_step E x c s n w = (Inr (Continue s'), w')
      \<or> agent_step E (va_definition x) c s n w = (Inr (Continue s'), w')"
    by (auto simp: drive_step_def Let_def araise_def abind_eq_Inr split: if_splits option.splits)
  from cases show ?thesis
  proof (elim disjE)
    assume "approval_step E c s n w = (Inr (Continue s'), w')"
    then show ?thesis by (auto simp: approval_step_def abind_eq_Inr rbind_eq_Inr)
  next
    assume "evaluation_step E x c s n w = (Inr (Continue s'), w')"
    then obtain y ref w1 w2 where
      p: "persist_output E (dv_run s) n EVALUATION_RESULT_SCHEMA (JObj (evaluation_result_to_data (ep_result y))) (ep_key y) (ep_context y) w1 = (Inr ref, w2)"
      and cm: "commit_evaluation E x c s n y ref w2 = (Inr (Continue s'), w')"
      by (auto simp: evaluation_step_def abind_eq_Inr araise_def split: option.splits)
    obtain r k w3 where
      k: "ck_nodes k = sort_key ns_node_id (List.map snd (AList.update (wn_id n) \<lparr>ns_node_id = wn_id n, ns_outcome = NODE_SUCCEEDED,
         ns_output_ref = Some ref, ns_error_ref = None, ns_approval = None\<rparr> (dv_states s)))"
      and en: "drive_enter E x c r k w3 = (Inr (Continue s'), w')"
      by (rule commit_evaluation_Continue [OF cm p [unfolded persist_output_def]]) simp_all
    show ?thesis by (rule drive_enter_outputs [OF en drive_ok_step(2) [OF ok n _ _ k]]) simp_all
  next
    assume "agent_step E (va_definition x) c s n w = (Inr (Continue s'), w')"
    then obtain y w1 where "commit_agent E (va_definition x) c s n y w1 = (Inr (Continue s'), w')"
      by (auto simp: agent_step_def abind_eq_Inr split: prod.splits sum.splits exn.splits option.splits)
    then show ?thesis by (rule commit_agent_outputs [OF _ ok rec])
  qed
qed

lemma drive_path_outputs:
  assumes "drive_path E x c s w ns s' w'" "drive_ok x s" "graph_ok (va_definition x)" "outputs_recorded s"
  shows "outputs_recorded s'"
  using assms
proof (induction rule: drive_path.induct)
  case (path_step s w s1 w1 n ns s' w')
  obtain m where "advanced E x c s m s1" by (rule drive_step_Continue [OF path_step(1,5,6)])
  then have "drive_ok x s1" by (rule advancedD(3))
  with path_step drive_step_outputs [OF path_step(1,5,6,7)] show ?case by simp
qed simp

end
