(* ===== verification/Workflow_Terminal.thy ===== *)
theory Workflow_Terminal
  imports Workflow_Loop
begin

section \<open>How executions end\<close>

text \<open>
  Which pass of the loop can end in success, and what has happened before it: every node is recorded
  as succeeded, the final output has been loaded through the boundary and validated, and the Run has
  been completed.
\<close>

definition successful :: "workflow_outcome \<Rightarrow> bool" where
  "successful out \<longleftrightarrow> (case oc_result out of None \<Rightarrow> False | Some res \<Rightarrow> r_status (wr_run res) = SUCCEEDED)"

lemma suspended_outcome_Inr: "suspended_outcome x = Inr out \<Longrightarrow> oc_result out = None"
  by (auto simp: suspended_outcome_def mk_workflow_outcome_def split: if_splits)

lemma terminal_outcome_Inr: "terminal_outcome x = Inr out \<Longrightarrow> oc_result out = Some x \<and> oc_suspension out = None"
  by (auto simp: terminal_outcome_def mk_workflow_outcome_def split: if_splits)

lemma mk_workflow_result_Inr:
  "mk_workflow_result x = Inr y \<Longrightarrow> y = x \<and> terminal (r_status (wr_run x)) \<and> (r_status (wr_run x) = SUCCEEDED \<longleftrightarrow> wr_error x = None)"
  by (auto simp: mk_workflow_result_def split: if_splits)

lemma failed_result_outcome:
  "rbind (mk_workflow_result x) terminal_outcome = Inr out \<Longrightarrow> wr_error x \<noteq> None \<Longrightarrow> \<not> successful out"
  by (auto simp: rbind_eq_Inr successful_def dest!: mk_workflow_result_Inr terminal_outcome_Inr)

lemma terminal_failure_Inr: "terminal_failure E r detail d states w = (Inr out, w') \<Longrightarrow> \<not> successful out"
  unfolding terminal_failure_def by (auto simp: abind_eq_Inr dest: failed_result_outcome)

lemma suspension_at_Inr: "suspension_at r k a = Inr out \<Longrightarrow> \<not> successful out"
  by (auto simp: suspension_at_def rbind_eq_Inr successful_def dest: suspended_outcome_Inr)

lemma drive_waiting_Inr: "drive_waiting E r k a w = (Inr out, w') \<Longrightarrow> \<not> successful out"
  by (auto simp: drive_waiting_def abind_eq_Inr dest: suspension_at_Inr)

lemma drive_enter_Finished: "drive_enter E x c r k w = (Inr (Finished out), w') \<Longrightarrow> \<not> successful out"
  by (auto simp: drive_enter_def Let_def abind_eq_Inr dest: drive_waiting_Inr terminal_failure_Inr split: option.splits)

lemma approval_step_Finished: "approval_step E c s n w = (Inr (Finished out), w') \<Longrightarrow> \<not> successful out"
  by (auto simp: approval_step_def abind_eq_Inr rbind_eq_Inr successful_def dest: suspended_outcome_Inr)

lemma evaluation_step_Finished: "evaluation_step E x c s n w = (Inr (Finished out), w') \<Longrightarrow> \<not> successful out"
  by (auto simp: evaluation_step_def commit_evaluation_def Let_def abind_eq_Inr araise_def split: option.splits if_splits
      dest: drive_enter_Finished terminal_failure_Inr)

lemma agent_step_Finished:
  assumes "agent_step E d c s n w = (Inr (Finished out), w')"
  shows "\<not> successful out"
proof -
  have "commit_agent E d c s n x w1 \<noteq> (Inr (Finished out), w')" for x w1
    using commit_agent_Inr [of E d c s n x w1 "Finished out" w'] by auto
  with assms show ?thesis
    by (auto simp: agent_step_def abind_eq_Inr dest: terminal_failure_Inr split: prod.splits sum.splits exn.splits option.splits)
qed

lemma drive_step_successful:
  assumes "drive_step E x c s w = (Inr (Finished out), w')" "successful out"
  shows "scheduler_done (dv_scheduler s)
    \<and> terminal_success E (va_definition x) (dv_run s) (wc_runtime c) (dv_checkpoint s) (dv_states s) (dv_outputs s) w = (Inr out, w')"
proof (cases "scheduler_done (dv_scheduler s)")
  case True
  with assms(1) show ?thesis by (simp add: drive_step_def Let_def)
next
  case False
  with assms show ?thesis
    by (auto simp: drive_step_def Let_def abind_eq_Inr araise_def split: option.splits if_splits
        dest: terminal_failure_Inr approval_step_Finished evaluation_step_Finished agent_step_Finished)
qed

lemma terminal_success_Inr:
  assumes "terminal_success E d r ctx k states refs w = (Inr out, w')"
  obtains source schema ref v w1 completed where
    "first_node d (ob_node (wf_output d)) = Inr source" "wn_output_schema source = Some schema" "map_of refs (ob_node (wf_output d)) = Some ref"
    "load_output E (r_id r) (ob_node (wf_output d)) schema ref (wn_scope source) ctx w = (Inr v, w1)"
    "validate_value (wk_schemas E) (wf_output_schema d) v = Inr ()"
    "sv_complete (wk_runs E) (r_id r) (r_version r) w1 = (Inr completed, w')"
    "oc_result out = Some \<lparr>wr_run = completed, wr_output = v, wr_error = None, wr_output_refs = public_output_refs d states,
       wr_checkpoint = Some (ck_id k)\<rparr>"
    "r_status completed = SUCCEEDED"
proof -
  let ?i = "ob_node (wf_output d)"
  from assms obtain source where s: "first_node d ?i = Inr source"
    by (auto simp: terminal_success_def Let_def abind_eq_Inr)
  show ?thesis
  proof (cases "map_of refs ?i"; cases "wn_output_schema source")
    fix ref schema
    assume r: "map_of refs ?i = Some ref" "wn_output_schema source = Some schema"
    from assms s r obtain v w1 completed where p:
      "load_output E (r_id r) ?i schema ref (wn_scope source) ctx w = (Inr v, w1)"
      "validate_value (wk_schemas E) (wf_output_schema d) v = Inr ()"
      "sv_complete (wk_runs E) (r_id r) (r_version r) w1 = (Inr completed, w')"
      "rbind (mk_workflow_result \<lparr>wr_run = completed, wr_output = v, wr_error = None, wr_output_refs = public_output_refs d states,
         wr_checkpoint = Some (ck_id k)\<rparr>) terminal_outcome = Inr out"
      unfolding terminal_success_def Let_def by (auto simp: abind_eq_Inr require_workflow_result_def araise_def split: if_splits)
    from p(4) show ?thesis
      by (intro that [OF s r(2,1) p(1-3)]) (auto simp: rbind_eq_Inr dest!: mk_workflow_result_Inr terminal_outcome_Inr)
  qed (use assms s in \<open>simp_all add: terminal_success_def Let_def abind_eq_Inr araise_def\<close>)
qed

subsection \<open>Executions from the outside\<close>

text \<open>Every checkpoint the gateway loads is an instance of the class, so its constructor accepted it.\<close>

definition loads_checkpoints :: "'w workflow_runtime \<Rightarrow> bool" where
  "loads_checkpoints E \<longleftrightarrow>
     (\<forall>p i r s ctx w k w'. gw_load (wk_gateway E) p i r s ctx w = (Inr k, w') \<longrightarrow> mk_checkpoint k = Inr k)"

lemma mk_checkpoint_nodes: "mk_checkpoint k = Inr k \<Longrightarrow> distinct (List.map ns_node_id (ck_nodes k))"
  by (auto simp: mk_checkpoint_Inr checkpoint_identity_check_def rbind_eq_Inr require_unique_def split: if_splits)

lemma validation_failure_Inr: "validation_failure E i detail w = (Inr out, w') \<Longrightarrow> \<not> successful out"
  unfolding validation_failure_def by (auto simp: abind_eq_Inr dest: failed_result_outcome)

lemma execute_prepare_Finished:
  assumes "execute_prepare E d c w = (Inr (Finished out), w')"
  shows "\<not> successful out"
proof -
  from assms obtain r k where "stored_suspension r k = Inr out"
    by (auto simp: execute_prepare_def abind_eq_Inr araise_def split: if_splits)
  then show ?thesis by (auto simp: stored_suspension_def rbind_eq_Inr dest: suspension_at_Inr split: option.splits)
qed

lemma execute_prepare_Continue:
  assumes "execute_prepare E d c w = (Inr (Continue (r, k)), w')" "loads_checkpoints E"
  shows "mk_checkpoint k = Inr k"
proof -
  from assms(1) consider (first) r0 w0 w1 where "first_checkpoint E d r0 c w0 = (Inr (r, k), w1)"
    | (loaded) r0 w0 w1 where "load_checkpoint E r0 (wc_runtime c) w0 = (Inr k, w1)"
    by (auto simp: execute_prepare_def abind_eq_Inr araise_def split: if_splits)
  then show ?thesis
  proof cases
    case first
    then show ?thesis by (auto simp: first_checkpoint_def abind_eq_Inr dest: make_checkpoint_Inr(7))
  next
    case loaded
    then obtain i where "gw_load (wk_gateway E) (wk_provider E) i (r_id r0) (r_scope r0) (wc_runtime c) w0 = (Inr k, w1)"
      by (auto simp: load_checkpoint_def araise_def split: option.splits)
    with assms(2) show ?thesis unfolding loads_checkpoints_def by metis
  qed
qed

lemma validated_input_graph:
  "validated_input E d c = Inr x \<Longrightarrow> va_definition x = d \<and> graph_ok d"
  by (auto simp: validated_input_def rbind_eq_Inr validate_workflow_Inr workflow_valid_def)

text \<open>A successful execution, world by world: each step starts where the one before it ended.\<close>

lemma workflow_execute_successful_chain:
  assumes run: "workflow_execute E fuel d c w = Some (Inr out, w')" "successful out" and loads: "loads_checkpoints E"
  obtains x r k s w1 w2 ns s1 w3 where
    "validated_input E d c = Inr x" "execute_prepare E d c w = (Inr (Continue (r, k)), w1)"
    "drive_enter E x c r k w1 = (Inr (Continue s), w2)" "dv_run s = r" "dv_checkpoint s = k"
    "drive_path E x c s w2 ns s1 w3" "drive_ok x s" "drive_ok x s1" "outputs_recorded s1" "scheduler_done (dv_scheduler s1)"
    "terminal_success E d (dv_run s1) (wc_runtime c) (dv_checkpoint s1) (dv_states s1) (dv_outputs s1) w3 = (Inr out, w')"
proof -
  obtain x where x: "validated_input E d c = Inr x"
    using run validation_failure_Inr by (cases "validated_input E d c") (fastforce simp: workflow_execute_def split: exn.splits)+
  note g = validated_input_graph [OF x]
  from run x execute_prepare_Finished obtain r k w1 where p: "execute_prepare E d c w = (Inr (Continue (r, k)), w1)"
    "drive E x c fuel r k w1 = Some (Inr out, w')"
    by (fastforce simp: workflow_execute_def after_progress_def split: prod.splits sum.splits progress.splits)
  have k: "distinct (List.map ns_node_id (ck_nodes k))"
    using execute_prepare_Continue [OF p(1) loads] by (rule mk_checkpoint_nodes)
  from p(2) run(2) drive_enter_Finished obtain s w2 where en: "drive_enter E x c r k w1 = (Inr (Continue s), w2)"
    "drive_loop E x c fuel s w2 = Some (Inr out, w')"
    by (fastforce simp: drive_def after_progress_def split: prod.splits sum.splits progress.splits)
  from g have gx: "graph_ok (va_definition x)" by simp
  from drive_enter_Continue [OF en(1) gx k] have ok: "drive_ok x s" "dv_run s = r" "dv_checkpoint s = k" by simp_all
  from drive_loop_Inr [OF en(2) ok(1) gx] obtain ns s1 w3 where path: "drive_path E x c s w2 ns s1 w3"
    and fin: "drive_step E x c s1 w3 = (Inr (Finished out), w')" by auto
  have rec: "outputs_recorded s1" by (rule drive_path_outputs [OF path ok(1) gx drive_enter_outputs [OF en(1) k]])
  from drive_step_successful [OF fin run(2)] g
  have done1: "scheduler_done (dv_scheduler s1)"
    "terminal_success E d (dv_run s1) (wc_runtime c) (dv_checkpoint s1) (dv_states s1) (dv_outputs s1) w3 = (Inr out, w')" by simp_all
  show ?thesis by (rule that [OF x p(1) en(1) ok(2,3) path ok(1) drive_path_ok(1) [OF path ok(1) gx] rec done1])
qed

lemma workflow_execute_terminates:
  assumes "loads_checkpoints E" "List.length (wf_nodes d) < fuel"
  shows "workflow_execute E fuel d c w \<noteq> None"
proof (cases "validated_input E d c")
  case (Inr x)
  note g = validated_input_graph [OF Inr]
  have loop: "drive E x c fuel r k w1 \<noteq> None" if "mk_checkpoint k = Inr k" for r k w1
  proof (cases "\<exists>s w2. drive_enter E x c r k w1 = (Inr (Continue s), w2)")
    case True
    then obtain s w2 where en: "drive_enter E x c r k w1 = (Inr (Continue s), w2)" by auto
    have ok: "drive_ok x s" using drive_enter_Continue [OF en _ mk_checkpoint_nodes [OF that]] g by simp
    have "drive_loop E x c fuel s w2 \<noteq> None" by (rule drive_loop_terminates [OF ok]) (use g assms(2) in auto)
    with en show ?thesis by (simp add: drive_def after_progress_def)
  next
    case False
    then show ?thesis by (auto simp: drive_def after_progress_def split: prod.splits sum.splits progress.splits)
  qed
  show ?thesis
    using Inr loop execute_prepare_Continue [OF _ assms(1)]
    by (fastforce simp: workflow_execute_def after_progress_def split: prod.splits sum.splits progress.splits)
qed (simp add: workflow_execute_def)

end
