(* ===== verification/Workflow_Properties.thy ===== *)
theory Workflow_Properties
  imports Workflow_Terminal Samples
begin

section \<open>A concrete workflow\<close>

text \<open>
  One Agent node that reads the workflow input and whose output is the output of the workflow, and a
  runtime around it: the world is the stored Run and a counter for fresh identifiers, the store of
  checkpoints knows the first one, the policy grants what it is asked.
\<close>

definition sample_text :: schema_ref where
  "sample_text = \<lparr>sm_namespace = ''core'', sm_name = ''text'', sm_version = ''1''\<rparr>"

definition sample_agent_config :: agent_node_config where
  "sample_agent_config = \<lparr>an_agent_id = ''a1'', an_definition_id = ''d2'', an_model_binding = ''m1''\<rparr>"

definition sample_node_scope :: scope_ref where
  "sample_node_scope = ScopeRef ''core'' ''run'' ''r1'' None"

definition sample_node :: "node_id \<Rightarrow> workflow_input_binding \<Rightarrow> workflow_node" where
  "sample_node i b = \<lparr>wn_id = i, wn_type = ''agent'', wn_contract = ''1'', wn_input_schema = Some sample_text,
     wn_bindings = [b], wn_output_schema = Some sample_text, wn_scope = sample_node_scope,
     wn_permissions = [\<lparr>pm_action = WORKFLOW_NODE_EXECUTE_ACTION, pm_resource = \<lparr>rs_namespace = ''core'', rs_kind = ''node'',
       rs_id = ''n1'', rs_owner = None\<rparr>\<rparr>], wn_timeout = None, wn_retry_limit = 0, wn_side_effecting = True,
     wn_idempotency = True, wn_checkpoint = True, wn_config = AgentConfig sample_agent_config\<rparr>"

definition sample_workflow :: workflow_definition where
  "sample_workflow = \<lparr>wf_id = ''wf1'', wf_definition_id = ''d1'', wf_version = ''1'', wf_input_schema = sample_text,
     wf_nodes = [sample_node ''n1'' \<lparr>ib_source = FROM_WORKFLOW_INPUT, ib_node = None\<rparr>], wf_dependencies = [],
     wf_output_schema = sample_text, wf_output = \<lparr>ob_node = ''n1'', ob_required = True\<rparr>,
     wf_policy = default_execution_policy, wf_contract = ''1''\<rparr>"

type_synonym sample_world = "run \<times> nat"

definition sample_move :: "run_status \<Rightarrow> (sample_world, exn, run) action" where
  "sample_move s = (\<lambda>(r, k). let r' = r\<lparr>r_status := s, r_version := r_version r + 1\<rparr> in (Inr r', (r', k)))"

definition sample_runs_port :: "sample_world workflow_runs" where
  "sample_runs_port = \<lparr>sv_get = (\<lambda>i (r, k). (Inr r, (r, k))), sv_create = areturn, sv_start = (\<lambda>i v. sample_move STARTING),
     sv_advance = (\<lambda>i v s. sample_move s), sv_complete = (\<lambda>i v. sample_move SUCCEEDED),
     sv_fail = (\<lambda>i v e. sample_move FAILED), sv_cancel = (\<lambda>i v. sample_move CANCELLED)\<rparr>"

definition sample_mark :: "checkpoint_id \<Rightarrow> (sample_world, exn, run) action" where
  "sample_mark c = (\<lambda>(r, k). let r' = r\<lparr>r_variant := WorkflowRun ''wf1'' ''1'' (Some c), r_version := r_version r + 1\<rparr> in (Inr r', (r', k)))"

definition sample_zero :: string where
  "sample_zero = replicate 64 (CHR ''0'')"

definition sample_first :: checkpoint where
  "sample_first = \<lparr>ck_contract = ''1'', ck_id = ''f'', ck_run_id = ''r1'', ck_workflow_id = ''wf1'', ck_definition_id = ''d1'',
     ck_graph_version = ''1'', ck_scope = sample_node_scope, ck_sequence = 1, ck_attempt = 1, ck_previous = None, ck_nodes = [],
     ck_pending = [''n1''], ck_external = [], ck_effects = [], ck_approvals = [], ck_created_at = sample_time 5,
     ck_integrity = \<lparr>ci_algorithm = ''sha256'', ci_digest = sample_zero\<rparr>\<rparr>"

definition sample_run_gate :: "sample_world coordinator" where
  "sample_run_gate = \<lparr>co_gateway = \<lparr>gw_save = (\<lambda>p c ctx. areturn (ck_id c)), gw_load = (\<lambda>p i r s ctx. areturn sample_first),
       gw_list = (\<lambda>q ctx. araise (ValueError [])), gw_delete = (\<lambda>q ctx. araise (ValueError []))\<rparr>,
     co_runs = \<lparr>rp_get = (\<lambda>i (r, k). (Inr r, (r, k))), rp_commit = (\<lambda>i v c p d g. sample_mark c),
       rp_recover = (\<lambda>i v c. araise (ValueError [])), rp_fail = (\<lambda>i v e. sample_move FAILED), rp_advance = (\<lambda>i v s. sample_move s)\<rparr>,
     co_events = \<lparr>ce_saved = (\<lambda>c r ctx. areturn ()), ce_failed = (\<lambda>c d ctx. areturn ()), ce_migrated = (\<lambda>c d ctx. areturn ()),
       ce_fallback = (\<lambda>i c ctx. areturn ())\<rparr>,
     co_digest = (\<lambda>_. sample_zero)\<rparr>"

definition sample_grants :: "sample_world dispatcher" where
  "sample_grants = \<lparr>di_actions = map_of (List.map (\<lambda>a. (action_key a, a)) workflow_actions),
     di_audit_denied = (\<lambda>q d. areturn ()), di_audit_granted = (\<lambda>q g. areturn ()), di_audit_failure = (\<lambda>i e. areturn ()),
     di_clock = (\<lambda>_. sample_time 5), di_policy = Some (\<lambda>q. areturn (allow \<lparr>gr_principal = aq_principal q, gr_action = aq_action q,
       gr_resource = aq_resource q, gr_source_scope = aq_scope q, gr_effective_scope = aq_scope q, gr_constraints = aq_constraints q,
       gr_issued_at = sample_time 4, gr_expires_at = None, gr_policy_version = ''1'', gr_audit_correlation = ''k1''\<rparr>))\<rparr>"

definition sample_output_ref :: checkpoint_reference where
  "sample_output_ref = \<lparr>kr_type = ''workflow_node_output'', kr_resource = \<lparr>rs_namespace = ''core'', rs_kind = ''output'',
     rs_id = ''o1'', rs_owner = None\<rparr>, kr_scope = sample_node_scope, kr_version = Some ''1''\<rparr>"

definition sample_answer :: agent_result where
  "sample_answer = \<lparr>ag_run = sample_created\<lparr>r_status := SUCCEEDED\<rparr>, ag_response = Some \<lparr>mr_output = [], mr_finish = FINISH_STOP,
     mr_usage = \<lparr>mu_input = 1, mu_output = 1, mu_unit = ''token''\<rparr>, mr_provider = ''p1'', mr_model = ''m1'', mr_structured = JStr ''ok'',
     mr_tools = [], mr_warnings = [], mr_provenance = []\<rparr>, ag_error = None\<rparr>"

definition sample_schemas :: schema_registry where
  "sample_schemas = [schema_key sample_text \<mapsto> (\<lambda>v. case v of JStr _ \<Rightarrow> Inr () | _ \<Rightarrow> Inl (ValueError ''not a text''))]"

definition sample_runtime :: "sample_world workflow_runtime" where
  "sample_runtime = \<lparr>wk_validator = \<lparr>wv_schemas = sample_schemas, wv_actions = map_of (List.map (\<lambda>a. (action_key a, a)) workflow_actions),
       wv_supported = default_supported\<rparr>,
     wk_runs = sample_runs_port, wk_agents = (\<lambda>i blocks ctx. areturn sample_answer), wk_dispatcher = sample_grants,
     wk_outputs = \<lparr>no_persist = (\<lambda>q ctx. areturn sample_output_ref), no_load = (\<lambda>q ctx. areturn (JStr ''ok''))\<rparr>,
     wk_schemas = sample_schemas, wk_checkpoints = sample_run_gate, wk_gateway = co_gateway sample_run_gate, wk_provider = ''p1'',
     wk_recovery = \<lparr>rv_coordinator = sample_run_gate, rv_migrators = Map.empty, rv_restore = (\<lambda>c ctx. areturn ()),
       rv_audit_failure = (\<lambda>i e. areturn ())\<rparr>,
     wk_approvals = \<lparr>ap_checkpoints = sample_run_gate, ap_gateway = co_gateway sample_run_gate, ap_runs = co_runs sample_run_gate,
       ap_cancel = (\<lambda>i v. sample_move CANCELLED), ap_dispatcher = sample_grants, ap_audit_failure = (\<lambda>i e. areturn ()),
       ap_clock = (\<lambda>_. sample_time 5), ap_requested = (\<lambda>a ctx. areturn ()), ap_decided = (\<lambda>x ctx. areturn ())\<rparr>,
     wk_evaluations = None, wk_clock = (\<lambda>_. sample_time 5), wk_fresh = (\<lambda>(r, k). (CHR ''f'' # replicate k (CHR ''x''), (r, k + 1))),
     wk_digest = (\<lambda>_. sample_zero), wk_text_digest = (\<lambda>_. sample_zero), wk_value_digest = (\<lambda>_. sample_zero),
     wk_pylib = sample_library\<rparr>"

definition sample_wrun :: "run_status \<Rightarrow> checkpoint_id option \<Rightarrow> run" where
  "sample_wrun s c = sample_created\<lparr>r_kind := KIND_WORKFLOW, r_status := s, r_variant := WorkflowRun ''wf1'' ''1'' c\<rparr>"

definition sample_wcontext :: workflow_context where
  "sample_wcontext = \<lparr>wc_run_id = ''r1'', wc_input = JStr ''hello'', wc_runtime = sample_context, wc_output_refs = []\<rparr>"

subsection \<open>Its execution\<close>

text \<open>Membership in a registry, as a lookup that evaluates\<close>

lemma contains_schema_code [code]: "contains_schema r s = (r (schema_key s) \<noteq> None)"
  by (auto simp: contains_schema_def)

definition sample_validated :: validated_workflow where
  "sample_validated = \<lparr>va_definition = sample_workflow, va_order = [''n1'']\<rparr>"

definition sample_begun :: run where
  "sample_begun = (sample_wrun RUNNING (Some ''f''))\<lparr>r_version := 4\<rparr>"

lemma sample_validates: "validated_input sample_runtime sample_workflow sample_wcontext = Inr sample_validated"
  by code_simp

lemma sample_prepares:
  "execute_prepare sample_runtime sample_workflow sample_wcontext (sample_wrun CREATED None, 0)
    = (Inr (Continue (sample_begun, sample_first)), (sample_begun, 1))"
  by code_simp

text \<open>What a pass that goes on leaves, and what one that ends answers\<close>

fun went_on :: "(exn + 's progress) \<times> 'w \<Rightarrow> ('s \<times> 'w) option" where
  "went_on (Inr (Continue s), w) = Some (s, w)"
| "went_on _ = None"

fun answered :: "(exn + 'a) \<times> 'w \<Rightarrow> ('a \<times> 'w) option" where
  "answered (Inr x, w) = Some (x, w)"
| "answered _ = None"

lemma went_on_iff [simp]: "went_on m = Some (s, w) \<longleftrightarrow> m = (Inr (Continue s), w)"
  by (cases m rule: went_on.cases) auto

lemma answered_iff [simp]: "answered m = Some (x, w) \<longleftrightarrow> m = (Inr x, w)"
  by (cases m rule: answered.cases) auto

definition holds_for :: "'a option \<Rightarrow> ('a \<Rightarrow> bool) \<Rightarrow> bool" where
  "holds_for v P = (case v of None \<Rightarrow> False | Some x \<Rightarrow> P x)"

lemma holds_forE:
  assumes "holds_for v P"
  obtains x where "v = Some x" "P x"
  using assms by (auto simp: holds_for_def split: option.splits)

lemma sample_pass:
  "holds_for (went_on (drive_enter sample_runtime sample_validated sample_wcontext sample_begun sample_first (sample_begun, 1)))
     (\<lambda>(s, w1). \<not> scheduler_done (dv_scheduler s) \<and> holds_for (scheduler_next (dv_scheduler s)) (\<lambda>n.
       wn_type n = node_type_value NODE_AGENT \<and> wn_id n = ''n1'' \<and>
       holds_for (went_on (agent_step sample_runtime sample_workflow sample_wcontext s n w1)) (\<lambda>(s', w2).
         scheduler_done (dv_scheduler s') \<and>
         holds_for (answered (terminal_success sample_runtime sample_workflow (dv_run s') (wc_runtime sample_wcontext)
           (dv_checkpoint s') (dv_states s') (dv_outputs s') w2)) (\<lambda>(out, w3). successful out))))"
  by code_simp

lemma sample_steps:
  obtains s w1 n s' w2 out w3 where
    "drive_enter sample_runtime sample_validated sample_wcontext sample_begun sample_first (sample_begun, 1) = (Inr (Continue s), w1)"
    "scheduler_next (dv_scheduler s) = Some n" "wn_id n = ''n1''"
    "drive_step sample_runtime sample_validated sample_wcontext s w1 = (Inr (Continue s'), w2)"
    "drive_step sample_runtime sample_validated sample_wcontext s' w2 = (Inr (Finished out), w3)" "successful out"
proof -
  from sample_pass obtain s w1 n s' w2 out w3 where
    p: "drive_enter sample_runtime sample_validated sample_wcontext sample_begun sample_first (sample_begun, 1) = (Inr (Continue s), w1)"
    "\<not> scheduler_done (dv_scheduler s)" "scheduler_next (dv_scheduler s) = Some n" "wn_type n = node_type_value NODE_AGENT"
    "wn_id n = ''n1''" "agent_step sample_runtime sample_workflow sample_wcontext s n w1 = (Inr (Continue s'), w2)"
    "scheduler_done (dv_scheduler s')" "terminal_success sample_runtime sample_workflow (dv_run s') (wc_runtime sample_wcontext)
       (dv_checkpoint s') (dv_states s') (dv_outputs s') w2 = (Inr out, w3)" "successful out"
    by (elim holds_forE case_prodE conjE) (simp only: went_on_iff answered_iff prod.case simp_thms; elim conjE holds_forE case_prodE; simp)
  have "va_definition sample_validated = sample_workflow" by (simp add: sample_validated_def)
  with p have "drive_step sample_runtime sample_validated sample_wcontext s w1 = (Inr (Continue s'), w2)"
    "drive_step sample_runtime sample_validated sample_wcontext s' w2 = (Inr (Finished out), w3)"
    by (simp_all add: drive_step_def Let_def finished_def abind_eq_Inr del: node_type_value.simps)
      (simp add: areturn_def)
  from that [OF p(1,3,5) this p(9)] show ?thesis .
qed

lemma sample_execution:
  obtains out w where "workflow_execute sample_runtime 2 sample_workflow sample_wcontext (sample_wrun CREATED None, 0) = Some (Inr out, w)"
    "successful out"
proof -
  obtain s w1 n s' w2 out w3 where
    "drive_enter sample_runtime sample_validated sample_wcontext sample_begun sample_first (sample_begun, 1) = (Inr (Continue s), w1)"
    "drive_step sample_runtime sample_validated sample_wcontext s w1 = (Inr (Continue s'), w2)"
    "drive_step sample_runtime sample_validated sample_wcontext s' w2 = (Inr (Finished out), w3)" and ok: "successful out"
    by (rule sample_steps)
  then have "workflow_execute sample_runtime 2 sample_workflow sample_wcontext (sample_wrun CREATED None, 0) = Some (Inr out, w3)"
    by (simp add: workflow_execute_def sample_validates sample_prepares after_progress_def drive_def numeral_2_eq_2)
  then show ?thesis using ok by (rule that)
qed

section \<open>Properties of workflows\<close>

text \<open>
  What the validator accepts, in which order the runtime completes nodes, that an execution ends, and
  what a success and a failure mean.
\<close>

subsection \<open>Validation\<close>

text \<open>
  C18. The validator is exact: it accepts a definition if and only if the definition satisfies the
  declarative contract \<open>workflow_valid\<close> (supported policy, registered schemas and actions, valid
  nodes, unique nodes and dependencies, no cycle, bindings carried by declared dependencies and
  carrying dependencies bound, a required output whose node has the workflow's output schema and is
  reachable from a node that reads the workflow's input). What it hands out is the definition and the
  one order of its nodes in which each comes after its predecessors and, of those that may come next,
  the one with the smallest identity does.
\<close>

theorem validator_is_exact:
  "validate_workflow V w = Inr x \<longleftrightarrow> workflow_valid V w \<and> va_definition x = w \<and> least_order w (va_order x)"
proof -
  have "topological_order w (node_dict (wf_nodes w)) = Inr (va_order x) \<longleftrightarrow> least_order w (va_order x)" if "workflow_valid V w"
    using that topological_order_least [of w "va_order x"] by (simp add: workflow_valid_def)
  then show ?thesis unfolding validate_workflow_Inr by blast
qed

text \<open>
  The order of a validated workflow lists every node once, every dependency from left to right.
\<close>

theorem validated_order_is_topological:
  assumes "validate_workflow V w = Inr x"
  shows "ordered_after (set (workflow_edges w)) {} (va_order x) \<and> distinct (va_order x) \<and> set (va_order x) = wn_id ` set (wf_nodes w)"
proof -
  from assms have v: "workflow_valid V w" "topological_order w (node_dict (wf_nodes w)) = Inr (va_order x)"
    by (simp_all add: validate_workflow_Inr)
  then have "graph_ok w" "acyclic (set (workflow_edges w))" by (simp_all add: workflow_valid_def)
  with topological_order_spec [of w] v(2) have "ordered_after (set (workflow_edges w)) {} (va_order x)"
    "set (va_order x) = wn_id ` set (wf_nodes w)" by auto
  with ordered_after_distinct [OF this(1)] show ?thesis by simp
qed

lemma sample_workflow_validates: "validate_workflow (wk_validator sample_runtime) sample_workflow = Inr sample_validated"
  using sample_validates by (auto simp: validated_input_def rbind_eq_Inr)

theorem validated_order_is_topological_witness:
  "ordered_after (set (workflow_edges sample_workflow)) {} [''n1''] \<and> distinct [''n1''] \<and> set [''n1''] = wn_id ` set (wf_nodes sample_workflow)"
  using validated_order_is_topological [OF sample_workflow_validates] by (simp add: sample_validated_def)

subsection \<open>The order of an execution\<close>

text \<open>
  C6. An execution completes the nodes in the validator's order, from the start and after any
  recovery: entered from a checkpoint that records the first \<open>j\<close> nodes of the order as succeeded, the
  nodes completed by the passes that follow are the next ones of the order, without a gap.
\<close>

theorem nodes_complete_in_order:
  assumes v: "validate_workflow V d = Inr x" and enter: "drive_enter E x c r k w = (Inr (Continue s), w1)"
    and k: "mk_checkpoint k = Inr k" "set (succeeded_nodes (ck_nodes k)) = set (take j (va_order x))" "j \<le> List.length (va_order x)"
    and path: "drive_path E x c s w1 ns s' w2"
  shows "ns = take (List.length ns) (drop j (va_order x))"
proof -
  from v have d: "va_definition x = d" "graph_ok d" "topological_order d (node_dict (wf_nodes d)) = Inr (va_order x)"
    by (auto simp: validate_workflow_Inr workflow_valid_def)
  then have g: "graph_ok (va_definition x)" by simp
  note e = drive_enter_Continue [OF enter g mk_checkpoint_nodes [OF k(1)]]
  then have ok: "drive_ok x s" and ck: "dv_checkpoint s = k" by simp_all
  obtain s0 where s0: "scheduler_ok s0" "sd_definition s0 = va_definition x" "sd_completed s0 = {}"
    using new_scheduler_ok [OF g, of "[]"] by auto
  let ?f = "List.length (va_order x) + List.length ns" and ?s = "s0\<lparr>sd_completed := set (take j (va_order x))\<rparr>"
  have "dispatch_order ?f s0 = Inr (va_order x)" by (rule dispatch_from_start) (use s0 d in simp_all)
  from dispatch_resume [OF s0(1) this k(3)] s0(3) have r: "dispatch_order (?f - j) ?s = Inr (drop j (va_order x))" by simp
  have "scheduler_ok ?s"
    using s0 drive_okD [OF ok] k(2) ck by (simp add: scheduler_ok_def)
  then have "?s = dv_scheduler s"
    by (rule scheduler_unique) (use s0 drive_okD [OF ok] k(2) ck in auto)
  with r have "dispatch_order (?f - j) (dv_scheduler s) = Inr (drop j (va_order x))" by simp
  from drive_path_order [OF path ok g this] k(3) show ?thesis by simp
qed

lemma sample_first_made: "mk_checkpoint sample_first = Inr sample_first"
  by code_simp

theorem nodes_complete_in_order_witness:
  "\<exists>s w1 s' w2. drive_enter sample_runtime sample_validated sample_wcontext sample_begun sample_first (sample_begun, 1) = (Inr (Continue s), w1)
     \<and> drive_path sample_runtime sample_validated sample_wcontext s w1 [''n1''] s' w2 \<and> [''n1''] = take 1 (drop 0 (va_order sample_validated))"
proof -
  obtain s w1 n s' w2 out w3 where
    s: "drive_enter sample_runtime sample_validated sample_wcontext sample_begun sample_first (sample_begun, 1) = (Inr (Continue s), w1)"
    "scheduler_next (dv_scheduler s) = Some n" "wn_id n = ''n1''"
    "drive_step sample_runtime sample_validated sample_wcontext s w1 = (Inr (Continue s'), w2)"
    by (rule sample_steps)
  have p: "drive_path sample_runtime sample_validated sample_wcontext s w1 [''n1''] s' w2"
    using path_step [OF s(4,2) path_stop] s(3) by simp
  have "set (succeeded_nodes (ck_nodes sample_first)) = set (take 0 (va_order sample_validated))"
    by (simp add: sample_first_def succeeded_nodes_def)
  from nodes_complete_in_order [OF sample_workflow_validates s(1) sample_first_made this le0 p] s(1) p
  show ?thesis by (intro exI conjI) simp_all
qed

text \<open>
  C9. A node is unlocked by durable state only: whenever the scheduler hands out a node, every node it
  depends on is recorded as succeeded in the checkpoint at hand, and that checkpoint is the one the
  execution was entered with or one the coordinator has committed for the Run.
\<close>

theorem node_unlocked_by_commit:
  assumes v: "validate_workflow V d = Inr x" and enter: "drive_enter E x c r k w = (Inr (Continue s), w1)"
    and k: "mk_checkpoint k = Inr k" and path: "drive_path E x c s w1 ns s' w2"
    and n: "scheduler_next (dv_scheduler s') = Some n"
  shows "{p. (p, wn_id n) \<in> set (workflow_edges d)} \<subseteq> set (succeeded_nodes (ck_nodes (dv_checkpoint s')))
    \<and> wn_id n \<notin> set (succeeded_nodes (ck_nodes (dv_checkpoint s')))
    \<and> (dv_checkpoint s' = k \<and> dv_run s' = r \<or> saved_checkpoint E c (dv_run s') (dv_checkpoint s'))"
proof -
  from v have d: "va_definition x = d" "graph_ok d" by (auto simp: validate_workflow_Inr workflow_valid_def)
  then have g: "graph_ok (va_definition x)" by simp
  note e = drive_enter_Continue [OF enter g mk_checkpoint_nodes [OF k]]
  then have ok: "drive_ok x s" by simp
  note p = drive_path_ok [OF path ok g]
  note f = drive_okD [OF p(1)]
  obtain rest where "ready_ids (dv_scheduler s') = wn_id n # rest" using scheduler_next_cases(2) [OF f(1) n] by auto
  then have "wn_id n \<in> set (ready_ids (dv_scheduler s'))" by simp
  then have "{p. (p, wn_id n) \<in> set (workflow_edges d)} \<subseteq> sd_completed (dv_scheduler s') \<and> wn_id n \<notin> sd_completed (dv_scheduler s')"
    using f(2) d(1) unfolding ready_ids_mem [OF f(1)] by (auto simp: open_preds_def)
  moreover have "dv_checkpoint s' = k \<and> dv_run s' = r \<or> saved_checkpoint E c (dv_run s') (dv_checkpoint s')"
    using p(2,3) e by (cases "ns = []") simp_all
  ultimately show ?thesis using f(3) by simp
qed

theorem node_unlocked_by_commit_witness:
  "\<exists>s w1 n. drive_enter sample_runtime sample_validated sample_wcontext sample_begun sample_first (sample_begun, 1) = (Inr (Continue s), w1)
     \<and> scheduler_next (dv_scheduler s) = Some n \<and> wn_id n \<notin> set (succeeded_nodes (ck_nodes (dv_checkpoint s)))"
proof -
  obtain s w1 n s' w2 out w3 where
    s: "drive_enter sample_runtime sample_validated sample_wcontext sample_begun sample_first (sample_begun, 1) = (Inr (Continue s), w1)"
    "scheduler_next (dv_scheduler s) = Some n"
    by (rule sample_steps)
  from node_unlocked_by_commit [OF sample_workflow_validates s(1) sample_first_made path_stop s(2)]
  have "wn_id n \<notin> set (succeeded_nodes (ck_nodes (dv_checkpoint s)))" by (elim conjE)
  with s show ?thesis by (intro exI conjI)
qed

subsection \<open>Ends of executions\<close>

text \<open>
  C10. An execution returns: with more fuel than the workflow has nodes, \<open>execute\<close> answers an outcome or
  raises, whatever its collaborators do, provided the checkpoints they load are instances of the class.
\<close>

theorem execution_terminates:
  assumes "loads_checkpoints E" "List.length (wf_nodes d) < fuel"
  shows "workflow_execute E fuel d c w \<noteq> None"
  using assms by (rule workflow_execute_terminates)

lemma sample_loads: "loads_checkpoints sample_runtime"
  using sample_first_made by (simp add: loads_checkpoints_def sample_runtime_def sample_run_gate_def areturn_def)

theorem execution_terminates_witness:
  "workflow_execute sample_runtime 2 sample_workflow sample_wcontext (sample_wrun CREATED None, 0) \<noteq> None"
  by (rule execution_terminates [OF sample_loads]) (simp add: sample_workflow_def)

text \<open>
  C7. Success is durable: when \<open>execute\<close> answers a result whose Run succeeded, then step by step, each
  in the world the one before it left: the Run and its checkpoint were prepared and entered, passes of
  the loop led to a state whose checkpoint is the prepared one or was saved, every node of the workflow
  is recorded as succeeded in that checkpoint, which is the one the result names, the output was loaded
  through the persistence boundary from the reference that checkpoint records for the output node, at
  that node's schema and scope, it is the result's output and satisfies the workflow's output schema,
  and completing the Run was the last thing that happened.
\<close>

theorem success_is_durable:
  assumes "workflow_execute E fuel d c w = Some (Inr out, w')" "successful out" "loads_checkpoints E"
  shows "\<exists>x r k w1 s0 w2 ns s w3 res source schema ref w4.
    validated_input E d c = Inr x
    \<and> execute_prepare E d c w = (Inr (Continue (r, k)), w1)
    \<and> drive_enter E x c r k w1 = (Inr (Continue s0), w2) \<and> dv_run s0 = r \<and> dv_checkpoint s0 = k
    \<and> drive_path E x c s0 w2 ns s w3
    \<and> (if ns = [] then s = s0 else saved_checkpoint E c (dv_run s) (dv_checkpoint s))
    \<and> set (succeeded_nodes (ck_nodes (dv_checkpoint s))) = wn_id ` set (wf_nodes d)
    \<and> oc_result out = Some res \<and> wr_checkpoint res = Some (ck_id (dv_checkpoint s))
    \<and> first_node d (ob_node (wf_output d)) = Inr source \<and> wn_output_schema source = Some schema
    \<and> recorded_output (dv_checkpoint s) (ob_node (wf_output d)) ref
    \<and> load_output E (r_id (dv_run s)) (ob_node (wf_output d)) schema ref (wn_scope source) (wc_runtime c) w3 = (Inr (wr_output res), w4)
    \<and> validate_value (wk_schemas E) (wf_output_schema d) (wr_output res) = Inr ()
    \<and> sv_complete (wk_runs E) (r_id (dv_run s)) (r_version (dv_run s)) w4 = (Inr (wr_run res), w')"
proof -
  obtain x r k s0 w1 w2 ns s w3 where p: "validated_input E d c = Inr x" "execute_prepare E d c w = (Inr (Continue (r, k)), w1)"
    "drive_enter E x c r k w1 = (Inr (Continue s0), w2)" "dv_run s0 = r" "dv_checkpoint s0 = k" "drive_path E x c s0 w2 ns s w3"
    "drive_ok x s0" "drive_ok x s" "outputs_recorded s" "scheduler_done (dv_scheduler s)"
    "terminal_success E d (dv_run s) (wc_runtime c) (dv_checkpoint s) (dv_states s) (dv_outputs s) w3 = (Inr out, w')"
    by (rule workflow_execute_successful_chain [OF assms])
  have g: "va_definition x = d" "graph_ok (va_definition x)" using validated_input_graph [OF p(1)] by simp_all
  have all: "set (succeeded_nodes (ck_nodes (dv_checkpoint s))) = wn_id ` set (wf_nodes d)"
    using drive_ok_node(3) [OF p(8) g(2)] p(10) drive_okD(3) [OF p(8)] g(1) by simp
  have saved: "if ns = [] then s = s0 else saved_checkpoint E c (dv_run s) (dv_checkpoint s)"
    using drive_path_ok(2,3) [OF p(6,7) g(2)] by simp
  obtain source schema ref v w4 completed where t:
    "first_node d (ob_node (wf_output d)) = Inr source" "wn_output_schema source = Some schema"
    "map_of (dv_outputs s) (ob_node (wf_output d)) = Some ref"
    "load_output E (r_id (dv_run s)) (ob_node (wf_output d)) schema ref (wn_scope source) (wc_runtime c) w3 = (Inr v, w4)"
    "validate_value (wk_schemas E) (wf_output_schema d) v = Inr ()"
    "sv_complete (wk_runs E) (r_id (dv_run s)) (r_version (dv_run s)) w4 = (Inr completed, w')"
    "oc_result out = Some \<lparr>wr_run = completed, wr_output = v, wr_error = None, wr_output_refs = public_output_refs d (dv_states s),
       wr_checkpoint = Some (ck_id (dv_checkpoint s))\<rparr>"
    by (rule terminal_success_Inr [OF p(11)])
  have ref: "recorded_output (dv_checkpoint s) (ob_node (wf_output d)) ref" using p(9) t(3) by (simp add: outputs_recorded_def)
  from t(7) obtain res where res: "oc_result out = Some res" "wr_output res = v" "wr_run res = completed"
    "wr_checkpoint res = Some (ck_id (dv_checkpoint s))" by simp
  note t' = t(4-6) [folded res(2,3)]
  show ?thesis
    using p(1-6) saved all ref t(1,2) t' res(1,4) by (intro exI conjI) assumption+
qed

theorem success_is_durable_witness:
  "\<exists>out res w'. workflow_execute sample_runtime 2 sample_workflow sample_wcontext (sample_wrun CREATED None, 0) = Some (Inr out, w')
    \<and> oc_result out = Some res
    \<and> (\<exists>k ref. wr_checkpoint res = Some (ck_id k) \<and> {''n1''} = set (succeeded_nodes (ck_nodes k)) \<and> recorded_output k ''n1'' ref)"
proof -
  obtain out w' where e: "workflow_execute sample_runtime 2 sample_workflow sample_wcontext (sample_wrun CREATED None, 0) = Some (Inr out, w')"
    "successful out" by (rule sample_execution)
  have w: "wn_id ` set (wf_nodes sample_workflow) = {''n1''}" "ob_node (wf_output sample_workflow) = ''n1''"
    by (simp_all add: sample_workflow_def sample_node_def)
  from success_is_durable [OF e sample_loads] obtain res ref and s :: drive_state where
    "oc_result out = Some res" "set (succeeded_nodes (ck_nodes (dv_checkpoint s))) = wn_id ` set (wf_nodes sample_workflow)"
    "wr_checkpoint res = Some (ck_id (dv_checkpoint s))"
    "recorded_output (dv_checkpoint s) (ob_node (wf_output sample_workflow)) ref"
    by (elim exE conjE)
  with e(1) show ?thesis unfolding w by (intro exI conjI) (assumption | rule sym)+
qed

section \<open>Guarantees at the edges of a workflow\<close>

text \<open>
  Failed evaluations, failed agents, the persistence boundary, and the encodings of definitions and
  outcomes.
\<close>

lemma failed_evaluation_found:
  assumes d: "distinct (List.map wn_id (wf_nodes d))" and n: "n \<in> set (wf_nodes d)" "wn_type n = node_type_value NODE_EVALUATION"
    and m: "m \<in> set ns" "ns_node_id m = wn_id n" "ns_outcome m \<noteq> NODE_SUCCEEDED" and u: "distinct (List.map ns_node_id ns)"
  shows "failed_evaluation d (states_of ns) \<noteq> None"
proof -
  have "map_of (node_dict (wf_nodes d)) (ns_node_id m) = Some n" using node_dict_lookup [OF d] n m(2) by simp
  moreover have "(ns_node_id m, m) \<in> set (sort_key fst (states_of ns))" using m(1) u by (simp add: states_of_distinct)
  ultimately have "List.map_filter (\<lambda>(i, s). case map_of (node_dict (wf_nodes d)) i of
         None \<Rightarrow> None
       | Some n \<Rightarrow> if wn_type n \<noteq> node_type_value NODE_EVALUATION \<or> ns_outcome s = NODE_SUCCEEDED then None else Some (n, s))
       (sort_key fst (states_of ns)) \<noteq> []"
    using n(2) m(3) by (force simp: List.map_filter_def filter_empty_conv simp del: node_type_value.simps split: option.splits)
  then show ?thesis by (simp add: failed_evaluation_def split: list.splits)
qed

text \<open>
  A committed Evaluation that did not succeed is final: entered from a checkpoint that records it,
  by a restart, a recovery or a decision, the runtime never goes on to hand out a node; it suspends,
  fails the Run or raises.
\<close>

theorem failed_evaluation_is_final:
  assumes v: "validate_workflow V d = Inr x" and k: "mk_checkpoint k = Inr k"
    and n: "n \<in> set (wf_nodes d)" "wn_type n = node_type_value NODE_EVALUATION"
    and m: "m \<in> set (ck_nodes k)" "ns_node_id m = wn_id n" "ns_outcome m \<noteq> NODE_SUCCEEDED"
  shows "drive_enter E x c r k w \<noteq> (Inr (Continue s), w')"
proof
  assume enter: "drive_enter E x c r k w = (Inr (Continue s), w')"
  from v have d: "va_definition x = d" "graph_ok d" by (auto simp: validate_workflow_Inr workflow_valid_def)
  then have "failed_evaluation d (states_of (ck_nodes k)) \<noteq> None"
    by (intro failed_evaluation_found [OF _ n m mk_checkpoint_nodes [OF k]]) (simp add: graph_ok_def)
  then obtain n' s' where f: "failed_evaluation d (states_of (ck_nodes k)) = Some (n', s')" by auto
  from enter d obtain w1 where "stable_evaluation_failure E d r (wc_runtime c) (states_of (ck_nodes k)) w = (Inr None, w1)"
    by (auto simp: drive_enter_def Let_def abind_eq_Inr split: option.splits)
  then show False by (auto simp: stable_evaluation_failure_def f abind_eq_Inr araise_def split: option.splits if_splits)
qed

definition sample_gate_node :: workflow_node where
  "sample_gate_node = (sample_node ''n1'' \<lparr>ib_source = FROM_WORKFLOW_INPUT, ib_node = None\<rparr>)
     \<lparr>wn_type := ''evaluation'', wn_output_schema := Some EVALUATION_RESULT_SCHEMA,
      wn_permissions := \<lparr>pm_action = WORKFLOW_NODE_EXECUTE_ACTION, pm_resource = \<lparr>rs_namespace = ''core'', rs_kind = ''node'',
          rs_id = ''n1'', rs_owner = None\<rparr>\<rparr> #
        List.map (\<lambda>(a, kind, i). \<lparr>pm_action = a, pm_resource = \<lparr>rs_namespace = ''core'', rs_kind = kind, rs_id = i, rs_owner = None\<rparr>\<rparr>)
          [(EVALUATION_POLICY_EVALUATE_ACTION, ''evaluation_policy'', ''p''), (QUALITY_CAPABILITIES_ACTION, ''quality_evaluator'', ''q''),
           (QUALITY_EVALUATE_ACTION, ''quality_evaluator'', ''q'')],
      wn_config := EvaluationConfig \<lparr>en_policy_ref = ''p'', en_evaluator_id = ''q'', en_profile_ref = ''kind:1''\<rparr>\<rparr>"

definition sample_gate_workflow :: workflow_definition where
  "sample_gate_workflow = sample_workflow\<lparr>wf_nodes := [sample_gate_node], wf_output_schema := EVALUATION_RESULT_SCHEMA\<rparr>"

definition sample_gate_validator :: workflow_validator where
  "sample_gate_validator = \<lparr>wv_schemas = sample_schemas(schema_key EVALUATION_RESULT_SCHEMA \<mapsto> (\<lambda>v. Inr ())),
     wv_actions = map_of (List.map (\<lambda>a. (action_key a, a)) (workflow_actions @ evaluation_actions)), wv_supported = default_supported\<rparr>"

definition sample_denied :: node_state where
  "sample_denied = \<lparr>ns_node_id = ''n1'', ns_outcome = NODE_DENIED, ns_output_ref = None, ns_error_ref = Some sample_output_ref,
     ns_approval = None\<rparr>"

definition sample_denied_checkpoint :: checkpoint where
  "sample_denied_checkpoint = sample_first\<lparr>ck_nodes := [sample_denied], ck_pending := [], ck_external := [sample_output_ref]\<rparr>"

lemma sample_gate_validates: "validate_workflow sample_gate_validator sample_gate_workflow
    = Inr \<lparr>va_definition = sample_gate_workflow, va_order = [''n1'']\<rparr>"
  by code_simp

lemma sample_denied_made: "mk_checkpoint sample_denied_checkpoint = Inr sample_denied_checkpoint"
  by code_simp

theorem failed_evaluation_is_final_witness:
  "drive_enter sample_runtime \<lparr>va_definition = sample_gate_workflow, va_order = [''n1'']\<rparr> sample_wcontext sample_begun
     sample_denied_checkpoint (sample_begun, 1) \<noteq> (Inr (Continue undefined), (sample_begun, 1))"
  by (rule failed_evaluation_is_final [OF sample_gate_validates sample_denied_made, of sample_gate_node sample_denied])
    (simp_all add: sample_gate_workflow_def sample_denied_checkpoint_def sample_denied_def sample_gate_node_def sample_node_def)

text \<open>
  A failed Agent ends the workflow: when the dispatch of an Agent node raises a structured error,
  the pass does not commit anything; it answers a terminal result of a Run that did not succeed,
  with an error.
\<close>

theorem failed_agent_ends_the_workflow:
  assumes f: "dispatch_agent E d (dv_run s) c (dv_outputs s) n w = (Inl (CoreError detail), w1)"
    and step: "agent_step E d c s n w = (Inr p, w')"
  shows "\<exists>out res. p = Finished out \<and> oc_result out = Some res \<and> terminal (r_status (wr_run res)) \<and> r_status (wr_run res) \<noteq> SUCCEEDED
    \<and> wr_error res \<noteq> None \<and> terminal_failure E (dv_run s) detail d (dv_states s) w1 = (Inr out, w')"
proof -
  from assms obtain out where p: "p = Finished out" "terminal_failure E (dv_run s) detail d (dv_states s) w1 = (Inr out, w')"
    by (auto simp: agent_step_def abind_eq_Inr)
  from p(2) obtain x where "rbind (mk_workflow_result x) terminal_outcome = Inr out" "wr_error x \<noteq> None"
    unfolding terminal_failure_def by (auto simp: abind_eq_Inr)
  then obtain res where "mk_workflow_result x = Inr res" "terminal_outcome res = Inr out" "wr_error x \<noteq> None"
    by (auto simp: rbind_eq_Inr)
  with mk_workflow_result_Inr [of x res] terminal_outcome_Inr [of res out]
  have "oc_result out = Some res \<and> terminal (r_status (wr_run res)) \<and> r_status (wr_run res) \<noteq> SUCCEEDED \<and> wr_error res \<noteq> None" by auto
  with p show ?thesis by blast
qed

text \<open>The same runtime without a policy: every dispatch is refused.\<close>

definition sample_refusing :: "sample_world workflow_runtime" where
  "sample_refusing = sample_runtime\<lparr>wk_dispatcher := sample_grants\<lparr>di_policy := None\<rparr>\<rparr>"

definition sample_state :: drive_state where
  "sample_state = \<lparr>dv_run = sample_begun, dv_checkpoint = sample_first, dv_states = [], dv_outputs = [],
     dv_scheduler = \<lparr>sd_definition = sample_workflow, sd_nodes = node_dict (wf_nodes sample_workflow), sd_completed = {},
       sd_dependencies = (\<lambda>i. {})\<rparr>\<rparr>"

definition sample_agent_node :: workflow_node where
  "sample_agent_node = sample_node ''n1'' \<lparr>ib_source = FROM_WORKFLOW_INPUT, ib_node = None\<rparr>"

fun refusal :: "(exn + 'a) \<times> 'w \<Rightarrow> (error_detail \<times> 'w) option" where
  "refusal (Inl (CoreError d), w) = Some (d, w)"
| "refusal _ = None"

lemma refusal_iff [simp]: "refusal m = Some (d, w) \<longleftrightarrow> m = (Inl (CoreError d), w)"
  by (cases m rule: refusal.cases) auto

lemma sample_refused:
  "holds_for (refusal (dispatch_agent sample_refusing sample_workflow (dv_run sample_state) sample_wcontext (dv_outputs sample_state)
     sample_agent_node (sample_begun, 1))) (\<lambda>(d, w1). ed_code d = ''policy_missing'')"
  "holds_for (answered (agent_step sample_refusing sample_workflow sample_wcontext sample_state sample_agent_node (sample_begun, 1)))
     (\<lambda>(p, w'). True)"
  by code_simp+

theorem failed_agent_ends_the_workflow_witness:
  "\<exists>out res w'. agent_step sample_refusing sample_workflow sample_wcontext sample_state sample_agent_node (sample_begun, 1)
     = (Inr (Finished out :: drive_state progress), w') \<and> oc_result out = Some res \<and> terminal (r_status (wr_run res))"
proof -
  from sample_refused(1) obtain d w1 where f: "dispatch_agent sample_refusing sample_workflow (dv_run sample_state) sample_wcontext
     (dv_outputs sample_state) sample_agent_node (sample_begun, 1) = (Inl (CoreError d), w1)"
    by (elim holds_forE) (auto simp only: refusal_iff split: prod.splits)
  from sample_refused(2) obtain p w' where "agent_step sample_refusing sample_workflow sample_wcontext sample_state sample_agent_node
     (sample_begun, 1) = (Inr p, w')" by (elim holds_forE) (auto simp only: answered_iff split: prod.splits)
  with failed_agent_ends_the_workflow [OF f this] show ?thesis by blast
qed

subsection \<open>The persistence boundary\<close>

lemma aresult_bind: "abind (aresult (Inr x)) f = f x"
  by (rule ext) (simp add: abind_def aresult_def)

text \<open>
  What was persisted can be loaded: the reference that \<open>persist\<close> returns for an output passes every
  check of the load boundary for the same Run, node, schema and Scope, so that loading it is exactly
  the authorized call of the store.
\<close>

theorem persisted_output_is_loadable:
  assumes p: "outputs_persist S D q ctx w = (Inr ref, w')"
  shows "\<exists>l access. mk_load_request \<lparr>lq_run_id = pq_run_id q, lq_node = pq_node q, lq_schema = pq_schema q, lq_reference = ref,
       lq_scope = pq_scope q\<rparr> = Inr l \<and> aq_action access = WORKFLOW_OUTPUT_LOAD_ACTION \<and> aq_scope access = pq_scope q
    \<and> pr_id (aq_principal access) = pq_node q
    \<and> outputs_load S D l ctx = abind (dispatch D access (\<lambda>call. os_load S l (au_context call))) (\<lambda>raw. case raw of
        None \<Rightarrow> araise (ValueError ''loaded node output must be valid JSON data'') | Some v \<Rightarrow> areturn v)"
proof -
  let ?l = "\<lparr>lq_run_id = pq_run_id q, lq_node = pq_node q, lq_schema = pq_schema q, lq_reference = ref, lq_scope = pq_scope q\<rparr>"
  from outputs_persist_Inr [OF p] obtain a where
    a: "output_access (pq_run_id q) (pq_node q) (pq_scope q) ctx WORKFLOW_OUTPUT_PERSIST_ACTION = Inr a"
    and v: "validate_output_reference ref (pq_scope q) (pq_schema q) = Inr ()" by blast
  let ?a = "a\<lparr>aq_action := WORKFLOW_OUTPUT_LOAD_ACTION\<rparr>"
  have l: "output_access (pq_run_id q) (pq_node q) (pq_scope q) ctx WORKFLOW_OUTPUT_LOAD_ACTION = Inr ?a"
    using a by (auto simp: output_access_def rbind_eq_Inr)
  have "mk_load_request ?l = Inr ?l" using v by (simp add: mk_load_request_def)
  moreover have "outputs_load S D ?l ctx = abind (dispatch D ?a (\<lambda>call. os_load S ?l (au_context call))) (\<lambda>raw. case raw of
        None \<Rightarrow> araise (ValueError ''loaded node output must be valid JSON data'') | Some v \<Rightarrow> areturn v)"
    by (simp only: outputs_load_def load_request.simps v l aresult_bind)
  ultimately show ?thesis using output_access_Inr [OF l] by (intro exI [of _ ?l] exI [of _ ?a]) simp
qed

definition sample_output_store :: "sample_world output_store" where
  "sample_output_store = \<lparr>os_persist = (\<lambda>q ctx. areturn (Some sample_output_ref)), os_load = (\<lambda>q ctx. areturn (Some (JStr ''ok'')))\<rparr>"

definition sample_persist_request :: persist_request where
  "sample_persist_request = \<lparr>pq_run_id = ''r1'', pq_node = ''n1'', pq_schema = sample_text, pq_value = JStr ''ok'',
     pq_scope = sample_node_scope, pq_key = ''k''\<rparr>"

lemma sample_persists:
  "outputs_persist sample_output_store sample_grants sample_persist_request sample_context (sample_begun, 1)
    = (Inr sample_output_ref, (sample_begun, 1))"
  by code_simp

theorem persisted_output_is_loadable_witness:
  "\<exists>l access. mk_load_request \<lparr>lq_run_id = ''r1'', lq_node = ''n1'', lq_schema = sample_text, lq_reference = sample_output_ref,
       lq_scope = sample_node_scope\<rparr> = Inr l \<and> aq_action access = WORKFLOW_OUTPUT_LOAD_ACTION
     \<and> outputs_load sample_output_store sample_grants l sample_context
       = abind (dispatch sample_grants access (\<lambda>call. os_load sample_output_store l (au_context call))) (\<lambda>raw. case raw of
        None \<Rightarrow> araise (ValueError ''loaded node output must be valid JSON data'') | Some v \<Rightarrow> areturn v)"
  using persisted_output_is_loadable [OF sample_persists] unfolding sample_persist_request_def by (elim exE) (intro exI, auto)

subsection \<open>Encodings\<close>

text \<open>
  Definitions survive their encoding: every definition the constructors accept, with any mix of
  Agent, Approval, Evaluation and unsupported nodes, is read back unchanged from what it is written as.
\<close>

theorem definition_survives_encoding:
  assumes "iso_inverse L" "definition_ok w"
  shows "definition_from_data L (definition_to_data w) = Inr w"
  using assms by (rule definition_roundtrip)

lemma sample_workflow_ok: "definition_ok sample_workflow"
  unfolding definition_ok_def node_ok_def by (simp add: sample_workflow_def sample_node_def) code_simp

theorem definition_survives_encoding_witness:
  "definition_from_data sample_library (definition_to_data sample_workflow) = Inr sample_workflow"
  by (rule definition_survives_encoding [OF sample_library_inverse sample_workflow_ok])

end
