(* ===== verification/Evaluation_Properties.thy ===== *)
theory Evaluation_Properties
  imports Evaluation_Harness Samples
begin

section \<open>Properties of evaluations\<close>

text \<open>
  A returned verdict is well formed and audited, and it is PASSED only when every stage passed.
\<close>

subsection \<open>Concrete inputs\<close>

definition sample_passed :: "evaluation_stage \<Rightarrow> stage_result" where
  "sample_passed s = \<lparr>st_stage = s, st_verdict = PASSED, st_reason = (if s = STAGE_SCHEMA then ''schema_valid'' else ''ok''),
     st_measurements = [], st_evidence = []\<rparr>"

definition sample_evaluation_schema :: schema_ref where
  "sample_evaluation_schema = \<lparr>sm_namespace = ''core'', sm_name = ''text'', sm_version = ''1''\<rparr>"

definition sample_evaluation :: evaluation_request where
  "sample_evaluation = \<lparr>er_contract = EVALUATION_CONTRACT_VERSION, er_id = ''e1'', er_value = JStr ''ok'',
     er_input_schema = sample_evaluation_schema, er_policy_ref = ''policy'', er_evaluator = ''q1'', er_profile_ref = ''kind:1'',
     er_scope = sample_scope, er_constraints = []\<rparr>"

definition sample_quality :: evaluator_capabilities where
  "sample_quality = \<lparr>qc_evaluator = ''q1'', qc_contract = ''1'', qc_requests = [''1''], qc_results = [''1''],
     qc_schemas = [sample_evaluation_schema], qc_profiles = [''kind''], qc_evidence = [''log'']\<rparr>"

definition granted_as_asked :: "access_request \<Rightarrow> grant" where
  "granted_as_asked q = \<lparr>gr_principal = aq_principal q, gr_action = aq_action q, gr_resource = aq_resource q,
     gr_source_scope = aq_scope q, gr_effective_scope = aq_scope q, gr_constraints = aq_constraints q, gr_issued_at = sample_time 4,
     gr_expires_at = None, gr_policy_version = ''1'', gr_audit_correlation = ''k1''\<rparr>"

definition sample_evaluation_gate :: "unit dispatcher" where
  "sample_evaluation_gate = \<lparr>di_actions = map_of (List.map (\<lambda>a. (action_key a, a)) evaluation_actions),
     di_audit_denied = (\<lambda>q d. areturn ()), di_audit_granted = (\<lambda>q g. areturn ()), di_audit_failure = (\<lambda>i e. areturn ()),
     di_clock = (\<lambda>_. sample_time 5), di_policy = Some (\<lambda>q. areturn (allow (granted_as_asked q)))\<rparr>"

definition sample_evaluation_env :: "unit evaluation_env" where
  "sample_evaluation_env = \<lparr>ee_policies = [''policy'' \<mapsto> (\<lambda>q ctx w. (Operation_Done (Inr (Some (sample_passed STAGE_POLICY))), w))],
     ee_evaluators = [''q1'' \<mapsto> \<lparr>qe_capabilities = (\<lambda>ctx w. (Operation_Done (Inr sample_quality), w)),
       qe_evaluate = (\<lambda>q ctx w. (Operation_Done (Inr (Some (sample_passed STAGE_QUALITY))), w))\<rparr>],
     ee_policy_dispatcher = sample_evaluation_gate, ee_capabilities_dispatcher = sample_evaluation_gate,
     ee_evaluate_dispatcher = sample_evaluation_gate, ee_clock = (\<lambda>_. sample_time 5), ee_token = (\<lambda>_. new_token ''c1'' False),
     ee_digest = (\<lambda>_. ''digest'')\<rparr>"

definition sample_harness :: "unit harness" where
  "sample_harness = \<lparr>ha_gateways = sample_evaluation_env, ha_schemas = [schema_key sample_evaluation_schema \<mapsto> (\<lambda>v. Inr ())],
     ha_started = (\<lambda>q ctx. areturn ()), ha_recorded = (\<lambda>q x ctx. areturn ()), ha_audit_failure = (\<lambda>i d. areturn ()),
     ha_text_digest = (\<lambda>_. ''key''), ha_span = (\<lambda>w. (''s2'', w))\<rparr>"

definition sample_evaluation_context :: call_context where
  "sample_evaluation_context = sample_context\<lparr>cx_idempotency_key := Some ''key''\<rparr>"

definition sample_stage_context :: call_context where
  "sample_stage_context = sample_evaluation_context\<lparr>cx_trace := trace_child ''s2'' None (cx_trace sample_context)\<rparr>"

lemma sample_stage_narrow: "stage_context sample_harness sample_evaluation sample_evaluation_context s () = (Inr sample_stage_context, ())"
  by (cases s) code_simp+

lemma sample_stage_active:
  "check_active sample_stage_context (sample_time 5) = Inr ()" "check_active sample_evaluation_context (sample_time 5) = Inr ()"
  "sample_stage_context\<lparr>cx_cancellation := new_token ''c1'' False\<rparr> = sample_stage_context"
  "sample_evaluation_context\<lparr>cx_cancellation := new_token ''c1'' False\<rparr> = sample_evaluation_context"
  "sample_stage_context\<lparr>cx_scope := sample_scope\<rparr> = sample_stage_context" "cx_scope sample_stage_context = sample_scope"
  "require_narrower_than sample_scope sample_scope = Inr ()"
  by code_simp+

lemma sample_evaluation_dispatch:
  assumes "aq_context q = sample_stage_context" "aq_scope q = sample_scope" "aq_action q \<in> set evaluation_actions"
  shows "dispatch sample_evaluation_gate q operation ()
    = operation \<lparr>au_request = q, au_grant = granted_as_asked q, au_context = sample_stage_context\<rparr> ()"
  using assms
  by (simp add: dispatch_def sample_evaluation_gate_def decide_request_def action_contains_def allow_def granted_as_asked_def validate_grant_def
      cross_scope_def grant_expired_def action_simps dom_map_of_conv_image_fst image_image sample_stage_active)


lemma sample_evaluation_access:
  assumes "(kind, i) \<in> {(''evaluation_policy'', ''policy''), (''quality_evaluator'', ''q1'')}"
  shows "evaluation_access H sample_evaluation sample_stage_context act kind i
    = Inr \<lparr>aq_principal = \<lparr>pr_namespace = ''core'', pr_kind = ''run'', pr_id = ''r1''\<rparr>, aq_action = act,
        aq_resource = \<lparr>rs_namespace = ''core'', rs_kind = kind, rs_id = i, rs_owner = None\<rparr>, aq_scope = sample_scope,
        aq_context = sample_stage_context, aq_constraints = map_of (request_constraints H sample_evaluation)\<rparr>"
proof -
  have "mk_identifier ''r1'' = Inr ''r1''" "mk_identifier ''policy'' = Inr ''policy''" "mk_identifier ''q1'' = Inr ''q1''"
    "cx_run_id sample_stage_context = ''r1''" "er_scope sample_evaluation = sample_scope"
    "core_principal PRINCIPAL_RUN ''r1'' = Inr \<lparr>pr_namespace = ''core'', pr_kind = ''run'', pr_id = ''r1''\<rparr>"
    "mk_resource ''core'' ''evaluation_policy'' ''policy'' None
      = Inr \<lparr>rs_namespace = ''core'', rs_kind = ''evaluation_policy'', rs_id = ''policy'', rs_owner = None\<rparr>"
    "mk_resource ''core'' ''quality_evaluator'' ''q1'' None
      = Inr \<lparr>rs_namespace = ''core'', rs_kind = ''quality_evaluator'', rs_id = ''q1'', rs_owner = None\<rparr>"
    by code_simp+
  with assms show ?thesis by (auto simp: evaluation_access_def)
qed

lemma sample_grant_narrows:
  "validate_grant_constraints (request_constraints H sample_evaluation) \<lparr>au_request = q, au_grant = granted_as_asked q, au_context = c\<rparr> = Inr ()"
  if "aq_constraints q = map_of (request_constraints H sample_evaluation)"
  using that by (auto simp: validate_grant_constraints_def grant_narrows_constraints_def granted_as_asked_def request_constraints_def
      json_eq_refl raise_when_def dom_map_of_conv_image_fst)

lemma sample_await:
  "race () = (Operation_Done (Inr x), ()) \<Longrightarrow>
    await_provider sample_stage_context (ee_token sample_evaluation_env) (ee_clock sample_evaluation_env) race () = (Inr x, ())"
  by (simp add: await_provider_Inr sample_evaluation_env_def sample_stage_active)

lemma sample_evaluation_sel [simp]:
  "ee_policies sample_evaluation_env ''policy'' = Some (\<lambda>q ctx w. (Operation_Done (Inr (Some (sample_passed STAGE_POLICY))), w))"
  "ee_evaluators sample_evaluation_env ''q1'' = Some \<lparr>qe_capabilities = (\<lambda>ctx w. (Operation_Done (Inr sample_quality), w)),
     qe_evaluate = (\<lambda>q ctx w. (Operation_Done (Inr (Some (sample_passed STAGE_QUALITY))), w))\<rparr>"
  "ee_policy_dispatcher sample_evaluation_env = sample_evaluation_gate" "ee_capabilities_dispatcher sample_evaluation_env = sample_evaluation_gate"
  "ee_evaluate_dispatcher sample_evaluation_env = sample_evaluation_gate" "er_policy_ref sample_evaluation = ''policy''"
  "er_evaluator sample_evaluation = ''q1''" "ha_gateways sample_harness = sample_evaluation_env" "er_scope sample_evaluation = sample_scope"
  by (simp_all add: sample_evaluation_env_def sample_evaluation_def sample_harness_def)

lemma sample_answers:
  "validate_stage_answer (Some (sample_passed STAGE_POLICY)) STAGE_POLICY [PASSED, POLICY_DENIED, POLICY_INDETERMINATE] = Inr (sample_passed STAGE_POLICY)"
  "validate_stage_answer (Some (sample_passed STAGE_QUALITY)) STAGE_QUALITY [PASSED, QUALITY_FAILED] = Inr (sample_passed STAGE_QUALITY)"
  "validate_evidence (sample_passed s) q kinds = Inr ()" "validate_capabilities sample_quality sample_evaluation = Inr ()"
  by (simp_all add: validate_stage_answer_def sample_passed_def validate_evidence_def) code_simp

lemma sample_policy_stage: "policy_stage sample_harness sample_evaluation sample_evaluation_context () = (Inr (sample_passed STAGE_POLICY), ())"
  by (simp add: policy_stage_def sample_stage_narrow policy_evaluate_def get_policy_def sample_evaluation_access sample_evaluation_dispatch
      evaluation_actions_def policy_operation_def sample_grant_narrows sample_await sample_answers action_simps active_now_def)
    (simp add: sample_evaluation_env_def sample_stage_active)

lemma sample_quality_stage: "quality_stage sample_harness sample_evaluation sample_evaluation_context () = (Inr (sample_passed STAGE_QUALITY), ())"
proof -
  have "quality_capabilities sample_evaluation_env sample_evaluation sample_stage_context () = (Inr sample_quality, ())"
    by (simp add: quality_capabilities_def get_evaluator_def sample_evaluation_access sample_evaluation_dispatch evaluation_actions_def
        capabilities_operation_def sample_grant_narrows sample_await sample_answers action_simps)
  then show ?thesis
    by (simp add: quality_stage_def sample_stage_narrow quality_evaluate_def get_evaluator_def sample_evaluation_access sample_evaluation_dispatch
        evaluation_actions_def quality_operation_def sample_grant_narrows sample_await sample_answers action_simps active_now_def)
      (simp add: sample_evaluation_env_def sample_stage_active)
qed

definition sample_verdict :: evaluation_result where
  "sample_verdict = \<lparr>ex_contract = EVALUATION_CONTRACT_VERSION, ex_id = ''e1'', ex_verdict = PASSED,
     ex_stages = [sample_passed STAGE_SCHEMA, sample_passed STAGE_POLICY, sample_passed STAGE_QUALITY], ex_terminal = STAGE_QUALITY,
     ex_evidence = [], ex_error = None\<rparr>"

lemma sample_evaluates: "harness_evaluate sample_harness sample_evaluation sample_evaluation_context () = (Inr sample_verdict, ())"
proof -
  have s: "schema_evaluate (ha_schemas sample_harness) sample_evaluation = Inr (sample_passed STAGE_SCHEMA)"
    "result_from_stages (er_id sample_evaluation) (ex_stages sample_verdict) None = Inr sample_verdict"
    "require_narrower_than sample_scope (cx_scope sample_evaluation_context) = Inr ()" "cx_idempotency_key sample_evaluation_context \<noteq> None"
    "st_verdict (sample_passed STAGE_SCHEMA) = PASSED" "st_verdict (sample_passed STAGE_POLICY) = PASSED"
    "st_verdict (sample_passed STAGE_QUALITY) = PASSED"
    "ex_stages sample_verdict = [sample_passed STAGE_SCHEMA, sample_passed STAGE_POLICY, sample_passed STAGE_QUALITY]"
    by code_simp+
  have r: "run_stages sample_harness sample_evaluation sample_evaluation_context () = ((ex_stages sample_verdict, None), ())"
    by (simp add: run_stages_def after_stage_def s sample_policy_stage sample_quality_stage)
  have e: "ha_started sample_harness q c () = (Inr (), ())" "ha_recorded sample_harness q y c () = (Inr (), ())" for q c y
    by (simp_all add: sample_harness_def action_simps)
  show ?thesis
    using s(1-4) by (simp add: harness_evaluate_def Let_def r e close_stages_def finish_evaluation_def atry_def action_simps raise_when_def
      active_now_def) (simp add: sample_evaluation_env_def sample_stage_active)
qed

subsection \<open>Verdicts\<close>

text \<open>
  A verdict is audited before it is returned: whatever \<open>evaluate\<close> returns is a result its
  constructor accepts, about this request, with the verdict of its last stage, and its publication by
  the audit port, acknowledged without an error, is the last thing that happened.
\<close>

theorem verdict_audited_before_return:
  assumes "harness_evaluate E q ctx w = (Inr x, w')"
  shows "mk_evaluation_result x = Inr x \<and> ex_id x = er_id q \<and> ex_stages x \<noteq> [] \<and> ex_verdict x = st_verdict (last (ex_stages x))
    \<and> (\<exists>w1. ha_recorded E q x ctx w1 = (Inr (), w'))"
proof -
  obtain stages failure w2 stages' err where "result_from_stages (er_id q) stages' err = Inr x"
    and r: "ha_recorded E q x ctx w2 = (Inr (), w')"
    by (rule harness_evaluate_Inr [OF assms])
  note result_from_stages_Inr [OF this(1)]
  with r show ?thesis by auto
qed

theorem verdict_audited_before_return_witness:
  "mk_evaluation_result sample_verdict = Inr sample_verdict \<and> ex_id sample_verdict = er_id sample_evaluation
    \<and> (\<exists>w1. ha_recorded sample_harness sample_evaluation sample_verdict sample_evaluation_context w1 = (Inr (), ()))"
  using verdict_audited_before_return [OF sample_evaluates] by auto

text \<open>
  C13. PASSED is earned, in order: an evaluation returns PASSED only if the value fits its schema; then,
  in the world the start event left and on the context derived for the policy stage, the policy that
  the request names answers PASSED in an authorized call; then, in the world that answer left, the
  evaluator that the request names shows in an authorized call capabilities that fit the request,
  and after that answers PASSED in an authorized call on the context of the quality stage; then, in
  the world that left, the verdict is recorded. Each access is the one action on that provider, by
  the Run of the call and in the scope of the request, and the result returned is made of exactly these
  three answers. No failed, denied, broken or reordered stage can be laundered into a pass.
\<close>

theorem passed_is_earned:
  assumes e: "harness_evaluate E q ctx w = (Inr x, w')" and passed: "ex_verdict x = PASSED"
  shows "\<exists>s policy evaluator p c y cp wp pa wa pcall wb cq wq ca wc ccall wd qa we qcall wf.
    validate_value (ha_schemas E) (er_input_schema q) (er_value q) = Inr ()
    \<and> stage_context E q ctx STAGE_POLICY (snd (ha_started E q ctx w)) = (Inr cp, wp)
    \<and> ee_policies (ha_gateways E) (er_policy_ref q) = Some policy
    \<and> asks_for (ee_digest (ha_gateways E)) q cp EVALUATION_POLICY_EVALUATE_ACTION ''evaluation_policy'' (er_policy_ref q) pa
    \<and> authorized (ee_policy_dispatcher (ha_gateways E)) pa wp pcall wa
    \<and> policy q (au_context pcall) wa = (Operation_Done (Inr (Some p)), wb) \<and> st_stage p = STAGE_POLICY \<and> st_verdict p = PASSED
    \<and> stage_context E q ctx STAGE_QUALITY wb = (Inr cq, wq)
    \<and> ee_evaluators (ha_gateways E) (er_evaluator q) = Some evaluator
    \<and> asks_for (ee_digest (ha_gateways E)) q cq QUALITY_CAPABILITIES_ACTION ''quality_evaluator'' (er_evaluator q) ca
    \<and> authorized (ee_capabilities_dispatcher (ha_gateways E)) ca wq ccall wc
    \<and> qe_capabilities evaluator (au_context ccall) wc = (Operation_Done (Inr c), wd) \<and> validate_capabilities c q = Inr ()
    \<and> asks_for (ee_digest (ha_gateways E)) q cq QUALITY_EVALUATE_ACTION ''quality_evaluator'' (er_evaluator q) qa
    \<and> authorized (ee_evaluate_dispatcher (ha_gateways E)) qa wd qcall we
    \<and> qe_evaluate evaluator q (au_context qcall) we = (Operation_Done (Inr (Some y)), wf) \<and> st_stage y = STAGE_QUALITY
    \<and> st_verdict y = PASSED
    \<and> ex_stages x = [s, p, y] \<and> st_stage s = STAGE_SCHEMA \<and> st_verdict s = PASSED \<and> ha_recorded E q x ctx wf = (Inr (), w')"
proof -
  obtain stages failure w2 stages' err where
    rs: "run_stages E q ctx (snd (ha_started E q ctx w)) = ((stages, failure), w2)"
    and c: "close_stages stages failure = Inr (stages', err)" and res: "result_from_stages (er_id q) stages' err = Inr x"
    and audit: "ha_recorded E q x ctx w2 = (Inr (), w')"
    by (rule harness_evaluate_Inr [OF e])
  note x = result_from_stages_Inr [OF res]
  from close_stages_last [OF c] x(1,2,6) passed have st: "failure = None" "stages' = stages" "st_verdict (last stages) = PASSED"
    by simp_all
  from rs show ?thesis
  proof (cases rule: run_stages_cases)
    case (quality_ran r p w1 y)
    obtain cp wp where p: "stage_context E q ctx STAGE_POLICY (snd (ha_started E q ctx w)) = (Inr cp, wp)"
      "policy_evaluate (ha_gateways E) q cp wp = (Inr p, w1)"
      using policy_stage_Inr [OF quality_ran(3)] by blast
    obtain cq wq where y: "stage_context E q ctx STAGE_QUALITY w1 = (Inr cq, wq)" "quality_evaluate (ha_gateways E) q cq wq = (Inr y, w2)"
      using quality_stage_Inr [OF quality_ran(5)] by blast
    have verdict: "st_verdict y = PASSED" and xs: "ex_stages x = [r, p, y]" using st x(1) quality_ran(6) by simp_all
    note s = schema_evaluate_passed [OF quality_ran(1,2)]
    obtain policy pa pcall wa where pol: "ee_policies (ha_gateways E) (er_policy_ref q) = Some policy"
      "asks_for (ee_digest (ha_gateways E)) q cp EVALUATION_POLICY_EVALUATE_ACTION ''evaluation_policy'' (er_policy_ref q) pa"
      "authorized (ee_policy_dispatcher (ha_gateways E)) pa wp pcall wa"
      "policy q (au_context pcall) wa = (Operation_Done (Inr (Some p)), w1)" "st_stage p = STAGE_POLICY"
      by (rule policy_evaluate_Inr [OF p(2)])
    obtain evaluator cs wd qa qcall we where ev: "ee_evaluators (ha_gateways E) (er_evaluator q) = Some evaluator"
      "quality_capabilities (ha_gateways E) q cq wq = (Inr cs, wd)"
      "asks_for (ee_digest (ha_gateways E)) q cq QUALITY_EVALUATE_ACTION ''quality_evaluator'' (er_evaluator q) qa"
      "authorized (ee_evaluate_dispatcher (ha_gateways E)) qa wd qcall we"
      "qe_evaluate evaluator q (au_context qcall) we = (Operation_Done (Inr (Some y)), w2)" "st_stage y = STAGE_QUALITY"
      by (rule quality_evaluate_Inr [OF y(2)])
    obtain evaluator' ca ccall wc where cap: "ee_evaluators (ha_gateways E) (er_evaluator q) = Some evaluator'"
      "asks_for (ee_digest (ha_gateways E)) q cq QUALITY_CAPABILITIES_ACTION ''quality_evaluator'' (er_evaluator q) ca"
      "authorized (ee_capabilities_dispatcher (ha_gateways E)) ca wq ccall wc"
      "qe_capabilities evaluator' (au_context ccall) wc = (Operation_Done (Inr cs), wd)" "validate_capabilities cs q = Inr ()"
      by (rule quality_capabilities_Inr [OF ev(2)])
    have same: "evaluator' = evaluator" using ev(1) cap(1) by simp
    show ?thesis
      by (intro exI conjI)
        (rule s(1) p(1) pol quality_ran(4) y(1) ev(1) cap(2,3) cap(4) [unfolded same] cap(5) ev(3-6) verdict xs s(2)
          quality_ran(2) audit)+
  qed (use st in auto)
qed

theorem passed_is_earned_witness:
  "(\<exists>policy pcall wb p. ee_policies (ha_gateways sample_harness) (er_policy_ref sample_evaluation) = Some policy
      \<and> policy sample_evaluation (au_context pcall) () = (Operation_Done (Inr (Some p)), wb) \<and> st_verdict p = PASSED)
    \<and> (\<exists>s p y. ex_stages sample_verdict = [s, p, y])"
proof -
  have "ex_verdict sample_verdict = PASSED" by (simp add: sample_verdict_def)
  from passed_is_earned [OF sample_evaluates this] show ?thesis by auto
qed

end
