(* ===== verification/Provider_Boundary.thy ===== *)
theory Provider_Boundary
  imports Runtime_Context Value_Schema Model_Contract
begin

section \<open>What the provider gateways share\<close>

text \<open>
  The gateways of \<open>provider/\<close> have the same collaborators and the same private helpers: the access
  request of a call in the name of the Run, the publication of an event that never fails the call
  (\<open>provider/events.py\<close>), the wrapping of what a provider raises, the elapsed milliseconds and
  the narrowing of a limit by a grant.
\<close>

record 'w provider_env =
  pv_dispatcher :: "'w dispatcher"
  pv_schemas :: schema_registry
  pv_clock :: "'w \<Rightarrow> datetime"
  pv_token :: "'w \<Rightarrow> unit cancellation_token"
  pv_publish :: "string \<Rightarrow> call_context \<Rightarrow> json_object \<Rightarrow> ('w, exn, unit) action"
  pv_elapsed :: "datetime \<Rightarrow> datetime \<Rightarrow> int"

text \<open>\<open>with suppress(Exception)\<close>: whatever the publisher raises is dropped, its effects stay.\<close>

definition emit :: "'w provider_env \<Rightarrow> string \<Rightarrow> call_context \<Rightarrow> json_object \<Rightarrow> ('w, exn, unit) action" where
  "emit V event ctx payload = atry (pv_publish V event ctx payload) (\<lambda>_. areturn ())"

definition null_provider_publisher :: "string \<Rightarrow> call_context \<Rightarrow> json_object \<Rightarrow> ('w, exn, unit) action" where
  "null_provider_publisher event ctx payload = areturn ()"

lemma emit_Inr: "\<exists>w'. emit V event ctx payload w = (Inr (), w')"
  by (auto simp: emit_def action_simps split: prod.splits sum.splits)

lemma emit_not_Inl [simp]: "emit V event ctx payload w \<noteq> (Inl e, w')"
  using emit_Inr [of V event ctx payload w] by auto

text \<open>\<open>int(seconds * 1000)\<close> is arithmetic on doubles and a parameter; negative values are cut off.\<close>

definition elapsed_ms :: "'w provider_env \<Rightarrow> datetime \<Rightarrow> 'w \<Rightarrow> int" where
  "elapsed_ms V since w = max 0 (pv_elapsed V since (pv_clock V w))"

definition exn_type :: "exn \<Rightarrow> string" where
  "exn_type e = (case e of CoreError _ \<Rightarrow> ''CoreError'' | ValueError _ \<Rightarrow> ''ValueError'' | AssertionError _ \<Rightarrow> ''AssertionError''
     | KeyError _ \<Rightarrow> ''KeyError'' | ForeignError n \<Rightarrow> n)"

definition provider_failure :: "string \<Rightarrow> string \<Rightarrow> exn \<Rightarrow> exn" where
  "provider_failure code msg e = core_error UNAVAILABLE code msg True (Some (exn_type e))"

lemma provider_failure_detail:
  "code \<noteq> [] \<Longrightarrow> msg \<noteq> [] \<Longrightarrow> provider_failure code msg e = CoreError \<lparr>ed_category = UNAVAILABLE, ed_code = code,
     ed_message = msg, ed_retryable = True, ed_cause_id = Some (exn_type e), ed_metadata = []\<rparr>"
  by (simp add: provider_failure_def core_error_def core_error_of_def mk_error_detail_def error_detail_ok_def)

text \<open>\<open>except CoreError: raise\<close>, \<open>except Exception as error: raise self._provider_failure(error)\<close>\<close>

definition guarded_provider :: "string \<Rightarrow> string \<Rightarrow> ('w, exn, 'a) action \<Rightarrow> ('w, exn, 'a) action" where
  "guarded_provider code msg m = atry m (\<lambda>e. case e of CoreError _ \<Rightarrow> araise e | _ \<Rightarrow> araise (provider_failure code msg e))"

lemma guarded_provider_Inr: "guarded_provider code msg m w = (Inr x, w') \<longleftrightarrow> m w = (Inr x, w')"
  by (auto simp: guarded_provider_def action_simps split: prod.splits sum.splits exn.splits)

definition provider_access ::
  "call_context \<Rightarrow> action_ref \<Rightarrow> string \<Rightarrow> string \<Rightarrow> json_object \<Rightarrow> access_request result" where
  "provider_access ctx act kind i constraints =
     rbind (rbind (mk_identifier (cx_run_id ctx)) (core_principal PRINCIPAL_RUN)) (\<lambda>principal.
     rbind (rbind (mk_identifier i) (\<lambda>i. mk_resource ''core'' kind i None)) (\<lambda>resource.
     Inr \<lparr>aq_principal = principal, aq_action = act, aq_resource = resource, aq_scope = cx_scope ctx, aq_context = ctx,
       aq_constraints = map_of constraints\<rparr>))"

lemma provider_access_Inr:
  "provider_access ctx act kind i constraints = Inr q \<Longrightarrow>
     aq_action q = act \<and> aq_scope q = cx_scope ctx \<and> aq_context q = ctx \<and> aq_constraints q = map_of constraints"
  by (auto simp: provider_access_def rbind_eq_Inr)

subsection \<open>Narrowing by a grant\<close>

definition only_constraints :: "(string \<rightharpoonup> json) \<Rightarrow> string list \<Rightarrow> bool" where
  "only_constraints granted names \<longleftrightarrow> dom granted \<subseteq> set names"

text \<open>\<open>constraints.get(name)\<close>, where null is absent.\<close>

definition constraint_value :: "(string \<rightharpoonup> json) \<Rightarrow> string \<Rightarrow> json" where
  "constraint_value granted k = (case granted k of None \<Rightarrow> JNull | Some v \<Rightarrow> v)"

definition narrow_limit :: "string \<Rightarrow> string \<Rightarrow> int option \<Rightarrow> json \<Rightarrow> int option result" where
  "narrow_limit kind name asked v = (case v of
       JNull \<Rightarrow> Inr asked
     | JInt g \<Rightarrow> if g < 1 \<or> (case asked of None \<Rightarrow> False | Some a \<Rightarrow> a < g)
         then Inl (invalid_grant (kind @ '' '' @ name @ '' grant broadens the request'')) else Inr (Some g)
     | _ \<Rightarrow> Inl (invalid_grant (kind @ '' '' @ name @ '' constraint is invalid'')))"

definition limit_within :: "int option \<Rightarrow> int option \<Rightarrow> bool" where
  "limit_within n asked \<longleftrightarrow> (case asked of None \<Rightarrow> True | Some a \<Rightarrow> (case n of None \<Rightarrow> False | Some l \<Rightarrow> l \<le> a))"

lemma limit_within_refl [simp]: "limit_within a a"
  by (simp add: limit_within_def split: option.splits)

lemma narrow_limit_within: "narrow_limit kind name asked v = Inr l \<Longrightarrow> limit_within l asked"
  by (auto simp: narrow_limit_def limit_within_def split: json.splits option.splits if_splits)

lemma narrow_limit_ok: "narrow_limit kind name asked v = Inr l \<Longrightarrow> limit_ok asked \<Longrightarrow> limit_ok l"
  by (auto simp: narrow_limit_def limit_ok_def split: json.splits option.splits if_splits)

text \<open>The names a grant lists, when it lists names only.\<close>

fun string_items :: "json list \<Rightarrow> string list option" where
  "string_items [] = Some []"
| "string_items (JStr s # vs) = (case string_items vs of None \<Rightarrow> None | Some ss \<Rightarrow> Some (s # ss))"
| "string_items (v # vs) = None"

definition granted_names :: "json \<Rightarrow> string list option" where
  "granted_names v = (case v of JList vs \<Rightarrow> string_items vs | _ \<Rightarrow> None)"

lemma string_items_JStr [simp]: "string_items (List.map JStr ss) = Some ss"
  by (induction ss) simp_all

end
