(* ===== verification/Context_Resolver.thy ===== *)
theory Context_Resolver
  imports Context_Model Provider_Boundary Json_Codec Runtime_Errors
begin

section \<open>Resolving context\<close>

text \<open>
  \<open>ContextResolver\<close> of \<open>provider/context.py\<close>: load the capabilities of the bound providers, select
  providers for the required keys by the strategy, invoke them one after another, check their
  answers and combine them. Every call of a provider is a dispatched call. An answer of the wrong
  type is \<open>None\<close>. The number of bytes of the canonical JSON text of the values is a parameter.
\<close>

definition CONTEXT_CAPABILITIES_ACTION :: action_ref where
  "CONTEXT_CAPABILITIES_ACTION = \<lparr>ac_namespace = ''core'', ac_name = ''context.capabilities'', ac_version = ''1''\<rparr>"

definition CONTEXT_PROVIDE_ACTION :: action_ref where
  "CONTEXT_PROVIDE_ACTION = \<lparr>ac_namespace = ''core'', ac_name = ''context.provide'', ac_version = ''1''\<rparr>"

subsection \<open>Registries\<close>

type_synonym merge_policies = "string \<times> string \<times> string \<rightharpoonup> (json list \<Rightarrow> json result)"

definition merge_policy_taken :: exn where
  "merge_policy_taken = core_error CONFLICT ''context_merge_policy_already_registered''
     ''context merge policy is already registered'' False None"

definition register_merge_policy :: "schema_ref \<times> (json list \<Rightarrow> json result) \<Rightarrow> merge_policies \<Rightarrow> merge_policies result" where
  "register_merge_policy e r = (if schema_key (fst e) \<in> dom r then Inl merge_policy_taken else Inr (r(schema_key (fst e) \<mapsto> snd e)))"

definition merge_values :: "merge_policies \<Rightarrow> schema_ref \<Rightarrow> json list \<Rightarrow> json result" where
  "merge_values r s values = (case values of
       [] \<Rightarrow> Inl (ForeignError ''IndexError'')
     | v # vs \<Rightarrow> if list_all (\<lambda>x. json_eq x v) vs then Inr v
         else (case r (schema_key s) of
           None \<Rightarrow> Inl (core_error CONFLICT ''context_merge_conflict'' ''context values conflict without an explicit merge policy'' False None)
         | Some policy \<Rightarrow> (case policy values of
             Inr x \<Rightarrow> Inr x
           | Inl e \<Rightarrow> (case validation_cause e of
               None \<Rightarrow> Inl e
             | Some n \<Rightarrow> Inl (core_error PROTOCOL_FAILURE ''context_merge_policy_failure''
                 ''context merge policy returned an invalid value'' False (Some n))))))"

record 'w context_provider =
  xp_provide :: "context_request \<Rightarrow> 'w \<Rightarrow> context_result option awaited \<times> 'w"
  xp_capabilities :: "call_context \<Rightarrow> 'w \<Rightarrow> context_capabilities option awaited \<times> 'w"

type_synonym 'w context_providers = "provider_id \<rightharpoonup> 'w context_provider"

definition context_provider_taken :: exn where
  "context_provider_taken = core_error CONFLICT ''context_provider_already_registered''
     ''context provider is already registered'' False None"

definition register_context_provider :: "provider_id \<times> 'w context_provider \<Rightarrow> 'w context_providers \<Rightarrow> 'w context_providers result" where
  "register_context_provider e r = (if fst e \<in> dom r then Inl context_provider_taken else Inr (r(fst e \<mapsto> snd e)))"

definition get_context_provider :: "'w context_providers \<Rightarrow> provider_id \<Rightarrow> 'w context_provider result" where
  "get_context_provider r i = (case r i of
       None \<Rightarrow> Inl (core_error UNAVAILABLE ''context_provider_not_registered'' ''context provider is not registered'' True None)
     | Some p \<Rightarrow> Inr p)"

interpretation merge_registry: once_registry register_merge_policy "\<lambda>r k. r k" "\<lambda>e. schema_key (fst e)" snd "\<lambda>_. merge_policy_taken"
  by unfold_locales (auto simp: register_merge_policy_def)

interpretation context_provider_registry: once_registry register_context_provider "\<lambda>r k. r k" fst snd "\<lambda>_. context_provider_taken"
  by unfold_locales (auto simp: register_context_provider_def)

record 'w context_resolver =
  xe_env :: "'w provider_env"
  xe_providers :: "'w context_providers"
  xe_merges :: merge_policies
  xe_encoded_length :: "json list \<Rightarrow> nat"

subsection \<open>Checks\<close>

definition context_unavailable :: exn where
  "context_unavailable = core_error UNAVAILABLE ''compatible_context_provider_unavailable''
     ''no compatible context provider is available'' True None"

definition context_protocol_failure :: "string \<Rightarrow> string \<Rightarrow> exn" where
  "context_protocol_failure code msg = core_error PROTOCOL_FAILURE code msg False None"

definition context_constraints :: "context_requirement list \<Rightarrow> context_budget \<Rightarrow> json_object" where
  "context_constraints rs b = [(''keys'', JList (List.map (\<lambda>r. JStr (context_wire_name (cq_key r))) rs)),
     (''max_bytes'', opt_int (cl_bytes b)), (''max_tokens'', opt_int (cl_tokens b))]"

definition granted_requirements :: "context_requirement list \<Rightarrow> json \<Rightarrow> context_requirement list result" where
  "granted_requirements rs v =
     (if v = JNull then Inr rs else case granted_names v of
        None \<Rightarrow> Inl (invalid_grant ''context key constraint is invalid'')
      | Some names \<Rightarrow>
        if \<not> set names \<subseteq> set (List.map (\<lambda>r. context_wire_name (cq_key r)) rs)
        then Inl (invalid_grant ''context grant broadens requested keys'')
        else let kept = filter (\<lambda>r. context_wire_name (cq_key r) \<in> set names) rs
          in if kept = [] then Inl (invalid_grant ''context grant permits no requested keys'') else Inr kept)"

definition constrain_context :: "context_request \<Rightarrow> authorized_call \<Rightarrow> context_request result" where
  "constrain_context q call =
     (let granted = gr_constraints (au_grant call) in
      if \<not> only_constraints granted [''keys'', ''max_bytes'', ''max_tokens'']
      then Inl (invalid_grant ''context grant contains unknown constraints'')
      else rbind (granted_requirements (xq_requirements q) (constraint_value granted ''keys'')) (\<lambda>rs.
      rbind (narrow_limit ''context'' ''max_bytes'' (cl_bytes (xq_budget q)) (constraint_value granted ''max_bytes'')) (\<lambda>b.
      rbind (narrow_limit ''context'' ''max_tokens'' (cl_tokens (xq_budget q)) (constraint_value granted ''max_tokens'')) (\<lambda>t.
      rbind (mk_context_budget b t) (\<lambda>budget.
      mk_context_request (q\<lparr>xq_context := au_context call, xq_requirements := rs, xq_budget := budget\<rparr>))))))"

fun check_entries ::
  "schema_registry \<Rightarrow> context_requirement list \<Rightarrow> context_entry list \<Rightarrow> context_key set \<Rightarrow> context_key set result" where
  "check_entries S rs [] seen = Inr seen"
| "check_entries S rs (e # es) seen =
     rbind (raise_when (map_of (List.map (\<lambda>r. (cq_key r, cq_schema r)) rs) (en_key e) \<noteq> Some (en_schema e) \<or> en_key e \<in> seen)
       (context_protocol_failure ''invalid_context_result'' ''context provider returned an unexpected or duplicate entry'')) (\<lambda>_.
     rbind (validate_value S (en_schema e) (en_value e)) (\<lambda>_.
     check_entries S rs es (insert (en_key e) seen)))"

definition validate_context_result ::
  "schema_registry \<Rightarrow> provider_id \<Rightarrow> context_request \<Rightarrow> context_result \<Rightarrow> unit result" where
  "validate_context_result S p q r =
     rbind (raise_when (xr_provider r \<noteq> p)
       (context_protocol_failure ''context_provider_identity_mismatch'' ''context provider returned a mismatched identity'')) (\<lambda>_.
     rbind (check_entries S (xq_requirements q) (xr_entries r) {}) (\<lambda>seen.
     raise_when (set (filter (\<lambda>k. k \<notin> seen) (keys_of (xq_requirements q))) \<noteq> set (xr_missing r))
       (context_protocol_failure ''invalid_context_completeness''
          ''context provider completeness does not match returned entries'')))"

definition enforce_budget :: "context_budget \<Rightarrow> context_usage \<Rightarrow> unit result" where
  "enforce_budget b u =
     rbind (raise_when (limit_exceeds (Some (cg_bytes u)) (cl_bytes b))
       (core_error INVALID_REQUEST ''context_byte_budget_exceeded'' ''resolved context exceeds its byte budget'' False None)) (\<lambda>_.
     (case cl_tokens b of
        None \<Rightarrow> Inr ()
      | Some m \<Rightarrow> (case cg_tokens u of
          None \<Rightarrow> Inl (core_error UNSUPPORTED_CAPABILITY ''context_token_usage_unavailable''
            ''token budget requires provider token usage reporting'' False None)
        | Some n \<Rightarrow> raise_when (m < n) (core_error INVALID_REQUEST ''context_token_budget_exceeded''
            ''resolved context exceeds its token budget'' False None))))"

subsection \<open>Loading capabilities and selecting providers\<close>

definition context_guard :: "('w, exn, 'a) action \<Rightarrow> ('w, exn, 'a) action" where
  "context_guard = guarded_provider ''context_provider_failure'' ''context provider failed''"

definition capability_call ::
  "'w context_resolver \<Rightarrow> 'w context_provider \<Rightarrow> context_request \<Rightarrow> authorized_call \<Rightarrow> ('w, exn, context_capabilities option) action" where
  "capability_call E p q call =
     abind (aresult (constrain_context q call)) (\<lambda>c.
     context_guard (await_provider (xq_context c) (pv_token (xe_env E)) (pv_clock (xe_env E)) (xp_capabilities p (xq_context c))))"

definition provider_capabilities ::
  "'w context_resolver \<Rightarrow> context_request \<Rightarrow> provider_id \<Rightarrow> ('w, exn, context_capabilities) action" where
  "provider_capabilities E q i =
     abind (aresult (get_context_provider (xe_providers E) i)) (\<lambda>p.
     abind (aresult (provider_access (xq_context q) CONTEXT_CAPABILITIES_ACTION ''context_provider'' i
       (context_constraints (xq_requirements q) (xq_budget q)))) (\<lambda>access.
     abind (dispatch (pv_dispatcher (xe_env E)) access (capability_call E p q)) (\<lambda>raw. case raw of
       None \<Rightarrow> araise (context_protocol_failure ''invalid_context_capabilities'' ''context provider returned invalid capabilities'')
     | Some c \<Rightarrow> if xc_provider c \<noteq> i
         then araise (context_protocol_failure ''context_provider_identity_mismatch''
           ''context provider returned a mismatched identity'') else areturn c)))"

fun load_capabilities ::
  "'w context_resolver \<Rightarrow> context_request \<Rightarrow> provider_id list \<Rightarrow> (provider_id \<rightharpoonup> context_capabilities)
    \<Rightarrow> ('w, exn, provider_id \<rightharpoonup> context_capabilities) action" where
  "load_capabilities E q [] acc = areturn acc"
| "load_capabilities E q (i # is) acc =
     abind (provider_capabilities E q i) (\<lambda>c. load_capabilities E q is (acc(i \<mapsto> c)))"

definition provider_supports ::
  "(provider_id \<rightharpoonup> context_capabilities) \<Rightarrow> context_request \<Rightarrow> provider_id \<Rightarrow> context_requirement \<Rightarrow> bool" where
  "provider_supports caps q i r \<longleftrightarrow> (case caps i of None \<Rightarrow> False | Some c \<Rightarrow> context_supports c r q)"

type_synonym context_group = "provider_id \<times> context_requirement list"

text \<open>
  Every provider gets the keys it supports, in the order of the binding; a provider without any is
  left out. \<open>SINGLE\<close> refuses a key that two providers support.
\<close>

definition provider_groups ::
  "(provider_id \<rightharpoonup> context_capabilities) \<Rightarrow> context_request \<Rightarrow> provider_id list \<Rightarrow> context_group list" where
  "provider_groups caps q is = filter (\<lambda>(i, rs). rs \<noteq> [])
     (List.map (\<lambda>i. (i, filter (provider_supports caps q i) (xq_requirements q))) is)"

definition select_providers ::
  "context_request \<Rightarrow> context_binding \<Rightarrow> (provider_id \<rightharpoonup> context_capabilities) \<Rightarrow> context_group list result" where
  "select_providers q b caps =
     rbind (raise_when (xb_strategy b = SINGLE_PROVIDER
         \<and> list_ex (\<lambda>r. 1 < List.length (filter (\<lambda>i. provider_supports caps q i r) (xb_providers b))) (xq_requirements q))
       (core_error CONFLICT ''context_single_provider_conflict''
          ''single resolution matched more than one provider for a key'' False None)) (\<lambda>_.
     (let groups = provider_groups caps q (xb_providers b) in
      if groups = [] then Inl context_unavailable else Inr groups))"

subsection \<open>Invoking the groups\<close>

definition provide_call ::
  "'w context_resolver \<Rightarrow> 'w context_provider \<Rightarrow> context_request \<Rightarrow> authorized_call \<Rightarrow> ('w, exn, context_result option) action" where
  "provide_call E p q call =
     abind (aresult (constrain_context q call)) (\<lambda>c.
     context_guard (await_provider (xq_context c) (pv_token (xe_env E)) (pv_clock (xe_env E)) (xp_provide p c)))"

definition invoke_provider ::
  "'w context_resolver \<Rightarrow> context_request \<Rightarrow> provider_id \<Rightarrow> context_requirement list \<Rightarrow> ('w, exn, context_result) action" where
  "invoke_provider E q i rs =
     abind (aresult (get_context_provider (xe_providers E) i)) (\<lambda>p.
     abind (aresult (mk_context_request (q\<lparr>xq_requirements := rs\<rparr>))) (\<lambda>pq.
     abind (aresult (provider_access (xq_context q) CONTEXT_PROVIDE_ACTION ''context_provider'' i
       (context_constraints rs (xq_budget q)))) (\<lambda>access.
     abind (emit (xe_env E) ''core.context.provider_selected'' (xq_context q)
       [(''provider_id'', JStr i), (''key_count'', JInt (int (List.length rs)))]) (\<lambda>_.
     abind (dispatch (pv_dispatcher (xe_env E)) access (provide_call E p pq)) (\<lambda>raw. case raw of
       None \<Rightarrow> araise (context_protocol_failure ''invalid_context_result'' ''context provider returned an invalid result'')
     | Some r \<Rightarrow> abind (aresult (validate_context_result (pv_schemas (xe_env E)) i pq r)) (\<lambda>_. areturn r))))))"

definition context_fallback :: "context_binding \<Rightarrow> exn \<Rightarrow> bool" where
  "context_fallback b e \<longleftrightarrow> xb_strategy b = FIRST_SUCCESS
     \<and> err_category e \<in> {Some UNAVAILABLE, Some UNSUPPORTED_CAPABILITY}"

definition settles :: "context_request \<Rightarrow> context_binding \<Rightarrow> context_result \<Rightarrow> bool" where
  "settles q b r \<longleftrightarrow> xb_strategy b = FIRST_SUCCESS \<and> (xr_completeness r = COMPLETE \<or> xq_policy q = ALLOW_PARTIAL)"

fun invoke_each ::
  "'w context_resolver \<Rightarrow> context_request \<Rightarrow> context_binding \<Rightarrow> context_group list \<Rightarrow> ('w, exn, context_result list) action" where
  "invoke_each E q b [] w = (Inr [], w)"
| "invoke_each E q b (g # gs) w = (case invoke_provider E q (fst g) (snd g) w of
     (Inl e, w1) \<Rightarrow> if context_fallback b e then invoke_each E q b gs w1 else (Inl e, w1)
   | (Inr r, w1) \<Rightarrow> if settles q b r then (Inr [r], w1)
       else abind (invoke_each E q b gs) (\<lambda>rs. areturn (r # rs)) w1)"

text \<open>\<open>sort(key=..., reverse=True)\<close> is stable: among the results with most entries the first one.\<close>

definition most_entries :: "context_result list \<Rightarrow> context_result" where
  "most_entries rs = hd (sort_key (\<lambda>r. - int (List.length (xr_entries r))) rs)"

definition invoke_groups ::
  "'w context_resolver \<Rightarrow> context_request \<Rightarrow> context_binding \<Rightarrow> context_group list \<Rightarrow> ('w, exn, context_result list) action" where
  "invoke_groups E q b gs = abind (invoke_each E q b gs) (\<lambda>rs.
     if rs = [] then araise context_unavailable
     else if xb_strategy b = FIRST_SUCCESS then areturn [most_entries rs] else areturn rs)"

subsection \<open>Combining the results\<close>

definition candidates :: "context_result list \<Rightarrow> context_key \<Rightarrow> context_entry list" where
  "candidates rs k = filter (\<lambda>e. en_key e = k) (List.concat (List.map xr_entries rs))"

definition merge_candidates :: "merge_policies \<Rightarrow> context_requirement \<Rightarrow> context_entry list \<Rightarrow> context_entry result" where
  "merge_candidates M r es =
     rbind (merge_values M (cq_schema r) (List.map en_value es)) (\<lambda>v.
     mk_entry ((hd es)\<lparr>en_value := v, en_provenance := List.concat (List.map en_provenance es)\<rparr>))"

fun combine_entries ::
  "merge_policies \<Rightarrow> merge_strategy \<Rightarrow> context_result list \<Rightarrow> context_requirement list \<Rightarrow> context_entry list result" where
  "combine_entries M m rs [] = Inr []"
| "combine_entries M m rs (q # qs) =
     rbind (if m = ALL_VALUES then Inr (candidates rs (cq_key q))
            else if candidates rs (cq_key q) = [] then Inr []
            else rbind (merge_candidates M q (candidates rs (cq_key q))) (\<lambda>e. Inr [e])) (\<lambda>es.
     rbind (combine_entries M m rs qs) (\<lambda>rest. Inr (es @ rest)))"

text \<open>The sum of the token counts, when every provider reports one.\<close>

fun token_sum :: "context_result list \<Rightarrow> int option" where
  "token_sum [] = Some 0"
| "token_sum (r # rs) = (case (cg_tokens (xr_usage r), token_sum rs) of (Some a, Some b) \<Rightarrow> Some (a + b) | _ \<Rightarrow> None)"

definition combine :: "'w context_resolver \<Rightarrow> context_request \<Rightarrow> context_binding \<Rightarrow> context_result list \<Rightarrow> resolved_context result" where
  "combine E q b rs =
     rbind (combine_entries (xe_merges E) (xb_strategy b) rs (xq_requirements q)) (\<lambda>es.
     let missing = filter (\<lambda>k. k \<notin> set (List.map en_key es)) (keys_of (xq_requirements q)) in
     rbind (mk_context_usage (int (xe_encoded_length E (List.map en_value es))) (token_sum rs)) (\<lambda>u.
     rbind (enforce_budget (xq_budget q) u) (\<lambda>_.
     mk_resolved \<lparr>rx_entries = es, rx_completeness = (if missing = [] then COMPLETE else PARTIAL), rx_missing = missing,
       rx_warnings = List.concat (List.map xr_warnings rs), rx_providers = List.map xr_provider rs, rx_usage = u\<rparr>)))"

subsection \<open>Resolution\<close>

definition resolution ::
  "'w context_resolver \<Rightarrow> context_request \<Rightarrow> context_binding \<Rightarrow> ('w, exn, resolved_context) action" where
  "resolution E q b =
     abind (load_capabilities E q (xb_providers b) Map.empty) (\<lambda>caps.
     abind (aresult (select_providers q b caps)) (\<lambda>groups.
     abind (invoke_groups E q b groups) (\<lambda>rs.
     aresult (combine E q b rs))))"

definition resolution_completed ::
  "'w context_resolver \<Rightarrow> context_request \<Rightarrow> datetime \<Rightarrow> resolved_context \<Rightarrow> ('w, exn, resolved_context) action" where
  "resolution_completed E q since r w =
     abind (emit (xe_env E) ''core.context.resolution_completed'' (xq_context q)
       [(''provider_count'', JInt (int (List.length (rx_providers r)))), (''entry_count'', JInt (int (List.length (rx_entries r)))),
        (''completeness'', JStr (completeness_value (rx_completeness r))), (''byte_count'', JInt (cg_bytes (rx_usage r))),
        (''latency_ms'', JInt (elapsed_ms (xe_env E) since w)), (''outcome'', JStr ''completed'')]) (\<lambda>_. areturn r) w"

definition resolution_failed ::
  "'w context_resolver \<Rightarrow> context_request \<Rightarrow> datetime \<Rightarrow> exn \<Rightarrow> ('w, exn, resolved_context) action" where
  "resolution_failed E q since e w = (case e of
       CoreError d \<Rightarrow> abind (emit (xe_env E) ''core.context.resolution_failed'' (xq_context q)
         [(''error_code'', JStr (ed_code d)), (''category'', JStr (category_value (ed_category d))),
          (''latency_ms'', JInt (elapsed_ms (xe_env E) since w)), (''outcome'', JStr ''failed'')]) (\<lambda>_. araise e) w
     | _ \<Rightarrow> (Inl e, w))"

definition resolve_context ::
  "'w context_resolver \<Rightarrow> context_request \<Rightarrow> context_binding \<Rightarrow> ('w, exn, resolved_context) action" where
  "resolve_context E q b w =
     (if xq_requirements q \<noteq> xb_requirements b
      then (Inl (core_error INVALID_REQUEST ''context_binding_mismatch'' ''context request does not match its binding'' False None), w)
      else let since = pv_clock (xe_env E) w in
        abind (emit (xe_env E) ''core.context.resolution_started'' (xq_context q)
          [(''key_count'', JInt (int (List.length (xq_requirements q)))), (''strategy'', JStr (merge_strategy_value (xb_strategy b)))]) (\<lambda>_.
        atry (abind (resolution E q b) (resolution_completed E q since)) (resolution_failed E q since)) w)"

end
