(* ===== verification/Context_Guarantees.thy ===== *)
theory Context_Guarantees
  imports Context_Resolver Checkpoint_Gateway
begin

section \<open>What a resolution yields\<close>

text \<open>
  What passes the checks of the resolver: the answer of one provider, the answers of the invoked
  groups, their combination.
\<close>

subsection \<open>Grants only narrow\<close>

lemma granted_requirements_filter:
  "granted_requirements rs v = Inr rs' \<Longrightarrow> set rs' \<subseteq> set rs \<and> (rs \<noteq> [] \<longrightarrow> rs' \<noteq> [])"
  by (auto simp: granted_requirements_def Let_def split: if_splits option.splits)

lemma constrain_context_Inr:
  assumes "constrain_context q call = Inr c"
  shows "xq_context c = au_context call \<and> set (xq_requirements c) \<subseteq> set (xq_requirements q) \<and> xq_requirements c \<noteq> []
    \<and> limit_within (cl_bytes (xq_budget c)) (cl_bytes (xq_budget q))
    \<and> limit_within (cl_tokens (xq_budget c)) (cl_tokens (xq_budget q)) \<and> xq_policy c = xq_policy q"
  using assms
  by (auto simp: constrain_context_def Let_def rbind_eq_Inr mk_context_request_def mk_context_budget_def
      dest!: granted_requirements_filter narrow_limit_within split: if_splits)

subsection \<open>One answer\<close>

definition entry_fits :: "schema_registry \<Rightarrow> context_requirement list \<Rightarrow> context_entry \<Rightarrow> bool" where
  "entry_fits S rs e \<longleftrightarrow> (\<exists>r \<in> set rs. cq_key r = en_key e \<and> cq_schema r = en_schema e)
     \<and> validate_value S (en_schema e) (en_value e) = Inr ()"

lemma check_entries_Inr:
  assumes "check_entries S rs es seen = Inr seen'"
  shows "seen' = seen \<union> en_key ` set es \<and> list_all (entry_fits S rs) es \<and> distinct (List.map en_key es)
    \<and> en_key ` set es \<inter> seen = {}"
  using assms
proof (induction es arbitrary: seen)
  case (Cons e es)
  let ?m = "map_of (List.map (\<lambda>r. (cq_key r, cq_schema r)) rs)"
  from Cons.prems have e: "?m (en_key e) = Some (en_schema e)" "en_key e \<notin> seen"
    "validate_value S (en_schema e) (en_value e) = Inr ()" and rest: "check_entries S rs es (insert (en_key e) seen) = Inr seen'"
    by (auto simp: rbind_eq_Inr raise_when_Inr)
  from map_of_SomeD [OF e(1)] e(3) have "entry_fits S rs e" by (auto simp: entry_fits_def)
  with Cons.IH [OF rest] e(2) show ?case by auto
qed simp

lemma validate_context_result_Inr:
  assumes "validate_context_result S p q r = Inr u"
  shows "xr_provider r = p \<and> list_all (entry_fits S (xq_requirements q)) (xr_entries r)
    \<and> distinct (List.map en_key (xr_entries r))
    \<and> set (xr_missing r) = set (keys_of (xq_requirements q)) - en_key ` set (xr_entries r)"
  using assms by (auto simp: validate_context_result_def rbind_eq_Inr raise_when_Inr dest!: check_entries_Inr)

text \<open>
  Completeness is judged by the request of the caller: a provider that is granted fewer keys and lists
  exactly the granted keys it has no entry for is refused.
\<close>

lemma narrowed_answer_refused:
  assumes "set (keys_of granted) \<subset> set (keys_of (xq_requirements q))" "en_key ` set (xr_entries r) \<subseteq> set (keys_of granted)"
    and "set (xr_missing r) = set (keys_of granted) - en_key ` set (xr_entries r)"
  shows "validate_context_result S p q r \<noteq> Inr u"
proof
  assume "validate_context_result S p q r = Inr u"
  from validate_context_result_Inr [OF this] assms(2,3)
  have "set (keys_of (xq_requirements q)) \<subseteq> set (keys_of granted)" by blast
  with assms(1) show False by blast
qed

text \<open>The provider was called in an authorized call and gave this answer there.\<close>

definition provided :: "'w context_resolver \<Rightarrow> context_request \<Rightarrow> context_result \<Rightarrow> bool" where
  "provided E q r \<longleftrightarrow> (\<exists>p access wa call wb c wc. xe_providers E (xr_provider r) = Some p
     \<and> authorized (pv_dispatcher (xe_env E)) access wa call wb \<and> aq_action access = CONTEXT_PROVIDE_ACTION
     \<and> aq_scope access = cx_scope (xq_context q)
     \<and> set (xq_requirements c) \<subseteq> set (xq_requirements q) \<and> xq_context c = au_context call
     \<and> xp_provide p c wb = (Operation_Done (Inr (Some r)), wc))"

lemma invoke_provider_Inr:
  assumes "invoke_provider E q i rs w = (Inr r, w')" "set rs \<subseteq> set (xq_requirements q)"
  shows "xr_provider r = i \<and> provided E q r \<and> list_all (entry_fits (pv_schemas (xe_env E)) rs) (xr_entries r)"
proof -
  from assms(1) obtain p pq access w1 raw w2 where
    p: "xe_providers E i = Some p" "mk_context_request (q\<lparr>xq_requirements := rs\<rparr>) = Inr pq"
    and a: "provider_access (xq_context q) CONTEXT_PROVIDE_ACTION ''context_provider'' i (context_constraints rs (xq_budget q)) = Inr access"
    and d: "dispatch (pv_dispatcher (xe_env E)) access (provide_call E p pq) w1 = (Inr (Some r), w2)"
    and v: "validate_context_result (pv_schemas (xe_env E)) i pq r = Inr ()"
    by (auto simp: invoke_provider_def abind_eq_Inr aresult_def areturn_def araise_def get_context_provider_def
        split: option.splits)
  have pq: "pq = q\<lparr>xq_requirements := rs\<rparr>" using p(2) by (auto simp: mk_context_request_def split: if_splits)
  from dispatch_Inr [OF d] obtain call wb where
    c: "authorized (pv_dispatcher (xe_env E)) access w1 call wb" "provide_call E p pq call wb = (Inr (Some r), w2)" by blast
  from c(2) obtain cq where cq: "constrain_context pq call = Inr cq"
    and x: "xp_provide p cq wb = (Operation_Done (Inr (Some r)), w2)"
    by (auto simp: provide_call_def abind_eq_Inr aresult_def context_guard_def guarded_provider_Inr await_provider_Inr)
  note v = validate_context_result_Inr [OF v]
  have "set (xq_requirements cq) \<subseteq> set (xq_requirements q)" "xq_context cq = au_context call"
    using constrain_context_Inr [OF cq] assms(2) pq by auto
  with v p(1) c(1) provider_access_Inr [OF a] x have "provided E q r"
    unfolding provided_def
    by (intro exI [of _ p] exI [of _ access] exI [of _ w1] exI [of _ call] exI [of _ wb] exI [of _ cq] exI [of _ w2] conjI) simp_all
  with v pq show ?thesis by simp
qed

subsection \<open>The answers of the groups\<close>

definition result_fits :: "'w context_resolver \<Rightarrow> context_request \<Rightarrow> context_binding \<Rightarrow> context_result \<Rightarrow> bool" where
  "result_fits E q b r \<longleftrightarrow> xr_provider r \<in> set (xb_providers b) \<and> provided E q r
     \<and> list_all (entry_fits (pv_schemas (xe_env E)) (xq_requirements q)) (xr_entries r)"

definition group_fits :: "context_request \<Rightarrow> context_binding \<Rightarrow> context_group \<Rightarrow> bool" where
  "group_fits q b g \<longleftrightarrow> fst g \<in> set (xb_providers b) \<and> set (snd g) \<subseteq> set (xq_requirements q)"

lemma provider_groups_fit: "list_all (group_fits q b) (provider_groups caps q (xb_providers b))"
  by (auto simp: provider_groups_def group_fits_def list_all_iff)

lemma entry_fits_mono: "entry_fits S rs e \<Longrightarrow> set rs \<subseteq> set rs' \<Longrightarrow> entry_fits S rs' e"
  by (auto simp: entry_fits_def)

lemma invoke_each_Inr:
  assumes "invoke_each E q b gs w = (Inr rs, w')" "list_all (group_fits q b) gs"
  shows "list_all (result_fits E q b) rs"
  using assms
proof (induction gs arbitrary: rs w)
  case (Cons g gs)
  obtain y w1 where i: "invoke_provider E q (fst g) (snd g) w = (y, w1)" by fastforce
  show ?case
  proof (cases y)
    case (Inl e)
    with Cons i show ?thesis by (auto split: if_splits)
  next
    case (Inr r)
    have g: "fst g \<in> set (xb_providers b)" "set (snd g) \<subseteq> set (xq_requirements q)"
      using Cons.prems(2) by (auto simp: group_fits_def)
    have "result_fits E q b r"
      using invoke_provider_Inr [of E q "fst g" "snd g" w r w1] i Inr g
      by (auto simp: result_fits_def list_all_iff intro: entry_fits_mono)
    with Cons i Inr show ?thesis by (auto simp: abind_eq_Inr areturn_def split: if_splits)
  qed
qed simp

lemma most_entries_member: "rs \<noteq> [] \<Longrightarrow> most_entries rs \<in> set rs"
  by (metis hd_in_set most_entries_def set_sort sort_key_simps(1) set_empty)

lemma invoke_groups_Inr:
  assumes "invoke_groups E q b gs w = (Inr rs, w')" "list_all (group_fits q b) gs"
  shows "list_all (result_fits E q b) rs \<and> rs \<noteq> []"
proof -
  from assms(1) obtain rs0 where e: "invoke_each E q b gs w = (Inr rs0, w')" "rs0 \<noteq> []"
    and r: "rs = (if xb_strategy b = FIRST_SUCCESS then [most_entries rs0] else rs0)"
    by (auto simp: invoke_groups_def abind_eq_Inr areturn_def araise_def split: if_splits)
  with invoke_each_Inr [OF e(1) assms(2)] most_entries_member [OF e(2)] show ?thesis
    by (auto simp: list_all_iff)
qed

subsection \<open>The combination\<close>

lemma candidates_keys: "e \<in> set (candidates rs k) \<Longrightarrow> en_key e = k \<and> (\<exists>r \<in> set rs. e \<in> set (xr_entries r))"
  by (auto simp: candidates_def)

lemma merge_candidates_Inr:
  assumes "merge_candidates M q es = Inr e"
  shows "\<exists>v. merge_values M (cq_schema q) (List.map en_value es) = Inr v
    \<and> e = (hd es)\<lparr>en_value := v, en_provenance := List.concat (List.map en_provenance es)\<rparr>"
  using assms by (auto simp: merge_candidates_def rbind_eq_Inr mk_entry_def split: if_splits)

text \<open>Outside \<open>ALL\<close> the keys are the required ones that have a candidate, in their order.\<close>

lemma combine_entries_keys:
  assumes "combine_entries M m rs qs = Inr es" "m \<noteq> ALL_VALUES"
  shows "List.map en_key es = filter (\<lambda>k. candidates rs k \<noteq> []) (keys_of qs)"
  using assms
proof (induction qs arbitrary: es)
  case (Cons q qs)
  show ?case
  proof (cases "candidates rs (cq_key q) = []")
    case True
    with Cons show ?thesis by (auto simp: rbind_eq_Inr keys_of_def)
  next
    case False
    with Cons.prems obtain e rest where m: "merge_candidates M q (candidates rs (cq_key q)) = Inr e"
      and rest: "combine_entries M m rs qs = Inr rest" and es: "es = e # rest"
      by (auto simp: rbind_eq_Inr)
    from merge_candidates_Inr [OF m] have "en_key e = en_key (hd (candidates rs (cq_key q)))" by auto
    also have "\<dots> = cq_key q" using False candidates_keys [of "hd (candidates rs (cq_key q))" rs] by simp
    finally show ?thesis using es False Cons.IH [OF rest Cons.prems(2)] by (simp add: keys_of_def)
  qed
qed (simp add: keys_of_def)

lemma combine_entries_all:
  "combine_entries M ALL_VALUES rs qs = Inr es \<Longrightarrow> es = List.concat (List.map (\<lambda>q. candidates rs (cq_key q)) qs)"
  by (induction qs arbitrary: es) (auto simp: rbind_eq_Inr)

text \<open>Every combined entry is an entry some provider gave, up to its value and its provenance.\<close>

lemma combine_entries_origin:
  assumes "combine_entries M m rs qs = Inr es" "e \<in> set es"
  shows "\<exists>q \<in> set qs. \<exists>c \<in> set (candidates rs (cq_key q)). en_key e = en_key c \<and> en_schema e = en_schema c
    \<and> (en_value e = en_value c
       \<or> merge_values M (cq_schema q) (List.map en_value (candidates rs (cq_key q))) = Inr (en_value e))"
  using assms
proof (induction qs arbitrary: es)
  case (Cons q qs)
  then obtain es1 rest where r: "combine_entries M m rs qs = Inr rest" "es = es1 @ rest"
    and one: "(if m = ALL_VALUES then Inr (candidates rs (cq_key q))
            else if candidates rs (cq_key q) = [] then Inr []
            else rbind (merge_candidates M q (candidates rs (cq_key q))) (\<lambda>e. Inr [e])) = (Inr es1 :: context_entry list result)"
    by (auto simp: rbind_eq_Inr)
  show ?case
  proof (cases "e \<in> set rest")
    case True
    with Cons.IH [OF r(1)] show ?thesis by auto
  next
    case False
    with r Cons.prems have e: "e \<in> set es1" by simp
    show ?thesis
    proof (cases "m = ALL_VALUES")
      case True
      with one e show ?thesis by auto
    next
      case False
      with one e have ne: "candidates rs (cq_key q) \<noteq> []" and m: "merge_candidates M q (candidates rs (cq_key q)) = Inr e"
        by (auto simp: rbind_eq_Inr split: if_splits)
      from merge_candidates_Inr [OF m] hd_in_set [OF ne] show ?thesis by force
    qed
  qed
qed simp

lemma enforce_budget_Inr:
  "enforce_budget b u = Inr x \<Longrightarrow> (\<forall>m. cl_bytes b = Some m \<longrightarrow> cg_bytes u \<le> m)
     \<and> (\<forall>m. cl_tokens b = Some m \<longrightarrow> (\<exists>n. cg_tokens u = Some n \<and> n \<le> m))"
  by (auto simp: enforce_budget_def rbind_eq_Inr raise_when_Inr limit_exceeds_def split: option.splits)

subsection \<open>The resolution\<close>

lemma resolve_context_Inr:
  assumes "resolve_context E q b w = (Inr r, w')"
  shows "xq_requirements q = xb_requirements b
    \<and> (\<exists>rs. list_all (result_fits E q b) rs \<and> rs \<noteq> [] \<and> combine E q b rs = Inr r)"
proof -
  from assms have req: "xq_requirements q = xb_requirements b" by (auto simp: resolve_context_def split: if_splits)
  define since where "since = pv_clock (xe_env E) w"
  from assms req obtain w1 where
    t: "atry (abind (resolution E q b) (resolution_completed E q since)) (resolution_failed E q since) w1 = (Inr r, w')"
    by (auto simp: resolve_context_def since_def Let_def abind_eq_Inr)
  have failed: "resolution_failed E q since e w2 \<noteq> (Inr r, w')" for e w2
    by (auto simp: resolution_failed_def abind_eq_Inr araise_def split: exn.splits)
  obtain y w2 where m: "abind (resolution E q b) (resolution_completed E q since) w1 = (y, w2)" by fastforce
  with t failed have "y = Inr r" by (cases y) (auto simp: atry_def)
  with m obtain r1 w3 where "resolution E q b w1 = (Inr r1, w3)" "r1 = r"
    by (auto simp: abind_eq_Inr resolution_completed_def areturn_def)
  then obtain caps groups rs w4 w5 where s: "select_providers q b caps = Inr groups"
    and i: "invoke_groups E q b groups w4 = (Inr rs, w5)" and c: "combine E q b rs = Inr r"
    by (auto simp: resolution_def abind_eq_Inr aresult_def)
  from s have "groups = provider_groups caps q (xb_providers b)"
    by (auto simp: select_providers_def rbind_eq_Inr Let_def split: if_splits)
  with invoke_groups_Inr [OF i] provider_groups_fit have "list_all (result_fits E q b) rs \<and> rs \<noteq> []" by blast
  with req c show ?thesis by blast
qed

lemma mk_resolved_self: "mk_resolved r = Inr r' \<Longrightarrow> r' = r"
  by (auto simp: mk_resolved_def split: if_splits)

lemma combine_Inr:
  assumes "combine E q b rs = Inr r"
  shows "combine_entries (xe_merges E) (xb_strategy b) rs (xq_requirements q) = Inr (rx_entries r)
    \<and> rx_missing r = filter (\<lambda>k. k \<notin> set (List.map en_key (rx_entries r))) (keys_of (xq_requirements q))
    \<and> (rx_completeness r = COMPLETE \<longleftrightarrow> rx_missing r = []) \<and> rx_providers r = List.map xr_provider rs
    \<and> cg_bytes (rx_usage r) = int (xe_encoded_length E (List.map en_value (rx_entries r)))
    \<and> enforce_budget (xq_budget q) (rx_usage r) = Inr ()"
proof -
  define missing where "missing es = filter (\<lambda>k. k \<notin> set (List.map en_key es)) (keys_of (xq_requirements q))" for es :: "context_entry list"
  obtain es where es: "combine_entries (xe_merges E) (xb_strategy b) rs (xq_requirements q) = Inr es"
    using assms by (cases "combine_entries (xe_merges E) (xb_strategy b) rs (xq_requirements q)") (simp_all add: combine_def)
  obtain u where u: "mk_context_usage (int (xe_encoded_length E (List.map en_value es))) (token_sum rs) = Inr u"
    using assms es by (cases "mk_context_usage (int (xe_encoded_length E (List.map en_value es))) (token_sum rs)")
      (simp_all add: combine_def)
  have e: "enforce_budget (xq_budget q) u = Inr ()"
    using assms es u by (cases "enforce_budget (xq_budget q) u") (simp_all add: combine_def)
  have m: "mk_resolved \<lparr>rx_entries = es, rx_completeness = (if missing es = [] then COMPLETE else PARTIAL), rx_missing = missing es,
       rx_warnings = List.concat (List.map xr_warnings rs), rx_providers = List.map xr_provider rs, rx_usage = u\<rparr> = Inr r"
    using assms es u e unfolding combine_def missing_def Let_def by simp
  from m have r: "r = \<lparr>rx_entries = es, rx_completeness = (if missing es = [] then COMPLETE else PARTIAL), rx_missing = missing es,
       rx_warnings = List.concat (List.map xr_warnings rs), rx_providers = List.map xr_provider rs, rx_usage = u\<rparr>"
    by (rule mk_resolved_self)
  from u have "cg_bytes u = int (xe_encoded_length E (List.map en_value es))"
    by (auto simp: mk_context_usage_def split: if_splits)
  with es e show ?thesis unfolding r by (simp add: missing_def)
qed

end
