(* ===== verification/Model_Gateway.thy ===== *)
theory Model_Gateway
  imports Context_Model Provider_Boundary Runtime_Errors
begin

section \<open>The gateway to model providers\<close>

text \<open>
  \<open>ModelRequest\<close>, the registry of providers and \<open>ModelGateway\<close> of \<open>provider/model.py\<close>: capabilities,
  generation and streams. Every call of a provider is a dispatched call. The iterator of a stream is
  an object in the world: its \<open>anext\<close>, and its \<open>aclose\<close> when it has one. The gateway's stream is a
  generator, so it runs against a consumer who takes an event and asks for the next one or closes.
\<close>

definition MODEL_CAPABILITIES_ACTION :: action_ref where
  "MODEL_CAPABILITIES_ACTION = \<lparr>ac_namespace = ''core'', ac_name = ''model.capabilities'', ac_version = ''1''\<rparr>"

definition MODEL_GENERATE_ACTION :: action_ref where
  "MODEL_GENERATE_ACTION = \<lparr>ac_namespace = ''core'', ac_name = ''model.generate'', ac_version = ''1''\<rparr>"

definition MODEL_STREAM_ACTION :: action_ref where
  "MODEL_STREAM_ACTION = \<lparr>ac_namespace = ''core'', ac_name = ''model.stream'', ac_version = ''1''\<rparr>"

record model_request =
  mq_selector :: model_selector
  mq_input :: "content_block list"
  mq_instructions :: "content_block list"
  mq_context :: "context_entry list"
  mq_tools :: "resource_ref list"
  mq_schema :: "schema_ref option"
  mq_policy :: model_request_policy
  mq_budget :: model_budget

definition mk_model_request :: "model_request \<Rightarrow> model_request result" where
  "mk_model_request q =
     (if mq_input q = [] then Inl (ValueError ''model request input must not be empty'')
      else if \<not> distinct (List.map resource_key (mq_tools q))
      then Inl (ValueError ''model request tool references must be unique'') else Inr q)"

subsection \<open>Providers\<close>

record 'w model_iterator =
  mn_next :: "'w \<Rightarrow> model_event awaited \<times> 'w"
  mn_close :: "('w, exn, unit) action option"

record 'w model_provider =
  mv_generate :: "model_request \<Rightarrow> call_context \<Rightarrow> 'w \<Rightarrow> model_response option awaited \<times> 'w"
  mv_stream :: "model_request \<Rightarrow> call_context \<Rightarrow> ('w, exn, 'w model_iterator) action"
  mv_capabilities :: "model_selector \<Rightarrow> call_context \<Rightarrow> 'w \<Rightarrow> model_capabilities option awaited \<times> 'w"

type_synonym 'w model_providers = "provider_id \<rightharpoonup> 'w model_provider"

definition model_provider_taken :: exn where
  "model_provider_taken = core_error CONFLICT ''model_provider_already_registered'' ''model provider is already registered'' False None"

definition register_model_provider :: "provider_id \<times> 'w model_provider \<Rightarrow> 'w model_providers \<Rightarrow> 'w model_providers result" where
  "register_model_provider e r = (if fst e \<in> dom r then Inl model_provider_taken else Inr (r(fst e \<mapsto> snd e)))"

definition get_model_provider :: "'w model_providers \<Rightarrow> provider_id \<Rightarrow> 'w model_provider result" where
  "get_model_provider r i = (case r i of
       None \<Rightarrow> Inl (core_error UNAVAILABLE ''model_provider_not_registered'' ''model provider is not registered'' True None)
     | Some p \<Rightarrow> Inr p)"

interpretation model_provider_registry: once_registry register_model_provider "\<lambda>r k. r k" fst snd "\<lambda>_. model_provider_taken"
  by unfold_locales (auto simp: register_model_provider_def)

record 'w model_gateway =
  mg_env :: "'w provider_env"
  mg_providers :: "'w model_providers"

subsection \<open>Constraints and grants\<close>

definition resource_name :: "resource_ref \<Rightarrow> string" where
  "resource_name r = rs_namespace r @ '':'' @ rs_kind r @ '':'' @ rs_id r"

definition model_constraints :: "model_request \<Rightarrow> json_object" where
  "model_constraints q = [(''model'', JStr (ms_model (mq_selector q))),
     (''tools'', JList (List.map (\<lambda>t. JStr (resource_name t)) (mq_tools q))),
     (''max_input_units'', opt_int (mb_input (mq_budget q))), (''max_output_units'', opt_int (mb_output (mq_budget q)))]"

definition model_access ::
  "model_selector \<Rightarrow> call_context \<Rightarrow> action_ref \<Rightarrow> json_object \<Rightarrow> access_request result" where
  "model_access s ctx act constraints = provider_access ctx act ''model'' (ms_provider s @ '':'' @ ms_model s) constraints"

definition changes_model :: "(string \<rightharpoonup> json) \<Rightarrow> model_selector \<Rightarrow> bool" where
  "changes_model granted s \<longleftrightarrow> constraint_value granted ''model'' \<noteq> JNull
     \<and> constraint_value granted ''model'' \<noteq> JStr (ms_model s)"

definition granted_tools :: "resource_ref list \<Rightarrow> json \<Rightarrow> resource_ref list result" where
  "granted_tools ts v =
     (if v = JNull then Inr ts else case granted_names v of
        None \<Rightarrow> Inl (invalid_grant ''model tool constraint is invalid'')
      | Some names \<Rightarrow>
        if \<not> set names \<subseteq> set (List.map resource_name ts) then Inl (invalid_grant ''model grant broadens requested tools'')
        else Inr (filter (\<lambda>t. resource_name t \<in> set names) ts))"

definition constrain_model :: "model_request \<Rightarrow> authorized_call \<Rightarrow> model_request result" where
  "constrain_model q call =
     (let granted = gr_constraints (au_grant call) in
      if \<not> only_constraints granted [''model'', ''tools'', ''max_input_units'', ''max_output_units'']
      then Inl (invalid_grant ''model grant contains unknown constraints'')
      else if changes_model granted (mq_selector q) then Inl (invalid_grant ''model grant changes the requested model'')
      else rbind (granted_tools (mq_tools q) (constraint_value granted ''tools'')) (\<lambda>ts.
      rbind (narrow_limit ''model'' ''max_input_units'' (mb_input (mq_budget q)) (constraint_value granted ''max_input_units'')) (\<lambda>i.
      rbind (narrow_limit ''model'' ''max_output_units'' (mb_output (mq_budget q)) (constraint_value granted ''max_output_units'')) (\<lambda>out.
      rbind (mk_budget i out) (\<lambda>b.
      mk_model_request (q\<lparr>mq_tools := ts, mq_budget := b\<rparr>))))))"

definition validate_capability_grant :: "model_selector \<Rightarrow> authorized_call \<Rightarrow> unit result" where
  "validate_capability_grant s call =
     (let granted = gr_constraints (au_grant call) in
      if \<not> only_constraints granted [''model''] then Inl (invalid_grant ''model capability grant contains unknown constraints'')
      else if changes_model granted s then Inl (invalid_grant ''model grant changes the requested model'') else Inr ())"

subsection \<open>The checks of a response\<close>

definition model_protocol_failure :: "string \<Rightarrow> exn" where
  "model_protocol_failure msg = core_error PROTOCOL_FAILURE ''model_provider_protocol_failure'' msg False None"

definition validate_response :: "schema_registry \<Rightarrow> model_request \<Rightarrow> model_response \<Rightarrow> unit result" where
  "validate_response S q r =
     rbind (raise_when (mr_provider r \<noteq> ms_provider (mq_selector q) \<or> mr_model r \<noteq> ms_model (mq_selector q))
       (model_protocol_failure ''model response identity does not match request'')) (\<lambda>_.
     rbind (case mq_schema q of
         None \<Rightarrow> Inr ()
       | Some s \<Rightarrow> rbind (raise_when (mr_structured r = JNull)
           (model_protocol_failure ''structured output was requested but not returned'')) (\<lambda>_.
           validate_value S s (mr_structured r))) (\<lambda>_.
     rbind (raise_when (mr_tools r \<noteq> [] \<and> \<not> mp_allow_tools (mq_policy q))
       (model_protocol_failure ''model returned tool requests when they were disabled'')) (\<lambda>_.
     rbind (raise_when (list_ex (\<lambda>p. resource_key (tp_tool p) \<notin> set (List.map resource_key (mq_tools q))) (mr_tools r))
       (model_protocol_failure ''model proposed an undeclared tool'')) (\<lambda>_.
     rbind (raise_when (limit_exceeds (Some (mu_input (mr_usage r))) (mb_input (mq_budget q))
         \<or> limit_exceeds (Some (mu_output (mr_usage r))) (mb_output (mq_budget q)))
       (core_error INVALID_REQUEST ''model_budget_exceeded'' ''model response exceeds the request budget'' False None)) (\<lambda>_.
     raise_when (mr_finish r = FINISH_PARTIAL \<and> \<not> mp_allow_partial (mq_policy q))
       (core_error PARTIAL_RESULT ''model_partial_result_rejected'' ''model returned a partial result that policy rejects'' False None))))))"

subsection \<open>Capabilities and generation\<close>

definition model_guard :: "('w, exn, 'a) action \<Rightarrow> ('w, exn, 'a) action" where
  "model_guard = guarded_provider ''model_provider_failure'' ''model provider failed''"

definition model_capability_call ::
  "'w model_gateway \<Rightarrow> 'w model_provider \<Rightarrow> model_selector \<Rightarrow> authorized_call \<Rightarrow> ('w, exn, model_capabilities option) action" where
  "model_capability_call M p s call =
     abind (aresult (validate_capability_grant s call)) (\<lambda>_.
     model_guard (await_provider (au_context call) (pv_token (mg_env M)) (pv_clock (mg_env M)) (mv_capabilities p s (au_context call))))"

definition gateway_capabilities :: "'w model_gateway \<Rightarrow> model_selector \<Rightarrow> call_context \<Rightarrow> ('w, exn, model_capabilities) action" where
  "gateway_capabilities M s ctx =
     abind (aresult (get_model_provider (mg_providers M) (ms_provider s))) (\<lambda>p.
     abind (aresult (model_access s ctx MODEL_CAPABILITIES_ACTION [(''model'', JStr (ms_model s))])) (\<lambda>access.
     abind (dispatch (pv_dispatcher (mg_env M)) access (model_capability_call M p s)) (\<lambda>raw. case raw of
       None \<Rightarrow> araise (model_protocol_failure ''model provider returned invalid capabilities'')
     | Some c \<Rightarrow> if mc_selector c \<noteq> s
         then araise (model_protocol_failure ''model capabilities returned a mismatched selector'') else areturn c)))"

definition invocation_started :: "'w model_gateway \<Rightarrow> model_operation \<Rightarrow> model_selector \<Rightarrow> call_context \<Rightarrow> ('w, exn, unit) action" where
  "invocation_started M op s ctx = emit (mg_env M) ''core.model.invocation_started'' ctx
     [(''operation'', JStr (model_operation_value op)), (''provider_id'', JStr (ms_provider s)), (''model_id'', JStr (ms_model s))]"

definition invocation_completed ::
  "'w model_gateway \<Rightarrow> model_operation \<Rightarrow> call_context \<Rightarrow> datetime \<Rightarrow> model_response \<Rightarrow> ('w, exn, unit) action" where
  "invocation_completed M op ctx since r w = emit (mg_env M) ''core.model.invocation_completed'' ctx
     [(''operation'', JStr (model_operation_value op)), (''provider_id'', JStr (mr_provider r)), (''model_id'', JStr (mr_model r)),
      (''finish_reason'', JStr (finish_reason_value (mr_finish r))), (''input_units'', JInt (mu_input (mr_usage r))),
      (''output_units'', JInt (mu_output (mr_usage r))), (''latency_ms'', JInt (elapsed_ms (mg_env M) since w)),
      (''outcome'', JStr ''completed'')] w"

definition invocation_failed ::
  "'w model_gateway \<Rightarrow> model_operation \<Rightarrow> call_context \<Rightarrow> datetime \<Rightarrow> error_detail \<Rightarrow> ('w, exn, unit) action" where
  "invocation_failed M op ctx since d w = emit (mg_env M) ''core.model.invocation_failed'' ctx
     [(''operation'', JStr (model_operation_value op)), (''category'', JStr (category_value (ed_category d))),
      (''error_code'', JStr (ed_code d)), (''latency_ms'', JInt (elapsed_ms (mg_env M) since w)), (''outcome'', JStr ''failed'')] w"

definition generate_call ::
  "'w model_gateway \<Rightarrow> 'w model_provider \<Rightarrow> model_request \<Rightarrow> authorized_call \<Rightarrow> ('w, exn, model_response option) action" where
  "generate_call M p q call =
     abind (aresult (constrain_model q call)) (\<lambda>c.
     model_guard (await_provider (au_context call) (pv_token (mg_env M)) (pv_clock (mg_env M)) (mv_generate p c (au_context call))))"

definition generate_checked ::
  "'w model_gateway \<Rightarrow> 'w model_provider \<Rightarrow> model_request \<Rightarrow> call_context \<Rightarrow> access_request \<Rightarrow> datetime \<Rightarrow> ('w, exn, model_response) action" where
  "generate_checked M p q ctx access since =
     abind (dispatch (pv_dispatcher (mg_env M)) access (generate_call M p q)) (\<lambda>raw. case raw of
       None \<Rightarrow> araise (model_protocol_failure ''model provider returned an invalid response'')
     | Some r \<Rightarrow> abind (aresult (validate_response (pv_schemas (mg_env M)) q r)) (\<lambda>_.
         abind (invocation_completed M OP_GENERATE ctx since r) (\<lambda>_. areturn r)))"

definition gateway_generate :: "'w model_gateway \<Rightarrow> model_request \<Rightarrow> call_context \<Rightarrow> ('w, exn, model_response) action" where
  "gateway_generate M q ctx w =
     (let since = pv_clock (mg_env M) w in
      abind (aresult (get_model_provider (mg_providers M) (ms_provider (mq_selector q)))) (\<lambda>p.
      abind (aresult (model_access (mq_selector q) ctx MODEL_GENERATE_ACTION (model_constraints q))) (\<lambda>access.
      abind (invocation_started M OP_GENERATE (mq_selector q) ctx) (\<lambda>_.
      atry (generate_checked M p q ctx access since) (\<lambda>e. case e of
          CoreError d \<Rightarrow> abind (invocation_failed M OP_GENERATE ctx since d) (\<lambda>_. araise e)
        | _ \<Rightarrow> araise e)))) w)"

end
