(* ===== verification/Model_Stream.thy ===== *)
theory Model_Stream
  imports Model_Gateway Checkpoint_Gateway
begin

section \<open>Streams of model events\<close>

text \<open>
  \<open>ModelGateway.stream\<close> of \<open>provider/model.py\<close>. A run of the generator is the list of the events it
  yields, how it ends and the world then: it returns, it is closed by its consumer at an event, or an
  exception leaves it. The loop takes fuel; \<open>None\<close> is a stream that has not ended yet. A
  \<open>StopAsyncIteration\<close> is what \<open>anext\<close> raises at the end of the provider's iterator.
\<close>

datatype stream_end = Stream_Returned | Stream_Closed | Stream_Raised exn

type_synonym 'w stream_run = "(model_event list \<times> stream_end \<times> 'w) option"

type_synonym 'w consumer = "model_event \<Rightarrow> 'w \<Rightarrow> bool \<times> 'w"

definition preceded :: "model_event \<Rightarrow> 'w stream_run \<Rightarrow> 'w stream_run" where
  "preceded e r = map_option (\<lambda>(es, x). (e # es, x)) r"

text \<open>\<open>yield event\<close>, then go on, unless the consumer closes the generator here.\<close>

definition yield_event :: "'w consumer \<Rightarrow> model_event \<Rightarrow> ('w \<Rightarrow> 'w stream_run) \<Rightarrow> 'w \<Rightarrow> 'w stream_run" where
  "yield_event C e k w = (case C e w of (go, w1) \<Rightarrow>
     if go then preceded e (k w1) else Some ([e], Stream_Closed, w1))"

definition stream_returns :: "'w \<Rightarrow> 'w stream_run" where
  "stream_returns w = Some ([], Stream_Returned, w)"

definition stream_raises :: "exn \<Rightarrow> 'w \<Rightarrow> 'w stream_run" where
  "stream_raises e w = Some ([], Stream_Raised e, w)"

definition failure_event :: "error_detail \<Rightarrow> model_event" where
  "failure_event d = \<lparr>me_type = FAILURE, me_content = None, me_structured = JNull, me_tool = None, me_usage = None,
     me_response = None, me_error = Some d\<rparr>"

definition stream_protocol_detail :: "string \<Rightarrow> string \<Rightarrow> error_detail" where
  "stream_protocol_detail code msg = \<lparr>ed_category = PROTOCOL_FAILURE, ed_code = code, ed_message = msg, ed_retryable = False,
     ed_cause_id = None, ed_metadata = []\<rparr>"

text \<open>The detail of what \<open>anext\<close> raised: the three handlers of the loop.\<close>

definition next_failure :: "exn \<Rightarrow> error_detail" where
  "next_failure e = (case e of
       CoreError d \<Rightarrow> d
     | _ \<Rightarrow> if e = ForeignError ''StopAsyncIteration''
         then stream_protocol_detail ''model_stream_missing_terminal'' ''model stream ended without a terminal event''
         else \<lparr>ed_category = UNAVAILABLE, ed_code = ''model_provider_failure'', ed_message = ''model provider failed'',
           ed_retryable = True, ed_cause_id = Some (exn_type e), ed_metadata = []\<rparr>)"

definition stream_fails ::
  "'w model_gateway \<Rightarrow> call_context \<Rightarrow> datetime \<Rightarrow> 'w consumer \<Rightarrow> error_detail \<Rightarrow> 'w \<Rightarrow> 'w stream_run" where
  "stream_fails M ctx since C d w =
     yield_event C (failure_event d) stream_returns (snd (invocation_failed M OP_STREAM ctx since d w))"

text \<open>What the loop does with an event; \<open>k\<close> is the next pass.\<close>

definition stream_event ::
  "'w model_gateway \<Rightarrow> model_request \<Rightarrow> call_context \<Rightarrow> datetime \<Rightarrow> 'w consumer \<Rightarrow> bool \<Rightarrow> model_event
    \<Rightarrow> ('w \<Rightarrow> 'w stream_run) \<Rightarrow> 'w \<Rightarrow> 'w stream_run" where
  "stream_event M q ctx since C begun e k w =
     (if \<not> begun \<and> me_type e \<noteq> MODEL_START
      then stream_fails M ctx since C (stream_protocol_detail ''model_stream_missing_start'' ''model stream must begin with a start event'') w
      else if me_type e = COMPLETION
      then (case me_response e of
          None \<Rightarrow> stream_raises (AssertionError ''completion event requires response'') w
        | Some r \<Rightarrow> (case validate_response (pv_schemas (mg_env M)) q r of
            Inl x \<Rightarrow> stream_raises x w
          | Inr _ \<Rightarrow> yield_event C e stream_returns (snd (invocation_completed M OP_STREAM ctx since r w))))
      else if me_type e = FAILURE
      then (case me_error e of
          None \<Rightarrow> stream_raises (AssertionError ''failure event requires error'') w
        | Some d \<Rightarrow> yield_event C e stream_returns (snd (invocation_failed M OP_STREAM ctx since d w)))
      else yield_event C e k w)"

fun stream_loop ::
  "'w model_gateway \<Rightarrow> model_request \<Rightarrow> call_context \<Rightarrow> datetime \<Rightarrow> 'w consumer \<Rightarrow> 'w model_iterator \<Rightarrow> nat \<Rightarrow> bool
    \<Rightarrow> 'w \<Rightarrow> 'w stream_run" where
  "stream_loop M q ctx since C it 0 begun w = None"
| "stream_loop M q ctx since C it (Suc n) begun w =
     (case await_provider ctx (pv_token (mg_env M)) (pv_clock (mg_env M)) (mn_next it) w of
        (Inl e, w1) \<Rightarrow> stream_fails M ctx since C (next_failure e) w1
      | (Inr e, w1) \<Rightarrow> stream_event M q ctx since C begun e (stream_loop M q ctx since C it n True) w1)"

text \<open>
  The outer \<open>except CoreError\<close>: no terminal event has been yielded when a Core error gets there, so
  the failure is emitted and yielded after what came before.
\<close>

definition stream_handled ::
  "'w model_gateway \<Rightarrow> call_context \<Rightarrow> datetime \<Rightarrow> 'w consumer \<Rightarrow> 'w stream_run \<Rightarrow> 'w stream_run" where
  "stream_handled M ctx since C r = (case r of
       Some (es, Stream_Raised (CoreError d), w) \<Rightarrow> map_option (\<lambda>(es', x). (es @ es', x)) (stream_fails M ctx since C d w)
     | _ \<Rightarrow> r)"

text \<open>The \<open>finally\<close> that closes the iterator.\<close>

definition stream_finally :: "'w model_iterator \<Rightarrow> 'w stream_run \<Rightarrow> 'w stream_run" where
  "stream_finally it r = (case (mn_close it, r) of
       (Some close, Some (es, x, w)) \<Rightarrow> (case close w of
           (Inl e, w1) \<Rightarrow> Some (es, Stream_Raised e, w1) | (Inr _, w1) \<Rightarrow> Some (es, x, w1))
     | _ \<Rightarrow> r)"

definition stream_call ::
  "'w model_provider \<Rightarrow> model_request \<Rightarrow> authorized_call \<Rightarrow> ('w, exn, 'w model_iterator) action" where
  "stream_call p q call = abind (aresult (constrain_model q call)) (\<lambda>c. mv_stream p c (au_context call))"

definition gateway_stream ::
  "'w model_gateway \<Rightarrow> model_request \<Rightarrow> call_context \<Rightarrow> 'w consumer \<Rightarrow> nat \<Rightarrow> 'w \<Rightarrow> 'w stream_run" where
  "gateway_stream M q ctx C fuel w =
     (let since = pv_clock (mg_env M) w in
      case get_model_provider (mg_providers M) (ms_provider (mq_selector q)) of Inl e \<Rightarrow> stream_raises e w | Inr p \<Rightarrow>
      (case model_access (mq_selector q) ctx MODEL_STREAM_ACTION (model_constraints q) of Inl e \<Rightarrow> stream_raises e w | Inr access \<Rightarrow>
      (case dispatch (pv_dispatcher (mg_env M)) access (stream_call p q) w of
         (Inl e, w1) \<Rightarrow> stream_handled M ctx since C (stream_raises e w1)
       | (Inr it, w1) \<Rightarrow> stream_finally it (stream_handled M ctx since C
           (stream_loop M q ctx since C it fuel False (snd (invocation_started M OP_STREAM (mq_selector q) ctx w1)))))))"

subsection \<open>What a consumer may rely on\<close>

text \<open>
  A stream in order: it begins with a start event unless all there is is one failure, only its last
  event is terminal, and a completion carries a response that fits the request.
\<close>

definition stream_item_ok :: "schema_registry \<Rightarrow> model_request \<Rightarrow> model_event \<Rightarrow> bool" where
  "stream_item_ok S q e \<longleftrightarrow> (me_type e = COMPLETION \<longrightarrow> (\<exists>r. me_response e = Some r \<and> validate_response S q r = Inr ()))
     \<and> (me_type e = FAILURE \<longrightarrow> me_error e \<noteq> None)"

fun stream_in_order :: "schema_registry \<Rightarrow> model_request \<Rightarrow> bool \<Rightarrow> model_event list \<Rightarrow> bool" where
  "stream_in_order S q begun [] = True"
| "stream_in_order S q begun (e # es) =
     (stream_item_ok S q e \<and> (begun \<or> me_type e = MODEL_START \<or> me_type e = FAILURE)
      \<and> (terminal_event (me_type e) \<longrightarrow> es = []) \<and> stream_in_order S q True es)"

definition stream_complete :: "model_event list \<Rightarrow> stream_end \<Rightarrow> bool" where
  "stream_complete es x \<longleftrightarrow> (x = Stream_Returned \<longrightarrow> es \<noteq> [] \<and> terminal_event (me_type (List.last es)))"

definition run_fits :: "schema_registry \<Rightarrow> model_request \<Rightarrow> bool \<Rightarrow> 'w stream_run \<Rightarrow> bool" where
  "run_fits S q begun r \<longleftrightarrow> (case r of None \<Rightarrow> True
     | Some (es, x, w) \<Rightarrow> stream_in_order S q begun es \<and> stream_complete es x
         \<and> (\<forall>d. x = Stream_Raised (CoreError d) \<longrightarrow> list_all (\<lambda>e. \<not> terminal_event (me_type e)) es))"

lemma run_fits_returns_after:
  assumes "stream_item_ok S q e" "begun \<or> me_type e = MODEL_START \<or> me_type e = FAILURE" "terminal_event (me_type e)"
  shows "run_fits S q begun (yield_event C e stream_returns w)"
  using assms
  by (auto simp: run_fits_def yield_event_def preceded_def stream_returns_def stream_complete_def split: prod.splits)

lemma run_fits_yield:
  assumes "stream_item_ok S q e" "begun \<or> me_type e = MODEL_START" "\<not> terminal_event (me_type e)"
    and "\<And>w. run_fits S q True (k w)"
  shows "run_fits S q begun (yield_event C e k w)"
proof -
  obtain go w1 where c: "C e w = (go, w1)" by fastforce
  show ?thesis
  proof (cases "go \<and> k w1 \<noteq> None")
    case True
    then obtain es x w2 where k: "k w1 = Some (es, x, w2)" by auto
    with assms(4) [of w1] have "stream_in_order S q True es" "stream_complete es x"
      "\<forall>d. x = Stream_Raised (CoreError d) \<longrightarrow> list_all (\<lambda>e. \<not> terminal_event (me_type e)) es"
      by (simp_all add: run_fits_def)
    with c k True assms(1-3) show ?thesis
      by (auto simp: run_fits_def yield_event_def preceded_def stream_complete_def)
  next
    case False
    then show ?thesis
    proof (cases go)
      case True
      from False True have "k w1 = None" by blast
      with c True show ?thesis by (simp add: run_fits_def yield_event_def preceded_def)
    next
      case False
      with c assms(1-3) show ?thesis by (auto simp: run_fits_def yield_event_def stream_complete_def)
    qed
  qed
qed

lemma failure_event_ok: "stream_item_ok S q (failure_event d)" "me_type (failure_event d) = FAILURE"
  by (simp_all add: failure_event_def stream_item_ok_def)

lemma stream_fails_fits: "run_fits S q begun (stream_fails M ctx since C d w)"
  unfolding stream_fails_def by (rule run_fits_returns_after) (simp_all add: failure_event_ok terminal_event_def)

lemma stream_raises_fits: "run_fits S q begun (stream_raises e w)"
  by (simp add: run_fits_def stream_raises_def stream_complete_def)

lemma stream_event_fits:
  assumes "\<And>w. run_fits (pv_schemas (mg_env M)) q True (k w)"
  shows "run_fits (pv_schemas (mg_env M)) q begun (stream_event M q ctx since C begun e k w)"
proof (cases "\<not> begun \<and> me_type e \<noteq> MODEL_START")
  case True
  then show ?thesis by (simp add: stream_event_def stream_fails_fits)
next
  case False
  then have b: "begun \<or> me_type e = MODEL_START" by blast
  consider "me_type e = COMPLETION" | "me_type e = FAILURE" | "\<not> terminal_event (me_type e)"
    by (auto simp: terminal_event_def)
  then show ?thesis
  proof cases
    case 1
    with b show ?thesis
      by (auto simp: stream_event_def stream_raises_fits stream_item_ok_def terminal_event_def
          intro!: run_fits_returns_after split: option.splits sum.splits)
  next
    case 2
    with b show ?thesis
      by (auto simp: stream_event_def stream_raises_fits stream_item_ok_def terminal_event_def
          intro!: run_fits_returns_after split: option.splits)
  next
    case 3
    with b assms show ?thesis
      by (auto simp: stream_event_def stream_item_ok_def terminal_event_def intro!: run_fits_yield)
  qed
qed

lemma stream_loop_fits: "run_fits (pv_schemas (mg_env M)) q begun (stream_loop M q ctx since C it n begun w)"
proof (induction n arbitrary: begun w)
  case (Suc n)
  then show ?case by (auto simp: stream_fails_fits stream_event_fits split: prod.splits sum.splits)
qed (simp add: run_fits_def)

lemma in_order_append:
  assumes "stream_in_order S q begun es" "list_all (\<lambda>e. \<not> terminal_event (me_type e)) es"
    and "stream_in_order S q (begun \<or> es \<noteq> []) es'"
  shows "stream_in_order S q begun (es @ es')"
  using assms by (induction es arbitrary: begun) auto

lemma in_order_begun: "stream_in_order S q begun es \<Longrightarrow> stream_in_order S q True es"
  by (cases es) auto

lemma stream_handled_fits:
  assumes "run_fits S q begun r"
  shows "run_fits S q begun (stream_handled M ctx since C r)"
proof (cases "\<exists>es d w. r = Some (es, Stream_Raised (CoreError d), w)")
  case False
  then have "stream_handled M ctx since C r = r"
    by (auto simp: stream_handled_def split: option.splits stream_end.splits exn.splits)
  with assms show ?thesis by simp
next
  case True
  then obtain es d w where r: "r = Some (es, Stream_Raised (CoreError d), w)" by blast
  show ?thesis
  proof (cases "stream_fails M ctx since C d w")
    case None
    with r show ?thesis by (simp add: stream_handled_def run_fits_def)
  next
    case (Some run)
    then obtain es' x w' where s: "stream_fails M ctx since C d w = Some (es', x, w')" by (cases run) auto
    have f: "run_fits S q (begun \<or> es \<noteq> []) (Some (es', x, w'))" using stream_fails_fits s by metis
    have "es' \<noteq> []" "\<forall>d. x \<noteq> Stream_Raised d"
      using s by (auto simp: stream_fails_def yield_event_def preceded_def stream_returns_def split: prod.splits if_splits)
    with f r s assms show ?thesis
      by (auto simp: stream_handled_def run_fits_def stream_complete_def intro: in_order_append)
  qed
qed

lemma stream_finally_in_order:
  assumes "stream_finally it r = Some (es, x, w)" "run_fits S q begun r"
  shows "stream_in_order S q begun es \<and> stream_complete es x"
  using assms
  by (auto simp: stream_finally_def run_fits_def stream_complete_def split: option.splits prod.splits sum.splits)

lemma gateway_stream_in_order:
  assumes "gateway_stream M q ctx C fuel w = Some (es, x, w')"
  shows "stream_in_order (pv_schemas (mg_env M)) q False es \<and> stream_complete es x"
proof -
  let ?S = "pv_schemas (mg_env M)"
  let ?handled = "stream_handled M ctx (pv_clock (mg_env M) w) C"
  have fits: "stream_in_order ?S q False es \<and> stream_complete es x" if "r = Some (es, x, w')" "run_fits ?S q False r" for r
    using that by (simp add: run_fits_def)
  consider e where "stream_raises e w = Some (es, x, w')"
    | e w1 where "?handled (stream_raises e w1) = Some (es, x, w')"
    | it w1 where "stream_finally it (?handled (stream_loop M q ctx (pv_clock (mg_env M) w) C it fuel False w1)) = Some (es, x, w')"
    using assms by (auto simp: gateway_stream_def Let_def split: sum.splits prod.splits)
  then show ?thesis
  proof cases
    case 1
    then show ?thesis by (rule fits [OF _ stream_raises_fits])
  next
    case 2
    then show ?thesis by (rule fits [OF _ stream_handled_fits [OF stream_raises_fits]])
  next
    case 3
    then show ?thesis by (rule stream_finally_in_order [OF _ stream_handled_fits [OF stream_loop_fits]])
  qed
qed

section \<open>What the model gateway lets through\<close>

lemma mk_model_request_self: "mk_model_request q = Inr q' \<Longrightarrow> q' = q"
  by (auto simp: mk_model_request_def split: if_splits)

lemma mk_budget_Inr: "mk_budget i out = Inr b \<Longrightarrow> mb_input b = i \<and> mb_output b = out"
  by (auto simp: mk_budget_def split: if_splits)

lemma granted_tools_subset: "granted_tools ts v = Inr ts' \<Longrightarrow> set ts' \<subseteq> set ts"
  by (auto simp: granted_tools_def split: if_splits option.splits)

text \<open>A grant can take tools and units away, it cannot add any, nor another model.\<close>

definition request_within :: "model_request \<Rightarrow> model_request \<Rightarrow> bool" where
  "request_within c q \<longleftrightarrow> mq_selector c = mq_selector q \<and> mq_input c = mq_input q \<and> mq_instructions c = mq_instructions q
     \<and> mq_context c = mq_context q \<and> mq_schema c = mq_schema q \<and> mq_policy c = mq_policy q
     \<and> set (mq_tools c) \<subseteq> set (mq_tools q)
     \<and> limit_within (mb_input (mq_budget c)) (mb_input (mq_budget q))
     \<and> limit_within (mb_output (mq_budget c)) (mb_output (mq_budget q))"

lemma constrain_model_within:
  assumes "constrain_model q call = Inr c" shows "request_within c q"
proof -
  from assms obtain ts i out b where t: "granted_tools (mq_tools q) (constraint_value (gr_constraints (au_grant call)) ''tools'') = Inr ts"
    and i: "narrow_limit ''model'' ''max_input_units'' (mb_input (mq_budget q))
      (constraint_value (gr_constraints (au_grant call)) ''max_input_units'') = Inr i"
    and out: "narrow_limit ''model'' ''max_output_units'' (mb_output (mq_budget q))
      (constraint_value (gr_constraints (au_grant call)) ''max_output_units'') = Inr out"
    and b: "mk_budget i out = Inr b" and c: "mk_model_request (q\<lparr>mq_tools := ts, mq_budget := b\<rparr>) = Inr c"
    by (auto simp: constrain_model_def Let_def rbind_eq_Inr split: if_splits)
  with granted_tools_subset [OF t] narrow_limit_within [OF i] narrow_limit_within [OF out] mk_budget_Inr [OF b]
  show ?thesis using mk_model_request_self [OF c] by (simp add: request_within_def)
qed

text \<open>The response fits what was asked for.\<close>

definition response_fits :: "schema_registry \<Rightarrow> model_request \<Rightarrow> model_response \<Rightarrow> bool" where
  "response_fits S q r \<longleftrightarrow> mr_provider r = ms_provider (mq_selector q) \<and> mr_model r = ms_model (mq_selector q)
     \<and> (\<forall>s. mq_schema q = Some s \<longrightarrow> mr_structured r \<noteq> JNull \<and> validate_value S s (mr_structured r) = Inr ())
     \<and> (mr_tools r \<noteq> [] \<longrightarrow> mp_allow_tools (mq_policy q))
     \<and> (\<forall>p \<in> set (mr_tools r). resource_key (tp_tool p) \<in> resource_key ` set (mq_tools q))
     \<and> \<not> limit_exceeds (Some (mu_input (mr_usage r))) (mb_input (mq_budget q))
     \<and> \<not> limit_exceeds (Some (mu_output (mr_usage r))) (mb_output (mq_budget q))
     \<and> (mr_finish r = FINISH_PARTIAL \<longrightarrow> mp_allow_partial (mq_policy q))"

lemma validate_response_iff: "validate_response S q r = Inr u \<longleftrightarrow> response_fits S q r"
  by (cases "mq_schema q")
    (auto simp: validate_response_def response_fits_def rbind_eq_Inr raise_when_Inr list_ex_iff split: option.splits)

lemma gateway_capabilities_Inr:
  assumes "gateway_capabilities M s ctx w = (Inr c, w')"
  shows "mc_selector c = s \<and> (\<exists>p access wa call wb. mg_providers M (ms_provider s) = Some p
    \<and> authorized (pv_dispatcher (mg_env M)) access wa call wb \<and> aq_action access = MODEL_CAPABILITIES_ACTION
    \<and> mv_capabilities p s (au_context call) wb = (Operation_Done (Inr (Some c)), w'))"
proof -
  from assms obtain p access w1 where p: "mg_providers M (ms_provider s) = Some p"
    and a: "model_access s ctx MODEL_CAPABILITIES_ACTION [(''model'', JStr (ms_model s))] = Inr access"
    and d: "dispatch (pv_dispatcher (mg_env M)) access (model_capability_call M p s) w1 = (Inr (Some c), w')"
    and s: "mc_selector c = s"
    by (auto simp: gateway_capabilities_def abind_eq_Inr aresult_def areturn_def araise_def get_model_provider_def
        split: option.splits if_splits)
  from dispatch_Inr [OF d] obtain call wb where
    c: "authorized (pv_dispatcher (mg_env M)) access w1 call wb" "model_capability_call M p s call wb = (Inr (Some c), w')" by blast
  from c(2) have x: "mv_capabilities p s (au_context call) wb = (Operation_Done (Inr (Some c)), w')"
    by (auto simp: model_capability_call_def abind_eq_Inr aresult_def model_guard_def guarded_provider_Inr await_provider_Inr)
  have "aq_action access = MODEL_CAPABILITIES_ACTION" using provider_access_Inr a by (auto simp: model_access_def)
  with p s c(1) x show ?thesis by (intro conjI exI) (assumption | simp)+
qed

text \<open>
  A response comes from an authorized call of the provider the selector names, made with the request
  narrowed by the grant, and it fits the request.
\<close>

definition generated :: "'w model_gateway \<Rightarrow> model_request \<Rightarrow> model_response \<Rightarrow> bool" where
  "generated M q r \<longleftrightarrow> (\<exists>p access wa call wb c wc. mg_providers M (ms_provider (mq_selector q)) = Some p
     \<and> authorized (pv_dispatcher (mg_env M)) access wa call wb \<and> aq_action access = MODEL_GENERATE_ACTION
     \<and> request_within c q \<and> mv_generate p c (au_context call) wb = (Operation_Done (Inr (Some r)), wc))"

lemma gateway_generate_Inr:
  assumes "gateway_generate M q ctx w = (Inr r, w')"
  shows "generated M q r \<and> response_fits (pv_schemas (mg_env M)) q r"
proof -
  define since where "since = pv_clock (mg_env M) w"
  define handler :: "exn \<Rightarrow> ('a, exn, model_response) action" where
    "handler e = (case e of CoreError d \<Rightarrow> abind (invocation_failed M OP_GENERATE ctx since d) (\<lambda>_. araise e) | _ \<Rightarrow> araise e)" for e
  have h: "handler e w1 \<noteq> (Inr r, w')" for e w1
    by (auto simp: handler_def abind_eq_Inr araise_def split: exn.splits)
  from assms obtain p access w1 where p: "mg_providers M (ms_provider (mq_selector q)) = Some p"
    and a: "model_access (mq_selector q) ctx MODEL_GENERATE_ACTION (model_constraints q) = Inr access"
    and t: "atry (generate_checked M p q ctx access since) handler w1 = (Inr r, w')"
    unfolding gateway_generate_def Let_def since_def [symmetric] handler_def [abs_def]
    by (auto simp: abind_eq_Inr aresult_def get_model_provider_def split: option.splits)
  obtain y w2 where g: "generate_checked M p q ctx access since w1 = (y, w2)" by fastforce
  with t h have "y = Inr r" by (cases y) (auto simp: atry_def)
  with g obtain w3 where d: "dispatch (pv_dispatcher (mg_env M)) access (generate_call M p q) w1 = (Inr (Some r), w3)"
    and v: "validate_response (pv_schemas (mg_env M)) q r = Inr ()"
    by (auto simp: generate_checked_def abind_eq_Inr aresult_def areturn_def araise_def split: option.splits)
  from dispatch_Inr [OF d] obtain call wb where
    c: "authorized (pv_dispatcher (mg_env M)) access w1 call wb" "generate_call M p q call wb = (Inr (Some r), w3)" by blast
  from c(2) obtain cq where cq: "constrain_model q call = Inr cq"
    and x: "mv_generate p cq (au_context call) wb = (Operation_Done (Inr (Some r)), w3)"
    by (auto simp: generate_call_def abind_eq_Inr aresult_def model_guard_def guarded_provider_Inr await_provider_Inr)
  have "aq_action access = MODEL_GENERATE_ACTION" using provider_access_Inr a by (auto simp: model_access_def)
  then have "generated M q r"
    unfolding generated_def using p c(1) constrain_model_within [OF cq] x by (intro exI conjI) (assumption | simp)+
  with v show ?thesis by (simp add: validate_response_iff)
qed

end
