(* ===== verification/Agent_Harness.thy ===== *)
theory Agent_Harness
  imports Agent_Spec Context_Guarantees Model_Stream Workflow_Steps
begin

section \<open>The Agent runtime\<close>

text \<open>
  \<open>AgentRuntime\<close> of \<open>harness/agent.py\<close>: the checks of an execution, the static preflight of Skills and
  Tools, the lifecycle of the Run, the resolution of the context, the generation with fallbacks and
  the way every Core error ends the Run. The Run service is the port of \<open>Workflow_Steps\<close>; the
  context resolver and the model gateway are those of \<open>Context_Resolver\<close> and \<open>Model_Gateway\<close>.
\<close>

record 'w agent_runtime =
  ay_agents :: agent_registry
  ay_contexts :: "'w context_resolver"
  ay_models :: "'w model_gateway"
  ay_runs :: "'w workflow_runs"
  ay_clock :: "'w \<Rightarrow> datetime"
  ay_token :: "'w \<Rightarrow> unit cancellation_token"
  ay_capabilities :: "((capability_ref \<Rightarrow> ('w, exn, unit) action) \<times> (capability_ref \<Rightarrow> ('w, exn, unit) action)) option"

subsection \<open>Checks before the first transition\<close>

definition validate_agent_context :: "run \<Rightarrow> call_context \<Rightarrow> unit result" where
  "validate_agent_context r c = raise_when (cx_run_id c \<noteq> r_id r \<or> cx_root_run_id c \<noteq> r_root_id r
       \<or> cx_parent_run_id c \<noteq> r_parent_id r \<or> cx_workspace_id c \<noteq> r_workspace_id r
       \<or> cx_session_ref c \<noteq> r_session_ref r \<or> cx_scope c \<noteq> r_scope r)
     (core_error INVALID_REQUEST ''agent_call_context_mismatch'' ''RuntimeCallContext does not match AgentRun boundaries'' False None)"

definition agent_versioned_ref :: "spec_ref \<Rightarrow> capability_ref result" where
  "agent_versioned_ref ref = (case versioned_spec_ref ref of
       Inr c \<Rightarrow> Inr c
     | Inl e \<Rightarrow> (case e of
         ValueError _ \<Rightarrow> Inl (core_error INVALID_REQUEST ''agent_capability_owner_required''
           ''Agent capability resolution requires an owning extension'' False None)
       | _ \<Rightarrow> Inl e))"

fun validate_refs :: "(capability_ref \<Rightarrow> ('w, exn, unit) action) \<Rightarrow> spec_ref list \<Rightarrow> ('w, exn, unit) action" where
  "validate_refs f [] = areturn ()"
| "validate_refs f (r # rs) = abind (aresult (agent_versioned_ref r)) (\<lambda>c. abind (f c) (\<lambda>_. validate_refs f rs))"

definition validate_agent_capabilities :: "'w agent_runtime \<Rightarrow> agent_spec \<Rightarrow> ('w, exn, unit) action" where
  "validate_agent_capabilities A a =
     (if ax_skills a = [] \<and> ax_tools a = [] then areturn ()
      else case ay_capabilities A of
        None \<Rightarrow> araise (core_error UNAVAILABLE ''agent_capability_resolver_unavailable''
          ''AgentSpec capabilities require a Skill/Tool resolver'' True None)
      | Some (skill, tool) \<Rightarrow> abind (validate_refs skill (ax_skills a)) (\<lambda>_. validate_refs tool (ax_tools a)))"

definition run_agent :: "run \<Rightarrow> (agent_id \<times> model_binding_ref) option" where
  "run_agent r = (case r_variant r of AgentRun i m \<Rightarrow> Some (i, m) | _ \<Rightarrow> None)"

text \<open>Everything up to the first transition: the loaded Run and the specification it names.\<close>

definition agent_preflight ::
  "'w agent_runtime \<Rightarrow> run_id \<Rightarrow> content_block list \<Rightarrow> call_context \<Rightarrow> ('w, exn, run \<times> agent_spec) action" where
  "agent_preflight A i input ctx =
     abind (aresult (raise_when (input = [])
       (core_error INVALID_REQUEST ''agent_input_required'' ''Agent execution input must not be empty'' False None))) (\<lambda>_.
     abind (sv_get (ay_runs A) i) (\<lambda>r. case run_agent r of
       None \<Rightarrow> araise (core_error INVALID_REQUEST ''agent_run_required'' ''AgentRuntime requires an AgentRun'' False None)
     | Some (agent, model) \<Rightarrow>
       abind (aresult (validate_agent_context r ctx)) (\<lambda>_.
       abind (aresult (raise_when (r_status r \<noteq> CREATED) (core_error CONFLICT ''agent_run_already_started''
         ''minimal Agent execution requires a CREATED AgentRun'' False None))) (\<lambda>_.
       abind (aresult (get_agent (ay_agents A) agent (r_definition_id r))) (\<lambda>a.
       abind (aresult (raise_when (mi_ref (ax_model a) \<noteq> model) (core_error INVALID_REQUEST ''agent_model_binding_mismatch''
         ''AgentRun model binding does not match AgentSpec'' False None))) (\<lambda>_.
       abind (validate_agent_capabilities A a) (\<lambda>_. areturn (r, a))))))))"

subsection \<open>Generation with fallbacks\<close>

definition tool_resource :: "spec_ref \<Rightarrow> resource_ref result" where
  "tool_resource ref = (case ref of Versioned c \<Rightarrow> capability_resource c | Plain r \<Rightarrow> Inr r)"

definition agent_model_request ::
  "agent_spec \<Rightarrow> content_block list \<Rightarrow> context_entry list \<Rightarrow> model_selector \<Rightarrow> model_request result" where
  "agent_model_request a input entries s =
     rbind (rmap tool_resource (ax_tools a)) (\<lambda>tools.
     mk_model_request \<lparr>mq_selector = s, mq_input = input, mq_instructions = ax_instructions a, mq_context = entries,
       mq_tools = tools, mq_schema = None, mq_policy = mi_policy (ax_model a), mq_budget = mi_budget (ax_model a)\<rparr>)"

definition binding_incompatible :: exn where
  "binding_incompatible = core_error UNSUPPORTED_CAPABILITY ''model_binding_incompatible''
     ''model does not satisfy Agent binding requirements'' False None"

definition binding_unavailable :: exn where
  "binding_unavailable = core_error UNAVAILABLE ''model_binding_unavailable'' ''no ModelProvider binding is available'' False None"

text \<open>One selector: \<open>None\<close> when the model does not satisfy the requirements of the binding.\<close>

definition generate_with ::
  "'w agent_runtime \<Rightarrow> agent_spec \<Rightarrow> content_block list \<Rightarrow> context_entry list \<Rightarrow> call_context \<Rightarrow> model_selector
    \<Rightarrow> ('w, exn, model_response option) action" where
  "generate_with A a input entries ctx s =
     abind (gateway_capabilities (ay_models A) s ctx) (\<lambda>c.
     if \<not> satisfies c (mi_required (ax_model a)) then areturn None
     else abind (aresult (agent_model_request a input entries s)) (\<lambda>q.
       abind (gateway_generate (ay_models A) q ctx) (\<lambda>r. areturn (Some r))))"

fun generate_from ::
  "'w agent_runtime \<Rightarrow> agent_spec \<Rightarrow> content_block list \<Rightarrow> context_entry list \<Rightarrow> call_context \<Rightarrow> model_selector list
    \<Rightarrow> exn option \<Rightarrow> ('w, exn, model_response) action" where
  "generate_from A a input entries ctx [] failed w = (Inl (case failed of None \<Rightarrow> binding_unavailable | Some e \<Rightarrow> e), w)"
| "generate_from A a input entries ctx (s # ss) failed w = (case generate_with A a input entries ctx s w of
     (Inr (Some r), w1) \<Rightarrow> (Inr r, w1)
   | (Inr None, w1) \<Rightarrow> generate_from A a input entries ctx ss (Some binding_incompatible) w1
   | (Inl e, w1) \<Rightarrow> if err_category e \<in> {Some UNAVAILABLE, Some UNSUPPORTED_CAPABILITY}
       then generate_from A a input entries ctx ss (Some e) w1 else (Inl e, w1))"

definition agent_generate ::
  "'w agent_runtime \<Rightarrow> agent_spec \<Rightarrow> content_block list \<Rightarrow> context_entry list \<Rightarrow> call_context \<Rightarrow> ('w, exn, model_response) action" where
  "agent_generate A a input entries ctx = generate_from A a input entries ctx (binding_selectors (ax_model a)) None"

subsection \<open>How a Run ends\<close>

definition run_cancelled_detail :: error_detail where
  "run_cancelled_detail = \<lparr>ed_category = CANCELLED_CALL, ed_code = ''run_cancelled'', ed_message = ''Agent Run was cancelled'',
     ed_retryable = False, ed_cause_id = None, ed_metadata = []\<rparr>"

definition agent_run_error :: "run \<Rightarrow> error_detail \<Rightarrow> error_detail" where
  "agent_run_error r fallback = (case r_error r of Some s \<Rightarrow> es_detail s
     | None \<Rightarrow> if r_status r = CANCELLED then run_cancelled_detail else fallback)"

definition changed_kind :: "string \<Rightarrow> run \<Rightarrow> run result" where
  "changed_kind msg r = (if run_agent r = None then Inl (AssertionError msg) else Inr r)"

definition run_settled :: "run \<Rightarrow> bool" where
  "run_settled r \<longleftrightarrow> terminal (r_status r) \<or> r_status r = PAUSED"

definition end_run :: "'w agent_runtime \<Rightarrow> run_id \<Rightarrow> error_detail \<Rightarrow> run \<Rightarrow> ('w, exn, run) action" where
  "end_run A i d r =
     abind (if ed_category d = CANCELLED_CALL then sv_cancel (ay_runs A) i (r_version r) else sv_fail (ay_runs A) i (r_version r) d)
       (\<lambda>x. aresult (changed_kind ''AgentRun terminalization changed Run kind'' x))"

text \<open>\<open>_terminalize\<close>: two attempts, each from the stored Run, then a last look.\<close>

fun terminalize :: "'w agent_runtime \<Rightarrow> run_id \<Rightarrow> error_detail \<Rightarrow> nat \<Rightarrow> ('w, exn, run) action" where
  "terminalize A i d 0 =
     abind (sv_get (ay_runs A) i) (\<lambda>r. abind (aresult (changed_kind ''AgentRun changed Run kind'' r)) (\<lambda>r.
     if run_settled r then areturn r
     else araise (core_error CONFLICT ''agent_terminalization_conflict'' ''Agent Run state changed while terminalizing'' True None)))"
| "terminalize A i d (Suc n) =
     abind (sv_get (ay_runs A) i) (\<lambda>r. abind (aresult (changed_kind ''AgentRun changed Run kind'' r)) (\<lambda>r.
     if run_settled r then areturn r
     else atry (end_run A i d r) (\<lambda>e. if err_category e = Some CONFLICT then terminalize A i d n else araise e)))"

definition competing_result :: "run \<Rightarrow> error_detail \<Rightarrow> agent_result result" where
  "competing_result r fallback =
     rbind (changed_kind ''AgentRun changed Run kind'' r) (\<lambda>r.
     if r_status r \<notin> {FAILED, CANCELLED, PAUSED} then Inl (CoreError fallback)
     else mk_agent_result \<lparr>ag_run = r, ag_response = None, ag_error = Some (agent_run_error r fallback)\<rparr>)"

definition succeed :: "run \<Rightarrow> model_response \<Rightarrow> agent_result result" where
  "succeed r resp =
     rbind (changed_kind ''AgentRun completion changed Run kind'' r) (\<lambda>r.
     mk_agent_result \<lparr>ag_run = r, ag_response = Some resp, ag_error = None\<rparr>)"

definition complete_agent :: "'w agent_runtime \<Rightarrow> run_id \<Rightarrow> run \<Rightarrow> model_response \<Rightarrow> ('w, exn, agent_result) action" where
  "complete_agent A i r resp w = (case sv_complete (ay_runs A) i (r_version r) w of
       (Inr x, w1) \<Rightarrow> (succeed x resp, w1)
     | (Inl e, w1) \<Rightarrow> (case e of
         CoreError d \<Rightarrow> if ed_category d \<noteq> CONFLICT then (Inl e, w1)
           else abind (sv_get (ay_runs A) i) (\<lambda>latest.
             aresult (if run_agent latest \<noteq> None \<and> r_status latest = SUCCEEDED then succeed latest resp
               else competing_result latest d)) w1
       | _ \<Rightarrow> (Inl e, w1)))"

subsection \<open>The execution\<close>

definition agent_work ::
  "'w agent_runtime \<Rightarrow> run_id \<Rightarrow> content_block list \<Rightarrow> call_context \<Rightarrow> run \<Rightarrow> agent_spec \<Rightarrow> ('w, exn, agent_result) action" where
  "agent_work A i input ctx loaded a =
     abind (active_now ctx (ay_token A) (ay_clock A)) (\<lambda>_.
     abind (sv_start (ay_runs A) i (r_version loaded)) (\<lambda>r1.
     abind (sv_advance (ay_runs A) i (r_version r1) CONTEXT_LOADING) (\<lambda>r2.
     abind (aresult (binding_request (ax_context a) (ax_definition_id a) ctx)) (\<lambda>q.
     abind (resolve_context (ay_contexts A) q (ax_context a)) (\<lambda>resolved.
     abind (aresult (raise_when (rx_completeness resolved = PARTIAL \<and> xb_policy (ax_context a) = REQUIRE_COMPLETE)
       (core_error PARTIAL_RESULT ''partial_context_rejected'' ''Agent context policy requires complete context'' False None))) (\<lambda>_.
     abind (sv_advance (ay_runs A) i (r_version r2) RUNNING) (\<lambda>r3.
     abind (agent_generate A a input (rx_entries resolved) ctx) (\<lambda>resp.
     abind (aresult (raise_when (mr_tools resp \<noteq> [] \<and> ax_tools a = [])
       (core_error PROTOCOL_FAILURE ''unexpected_tool_request'' ''model proposed a Tool for an Agent without Tools'' False None))) (\<lambda>_.
     abind (active_now ctx (ay_token A) (ay_clock A)) (\<lambda>_.
     complete_agent A i r3 resp))))))))))"

definition agent_rescue :: "'w agent_runtime \<Rightarrow> run_id \<Rightarrow> exn \<Rightarrow> ('w, exn, agent_result) action" where
  "agent_rescue A i e = (case e of
       CoreError d \<Rightarrow> abind (terminalize A i d 2) (\<lambda>r.
         if r_status r = SUCCEEDED then araise e
         else aresult (mk_agent_result \<lparr>ag_run = r, ag_response = None, ag_error = Some (agent_run_error r d)\<rparr>))
     | _ \<Rightarrow> araise e)"

definition agent_execute ::
  "'w agent_runtime \<Rightarrow> run_id \<Rightarrow> content_block list \<Rightarrow> call_context \<Rightarrow> ('w, exn, agent_result) action" where
  "agent_execute A i input ctx =
     abind (agent_preflight A i input ctx) (\<lambda>(r, a). atry (agent_work A i input ctx r a) (agent_rescue A i))"

section \<open>What an Agent execution guarantees\<close>

lemma mk_agent_result_self: "mk_agent_result x = Inr y \<Longrightarrow> y = x"
  by (auto simp: mk_agent_result_def split: if_splits)

lemma changed_kind_Inr: "changed_kind msg r = Inr r' \<longleftrightarrow> r' = r \<and> run_agent r \<noteq> None"
  by (auto simp: changed_kind_def)

lemma succeed_Inr: "succeed r resp = Inr x \<Longrightarrow> ag_run x = r \<and> ag_response x = Some resp \<and> run_agent r \<noteq> None"
  by (auto simp: succeed_def rbind_eq_Inr changed_kind_Inr dest!: mk_agent_result_self)

lemma competing_result_Inr:
  "competing_result r d = Inr x \<Longrightarrow> ag_run x = r \<and> ag_response x = None \<and> r_status r \<in> {FAILED, CANCELLED, PAUSED}
     \<and> run_agent r \<noteq> None"
  by (auto simp: competing_result_def rbind_eq_Inr changed_kind_Inr dest!: mk_agent_result_self split: if_splits)

text \<open>Only the branches that succeed carry a response.\<close>

lemma agent_result_response: "mk_agent_result x = Inr y \<Longrightarrow> r_status (ag_run y) = SUCCEEDED \<longleftrightarrow> ag_response y \<noteq> None"
  by (auto simp: mk_agent_result_def split: if_splits)

subsection \<open>Generation\<close>

text \<open>
  Where a response comes from: one of the selectors of the binding, whose model answered that it
  satisfies the requirements, and which generated it for the request of this Agent.
\<close>

definition agent_response_from ::
  "'w agent_runtime \<Rightarrow> agent_spec \<Rightarrow> content_block list \<Rightarrow> context_entry list \<Rightarrow> call_context \<Rightarrow> model_response \<Rightarrow> bool" where
  "agent_response_from A a input entries ctx resp \<longleftrightarrow>
     (\<exists>s q c wa wb. s \<in> set (binding_selectors (ax_model a)) \<and> gateway_capabilities (ay_models A) s ctx wa = (Inr c, wb)
        \<and> satisfies c (mi_required (ax_model a))
        \<and> agent_model_request a input entries s = Inr q \<and> generated (ay_models A) q resp
        \<and> response_fits (pv_schemas (mg_env (ay_models A))) q resp)"

lemma generate_with_Inr:
  assumes "generate_with A a input entries ctx s w = (Inr (Some resp), w')"
  shows "\<exists>q c wa wb. gateway_capabilities (ay_models A) s ctx wa = (Inr c, wb) \<and> satisfies c (mi_required (ax_model a)) \<and> agent_model_request a input entries s = Inr q
    \<and> generated (ay_models A) q resp \<and> response_fits (pv_schemas (mg_env (ay_models A))) q resp"
proof -
  from assms obtain c w1 q where c: "gateway_capabilities (ay_models A) s ctx w = (Inr c, w1)"
    and s: "satisfies c (mi_required (ax_model a))" and q: "agent_model_request a input entries s = Inr q"
    and g: "gateway_generate (ay_models A) q ctx w1 = (Inr resp, w')"
    by (auto simp: generate_with_def abind_eq_Inr aresult_def areturn_def split: if_splits)
  from c s q gateway_generate_Inr [OF g] show ?thesis by blast
qed

lemma generate_from_Inr:
  assumes "generate_from A a input entries ctx ss failed w = (Inr resp, w')"
    and "set ss \<subseteq> set (binding_selectors (ax_model a))"
  shows "agent_response_from A a input entries ctx resp"
  using assms
proof (induction ss arbitrary: failed w)
  case (Cons s ss)
  obtain y w1 where g: "generate_with A a input entries ctx s w = (y, w1)" by fastforce
  show ?case
  proof (cases y)
    case (Inl e)
    with Cons g show ?thesis by (auto split: if_splits)
  next
    case (Inr o')
    show ?thesis
    proof (cases o')
      case None
      with Cons g Inr show ?thesis by simp
    next
      case (Some r)
      with Cons.prems g Inr have "r = resp" by simp
      with generate_with_Inr [of A a input entries ctx s w resp w1] g Inr Some obtain q c wa wb where
        "gateway_capabilities (ay_models A) s ctx wa = (Inr c, wb)" "satisfies c (mi_required (ax_model a))" "agent_model_request a input entries s = Inr q"
        "generated (ay_models A) q resp" "response_fits (pv_schemas (mg_env (ay_models A))) q resp" by auto
      moreover have "s \<in> set (binding_selectors (ax_model a))" using Cons.prems(2) by simp
      ultimately show ?thesis unfolding agent_response_from_def by blast
    qed
  qed
qed simp

lemma agent_generate_Inr: "agent_generate A a input entries ctx w = (Inr resp, w') \<Longrightarrow> agent_response_from A a input entries ctx resp"
  by (auto simp: agent_generate_def intro: generate_from_Inr)

subsection \<open>The work of an execution\<close>

text \<open>What a response that is part of a result was made from.\<close>

definition response_earned ::
  "'w agent_runtime \<Rightarrow> agent_spec \<Rightarrow> content_block list \<Rightarrow> call_context \<Rightarrow> model_response \<Rightarrow> bool" where
  "response_earned A a input ctx resp \<longleftrightarrow>
     (\<exists>q resolved wa wb. binding_request (ax_context a) (ax_definition_id a) ctx = Inr q
        \<and> resolve_context (ay_contexts A) q (ax_context a) wa = (Inr resolved, wb)
        \<and> agent_response_from A a input (rx_entries resolved) ctx resp
        \<and> (xb_policy (ax_context a) = REQUIRE_COMPLETE \<longrightarrow> rx_completeness resolved = COMPLETE \<and> rx_missing resolved = []))
     \<and> (mr_tools resp \<noteq> [] \<longrightarrow> ax_tools a \<noteq> [])"

text \<open>The last answer of the Run service, with nothing after it.\<close>

definition service_answer :: "'w agent_runtime \<Rightarrow> run_id \<Rightarrow> run \<Rightarrow> 'w \<Rightarrow> bool" where
  "service_answer A i r w' \<longleftrightarrow> (\<exists>w. sv_get (ay_runs A) i w = (Inr r, w')
     \<or> (\<exists>v. sv_complete (ay_runs A) i v w = (Inr r, w')) \<or> (\<exists>v. sv_cancel (ay_runs A) i v w = (Inr r, w'))
     \<or> (\<exists>v d. sv_fail (ay_runs A) i v d w = (Inr r, w')))"

lemma complete_agent_Inr:
  assumes "complete_agent A i r resp w = (Inr x, w')"
  shows "service_answer A i (ag_run x) w' \<and> (ag_response x = None \<or> ag_response x = Some resp)"
proof -
  obtain y w1 where c: "sv_complete (ay_runs A) i (r_version r) w = (y, w1)" by fastforce
  show ?thesis
  proof (cases y)
    case (Inr r1)
    with assms c have "succeed r1 resp = Inr x" "w1 = w'" by (simp_all add: complete_agent_def)
    with succeed_Inr [of r1 resp x] c Inr show ?thesis unfolding service_answer_def by blast
  next
    case (Inl e)
    then obtain d where "e = CoreError d" using assms c by (cases e) (simp_all add: complete_agent_def)
    with assms c Inl obtain latest where g: "sv_get (ay_runs A) i w1 = (Inr latest, w')"
      and x: "(if run_agent latest \<noteq> None \<and> r_status latest = SUCCEEDED then succeed latest resp else competing_result latest d) = Inr x"
      by (auto simp: complete_agent_def abind_eq_Inr aresult_def split: if_splits)
    from x have "ag_run x = latest \<and> (ag_response x = None \<or> ag_response x = Some resp)"
      by (auto dest: succeed_Inr competing_result_Inr split: if_splits)
    with g show ?thesis unfolding service_answer_def by blast
  qed
qed

lemma resolve_context_complete:
  assumes "resolve_context E q b w = (Inr r, w')" "rx_completeness r = COMPLETE" shows "rx_missing r = []"
  using resolve_context_Inr [OF assms(1)] combine_Inr assms(2) by blast

lemma agent_work_Inr:
  assumes "agent_work A i input ctx loaded a w = (Inr x, w')"
  shows "service_answer A i (ag_run x) w'
    \<and> (\<forall>resp. ag_response x = Some resp \<longrightarrow> response_earned A a input ctx resp)"
proof -
  from assms obtain q w1 resolved w2 w3 resp w4 r3 w5 where
    rq: "binding_request (ax_context a) (ax_definition_id a) ctx = Inr q"
    and rc: "resolve_context (ay_contexts A) q (ax_context a) w1 = (Inr resolved, w2)"
    and full: "\<not> (rx_completeness resolved = PARTIAL \<and> xb_policy (ax_context a) = REQUIRE_COMPLETE)"
    and g: "agent_generate A a input (rx_entries resolved) ctx w3 = (Inr resp, w4)"
    and t: "\<not> (mr_tools resp \<noteq> [] \<and> ax_tools a = [])"
    and c: "complete_agent A i r3 resp w5 = (Inr x, w')"
    unfolding agent_work_def abind_eq_Inr aresult_def prod.inject raise_when_Inr by blast
  have "xb_policy (ax_context a) = REQUIRE_COMPLETE \<longrightarrow> rx_completeness resolved = COMPLETE \<and> rx_missing resolved = []"
    using full resolve_context_complete [OF rc] by (cases "rx_completeness resolved") auto
  with agent_generate_Inr [OF g] rq rc t have "response_earned A a input ctx resp" unfolding response_earned_def by blast
  with complete_agent_Inr [OF c] show ?thesis by auto
qed

lemma terminalize_Inr:
  "terminalize A i d n w = (Inr r, w') \<Longrightarrow> service_answer A i r w' \<and> run_agent r \<noteq> None"
proof (induction n arbitrary: w)
  case 0
  then show ?case
    by (auto simp: abind_eq_Inr aresult_def areturn_def araise_def changed_kind_Inr service_answer_def split: if_splits)
next
  case (Suc n)
  from Suc.prems obtain r1 w1 where g: "sv_get (ay_runs A) i w = (Inr r1, w1)" and k: "run_agent r1 \<noteq> None"
    and rest: "(if run_settled r1 then areturn r1
      else atry (end_run A i d r1) (\<lambda>e. if err_category e = Some CONFLICT then terminalize A i d n else araise e)) w1 = (Inr r, w')"
    by (auto simp: abind_eq_Inr aresult_def changed_kind_Inr)
  show ?case
  proof (cases "run_settled r1")
    case True
    with rest g k show ?thesis by (auto simp: areturn_def service_answer_def)
  next
    case False
    obtain y w2 where e: "end_run A i d r1 w1 = (y, w2)" by fastforce
    show ?thesis
    proof (cases y)
      case (Inl x)
      with False rest e Suc.IH show ?thesis by (auto simp: atry_def araise_def split: if_splits)
    next
      case (Inr r2)
      with False rest e have "end_run A i d r1 w1 = (Inr r, w')" by (simp add: atry_def)
      then show ?thesis
        by (auto simp: end_run_def abind_eq_Inr aresult_def changed_kind_Inr service_answer_def split: if_splits)
    qed
  qed
qed

lemma agent_rescue_Inr:
  assumes "agent_rescue A i e w = (Inr x, w')"
  shows "service_answer A i (ag_run x) w' \<and> ag_response x = None \<and> r_status (ag_run x) \<noteq> SUCCEEDED"
proof -
  from assms obtain d r where "terminalize A i d 2 w = (Inr r, w')" "r_status r \<noteq> SUCCEEDED"
    "mk_agent_result \<lparr>ag_run = r, ag_response = None, ag_error = Some (agent_run_error r d)\<rparr> = Inr x"
    by (auto simp: agent_rescue_def abind_eq_Inr aresult_def araise_def split: exn.splits if_splits)
  with terminalize_Inr [of A i d 2 w r w'] show ?thesis by (auto dest!: mk_agent_result_self)
qed

lemma agent_execute_cases:
  assumes "agent_execute A i input ctx w = (Inr x, w')"
  shows "\<exists>r a w1. agent_preflight A i input ctx w = (Inr (r, a), w1)
    \<and> (agent_work A i input ctx r a w1 = (Inr x, w')
       \<or> (\<exists>e w2. agent_work A i input ctx r a w1 = (Inl e, w2) \<and> agent_rescue A i e w2 = (Inr x, w')))"
proof -
  from assms obtain r a w1 where p: "agent_preflight A i input ctx w = (Inr (r, a), w1)"
    and t: "atry (agent_work A i input ctx r a) (agent_rescue A i) w1 = (Inr x, w')"
    by (auto simp: agent_execute_def abind_eq_Inr split: prod.splits)
  obtain y w2 where k: "agent_work A i input ctx r a w1 = (y, w2)" by fastforce
  from t k p show ?thesis by (cases y) (auto simp: atry_def)
qed

lemma get_agent_Inr: "get_agent r i d = Inr a \<longleftrightarrow> r (i, d) = Some a"
  by (auto simp: get_agent_def split: option.splits)

text \<open>What the preflight has established.\<close>

lemma agent_preflight_Inr:
  assumes "agent_preflight A i input ctx w = (Inr (r, a), w')"
  shows "input \<noteq> [] \<and> (\<exists>w1. sv_get (ay_runs A) i w = (Inr r, w1)) \<and> r_status r = CREATED
    \<and> cx_run_id ctx = r_id r \<and> cx_scope ctx = r_scope r
    \<and> (\<exists>agent. run_agent r = Some (agent, mi_ref (ax_model a)) \<and> ay_agents A (agent, r_definition_id r) = Some a)"
  using assms
  by (auto simp: agent_preflight_def abind_eq_Inr aresult_def areturn_def araise_def raise_when_Inr validate_agent_context_def
      get_agent_Inr split: option.splits prod.splits)

text \<open>Success and a response go together in every result.\<close>

lemma succeed_settled: "succeed r resp = Inr x \<Longrightarrow> r_status (ag_run x) = SUCCEEDED \<longleftrightarrow> ag_response x \<noteq> None"
  by (auto simp: succeed_def rbind_eq_Inr dest: agent_result_response)

lemma competing_settled: "competing_result r d = Inr x \<Longrightarrow> r_status (ag_run x) = SUCCEEDED \<longleftrightarrow> ag_response x \<noteq> None"
  by (auto simp: competing_result_def rbind_eq_Inr dest: agent_result_response split: if_splits)

lemma complete_agent_settled:
  assumes "complete_agent A i r resp w = (Inr x, w')"
  shows "r_status (ag_run x) = SUCCEEDED \<longleftrightarrow> ag_response x \<noteq> None"
proof -
  from assms consider r1 where "succeed r1 resp = Inr x" | r1 d where "competing_result r1 d = Inr x"
    by (auto simp: complete_agent_def abind_eq_Inr aresult_def split: prod.splits sum.splits exn.splits if_splits)
  then show ?thesis by cases (rule succeed_settled competing_settled, assumption)+
qed

lemma agent_work_settled:
  assumes "agent_work A i input ctx loaded a w = (Inr x, w')"
  shows "r_status (ag_run x) = SUCCEEDED \<longleftrightarrow> ag_response x \<noteq> None"
proof -
  from assms obtain r3 resp w5 where "complete_agent A i r3 resp w5 = (Inr x, w')"
    unfolding agent_work_def abind_eq_Inr aresult_def prod.inject raise_when_Inr by blast
  then show ?thesis by (rule complete_agent_settled)
qed

lemma agent_execute_Inr:
  assumes "agent_execute A i input ctx w = (Inr x, w')"
  shows "(r_status (ag_run x) = SUCCEEDED \<longleftrightarrow> ag_response x \<noteq> None) \<and> service_answer A i (ag_run x) w'
    \<and> (\<exists>r a w1. agent_preflight A i input ctx w = (Inr (r, a), w1) \<and> r_status r = CREATED \<and> cx_run_id ctx = r_id r \<and> cx_scope ctx = r_scope r
        \<and> (\<forall>resp. ag_response x = Some resp \<longrightarrow> response_earned A a input ctx resp))"
proof -
  from agent_execute_cases [OF assms] obtain r a w1 where p: "agent_preflight A i input ctx w = (Inr (r, a), w1)"
    and c: "agent_work A i input ctx r a w1 = (Inr x, w') \<or> (\<exists>e w2. agent_work A i input ctx r a w1 = (Inl e, w2) \<and> agent_rescue A i e w2 = (Inr x, w'))"
    by blast
  have "(r_status (ag_run x) = SUCCEEDED \<longleftrightarrow> ag_response x \<noteq> None) \<and> service_answer A i (ag_run x) w'
    \<and> (\<forall>resp. ag_response x = Some resp \<longrightarrow> response_earned A a input ctx resp)"
    using c
  proof (elim disjE exE conjE)
    assume w: "agent_work A i input ctx r a w1 = (Inr x, w')"
    show ?thesis using agent_work_settled [OF w] agent_work_Inr [OF w] by blast
  next
    fix e w2
    assume "agent_rescue A i e w2 = (Inr x, w')"
    from agent_rescue_Inr [OF this] show ?thesis by simp
  qed
  with p agent_preflight_Inr [OF p] show ?thesis by blast
qed

end
