(* ===== verification/Memory_Model.thy ===== *)
theory Memory_Model
  imports Evaluation_Model Context_Model "HOL-Library.List_Lexorder" "HOL-Library.Product_Lexorder"
    "HOL-Library.Char_ord"
begin

section \<open>The contracts of memory providers\<close>

text \<open>
  The records of \<open>provider/memory.py\<close>: queries with their cursors, records and pages, items to
  remember, versioned requests to forget, consolidations and the capabilities of a provider, with
  their constructor checks and encodings. The digest of a query is a parameter, and so is the length
  of the canonical JSON text of a content block.
\<close>

definition unique_names :: "string list \<Rightarrow> string \<Rightarrow> unit result" where
  "unique_names vs name =
     (if \<not> list_all trimmed vs then Inl (ValueError (name @ '' values must be non-empty and trimmed''))
      else if \<not> distinct vs then Inl (ValueError (name @ '' values must be unique'')) else Inr ())"

definition namespaced_key :: "string \<Rightarrow> bool" where
  "namespaced_key k \<longleftrightarrow> CHR ''.'' \<in> set k \<and> hd k \<noteq> CHR ''.'' \<and> List.last k \<noteq> CHR ''.''"

definition namespaced_keys :: "json_object \<Rightarrow> string \<Rightarrow> unit result" where
  "namespaced_keys d name =
     (if list_all (\<lambda>(k, v). namespaced_key k) d then Inr () else Inl (ValueError (''memory '' @ name @ '' keys must be namespaced'')))"

definition mapping_or_empty :: "json_object \<Rightarrow> string \<Rightarrow> string \<Rightarrow> json_object result" where
  "mapping_or_empty d k name = as_object (obj_get_or d k (JObj [])) name"

definition texts_or_empty :: "pylib \<Rightarrow> json_object \<Rightarrow> string \<Rightarrow> string \<Rightarrow> string list result" where
  "texts_or_empty L d k name = rbind (as_array (obj_get_or d k (JList [])) name) (\<lambda>xs. Inr (List.map (py_str L) xs))"

definition scope_field :: "pylib \<Rightarrow> json_object \<Rightarrow> string \<Rightarrow> string \<Rightarrow> scope_ref result" where
  "scope_field L d k name = rbind (object_at d k name) (scope_from_data L)"

lemma memory_field_simps [simp]:
  "mapping_or_empty ((k, v) # d) k' n = (if k = k' then as_object v n else mapping_or_empty d k' n)"
  "texts_or_empty L ((k, v) # d) k' n = (if k = k' then rbind (as_array v n) (\<lambda>xs. Inr (List.map (py_str L) xs)) else texts_or_empty L d k' n)"
  "scope_field L ((k, v) # d) k' n = (if k = k' then rbind (as_object v n) (scope_from_data L) else scope_field L d k' n)"
  by (simp_all add: mapping_or_empty_def texts_or_empty_def scope_field_def)

lemma texts_decode [simp]: "List.map (py_str L) (List.map JStr ss) = ss"
  by (simp add: comp_def)

subsection \<open>Enumerations and warnings\<close>

datatype memory_operation = RETRIEVE | REMEMBER | FORGET | CONSOLIDATE

fun memory_operation_value :: "memory_operation \<Rightarrow> string" where
  "memory_operation_value RETRIEVE = ''retrieve''"
| "memory_operation_value REMEMBER = ''remember''"
| "memory_operation_value FORGET = ''forget''"
| "memory_operation_value CONSOLIDATE = ''consolidate''"

definition memory_operation_list :: "memory_operation list" where
  "memory_operation_list = [RETRIEVE, REMEMBER, FORGET, CONSOLIDATE]"

definition memory_operations :: "(string \<times> memory_operation) list" where
  "memory_operations = List.map (\<lambda>x. (memory_operation_value x, x)) memory_operation_list"

datatype memory_completeness = MEMORY_COMPLETE | MEMORY_PARTIAL

fun memory_completeness_value :: "memory_completeness \<Rightarrow> string" where
  "memory_completeness_value MEMORY_COMPLETE = ''complete''"
| "memory_completeness_value MEMORY_PARTIAL = ''partial''"

definition memory_completenesses :: "(string \<times> memory_completeness) list" where
  "memory_completenesses = List.map (\<lambda>x. (memory_completeness_value x, x)) [MEMORY_COMPLETE, MEMORY_PARTIAL]"

datatype forget_outcome = DELETED | ALREADY_ABSENT

fun forget_outcome_value :: "forget_outcome \<Rightarrow> string" where
  "forget_outcome_value DELETED = ''deleted''"
| "forget_outcome_value ALREADY_ABSENT = ''already_absent''"

definition forget_outcomes :: "(string \<times> forget_outcome) list" where
  "forget_outcomes = List.map (\<lambda>x. (forget_outcome_value x, x)) [DELETED, ALREADY_ABSENT]"

datatype consolidation_outcome = CONSOLIDATED | CONSOLIDATED_PARTLY | NOTHING_TO_DO

fun consolidation_outcome_value :: "consolidation_outcome \<Rightarrow> string" where
  "consolidation_outcome_value CONSOLIDATED = ''complete''"
| "consolidation_outcome_value CONSOLIDATED_PARTLY = ''partial''"
| "consolidation_outcome_value NOTHING_TO_DO = ''noop''"

definition consolidation_outcomes :: "(string \<times> consolidation_outcome) list" where
  "consolidation_outcomes = List.map (\<lambda>x. (consolidation_outcome_value x, x)) [CONSOLIDATED, CONSOLIDATED_PARTLY, NOTHING_TO_DO]"

lemma memory_operation_decodes [simp]: "enum_of L cls memory_operations (memory_operation_value x) = Inr x"
  by (cases x) (simp_all add: enum_of_def memory_operations_def memory_operation_list_def)

lemma memory_completeness_decodes [simp]: "enum_of L cls memory_completenesses (memory_completeness_value x) = Inr x"
  by (cases x) (simp_all add: enum_of_def memory_completenesses_def)

lemma forget_outcome_decodes [simp]: "enum_of L cls forget_outcomes (forget_outcome_value x) = Inr x"
  by (cases x) (simp_all add: enum_of_def forget_outcomes_def)

lemma consolidation_outcome_decodes [simp]: "enum_of L cls consolidation_outcomes (consolidation_outcome_value x) = Inr x"
  by (cases x) (simp_all add: enum_of_def consolidation_outcomes_def)

record memory_warning =
  yw_code :: string
  yw_message :: string

definition mk_memory_warning :: "memory_warning \<Rightarrow> memory_warning result" where
  "mk_memory_warning w = rbind (require_text (yw_code w) ''memory warning code'') (\<lambda>_.
     rbind (require_text (yw_message w) ''memory warning message'') (\<lambda>_. Inr w))"

definition memory_warning_to_data :: "memory_warning \<Rightarrow> json_object" where
  "memory_warning_to_data w = [(''code'', JStr (yw_code w)), (''message'', JStr (yw_message w))]"

definition memory_warning_from_data :: "pylib \<Rightarrow> json_object \<Rightarrow> memory_warning result" where
  "memory_warning_from_data L d = rbind (field_str L d ''code'') (\<lambda>c. rbind (field_str L d ''message'') (\<lambda>m.
     mk_memory_warning \<lparr>yw_code = c, yw_message = m\<rparr>))"

lemma memory_warning_roundtrip: "mk_memory_warning w = Inr w \<Longrightarrow> memory_warning_from_data L (memory_warning_to_data w) = Inr w"
  by (cases w) (simp add: memory_warning_from_data_def memory_warning_to_data_def)

definition memory_warnings_at :: "pylib \<Rightarrow> json_object \<Rightarrow> memory_warning list result" where
  "memory_warnings_at L d = rbind (as_array (obj_get_or d ''warnings'' (JList [])) ''memory warnings'')
     (objects ''memory warning'' (memory_warning_from_data L))"

lemma memory_warnings_decode: "\<forall>w \<in> set ws. mk_memory_warning w = Inr w \<Longrightarrow>
    objects n (memory_warning_from_data L) (List.map (\<lambda>w. JObj (memory_warning_to_data w)) ws) = Inr ws"
  by (rule objects_inverse) (simp add: memory_warning_roundtrip)

subsection \<open>Cursors and queries\<close>

record memory_cursor =
  yc_provider :: provider_id
  yc_contract :: string
  yc_value :: string
  yc_fingerprint :: string

definition mk_memory_cursor :: "memory_cursor \<Rightarrow> memory_cursor result" where
  "mk_memory_cursor c =
     rbind (require_text (yc_contract c) ''memory cursor contract version'') (\<lambda>_.
     rbind (require_text (yc_value c) ''memory cursor value'') (\<lambda>_.
     if \<not> sha256_hex (yc_fingerprint c) then Inl (ValueError ''memory cursor query fingerprint must be lowercase SHA-256'')
     else Inr c))"

definition memory_cursor_to_data :: "memory_cursor \<Rightarrow> json_object" where
  "memory_cursor_to_data c = [(''provider_id'', JStr (yc_provider c)), (''contract_version'', JStr (yc_contract c)),
     (''value'', JStr (yc_value c)), (''query_fingerprint'', JStr (yc_fingerprint c))]"

definition memory_cursor_from_data :: "pylib \<Rightarrow> json_object \<Rightarrow> memory_cursor result" where
  "memory_cursor_from_data L d =
     rbind (ident_at L d ''provider_id'') (\<lambda>p. rbind (field_str L d ''contract_version'') (\<lambda>v.
     rbind (field_str L d ''value'') (\<lambda>x. rbind (field_str L d ''query_fingerprint'') (\<lambda>f.
     mk_memory_cursor \<lparr>yc_provider = p, yc_contract = v, yc_value = x, yc_fingerprint = f\<rparr>))))"

definition memory_cursor_ok :: "memory_cursor \<Rightarrow> bool" where
  "memory_cursor_ok c \<longleftrightarrow> mk_memory_cursor c = Inr c \<and> identifier_ok (yc_provider c)"

lemma memory_cursor_roundtrip: "memory_cursor_ok c \<Longrightarrow> memory_cursor_from_data L (memory_cursor_to_data c) = Inr c"
  by (cases c) (simp add: memory_cursor_from_data_def memory_cursor_to_data_def memory_cursor_ok_def)

lemma opt_cursor_decodes: "pred_option memory_cursor_ok c \<Longrightarrow>
    object_or_none n (memory_cursor_from_data L) (case c of None \<Rightarrow> JNull | Some x \<Rightarrow> JObj (memory_cursor_to_data x)) = Inr c"
  by (rule opt_object_decodes) (simp add: memory_cursor_roundtrip)

record memory_query =
  yq_scope :: scope_ref
  yq_content :: content_block
  yq_schema :: schema_ref
  yq_filters :: json_object
  yq_limit :: int
  yq_cursor :: "memory_cursor option"
  yq_projection :: "string list"

definition mk_memory_query :: "memory_query \<Rightarrow> memory_query result" where
  "mk_memory_query q =
     (if yq_limit q < 1 then Inl (ValueError ''memory query limit must be positive'')
      else rbind (namespaced_keys (yq_filters q) ''filters'') (\<lambda>_.
      rbind (unique_names (yq_projection q) ''memory query projection'') (\<lambda>_. Inr q)))"

definition memory_fingerprint_data :: "memory_query \<Rightarrow> json_object" where
  "memory_fingerprint_data q = [(''scope'', scope_to_data (yq_scope q)), (''content'', JObj (content_to_data (yq_content q))),
     (''schema'', JObj (schema_to_data (yq_schema q))), (''filters'', JObj (yq_filters q)), (''limit'', JInt (yq_limit q)),
     (''projection'', JList (List.map JStr (yq_projection q)))]"

definition memory_fingerprint :: "(json_object \<Rightarrow> string) \<Rightarrow> memory_query \<Rightarrow> string" where
  "memory_fingerprint H q = H (memory_fingerprint_data q)"

definition memory_query_to_data :: "memory_query \<Rightarrow> json_object" where
  "memory_query_to_data q = memory_fingerprint_data q @
     [(''cursor'', case yq_cursor q of None \<Rightarrow> JNull | Some c \<Rightarrow> JObj (memory_cursor_to_data c))]"

definition memory_query_from_data :: "pylib \<Rightarrow> json_object \<Rightarrow> memory_query result" where
  "memory_query_from_data L d =
     rbind (scope_field L d ''scope'' ''memory query scope'') (\<lambda>s.
     rbind (rbind (object_at d ''content'' ''memory query content'') (content_from_data L)) (\<lambda>b.
     rbind (rbind (object_at d ''schema'' ''memory query schema'') (schema_from_data L)) (\<lambda>m.
     rbind (mapping_or_empty d ''filters'' ''memory query filters'') (\<lambda>fs.
     rbind (int_at d ''limit'' ''memory query limit'') (\<lambda>l.
     rbind (object_or_none ''memory cursor'' (memory_cursor_from_data L) (obj_get d ''cursor'')) (\<lambda>c.
     rbind (texts_or_empty L d ''projection'' ''memory projection'') (\<lambda>ps.
     mk_memory_query \<lparr>yq_scope = s, yq_content = b, yq_schema = m, yq_filters = fs, yq_limit = l, yq_cursor = c, yq_projection = ps\<rparr>)))))))"

definition memory_query_ok :: "memory_query \<Rightarrow> bool" where
  "memory_query_ok q \<longleftrightarrow> mk_memory_query q = Inr q \<and> scope_ok (yq_scope q) \<and> mk_content (yq_content q) = Inr (yq_content q)
     \<and> schema_ok (yq_schema q) \<and> pred_option memory_cursor_ok (yq_cursor q)"

lemma memory_query_roundtrip: "memory_query_ok q \<Longrightarrow> memory_query_from_data L (memory_query_to_data q) = Inr q"
  by (cases q) (simp add: memory_query_from_data_def memory_query_to_data_def memory_fingerprint_data_def memory_query_ok_def
      scope_roundtrip content_roundtrip schema_roundtrip opt_cursor_decodes comp_def)

subsection \<open>References, records and pages\<close>

record memory_ref =
  yr_provider :: provider_id
  yr_id :: string
  yr_scope :: scope_ref
  yr_version :: int

definition mk_memory_ref :: "memory_ref \<Rightarrow> memory_ref result" where
  "mk_memory_ref r = (if yr_version r < 1 then Inl (ValueError ''memory version must be positive'') else Inr r)"

definition memory_ref_to_data :: "memory_ref \<Rightarrow> json_object" where
  "memory_ref_to_data r = [(''provider_id'', JStr (yr_provider r)), (''memory_id'', JStr (yr_id r)),
     (''scope'', scope_to_data (yr_scope r)), (''version'', JInt (yr_version r))]"

definition memory_ref_from_data :: "pylib \<Rightarrow> json_object \<Rightarrow> memory_ref result" where
  "memory_ref_from_data L d =
     rbind (ident_at L d ''provider_id'') (\<lambda>p. rbind (ident_at L d ''memory_id'') (\<lambda>i.
     rbind (scope_field L d ''scope'' ''memory reference scope'') (\<lambda>s. rbind (int_at d ''version'' ''memory version'') (\<lambda>v.
     mk_memory_ref \<lparr>yr_provider = p, yr_id = i, yr_scope = s, yr_version = v\<rparr>))))"

definition memory_ref_ok :: "memory_ref \<Rightarrow> bool" where
  "memory_ref_ok r \<longleftrightarrow> identifier_ok (yr_provider r) \<and> identifier_ok (yr_id r) \<and> scope_ok (yr_scope r) \<and> 1 \<le> yr_version r"

lemma memory_ref_roundtrip: "memory_ref_ok r \<Longrightarrow> memory_ref_from_data L (memory_ref_to_data r) = Inr r"
  by (cases r) (simp add: memory_ref_from_data_def memory_ref_to_data_def memory_ref_ok_def mk_memory_ref_def scope_roundtrip)

lemma memory_refs_decode: "list_all memory_ref_ok rs \<Longrightarrow>
    objects n (memory_ref_from_data L) (List.map (\<lambda>r. JObj (memory_ref_to_data r)) rs) = Inr rs"
  by (rule objects_inverse) (simp add: memory_ref_roundtrip list_all_iff)

record memory_record =
  yd_ref :: memory_ref
  yd_content :: content_block
  yd_schema :: schema_ref
  yd_metadata :: json_object
  yd_provenance :: "string list"

definition mk_memory_record :: "memory_record \<Rightarrow> memory_record result" where
  "mk_memory_record r = rbind (namespaced_keys (yd_metadata r) ''metadata'') (\<lambda>_.
     rbind (unique_names (yd_provenance r) ''memory record provenance'') (\<lambda>_. Inr r))"

definition memory_record_to_data :: "memory_record \<Rightarrow> json_object" where
  "memory_record_to_data r = [(''ref'', JObj (memory_ref_to_data (yd_ref r))), (''content'', JObj (content_to_data (yd_content r))),
     (''schema'', JObj (schema_to_data (yd_schema r))), (''metadata'', JObj (yd_metadata r)),
     (''provenance'', JList (List.map JStr (yd_provenance r)))]"

definition memory_record_from_data :: "pylib \<Rightarrow> json_object \<Rightarrow> memory_record result" where
  "memory_record_from_data L d =
     rbind (rbind (object_at d ''ref'' ''memory record reference'') (memory_ref_from_data L)) (\<lambda>r.
     rbind (rbind (object_at d ''content'' ''memory record content'') (content_from_data L)) (\<lambda>b.
     rbind (rbind (object_at d ''schema'' ''memory record schema'') (schema_from_data L)) (\<lambda>m.
     rbind (mapping_or_empty d ''metadata'' ''memory record metadata'') (\<lambda>ms.
     rbind (texts_or_empty L d ''provenance'' ''memory provenance'') (\<lambda>ps.
     mk_memory_record \<lparr>yd_ref = r, yd_content = b, yd_schema = m, yd_metadata = ms, yd_provenance = ps\<rparr>)))))"

definition memory_record_ok :: "memory_record \<Rightarrow> bool" where
  "memory_record_ok r \<longleftrightarrow> mk_memory_record r = Inr r \<and> memory_ref_ok (yd_ref r) \<and> mk_content (yd_content r) = Inr (yd_content r)
     \<and> schema_ok (yd_schema r)"

lemma memory_record_roundtrip: "memory_record_ok r \<Longrightarrow> memory_record_from_data L (memory_record_to_data r) = Inr r"
  by (cases r) (simp add: memory_record_from_data_def memory_record_to_data_def memory_record_ok_def memory_ref_roundtrip
      content_roundtrip schema_roundtrip comp_def)

record memory_page =
  yp_provider :: provider_id
  yp_contract :: string
  yp_records :: "memory_record list"
  yp_cursor :: "memory_cursor option"
  yp_completeness :: memory_completeness
  yp_warnings :: "memory_warning list"
  yp_provenance :: "string list"

definition mk_memory_page :: "memory_page \<Rightarrow> memory_page result" where
  "mk_memory_page p =
     rbind (require_text (yp_contract p) ''memory page contract version'') (\<lambda>_.
     if \<not> distinct (List.map (\<lambda>r. yr_id (yd_ref r)) (yp_records p))
     then Inl (ValueError ''memory page record identities must be unique'')
     else rbind (unique_names (yp_provenance p) ''memory page provenance'') (\<lambda>_. Inr p))"

definition memory_page_to_data :: "memory_page \<Rightarrow> json_object" where
  "memory_page_to_data p = [(''provider_id'', JStr (yp_provider p)), (''contract_version'', JStr (yp_contract p)),
     (''records'', JList (List.map (\<lambda>r. JObj (memory_record_to_data r)) (yp_records p))),
     (''next_cursor'', case yp_cursor p of None \<Rightarrow> JNull | Some c \<Rightarrow> JObj (memory_cursor_to_data c)),
     (''completeness'', JStr (memory_completeness_value (yp_completeness p))),
     (''warnings'', JList (List.map (\<lambda>w. JObj (memory_warning_to_data w)) (yp_warnings p))),
     (''provenance'', JList (List.map JStr (yp_provenance p)))]"

definition memory_page_from_data :: "pylib \<Rightarrow> json_object \<Rightarrow> memory_page result" where
  "memory_page_from_data L d =
     rbind (ident_at L d ''provider_id'') (\<lambda>i.
     rbind (field_str L d ''contract_version'') (\<lambda>v.
     rbind (rbind (array_at d ''records'' ''memory records'') (objects ''memory record'' (memory_record_from_data L))) (\<lambda>rs.
     rbind (object_or_none ''memory cursor'' (memory_cursor_from_data L) (obj_get d ''next_cursor'')) (\<lambda>c.
     rbind (rbind (field_str L d ''completeness'') (enum_of L ''MemoryCompleteness'' memory_completenesses)) (\<lambda>m.
     rbind (memory_warnings_at L d) (\<lambda>ws.
     rbind (texts_or_empty L d ''provenance'' ''memory provenance'') (\<lambda>ps.
     mk_memory_page \<lparr>yp_provider = i, yp_contract = v, yp_records = rs, yp_cursor = c, yp_completeness = m, yp_warnings = ws,
       yp_provenance = ps\<rparr>)))))))"

definition memory_page_ok :: "memory_page \<Rightarrow> bool" where
  "memory_page_ok p \<longleftrightarrow> mk_memory_page p = Inr p \<and> identifier_ok (yp_provider p) \<and> list_all memory_record_ok (yp_records p)
     \<and> pred_option memory_cursor_ok (yp_cursor p) \<and> (\<forall>w \<in> set (yp_warnings p). mk_memory_warning w = Inr w)"

lemma memory_page_roundtrip:
  assumes ok: "memory_page_ok p"
  shows "memory_page_from_data L (memory_page_to_data p) = Inr p"
proof -
  have "objects n (memory_record_from_data L) (List.map (\<lambda>r. JObj (memory_record_to_data r)) (yp_records p)) = Inr (yp_records p)" for n
    using ok by (intro objects_inverse) (simp add: memory_page_ok_def list_all_iff memory_record_roundtrip)
  with ok show ?thesis
    by (cases p) (simp add: memory_page_from_data_def memory_page_to_data_def memory_page_ok_def opt_cursor_decodes
        memory_warnings_at_def memory_warnings_decode comp_def del: memory_completeness_value.simps)
qed

section \<open>Items, requests to forget, consolidations and capabilities\<close>

subsection \<open>Items\<close>

record memory_item =
  yi_scope :: scope_ref
  yi_content :: content_block
  yi_schema :: schema_ref
  yi_key :: idempotency_key
  yi_metadata :: json_object
  yi_provenance :: "string list"
  yi_retention :: "resource_ref option"
  yi_max_bytes :: "int option"

text \<open>\<open>B\<close> is the number of bytes of the canonical JSON text of an object.\<close>

definition content_bytes :: "(json_object \<Rightarrow> nat) \<Rightarrow> memory_item \<Rightarrow> int" where
  "content_bytes B i = int (B (content_to_data (yi_content i)))"

definition mk_memory_item :: "(json_object \<Rightarrow> nat) \<Rightarrow> memory_item \<Rightarrow> memory_item result" where
  "mk_memory_item B i =
     rbind (namespaced_keys (yi_metadata i) ''metadata'') (\<lambda>_.
     rbind (unique_names (yi_provenance i) ''memory item provenance'') (\<lambda>_.
     if \<not> limit_ok (yi_max_bytes i) then Inl (ValueError ''memory item max_bytes must be positive'')
     else if limit_exceeds (Some (content_bytes B i)) (yi_max_bytes i)
     then Inl (ValueError ''memory item content exceeds max_bytes'') else Inr i))"

definition memory_item_to_data :: "memory_item \<Rightarrow> json_object" where
  "memory_item_to_data i = [(''scope'', scope_to_data (yi_scope i)), (''content'', JObj (content_to_data (yi_content i))),
     (''schema'', JObj (schema_to_data (yi_schema i))), (''idempotency_key'', JStr (yi_key i)), (''metadata'', JObj (yi_metadata i)),
     (''provenance'', JList (List.map JStr (yi_provenance i))),
     (''retention'', case yi_retention i of None \<Rightarrow> JNull | Some r \<Rightarrow> JObj (resource_to_data r)),
     (''max_bytes'', opt_int (yi_max_bytes i))]"

definition memory_item_from_data :: "(json_object \<Rightarrow> nat) \<Rightarrow> pylib \<Rightarrow> json_object \<Rightarrow> memory_item result" where
  "memory_item_from_data B L d =
     rbind (scope_field L d ''scope'' ''memory item scope'') (\<lambda>s.
     rbind (rbind (object_at d ''content'' ''memory item content'') (content_from_data L)) (\<lambda>b.
     rbind (rbind (object_at d ''schema'' ''memory item schema'') (schema_from_data L)) (\<lambda>m.
     rbind (ident_at L d ''idempotency_key'') (\<lambda>k.
     rbind (mapping_or_empty d ''metadata'' ''memory item metadata'') (\<lambda>ms.
     rbind (texts_or_empty L d ''provenance'' ''memory provenance'') (\<lambda>ps.
     rbind (object_or_none ''memory retention'' (resource_from_data L) (obj_get d ''retention'')) (\<lambda>r.
     rbind (int_or_none (obj_get d ''max_bytes'') ''memory item max_bytes'') (\<lambda>x.
     mk_memory_item B \<lparr>yi_scope = s, yi_content = b, yi_schema = m, yi_key = k, yi_metadata = ms, yi_provenance = ps,
       yi_retention = r, yi_max_bytes = x\<rparr>))))))))"

definition memory_item_ok :: "(json_object \<Rightarrow> nat) \<Rightarrow> memory_item \<Rightarrow> bool" where
  "memory_item_ok B i \<longleftrightarrow> mk_memory_item B i = Inr i \<and> scope_ok (yi_scope i) \<and> mk_content (yi_content i) = Inr (yi_content i)
     \<and> schema_ok (yi_schema i) \<and> identifier_ok (yi_key i) \<and> pred_option resource_ok (yi_retention i)"

lemma opt_resource_decodes: "pred_option resource_ok r \<Longrightarrow>
    object_or_none n (resource_from_data L) (case r of None \<Rightarrow> JNull | Some x \<Rightarrow> JObj (resource_to_data x)) = Inr r"
  by (rule opt_object_decodes) (simp add: resource_roundtrip)

lemma memory_item_roundtrip: "memory_item_ok B i \<Longrightarrow> memory_item_from_data B L (memory_item_to_data i) = Inr i"
  by (cases i) (simp add: memory_item_from_data_def memory_item_to_data_def memory_item_ok_def scope_roundtrip content_roundtrip
      schema_roundtrip opt_resource_decodes comp_def)

subsection \<open>Forgetting\<close>

record forget_request =
  yf_ref :: memory_ref
  yf_scope :: scope_ref
  yf_version :: int

definition mk_forget_request :: "forget_request \<Rightarrow> forget_request result" where
  "mk_forget_request q =
     (if scope_key (yf_scope q) \<noteq> scope_key (yr_scope (yf_ref q))
      then Inl (ValueError ''forget expected Scope must match MemoryRef Scope'')
      else if yf_version q < 1 then Inl (ValueError ''forget expected version must be positive'')
      else if yf_version q \<noteq> yr_version (yf_ref q)
      then Inl (ValueError ''forget expected version must match MemoryRef version'') else Inr q)"

definition forget_request_to_data :: "forget_request \<Rightarrow> json_object" where
  "forget_request_to_data q = [(''ref'', JObj (memory_ref_to_data (yf_ref q))), (''expected_scope'', scope_to_data (yf_scope q)),
     (''expected_version'', JInt (yf_version q))]"

definition forget_request_from_data :: "pylib \<Rightarrow> json_object \<Rightarrow> forget_request result" where
  "forget_request_from_data L d =
     rbind (rbind (object_at d ''ref'' ''forget reference'') (memory_ref_from_data L)) (\<lambda>r.
     rbind (scope_field L d ''expected_scope'' ''forget expected Scope'') (\<lambda>s.
     rbind (int_at d ''expected_version'' ''expected version'') (\<lambda>v.
     mk_forget_request \<lparr>yf_ref = r, yf_scope = s, yf_version = v\<rparr>)))"

lemma forget_request_roundtrip:
  "mk_forget_request q = Inr q \<Longrightarrow> memory_ref_ok (yf_ref q) \<Longrightarrow> scope_ok (yf_scope q) \<Longrightarrow>
     forget_request_from_data L (forget_request_to_data q) = Inr q"
  by (cases q) (simp add: forget_request_from_data_def forget_request_to_data_def memory_ref_roundtrip scope_roundtrip)

record forget_result =
  yo_ref :: memory_ref
  yo_outcome :: forget_outcome

definition forget_result_to_data :: "forget_result \<Rightarrow> json_object" where
  "forget_result_to_data r = [(''ref'', JObj (memory_ref_to_data (yo_ref r))),
     (''outcome'', JStr (forget_outcome_value (yo_outcome r)))]"

definition forget_result_from_data :: "pylib \<Rightarrow> json_object \<Rightarrow> forget_result result" where
  "forget_result_from_data L d =
     rbind (rbind (object_at d ''ref'' ''forget result reference'') (memory_ref_from_data L)) (\<lambda>r.
     rbind (rbind (field_str L d ''outcome'') (enum_of L ''ForgetOutcome'' forget_outcomes)) (\<lambda>x.
     Inr \<lparr>yo_ref = r, yo_outcome = x\<rparr>))"

lemma forget_result_roundtrip: "memory_ref_ok (yo_ref r) \<Longrightarrow> forget_result_from_data L (forget_result_to_data r) = Inr r"
  by (cases r) (simp add: forget_result_from_data_def forget_result_to_data_def memory_ref_roundtrip del: forget_outcome_value.simps)

subsection \<open>Consolidation\<close>

record consolidate_request =
  yn_scope :: scope_ref
  yn_policy :: resource_ref
  yn_selection :: json_object

definition mk_consolidate_request :: "consolidate_request \<Rightarrow> consolidate_request result" where
  "mk_consolidate_request q = rbind (namespaced_keys (yn_selection q) ''selection'') (\<lambda>_. Inr q)"

definition consolidate_request_to_data :: "consolidate_request \<Rightarrow> json_object" where
  "consolidate_request_to_data q = [(''scope'', scope_to_data (yn_scope q)), (''policy'', JObj (resource_to_data (yn_policy q))),
     (''selection'', JObj (yn_selection q))]"

definition consolidate_request_from_data :: "pylib \<Rightarrow> json_object \<Rightarrow> consolidate_request result" where
  "consolidate_request_from_data L d =
     rbind (scope_field L d ''scope'' ''consolidation Scope'') (\<lambda>s.
     rbind (rbind (object_at d ''policy'' ''consolidation policy'') (resource_from_data L)) (\<lambda>p.
     rbind (mapping_or_empty d ''selection'' ''consolidation selection'') (\<lambda>x.
     mk_consolidate_request \<lparr>yn_scope = s, yn_policy = p, yn_selection = x\<rparr>)))"

lemma consolidate_request_roundtrip:
  "mk_consolidate_request q = Inr q \<Longrightarrow> scope_ok (yn_scope q) \<Longrightarrow> resource_ok (yn_policy q) \<Longrightarrow>
     consolidate_request_from_data L (consolidate_request_to_data q) = Inr q"
  by (cases q) (simp add: consolidate_request_from_data_def consolidate_request_to_data_def resource_roundtrip scope_roundtrip)

record consolidation_report =
  yt_provider :: provider_id
  yt_contract :: string
  yt_policy :: resource_ref
  yt_scope :: scope_ref
  yt_affected :: "memory_ref list"
  yt_skipped :: "memory_ref list"
  yt_outcome :: consolidation_outcome
  yt_warnings :: "memory_warning list"

definition mk_consolidation_report :: "consolidation_report \<Rightarrow> consolidation_report result" where
  "mk_consolidation_report r =
     rbind (require_text (yt_contract r) ''consolidation contract version'') (\<lambda>_.
     if \<not> distinct (List.map yr_id (yt_affected r @ yt_skipped r))
     then Inl (ValueError ''consolidation references must be unique'') else Inr r)"

definition consolidation_success :: "consolidation_report \<Rightarrow> bool" where
  "consolidation_success r \<longleftrightarrow> yt_outcome r \<in> {CONSOLIDATED, NOTHING_TO_DO}"

definition consolidation_report_to_data :: "consolidation_report \<Rightarrow> json_object" where
  "consolidation_report_to_data r = [(''provider_id'', JStr (yt_provider r)), (''contract_version'', JStr (yt_contract r)),
     (''policy'', JObj (resource_to_data (yt_policy r))), (''scope'', scope_to_data (yt_scope r)),
     (''affected'', JList (List.map (\<lambda>x. JObj (memory_ref_to_data x)) (yt_affected r))),
     (''skipped'', JList (List.map (\<lambda>x. JObj (memory_ref_to_data x)) (yt_skipped r))),
     (''outcome'', JStr (consolidation_outcome_value (yt_outcome r))),
     (''warnings'', JList (List.map (\<lambda>w. JObj (memory_warning_to_data w)) (yt_warnings r)))]"

definition consolidation_report_from_data :: "pylib \<Rightarrow> json_object \<Rightarrow> consolidation_report result" where
  "consolidation_report_from_data L d =
     rbind (ident_at L d ''provider_id'') (\<lambda>p.
     rbind (field_str L d ''contract_version'') (\<lambda>v.
     rbind (rbind (object_at d ''policy'' ''consolidation policy'') (resource_from_data L)) (\<lambda>y.
     rbind (scope_field L d ''scope'' ''consolidation Scope'') (\<lambda>s.
     rbind (rbind (array_at d ''affected'' ''affected references'') (objects ''affected memory reference'' (memory_ref_from_data L))) (\<lambda>rs.
     rbind (rbind (array_at d ''skipped'' ''skipped references'') (objects ''skipped memory reference'' (memory_ref_from_data L))) (\<lambda>ss.
     rbind (rbind (field_str L d ''outcome'') (enum_of L ''ConsolidationOutcome'' consolidation_outcomes)) (\<lambda>x.
     rbind (memory_warnings_at L d) (\<lambda>ws.
     mk_consolidation_report \<lparr>yt_provider = p, yt_contract = v, yt_policy = y, yt_scope = s, yt_affected = rs, yt_skipped = ss,
       yt_outcome = x, yt_warnings = ws\<rparr>))))))))"

definition consolidation_report_ok :: "consolidation_report \<Rightarrow> bool" where
  "consolidation_report_ok r \<longleftrightarrow> mk_consolidation_report r = Inr r \<and> identifier_ok (yt_provider r) \<and> resource_ok (yt_policy r)
     \<and> scope_ok (yt_scope r) \<and> list_all memory_ref_ok (yt_affected r) \<and> list_all memory_ref_ok (yt_skipped r)
     \<and> (\<forall>w \<in> set (yt_warnings r). mk_memory_warning w = Inr w)"

lemma consolidation_report_roundtrip:
  "consolidation_report_ok r \<Longrightarrow> consolidation_report_from_data L (consolidation_report_to_data r) = Inr r"
  by (cases r) (simp add: consolidation_report_from_data_def consolidation_report_to_data_def consolidation_report_ok_def
      resource_roundtrip scope_roundtrip memory_refs_decode memory_warnings_at_def memory_warnings_decode
      del: consolidation_outcome_value.simps)

subsection \<open>Capabilities\<close>

record memory_capabilities =
  yb_provider :: provider_id
  yb_contract :: string
  yb_operations :: "memory_operation set"
  yb_query_schemas :: "schema_ref set"
  yb_item_schemas :: "schema_ref set"
  yb_record_schemas :: "schema_ref set"
  yb_kinds :: "content_kind set"
  yb_limit :: int
  yb_projections :: "string set"
  yb_versioned :: bool
  yb_policies :: "resource_ref list"
  yb_item_bytes :: "int option"

definition mk_memory_capabilities :: "memory_capabilities \<Rightarrow> memory_capabilities result" where
  "mk_memory_capabilities c =
     rbind (require_text (yb_contract c) ''memory provider contract version'') (\<lambda>_.
     if yb_limit c < 1 then Inl (ValueError ''memory maximum result limit must be positive'')
     else if \<not> limit_ok (yb_item_bytes c) then Inl (ValueError ''memory maximum item bytes must be positive'')
     else if \<not> (\<forall>p \<in> yb_projections c. trimmed p) then Inl (ValueError ''memory projections values must be non-empty and trimmed'')
     else if \<not> distinct (List.map resource_key (yb_policies c))
     then Inl (ValueError ''memory consolidation policies must be unique'')
     else if CONSOLIDATE \<notin> yb_operations c \<and> yb_policies c \<noteq> []
     then Inl (ValueError ''memory consolidation policies require consolidate support'') else Inr c)"

definition operation_set_to_data :: "memory_operation set \<Rightarrow> json" where
  "operation_set_to_data K =
     JList (List.map JStr (sort (List.map memory_operation_value (filter (\<lambda>k. k \<in> K) memory_operation_list))))"

definition operation_set_at :: "pylib \<Rightarrow> json_object \<Rightarrow> memory_operation set result" where
  "operation_set_at L d = rbind (array_at d ''operations'' ''memory operations'') (\<lambda>xs.
     rbind (rmap (\<lambda>v. enum_of L ''MemoryOperation'' memory_operations (py_str L v)) xs) (\<lambda>ks. Inr (set ks)))"

definition schema_of_key :: "string \<times> string \<times> string \<Rightarrow> schema_ref" where
  "schema_of_key k = (case k of (n, m, v) \<Rightarrow> \<lparr>sm_namespace = n, sm_name = m, sm_version = v\<rparr>)"

text \<open>\<open>[item.to_data() for item in sorted(schemas)]\<close>: schemas are ordered by their fields.\<close>

definition schema_set_to_data :: "schema_ref set \<Rightarrow> json" where
  "schema_set_to_data S = JList (List.map (\<lambda>k. JObj (schema_to_data (schema_of_key k))) (sorted_list_of_set (schema_key ` S)))"

definition schema_set_at :: "pylib \<Rightarrow> json_object \<Rightarrow> string \<Rightarrow> string \<Rightarrow> string \<Rightarrow> schema_ref set result" where
  "schema_set_at L d k names name = rbind (array_at d k names) (\<lambda>xs.
     rbind (objects name (schema_from_data L) xs) (\<lambda>ss. Inr (set ss)))"

definition memory_capabilities_to_data :: "memory_capabilities \<Rightarrow> json_object" where
  "memory_capabilities_to_data c = [(''provider_id'', JStr (yb_provider c)), (''contract_version'', JStr (yb_contract c)),
     (''operations'', operation_set_to_data (yb_operations c)), (''query_schemas'', schema_set_to_data (yb_query_schemas c)),
     (''item_schemas'', schema_set_to_data (yb_item_schemas c)), (''record_schemas'', schema_set_to_data (yb_record_schemas c)),
     (''content_kinds'', kinds_to_data (yb_kinds c)), (''maximum_result_limit'', JInt (yb_limit c)),
     (''projections'', JList (List.map JStr (sorted_list_of_set (yb_projections c)))), (''versioned'', JBool (yb_versioned c)),
     (''consolidation_policies'', JList (List.map (\<lambda>r. JObj (resource_to_data r)) (yb_policies c))),
     (''maximum_item_bytes'', opt_int (yb_item_bytes c))]"

definition memory_capabilities_from_data :: "pylib \<Rightarrow> json_object \<Rightarrow> memory_capabilities result" where
  "memory_capabilities_from_data L d =
     rbind (ident_at L d ''provider_id'') (\<lambda>p.
     rbind (field_str L d ''contract_version'') (\<lambda>v.
     rbind (operation_set_at L d) (\<lambda>ops.
     rbind (schema_set_at L d ''query_schemas'' ''memory query schemas'' ''memory query schema'') (\<lambda>qs.
     rbind (schema_set_at L d ''item_schemas'' ''memory item schemas'' ''memory item schema'') (\<lambda>is.
     rbind (schema_set_at L d ''record_schemas'' ''memory record schemas'' ''memory record schema'') (\<lambda>rs.
     rbind (kinds_at L d ''content_kinds'' ''memory content kinds'') (\<lambda>ks.
     rbind (int_at d ''maximum_result_limit'' ''memory maximum result limit'') (\<lambda>l.
     rbind (texts_at L d ''projections'' ''memory projections'') (\<lambda>ps.
     rbind (truth_at d ''versioned'') (\<lambda>t.
     rbind (rbind (as_array (obj_get_or d ''consolidation_policies'' (JList [])) ''memory consolidation policies'')
       (objects ''consolidation policy'' (resource_from_data L))) (\<lambda>cs.
     rbind (int_or_none (obj_get d ''maximum_item_bytes'') ''memory maximum item bytes'') (\<lambda>m.
     mk_memory_capabilities \<lparr>yb_provider = p, yb_contract = v, yb_operations = ops, yb_query_schemas = qs, yb_item_schemas = is,
       yb_record_schemas = rs, yb_kinds = ks, yb_limit = l, yb_projections = set ps, yb_versioned = t, yb_policies = cs,
       yb_item_bytes = m\<rparr>))))))))))))"

subsection \<open>Their encoding is lossless\<close>

lemma sorted_values_decode:
  assumes "\<And>x. f (value x) = Inr x" "\<And>x. x \<in> set all"
  shows "\<exists>ks. rmap f (sort (List.map value (filter (\<lambda>k. k \<in> K) all))) = Inr ks \<and> set ks = K"
proof -
  define vs where "vs = sort (List.map value (filter (\<lambda>k. k \<in> K) all))"
  have vs: "set vs = value ` K" using assms(2) by (auto simp: vs_def)
  then have "\<forall>v \<in> set vs. \<exists>x. v = value x" by auto
  then obtain ks where ks: "vs = List.map value ks" by (metis ex_map_conv)
  have inj: "inj value"
  proof (rule injI)
    fix x y assume "value x = value y"
    then have "f (value x) = f (value y)" by (rule arg_cong)
    then show "x = y" unfolding assms(1) by (rule sum.inject(2) [THEN iffD1])
  qed
  have "rmap f vs = Inr ks" unfolding ks rmap_map by (rule rmap_inverse) (rule assms(1))
  moreover have "set ks = K" using vs unfolding ks by (simp add: inj_image_eq_iff [OF inj])
  ultimately show ?thesis unfolding vs_def by blast
qed

lemma operation_set_decode:
  assumes "obj_index d ''operations'' = Inr (operation_set_to_data K)" shows "operation_set_at L d = Inr K"
proof -
  have "x \<in> set memory_operation_list" for x by (cases x) (simp_all add: memory_operation_list_def)
  from sorted_values_decode [of "enum_of L ''MemoryOperation'' memory_operations" memory_operation_value, OF memory_operation_decodes this]
  obtain ks where "rmap (enum_of L ''MemoryOperation'' memory_operations)
      (sort (List.map memory_operation_value (filter (\<lambda>k. k \<in> K) memory_operation_list))) = Inr ks" "set ks = K" by blast
  with assms show ?thesis by (simp add: operation_set_at_def operation_set_to_data_def array_at_def rmap_map)
qed

lemma schema_of_key_self [simp]: "schema_of_key (schema_key s) = s"
  by (cases s) (simp add: schema_of_key_def schema_key_def)

lemma schema_set_decode:
  assumes "finite S" "\<forall>s \<in> S. schema_ok s" "obj_index d k = Inr (schema_set_to_data S)"
  shows "schema_set_at L d k n m = Inr S"
proof -
  let ?ss = "List.map schema_of_key (sorted_list_of_set (schema_key ` S))"
  have s: "set ?ss = S" using assms(1) by (simp add: image_image)
  have "objects m (schema_from_data L) (List.map (\<lambda>s. JObj (schema_to_data s)) ?ss) = Inr ?ss"
    using assms(2) s by (intro objects_inverse) (simp add: schema_roundtrip)
  with s assms(3) show ?thesis by (simp add: schema_set_at_def schema_set_to_data_def array_at_def comp_def)
qed

definition memory_capabilities_ok :: "memory_capabilities \<Rightarrow> bool" where
  "memory_capabilities_ok c \<longleftrightarrow> mk_memory_capabilities c = Inr c \<and> identifier_ok (yb_provider c) \<and> list_all resource_ok (yb_policies c)
     \<and> (\<forall>S \<in> {yb_query_schemas c, yb_item_schemas c, yb_record_schemas c}. finite S \<and> (\<forall>s \<in> S. schema_ok s))
     \<and> finite (yb_projections c)"

lemma memory_capabilities_roundtrip:
  assumes ok: "memory_capabilities_ok c"
  shows "memory_capabilities_from_data L (memory_capabilities_to_data c) = Inr c"
proof -
  let ?d = "memory_capabilities_to_data c"
  note parts = ok [unfolded memory_capabilities_ok_def]
  have "schema_set_at L ?d ''query_schemas'' n m = Inr (yb_query_schemas c)"
    "schema_set_at L ?d ''item_schemas'' n m = Inr (yb_item_schemas c)"
    "schema_set_at L ?d ''record_schemas'' n m = Inr (yb_record_schemas c)" for n m
    using parts by (auto intro!: schema_set_decode simp: memory_capabilities_to_data_def)
  moreover have "operation_set_at L ?d = Inr (yb_operations c)" by (simp add: operation_set_decode memory_capabilities_to_data_def)
  moreover have "kinds_at L ?d ''content_kinds'' n = Inr (yb_kinds c)" for n
    by (simp add: kinds_decode memory_capabilities_to_data_def)
  moreover have "objects n (resource_from_data L) (List.map (\<lambda>r. JObj (resource_to_data r)) (yb_policies c)) = Inr (yb_policies c)" for n
    using parts by (intro objects_inverse) (simp add: resource_roundtrip list_all_iff)
  ultimately show ?thesis using parts unfolding memory_capabilities_from_data_def
    by (cases c) (simp add: memory_capabilities_to_data_def comp_def)
qed

end
