(* ===== verification/Memory_Gateway.thy ===== *)
theory Memory_Gateway
  imports Memory_Model Provider_Boundary Model_Gateway Json_Codec
begin

section \<open>The gateway to memory providers\<close>

text \<open>
  \<open>MemoryGateway\<close> of \<open>provider/memory.py\<close>: every operation asks the provider for its capabilities,
  checks the request against them, calls the provider in a dispatched call whose grant may narrow the
  request, and checks the answer. An answer of the wrong type is \<open>None\<close>.
\<close>

definition memory_action :: "string \<Rightarrow> action_ref" where
  "memory_action name = \<lparr>ac_namespace = ''core'', ac_name = ''memory.'' @ name, ac_version = ''1''\<rparr>"

definition memory_actions :: "action_ref list" where
  "memory_actions = List.map memory_action [''capabilities'', ''retrieve'', ''remember'', ''forget'', ''consolidate'']"

record 'w memory_provider =
  ym_retrieve :: "memory_query \<Rightarrow> call_context \<Rightarrow> 'w \<Rightarrow> memory_page option awaited \<times> 'w"
  ym_remember :: "memory_item \<Rightarrow> call_context \<Rightarrow> 'w \<Rightarrow> memory_ref option awaited \<times> 'w"
  ym_forget :: "forget_request \<Rightarrow> call_context \<Rightarrow> 'w \<Rightarrow> forget_result option awaited \<times> 'w"
  ym_consolidate :: "consolidate_request \<Rightarrow> call_context \<Rightarrow> 'w \<Rightarrow> consolidation_report option awaited \<times> 'w"
  ym_capabilities :: "call_context \<Rightarrow> 'w \<Rightarrow> memory_capabilities option awaited \<times> 'w"

type_synonym 'w memory_providers = "provider_id \<rightharpoonup> 'w memory_provider"

definition memory_provider_taken :: exn where
  "memory_provider_taken = core_error CONFLICT ''memory_provider_already_registered'' ''memory provider is already registered'' False None"

definition register_memory_provider :: "provider_id \<times> 'w memory_provider \<Rightarrow> 'w memory_providers \<Rightarrow> 'w memory_providers result" where
  "register_memory_provider e r = (if fst e \<in> dom r then Inl memory_provider_taken else Inr (r(fst e \<mapsto> snd e)))"

definition get_memory_provider :: "'w memory_providers \<Rightarrow> provider_id \<Rightarrow> 'w memory_provider result" where
  "get_memory_provider r i = (case r i of
       None \<Rightarrow> Inl (core_error UNAVAILABLE ''memory_provider_not_registered'' ''memory provider is not registered'' True None)
     | Some p \<Rightarrow> Inr p)"

interpretation memory_provider_registry: once_registry register_memory_provider "\<lambda>r k. r k" fst snd "\<lambda>_. memory_provider_taken"
  by unfold_locales (auto simp: register_memory_provider_def)

record 'w memory_gateway =
  yg_env :: "'w provider_env"
  yg_providers :: "'w memory_providers"
  yg_digest :: "json_object \<Rightarrow> string"
  yg_size :: "json_object \<Rightarrow> nat"

subsection \<open>Errors and access requests\<close>

definition memory_protocol_failure :: "string \<Rightarrow> exn" where
  "memory_protocol_failure msg = core_error PROTOCOL_FAILURE ''memory_provider_protocol_failure'' msg False None"

definition memory_unsupported :: "string \<Rightarrow> exn" where
  "memory_unsupported msg = core_error UNSUPPORTED_CAPABILITY ''memory_capability_unsupported'' msg False None"

definition memory_guard :: "('w, exn, 'a) action \<Rightarrow> ('w, exn, 'a) action" where
  "memory_guard = guarded_provider ''memory_provider_failure'' ''memory provider failed''"

text \<open>The access request of \<open>Provider_Boundary\<close>, for the scope of the request instead of the call's own.\<close>

definition memory_access ::
  "call_context \<Rightarrow> scope_ref \<Rightarrow> string \<Rightarrow> provider_id \<Rightarrow> json_object \<Rightarrow> access_request result" where
  "memory_access ctx scope act i constraints =
     rbind (provider_access ctx (memory_action act) ''memory_provider'' i constraints) (\<lambda>q. Inr (q\<lparr>aq_scope := scope\<rparr>))"

definition answered_with :: "string \<Rightarrow> 'a option \<Rightarrow> 'a result" where
  "answered_with msg raw = (case raw of None \<Rightarrow> Inl (memory_protocol_failure msg) | Some x \<Rightarrow> Inr x)"

subsection \<open>Capabilities\<close>

definition memory_capability_call ::
  "'w memory_gateway \<Rightarrow> 'w memory_provider \<Rightarrow> authorized_call \<Rightarrow> ('w, exn, memory_capabilities option) action" where
  "memory_capability_call G p call =
     abind (aresult (raise_when (\<not> only_constraints (gr_constraints (au_grant call)) [])
       (invalid_grant ''memory capability grant contains unknown constraints''))) (\<lambda>_.
     memory_guard (await_provider (au_context call) (pv_token (yg_env G)) (pv_clock (yg_env G)) (ym_capabilities p (au_context call))))"

definition discover_memory :: "'w memory_gateway \<Rightarrow> provider_id \<Rightarrow> call_context \<Rightarrow> scope_ref \<Rightarrow> ('w, exn, memory_capabilities) action" where
  "discover_memory G i ctx scope =
     abind (aresult (require_narrower_than scope (cx_scope ctx))) (\<lambda>_.
     abind (aresult (get_memory_provider (yg_providers G) i)) (\<lambda>p.
     abind (aresult (memory_access ctx scope ''capabilities'' i [])) (\<lambda>access.
     abind (dispatch (pv_dispatcher (yg_env G)) access (memory_capability_call G p)) (\<lambda>raw.
     abind (aresult (answered_with ''memory provider returned invalid capabilities'' raw)) (\<lambda>c.
     if yb_provider c \<noteq> i then araise (memory_protocol_failure ''memory capabilities returned a mismatched Provider'')
     else areturn c)))))"

definition require_operation :: "memory_capabilities \<Rightarrow> memory_operation \<Rightarrow> unit result" where
  "require_operation c op =
     raise_when (op \<notin> yb_operations c) (memory_unsupported (''memory Provider does not support '' @ memory_operation_value op))"

subsection \<open>The checks of a query and its page\<close>

definition prevalidate_cursor :: "provider_id \<Rightarrow> memory_query \<Rightarrow> unit result" where
  "prevalidate_cursor i q = raise_when (case yq_cursor q of None \<Rightarrow> False | Some c \<Rightarrow> yc_provider c \<noteq> i)
     (core_error INVALID_REQUEST ''memory_cursor_provider_mismatch'' ''memory cursor Provider does not match the request'' False None)"

definition validate_memory_query :: "schema_registry \<Rightarrow> memory_query \<Rightarrow> memory_capabilities \<Rightarrow> unit result" where
  "validate_memory_query S q c =
     rbind (require_operation c RETRIEVE) (\<lambda>_.
     rbind (raise_when (yq_schema q \<notin> yb_query_schemas c) (memory_unsupported ''memory query schema is not supported'')) (\<lambda>_.
     rbind (raise_when (cb_kind (yq_content q) \<notin> yb_kinds c) (memory_unsupported ''memory query content kind is not supported'')) (\<lambda>_.
     rbind (raise_when (yb_limit c < yq_limit q) (memory_unsupported ''memory query limit exceeds Provider capability'')) (\<lambda>_.
     rbind (raise_when (\<not> set (yq_projection q) \<subseteq> yb_projections c) (memory_unsupported ''memory query projection is not supported'')) (\<lambda>_.
     rbind (raise_when (case yq_cursor q of None \<Rightarrow> False | Some k \<Rightarrow> yc_contract k \<noteq> yb_contract c)
       (core_error VERSION_MISMATCH ''memory_cursor_version_mismatch'' ''memory cursor contract version does not match Provider'' False None)) (\<lambda>_.
     validate_value S (yq_schema q) (cb_value (yq_content q))))))))"

text \<open>\<open>constraints.get(key, value) != value\<close>\<close>

definition grant_changes :: "(string \<rightharpoonup> json) \<Rightarrow> string \<Rightarrow> json \<Rightarrow> bool" where
  "grant_changes granted k v \<longleftrightarrow> (case granted k of None \<Rightarrow> False | Some g \<Rightarrow> \<not> json_eq g v)"

definition require_exact_keys :: "json \<Rightarrow> json_object \<Rightarrow> string \<Rightarrow> unit result" where
  "require_exact_keys v requested name =
     (if v = JNull then Inr () else case granted_names v of
        None \<Rightarrow> Inl (invalid_grant (''memory '' @ name @ '' key constraint is invalid''))
      | Some names \<Rightarrow> raise_when (set names \<noteq> set (List.map fst requested)) (invalid_grant (''memory grant changes '' @ name @ '' keys'')))"

definition granted_projection :: "string list \<Rightarrow> json \<Rightarrow> string list result" where
  "granted_projection ps v =
     (if v = JNull then Inr ps else case granted_names v of
        None \<Rightarrow> Inl (invalid_grant ''memory projection constraint is invalid'')
      | Some names \<Rightarrow> if \<not> set names \<subseteq> set ps then Inl (invalid_grant ''memory retrieve grant broadens projection'')
          else Inr (filter (\<lambda>p. p \<in> set names) ps))"

definition narrow_required :: "int option result \<Rightarrow> int result" where
  "narrow_required r = rbind r (\<lambda>l. case l of None \<Rightarrow> Inl (AssertionError ''required memory limit cannot be None'') | Some n \<Rightarrow> Inr n)"

definition constrain_query :: "memory_query \<Rightarrow> authorized_call \<Rightarrow> memory_query result" where
  "constrain_query q call =
     (let granted = gr_constraints (au_grant call) in
      if \<not> only_constraints granted [''schema'', ''filter_keys'', ''projection'', ''limit'']
      then Inl (invalid_grant ''memory retrieve grant contains unknown constraints'')
      else if grant_changes granted ''schema'' (JObj (schema_to_data (yq_schema q)))
      then Inl (invalid_grant ''memory retrieve grant changes the query schema'')
      else rbind (require_exact_keys (constraint_value granted ''filter_keys'') (yq_filters q) ''filter'') (\<lambda>_.
      rbind (granted_projection (yq_projection q) (constraint_value granted ''projection'')) (\<lambda>ps.
      rbind (narrow_required (narrow_limit ''memory'' ''limit'' (Some (yq_limit q)) (constraint_value granted ''limit''))) (\<lambda>l.
      mk_memory_query (q\<lparr>yq_projection := ps, yq_limit := l\<rparr>)))))"

definition record_fits :: "provider_id \<Rightarrow> memory_query \<Rightarrow> memory_capabilities \<Rightarrow> memory_record \<Rightarrow> bool" where
  "record_fits i q c r \<longleftrightarrow> yr_provider (yd_ref r) = i \<and> scope_key (yr_scope (yd_ref r)) = scope_key (yq_scope q)
     \<and> yd_schema r \<in> yb_record_schemas c \<and> cb_kind (yd_content r) \<in> yb_kinds c"

definition validate_memory_page ::
  "schema_registry \<Rightarrow> (json_object \<Rightarrow> string) \<Rightarrow> provider_id \<Rightarrow> memory_query \<Rightarrow> memory_capabilities \<Rightarrow> memory_page \<Rightarrow> unit result" where
  "validate_memory_page S H i q c p =
     rbind (raise_when (yp_provider p \<noteq> i \<or> yp_contract p \<noteq> yb_contract c \<or> yq_limit q < int (List.length (yp_records p)))
       (memory_protocol_failure ''memory page identity, version, or size is invalid'')) (\<lambda>_.
     rbind (rcheck (\<lambda>r. rbind (raise_when (\<not> record_fits i q c r)
         (memory_protocol_failure ''memory record identity, Scope, or schema is invalid'')) (\<lambda>_.
         validate_value S (yd_schema r) (cb_value (yd_content r)))) (yp_records p)) (\<lambda>_.
     raise_when (case yp_cursor p of None \<Rightarrow> False
         | Some k \<Rightarrow> yc_provider k \<noteq> i \<or> yc_contract k \<noteq> yb_contract c \<or> yc_fingerprint k \<noteq> memory_fingerprint H q)
       (memory_protocol_failure ''memory page returned an invalid cursor'')))"

subsection \<open>Items\<close>

definition item_limit :: "memory_item \<Rightarrow> memory_capabilities \<Rightarrow> int option" where
  "item_limit i c = (case yi_max_bytes i of None \<Rightarrow> yb_item_bytes c | Some m \<Rightarrow> if m = 0 then yb_item_bytes c else Some m)"

definition validate_item ::
  "schema_registry \<Rightarrow> (json_object \<Rightarrow> nat) \<Rightarrow> memory_item \<Rightarrow> memory_capabilities \<Rightarrow> unit result" where
  "validate_item S B i c =
     rbind (require_operation c REMEMBER) (\<lambda>_.
     rbind (raise_when (yi_schema i \<notin> yb_item_schemas c) (memory_unsupported ''memory item schema is not supported'')) (\<lambda>_.
     rbind (raise_when (cb_kind (yi_content i) \<notin> yb_kinds c) (memory_unsupported ''memory item content kind is not supported'')) (\<lambda>_.
     rbind (raise_when (limit_exceeds (Some (content_bytes B i)) (yb_item_bytes c))
       (memory_unsupported ''memory item exceeds Provider byte capability'')) (\<lambda>_.
     validate_value S (yi_schema i) (cb_value (yi_content i))))))"

definition granted_metadata :: "json_object \<Rightarrow> json \<Rightarrow> json_object result" where
  "granted_metadata ms v =
     (if v = JNull then Inr ms else case granted_names v of
        None \<Rightarrow> Inl (invalid_grant ''memory metadata key constraint is invalid'')
      | Some names \<Rightarrow> if \<not> set names \<subseteq> set (List.map fst ms) then Inl (invalid_grant ''memory remember grant broadens metadata keys'')
          else Inr (filter (\<lambda>(k, v). k \<in> set names) ms))"

definition constrain_item ::
  "(json_object \<Rightarrow> nat) \<Rightarrow> memory_item \<Rightarrow> memory_capabilities \<Rightarrow> authorized_call \<Rightarrow> memory_item result" where
  "constrain_item B i c call =
     (let granted = gr_constraints (au_grant call) in
      if \<not> only_constraints granted [''schema'', ''metadata_keys'', ''max_bytes'']
      then Inl (invalid_grant ''memory remember grant contains unknown constraints'')
      else if grant_changes granted ''schema'' (JObj (schema_to_data (yi_schema i)))
      then Inl (invalid_grant ''memory remember grant changes the item schema'')
      else rbind (granted_metadata (yi_metadata i) (constraint_value granted ''metadata_keys'')) (\<lambda>ms.
      rbind (narrow_limit ''memory'' ''max_bytes'' (item_limit i c) (constraint_value granted ''max_bytes'')) (\<lambda>m.
      if limit_exceeds (Some (content_bytes B i)) m
      then Inl (invalid_grant ''memory remember grant is smaller than item content'')
      else mk_memory_item B (i\<lparr>yi_metadata := ms, yi_max_bytes := m\<rparr>))))"

definition sorted_keys :: "json_object \<Rightarrow> json" where
  "sorted_keys d = JList (List.map JStr (sort (List.map fst d)))"

definition retrieve_constraints :: "memory_query \<Rightarrow> json_object" where
  "retrieve_constraints q = [(''schema'', JObj (schema_to_data (yq_schema q))), (''filter_keys'', sorted_keys (yq_filters q)),
     (''projection'', JList (List.map JStr (yq_projection q))), (''limit'', JInt (yq_limit q))]"

definition remember_constraints :: "memory_item \<Rightarrow> memory_capabilities \<Rightarrow> json_object" where
  "remember_constraints i c = [(''schema'', JObj (schema_to_data (yi_schema i))), (''metadata_keys'', sorted_keys (yi_metadata i)),
     (''max_bytes'', opt_int (item_limit i c))]"

subsection \<open>Grants of the other operations, reports\<close>

definition forget_constraints :: "forget_request \<Rightarrow> json_object" where
  "forget_constraints q = [(''memory_id'', JStr (yr_id (yf_ref q))), (''expected_version'', JInt (yf_version q))]"

definition validate_forget_grant :: "forget_request \<Rightarrow> authorized_call \<Rightarrow> unit result" where
  "validate_forget_grant q call =
     (let granted = gr_constraints (au_grant call) in
      rbind (raise_when (\<not> only_constraints granted [''memory_id'', ''expected_version''])
        (invalid_grant ''memory forget grant contains unknown constraints'')) (\<lambda>_.
      rbind (raise_when (grant_changes granted ''memory_id'' (JStr (yr_id (yf_ref q))))
        (invalid_grant ''memory forget grant changes Memory identity'')) (\<lambda>_.
      raise_when (grant_changes granted ''expected_version'' (JInt (yf_version q)))
        (invalid_grant ''memory forget grant changes expected version''))))"

definition consolidate_constraints :: "consolidate_request \<Rightarrow> json_object" where
  "consolidate_constraints q = [(''policy'', JStr (resource_name (yn_policy q))), (''selection_keys'', sorted_keys (yn_selection q))]"

definition validate_consolidate_grant :: "consolidate_request \<Rightarrow> authorized_call \<Rightarrow> unit result" where
  "validate_consolidate_grant q call =
     (let granted = gr_constraints (au_grant call) in
      rbind (raise_when (\<not> only_constraints granted [''policy'', ''selection_keys''])
        (invalid_grant ''memory consolidate grant contains unknown constraints'')) (\<lambda>_.
      rbind (raise_when (grant_changes granted ''policy'' (JStr (resource_name (yn_policy q))))
        (invalid_grant ''memory consolidate grant changes policy identity'')) (\<lambda>_.
      require_exact_keys (constraint_value granted ''selection_keys'') (yn_selection q) ''selection'')))"

definition validate_report ::
  "provider_id \<Rightarrow> consolidate_request \<Rightarrow> memory_capabilities \<Rightarrow> consolidation_report \<Rightarrow> unit result" where
  "validate_report i q c r =
     rbind (raise_when (yt_provider r \<noteq> i \<or> yt_contract r \<noteq> yb_contract c \<or> yt_policy r \<noteq> yn_policy q
         \<or> scope_key (yt_scope r) \<noteq> scope_key (yn_scope q))
       (memory_protocol_failure ''consolidation report identity is invalid'')) (\<lambda>_.
     raise_when (list_ex (\<lambda>x. yr_provider x \<noteq> i \<or> scope_key (yr_scope x) \<noteq> scope_key (yn_scope q)) (yt_affected r @ yt_skipped r))
       (memory_protocol_failure ''consolidation report contains invalid references''))"

subsection \<open>Events around an operation\<close>

definition memory_completed ::
  "'w memory_gateway \<Rightarrow> memory_operation \<Rightarrow> provider_id \<Rightarrow> call_context \<Rightarrow> datetime \<Rightarrow> int \<Rightarrow> int \<Rightarrow> string \<Rightarrow> ('w, exn, unit) action" where
  "memory_completed G op i ctx since records affected outcome w = emit (yg_env G) ''core.memory.operation_completed'' ctx
     [(''operation'', JStr (memory_operation_value op)), (''provider_id'', JStr i), (''record_count'', JInt records),
      (''affected_count'', JInt affected), (''outcome'', JStr outcome), (''latency_ms'', JInt (elapsed_ms (yg_env G) since w))] w"

definition memory_failed ::
  "'w memory_gateway \<Rightarrow> memory_operation \<Rightarrow> provider_id \<Rightarrow> call_context \<Rightarrow> datetime \<Rightarrow> error_detail \<Rightarrow> ('w, exn, unit) action" where
  "memory_failed G op i ctx since d w = emit (yg_env G) ''core.memory.operation_failed'' ctx
     [(''operation'', JStr (memory_operation_value op)), (''provider_id'', JStr i), (''error_code'', JStr (ed_code d)),
      (''category'', JStr (category_value (ed_category d))), (''outcome'', JStr ''failed''),
      (''latency_ms'', JInt (elapsed_ms (yg_env G) since w))] w"

text \<open>The frame of the four operations: a start event, the work, and a failure event for a Core error.\<close>

definition memory_frame ::
  "'w memory_gateway \<Rightarrow> memory_operation \<Rightarrow> provider_id \<Rightarrow> call_context \<Rightarrow> (datetime \<Rightarrow> ('w, exn, 'a) action) \<Rightarrow> ('w, exn, 'a) action" where
  "memory_frame G op i ctx work w =
     (let since = pv_clock (yg_env G) w in
      abind (emit (yg_env G) ''core.memory.operation_started'' ctx
        [(''operation'', JStr (memory_operation_value op)), (''provider_id'', JStr i)]) (\<lambda>_.
      atry (work since) (\<lambda>e. case e of
          CoreError d \<Rightarrow> abind (memory_failed G op i ctx since d) (\<lambda>_. araise e)
        | _ \<Rightarrow> araise e)) w)"

subsection \<open>The operations\<close>

definition gateway_memory_capabilities :: "'w memory_gateway \<Rightarrow> provider_id \<Rightarrow> call_context \<Rightarrow> ('w, exn, memory_capabilities) action" where
  "gateway_memory_capabilities G i ctx = discover_memory G i ctx (cx_scope ctx)"

definition retrieve_call ::
  "'w memory_gateway \<Rightarrow> 'w memory_provider \<Rightarrow> memory_query \<Rightarrow> authorized_call \<Rightarrow> ('w, exn, memory_query \<times> memory_page option) action" where
  "retrieve_call G p q call =
     abind (aresult (constrain_query q call)) (\<lambda>e.
     abind (aresult (raise_when (case yq_cursor e of None \<Rightarrow> False | Some k \<Rightarrow> yc_fingerprint k \<noteq> memory_fingerprint (yg_digest G) e)
       (core_error INVALID_REQUEST ''memory_cursor_query_drift'' ''memory cursor cannot be reused with a changed query'' False None))) (\<lambda>_.
     abind (aresult (validate_value (pv_schemas (yg_env G)) (yq_schema e) (cb_value (yq_content e)))) (\<lambda>_.
     abind (memory_guard (await_provider (au_context call) (pv_token (yg_env G)) (pv_clock (yg_env G)) (ym_retrieve p e (au_context call))))
       (\<lambda>raw. areturn (e, raw)))))"

definition retrieve_work ::
  "'w memory_gateway \<Rightarrow> provider_id \<Rightarrow> memory_query \<Rightarrow> call_context \<Rightarrow> datetime \<Rightarrow> ('w, exn, memory_page) action" where
  "retrieve_work G i q ctx since =
     abind (discover_memory G i ctx (yq_scope q)) (\<lambda>c.
     abind (aresult (validate_memory_query (pv_schemas (yg_env G)) q c)) (\<lambda>_.
     abind (aresult (get_memory_provider (yg_providers G) i)) (\<lambda>p.
     abind (aresult (memory_access ctx (yq_scope q) ''retrieve'' i (retrieve_constraints q))) (\<lambda>access.
     abind (dispatch (pv_dispatcher (yg_env G)) access (retrieve_call G p q)) (\<lambda>(e, raw).
     abind (aresult (answered_with ''memory provider returned an invalid page'' raw)) (\<lambda>page.
     abind (aresult (validate_memory_page (pv_schemas (yg_env G)) (yg_digest G) i e c page)) (\<lambda>_.
     abind (memory_completed G RETRIEVE i ctx since (int (List.length (yp_records page))) 0
       (memory_completeness_value (yp_completeness page))) (\<lambda>_. areturn page))))))))"

definition memory_retrieve :: "'w memory_gateway \<Rightarrow> provider_id \<Rightarrow> memory_query \<Rightarrow> call_context \<Rightarrow> ('w, exn, memory_page) action" where
  "memory_retrieve G i q ctx =
     abind (aresult (require_narrower_than (yq_scope q) (cx_scope ctx))) (\<lambda>_.
     abind (aresult (prevalidate_cursor i q)) (\<lambda>_.
     memory_frame G RETRIEVE i ctx (retrieve_work G i q ctx)))"

definition remember_call ::
  "'w memory_gateway \<Rightarrow> 'w memory_provider \<Rightarrow> memory_item \<Rightarrow> memory_capabilities \<Rightarrow> authorized_call \<Rightarrow> ('w, exn, memory_ref option) action" where
  "remember_call G p x c call =
     abind (aresult (constrain_item (yg_size G) x c call)) (\<lambda>e.
     abind (aresult (validate_value (pv_schemas (yg_env G)) (yi_schema e) (cb_value (yi_content e)))) (\<lambda>_.
     memory_guard (await_provider (au_context call) (pv_token (yg_env G)) (pv_clock (yg_env G)) (ym_remember p e (au_context call)))))"

definition remember_work ::
  "'w memory_gateway \<Rightarrow> provider_id \<Rightarrow> memory_item \<Rightarrow> call_context \<Rightarrow> datetime \<Rightarrow> ('w, exn, memory_ref) action" where
  "remember_work G i x ctx since =
     abind (discover_memory G i ctx (yi_scope x)) (\<lambda>c.
     abind (aresult (validate_item (pv_schemas (yg_env G)) (yg_size G) x c)) (\<lambda>_.
     abind (aresult (get_memory_provider (yg_providers G) i)) (\<lambda>p.
     abind (aresult (memory_access ctx (yi_scope x) ''remember'' i (remember_constraints x c))) (\<lambda>access.
     abind (dispatch (pv_dispatcher (yg_env G)) access (remember_call G p x c)) (\<lambda>raw.
     abind (aresult (answered_with ''memory provider returned an invalid reference'' raw)) (\<lambda>ref.
     abind (aresult (raise_when (yr_provider ref \<noteq> i \<or> scope_key (yr_scope ref) \<noteq> scope_key (yi_scope x))
       (memory_protocol_failure ''remember returned a mismatched MemoryRef''))) (\<lambda>_.
     abind (memory_completed G REMEMBER i ctx since 0 1 ''remembered'') (\<lambda>_. areturn ref))))))))"

definition memory_remember :: "'w memory_gateway \<Rightarrow> provider_id \<Rightarrow> memory_item \<Rightarrow> call_context \<Rightarrow> ('w, exn, memory_ref) action" where
  "memory_remember G i x ctx =
     abind (aresult (require_narrower_than (yi_scope x) (cx_scope ctx))) (\<lambda>_.
     abind (aresult (raise_when (cx_idempotency_key ctx = None \<or> Some (yi_key x) \<noteq> cx_idempotency_key ctx)
       (core_error INVALID_REQUEST ''memory_idempotency_key_mismatch''
          ''memory item idempotency key must match RuntimeCallContext'' False None))) (\<lambda>_.
     memory_frame G REMEMBER i ctx (remember_work G i x ctx)))"

definition forget_call ::
  "'w memory_gateway \<Rightarrow> 'w memory_provider \<Rightarrow> forget_request \<Rightarrow> authorized_call \<Rightarrow> ('w, exn, forget_result option) action" where
  "forget_call G p q call =
     abind (aresult (validate_forget_grant q call)) (\<lambda>_.
     memory_guard (await_provider (au_context call) (pv_token (yg_env G)) (pv_clock (yg_env G)) (ym_forget p q (au_context call))))"

definition forget_work ::
  "'w memory_gateway \<Rightarrow> provider_id \<Rightarrow> forget_request \<Rightarrow> call_context \<Rightarrow> datetime \<Rightarrow> ('w, exn, forget_result) action" where
  "forget_work G i q ctx since =
     abind (discover_memory G i ctx (yf_scope q)) (\<lambda>c.
     abind (aresult (require_operation c FORGET)) (\<lambda>_.
     abind (aresult (raise_when (\<not> yb_versioned c) (core_error UNSUPPORTED_CAPABILITY ''memory_versioning_unsupported''
       ''memory provider does not support versioned forget'' False None))) (\<lambda>_.
     abind (aresult (get_memory_provider (yg_providers G) i)) (\<lambda>p.
     abind (aresult (memory_access ctx (yf_scope q) ''forget'' i (forget_constraints q))) (\<lambda>access.
     abind (dispatch (pv_dispatcher (yg_env G)) access (forget_call G p q)) (\<lambda>raw.
     abind (aresult (answered_with ''memory provider returned an invalid forget result'' raw)) (\<lambda>r.
     abind (aresult (raise_when (yo_ref r \<noteq> yf_ref q) (memory_protocol_failure ''forget result does not match MemoryRef''))) (\<lambda>_.
     abind (memory_completed G FORGET i ctx since 0 (if yo_outcome r = DELETED then 1 else 0)
       (forget_outcome_value (yo_outcome r))) (\<lambda>_. areturn r)))))))))"

definition memory_forget :: "'w memory_gateway \<Rightarrow> provider_id \<Rightarrow> forget_request \<Rightarrow> call_context \<Rightarrow> ('w, exn, forget_result) action" where
  "memory_forget G i q ctx =
     abind (aresult (require_narrower_than (yf_scope q) (cx_scope ctx))) (\<lambda>_.
     abind (aresult (raise_when (yr_provider (yf_ref q) \<noteq> i)
       (memory_protocol_failure ''forget Provider identity does not match MemoryRef''))) (\<lambda>_.
     memory_frame G FORGET i ctx (forget_work G i q ctx)))"

definition consolidate_call ::
  "'w memory_gateway \<Rightarrow> 'w memory_provider \<Rightarrow> consolidate_request \<Rightarrow> authorized_call \<Rightarrow> ('w, exn, consolidation_report option) action" where
  "consolidate_call G p q call =
     abind (aresult (validate_consolidate_grant q call)) (\<lambda>_.
     memory_guard (await_provider (au_context call) (pv_token (yg_env G)) (pv_clock (yg_env G)) (ym_consolidate p q (au_context call))))"

definition consolidate_work ::
  "'w memory_gateway \<Rightarrow> provider_id \<Rightarrow> consolidate_request \<Rightarrow> call_context \<Rightarrow> datetime \<Rightarrow> ('w, exn, consolidation_report) action" where
  "consolidate_work G i q ctx since =
     abind (discover_memory G i ctx (yn_scope q)) (\<lambda>c.
     abind (aresult (require_operation c CONSOLIDATE)) (\<lambda>_.
     abind (aresult (raise_when (resource_key (yn_policy q) \<notin> set (List.map resource_key (yb_policies c)))
       (core_error UNSUPPORTED_CAPABILITY ''memory_consolidation_policy_unsupported''
          ''memory consolidation policy is not supported'' False None))) (\<lambda>_.
     abind (aresult (get_memory_provider (yg_providers G) i)) (\<lambda>p.
     abind (aresult (memory_access ctx (yn_scope q) ''consolidate'' i (consolidate_constraints q))) (\<lambda>access.
     abind (dispatch (pv_dispatcher (yg_env G)) access (consolidate_call G p q)) (\<lambda>raw.
     abind (aresult (answered_with ''memory provider returned an invalid consolidation report'' raw)) (\<lambda>r.
     abind (aresult (validate_report i q c r)) (\<lambda>_.
     abind (memory_completed G CONSOLIDATE i ctx since 0 (int (List.length (yt_affected r)))
       (consolidation_outcome_value (yt_outcome r))) (\<lambda>_. areturn r)))))))))"

definition memory_consolidate ::
  "'w memory_gateway \<Rightarrow> provider_id \<Rightarrow> consolidate_request \<Rightarrow> call_context \<Rightarrow> ('w, exn, consolidation_report) action" where
  "memory_consolidate G i q ctx =
     abind (aresult (require_narrower_than (yn_scope q) (cx_scope ctx))) (\<lambda>_.
     memory_frame G CONSOLIDATE i ctx (consolidate_work G i q ctx))"

end
