(* ===== verification/Memory_Guarantees.thy ===== *)
theory Memory_Guarantees
  imports Memory_Gateway Model_Stream
begin

section \<open>What the memory gateway guarantees\<close>

text \<open>
  \<open>MemoryGateway\<close> of \<open>provider/memory.py\<close>: what its frame of events leaves of a result, what a page
  that passes the checks has of the granted query, when its cursor continues the query, and what the
  other operations were authorized for.
\<close>

lemma memory_frame_Inr:
  assumes "memory_frame G op i ctx work w = (Inr x, w')"
  shows "\<exists>since w1. work since w1 = (Inr x, w')"
proof -
  define since where "since = pv_clock (yg_env G) w"
  from assms obtain w1 where t: "atry (work since) (\<lambda>e. case e of
      CoreError d \<Rightarrow> abind (memory_failed G op i ctx since d) (\<lambda>_. araise e) | _ \<Rightarrow> araise e) w1 = (Inr x, w')"
    unfolding memory_frame_def Let_def since_def [symmetric] by (auto simp: abind_eq_Inr)
  have h: "(case e of CoreError d \<Rightarrow> abind (memory_failed G op i ctx since d) (\<lambda>_. araise e) | _ \<Rightarrow> araise e) w2 \<noteq> (Inr x, w')" for e w2
    by (auto simp: abind_eq_Inr araise_def split: exn.splits)
  obtain y w2 where k: "work since w1 = (y, w2)" by fastforce
  with t h have "y = Inr x" by (cases y) (auto simp: atry_def)
  with t k show ?thesis by (auto simp: atry_def)
qed

lemma answered_with_Inr [simp]: "answered_with msg raw = Inr x \<longleftrightarrow> raw = Some x"
  by (auto simp: answered_with_def split: option.splits)

lemma get_memory_provider_Inr [simp]: "get_memory_provider r i = Inr p \<longleftrightarrow> r i = Some p"
  by (auto simp: get_memory_provider_def split: option.splits)

lemma memory_access_Inr:
  "memory_access ctx scope act i constraints = Inr q \<Longrightarrow> aq_action q = memory_action act \<and> aq_scope q = scope \<and> aq_context q = ctx"
  by (auto simp: memory_access_def rbind_eq_Inr dest!: provider_access_Inr)

lemma memory_emit_Inr [simp]: "memory_completed G op i ctx since n m out w = (Inr u, w') \<longleftrightarrow>
    emit (yg_env G) ''core.memory.operation_completed'' ctx
     [(''operation'', JStr (memory_operation_value op)), (''provider_id'', JStr i), (''record_count'', JInt n),
      (''affected_count'', JInt m), (''outcome'', JStr out), (''latency_ms'', JInt (elapsed_ms (yg_env G) since w))] w = (Inr (), w')"
  by (simp add: memory_completed_def)

text \<open>A dispatched call that answered was authorized for the action, in the scope of the request.\<close>

definition memory_called ::
  "'w memory_gateway \<Rightarrow> call_context \<Rightarrow> scope_ref \<Rightarrow> string \<Rightarrow> authorized_call \<Rightarrow> 'w \<Rightarrow> bool" where
  "memory_called G ctx scope act call wb \<longleftrightarrow> (\<exists>access wa. authorized (pv_dispatcher (yg_env G)) access wa call wb
     \<and> aq_action access = memory_action act \<and> aq_scope access = scope \<and> aq_context access = ctx)"

lemma memory_dispatch_Inr:
  assumes "memory_access ctx scope act i constraints = Inr access"
    and "dispatch (pv_dispatcher (yg_env G)) access operation w = (Inr x, w')"
  shows "\<exists>call wb. memory_called G ctx scope act call wb \<and> operation call wb = (Inr x, w')"
  using dispatch_Inr [OF assms(2)] memory_access_Inr [OF assms(1)] unfolding memory_called_def by blast

lemma discover_memory_Inr:
  assumes "discover_memory G i ctx scope w = (Inr c, w')"
  shows "is_equal_or_descendant_of scope (cx_scope ctx) \<and> yb_provider c = i"
  using assms
  by (auto simp: discover_memory_def abind_eq_Inr aresult_def areturn_def araise_def require_narrower_than_def split: if_splits)

subsection \<open>Retrieval\<close>

text \<open>A grant keeps the query but for fewer projected fields and a smaller limit.\<close>

definition query_within :: "memory_query \<Rightarrow> memory_query \<Rightarrow> bool" where
  "query_within e q \<longleftrightarrow> e = q\<lparr>yq_projection := yq_projection e, yq_limit := yq_limit e\<rparr>
     \<and> set (yq_projection e) \<subseteq> set (yq_projection q) \<and> 1 \<le> yq_limit e \<and> yq_limit e \<le> yq_limit q"

lemma narrow_required_Inr:
  assumes "narrow_required (narrow_limit k n (Some a) v) = Inr l" shows "l \<le> a"
proof -
  from assms have "narrow_limit k n (Some a) v = Inr (Some l)"
    by (auto simp: narrow_required_def rbind_eq_Inr split: option.splits)
  from narrow_limit_within [OF this] show ?thesis by (simp add: limit_within_def)
qed

lemma granted_projection_subset: "granted_projection ps v = Inr ps' \<Longrightarrow> set ps' \<subseteq> set ps"
  by (auto simp: granted_projection_def split: if_splits option.splits)

lemma mk_memory_query_Inr: "mk_memory_query q = Inr q' \<Longrightarrow> q' = q \<and> 1 \<le> yq_limit q"
  by (auto simp: mk_memory_query_def rbind_eq_Inr split: if_splits)

lemma constrain_query_within:
  assumes "constrain_query q call = Inr e" shows "query_within e q"
proof -
  from assms obtain ps l where ps: "granted_projection (yq_projection q) (constraint_value (gr_constraints (au_grant call)) ''projection'') = Inr ps"
    and l: "narrow_required (narrow_limit ''memory'' ''limit'' (Some (yq_limit q)) (constraint_value (gr_constraints (au_grant call)) ''limit'')) = Inr l"
    and e: "mk_memory_query (q\<lparr>yq_projection := ps, yq_limit := l\<rparr>) = Inr e"
    by (auto simp: constrain_query_def Let_def rbind_eq_Inr split: if_splits)
  with granted_projection_subset [OF ps] narrow_required_Inr [OF l] mk_memory_query_Inr [OF e] show ?thesis
    by (simp add: query_within_def)
qed

text \<open>The page answers the query, record by record.\<close>

definition page_fits ::
  "schema_registry \<Rightarrow> (json_object \<Rightarrow> string) \<Rightarrow> provider_id \<Rightarrow> memory_query \<Rightarrow> memory_capabilities \<Rightarrow> memory_page \<Rightarrow> bool" where
  "page_fits S H i q c p \<longleftrightarrow> yp_provider p = i \<and> yp_contract p = yb_contract c \<and> int (List.length (yp_records p)) \<le> yq_limit q
     \<and> (\<forall>r \<in> set (yp_records p). record_fits i q c r \<and> validate_value S (yd_schema r) (cb_value (yd_content r)) = Inr ())
     \<and> (\<forall>k. yp_cursor p = Some k \<longrightarrow> yc_provider k = i \<and> yc_contract k = yb_contract c \<and> yc_fingerprint k = memory_fingerprint H q)"

lemma validate_memory_page_iff: "validate_memory_page S H i q c p = Inr u \<longleftrightarrow> page_fits S H i q c p"
  by (cases "yp_cursor p") (auto simp: validate_memory_page_def page_fits_def rbind_eq_Inr raise_when_Inr rcheck_ok_unit)

text \<open>The page comes from an authorized call of the provider, made with the narrowed query.\<close>

definition retrieved ::
  "'w memory_gateway \<Rightarrow> provider_id \<Rightarrow> memory_query \<Rightarrow> call_context \<Rightarrow> memory_capabilities \<Rightarrow> memory_query \<Rightarrow> memory_page \<Rightarrow> bool" where
  "retrieved G i q ctx c e page \<longleftrightarrow> query_within e q \<and> page_fits (pv_schemas (yg_env G)) (yg_digest G) i e c page
     \<and> (\<exists>p call wb wc. yg_providers G i = Some p \<and> memory_called G ctx (yq_scope q) ''retrieve'' call wb
          \<and> constrain_query q call = Inr e \<and> ym_retrieve p e (au_context call) wb = (Operation_Done (Inr (Some page)), wc))"

lemma memory_retrieve_Inr:
  assumes "memory_retrieve G i q ctx w = (Inr page, w')"
  shows "is_equal_or_descendant_of (yq_scope q) (cx_scope ctx)
    \<and> (\<exists>c e. validate_memory_query (pv_schemas (yg_env G)) q c = Inr () \<and> retrieved G i q ctx c e page)"
proof -
  from assms obtain w1 where f: "memory_frame G RETRIEVE i ctx (retrieve_work G i q ctx) w1 = (Inr page, w')"
    by (auto simp: memory_retrieve_def abind_eq_Inr aresult_def)
  from memory_frame_Inr [OF f] obtain since w2 where k: "retrieve_work G i q ctx since w2 = (Inr page, w')" by blast
  then obtain c w3 p access e w4 where d: "discover_memory G i ctx (yq_scope q) w2 = (Inr c, w3)"
    and v: "validate_memory_query (pv_schemas (yg_env G)) q c = Inr ()" and p: "yg_providers G i = Some p"
    and a: "memory_access ctx (yq_scope q) ''retrieve'' i (retrieve_constraints q) = Inr access"
    and x: "dispatch (pv_dispatcher (yg_env G)) access (retrieve_call G p q) w3 = (Inr (e, Some page), w4)"
    and g: "page_fits (pv_schemas (yg_env G)) (yg_digest G) i e c page"
    by (auto simp: retrieve_work_def abind_eq_Inr aresult_def areturn_def validate_memory_page_iff)
  from memory_dispatch_Inr [OF a x] obtain call wb where
    call: "memory_called G ctx (yq_scope q) ''retrieve'' call wb" "retrieve_call G p q call wb = (Inr (e, Some page), w4)" by blast
  then have e: "constrain_query q call = Inr e" and y: "ym_retrieve p e (au_context call) wb = (Operation_Done (Inr (Some page)), w4)"
    by (auto simp: retrieve_call_def abind_eq_Inr aresult_def areturn_def memory_guard_def guarded_provider_Inr await_provider_Inr)
  have "retrieved G i q ctx c e page"
    unfolding retrieved_def using constrain_query_within [OF e] g p call(1) e y by blast
  with discover_memory_Inr [OF d] v show ?thesis by blast
qed

text \<open>
  Paging: the cursor of a page is accepted with the same query under the same grant, since the
  fingerprint of a query does not depend on its cursor.
\<close>

lemma memory_fingerprint_cursor [simp]: "memory_fingerprint H (q\<lparr>yq_cursor := k\<rparr>) = memory_fingerprint H q"
  by (simp add: memory_fingerprint_def memory_fingerprint_data_def)

lemma constrain_query_cursor:
  assumes "constrain_query q call = Inr e"
  shows "constrain_query (q\<lparr>yq_cursor := k\<rparr>) call = Inr (e\<lparr>yq_cursor := k\<rparr>)"
proof -
  from assms obtain ps l where "granted_projection (yq_projection q) (constraint_value (gr_constraints (au_grant call)) ''projection'') = Inr ps"
    "narrow_required (narrow_limit ''memory'' ''limit'' (Some (yq_limit q)) (constraint_value (gr_constraints (au_grant call)) ''limit'')) = Inr l"
    and e: "mk_memory_query (q\<lparr>yq_projection := ps, yq_limit := l\<rparr>) = Inr e"
    by (auto simp: constrain_query_def Let_def rbind_eq_Inr split: if_splits)
  moreover have "mk_memory_query (q\<lparr>yq_cursor := k, yq_projection := ps, yq_limit := l\<rparr>) = Inr (e\<lparr>yq_cursor := k\<rparr>)"
    using e mk_memory_query_Inr [OF e] by (auto simp: mk_memory_query_def rbind_eq_Inr split: if_splits)
  ultimately show ?thesis
    using assms by (auto simp: constrain_query_def Let_def rbind_eq_Inr split: if_splits)
qed

lemma page_cursor_continues:
  assumes "constrain_query q call = Inr e" "page_fits S H i e c page" "yp_cursor page = Some k"
    and "validate_memory_query S q c = Inr ()"
  shows "prevalidate_cursor i (q\<lparr>yq_cursor := Some k\<rparr>) = Inr () \<and> validate_memory_query S (q\<lparr>yq_cursor := Some k\<rparr>) c = Inr ()
    \<and> (\<exists>e'. constrain_query (q\<lparr>yq_cursor := Some k\<rparr>) call = Inr e' \<and> yq_cursor e' = Some k \<and> yc_fingerprint k = memory_fingerprint H e')"
  using assms constrain_query_cursor [OF assms(1), of "Some k"]
  by (auto simp: page_fits_def prevalidate_cursor_def validate_memory_query_def rbind_eq_Inr raise_when_Inr)

subsection \<open>Remembering, forgetting and consolidating\<close>

lemma constrain_item_Inr:
  assumes "constrain_item B x c call = Inr e"
  shows "yi_scope e = yi_scope x \<and> yi_content e = yi_content x \<and> yi_schema e = yi_schema x \<and> yi_key e = yi_key x
    \<and> set (yi_metadata e) \<subseteq> set (yi_metadata x) \<and> \<not> limit_exceeds (Some (content_bytes B x)) (yi_max_bytes e)
    \<and> limit_within (yi_max_bytes e) (item_limit x c)"
proof -
  from assms obtain ms m where ms: "granted_metadata (yi_metadata x) (constraint_value (gr_constraints (au_grant call)) ''metadata_keys'') = Inr ms"
    and m: "narrow_limit ''memory'' ''max_bytes'' (item_limit x c) (constraint_value (gr_constraints (au_grant call)) ''max_bytes'') = Inr m"
    and l: "\<not> limit_exceeds (Some (content_bytes B x)) m" and e: "mk_memory_item B (x\<lparr>yi_metadata := ms, yi_max_bytes := m\<rparr>) = Inr e"
    by (auto simp: constrain_item_def Let_def rbind_eq_Inr split: if_splits)
  from e have "e = x\<lparr>yi_metadata := ms, yi_max_bytes := m\<rparr>" by (auto simp: mk_memory_item_def rbind_eq_Inr split: if_splits)
  moreover have "set ms \<subseteq> set (yi_metadata x)" using ms by (auto simp: granted_metadata_def split: if_splits option.splits)
  ultimately show ?thesis using l narrow_limit_within [OF m] by simp
qed

text \<open>
  What a provider is asked to remember: the content of the item, in a scope the call may use, under
  the idempotency key of the call and never more than the limits allow.
\<close>

lemma memory_remember_Inr:
  assumes "memory_remember G i x ctx w = (Inr ref, w')"
  shows "is_equal_or_descendant_of (yi_scope x) (cx_scope ctx) \<and> cx_idempotency_key ctx = Some (yi_key x)
    \<and> yr_provider ref = i \<and> scope_key (yr_scope ref) = scope_key (yi_scope x)
    \<and> (\<exists>p c e call wb wc. yg_providers G i = Some p \<and> memory_called G ctx (yi_scope x) ''remember'' call wb
         \<and> constrain_item (yg_size G) x c call = Inr e \<and> validate_item (pv_schemas (yg_env G)) (yg_size G) x c = Inr ()
         \<and> ym_remember p e (au_context call) wb = (Operation_Done (Inr (Some ref)), wc))"
proof -
  from assms obtain w1 where key: "cx_idempotency_key ctx = Some (yi_key x)"
    and f: "memory_frame G REMEMBER i ctx (remember_work G i x ctx) w1 = (Inr ref, w')"
    by (auto simp: memory_remember_def abind_eq_Inr aresult_def raise_when_Inr)
  from memory_frame_Inr [OF f] obtain since w2 where k: "remember_work G i x ctx since w2 = (Inr ref, w')" by blast
  then obtain c w3 p access w4 where d: "discover_memory G i ctx (yi_scope x) w2 = (Inr c, w3)"
    and v: "validate_item (pv_schemas (yg_env G)) (yg_size G) x c = Inr ()" and p: "yg_providers G i = Some p"
    and a: "memory_access ctx (yi_scope x) ''remember'' i (remember_constraints x c) = Inr access"
    and y: "dispatch (pv_dispatcher (yg_env G)) access (remember_call G p x c) w3 = (Inr (Some ref), w4)"
    and r: "yr_provider ref = i" "scope_key (yr_scope ref) = scope_key (yi_scope x)"
    by (auto simp: remember_work_def abind_eq_Inr aresult_def areturn_def raise_when_Inr)
  from memory_dispatch_Inr [OF a y] obtain call wb where
    call: "memory_called G ctx (yi_scope x) ''remember'' call wb" "remember_call G p x c call wb = (Inr (Some ref), w4)" by blast
  then obtain e where e: "constrain_item (yg_size G) x c call = Inr e"
    and z: "ym_remember p e (au_context call) wb = (Operation_Done (Inr (Some ref)), w4)"
    by (auto simp: remember_call_def abind_eq_Inr aresult_def memory_guard_def guarded_provider_Inr await_provider_Inr)
  show ?thesis
    using discover_memory_Inr [OF d] key r p call(1) e v z by blast
qed

lemma memory_forget_Inr:
  assumes "memory_forget G i q ctx w = (Inr r, w')"
  shows "is_equal_or_descendant_of (yf_scope q) (cx_scope ctx) \<and> yo_ref r = yf_ref q \<and> yr_provider (yf_ref q) = i
    \<and> (\<exists>p (c :: memory_capabilities) call wb wc. yg_providers G i = Some p \<and> yb_versioned c \<and> FORGET \<in> yb_operations c
         \<and> memory_called G ctx (yf_scope q) ''forget'' call wb \<and> validate_forget_grant q call = Inr ()
         \<and> ym_forget p q (au_context call) wb = (Operation_Done (Inr (Some r)), wc))"
proof -
  from assms obtain w1 where i: "yr_provider (yf_ref q) = i"
    and f: "memory_frame G FORGET i ctx (forget_work G i q ctx) w1 = (Inr r, w')"
    by (auto simp: memory_forget_def abind_eq_Inr aresult_def raise_when_Inr)
  from memory_frame_Inr [OF f] obtain since w2 where k: "forget_work G i q ctx since w2 = (Inr r, w')" by blast
  then obtain c w3 p access w4 where d: "discover_memory G i ctx (yf_scope q) w2 = (Inr c, w3)"
    and v: "yb_versioned c" "FORGET \<in> yb_operations c" and p: "yg_providers G i = Some p"
    and a: "memory_access ctx (yf_scope q) ''forget'' i (forget_constraints q) = Inr access"
    and y: "dispatch (pv_dispatcher (yg_env G)) access (forget_call G p q) w3 = (Inr (Some r), w4)" and r: "yo_ref r = yf_ref q"
    by (auto simp: forget_work_def abind_eq_Inr aresult_def areturn_def raise_when_Inr require_operation_def)
  from memory_dispatch_Inr [OF a y] obtain call wb where
    call: "memory_called G ctx (yf_scope q) ''forget'' call wb" "forget_call G p q call wb = (Inr (Some r), w4)" by blast
  then have g: "validate_forget_grant q call = Inr ()"
    and z: "ym_forget p q (au_context call) wb = (Operation_Done (Inr (Some r)), w4)"
    by (auto simp: forget_call_def abind_eq_Inr aresult_def memory_guard_def guarded_provider_Inr await_provider_Inr)
  show ?thesis
    using discover_memory_Inr [OF d] i r p v call(1) g z by (intro conjI exI) simp_all
qed

lemma memory_consolidate_Inr:
  assumes "memory_consolidate G i q ctx w = (Inr r, w')"
  shows "is_equal_or_descendant_of (yn_scope q) (cx_scope ctx)
    \<and> (\<exists>c. CONSOLIDATE \<in> yb_operations c \<and> resource_key (yn_policy q) \<in> resource_key ` set (yb_policies c)
         \<and> validate_report i q c r = Inr ())"
proof -
  from assms obtain w1 where f: "memory_frame G CONSOLIDATE i ctx (consolidate_work G i q ctx) w1 = (Inr r, w')"
    by (auto simp: memory_consolidate_def abind_eq_Inr aresult_def)
  from memory_frame_Inr [OF f] obtain since w2 where k: "consolidate_work G i q ctx since w2 = (Inr r, w')" by blast
  then obtain c w3 where "discover_memory G i ctx (yn_scope q) w2 = (Inr c, w3)" "CONSOLIDATE \<in> yb_operations c"
    "resource_key (yn_policy q) \<in> resource_key ` set (yb_policies c)" "validate_report i q c r = Inr ()"
    by (auto simp: consolidate_work_def abind_eq_Inr aresult_def areturn_def raise_when_Inr require_operation_def)
  with discover_memory_Inr [of G i ctx "yn_scope q" w2 c w3] show ?thesis by blast
qed

text \<open>
  The call a gateway makes of a provider, from the world it asks in to the world the authorized call
  starts in: the Run of the context asks for that action on that provider, in the scope of the request.
\<close>

definition memory_asked ::
  "'w memory_gateway \<Rightarrow> call_context \<Rightarrow> scope_ref \<Rightarrow> string \<Rightarrow> provider_id \<Rightarrow> json_object \<Rightarrow> 'w \<Rightarrow> authorized_call \<Rightarrow> 'w \<Rightarrow> bool" where
  "memory_asked G ctx scope act i constraints w call w' \<longleftrightarrow> authorized (pv_dispatcher (yg_env G))
     \<lparr>aq_principal = \<lparr>pr_namespace = ''core'', pr_kind = ''run'', pr_id = cx_run_id ctx\<rparr>, aq_action = memory_action act,
      aq_resource = \<lparr>rs_namespace = ''core'', rs_kind = ''memory_provider'', rs_id = i, rs_owner = None\<rparr>, aq_scope = scope,
      aq_context = ctx, aq_constraints = map_of constraints\<rparr> w call w'"

lemma memory_access_asked:
  assumes "memory_access ctx scope act i constraints = Inr access" "authorized (pv_dispatcher (yg_env G)) access w call w'"
  shows "memory_asked G ctx scope act i constraints w call w'"
proof -
  have "access = \<lparr>aq_principal = \<lparr>pr_namespace = ''core'', pr_kind = ''run'', pr_id = cx_run_id ctx\<rparr>, aq_action = memory_action act,
      aq_resource = \<lparr>rs_namespace = ''core'', rs_kind = ''memory_provider'', rs_id = i, rs_owner = None\<rparr>, aq_scope = scope,
      aq_context = ctx, aq_constraints = map_of constraints\<rparr>"
    using assms(1)
    by (auto simp: memory_access_def provider_access_def rbind_eq_Inr core_principal_def mk_principal_def mk_resource_def
        mk_identifier_def split: if_splits)
  with assms(2) show ?thesis by (simp add: memory_asked_def)
qed

lemma memory_frame_steps:
  assumes "memory_frame G op i ctx work w = (Inr x, w')"
  shows "\<exists>w1. emit (yg_env G) ''core.memory.operation_started'' ctx
      [(''operation'', JStr (memory_operation_value op)), (''provider_id'', JStr i)] w = (Inr (), w1)
    \<and> work (pv_clock (yg_env G) w) w1 = (Inr x, w')"
proof -
  define since where "since = pv_clock (yg_env G) w"
  from assms obtain w1 where s: "emit (yg_env G) ''core.memory.operation_started'' ctx
      [(''operation'', JStr (memory_operation_value op)), (''provider_id'', JStr i)] w = (Inr (), w1)"
    and t: "atry (work since) (\<lambda>e. case e of
      CoreError d \<Rightarrow> abind (memory_failed G op i ctx since d) (\<lambda>_. araise e) | _ \<Rightarrow> araise e) w1 = (Inr x, w')"
    unfolding memory_frame_def Let_def since_def [symmetric] by (auto simp: abind_eq_Inr)
  have h: "(case e of CoreError d \<Rightarrow> abind (memory_failed G op i ctx since d) (\<lambda>_. araise e) | _ \<Rightarrow> araise e) w2 \<noteq> (Inr x, w')" for e w2
    by (auto simp: abind_eq_Inr araise_def split: exn.splits)
  obtain y w2 where k: "work since w1 = (y, w2)" by fastforce
  with t h have "y = Inr x" by (cases y) (auto simp: atry_def)
  with s t k show ?thesis by (auto simp: atry_def since_def)
qed

lemma discover_memory_steps:
  assumes "discover_memory G i ctx scope w = (Inr c, w')"
  obtains p call w1 where "yg_providers G i = Some p" "memory_asked G ctx scope ''capabilities'' i [] w call w1"
    "ym_capabilities p (au_context call) w1 = (Operation_Done (Inr (Some c)), w')" "yb_provider c = i"
proof -
  from assms obtain p access where p: "yg_providers G i = Some p" "memory_access ctx scope ''capabilities'' i [] = Inr access"
    "dispatch (pv_dispatcher (yg_env G)) access (memory_capability_call G p) w = (Inr (Some c), w')" "yb_provider c = i"
    by (auto simp: discover_memory_def abind_eq_Inr aresult_def areturn_def araise_def split: if_splits)
  from dispatch_Inr [OF p(3)] obtain call w1 where
    d: "authorized (pv_dispatcher (yg_env G)) access w call w1" "memory_capability_call G p call w1 = (Inr (Some c), w')" by blast
  from d(2) have "ym_capabilities p (au_context call) w1 = (Operation_Done (Inr (Some c)), w')"
    by (auto simp: memory_capability_call_def abind_eq_Inr aresult_def memory_guard_def guarded_provider_Inr await_provider_Inr)
  with p(1,4) memory_access_asked [OF p(2) d(1)] that show ?thesis by blast
qed

lemma retrieve_work_steps:
  assumes "retrieve_work G i q ctx since w = (Inr page, w')"
  obtains p c w1 e call w2 w3 where "discover_memory G i ctx (yq_scope q) w = (Inr c, w1)"
    "validate_memory_query (pv_schemas (yg_env G)) q c = Inr ()" "yg_providers G i = Some p"
    "memory_asked G ctx (yq_scope q) ''retrieve'' i (retrieve_constraints q) w1 call w2" "constrain_query q call = Inr e"
    "ym_retrieve p e (au_context call) w2 = (Operation_Done (Inr (Some page)), w3)"
    "page_fits (pv_schemas (yg_env G)) (yg_digest G) i e c page"
    "memory_completed G RETRIEVE i ctx since (int (List.length (yp_records page))) 0
      (memory_completeness_value (yp_completeness page)) w3 = (Inr (), w')"
proof -
  from assms obtain c w1 p access e w3 where k: "discover_memory G i ctx (yq_scope q) w = (Inr c, w1)"
    "validate_memory_query (pv_schemas (yg_env G)) q c = Inr ()" "yg_providers G i = Some p"
    and a: "memory_access ctx (yq_scope q) ''retrieve'' i (retrieve_constraints q) = Inr access"
    and x: "dispatch (pv_dispatcher (yg_env G)) access (retrieve_call G p q) w1 = (Inr (e, Some page), w3)"
    and g: "page_fits (pv_schemas (yg_env G)) (yg_digest G) i e c page"
    and m: "memory_completed G RETRIEVE i ctx since (int (List.length (yp_records page))) 0
      (memory_completeness_value (yp_completeness page)) w3 = (Inr (), w')"
    by (auto simp: retrieve_work_def abind_eq_Inr aresult_def areturn_def validate_memory_page_iff)
  from dispatch_Inr [OF x] obtain call w2 where
    d: "authorized (pv_dispatcher (yg_env G)) access w1 call w2" "retrieve_call G p q call w2 = (Inr (e, Some page), w3)" by blast
  from d(2) have "constrain_query q call = Inr e" "ym_retrieve p e (au_context call) w2 = (Operation_Done (Inr (Some page)), w3)"
    by (auto simp: retrieve_call_def abind_eq_Inr aresult_def areturn_def memory_guard_def guarded_provider_Inr await_provider_Inr)
  with k memory_access_asked [OF a d(1)] g m that show ?thesis by blast
qed

end
