(* ===== verification/Tool_Model.thy ===== *)
theory Tool_Model
  imports Evaluation_Model Model_Contract
begin

section \<open>The contracts of Tools\<close>

text \<open>
  \<open>tool/model.py\<close>: the execution policies, descriptors, calls and results of Tools, with their
  constructor checks and encodings. Copying a value (\<open>as_json_value\<close>) is the identity.
\<close>

definition TOOL_EXECUTE_ACTION :: action_ref where
  "TOOL_EXECUTE_ACTION = \<lparr>ac_namespace = ''core'', ac_name = ''tool.execute'', ac_version = ''1''\<rparr>"

subsection \<open>Policies and descriptors\<close>

datatype tool_side_effect = NO_SIDE_EFFECT | EXTERNAL_SIDE_EFFECT

fun side_effect_value :: "tool_side_effect \<Rightarrow> string" where
  "side_effect_value NO_SIDE_EFFECT = ''none''"
| "side_effect_value EXTERNAL_SIDE_EFFECT = ''external''"

definition tool_side_effects :: "(string \<times> tool_side_effect) list" where
  "tool_side_effects = List.map (\<lambda>x. (side_effect_value x, x)) [NO_SIDE_EFFECT, EXTERNAL_SIDE_EFFECT]"

datatype tool_idempotency = IDEMPOTENCY_NOT_APPLICABLE | IDEMPOTENCY_CALLER_KEY

fun idempotency_value :: "tool_idempotency \<Rightarrow> string" where
  "idempotency_value IDEMPOTENCY_NOT_APPLICABLE = ''not_applicable''"
| "idempotency_value IDEMPOTENCY_CALLER_KEY = ''caller_key''"

definition tool_idempotencies :: "(string \<times> tool_idempotency) list" where
  "tool_idempotencies = List.map (\<lambda>x. (idempotency_value x, x)) [IDEMPOTENCY_NOT_APPLICABLE, IDEMPOTENCY_CALLER_KEY]"

lemma side_effect_decodes [simp]: "enum_of L cls tool_side_effects (side_effect_value x) = Inr x"
  by (cases x) (simp_all add: enum_of_def tool_side_effects_def)

lemma idempotency_decodes [simp]: "enum_of L cls tool_idempotencies (idempotency_value x) = Inr x"
  by (cases x) (simp_all add: enum_of_def tool_idempotencies_def)

record tool_policy =
  to_timeout :: "int option"
  to_attempts :: int

definition mk_tool_policy :: "tool_policy \<Rightarrow> tool_policy result" where
  "mk_tool_policy p =
     (if (case to_timeout p of None \<Rightarrow> False | Some t \<Rightarrow> t < 1) then Inl (ValueError ''Tool timeout_ms must be positive'')
      else if to_attempts p < 1 then Inl (ValueError ''Tool max_attempts must be positive'') else Inr p)"

definition tool_policy_to_data :: "tool_policy \<Rightarrow> json_object" where
  "tool_policy_to_data p = [(''timeout_ms'', opt_int (to_timeout p)), (''max_attempts'', JInt (to_attempts p))]"

definition tool_policy_from_data :: "json_object \<Rightarrow> tool_policy result" where
  "tool_policy_from_data d =
     (if \<not> same_fields d [''timeout_ms'', ''max_attempts''] then Inl (ValueError ''Tool execution policy fields are invalid'')
      else rbind (int_or_none (obj_get d ''timeout_ms'') ''Tool timeout_ms'') (\<lambda>t.
      rbind (int_at d ''max_attempts'' ''Tool max_attempts'') (\<lambda>n. mk_tool_policy \<lparr>to_timeout = t, to_attempts = n\<rparr>)))"

lemma tool_policy_roundtrip: "mk_tool_policy p = Inr p \<Longrightarrow> tool_policy_from_data (tool_policy_to_data p) = Inr p"
  by (cases p) (simp add: tool_policy_from_data_def tool_policy_to_data_def same_fields_def)

record tool_descriptor =
  te_ref :: capability_ref
  te_title :: string
  te_summary :: string
  te_input :: schema_ref
  te_output :: schema_ref
  te_action :: action_ref
  te_policy :: tool_policy
  te_effect :: tool_side_effect
  te_idempotency :: tool_idempotency

definition mk_tool_descriptor :: "tool_descriptor \<Rightarrow> tool_descriptor result" where
  "mk_tool_descriptor d =
     (if cp_namespace (te_ref d) \<noteq> ''core'' \<or> cp_kind (te_ref d) \<noteq> ''tool''
      then Inl (ValueError ''Tool descriptor requires a core Tool reference'')
      else if cp_version (te_ref d) \<noteq> ''1'' then Inl (ValueError ''Tool descriptor contract version is unsupported'')
      else rbind (require_text (te_title d) ''Tool title'') (\<lambda>_. rbind (require_text (te_summary d) ''Tool summary'') (\<lambda>_.
      if te_effect d = EXTERNAL_SIDE_EFFECT
      then (if te_idempotency d \<noteq> IDEMPOTENCY_CALLER_KEY
        then Inl (ValueError ''side-effecting Tool requires caller-key idempotency'') else Inr d)
      else if te_idempotency d \<noteq> IDEMPOTENCY_NOT_APPLICABLE
      then Inl (ValueError ''side-effect-free Tool must use not_applicable idempotency'') else Inr d)))"

definition tool_descriptor_to_data :: "tool_descriptor \<Rightarrow> json_object" where
  "tool_descriptor_to_data d = [(''ref'', JObj (capability_to_data (te_ref d))), (''title'', JStr (te_title d)),
     (''summary'', JStr (te_summary d)), (''input_schema'', JObj (schema_to_data (te_input d))),
     (''output_schema'', JObj (schema_to_data (te_output d))), (''action'', JObj (action_to_data (te_action d))),
     (''execution_policy'', JObj (tool_policy_to_data (te_policy d))),
     (''side_effect'', JStr (side_effect_value (te_effect d))), (''idempotency'', JStr (idempotency_value (te_idempotency d)))]"

definition tool_descriptor_from_data :: "pylib \<Rightarrow> json_object \<Rightarrow> tool_descriptor result" where
  "tool_descriptor_from_data L d =
     (if \<not> same_fields d [''ref'', ''title'', ''summary'', ''input_schema'', ''output_schema'', ''action'', ''execution_policy'',
           ''side_effect'', ''idempotency'']
      then Inl (ValueError ''Tool descriptor fields are invalid'')
      else rbind (rbind (object_at d ''ref'' ''Tool reference'') capability_from_data) (\<lambda>r.
      rbind (field_str L d ''title'') (\<lambda>t. rbind (field_str L d ''summary'') (\<lambda>s.
      rbind (rbind (object_at d ''input_schema'' ''Tool input schema'') (schema_from_data L)) (\<lambda>i.
      rbind (rbind (object_at d ''output_schema'' ''Tool output schema'') (schema_from_data L)) (\<lambda>out.
      rbind (rbind (object_at d ''action'' ''Tool action'') (action_from_data L)) (\<lambda>a.
      rbind (rbind (object_at d ''execution_policy'' ''Tool execution policy'') tool_policy_from_data) (\<lambda>p.
      rbind (rbind (field_str L d ''side_effect'') (enum_of L ''ToolSideEffect'' tool_side_effects)) (\<lambda>e.
      rbind (rbind (field_str L d ''idempotency'') (enum_of L ''ToolIdempotencyMode'' tool_idempotencies)) (\<lambda>k.
      mk_tool_descriptor \<lparr>te_ref = r, te_title = t, te_summary = s, te_input = i, te_output = out, te_action = a,
        te_policy = p, te_effect = e, te_idempotency = k\<rparr>))))))))))"

definition tool_descriptor_ok :: "tool_descriptor \<Rightarrow> bool" where
  "tool_descriptor_ok d \<longleftrightarrow> mk_tool_descriptor d = Inr d \<and> capability_ok (te_ref d) \<and> schema_ok (te_input d)
     \<and> schema_ok (te_output d) \<and> action_ok (te_action d) \<and> mk_tool_policy (te_policy d) = Inr (te_policy d)"

lemma tool_descriptor_roundtrip:
  "tool_descriptor_ok d \<Longrightarrow> tool_descriptor_from_data L (tool_descriptor_to_data d) = Inr d"
  by (cases d) (simp add: tool_descriptor_from_data_def tool_descriptor_to_data_def tool_descriptor_ok_def same_fields_def
      capability_roundtrip schema_roundtrip action_roundtrip tool_policy_roundtrip)

subsection \<open>Calls and results\<close>

text \<open>The references of calls and results are core Tool references of version 1.\<close>

definition tool_v1 :: "capability_ref \<Rightarrow> bool" where
  "tool_v1 c \<longleftrightarrow> cp_namespace c = ''core'' \<and> cp_kind c = ''tool'' \<and> cp_version c = ''1''"

record tool_call =
  tl_tool :: capability_ref
  tl_input :: json

definition mk_tool_call :: "tool_call \<Rightarrow> tool_call result" where
  "mk_tool_call c = (if \<not> tool_v1 (tl_tool c) then Inl (ValueError ''Tool call requires a Tool v1 reference'') else Inr c)"

definition tool_call_to_data :: "tool_call \<Rightarrow> json_object" where
  "tool_call_to_data c = [(''tool'', JObj (capability_to_data (tl_tool c))), (''input'', tl_input c)]"

definition tool_call_from_data :: "json_object \<Rightarrow> tool_call result" where
  "tool_call_from_data d =
     (if \<not> same_fields d [''tool'', ''input''] then Inl (ValueError ''Tool call fields are invalid'')
      else rbind (rbind (object_at d ''tool'' ''Tool reference'') capability_from_data) (\<lambda>r.
      mk_tool_call \<lparr>tl_tool = r, tl_input = obj_get d ''input''\<rparr>))"

lemma tool_call_roundtrip:
  "capability_ok (tl_tool c) \<Longrightarrow> tool_v1 (tl_tool c) \<Longrightarrow> tool_call_from_data (tool_call_to_data c) = Inr c"
  by (cases c) (simp add: tool_call_from_data_def tool_call_to_data_def same_fields_def capability_roundtrip mk_tool_call_def)

record tool_result =
  tr_tool :: capability_ref
  tr_output :: json
  tr_attempts :: int
  tr_identity :: string

definition mk_tool_result :: "tool_result \<Rightarrow> tool_result result" where
  "mk_tool_result r =
     (if \<not> tool_v1 (tr_tool r) then Inl (ValueError ''Tool result requires a Tool v1 reference'')
      else if tr_attempts r < 1 then Inl (ValueError ''Tool result attempts must be positive'')
      else rbind (require_text (tr_identity r) ''Tool operation identity'') (\<lambda>_. Inr r))"

definition tool_result_to_data :: "tool_result \<Rightarrow> json_object" where
  "tool_result_to_data r = [(''tool'', JObj (capability_to_data (tr_tool r))), (''output'', tr_output r),
     (''attempts'', JInt (tr_attempts r)), (''operation_identity'', JStr (tr_identity r))]"

definition tool_result_from_data :: "pylib \<Rightarrow> json_object \<Rightarrow> tool_result result" where
  "tool_result_from_data L d =
     (if \<not> same_fields d [''tool'', ''output'', ''attempts'', ''operation_identity'']
      then Inl (ValueError ''Tool result fields are invalid'')
      else rbind (rbind (object_at d ''tool'' ''Tool reference'') capability_from_data) (\<lambda>t.
      rbind (int_at d ''attempts'' ''Tool attempts'') (\<lambda>n. rbind (field_str L d ''operation_identity'') (\<lambda>i.
      mk_tool_result \<lparr>tr_tool = t, tr_output = obj_get d ''output'', tr_attempts = n, tr_identity = i\<rparr>))))"

lemma tool_result_roundtrip:
  "capability_ok (tr_tool r) \<Longrightarrow> mk_tool_result r = Inr r \<Longrightarrow> tool_result_from_data L (tool_result_to_data r) = Inr r"
  by (cases r) (simp add: tool_result_from_data_def tool_result_to_data_def same_fields_def capability_roundtrip)

lemma mk_tool_result_self: "mk_tool_result r = Inr r' \<Longrightarrow> r' = r"
  by (auto simp: mk_tool_result_def rbind_eq_Inr split: if_splits)

end
