(* ===== verification/Tool_Gateway.thy ===== *)
theory Tool_Gateway
  imports Tool_Model Provider_Boundary Plugin_Invocation
begin

section \<open>Tool execution\<close>

text \<open>
  \<open>tool/registry.py\<close> and \<open>tool/gateway.py\<close>. The typed view of the capability registry is that of the
  registry in the world of the invocations; \<open>isinstance(implementation, ToolImplementation)\<close> is the
  view \<open>tg_view\<close> of an implementation object as a descriptor and an executor. An invocation as a
  whole is raced against cancellation and the deadline: when it loses, \<open>tg_preempt\<close> is the outcome
  and the world it leaves; otherwise it runs to its end.
\<close>

subsection \<open>The typed registry\<close>

type_synonym ('i, 'w) tool_executor = "tool_call \<Rightarrow> call_context \<Rightarrow> ('i, 'w) plugin_world \<Rightarrow> json option awaited \<times> ('i, 'w) plugin_world"

record ('i, 'w) tool_implementation =
  tm_descriptor :: tool_descriptor
  tm_execute :: "('i, 'w) tool_executor"

record resolved_tool =
  rt_descriptor :: tool_descriptor
  rt_owner :: plugin_ref
  rt_registration :: string

record ('i, 'w) tool_gateway =
  tg_env :: "('i, 'w) plugin_world provider_env"
  tg_actions :: action_registry
  tg_view :: "'i \<Rightarrow> ('i, 'w) tool_implementation option"
  tg_invoker :: "('i, 'w) invoker"
  tg_preempt :: "('i, 'w) plugin_world preemption"

definition declared_actions :: "'i registration \<Rightarrow> (string \<times> string \<times> string) list" where
  "declared_actions reg = List.map (\<lambda>p. action_key (pp_action p)) (cd_permissions (rg_declaration reg))"

definition tool_resolve :: "('i, 'w) tool_gateway \<Rightarrow> capability_ref \<Rightarrow> 'i capability_registry \<Rightarrow> resolved_tool result" where
  "tool_resolve T r g =
     (if cp_namespace r \<noteq> ''core'' \<or> cp_kind r \<noteq> capability_type_value CAP_TOOL
      then Inl (core_error INVALID_REQUEST ''invalid_tool_reference'' ''Tool reference namespace or kind is invalid'' False None)
      else if cp_version r \<noteq> ''1''
      then Inl (core_error VERSION_MISMATCH ''tool_contract_version_mismatch'' ''Tool contract version is unsupported'' False None)
      else rbind (get_capability (registration_key r) g) (\<lambda>reg.
      if pl_name (rg_owner reg) \<noteq> cp_owner r
      then Inl (core_error CONFLICT ''tool_owner_mismatch'' ''Tool reference does not identify its owning Plugin'' False None)
      else case tg_view T (rg_implementation reg) of
        None \<Rightarrow> Inl (core_error PROTOCOL_FAILURE ''invalid_tool_implementation''
                  ''Plugin Tool implementation does not satisfy the Tool v1 contract'' False None)
      | Some impl \<Rightarrow> (let d = tm_descriptor impl in
          if te_ref d \<noteq> r
          then Inl (core_error PROTOCOL_FAILURE ''tool_descriptor_mismatch''
                 ''Tool descriptor identity does not match its registration'' False None)
          else if \<not> contains_schema (pv_schemas (tg_env T)) (te_input d) \<or> \<not> contains_schema (pv_schemas (tg_env T)) (te_output d)
          then Inl (core_error VERSION_MISMATCH ''tool_schema_not_registered'' ''Tool input or output Schema is not registered'' False None)
          else if action_key (te_action d) \<notin> set (declared_actions reg)
          then Inl (core_error DENIED ''tool_permission_undeclared'' ''Tool Action is not declared by its Plugin capability'' False None)
          else if \<not> action_contains (tg_actions T) (te_action d)
          then Inl (core_error DENIED ''tool_action_not_registered'' ''Tool Action is not registered'' False None)
          else Inr \<lparr>rt_descriptor = d, rt_owner = rg_owner reg, rt_registration = rg_id reg\<rparr>)))"

subsection \<open>Constraints and grants\<close>

definition schema_identity :: "schema_ref \<Rightarrow> string" where
  "schema_identity s = sm_namespace s @ '':'' @ sm_name s @ '':'' @ sm_version s"

definition action_identity :: "action_ref \<Rightarrow> string" where
  "action_identity a = ac_namespace a @ '':'' @ ac_name a @ '':'' @ ac_version a"

definition fixed_constraints :: "tool_descriptor \<Rightarrow> json_object" where
  "fixed_constraints d = [(''input_schema'', JStr (schema_identity (te_input d))), (''output_schema'', JStr (schema_identity (te_output d))),
     (''action'', JStr (action_identity (te_action d))), (''side_effect'', JStr (side_effect_value (te_effect d))),
     (''idempotency'', JStr (idempotency_value (te_idempotency d)))]"

definition tool_constraints :: "tool_descriptor \<Rightarrow> json_object" where
  "tool_constraints d = fixed_constraints d
     @ [(''timeout_ms'', opt_int (to_timeout (te_policy d))), (''max_attempts'', JInt (to_attempts (te_policy d)))]"

text \<open>\<open>constraints.get(key, value)\<close>: unlike an absent key, a null is a value.\<close>

definition granted_or :: "(string \<rightharpoonup> json) \<Rightarrow> string \<Rightarrow> json \<Rightarrow> json" where
  "granted_or granted k v = (case granted k of None \<Rightarrow> v | Some x \<Rightarrow> x)"

definition granted_attempts :: "tool_policy \<Rightarrow> json \<Rightarrow> int result" where
  "granted_attempts p v = (case v of
       JInt n \<Rightarrow> if n < 1 \<or> n > to_attempts p then Inl (invalid_grant ''Tool grant broadens max_attempts'') else Inr n
     | _ \<Rightarrow> Inl (invalid_grant ''Tool max_attempts grant is invalid''))"

definition granted_timeout :: "tool_policy \<Rightarrow> json \<Rightarrow> int option result" where
  "granted_timeout p v =
     rbind (case v of
         JNull \<Rightarrow> Inr None
       | JInt t \<Rightarrow> if t < 1 then Inl (invalid_grant ''Tool timeout_ms grant is invalid'') else Inr (Some t)
       | _ \<Rightarrow> Inl (invalid_grant ''Tool timeout_ms grant is invalid'')) (\<lambda>t.
     case to_timeout p of
       None \<Rightarrow> Inr t
     | Some limit \<Rightarrow> (case t of
         None \<Rightarrow> Inl (invalid_grant ''Tool grant broadens timeout_ms'')
       | Some x \<Rightarrow> if x > limit then Inl (invalid_grant ''Tool grant broadens timeout_ms'') else Inr t))"

definition tool_grant :: "tool_descriptor \<Rightarrow> authorized_call \<Rightarrow> (int option \<times> int) result" where
  "tool_grant d call =
     (let granted = gr_constraints (au_grant call); p = te_policy d in
      if \<not> only_constraints granted (List.map fst (tool_constraints d))
      then Inl (invalid_grant ''Tool grant contains unknown constraints'')
      else rbind (rcheck (\<lambda>(k, v). raise_when (granted_or granted k v \<noteq> v) (invalid_grant (''Tool grant changes '' @ k)))
          (fixed_constraints d)) (\<lambda>_.
      rbind (granted_attempts p (granted_or granted ''max_attempts'' (JInt (to_attempts p)))) (\<lambda>n.
      rbind (granted_timeout p (granted_or granted ''timeout_ms'' (opt_int (to_timeout p)))) (\<lambda>t. Inr (t, n)))))"

text \<open>The timeout counts from the entry of \<open>execute\<close>; the span of the narrowed call is fresh.\<close>

definition with_timeout :: "call_context \<Rightarrow> int option \<Rightarrow> datetime \<Rightarrow> string \<Rightarrow> call_context result" where
  "with_timeout ctx timeout since span = (case timeout of
       None \<Rightarrow> Inr ctx
     | Some t \<Rightarrow> rbind (plus_millis since (nat t)) (\<lambda>at.
         if (case cx_deadline ctx of None \<Rightarrow> False | Some d \<Rightarrow> dl_at d \<le> at) then Inr ctx
         else narrow ctx None (Some \<lparr>dl_at = at\<rparr>) None span))"

subsection \<open>Attempts\<close>

definition tool_executor_failure :: "exn \<Rightarrow> exn" where
  "tool_executor_failure = provider_failure ''tool_executor_failure'' ''Tool executor failed''"

definition settled_error :: "exn \<Rightarrow> exn" where
  "settled_error e = (case e of CoreError _ \<Rightarrow> e | _ \<Rightarrow> tool_executor_failure e)"

definition may_retry :: "exn \<Rightarrow> bool" where
  "may_retry e = (case e of CoreError d \<Rightarrow> ed_retryable d | _ \<Rightarrow> True)"

text \<open>\<open>while True\<close>: attempt \<open>k\<close> of at most \<open>n\<close>\<close>

function tool_attempts :: "(int \<Rightarrow> ('s, exn, 'a) action) \<Rightarrow> int \<Rightarrow> int \<Rightarrow> ('s, exn, 'a) action" where
  "tool_attempts A n k w =
     (case A k w of
        (Inr x, w1) \<Rightarrow> (Inr x, w1)
      | (Inl e, w1) \<Rightarrow> if \<not> may_retry e \<or> k \<ge> n then (Inl (settled_error e), w1) else tool_attempts A n (k + 1) w1)"
  by pat_completeness auto
termination by (relation "measure (\<lambda>(A, n, k, w). nat (n - k))") auto

declare tool_attempts.simps [simp del]

subsection \<open>The gateway\<close>

definition tool_protocol_failure :: "string \<Rightarrow> exn" where
  "tool_protocol_failure msg = core_error PROTOCOL_FAILURE ''tool_protocol_failure'' msg False None"

definition tool_payload :: "tool_call \<Rightarrow> int \<Rightarrow> int \<Rightarrow> json_object" where
  "tool_payload c n latency = [(''tool_id'', JStr (cp_id (tl_tool c))), (''attempts'', JInt n), (''latency_ms'', JInt latency)]"

definition tool_attempt ::
  "('i, 'w) tool_gateway \<Rightarrow> ('i, 'w) tool_implementation \<Rightarrow> tool_call \<Rightarrow> string \<Rightarrow> tool_descriptor \<Rightarrow> call_context \<Rightarrow> int
    \<Rightarrow> (('i, 'w) plugin_world, exn, tool_result) action" where
  "tool_attempt T impl c identity d ctx k =
     abind (await_provider ctx (pv_token (tg_env T)) (pv_clock (tg_env T)) (tm_execute impl c ctx)) (\<lambda>raw. case raw of
         None \<Rightarrow> araise (ValueError ''Tool output must be valid JSON data'')
       | Some v \<Rightarrow> abind (aresult (validate_value (pv_schemas (tg_env T)) (te_output d) v)) (\<lambda>_.
           aresult (mk_tool_result \<lparr>tr_tool = tl_tool c, tr_output = v, tr_attempts = k, tr_identity = identity\<rparr>)))"

definition tool_body ::
  "('i, 'w) tool_gateway \<Rightarrow> tool_call \<Rightarrow> string \<Rightarrow> tool_descriptor \<Rightarrow> datetime \<Rightarrow> string \<Rightarrow> 'i registration \<Rightarrow> authorized_call
    \<Rightarrow> (('i, 'w) plugin_world, exn, tool_result) action" where
  "tool_body T c identity d since span reg call =
     abind (aresult (tool_grant d call)) (\<lambda>(timeout, n). case tg_view T (rg_implementation reg) of
         None \<Rightarrow> araise (tool_protocol_failure ''Tool implementation is invalid'')
       | Some impl \<Rightarrow> abind (aresult (with_timeout (au_context call) timeout since span)) (\<lambda>ctx.
           tool_attempts (tool_attempt T impl c identity d ctx) n 1))"

definition tool_invocation :: "tool_call \<Rightarrow> call_context \<Rightarrow> tool_descriptor \<Rightarrow> 'i invocation result" where
  "tool_invocation c ctx d =
     rbind (capability_resource (tl_tool c)) (\<lambda>resource.
     rbind (rbind (mk_identifier (cx_run_id ctx)) (core_principal PRINCIPAL_RUN)) (\<lambda>principal.
     Inr \<lparr>in_plugin = cp_owner (tl_tool c), in_key = registration_key (tl_tool c), in_action = te_action d, in_resource = resource,
       in_context = ctx, in_principal = principal, in_constraints = map_of (tool_constraints d), in_validator = None\<rparr>))"

definition tool_started :: "('i, 'w) tool_gateway \<Rightarrow> tool_call \<Rightarrow> call_context \<Rightarrow> (('i, 'w) plugin_world, exn, unit) action" where
  "tool_started T c ctx = emit (tg_env T) ''core.tool.invocation_started'' ctx (tool_payload c 0 0)"

definition tool_completed ::
  "('i, 'w) tool_gateway \<Rightarrow> tool_call \<Rightarrow> call_context \<Rightarrow> datetime \<Rightarrow> tool_result \<Rightarrow> (('i, 'w) plugin_world, exn, unit) action" where
  "tool_completed T c ctx since r w =
     emit (tg_env T) ''core.tool.invocation_completed'' ctx (tool_payload c (tr_attempts r) (elapsed_ms (tg_env T) since w)) w"

definition tool_failed ::
  "('i, 'w) tool_gateway \<Rightarrow> tool_call \<Rightarrow> call_context \<Rightarrow> datetime \<Rightarrow> error_detail \<Rightarrow> (('i, 'w) plugin_world, exn, unit) action" where
  "tool_failed T c ctx since e w =
     emit (tg_env T) ''core.tool.invocation_failed'' ctx (tool_payload c 0 (elapsed_ms (tg_env T) since w)
       @ [(''category'', JStr (category_value (ed_category e))), (''error_code'', JStr (ed_code e))]) w"

definition tool_invoked ::
  "('i, 'w) tool_gateway \<Rightarrow> tool_call \<Rightarrow> call_context \<Rightarrow> string \<Rightarrow> tool_descriptor \<Rightarrow> datetime \<Rightarrow> string
    \<Rightarrow> (('i, 'w) plugin_world, exn, tool_result) action" where
  "tool_invoked T c ctx identity d since span =
     abind (aresult (tool_invocation c ctx d)) (\<lambda>v.
     abind (invoke (tg_invoker T) v (\<lambda>reg call. raced_body (tg_preempt T) (tool_body T c identity d since span reg call))) (\<lambda>r.
     abind (tool_completed T c ctx since r) (\<lambda>_. areturn r)))"

definition tool_execute ::
  "('i, 'w) tool_gateway \<Rightarrow> tool_call \<Rightarrow> call_context \<Rightarrow> string \<Rightarrow> (('i, 'w) plugin_world, exn, tool_result) action" where
  "tool_execute T c ctx span w =
     (let since = pv_clock (tg_env T) w in
      case cx_idempotency_key ctx of
        None \<Rightarrow> (Inl (core_error INVALID_REQUEST ''missing_invocation_identity'' ''Tool execution requires an invocation identity'' False None), w)
      | Some identity \<Rightarrow>
          (case tool_resolve T (tl_tool c) (pw_registry w) of
             Inl e \<Rightarrow> (Inl e, w)
           | Inr resolved \<Rightarrow> abind (aresult (validate_value (pv_schemas (tg_env T)) (te_input (rt_descriptor resolved)) (tl_input c))) (\<lambda>_.
               abind (tool_started T c ctx) (\<lambda>_.
               atry (tool_invoked T c ctx identity (rt_descriptor resolved) since span) (\<lambda>e. case e of
                   CoreError det \<Rightarrow> abind (tool_failed T c ctx since det) (\<lambda>_. araise e)
                 | _ \<Rightarrow> araise e))) w))"

subsection \<open>What an execution guarantees\<close>

text \<open>The failed attempts before attempt \<open>k\<close>, each of which may be retried.\<close>

inductive retried :: "(int \<Rightarrow> ('s, exn, 'a) action) \<Rightarrow> 's \<Rightarrow> int \<Rightarrow> 's \<Rightarrow> bool" for A w where
  first: "retried A w 1 w"
| again: "retried A w k w1 \<Longrightarrow> A k w1 = (Inl e, w2) \<Longrightarrow> may_retry e \<Longrightarrow> retried A w (k + 1) w2"

lemma retried_pos: "retried A w k w1 \<Longrightarrow> 1 \<le> k"
  by (induction rule: retried.induct) auto

lemma tool_attempts_step:
  "A k w = (Inr x, w1) \<Longrightarrow> tool_attempts A n k w = (Inr x, w1)"
  "A k w = (Inl e, w1) \<Longrightarrow> \<not> may_retry e \<or> k \<ge> n \<Longrightarrow> tool_attempts A n k w = (Inl (settled_error e), w1)"
  "A k w = (Inl e, w1) \<Longrightarrow> may_retry e \<Longrightarrow> k < n \<Longrightarrow> tool_attempts A n k w = tool_attempts A n (k + 1) w1"
  by (simp_all add: tool_attempts.simps [of A n k w])

lemma attempts_decided:
  assumes "retried A w k w1" "k \<le> n"
  shows "\<exists>j w2. k \<le> j \<and> j \<le> n \<and> retried A w j w2 \<and> (case A j w2 of
      (Inr x, w3) \<Rightarrow> tool_attempts A n k w1 = (Inr x, w3)
    | (Inl e, w3) \<Rightarrow> (\<not> may_retry e \<or> j = n) \<and> tool_attempts A n k w1 = (Inl (settled_error e), w3))"
  using assms
proof (induction "nat (n - k)" arbitrary: k w1)
  case 0
  then have k: "k = n" by simp
  obtain r w2 where "A k w1 = (r, w2)" by fastforce
  with 0 k show ?case
    by (intro exI [of _ k] exI [of _ w1]) (cases r, simp_all add: tool_attempts_step)
next
  case (Suc m)
  show ?case
  proof (cases "\<exists>e w2. A k w1 = (Inl e, w2) \<and> may_retry e")
    case True
    then obtain e w2 where a: "A k w1 = (Inl e, w2)" "may_retry e" by blast
    have n: "tool_attempts A n k w1 = tool_attempts A n (k + 1) w2"
      using a Suc.hyps(2) by (simp add: tool_attempts_step)
    have m: "m = nat (n - (k + 1))" "k + 1 \<le> n" using Suc.hyps(2) by linarith+
    from Suc.hyps(1) [OF m(1) retried.again [OF Suc.prems(1) a] m(2)] obtain j w3 where "k + 1 \<le> j" "j \<le> n" "retried A w j w3" "case A j w3 of
        (Inr x, w4) \<Rightarrow> tool_attempts A n (k + 1) w2 = (Inr x, w4)
      | (Inl e, w4) \<Rightarrow> (\<not> may_retry e \<or> j = n) \<and> tool_attempts A n (k + 1) w2 = (Inl (settled_error e), w4)"
      by (elim exE conjE) (rule that)
    then show ?thesis unfolding n by (intro exI [of _ j] exI [of _ w3]) simp
  next
    case False
    obtain r w2 where "A k w1 = (r, w2)" by fastforce
    with False Suc.prems show ?thesis
      by (intro exI [of _ k] exI [of _ w1]) (cases r, simp_all add: tool_attempts_step)
  qed
qed

lemma tool_attempts_Inr:
  assumes "tool_attempts A n 1 w = (Inr x, w')" "1 \<le> n"
  shows "\<exists>k w1. 1 \<le> k \<and> k \<le> n \<and> retried A w k w1 \<and> A k w1 = (Inr x, w')"
proof -
  from attempts_decided [OF retried.first assms(2), of A w] obtain k w1 where k: "1 \<le> k" "k \<le> n" "retried A w k w1"
    and d: "case A k w1 of (Inr y, w3) \<Rightarrow> tool_attempts A n 1 w = (Inr y, w3)
      | (Inl e, w3) \<Rightarrow> (\<not> may_retry e \<or> k = n) \<and> tool_attempts A n 1 w = (Inl (settled_error e), w3)"
    by (elim exE conjE) (rule that)
  obtain r w3 where a: "A k w1 = (r, w3)" by fastforce
  with d assms(1) have "A k w1 = (Inr x, w')" by (cases r) simp_all
  with k show ?thesis by blast
qed

lemma granted_attempts_Inr: "granted_attempts p v = Inr n \<Longrightarrow> 1 \<le> n \<and> n \<le> to_attempts p"
  by (auto simp: granted_attempts_def split: json.splits if_splits)

lemma granted_timeout_Inr: "granted_timeout p v = Inr t \<Longrightarrow> limit_within t (to_timeout p)"
  by (auto simp: granted_timeout_def limit_within_def rbind_eq_Inr split: json.splits if_splits option.splits)

lemma tool_grant_Inr:
  assumes "tool_grant d call = Inr (t, n)"
  shows "1 \<le> n \<and> n \<le> to_attempts (te_policy d) \<and> limit_within t (to_timeout (te_policy d))
    \<and> only_constraints (gr_constraints (au_grant call)) (List.map fst (tool_constraints d))
    \<and> list_all (\<lambda>(k, v). granted_or (gr_constraints (au_grant call)) k v = v) (fixed_constraints d)"
proof -
  let ?g = "gr_constraints (au_grant call)" and ?p = "te_policy d"
  have o: "only_constraints ?g (List.map fst (tool_constraints d))"
    using assms by (rule contrapos_pp) (simp add: tool_grant_def)
  with assms have "rbind (rcheck (\<lambda>(k, v). raise_when (granted_or ?g k v \<noteq> v) (invalid_grant (''Tool grant changes '' @ k))) (fixed_constraints d))
      (\<lambda>_. rbind (granted_attempts ?p (granted_or ?g ''max_attempts'' (JInt (to_attempts ?p)))) (\<lambda>n.
      rbind (granted_timeout ?p (granted_or ?g ''timeout_ms'' (opt_int (to_timeout ?p)))) (\<lambda>t. Inr (t, n)))) = Inr (t, n)"
    by (simp only: tool_grant_def Let_def not_True_eq_False if_False)
  then have g: "granted_attempts ?p (granted_or ?g ''max_attempts'' (JInt (to_attempts ?p))) = Inr n"
    "granted_timeout ?p (granted_or ?g ''timeout_ms'' (opt_int (to_timeout ?p))) = Inr t"
    "rcheck (\<lambda>(k, v). raise_when (granted_or ?g k v \<noteq> v) (invalid_grant (''Tool grant changes '' @ k))) (fixed_constraints d) = Inr ()"
    by (auto simp only: rbind_eq_Inr sum.inject prod.inject unit_eq)
  have "list_all (\<lambda>(k, v). granted_or (gr_constraints (au_grant call)) k v = v) (fixed_constraints d)"
    using g(3) unfolding rcheck_ok_iff by (auto simp: list_all_iff raise_when_Inr)
  with o granted_attempts_Inr [OF g(1)] granted_timeout_Inr [OF g(2)] show ?thesis by blast
qed

lemma with_timeout_Inr:
  assumes "with_timeout ctx t since span = Inr ctx'"
  shows "cx_scope ctx' = cx_scope ctx \<and> cx_run_id ctx' = cx_run_id ctx \<and> cx_idempotency_key ctx' = cx_idempotency_key ctx
    \<and> (\<forall>x at. t = Some x \<longrightarrow> plus_millis since (nat x) = Inr at \<longrightarrow> (\<exists>d. cx_deadline ctx' = Some d \<and> dl_at d \<le> at))"
proof (cases t)
  case None
  with assms show ?thesis by (simp add: with_timeout_def)
next
  case (Some x)
  with assms obtain at where at: "plus_millis since (nat x) = Inr at"
    and c: "(if (case cx_deadline ctx of None \<Rightarrow> False | Some d \<Rightarrow> dl_at d \<le> at) then Inr ctx
        else narrow ctx None (Some \<lparr>dl_at = at\<rparr>) None span) = Inr ctx'"
    by (auto simp: with_timeout_def rbind_eq_Inr)
  show ?thesis
  proof (cases "case cx_deadline ctx of None \<Rightarrow> False | Some d \<Rightarrow> dl_at d \<le> at")
    case True
    with c Some at show ?thesis by (auto split: option.splits)
  next
    case False
    with c have "narrow ctx None (Some \<lparr>dl_at = at\<rparr>) None span = Inr ctx'" by simp
    with Some at show ?thesis by (auto simp: narrow_def Let_def rbind_eq_Inr or_else_def split: if_splits option.splits)
  qed
qed

lemma tool_attempt_Inr:
  assumes "tool_attempt T impl c identity d ctx k w = (Inr r, w')"
  shows "tr_tool r = tl_tool c \<and> tr_identity r = identity \<and> tr_attempts r = k
    \<and> validate_value (pv_schemas (tg_env T)) (te_output d) (tr_output r) = Inr ()
    \<and> tm_execute impl c ctx w = (Operation_Done (Inr (Some (tr_output r))), w')"
proof -
  from assms obtain v where "tm_execute impl c ctx w = (Operation_Done (Inr (Some v)), w')"
    "validate_value (pv_schemas (tg_env T)) (te_output d) v = Inr ()"
    and m: "mk_tool_result \<lparr>tr_tool = tl_tool c, tr_output = v, tr_attempts = k, tr_identity = identity\<rparr> = Inr r"
    by (auto simp: tool_attempt_def abind_eq_Inr aresult_def araise_def await_provider_Inr split: option.splits)
  with mk_tool_result_self [OF m] show ?thesis by simp
qed

text \<open>
  The answer of a Tool comes from an attempt of the registered executor, run under the lease of a
  mediated invocation in the call the grant and the timeout leave, after failures that may be
  retried, and within the attempts the grant allows.
\<close>

definition tool_ran ::
  "('i, 'w) tool_gateway \<Rightarrow> tool_call \<Rightarrow> call_context \<Rightarrow> tool_descriptor \<Rightarrow> datetime \<Rightarrow> string \<Rightarrow> tool_result \<Rightarrow> bool" where
  "tool_ran T c ctx d since span r \<longleftrightarrow> (\<exists>v wi reg call l wl impl t n ectx wk wz. tool_invocation c ctx d = Inr v
     \<and> mediated (tg_invoker T) v wi reg call l wl \<and> tg_view T (rg_implementation reg) = Some impl
     \<and> tool_grant d call = Inr (t, n) \<and> with_timeout (au_context call) t since span = Inr ectx \<and> tr_attempts r \<le> n
     \<and> retried (tool_attempt T impl c (tr_identity r) d ectx) wl (tr_attempts r) wk
     \<and> tm_execute impl c ectx wk = (Operation_Done (Inr (Some (tr_output r))), wz))"

lemma tool_body_Inr:
  assumes "tool_body T c identity d since span reg call w = (Inr r, w')"
  shows "\<exists>impl t n ectx wk. tg_view T (rg_implementation reg) = Some impl \<and> tool_grant d call = Inr (t, n)
    \<and> with_timeout (au_context call) t since span = Inr ectx \<and> tr_attempts r \<le> n
    \<and> retried (tool_attempt T impl c identity d ectx) w (tr_attempts r) wk
    \<and> tool_attempt T impl c identity d ectx (tr_attempts r) wk = (Inr r, w')"
proof -
  from assms obtain impl t n ectx where g: "tool_grant d call = Inr (t, n)" and i: "tg_view T (rg_implementation reg) = Some impl"
    and e: "with_timeout (au_context call) t since span = Inr ectx"
    and a: "tool_attempts (tool_attempt T impl c identity d ectx) n 1 w = (Inr r, w')"
    by (auto simp: tool_body_def abind_eq_Inr aresult_def araise_def split: option.splits)
  from tool_attempts_Inr [OF a] tool_grant_Inr [OF g] obtain k wk where k: "k \<le> n"
    "retried (tool_attempt T impl c identity d ectx) w k wk" "tool_attempt T impl c identity d ectx k wk = (Inr r, w')" by blast
  moreover have "tr_attempts r = k" using tool_attempt_Inr [OF k(3)] by simp
  ultimately show ?thesis using g i e by blast
qed

lemma tool_execute_Inr:
  assumes "tool_execute T c ctx span w = (Inr r, w')"
  shows "\<exists>identity resolved. cx_idempotency_key ctx = Some identity
    \<and> tool_resolve T (tl_tool c) (pw_registry w) = Inr resolved
    \<and> validate_value (pv_schemas (tg_env T)) (te_input (rt_descriptor resolved)) (tl_input c) = Inr ()
    \<and> validate_value (pv_schemas (tg_env T)) (te_output (rt_descriptor resolved)) (tr_output r) = Inr ()
    \<and> tr_tool r = tl_tool c \<and> tr_identity r = identity
    \<and> 1 \<le> tr_attempts r \<and> tr_attempts r \<le> to_attempts (te_policy (rt_descriptor resolved))
    \<and> tool_ran T c ctx (rt_descriptor resolved) (pv_clock (tg_env T) w) span r"
proof -
  define since where "since = pv_clock (tg_env T) w"
  from assms obtain identity resolved w1 where i: "cx_idempotency_key ctx = Some identity"
    and s: "tool_resolve T (tl_tool c) (pw_registry w) = Inr resolved"
    and v: "validate_value (pv_schemas (tg_env T)) (te_input (rt_descriptor resolved)) (tl_input c) = Inr ()"
    and t: "atry (tool_invoked T c ctx identity (rt_descriptor resolved) since span) (\<lambda>e. case e of
        CoreError det \<Rightarrow> abind (tool_failed T c ctx since det) (\<lambda>_. araise e) | _ \<Rightarrow> araise e) w1 = (Inr r, w')"
    unfolding tool_execute_def Let_def since_def [symmetric]
    by (auto simp: abind_eq_Inr aresult_def split: option.splits sum.splits)
  let ?d = "rt_descriptor resolved"
  have h: "(case e of CoreError det \<Rightarrow> abind (tool_failed T c ctx since det) (\<lambda>_. araise e) | _ \<Rightarrow> araise e) w2 \<noteq> (Inr r, w')" for e w2
    by (auto simp: abind_eq_Inr araise_def split: exn.splits)
  obtain y w2 where k: "tool_invoked T c ctx identity ?d since span w1 = (y, w2)" by fastforce
  with t h have "y = Inr r" by (cases y) (auto simp: atry_def)
  with k obtain v' w3 where inv: "tool_invocation c ctx ?d = Inr v'"
    and q: "invoke (tg_invoker T) v' (\<lambda>reg call. raced_body (tg_preempt T) (tool_body T c identity ?d since span reg call)) w1 = (Inr r, w3)"
    by (auto simp: tool_invoked_def abind_eq_Inr aresult_def areturn_def)
  from invocation_value_after_release [OF q] obtain reg call l wl wz where m: "mediated (tg_invoker T) v' w1 reg call l wl"
    and b: "tool_body T c identity ?d since span reg call wl = (Inr r, wz)" by auto
  from tool_body_Inr [OF b] obtain impl t n ectx wk where x: "tg_view T (rg_implementation reg) = Some impl" "tool_grant ?d call = Inr (t, n)"
    "with_timeout (au_context call) t since span = Inr ectx" "tr_attempts r \<le> n"
    "retried (tool_attempt T impl c identity ?d ectx) wl (tr_attempts r) wk"
    "tool_attempt T impl c identity ?d ectx (tr_attempts r) wk = (Inr r, wz)" by blast
  note a = tool_attempt_Inr [OF x(6)]
  have "tool_ran T c ctx ?d since span r"
    unfolding tool_ran_def using inv m x a by (intro exI conjI) (assumption | simp)+
  moreover have "tr_attempts r \<le> to_attempts (te_policy ?d)" using x(4) tool_grant_Inr [OF x(2)] by simp
  ultimately show ?thesis
    using i s v a retried_pos [OF x(5)] unfolding since_def by blast
qed

end
