(* ===== verification/Skill_Gateway.thy ===== *)
theory Skill_Gateway
  imports Tool_Gateway
begin

section \<open>Skills and their resources\<close>

text \<open>
  \<open>skill/model.py\<close>, \<open>skill/registry.py\<close>, \<open>skill/resolver.py\<close> and \<open>skill/gateway.py\<close>: descriptors,
  resource requests and loaded resources with their encodings, the typed view of the capability
  registry and the authorized load of one resource. The byte counts of a text and of the canonical
  text of a JSON value are parameters, which may raise as \<open>encode\<close> may.
\<close>

subsection \<open>Resource paths\<close>

text \<open>\<open>PurePosixPath(value)\<close> of a relative path: empty parts and single dots are dropped.\<close>

definition posix_parts :: "string \<Rightarrow> string list" where
  "posix_parts v = filter (\<lambda>p. p \<noteq> [] \<and> p \<noteq> ''.'') (split_on CHR ''/'' v)"

definition posix_str :: "string \<Rightarrow> string" where
  "posix_str v = (if posix_parts v = [] then ''.'' else join_with ''/'' (posix_parts v))"

definition require_resource_path :: "string \<Rightarrow> unit result" where
  "require_resource_path v =
     (if \<not> trimmed v \<or> CHR 0x5C \<in> set v \<or> hd v = CHR ''/''
      then Inl (ValueError ''Skill resource path must be a trimmed relative POSIX path'')
      else if (\<exists>p \<in> set (posix_parts v). p \<in> {[], ''.'', ''..''}) \<or> posix_str v \<noteq> v
      then Inl (ValueError ''Skill resource path must be normalized and traversal-free'')
      else Inr ())"

lemma dot_path_accepted: "require_resource_path ''.'' = Inr ()"
  by code_simp

lemma require_resource_path_Inr:
  "require_resource_path v = Inr () \<longleftrightarrow> trimmed v \<and> CHR 0x5C \<notin> set v \<and> hd v \<noteq> CHR ''/''
     \<and> (\<forall>p \<in> set (posix_parts v). p \<notin> {[], ''.'', ''..''}) \<and> posix_str v = v"
  by (auto simp: require_resource_path_def)

lemma posix_parts_all: "posix_parts v = split_on CHR ''/'' v \<longleftrightarrow> (\<forall>p \<in> set (split_on CHR ''/'' v). p \<noteq> [] \<and> p \<noteq> ''.'')"
  by (simp add: posix_parts_def filter_id_conv)

lemma posix_str_id: "posix_parts v \<noteq> [] \<Longrightarrow> posix_str v = v \<longleftrightarrow> posix_parts v = split_on CHR ''/'' v"
proof
  assume n: "posix_parts v \<noteq> []" and s: "posix_str v = v"
  have "CHR ''/'' \<notin> set p" if "p \<in> set (posix_parts v)" for p
    using that split_on_parts by (auto simp: posix_parts_def)
  from split_on_join [OF n this] s n show "posix_parts v = split_on CHR ''/'' v" by (simp add: posix_str_def)
next
  assume "posix_parts v \<noteq> []" "posix_parts v = split_on CHR ''/'' v"
  then show "posix_str v = v" by (simp add: posix_str_def join_split_on)
qed

text \<open>Apart from the single dot, an accepted path has no empty part, no dot and no double dot.\<close>

lemma resource_path_iff:
  assumes "v \<noteq> ''.''"
  shows "require_resource_path v = Inr () \<longleftrightarrow> trimmed v \<and> CHR 0x5C \<notin> set v
     \<and> (\<forall>p \<in> set (split_on CHR ''/'' v). p \<notin> {[], ''.'', ''..''})"
proof (cases "posix_parts v = []")
  case True
  have "\<not> (\<forall>p \<in> set (split_on CHR ''/'' v). p \<notin> {[], ''.'', ''..''})"
    using True split_on_nonempty [of "CHR ''/''" v] by (cases "split_on CHR ''/'' v") (auto simp: posix_parts_def split: if_splits)
  then show ?thesis using True assms by (simp add: require_resource_path_Inr posix_str_def)
next
  case False
  have slash: "[] \<in> set (split_on CHR ''/'' v)" if "hd v = CHR ''/''" "trimmed v"
    using that by (cases v) (auto simp: trimmed_def)
  show ?thesis
  proof (cases "posix_parts v = split_on CHR ''/'' v")
    case True
    with False slash show ?thesis unfolding require_resource_path_Inr posix_str_id [OF False] by auto
  next
    case n: False
    with posix_parts_all have "\<not> (\<forall>p \<in> set (split_on CHR ''/'' v). p \<notin> {[], ''.'', ''..''})" by auto
    with n show ?thesis unfolding require_resource_path_Inr posix_str_id [OF False] by blast
  qed
qed

subsection \<open>Descriptors\<close>

definition SKILL_RESOURCE_READ_ACTION :: action_ref where
  "SKILL_RESOURCE_READ_ACTION = \<lparr>ac_namespace = ''core'', ac_name = ''skill.resource.read'', ac_version = ''1''\<rparr>"

datatype skill_resource_kind = SKILL_INSTRUCTION | SKILL_EXAMPLE | SKILL_SCRIPT | SKILL_REFERENCE

fun skill_kind_value :: "skill_resource_kind \<Rightarrow> string" where
  "skill_kind_value SKILL_INSTRUCTION = ''instruction''"
| "skill_kind_value SKILL_EXAMPLE = ''example''"
| "skill_kind_value SKILL_SCRIPT = ''script''"
| "skill_kind_value SKILL_REFERENCE = ''reference''"

definition skill_kinds :: "(string \<times> skill_resource_kind) list" where
  "skill_kinds = List.map (\<lambda>x. (skill_kind_value x, x)) [SKILL_INSTRUCTION, SKILL_EXAMPLE, SKILL_SCRIPT, SKILL_REFERENCE]"

lemma skill_kind_decodes [simp]: "enum_of L cls skill_kinds (skill_kind_value x) = Inr x"
  by (cases x) (simp_all add: enum_of_def skill_kinds_def)

record skill_resource_descriptor =
  kd_id :: resource_id
  kd_kind :: skill_resource_kind
  kd_path :: string
  kd_media :: string
  kd_max :: int
  kd_action :: action_ref

definition mk_skill_resource_descriptor :: "skill_resource_descriptor \<Rightarrow> skill_resource_descriptor result" where
  "mk_skill_resource_descriptor d =
     rbind (require_resource_path (kd_path d)) (\<lambda>_.
     rbind (require_text (kd_media d) ''Skill resource media type'') (\<lambda>_.
     if kd_max d < 1 then Inl (ValueError ''Skill resource max_bytes must be positive'') else Inr d))"

definition skill_resource_descriptor_to_data :: "skill_resource_descriptor \<Rightarrow> json_object" where
  "skill_resource_descriptor_to_data d = [(''resource_id'', JStr (kd_id d)), (''kind'', JStr (skill_kind_value (kd_kind d))),
     (''path'', JStr (kd_path d)), (''media_type'', JStr (kd_media d)), (''max_bytes'', JInt (kd_max d)),
     (''action'', JObj (action_to_data (kd_action d)))]"

definition skill_resource_descriptor_from_data :: "pylib \<Rightarrow> json_object \<Rightarrow> skill_resource_descriptor result" where
  "skill_resource_descriptor_from_data L d =
     (if \<not> same_fields d [''resource_id'', ''kind'', ''path'', ''media_type'', ''max_bytes'', ''action'']
      then Inl (ValueError ''Skill resource descriptor fields are invalid'')
      else rbind (ident_at L d ''resource_id'') (\<lambda>i.
      rbind (rbind (field_str L d ''kind'') (enum_of L ''SkillResourceKind'' skill_kinds)) (\<lambda>k.
      rbind (field_str L d ''path'') (\<lambda>p. rbind (field_str L d ''media_type'') (\<lambda>m.
      rbind (int_at d ''max_bytes'' ''Skill resource max_bytes'') (\<lambda>n.
      rbind (rbind (object_at d ''action'' ''Skill resource action'') (action_from_data L)) (\<lambda>a.
      mk_skill_resource_descriptor \<lparr>kd_id = i, kd_kind = k, kd_path = p, kd_media = m, kd_max = n, kd_action = a\<rparr>)))))))"

definition skill_resource_descriptor_ok :: "skill_resource_descriptor \<Rightarrow> bool" where
  "skill_resource_descriptor_ok d \<longleftrightarrow> mk_skill_resource_descriptor d = Inr d \<and> identifier_ok (kd_id d) \<and> action_ok (kd_action d)"

lemma skill_resource_descriptor_roundtrip:
  "skill_resource_descriptor_ok d \<Longrightarrow> skill_resource_descriptor_from_data L (skill_resource_descriptor_to_data d) = Inr d"
  by (cases d) (simp add: skill_resource_descriptor_from_data_def skill_resource_descriptor_to_data_def
      skill_resource_descriptor_ok_def same_fields_def action_roundtrip)

record skill_descriptor =
  ks_ref :: capability_ref
  ks_title :: string
  ks_summary :: string
  ks_resources :: "skill_resource_descriptor list"

definition mk_skill_descriptor :: "skill_descriptor \<Rightarrow> skill_descriptor result" where
  "mk_skill_descriptor d =
     (if cp_namespace (ks_ref d) \<noteq> ''core'' \<or> cp_kind (ks_ref d) \<noteq> ''skill''
      then Inl (ValueError ''Skill descriptor requires a core Skill reference'')
      else if cp_version (ks_ref d) \<noteq> ''1'' then Inl (ValueError ''Skill descriptor contract version is unsupported'')
      else rbind (require_text (ks_title d) ''Skill title'') (\<lambda>_. rbind (require_text (ks_summary d) ''Skill summary'') (\<lambda>_.
      if \<not> distinct (List.map kd_id (ks_resources d)) \<or> \<not> distinct (List.map kd_path (ks_resources d))
      then Inl (ValueError ''Skill resources must have unique identities and paths'') else Inr d)))"

definition skill_resource_of :: "skill_descriptor \<Rightarrow> resource_id \<Rightarrow> skill_resource_descriptor result" where
  "skill_resource_of d i = (case find (\<lambda>r. kd_id r = i) (ks_resources d) of None \<Rightarrow> Inl (KeyError i) | Some r \<Rightarrow> Inr r)"

definition skill_descriptor_to_data :: "skill_descriptor \<Rightarrow> json_object" where
  "skill_descriptor_to_data d = [(''ref'', JObj (capability_to_data (ks_ref d))), (''title'', JStr (ks_title d)),
     (''summary'', JStr (ks_summary d)),
     (''resources'', JList (List.map (\<lambda>r. JObj (skill_resource_descriptor_to_data r)) (ks_resources d)))]"

definition skill_descriptor_from_data :: "pylib \<Rightarrow> json_object \<Rightarrow> skill_descriptor result" where
  "skill_descriptor_from_data L d =
     (if \<not> same_fields d [''ref'', ''title'', ''summary'', ''resources''] then Inl (ValueError ''Skill descriptor fields are invalid'')
      else rbind (rbind (object_at d ''ref'' ''Skill reference'') capability_from_data) (\<lambda>r.
      rbind (field_str L d ''title'') (\<lambda>t. rbind (field_str L d ''summary'') (\<lambda>s.
      rbind (rbind (array_at d ''resources'' ''Skill resources'')
        (objects ''Skill resource'' (skill_resource_descriptor_from_data L))) (\<lambda>rs.
      mk_skill_descriptor \<lparr>ks_ref = r, ks_title = t, ks_summary = s, ks_resources = rs\<rparr>)))))"

definition skill_descriptor_ok :: "skill_descriptor \<Rightarrow> bool" where
  "skill_descriptor_ok d \<longleftrightarrow> mk_skill_descriptor d = Inr d \<and> capability_ok (ks_ref d)
     \<and> list_all skill_resource_descriptor_ok (ks_resources d)"

lemma skill_resources_decode: "list_all skill_resource_descriptor_ok rs \<Longrightarrow>
    objects n (skill_resource_descriptor_from_data L) (List.map (\<lambda>r. JObj (skill_resource_descriptor_to_data r)) rs) = Inr rs"
  by (rule objects_inverse) (simp add: skill_resource_descriptor_roundtrip list_all_iff)

lemma skill_descriptor_roundtrip:
  "skill_descriptor_ok d \<Longrightarrow> skill_descriptor_from_data L (skill_descriptor_to_data d) = Inr d"
  by (cases d) (simp add: skill_descriptor_from_data_def skill_descriptor_to_data_def skill_descriptor_ok_def same_fields_def
      capability_roundtrip skill_resources_decode)

subsection \<open>Requests and loaded resources\<close>

definition skill_v1 :: "capability_ref \<Rightarrow> bool" where
  "skill_v1 c \<longleftrightarrow> cp_namespace c = ''core'' \<and> cp_kind c = ''skill'' \<and> cp_version c = ''1''"

record skill_resource_request =
  kq_skill :: capability_ref
  kq_resource :: resource_id
  kq_max :: int

definition mk_skill_resource_request :: "skill_resource_request \<Rightarrow> skill_resource_request result" where
  "mk_skill_resource_request q =
     (if \<not> skill_v1 (kq_skill q) then Inl (ValueError ''Skill resource request requires a Skill v1 reference'')
      else if kq_max q < 1 then Inl (ValueError ''Skill resource request max_bytes must be positive'') else Inr q)"

definition skill_resource_request_to_data :: "skill_resource_request \<Rightarrow> json_object" where
  "skill_resource_request_to_data q = [(''skill'', JObj (capability_to_data (kq_skill q))), (''resource_id'', JStr (kq_resource q)),
     (''max_bytes'', JInt (kq_max q))]"

definition skill_resource_request_from_data :: "pylib \<Rightarrow> json_object \<Rightarrow> skill_resource_request result" where
  "skill_resource_request_from_data L d =
     (if \<not> same_fields d [''skill'', ''resource_id'', ''max_bytes''] then Inl (ValueError ''Skill resource request fields are invalid'')
      else rbind (rbind (object_at d ''skill'' ''Skill reference'') capability_from_data) (\<lambda>r.
      rbind (ident_at L d ''resource_id'') (\<lambda>i. rbind (int_at d ''max_bytes'' ''Skill resource request max_bytes'') (\<lambda>n.
      mk_skill_resource_request \<lparr>kq_skill = r, kq_resource = i, kq_max = n\<rparr>))))"

record byte_counter =
  bc_text :: "string \<Rightarrow> nat result"
  bc_json :: "json \<Rightarrow> nat result"

record skill_resource =
  ku_skill :: capability_ref
  ku_descriptor :: skill_resource_descriptor
  ku_content :: content_block

definition mk_skill_resource :: "skill_resource \<Rightarrow> skill_resource result" where
  "mk_skill_resource r =
     (if \<not> skill_v1 (ku_skill r) then Inl (ValueError ''Skill resource requires a Skill v1 reference'')
      else if cb_media (ku_content r) \<noteq> Some (kd_media (ku_descriptor r))
      then Inl (ValueError ''Skill resource content media type does not match descriptor'') else Inr r)"

text \<open>
  The constructor of a content block admits only strings in texts and references. Counting encodes the
  text, which raises on a lone surrogate.
\<close>

definition skill_byte_count :: "byte_counter \<Rightarrow> skill_resource \<Rightarrow> int result" where
  "skill_byte_count B r = rbind (case (cb_kind (ku_content r), cb_value (ku_content r)) of
       (CONTENT_JSON, v) \<Rightarrow> bc_json B v
     | (_, JStr s) \<Rightarrow> bc_text B s
     | (_, v) \<Rightarrow> bc_json B v) (\<lambda>n. Inr (int n))"

definition skill_resource_to_data :: "byte_counter \<Rightarrow> skill_resource \<Rightarrow> json_object result" where
  "skill_resource_to_data B r = rbind (skill_byte_count B r) (\<lambda>n. Inr
     [(''skill'', JObj (capability_to_data (ku_skill r))),
      (''descriptor'', JObj (skill_resource_descriptor_to_data (ku_descriptor r))),
      (''content'', JObj (content_to_data (ku_content r))), (''byte_count'', JInt n)])"

definition skill_resource_from_data :: "pylib \<Rightarrow> byte_counter \<Rightarrow> json_object \<Rightarrow> skill_resource result" where
  "skill_resource_from_data L B d =
     (if \<not> same_fields d [''skill'', ''descriptor'', ''content'', ''byte_count''] then Inl (ValueError ''Skill resource fields are invalid'')
      else rbind (rbind (object_at d ''skill'' ''Skill reference'') capability_from_data) (\<lambda>r.
      rbind (rbind (object_at d ''descriptor'' ''Skill resource descriptor'') (skill_resource_descriptor_from_data L)) (\<lambda>k.
      rbind (rbind (object_at d ''content'' ''Skill content'') (content_from_data L)) (\<lambda>c.
      rbind (mk_skill_resource \<lparr>ku_skill = r, ku_descriptor = k, ku_content = c\<rparr>) (\<lambda>x.
      rbind (int_at d ''byte_count'' ''Skill resource byte_count'') (\<lambda>n.
      rbind (skill_byte_count B x) (\<lambda>m.
      if n \<noteq> m then Inl (ValueError ''Skill resource byte_count does not match content'') else Inr x)))))))"

lemma skill_resource_roundtrip:
  assumes "capability_ok (ku_skill r)" "skill_resource_descriptor_ok (ku_descriptor r)" "mk_content (ku_content r) = Inr (ku_content r)"
    "mk_skill_resource r = Inr r" "skill_resource_to_data B r = Inr d"
  shows "skill_resource_from_data L B d = Inr r"
  using assms by (cases r) (auto simp: skill_resource_from_data_def skill_resource_to_data_def same_fields_def rbind_eq_Inr
      capability_roundtrip skill_resource_descriptor_roundtrip content_roundtrip)

subsection \<open>The typed registry\<close>

text \<open>What a loader returns is a content block; an exception that it raises is the result of its action.\<close>

record ('i, 'w) skill_implementation =
  si_descriptor :: skill_descriptor
  si_load :: "skill_resource_descriptor \<Rightarrow> call_context \<Rightarrow> (('i, 'w) plugin_world, exn, content_block) action"

record resolved_skill =
  rk_descriptor :: skill_descriptor
  rk_owner :: plugin_ref
  rk_registration :: string

record ('i, 'w) skill_gateway =
  sg_env :: "('i, 'w) plugin_world provider_env"
  sg_actions :: action_registry
  sg_view :: "'i \<Rightarrow> ('i, 'w) skill_implementation option"
  sg_invoker :: "('i, 'w) invoker"
  sg_preempt :: "('i, 'w) plugin_world preemption"
  sg_bytes :: byte_counter

definition check_resource_actions :: "('i, 'w) skill_gateway \<Rightarrow> 'i registration \<Rightarrow> skill_resource_descriptor \<Rightarrow> unit result" where
  "check_resource_actions K reg r =
     (if action_key (kd_action r) \<notin> set (declared_actions reg)
      then Inl (core_error DENIED ''skill_permission_undeclared'' ''Skill resource Action is not declared by its Plugin capability'' False None)
      else if \<not> action_contains (sg_actions K) (kd_action r)
      then Inl (core_error DENIED ''skill_action_not_registered'' ''Skill resource Action is not registered'' False None)
      else Inr ())"

definition skill_resolve :: "('i, 'w) skill_gateway \<Rightarrow> capability_ref \<Rightarrow> 'i capability_registry \<Rightarrow> resolved_skill result" where
  "skill_resolve K r g =
     (if cp_namespace r \<noteq> ''core'' \<or> cp_kind r \<noteq> capability_type_value CAP_SKILL
      then Inl (core_error INVALID_REQUEST ''invalid_skill_reference'' ''Skill reference namespace or kind is invalid'' False None)
      else if cp_version r \<noteq> ''1''
      then Inl (core_error VERSION_MISMATCH ''skill_contract_version_mismatch'' ''Skill contract version is unsupported'' False None)
      else rbind (get_capability (registration_key r) g) (\<lambda>reg.
      if pl_name (rg_owner reg) \<noteq> cp_owner r
      then Inl (core_error CONFLICT ''skill_owner_mismatch'' ''Skill reference does not identify its owning Plugin'' False None)
      else case sg_view K (rg_implementation reg) of
        None \<Rightarrow> Inl (core_error PROTOCOL_FAILURE ''invalid_skill_implementation''
                  ''Plugin Skill implementation does not satisfy the Skill v1 contract'' False None)
      | Some impl \<Rightarrow>
          if ks_ref (si_descriptor impl) \<noteq> r
          then Inl (core_error PROTOCOL_FAILURE ''skill_descriptor_mismatch''
                 ''Skill descriptor identity does not match its registration'' False None)
          else rbind (rcheck (check_resource_actions K reg) (ks_resources (si_descriptor impl))) (\<lambda>_.
          Inr \<lparr>rk_descriptor = si_descriptor impl, rk_owner = rg_owner reg, rk_registration = rg_id reg\<rparr>)))"

text \<open>\<open>skill/resolver.py\<close>: the port of the Agent runtime, over both registries.\<close>

definition validate_skill :: "('i, 'w) skill_gateway \<Rightarrow> capability_ref \<Rightarrow> 'i capability_registry \<Rightarrow> unit result" where
  "validate_skill K r g = rbind (skill_resolve K r g) (\<lambda>_. Inr ())"

definition validate_tool :: "('i, 'w) tool_gateway \<Rightarrow> capability_ref \<Rightarrow> 'i capability_registry \<Rightarrow> unit result" where
  "validate_tool T r g = rbind (tool_resolve T r g) (\<lambda>_. Inr ())"

subsection \<open>Loading a resource\<close>

definition skill_payload :: "skill_resource_request \<Rightarrow> int \<Rightarrow> int \<Rightarrow> json_object" where
  "skill_payload q n latency = [(''skill_id'', JStr (cp_id (kq_skill q))), (''resource_id'', JStr (kq_resource q)),
     (''byte_count'', JInt n), (''latency_ms'', JInt latency)]"

definition skill_constraints :: "skill_resource_request \<Rightarrow> skill_resource_descriptor \<Rightarrow> json_object" where
  "skill_constraints q d = [(''resource_id'', JStr (kd_id d)), (''path'', JStr (kd_path d)), (''media_type'', JStr (kd_media d)),
     (''max_bytes'', JInt (kq_max q))]"

definition skill_grant :: "skill_resource_descriptor \<Rightarrow> int \<Rightarrow> authorized_call \<Rightarrow> int result" where
  "skill_grant d asked call =
     (let granted = gr_constraints (au_grant call) in
      if \<not> only_constraints granted [''resource_id'', ''path'', ''media_type'', ''max_bytes'']
      then Inl (invalid_grant ''Skill resource grant contains unknown constraints'')
      else rbind (rcheck (\<lambda>(k, v). raise_when (granted_or granted k v \<noteq> v) (invalid_grant (''Skill resource grant changes '' @ k)))
          [(''resource_id'', JStr (kd_id d)), (''path'', JStr (kd_path d)), (''media_type'', JStr (kd_media d))]) (\<lambda>_.
      case constraint_value granted ''max_bytes'' of
        JNull \<Rightarrow> Inr asked
      | JInt n \<Rightarrow> if n < 1 \<or> n > asked then Inl (invalid_grant ''Skill resource grant broadens max_bytes'') else Inr n
      | _ \<Rightarrow> Inl (invalid_grant ''Skill resource max_bytes grant is invalid'')))"

definition skill_protocol_failure :: "string \<Rightarrow> exn" where
  "skill_protocol_failure msg = core_error PROTOCOL_FAILURE ''skill_protocol_failure'' msg False None"

definition skill_budget_exceeded :: "string \<Rightarrow> exn" where
  "skill_budget_exceeded msg = core_error INVALID_REQUEST ''skill_resource_budget_exceeded'' msg False None"

definition skill_body ::
  "('i, 'w) skill_gateway \<Rightarrow> skill_resource_request \<Rightarrow> skill_resource_descriptor \<Rightarrow> 'i registration \<Rightarrow> authorized_call
    \<Rightarrow> (('i, 'w) plugin_world, exn, skill_resource) action" where
  "skill_body K q d reg call =
     abind (aresult (skill_grant d (kq_max q) call)) (\<lambda>n. case sg_view K (rg_implementation reg) of
         None \<Rightarrow> araise (skill_protocol_failure ''Skill implementation is invalid'')
       | Some impl \<Rightarrow>
           abind (guarded_provider ''skill_resource_loader_failure'' ''Skill resource loader failed'' (si_load impl d (au_context call))) (\<lambda>c.
           if cb_media c \<noteq> Some (kd_media d)
           then araise (skill_protocol_failure ''Skill resource media type does not match descriptor'')
           else abind (aresult (mk_skill_resource \<lparr>ku_skill = kq_skill q, ku_descriptor = d, ku_content = c\<rparr>)) (\<lambda>r.
           abind (aresult (skill_byte_count (sg_bytes K) r)) (\<lambda>b. if b > n
           then araise (skill_budget_exceeded ''Loaded Skill resource exceeds the effective byte budget'')
           else areturn r))))"

definition skill_access_resource :: "skill_resource_request \<Rightarrow> resource_ref result" where
  "skill_access_resource q =
     rbind (mk_identifier (cp_id (kq_skill q) @ '':'' @ kq_resource q)) (\<lambda>i.
     mk_resource ''core'' ''skill_resource'' i (Some (cp_owner (kq_skill q))))"

definition skill_invocation ::
  "skill_resource_request \<Rightarrow> call_context \<Rightarrow> skill_resource_descriptor \<Rightarrow> resource_ref \<Rightarrow> 'i invocation result" where
  "skill_invocation q ctx d resource =
     rbind (rbind (mk_identifier (cx_run_id ctx)) (core_principal PRINCIPAL_RUN)) (\<lambda>principal.
     Inr \<lparr>in_plugin = cp_owner (kq_skill q), in_key = registration_key (kq_skill q), in_action = kd_action d, in_resource = resource,
       in_context = ctx, in_principal = principal, in_constraints = map_of (skill_constraints q d),
       in_validator = Some (\<lambda>reg r. declaration_key (rg_declaration reg) = registration_key (kq_skill q) \<and> r = resource)\<rparr>)"

definition skill_completed ::
  "('i, 'w) skill_gateway \<Rightarrow> skill_resource_request \<Rightarrow> call_context \<Rightarrow> datetime \<Rightarrow> skill_resource \<Rightarrow> (('i, 'w) plugin_world, exn, unit) action" where
  "skill_completed K q ctx since r w =
     abind (aresult (skill_byte_count (sg_bytes K) r)) (\<lambda>b.
     emit (sg_env K) ''core.skill.resource_load_completed'' ctx (skill_payload q b (elapsed_ms (sg_env K) since w))) w"

definition skill_failed ::
  "('i, 'w) skill_gateway \<Rightarrow> skill_resource_request \<Rightarrow> call_context \<Rightarrow> datetime \<Rightarrow> error_detail \<Rightarrow> (('i, 'w) plugin_world, exn, unit) action" where
  "skill_failed K q ctx since e w = emit (sg_env K) ''core.skill.resource_load_failed'' ctx
     (skill_payload q 0 (elapsed_ms (sg_env K) since w)
       @ [(''category'', JStr (category_value (ed_category e))), (''error_code'', JStr (ed_code e))]) w"

definition skill_loaded ::
  "('i, 'w) skill_gateway \<Rightarrow> skill_resource_request \<Rightarrow> call_context \<Rightarrow> skill_resource_descriptor \<Rightarrow> resource_ref \<Rightarrow> datetime
    \<Rightarrow> (('i, 'w) plugin_world, exn, skill_resource) action" where
  "skill_loaded K q ctx d resource since =
     abind (aresult (skill_invocation q ctx d resource)) (\<lambda>v.
     abind (invoke (sg_invoker K) v (\<lambda>reg call. raced_body (sg_preempt K) (skill_body K q d reg call))) (\<lambda>r.
     abind (skill_completed K q ctx since r) (\<lambda>_. areturn r)))"

definition requested_resource :: "('i, 'w) skill_gateway \<Rightarrow> skill_resource_request \<Rightarrow> 'i capability_registry \<Rightarrow> skill_resource_descriptor result" where
  "requested_resource K q g =
     rbind (skill_resolve K (kq_skill q) g) (\<lambda>resolved.
     case skill_resource_of (rk_descriptor resolved) (kq_resource q) of
       Inl _ \<Rightarrow> Inl (core_error INVALID_REQUEST ''skill_resource_undeclared'' ''Skill resource is not declared'' False None)
     | Inr d \<Rightarrow> if kq_max q > kd_max d
         then Inl (skill_budget_exceeded ''Skill resource request exceeds its declared byte budget'') else Inr d)"

definition skill_load ::
  "('i, 'w) skill_gateway \<Rightarrow> skill_resource_request \<Rightarrow> call_context \<Rightarrow> (('i, 'w) plugin_world, exn, skill_resource) action" where
  "skill_load K q ctx w =
     (if cx_idempotency_key ctx = None
      then (Inl (core_error INVALID_REQUEST ''missing_invocation_identity'' ''Skill resource loading requires an invocation identity'' False None), w)
      else case requested_resource K q (pw_registry w) of
        Inl e \<Rightarrow> (Inl e, w)
      | Inr d \<Rightarrow> (let since = pv_clock (sg_env K) w in
          abind (emit (sg_env K) ''core.skill.resource_load_started'' ctx (skill_payload q 0 0)) (\<lambda>_.
          abind (aresult (skill_access_resource q)) (\<lambda>resource.
          atry (skill_loaded K q ctx d resource since) (\<lambda>e. case e of
              CoreError det \<Rightarrow> abind (skill_failed K q ctx since det) (\<lambda>_. araise e)
            | _ \<Rightarrow> araise e))) w))"

subsection \<open>What a load guarantees\<close>

lemma skill_grant_Inr: "skill_grant d asked call = Inr n \<Longrightarrow> n \<le> asked"
  by (auto simp: skill_grant_def Let_def rbind_eq_Inr split: json.splits if_splits)

lemma mk_skill_resource_self: "mk_skill_resource r = Inr r' \<Longrightarrow> r' = r"
  by (auto simp: mk_skill_resource_def split: if_splits)

lemma requested_resource_Inr:
  assumes "requested_resource K q g = Inr d"
  shows "kd_id d = kq_resource q \<and> kq_max q \<le> kd_max d
    \<and> (\<exists>resolved. skill_resolve K (kq_skill q) g = Inr resolved \<and> d \<in> set (ks_resources (rk_descriptor resolved)))"
proof -
  from assms obtain resolved where "skill_resolve K (kq_skill q) g = Inr resolved" "kq_max q \<le> kd_max d"
    and "find (\<lambda>r. kd_id r = kq_resource q) (ks_resources (rk_descriptor resolved)) = Some d"
    by (auto simp: requested_resource_def rbind_eq_Inr skill_resource_of_def split: sum.splits option.splits if_splits)
  then show ?thesis by (auto simp: find_Some_iff)
qed

lemma skill_body_Inr:
  assumes "skill_body K q d reg call w = (Inr r, w')"
  shows "\<exists>n impl. skill_grant d (kq_max q) call = Inr n \<and> sg_view K (rg_implementation reg) = Some impl
    \<and> ku_skill r = kq_skill q \<and> ku_descriptor r = d \<and> cb_media (ku_content r) = Some (kd_media d)
    \<and> (\<exists>b. skill_byte_count (sg_bytes K) r = Inr b \<and> b \<le> n) \<and> si_load impl d (au_context call) w = (Inr (ku_content r), w')"
proof -
  from assms obtain n impl c w1 where n: "skill_grant d (kq_max q) call = Inr n" "sg_view K (rg_implementation reg) = Some impl"
    and l: "guarded_provider ''skill_resource_loader_failure'' ''Skill resource loader failed'' (si_load impl d (au_context call)) w = (Inr c, w1)"
    and m: "cb_media c = Some (kd_media d)"
    and k: "abind (aresult (mk_skill_resource \<lparr>ku_skill = kq_skill q, ku_descriptor = d, ku_content = c\<rparr>)) (\<lambda>r.
        abind (aresult (skill_byte_count (sg_bytes K) r)) (\<lambda>b. if b > n
        then araise (skill_budget_exceeded ''Loaded Skill resource exceeds the effective byte budget'') else areturn r)) w1 = (Inr r, w')"
    by (auto simp: skill_body_def abind_eq_Inr aresult_def araise_def split: option.splits if_splits)
  from k have s: "mk_skill_resource \<lparr>ku_skill = kq_skill q, ku_descriptor = d, ku_content = c\<rparr> = Inr r" "w' = w1"
    "\<exists>b. skill_byte_count (sg_bytes K) r = Inr b \<and> b \<le> n"
    by (auto simp: abind_eq_Inr aresult_def araise_def areturn_def split: if_splits)
  with n m l mk_skill_resource_self [OF s(1)] show ?thesis by (simp add: guarded_provider_Inr)
qed

definition resource_loaded ::
  "('i, 'w) skill_gateway \<Rightarrow> skill_resource_request \<Rightarrow> call_context \<Rightarrow> skill_resource \<Rightarrow> bool" where
  "resource_loaded K q ctx r \<longleftrightarrow> (\<exists>resource v wi reg call l wl n impl wz.
     skill_invocation q ctx (ku_descriptor r) resource = Inr v \<and> mediated (sg_invoker K) v wi reg call l wl
     \<and> skill_grant (ku_descriptor r) (kq_max q) call = Inr n \<and> sg_view K (rg_implementation reg) = Some impl
     \<and> (\<exists>b. skill_byte_count (sg_bytes K) r = Inr b \<and> b \<le> n)
     \<and> si_load impl (ku_descriptor r) (au_context call) wl = (Inr (ku_content r), wz))"

lemma skill_load_Inr:
  assumes "skill_load K q ctx w = (Inr r, w')"
  shows "cx_idempotency_key ctx \<noteq> None \<and> requested_resource K q (pw_registry w) = Inr (ku_descriptor r)
    \<and> ku_skill r = kq_skill q \<and> cb_media (ku_content r) = Some (kd_media (ku_descriptor r))
    \<and> (\<exists>b. skill_byte_count (sg_bytes K) r = Inr b \<and> b \<le> kq_max q) \<and> resource_loaded K q ctx r"
proof -
  define since where "since = pv_clock (sg_env K) w"
  from assms obtain d w1 resource where i: "cx_idempotency_key ctx \<noteq> None" and d: "requested_resource K q (pw_registry w) = Inr d"
    and t: "atry (skill_loaded K q ctx d resource since) (\<lambda>e. case e of
        CoreError det \<Rightarrow> abind (skill_failed K q ctx since det) (\<lambda>_. araise e) | _ \<Rightarrow> araise e) w1 = (Inr r, w')"
    unfolding skill_load_def Let_def since_def [symmetric]
    by (auto simp: abind_eq_Inr aresult_def split: if_splits sum.splits)
  have h: "(case e of CoreError det \<Rightarrow> abind (skill_failed K q ctx since det) (\<lambda>_. araise e) | _ \<Rightarrow> araise e) w2 \<noteq> (Inr r, w')" for e w2
    by (auto simp: abind_eq_Inr araise_def split: exn.splits)
  obtain y w2 where k: "skill_loaded K q ctx d resource since w1 = (y, w2)" by fastforce
  with t h have "y = Inr r" by (cases y) (auto simp: atry_def)
  with k obtain v w3 where inv: "skill_invocation q ctx d resource = Inr v"
    and p: "invoke (sg_invoker K) v (\<lambda>reg call. raced_body (sg_preempt K) (skill_body K q d reg call)) w1 = (Inr r, w3)"
    by (auto simp: skill_loaded_def abind_eq_Inr aresult_def areturn_def)
  from invocation_value_after_release [OF p] obtain reg call l wl wz where m: "mediated (sg_invoker K) v w1 reg call l wl"
    and b: "skill_body K q d reg call wl = (Inr r, wz)" by auto
  from skill_body_Inr [OF b] obtain n impl where x: "skill_grant d (kq_max q) call = Inr n" "sg_view K (rg_implementation reg) = Some impl"
    "ku_skill r = kq_skill q" "ku_descriptor r = d" "cb_media (ku_content r) = Some (kd_media d)"
    "\<exists>b. skill_byte_count (sg_bytes K) r = Inr b \<and> b \<le> n" "si_load impl d (au_context call) wl = (Inr (ku_content r), wz)" by blast
  have "resource_loaded K q ctx r" unfolding resource_loaded_def x(4) using inv m x by blast
  moreover from x(6) obtain b where "skill_byte_count (sg_bytes K) r = Inr b" "b \<le> n" by blast
  ultimately show ?thesis using i d x(3-5) skill_grant_Inr [OF x(1)] by force
qed

end
