(* ===== verification/Event_Integration.thy ===== *)
theory Event_Integration
  imports Evaluation_Model Checkpoint_Record Plugin_Lifecycle Event_Dispatcher
begin

section \<open>Publishers of Core events\<close>

text \<open>
  \<open>event/integration.py\<close> and \<open>plugin/events.py\<close>: the callbacks of the other components as events of
  the dispatcher. Each builds the payload of one event type, creates the event for the Run of a call
  and publishes it in the name of the Run, or of the actor that is named. The span and trace that
  \<open>TraceContext.new()\<close> draws and the identifier of the fresh token are arguments, and so is SHA-256.
\<close>

subsection \<open>One event\<close>

definition core_request ::
  "string \<Rightarrow> delivery_class \<Rightarrow> call_context \<Rightarrow> scope_ref \<Rightarrow> json_object \<Rightarrow> event_request" where
  "core_request ty dc ctx scope values = \<lparr>er_type = ty, er_schema = ''1'', er_run_id = cx_run_id ctx,
     er_root_run_id = cx_root_run_id ctx, er_parent_run_id = cx_parent_run_id ctx, event_request.er_scope = scope,
     er_sensitivity = INTERNAL, er_delivery = dc,
     er_payload = List.map (\<lambda>(k, v). (k, \<lparr>pf_value = v, pf_sensitivity = INTERNAL\<rparr>)) values\<rparr>"

definition run_principal :: "run_id \<Rightarrow> principal result" where
  "run_principal i = rbind (mk_identifier i) (core_principal PRINCIPAL_RUN)"

definition publish_core ::
  "'w event_ports \<Rightarrow> string \<Rightarrow> delivery_class \<Rightarrow> call_context \<Rightarrow> scope_ref \<Rightarrow> json_object \<Rightarrow> event_id option \<Rightarrow> principal result
    \<Rightarrow> (dispatcher_state \<times> 'w, exn, unit) action" where
  "publish_core P ty dc ctx scope values i actor =
     abind (create_event P (core_request ty dc ctx scope values) ctx i) (\<lambda>e.
     abind (aresult actor) (\<lambda>p. publish P e ctx p))"

text \<open>The keys \<open>":".join(key)\<close> of actions, resources and scopes.\<close>

definition key_text :: "string \<Rightarrow> string \<times> string \<times> string \<Rightarrow> string" where
  "key_text sep k = (case k of (a, b, c) \<Rightarrow> join_with sep [a, b, c])"

subsection \<open>Runs, providers and evaluations\<close>

definition run_event_context :: "run \<Rightarrow> string \<Rightarrow> trace_context \<Rightarrow> call_context" where
  "run_event_context r token trace = \<lparr>cx_run_id = r_id r, cx_root_run_id = r_root_id r, cx_parent_run_id = r_parent_id r,
     cx_workspace_id = r_workspace_id r, cx_session_ref = r_session_ref r, cx_scope = r_scope r, cx_deadline = None,
     cx_cancellation = new_token token False, cx_trace = trace, cx_idempotency_key = None\<rparr>"

definition run_changed_payload :: "run_transition \<Rightarrow> json_object" where
  "run_changed_payload t = [(''previous_status'', JStr (status_value (r_status (rt_previous t)))),
     (''new_status'', JStr (status_value (r_status (rt_current t)))), (''attempt'', JInt (r_attempt (rt_current t))),
     (''reason'', JStr (rt_reason t)), (''state_version'', JInt (r_version (rt_current t)))]"

definition run_state_changed ::
  "'w event_ports \<Rightarrow> string \<Rightarrow> trace_context \<Rightarrow> run_transition \<Rightarrow> (dispatcher_state \<times> 'w, exn, unit) action" where
  "run_state_changed P token trace t =
     (let r = rt_current t in publish_core P (core_event_value EV_RUN_STATE_CHANGED) OBSERVABILITY
        (run_event_context r token trace) (r_scope r) (run_changed_payload t) None (run_principal (r_id r)))"

definition provider_event ::
  "'w event_ports \<Rightarrow> string \<Rightarrow> call_context \<Rightarrow> json_object \<Rightarrow> (dispatcher_state \<times> 'w, exn, unit) action" where
  "provider_event P ty ctx values =
     publish_core P ty OBSERVABILITY ctx (cx_scope ctx) values None (run_principal (cx_run_id ctx))"

definition evaluation_started_payload :: "evaluation_request \<Rightarrow> json_object" where
  "evaluation_started_payload q = [(''evaluation_id'', JStr (er_id q)), (''schema_ref'', JStr (key_text ''/'' (schema_key (er_input_schema q)))),
     (''policy_ref'', JStr (er_policy_ref q)), (''evaluator_id'', JStr (er_evaluator q)), (''profile_ref'', JStr (er_profile_ref q))]"

definition evaluation_started ::
  "'w event_ports \<Rightarrow> evaluation_request \<Rightarrow> call_context \<Rightarrow> (dispatcher_state \<times> 'w, exn, unit) action" where
  "evaluation_started P q ctx = publish_core P (core_event_value EV_EVALUATION_STARTED) OBSERVABILITY ctx
     (evaluation_request.er_scope q) (evaluation_started_payload q) None (run_principal (cx_run_id ctx))"

text \<open>References only: the evaluated value, measurements and constraints stay out.\<close>

definition verdict_payload :: "(json_object \<Rightarrow> string) \<Rightarrow> evaluation_request \<Rightarrow> evaluation_result \<Rightarrow> json_object" where
  "verdict_payload H q x = [(''evaluation_id'', JStr (er_id q)), (''schema_ref'', JStr (key_text ''/'' (schema_key (er_input_schema q)))),
     (''evaluator_id'', JStr (er_evaluator q)), (''profile_ref'', JStr (er_profile_ref q)),
     (''verdict'', JStr (verdict_value (ex_verdict x))), (''terminal_stage'', JStr (stage_value (ex_terminal x))),
     (''reason_code'', JStr (st_reason (List.last (ex_stages x)))),
     (''error_code'', opt_str (map_option ed_code (ex_error x))),
     (''evidence_refs'', JList (List.map (\<lambda>r. JObj (reference_to_data r)) (ex_evidence x))),
     (''result_digest'', JStr (result_digest H x))]"

definition verdict_event_id :: "(json_object \<Rightarrow> string) \<Rightarrow> evaluation_result \<Rightarrow> string" where
  "verdict_event_id H x = ''evaluation-verdict:'' @ result_digest H x"

definition verdict_recorded ::
  "'w event_ports \<Rightarrow> (json_object \<Rightarrow> string) \<Rightarrow> evaluation_request \<Rightarrow> evaluation_result \<Rightarrow> call_context
    \<Rightarrow> (dispatcher_state \<times> 'w, exn, unit) action" where
  "verdict_recorded P H q x ctx =
     (if ex_stages x = [] then araise (ForeignError ''IndexError'')
      else abind (aresult (mk_identifier (verdict_event_id H x))) (\<lambda>i.
      publish_core P (core_event_value EV_EVALUATION_VERDICT_RECORDED) AUDIT ctx (evaluation_request.er_scope q)
        (verdict_payload H q x) (Some i) (run_principal (cx_run_id ctx))))"

subsection \<open>Authorization\<close>

fun policy_effect_value :: "policy_effect \<Rightarrow> string" where
  "policy_effect_value ALLOW = ''allow''"
| "policy_effect_value DENY = ''deny''"
| "policy_effect_value INDETERMINATE = ''indeterminate''"

definition denied_payload :: "access_request \<Rightarrow> decision \<Rightarrow> json_object" where
  "denied_payload q x = [(''principal'', JStr (pr_id (aq_principal q))), (''action'', JStr (key_text ''.'' (action_key (aq_action q)))),
     (''resource'', JStr (key_text '':'' (resource_key (aq_resource q)))),
     (''reason_code'', JStr (case de_reason x of None \<Rightarrow> ''denied'' | Some [] \<Rightarrow> ''denied'' | Some s \<Rightarrow> s)),
     (''policy_effect'', JStr (policy_effect_value (de_effect x)))]"

definition authorization_denied ::
  "'w event_ports \<Rightarrow> access_request \<Rightarrow> decision \<Rightarrow> (dispatcher_state \<times> 'w, exn, unit) action" where
  "authorization_denied P q x = publish_core P (core_event_value EV_AUTHORIZATION_DENIED) AUDIT (aq_context q)
     (cx_scope (aq_context q)) (denied_payload q x) None (Inr (aq_principal q))"

definition cross_scope_payload :: "access_request \<Rightarrow> grant \<Rightarrow> json_object" where
  "cross_scope_payload q g = [(''principal'', JStr (pr_id (aq_principal q))), (''action'', JStr (key_text ''.'' (action_key (aq_action q)))),
     (''resource'', JStr (key_text '':'' (resource_key (aq_resource q)))),
     (''source_scope'', JStr (key_text '':'' (scope_key (gr_source_scope g)))),
     (''destination_scope'', JStr (key_text '':'' (scope_key (gr_effective_scope g)))),
     (''policy_version'', JStr (gr_policy_version g))]"

definition cross_scope_granted ::
  "'w event_ports \<Rightarrow> access_request \<Rightarrow> grant \<Rightarrow> (dispatcher_state \<times> 'w, exn, unit) action" where
  "cross_scope_granted P q g = publish_core P (core_event_value EV_AUTHORIZATION_CROSS_SCOPE_GRANTED) AUDIT (aq_context q)
     (gr_effective_scope g) (cross_scope_payload q g) None (Inr (aq_principal q))"

subsection \<open>Checkpoints and approvals\<close>

definition checkpoint_event ::
  "'w event_ports \<Rightarrow> core_event_type \<Rightarrow> delivery_class \<Rightarrow> call_context \<Rightarrow> json_object \<Rightarrow> principal option
    \<Rightarrow> (dispatcher_state \<times> 'w, exn, unit) action" where
  "checkpoint_event P t dc ctx values actor = publish_core P (core_event_value t) dc ctx (cx_scope ctx) values None
     (case actor of None \<Rightarrow> run_principal (cx_run_id ctx) | Some p \<Rightarrow> Inr p)"

definition saved_payload :: "checkpoint \<Rightarrow> json_object" where
  "saved_payload c = [(''checkpoint_ref'', JStr (ck_id c)), (''sequence'', JInt (ck_sequence c)),
     (''graph_version'', JStr (ck_graph_version c)), (''outcome'', JStr ''saved'')]"

definition checkpoint_saved :: "'w event_ports \<Rightarrow> checkpoint \<Rightarrow> call_context \<Rightarrow> (dispatcher_state \<times> 'w, exn, unit) action" where
  "checkpoint_saved P c ctx = checkpoint_event P EV_CHECKPOINT_SAVED OBSERVABILITY ctx (saved_payload c) None"

definition failed_payload :: "checkpoint \<Rightarrow> error_detail \<Rightarrow> json_object" where
  "failed_payload c e = [(''checkpoint_ref'', JStr (ck_id c)), (''sequence'', JInt (ck_sequence c)), (''error_code'', JStr (ed_code e)),
     (''category'', JStr (category_value (ed_category e))), (''outcome'', JStr ''failed'')]"

definition checkpoint_failed ::
  "'w event_ports \<Rightarrow> checkpoint \<Rightarrow> error_detail \<Rightarrow> call_context \<Rightarrow> (dispatcher_state \<times> 'w, exn, unit) action" where
  "checkpoint_failed P c e ctx = checkpoint_event P EV_CHECKPOINT_FAILED OBSERVABILITY ctx (failed_payload c e) None"

definition migration_payload :: "checkpoint \<Rightarrow> checkpoint \<Rightarrow> json_object" where
  "migration_payload c m = [(''source_checkpoint_ref'', JStr (ck_id c)), (''migrated_checkpoint_ref'', JStr (ck_id m)),
     (''source_graph_version'', JStr (ck_graph_version c)), (''target_graph_version'', JStr (ck_graph_version m))]"

definition migration_authorized ::
  "'w event_ports \<Rightarrow> checkpoint \<Rightarrow> checkpoint \<Rightarrow> call_context \<Rightarrow> (dispatcher_state \<times> 'w, exn, unit) action" where
  "migration_authorized P c m ctx = checkpoint_event P EV_CHECKPOINT_MIGRATION_AUTHORIZED AUDIT ctx (migration_payload c m) None"

definition fallback_payload :: "checkpoint_id \<Rightarrow> checkpoint \<Rightarrow> json_object" where
  "fallback_payload i c = [(''source_checkpoint_ref'', JStr i), (''fallback_checkpoint_ref'', JStr (ck_id c)),
     (''fallback_sequence'', JInt (ck_sequence c))]"

definition fallback_authorized ::
  "'w event_ports \<Rightarrow> checkpoint_id \<Rightarrow> checkpoint \<Rightarrow> call_context \<Rightarrow> (dispatcher_state \<times> 'w, exn, unit) action" where
  "fallback_authorized P i c ctx = checkpoint_event P EV_CHECKPOINT_FALLBACK_AUTHORIZED AUDIT ctx (fallback_payload i c) None"

definition requested_payload :: "approval_request \<Rightarrow> json_object" where
  "requested_payload q = [(''approval_id'', JStr (ar_approval_id q)), (''node_id'', JStr (ar_node_id q)),
     (''correlation_id'', JStr (ar_correlation_id q)), (''outcome'', JStr ''requested'')]"

definition approval_requested ::
  "'w event_ports \<Rightarrow> approval_request \<Rightarrow> call_context \<Rightarrow> (dispatcher_state \<times> 'w, exn, unit) action" where
  "approval_requested P q ctx = checkpoint_event P EV_APPROVAL_REQUESTED AUDIT ctx (requested_payload q) None"

definition decided_payload :: "approval_decision \<Rightarrow> json_object" where
  "decided_payload x = [(''approval_id'', JStr (ad_approval_id x)), (''node_id'', JStr (ad_node_id x)),
     (''correlation_id'', JStr (ad_correlation_id x)), (''actor'', JStr (pr_id (ad_actor x))),
     (''outcome'', JStr (approval_outcome_value (ad_outcome x)))]"

definition approval_decided ::
  "'w event_ports \<Rightarrow> approval_decision \<Rightarrow> call_context \<Rightarrow> (dispatcher_state \<times> 'w, exn, unit) action" where
  "approval_decided P x ctx = checkpoint_event P EV_APPROVAL_DECIDED AUDIT ctx (decided_payload x) (Some (ad_actor x))"

subsection \<open>Plugins\<close>

definition plugin_payload ::
  "plugin_ref \<Rightarrow> string \<Rightarrow> lifecycle_state \<Rightarrow> string \<Rightarrow> nat \<Rightarrow> string \<Rightarrow> string option \<Rightarrow> json_object" where
  "plugin_payload p source target operation leases outcome code =
     [(''plugin_id'', JStr (pl_name p)), (''plugin_version'', JStr (semver_str (pl_version p))), (''from_state'', JStr source),
      (''to_state'', JStr (lifecycle_state_value target)), (''operation_id'', JStr operation),
      (''active_lease_count'', JInt (int leases)), (''outcome'', JStr outcome)]
     @ (case code of None \<Rightarrow> [] | Some c \<Rightarrow> [(''error_code'', JStr c)])"

definition audit_event_id :: "(string \<Rightarrow> string) \<Rightarrow> core_event_type \<Rightarrow> plugin_ref \<Rightarrow> string \<Rightarrow> string \<Rightarrow> string" where
  "audit_event_id H t p operation outcome = ''plugin-audit:'' @ H (join_with [separator]
     [core_event_value t, pl_name p, semver_str (pl_version p), operation, outcome])"

definition plugin_publish ::
  "'w event_ports \<Rightarrow> (string \<Rightarrow> string) \<Rightarrow> core_event_type \<Rightarrow> delivery_class \<Rightarrow> plugin_ref \<Rightarrow> string \<Rightarrow> lifecycle_state \<Rightarrow> string
    \<Rightarrow> nat \<Rightarrow> string \<Rightarrow> call_context \<Rightarrow> string option \<Rightarrow> (dispatcher_state \<times> 'w, exn, unit) action" where
  "plugin_publish P H t dc p source target operation leases outcome ctx code =
     abind (aresult (if dc = AUDIT then rbind (mk_identifier (audit_event_id H t p operation outcome)) (\<lambda>i. Inr (Some i)) else Inr None)) (\<lambda>i.
     publish_core P (core_event_value t) dc ctx (cx_scope ctx) (plugin_payload p source target operation leases outcome code) i
       (run_principal (cx_run_id ctx)))"

definition transition_requested ::
  "'w event_ports \<Rightarrow> (string \<Rightarrow> string) \<Rightarrow> plugin_ref \<Rightarrow> string \<Rightarrow> lifecycle_state \<Rightarrow> string \<Rightarrow> nat \<Rightarrow> call_context
    \<Rightarrow> (dispatcher_state \<times> 'w, exn, unit) action" where
  "transition_requested P H p source target operation leases ctx =
     plugin_publish P H EV_PLUGIN_LIFECYCLE_TRANSITION_REQUESTED AUDIT p source target operation leases ''requested'' ctx None"

definition lifecycle_changed ::
  "'w event_ports \<Rightarrow> (string \<Rightarrow> string) \<Rightarrow> plugin_ref \<Rightarrow> string \<Rightarrow> lifecycle_state \<Rightarrow> string \<Rightarrow> nat \<Rightarrow> call_context
    \<Rightarrow> (dispatcher_state \<times> 'w, exn, unit) action" where
  "lifecycle_changed P H p source target operation leases ctx =
     plugin_publish P H EV_PLUGIN_LIFECYCLE_CHANGED OBSERVABILITY p source target operation leases ''changed'' ctx None"

definition lifecycle_failed ::
  "'w event_ports \<Rightarrow> (string \<Rightarrow> string) \<Rightarrow> plugin_ref \<Rightarrow> string \<Rightarrow> lifecycle_state \<Rightarrow> string \<Rightarrow> nat \<Rightarrow> error_detail \<Rightarrow> call_context
    \<Rightarrow> (dispatcher_state \<times> 'w, exn, unit) action" where
  "lifecycle_failed P H p source target operation leases e ctx =
     plugin_publish P H EV_PLUGIN_LIFECYCLE_FAILED AUDIT p source target operation leases ''failed'' ctx (Some (ed_code e))"

subsection \<open>What is published\<close>

text \<open>Every pair of a Core event type and a payload that one of the publishers builds.\<close>

inductive published :: "core_event_type \<Rightarrow> json_object \<Rightarrow> bool" where
  run: "published EV_RUN_STATE_CHANGED (run_changed_payload t)"
| started: "published EV_EVALUATION_STARTED (evaluation_started_payload q)"
| verdict: "published EV_EVALUATION_VERDICT_RECORDED (verdict_payload H q x)"
| denied: "published EV_AUTHORIZATION_DENIED (denied_payload a d)"
| cross: "published EV_AUTHORIZATION_CROSS_SCOPE_GRANTED (cross_scope_payload a g)"
| saved: "published EV_CHECKPOINT_SAVED (saved_payload c)"
| failed: "published EV_CHECKPOINT_FAILED (failed_payload c e)"
| migrated: "published EV_CHECKPOINT_MIGRATION_AUTHORIZED (migration_payload c m)"
| fallback: "published EV_CHECKPOINT_FALLBACK_AUTHORIZED (fallback_payload i c)"
| requested: "published EV_APPROVAL_REQUESTED (requested_payload r)"
| decided: "published EV_APPROVAL_DECIDED (decided_payload y)"
| plugin_requested: "published EV_PLUGIN_LIFECYCLE_TRANSITION_REQUESTED (plugin_payload p a b k n ''requested'' None)"
| plugin_changed: "published EV_PLUGIN_LIFECYCLE_CHANGED (plugin_payload p a b k n ''changed'' None)"
| plugin_failed: "published EV_PLUGIN_LIFECYCLE_FAILED (plugin_payload p a b k n ''failed'' (Some code))"

lemmas payload_defs = run_changed_payload_def evaluation_started_payload_def verdict_payload_def denied_payload_def
  cross_scope_payload_def saved_payload_def failed_payload_def migration_payload_def fallback_payload_def
  requested_payload_def decided_payload_def plugin_payload_def

lemma published_complete: "published t values \<Longrightarrow> set (required_fields t) \<subseteq> fst ` set values"
  by (induction rule: published.induct) (simp_all add: payload_defs)

lemma published_trimmed: "published t values \<Longrightarrow> \<forall>k \<in> fst ` set values. trimmed k"
  by (induction rule: published.induct) (simp_all add: payload_defs trimmed_def py_strip_def is_space_def)

lemma core_request_validates:
  assumes "core_schema_registry = Inr R" "set (required_fields t) \<subseteq> fst ` set values"
    "ev_type e = core_event_value t" "ev_schema e = ''1''" "visible_data (ev_payload e) = values"
  shows "validate_event R e = Inr ()"
proof -
  obtain r where r: "core_schema_registry = Inr r"
    "\<forall>t. r (core_event_value t, ''1'') = Some (require_payload_fields (required_fields t))"
    using core_schema_registry_total by blast
  have "fst ` set values = fst ` set (ev_payload e)"
    unfolding assms(5) [symmetric] visible_data_def by (force simp: image_iff split: prod.splits)
  moreover from trans [OF assms(1) [symmetric] r(1)] have "R = r" by (rule sum.inject(2) [THEN iffD1])
  ultimately show ?thesis using assms r(2) by (simp add: validate_event_def require_payload_fields_iff)
qed

subsection \<open>Identities that are used again\<close>

lemma create_event_new:
  assumes "create_event P q ctx (Some i) (s, w) = (Inr e, (s', w'))" "ds_created s i = None"
  shows "ds_created s' i = Some e \<and> ev_payload e = er_payload q \<and> same_logical_event e q ctx \<and> mk_payload (er_payload q) = Inr (er_payload q)"
proof -
  from assms have m: "make_event P q ctx (Some i) w = (Inr e, w')" and s: "s' = s\<lparr>ds_created := (ds_created s)(ev_id e \<mapsto> e)\<rparr>"
    by (auto simp: create_event_def split: prod.splits sum.splits)
  from m obtain at n p where p: "mk_payload (er_payload q) = Inr p" and k: "mk_event (new_event i q ctx at n p) = Inr e"
    by (auto simp: make_event_def abind_eq_Inr aresult_def areturn_def)
  from p have "p = er_payload q" by (auto simp: mk_payload_def split: if_splits)
  moreover from k have "e = new_event i q ctx at n p" by (auto simp: mk_event_def split: if_splits)
  ultimately show ?thesis using s p by (simp add: new_event_def same_logical_event_def)
qed

text \<open>A verdict that is recorded again reaches the event of the first record, without a new sequence.\<close>

lemma payload_eq_refl: "distinct (List.map fst p) \<Longrightarrow> list_all (\<lambda>(k, f). keys_distinct (pf_value f)) p \<Longrightarrow> payload_eq p p"
proof -
  assume d: "distinct (List.map fst p)" and k: "list_all (\<lambda>(k, f). keys_distinct (pf_value f)) p"
  have "map_of p a = Some f \<and> json_eq (pf_value f) (pf_value f)" if "(a, f) \<in> set p" for a f
    using map_of_is_SomeI [OF d that] k that by (auto simp: list_all_iff intro: json_eq_refl)
  then show ?thesis by (fastforce simp: payload_eq_def list_all_iff)
qed

lemma keys_distinct_scope: "keys_distinct (scope_to_data s)"
proof (induction s)
  case (ScopeRef n k i p)
  have "keys_distinct (scope_option_to_data p)" using ScopeRef by (cases p) auto
  then show ?case by simp
qed

lemma keys_distinct_reference: "keys_distinct (JObj (reference_to_data r))"
  by (auto simp: reference_to_data_def resource_to_data_def keys_distinct_scope opt_str_def split: option.splits)

lemma create_event_again:
  assumes "create_event P q ctx (Some i) (s, w) = (Inr e, (s', w'))" "ds_created s i = None"
    and "payload_eq (er_payload q) (er_payload q)"
  shows "create_event P q ctx (Some i) (s', w'') = (Inr e, (s', w''))"
  using create_event_new [OF assms(1,2)] assms(3) by (simp add: create_event_def)

text \<open>
  An audited Plugin operation has one identity per idempotency key, but its payload tells the state
  it starts from: a retry from another state is refused by the dispatcher.
\<close>

lemma reused_audit_identity:
  assumes "create_event P (core_request ty dc ctx sc (plugin_payload p a target k n oc code)) ctx (Some i) (s, w) = (Inr e, (s', w'))"
    and "ds_created s i = None" "a \<noteq> b"
  shows "create_event P (core_request ty dc ctx' sc' (plugin_payload p b target k n' oc code)) ctx' (Some i) (s', w'') = (Inl event_reused, (s', w''))"
proof -
  note n = create_event_new [OF assms(1,2)]
  have "\<not> payload_eq (er_payload (core_request ty dc ctx sc (plugin_payload p a target k n oc code)))
      (er_payload (core_request ty dc ctx' sc' (plugin_payload p b target k n' oc code)))"
    using assms(3) by (simp add: payload_eq_def core_request_def plugin_payload_def json_eq.simps json_number_of_def)
  moreover have "mk_payload (er_payload (core_request ty dc ctx' sc' (plugin_payload p b target k n' oc code)))
      = Inr (er_payload (core_request ty dc ctx' sc' (plugin_payload p b target k n' oc code)))"
    using n by (simp add: mk_payload_def core_request_def plugin_payload_def split: option.splits if_splits)
  ultimately show ?thesis using n by (auto simp: create_event_def)
qed

end
