(* ===== verification/Plugin_Manager.thy ===== *)
theory Plugin_Manager
  imports Provider_Boundary Plugin_Invocation Plugin_Dependency
begin

section \<open>The Plugin manager\<close>

text \<open>
  \<open>plugin/manager.py\<close> and the data of \<open>plugin/loader.py\<close>: authorized loading, activation, draining,
  cancelling of a drain, unloading and invocation, over the capability registry and the lifecycle
  controller of the invocations. The manager's own state is the table of prepared Plugins. Loaders
  and hooks are objects, referred to by \<open>'l\<close> and \<open>'h\<close>; what they do, like the policy, the event
  publisher and the clock, is a parameter that acts on the whole world, so that whatever other tasks
  do during an await is part of it. The lock of one Plugin makes an operation on it one step.
\<close>

subsection \<open>Prepared Plugins\<close>

record 'h loaded_hooks =
  ph_on_load :: "'h option"
  ph_on_activate :: "'h option"
  ph_on_drain :: "'h option"
  ph_on_unload :: "'h option"

fun hook_of :: "'h loaded_hooks \<Rightarrow> plugin_hook \<Rightarrow> 'h option" where
  "hook_of hs ON_LOAD = ph_on_load hs"
| "hook_of hs ON_ACTIVATE = ph_on_activate hs"
| "hook_of hs ON_DRAIN = ph_on_drain hs"
| "hook_of hs ON_UNLOAD = ph_on_unload hs"

record ('i, 'h) prepared_plugin =
  pd_manifest :: plugin_manifest
  pd_capabilities :: "'i loaded_capability list"
  pd_hooks :: "'h loaded_hooks"

record ('i, 'h, 'l, 'w) manager_rest =
  mt_prepared :: "string \<rightharpoonup> ('i, 'h) prepared_plugin \<times> 'l"
  mt_world :: 'w

type_synonym ('i, 'h, 'l, 'w) manager_world = "('i, ('i, 'h, 'l, 'w) manager_rest) plugin_world"

type_synonym ('i, 'h, 'l, 'w, 'a) managed = "(('i, 'h, 'l, 'w) manager_world, exn, 'a) action"

record ('i, 'h, 'l, 'w) plugin_manager =
  pm_invoker :: "('i, ('i, 'h, 'l, 'w) manager_rest) invoker"
  pm_validate :: "json_object \<Rightarrow> plugin_manifest result"
  pm_core :: semver
  pm_represents :: "plugin_permission \<Rightarrow> bool"
  pm_registration :: "json_object \<Rightarrow> string"
  pm_prepare :: "'l \<Rightarrow> plugin_manifest \<Rightarrow> call_context \<Rightarrow> ('i, 'h, 'l, 'w, ('i, 'h) prepared_plugin) managed"
  pm_cleanup :: "'l \<Rightarrow> ('i, 'h) prepared_plugin \<Rightarrow> call_context \<Rightarrow> ('i, 'h, 'l, 'w, unit) managed"
  pm_hook :: "'h \<Rightarrow> call_context \<Rightarrow> ('i, 'h, 'l, 'w, unit) managed"
  pm_preempt :: "('i, 'h, 'l, 'w) manager_world preemption"
  pm_wakes :: "string \<Rightarrow> call_context \<Rightarrow> ('i, 'h, 'l, 'w) manager_world
                 \<Rightarrow> ('i, 'h, 'l, 'w) manager_world list \<times> exn \<times> ('i, 'h, 'l, 'w) manager_world"
  pm_requested :: "plugin_ref \<Rightarrow> string \<Rightarrow> lifecycle_state \<Rightarrow> string \<Rightarrow> nat \<Rightarrow> call_context \<Rightarrow> ('i, 'h, 'l, 'w, unit) managed"
  pm_changed :: "plugin_ref \<Rightarrow> string \<Rightarrow> lifecycle_state \<Rightarrow> string \<Rightarrow> nat \<Rightarrow> call_context \<Rightarrow> ('i, 'h, 'l, 'w, unit) managed"
  pm_failed :: "plugin_ref \<Rightarrow> string \<Rightarrow> lifecycle_state \<Rightarrow> string \<Rightarrow> nat \<Rightarrow> error_detail \<Rightarrow> call_context \<Rightarrow> ('i, 'h, 'l, 'w, unit) managed"

definition awaited_in :: "('i, 'h, 'l, 'w) plugin_manager \<Rightarrow> call_context \<Rightarrow> ('i, 'h, 'l, 'w, 'a) managed \<Rightarrow> ('i, 'h, 'l, 'w, 'a) managed" where
  "awaited_in M ctx m = await_provider ctx (iv_token (pm_invoker M)) (iv_clock (pm_invoker M)) (raced_body (pm_preempt M) m)"

definition on_registry :: "('i capability_registry, exn, 'a) action \<Rightarrow> (('i, 'r) plugin_world, exn, 'a) action" where
  "on_registry m w = (case m (pw_registry w) of (r, g) \<Rightarrow> (r, w\<lparr>pw_registry := g\<rparr>))"

definition put_prepared :: "string \<Rightarrow> (('i, 'h) prepared_plugin \<times> 'l) option \<Rightarrow> ('i, 'h, 'l, 'w, unit) managed" where
  "put_prepared p x w = (Inr (), w\<lparr>pw_rest := (pw_rest w)\<lparr>mt_prepared := (mt_prepared (pw_rest w))(p := x)\<rparr>\<rparr>)"

definition prepared_of :: "string \<Rightarrow> ('i, 'h, 'l, 'w, ('i, 'h) prepared_plugin \<times> 'l) managed" where
  "prepared_of p w = (case mt_prepared (pw_rest w) p of
       None \<Rightarrow> (Inl (plugin_error UNAVAILABLE ''plugin_not_loaded'' ''Plugin has no prepared loader state'' True (Some p) None), w)
     | Some x \<Rightarrow> (Inr x, w))"

subsection \<open>Actions, errors and events\<close>

definition plugin_action :: "string \<Rightarrow> action_ref" where
  "plugin_action n = \<lparr>ac_namespace = ''core'', ac_name = n, ac_version = ''1''\<rparr>"

definition manager_authorized ::
  "('i, 'h, 'l, 'w) plugin_manager \<Rightarrow> string \<Rightarrow> string \<Rightarrow> call_context \<Rightarrow> principal \<Rightarrow> (call_context \<Rightarrow> ('i, 'h, 'l, 'w, 'a) managed)
    \<Rightarrow> ('i, 'h, 'l, 'w, 'a) managed" where
  "manager_authorized M act p ctx actor effect =
     abind (aresult (rbind (mk_identifier p) (\<lambda>i. mk_resource ''core'' ''plugin'' i (Some p)))) (\<lambda>resource.
     dispatch (iv_dispatcher (pm_invoker M)) \<lparr>aq_principal = actor, aq_action = plugin_action act, aq_resource = resource,
       aq_scope = cx_scope ctx, aq_context = ctx, aq_constraints = Map.empty\<rparr> (\<lambda>call. effect (au_context call)))"

definition operation_id :: "call_context \<Rightarrow> string \<Rightarrow> string \<Rightarrow> string result" where
  "operation_id ctx act p = (case cx_idempotency_key ctx of
       None \<Rightarrow> Inl (plugin_error INVALID_REQUEST ''missing_invocation_identity''
                 ''Plugin lifecycle operation requires an idempotency key'' False (Some p) None)
     | Some k \<Rightarrow> Inr (act @ '':'' @ p @ '':'' @ k))"

text \<open>The context of cleanup and reporting has no deadline and a fresh token, here the empty one.\<close>

definition recovery_context :: "call_context \<Rightarrow> call_context" where
  "recovery_context ctx = ctx\<lparr>cx_deadline := None, cx_cancellation := new_token [] False\<rparr>"

definition invalid_state :: "string \<Rightarrow> string \<Rightarrow> exn" where
  "invalid_state p msg = plugin_error CONFLICT ''invalid_lifecycle_transition'' msg False (Some p) None"

definition plugin_failure :: "string \<Rightarrow> string \<Rightarrow> string \<Rightarrow> exn \<Rightarrow> exn" where
  "plugin_failure p code msg e = plugin_error_from PROTOCOL_FAILURE code msg True (Some (exn_type e)) (Some p) None"

definition normalize_drain_error :: "string \<Rightarrow> exn \<Rightarrow> exn" where
  "normalize_drain_error p e = (case e of
       CoreError d \<Rightarrow> if ed_category d \<noteq> TIMEOUT then e
         else plugin_error_from TIMEOUT ''drain_timeout'' ''Plugin drain deadline expired before active leases reached zero''
           True (Some (ed_code d)) (Some p) None
     | _ \<Rightarrow> e)"

definition lease_count :: "string \<Rightarrow> ('i, 'h, 'l, 'w, nat) managed" where
  "lease_count p = on_lifecycle (active_lease_count p)"

definition emit_requested ::
  "('i, 'h, 'l, 'w) plugin_manager \<Rightarrow> plugin_record \<Rightarrow> lifecycle_state \<Rightarrow> string \<Rightarrow> call_context \<Rightarrow> ('i, 'h, 'l, 'w, unit) managed" where
  "emit_requested M r target operation ctx =
     abind (lease_count (pl_name (record_ref r))) (\<lambda>n.
     pm_requested M (record_ref r) (lifecycle_state_value (ps_state r)) target operation n ctx)"

definition emit_changed ::
  "('i, 'h, 'l, 'w) plugin_manager \<Rightarrow> plugin_ref \<Rightarrow> string \<Rightarrow> lifecycle_state \<Rightarrow> string \<Rightarrow> call_context \<Rightarrow> ('i, 'h, 'l, 'w, unit) managed" where
  "emit_changed M p source target operation ctx =
     atry (abind (lease_count (pl_name p)) (\<lambda>n. pm_changed M p source target operation n (recovery_context ctx))) (\<lambda>_. areturn ())"

definition emit_failed ::
  "('i, 'h, 'l, 'w) plugin_manager \<Rightarrow> plugin_ref \<Rightarrow> string \<Rightarrow> lifecycle_state \<Rightarrow> string \<Rightarrow> exn \<Rightarrow> call_context \<Rightarrow> ('i, 'h, 'l, 'w, unit) managed" where
  "emit_failed M p source target operation e ctx =
     abind (lease_count (pl_name p)) (\<lambda>n. case e of
         CoreError d \<Rightarrow> pm_failed M p source target operation n d (recovery_context ctx)
       | _ \<Rightarrow> araise e)"

text \<open>The report of a failure against the current record, then the error.\<close>

definition fail_operation ::
  "('i, 'h, 'l, 'w) plugin_manager \<Rightarrow> string \<Rightarrow> lifecycle_state \<Rightarrow> string \<Rightarrow> call_context \<Rightarrow> exn \<Rightarrow> ('i, 'h, 'l, 'w, 'a) managed" where
  "fail_operation M p target operation ctx e =
     abind (on_lifecycle (get_record p)) (\<lambda>r.
     abind (emit_failed M (record_ref r) (lifecycle_state_value (ps_state r)) target operation e ctx) (\<lambda>_. araise e))"

text \<open>A transition from the version that was read.\<close>

definition step_to ::
  "string \<Rightarrow> plugin_record \<Rightarrow> lifecycle_state \<Rightarrow> receipt option \<Rightarrow> bool \<Rightarrow> ('i, 'h, 'l, 'w, plugin_record) managed" where
  "step_to p r target receipt clear = on_lifecycle (plugin_transition p target (Some (ps_version r)) receipt clear)"

definition run_hook ::
  "('i, 'h, 'l, 'w) plugin_manager \<Rightarrow> ('i, 'h) prepared_plugin \<Rightarrow> plugin_hook \<Rightarrow> call_context \<Rightarrow> ('i, 'h, 'l, 'w, unit) managed" where
  "run_hook M x h ctx = (case hook_of (pd_hooks x) h of
       None \<Rightarrow> areturn ()
     | Some f \<Rightarrow> awaited_in M ctx (pm_hook M f ctx))"

text \<open>A hook that has not succeeded yet runs, and its success is marked when the manifest declares it.\<close>

definition hook_once ::
  "('i, 'h, 'l, 'w) plugin_manager \<Rightarrow> ('i, 'h) prepared_plugin \<Rightarrow> plugin_hook \<Rightarrow> string \<Rightarrow> plugin_record \<Rightarrow> call_context
    \<Rightarrow> ('i, 'h, 'l, 'w, plugin_record) managed" where
  "hook_once M x h p r ctx =
     (if h \<in> ps_hooks r then areturn r
      else abind (run_hook M x h ctx) (\<lambda>_.
        if h \<in> mf_lifecycle (ps_manifest r) then on_lifecycle (mark_hook p h) else areturn r))"

subsection \<open>Loading\<close>

definition hooks_match :: "'h loaded_hooks \<Rightarrow> plugin_hook set \<Rightarrow> bool" where
  "hooks_match hs declared \<longleftrightarrow> list_all (\<lambda>h. (hook_of hs h \<noteq> None) = (h \<in> declared)) [ON_LOAD, ON_ACTIVATE, ON_DRAIN, ON_UNLOAD]"

definition load_failed :: "string \<Rightarrow> string \<Rightarrow> exn" where
  "load_failed p msg = plugin_error PROTOCOL_FAILURE ''plugin_load_failed'' msg False (Some p) None"

definition validate_prepared :: "('i, 'h) prepared_plugin \<Rightarrow> plugin_manifest \<Rightarrow> unit result" where
  "validate_prepared x m =
     (let declared = List.map declaration_key (mf_provides m); loaded = List.map loaded_key (pd_capabilities x) in
      if \<not> manifest_eq (pd_manifest x) m then Inl (load_failed (mf_name m) ''Loader returned a different Plugin manifest'')
      else if set loaded \<noteq> set declared \<or> \<not> distinct loaded
      then Inl (load_failed (mf_name m) ''Loader capabilities do not exactly match the manifest'')
      else if \<not> hooks_match (pd_hooks x) (mf_lifecycle m)
      then Inl (load_failed (mf_name m) ''Loader hooks do not exactly match the manifest'')
      else Inr ())"

definition catalog_snapshot :: "('i, 'h, 'l, 'w, catalog) managed" where
  "catalog_snapshot w =
     abind (on_lifecycle active_plugin_refs) (\<lambda>refs w.
       (let regs = sn_registrations (cr_snapshot (pw_registry w)) in
        (mk_catalog \<lparr>ct_plugins = refs, ct_capabilities = List.map (\<lambda>k. case regs k of
           Some reg \<Rightarrow> \<lparr>cc_owner = rg_owner reg, cc_declaration = rg_declaration reg\<rparr>) (sorted_list_of_set (dom regs))\<rparr>, w))) w"

definition check_unregistered :: "plugin_manifest \<Rightarrow> ('i, 'h, 'l, 'w, unit) managed" where
  "check_unregistered m w =
     (rcheck (\<lambda>c. raise_when (declaration_key c \<in> dom (sn_registrations (cr_snapshot (pw_registry w))))
        (plugin_error CONFLICT ''registration_conflict'' ''Capability is already registered'' False (Some (mf_name m)) (Some (cd_id c))))
        (mf_provides m), w)"

text \<open>Everything that must hold before the manifest is known to the lifecycle controller.\<close>

definition load_checks :: "('i, 'h, 'l, 'w) plugin_manager \<Rightarrow> plugin_manifest \<Rightarrow> ('i, 'h, 'l, 'w, unit) managed" where
  "load_checks M m =
     abind (aresult (check_local (pm_core M) (pm_represents M) m)) (\<lambda>_.
     abind catalog_snapshot (\<lambda>avail.
     abind (aresult (resolve [m] avail)) (\<lambda>_. check_unregistered m)))"

definition load_discover ::
  "('i, 'h, 'l, 'w) plugin_manager \<Rightarrow> plugin_manifest \<Rightarrow> string \<Rightarrow> call_context \<Rightarrow> ('i, 'h, 'l, 'w, plugin_record) managed" where
  "load_discover M m operation ctx =
     abind (pm_requested M (manifest_ref m) ''absent'' LOADED operation 0 ctx) (\<lambda>_.
     abind (on_lifecycle (discover m)) (\<lambda>r.
     abind (emit_changed M (manifest_ref m) ''absent'' (ps_state r) operation ctx) (\<lambda>_.
     if ps_state r \<noteq> DISCOVERED then areturn r
     else abind (step_to (mf_name m) r VALIDATED None False) (\<lambda>r'.
       abind (emit_changed M (manifest_ref m) (lifecycle_state_value (ps_state r)) (ps_state r') operation ctx) (\<lambda>_. areturn r')))))"

definition load_install ::
  "('i, 'h, 'l, 'w) plugin_manager \<Rightarrow> plugin_manifest \<Rightarrow> 'l \<Rightarrow> ('i, 'h) prepared_plugin \<Rightarrow> plugin_record \<Rightarrow> string \<Rightarrow> call_context
    \<Rightarrow> ('i, 'h, 'l, 'w, plugin_record) managed" where
  "load_install M m l x r operation ctx =
     abind (aresult (validate_prepared x m)) (\<lambda>_.
     abind (run_hook M x ON_LOAD ctx) (\<lambda>_.
     abind (if ON_LOAD \<in> mf_lifecycle m then on_lifecycle (mark_hook (mf_name m) ON_LOAD) else areturn r) (\<lambda>r1.
     abind (put_prepared (mf_name m) (Some (x, l))) (\<lambda>_.
     abind (step_to (mf_name m) r1 LOADED None False) (\<lambda>r2.
     abind (emit_changed M (manifest_ref m) (lifecycle_state_value (ps_state r1)) (ps_state r2) operation ctx) (\<lambda>_. areturn r2))))))"

definition load_prepare ::
  "('i, 'h, 'l, 'w) plugin_manager \<Rightarrow> plugin_manifest \<Rightarrow> 'l \<Rightarrow> plugin_record \<Rightarrow> string \<Rightarrow> call_context
    \<Rightarrow> ('i, 'h, 'l, 'w, plugin_record) managed" where
  "load_prepare M m l r operation ctx =
     atry (abind (awaited_in M ctx (pm_prepare M l m ctx)) (\<lambda>x.
         atry (load_install M m l x r operation ctx) (\<lambda>e.
           abind (atry (pm_cleanup M l x (recovery_context ctx)) (\<lambda>_. areturn ())) (\<lambda>_. araise e))))
       (\<lambda>e. let mapped = (case e of CoreError _ \<Rightarrow> e | _ \<Rightarrow> plugin_failure (mf_name m) ''plugin_load_failed'' ''Plugin loader failed'' e) in
         abind (emit_failed M (manifest_ref m) (lifecycle_state_value VALIDATED) LOADED operation mapped ctx) (\<lambda>_. araise mapped))"

definition load_effect ::
  "('i, 'h, 'l, 'w) plugin_manager \<Rightarrow> plugin_manifest \<Rightarrow> 'l \<Rightarrow> call_context \<Rightarrow> ('i, 'h, 'l, 'w, plugin_record) managed" where
  "load_effect M m l ctx w =
     abind (aresult (operation_id ctx ''plugin.load'' (mf_name m))) (\<lambda>operation w1.
       (case mt_prepared (pw_rest w1) (mf_name m) of
          Some _ \<Rightarrow> abind (on_lifecycle (get_record (mf_name m))) (\<lambda>r.
            if \<not> manifest_eq (ps_manifest r) m
            then araise (plugin_error CONFLICT ''registration_identity_conflict''
                   ''Plugin identity is already loaded with another manifest'' False (Some (mf_name m)) None)
            else areturn r)
        | None \<Rightarrow> abind (load_checks M m) (\<lambda>_. abind (load_discover M m operation ctx) (\<lambda>r.
            if ps_state r \<noteq> VALIDATED then areturn r else load_prepare M m l r operation ctx))) w1) w"

definition manager_load ::
  "('i, 'h, 'l, 'w) plugin_manager \<Rightarrow> json_object \<Rightarrow> 'l \<Rightarrow> call_context \<Rightarrow> principal \<Rightarrow> ('i, 'h, 'l, 'w, plugin_record) managed" where
  "manager_load M d l ctx actor =
     abind (aresult (pm_validate M d)) (\<lambda>m.
     manager_authorized M ''plugin.load'' (mf_name m) ctx actor (load_effect M m l))"

subsection \<open>Activation\<close>

definition allow_declared ::
  "plugin_permission \<Rightarrow> string \<Rightarrow> string option \<Rightarrow> authorized_call \<Rightarrow> ('i, 'h, 'l, 'w, unit) managed" where
  "allow_declared perm p capability call =
     abind (aresult (permits perm (cx_scope (au_context call)))) (\<lambda>ok.
     if \<not> ok then araise (plugin_error DENIED ''permission_denied'' ''Requested Plugin permission is outside its declared Scope'' False
       (Some p) capability) else areturn ())"

definition activation_requests :: "plugin_manifest \<Rightarrow> (plugin_permission \<times> resource_ref \<times> string option) list result" where
  "activation_requests m =
     rbind (rmap (\<lambda>perm. rbind (rbind (mk_identifier (mf_name m)) (\<lambda>i. mk_resource ''core'' ''plugin'' i (Some (mf_name m))))
       (\<lambda>r. Inr (perm, r, None))) (mf_permissions m)) (\<lambda>own.
     rbind (rmap (\<lambda>c. rmap (\<lambda>perm. rbind (rbind (mk_identifier (cd_id c)) (\<lambda>i. mk_resource ''core'' (capability_type_value (cd_type c)) i
         (Some (mf_name m)))) (\<lambda>r. Inr (perm, r, Some (cd_id c)))) (cd_permissions c)) (mf_provides m)) (\<lambda>caps.
     Inr (own @ concat caps)))"

definition authorize_request ::
  "('i, 'h, 'l, 'w) plugin_manager \<Rightarrow> string \<Rightarrow> principal \<Rightarrow> call_context \<Rightarrow> plugin_permission \<times> resource_ref \<times> string option
    \<Rightarrow> ('i, 'h, 'l, 'w, unit) managed" where
  "authorize_request M p actor ctx = (\<lambda>(perm, resource, capability).
     atry (dispatch (iv_dispatcher (pm_invoker M)) \<lparr>aq_principal = actor, aq_action = pp_action perm, aq_resource = resource,
         aq_scope = cx_scope ctx, aq_context = ctx, aq_constraints = Map.empty\<rparr> (allow_declared perm p capability))
       (\<lambda>e. case e of
           CoreError d \<Rightarrow> if ed_category d \<noteq> DENIED then araise e
             else araise (plugin_error_from DENIED ''permission_denied'' ''Plugin permission request was denied'' False (Some (ed_code d)) (Some p) capability)
         | _ \<Rightarrow> araise e))"

fun authorize_all ::
  "('i, 'h, 'l, 'w) plugin_manager \<Rightarrow> string \<Rightarrow> principal \<Rightarrow> call_context \<Rightarrow> (plugin_permission \<times> resource_ref \<times> string option) list
    \<Rightarrow> ('i, 'h, 'l, 'w, unit) managed" where
  "authorize_all M p actor ctx [] = areturn ()"
| "authorize_all M p actor ctx (q # qs) = abind (authorize_request M p actor ctx q) (\<lambda>_. authorize_all M p actor ctx qs)"

definition authorize_activation ::
  "('i, 'h, 'l, 'w) plugin_manager \<Rightarrow> plugin_manifest \<Rightarrow> call_context \<Rightarrow> ('i, 'h, 'l, 'w, unit) managed" where
  "authorize_activation M m ctx =
     abind (aresult (rbind (mk_identifier (mf_name m)) (core_principal PRINCIPAL_PLUGIN))) (\<lambda>actor.
     abind (aresult (activation_requests m)) (authorize_all M (mf_name m) actor ctx))"

text \<open>Capabilities are published first; a transition that fails rolls back exactly this receipt.\<close>

definition activate_register ::
  "('i, 'h, 'l, 'w) plugin_manager \<Rightarrow> string \<Rightarrow> ('i, 'h) prepared_plugin \<Rightarrow> plugin_record \<Rightarrow> string \<Rightarrow> call_context
    \<Rightarrow> ('i, 'h, 'l, 'w, plugin_record) managed" where
  "activate_register M p x r operation ctx =
     (if ps_state r \<noteq> LOADED then areturn r
      else abind (aresult (mk_plan \<lparr>pn_owner = record_ref r, pn_capabilities = pd_capabilities x\<rparr>)) (\<lambda>plan.
      abind (\<lambda>w. on_registry (commit (pm_registration M) plan (sn_version (cr_snapshot (pw_registry w)))) w) (\<lambda>receipt.
      abind (atry (step_to p r REGISTERED (Some receipt) False)
          (\<lambda>e. abind (on_registry (rollback receipt)) (\<lambda>_. araise e))) (\<lambda>r1.
      abind (emit_changed M (record_ref r1) (lifecycle_state_value (ps_state r)) (ps_state r1) operation ctx) (\<lambda>_. areturn r1)))))"

definition activate_work ::
  "('i, 'h, 'l, 'w) plugin_manager \<Rightarrow> string \<Rightarrow> ('i, 'h) prepared_plugin \<Rightarrow> plugin_record \<Rightarrow> string \<Rightarrow> call_context
    \<Rightarrow> ('i, 'h, 'l, 'w, plugin_record) managed" where
  "activate_work M p x r operation ctx =
     abind (activate_register M p x r operation ctx) (\<lambda>r1.
     if ps_state r1 \<noteq> REGISTERED then araise (invalid_state p ''activation requires LOADED or REGISTERED'')
     else abind (authorize_activation M (ps_manifest r1) ctx) (\<lambda>_.
     abind (hook_once M x ON_ACTIVATE p r1 ctx) (\<lambda>r2.
     abind (step_to p r2 ACTIVE None False) (\<lambda>r3.
     abind (emit_changed M (record_ref r3) (lifecycle_state_value (ps_state r2)) (ps_state r3) operation ctx) (\<lambda>_. areturn r3)))))"

definition activate_effect :: "('i, 'h, 'l, 'w) plugin_manager \<Rightarrow> string \<Rightarrow> call_context \<Rightarrow> ('i, 'h, 'l, 'w, plugin_record) managed" where
  "activate_effect M p ctx =
     abind (on_lifecycle (get_record p)) (\<lambda>r.
     abind (aresult (operation_id ctx ''plugin.activate'' p)) (\<lambda>operation.
     abind (emit_requested M r ACTIVE operation ctx) (\<lambda>_.
     if ps_state r = ACTIVE then areturn r
     else abind (prepared_of p) (\<lambda>(x, l).
       atry (activate_work M p x r operation ctx) (\<lambda>e.
         fail_operation M p ACTIVE operation ctx (case e of CoreError _ \<Rightarrow> e
           | _ \<Rightarrow> plugin_failure p ''lifecycle_hook_failed'' ''Plugin activation failed'' e))))))"

definition manager_activate :: "('i, 'h, 'l, 'w) plugin_manager \<Rightarrow> string \<Rightarrow> call_context \<Rightarrow> principal \<Rightarrow> ('i, 'h, 'l, 'w, plugin_record) managed" where
  "manager_activate M p ctx actor = manager_authorized M ''plugin.activate'' p ctx actor (activate_effect M p)"

subsection \<open>Draining\<close>

text \<open>
  The wait for the leases: the worlds in which it wakes up, and the exception that ends it when all of
  them still have leases.
\<close>

fun drain_wait ::
  "string \<Rightarrow> ('i, 'h, 'l, 'w) manager_world list \<Rightarrow> exn \<times> ('i, 'h, 'l, 'w) manager_world \<Rightarrow> ('i, 'h, 'l, 'w, unit) managed" where
  "drain_wait p wakes failure w =
     (case lc_leases (pw_lifecycle w) p of
        None \<Rightarrow> (Inl (KeyError p), w)
      | Some [] \<Rightarrow> (Inr (), w)
      | Some (_ # _) \<Rightarrow> (case wakes of [] \<Rightarrow> (Inl (fst failure), snd failure) | w1 # later \<Rightarrow> drain_wait p later failure w1))"

declare drain_wait.simps [simp del]

definition manager_wait :: "('i, 'h, 'l, 'w) plugin_manager \<Rightarrow> string \<Rightarrow> call_context \<Rightarrow> ('i, 'h, 'l, 'w, unit) managed" where
  "manager_wait M p ctx = abind (on_lifecycle (condition_of p)) (\<lambda>_ w.
     case pm_wakes M p ctx w of (wakes, failure) \<Rightarrow> drain_wait p wakes failure w)"

definition ensure_draining ::
  "('i, 'h, 'l, 'w) plugin_manager \<Rightarrow> plugin_record \<Rightarrow> string \<Rightarrow> call_context \<Rightarrow> ('i, 'h, 'l, 'w, plugin_record) managed" where
  "ensure_draining M r operation ctx =
     abind (if ps_state r \<noteq> ACTIVE then areturn r
       else abind (on_lifecycle (begin_draining (pl_name (record_ref r)) (Some (ps_version r)))) (\<lambda>r1.
         abind (emit_changed M (record_ref r1) (lifecycle_state_value (ps_state r)) (ps_state r1) operation ctx) (\<lambda>_. areturn r1))) (\<lambda>r1.
     if ps_state r1 \<noteq> DRAINING then araise (invalid_state (pl_name (record_ref r1)) ''drain requires ACTIVE or DRAINING'')
     else abind (prepared_of (pl_name (record_ref r1))) (\<lambda>(x, l). hook_once M x ON_DRAIN (pl_name (record_ref r1)) r1 ctx))"

definition drain_effect :: "('i, 'h, 'l, 'w) plugin_manager \<Rightarrow> string \<Rightarrow> call_context \<Rightarrow> ('i, 'h, 'l, 'w, plugin_record) managed" where
  "drain_effect M p ctx =
     abind (on_lifecycle (get_record p)) (\<lambda>r.
     abind (aresult (operation_id ctx ''plugin.drain'' p)) (\<lambda>operation.
     abind (emit_requested M r DRAINING operation ctx) (\<lambda>_.
     atry (abind (ensure_draining M r operation ctx) (\<lambda>_. abind (manager_wait M p ctx) (\<lambda>_. on_lifecycle (get_record p)))) (\<lambda>e.
       fail_operation M p DRAINING operation ctx (case e of CoreError _ \<Rightarrow> normalize_drain_error p e
         | _ \<Rightarrow> plugin_failure p ''lifecycle_hook_failed'' ''Plugin drain hook failed'' e)))))"

definition manager_drain :: "('i, 'h, 'l, 'w) plugin_manager \<Rightarrow> string \<Rightarrow> call_context \<Rightarrow> principal \<Rightarrow> ('i, 'h, 'l, 'w, plugin_record) managed" where
  "manager_drain M p ctx actor = manager_authorized M ''plugin.drain'' p ctx actor (drain_effect M p)"

definition cancel_drain_effect :: "('i, 'h, 'l, 'w) plugin_manager \<Rightarrow> string \<Rightarrow> call_context \<Rightarrow> ('i, 'h, 'l, 'w, plugin_record) managed" where
  "cancel_drain_effect M p ctx =
     abind (on_lifecycle (get_record p)) (\<lambda>r.
     abind (aresult (operation_id ctx ''plugin.cancel_drain'' p)) (\<lambda>operation.
     abind (emit_requested M r ACTIVE operation ctx) (\<lambda>_.
     if ps_state r \<noteq> DRAINING then araise (invalid_state p ''cancel-drain requires DRAINING'')
     else if ps_receipt r = None then araise (invalid_state p ''cannot reactivate unregistered Plugin'')
     else abind (step_to p r ACTIVE None False) (\<lambda>r1.
       abind (emit_changed M (record_ref r1) (lifecycle_state_value (ps_state r)) (ps_state r1) operation ctx) (\<lambda>_. areturn r1)))))"

definition manager_cancel_drain :: "('i, 'h, 'l, 'w) plugin_manager \<Rightarrow> string \<Rightarrow> call_context \<Rightarrow> principal \<Rightarrow> ('i, 'h, 'l, 'w, plugin_record) managed" where
  "manager_cancel_drain M p ctx actor = manager_authorized M ''plugin.cancel_drain'' p ctx actor (cancel_drain_effect M p)"

subsection \<open>Unloading\<close>

definition unload_drain ::
  "('i, 'h, 'l, 'w) plugin_manager \<Rightarrow> string \<Rightarrow> plugin_record \<Rightarrow> string \<Rightarrow> call_context \<Rightarrow> ('i, 'h, 'l, 'w, plugin_record) managed" where
  "unload_drain M p r operation ctx =
     (if ps_state r \<notin> {ACTIVE, DRAINING} then areturn r
      else abind (ensure_draining M r operation ctx) (\<lambda>_. abind (manager_wait M p ctx) (\<lambda>_. on_lifecycle (get_record p))))"

definition unload_unregister ::
  "('i, 'h, 'l, 'w) plugin_manager \<Rightarrow> string \<Rightarrow> plugin_record \<Rightarrow> string \<Rightarrow> call_context \<Rightarrow> ('i, 'h, 'l, 'w, plugin_record) managed" where
  "unload_unregister M p r operation ctx =
     (if ps_state r \<notin> {DRAINING, REGISTERED} then areturn r
      else case ps_receipt r of
        None \<Rightarrow> araise (invalid_state p ''registered Plugin lacks receipt'')
      | Some receipt \<Rightarrow> abind (on_registry (unregister receipt)) (\<lambda>_.
          abind (step_to p r UNREGISTERED None True) (\<lambda>r1.
          abind (emit_changed M (record_ref r1) (lifecycle_state_value (ps_state r)) (ps_state r1) operation ctx) (\<lambda>_. areturn r1))))"

definition unload_finish ::
  "('i, 'h, 'l, 'w) plugin_manager \<Rightarrow> string \<Rightarrow> ('i, 'h) prepared_plugin \<Rightarrow> 'l \<Rightarrow> plugin_record \<Rightarrow> string \<Rightarrow> call_context
    \<Rightarrow> ('i, 'h, 'l, 'w, plugin_record) managed" where
  "unload_finish M p x l r operation ctx =
     abind (hook_once M x ON_UNLOAD p r ctx) (\<lambda>r1.
     abind (awaited_in M ctx (pm_cleanup M l x ctx)) (\<lambda>_.
     abind (step_to p r1 UNLOADED None False) (\<lambda>r2.
     abind (put_prepared p None) (\<lambda>_.
     abind (emit_changed M (record_ref r2) (lifecycle_state_value (ps_state r1)) (ps_state r2) operation ctx) (\<lambda>_. areturn r2)))))"

definition unload_work ::
  "('i, 'h, 'l, 'w) plugin_manager \<Rightarrow> string \<Rightarrow> ('i, 'h) prepared_plugin \<Rightarrow> 'l \<Rightarrow> plugin_record \<Rightarrow> string \<Rightarrow> call_context
    \<Rightarrow> ('i, 'h, 'l, 'w, plugin_record) managed" where
  "unload_work M p x l r operation ctx =
     abind (unload_drain M p r operation ctx) (\<lambda>r1.
     abind (unload_unregister M p r1 operation ctx) (\<lambda>r2.
     if ps_state r2 \<noteq> UNREGISTERED
     then araise (invalid_state p ''unload requires ACTIVE, DRAINING, REGISTERED, or UNREGISTERED'')
     else unload_finish M p x l r2 operation ctx))"

definition unload_failed ::
  "('i, 'h, 'l, 'w) plugin_manager \<Rightarrow> string \<Rightarrow> string \<Rightarrow> call_context \<Rightarrow> exn \<Rightarrow> ('i, 'h, 'l, 'w, 'a) managed" where
  "unload_failed M p operation ctx e = (case e of
       CoreError _ \<Rightarrow> abind (on_lifecycle (get_record p)) (\<lambda>r.
         fail_operation M p UNLOADED operation ctx (if ps_state r = DRAINING then normalize_drain_error p e else e))
     | _ \<Rightarrow> fail_operation M p UNLOADED operation ctx (plugin_failure p ''unload_failed'' ''Plugin unload cleanup failed'' e))"

definition unload_effect :: "('i, 'h, 'l, 'w) plugin_manager \<Rightarrow> string \<Rightarrow> call_context \<Rightarrow> ('i, 'h, 'l, 'w, plugin_record) managed" where
  "unload_effect M p ctx =
     abind (on_lifecycle (get_record p)) (\<lambda>r.
     abind (aresult (operation_id ctx ''plugin.unload'' p)) (\<lambda>operation.
     abind (emit_requested M r UNLOADED operation ctx) (\<lambda>_.
     if ps_state r = UNLOADED then areturn r
     else abind (prepared_of p) (\<lambda>(x, l). atry (unload_work M p x l r operation ctx) (unload_failed M p operation ctx)))))"

definition manager_unload :: "('i, 'h, 'l, 'w) plugin_manager \<Rightarrow> string \<Rightarrow> call_context \<Rightarrow> principal \<Rightarrow> ('i, 'h, 'l, 'w, plugin_record) managed" where
  "manager_unload M p ctx actor = manager_authorized M ''plugin.unload'' p ctx actor (unload_effect M p)"

subsection \<open>Invocation\<close>

definition manager_invoke ::
  "('i, 'h, 'l, 'w) plugin_manager \<Rightarrow> string \<Rightarrow> capability_key \<Rightarrow> action_ref \<Rightarrow> call_context \<Rightarrow> principal
    \<Rightarrow> ('i \<Rightarrow> call_context \<Rightarrow> ('i, 'h, 'l, 'w, 'a) managed) \<Rightarrow> ('i, 'h, 'l, 'w, 'a) managed" where
  "manager_invoke M p k act ctx actor operation =
     abind (aresult (rbind (mk_identifier (fst (snd k))) (\<lambda>i. mk_resource ''core'' (fst k) i (Some p)))) (\<lambda>resource.
     invoke (pm_invoker M) \<lparr>in_plugin = p, in_key = k, in_action = act, in_resource = resource, in_context = ctx, in_principal = actor,
         in_constraints = Map.empty, in_validator = None\<rparr>
       (\<lambda>reg call. raced_body (pm_preempt M) (operation (rg_implementation reg) (au_context call))))"

subsection \<open>What the operations guarantee\<close>

lemma on_lifecycle_eq: "on_lifecycle m w = (x, w') \<longleftrightarrow> (\<exists>g. m (pw_lifecycle w) = (x, g) \<and> w' = w\<lparr>pw_lifecycle := g\<rparr>)"
  by (auto simp: on_lifecycle_def split: prod.splits)

lemma on_registry_eq: "on_registry m w = (x, w') \<longleftrightarrow> (\<exists>g. m (pw_registry w) = (x, g) \<and> w' = w\<lparr>pw_registry := g\<rparr>)"
  by (auto simp: on_registry_def split: prod.splits)

lemma plugin_transition_state: "plugin_transition p target expected receipt clear g = (Inr r, g') \<Longrightarrow> ps_state r = target"
  by (auto simp: plugin_transition_def plugin_record_of_def abind_eq_Inr aresult_def areturn_def araise_def Let_def mk_plugin_record_def
      split: if_splits option.splits)

lemma step_to_state: "step_to p r target receipt clear w = (Inr r', w') \<Longrightarrow> ps_state r' = target"
  by (auto simp: step_to_def on_lifecycle_eq dest: plugin_transition_state)

lemma get_record_same: "get_record p g = (x, g') \<Longrightarrow> g' = g"
  by (auto simp: get_record_def condition_of_def plugin_record_of_def abind_def araise_def split: if_splits option.splits sum.splits prod.splits)

lemma emit_changed_Inr: "\<exists>w'. emit_changed M p source target operation ctx w = (Inr (), w')"
  by (auto simp: emit_changed_def atry_def areturn_def split: prod.splits sum.splits)

text \<open>Every operation is one authorized call of its own action on the Plugin, in the name of its principal.\<close>

lemma manager_authorized_Inr:
  assumes "manager_authorized M act p ctx actor effect w = (Inr x, w')"
  shows "\<exists>q call w1. aq_action q = plugin_action act \<and> aq_principal q = actor \<and> aq_scope q = cx_scope ctx \<and> aq_context q = ctx
    \<and> rs_id (aq_resource q) = p \<and> authorized (iv_dispatcher (pm_invoker M)) q w call w1 \<and> effect (au_context call) w1 = (Inr x, w')"
proof -
  from assms obtain resource where r: "mk_resource ''core'' ''plugin'' p (Some p) = Inr resource"
    and d: "dispatch (iv_dispatcher (pm_invoker M)) \<lparr>aq_principal = actor, aq_action = plugin_action act, aq_resource = resource,
       aq_scope = cx_scope ctx, aq_context = ctx, aq_constraints = Map.empty\<rparr> (\<lambda>call. effect (au_context call)) w = (Inr x, w')"
    by (auto simp: manager_authorized_def abind_eq_Inr aresult_def rbind_eq_Inr mk_identifier_Inr)
  let ?q = "\<lparr>aq_principal = actor, aq_action = plugin_action act, aq_resource = resource,
       aq_scope = cx_scope ctx, aq_context = ctx, aq_constraints = Map.empty\<rparr>"
  from dispatch_Inr [OF d] obtain call w1 where
    "authorized (iv_dispatcher (pm_invoker M)) ?q w call w1" "effect (au_context call) w1 = (Inr x, w')" by blast
  moreover from r have "rs_id resource = p" by (auto simp: mk_resource_def rbind_eq_Inr split: if_splits)
  ultimately show ?thesis by (intro exI [of _ ?q] exI [of _ call] exI [of _ w1]) simp
qed

subsection \<open>Activation\<close>

definition permission_granted ::
  "('i, 'h, 'l, 'w) plugin_manager \<Rightarrow> principal \<Rightarrow> call_context \<Rightarrow> plugin_permission \<times> resource_ref \<times> string option \<Rightarrow> bool" where
  "permission_granted M actor ctx = (\<lambda>(perm, resource, capability). \<exists>call wa wb.
     authorized (iv_dispatcher (pm_invoker M)) \<lparr>aq_principal = actor, aq_action = pp_action perm, aq_resource = resource,
         aq_scope = cx_scope ctx, aq_context = ctx, aq_constraints = Map.empty\<rparr> wa call wb
     \<and> permits perm (cx_scope (au_context call)) = Inr True)"

lemma authorize_request_Inr:
  assumes "authorize_request M p actor ctx q w = (Inr u, w')" shows "permission_granted M actor ctx q"
proof -
  obtain perm resource capability where q: "q = (perm, resource, capability)" by (metis prod_cases3)
  let ?q = "\<lparr>aq_principal = actor, aq_action = pp_action perm, aq_resource = resource,
         aq_scope = cx_scope ctx, aq_context = ctx, aq_constraints = Map.empty\<rparr>"
  let ?D = "iv_dispatcher (pm_invoker M)"
  obtain y w1 where d: "dispatch ?D ?q (allow_declared perm p capability) w = (y, w1)" by fastforce
  with assms q have "y = Inr ()"
    by (cases y) (auto simp: authorize_request_def atry_def araise_def split: exn.splits if_splits)
  with d dispatch_Inr [of ?D ?q "allow_declared perm p capability" w "()" w1] obtain call w2 where
    "authorized ?D ?q w call w2" "allow_declared perm p capability call w2 = (Inr (), w1)" by blast
  moreover from this(2) have "permits perm (cx_scope (au_context call)) = Inr True"
    by (auto simp: allow_declared_def abind_eq_Inr aresult_def araise_def split: if_splits)
  ultimately show ?thesis unfolding permission_granted_def q by auto
qed

lemma authorize_all_Inr: "authorize_all M p actor ctx qs w = (Inr u, w') \<Longrightarrow> \<forall>q \<in> set qs. permission_granted M actor ctx q"
  by (induction qs arbitrary: w) (auto simp: abind_eq_Inr dest: authorize_request_Inr)

text \<open>Activation means that the Plugin itself holds every permission that its manifest declares.\<close>

definition permissions_held :: "('i, 'h, 'l, 'w) plugin_manager \<Rightarrow> plugin_manifest \<Rightarrow> call_context \<Rightarrow> bool" where
  "permissions_held M m ctx \<longleftrightarrow> (\<exists>actor qs. core_principal PRINCIPAL_PLUGIN (mf_name m) = Inr actor \<and> activation_requests m = Inr qs
     \<and> (\<forall>q \<in> set qs. permission_granted M actor ctx q))"

lemma activate_work_Inr:
  assumes "activate_work M p x r operation ctx w = (Inr r3, w')"
  shows "ps_state r3 = ACTIVE \<and> (\<exists>r1 w1. activate_register M p x r operation ctx w = (Inr r1, w1) \<and> ps_state r1 = REGISTERED
    \<and> permissions_held M (ps_manifest r1) ctx)"
proof -
  from assms obtain r1 w1 w2 r2 w3 w4 where r: "activate_register M p x r operation ctx w = (Inr r1, w1)" "ps_state r1 = REGISTERED"
    and a: "authorize_activation M (ps_manifest r1) ctx w1 = (Inr (), w2)" and "hook_once M x ON_ACTIVATE p r1 ctx w2 = (Inr r2, w3)" and s: "step_to p r2 ACTIVE None False w3 = (Inr r3, w4)"
    by (auto simp: activate_work_def abind_eq_Inr araise_def areturn_def split: if_splits intro: that)
  from a have "permissions_held M (ps_manifest r1) ctx"
    by (auto simp: authorize_activation_def permissions_held_def abind_eq_Inr aresult_def rbind_eq_Inr mk_identifier_Inr
        dest: authorize_all_Inr)
  with r step_to_state [OF s] show ?thesis by blast
qed

lemma fail_operation_not_Inr [simp]: "fail_operation M p target operation ctx e w \<noteq> (Inr x, w')"
  by (auto simp: fail_operation_def abind_eq_Inr araise_def)

lemma atry_failing:
  assumes "atry m h w = (Inr x, w')" "\<And>e w1. h e w1 \<noteq> (Inr x, w')" shows "m w = (Inr x, w')"
proof -
  obtain y w1 where m: "m w = (y, w1)" by fastforce
  with assms show ?thesis by (cases y) (auto simp: atry_def)
qed

lemma activate_effect_Inr:
  assumes "activate_effect M p ctx w = (Inr r, w')"
  shows "ps_state r = ACTIVE \<and> (\<exists>r0 w0. on_lifecycle (get_record p) w = (Inr r0, w0) \<and> (ps_state r0 = ACTIVE \<or>
    (\<exists>x operation wa r1 w1. activate_register M p x r0 operation ctx wa = (Inr r1, w1) \<and> ps_state r1 = REGISTERED
      \<and> permissions_held M (ps_manifest r1) ctx)))"
proof -
  from assms obtain r0 w0 operation w1 where g: "on_lifecycle (get_record p) w = (Inr r0, w0)"
    and k: "(if ps_state r0 = ACTIVE then areturn r0
     else abind (prepared_of p) (\<lambda>(x, l).
       atry (activate_work M p x r0 operation ctx) (\<lambda>e.
         fail_operation M p ACTIVE operation ctx (case e of CoreError _ \<Rightarrow> e
           | _ \<Rightarrow> plugin_failure p ''lifecycle_hook_failed'' ''Plugin activation failed'' e)))) w1 = (Inr r, w')"
    by (auto simp: activate_effect_def abind_eq_Inr aresult_def)
  show ?thesis
  proof (cases "ps_state r0 = ACTIVE")
    case True
    with g k show ?thesis by (auto simp: areturn_def)
  next
    case False
    with k obtain x w2 where "atry (activate_work M p x r0 operation ctx) (\<lambda>e.
         fail_operation M p ACTIVE operation ctx (case e of CoreError _ \<Rightarrow> e
           | _ \<Rightarrow> plugin_failure p ''lifecycle_hook_failed'' ''Plugin activation failed'' e)) w2 = (Inr r, w')"
      by (auto simp: abind_eq_Inr)
    from atry_failing [OF this] have "activate_work M p x r0 operation ctx w2 = (Inr r, w')" by simp
    from activate_work_Inr [OF this] g show ?thesis by blast
  qed
qed

text \<open>A registration whose transition fails is taken back: the registered capabilities are as before.\<close>

lemma activation_rolls_back:
  assumes inv: "registry_invar (pw_registry w)" and p: "mk_plan plan = Inr plan"
    and plan: "plan = \<lparr>pn_owner = record_ref r, pn_capabilities = pd_capabilities x\<rparr>"
    and c: "commit (pm_registration M) plan (sn_version (cr_snapshot (pw_registry w))) (pw_registry w) = (Inr receipt, g1)"
    and fresh: "rc_id receipt \<notin> cr_retired (pw_registry w)" and l: "ps_state r = LOADED"
    and f: "step_to p r REGISTERED (Some receipt) False (w\<lparr>pw_registry := g1\<rparr>) = (Inl e, w1)"
  shows "\<exists>w2. activate_register M p x r operation ctx w = (Inl e, w2)
    \<and> sn_registrations (cr_snapshot (pw_registry w2)) = sn_registrations (cr_snapshot (pw_registry w))"
proof -
  from commit_then_unregister [OF inv p c fresh] obtain s g2 where u: "rollback receipt g1 = (Inr s, g2)" "cr_snapshot g2 = s"
    "sn_registrations s = sn_registrations (cr_snapshot (pw_registry w))" by (auto simp: rollback_def)
  have w1: "pw_registry w1 = g1" using f by (auto simp: step_to_def on_lifecycle_eq)
  show ?thesis
    using l p [unfolded plan] c [unfolded plan] f u w1
    by (auto simp: activate_register_def abind_def aresult_def on_registry_def atry_def araise_def)
qed

subsection \<open>Draining and unloading\<close>

definition idle :: "string \<Rightarrow> ('i, 'h, 'l, 'w) manager_world \<Rightarrow> bool" where
  "idle p w \<longleftrightarrow> lc_leases (pw_lifecycle w) p = Some []"

lemma drain_wait_Inr: "drain_wait p wakes failure w = (Inr u, w') \<Longrightarrow> idle p w'"
  by (induction p wakes failure w rule: drain_wait.induct)
    (auto simp: idle_def drain_wait.simps split: option.splits list.splits)

lemma manager_wait_Inr: "manager_wait M p ctx w = (Inr u, w') \<Longrightarrow> idle p w'"
proof -
  assume "manager_wait M p ctx w = (Inr u, w')"
  then obtain w1 where "(case pm_wakes M p ctx w1 of (wakes, failure) \<Rightarrow> drain_wait p wakes failure w1) = (Inr u, w')"
    by (auto simp: manager_wait_def abind_eq_Inr)
  then show ?thesis using drain_wait_Inr by (cases "pm_wakes M p ctx w1") auto
qed

lemma idle_get_record: "on_lifecycle (get_record p) w = (x, w') \<Longrightarrow> idle p w \<Longrightarrow> idle p w'"
  by (auto simp: on_lifecycle_eq idle_def dest: get_record_same)

lemma drain_effect_Inr:
  assumes "drain_effect M p ctx w = (Inr r, w')" shows "idle p w'"
proof -
  from assms obtain r0 operation w1 where "atry (abind (ensure_draining M r0 operation ctx) (\<lambda>_. abind (manager_wait M p ctx)
      (\<lambda>_. on_lifecycle (get_record p)))) (\<lambda>e.
       fail_operation M p DRAINING operation ctx (case e of CoreError _ \<Rightarrow> normalize_drain_error p e
         | _ \<Rightarrow> plugin_failure p ''lifecycle_hook_failed'' ''Plugin drain hook failed'' e)) w1 = (Inr r, w')"
    by (auto simp: drain_effect_def abind_eq_Inr aresult_def)
  from atry_failing [OF this] obtain w2 w3 u where "manager_wait M p ctx w2 = (Inr u, w3)" "on_lifecycle (get_record p) w3 = (Inr r, w')"
    by (auto simp: abind_eq_Inr)
  then show ?thesis using manager_wait_Inr idle_get_record by blast
qed

lemma unload_failed_not_Inr [simp]: "unload_failed M p operation ctx e w \<noteq> (Inr x, w')"
  by (auto simp: unload_failed_def abind_eq_Inr split: exn.splits)

text \<open>
  Unloading: the registration is removed in a world in which no lease is held, when the Plugin was
  serving, and the Plugin's cleanup runs after that.
\<close>

lemma unload_effect_Inr:
  assumes "unload_effect M p ctx w = (Inr r, w')"
  shows "\<exists>r0 w0. on_lifecycle (get_record p) w = (Inr r0, w0) \<and> (ps_state r0 = UNLOADED \<and> r = r0 \<or> ps_state r = UNLOADED
    \<and> (\<exists>operation rd w1 r2 w2 x l. (ps_state r0 \<in> {ACTIVE, DRAINING} \<longrightarrow> idle p w1)
        \<and> unload_unregister M p rd operation ctx w1 = (Inr r2, w2) \<and> ps_state r2 = UNREGISTERED
        \<and> unload_finish M p x l r2 operation ctx w2 = (Inr r, w')))"
proof -
  from assms obtain r0 w0 operation w1 where g: "on_lifecycle (get_record p) w = (Inr r0, w0)"
    and k: "(if ps_state r0 = UNLOADED then areturn r0
     else abind (prepared_of p) (\<lambda>(x, l). atry (unload_work M p x l r0 operation ctx) (unload_failed M p operation ctx))) w1 = (Inr r, w')"
    by (auto simp: unload_effect_def abind_eq_Inr aresult_def)
  show ?thesis
  proof (cases "ps_state r0 = UNLOADED")
    case True
    with g k show ?thesis by (auto simp: areturn_def)
  next
    case False
    with k obtain x l w2 where "atry (unload_work M p x l r0 operation ctx) (unload_failed M p operation ctx) w2 = (Inr r, w')"
      by (auto simp: abind_eq_Inr)
    from atry_failing [OF this] obtain rd w3 r2 w4 where d: "unload_drain M p r0 operation ctx w2 = (Inr rd, w3)"
      and u: "unload_unregister M p rd operation ctx w3 = (Inr r2, w4)" "ps_state r2 = UNREGISTERED"
      and f: "unload_finish M p x l r2 operation ctx w4 = (Inr r, w')"
      by (auto simp: unload_work_def abind_eq_Inr araise_def split: if_splits)
    have i: "ps_state r0 \<in> {ACTIVE, DRAINING} \<longrightarrow> idle p w3"
    proof
      assume "ps_state r0 \<in> {ACTIVE, DRAINING}"
      with d obtain wa wb u where "manager_wait M p ctx wa = (Inr u, wb)" "on_lifecycle (get_record p) wb = (Inr rd, w3)"
        by (auto simp: unload_drain_def abind_eq_Inr)
      then show "idle p w3" using manager_wait_Inr idle_get_record by blast
    qed
    from f obtain r1 wb wc wd where "awaited_in M ctx (pm_cleanup M l x ctx) wb = (Inr (), wc)" "step_to p r1 UNLOADED None False wc = (Inr r, wd)"
      by (auto simp: unload_finish_def abind_eq_Inr areturn_def intro: that)
    with step_to_state have "ps_state r = UNLOADED" by blast
    with g i u f show ?thesis by blast
  qed
qed

subsection \<open>Loading\<close>

text \<open>The entry of a Plugin whose last transition fails stays although its handles were cleaned up, and the next load reports success.\<close>

lemma failed_load_keeps_entry:
  assumes "validate_prepared x m = Inr ()" "run_hook M x ON_LOAD ctx w = (Inr (), w1)" "ON_LOAD \<notin> mf_lifecycle m"
    and "step_to (mf_name m) r LOADED None False (snd (put_prepared (mf_name m) (Some (x, l)) w1)) = (Inl e, w2)"
  shows "load_install M m l x r operation ctx w = (Inl e, w2)" "mt_prepared (pw_rest w2) (mf_name m) = Some (x, l)"
  using assms
  by (auto simp: load_install_def abind_def aresult_def areturn_def put_prepared_def step_to_def on_lifecycle_def split: prod.splits)

lemma load_of_prepared:
  assumes "mt_prepared (pw_rest w) (mf_name m) = Some y" "operation_id ctx ''plugin.load'' (mf_name m) = Inr operation"
    and "on_lifecycle (get_record (mf_name m)) w = (Inr r, w)" "manifest_eq (ps_manifest r) m"
  shows "load_effect M m l ctx w = (Inr r, w)"
  using assms by (simp add: load_effect_def abind_def aresult_def areturn_def)

text \<open>A cancelled drain keeps the mark of the drain hook: the next drain does not run it.\<close>

lemma transition_keeps_hooks:
  assumes "plugin_transition p target expected receipt clear g = (Inr r', g')" "map_of (lc_records g) p = Some r"
  shows "ps_hooks r' = ps_hooks r"
  using assms by (auto simp: plugin_transition_def plugin_record_of_def condition_of_def abind_def aresult_def areturn_def araise_def Let_def
      mk_plugin_record_def split: if_splits)

lemma marked_hook_skipped: "h \<in> ps_hooks r \<Longrightarrow> hook_once M x h p r ctx w = (Inr r, w)"
  by (simp add: hook_once_def areturn_def)

subsection \<open>Activation and unloading, step by step\<close>

lemma on_lifecycle_get_record: "on_lifecycle (get_record p) w = (x, w') \<Longrightarrow> w' = w"
  by (auto simp: on_lifecycle_eq dest: get_record_same)

text \<open>Requests granted one after the other, each in the world the one before it left.\<close>

fun granted_in_turn ::
  "('i, 'h, 'l, 'w) plugin_manager \<Rightarrow> principal \<Rightarrow> call_context \<Rightarrow> (plugin_permission \<times> resource_ref \<times> string option) list
    \<Rightarrow> ('i, 'h, 'l, 'w) manager_world \<Rightarrow> ('i, 'h, 'l, 'w) manager_world \<Rightarrow> bool" where
  "granted_in_turn M actor ctx [] w w' \<longleftrightarrow> w' = w"
| "granted_in_turn M actor ctx ((perm, resource, capability) # qs) w w' \<longleftrightarrow> (\<exists>call w1.
     authorized (iv_dispatcher (pm_invoker M)) \<lparr>aq_principal = actor, aq_action = pp_action perm, aq_resource = resource,
         aq_scope = cx_scope ctx, aq_context = ctx, aq_constraints = Map.empty\<rparr> w call w1
     \<and> permits perm (cx_scope (au_context call)) = Inr True \<and> granted_in_turn M actor ctx qs w1 w')"

lemma authorize_request_granted:
  assumes "authorize_request M p actor ctx q w = (Inr u, w')" shows "granted_in_turn M actor ctx [q] w w'"
proof -
  obtain perm resource capability where q: "q = (perm, resource, capability)" by (metis prod_cases3)
  let ?q = "\<lparr>aq_principal = actor, aq_action = pp_action perm, aq_resource = resource,
         aq_scope = cx_scope ctx, aq_context = ctx, aq_constraints = Map.empty\<rparr>"
  let ?D = "iv_dispatcher (pm_invoker M)"
  obtain y w1 where d: "dispatch ?D ?q (allow_declared perm p capability) w = (y, w1)" by fastforce
  with assms q have y: "y = Inr ()" "w1 = w'"
    by (cases y, auto simp: authorize_request_def atry_def araise_def split: exn.splits if_splits)+
  with d dispatch_Inr [of ?D ?q "allow_declared perm p capability" w "()" w1] obtain call w2 where
    a: "authorized ?D ?q w call w2" "allow_declared perm p capability call w2 = (Inr (), w')" by blast
  from a(2) have "permits perm (cx_scope (au_context call)) = Inr True" "w' = w2"
    by (auto simp: allow_declared_def abind_eq_Inr aresult_def araise_def areturn_def split: if_splits)
  with a(1) show ?thesis by (auto simp: q)
qed

lemma granted_in_turn_Cons: "granted_in_turn M actor ctx [q] w w1 \<Longrightarrow> granted_in_turn M actor ctx qs w1 w' \<Longrightarrow> granted_in_turn M actor ctx (q # qs) w w'"
  by (cases q) auto

lemma authorize_all_granted: "authorize_all M p actor ctx qs w = (Inr u, w') \<Longrightarrow> granted_in_turn M actor ctx qs w w'"
proof (induction qs arbitrary: w)
  case (Cons q qs)
  then obtain w1 where "authorize_request M p actor ctx q w = (Inr (), w1)" "authorize_all M p actor ctx qs w1 = (Inr u, w')"
    by (auto simp: abind_eq_Inr)
  with Cons.IH authorize_request_granted show ?case by (blast intro: granted_in_turn_Cons)
qed (simp add: areturn_def)

text \<open>The requests of an activation are for all that the manifest declares: on the Plugin, and on each capability.\<close>

definition requests_cover :: "plugin_manifest \<Rightarrow> (plugin_permission \<times> resource_ref \<times> string option) list \<Rightarrow> bool" where
  "requests_cover m qs \<longleftrightarrow>
     (\<forall>perm \<in> set (mf_permissions m). \<exists>res. rs_kind res = ''plugin'' \<and> rs_id res = mf_name m \<and> (perm, res, None) \<in> set qs)
     \<and> (\<forall>c \<in> set (mf_provides m). \<forall>perm \<in> set (cd_permissions c).
          \<exists>res. rs_kind res = capability_type_value (cd_type c) \<and> rs_id res = cd_id c \<and> (perm, res, Some (cd_id c)) \<in> set qs)"

lemma rmap_Inr_member: "rmap f xs = Inr ys \<Longrightarrow> x \<in> set xs \<Longrightarrow> \<exists>y \<in> set ys. f x = Inr y"
  by (induction xs arbitrary: ys) (auto simp: rbind_eq_Inr)

lemma mk_resource_parts: "mk_resource n k i own = Inr res \<Longrightarrow> rs_kind res = k \<and> rs_id res = i"
  by (auto simp: mk_resource_def rbind_eq_Inr split: if_splits)

lemma activation_requests_cover:
  assumes "activation_requests m = Inr qs" shows "requests_cover m qs"
proof -
  from assms obtain own caps where
    o: "rmap (\<lambda>perm. rbind (rbind (mk_identifier (mf_name m)) (\<lambda>i. mk_resource ''core'' ''plugin'' i (Some (mf_name m))))
       (\<lambda>r. Inr (perm, r, None))) (mf_permissions m) = Inr own"
    and c: "rmap (\<lambda>c. rmap (\<lambda>perm. rbind (rbind (mk_identifier (cd_id c)) (\<lambda>i. mk_resource ''core'' (capability_type_value (cd_type c)) i
         (Some (mf_name m)))) (\<lambda>r. Inr (perm, r, Some (cd_id c)))) (cd_permissions c)) (mf_provides m) = Inr caps"
    and qs: "qs = own @ concat caps"
    by (auto simp: activation_requests_def rbind_eq_Inr)
  show ?thesis
    unfolding requests_cover_def
  proof (intro conjI ballI)
    fix perm assume "perm \<in> set (mf_permissions m)"
    from rmap_Inr_member [OF o this] obtain res where "mk_resource ''core'' ''plugin'' (mf_name m) (Some (mf_name m)) = Inr res"
      "(perm, res, None) \<in> set own"
      by (auto simp: rbind_eq_Inr mk_identifier_Inr)
    then show "\<exists>res. rs_kind res = ''plugin'' \<and> rs_id res = mf_name m \<and> (perm, res, None) \<in> set qs"
      using mk_resource_parts qs by fastforce
  next
    fix c perm assume i: "c \<in> set (mf_provides m)" "perm \<in> set (cd_permissions c)"
    from rmap_Inr_member [OF c i(1)] obtain ys where ys: "ys \<in> set caps"
      "rmap (\<lambda>perm. rbind (rbind (mk_identifier (cd_id c)) (\<lambda>i. mk_resource ''core'' (capability_type_value (cd_type c)) i
         (Some (mf_name m)))) (\<lambda>r. Inr (perm, r, Some (cd_id c)))) (cd_permissions c) = Inr ys" by blast
    from rmap_Inr_member [OF ys(2) i(2)] obtain res where
      "mk_resource ''core'' (capability_type_value (cd_type c)) (cd_id c) (Some (mf_name m)) = Inr res"
      "(perm, res, Some (cd_id c)) \<in> set ys"
      by (auto simp: rbind_eq_Inr mk_identifier_Inr)
    then show "\<exists>res. rs_kind res = capability_type_value (cd_type c) \<and> rs_id res = cd_id c \<and> (perm, res, Some (cd_id c)) \<in> set qs"
      using mk_resource_parts qs ys(1) by fastforce
  qed
qed

text \<open>From the record that was read to a REGISTERED one: as it is, or by publishing the capabilities of the prepared Plugin.\<close>

definition registered_from ::
  "('i, 'h, 'l, 'w) plugin_manager \<Rightarrow> string \<Rightarrow> ('i, 'h) prepared_plugin \<Rightarrow> plugin_record \<Rightarrow> string \<Rightarrow> call_context
    \<Rightarrow> ('i, 'h, 'l, 'w) manager_world \<Rightarrow> plugin_record \<Rightarrow> ('i, 'h, 'l, 'w) manager_world \<Rightarrow> bool" where
  "registered_from M p x r0 operation ctx w r1 w' \<longleftrightarrow> ps_state r1 = REGISTERED
     \<and> (ps_state r0 = REGISTERED \<and> r1 = r0 \<and> w' = w
        \<or> ps_state r0 = LOADED \<and> (\<exists>receipt g w1.
            commit (pm_registration M) \<lparr>pn_owner = record_ref r0, pn_capabilities = pd_capabilities x\<rparr>
              (sn_version (cr_snapshot (pw_registry w))) (pw_registry w) = (Inr receipt, g)
            \<and> step_to p r0 REGISTERED (Some receipt) False (w\<lparr>pw_registry := g\<rparr>) = (Inr r1, w1)
            \<and> emit_changed M (record_ref r1) (lifecycle_state_value LOADED) REGISTERED operation ctx w1 = (Inr (), w')))"

lemma mk_plan_Inr: "mk_plan q = Inr q' \<Longrightarrow> q' = q"
  by (simp add: mk_plan_def split: if_splits)

lemma activate_register_from:
  assumes "activate_register M p x r0 operation ctx w = (Inr r1, w')" "ps_state r1 = REGISTERED"
  shows "registered_from M p x r0 operation ctx w r1 w'"
proof (cases "ps_state r0 = LOADED")
  case False
  with assms show ?thesis by (auto simp: activate_register_def registered_from_def areturn_def)
next
  case True
  let ?plan = "\<lparr>pn_owner = record_ref r0, pn_capabilities = pd_capabilities x\<rparr>"
  from assms(1) True obtain plan receipt w1 r2 w2 where p: "mk_plan ?plan = Inr plan"
    and c: "on_registry (commit (pm_registration M) plan (sn_version (cr_snapshot (pw_registry w)))) w = (Inr receipt, w1)"
    and s: "atry (step_to p r0 REGISTERED (Some receipt) False) (\<lambda>e. abind (on_registry (rollback receipt)) (\<lambda>_. araise e)) w1 = (Inr r2, w2)"
    and e: "emit_changed M (record_ref r2) (lifecycle_state_value (ps_state r0)) (ps_state r2) operation ctx w2 = (Inr (), w')" "r1 = r2"
    by (auto simp: activate_register_def abind_eq_Inr aresult_def areturn_def)
  have "step_to p r0 REGISTERED (Some receipt) False w1 = (Inr r2, w2)"
    by (rule atry_failing [OF s]) (simp add: abind_eq_Inr araise_def)
  with c e True assms(2) mk_plan_Inr [OF p] show ?thesis by (auto simp: registered_from_def on_registry_eq)
qed

lemma activate_effect_steps:
  assumes "activate_effect M p ctx w = (Inr r, w')"
  shows "\<exists>r0 operation w1. on_lifecycle (get_record p) w = (Inr r0, w) \<and> operation_id ctx ''plugin.activate'' p = Inr operation
    \<and> emit_requested M r0 ACTIVE operation ctx w = (Inr (), w1)
    \<and> (ps_state r0 = ACTIVE \<and> r = r0 \<and> w' = w1
       \<or> (\<exists>x l r1 w2 plugin qs w3 r2 w4 w5. mt_prepared (pw_rest w1) p = Some (x, l) \<and> registered_from M p x r0 operation ctx w1 r1 w2
          \<and> core_principal PRINCIPAL_PLUGIN (mf_name (ps_manifest r1)) = Inr plugin \<and> activation_requests (ps_manifest r1) = Inr qs
          \<and> granted_in_turn M plugin ctx qs w2 w3 \<and> hook_once M x ON_ACTIVATE p r1 ctx w3 = (Inr r2, w4)
          \<and> step_to p r2 ACTIVE None False w4 = (Inr r, w5)
          \<and> emit_changed M (record_ref r) (lifecycle_state_value (ps_state r2)) ACTIVE operation ctx w5 = (Inr (), w')))"
proof -
  from assms obtain r0 w0 operation w1 where g: "on_lifecycle (get_record p) w = (Inr r0, w0)"
    and o: "operation_id ctx ''plugin.activate'' p = Inr operation" "emit_requested M r0 ACTIVE operation ctx w0 = (Inr (), w1)"
    and k: "(if ps_state r0 = ACTIVE then areturn r0
     else abind (prepared_of p) (\<lambda>(x, l).
       atry (activate_work M p x r0 operation ctx) (\<lambda>e.
         fail_operation M p ACTIVE operation ctx (case e of CoreError _ \<Rightarrow> e
           | _ \<Rightarrow> plugin_failure p ''lifecycle_hook_failed'' ''Plugin activation failed'' e)))) w1 = (Inr r, w')"
    by (auto simp: activate_effect_def abind_eq_Inr aresult_def)
  have w0: "w0 = w" by (rule on_lifecycle_get_record [OF g])
  show ?thesis
  proof (cases "ps_state r0 = ACTIVE")
    case True
    with g o k w0 show ?thesis by (auto simp: areturn_def)
  next
    case False
    with k obtain x l where m: "mt_prepared (pw_rest w1) p = Some (x, l)" and "atry (activate_work M p x r0 operation ctx) (\<lambda>e.
         fail_operation M p ACTIVE operation ctx (case e of CoreError _ \<Rightarrow> e
           | _ \<Rightarrow> plugin_failure p ''lifecycle_hook_failed'' ''Plugin activation failed'' e)) w1 = (Inr r, w')"
      by (auto simp: abind_eq_Inr prepared_of_def split: option.splits)
    from atry_failing [OF this(2)] have "activate_work M p x r0 operation ctx w1 = (Inr r, w')" by simp
    then obtain r1 w2 w3 r2 w4 w5 where a: "activate_register M p x r0 operation ctx w1 = (Inr r1, w2)" "ps_state r1 = REGISTERED"
      and z: "authorize_activation M (ps_manifest r1) ctx w2 = (Inr (), w3)" and h: "hook_once M x ON_ACTIVATE p r1 ctx w3 = (Inr r2, w4)"
      and s: "step_to p r2 ACTIVE None False w4 = (Inr r, w5)"
      and e: "emit_changed M (record_ref r) (lifecycle_state_value (ps_state r2)) (ps_state r) operation ctx w5 = (Inr (), w')"
      by (auto simp: activate_work_def abind_eq_Inr araise_def areturn_def split: if_splits intro: that)
    from z obtain plugin qs where z': "core_principal PRINCIPAL_PLUGIN (mf_name (ps_manifest r1)) = Inr plugin"
      "activation_requests (ps_manifest r1) = Inr qs" "authorize_all M (mf_name (ps_manifest r1)) plugin ctx qs w2 = (Inr (), w3)"
      by (auto simp: authorize_activation_def abind_eq_Inr aresult_def rbind_eq_Inr mk_identifier_Inr)
    have "emit_changed M (record_ref r) (lifecycle_state_value (ps_state r2)) ACTIVE operation ctx w5 = (Inr (), w')"
      using e step_to_state [OF s] by simp
    with g [unfolded w0] o [unfolded w0] m activate_register_from [OF a] z'(1,2) authorize_all_granted [OF z'(3)] h s show ?thesis by blast
  qed
qed

text \<open>
  A registration whose transition fails is taken back before the failure is reported: the report, and
  whatever its publisher does, starts with the capabilities that were registered before.
\<close>

lemma activate_effect_rolls_back:
  assumes g: "on_lifecycle (get_record p) w = (Inr r, w)" "ps_state r = LOADED" "operation_id ctx ''plugin.activate'' p = Inr operation"
      "emit_requested M r ACTIVE operation ctx w = (Inr (), w1)" "mt_prepared (pw_rest w1) p = Some (x, l)"
    and inv: "registry_invar (pw_registry w1)" and p: "mk_plan plan = Inr plan"
    and plan: "plan = \<lparr>pn_owner = record_ref r, pn_capabilities = pd_capabilities x\<rparr>"
    and c: "commit (pm_registration M) plan (sn_version (cr_snapshot (pw_registry w1))) (pw_registry w1) = (Inr receipt, g1)"
    and fresh: "rc_id receipt \<notin> cr_retired (pw_registry w1)"
    and f: "step_to p r REGISTERED (Some receipt) False (w1\<lparr>pw_registry := g1\<rparr>) = (Inl e, w2)"
  shows "\<exists>w3. activate_effect M p ctx w = fail_operation M p ACTIVE operation ctx (case e of CoreError _ \<Rightarrow> e
           | _ \<Rightarrow> plugin_failure p ''lifecycle_hook_failed'' ''Plugin activation failed'' e) w3
    \<and> sn_registrations (cr_snapshot (pw_registry w3)) = sn_registrations (cr_snapshot (pw_registry w1))"
proof -
  obtain w3 where a: "activate_register M p x r operation ctx w1 = (Inl e, w3)"
    "sn_registrations (cr_snapshot (pw_registry w3)) = sn_registrations (cr_snapshot (pw_registry w1))"
    using activation_rolls_back [OF inv p plan c fresh g(2) f] by blast
  have "activate_work M p x r operation ctx w1 = (Inl e, w3)" using a(1) by (simp add: activate_work_def abind_def)
  then have "activate_effect M p ctx w = fail_operation M p ACTIVE operation ctx (case e of CoreError _ \<Rightarrow> e
           | _ \<Rightarrow> plugin_failure p ''lifecycle_hook_failed'' ''Plugin activation failed'' e) w3"
    using g by (simp add: activate_effect_def abind_def aresult_def areturn_def prepared_of_def atry_def split: sum.splits)
  with a(2) show ?thesis by blast
qed

text \<open>Until the leases are released: for a serving Plugin new leases are refused first, then the wait ends with none held.\<close>

definition drained_from ::
  "('i, 'h, 'l, 'w) plugin_manager \<Rightarrow> string \<Rightarrow> plugin_record \<Rightarrow> string \<Rightarrow> call_context
    \<Rightarrow> ('i, 'h, 'l, 'w) manager_world \<Rightarrow> plugin_record \<Rightarrow> ('i, 'h, 'l, 'w) manager_world \<Rightarrow> bool" where
  "drained_from M p r0 operation ctx w rd w' \<longleftrightarrow>
     (if ps_state r0 \<in> {ACTIVE, DRAINING}
      then \<exists>r1 w1. ensure_draining M r0 operation ctx w = (Inr r1, w1) \<and> manager_wait M p ctx w1 = (Inr (), w')
        \<and> idle p w' \<and> on_lifecycle (get_record p) w' = (Inr rd, w')
      else rd = r0 \<and> w' = w)"

text \<open>The registration of the record goes, by its own receipt, and then the record is UNREGISTERED.\<close>

definition unregistered_from ::
  "('i, 'h, 'l, 'w) plugin_manager \<Rightarrow> string \<Rightarrow> plugin_record \<Rightarrow> string \<Rightarrow> call_context
    \<Rightarrow> ('i, 'h, 'l, 'w) manager_world \<Rightarrow> plugin_record \<Rightarrow> ('i, 'h, 'l, 'w) manager_world \<Rightarrow> bool" where
  "unregistered_from M p rd operation ctx w r2 w' \<longleftrightarrow> ps_state r2 = UNREGISTERED
     \<and> (if ps_state rd = UNREGISTERED then r2 = rd \<and> w' = w
        else ps_state rd \<in> {DRAINING, REGISTERED} \<and> (\<exists>receipt s g w1. ps_receipt rd = Some receipt
          \<and> unregister receipt (pw_registry w) = (Inr s, g) \<and> rc_id receipt \<in> cr_retired g
          \<and> (if rc_id receipt \<in> cr_retired (pw_registry w) then g = pw_registry w
             else sn_registrations (cr_snapshot g) = without (sn_registrations (cr_snapshot (pw_registry w))) (set (rc_keys receipt)))
          \<and> step_to p rd UNREGISTERED None True (w\<lparr>pw_registry := g\<rparr>) = (Inr r2, w1)
          \<and> emit_changed M (record_ref r2) (lifecycle_state_value (ps_state rd)) UNREGISTERED operation ctx w1 = (Inr (), w')))"

lemma unload_drain_from:
  assumes "unload_drain M p r0 operation ctx w = (Inr rd, w')" shows "drained_from M p r0 operation ctx w rd w'"
proof (cases "ps_state r0 \<in> {ACTIVE, DRAINING}")
  case True
  with assms obtain r1 w1 w2 where d: "ensure_draining M r0 operation ctx w = (Inr r1, w1)" "manager_wait M p ctx w1 = (Inr (), w2)"
    "on_lifecycle (get_record p) w2 = (Inr rd, w')"
    by (auto simp: unload_drain_def abind_eq_Inr)
  with on_lifecycle_get_record [OF d(3)] manager_wait_Inr [OF d(2)] True show ?thesis by (auto simp: drained_from_def)
next
  case False
  with assms show ?thesis by (auto simp: drained_from_def unload_drain_def areturn_def)
qed

lemma unload_unregister_from:
  assumes "unload_unregister M p rd operation ctx w = (Inr r2, w')" "ps_state r2 = UNREGISTERED"
  shows "unregistered_from M p rd operation ctx w r2 w'"
proof (cases "ps_state rd \<in> {DRAINING, REGISTERED}")
  case True
  with assms(1) obtain receipt s g w1 where u: "ps_receipt rd = Some receipt" "unregister receipt (pw_registry w) = (Inr s, g)"
    "step_to p rd UNREGISTERED None True (w\<lparr>pw_registry := g\<rparr>) = (Inr r2, w1)"
    "emit_changed M (record_ref r2) (lifecycle_state_value (ps_state rd)) (ps_state r2) operation ctx w1 = (Inr (), w')"
    by (auto simp: unload_unregister_def abind_eq_Inr araise_def areturn_def on_registry_eq split: option.splits)
  with unregister_removes [OF u(2)] True assms(2) show ?thesis by (auto simp: unregistered_from_def)
next
  case False
  with assms show ?thesis by (auto simp: unregistered_from_def unload_unregister_def areturn_def)
qed

lemma unload_effect_steps:
  assumes "unload_effect M p ctx w = (Inr r, w')"
  shows "\<exists>r0 operation w1. on_lifecycle (get_record p) w = (Inr r0, w) \<and> operation_id ctx ''plugin.unload'' p = Inr operation
    \<and> emit_requested M r0 UNLOADED operation ctx w = (Inr (), w1)
    \<and> (ps_state r0 = UNLOADED \<and> r = r0 \<and> w' = w1
       \<or> (\<exists>x l rd w2 r2 w3 r3 w4 w5 w6. mt_prepared (pw_rest w1) p = Some (x, l) \<and> drained_from M p r0 operation ctx w1 rd w2
          \<and> unregistered_from M p rd operation ctx w2 r2 w3
          \<and> hook_once M x ON_UNLOAD p r2 ctx w3 = (Inr r3, w4) \<and> awaited_in M ctx (pm_cleanup M l x ctx) w4 = (Inr (), w5)
          \<and> step_to p r3 UNLOADED None False w5 = (Inr r, w6)
          \<and> emit_changed M (record_ref r) (lifecycle_state_value (ps_state r3)) UNLOADED operation ctx (snd (put_prepared p None w6)) = (Inr (), w')))"
proof -
  from assms obtain r0 w0 operation w1 where g: "on_lifecycle (get_record p) w = (Inr r0, w0)"
    and o: "operation_id ctx ''plugin.unload'' p = Inr operation" "emit_requested M r0 UNLOADED operation ctx w0 = (Inr (), w1)"
    and k: "(if ps_state r0 = UNLOADED then areturn r0
     else abind (prepared_of p) (\<lambda>(x, l). atry (unload_work M p x l r0 operation ctx) (unload_failed M p operation ctx))) w1 = (Inr r, w')"
    by (auto simp: unload_effect_def abind_eq_Inr aresult_def)
  have w0: "w0 = w" by (rule on_lifecycle_get_record [OF g])
  show ?thesis
  proof (cases "ps_state r0 = UNLOADED")
    case True
    with g o k w0 show ?thesis by (auto simp: areturn_def)
  next
    case False
    with k obtain x l where m: "mt_prepared (pw_rest w1) p = Some (x, l)"
      and t: "atry (unload_work M p x l r0 operation ctx) (unload_failed M p operation ctx) w1 = (Inr r, w')"
      by (auto simp: abind_eq_Inr prepared_of_def split: option.splits)
    from atry_failing [OF t] obtain rd w2 r2 w3 where d: "unload_drain M p r0 operation ctx w1 = (Inr rd, w2)"
      and u: "unload_unregister M p rd operation ctx w2 = (Inr r2, w3)" "ps_state r2 = UNREGISTERED"
      and f: "unload_finish M p x l r2 operation ctx w3 = (Inr r, w')"
      by (auto simp: unload_work_def abind_eq_Inr araise_def split: if_splits)
    from f obtain r3 w4 w5 w6 where n: "hook_once M x ON_UNLOAD p r2 ctx w3 = (Inr r3, w4)"
      "awaited_in M ctx (pm_cleanup M l x ctx) w4 = (Inr (), w5)" "step_to p r3 UNLOADED None False w5 = (Inr r, w6)"
      "emit_changed M (record_ref r) (lifecycle_state_value (ps_state r3)) (ps_state r) operation ctx (snd (put_prepared p None w6)) = (Inr (), w')"
      by (auto simp: unload_finish_def abind_eq_Inr areturn_def put_prepared_def intro: that)
    have e: "emit_changed M (record_ref r) (lifecycle_state_value (ps_state r3)) UNLOADED operation ctx (snd (put_prepared p None w6)) = (Inr (), w')"
      using n(4) step_to_state [OF n(3)] by simp
    from g [unfolded w0] o [unfolded w0] m unload_drain_from [OF d] unload_unregister_from [OF u] n(1-3) e show ?thesis by blast
  qed
qed

end
