(* ===== verification/Provider_Properties.thy ===== *)
theory Provider_Properties
  imports Agent_Harness Memory_Guarantees Samples
begin

section \<open>Properties of the providers and of the Agent runtime\<close>

text \<open>
  What a caller of the context resolver, the model gateway, the memory gateway and the Agent runtime
  can rely on, whatever the providers do. The samples are an Agent whose Run lives in the in-memory
  repository behind the Run service, with one provider of each kind and a policy that grants what is
  asked for.
\<close>

subsection \<open>A stream ends\<close>

lemma yield_returns: "yield_event C e stream_returns w \<noteq> None"
  by (simp add: yield_event_def preceded_def stream_returns_def split: prod.splits)

lemma stream_fails_ends: "stream_fails M ctx since C d w \<noteq> None"
  by (simp add: stream_fails_def yield_returns)

lemma stream_loop_ends:
  assumes nx: "\<And>u e u'. mn_next it u = (Operation_Done (Inr e), u') \<Longrightarrow> \<mu> u' < (\<mu> u :: nat)"
    and C: "\<And>e v. \<mu> (snd (C e v)) \<le> \<mu> v"
  shows "\<mu> w < n \<Longrightarrow> stream_loop M q ctx since C it n begun w \<noteq> None"
proof (induction n arbitrary: begun w)
  case (Suc n)
  obtain y w1 where a: "await_provider ctx (pv_token (mg_env M)) (pv_clock (mg_env M)) (mn_next it) w = (y, w1)" by fastforce
  show ?case
  proof (cases y)
    case (Inl e)
    with a show ?thesis by (simp add: stream_fails_ends)
  next
    case (Inr e)
    with a have "mn_next it w = (Operation_Done (Inr e), w1)" by (simp add: await_provider_Inr)
    with nx Suc.prems have m: "\<mu> w1 < n" by fastforce
    have "yield_event C e (stream_loop M q ctx since C it n True) w1 \<noteq> None"
      using Suc.IH [of "snd (C e w1)" True] C [of e w1] m by (auto simp: yield_event_def preceded_def split: prod.splits)
    then have "stream_event M q ctx since C begun e (stream_loop M q ctx since C it n True) w1 \<noteq> None"
      by (simp add: stream_event_def stream_fails_ends yield_returns stream_raises_def del: not_None_eq split: option.splits sum.splits)
    with a Inr show ?thesis by simp
  qed
qed simp

lemma stream_handled_ends: "r \<noteq> None \<Longrightarrow> stream_handled M ctx since C r \<noteq> None"
  by (simp add: stream_handled_def stream_fails_ends del: not_None_eq split: option.splits prod.splits stream_end.splits exn.splits)

lemma stream_finally_ends: "r \<noteq> None \<Longrightarrow> stream_finally it r \<noteq> None"
  by (auto simp: stream_finally_def split: option.splits prod.splits sum.splits)

lemma gateway_stream_ends:
  assumes nx: "\<And>p r c v it v1 u e u'. mg_providers M (ms_provider (mq_selector q)) = Some p \<Longrightarrow> mv_stream p r c v = (Inr it, v1)
      \<Longrightarrow> mn_next it u = (Operation_Done (Inr e), u') \<Longrightarrow> \<mu> u' < (\<mu> u :: nat)"
    and C: "\<And>e v. \<mu> (snd (C e v)) \<le> \<mu> v"
  shows "\<exists>n. \<forall>m \<ge> n. gateway_stream M q ctx C m w \<noteq> None"
proof -
  let ?since = "pv_clock (mg_env M) w"
  have raised: "stream_raises e w1 \<noteq> None" for e and w1 :: 'a by (simp add: stream_raises_def)
  show ?thesis
  proof (cases "get_model_provider (mg_providers M) (ms_provider (mq_selector q))")
    case (Inl e)
    then show ?thesis by (simp add: gateway_stream_def Let_def raised)
  next
    case p: (Inr p)
    then have known: "mg_providers M (ms_provider (mq_selector q)) = Some p" by (simp add: get_model_provider_def split: option.splits)
    show ?thesis
    proof (cases "model_access (mq_selector q) ctx MODEL_STREAM_ACTION (model_constraints q)")
      case (Inl e)
      with p show ?thesis by (simp add: gateway_stream_def Let_def raised)
    next
      case access: (Inr access)
      obtain y w1 where d: "dispatch (pv_dispatcher (mg_env M)) access (stream_call p q) w = (y, w1)" by fastforce
      show ?thesis
      proof (cases y)
        case (Inl e)
        with p access d stream_handled_ends [OF raised] show ?thesis by (simp add: gateway_stream_def Let_def)
      next
        case it: (Inr it)
        define w2 where "w2 = snd (invocation_started M OP_STREAM (mq_selector q) ctx w1)"
        from d it dispatch_Inr obtain call wb where "stream_call p q call wb = (Inr it, w1)" by metis
        then obtain r c v v1 where "mv_stream p r c v = (Inr it, v1)" by (auto simp: stream_call_def abind_eq_Inr aresult_def)
        from nx [OF known this] have "stream_loop M q ctx ?since C it m False w2 \<noteq> None" if "Suc (\<mu> w2) \<le> m" for m
          using that C by (intro stream_loop_ends [where \<mu> = \<mu>]) auto
        note ended = stream_finally_ends [OF stream_handled_ends [OF this]]
        have "gateway_stream M q ctx C m w \<noteq> None" if "Suc (\<mu> w2) \<le> m" for m
          using ended [OF that, of it M ctx ?since C] p access d it unfolding w2_def by (simp add: gateway_stream_def Let_def)
        then show ?thesis by blast
      qed
    qed
  qed
qed

subsection \<open>A policy that grants what is asked for\<close>

definition sample_permit :: "access_request \<Rightarrow> grant" where
  "sample_permit q = \<lparr>gr_principal = aq_principal q, gr_action = aq_action q, gr_resource = aq_resource q,
     gr_source_scope = cx_scope (aq_context q), gr_effective_scope = aq_scope q, gr_constraints = Map.empty,
     gr_issued_at = sample_time 0, gr_expires_at = None, gr_policy_version = ''1'', gr_audit_correlation = ''k1''\<rparr>"

definition sample_permitting :: "action_ref list \<Rightarrow> 'w dispatcher" where
  "sample_permitting acts = \<lparr>di_actions = action_registry_of acts, di_audit_denied = (\<lambda>q d. areturn ()),
     di_audit_granted = (\<lambda>q g. areturn ()), di_audit_failure = (\<lambda>i e. areturn ()), di_clock = (\<lambda>_. sample_time 5),
     di_policy = Some (\<lambda>q. areturn \<lparr>de_effect = ALLOW, de_grant = Some (sample_permit q), de_reason = None\<rparr>)\<rparr>"

lemma sample_context_active: "check_active sample_context (sample_time 5) = Inr ()"
  by code_simp

lemma sample_context_token [simp]: "sample_context\<lparr>cx_cancellation := new_token ''c1'' False\<rparr> = sample_context"
  by (simp add: sample_context_def)

lemma sample_permitted:
  assumes "action_contains (action_registry_of acts) (aq_action q)" "check_active (aq_context q) (sample_time 5) = Inr ()"
    and "aq_scope q = cx_scope (aq_context q)"
  shows "dispatch (sample_permitting acts) q f w = f \<lparr>au_request = q, au_grant = sample_permit q, au_context = aq_context q\<rparr> w"
  using assms
  by (simp add: dispatch_def sample_permitting_def decide_request_def abind_def areturn_def aresult_def
      validate_grant_def sample_permit_def cross_scope_def grant_expired_def require_narrower_than_def)

lemma sample_no_constraints [simp]:
  "gr_constraints (sample_permit q) = Map.empty" "only_constraints Map.empty names" "constraint_value Map.empty k = JNull"
  by (simp_all add: sample_permit_def only_constraints_def constraint_value_def)

definition sample_actions :: "action_ref list" where
  "sample_actions = [MODEL_CAPABILITIES_ACTION, MODEL_GENERATE_ACTION, MODEL_STREAM_ACTION, CONTEXT_CAPABILITIES_ACTION,
     CONTEXT_PROVIDE_ACTION] @ memory_actions"

lemma sample_actions_simps [simp]:
  "MODEL_CAPABILITIES_ACTION \<in> set sample_actions" "MODEL_GENERATE_ACTION \<in> set sample_actions"
  "MODEL_STREAM_ACTION \<in> set sample_actions" "CONTEXT_CAPABILITIES_ACTION \<in> set sample_actions"
  "CONTEXT_PROVIDE_ACTION \<in> set sample_actions" "memory_action ''capabilities'' \<in> set sample_actions"
  "memory_action ''retrieve'' \<in> set sample_actions"
  by (simp_all add: sample_actions_def memory_actions_def)

lemma sample_actions_known: "a \<in> set sample_actions \<Longrightarrow> action_contains (action_registry_of sample_actions) a"
  by (force simp: action_contains_def action_registry_of_def dom_map_of_conv_image_fst)

definition sample_note :: schema_ref where
  "sample_note = \<lparr>sm_namespace = ''core'', sm_name = ''note'', sm_version = ''1''\<rparr>"

definition sample_env :: "'w provider_env" where
  "sample_env = \<lparr>pv_dispatcher = sample_permitting sample_actions,
     pv_schemas = [schema_key sample_note \<mapsto> (\<lambda>v. if is_text v then Inr () else Inl (ValueError ''not a text''))],
     pv_clock = (\<lambda>_. sample_time 5), pv_token = (\<lambda>_. new_token ''c1'' False), pv_publish = null_provider_publisher,
     pv_elapsed = (\<lambda>_ _. 0)\<rparr>"

lemma sample_env_simps [simp]:
  "pv_dispatcher sample_env = sample_permitting sample_actions" "pv_clock sample_env w = sample_time 5"
  "pv_token sample_env w = new_token ''c1'' False" "emit sample_env event ctx payload w = (Inr (), w)"
  "validate_value (pv_schemas sample_env) sample_note (JStr s) = Inr ()"
  by (simp_all add: sample_env_def emit_def null_provider_publisher_def atry_def areturn_def validate_value_def is_text_def)

lemma sample_awaited:
  "await_provider sample_context (pv_token sample_env) (pv_clock sample_env) (\<lambda>w. (Operation_Done (Inr x), w)) w = (Inr x, w)"
  by (simp add: await_provider_Inr sample_context_active)

lemma sample_access:
  "provider_access sample_context act kind i constraints = rbind (rbind (mk_identifier i) (\<lambda>i. mk_resource ''core'' kind i None)) (\<lambda>r.
     Inr \<lparr>aq_principal = \<lparr>pr_namespace = ''core'', pr_kind = ''run'', pr_id = ''r1''\<rparr>, aq_action = act, aq_resource = r,
       aq_scope = sample_scope, aq_context = sample_context, aq_constraints = map_of constraints\<rparr>)"
proof -
  have "rbind (mk_identifier (cx_run_id sample_context)) (core_principal PRINCIPAL_RUN)
    = Inr \<lparr>pr_namespace = ''core'', pr_kind = ''run'', pr_id = ''r1''\<rparr>" by code_simp
  moreover have "cx_scope sample_context = sample_scope" by (simp add: sample_context_def)
  ultimately show ?thesis by (simp add: provider_access_def)
qed

subsection \<open>The model gateway\<close>

definition sample_said :: "string \<Rightarrow> content_block" where
  "sample_said s = \<lparr>cb_kind = CONTENT_TEXT, cb_value = JStr s, cb_name = None, cb_media = None\<rparr>"

definition sample_selector :: model_selector where
  "sample_selector = \<lparr>ms_provider = ''p1'', ms_model = ''gpt''\<rparr>"

definition sample_budget :: model_budget where
  "sample_budget = \<lparr>mb_input = Some 100, mb_output = Some 10\<rparr>"

definition sample_request_policy :: model_request_policy where
  "sample_request_policy = \<lparr>mp_allow_partial = False, mp_allow_tools = False\<rparr>"

definition sample_asked :: "context_entry list \<Rightarrow> model_request" where
  "sample_asked entries = \<lparr>mq_selector = sample_selector, mq_input = [sample_said ''hello''], mq_instructions = [sample_said ''be brief''],
     mq_context = entries, mq_tools = [], mq_schema = None, mq_policy = sample_request_policy, mq_budget = sample_budget\<rparr>"

definition sample_reply :: model_response where
  "sample_reply = \<lparr>mr_output = [sample_said ''hi''], mr_finish = FINISH_STOP, mr_usage = \<lparr>mu_input = 5, mu_output = 2, mu_unit = ''token''\<rparr>,
     mr_provider = ''p1'', mr_model = ''gpt'', mr_structured = JNull, mr_tools = [], mr_warnings = [], mr_provenance = []\<rparr>"

definition sample_offers :: model_capabilities where
  "sample_offers = \<lparr>mc_selector = sample_selector, mc_operations = {OP_GENERATE, OP_STREAM}, mc_structured = False, mc_tool_calls = False,
     mc_inputs = {CONTENT_TEXT}, mc_outputs = {CONTENT_TEXT}, mc_maximum = sample_budget, mc_usage_reporting = True, mc_contract = ''1''\<rparr>"

definition sample_model :: "('w, exn, 'w model_iterator) action \<Rightarrow> 'w model_provider" where
  "sample_model stream = \<lparr>mv_generate = (\<lambda>q c w. (Operation_Done (Inr (Some sample_reply)), w)), mv_stream = (\<lambda>q c. stream),
     mv_capabilities = (\<lambda>s c w. (Operation_Done (Inr (Some sample_offers)), w))\<rparr>"

definition sample_models :: "('w, exn, 'w model_iterator) action \<Rightarrow> 'w model_gateway" where
  "sample_models stream = \<lparr>mg_env = sample_env, mg_providers = [''p1'' \<mapsto> sample_model stream]\<rparr>"

lemmas sample_model_defs = sample_selector_def sample_budget_def sample_asked_def sample_reply_def sample_models_def sample_model_def

lemma sample_model_access:
  "model_access sample_selector sample_context act constraints = Inr \<lparr>aq_principal = \<lparr>pr_namespace = ''core'', pr_kind = ''run'', pr_id = ''r1''\<rparr>,
     aq_action = act, aq_resource = \<lparr>rs_namespace = ''core'', rs_kind = ''model'', rs_id = ''p1:gpt'', rs_owner = None\<rparr>,
     aq_scope = sample_scope, aq_context = sample_context, aq_constraints = map_of constraints\<rparr>"
proof -
  have "rbind (mk_identifier ''p1:gpt'') (\<lambda>i. mk_resource ''core'' ''model'' i None)
    = Inr \<lparr>rs_namespace = ''core'', rs_kind = ''model'', rs_id = ''p1:gpt'', rs_owner = None\<rparr>" by code_simp
  then show ?thesis by (simp add: model_access_def sample_access sample_selector_def)
qed

lemma sample_dispatched:
  assumes "aq_action q \<in> set sample_actions" "aq_context q = sample_context" "aq_scope q = sample_scope"
  shows "dispatch (sample_permitting sample_actions) q f w
    = f \<lparr>au_request = q, au_grant = sample_permit q, au_context = sample_context\<rparr> w"
  using assms sample_permitted [OF sample_actions_known [OF assms(1)], of f w] by (simp add: sample_context_active sample_context_def [THEN arg_cong, of cx_scope])

lemma sample_offered: "gateway_capabilities (sample_models stream) sample_selector sample_context w = (Inr sample_offers, w)"
  using sample_context_active
  by (simp add: gateway_capabilities_def sample_models_def get_model_provider_def sample_selector_def [THEN arg_cong, of ms_provider]
      abind_def aresult_def sample_model_access sample_dispatched model_capability_call_def
      validate_capability_grant_def changes_model_def model_guard_def guarded_provider_def await_provider_def active_now_def
      sample_model_def areturn_def atry_def sample_offers_def Let_def)

lemma sample_generates:
  "gateway_generate (sample_models stream) (sample_asked entries) sample_context w = (Inr sample_reply, w)"
proof -
  have c: "constrain_model (sample_asked entries) \<lparr>au_request = a, au_grant = sample_permit a, au_context = sample_context\<rparr> = Inr (sample_asked entries)" for a
    by (simp add: constrain_model_def changes_model_def granted_tools_def narrow_limit_def sample_asked_def sample_budget_def mk_budget_def
        limit_ok_def mk_model_request_def Let_def)
  have v: "validate_response S (sample_asked entries) sample_reply = Inr ()" for S
    by (simp add: validate_response_def raise_when_def sample_asked_def sample_reply_def sample_selector_def limit_exceeds_def sample_budget_def)
  have a: "mq_selector (sample_asked entries) = sample_selector" "ms_provider sample_selector = ''p1''"
    by (simp_all add: sample_asked_def sample_selector_def)
  show ?thesis
    using sample_context_active
    by (simp add: gateway_generate_def a sample_models_def get_model_provider_def abind_def aresult_def sample_model_access
        invocation_started_def invocation_completed_def generate_checked_def sample_dispatched generate_call_def c v
        model_guard_def guarded_provider_def await_provider_def active_now_def sample_model_def areturn_def atry_def Let_def)
qed



text \<open>
  The checks of the response are against the request of the caller: a response that uses more units than the
  grant left is returned all the same.
\<close>

definition sample_strict_grant :: "access_request \<Rightarrow> grant" where
  "sample_strict_grant q = (sample_permit q)\<lparr>gr_constraints := [''max_output_units'' \<mapsto> JInt 1]\<rparr>"

definition sample_strict_models :: "'w model_gateway" where
  "sample_strict_models = (sample_models (\<lambda>w. (Inl (ValueError ''no stream''), w)))\<lparr>mg_env := sample_env\<lparr>pv_dispatcher :=
     (sample_permitting sample_actions)\<lparr>di_policy := Some (\<lambda>q. areturn \<lparr>de_effect = ALLOW, de_grant = Some (sample_strict_grant q), de_reason = None\<rparr>)\<rparr>\<rparr>\<rparr>"

lemma sample_strictly_constrained:
  "constrain_model (sample_asked []) \<lparr>au_request = a, au_grant = sample_strict_grant a, au_context = ctx\<rparr>
     = Inr ((sample_asked [])\<lparr>mq_budget := \<lparr>mb_input = Some 100, mb_output = Some 1\<rparr>\<rparr>)"
  by (simp add: constrain_model_def changes_model_def granted_tools_def narrow_limit_def sample_asked_def sample_budget_def mk_budget_def
        limit_ok_def mk_model_request_def sample_strict_grant_def only_constraints_def constraint_value_def Let_def)

lemma over_granted_budget_accepted:
  "gateway_generate sample_strict_models (sample_asked []) sample_context w = (Inr sample_reply, w) \<and> 1 < mu_output (mr_usage sample_reply)"
proof -
  have s: "sample_context\<lparr>cx_scope := sample_scope\<rparr> = sample_context" by (simp add: sample_context_def)
  have d: "dispatch (pv_dispatcher (mg_env sample_strict_models)) q f w = f \<lparr>au_request = q, au_grant = sample_strict_grant q, au_context = sample_context\<rparr> w"
    if "aq_action q \<in> set sample_actions" "aq_context q = sample_context" "aq_scope q = sample_scope"
    for q and f :: "authorized_call \<Rightarrow> ('a, exn, 'b) action"
    using that sample_actions_known [OF that(1)] sample_context_active
    by (simp add: s sample_strict_models_def dispatch_def sample_permitting_def decide_request_def abind_def areturn_def aresult_def
      validate_grant_def sample_strict_grant_def sample_permit_def cross_scope_def grant_expired_def require_narrower_than_def
      sample_context_def [THEN arg_cong, of cx_scope])
  have v: "validate_response S (sample_asked []) sample_reply = Inr ()" for S
    by (simp add: validate_response_def raise_when_def sample_asked_def sample_reply_def sample_selector_def limit_exceeds_def sample_budget_def)
  have e: "emit (mg_env sample_strict_models) x c p w' = (Inr (), w')" "pv_token (mg_env sample_strict_models) w' = new_token ''c1'' False"
    "pv_clock (mg_env sample_strict_models) w' = sample_time 5" "mg_providers sample_strict_models = [''p1'' \<mapsto> sample_model (\<lambda>w. (Inl (ValueError ''no stream''), w))]"
    for x c p and w' :: 'a
    by (simp_all add: sample_strict_models_def sample_models_def sample_env_def emit_def null_provider_publisher_def atry_def areturn_def)
  have a: "mq_selector (sample_asked []) = sample_selector" "ms_provider sample_selector = ''p1''"
    by (simp_all add: sample_asked_def sample_selector_def)
  have "gateway_generate sample_strict_models (sample_asked []) sample_context w = (Inr sample_reply, w)"
    using sample_context_active
    by (simp add: gateway_generate_def a e get_model_provider_def abind_def aresult_def sample_model_access
        invocation_started_def invocation_completed_def generate_checked_def d generate_call_def sample_strictly_constrained v
        model_guard_def guarded_provider_def await_provider_def active_now_def sample_model_def areturn_def atry_def Let_def)
  then show ?thesis by (simp add: sample_reply_def)
qed

subsection \<open>Streams\<close>

text \<open>
  C15. Every stream is in order and complete: whatever the provider's iterator yields, the events that
  reach the consumer begin with a start event unless there is only a failure, nothing follows a terminal
  event, a completion carries a response that fits the request, and a stream that ends normally has
  ended with a completion or a failure.
\<close>

theorem model_stream_in_order:
  assumes "gateway_stream M q ctx C fuel w = Some (es, x, w')"
  shows "stream_in_order (pv_schemas (mg_env M)) q False es \<and> stream_complete es x"
  using assms by (rule gateway_stream_in_order)

definition sample_stream_event :: "model_event_type \<Rightarrow> model_response option \<Rightarrow> model_event" where
  "sample_stream_event t r = \<lparr>me_type = t, me_content = None, me_structured = JNull, me_tool = None, me_usage = None,
     me_response = r, me_error = None\<rparr>"

definition sample_iterator :: "nat model_iterator" where
  "sample_iterator = \<lparr>mn_next = (\<lambda>n. (Operation_Done (if n = 2 then Inr (sample_stream_event MODEL_START None)
     else if n = 1 then Inr (sample_stream_event COMPLETION (Some sample_reply))
     else Inl (ForeignError ''StopAsyncIteration'')), n - 1)), mn_close = None\<rparr>"

definition sample_streaming :: "nat model_gateway" where
  "sample_streaming = sample_models (areturn sample_iterator)"

lemma sample_reply_valid: "validate_response S (sample_asked entries) sample_reply = Inr ()"
  by (simp add: validate_response_def raise_when_def sample_asked_def sample_reply_def sample_selector_def limit_exceeds_def sample_budget_def)

lemma sample_asked_constrained:
  "constrain_model (sample_asked entries) \<lparr>au_request = a, au_grant = sample_permit a, au_context = sample_context\<rparr> = Inr (sample_asked entries)"
  by (simp add: constrain_model_def changes_model_def granted_tools_def narrow_limit_def sample_asked_def sample_budget_def mk_budget_def
      limit_ok_def mk_model_request_def Let_def)

lemma sample_streamed:
  "gateway_stream sample_streaming (sample_asked []) sample_context (\<lambda>e n. (True, n)) 2 2
     = Some ([sample_stream_event MODEL_START None, sample_stream_event COMPLETION (Some sample_reply)], Stream_Returned, 0)"
proof -
  have a: "mq_selector (sample_asked []) = sample_selector" "ms_provider sample_selector = ''p1''"
    by (simp_all add: sample_asked_def sample_selector_def)
  show ?thesis
    using sample_context_active
    by (simp add: gateway_stream_def a sample_streaming_def sample_models_def get_model_provider_def sample_model_access Let_def
        sample_dispatched stream_call_def abind_def aresult_def sample_asked_constrained sample_model_def areturn_def
        invocation_started_def invocation_completed_def numeral_2_eq_2 await_provider_def active_now_def sample_iterator_def
        stream_event_def sample_stream_event_def yield_event_def preceded_def stream_returns_def sample_reply_valid
        stream_handled_def stream_finally_def)
qed

theorem model_stream_in_order_witness:
  "\<exists>es x w'. gateway_stream sample_streaming (sample_asked []) sample_context (\<lambda>e n. (True, n)) 2 2 = Some (es, x, w')
     \<and> stream_in_order (pv_schemas (mg_env sample_streaming)) (sample_asked []) False es \<and> stream_complete es x"
  by (rule exI, rule exI, rule exI, rule conjI [OF sample_streamed model_stream_in_order [OF sample_streamed]])

text \<open>
  C16. A stream ends: when every event the provider's iterators yield uses up some measure of the world,
  and the consumer does not give it back, some number of passes is enough and so is any larger one.
\<close>

theorem model_stream_ends:
  assumes "\<And>p r c v it v1 u e u'. mg_providers M (ms_provider (mq_selector q)) = Some p \<Longrightarrow> mv_stream p r c v = (Inr it, v1)
      \<Longrightarrow> mn_next it u = (Operation_Done (Inr e), u') \<Longrightarrow> \<mu> u' < (\<mu> u :: nat)"
    and "\<And>e v. \<mu> (snd (C e v)) \<le> \<mu> v"
  shows "\<exists>n. \<forall>m \<ge> n. gateway_stream M q ctx C m w \<noteq> None"
  using assms by (rule gateway_stream_ends)

theorem model_stream_ends_witness:
  "\<exists>n. \<forall>m \<ge> n. gateway_stream sample_streaming (sample_asked []) sample_context (\<lambda>e n. (True, n)) m 2 \<noteq> None"
proof (rule model_stream_ends [where \<mu> = "\<lambda>n. n"])
  fix p r c v it v1 u e u'
  assume "mg_providers sample_streaming (ms_provider (mq_selector (sample_asked []))) = Some p" "mv_stream p r c v = (Inr it, v1)"
    "mn_next it u = (Operation_Done (Inr e), u')"
  then show "u' < u"
    by (auto simp: sample_streaming_def sample_models_def sample_model_def areturn_def sample_iterator_def sample_asked_def
        sample_selector_def split: if_splits)
qed simp

subsection \<open>The context resolver\<close>

text \<open>
  C12. A resolved context answers its request: it is combined from answers that bound providers gave in
  authorized calls for required keys; every entry comes from an answer, up to the value a merge policy
  gave it; outside \<open>ALL\<close> the keys are exactly the required ones some answer has, in their order; the
  missing keys are the required ones without an entry, complete means that there is none; and the
  budget holds.
\<close>

theorem resolved_context_answers_request:
  assumes "resolve_context E q b w = (Inr r, w')"
  shows "\<exists>rs. rs \<noteq> [] \<and> list_all (result_fits E q b) rs \<and> rx_providers r = List.map xr_provider rs
    \<and> (\<forall>e \<in> set (rx_entries r). \<exists>k \<in> set (xq_requirements q). \<exists>c \<in> set (candidates rs (cq_key k)).
         en_key e = en_key c \<and> en_schema e = en_schema c \<and> (en_value e = en_value c
           \<or> merge_values (xe_merges E) (cq_schema k) (List.map en_value (candidates rs (cq_key k))) = Inr (en_value e)))
    \<and> (xb_strategy b \<noteq> ALL_VALUES \<longrightarrow>
         List.map en_key (rx_entries r) = filter (\<lambda>k. candidates rs k \<noteq> []) (keys_of (xq_requirements q)))
    \<and> rx_missing r = filter (\<lambda>k. k \<notin> set (List.map en_key (rx_entries r))) (keys_of (xq_requirements q))
    \<and> (rx_completeness r = COMPLETE \<longleftrightarrow> rx_missing r = [])
    \<and> enforce_budget (xq_budget q) (rx_usage r) = Inr ()"
proof -
  from resolve_context_Inr [OF assms] obtain rs where rs: "list_all (result_fits E q b) rs" "rs \<noteq> []" and c: "combine E q b rs = Inr r"
    by blast
  note k = combine_Inr [OF c]
  from k have es: "combine_entries (xe_merges E) (xb_strategy b) rs (xq_requirements q) = Inr (rx_entries r)" by blast
  show ?thesis
    using rs k combine_entries_keys [OF es] combine_entries_origin [OF es] by (intro exI [of _ rs]) blast
qed

definition sample_needed :: context_requirement where
  "sample_needed = \<lparr>cq_key = \<lparr>ky_namespace = ''core'', ky_name = ''note''\<rparr>, cq_schema = sample_note\<rparr>"

definition sample_entry :: context_entry where
  "sample_entry = \<lparr>en_key = cq_key sample_needed, en_schema = sample_note, en_value = JStr ''x'', en_provenance = [''n1''],
     en_fresh_at = None, en_expires_at = None\<rparr>"

definition sample_unlimited :: context_budget where
  "sample_unlimited = \<lparr>cl_bytes = None, cl_tokens = None\<rparr>"

definition sample_context_offer :: context_capabilities where
  "sample_context_offer = \<lparr>xc_provider = ''x1'', xc_contract = ''1'', xc_supported = [sample_needed], xc_partial = False,
     xc_maximum = sample_unlimited, xc_patterns = []\<rparr>"

definition sample_provided :: context_result where
  "sample_provided = \<lparr>xr_provider = ''x1'', xr_contract = ''1'', xr_entries = [sample_entry], xr_completeness = COMPLETE,
     xr_missing = [], xr_warnings = [], xr_usage = \<lparr>cg_bytes = 3, cg_tokens = None\<rparr>\<rparr>"

definition sample_resolver :: "'w context_resolver" where
  "sample_resolver = \<lparr>xe_env = sample_env, xe_providers = [''x1'' \<mapsto> \<lparr>xp_provide = (\<lambda>q w. (Operation_Done (Inr (Some sample_provided)), w)),
     xp_capabilities = (\<lambda>c w. (Operation_Done (Inr (Some sample_context_offer)), w))\<rparr>], xe_merges = Map.empty,
     xe_encoded_length = (\<lambda>vs. 5)\<rparr>"

definition sample_binding :: context_binding where
  "sample_binding = \<lparr>xb_providers = [''x1''], xb_requirements = [sample_needed], xb_strategy = SINGLE_PROVIDER,
     xb_policy = REQUIRE_COMPLETE, xb_budget = sample_unlimited\<rparr>"

definition sample_wanted :: context_request where
  "sample_wanted = \<lparr>xq_definition_id = ''d1'', xq_context = sample_context, xq_requirements = [sample_needed], xq_policy = REQUIRE_COMPLETE,
     xq_budget = sample_unlimited\<rparr>"

definition sample_resolved :: resolved_context where
  "sample_resolved = \<lparr>rx_entries = [sample_entry], rx_completeness = COMPLETE, rx_missing = [], rx_warnings = [], rx_providers = [''x1''],
     rx_usage = \<lparr>cg_bytes = 5, cg_tokens = None\<rparr>\<rparr>"

lemma sample_context_access:
  "provider_access sample_context act ''context_provider'' ''x1'' constraints = Inr \<lparr>aq_principal = \<lparr>pr_namespace = ''core'', pr_kind = ''run'',
     pr_id = ''r1''\<rparr>, aq_action = act, aq_resource = \<lparr>rs_namespace = ''core'', rs_kind = ''context_provider'', rs_id = ''x1'', rs_owner = None\<rparr>,
     aq_scope = sample_scope, aq_context = sample_context, aq_constraints = map_of constraints\<rparr>"
proof -
  have "rbind (mk_identifier ''x1'') (\<lambda>i. mk_resource ''core'' ''context_provider'' i None)
    = Inr \<lparr>rs_namespace = ''core'', rs_kind = ''context_provider'', rs_id = ''x1'', rs_owner = None\<rparr>" by code_simp
  then show ?thesis by (simp add: sample_access)
qed

lemma sample_wanted_constrained:
  "constrain_context sample_wanted \<lparr>au_request = a, au_grant = sample_permit a, au_context = sample_context\<rparr> = Inr sample_wanted"
  by (simp add: constrain_context_def granted_requirements_def narrow_limit_def mk_context_budget_def limit_ok_def mk_context_request_def
      sample_wanted_def sample_unlimited_def keys_of_def Let_def)

lemma sample_capabilities_loaded:
  "provider_capabilities sample_resolver sample_wanted ''x1'' w = (Inr sample_context_offer, w)"
  using sample_context_active
  by (simp add: provider_capabilities_def sample_resolver_def get_context_provider_def sample_wanted_def [THEN arg_cong, of xq_context]
      sample_context_access abind_def aresult_def sample_dispatched capability_call_def sample_wanted_constrained
      context_guard_def guarded_provider_def await_provider_def active_now_def areturn_def atry_def sample_context_offer_def)

lemma sample_provider_invoked:
  "invoke_provider sample_resolver sample_wanted ''x1'' [sample_needed] w = (Inr sample_provided, w)"
proof -
  have q: "sample_wanted\<lparr>xq_requirements := [sample_needed]\<rparr> = sample_wanted" "mk_context_request sample_wanted = Inr sample_wanted"
    "xq_context sample_wanted = sample_context"
    by (simp_all add: sample_wanted_def mk_context_request_def keys_of_def)
  have v: "validate_context_result (pv_schemas (sample_env :: 'a provider_env)) ''x1'' sample_wanted sample_provided = Inr ()"
    by (simp add: validate_context_result_def sample_provided_def raise_when_def sample_wanted_def sample_entry_def sample_needed_def keys_of_def)
  show ?thesis
    using sample_context_active
    by (simp add: invoke_provider_def sample_resolver_def get_context_provider_def q sample_context_access abind_def aresult_def
        sample_dispatched provide_call_def sample_wanted_constrained context_guard_def guarded_provider_def
        await_provider_def active_now_def areturn_def atry_def v)
qed

lemma sample_resolution: "resolve_context sample_resolver sample_wanted sample_binding w = (Inr sample_resolved, w)"
proof -
  have s: "select_providers sample_wanted sample_binding [''x1'' \<mapsto> sample_context_offer] = Inr [(''x1'', [sample_needed])]"
    by (simp add: select_providers_def provider_groups_def provider_supports_def context_supports_def sample_binding_def sample_wanted_def
        sample_context_offer_def raise_when_def sample_unlimited_def limit_exceeds_def)
  have c: "combine sample_resolver sample_wanted sample_binding [sample_provided] = Inr sample_resolved"
    by (simp add: combine_def sample_wanted_def sample_binding_def candidates_def sample_provided_def sample_entry_def sample_needed_def
        merge_candidates_def merge_values_def mk_entry_def mk_context_usage_def enforce_budget_def sample_unlimited_def limit_exceeds_def
        raise_when_def sample_resolved_def mk_resolved_def keys_of_def sample_resolver_def trimmed_def py_strip_def is_space_def json_eq.simps)
  have e: "emit (xe_env sample_resolver) event ctx payload w = (Inr (), w)" for event ctx payload
    by (simp add: sample_resolver_def)
  show ?thesis
    by (simp add: resolve_context_def e resolution_def resolution_completed_def abind_def aresult_def areturn_def atry_def Let_def
        sample_capabilities_loaded sample_provider_invoked s c invoke_groups_def context_fallback_def settles_def
        sample_binding_def [THEN arg_cong, of xb_providers] sample_binding_def [THEN arg_cong, of xb_requirements]
        sample_binding_def [THEN arg_cong, of xb_strategy] sample_wanted_def [THEN arg_cong, of xq_requirements])
qed

theorem resolved_context_answers_request_witness:
  "resolve_context sample_resolver sample_wanted sample_binding () = (Inr sample_resolved, ())
   \<and> (\<exists>rs. rs \<noteq> [] \<and> list_all (result_fits (sample_resolver :: unit context_resolver) sample_wanted sample_binding) rs
        \<and> rx_providers sample_resolved = List.map xr_provider rs)"
  using resolved_context_answers_request [OF sample_resolution [of "()"]] sample_resolution [of "()"] by blast

subsection \<open>The Agent runtime\<close>

definition sample_service :: "(runs \<times> unit) workflow_runs" where
  "sample_service = (let step = (\<lambda>op i v. service_apply memory_repo null_publisher undisturbed i v (run_apply op) (sample_time 1)) in
     \<lparr>sv_get = service_get memory_repo, sv_create = service_create memory_repo, sv_start = step OpStart,
      sv_advance = (\<lambda>i v s. step (OpAdvance s ''advance'') i v), sv_complete = step OpComplete,
      sv_fail = (\<lambda>i v d. step (OpFail d) i v), sv_cancel = step OpCancel\<rparr>)"

definition sample_model_binding :: model_binding where
  "sample_model_binding = \<lparr>mi_ref = ''m1'', mi_selector = sample_selector, mi_required = \<lparr>rq_streaming = False, rq_structured = False,
     rq_tool_calls = False, rq_inputs = {CONTENT_TEXT}, rq_outputs = {CONTENT_TEXT}\<rparr>, mi_policy = sample_request_policy,
     mi_budget = sample_budget, mi_fallbacks = []\<rparr>"

definition sample_spec :: agent_spec where
  "sample_spec = \<lparr>ax_agent_id = ''a1'', ax_definition_id = ''d1'', ax_instructions = [sample_said ''be brief''], ax_context = sample_binding,
     ax_model = sample_model_binding, ax_skills = [], ax_tools = [], ax_policy = None, ax_contract = ''2''\<rparr>"

definition sample_agents :: "(runs \<times> unit) agent_runtime" where
  "sample_agents = \<lparr>ay_agents = [(''a1'', ''d1'') \<mapsto> sample_spec], ay_contexts = sample_resolver,
     ay_models = sample_models (\<lambda>w. (Inl (ValueError ''no stream''), w)), ay_runs = sample_service, ay_clock = (\<lambda>_. sample_time 5),
     ay_token = (\<lambda>_. new_token ''c1'' False), ay_capabilities = None\<rparr>"

definition sample_loading :: run where
  "sample_loading = sample_starting\<lparr>r_status := CONTEXT_LOADING, r_version := 2\<rparr>"

definition sample_running :: run where
  "sample_running = sample_starting\<lparr>r_status := RUNNING, r_version := 3\<rparr>"

definition sample_succeeded :: run where
  "sample_succeeded = sample_starting\<lparr>r_status := SUCCEEDED, r_version := 4, r_ended_at := Some (sample_time 1),
     r_history := [sample_attempt\<lparr>at_ended := Some (sample_time 1), at_outcome := Some AO_SUCCEEDED\<rparr>]\<rparr>"

lemma sample_agent_steps:
  "run_advance sample_starting CONTEXT_LOADING 1 (sample_time 1) ''advance'' = Inr (transition sample_starting sample_loading ''advance'')"
  "run_advance sample_loading RUNNING 2 (sample_time 1) ''advance'' = Inr (transition sample_loading sample_running ''advance'')"
  "run_complete sample_running 3 (sample_time 1) = Inr (transition sample_running sample_succeeded ''complete'')"
  by code_simp+

lemma sample_stored_step:
  assumes "run_apply op r v (sample_time 1) = Inr (transition r r' why)" "r_id r = ''r1''" "r_id r' = ''r1''" "r_version r = v" "r_version r' = v + 1"
  shows "service_apply memory_repo null_publisher undisturbed ''r1'' v (run_apply op) (sample_time 1) ([''r1'' \<mapsto> r], ()) = (Inr r', ([''r1'' \<mapsto> r'], ()))"
proof -
  have "r' \<noteq> r" using assms by auto
  with assms show ?thesis
    by (simp add: service_apply_alone memory_repo_def memory_get_def memory_compare_and_set_def null_publisher_def areturn_def transition_def)
qed

lemma sample_agent_versions:
  "r_id sample_created = ''r1''" "r_id sample_loading = ''r1''" "r_id sample_running = ''r1''" "r_id sample_succeeded = ''r1''"
  "r_version sample_loading = 2" "r_version sample_running = 3" "r_version sample_succeeded = 4"
  by (simp_all add: sample_loading_def sample_running_def sample_succeeded_def sample_runs)

lemma sample_service_steps [simp]:
  "sv_get sample_service ''r1'' ([''r1'' \<mapsto> r], ()) = (Inr r, ([''r1'' \<mapsto> r], ()))"
  "sv_start sample_service ''r1'' 0 ([''r1'' \<mapsto> sample_created], ()) = (Inr sample_starting, ([''r1'' \<mapsto> sample_starting], ()))"
  "sv_advance sample_service ''r1'' 1 CONTEXT_LOADING ([''r1'' \<mapsto> sample_starting], ()) = (Inr sample_loading, ([''r1'' \<mapsto> sample_loading], ()))"
  "sv_advance sample_service ''r1'' 2 RUNNING ([''r1'' \<mapsto> sample_loading], ()) = (Inr sample_running, ([''r1'' \<mapsto> sample_running], ()))"
  "sv_complete sample_service ''r1'' 3 ([''r1'' \<mapsto> sample_running], ()) = (Inr sample_succeeded, ([''r1'' \<mapsto> sample_succeeded], ()))"
proof -
  note facts = sample_started sample_agent_steps sample_sel sample_agent_versions
  show "sv_get sample_service ''r1'' ([''r1'' \<mapsto> r], ()) = (Inr r, ([''r1'' \<mapsto> r], ()))"
    by (simp add: sample_service_def service_get_def memory_repo_def memory_get_def Let_def)
  show "sv_start sample_service ''r1'' 0 ([''r1'' \<mapsto> sample_created], ()) = (Inr sample_starting, ([''r1'' \<mapsto> sample_starting], ()))"
    unfolding sample_service_def Let_def workflow_runs.simps
    by (rule sample_stored_step [where why = "''start''"]) (simp_all add: facts del: One_nat_def)
  show "sv_advance sample_service ''r1'' 1 CONTEXT_LOADING ([''r1'' \<mapsto> sample_starting], ()) = (Inr sample_loading, ([''r1'' \<mapsto> sample_loading], ()))"
    unfolding sample_service_def Let_def workflow_runs.simps
    by (rule sample_stored_step [where why = "''advance''"]) (simp_all add: facts del: One_nat_def)
  show "sv_advance sample_service ''r1'' 2 RUNNING ([''r1'' \<mapsto> sample_loading], ()) = (Inr sample_running, ([''r1'' \<mapsto> sample_running], ()))"
    unfolding sample_service_def Let_def workflow_runs.simps
    by (rule sample_stored_step [where why = "''advance''"]) (simp_all add: facts del: One_nat_def)
  show "sv_complete sample_service ''r1'' 3 ([''r1'' \<mapsto> sample_running], ()) = (Inr sample_succeeded, ([''r1'' \<mapsto> sample_succeeded], ()))"
    unfolding sample_service_def Let_def workflow_runs.simps
    by (rule sample_stored_step [where why = "''complete''"]) (simp_all add: facts del: One_nat_def)
qed

definition sample_outcome :: agent_result where
  "sample_outcome = \<lparr>ag_run = sample_succeeded, ag_response = Some sample_reply, ag_error = None\<rparr>"

lemma sample_preflight:
  "agent_preflight sample_agents ''r1'' [sample_said ''hello''] sample_context ([''r1'' \<mapsto> sample_created], ())
     = (Inr (sample_created, sample_spec), ([''r1'' \<mapsto> sample_created], ()))"
  by (simp add: agent_preflight_def sample_agents_def abind_def aresult_def areturn_def raise_when_def run_agent_def sample_created_def
      validate_agent_context_def sample_context_def get_agent_def sample_spec_def sample_model_binding_def validate_agent_capabilities_def)

lemma sample_generation:
  "agent_generate sample_agents sample_spec [sample_said ''hello''] [sample_entry] sample_context w = (Inr sample_reply, w)"
proof -
  have q: "agent_model_request sample_spec [sample_said ''hello''] [sample_entry] sample_selector = Inr (sample_asked [sample_entry])"
    by (simp add: agent_model_request_def sample_spec_def sample_model_binding_def sample_asked_def mk_model_request_def)
  have s: "satisfies sample_offers (mi_required (ax_model sample_spec))" "binding_selectors (ax_model sample_spec) = [sample_selector]"
    by (simp_all add: satisfies_def sample_offers_def sample_spec_def sample_model_binding_def binding_selectors_def)
  show ?thesis
    by (simp add: agent_generate_def s generate_with_def abind_def aresult_def areturn_def q sample_agents_def [THEN arg_cong, of ay_models]
        sample_offered sample_generates)
qed

lemma sample_worked:
  "agent_work sample_agents ''r1'' [sample_said ''hello''] sample_context sample_created sample_spec ([''r1'' \<mapsto> sample_created], ())
     = (Inr sample_outcome, ([''r1'' \<mapsto> sample_succeeded], ()))"
proof -
  have p: "ay_runs sample_agents = sample_service" "ay_contexts sample_agents = sample_resolver" "ax_context sample_spec = sample_binding"
    "ax_definition_id sample_spec = ''d1''" "rx_completeness sample_resolved = COMPLETE" "rx_entries sample_resolved = [sample_entry]"
    "mr_tools sample_reply = []" "ay_token sample_agents w = new_token ''c1'' False" "ay_clock sample_agents w = sample_time 5" for w
    by (simp_all add: sample_agents_def sample_spec_def sample_resolved_def sample_reply_def)
  have q: "binding_request sample_binding ''d1'' sample_context = Inr sample_wanted"
    by (simp add: binding_request_def sample_binding_def sample_wanted_def mk_context_request_def keys_of_def)
  have k: "succeed sample_succeeded sample_reply = Inr sample_outcome"
    by (simp add: succeed_def changed_kind_def run_agent_def mk_agent_result_def sample_outcome_def sample_succeeded_def sample_runs)
  show ?thesis
    using sample_context_active
    by (simp add: agent_work_def abind_def aresult_def active_now_def p sample_sel sample_agent_versions q sample_resolution raise_when_def
        sample_generation complete_agent_def k)
qed

lemma sample_executed:
  "agent_execute sample_agents ''r1'' [sample_said ''hello''] sample_context ([''r1'' \<mapsto> sample_created], ())
     = (Inr sample_outcome, ([''r1'' \<mapsto> sample_succeeded], ()))"
  by (simp add: agent_execute_def abind_def sample_preflight atry_def sample_worked)

text \<open>
  C5. An Agent's success is earned and durable: an execution reports success exactly when it carries a
  response; a result starts from a CREATED Run of the registered specification whose boundaries are the
  call's; the Run of the result is the last answer of the Run service; and a response was generated by a
  model of the binding that satisfies its requirements, for this input and the entries of a context
  resolved for the specification (complete when its policy requires that), without Tool proposals when the
  Agent has no Tools.
\<close>

theorem agent_success_is_earned:
  assumes "agent_execute A i input ctx w = (Inr x, w')"
  shows "(r_status (ag_run x) = SUCCEEDED \<longleftrightarrow> ag_response x \<noteq> None) \<and> service_answer A i (ag_run x) w'
    \<and> (\<exists>r a w1. agent_preflight A i input ctx w = (Inr (r, a), w1) \<and> r_status r = CREATED \<and> cx_run_id ctx = r_id r \<and> cx_scope ctx = r_scope r
        \<and> (\<forall>resp. ag_response x = Some resp \<longrightarrow> response_earned A a input ctx resp))"
  by (rule agent_execute_Inr [OF assms])

theorem agent_success_is_earned_witness:
  "agent_execute sample_agents ''r1'' [sample_said ''hello''] sample_context ([''r1'' \<mapsto> sample_created], ())
     = (Inr sample_outcome, ([''r1'' \<mapsto> sample_succeeded], ()))
   \<and> service_answer sample_agents ''r1'' (ag_run sample_outcome) ([''r1'' \<mapsto> sample_succeeded], ())"
  using agent_success_is_earned [OF sample_executed] sample_executed by blast

text \<open>Two versions of one Tool are two references of a specification but one resource of a request: the
  request is refused with a plain \<open>ValueError\<close>, which the rescue of the Run lets through as it is.\<close>

lemma versions_of_one_tool_refused:
  assumes "ax_tools a = [Versioned c, Versioned c']" "capability_resource c = Inr r" "capability_resource c' = Inr r" "input \<noteq> []"
  shows "agent_model_request a input entries s = Inl (ValueError ''model request tool references must be unique'')"
    "agent_rescue A i (ValueError m) w = (Inl (ValueError m), w)"
  using assms by (simp_all add: agent_model_request_def tool_resource_def mk_model_request_def agent_rescue_def araise_def)

lemma two_versions_specified:
  "\<exists>a c c'. mk_agent_spec a = Inr a \<and> ax_tools a = [Versioned c, Versioned c'] \<and> capability_resource c = capability_resource c'"
proof (intro exI conjI)
  let ?c = "\<lparr>cp_namespace = ''core'', cp_kind = ''tool'', cp_id = ''demo.echo'', cp_owner = ''demo.app'', cp_version = ''1''\<rparr>"
  let ?c' = "\<lparr>cp_namespace = ''core'', cp_kind = ''tool'', cp_id = ''demo.echo'', cp_owner = ''demo.app'', cp_version = ''2''\<rparr>"
  let ?a = "sample_spec\<lparr>ax_tools := [Versioned ?c, Versioned ?c']\<rparr>"
  show "mk_agent_spec ?a = Inr ?a" by code_simp
  show "ax_tools ?a = [Versioned ?c, Versioned ?c']" by simp
  show "capability_resource ?c = capability_resource ?c'" by (simp add: capability_resource_def)
qed

subsection \<open>The memory gateway\<close>

text \<open>
  Paging continues: the cursor of a returned page is accepted for the next page of the same query.
  It passes the checks of the provider's identity and contract version, and under the same grant the
  narrowed query is the same but for the cursor and has the fingerprint the cursor carries.
\<close>

theorem memory_paging_continues:
  assumes "memory_retrieve G i q ctx w = (Inr page, w')" "yp_cursor page = Some k"
  shows "prevalidate_cursor i (q\<lparr>yq_cursor := Some k\<rparr>) = Inr ()
    \<and> (\<exists>c e call. validate_memory_query (pv_schemas (yg_env G)) (q\<lparr>yq_cursor := Some k\<rparr>) c = Inr ()
         \<and> constrain_query q call = Inr e \<and> constrain_query (q\<lparr>yq_cursor := Some k\<rparr>) call = Inr (e\<lparr>yq_cursor := Some k\<rparr>)
         \<and> yc_fingerprint k = memory_fingerprint (yg_digest G) (e\<lparr>yq_cursor := Some k\<rparr>))"
proof -
  from memory_retrieve_Inr [OF assms(1)] obtain c e call where v: "validate_memory_query (pv_schemas (yg_env G)) q c = Inr ()"
    and p: "page_fits (pv_schemas (yg_env G)) (yg_digest G) i e c page" and e: "constrain_query q call = Inr e"
    unfolding retrieved_def by blast
  have "yc_fingerprint k = memory_fingerprint (yg_digest G) e" using p assms(2) by (simp add: page_fits_def)
  with page_cursor_continues [OF e p assms(2) v] constrain_query_cursor [OF e, of "Some k"] e show ?thesis by auto
qed

definition sample_recall :: memory_query where
  "sample_recall = \<lparr>yq_scope = sample_scope, yq_content = sample_said ''what'', yq_schema = sample_note, yq_filters = [], yq_limit = 1,
     yq_cursor = None, yq_projection = []\<rparr>"

definition sample_memory_offer :: memory_capabilities where
  "sample_memory_offer = \<lparr>yb_provider = ''y1'', yb_contract = ''1'', yb_operations = {RETRIEVE}, yb_query_schemas = {sample_note},
     yb_item_schemas = {}, yb_record_schemas = {sample_note}, yb_kinds = {CONTENT_TEXT}, yb_limit = 10, yb_projections = {},
     yb_versioned = False, yb_policies = [], yb_item_bytes = None\<rparr>"

definition sample_memory_digest :: "json_object \<Rightarrow> string" where
  "sample_memory_digest d = replicate 64 (CHR ''a'')"

definition sample_bookmark :: memory_cursor where
  "sample_bookmark = \<lparr>yc_provider = ''y1'', yc_contract = ''1'', yc_value = ''2'', yc_fingerprint = replicate 64 (CHR ''a'')\<rparr>"

definition sample_page :: memory_page where
  "sample_page = \<lparr>yp_provider = ''y1'', yp_contract = ''1'', yp_records = [\<lparr>yd_ref = \<lparr>yr_provider = ''y1'', yr_id = ''k'', yr_scope = sample_scope,
     yr_version = 1\<rparr>, yd_content = sample_said ''that'', yd_schema = sample_note, yd_metadata = [], yd_provenance = [''n1'']\<rparr>],
     yp_cursor = Some sample_bookmark, yp_completeness = MEMORY_PARTIAL, yp_warnings = [], yp_provenance = [''n1'']\<rparr>"

definition sample_memories :: "'w memory_gateway" where
  "sample_memories = \<lparr>yg_env = sample_env, yg_providers = [''y1'' \<mapsto>
     \<lparr>ym_retrieve = (\<lambda>q c w. (Operation_Done (Inr (Some sample_page)), w)), ym_remember = (\<lambda>x c w. (Operation_Done (Inr None), w)),
      ym_forget = (\<lambda>q c w. (Operation_Done (Inr None), w)), ym_consolidate = (\<lambda>q c w. (Operation_Done (Inr None), w)),
      ym_capabilities = (\<lambda>c w. (Operation_Done (Inr (Some sample_memory_offer)), w))\<rparr>],
     yg_digest = sample_memory_digest, yg_size = (\<lambda>d. 1)\<rparr>"

lemma sample_memory_access:
  "memory_access sample_context sample_scope act ''y1'' constraints = Inr \<lparr>aq_principal = \<lparr>pr_namespace = ''core'', pr_kind = ''run'',
     pr_id = ''r1''\<rparr>, aq_action = memory_action act, aq_resource = \<lparr>rs_namespace = ''core'', rs_kind = ''memory_provider'', rs_id = ''y1'',
     rs_owner = None\<rparr>, aq_scope = sample_scope, aq_context = sample_context, aq_constraints = map_of constraints\<rparr>"
proof -
  have "rbind (mk_identifier ''y1'') (\<lambda>i. mk_resource ''core'' ''memory_provider'' i None)
    = Inr \<lparr>rs_namespace = ''core'', rs_kind = ''memory_provider'', rs_id = ''y1'', rs_owner = None\<rparr>" by code_simp
  then show ?thesis by (simp add: memory_access_def sample_access)
qed

lemma sample_discovered: "discover_memory sample_memories ''y1'' sample_context sample_scope w = (Inr sample_memory_offer, w)"
proof -
  have s: "require_narrower_than sample_scope (cx_scope sample_context) = Inr ()"
    by (simp add: sample_context_def require_narrower_than_def)
  have off: "yb_provider sample_memory_offer = ''y1''" by (simp add: sample_memory_offer_def)
  show ?thesis
    using sample_context_active
    by (simp add: discover_memory_def s abind_def aresult_def sample_memories_def get_memory_provider_def sample_memory_access sample_dispatched
        memory_capability_call_def raise_when_def memory_guard_def guarded_provider_def
        await_provider_def active_now_def areturn_def atry_def answered_with_def off)
qed

lemma sample_recalled: "memory_retrieve sample_memories ''y1'' sample_recall sample_context w = (Inr sample_page, w)"
proof -
  have s: "yq_scope sample_recall = sample_scope" "require_narrower_than sample_scope (cx_scope sample_context) = Inr ()"
    "prevalidate_cursor ''y1'' sample_recall = Inr ()" "yq_cursor sample_recall = None"
    "yq_schema sample_recall = sample_note" "cb_value (yq_content sample_recall) = JStr ''what''"
    by (simp_all add: sample_recall_def sample_context_def require_narrower_than_def prevalidate_cursor_def raise_when_def sample_said_def)
  have v: "validate_memory_query (pv_schemas (sample_env :: 'a provider_env)) sample_recall sample_memory_offer = Inr ()"
    by (simp add: validate_memory_query_def require_operation_def raise_when_def sample_recall_def sample_memory_offer_def sample_said_def)
  have k: "constrain_query sample_recall \<lparr>au_request = a, au_grant = sample_permit a, au_context = sample_context\<rparr> = Inr sample_recall" for a
    by (simp add: constrain_query_def grant_changes_def require_exact_keys_def granted_projection_def narrow_required_def narrow_limit_def
        mk_memory_query_def namespaced_keys_def unique_names_def sample_recall_def Let_def)
  have f: "validate_memory_page (pv_schemas (sample_env :: 'a provider_env)) sample_memory_digest ''y1'' sample_recall sample_memory_offer sample_page = Inr ()"
    by (simp add: validate_memory_page_iff page_fits_def record_fits_def sample_page_def sample_recall_def sample_memory_offer_def sample_said_def
        sample_bookmark_def memory_fingerprint_def sample_memory_digest_def)
  have m: "yg_env sample_memories = sample_env" "yg_digest sample_memories = sample_memory_digest"
    "yg_providers sample_memories ''y1'' = Some \<lparr>ym_retrieve = (\<lambda>q c w. (Operation_Done (Inr (Some sample_page)), w)),
      ym_remember = (\<lambda>x c w. (Operation_Done (Inr None), w)), ym_forget = (\<lambda>q c w. (Operation_Done (Inr None), w)),
      ym_consolidate = (\<lambda>q c w. (Operation_Done (Inr None), w)),
      ym_capabilities = (\<lambda>c w. (Operation_Done (Inr (Some sample_memory_offer)), w))\<rparr>"
    by (simp_all add: sample_memories_def)
  show ?thesis
    using sample_context_active
    by (simp add: memory_retrieve_def abind_def aresult_def s memory_frame_def m Let_def atry_def retrieve_work_def sample_discovered v
        get_memory_provider_def sample_memory_access sample_dispatched retrieve_call_def k raise_when_def
        memory_guard_def guarded_provider_def await_provider_def active_now_def areturn_def answered_with_def f memory_completed_def)
qed

text \<open>
  C17. A page answers its query and stays in its scope. The gateway returns a page only for a scope the
  call may use, and only in this order: the start event is published; the provider shows its
  capabilities in an authorized call in the scope of the query, and the query passes the checks against
  them; the provider answers with this page in an authorized retrieve call, made with the query as the
  grant narrowed it (fewer projected fields, a smaller limit, nothing else); the completion event is
  published. The page has at most the narrowed limit of records, each of this provider and this scope, of a
  schema and a content kind that the capabilities shown in that call declare and valid for its schema, and a
  cursor that is bound to the narrowed query.
\<close>

theorem memory_page_answers_query:
  assumes "memory_retrieve G i q ctx w = (Inr page, w')"
  shows "\<exists>p w1 ccall w2 c w3 call w4 e w5. is_equal_or_descendant_of (yq_scope q) (cx_scope ctx) \<and> yg_providers G i = Some p
    \<and> emit (yg_env G) ''core.memory.operation_started'' ctx [(''operation'', JStr ''retrieve''), (''provider_id'', JStr i)] w = (Inr (), w1)
    \<and> memory_asked G ctx (yq_scope q) ''capabilities'' i [] w1 ccall w2
    \<and> ym_capabilities p (au_context ccall) w2 = (Operation_Done (Inr (Some c)), w3) \<and> yb_provider c = i
    \<and> validate_memory_query (pv_schemas (yg_env G)) q c = Inr ()
    \<and> memory_asked G ctx (yq_scope q) ''retrieve'' i (retrieve_constraints q) w3 call w4
    \<and> constrain_query q call = Inr e \<and> query_within e q
    \<and> ym_retrieve p e (au_context call) w4 = (Operation_Done (Inr (Some page)), w5)
    \<and> yp_provider page = i \<and> yp_contract page = yb_contract c \<and> int (List.length (yp_records page)) \<le> yq_limit e
    \<and> (\<forall>r \<in> set (yp_records page). yr_provider (yd_ref r) = i \<and> scope_key (yr_scope (yd_ref r)) = scope_key (yq_scope q)
         \<and> yd_schema r \<in> yb_record_schemas c \<and> cb_kind (yd_content r) \<in> yb_kinds c
         \<and> validate_value (pv_schemas (yg_env G)) (yd_schema r) (cb_value (yd_content r)) = Inr ())
    \<and> (\<forall>k. yp_cursor page = Some k \<longrightarrow> yc_provider k = i \<and> yc_contract k = yb_contract c
         \<and> yc_fingerprint k = memory_fingerprint (yg_digest G) e)
    \<and> memory_completed G RETRIEVE i ctx (pv_clock (yg_env G) w) (int (List.length (yp_records page))) 0
        (memory_completeness_value (yp_completeness page)) w5 = (Inr (), w')"
proof -
  from assms have scope: "is_equal_or_descendant_of (yq_scope q) (cx_scope ctx)"
    and f: "memory_frame G RETRIEVE i ctx (retrieve_work G i q ctx) w = (Inr page, w')"
    by (auto simp: memory_retrieve_def abind_eq_Inr aresult_def require_narrower_than_def split: if_splits)
  obtain w1 where s: "emit (yg_env G) ''core.memory.operation_started'' ctx
      [(''operation'', JStr (memory_operation_value RETRIEVE)), (''provider_id'', JStr i)] w = (Inr (), w1)"
    and k: "retrieve_work G i q ctx (pv_clock (yg_env G) w) w1 = (Inr page, w')"
    using memory_frame_steps [OF f] by blast
  have s': "emit (yg_env G) ''core.memory.operation_started'' ctx
      [(''operation'', JStr ''retrieve''), (''provider_id'', JStr i)] w = (Inr (), w1)" using s by simp
  obtain p c w3 e call w4 w5 where r: "discover_memory G i ctx (yq_scope q) w1 = (Inr c, w3)"
    "validate_memory_query (pv_schemas (yg_env G)) q c = Inr ()" "yg_providers G i = Some p"
    "memory_asked G ctx (yq_scope q) ''retrieve'' i (retrieve_constraints q) w3 call w4" "constrain_query q call = Inr e"
    "ym_retrieve p e (au_context call) w4 = (Operation_Done (Inr (Some page)), w5)"
    "page_fits (pv_schemas (yg_env G)) (yg_digest G) i e c page"
    "memory_completed G RETRIEVE i ctx (pv_clock (yg_env G) w) (int (List.length (yp_records page))) 0
      (memory_completeness_value (yp_completeness page)) w5 = (Inr (), w')"
    by (rule retrieve_work_steps [OF k])
  obtain p' ccall w2 where d: "yg_providers G i = Some p'" "memory_asked G ctx (yq_scope q) ''capabilities'' i [] w1 ccall w2"
    "ym_capabilities p' (au_context ccall) w2 = (Operation_Done (Inr (Some c)), w3)" "yb_provider c = i"
    by (rule discover_memory_steps [OF r(1)])
  have same: "p' = p" using d(1) r(3) by simp
  note within = constrain_query_within [OF r(5)]
  have sc: "yq_scope e = yq_scope q" using within by (metis memory_query.select_convs(1) memory_query.surjective memory_query.update_convs(5,7) query_within_def)
  have page: "yp_provider page = i" "yp_contract page = yb_contract c" "int (List.length (yp_records page)) \<le> yq_limit e"
    "\<forall>x \<in> set (yp_records page). yr_provider (yd_ref x) = i \<and> scope_key (yr_scope (yd_ref x)) = scope_key (yq_scope q)
         \<and> yd_schema x \<in> yb_record_schemas c \<and> cb_kind (yd_content x) \<in> yb_kinds c
         \<and> validate_value (pv_schemas (yg_env G)) (yd_schema x) (cb_value (yd_content x)) = Inr ()"
    "\<forall>k. yp_cursor page = Some k \<longrightarrow> yc_provider k = i \<and> yc_contract k = yb_contract c
         \<and> yc_fingerprint k = memory_fingerprint (yg_digest G) e"
    using r(7) sc by (auto simp: page_fits_def record_fits_def)
  show ?thesis
    by (intro exI conjI)
      (rule scope r(3) s' d(2) d(3) [unfolded same] d(4) r(2) r(4-6) within page r(8))+
qed

theorem memory_page_answers_query_witness:
  "memory_retrieve sample_memories ''y1'' sample_recall sample_context () = (Inr sample_page, ())
   \<and> (\<exists>p ccall w2 c w3. yg_providers (sample_memories :: unit memory_gateway) ''y1'' = Some p
        \<and> ym_capabilities p (au_context (ccall :: authorized_call)) w2 = (Operation_Done (Inr (Some c)), w3)
        \<and> (\<forall>r \<in> set (yp_records sample_page). yd_schema r \<in> yb_record_schemas c))"
  using memory_page_answers_query [OF sample_recalled [of "()"]] sample_recalled [of "()"] by blast

theorem memory_paging_continues_witness:
  "memory_retrieve sample_memories ''y1'' sample_recall sample_context () = (Inr sample_page, ())
   \<and> prevalidate_cursor ''y1'' (sample_recall\<lparr>yq_cursor := Some sample_bookmark\<rparr>) = Inr ()"
proof -
  have "yp_cursor sample_page = Some sample_bookmark" by (simp add: sample_page_def)
  from memory_paging_continues [OF sample_recalled [of "()"] this] sample_recalled [of "()"] show ?thesis by blast
qed

end
