(* ===== verification/Extension_Properties.thy ===== *)
theory Extension_Properties
  imports Skill_Gateway Event_Integration Plugin_Manager Lifecycle_Properties Provider_Properties
begin

section \<open>Properties of Tools, Skills, Plugin operations and Core events\<close>

text \<open>
  What a caller of the Tool gateway, the Skill gateway and the Plugin manager can rely on, whatever the
  executors, loaders and hooks do, and what the publishers of Core events promise. The samples are a Plugin with a Tool whose first attempt fails, a Plugin with a Skill, and a Plugin
  that the manager activates and unloads; all run on the models of the registry and of the lifecycle
  controller, under the policy of \<open>Provider_Properties\<close>.
\<close>

subsection \<open>One invocation on the sample Plugin\<close>

definition sample_read :: action_ref where
  "sample_read = pp_action sample_permission"

definition sample_invoker :: "(unit, 'w) invoker" where
  "sample_invoker = \<lparr>iv_dispatcher = sample_permitting [sample_read], iv_clock = (\<lambda>_. sample_time 5),
     iv_token = (\<lambda>_. new_token ''c1'' False), iv_digest = id\<rparr>"

lemma sample_read_known: "action_contains (action_registry_of [sample_read]) sample_read"
  by (simp add: action_contains_def action_registry_of_def)

lemma sample_call_facts:
  "check_active (sample_call ''i1'') (sample_time 5) = Inr ()" "cx_scope (sample_call ''i1'') = sample_scope"
  "permits sample_permission sample_scope = Inr True" "(sample_call ''i1'')\<lparr>cx_cancellation := new_token ''c1'' False\<rparr> = sample_call ''i1''"
  "cx_run_id (sample_call ''i1'') = ''r1''" "cx_idempotency_key (sample_call ''i1'') = Some ''i1''"
  by code_simp+

lemma sample_invoked:
  assumes "get_capability (in_key v) (pw_registry w) = Inr reg" "pl_name (rg_owner reg) = in_plugin v"
    and "rs_owner (in_resource v) = Some (in_plugin v)" "resource_matches v reg" "declared_permission v reg = Some sample_permission"
    and "in_action v = sample_read" "in_context v = sample_call ''i1''"
    and "acquire id (in_plugin v) (in_key v) (sample_call ''i1'') (sample_time 5) (pw_lifecycle w) = (Inr l, g)"
    and "operation reg \<lparr>au_request = invocation_request v, au_grant = sample_permit (invocation_request v), au_context = sample_call ''i1''\<rparr>
      (w\<lparr>pw_lifecycle := g\<rparr>) = (Operation_Done (Inr x), w2)"
    and "Plugin_Lifecycle.release l (pw_lifecycle w2) = (Inr (), g2)"
  shows "invoke sample_invoker v operation w = (Inr x, w2\<lparr>pw_lifecycle := g2\<rparr>)"
proof -
  have q: "aq_action (invocation_request v) = sample_read" "aq_context (invocation_request v) = sample_call ''i1''"
    "aq_scope (invocation_request v) = cx_scope (sample_call ''i1'')"
    using assms(6,7) by (simp_all add: invocation_request_def)
  have "dispatch (sample_permitting [sample_read]) (invocation_request v) f w = f \<lparr>au_request = invocation_request v,
      au_grant = sample_permit (invocation_request v), au_context = sample_call ''i1''\<rparr> w" for f :: "authorized_call \<Rightarrow> ((unit, 'a) plugin_world, exn, 'b) action"
    using sample_permitted [of "[sample_read]" "invocation_request v" f w] q by (simp add: sample_read_known sample_call_facts)
  then show ?thesis
    using assms
    by (simp add: invoke_def sample_invoker_def leased_def abind_def aresult_def sample_call_facts on_lifecycle_def afinally_def
        await_provider_def active_now_def areturn_def)
qed

definition sample_registration :: "capability_declaration \<Rightarrow> unit registration" where
  "sample_registration d = \<lparr>rg_id = ''plugin-registration:digest'', rg_owner = manifest_ref (sample_manifest ''demo.app'' []),
     rg_declaration = d, rg_implementation = ()\<rparr>"

definition sample_plugin_world :: "unit capability_registry \<Rightarrow> nat \<Rightarrow> (unit, nat) plugin_world" where
  "sample_plugin_world g n = \<lparr>pw_registry = g, pw_lifecycle = sample_active, pw_rest = n\<rparr>"

subsection \<open>Tools\<close>

definition sample_tool_ref :: capability_ref where
  "sample_tool_ref = \<lparr>cp_namespace = ''core'', cp_kind = ''tool'', cp_id = ''demo.echo'', cp_owner = ''demo.app'', cp_version = ''1''\<rparr>"

definition sample_tool :: tool_descriptor where
  "sample_tool = \<lparr>te_ref = sample_tool_ref, te_title = ''Echo'', te_summary = ''Says it again'', te_input = sample_note, te_output = sample_note,
     te_action = sample_read, te_policy = \<lparr>to_timeout = None, to_attempts = 3\<rparr>, te_effect = EXTERNAL_SIDE_EFFECT,
     te_idempotency = IDEMPOTENCY_CALLER_KEY\<rparr>"

definition sample_echo :: "(unit, nat) tool_executor" where
  "sample_echo c ctx w = (if pw_rest w = 0 then (Operation_Done (Inl (ForeignError ''OSError'')), w\<lparr>pw_rest := 1\<rparr>)
     else (Operation_Done (Inr (Some (JStr ''again''))), w))"

definition sample_tools :: "(unit, nat) tool_gateway" where
  "sample_tools = \<lparr>tg_env = sample_env, tg_actions = action_registry_of [sample_read],
     tg_view = (\<lambda>_. Some \<lparr>tm_descriptor = sample_tool, tm_execute = sample_echo\<rparr>), tg_invoker = sample_invoker, tg_preempt = (\<lambda>_. None)\<rparr>"

definition sample_tool_call :: tool_call where
  "sample_tool_call = \<lparr>tl_tool = sample_tool_ref, tl_input = JStr ''again''\<rparr>"

definition sample_tool_result :: tool_result where
  "sample_tool_result = \<lparr>tr_tool = sample_tool_ref, tr_output = JStr ''again'', tr_attempts = 2, tr_identity = ''i1''\<rparr>"

lemma sample_tool_key: "registration_key sample_tool_ref = sample_key"
  by code_simp

lemma sample_tool_registered: "get_capability sample_key sample_registered = Inr (sample_registration sample_declaration)"
  by code_simp

lemma sample_tool_resolved:
  "tool_resolve sample_tools sample_tool_ref sample_registered = Inr \<lparr>rt_descriptor = sample_tool,
     rt_owner = manifest_ref (sample_manifest ''demo.app'' []), rt_registration = ''plugin-registration:digest''\<rparr>"
proof -
  have f: "cp_namespace sample_tool_ref = ''core''" "cp_kind sample_tool_ref = capability_type_value CAP_TOOL" "cp_version sample_tool_ref = ''1''"
    "mf_name (sample_manifest ''demo.app'' []) = cp_owner sample_tool_ref"
    by code_simp+
  have s: "contains_schema (pv_schemas (sample_env :: (unit, nat) plugin_world provider_env)) sample_note"
    by (simp add: contains_schema_def sample_env_def)
  have d: "action_key sample_read \<in> set (declared_actions (sample_registration sample_declaration))"
    by code_simp
  have r: "rg_owner (sample_registration sample_declaration) = manifest_ref (sample_manifest ''demo.app'' [])"
    "rg_id (sample_registration sample_declaration) = ''plugin-registration:digest''"
    by (simp_all add: sample_registration_def)
  show ?thesis
    by (simp add: tool_resolve_def f sample_tool_key sample_tool_registered r sample_tools_def s d sample_read_known
        sample_tool_def del: capability_type_value.simps)
qed

lemma sample_leased:
  assumes "k = sample_key"
  shows "acquire id ''demo.app'' k (sample_call ''i1'') (sample_time 5) sample_active = (Inr sample_lease, sample_busy)"
proof -
  have "fst (acquire id ''demo.app'' sample_key (sample_call ''i1'') (sample_time 5) sample_active) = Inr sample_lease" by code_simp
  moreover have "snd (acquire id ''demo.app'' sample_key (sample_call ''i1'') (sample_time 5) sample_active) = sample_busy"
    by (simp add: sample_busy_def sample_acquire_def split: prod.splits)
  ultimately show ?thesis unfolding assms by (intro prod_eqI) (simp_all only: fst_conv snd_conv)
qed

lemma sample_released: "\<exists>g. Plugin_Lifecycle.release sample_lease sample_busy = (Inr (), g)"
proof -
  have "fst (Plugin_Lifecycle.release sample_lease sample_busy) = Inr ()" by code_simp
  then show ?thesis by (cases "Plugin_Lifecycle.release sample_lease sample_busy") simp
qed


lemma sample_tool_done: "\<exists>w'. tool_execute sample_tools sample_tool_call (sample_call ''i1'') ''s2'' (sample_plugin_world sample_registered 0) = (Inr sample_tool_result, w')"
proof -
  let ?w = "sample_plugin_world sample_registered 0"
  obtain v where v: "tool_invocation sample_tool_call (sample_call ''i1'') sample_tool = Inr (v :: unit invocation)"
    "in_plugin v = ''demo.app''" "in_key v = sample_key" "in_action v = sample_read" "in_context v = sample_call ''i1''"
    "in_resource v = \<lparr>rs_namespace = ''core'', rs_kind = ''tool'', rs_id = ''demo.echo'', rs_owner = Some ''demo.app''\<rparr>" "in_validator v = None"
  proof -
    have "capability_resource sample_tool_ref = Inr \<lparr>rs_namespace = ''core'', rs_kind = ''tool'', rs_id = ''demo.echo'', rs_owner = Some ''demo.app''\<rparr>"
      "rbind (mk_identifier ''r1'') (core_principal PRINCIPAL_RUN) = Inr \<lparr>pr_namespace = ''core'', pr_kind = ''run'', pr_id = ''r1''\<rparr>"
      "cp_owner sample_tool_ref = ''demo.app''"
      by code_simp+
    then show thesis
      by (intro that [of "\<lparr>in_plugin = ''demo.app'', in_key = sample_key, in_action = sample_read,
          in_resource = \<lparr>rs_namespace = ''core'', rs_kind = ''tool'', rs_id = ''demo.echo'', rs_owner = Some ''demo.app''\<rparr>,
          in_context = sample_call ''i1'', in_principal = \<lparr>pr_namespace = ''core'', pr_kind = ''run'', pr_id = ''r1''\<rparr>,
          in_constraints = map_of (tool_constraints sample_tool), in_validator = None\<rparr>"])
        (simp_all add: tool_invocation_def sample_tool_call_def sample_call_facts sample_tool_key sample_tool_def)
  qed
  obtain g where g: "Plugin_Lifecycle.release sample_lease sample_busy = (Inr (), g)" using sample_released by blast
  let ?call = "\<lparr>au_request = invocation_request v, au_grant = sample_permit (invocation_request v), au_context = sample_call ''i1''\<rparr>"
  have b: "tool_body sample_tools sample_tool_call ''i1'' sample_tool (sample_time 5) ''s2'' (sample_registration sample_declaration) ?call
      (?w\<lparr>pw_lifecycle := sample_busy\<rparr>) = (Inr sample_tool_result, \<lparr>pw_registry = sample_registered, pw_lifecycle = sample_busy, pw_rest = 1\<rparr>)"
  proof -
    have t: "tool_grant sample_tool ?call = Inr (None, 3)"
      by (simp add: tool_grant_def fixed_constraints_def granted_or_def granted_attempts_def granted_timeout_def raise_when_def opt_int_def sample_tool_def Let_def)
    have m: "mk_tool_result \<lparr>tr_tool = sample_tool_ref, tr_output = JStr ''again'', tr_attempts = 2, tr_identity = ''i1''\<rparr> = Inr sample_tool_result"
      by code_simp
    have o1: "te_output sample_tool = sample_note" by (simp add: sample_tool_def)
    have "tool_attempt sample_tools \<lparr>tm_descriptor = sample_tool, tm_execute = sample_echo\<rparr> sample_tool_call ''i1'' sample_tool (sample_call ''i1'') 1
        \<lparr>pw_registry = sample_registered, pw_lifecycle = sample_busy, pw_rest = 0\<rparr>
      = (Inl (ForeignError ''OSError''), \<lparr>pw_registry = sample_registered, pw_lifecycle = sample_busy, pw_rest = 1\<rparr>)"
      "tool_attempt sample_tools \<lparr>tm_descriptor = sample_tool, tm_execute = sample_echo\<rparr> sample_tool_call ''i1'' sample_tool (sample_call ''i1'') 2
        \<lparr>pw_registry = sample_registered, pw_lifecycle = sample_busy, pw_rest = 1\<rparr>
      = (Inr sample_tool_result, \<lparr>pw_registry = sample_registered, pw_lifecycle = sample_busy, pw_rest = 1\<rparr>)"
      using m by (simp_all add: tool_attempt_def sample_tools_def abind_def aresult_def areturn_def await_provider_def active_now_def sample_call_facts
          sample_echo_def o1 sample_tool_call_def)
    then show ?thesis
      by (simp add: tool_body_def abind_def aresult_def t with_timeout_def sample_tools_def [THEN arg_cong, of tg_view] sample_plugin_world_def
          tool_attempts_step may_retry_def)
  qed
  have p: "resource_matches v (sample_registration sample_declaration)" "declared_permission v (sample_registration sample_declaration) = Some sample_permission"
    "pl_name (rg_owner (sample_registration sample_declaration)) = ''demo.app''"
  proof -
    have "cd_type sample_declaration = CAP_TOOL" "cd_id sample_declaration = ''demo.echo''" "cd_permissions sample_declaration = [sample_permission]"
      "mf_name (sample_manifest ''demo.app'' []) = ''demo.app''"
      by (simp_all add: sample_declaration_def sample_manifest_def)
    then show "resource_matches v (sample_registration sample_declaration)" "declared_permission v (sample_registration sample_declaration) = Some sample_permission"
      "pl_name (rg_owner (sample_registration sample_declaration)) = ''demo.app''"
      using v by (simp_all add: resource_matches_def declared_permission_def sample_registration_def sample_read_def)
  qed
  have i: "invoke sample_invoker v (\<lambda>reg call. raced_body (\<lambda>_. None) (tool_body sample_tools sample_tool_call ''i1'' sample_tool (sample_time 5) ''s2'' reg call)) ?w
    = (Inr sample_tool_result, \<lparr>pw_registry = sample_registered, pw_lifecycle = g, pw_rest = 1\<rparr>)"
    by (rule sample_invoked [where reg = "sample_registration sample_declaration" and l = sample_lease and g = sample_busy and x = sample_tool_result
          and ?w2.0 = "\<lparr>pw_registry = sample_registered, pw_lifecycle = sample_busy, pw_rest = 1\<rparr>" and ?g2.0 = g, THEN trans])
      (use v p b g in \<open>simp_all add: sample_plugin_world_def sample_tool_registered sample_leased raced_body_def\<close>)
  have r: "cx_idempotency_key (sample_call ''i1'') = Some ''i1''" "tl_tool sample_tool_call = sample_tool_ref" "tl_input sample_tool_call = JStr ''again''"
    "te_input sample_tool = sample_note" "pw_registry ?w = sample_registered" "tg_env sample_tools = sample_env" "tg_invoker sample_tools = sample_invoker"
    "tg_preempt sample_tools = (\<lambda>_. None)"
    by (simp_all add: sample_call_facts sample_tool_call_def sample_tool_def sample_plugin_world_def sample_tools_def)
  show ?thesis
    by (simp add: tool_execute_def r sample_tool_resolved abind_def aresult_def areturn_def tool_started_def tool_invoked_def v(1) i
        tool_completed_def atry_def Let_def)
qed

text \<open>
  C8. A Tool's result is earned: an execution returns a result only when the call carries an invocation
  identity, the reference resolves to a registered Tool whose input schema admits the input; the result
  names this Tool and this identity, its output is what the executor returned in the attempt it counts and
  is valid for the output schema; every earlier attempt failed with an error that may be retried; and all
  of it happened in one mediated invocation under one lease, within the attempts and the timeout that the
  grant left of the Tool's own policy.
\<close>

theorem tool_result_is_earned:
  assumes "tool_execute T c ctx span w = (Inr r, w')"
  shows "\<exists>identity resolved. cx_idempotency_key ctx = Some identity
    \<and> tool_resolve T (tl_tool c) (pw_registry w) = Inr resolved
    \<and> validate_value (pv_schemas (tg_env T)) (te_input (rt_descriptor resolved)) (tl_input c) = Inr ()
    \<and> validate_value (pv_schemas (tg_env T)) (te_output (rt_descriptor resolved)) (tr_output r) = Inr ()
    \<and> tr_tool r = tl_tool c \<and> tr_identity r = identity
    \<and> 1 \<le> tr_attempts r \<and> tr_attempts r \<le> to_attempts (te_policy (rt_descriptor resolved))
    \<and> tool_ran T c ctx (rt_descriptor resolved) (pv_clock (tg_env T) w) span r"
  by (rule tool_execute_Inr [OF assms])

theorem tool_result_is_earned_witness:
  "\<exists>w'. tool_execute sample_tools sample_tool_call (sample_call ''i1'') ''s2'' (sample_plugin_world sample_registered 0) = (Inr sample_tool_result, w')
     \<and> tr_attempts sample_tool_result = 2
     \<and> (\<exists>since. tool_ran sample_tools sample_tool_call (sample_call ''i1'') sample_tool since ''s2'' sample_tool_result)"
proof -
  from sample_tool_done obtain w' where
    d: "tool_execute sample_tools sample_tool_call (sample_call ''i1'') ''s2'' (sample_plugin_world sample_registered 0) = (Inr sample_tool_result, w')" by blast
  have r: "tool_resolve sample_tools (tl_tool sample_tool_call) (pw_registry (sample_plugin_world sample_registered 0)) = Inr resolved \<Longrightarrow>
      rt_descriptor resolved = sample_tool" for resolved
    using sample_tool_resolved by (simp add: sample_tool_call_def sample_plugin_world_def) auto
  from tool_result_is_earned [OF d] r have "\<exists>since. tool_ran sample_tools sample_tool_call (sample_call ''i1'') sample_tool since ''s2'' sample_tool_result"
    by metis
  with d show ?thesis by (auto simp: sample_tool_result_def)
qed

text \<open>
  C21. The attempts follow the retry policy: with a budget of \<open>n\<close> attempts there is one attempt, between the
  first and the \<open>n\<close>-th, after attempts that all failed with retryable errors, that decides: its value is
  returned as it is, or its error is raised because it may not be retried or the budget is used up. No
  attempt runs after it.
\<close>

theorem attempts_follow_the_policy:
  assumes "1 \<le> n"
  shows "\<exists>j w2. 1 \<le> j \<and> j \<le> n \<and> retried A w j w2 \<and> (case A j w2 of
      (Inr x, w3) \<Rightarrow> tool_attempts A n 1 w = (Inr x, w3)
    | (Inl e, w3) \<Rightarrow> (\<not> may_retry e \<or> j = n) \<and> tool_attempts A n 1 w = (Inl (settled_error e), w3))"
  by (rule attempts_decided [OF retried.first assms])

definition sample_attempts :: "int \<Rightarrow> (nat, exn, string) action" where
  "sample_attempts k n = (if n = 0 then (Inl (ForeignError ''OSError''), 1) else (Inr ''ok'', n))"

theorem attempts_follow_the_policy_witness:
  "(1 :: int) \<le> 3 \<and> tool_attempts sample_attempts 3 1 0 = (Inr ''ok'', 1)
   \<and> (\<exists>j w2. 1 \<le> j \<and> j \<le> 3 \<and> retried sample_attempts 0 j w2)"
proof -
  have three: "(1 :: int) \<le> 3" by simp
  have "tool_attempts sample_attempts 3 1 0 = (Inr ''ok'', 1)"
    by (simp add: tool_attempts_step sample_attempts_def may_retry_def)
  moreover have "\<exists>j w2. 1 \<le> j \<and> j \<le> 3 \<and> retried sample_attempts 0 j w2"
    using attempts_follow_the_policy [OF three, of sample_attempts 0] by (elim exE conjE) (rule exI, rule exI, intro conjI; assumption)
  ultimately show ?thesis by simp
qed

subsection \<open>Skills\<close>

text \<open>
  C40. A Skill's resource is the declared one and within its budget: a load returns only content that the
  Skill's loader gave in one mediated invocation for the descriptor of the requested resource, with the
  media type that is declared and not more bytes than the request asks for, than the descriptor allows and
  than the grant left.
\<close>

theorem skill_resource_within_budget:
  assumes "skill_load K q ctx w = (Inr r, w')"
  shows "requested_resource K q (pw_registry w) = Inr (ku_descriptor r) \<and> kd_id (ku_descriptor r) = kq_resource q
    \<and> ku_skill r = kq_skill q \<and> cb_media (ku_content r) = Some (kd_media (ku_descriptor r))
    \<and> (\<exists>b. skill_byte_count (sg_bytes K) r = Inr b \<and> b \<le> kq_max q) \<and> kq_max q \<le> kd_max (ku_descriptor r) \<and> resource_loaded K q ctx r"
  using skill_load_Inr [OF assms] requested_resource_Inr [of K q "pw_registry w" "ku_descriptor r"] by blast

definition sample_skill_declaration :: capability_declaration where
  "sample_skill_declaration = sample_declaration\<lparr>cd_type := CAP_SKILL, cd_id := ''demo.guide''\<rparr>"

definition sample_skill_ref :: capability_ref where
  "sample_skill_ref = \<lparr>cp_namespace = ''core'', cp_kind = ''skill'', cp_id = ''demo.guide'', cp_owner = ''demo.app'', cp_version = ''1''\<rparr>"

definition sample_skill_registry :: "unit capability_registry" where
  "sample_skill_registry = snd (commit sample_registration_digest \<lparr>pn_owner = manifest_ref (sample_manifest ''demo.app'' []),
     pn_capabilities = [\<lparr>lo_declaration = sample_skill_declaration, lo_implementation = ()\<rparr>]\<rparr> 0 empty_registry)"

definition sample_guide :: skill_resource_descriptor where
  "sample_guide = \<lparr>kd_id = ''guide'', kd_kind = SKILL_REFERENCE, kd_path = ''docs/guide.md'', kd_media = ''text/markdown'', kd_max = 100,
     kd_action = sample_read\<rparr>"

definition sample_guide_text :: content_block where
  "sample_guide_text = \<lparr>cb_kind = CONTENT_TEXT, cb_value = JStr ''# Guide'', cb_name = None, cb_media = Some ''text/markdown''\<rparr>"

definition sample_skill :: skill_descriptor where
  "sample_skill = \<lparr>ks_ref = sample_skill_ref, ks_title = ''Guide'', ks_summary = ''How to'', ks_resources = [sample_guide]\<rparr>"

definition sample_skills :: "(unit, nat) skill_gateway" where
  "sample_skills = \<lparr>sg_env = sample_env, sg_actions = action_registry_of [sample_read],
     sg_view = (\<lambda>_. Some \<lparr>si_descriptor = sample_skill, si_load = (\<lambda>d c w. (Inr sample_guide_text, w))\<rparr>),
     sg_invoker = sample_invoker, sg_preempt = (\<lambda>_. None), sg_bytes = \<lparr>bc_text = (\<lambda>s. Inr (List.length s)), bc_json = (\<lambda>v. Inr 0)\<rparr>\<rparr>"

definition sample_skill_request :: skill_resource_request where
  "sample_skill_request = \<lparr>kq_skill = sample_skill_ref, kq_resource = ''guide'', kq_max = 50\<rparr>"

definition sample_skill_resource :: skill_resource where
  "sample_skill_resource = \<lparr>ku_skill = sample_skill_ref, ku_descriptor = sample_guide, ku_content = sample_guide_text\<rparr>"

definition sample_skill_lease :: lease where
  "sample_skill_lease = new_lease id sample_plugin_record (declaration_key sample_skill_declaration) ''r1'' ''i1'' (sample_time 5)"

lemma sample_skill_key: "registration_key sample_skill_ref = declaration_key sample_skill_declaration"
  by code_simp

lemma sample_skill_registered:
  "get_capability (declaration_key sample_skill_declaration) sample_skill_registry = Inr (sample_registration sample_skill_declaration)"
  by code_simp

lemma sample_skill_leased:
  "fst (acquire id ''demo.app'' (declaration_key sample_skill_declaration) (sample_call ''i1'') (sample_time 5) sample_active) = Inr sample_skill_lease"
  by code_simp

lemma sample_skill_released:
  "fst (Plugin_Lifecycle.release sample_skill_lease (snd (acquire id ''demo.app'' (declaration_key sample_skill_declaration) (sample_call ''i1'')
     (sample_time 5) sample_active))) = Inr ()"
  by code_simp

lemma sample_skill_access:
  "skill_access_resource sample_skill_request = Inr \<lparr>rs_namespace = ''core'', rs_kind = ''skill_resource'', rs_id = ''demo.guide:guide'', rs_owner = Some ''demo.app''\<rparr>"
  "mk_skill_resource sample_skill_resource = Inr sample_skill_resource"
  "action_key sample_read \<in> set (declared_actions (sample_registration sample_skill_declaration))"
  by code_simp+

lemmas sample_skill_facts = sample_skill_key sample_skill_registered sample_skill_access

lemma sample_guide_requested: "requested_resource sample_skills sample_skill_request sample_skill_registry = Inr sample_guide"
proof -
  have f: "cp_namespace sample_skill_ref = ''core''" "cp_kind sample_skill_ref = capability_type_value CAP_SKILL" "cp_version sample_skill_ref = ''1''"
    "mf_name (sample_manifest ''demo.app'' []) = cp_owner sample_skill_ref"
    by code_simp+
  have r: "rg_owner (sample_registration sample_skill_declaration) = manifest_ref (sample_manifest ''demo.app'' [])"
    by (simp add: sample_registration_def)
  have a: "kd_action sample_guide = sample_read" "kd_id sample_guide = ''guide''" "kd_max sample_guide = 100"
    by (simp_all add: sample_guide_def)
  show ?thesis
    by (simp add: requested_resource_def sample_skill_request_def skill_resolve_def f sample_skill_facts r sample_skills_def sample_skill_def
        check_resource_actions_def a sample_read_known skill_resource_of_def del: capability_type_value.simps)
qed

lemma sample_skill_bytes: "skill_byte_count (sg_bytes sample_skills) sample_skill_resource = Inr 7"
  by (simp add: sample_skills_def sample_guide_text_def skill_byte_count_def sample_skill_resource_def)

lemma sample_skill_read: "\<exists>w'. skill_load sample_skills sample_skill_request (sample_call ''i1'') (sample_plugin_world sample_skill_registry 0)
    = (Inr sample_skill_resource, w')"
proof -
  let ?w = "sample_plugin_world sample_skill_registry 0" and ?k = "declaration_key sample_skill_declaration"
  let ?reg = "sample_registration sample_skill_declaration"
  let ?res = "\<lparr>rs_namespace = ''core'', rs_kind = ''skill_resource'', rs_id = ''demo.guide:guide'', rs_owner = Some ''demo.app''\<rparr>"
  have o1: "cp_owner sample_skill_ref = ''demo.app''" "mf_name (sample_manifest ''demo.app'' []) = ''demo.app''"
    "rbind (mk_identifier ''r1'') (core_principal PRINCIPAL_RUN) = Inr \<lparr>pr_namespace = ''core'', pr_kind = ''run'', pr_id = ''r1''\<rparr>"
    by code_simp+
  obtain v where v: "skill_invocation sample_skill_request (sample_call ''i1'') sample_guide ?res = Inr (v :: unit invocation)"
    "in_plugin v = ''demo.app''" "in_key v = ?k" "in_action v = sample_read" "in_context v = sample_call ''i1''" "in_resource v = ?res"
    "in_validator v = Some (\<lambda>reg r. declaration_key (rg_declaration reg) = ?k \<and> r = ?res)"
    using o1 by (simp add: skill_invocation_def sample_skill_request_def sample_call_facts sample_skill_facts sample_guide_def)
  obtain g l2 where g: "acquire id ''demo.app'' ?k (sample_call ''i1'') (sample_time 5) sample_active = (Inr sample_skill_lease, g)"
    "Plugin_Lifecycle.release sample_skill_lease g = (Inr (), l2)"
    using sample_skill_leased sample_skill_released
    by (cases "acquire id ''demo.app'' ?k (sample_call ''i1'') (sample_time 5) sample_active"; cases "Plugin_Lifecycle.release sample_skill_lease
        (snd (acquire id ''demo.app'' ?k (sample_call ''i1'') (sample_time 5) sample_active))") auto
  have b: "skill_body sample_skills sample_skill_request sample_guide ?reg \<lparr>au_request = invocation_request v, au_grant = sample_permit (invocation_request v),
      au_context = sample_call ''i1''\<rparr> w = (Inr sample_skill_resource, w)" for w
  proof -
    have c: "\<lparr>ku_skill = sample_skill_ref, ku_descriptor = sample_guide, ku_content = sample_guide_text\<rparr> = sample_skill_resource"
      by (simp add: sample_skill_resource_def)
    have d: "cb_media sample_guide_text = Some (kd_media sample_guide)" "skill_byte_count \<lparr>bc_text = (\<lambda>s. Inr (List.length s)), bc_json = (\<lambda>v. Inr 0)\<rparr> sample_skill_resource = Inr 7"
      by (simp_all add: sample_guide_text_def sample_guide_def skill_byte_count_def sample_skill_resource_def)
    show ?thesis
      by (simp add: skill_body_def skill_grant_def granted_or_def raise_when_def abind_def aresult_def areturn_def sample_skills_def sample_skill_request_def
          guarded_provider_def atry_def c d sample_skill_facts Let_def)
  qed
  have p: "resource_matches v ?reg" "declared_permission v ?reg = Some sample_permission" "pl_name (rg_owner ?reg) = ''demo.app''"
  proof -
    have "cd_permissions sample_skill_declaration = [sample_permission]" by (simp add: sample_skill_declaration_def sample_declaration_def)
    then show "resource_matches v ?reg" "declared_permission v ?reg = Some sample_permission" "pl_name (rg_owner ?reg) = ''demo.app''"
      using v o1 by (simp_all add: resource_matches_def declared_permission_def sample_registration_def sample_read_def)
  qed
  have i: "invoke sample_invoker v (\<lambda>reg call. raced_body (\<lambda>_. None) (skill_body sample_skills sample_skill_request sample_guide reg call)) ?w
    = (Inr sample_skill_resource, \<lparr>pw_registry = sample_skill_registry, pw_lifecycle = l2, pw_rest = 0\<rparr>)"
    by (rule sample_invoked [where reg = ?reg and l = sample_skill_lease and g = g and x = sample_skill_resource
          and ?w2.0 = "?w\<lparr>pw_lifecycle := g\<rparr>" and ?g2.0 = l2, THEN trans])
      (use v p b g in \<open>simp_all add: sample_plugin_world_def sample_skill_facts raced_body_def\<close>)
  have r: "pw_registry ?w = sample_skill_registry" "sg_env sample_skills = sample_env" "sg_invoker sample_skills = sample_invoker"
    "sg_preempt sample_skills = (\<lambda>_. None)"
    by (simp_all add: sample_plugin_world_def sample_skills_def)
  show ?thesis
    by (simp add: skill_load_def r sample_call_facts sample_guide_requested abind_def aresult_def areturn_def sample_skill_facts skill_loaded_def v(1) i
        skill_completed_def sample_skill_bytes atry_def Let_def)
qed

theorem skill_resource_within_budget_witness:
  "\<exists>w'. skill_load sample_skills sample_skill_request (sample_call ''i1'') (sample_plugin_world sample_skill_registry 0) = (Inr sample_skill_resource, w')
     \<and> resource_loaded sample_skills sample_skill_request (sample_call ''i1'') sample_skill_resource
     \<and> (\<exists>b. skill_byte_count (sg_bytes sample_skills) sample_skill_resource = Inr b \<and> b \<le> 50)"
proof -
  from sample_skill_read obtain w' where
    d: "skill_load sample_skills sample_skill_request (sample_call ''i1'') (sample_plugin_world sample_skill_registry 0) = (Inr sample_skill_resource, w')" by blast
  have "kq_max sample_skill_request = 50" by (simp add: sample_skill_request_def)
  with skill_resource_within_budget [OF d] d show ?thesis by auto
qed

text \<open>
  What a resource path may be: except for the single dot, a path is accepted exactly when it is trimmed,
  has no backslash and none of its parts between slashes is empty, a dot or a double dot, so that it is
  relative, normalized and cannot leave the Skill.
\<close>

theorem resource_path_is_contained:
  assumes "v \<noteq> ''.''"
  shows "require_resource_path v = Inr () \<longleftrightarrow> trimmed v \<and> CHR 0x5C \<notin> set v
     \<and> (\<forall>p \<in> set (split_on CHR ''/'' v). p \<notin> {[], ''.'', ''..''})"
  by (rule resource_path_iff [OF assms])

theorem resource_path_is_contained_witness:
  "require_resource_path ''docs/guide.md'' = Inr () \<and> require_resource_path ''docs/../secret'' \<noteq> Inr ()"
proof -
  have "require_resource_path ''docs/guide.md'' = Inr ()"
    by (subst resource_path_is_contained) (simp_all add: trimmed_def py_strip_def is_space_def)
  moreover have "require_resource_path ''docs/../secret'' \<noteq> Inr ()"
    by (subst resource_path_is_contained) simp_all
  ultimately show ?thesis by simp
qed

subsection \<open>The Plugin manager\<close>

text \<open>
  The sample manager validates, prepares and registers one Plugin with a Tool and an unload hook; its world
  is the list of what it was told, the latest first.
\<close>

type_synonym sample_manager_world = "(unit, unit, unit, string list) manager_world"

definition sample_granting :: "(sample_manager_world) dispatcher" where
  "sample_granting = sample_permitting (sample_read # List.map plugin_action [''plugin.activate'', ''plugin.unload''])"

definition sample_app :: plugin_manifest where
  "sample_app = (sample_manifest ''demo.app'' [])\<lparr>mf_provides := [sample_declaration], mf_permissions := [sample_permission], mf_lifecycle := {ON_UNLOAD}\<rparr>"

definition sample_app_prepared :: "(unit, unit) prepared_plugin" where
  "sample_app_prepared = \<lparr>pd_manifest = sample_app, pd_capabilities = [\<lparr>lo_declaration = sample_declaration, lo_implementation = ()\<rparr>],
     pd_hooks = \<lparr>ph_on_load = None, ph_on_activate = None, ph_on_drain = None, ph_on_unload = Some ()\<rparr>\<rparr>"

definition sample_note_in :: "string \<Rightarrow> (unit, unit, unit, string list, unit) managed" where
  "sample_note_in s w = (Inr (), w\<lparr>pw_rest := (pw_rest w)\<lparr>mt_world := s # mt_world (pw_rest w)\<rparr>\<rparr>)"

definition sample_manager :: "(unit, unit, unit, string list) plugin_manager" where
  "sample_manager = \<lparr>pm_invoker = \<lparr>iv_dispatcher = sample_granting, iv_clock = (\<lambda>_. sample_time 5), iv_token = (\<lambda>_. new_token ''c1'' False), iv_digest = id\<rparr>,
     pm_validate = (\<lambda>d. Inr sample_app), pm_core = version_of 1 0 0, pm_represents = (\<lambda>_. True), pm_registration = sample_registration_digest,
     pm_prepare = (\<lambda>l m c. areturn sample_app_prepared), pm_cleanup = (\<lambda>l x c. sample_note_in ''cleanup''),
     pm_hook = (\<lambda>h c. sample_note_in ''hook''), pm_preempt = (\<lambda>_. None), pm_wakes = (\<lambda>p c w. ([], CoreError run_cancelled_detail, w)),
     pm_requested = (\<lambda>p a t k n c. areturn ()), pm_changed = (\<lambda>p a t k n c. sample_note_in (lifecycle_state_value t)),
     pm_failed = (\<lambda>p a t k n e c. areturn ())\<rparr>"

definition sample_loaded_world :: sample_manager_world where
  "sample_loaded_world = \<lparr>pw_registry = empty_registry,
     pw_lifecycle = lifecycle_run id (Discover sample_app # List.map (\<lambda>s. Transition ''demo.app'' s None None False) [VALIDATED, LOADED]) new_lifecycle,
     pw_rest = \<lparr>mt_prepared = [''demo.app'' \<mapsto> (sample_app_prepared, ())], mt_world = []\<rparr>\<rparr>"

definition sample_user :: principal where
  "sample_user = \<lparr>pr_namespace = ''core'', pr_kind = ''user'', pr_id = ''u1''\<rparr>"

lemma sample_activated: "(case manager_activate sample_manager ''demo.app'' (sample_call ''i1'') sample_user sample_loaded_world of
   (Inr r, w) \<Rightarrow> ps_state r = ACTIVE | _ \<Rightarrow> False)"
  by code_simp

lemma sample_unloaded: "(case manager_unload sample_manager ''demo.app'' (sample_call ''i2'') sample_user 
    (snd (manager_activate sample_manager ''demo.app'' (sample_call ''i1'') sample_user sample_loaded_world)) of
   (Inr r, w) \<Rightarrow> ps_state r = UNLOADED | _ \<Rightarrow> False)"
  by code_simp

text \<open>
  C11. Activation means held permissions. A successful \<open>activate\<close> leaves the Plugin ACTIVE and ran as an
  authorized \<open>plugin.activate\<close> of the actor on this Plugin. Unless the record it read was ACTIVE already,
  then, each step in the world the one before it left: the prepared Plugin was looked up; a LOADED record's
  capabilities were committed to the registry as the plan of the prepared Plugin, and its record became
  REGISTERED with that receipt (a record that was REGISTERED already is taken as it is, and nothing is
  committed); the Plugin's own principal was granted, one by one, every permission that the manifest of
  the REGISTERED record declares, for the Plugin and for each capability, each in a scope the permission
  permits; the activation hook ran, unless it had succeeded before; and the record became ACTIVE.
\<close>

theorem activation_holds_permissions:
  assumes "manager_activate M p ctx actor w = (Inr r, w')"
  shows "ps_state r = ACTIVE
    \<and> (\<exists>q call w1 r0 operation w2. aq_action q = plugin_action ''plugin.activate'' \<and> aq_principal q = actor \<and> aq_scope q = cx_scope ctx
        \<and> aq_context q = ctx \<and> rs_id (aq_resource q) = p
        \<and> authorized (iv_dispatcher (pm_invoker M)) q w call w1 \<and> on_lifecycle (get_record p) w1 = (Inr r0, w1)
        \<and> operation_id (au_context call) ''plugin.activate'' p = Inr operation
        \<and> emit_requested M r0 ACTIVE operation (au_context call) w1 = (Inr (), w2)
        \<and> (ps_state r0 = ACTIVE \<and> r = r0 \<and> w' = w2
           \<or> (\<exists>x l r1 w3 plugin qs w4 r2 w5 w6. mt_prepared (pw_rest w2) p = Some (x, l)
              \<and> registered_from M p x r0 operation (au_context call) w2 r1 w3
              \<and> core_principal PRINCIPAL_PLUGIN (mf_name (ps_manifest r1)) = Inr plugin \<and> requests_cover (ps_manifest r1) qs
              \<and> granted_in_turn M plugin (au_context call) qs w3 w4
              \<and> hook_once M x ON_ACTIVATE p r1 (au_context call) w4 = (Inr r2, w5)
              \<and> step_to p r2 ACTIVE None False w5 = (Inr r, w6)
              \<and> emit_changed M (record_ref r) (lifecycle_state_value (ps_state r2)) ACTIVE operation (au_context call) w6 = (Inr (), w'))))"
proof -
  from assms obtain q call w1 where q: "aq_action q = plugin_action ''plugin.activate''" "aq_principal q = actor" "aq_scope q = cx_scope ctx"
    "aq_context q = ctx" "rs_id (aq_resource q) = p" "authorized (iv_dispatcher (pm_invoker M)) q w call w1"
    and e: "activate_effect M p (au_context call) w1 = (Inr r, w')"
    unfolding manager_activate_def by (blast dest: manager_authorized_Inr)
  have a: "ps_state r = ACTIVE" using activate_effect_Inr [OF e] by blast
  from activate_effect_steps [OF e] obtain r0 operation w2 where s: "on_lifecycle (get_record p) w1 = (Inr r0, w1)"
    "operation_id (au_context call) ''plugin.activate'' p = Inr operation"
    "emit_requested M r0 ACTIVE operation (au_context call) w1 = (Inr (), w2)"
    and k: "ps_state r0 = ACTIVE \<and> r = r0 \<and> w' = w2
       \<or> (\<exists>x l r1 w3 plugin qs w4 r2 w5 w6. mt_prepared (pw_rest w2) p = Some (x, l)
          \<and> registered_from M p x r0 operation (au_context call) w2 r1 w3
          \<and> core_principal PRINCIPAL_PLUGIN (mf_name (ps_manifest r1)) = Inr plugin \<and> activation_requests (ps_manifest r1) = Inr qs
          \<and> granted_in_turn M plugin (au_context call) qs w3 w4
          \<and> hook_once M x ON_ACTIVATE p r1 (au_context call) w4 = (Inr r2, w5)
          \<and> step_to p r2 ACTIVE None False w5 = (Inr r, w6)
          \<and> emit_changed M (record_ref r) (lifecycle_state_value (ps_state r2)) ACTIVE operation (au_context call) w6 = (Inr (), w'))"
    by blast
  from k have k': "ps_state r0 = ACTIVE \<and> r = r0 \<and> w' = w2
       \<or> (\<exists>x l r1 w3 plugin qs w4 r2 w5 w6. mt_prepared (pw_rest w2) p = Some (x, l)
          \<and> registered_from M p x r0 operation (au_context call) w2 r1 w3
          \<and> core_principal PRINCIPAL_PLUGIN (mf_name (ps_manifest r1)) = Inr plugin \<and> requests_cover (ps_manifest r1) qs
          \<and> granted_in_turn M plugin (au_context call) qs w3 w4
          \<and> hook_once M x ON_ACTIVATE p r1 (au_context call) w4 = (Inr r2, w5)
          \<and> step_to p r2 ACTIVE None False w5 = (Inr r, w6)
          \<and> emit_changed M (record_ref r) (lifecycle_state_value (ps_state r2)) ACTIVE operation (au_context call) w6 = (Inr (), w'))"
    using activation_requests_cover by blast
  show ?thesis by (intro exI conjI) (rule a q s k')+
qed

theorem activation_holds_permissions_witness:
  "\<exists>r w'. manager_activate sample_manager ''demo.app'' (sample_call ''i1'') sample_user sample_loaded_world = (Inr r, w') \<and> ps_state r = ACTIVE"
proof -
  obtain r w' where a: "manager_activate sample_manager ''demo.app'' (sample_call ''i1'') sample_user sample_loaded_world = (Inr r, w')"
    using sample_activated by (auto split: prod.splits sum.splits)
  with activation_holds_permissions [OF a] show ?thesis by blast
qed

text \<open>
  C19. An unloaded Plugin was idle. A successful \<open>unload\<close> ran as an authorized \<open>plugin.unload\<close> of the actor on
  this Plugin and leaves it UNLOADED. Unless the record it read was UNLOADED already, then, each step in the
  world the one before it left: a record that was ACTIVE or DRAINING was drained, with a wait that ended when
  none of its leases was held, and read again; unless the record was UNREGISTERED already, its own receipt was
  given back to the registry, which retired it and removed exactly its capabilities (or had retired it before,
  and changed nothing), and then the record became UNREGISTERED; after that the unload hook ran, unless it had
  succeeded before, then the cleanup, and then the record became UNLOADED.
\<close>

theorem unloaded_plugin_was_idle:
  assumes "manager_unload M p ctx actor w = (Inr r, w')"
  shows "ps_state r = UNLOADED
    \<and> (\<exists>q call w1 r0 operation w2. aq_action q = plugin_action ''plugin.unload'' \<and> aq_principal q = actor \<and> aq_scope q = cx_scope ctx
        \<and> aq_context q = ctx \<and> rs_id (aq_resource q) = p
        \<and> authorized (iv_dispatcher (pm_invoker M)) q w call w1 \<and> on_lifecycle (get_record p) w1 = (Inr r0, w1)
        \<and> operation_id (au_context call) ''plugin.unload'' p = Inr operation
        \<and> emit_requested M r0 UNLOADED operation (au_context call) w1 = (Inr (), w2)
        \<and> (ps_state r0 = UNLOADED \<and> r = r0 \<and> w' = w2
           \<or> (\<exists>x l rd w3 r2 w4 r3 w5 w6 w7. mt_prepared (pw_rest w2) p = Some (x, l)
              \<and> drained_from M p r0 operation (au_context call) w2 rd w3
              \<and> unregistered_from M p rd operation (au_context call) w3 r2 w4
              \<and> hook_once M x ON_UNLOAD p r2 (au_context call) w4 = (Inr r3, w5)
              \<and> awaited_in M (au_context call) (pm_cleanup M l x (au_context call)) w5 = (Inr (), w6)
              \<and> step_to p r3 UNLOADED None False w6 = (Inr r, w7)
              \<and> emit_changed M (record_ref r) (lifecycle_state_value (ps_state r3)) UNLOADED operation (au_context call)
                  (snd (put_prepared p None w7)) = (Inr (), w'))))"
proof -
  from assms obtain q call w1 where q: "aq_action q = plugin_action ''plugin.unload''" "aq_principal q = actor" "aq_scope q = cx_scope ctx"
    "aq_context q = ctx" "rs_id (aq_resource q) = p" "authorized (iv_dispatcher (pm_invoker M)) q w call w1"
    and e: "unload_effect M p (au_context call) w1 = (Inr r, w')"
    unfolding manager_unload_def by (blast dest: manager_authorized_Inr)
  have a: "ps_state r = UNLOADED" using unload_effect_Inr [OF e] by blast
  from unload_effect_steps [OF e] q a show ?thesis by blast
qed

theorem unloaded_plugin_was_idle_witness:
  "\<exists>r w'. manager_unload sample_manager ''demo.app'' (sample_call ''i2'') sample_user
       (snd (manager_activate sample_manager ''demo.app'' (sample_call ''i1'') sample_user sample_loaded_world)) = (Inr r, w') \<and> ps_state r = UNLOADED"
proof -
  obtain r w' where a: "manager_unload sample_manager ''demo.app'' (sample_call ''i2'') sample_user
       (snd (manager_activate sample_manager ''demo.app'' (sample_call ''i1'') sample_user sample_loaded_world)) = (Inr r, w')"
    using sample_unloaded by (auto split: prod.splits sum.splits)
  with unloaded_plugin_was_idle [OF a] show ?thesis by blast
qed

text \<open>
  C20. A failed activation publishes nothing. Take an \<open>activate\<close> of a LOADED Plugin, up to the commit of its
  capabilities in a reachable registry, and let the record then refuse the transition to REGISTERED (its
  version has become stale, say). Provided that the identity of the new receipt, a digest over owner,
  capabilities and version, is not that of a receipt retired before, the activation ends as the report of
  that failure, an exception, started in a world whose registered capabilities are those from before the
  commit. (The report awaits the event publisher, whose own failure may replace the error.)
\<close>

theorem failed_activation_unpublishes:
  assumes "on_lifecycle (get_record p) w = (Inr r, w)" "ps_state r = LOADED" "operation_id ctx ''plugin.activate'' p = Inr operation"
    and "emit_requested M r ACTIVE operation ctx w = (Inr (), w1)" "mt_prepared (pw_rest w1) p = Some (x, l)"
    and "registry_reachable (pm_registration M) (pw_registry w1)" "mk_plan plan = Inr plan"
    and "plan = \<lparr>pn_owner = record_ref r, pn_capabilities = pd_capabilities x\<rparr>"
    and "commit (pm_registration M) plan (sn_version (cr_snapshot (pw_registry w1))) (pw_registry w1) = (Inr receipt, g)"
    and "rc_id receipt \<notin> cr_retired (pw_registry w1)"
    and "step_to p r REGISTERED (Some receipt) False (w1\<lparr>pw_registry := g\<rparr>) = (Inl e, w2)"
  shows "\<exists>e' w3. activate_effect M p ctx w = fail_operation M p ACTIVE operation ctx e' w3
    \<and> sn_registrations (cr_snapshot (pw_registry w3)) = sn_registrations (cr_snapshot (pw_registry w1))
    \<and> (\<forall>r' w'. activate_effect M p ctx w \<noteq> (Inr r', w'))"
  using activate_effect_rolls_back [OF assms(1-5) registry_reachable_invar [OF assms(6)] assms(7-11)]
    fail_operation_not_Inr by (metis (no_types, lifting))

text \<open>Another task marks a hook of the Plugin while the request is announced.\<close>

definition sample_contended :: "(unit, unit, unit, string list) plugin_manager" where
  "sample_contended = sample_manager\<lparr>pm_requested := \<lambda>p a t k n c. abind (on_lifecycle (mark_hook ''demo.app'' ON_UNLOAD)) (\<lambda>_. areturn ())\<rparr>"

lemma sample_contention:
  "(case on_lifecycle (get_record ''demo.app'') sample_loaded_world of
      (Inr r, w) \<Rightarrow> ps_state r = LOADED \<and> (case operation_id (sample_call ''i1'') ''plugin.activate'' ''demo.app'' of
          Inr operation \<Rightarrow> (case emit_requested sample_contended r ACTIVE operation (sample_call ''i1'') sample_loaded_world of
              (Inr u, w1) \<Rightarrow> (case commit sample_registration_digest \<lparr>pn_owner = record_ref r, pn_capabilities = pd_capabilities sample_app_prepared\<rparr>
                  0 empty_registry of
                (Inr receipt, g) \<Rightarrow> (case step_to ''demo.app'' r REGISTERED (Some receipt) False (w1\<lparr>pw_registry := g\<rparr>) of
                    (Inl e, w2) \<Rightarrow> True | _ \<Rightarrow> False)
              | _ \<Rightarrow> False) | _ \<Rightarrow> False) | _ \<Rightarrow> False) | _ \<Rightarrow> False)"
  by code_simp

lemma sample_app_distinct: "distinct (List.map loaded_key (pd_capabilities sample_app_prepared))"
  by code_simp

theorem failed_activation_unpublishes_witness:
  "\<exists>operation e w3. activate_effect sample_contended ''demo.app'' (sample_call ''i1'') sample_loaded_world
       = fail_operation sample_contended ''demo.app'' ACTIVE operation (sample_call ''i1'') e w3
     \<and> sn_registrations (cr_snapshot (pw_registry w3)) = Map.empty"
proof -
  let ?plan = "\<lambda>r. \<lparr>pn_owner = record_ref r, pn_capabilities = pd_capabilities sample_app_prepared\<rparr>"
  obtain r w0 where g0: "on_lifecycle (get_record ''demo.app'') sample_loaded_world = (Inr r, w0)" and l: "ps_state r = LOADED"
    and k: "(case operation_id (sample_call ''i1'') ''plugin.activate'' ''demo.app'' of
          Inr operation \<Rightarrow> (case emit_requested sample_contended r ACTIVE operation (sample_call ''i1'') sample_loaded_world of
              (Inr u, w1) \<Rightarrow> (case commit sample_registration_digest (?plan r) 0 empty_registry of
                (Inr receipt, g) \<Rightarrow> (case step_to ''demo.app'' r REGISTERED (Some receipt) False (w1\<lparr>pw_registry := g\<rparr>) of
                    (Inl e, w2) \<Rightarrow> True | _ \<Rightarrow> False)
              | _ \<Rightarrow> False) | _ \<Rightarrow> False) | _ \<Rightarrow> False)"
    using sample_contention by (cases "on_lifecycle (get_record ''demo.app'') sample_loaded_world"; cases "fst (on_lifecycle (get_record ''demo.app'') sample_loaded_world)") auto
  from k obtain operation where o': "operation_id (sample_call ''i1'') ''plugin.activate'' ''demo.app'' = Inr operation"
    by (auto split: sum.splits)
  from k o' obtain w1 where em: "emit_requested sample_contended r ACTIVE operation (sample_call ''i1'') sample_loaded_world = (Inr (), w1)"
    by (cases "emit_requested sample_contended r ACTIVE operation (sample_call ''i1'') sample_loaded_world") (auto split: sum.splits)
  from k o' em obtain receipt g where c: "commit sample_registration_digest (?plan r) 0 empty_registry = (Inr receipt, g)"
    by (cases "commit sample_registration_digest (?plan r) 0 (empty_registry :: unit capability_registry)") (auto split: sum.splits)
  from k o' em c obtain e w2 where f: "step_to ''demo.app'' r REGISTERED (Some receipt) False (w1\<lparr>pw_registry := g\<rparr>) = (Inl e, w2)"
    by (cases "step_to ''demo.app'' r REGISTERED (Some receipt) False (w1\<lparr>pw_registry := g\<rparr>)") (auto split: sum.splits)
  from em have w1: "pw_registry w1 = empty_registry" "mt_prepared (pw_rest w1) ''demo.app'' = Some (sample_app_prepared, ())"
    by (auto simp: emit_requested_def sample_contended_def lease_count_def abind_eq_Inr on_lifecycle_eq areturn_def sample_loaded_world_def)
  have m: "pm_registration sample_contended = sample_registration_digest" by (simp add: sample_contended_def sample_manager_def)
  have v: "sn_version (cr_snapshot (empty_registry :: unit capability_registry)) = 0"
    "cr_retired (empty_registry :: unit capability_registry) = {}" "sn_registrations (cr_snapshot (empty_registry :: unit capability_registry)) = Map.empty"
    by (simp_all add: empty_registry_def)
  have g1: "on_lifecycle (get_record ''demo.app'') sample_loaded_world = (Inr r, sample_loaded_world)"
    using g0 on_lifecycle_get_record [OF g0] by simp
  have p: "mk_plan (?plan r) = Inr (?plan r)" using sample_app_distinct by (simp add: mk_plan_def)
  have "\<exists>e' w3. activate_effect sample_contended ''demo.app'' (sample_call ''i1'') sample_loaded_world
       = fail_operation sample_contended ''demo.app'' ACTIVE operation (sample_call ''i1'') e' w3
     \<and> sn_registrations (cr_snapshot (pw_registry w3)) = sn_registrations (cr_snapshot (pw_registry w1))
     \<and> (\<forall>r' w'. activate_effect sample_contended ''demo.app'' (sample_call ''i1'') sample_loaded_world \<noteq> (Inr r', w'))"
    by (rule failed_activation_unpublishes [OF g1 l o' em w1(2) _ p refl _ _ f]) (simp_all add: m registry_reachable.start w1 v c)
  then show ?thesis unfolding w1 v by blast
qed

subsection \<open>Core events\<close>

text \<open>
  Core events fit their schemas: whatever Core publishes, the payload that its publisher builds for an
  event type has trimmed names and every field that the Core schema of the type requires, so an event made of
  it passes the schema registry, whatever identifier, time and sequence number it gets.
\<close>

theorem core_events_fit_their_schemas:
  assumes "core_schema_registry = Inr R" "published t values" "q = core_request (core_event_value t) dc ctx scope values"
  shows "mk_payload (er_payload q) = Inr (er_payload q) \<and> validate_event R (new_event i q ctx at n (er_payload q)) = Inr ()"
proof
  show "mk_payload (er_payload q) = Inr (er_payload q)"
    using published_trimmed [OF assms(2)] by (auto simp: mk_payload_def assms(3) core_request_def list_ex_iff)
  show "validate_event R (new_event i q ctx at n (er_payload q)) = Inr ()"
    by (rule core_request_validates [OF assms(1) published_complete [OF assms(2)]])
      (simp_all add: assms(3) core_request_def new_event_def visible_data_def comp_def case_prod_beta)
qed

theorem core_events_fit_their_schemas_witness:
  "\<exists>R. core_schema_registry = Inr R
     \<and> validate_event R (new_event ''e1'' (core_request (core_event_value EV_RUN_STATE_CHANGED) OBSERVABILITY (sample_call ''i1'') sample_scope
          (run_changed_payload (transition sample_created sample_starting ''start''))) (sample_call ''i1'') (sample_time 5) 1
          (er_payload (core_request (core_event_value EV_RUN_STATE_CHANGED) OBSERVABILITY (sample_call ''i1'') sample_scope (run_changed_payload (transition sample_created sample_starting ''start'')))))
        = Inr ()"
proof -
  obtain R where r: "core_schema_registry = Inr R" using core_schema_registry_total by blast
  from core_events_fit_their_schemas [OF r published.run [of "transition sample_created sample_starting ''start''"] refl,
      where dc = OBSERVABILITY and ctx = "sample_call ''i1''" and scope = sample_scope and i = "''e1''" and at = "sample_time 5" and n = 1] r
  show ?thesis by blast
qed

end
