(* ===== verification/Checkpoint_Codec.thy ===== *)
theory Checkpoint_Codec
  imports Checkpoint_Recovery Model_Contract
begin

section \<open>The encodings of queries, pages, deletions and migrations\<close>

text \<open>
  The rest of \<open>checkpoint/model.py\<close>: what a client of a store sends and receives, as JSON. A page holds
  checkpoints, whose decoder verifies their digests, so a page that was tampered with is not read.
\<close>

subsection \<open>Cursors and queries\<close>

definition cursor_to_data :: "checkpoint_cursor \<Rightarrow> json_object" where
  "cursor_to_data c = [(''provider_id'', JStr (cu_provider c)), (''run_id'', JStr (cu_run_id c)), (''scope'', scope_to_data (cu_scope c)),
     (''graph_version'', opt_str (cu_graph_version c)), (''limit'', JInt (cu_limit c)),
     (''query_fingerprint'', JStr (cu_fingerprint c)), (''next_sequence'', JInt (cu_next_sequence c))]"

definition cursor_from_data :: "pylib \<Rightarrow> json_object \<Rightarrow> checkpoint_cursor result" where
  "cursor_from_data L d =
     rbind (ident_at L d ''provider_id'') (\<lambda>p.
     rbind (ident_at L d ''run_id'') (\<lambda>r.
     rbind (rbind (object_at d ''scope'' ''cursor scope'') (scope_from_data L)) (\<lambda>s.
     rbind (int_at d ''limit'' ''cursor limit'') (\<lambda>l.
     rbind (field_str L d ''query_fingerprint'') (\<lambda>f.
     rbind (int_at d ''next_sequence'' ''cursor next sequence'') (\<lambda>n.
     mk_cursor \<lparr>cu_provider = p, cu_run_id = r, cu_scope = s, cu_graph_version = text_or_none L d ''graph_version'',
       cu_limit = l, cu_fingerprint = f, cu_next_sequence = n\<rparr>))))))"

definition cursor_codable :: "checkpoint_cursor \<Rightarrow> bool" where
  "cursor_codable c \<longleftrightarrow> mk_cursor c = Inr c \<and> identifier_ok (cu_provider c) \<and> identifier_ok (cu_run_id c) \<and> scope_ok (cu_scope c)"

lemma cursor_roundtrip: "cursor_codable c \<Longrightarrow> cursor_from_data L (cursor_to_data c) = Inr c"
  by (cases c) (simp add: cursor_from_data_def cursor_to_data_def cursor_codable_def scope_roundtrip)

definition opt_cursor_to_data :: "checkpoint_cursor option \<Rightarrow> json" where
  "opt_cursor_to_data c = (case c of None \<Rightarrow> JNull | Some x \<Rightarrow> JObj (cursor_to_data x))"

lemma opt_cursor_roundtrip [simp]: "pred_option cursor_codable c \<Longrightarrow>
    object_or_none n (cursor_from_data L) (opt_cursor_to_data c) = Inr c"
  unfolding opt_cursor_to_data_def by (rule opt_object_decodes) (simp add: cursor_roundtrip)

definition query_to_data :: "checkpoint_query \<Rightarrow> json_object" where
  "query_to_data q = [(''provider_id'', JStr (qu_provider q)), (''run_id'', JStr (qu_run_id q)), (''scope'', scope_to_data (qu_scope q)),
     (''graph_version'', opt_str (qu_graph_version q)), (''limit'', JInt (qu_limit q)), (''cursor'', opt_cursor_to_data (qu_cursor q))]"

definition query_from_data :: "pylib \<Rightarrow> json_object \<Rightarrow> checkpoint_query result" where
  "query_from_data L d =
     rbind (ident_at L d ''provider_id'') (\<lambda>p.
     rbind (ident_at L d ''run_id'') (\<lambda>r.
     rbind (rbind (object_at d ''scope'' ''query scope'') (scope_from_data L)) (\<lambda>s.
     rbind (int_at d ''limit'' ''query limit'') (\<lambda>l.
     rbind (object_or_none ''checkpoint cursor'' (cursor_from_data L) (obj_get d ''cursor'')) (\<lambda>c.
     mk_query \<lparr>qu_provider = p, qu_run_id = r, qu_scope = s, qu_graph_version = text_or_none L d ''graph_version'',
       qu_limit = l, qu_cursor = c\<rparr>)))))"

definition query_codable :: "checkpoint_query \<Rightarrow> bool" where
  "query_codable q \<longleftrightarrow> mk_query q = Inr q \<and> identifier_ok (qu_provider q) \<and> identifier_ok (qu_run_id q) \<and> scope_ok (qu_scope q)
     \<and> pred_option cursor_codable (qu_cursor q)"

lemma query_roundtrip: "query_codable q \<Longrightarrow> query_from_data L (query_to_data q) = Inr q"
  by (cases q) (simp add: query_from_data_def query_to_data_def query_codable_def scope_roundtrip)

text \<open>The fingerprint of a query leaves out its cursor: every page of one listing has the same.\<close>

lemma fingerprint_without_cursor: "query_fingerprint H (q\<lparr>qu_cursor := c\<rparr>) = query_fingerprint H q"
  by (simp add: query_fingerprint_def query_data_def)

subsection \<open>Pages\<close>

definition page_to_data :: "checkpoint_page \<Rightarrow> json_object" where
  "page_to_data p = [(''items'', JList (List.map (\<lambda>c. JObj (checkpoint_to_data c)) (pg_items p))), (''next_cursor'', opt_cursor_to_data (pg_cursor p))]"

definition page_from_data :: "pylib \<Rightarrow> (json_object \<Rightarrow> string) \<Rightarrow> json_object \<Rightarrow> checkpoint_page result" where
  "page_from_data L H d =
     rbind (rbind (array_at d ''items'' ''checkpoint page items'') (objects ''checkpoint page item'' (checkpoint_from_data L H))) (\<lambda>cs.
     rbind (object_or_none ''checkpoint next cursor'' (cursor_from_data L) (obj_get d ''next_cursor'')) (\<lambda>c.
     Inr \<lparr>pg_items = cs, pg_cursor = c\<rparr>))"

definition page_codable :: "(json_object \<Rightarrow> string) \<Rightarrow> checkpoint_page \<Rightarrow> bool" where
  "page_codable H p \<longleftrightarrow> list_all (\<lambda>c. checkpoint_codable c \<and> verify_integrity H c = Inr ()) (pg_items p)
     \<and> pred_option cursor_codable (pg_cursor p)"

lemma page_roundtrip:
  assumes L: "iso_inverse L" and ok: "page_codable H p"
  shows "page_from_data L H (page_to_data p) = Inr p"
proof -
  have "objects n (checkpoint_from_data L H) (List.map (\<lambda>c. JObj (checkpoint_to_data c)) (pg_items p)) = Inr (pg_items p)" for n
    using ok by (intro objects_inverse checkpoint_roundtrip [OF L]) (auto simp: page_codable_def list_all_iff)
  with ok show ?thesis by (cases p) (simp add: page_from_data_def page_to_data_def page_codable_def)
qed

text \<open>What is read as a page has verified checkpoints only.\<close>

lemma page_from_data_verified:
  assumes "page_from_data L H d = Inr p" shows "\<forall>c \<in> set (pg_items p). verify_integrity H c = Inr ()"
proof -
  from assms obtain vs where r: "rmap (\<lambda>v. rbind (as_object v ''checkpoint page item'') (checkpoint_from_data L H)) vs = Inr (pg_items p)"
    by (auto simp: page_from_data_def objects_def rbind_eq_Inr)
  have "rmap (\<lambda>v. rbind (as_object v ''checkpoint page item'') (checkpoint_from_data L H)) vs = Inr cs \<Longrightarrow>
      \<forall>c \<in> set cs. verify_integrity H c = Inr ()" for cs
    by (induction vs arbitrary: cs) (auto simp: rbind_eq_Inr checkpoint_from_data_def)
  with r show ?thesis by blast
qed

subsection \<open>Deletions\<close>

definition delete_request_to_data :: "delete_request \<Rightarrow> json_object" where
  "delete_request_to_data q = [(''provider_id'', JStr (dr_provider q)), (''run_id'', JStr (dr_run_id q)),
     (''checkpoint_ref'', JStr (dr_ref q)), (''scope'', scope_to_data (dr_scope q))]"

definition delete_request_from_data :: "pylib \<Rightarrow> json_object \<Rightarrow> delete_request result" where
  "delete_request_from_data L d =
     rbind (ident_at L d ''provider_id'') (\<lambda>p. rbind (ident_at L d ''run_id'') (\<lambda>r. rbind (ident_at L d ''checkpoint_ref'') (\<lambda>c.
     rbind (rbind (object_at d ''scope'' ''delete scope'') (scope_from_data L)) (\<lambda>s.
     Inr \<lparr>dr_provider = p, dr_run_id = r, dr_ref = c, dr_scope = s\<rparr>))))"

lemma delete_request_roundtrip:
  "identifier_ok (dr_provider q) \<Longrightarrow> identifier_ok (dr_run_id q) \<Longrightarrow> identifier_ok (dr_ref q) \<Longrightarrow> scope_ok (dr_scope q) \<Longrightarrow>
     delete_request_from_data L (delete_request_to_data q) = Inr q"
  by (cases q) (simp add: delete_request_from_data_def delete_request_to_data_def scope_roundtrip)

definition delete_result_to_data :: "delete_result \<Rightarrow> json_object" where
  "delete_result_to_data r = [(''checkpoint_ref'', JStr (dx_ref r)), (''deleted'', JBool (dx_deleted r))]"

definition delete_result_from_data :: "pylib \<Rightarrow> json_object \<Rightarrow> delete_result result" where
  "delete_result_from_data L d =
     rbind (ident_at L d ''checkpoint_ref'') (\<lambda>c. rbind (truth_at d ''deleted'') (\<lambda>t. Inr \<lparr>dx_ref = c, dx_deleted = t\<rparr>))"

lemma delete_result_roundtrip:
  "identifier_ok (dx_ref r) \<Longrightarrow> delete_result_from_data L (delete_result_to_data r) = Inr r"
  by (cases r) (simp add: delete_result_from_data_def delete_result_to_data_def)

subsection \<open>Migrations\<close>

definition migration_to_data :: "migration_request \<Rightarrow> json_object" where
  "migration_to_data m = [(''workflow_id'', JStr (mg_workflow m)), (''source_definition_id'', JStr (mg_source_definition m)),
     (''source_graph_version'', JStr (mg_source_graph m)), (''target_definition_id'', JStr (mg_target_definition m)),
     (''target_graph_version'', JStr (mg_target_graph m))]"

definition migration_from_data :: "pylib \<Rightarrow> json_object \<Rightarrow> migration_request result" where
  "migration_from_data L d =
     rbind (ident_at L d ''workflow_id'') (\<lambda>w.
     rbind (ident_at L d ''source_definition_id'') (\<lambda>sd. rbind (field_str L d ''source_graph_version'') (\<lambda>sg.
     rbind (ident_at L d ''target_definition_id'') (\<lambda>td. rbind (field_str L d ''target_graph_version'') (\<lambda>tg.
     mk_migration \<lparr>mg_workflow = w, mg_source_definition = sd, mg_source_graph = sg, mg_target_definition = td, mg_target_graph = tg\<rparr>)))))"

lemma migration_roundtrip:
  "mk_migration m = Inr m \<Longrightarrow> identifier_ok (mg_workflow m) \<Longrightarrow> identifier_ok (mg_source_definition m) \<Longrightarrow>
     identifier_ok (mg_target_definition m) \<Longrightarrow> migration_from_data L (migration_to_data m) = Inr m"
  by (cases m) (simp add: migration_from_data_def migration_to_data_def)

end
