(* ===== verification/Spec2Isabelle.thy ===== *)
theory Spec2Isabelle
  imports Run_Properties Plugin_Properties Event_Properties Value_Schema Lifecycle_Properties
    Checkpoint_Properties Workflow_Outcome Workflow_Properties Evaluation_Properties Agent_Harness
    Context_Guarantees Model_Stream Memory_Guarantees Skill_Gateway Event_Integration Plugin_Manager
    Provider_Properties Extension_Properties Checkpoint_Codec
begin

text \<open>
  CongeriesCore is a runtime for Agents in Python, under \<open>src/src/congeries_core/\<close>. This library
  models its core logic and proves what makes it correct. Module names below are relative to that
  directory.

  \<^bold>\<open>The program.\<close> A Run (\<open>runtime/run.py\<close>) is a versioned record with a lifecycle; the Run
  service (\<open>state/\<close>) changes it by compare-and-set against a repository. Everything that touches
  another component goes through the authorization dispatcher (\<open>policy/authorization.py\<close>), which
  asks a policy for a grant, checks it, audits it and only then runs the guarded operation under
  the narrowed call context (\<open>runtime/context.py\<close>, \<open>runtime/scope.py\<close>). Plugins (\<open>plugin/\<close>)
  declare capabilities in manifests; a resolver orders them by their dependencies, a registry
  publishes their capabilities all at once, and a lifecycle controller hands out execution leases.
  Events (\<open>event/\<close>) get a sequence number per Run, are redacted, validated and put into an outbox
  before they are delivered. Checkpoints (\<open>checkpoint/\<close>) are hash-chained states of a Run, saved
  before the Run points at them; a recovery finds the nearest valid one. The evaluation harness
  (\<open>evaluation/\<close>) gates results by schema, policy and quality. A workflow (\<open>workflow/\<close>) is an
  acyclic graph of Agent, Approval and Evaluation nodes that the Workflow runtime drives one node
  at a time: it composes the Run service, the checkpoint coordinator, the approval coordinator, the
  evaluation harness, the gateway to the node output store and the scheduler. Agents are executed
  by the Agent runtime (\<open>harness/agent.py\<close>), which resolves a context, asks a model and settles the
  Run, over the gateways to the providers of models, contexts and memories (\<open>provider/\<close>). Tools and
  Skills (\<open>tool/\<close>, \<open>skill/\<close>) are capabilities of Plugins: their gateways resolve a reference
  against the registry and run it as one mediated invocation under a lease. The Plugin manager
  (\<open>plugin/manager.py\<close>) loads, activates, drains and unloads Plugins as authorized operations, and the
  publishers (\<open>event/integration.py\<close>, \<open>plugin/events.py\<close>) turn what the components report into
  events.

  \<^bold>\<open>Conventions.\<close> A call that may raise returns \<open>exn + 'a\<close> (\<open>Inl\<close> the exception, as a Python
  \<open>ValueError\<close> or \<open>TypeError\<close> or a structured \<open>CoreError\<close>); a method with effects is an action
  \<open>'w \<Rightarrow> ('e + 'a) \<times> 'w\<close> on an explicit world \<open>'w\<close>, and an exception keeps the world
  reached so far, as in Python. Dataclasses are records, and a \<open>__post_init__\<close> is an \<open>*_ok\<close>
  predicate together with a \<open>mk_*\<close> constructor that raises what the code raises; \<open>to_data\<close> and
  \<open>from_data\<close> are functions to and from a datatype of JSON values. Python's unbounded integers are
  \<open>int\<close>, strings are character lists. A collaborator that the caller injects is a record of
  actions (a port), polymorphic in the world, so that a theorem about the code holds whatever the
  collaborator does unless a hypothesis says otherwise. Records of sample data and the
  theorems \<open>*_witness\<close> evaluate the same definitions on concrete inputs.

  \<^bold>\<open>Theories and code.\<close>
  \<^item> \<open>Prelude\<close>: results, actions, insertion-ordered dictionaries and the collections
    \<open>result_simps\<close>, \<open>post_intros\<close>, \<open>error_simps\<close>; \<open>Py_Strings\<close>: the parts of the language and
    its library that the code relies on (\<open>split\<close>, \<open>join\<close>, \<open>int\<close>, \<open>isoformat\<close>,
    \<open>fromisoformat\<close>). \<open>Runtime_Errors\<close> also holds the locale \<open>once_registry\<close> of registries that take
    a key once, interpreted on the registries of actions, schemas, event schemas, checkpoint stores,
    migrators, policies, evaluators and providers.
  \<^item> \<open>Runtime_Errors\<close>, \<open>Runtime_Scope\<close>, \<open>Runtime_Context\<close>, \<open>Value_Schema\<close>:
    \<open>runtime/errors.py\<close>, \<open>json_types.py\<close>, \<open>ids.py\<close>,
    \<open>scope.py\<close>, \<open>control.py\<close>, \<open>context.py\<close>, \<open>capability.py\<close>, \<open>schema.py\<close> and
    \<open>provider/_control.py\<close>.
  \<^item> \<open>Run_Model\<close>, \<open>Run_State_Machine\<close>: \<open>runtime/run.py\<close>, its records and every operation of
    \<open>RunStateMachine\<close>; \<open>Run_Invariant\<close> and \<open>Run_Progress\<close>: reachable Runs, their invariant, the
    ordering of states; \<open>Json_Codec\<close> and \<open>Run_Codec\<close>: their encodings, and \<open>==\<close> on JSON values; \<open>Run_Service\<close>:
    \<open>state/repository.py\<close>, \<open>service.py\<close>, with the locale \<open>run_repository\<close> interpreted on
    \<open>InMemoryRunRepository\<close>. A call of the service is \<open>service_read\<close>, \<open>service_commit\<close> and
    \<open>service_publish\<close>, with what other tasks do at the awaits between them as an argument
    (\<open>undisturbed\<close>: nothing); \<open>interleaved\<close> is the step relation of any number of calls on one store; \<open>State_Records\<close>: \<open>state/session.py\<close>, \<open>workspace.py\<close>.
  \<^item> \<open>Authorization\<close>: \<open>policy/authorization.py\<close>.
  \<^item> \<open>Plugin_Version\<close>, \<open>Plugin_Model\<close>: \<open>plugin/model.py\<close>, \<open>manifest.py\<close>; \<open>Plugin_Dependency\<close>,
    \<open>Topological_Order\<close>: \<open>plugin/dependency.py\<close>; \<open>Plugin_Registry\<close>,
    \<open>Plugin_Lifecycle\<close>, \<open>Plugin_Invocation\<close>: \<open>plugin/registry.py\<close>, \<open>lifecycle.py\<close>,
    \<open>invocation.py\<close>; \<open>Lifecycle_Invariant\<close>: the traces of the controller; \<open>Plugin_Manager\<close>:
    \<open>plugin/loader.py\<close> (what a loader hands over) and \<open>manager.py\<close>.
  \<^item> \<open>Event_Model\<close>, \<open>Event_Ledger\<close>, \<open>Event_Dispatcher\<close>: \<open>event/model.py\<close>,
    \<open>redaction.py\<close>, \<open>schema.py\<close>, \<open>memory.py\<close>, \<open>ports.py\<close>, \<open>dispatcher.py\<close>; \<open>Event_Delivery\<close>:
    the locale \<open>audit_outbox\<close>, interpreted on \<open>InMemoryEventLedger\<close>; \<open>Event_Integration\<close>:
    \<open>event/integration.py\<close> and \<open>plugin/events.py\<close>.
  \<^item> \<open>Checkpoint_Model\<close>, \<open>Checkpoint_Record\<close>, \<open>Checkpoint_Store\<close>, \<open>Checkpoint_Gateway\<close>,
    \<open>Checkpoint_Coordinator\<close>, \<open>Checkpoint_Recovery\<close>, \<open>Checkpoint_Approval\<close>: \<open>checkpoint/\<close>;
    \<open>Checkpoint_Listing\<close>: the pages of a listing; \<open>Checkpoint_Codec\<close>: the encodings of what a
    client of a store sends and receives.
  \<^item> \<open>Model_Contract\<close>: \<open>runtime/content.py\<close> and the records of \<open>provider/model.py\<close>;
    \<open>Model_Gateway\<close>, \<open>Model_Stream\<close>: its gateway, with the order of a stream; \<open>Provider_Boundary\<close>:
    \<open>provider/events.py\<close> and what the gateways share; \<open>Context_Model\<close>, \<open>Context_Resolver\<close>,
    \<open>Context_Guarantees\<close>: \<open>provider/context.py\<close>; \<open>Memory_Model\<close>, \<open>Memory_Gateway\<close>,
    \<open>Memory_Guarantees\<close>: \<open>provider/memory.py\<close>; \<open>Agent_Spec\<close>, \<open>Agent_Harness\<close>: \<open>harness/agent.py\<close>.
  \<^item> \<open>Tool_Model\<close>, \<open>Tool_Gateway\<close>: \<open>tool/\<close>; \<open>Skill_Gateway\<close>: \<open>skill/\<close>.
  \<^item> \<open>Evaluation_Model\<close>, \<open>Evaluation_Gateway\<close>, \<open>Evaluation_Harness\<close>: \<open>evaluation/model.py\<close>,
    \<open>gateway.py\<close>, \<open>harness.py\<close>.
  \<^item> \<open>Workflow_Model\<close>, \<open>Workflow_Outcome\<close>: \<open>workflow/model.py\<close>; \<open>Workflow_Validation\<close>:
    \<open>workflow/validation.py\<close>; \<open>Workflow_Scheduler\<close>: \<open>workflow/scheduler.py\<close>;
    \<open>Workflow_Persistence\<close>: \<open>workflow/persistence.py\<close>; \<open>Workflow_Steps\<close>, \<open>Workflow_Runtime\<close>,
    \<open>Workflow_Drive\<close>: \<open>workflow/runtime.py\<close> from its helpers to \<open>execute\<close>, \<open>recover\<close> and
    \<open>decide\<close>; \<open>Workflow_Graph\<close>: what the validator accepts, as a graph; \<open>Workflow_Loop\<close>,
    \<open>Workflow_Terminal\<close>: the invariant of the loop, its passes as an inductive
    relation \<open>drive_path\<close>, its ends.
  \<^item> \<open>Samples\<close>: concrete inputs. The properties are in \<open>*_Properties\<close>, after the samples their
    witnesses run: a whole workflow, a whole Agent execution, a Tool that is tried twice, a Plugin that is
    activated and unloaded.

  \<^bold>\<open>What the lemmas show.\<close> Runs: every Run the state machine reaches satisfies the invariant
  \<open>lifecycle_inv\<close>, versions grow by one and, however calls interleave, no version is committed twice and no commit overwrites
  another; terminal Runs are final; an encoding is read back but for an empty cause of an error, and what is
  decoded is valid and says what the document says. Authorization: no operation runs
  without a valid and audited grant, and every refusal is audited. Plugins: the resolver finds a plan exactly when each dependency has one offer and the
  needs have no cycle, its plan is sound and does not depend on the order of the candidates; registration is all
  or nothing; a drain ends. Events: the ledger refines a map of deliveries, sequence numbers increase, what is prepared is
  admissible, what is published is acknowledged. Checkpoints: tampering is detected, the marker of a Run moves
  only after the save, the fallback is the nearest valid checkpoint, an approval is durable before
  it takes effect. Evaluations: a verdict is audited before it is returned, and PASSED needs every
  stage, in order. Workflows: the validator accepts exactly the well-formed acyclic definitions; the loop
  completes nodes in the validated order and each only after a committed checkpoint; an execution
  returns; success means every output is durable and the Run is completed; a failed Evaluation or
  Agent ends the Workflow. Providers: what a model, a context or a memory answers is what the grant left of
  the request, the events of a stream are in order and a stream ends when its iterator does; an Agent
  succeeds only with a response it earned. Tools and Skills: a result counts the attempts the policy
  allows and fits its schema, a resource stays within its budget and its path within the Skill. Plugin
  manager: an active Plugin holds the permissions it declares, a failed activation publishes nothing,
  an unloaded Plugin was idle.

  \<^bold>\<open>Loops and fuel.\<close> Recursion is structural or on a list that shrinks where it can be. Four loops take
  fuel, and \<open>None\<close> stands for a loop that has not ended: the pages of a listing (the number of
  matching checkpoints plus one is enough on the in-memory store, \<open>listing_collects_every_match\<close>),
  the walk along a chain of checkpoints before an orphan is deleted (the store is a parameter there, and a
  cyclic one is refused by the code), the events of a model stream (the iterator is a parameter; a
  measure that its steps decrease gives enough fuel, \<open>model_stream_ends\<close>), and the loop over the nodes of a workflow (the number of nodes plus one
  is enough for \<open>execute\<close>, \<open>execution_terminates\<close>). The drain of a Plugin waits for a condition;
  it is the predicate of the wait, evaluated again when a lease is returned.

  \<^bold>\<open>Parameters.\<close> The record \<open>pylib\<close> holds what the code uses of its library and the model does not
  compute (the canonical JSON text and the text of floats); digests (SHA-256 over canonical JSON), clocks, fresh
  identifiers, the cancellation token, the outcome of the race between a provider and its
  deadline, policies, sinks, sleepers, restorers, migrators, evaluators, providers, Tool executors, Plugin loaders and hooks, the length of an encoding, elapsed
  milliseconds, the wake-ups of a drain, and for the Workflow runtime the Agent runtime and the
  node output store are arguments. Properties that need collision-freeness of a digest say so as an injectivity on the values compared.

  \<^bold>\<open>Not modelled.\<close> The scheduling of asyncio tasks (a lock makes an operation one step; between two
  steps other tasks are the \<open>interleaved\<close> calls and the \<open>interference\<close> of \<open>Run_Service\<close> for the Run service, and
  part of what a port does to its world elsewhere), code points above 255 (lone surrogates among them, on
  which \<open>encode\<close> raises; the byte counts of Skill resources may raise for that reason), the digit limit of
  \<open>int\<close> and the recursion limit of the interpreter, generated UUIDs, imports of entry points
  (\<open>plugin/loader.py\<close>), the SQL of \<open>adapter/sqlite_event.py\<close> (the storage engine is outside the
  repository), the text of JSON (\<open>runtime/codec.py\<close>), \<open>flush\<close>, \<open>close\<close> and the delay between retries
  of the event dispatcher (they wait for tasks of the event loop).
\<close>

end
